(* ===== verification/Prelude.thy ===== *)
theory Prelude
  imports Main "HOL-Library.Word" "HOL-Library.Char_ord" "HOL-Library.List_Lexorder"
    "HOL-Library.Sublist"
begin

text \<open>
  What every component of the development shares: the collections of rewrite rules, the
  result type of fallible operations with the propagation of Rust's question mark, slices of
  vectors, positions in vectors, machine-integer synonyms, and generic facts on lists.
\<close>

named_theorems str_simps \<open>evaluation of string operations on literals\<close>
named_theorems slice_simps \<open>algebra of slices\<close>

type_synonym usize = nat
type_synonym u64 = "64 word"

section \<open>Results\<close>

text \<open>A fallible operation returns \<open>'e + 'a\<close>, \<open>Inl\<close> holding the error. The question-mark
  operator of Rust is \<open>rbind\<close>.\<close>

definition rbind :: "'e + 'a \<Rightarrow> ('a \<Rightarrow> 'e + 'b) \<Rightarrow> 'e + 'b" where
  "rbind r f = (case r of Inl e \<Rightarrow> Inl e | Inr a \<Rightarrow> f a)"

lemma rbind_simps [simp]:
  "rbind (Inl e) f = Inl e"
  "rbind (Inr a) f = f a"
  by (simp_all add: rbind_def)

lemma rbind_Inr_iff: "rbind r f = Inr b \<longleftrightarrow> (\<exists>a. r = Inr a \<and> f a = Inr b)"
  by (cases r) auto

lemma rbind_Inl_iff: "rbind r f = Inl e \<longleftrightarrow> r = Inl e \<or> (\<exists>a. r = Inr a \<and> f a = Inl e)"
  by (cases r) auto

text \<open>\<open>map_err\<close> and the collection of an iterator of results, which stops at the first error.\<close>

definition map_err :: "('e \<Rightarrow> 'f) \<Rightarrow> 'e + 'a \<Rightarrow> 'f + 'a" where
  "map_err f r = (case r of Inl e \<Rightarrow> Inl (f e) | Inr a \<Rightarrow> Inr a)"

lemma map_err_simps [simp]:
  "map_err f (Inl e) = Inl (f e)"
  "map_err f (Inr a) = Inr a"
  by (simp_all add: map_err_def)

lemma map_err_Inr_iff [simp]: "map_err f r = Inr a \<longleftrightarrow> r = Inr a"
  by (cases r) auto

fun try_map :: "('a \<Rightarrow> 'e + 'b) \<Rightarrow> 'a list \<Rightarrow> 'e + 'b list" where
  "try_map f [] = Inr []"
| "try_map f (x # xs) = rbind (f x) (\<lambda>y. rbind (try_map f xs) (\<lambda>ys. Inr (y # ys)))"

lemma try_map_Inr: "try_map f xs = Inr ys \<longleftrightarrow> list_all2 (\<lambda>x y. f x = Inr y) xs ys"
  by (induction xs arbitrary: ys) (auto simp: rbind_Inr_iff list_all2_Cons1)

lemma try_map_Inl: "try_map f xs = Inl e \<Longrightarrow> \<exists>x\<in>set xs. f x = Inl e"
  by (induction xs) (auto simp: rbind_Inl_iff)

text \<open>Collecting an iterator of options: \<open>None\<close> as soon as one element is \<open>None\<close>.\<close>

fun collect_options :: "'a option list \<Rightarrow> 'a list option" where
  "collect_options [] = Some []"
| "collect_options (x # xs) =
     (case x of None \<Rightarrow> None
      | Some a \<Rightarrow> map_option (Cons a) (collect_options xs))"

lemma collect_options_Some: "collect_options xs = Some ys \<longleftrightarrow> xs = map Some ys"
  by (induction xs arbitrary: ys) (auto split: option.splits simp: Cons_eq_map_conv)

section \<open>Slices and positions\<close>

text \<open>\<open>v[a..b]\<close> of a vector. Rust panics unless \<open>a \<le> b \<le> v.len()\<close>; where a component
  slices, its well-formedness lemma shows that these bounds hold.\<close>

definition slice :: "'a list \<Rightarrow> nat \<Rightarrow> nat \<Rightarrow> 'a list" where
  "slice xs a b = take (b - a) (drop a xs)"

lemma slice_empty [simp]: "slice xs a a = []"
  by (simp add: slice_def)

lemma slice_full [simp]: "slice xs 0 (length xs) = xs"
  by (simp add: slice_def)

lemma slice_to_end: "slice xs a (length xs) = drop a xs"
  by (simp add: slice_def)

lemma length_slice: "b \<le> length xs \<Longrightarrow> length (slice xs a b) = b - a"
  by (simp add: slice_def)

lemma slice_append [slice_simps]:
  assumes "a \<le> b" and "b \<le> c"
  shows "slice xs a b @ slice xs b c = slice xs a c"
proof -
  have "take (c - a) (drop a xs) =
      take (b - a) (drop a xs) @ take (c - a - (b - a)) (drop (b - a) (drop a xs))"
    using assms by (metis (no_types) diff_le_mono le_add_diff_inverse take_add)
  with assms show ?thesis by (simp add: slice_def)
qed

lemma slice_Suc: "a < length xs \<Longrightarrow> slice xs a (Suc a) = [xs ! a]"
  by (simp add: slice_def take_Suc_conv_app_nth Suc_diff_le hd_drop_conv_nth take_Suc drop_Suc)

lemma slice_Cons: "a < b \<Longrightarrow> b \<le> length xs \<Longrightarrow> slice xs a b = xs ! a # slice xs (Suc a) b"
  using slice_append[of a "Suc a" b xs] slice_Suc[of a xs] by simp

lemma slice_snoc: "a \<le> b \<Longrightarrow> b < length xs \<Longrightarrow> slice xs a (Suc b) = slice xs a b @ [xs ! b]"
  using slice_append[of a b "Suc b" xs] slice_Suc[of b xs] by simp

lemma nth_slice: "a + i < b \<Longrightarrow> b \<le> length xs \<Longrightarrow> slice xs a b ! i = xs ! (a + i)"
  by (simp add: slice_def)

lemma set_slice: "set (slice xs a b) \<subseteq> set xs"
  unfolding slice_def by (meson set_drop_subset set_take_subset subset_trans)

text \<open>\<open>iter().position(p)\<close>.\<close>

fun position :: "('a \<Rightarrow> bool) \<Rightarrow> 'a list \<Rightarrow> nat option" where
  "position p [] = None"
| "position p (x # xs) = (if p x then Some 0 else map_option Suc (position p xs))"

lemma position_Some:
  "position p xs = Some i \<Longrightarrow> i < length xs \<and> p (xs ! i) \<and> (\<forall>j<i. \<not> p (xs ! j))"
proof (induction xs arbitrary: i)
  case Nil
  then show ?case by simp
next
  case (Cons x xs)
  then show ?case
    by (auto split: if_splits simp: nth_Cons' less_Suc_eq_0_disj)
qed

lemma position_None: "position p xs = None \<longleftrightarrow> (\<forall>x\<in>set xs. \<not> p x)"
  by (induction xs) auto

lemma position_find: "List.find p xs = map_option ((!) xs) (position p xs)"
  by (induction xs) (auto simp: option.map_comp comp_def)

text \<open>\<open>find_map\<close>: the first element on which the function is defined.\<close>

fun find_map :: "('a \<Rightarrow> 'b option) \<Rightarrow> 'a list \<Rightarrow> 'b option" where
  "find_map f [] = None"
| "find_map f (x # xs) = (case f x of None \<Rightarrow> find_map f xs | Some b \<Rightarrow> Some b)"

lemma find_map_Some: "find_map f xs = Some b \<Longrightarrow> \<exists>x\<in>set xs. f x = Some b"
  by (induction xs) (auto split: option.splits)

lemma find_map_None: "find_map f xs = None \<longleftrightarrow> (\<forall>x\<in>set xs. f x = None)"
  by (induction xs) (auto split: option.splits)

text \<open>The length of the longest prefix whose elements satisfy a predicate,
  \<open>take_while(p).count()\<close>.\<close>

definition count_while :: "('a \<Rightarrow> bool) \<Rightarrow> 'a list \<Rightarrow> nat" where
  "count_while p xs = length (takeWhile p xs)"

lemma count_while_simps [simp]:
  "count_while p [] = 0"
  "count_while p (x # xs) = (if p x then Suc (count_while p xs) else 0)"
  by (simp_all add: count_while_def)

lemma count_while_le: "count_while p xs \<le> length xs"
  by (simp add: count_while_def length_takeWhile_le)

section \<open>Generic facts on lists\<close>

lemma enumerate_map_fst_snd:
  "map fst (enumerate n xs) = [n..<n + length xs]" "map snd (enumerate n xs) = xs"
  by (simp_all add: enumerate_eq_zip)

lemma in_set_enumerate: "(i, x) \<in> set (enumerate 0 xs) \<longleftrightarrow> i < length xs \<and> x = xs ! i"
  by (auto simp: in_set_enumerate_eq)

lemma filter_upt_eq_Cons:
  assumes "filter p [a..<b] = i # is"
  shows "a \<le> i" "i < b" "p i" "\<forall>j. a \<le> j \<and> j < i \<longrightarrow> \<not> p j" "is = filter p [Suc i..<b]"
proof -
  from assms obtain us vs where s: "[a..<b] = us @ i # vs" and us: "\<forall>u\<in>set us. \<not> p u"
    and p: "p i" and "is": "is = filter p vs"
    by (auto simp: filter_eq_Cons_iff)
  have len: "length us < b - a"
    using arg_cong[OF s, of length] by simp
  have i: "i = a + length us"
    using arg_cong[OF s, of "\<lambda>l. l ! length us"] len by simp
  have usl: "us = [a..<i]"
    using arg_cong[OF s, of "take (length us)"] len i by (simp add: take_upt)
  have vsl: "vs = [Suc i..<b]"
    using arg_cong[OF s, of "drop (Suc (length us))"] i by (simp add: drop_upt)
  show "a \<le> i" "i < b" "p i" using i len p by simp_all
  show "\<forall>j. a \<le> j \<and> j < i \<longrightarrow> \<not> p j" using us usl by auto
  show "is = filter p [Suc i..<b]" using "is" vsl by simp
qed

end
