(* ===== verification/Rust_Str.thy ===== *)
theory Rust_Str
  imports Prelude
begin

text \<open>
  Rust strings. A \<open>&str\<close> or \<open>String\<close> is its UTF-8 byte sequence, a HOL \<open>string\<close>
  (a \<open>char\<close> of HOL is one byte), so \<open>len\<close> counts bytes, ordering is bytewise and hashing reads
  the bytes, as in Rust. Operations that Rust defines on code points (\<open>trim\<close>, \<open>is_whitespace\<close>,
  \<open>is_control\<close>, UTF-16 lengths) recognise the UTF-8 encodings of those code points. The operations
  are those of the standard library that the components use; the lemmas are the algebra of
  lines, trimming and searching that their proofs share.
\<close>

unbundle bit_operations_syntax

section \<open>White space and trimming\<close>

text \<open>Byte length of the code point with Unicode property White_Space at the front, 0 if there
  is none: U+0009..U+000D, U+0020, U+0085, U+00A0, U+1680, U+2000..U+200A, U+2028, U+2029, U+202F,
  U+205F, U+3000.\<close>

definition ascii_ws :: "char list" where
  "ascii_ws = [CHR 0x09, CHR 0x0A, CHR 0x0B, CHR 0x0C, CHR 0x0D, CHR 0x20]"

definition ws2 :: "char \<Rightarrow> char \<Rightarrow> bool" where
  "ws2 a b \<longleftrightarrow> a = CHR 0xC2 \<and> (b = CHR 0x85 \<or> b = CHR 0xA0)"

definition ws3 :: "char \<Rightarrow> char \<Rightarrow> char \<Rightarrow> bool" where
  "ws3 a b c \<longleftrightarrow>
     (a = CHR 0xE1 \<and> b = CHR 0x9A \<and> c = CHR 0x80)
   \<or> (a = CHR 0xE2 \<and> b = CHR 0x80 \<and>
       c \<in> set [CHR 0x80, CHR 0x81, CHR 0x82, CHR 0x83, CHR 0x84, CHR 0x85, CHR 0x86, CHR 0x87,
                CHR 0x88, CHR 0x89, CHR 0x8A, CHR 0xA8, CHR 0xA9, CHR 0xAF])
   \<or> (a = CHR 0xE2 \<and> b = CHR 0x81 \<and> c = CHR 0x9F)
   \<or> (a = CHR 0xE3 \<and> b = CHR 0x80 \<and> c = CHR 0x80)"

fun ws_len :: "string \<Rightarrow> nat" where
  "ws_len [] = 0"
| "ws_len (a # s) =
     (if a \<in> set ascii_ws then 1
      else case s of
        [] \<Rightarrow> 0
      | b # t \<Rightarrow>
          (if ws2 a b then 2
           else case t of [] \<Rightarrow> 0 | c # _ \<Rightarrow> (if ws3 a b c then 3 else 0)))"

text \<open>The same at the end of a string, on the reversed bytes.\<close>

fun ws_len_rev :: "string \<Rightarrow> nat" where
  "ws_len_rev [] = 0"
| "ws_len_rev (a # s) =
     (if a \<in> set ascii_ws then 1
      else case s of
        [] \<Rightarrow> 0
      | b # t \<Rightarrow>
          (if ws2 b a then 2
           else case t of [] \<Rightarrow> 0 | c # _ \<Rightarrow> (if ws3 c b a then 3 else 0)))"

function trim_start :: "string \<Rightarrow> string" where
  "trim_start s = (if ws_len s = 0 then s else trim_start (drop (ws_len s) s))"
  by pat_completeness auto
termination
proof (relation "measure length")
  fix s :: string
  assume "ws_len s \<noteq> 0"
  then show "(drop (ws_len s) s, s) \<in> measure length" by (cases s) auto
qed simp

function trim_rev :: "string \<Rightarrow> string" where
  "trim_rev s = (if ws_len_rev s = 0 then s else trim_rev (drop (ws_len_rev s) s))"
  by pat_completeness auto
termination
proof (relation "measure length")
  fix s :: string
  assume "ws_len_rev s \<noteq> 0"
  then show "(drop (ws_len_rev s) s, s) \<in> measure length" by (cases s) auto
qed simp

declare trim_start.simps [simp del] trim_rev.simps [simp del]
declare ws_len.simps(2) [simp del, str_simps] ws_len_rev.simps(2) [simp del, str_simps]

definition trim_end :: "string \<Rightarrow> string" where
  "trim_end s = rev (trim_rev (rev s))"

definition trim :: "string \<Rightarrow> string" where
  "trim s = trim_end (trim_start s)"

definition is_blank :: "string \<Rightarrow> bool" where
  "is_blank s \<longleftrightarrow> trim s = []"

text \<open>\<open>trim_end_matches\<close> and \<open>trim_start_matches\<close> with a set of one-byte characters.\<close>

definition trim_end_matches :: "char list \<Rightarrow> string \<Rightarrow> string" where
  "trim_end_matches cs s = rev (dropWhile (\<lambda>c. c \<in> set cs) (rev s))"

lemma trim_start_Nil [simp]: "trim_start [] = []"
  by (simp add: trim_start.simps)

lemma trim_rev_Nil [simp]: "trim_rev [] = []"
  by (simp add: trim_rev.simps)

lemma trim_end_Nil [simp]: "trim_end [] = []"
  by (simp add: trim_end_def)

lemma trim_Nil [simp]: "trim [] = []"
  by (simp add: trim_def)

lemma is_blank_Nil [simp]: "is_blank []"
  by (simp add: is_blank_def)

lemma trim_start_Cons [str_simps]:
  "trim_start (a # s) =
     (if ws_len (a # s) = 0 then a # s else trim_start (drop (ws_len (a # s)) (a # s)))"
  by (rule trim_start.simps)

lemma trim_rev_Cons [str_simps]:
  "trim_rev (a # s) =
     (if ws_len_rev (a # s) = 0 then a # s
      else trim_rev (drop (ws_len_rev (a # s)) (a # s)))"
  by (rule trim_rev.simps)

lemma trim_start_suffix: "suffix (trim_start s) s"
proof (induction s rule: trim_start.induct)
  case (1 s)
  show ?case
  proof (cases "ws_len s = 0")
    case True
    then show ?thesis by (simp add: trim_start.simps[of s])
  next
    case False
    with 1 have "suffix (trim_start (drop (ws_len s) s)) (drop (ws_len s) s)" by simp
    then show ?thesis
      using False suffix_drop suffix_order.trans by (fastforce simp: trim_start.simps[of s])
  qed
qed

lemma trim_rev_suffix: "suffix (trim_rev s) s"
proof (induction s rule: trim_rev.induct)
  case (1 s)
  show ?case
  proof (cases "ws_len_rev s = 0")
    case True
    then show ?thesis by (simp add: trim_rev.simps[of s])
  next
    case False
    with 1 have "suffix (trim_rev (drop (ws_len_rev s) s)) (drop (ws_len_rev s) s)" by simp
    then show ?thesis
      using False suffix_drop suffix_order.trans by (fastforce simp: trim_rev.simps[of s])
  qed
qed

lemma trim_end_prefix: "prefix (trim_end s) s"
  using trim_rev_suffix[of "rev s"] by (simp add: trim_end_def suffix_to_prefix)

lemma ws_len_trim_start [simp]: "ws_len (trim_start s) = 0"
proof (induction s rule: trim_start.induct)
  case (1 s)
  then show ?case by (cases "ws_len s = 0") (simp_all add: trim_start.simps[of s])
qed

lemma trim_start_id: "ws_len s = 0 \<Longrightarrow> trim_start s = s"
  by (simp add: trim_start.simps)

lemma trim_start_idem [simp]: "trim_start (trim_start s) = trim_start s"
  by (simp add: trim_start_id)

lemma trim_sublist: "sublist (trim s) s"
proof -
  have "sublist (trim s) (trim_start s)"
    unfolding trim_def by (rule prefix_imp_sublist[OF trim_end_prefix])
  also have "sublist (trim_start s) s"
    by (rule suffix_imp_sublist[OF trim_start_suffix])
  finally show ?thesis .
qed

text \<open>A byte that no white space code point contains stops every trimming.\<close>

definition plain_byte :: "char \<Rightarrow> bool" where
  "plain_byte c \<longleftrightarrow> c \<notin> set ascii_ws \<and> of_char c < (128 :: nat)"

lemma plain_byte_ws2:
  assumes "plain_byte c"
  shows "\<not> ws2 c b" "\<not> ws2 b c"
  using assms by (auto simp: plain_byte_def ws2_def)

lemma plain_byte_ws3:
  assumes "plain_byte c"
  shows "\<not> ws3 c a b" "\<not> ws3 a c b" "\<not> ws3 a b c"
  using assms by (auto simp: plain_byte_def ws3_def)

lemma plain_byte_ws [simp]:
  assumes "plain_byte c"
  shows "ws_len (c # s) = 0" "ws_len_rev (c # s) = 0"
  using assms plain_byte_ws2[OF assms] plain_byte_ws3[OF assms]
  by (auto simp: plain_byte_def ws_len.simps ws_len_rev.simps split: list.splits)

lemma trim_start_plain: "plain_byte c \<Longrightarrow> trim_start (c # s) = c # s"
  by (simp add: trim_start_id)

lemma trim_end_plain: "plain_byte c \<Longrightarrow> trim_end (s @ [c]) = s @ [c]"
  by (simp add: trim_end_def trim_rev.simps[of "c # rev s"])

lemma trim_end_hd:
  assumes "plain_byte c"
  shows "trim_end (s @ c # t) = s @ c # trim_end t"
proof -
  have "trim_rev (t @ c # s) = trim_rev t @ c # s" for t s
  proof (induction t rule: trim_rev.induct)
    case (1 t)
    have eq: "ws_len_rev (t @ c # s) = ws_len_rev t"
    proof (cases t)
      case Nil
      with assms show ?thesis by simp
    next
      case t: (Cons a t1)
      show ?thesis
      proof (cases t1)
        case Nil
        with t plain_byte_ws2[OF assms] plain_byte_ws3[OF assms] show ?thesis
          by (auto simp: ws_len_rev.simps split: list.splits)
      next
        case (Cons b t2)
        with t plain_byte_ws2[OF assms] plain_byte_ws3[OF assms] show ?thesis
          by (cases t2) (auto simp: ws_len_rev.simps)
      qed
    qed
    show ?case
    proof (cases "ws_len_rev t = 0")
      case True
      with eq show ?thesis by (simp add: trim_rev.simps[of t] trim_rev.simps[of "t @ c # s"])
    next
      case False
      have "ws_len_rev t \<le> length t"
        by (cases t) (auto simp: ws_len_rev.simps split: list.splits)
      with False eq 1 show ?thesis
        by (simp add: trim_rev.simps[of t] trim_rev.simps[of "t @ c # s"])
    qed
  qed
  then show ?thesis by (simp add: trim_end_def)
qed

lemma trim_plain_ends:
  assumes "plain_byte a" "plain_byte b"
  shows "trim (a # s @ [b]) = a # s @ [b]"
  using trim_end_plain[OF assms(2), of "a # s"] by (simp add: trim_def trim_start_plain[OF assms(1)])

lemma not_blank_plain: "plain_byte c \<Longrightarrow> \<not> is_blank (c # s)"
  using trim_end_hd[of c "[]" s] by (simp add: is_blank_def trim_def trim_start_plain)

section \<open>Searching and splitting\<close>

text \<open>\<open>starts_with\<close> is \<open>prefix\<close>, \<open>ends_with\<close> is \<open>suffix\<close> and \<open>contains\<close> is \<open>sublist\<close> of
  HOL-Library.Sublist; \<open>find\<close> returns the first byte index of an occurrence.\<close>

fun str_find :: "string \<Rightarrow> string \<Rightarrow> nat option" where
  "str_find p [] = (if p = [] then Some 0 else None)"
| "str_find p (c # s) =
     (if prefix p (c # s) then Some 0 else map_option Suc (str_find p s))"

lemma str_find_Some: "str_find p s = Some i \<Longrightarrow> i \<le> length s \<and> prefix p (drop i s)"
  by (induction s arbitrary: i) (auto split: if_splits)

lemma str_find_least: "str_find p s = Some i \<Longrightarrow> j < i \<Longrightarrow> \<not> prefix p (drop j s)"
proof (induction s arbitrary: i j)
  case (Cons c s)
  then show ?case by (cases j) (auto split: if_splits)
qed (auto split: if_splits)

lemma str_find_None: "str_find p s = None \<longleftrightarrow> \<not> sublist p s"
  by (induction s) (auto simp: sublist_Cons_right)

definition strip_prefix :: "string \<Rightarrow> string \<Rightarrow> string option" where
  "strip_prefix p s = (if prefix p s then Some (drop (length p) s) else None)"

definition strip_suffix :: "string \<Rightarrow> string \<Rightarrow> string option" where
  "strip_suffix p s = (if suffix p s then Some (take (length s - length p) s) else None)"

text \<open>\<open>split_inclusive(c)\<close> with a one-byte character: the pieces keep their terminator.\<close>

fun split_inclusive :: "char \<Rightarrow> string \<Rightarrow> string list" where
  "split_inclusive c [] = []"
| "split_inclusive c (x # xs) =
     (if x = c then [x] # split_inclusive c xs
      else case split_inclusive c xs of [] \<Rightarrow> [[x]] | l # ls \<Rightarrow> (x # l) # ls)"

text \<open>\<open>split(c)\<close>: always at least one piece.\<close>

fun split_on :: "char \<Rightarrow> string \<Rightarrow> string list" where
  "split_on c [] = [[]]"
| "split_on c (x # xs) =
     (if x = c then [] # split_on c xs
      else case split_on c xs of [] \<Rightarrow> [[x]] | l # ls \<Rightarrow> (x # l) # ls)"

fun join :: "string \<Rightarrow> string list \<Rightarrow> string" where
  "join sep [] = []"
| "join sep [s] = s"
| "join sep (s # t # ts) = s @ sep @ join sep (t # ts)"

text \<open>\<open>lines()\<close>: the pieces of \<open>split_inclusive\<close> on line feed without the line feed and
  without one carriage return before it; a carriage return at the end of an unterminated last
  line stays.\<close>

definition strip_line :: "string \<Rightarrow> string" where
  "strip_line l =
     (case strip_suffix [CHR 0x0A] l of
        None \<Rightarrow> l
      | Some l1 \<Rightarrow> (case strip_suffix [CHR 0x0D] l1 of None \<Rightarrow> l1 | Some l2 \<Rightarrow> l2))"

definition str_lines :: "string \<Rightarrow> string list" where
  "str_lines s = map strip_line (split_inclusive (CHR 0x0A) s)"

lemma concat_split_inclusive [simp]: "concat (split_inclusive c s) = s"
  by (induction s) (auto split: list.splits)

lemma split_inclusive_nonempty: "l \<in> set (split_inclusive c s) \<Longrightarrow> l \<noteq> []"
  by (induction s arbitrary: l) (auto split: list.splits if_splits)

lemma split_inclusive_eq_Nil [simp]: "split_inclusive c s = [] \<longleftrightarrow> s = []"
  by (cases s) (auto split: list.splits)

lemma split_inclusive_no_sep: "c \<notin> set l \<Longrightarrow> split_inclusive c l = (if l = [] then [] else [l])"
  by (induction l) auto

lemma split_inclusive_line:
  "c \<notin> set l \<Longrightarrow> split_inclusive c (l @ c # s) = (l @ [c]) # split_inclusive c s"
  by (induction l) auto

text \<open>A terminated line is a line body followed by the terminator; a \<open>line\<close> of a split is
  one of these or an unterminated rest.\<close>

definition full_line :: "char \<Rightarrow> string \<Rightarrow> bool" where
  "full_line c l \<longleftrightarrow> (\<exists>b. l = b @ [c] \<and> c \<notin> set b)"

definition line_seq :: "char \<Rightarrow> string list \<Rightarrow> bool" where
  "line_seq c ls \<longleftrightarrow>
     (\<forall>l\<in>set (butlast ls). full_line c l) \<and>
     (ls \<noteq> [] \<longrightarrow> full_line c (last ls) \<or> (last ls \<noteq> [] \<and> c \<notin> set (last ls)))"

lemma full_line_append: "full_line c l \<Longrightarrow> split_inclusive c (l @ s) = l # split_inclusive c s"
  by (auto simp: full_line_def split_inclusive_line)

lemma split_inclusive_concat: "line_seq c ls \<Longrightarrow> split_inclusive c (concat ls) = ls"
proof (induction ls)
  case Nil
  then show ?case by simp
next
  case (Cons l ls)
  show ?case
  proof (cases "ls = []")
    case True
    with Cons.prems show ?thesis
      by (auto simp: line_seq_def split_inclusive_no_sep full_line_def split_inclusive_line)
  next
    case False
    with Cons.prems have "full_line c l" "line_seq c ls" by (auto simp: line_seq_def)
    with Cons.IH show ?thesis by (simp add: full_line_append)
  qed
qed

lemma line_seq_split_inclusive: "line_seq c (split_inclusive c s)"
proof (induction s)
  case Nil
  then show ?case by (simp add: line_seq_def)
next
  case (Cons x s)
  show ?case
  proof (cases "x = c")
    case True
    then have "full_line c [x]" by (simp add: full_line_def)
    with True Cons show ?thesis by (auto simp: line_seq_def)
  next
    case False
    show ?thesis
    proof (cases "split_inclusive c s")
      case Nil
      with False show ?thesis by (simp add: line_seq_def)
    next
      case l: (Cons l ls)
      have full: "full_line c (x # k)" if "full_line c k" for k
        using that False by (auto simp: full_line_def intro: exI[of _ "x # _"])
      from Cons l False show ?thesis
        by (cases "ls = []") (auto simp: line_seq_def intro: full split: if_splits)
    qed
  qed
qed

lemma line_seq_append:
  "line_seq c ls \<Longrightarrow> line_seq c ms \<Longrightarrow> (ls \<noteq> [] \<Longrightarrow> ms \<noteq> [] \<Longrightarrow> full_line c (last ls)) \<Longrightarrow>
   line_seq c (ls @ ms)"
  by (cases "ms = []"; cases ls rule: rev_cases) (auto simp: line_seq_def butlast_append)

lemma split_on_nonempty [simp]: "split_on c s \<noteq> []"
  by (cases s) (auto split: list.splits)

lemma split_on_no_sep: "l \<in> set (split_on c s) \<Longrightarrow> c \<notin> set l"
  by (induction s arbitrary: l) (auto split: list.splits if_splits)

lemma join_split_on: "join [c] (split_on c s) = s"
proof (induction s)
  case (Cons x s)
  obtain l ls where s: "split_on c s = l # ls" using split_on_nonempty[of c s] by (cases "split_on c s") auto
  with Cons show ?case by (cases ls) auto
qed simp

lemma split_on_no_sep_id: "c \<notin> set l \<Longrightarrow> split_on c l = [l]"
  by (induction l) auto

lemma split_on_append_sep: "c \<notin> set l \<Longrightarrow> split_on c (l @ c # s) = l # split_on c s"
  by (induction l) auto

lemma split_on_join:
  "ls \<noteq> [] \<Longrightarrow> (\<And>l. l \<in> set ls \<Longrightarrow> c \<notin> set l) \<Longrightarrow> split_on c (join [c] ls) = ls"
  by (induction "[c]" ls rule: join.induct) (auto simp: split_on_no_sep_id split_on_append_sep)

section \<open>ASCII classes and case\<close>

definition is_ascii_digit :: "char \<Rightarrow> bool" where
  "is_ascii_digit c \<longleftrightarrow> (48 :: nat) \<le> of_char c \<and> of_char c \<le> (57 :: nat)"

definition is_ascii_hexdigit :: "char \<Rightarrow> bool" where
  "is_ascii_hexdigit c \<longleftrightarrow> is_ascii_digit c
     \<or> ((65 :: nat) \<le> of_char c \<and> of_char c \<le> (70 :: nat))
     \<or> ((97 :: nat) \<le> of_char c \<and> of_char c \<le> (102 :: nat))"

definition is_ascii_alphabetic :: "char \<Rightarrow> bool" where
  "is_ascii_alphabetic c \<longleftrightarrow>
     ((65 :: nat) \<le> of_char c \<and> of_char c \<le> (90 :: nat))
     \<or> ((97 :: nat) \<le> of_char c \<and> of_char c \<le> (122 :: nat))"

definition to_lower :: "char \<Rightarrow> char" where
  "to_lower c =
     (if (65 :: nat) \<le> of_char c \<and> of_char c \<le> (90 :: nat)
      then char_of (of_char c + (32 :: nat)) else c)"

definition to_upper :: "char \<Rightarrow> char" where
  "to_upper c =
     (if (97 :: nat) \<le> of_char c \<and> of_char c \<le> (122 :: nat)
      then char_of (of_char c - (32 :: nat)) else c)"

definition to_ascii_lowercase :: "string \<Rightarrow> string" where
  "to_ascii_lowercase s = map to_lower s"

definition to_ascii_uppercase :: "string \<Rightarrow> string" where
  "to_ascii_uppercase s = map to_upper s"

definition eq_ignore_ascii_case :: "string \<Rightarrow> string \<Rightarrow> bool" where
  "eq_ignore_ascii_case s t \<longleftrightarrow> to_ascii_lowercase s = to_ascii_lowercase t"

text \<open>Control code points (category Cc): U+0000..U+001F, U+007F, and U+0080..U+009F, which UTF-8
  writes as \<open>C2 80\<close> to \<open>C2 9F\<close>.\<close>

fun has_control :: "string \<Rightarrow> bool" where
  "has_control [] = False"
| "has_control (a # s) =
     (of_char a < (32 :: nat) \<or> of_char a = (127 :: nat)
      \<or> (a = CHR 0xC2 \<and> (case s of [] \<Rightarrow> False
            | b # _ \<Rightarrow> (128 :: nat) \<le> of_char b \<and> of_char b \<le> (159 :: nat)))
      \<or> has_control s)"

text \<open>\<open>encode_utf16().count()\<close>: one unit per code point below U+10000 (a byte that is not a
  continuation byte starts a code point), two for the four-byte ones.\<close>

definition utf16_units :: "string \<Rightarrow> nat" where
  "utf16_units s =
     length (filter (\<lambda>c. \<not> ((128 :: nat) \<le> of_char c \<and> of_char c < (192 :: nat))) s)
     + length (filter (\<lambda>c. (240 :: nat) \<le> of_char c) s)"

section \<open>Formatting numbers\<close>

definition digit :: "nat \<Rightarrow> char" where
  "digit d = char_of (48 + d)"

fun dec :: "nat \<Rightarrow> string" where
  "dec n = (if n < 10 then [digit n] else dec (n div 10) @ [digit (n mod 10)])"

declare dec.simps [simp del]

definition hex_digit :: "nat \<Rightarrow> char" where
  "hex_digit d = (if d < 10 then char_of (48 + d) else char_of (87 + d))"

text \<open>\<open>format!("{:016x}")\<close> of a 64-bit word.\<close>

definition hex16 :: "u64 \<Rightarrow> string" where
  "hex16 w = map (\<lambda>i. hex_digit (unat (drop_bit (4 * i) w AND 15)))
     [15, 14, 13, 12, 11, 10, 9, 8, 7, 6, 5, 4, 3, 2, 1, 0]"

lemma digit_inj: "a < 10 \<Longrightarrow> b < 10 \<Longrightarrow> digit a = digit b \<Longrightarrow> a = b"
proof -
  assume "a < 10" "b < 10" "digit a = digit b"
  then have "of_char (digit a) = (of_char (digit b) :: nat)" by simp
  with \<open>a < 10\<close> \<open>b < 10\<close> show ?thesis by (simp add: digit_def)
qed

lemma is_ascii_digit_digit [simp]: "d < 10 \<Longrightarrow> is_ascii_digit (digit d)"
  by (simp add: is_ascii_digit_def digit_def)

lemma dec_digits: "c \<in> set (dec n) \<Longrightarrow> is_ascii_digit c"
proof (induction n rule: dec.induct)
  case (1 n)
  then show ?case by (cases "n < 10") (auto simp: dec.simps[of n])
qed

lemma dec_nonempty [simp]: "dec n \<noteq> []"
  by (subst dec.simps) simp

text \<open>Reading the decimal digits back, so that distinct numbers print differently.\<close>

definition undec :: "string \<Rightarrow> nat" where
  "undec s = foldl (\<lambda>n c. 10 * n + (of_char c - 48)) 0 s"

lemma undec_dec [simp]: "undec (dec n) = n"
proof (induction n rule: dec.induct)
  case (1 n)
  then show ?case
    by (cases "n < 10") (simp_all add: dec.simps[of n] undec_def digit_def)
qed

lemma dec_inject [simp]: "dec m = dec n \<longleftrightarrow> m = n"
  by (metis undec_dec)

end
