(* ===== verification/BTree.thy ===== *)
theory BTree
  imports Rust_Str
begin

text \<open>
  Rust's \<open>BTreeMap\<close>: an association list strictly sorted by key, the order in which the
  program iterates over it, so that equal maps are equal lists and a map can be a field of a
  datatype. A \<open>BTreeSet\<close> is a HOL set, iterated with \<open>sorted_list_of_set\<close>. The locale
  \<open>keyed_map\<close> is the contract its clients rely on: what a lookup returns after insertions.
\<close>

type_synonym ('k, 'v) btree_map = "('k \<times> 'v) list"

definition bm_sorted :: "('k::linorder, 'v) btree_map \<Rightarrow> bool" where
  "bm_sorted m \<longleftrightarrow> sorted_wrt (<) (map fst m)"

fun bm_insert :: "'k::linorder \<Rightarrow> 'v \<Rightarrow> ('k, 'v) btree_map \<Rightarrow> ('k, 'v) btree_map" where
  "bm_insert k v [] = [(k, v)]"
| "bm_insert k v ((j, w) # m) =
     (if k < j then (k, v) # (j, w) # m
      else if k = j then (k, v) # m
      else (j, w) # bm_insert k v m)"

abbreviation bm_get :: "('k, 'v) btree_map \<Rightarrow> 'k \<Rightarrow> 'v option" where
  "bm_get \<equiv> map_of"

abbreviation bm_keys :: "('k, 'v) btree_map \<Rightarrow> 'k list" where
  "bm_keys m \<equiv> map fst m"

text \<open>\<open>extend\<close> with an iterator of pairs, and \<open>collect\<close> into a map: later pairs win.\<close>

definition bm_extend ::
  "('k::linorder, 'v) btree_map \<Rightarrow> ('k \<times> 'v) list \<Rightarrow> ('k, 'v) btree_map" where
  "bm_extend m xs = fold (\<lambda>(k, v). bm_insert k v) xs m"

abbreviation bm_collect :: "('k::linorder \<times> 'v) list \<Rightarrow> ('k, 'v) btree_map" where
  "bm_collect \<equiv> bm_extend []"

section \<open>The contract of a keyed map\<close>

locale keyed_map =
  fixes empty :: 'm
    and insert :: "'k \<Rightarrow> 'v \<Rightarrow> 'm \<Rightarrow> 'm"
    and get :: "'m \<Rightarrow> 'k \<Rightarrow> 'v option"
    and inv :: "'m \<Rightarrow> bool"
  assumes get_empty: "get empty k = None"
    and get_insert: "inv m \<Longrightarrow> get (insert k v m) j = (if j = k then Some v else get m j)"
    and inv_empty: "inv empty"
    and inv_insert: "inv m \<Longrightarrow> inv (insert k v m)"
begin

definition extend :: "'m \<Rightarrow> ('k \<times> 'v) list \<Rightarrow> 'm" where
  "extend m xs = fold (\<lambda>(k, v). insert k v) xs m"

lemma inv_extend: "inv m \<Longrightarrow> inv (extend m xs)"
  unfolding extend_def by (induction xs arbitrary: m) (auto intro: inv_insert)

lemma get_extend:
  "inv m \<Longrightarrow>
   get (extend m xs) k = (case map_of (rev xs) k of None \<Rightarrow> get m k | Some v \<Rightarrow> Some v)"
  unfolding extend_def
proof (induction xs arbitrary: m)
  case (Cons x xs)
  obtain j v where x: "x = (j, v)" by (cases x)
  from Cons.prems have "inv (insert j v m)" by (rule inv_insert)
  from Cons.IH[OF this] Cons.prems show ?case
    by (auto simp: x get_insert map_add_def split: option.splits)
qed simp

lemma get_collect: "get (extend empty xs) k = map_of (rev xs) k"
  by (simp add: get_extend inv_empty get_empty split: option.splits)

end

lemma bm_get_insert: "bm_get (bm_insert k v m) j = (if j = k then Some v else bm_get m j)"
  by (induction k v m rule: bm_insert.induct) auto

lemma set_bm_insert: "fst ` set (bm_insert k v m) = insert k (fst ` set m)"
  by (induction k v m rule: bm_insert.induct) auto

lemma bm_sorted_Nil [simp]: "bm_sorted []"
  by (simp add: bm_sorted_def)

lemma bm_sorted_insert: "bm_sorted m \<Longrightarrow> bm_sorted (bm_insert k v m)"
proof (induction k v m rule: bm_insert.induct)
  case (2 k v j w m)
  have keys: "set (map fst (bm_insert k v m)) = insert k (set (map fst m))"
    using set_bm_insert[of k v m] by simp
  from 2 show ?case
    by (auto simp: bm_sorted_def keys simp del: set_map)
qed (simp add: bm_sorted_def)

interpretation bm: keyed_map "[]" bm_insert bm_get bm_sorted
  rewrites "keyed_map.extend bm_insert = bm_extend"
proof -
  show m: "keyed_map [] bm_insert bm_get bm_sorted"
    by unfold_locales (simp_all add: bm_get_insert bm_sorted_insert)
  show "keyed_map.extend bm_insert = bm_extend"
    by (simp add: keyed_map.extend_def[OF m] bm_extend_def fun_eq_iff)
qed

lemmas bm_facts = bm_get_insert bm_sorted_insert bm.inv_extend bm.get_extend bm.get_collect

lemma bm_get_in_set: "bm_get (bm_extend m xs) k = Some v \<Longrightarrow> bm_sorted m \<Longrightarrow>
   (k, v) \<in> set xs \<or> bm_get m k = Some v"
  by (auto simp: bm.get_extend dest: map_of_SomeD split: option.splits)

text \<open>Strictly sorted association lists are determined by their lookups.\<close>

lemma bm_sorted_distinct: "bm_sorted m \<Longrightarrow> distinct (map fst m)"
  by (simp add: bm_sorted_def strict_sorted_iff)

lemma bm_ext:
  assumes "bm_sorted m" "bm_sorted n" "\<And>k. bm_get m k = bm_get n k"
  shows "m = n"
proof -
  have dom: "dom (bm_get m) = dom (bm_get n)" using assms(3) by (auto simp: dom_def)
  then have "set (map fst m) = set (map fst n)" by (simp add: dom_map_of_conv_image_fst)
  with assms(1,2) have keys: "map fst m = map fst n"
    by (simp add: bm_sorted_def strict_sorted_equal)
  have dist: "distinct (map fst m)" "distinct (map fst n)"
    using assms(1,2) by (auto intro: bm_sorted_distinct)
  show ?thesis
  proof (rule nth_equalityI)
    show len: "length m = length n" using arg_cong[OF keys, of length] by simp
    fix i
    assume i: "i < length m"
    have "fst (m ! i) = fst (n ! i)" using arg_cong[OF keys, of "\<lambda>l. l ! i"] i len by simp
    moreover have "bm_get m (fst (m ! i)) = Some (snd (m ! i))"
      "bm_get n (fst (n ! i)) = Some (snd (n ! i))"
      using i len dist by (auto intro: map_of_is_SomeI simp: nth_mem)
    ultimately show "m ! i = n ! i" using assms(3) by (metis option.inject prod.collapse)
  qed
qed

end
