(* ===== verification/Rust_Path.thy ===== *)
theory Rust_Path
  imports Rust_Str
begin

text \<open>
  Paths of the standard library on Unix. A \<open>PathBuf\<close> is its list of components, which is what
  its equality compares (\<open>a//b\<close> and \<open>a/b\<close> are equal paths); a \<open>Prefix\<close> occurs on Windows hosts
  only. File names are UTF-8, so \<open>to_str\<close> always succeeds.
\<close>

datatype component =
    Prefix string
  | RootDir
  | CurDir
  | ParentDir
  | Normal string

type_synonym path = "component list"

text \<open>\<open>Path::new(s).components()\<close>: empty components and every \<open>.\<close> but a leading one vanish.\<close>

definition component_of :: "string \<Rightarrow> component" where
  "component_of s =
     (if s = ''.'' then CurDir else if s = ''..'' then ParentDir else Normal s)"

definition components :: "string \<Rightarrow> path" where
  "components s =
     (if s = [] then []
      else let parts = split_on (CHR ''/'') s;
               body = (\<lambda>ps. map component_of (filter (\<lambda>p. p \<noteq> [] \<and> p \<noteq> ''.'') ps))
           in if hd parts = [] then RootDir # body (tl parts)
              else if hd parts = ''.'' then CurDir # body (tl parts)
              else body parts)"

definition is_absolute :: "path \<Rightarrow> bool" where
  "is_absolute p \<longleftrightarrow> (case p of RootDir # _ \<Rightarrow> True | _ \<Rightarrow> False)"

text \<open>\<open>join\<close> and \<open>parent\<close>, \<open>file_name\<close>.\<close>

definition path_join :: "path \<Rightarrow> path \<Rightarrow> path" where
  "path_join p q =
     (if is_absolute q then q
      else if p = [] then q
      else p @ (case q of CurDir # r \<Rightarrow> r | _ \<Rightarrow> q))"

definition path_parent :: "path \<Rightarrow> path option" where
  "path_parent p =
     (if p = [] then None
      else case last p of
        RootDir \<Rightarrow> None
      | Prefix _ \<Rightarrow> None
      | _ \<Rightarrow> Some (butlast p))"

definition file_name :: "path \<Rightarrow> string option" where
  "file_name p =
     (if p = [] then None else case last p of Normal n \<Rightarrow> Some n | _ \<Rightarrow> None)"

text \<open>Split of a file name at its last dot: (stem, extension). A leading dot is part of the
  stem.\<close>

definition rsplit_dot :: "string \<Rightarrow> string option \<times> string option" where
  "rsplit_dot n =
     (if n = ''..'' then (Some n, None)
      else let after = rev (takeWhile (\<lambda>c. c \<noteq> CHR ''.'') (rev n))
           in if length after = length n then (None, Some n)
              else let before = take (length n - length after - 1) n
                   in if before = [] then (Some n, None) else (Some before, Some after))"

definition file_stem :: "path \<Rightarrow> string option" where
  "file_stem p =
     (case file_name p of
        None \<Rightarrow> None
      | Some n \<Rightarrow> (case rsplit_dot n of (Some b, _) \<Rightarrow> Some b | (None, a) \<Rightarrow> a))"

definition extension :: "path \<Rightarrow> string option" where
  "extension p =
     (case file_name p of
        None \<Rightarrow> None
      | Some n \<Rightarrow> (case rsplit_dot n of (Some _, a) \<Rightarrow> a | (None, _) \<Rightarrow> None))"

text \<open>\<open>with_extension("")\<close>: the file name is replaced by its stem.\<close>

definition without_extension :: "path \<Rightarrow> path" where
  "without_extension p =
     (case file_stem p of None \<Rightarrow> p | Some st \<Rightarrow> butlast p @ [Normal st])"

text \<open>\<open>display()\<close> of a path that was built from components.\<close>

definition component_str :: "component \<Rightarrow> string" where
  "component_str c =
     (case c of Prefix s \<Rightarrow> s | RootDir \<Rightarrow> ''/'' | CurDir \<Rightarrow> ''.'' | ParentDir \<Rightarrow> ''..'' | Normal s \<Rightarrow> s)"

definition path_display :: "path \<Rightarrow> string" where
  "path_display p =
     (case p of
        RootDir # r \<Rightarrow> ''/'' @ join ''/'' (map component_str r)
      | _ \<Rightarrow> join ''/'' (map component_str p))"

lemma components_Nil [simp]: "components [] = []"
  by (simp add: components_def)

lemma components_no_prefix: "Prefix s \<notin> set (components t)"
  by (auto simp: components_def component_of_def Let_def)

lemma components_eq_Nil [simp]: "components s = [] \<longleftrightarrow> s = []"
proof (cases "s = []")
  case False
  obtain p ps where s: "split_on (CHR ''/'') s = p # ps"
    using split_on_nonempty[of "CHR ''/''" s] by (cases "split_on (CHR ''/'') s") auto
  with False show ?thesis by (simp add: components_def Let_def)
qed simp

lemma path_parent_file_name:
  "file_name p = Some n \<Longrightarrow> path_parent p = Some (butlast p)"
  by (auto simp: file_name_def path_parent_def split: if_splits component.splits)

lemma file_name_snoc [simp]: "file_name (p @ [Normal n]) = Some n"
  by (simp add: file_name_def)

lemma path_parent_snoc [simp]: "path_parent (p @ [Normal n]) = Some p"
  by (simp add: path_parent_def)

lemma file_name_Some: "file_name p = Some n \<longleftrightarrow> (\<exists>q. p = q @ [Normal n])"
  by (cases p rule: rev_cases) (auto simp: file_name_def split: component.splits)

end
