(* ===== verification/Core_Model.thy ===== *)
theory Core_Model
  imports BTree Rust_Path
begin

text \<open>
  \<open>locality-core/src/model.rs\<close>: identities, the hydration state machine, tree entries and their
  fingerprints, canonical documents and blocks. The lemmas give the reachability structure of
  the hydration states and what a fingerprint comparison ignores.
\<close>

section \<open>Identities\<close>

datatype mount_id = MountId (mount_id_str: string)

datatype remote_id = RemoteId (remote_id_str: string)

text \<open>\<open>RemoteId\<close> derives \<open>Ord\<close>: it is a key of ordered maps.\<close>

instantiation remote_id :: linorder
begin

definition less_eq_remote_id :: "remote_id \<Rightarrow> remote_id \<Rightarrow> bool" where
  "less_eq_remote_id a b \<longleftrightarrow> remote_id_str a \<le> remote_id_str b"

definition less_remote_id :: "remote_id \<Rightarrow> remote_id \<Rightarrow> bool" where
  "less_remote_id a b \<longleftrightarrow> remote_id_str a < remote_id_str b"

instance
  by standard (auto simp: less_eq_remote_id_def less_remote_id_def remote_id.expand)

end

datatype entity_kind =
    Page
  | Database
  | Directory
  | Asset
  | UnknownKind string

section \<open>Hydration states\<close>

datatype hydration_state = Virtual | Stub | Hydrated | Dirty | Conflicted

definition can_transition_to :: "hydration_state \<Rightarrow> hydration_state \<Rightarrow> bool" where
  "can_transition_to self next \<longleftrightarrow>
     (self, next) \<in> set
       [(Virtual, Stub), (Virtual, Dirty), (Virtual, Conflicted),
        (Stub, Hydrated), (Stub, Dirty), (Stub, Conflicted),
        (Hydrated, Dirty), (Hydrated, Conflicted),
        (Dirty, Hydrated), (Dirty, Conflicted),
        (Conflicted, Dirty), (Conflicted, Hydrated)]
     \<or> self = next"

record hydration_transition_error =
  hte_from :: hydration_state
  hte_to :: hydration_state

definition transition_to ::
  "hydration_state \<Rightarrow> hydration_state \<Rightarrow> hydration_transition_error + hydration_state" where
  "transition_to self next =
     (if can_transition_to self next then Inr next
      else Inl \<lparr>hte_from = self, hte_to = next\<rparr>)"

text \<open>The machine: one step is a successful \<open>transition_to\<close>.\<close>

inductive hydration_step :: "hydration_state \<Rightarrow> hydration_state \<Rightarrow> bool" where
  step: "transition_to s t = Inr u \<Longrightarrow> hydration_step s u"

inductive_simps hydration_step_iff: "hydration_step s t"

inductive_cases hydration_stepE: "hydration_step s t"

lemma hydration_step_simp: "hydration_step s t \<longleftrightarrow> can_transition_to s t"
  by (auto simp: hydration_step_iff transition_to_def split: if_splits)

text \<open>How far an entity has materialised locally; no step goes back below an earlier stage.\<close>

definition materialised :: "hydration_state \<Rightarrow> nat" where
  "materialised s = (case s of Virtual \<Rightarrow> 0 | Stub \<Rightarrow> 1 | _ \<Rightarrow> 2)"

lemma hydration_step_mono: "hydration_step s t \<Longrightarrow> materialised s \<le> materialised t"
  by (cases s; cases t)
    (simp_all add: hydration_step_simp can_transition_to_def materialised_def)

lemma hydration_reach_mono: "hydration_step\<^sup>*\<^sup>* s t \<Longrightarrow> materialised s \<le> materialised t"
  by (induction rule: rtranclp_induct) (auto dest: hydration_step_mono)

lemma hydration_reach_hydrated: "hydration_step\<^sup>*\<^sup>* s Hydrated"
proof -
  have hd: "hydration_step Stub Hydrated" "hydration_step Virtual Stub"
    "hydration_step Dirty Hydrated" "hydration_step Conflicted Hydrated"
    by (simp_all add: hydration_step_simp can_transition_to_def)
  show ?thesis
    by (cases s) (use hd in \<open>auto intro: converse_rtranclp_into_rtranclp\<close>)
qed

section \<open>Tree entries\<close>

datatype tree_kind = RemoteTree | LocalTree | SyncedTree

record tree_entry =
  te_mount_id :: mount_id
  te_remote_id :: remote_id
  te_kind :: entity_kind
  te_title :: string
  te_path :: path
  te_hydration :: hydration_state
  te_content_hash :: "string option"
  te_remote_edited_at :: "string option"
  te_stub_frontmatter :: "string option"

record entry_fingerprint =
  fp_kind :: entity_kind
  fp_title :: string
  fp_path :: path
  fp_content_hash :: "string option"
  fp_remote_edited_at :: "string option"

definition fingerprint :: "tree_entry \<Rightarrow> entry_fingerprint" where
  "fingerprint e =
     \<lparr>fp_kind = te_kind e, fp_title = te_title e, fp_path = te_path e,
      fp_content_hash = te_content_hash e, fp_remote_edited_at = te_remote_edited_at e\<rparr>"

definition differs_from :: "tree_entry \<Rightarrow> tree_entry \<Rightarrow> bool" where
  "differs_from e synced \<longleftrightarrow> fingerprint e \<noteq> fingerprint synced"

lemma fingerprint_hydration [simp]: "fingerprint (e\<lparr>te_hydration := h\<rparr>) = fingerprint e"
  by (simp add: fingerprint_def)

lemma fingerprint_stub_frontmatter [simp]:
  "fingerprint (e\<lparr>te_stub_frontmatter := f\<rparr>) = fingerprint e"
  by (simp add: fingerprint_def)

lemma differs_from_irrefl [simp]: "\<not> differs_from e e"
  by (simp add: differs_from_def)

section \<open>Canonical documents\<close>

record source_span =
  start_line :: usize
  end_line :: usize

datatype block_kind =
    NativeMarkdown
  | DirectiveBlock (bk_directive_type: string) (bk_raw: string)
  | Structural
  | UnknownBlock

record canonical_block =
  cb_remote_id :: "remote_id option"
  cb_kind :: block_kind
  cb_source_span :: "source_span option"
  cb_content_hash :: "string option"

definition cb_native :: "remote_id option \<Rightarrow> string option \<Rightarrow> canonical_block" where
  "cb_native i h =
     \<lparr>cb_remote_id = i, cb_kind = NativeMarkdown, cb_source_span = None, cb_content_hash = h\<rparr>"

definition cb_directive :: "remote_id \<Rightarrow> string \<Rightarrow> string \<Rightarrow> canonical_block" where
  "cb_directive i dty raw =
     \<lparr>cb_remote_id = Some i, cb_kind = DirectiveBlock dty raw, cb_source_span = None,
      cb_content_hash = None\<rparr>"

definition parsed_directive ::
  "remote_id option \<Rightarrow> string option \<Rightarrow> string \<Rightarrow> usize \<Rightarrow> canonical_block" where
  "parsed_directive i dty raw line =
     \<lparr>cb_remote_id = i,
      cb_kind = DirectiveBlock (case dty of None \<Rightarrow> [] | Some t \<Rightarrow> t) raw,
      cb_source_span = Some \<lparr>start_line = line, end_line = line\<rparr>,
      cb_content_hash = None\<rparr>"

definition directive_parts :: "canonical_block \<Rightarrow> (remote_id \<times> string \<times> string) option" where
  "directive_parts b =
     (case (cb_remote_id b, cb_kind b) of
        (Some i, DirectiveBlock dty raw) \<Rightarrow> Some (i, dty, raw)
      | _ \<Rightarrow> None)"

record canonical_document =
  cd_frontmatter :: string
  cd_body :: string
  cd_blocks :: "canonical_block list"

definition cd_new :: "string \<Rightarrow> string \<Rightarrow> canonical_document" where
  "cd_new fm body = \<lparr>cd_frontmatter = fm, cd_body = body, cd_blocks = []\<rparr>"

definition with_blocks :: "canonical_document \<Rightarrow> canonical_block list \<Rightarrow> canonical_document" where
  "with_blocks d bs = d\<lparr>cd_blocks := bs\<rparr>"

text \<open>The stub marker holds an em dash, the bytes \<open>E2 80 94\<close>.\<close>

definition STUB_MARKER :: string where
  "STUB_MARKER =
     ''<!-- loc:stub '' @ [CHR 0xE2, CHR 0x80, CHR 0x94] @
     '' read triggers hydration, or run: loc pull <path> -->''"

definition cd_is_stub :: "canonical_document \<Rightarrow> bool" where
  "cd_is_stub d \<longleftrightarrow> trim (cd_body d) = STUB_MARKER"

definition empty_stub :: canonical_document where
  "empty_stub = \<lparr>cd_frontmatter = [], cd_body = STUB_MARKER @ [CHR 0x0A], cd_blocks = []\<rparr>"

lemma trim_stub_marker: "trim (STUB_MARKER @ [CHR 0x0A]) = STUB_MARKER"
proof -
  obtain s where s: "STUB_MARKER = CHR ''<'' # s @ [CHR ''>'']"
    by (rule that[of "butlast (tl STUB_MARKER)"]) (simp add: STUB_MARKER_def)
  have p: "plain_byte (CHR ''<'')" "plain_byte (CHR ''>'')"
    by (simp_all add: plain_byte_def ascii_ws_def)
  have "trim (CHR ''<'' # s @ CHR ''>'' # [CHR 0x0A]) = CHR ''<'' # s @ [CHR ''>'']"
    using trim_end_hd[OF p(2), of "CHR ''<'' # s" "[CHR 0x0A]"]
    by (simp add: trim_def trim_start_plain[OF p(1)] trim_end_def trim_rev_Cons
        ws_len_rev.simps ascii_ws_def)
  then show ?thesis unfolding s by simp
qed

lemma empty_stub_is_stub: "cd_is_stub empty_stub"
  by (simp add: cd_is_stub_def empty_stub_def trim_stub_marker)

end
