(* ===== verification/Canonical.thy ===== *)
theory Canonical
  imports Core_Model
begin

text \<open>
  \<open>locality-core/src/canonical.rs\<close>: the envelope of a canonical Markdown file (frontmatter between
  two \<open>---\<close> lines, then the body), directive lines and their attributes. The YAML library is a
  parameter \<open>Y\<close> of the operations that parse frontmatter. The lemmas show that rendering and
  splitting the envelope are inverse and what a directive line parses to.
\<close>

section \<open>The YAML library\<close>

text \<open>\<open>yaml_serde::Value\<close>, with the constructors the source matches on; \<open>'n\<close> is the library's
  number type.\<close>

datatype 'n yaml_value =
    YNull
  | YBool bool
  | YNumber 'n
  | YString string
  | YSequence "'n yaml_value list"
  | YMapping "('n yaml_value \<times> 'n yaml_value) list"
  | YTagged string "'n yaml_value"

type_synonym 'n frontmatter_properties = "(string, 'n yaml_value) btree_map"

record raw_locality_metadata =
  rlm_id :: "string option"
  rlm_entity_type :: "string option"
  rlm_parent :: "string option"
  rlm_private :: "bool option"
  rlm_synced_at :: "string option"
  rlm_remote_edited_at :: "string option"

record 'n raw_frontmatter =
  rf_loc :: "raw_locality_metadata option"
  rf_title :: "string option"
  rf_properties :: "'n frontmatter_properties"

definition raw_frontmatter_default :: "'n raw_frontmatter" where
  "raw_frontmatter_default = \<lparr>rf_loc = None, rf_title = None, rf_properties = []\<rparr>"

record yaml_error =
  ye_line :: "usize option"
  ye_display :: string

text \<open>What the code calls of the library: deserialisation of the raw frontmatter, the display
  form of a number, and equality of values.\<close>

record 'n yaml_lib =
  from_str :: "string \<Rightarrow> yaml_error + 'n raw_frontmatter"
  number_to_string :: "'n \<Rightarrow> string"
  value_eq :: "'n yaml_value \<Rightarrow> 'n yaml_value \<Rightarrow> bool"

section \<open>Parsed documents\<close>

record locality_metadata =
  lm_id :: "remote_id option"
  lm_entity_type :: "entity_kind option"
  lm_raw_entity_type :: "string option"
  lm_parent :: "remote_id option"
  lm_private :: bool
  lm_synced_at :: "string option"
  lm_remote_edited_at :: "string option"

record 'n frontmatter =
  fm_loc :: "locality_metadata option"
  fm_title :: "string option"
  fm_properties :: "'n frontmatter_properties"

record directive =
  dir_remote_id :: "remote_id option"
  dir_directive_type :: "string option"
  dir_title :: "string option"
  dir_attributes :: "(string, string) btree_map"
  dir_raw :: string
  dir_line :: usize
  dir_malformed :: bool

record 'n parsed_canonical_document =
  pd_document :: canonical_document
  pd_frontmatter :: "'n frontmatter"
  pd_directives :: "directive list"
  pd_body_start_line :: usize

definition dir_source_span :: "directive \<Rightarrow> source_span" where
  "dir_source_span d = \<lparr>start_line = dir_line d, end_line = dir_line d\<rparr>"

definition pd_is_stub :: "'n parsed_canonical_document \<Rightarrow> bool" where
  "pd_is_stub p \<longleftrightarrow> cd_is_stub (pd_document p)"

definition pd_remote_id :: "'n parsed_canonical_document \<Rightarrow> remote_id option" where
  "pd_remote_id p = Option.bind (fm_loc (pd_frontmatter p)) lm_id"

datatype canonical_parse_error_kind =
    MissingFrontmatter
  | UnterminatedFrontmatter
  | InvalidFrontmatterYaml

record canonical_parse_error =
  cpe_kind :: canonical_parse_error_kind
  cpe_line :: "usize option"
  cpe_message :: string

definition cpe_display :: "canonical_parse_error \<Rightarrow> string" where
  "cpe_display e =
     (case cpe_line e of
        Some line \<Rightarrow> cpe_message e @ '' at line '' @ dec line
      | None \<Rightarrow> cpe_message e)"

section \<open>Frontmatter\<close>

definition parse_entity_kind :: "string \<Rightarrow> entity_kind" where
  "parse_entity_kind raw =
     (if raw = ''page'' then Page
      else if raw = ''database'' then Database
      else if raw = ''directory'' then Directory
      else if raw = ''asset'' then Asset
      else UnknownKind raw)"

text \<open>\<open>Option::filter\<close>.\<close>

definition opt_filter :: "('a \<Rightarrow> bool) \<Rightarrow> 'a option \<Rightarrow> 'a option" where
  "opt_filter p x = (case x of None \<Rightarrow> None | Some a \<Rightarrow> if p a then Some a else None)"

definition into_metadata :: "raw_locality_metadata \<Rightarrow> locality_metadata" where
  "into_metadata r =
     \<lparr>lm_id = map_option RemoteId (opt_filter (\<lambda>s. s \<noteq> []) (rlm_id r)),
      lm_entity_type = map_option parse_entity_kind (opt_filter (\<lambda>s. s \<noteq> []) (rlm_entity_type r)),
      lm_raw_entity_type = rlm_entity_type r,
      lm_parent = map_option RemoteId (opt_filter (\<lambda>s. s \<noteq> []) (rlm_parent r)),
      lm_private = (case rlm_private r of None \<Rightarrow> False | Some b \<Rightarrow> b),
      lm_synced_at = opt_filter (\<lambda>s. s \<noteq> []) (rlm_synced_at r),
      lm_remote_edited_at = opt_filter (\<lambda>s. s \<noteq> []) (rlm_remote_edited_at r)\<rparr>"

definition into_frontmatter :: "'n raw_frontmatter \<Rightarrow> 'n frontmatter" where
  "into_frontmatter r =
     \<lparr>fm_loc = map_option into_metadata (rf_loc r), fm_title = rf_title r,
      fm_properties = rf_properties r\<rparr>"

definition parse_frontmatter ::
  "'n yaml_lib \<Rightarrow> string \<Rightarrow> canonical_parse_error + 'n frontmatter" where
  "parse_frontmatter Y fm =
     rbind
       (if trim fm = [] then Inr raw_frontmatter_default
        else map_err
          (\<lambda>e. \<lparr>cpe_kind = InvalidFrontmatterYaml, cpe_line = map_option Suc (ye_line e),
                 cpe_message = ''invalid YAML frontmatter: '' @ ye_display e\<rparr>)
          (from_str Y fm))
       (\<lambda>raw. Inr (into_frontmatter raw))"

section \<open>The envelope\<close>

definition trim_line_ending :: "string \<Rightarrow> string" where
  "trim_line_ending l = trim_end_matches [CHR 0x0D, CHR 0x0A] l"

record frontmatter_split =
  fs_frontmatter :: string
  fs_body :: string
  fs_body_start_line :: usize

definition fence :: string where
  "fence = ''---''"

text \<open>The scan for the closing delimiter: \<open>cursor\<close> is the byte offset of the current line and
  \<open>line_number\<close> its number.\<close>

fun scan_frontmatter ::
  "string \<Rightarrow> nat \<Rightarrow> nat \<Rightarrow> nat \<Rightarrow> string list \<Rightarrow> frontmatter_split option" where
  "scan_frontmatter input fm_start cursor line_number [] = None"
| "scan_frontmatter input fm_start cursor line_number (line # rest) =
     (if trim_line_ending line = fence
      then Some \<lparr>fs_frontmatter = slice input fm_start cursor,
                 fs_body = drop (cursor + length line) input,
                 fs_body_start_line = line_number + 1\<rparr>
      else scan_frontmatter input fm_start (cursor + length line) (line_number + 1) rest)"

definition split_frontmatter :: "string \<Rightarrow> canonical_parse_error + frontmatter_split" where
  "split_frontmatter input =
     (let missing = Inl \<lparr>cpe_kind = MissingFrontmatter, cpe_line = Some 1,
                         cpe_message = ''canonical document must start with YAML frontmatter''\<rparr>
      in case split_inclusive (CHR 0x0A) input of
        [] \<Rightarrow> missing
      | first_line # rest \<Rightarrow>
          (if trim_line_ending first_line \<noteq> fence then missing
           else case scan_frontmatter input (length first_line) (length first_line) 2 rest of
             Some s \<Rightarrow> Inr s
           | None \<Rightarrow>
               Inl \<lparr>cpe_kind = UnterminatedFrontmatter, cpe_line = Some 1,
                    cpe_message = ''YAML frontmatter is missing a closing delimiter''\<rparr>))"

definition render_canonical_markdown :: "canonical_document \<Rightarrow> string" where
  "render_canonical_markdown d =
     (fence @ [CHR 0x0A]) @ cd_frontmatter d
     @ (if cd_frontmatter d \<noteq> [] \<and> \<not> suffix [CHR 0x0A] (cd_frontmatter d)
        then [CHR 0x0A] else [])
     @ (fence @ [CHR 0x0A]) @ cd_body d"

definition is_stub_body :: "string \<Rightarrow> bool" where
  "is_stub_body body \<longleftrightarrow> trim body = STUB_MARKER"

section \<open>Directive lines\<close>

text \<open>The characters before the first white space or \<open>=\<close>, and the rest.\<close>

fun key_span :: "string \<Rightarrow> string \<times> string" where
  "key_span [] = ([], [])"
| "key_span (c # s) =
     (if c = CHR ''='' \<or> ws_len (c # s) > 0 then ([], c # s)
      else (c # fst (key_span s), snd (key_span s)))"

text \<open>The characters before the first white space, and the rest: an unquoted value, and what
  \<open>skip_to_whitespace\<close> skips.\<close>

fun value_span :: "string \<Rightarrow> string \<times> string" where
  "value_span [] = ([], [])"
| "value_span (c # s) =
     (if ws_len (c # s) > 0 then ([], c # s)
      else (c # fst (value_span s), snd (value_span s)))"

definition skip_to_whitespace :: "string \<Rightarrow> string" where
  "skip_to_whitespace s = snd (value_span s)"

text \<open>A quoted value after its opening quote.\<close>

fun parse_quoted_directive_value :: "string \<Rightarrow> string \<times> string" where
  "parse_quoted_directive_value [] = ([], [])"
| "parse_quoted_directive_value (c # s) =
     (if c = CHR 0x22 then ([], s)
      else if c = CHR 0x5C then
        (case s of
           [] \<Rightarrow> ([CHR 0x5C], [])
         | e # t \<Rightarrow>
             (if e = CHR 0x22 \<or> e = CHR 0x5C
              then (e # fst (parse_quoted_directive_value t), snd (parse_quoted_directive_value t))
              else (CHR 0x5C # e # fst (parse_quoted_directive_value t),
                    snd (parse_quoted_directive_value t))))
      else (c # fst (parse_quoted_directive_value s), snd (parse_quoted_directive_value s)))"

definition attribute_value :: "string \<Rightarrow> string \<times> string" where
  "attribute_value s =
     (case s of
        c # t \<Rightarrow> if c = CHR 0x22 then parse_quoted_directive_value t else value_span s
      | [] \<Rightarrow> value_span s)"

lemma length_key_span: "length (snd (key_span s)) \<le> length s"
  by (induction s) auto

lemma length_value_span: "length (snd (value_span s)) \<le> length s"
  by (induction s) auto

lemma length_quoted: "length (snd (parse_quoted_directive_value s)) \<le> length s"
proof (induction s rule: parse_quoted_directive_value.induct)
  case 1
  show ?case by simp
next
  case (2 c s)
  show ?case
  proof (cases "c = CHR 0x22 \<or> c \<noteq> CHR 0x5C")
    case True
    with 2 show ?thesis by auto
  next
    case c: False
    with 2 show ?thesis
      by (cases s; cases "hd s = CHR 0x22 \<or> hd s = CHR 0x5C") simp_all
  qed
qed

lemma length_attribute_value: "length (snd (attribute_value s)) \<le> length s"
  using length_quoted[of "tl s"] length_value_span[of s]
  by (auto simp: attribute_value_def split: list.splits)

lemma length_trim_start: "length (trim_start s) \<le> length s"
  by (rule suffix_length_le[OF trim_start_suffix])

lemma key_span_progress:
  assumes "s \<noteq> []" "ws_len s = 0" "hd s \<noteq> CHR ''=''"
  shows "length (snd (key_span s)) < length s"
  using assms length_key_span[of "tl s"] by (cases s) auto

function parse_attributes_from ::
  "string \<Rightarrow> (string, string) btree_map \<Rightarrow> (string, string) btree_map" where
  "parse_attributes_from s attributes =
     (if s = [] then attributes
      else if ws_len s > 0 then parse_attributes_from (drop (ws_len s) s) attributes
      else
        let key = trim (fst (key_span s));
            r = trim_start (snd (key_span s))
        in if r = [] \<or> hd r \<noteq> CHR ''=''
           then parse_attributes_from (skip_to_whitespace r) attributes
           else
             let v = attribute_value (trim_start (tl r))
             in parse_attributes_from (snd v)
                  (if key \<noteq> [] then bm_insert key (fst v) attributes else attributes))"
  by pat_completeness auto

termination
proof (relation "measure (\<lambda>(s, m). length s)", goal_cases)
  case 1
  show ?case by simp
next
  case (2 s m)
  then show ?case by simp
next
  case (3 s m key r)
  show ?case
  proof (cases "hd s = CHR ''=''")
    case True
    with 3 have "snd (key_span s) = s" by (cases s) auto
    with 3 True show ?thesis by (simp add: trim_start_id)
  next
    case False
    with 3 have "length (snd (key_span s)) < length s" by (intro key_span_progress) auto
    with 3 show ?thesis
      using length_trim_start[of "snd (key_span s)"] length_value_span[of r]
      by (simp add: skip_to_whitespace_def)
  qed
next
  case (4 s m key r v)
  have "length r \<le> length s"
    using 4 length_trim_start[of "snd (key_span s)"] length_key_span[of s] by simp
  moreover have "length (snd v) \<le> length (tl r)"
    using 4 length_attribute_value[of "trim_start (tl r)"] length_trim_start[of "tl r"] by simp
  moreover have "length (tl r) < length r" using 4 by (cases r) simp_all
  ultimately show ?case by simp
qed

declare parse_attributes_from.simps [simp del]

definition parse_directive_attributes :: "string \<Rightarrow> (string, string) btree_map" where
  "parse_directive_attributes input = parse_attributes_from input []"

definition COMPAT_DIRECTIVE_PREFIXES :: "string list" where
  "COMPAT_DIRECTIVE_PREFIXES = [''::loc'', ''::afs'']"

definition directive_prefix :: "string \<Rightarrow> string option" where
  "directive_prefix line = List.find (\<lambda>p. prefix p line) COMPAT_DIRECTIVE_PREFIXES"

definition parse_directive_line :: "string \<Rightarrow> usize \<Rightarrow> directive option" where
  "parse_directive_line line line_number =
     (let trimmed = trim line in
      case directive_prefix trimmed of
        None \<Rightarrow> None
      | Some pre \<Rightarrow>
          let brace_prefix = pre @ ''{'' in
          if \<not> prefix pre trimmed then None
          else
            let malformed = (\<not> prefix brace_prefix trimmed \<or> \<not> suffix ''}'' trimmed);
                attributes =
                  (if malformed then []
                   else parse_directive_attributes
                          (slice trimmed (length brace_prefix) (length trimmed - 1)));
                nonempty = (\<lambda>k. opt_filter (\<lambda>v. v \<noteq> []) (bm_get attributes k))
            in Some
              \<lparr>dir_remote_id = map_option RemoteId (nonempty ''id''),
               dir_directive_type = nonempty ''type'',
               dir_title = nonempty ''title'',
               dir_attributes = attributes,
               dir_raw = line,
               dir_line = line_number,
               dir_malformed = malformed\<rparr>)"

definition extract_directives :: "string \<Rightarrow> usize \<Rightarrow> directive list" where
  "extract_directives body body_start_line =
     List.map_filter (\<lambda>(offset, line). parse_directive_line line (body_start_line + offset))
       (enumerate 0 (str_lines body))"

definition parse_canonical_markdown ::
  "'n yaml_lib \<Rightarrow> string \<Rightarrow> canonical_parse_error + 'n parsed_canonical_document" where
  "parse_canonical_markdown Y input =
     rbind (split_frontmatter input) (\<lambda>split.
     rbind (parse_frontmatter Y (fs_frontmatter split)) (\<lambda>fm.
       let directives = extract_directives (fs_body split) (fs_body_start_line split);
           blocks = map (\<lambda>d. parsed_directive (dir_remote_id d) (dir_directive_type d)
                               (dir_raw d) (dir_line d)) directives
       in Inr \<lparr>pd_document = with_blocks (cd_new (fs_frontmatter split) (fs_body split)) blocks,
               pd_frontmatter = fm,
               pd_directives = directives,
               pd_body_start_line = fs_body_start_line split\<rparr>))"


section \<open>The envelope: rendering and splitting\<close>

text \<open>The frontmatter as it is rendered: with a final line feed unless it is empty.\<close>

definition terminated :: "string \<Rightarrow> bool" where
  "terminated s \<longleftrightarrow> s = [] \<or> suffix [CHR 0x0A] s"

definition norm_frontmatter :: "string \<Rightarrow> string" where
  "norm_frontmatter fm = fm @ (if terminated fm then [] else [CHR 0x0A])"

definition fence_free :: "string \<Rightarrow> bool" where
  "fence_free fm \<longleftrightarrow> (\<forall>l\<in>set (split_inclusive (CHR 0x0A) fm). trim_line_ending l \<noteq> fence)"

lemma render_eq: "render_canonical_markdown d =
  (fence @ [CHR 0x0A]) @ norm_frontmatter (cd_frontmatter d) @ (fence @ [CHR 0x0A]) @ cd_body d"
  by (simp add: render_canonical_markdown_def norm_frontmatter_def terminated_def)

lemma terminated_norm [simp]: "terminated (norm_frontmatter fm)"
  by (simp add: norm_frontmatter_def terminated_def)

lemma norm_terminated [simp]: "terminated fm \<Longrightarrow> norm_frontmatter fm = fm"
  by (simp add: norm_frontmatter_def)

lemma split_inclusive_append:
  assumes "terminated a"
  shows "split_inclusive (CHR 0x0A) (a @ b) =
    split_inclusive (CHR 0x0A) a @ split_inclusive (CHR 0x0A) b"
  using assms
proof (induction "split_inclusive (CHR 0x0A) a" arbitrary: a)
  case Nil
  then show ?case by (metis append_Nil split_inclusive_eq_Nil)
next
  case (Cons l ls)
  have a: "a = l @ concat ls" by (metis Cons.hyps(2) concat.simps(2) concat_split_inclusive)
  have seq: "line_seq (CHR 0x0A) (l # ls)"
    using line_seq_split_inclusive[of "CHR 0x0A" a] Cons.hyps(2) by simp
  have full: "full_line (CHR 0x0A) l"
  proof (cases "ls = []")
    case True
    then show ?thesis
      using seq Cons.prems a by (auto simp: line_seq_def terminated_def suffix_def)
  next
    case False
    with seq show ?thesis by (simp add: line_seq_def)
  qed
  have ls: "split_inclusive (CHR 0x0A) (concat ls) = ls"
    using Cons.hyps(2) full_line_append[OF full, of "concat ls"] a by simp
  have "terminated (concat ls)"
  proof (cases "concat ls" rule: rev_cases)
    case (snoc ys y)
    with Cons.prems a have "suffix [CHR 0x0A] ((l @ ys) @ [y])" by (simp add: terminated_def)
    then have "y = CHR 0x0A" by (simp only: suffix_snoc) simp
    with snoc show ?thesis by (simp add: terminated_def)
  qed (simp add: terminated_def)
  with Cons.hyps(1)[OF ls[symmetric]] ls a full_line_append[OF full] show ?case by simp
qed

lemma fence_line:
  "full_line (CHR 0x0A) (fence @ [CHR 0x0A])" "trim_line_ending (fence @ [CHR 0x0A]) = fence"
  by (auto simp: full_line_def fence_def trim_line_ending_def trim_end_matches_def)

lemma fence_not_Nil: "trim_line_ending l = fence \<Longrightarrow> l \<noteq> []"
  by (auto simp: trim_line_ending_def trim_end_matches_def fence_def)

lemma scan_frontmatter_found:
  assumes "\<forall>l\<in>set pre. trim_line_ending l \<noteq> fence" "trim_line_ending close = fence"
  shows "scan_frontmatter input a cursor n (pre @ close # post) =
    Some \<lparr>fs_frontmatter = slice input a (cursor + length (concat pre)),
          fs_body = drop (cursor + length (concat pre) + length close) input,
          fs_body_start_line = n + length pre + 1\<rparr>"
  using assms by (induction pre arbitrary: cursor n) (simp_all add: algebra_simps)

lemma scan_frontmatter_None:
  "scan_frontmatter input a cursor n ls = None \<longleftrightarrow> (\<forall>l\<in>set ls. trim_line_ending l \<noteq> fence)"
  by (induction ls arbitrary: cursor n) auto

lemma split_frontmatter_lines:
  assumes lines: "split_inclusive (CHR 0x0A) input = open # pre @ close # post"
    and "trim_line_ending open = fence" "trim_line_ending close = fence"
    and "\<forall>l\<in>set pre. trim_line_ending l \<noteq> fence"
  shows "split_frontmatter input =
    Inr \<lparr>fs_frontmatter = concat pre, fs_body = concat post,
         fs_body_start_line = 3 + length pre\<rparr>"
proof -
  have "input = open @ concat pre @ close @ concat post"
    using concat_split_inclusive[of "CHR 0x0A" input] lines by simp
  then show ?thesis
    using assms by (simp add: split_frontmatter_def scan_frontmatter_found slice_def)
qed

lemma split_frontmatter_envelope:
  assumes fm: "terminated fm" "fence_free fm"
    and "full_line (CHR 0x0A) open" "trim_line_ending open = fence"
    and close: "trim_line_ending close = fence"
    and ends: "full_line (CHR 0x0A) close \<or> (CHR 0x0A \<notin> set close \<and> body = [])"
  shows "split_frontmatter (open @ fm @ close @ body) =
    Inr \<lparr>fs_frontmatter = fm, fs_body = body,
         fs_body_start_line = 3 + length (split_inclusive (CHR 0x0A) fm)\<rparr>"
proof -
  have cb: "split_inclusive (CHR 0x0A) (close @ body) =
      close # split_inclusive (CHR 0x0A) body"
    using ends fence_not_Nil[OF close] by (auto simp: full_line_append split_inclusive_no_sep)
  have "split_inclusive (CHR 0x0A) (open @ fm @ close @ body) =
      open # split_inclusive (CHR 0x0A) fm @ close # split_inclusive (CHR 0x0A) body"
    using assms(3) fm(1) cb by (simp add: full_line_append split_inclusive_append)
  from split_frontmatter_lines[OF this] show ?thesis
    using assms by (simp add: fence_free_def)
qed

lemma split_frontmatter_cases:
  assumes "split_frontmatter input = Inr sp"
  obtains "open" pre close post where
    "split_inclusive (CHR 0x0A) input = open # pre @ close # post"
    "trim_line_ending open = fence" "trim_line_ending close = fence"
    "\<forall>l\<in>set pre. trim_line_ending l \<noteq> fence"
proof -
  from assms obtain f rest where lines: "split_inclusive (CHR 0x0A) input = f # rest"
    and f: "trim_line_ending f = fence"
    and scan: "scan_frontmatter input (length f) (length f) 2 rest \<noteq> None"
    by (auto simp: split_frontmatter_def Let_def split: list.splits if_splits option.splits)
  from scan have "\<exists>l\<in>set rest. trim_line_ending l = fence"
    unfolding scan_frontmatter_None by blast
  then obtain pre close post where "rest = pre @ close # post" "trim_line_ending close = fence"
    "\<forall>l\<in>set pre. trim_line_ending l \<noteq> fence"
    using split_list_first_prop[of rest "\<lambda>l. trim_line_ending l = fence"] by blast
  with lines f show ?thesis by (intro that[of f pre close post]) auto
qed

text \<open>What a successful split says: the input is an opening fence line, the frontmatter (whole
  lines, none a fence), a closing fence line, and the body.\<close>

lemma split_frontmatter_spec:
  assumes "split_frontmatter input = Inr sp"
  shows "\<exists>open close. input = open @ fs_frontmatter sp @ close @ fs_body sp
     \<and> trim_line_ending open = fence \<and> trim_line_ending close = fence
     \<and> terminated (fs_frontmatter sp) \<and> fence_free (fs_frontmatter sp)
     \<and> fs_body_start_line sp = 3 + length (split_inclusive (CHR 0x0A) (fs_frontmatter sp))"
proof -
  obtain "open" pre close post where l: "split_inclusive (CHR 0x0A) input = open # pre @ close # post"
    and f: "trim_line_ending open = fence" "trim_line_ending close = fence"
    and n: "\<forall>l\<in>set pre. trim_line_ending l \<noteq> fence"
    using split_frontmatter_cases[OF assms] .
  from split_frontmatter_lines[OF l f n] assms
  have sp: "sp = \<lparr>fs_frontmatter = concat pre, fs_body = concat post,
      fs_body_start_line = 3 + length pre\<rparr>" by simp
  have full: "\<forall>l\<in>set pre. full_line (CHR 0x0A) l"
    using line_seq_split_inclusive[of "CHR 0x0A" input] l
    by (auto simp: line_seq_def butlast_append split: if_splits)
  have seq: "line_seq (CHR 0x0A) pre"
    using full by (auto simp: line_seq_def dest: in_set_butlastD)
  have "terminated (concat pre)"
    using full by (cases pre rule: rev_cases) (auto simp: terminated_def full_line_def suffix_def)
  moreover have "input = open @ concat pre @ close @ concat post"
    using concat_split_inclusive[of "CHR 0x0A" input] l by simp
  ultimately show ?thesis
    using sp f n split_inclusive_concat[OF seq] by (auto simp: fence_free_def)
qed

lemma split_rendered:
  assumes "fence_free (norm_frontmatter (cd_frontmatter d))"
  shows "split_frontmatter (render_canonical_markdown d) =
    Inr \<lparr>fs_frontmatter = norm_frontmatter (cd_frontmatter d), fs_body = cd_body d,
         fs_body_start_line =
           3 + length (split_inclusive (CHR 0x0A) (norm_frontmatter (cd_frontmatter d)))\<rparr>"
  unfolding render_eq
  using split_frontmatter_envelope[OF terminated_norm assms fence_line fence_line(2)] fence_line(1)
  by blast

text \<open>Rendering a canonical document and splitting the result gives back the body unchanged
  and the frontmatter with its final line feed, and numbers the first body line after the closing
  fence, for every frontmatter that has no fence line of its own.\<close>

theorem split_render_roundtrip:
  assumes "fence_free (norm_frontmatter (cd_frontmatter d))"
  shows "split_frontmatter (render_canonical_markdown d) =
    Inr \<lparr>fs_frontmatter = norm_frontmatter (cd_frontmatter d), fs_body = cd_body d,
         fs_body_start_line =
           3 + length (split_inclusive (CHR 0x0A) (norm_frontmatter (cd_frontmatter d)))\<rparr>"
  using assms by (rule split_rendered)

theorem split_render_roundtrip_witness:
  "split_frontmatter (render_canonical_markdown (cd_new ''title: A'' ''B'')) =
    Inr \<lparr>fs_frontmatter = ''title: A'' @ [CHR 0x0A], fs_body = ''B'', fs_body_start_line = 4\<rparr>"
proof -
  have n: "norm_frontmatter ''title: A'' = ''title: A'' @ [CHR 0x0A]"
    by (simp add: norm_frontmatter_def terminated_def suffix_def)
  have l: "split_inclusive (CHR 0x0A) (''title: A'' @ [CHR 0x0A]) = [''title: A'' @ [CHR 0x0A]]"
    by simp
  have "fence_free (norm_frontmatter (cd_frontmatter (cd_new ''title: A'' ''B'')))"
    by (simp add: cd_new_def n l fence_free_def fence_def trim_line_ending_def
        trim_end_matches_def)
  from split_render_roundtrip[OF this] show ?thesis
    by (simp add: cd_new_def n del: append.simps) (simp add: l)
qed

text \<open>Splitting is stable under rendering: whatever line endings the fences of a file have,
  the document that a successful parse yields renders to a file that splits to the same
  frontmatter, body and body line.\<close>

theorem split_frontmatter_stable:
  assumes "split_frontmatter input = Inr sp"
  shows "split_frontmatter (render_canonical_markdown (cd_new (fs_frontmatter sp) (fs_body sp)))
    = Inr sp"
proof -
  from split_frontmatter_spec[OF assms] have t: "terminated (fs_frontmatter sp)"
    "fence_free (fs_frontmatter sp)"
    and n: "fs_body_start_line sp = 3 + length (split_inclusive (CHR 0x0A) (fs_frontmatter sp))"
    by auto
  from t split_frontmatter_envelope[OF t fence_line fence_line(2)] fence_line(1) n show ?thesis
    by (simp add: render_eq cd_new_def)
qed

theorem split_frontmatter_stable_witness:
  "split_frontmatter (render_canonical_markdown (cd_new [] ''B'')) =
    Inr \<lparr>fs_frontmatter = [], fs_body = ''B'', fs_body_start_line = 3\<rparr>"
proof -
  let ?crlf = "''---'' @ [CHR 0x0D, CHR 0x0A]"
  have "split_frontmatter (?crlf @ ?crlf @ ''B'') =
      Inr \<lparr>fs_frontmatter = [], fs_body = ''B'', fs_body_start_line = 3\<rparr>"
    by (simp add: split_frontmatter_def trim_line_ending_def trim_end_matches_def fence_def
        slice_def)
  from split_frontmatter_stable[OF this] show ?thesis by simp
qed

section \<open>Directive lines\<close>

lemma key_span_plain:
  "(\<And>c. c \<in> set k \<Longrightarrow> plain_byte c \<and> c \<noteq> CHR ''='') \<Longrightarrow>
   key_span (k @ CHR ''='' # s) = (k, CHR ''='' # s)"
  by (induction k) auto

lemma value_span_plain:
  "(\<And>c. c \<in> set v \<Longrightarrow> plain_byte c) \<Longrightarrow> ws_len s > 0 \<or> s = [] \<Longrightarrow> value_span (v @ s) = (v, s)"
proof (induction v)
  case Nil
  then show ?case by (cases s) auto
qed auto

lemma trim_plain: "(\<And>c. c \<in> set k \<Longrightarrow> plain_byte c) \<Longrightarrow> trim k = k"
proof (cases k rule: rev_cases)
  case (snoc t b)
  assume p: "\<And>c. c \<in> set k \<Longrightarrow> plain_byte c"
  with snoc have b: "plain_byte b" by simp
  obtain a k' where "k = a # k'" using snoc by (metis append_is_Nil_conv list.distinct(1) neq_Nil_conv)
  with p have "trim_start k = k" by (simp add: trim_start_plain)
  with b snoc show ?thesis by (simp add: trim_def trim_end_plain)
qed simp

text \<open>One unquoted or quoted attribute at the front of the attribute text.\<close>

lemma parse_attribute_step:
  assumes k: "k \<noteq> []" "\<And>c. c \<in> set k \<Longrightarrow> plain_byte c \<and> c \<noteq> CHR ''=''"
    and v: "attribute_value s = (v, rest)" and ws: "ws_len s = 0"
  shows "parse_attributes_from (k @ CHR ''='' # s) m = parse_attributes_from rest (bm_insert k v m)"
proof -
  let ?s = "k @ CHR ''='' # s"
  have eq: "plain_byte (CHR ''='')" by (simp add: plain_byte_def ascii_ws_def)
  have ne: "?s \<noteq> []" by simp
  have w: "ws_len ?s = 0" using k by (cases k) simp_all
  have tk: "trim k = k" using k(2) by (blast intro: trim_plain)
  have ks: "key_span ?s = (k, CHR ''='' # s)" using k(2) by (rule key_span_plain)
  show ?thesis
    unfolding parse_attributes_from.simps[of ?s m] Let_def ks fst_conv snd_conv
    using ne w k(1) v ws by (simp add: tk trim_start_plain[OF eq] trim_start_id)
qed

lemma parse_attributes_space:
  "parse_attributes_from (CHR 0x20 # s) m = parse_attributes_from s m"
  by (subst parse_attributes_from.simps) (simp add: ws_len.simps ascii_ws_def)

lemma parse_attributes_Nil [simp]: "parse_attributes_from [] m = m"
  by (simp add: parse_attributes_from.simps)

lemma directive_prefix_loc: "directive_prefix (''::loc'' @ s) = Some ''::loc''"
  by (simp add: directive_prefix_def COMPAT_DIRECTIVE_PREFIXES_def)

text \<open>A line that is a well-formed \<open>::loc{...}\<close> directive, with no white space around it.\<close>

lemma parse_directive_line_loc:
  "parse_directive_line (''::loc{'' @ attrs @ ''}'') n =
    (let m = parse_directive_attributes attrs;
         nonempty = (\<lambda>k. opt_filter (\<lambda>v. v \<noteq> []) (bm_get m k))
     in Some \<lparr>dir_remote_id = map_option RemoteId (nonempty ''id''),
              dir_directive_type = nonempty ''type'', dir_title = nonempty ''title'',
              dir_attributes = m, dir_raw = ''::loc{'' @ attrs @ ''}'', dir_line = n,
              dir_malformed = False\<rparr>)"
proof -
  have p: "plain_byte (CHR '':'')" "plain_byte (CHR ''}'')"
    by (simp_all add: plain_byte_def ascii_ws_def)
  have t: "trim (''::loc{'' @ attrs @ ''}'') = ''::loc{'' @ attrs @ ''}''"
    using trim_plain_ends[OF p, of "'':loc{'' @ attrs"] by simp
  have d: "directive_prefix (''::loc{'' @ attrs @ ''}'') = Some ''::loc''"
    using directive_prefix_loc[of "''{'' @ attrs @ ''}''"] by simp
  have s: "suffix ''}'' (''::loc{'' @ attrs @ ''}'')" by (simp add: suffix_def)
  show ?thesis
    unfolding parse_directive_line_def Let_def t d
    using s by (simp add: slice_def)
qed

lemma parse_directive_line_None:
  "parse_directive_line line n = None \<longleftrightarrow>
    \<not> prefix ''::loc'' (trim line) \<and> \<not> prefix ''::afs'' (trim line)"
  by (auto simp: parse_directive_line_def directive_prefix_def COMPAT_DIRECTIVE_PREFIXES_def
      Let_def)

lemma parse_directive_line_raw:
  "parse_directive_line line n = Some d \<Longrightarrow> dir_raw d = line \<and> dir_line d = n"
  by (auto simp: parse_directive_line_def Let_def split: option.splits if_splits)

text \<open>Only the line number of a parsed directive depends on the given number.\<close>

lemma parse_directive_line_number:
  "parse_directive_line line n = map_option (\<lambda>d. d\<lparr>dir_line := n\<rparr>) (parse_directive_line line k)"
  by (auto simp: parse_directive_line_def Let_def split: option.splits)

text \<open>A bare word before an attribute swallows it: the attribute is lost.\<close>

lemma bare_word_swallows_attribute: "parse_directive_attributes ''open id=b1'' = []"
proof -
  have "parse_attributes_from ''open id=b1'' [] = parse_attributes_from [] []"
    by (subst parse_attributes_from.simps)
      (simp add: ws_len.simps ascii_ws_def ws2_def ws3_def skip_to_whitespace_def trim_start_Cons)
  then show ?thesis by (simp add: parse_directive_attributes_def)
qed

end
