(* ===== verification/Conflict_Markers.thy ===== *)
theory Conflict_Markers
  imports Canonical
begin

text \<open>
  The conflict-marker half of conflict.rs: rendering one conflict hunk around the lines two
  versions share, finding unresolved markers in a file, and recovering the local side of a body
  with (possibly nested) conflict blocks. The lemmas show that a rendered hunk is found again and
  that the local side comes back out of it.
\<close>

section \<open>Markers and summaries\<close>

definition LF :: char where
  "LF = CHR 0x0A"

definition CONFLICT_LOCAL_MARKER :: string where
  "CONFLICT_LOCAL_MARKER = ''<<<<<<< LOCAL''"

definition CONFLICT_SEPARATOR_MARKER :: string where
  "CONFLICT_SEPARATOR_MARKER = ''=======''"

definition CONFLICT_REMOTE_MARKER :: string where
  "CONFLICT_REMOTE_MARKER = ''>>>>>>> REMOTE''"

datatype conflict_reason = LocalAndRemoteChanged | SameBlockChanged | RemoteMovedDuringPush

record conflict_summary =
  cs_remote_id :: remote_id
  cs_path :: path
  cs_remote_path :: path
  cs_reason :: conflict_reason

datatype conflict_resolution = Ours | Theirs | Edited path

datatype three_way_text_merge = Clean string | Conflict string

section \<open>Rendering a hunk\<close>

text \<open>\<open>split_lines\<close> and \<open>push_lines\<close>; appending to the output string is concatenation.\<close>

definition split_lines :: "string \<Rightarrow> string list" where
  "split_lines body = split_inclusive LF body"

definition push_lines :: "string list \<Rightarrow> string" where
  "push_lines lines = concat lines"

definition push_marker_section :: "string \<Rightarrow> string" where
  "push_marker_section sec = sec @ (if sec \<noteq> [] \<and> \<not> suffix [LF] sec then [LF] else [])"

definition push_marker_lines :: "string list \<Rightarrow> string" where
  "push_marker_lines lines = push_marker_section (concat lines)"

text \<open>The first loop of \<open>render_conflict_hunk\<close> counts the lines both sides start with, the
  second one moves two cursors back over the lines both end with.\<close>

fun common_prefix_len :: "string list \<Rightarrow> string list \<Rightarrow> usize" where
  "common_prefix_len (l # ls) (r # rs) = (if l = r then Suc (common_prefix_len ls rs) else 0)"
| "common_prefix_len _ _ = 0"

function common_suffix_starts :: "string list \<Rightarrow> string list \<Rightarrow> usize \<Rightarrow> usize \<Rightarrow> usize \<Rightarrow> usize \<times> usize" where
  "common_suffix_starts local remote prefix_len ls rs =
     (if ls > prefix_len \<and> rs > prefix_len \<and> local ! (ls - 1) = remote ! (rs - 1)
      then common_suffix_starts local remote prefix_len (ls - 1) (rs - 1)
      else (ls, rs))"
  by pat_completeness auto
termination
  by (relation "measure (\<lambda>(_, _, _, ls, _). ls)") auto

declare common_suffix_starts.simps [simp del]

definition render_conflict_hunk :: "string \<Rightarrow> string \<Rightarrow> string" where
  "render_conflict_hunk local_body remote_body =
     (if local_body = remote_body then local_body
      else
        let local_lines = split_lines local_body;
            remote_lines = split_lines remote_body;
            prefix_len = common_prefix_len local_lines remote_lines;
            (local_suffix_start, remote_suffix_start) =
              common_suffix_starts local_lines remote_lines prefix_len
                (length local_lines) (length remote_lines)
        in push_lines (slice local_lines 0 prefix_len)
           @ CONFLICT_LOCAL_MARKER @ [LF]
           @ push_marker_lines (slice local_lines prefix_len local_suffix_start)
           @ CONFLICT_SEPARATOR_MARKER @ [LF]
           @ push_marker_lines (slice remote_lines prefix_len remote_suffix_start)
           @ CONFLICT_REMOTE_MARKER @ [LF]
           @ push_lines (drop local_suffix_start local_lines))"

definition render_conflict_marker_body :: "string \<Rightarrow> string \<Rightarrow> string" where
  "render_conflict_marker_body local_body remote_body = render_conflict_hunk local_body remote_body"

section \<open>Finding markers\<close>

datatype conflict_marker_kind = LocalStart | Separator | RemoteEnd

definition marker_kind_of :: "string \<Rightarrow> conflict_marker_kind option" where
  "marker_kind_of line =
     (let line = trim_start (trim_end_matches [CHR 0x0D] (trim_end_matches [LF] line))
      in if prefix ''<<<<<<<'' line then Some LocalStart
         else if trim_end line = CONFLICT_SEPARATOR_MARKER then Some Separator
         else if prefix ''>>>>>>>'' line then Some RemoteEnd
         else None)"

text \<open>The loop of \<open>unresolved_conflict_marker_line\<close>: the line of the last opening marker and
  whether a separator followed it.\<close>

fun unresolved_scan :: "string list \<Rightarrow> usize \<Rightarrow> usize option \<Rightarrow> bool \<Rightarrow> usize option" where
  "unresolved_scan [] index start saw_separator = None"
| "unresolved_scan (line # lines) index start saw_separator =
     (let line = trim_start (trim_end_matches [CHR 0x0D] line)
      in if prefix ''<<<<<<<'' line then unresolved_scan lines (index + 1) (Some (index + 1)) False
         else if start \<noteq> None \<and> trim_end line = CONFLICT_SEPARATOR_MARKER
         then unresolved_scan lines (index + 1) start True
         else if start \<noteq> None \<and> saw_separator \<and> prefix ''>>>>>>>'' line then start
         else unresolved_scan lines (index + 1) start saw_separator)"

definition unresolved_conflict_marker_line :: "string \<Rightarrow> usize option" where
  "unresolved_conflict_marker_line contents = unresolved_scan (str_lines contents) 0 None False"

definition has_unresolved_conflict_markers :: "string \<Rightarrow> bool" where
  "has_unresolved_conflict_markers contents \<longleftrightarrow> unresolved_conflict_marker_line contents \<noteq> None"

fun nested_scan :: "string list \<Rightarrow> usize \<Rightarrow> bool" where
  "nested_scan [] depth = False"
| "nested_scan (line # lines) depth =
     (case marker_kind_of line of
        Some LocalStart \<Rightarrow> if depth > 0 then True else nested_scan lines (depth + 1)
      | Some Separator \<Rightarrow> nested_scan lines depth
      | Some RemoteEnd \<Rightarrow> nested_scan lines (depth - 1)
      | None \<Rightarrow> nested_scan lines depth)"

definition has_nested_conflict_markers :: "string \<Rightarrow> bool" where
  "has_nested_conflict_markers contents \<longleftrightarrow> nested_scan (str_lines contents) 0"

section \<open>The local side\<close>

datatype marker_parse_state = Local | Remote

text \<open>The stack holds the innermost open block at its head. The result is the collected output
  and the final \<open>saw_conflict\<close> and stack, or \<open>None\<close> where the loop returns early.\<close>

fun local_scan :: "string list \<Rightarrow> string \<Rightarrow> bool \<Rightarrow> marker_parse_state list
    \<Rightarrow> (string \<times> bool \<times> marker_parse_state list) option" where
  "local_scan [] output saw_conflict stack = Some (output, saw_conflict, stack)"
| "local_scan (line # lines) output saw_conflict stack =
     (case marker_kind_of line of
        Some LocalStart \<Rightarrow> local_scan lines output True (Local # stack)
      | Some Separator \<Rightarrow>
          (case stack of
             Local # rest \<Rightarrow> local_scan lines output saw_conflict (Remote # rest)
           | _ \<Rightarrow> None)
      | Some RemoteEnd \<Rightarrow>
          (case stack of
             Remote # rest \<Rightarrow> local_scan lines output saw_conflict rest
           | _ \<Rightarrow> None)
      | None \<Rightarrow>
          if list_all (\<lambda>state. state = Local) stack
          then local_scan lines (output @ line) saw_conflict stack
          else local_scan lines output saw_conflict stack)"

definition local_body_from_conflict_markers :: "string \<Rightarrow> string option" where
  "local_body_from_conflict_markers body =
     (case local_scan (split_inclusive LF body) [] False [] of
        None \<Rightarrow> None
      | Some (output, saw_conflict, stack) \<Rightarrow>
          if stack \<noteq> [] \<or> \<not> saw_conflict then None else Some output)"

definition local_version_from_conflict_markers :: "'n yaml_lib \<Rightarrow> string \<Rightarrow> string option" where
  "local_version_from_conflict_markers Y contents =
     (case parse_canonical_markdown Y contents of
        Inl _ \<Rightarrow> None
      | Inr parsed \<Rightarrow>
          (case local_body_from_conflict_markers (cd_body (pd_document parsed)) of
             None \<Rightarrow> None
           | Some body \<Rightarrow>
               Some (render_canonical_markdown (cd_new (cd_frontmatter (pd_document parsed)) body))))"

section \<open>Lines of a hunk\<close>

lemma marker_lines [simp]:
  "marker_kind_of (CONFLICT_LOCAL_MARKER @ [LF]) = Some LocalStart"
  "marker_kind_of (CONFLICT_SEPARATOR_MARKER @ [LF]) = Some Separator"
  "marker_kind_of (CONFLICT_REMOTE_MARKER @ [LF]) = Some RemoteEnd"
  by code_simp+

lemma marker_full_lines:
  "full_line LF (CONFLICT_LOCAL_MARKER @ [LF])"
  "full_line LF (CONFLICT_SEPARATOR_MARKER @ [LF])"
  "full_line LF (CONFLICT_REMOTE_MARKER @ [LF])"
  by (simp_all add: full_line_def CONFLICT_LOCAL_MARKER_def CONFLICT_SEPARATOR_MARKER_def
      CONFLICT_REMOTE_MARKER_def LF_def)

lemma marker_kind_of_terminated: "marker_kind_of (l @ [LF]) = marker_kind_of l"
  by (simp add: marker_kind_of_def trim_end_matches_def)

lemma full_line_LF: "full_line LF l \<Longrightarrow> suffix [LF] l \<and> l \<noteq> []"
  by (auto simp: full_line_def suffix_def)

text \<open>The lines of a marker section: the last one is terminated.\<close>

definition terminated_lines :: "string list \<Rightarrow> string list" where
  "terminated_lines ls =
     (if ls \<noteq> [] \<and> \<not> full_line LF (last ls) then butlast ls @ [last ls @ [LF]] else ls)"

lemma terminated_lines_concat:
  assumes "line_seq LF ls"
  shows "push_marker_lines ls = concat (terminated_lines ls)"
proof (cases "ls = []")
  case False
  then obtain ks k where ls: "ls = ks @ [k]" by (cases ls rule: rev_cases) auto
  with assms have "full_line LF k \<or> k \<noteq> [] \<and> LF \<notin> set k" by (simp add: line_seq_def)
  then show ?thesis
  proof
    assume "full_line LF k"
    then show ?thesis
      by (simp add: push_marker_lines_def push_marker_section_def terminated_lines_def ls
          full_line_LF suffix_appendI)
  next
    assume k: "k \<noteq> [] \<and> LF \<notin> set k"
    then have "\<not> full_line LF k" by (auto simp: full_line_def)
    moreover have "\<not> suffix [LF] (concat ks @ k)"
      using k by (cases k rule: rev_cases) (auto simp: suffix_def)
    ultimately show ?thesis
      using k by (simp add: push_marker_lines_def push_marker_section_def terminated_lines_def ls)
  qed
qed (simp add: push_marker_lines_def push_marker_section_def terminated_lines_def)

lemma terminated_lines_full:
  assumes "line_seq LF ls"
  shows "list_all (full_line LF) (terminated_lines ls)"
proof (cases ls rule: rev_cases)
  case (snoc ks k)
  with assms have "list_all (full_line LF) ks" "full_line LF k \<or> k \<noteq> [] \<and> LF \<notin> set k"
    by (simp_all add: line_seq_def list_all_iff)
  then show ?thesis
    by (auto simp: terminated_lines_def snoc full_line_def)
qed (simp add: terminated_lines_def)

lemma terminated_lines_kinds:
  "list_all (\<lambda>l. marker_kind_of l = k) ls \<Longrightarrow>
   list_all (\<lambda>l. marker_kind_of l = k) (terminated_lines ls)"
  by (cases ls rule: rev_cases) (auto simp: terminated_lines_def marker_kind_of_terminated)

lemma line_seq_full: "list_all (full_line c) ls \<Longrightarrow> line_seq c ls"
  by (auto simp: line_seq_def list_all_iff dest: in_set_butlastD)

lemma line_seq_full_append:
  assumes "list_all (full_line c) ls" "line_seq c ms"
  shows "line_seq c (ls @ ms)"
proof (rule line_seq_append[OF line_seq_full[OF assms(1)] assms(2)])
  assume "ls \<noteq> []"
  with assms(1) show "full_line c (last ls)" by (simp add: list_all_iff)
qed

lemma line_seq_drop: "line_seq c ls \<Longrightarrow> line_seq c (drop n ls)"
  by (auto simp: line_seq_def butlast_drop dest: in_set_dropD)

lemma line_seq_take:
  assumes "line_seq c ls"
  shows "line_seq c (take n ls)"
proof (cases "n < length ls")
  case True
  then have "set (take n ls) \<subseteq> set (butlast ls)"
    by (metis butlast_conv_take set_take_subset_set_take diff_Suc_1 Suc_leI Suc_diff_1 less_Suc_eq_le
        length_greater_0_conv list.size(3) not_less_zero)
  with assms have "list_all (full_line c) (take n ls)" by (auto simp: line_seq_def list_all_iff)
  then show ?thesis by (rule line_seq_full)
qed (use assms in simp)

lemma line_seq_slice: "line_seq c ls \<Longrightarrow> line_seq c (slice ls a b)"
  by (simp add: slice_def line_seq_take line_seq_drop)


text \<open>Where the two cursors of the hunk end up.\<close>

lemma common_prefix_len_le:
  "common_prefix_len ls rs \<le> length ls" "common_prefix_len ls rs \<le> length rs"
  by (induction ls rs rule: common_prefix_len.induct) auto

lemma common_prefix_take:
  "take (common_prefix_len ls rs) ls = take (common_prefix_len ls rs) rs"
  by (induction ls rs rule: common_prefix_len.induct) auto

lemma common_suffix_bounds:
  assumes "common_suffix_starts local remote p ls rs = (a, b)" "p \<le> ls" "p \<le> rs"
    "ls \<le> length local" "rs \<le> length remote" "drop ls local = drop rs remote"
  shows "p \<le> a \<and> a \<le> ls \<and> p \<le> b \<and> b \<le> rs \<and> drop a local = drop b remote"
  using assms
proof (induction local remote p ls rs rule: common_suffix_starts.induct)
  case (1 local remote p ls rs)
  show ?case
  proof (cases "ls > p \<and> rs > p \<and> local ! (ls - 1) = remote ! (rs - 1)")
    case True
    then obtain l r where lr: "ls = Suc l" "rs = Suc r" by (metis gr0_implies_Suc less_nat_zero_code
        not_gr_zero)
    have rec: "common_suffix_starts local remote p (ls - 1) (rs - 1) = (a, b)"
      using "1.prems"(1) True by (subst (asm) common_suffix_starts.simps) simp
    have "drop l local = local ! l # drop ls local" "drop r remote = remote ! r # drop rs remote"
      using lr "1.prems"(4,5) by (simp_all add: Cons_nth_drop_Suc)
    with True lr "1.prems" have "drop (ls - 1) local = drop (rs - 1) remote" by simp
    from "1.IH"[OF True rec _ _ _ _ this] True "1.prems" lr show ?thesis by auto
  next
    case False
    then show ?thesis using "1.prems" by (subst (asm) common_suffix_starts.simps) auto
  qed
qed

definition marker_free :: "string \<Rightarrow> bool" where
  "marker_free body \<longleftrightarrow> list_all (\<lambda>l. marker_kind_of l = None) (split_lines body)"

text \<open>A hunk of two different bodies, line by line.\<close>

lemma hunk_shape:
  assumes "local \<noteq> remote"
  obtains pre mid rmid suf where
    "split_lines local = pre @ mid @ suf" "split_lines remote = pre @ rmid @ suf"
    "split_lines (render_conflict_hunk local remote) =
       pre @ [CONFLICT_LOCAL_MARKER @ [LF]] @ terminated_lines mid
           @ [CONFLICT_SEPARATOR_MARKER @ [LF]] @ terminated_lines rmid
           @ [CONFLICT_REMOTE_MARKER @ [LF]] @ suf"
    "render_conflict_hunk local remote =
       concat pre @ CONFLICT_LOCAL_MARKER @ [LF] @ push_marker_lines mid
           @ CONFLICT_SEPARATOR_MARKER @ [LF] @ push_marker_lines rmid
           @ CONFLICT_REMOTE_MARKER @ [LF] @ concat suf"
    "line_seq LF mid" "suf \<noteq> [] \<Longrightarrow> list_all (full_line LF) mid"
    "length pre = common_prefix_len (split_lines local) (split_lines remote)"
proof -
  define ll rl where "ll = split_lines local" and "rl = split_lines remote"
  have seq: "line_seq LF ll" "line_seq LF rl"
    by (simp_all add: ll_def rl_def split_lines_def line_seq_split_inclusive)
  have ne: "ll \<noteq> rl"
    using assms concat_split_inclusive unfolding ll_def rl_def split_lines_def by metis
  define p where "p = common_prefix_len ll rl"
  obtain a b where ab: "common_suffix_starts ll rl p (length ll) (length rl) = (a, b)" by fastforce
  have B: "p \<le> a" "a \<le> length ll" "p \<le> b" "b \<le> length rl" "drop a ll = drop b rl"
    using common_suffix_bounds[OF ab] common_prefix_len_le[of ll rl] by (simp_all add: p_def)
  define pre mid rmid suf where "pre = take p ll" and "mid = slice ll p a"
    and "rmid = slice rl p b" and "suf = drop a ll"
  have pre: "pre = take p rl" unfolding pre_def p_def by (rule common_prefix_take)
  have L: "ll = pre @ mid @ suf"
    using B by (simp add: pre_def mid_def suf_def slice_def)
      (metis append_take_drop_id drop_drop le_add_diff_inverse2)
  have R: "rl = pre @ rmid @ suf"
    using B by (simp add: pre rmid_def suf_def slice_def)
      (metis append_take_drop_id drop_drop le_add_diff_inverse2)
  have seqs: "line_seq LF mid" "line_seq LF rmid" "line_seq LF suf"
    using seq by (simp_all add: mid_def rmid_def suf_def line_seq_slice line_seq_drop)
  have full_pre: "list_all (full_line LF) pre"
  proof (cases "mid @ suf = []")
    case True
    with L R ne have "rmid @ suf \<noteq> []" by auto
    then have "set pre \<subseteq> set (butlast rl)" by (auto simp: R butlast_append)
    with seq(2) show ?thesis by (auto simp: line_seq_def list_all_iff)
  next
    case False
    then have "set pre \<subseteq> set (butlast ll)" by (auto simp: L butlast_append)
    with seq(1) show ?thesis by (auto simp: line_seq_def list_all_iff)
  qed
  have full_mid: "list_all (full_line LF) mid" if "suf \<noteq> []"
  proof -
    have "set mid \<subseteq> set (butlast ll)" using that by (auto simp: L butlast_append)
    with seq(1) show ?thesis by (auto simp: line_seq_def list_all_iff)
  qed
  let ?H = "pre @ [CONFLICT_LOCAL_MARKER @ [LF]] @ terminated_lines mid
           @ [CONFLICT_SEPARATOR_MARKER @ [LF]] @ terminated_lines rmid
           @ [CONFLICT_REMOTE_MARKER @ [LF]]"
  have rendered: "render_conflict_hunk local remote =
       concat pre @ CONFLICT_LOCAL_MARKER @ [LF] @ push_marker_lines mid
           @ CONFLICT_SEPARATOR_MARKER @ [LF] @ push_marker_lines rmid
           @ CONFLICT_REMOTE_MARKER @ [LF] @ concat suf"
    using assms ab unfolding render_conflict_hunk_def Let_def ll_def[symmetric] rl_def[symmetric]
      p_def[symmetric]
    by (simp add: push_lines_def pre_def mid_def rmid_def suf_def slice_def[of _ 0])
  then have H: "render_conflict_hunk local remote = concat (?H @ suf)"
    using seqs by (simp add: terminated_lines_concat)
  have "list_all (full_line LF) ?H"
    using full_pre terminated_lines_full[OF seqs(1)] terminated_lines_full[OF seqs(2)]
      marker_full_lines by simp
  then have "line_seq LF (?H @ suf)"
    using seqs(3) by (rule line_seq_full_append)
  then have "split_lines (render_conflict_hunk local remote) = ?H @ suf"
    unfolding H split_lines_def by (rule split_inclusive_concat)
  moreover have "length pre = p" using B by (simp add: pre_def)
  ultimately show thesis
    using L R rendered seqs(1) full_mid by (intro that) (simp_all add: ll_def rl_def p_def)
qed

section \<open>The local side of a hunk\<close>

lemma local_scan_append:
  "local_scan (xs @ ys) out saw st =
     Option.bind (local_scan xs out saw st) (\<lambda>(out', saw', st'). local_scan ys out' saw' st')"
  by (induction xs out saw st rule: local_scan.induct)
    (auto split: option.splits conflict_marker_kind.splits list.splits marker_parse_state.splits)

lemma local_scan_plain:
  "list_all (\<lambda>l. marker_kind_of l = None) ls \<Longrightarrow>
   local_scan ls out saw st =
     Some (out @ (if list_all (\<lambda>s. s = Local) st then concat ls else []), saw, st)"
  by (induction ls arbitrary: out) auto

lemma hunk_local_side:
  assumes "local \<noteq> remote" "marker_free local" "marker_free remote"
  shows "local_body_from_conflict_markers (render_conflict_hunk local remote) = Some local \<or>
     local \<noteq> [] \<and> \<not> suffix [LF] local \<and>
     local_body_from_conflict_markers (render_conflict_hunk local remote) = Some (local @ [LF])"
proof -
  obtain pre mid rmid suf where
    L: "split_lines local = pre @ mid @ suf" and R: "split_lines remote = pre @ rmid @ suf" and
    H: "split_lines (render_conflict_hunk local remote) =
       pre @ [CONFLICT_LOCAL_MARKER @ [LF]] @ terminated_lines mid
           @ [CONFLICT_SEPARATOR_MARKER @ [LF]] @ terminated_lines rmid
           @ [CONFLICT_REMOTE_MARKER @ [LF]] @ suf"
    and mid: "line_seq LF mid" "suf \<noteq> [] \<Longrightarrow> list_all (full_line LF) mid"
    using hunk_shape[OF assms(1)] by metis
  have free: "list_all (\<lambda>l. marker_kind_of l = None) pre"
      "list_all (\<lambda>l. marker_kind_of l = None) (terminated_lines mid)"
      "list_all (\<lambda>l. marker_kind_of l = None) (terminated_lines rmid)"
      "list_all (\<lambda>l. marker_kind_of l = None) suf"
    using assms(2,3) by (simp_all add: marker_free_def L R terminated_lines_kinds)
  have "local_scan (split_lines (render_conflict_hunk local remote)) [] False [] =
      Some (concat pre @ concat (terminated_lines mid) @ concat suf, True, [])"
    using free unfolding H by (simp add: local_scan_append local_scan_plain)
  then have res: "local_body_from_conflict_markers (render_conflict_hunk local remote) =
      Some (concat pre @ push_marker_lines mid @ concat suf)"
    by (simp add: local_body_from_conflict_markers_def split_lines_def
        terminated_lines_concat[OF mid(1)])
  have loc: "local = concat pre @ concat mid @ concat suf"
    using arg_cong[OF L, of concat] by (simp add: split_lines_def)
  show ?thesis
  proof (cases "concat mid \<noteq> [] \<and> \<not> suffix [LF] (concat mid)")
    case True
    have "suf = []"
    proof (rule ccontr)
      assume "suf \<noteq> []"
      with mid(2) have "list_all (full_line LF) mid" by simp
      with True show False
        by (cases mid rule: rev_cases) (auto simp: full_line_LF suffix_appendI)
    qed
    moreover from True obtain m c where "concat mid = m @ [c]" "c \<noteq> LF"
      by (cases "concat mid" rule: rev_cases) (auto simp: suffix_def)
    ultimately show ?thesis
      using res loc by (auto simp: push_marker_lines_def push_marker_section_def suffix_def)
  next
    case False
    with res loc show ?thesis by (auto simp: push_marker_lines_def push_marker_section_def)
  qed
qed


text \<open>C21: the local version is never lost in a conflict. For two different bodies without
  conflict markers of their own, recovering the local side of the rendered hunk gives the local
  body back, up to a line feed after a last line that had none.\<close>

theorem hunk_recovers_local:
  assumes "local \<noteq> remote" "marker_free local" "marker_free remote"
  shows "\<exists>nl. local_body_from_conflict_markers (render_conflict_marker_body local remote) =
           Some (local @ nl) \<and> (nl = [] \<or> nl = [LF] \<and> local \<noteq> [] \<and> \<not> suffix [LF] local)"
  using hunk_local_side[OF assms] unfolding render_conflict_marker_body_def by fastforce

theorem hunk_recovers_local_witness:
  "\<exists>nl. local_body_from_conflict_markers
          (render_conflict_marker_body (''a'' @ [LF] @ ''b'') (''a'' @ [LF] @ ''c'' @ [LF])) =
           Some ((''a'' @ [LF] @ ''b'') @ nl) \<and> (nl = [] \<or> nl = [LF] \<and> (''a'' @ [LF] @ ''b'') \<noteq> []
             \<and> \<not> suffix [LF] (''a'' @ [LF] @ ''b''))"
  by (rule hunk_recovers_local) (code_simp+)

section \<open>Finding the markers of a hunk\<close>

text \<open>\<open>unresolved_conflict_marker_line\<close> reads lines without their terminators; on the lines of a
  body it makes the same distinctions as \<open>conflict_marker_kind\<close>.\<close>

lemma strip_line_kind:
  assumes "full_line LF l \<or> LF \<notin> set l"
  shows "trim_end_matches [CHR 0x0D] (strip_line l) =
         trim_end_matches [CHR 0x0D] (trim_end_matches [LF] l)"
  using assms
proof
  assume "full_line LF l"
  then obtain b where l: "l = b @ [LF]" and b: "LF \<notin> set b" by (auto simp: full_line_def)
  have "trim_end_matches [LF] l = b"
    using b by (cases b rule: rev_cases) (auto simp: l trim_end_matches_def)
  moreover have "trim_end_matches [CHR 0x0D] (strip_line l) = trim_end_matches [CHR 0x0D] b"
    by (cases b rule: rev_cases)
      (auto simp: l strip_line_def strip_suffix_def trim_end_matches_def suffix_def LF_def)
  ultimately show ?thesis by simp
next
  assume "LF \<notin> set l"
  then have "trim_end_matches [LF] l = l" "strip_line l = l"
    by (cases l rule: rev_cases;
        auto simp: trim_end_matches_def strip_line_def strip_suffix_def suffix_def LF_def)+
  then show ?thesis by simp
qed

fun kind_scan :: "conflict_marker_kind option list \<Rightarrow> usize \<Rightarrow> usize option \<Rightarrow> bool \<Rightarrow> usize option" where
  "kind_scan [] i st sep = None"
| "kind_scan (k # ks) i st sep =
     (case k of
        Some LocalStart \<Rightarrow> kind_scan ks (i + 1) (Some (i + 1)) False
      | Some Separator \<Rightarrow> kind_scan ks (i + 1) st (sep \<or> st \<noteq> None)
      | Some RemoteEnd \<Rightarrow> if st \<noteq> None \<and> sep then st else kind_scan ks (i + 1) st sep
      | None \<Rightarrow> kind_scan ks (i + 1) st sep)"

lemma separator_not_remote: "trim_end l = CONFLICT_SEPARATOR_MARKER \<Longrightarrow> \<not> prefix ''>>>>>>>'' l"
proof
  assume t: "trim_end l = CONFLICT_SEPARATOR_MARKER" and p: "prefix ''>>>>>>>'' l"
  from p obtain r where "l = [] @ CHR 0x3E # (''>>>>>>'' @ r)" by (auto simp: prefix_def)
  then have "hd (trim_end l) = CHR 0x3E"
    using trim_end_hd[of "CHR 0x3E" "[]"] by (simp add: plain_byte_def ascii_ws_def)
  with t show False by (simp add: CONFLICT_SEPARATOR_MARKER_def)
qed

lemma unresolved_scan_kinds:
  assumes "list_all (\<lambda>l. full_line LF l \<or> LF \<notin> set l) ls"
  shows "unresolved_scan (map strip_line ls) i st sep = kind_scan (map marker_kind_of ls) i st sep"
  using assms
proof (induction ls arbitrary: i st sep)
  case (Cons l ls)
  let ?t = "trim_start (trim_end_matches [CHR 0x0D] (trim_end_matches [LF] l))"
  have eq: "trim_end_matches [CHR 0x0D] (strip_line l) =
        trim_end_matches [CHR 0x0D] (trim_end_matches [LF] l)"
    using Cons.prems by (intro strip_line_kind) simp
  have IH: "unresolved_scan (map strip_line ls) i st sep = kind_scan (map marker_kind_of ls) i st sep"
    for i st sep using Cons by simp
  have kind: "marker_kind_of l =
      (if prefix ''<<<<<<<'' ?t then Some LocalStart
       else if trim_end ?t = CONFLICT_SEPARATOR_MARKER then Some Separator
       else if prefix ''>>>>>>>'' ?t then Some RemoteEnd else None)"
    by (simp add: marker_kind_of_def)
  show ?case
    by (cases "prefix ''<<<<<<<'' ?t"; cases "trim_end ?t = CONFLICT_SEPARATOR_MARKER";
        cases "prefix ''>>>>>>>'' ?t"; cases "st = None")
      (auto simp: eq IH kind dest: separator_not_remote)
qed simp

lemma line_pieces: "list_all (\<lambda>l. full_line c l \<or> c \<notin> set l) (split_inclusive c s)"
proof -
  have "line_seq c (split_inclusive c s)" by (rule line_seq_split_inclusive)
  then show ?thesis
    by (cases "split_inclusive c s" rule: rev_cases) (auto simp: line_seq_def list_all_iff)
qed

lemma unresolved_line_kinds:
  "unresolved_conflict_marker_line s = kind_scan (map marker_kind_of (split_lines s)) 0 None False"
  using unresolved_scan_kinds[OF line_pieces]
  by (simp add: unresolved_conflict_marker_line_def str_lines_def split_lines_def LF_def)

lemma kind_scan_plain:
  "list_all (\<lambda>k. k = None) ks \<Longrightarrow>
   kind_scan (ks @ ks') i st sep = kind_scan ks' (i + length ks) st sep"
  by (induction ks arbitrary: i) auto

text \<open>C22: a rendered conflict hunk of two marker-free bodies is found by the check that blocks a
  push, at the line after the common first lines.\<close>

theorem hunk_detected:
  assumes "local \<noteq> remote" "marker_free local" "marker_free remote"
  shows "unresolved_conflict_marker_line (render_conflict_marker_body local remote) =
    Some (common_prefix_len (split_lines local) (split_lines remote) + 1)"
proof -
  obtain pre mid rmid suf where
    L: "split_lines local = pre @ mid @ suf" and R: "split_lines remote = pre @ rmid @ suf" and
    H: "split_lines (render_conflict_hunk local remote) =
       pre @ [CONFLICT_LOCAL_MARKER @ [LF]] @ terminated_lines mid
           @ [CONFLICT_SEPARATOR_MARKER @ [LF]] @ terminated_lines rmid
           @ [CONFLICT_REMOTE_MARKER @ [LF]] @ suf"
    and p: "length pre = common_prefix_len (split_lines local) (split_lines remote)"
    using hunk_shape[OF assms(1)] by metis
  have free: "list_all (\<lambda>k. k = None) (map marker_kind_of pre)"
      "list_all (\<lambda>k. k = None) (map marker_kind_of (terminated_lines mid))"
      "list_all (\<lambda>k. k = None) (map marker_kind_of (terminated_lines rmid))"
    using assms(2,3) terminated_lines_kinds[of None mid] terminated_lines_kinds[of None rmid]
    by (simp_all add: marker_free_def L R list_all_iff)
  show ?thesis
    using free p unfolding render_conflict_marker_body_def unresolved_line_kinds H
    by (simp add: kind_scan_plain)
qed

theorem hunk_detected_witness:
  "unresolved_conflict_marker_line
     (render_conflict_marker_body (''a'' @ [LF] @ ''b'') (''a'' @ [LF] @ ''c'' @ [LF])) =
    Some (common_prefix_len (split_lines (''a'' @ [LF] @ ''b''))
      (split_lines (''a'' @ [LF] @ ''c'' @ [LF])) + 1)"
  by (rule hunk_detected) (code_simp+)

text \<open>A remote body that itself has a line starting with an opening marker hides the hunk: the
  scan restarts at that line and finds no separator after it.\<close>

lemma hunk_with_opening_marker_undetected:
  "has_unresolved_conflict_markers
     (render_conflict_marker_body (''a'' @ [LF]) (''<<<<<<< x'' @ [LF])) = False"
  by code_simp

end
