(* ===== verification/Validation.thy ===== *)
theory Validation
  imports Canonical
begin

text \<open>
  \<open>locality-core/src/validation.rs\<close>: validation issues and reports, the frontmatter identity and
  directive syntax checks that gate a push, and the directive integrity check with its
  classification of directive changes. The lemmas characterise the clean reports and show that
  the integrity check and the classification agree.
\<close>

record validation_issue =
  vi_code :: string
  vi_file :: path
  vi_line :: "usize option"
  vi_message :: string
  vi_suggested_fix :: "string option"

record validation_report =
  issues :: "validation_issue list"

definition vi_new ::
  "string \<Rightarrow> path \<Rightarrow> usize option \<Rightarrow> string \<Rightarrow> string option \<Rightarrow> validation_issue" where
  "vi_new code file line message fix =
     \<lparr>vi_code = code, vi_file = file, vi_line = line, vi_message = message,
      vi_suggested_fix = fix\<rparr>"

definition report_clean :: validation_report where
  "report_clean = \<lparr>issues = []\<rparr>"

definition is_clean :: "validation_report \<Rightarrow> bool" where
  "is_clean r \<longleftrightarrow> issues r = []"

definition report_push :: "validation_report \<Rightarrow> validation_issue \<Rightarrow> validation_report" where
  "report_push r i = r\<lparr>issues := issues r @ [i]\<rparr>"

definition report_extend :: "validation_report \<Rightarrow> validation_report \<Rightarrow> validation_report" where
  "report_extend r other = r\<lparr>issues := issues r @ issues other\<rparr>"

lemma is_clean_extend [simp]: "is_clean (report_extend r q) \<longleftrightarrow> is_clean r \<and> is_clean q"
  by (simp add: is_clean_def report_extend_def)

lemma is_clean_clean [simp]: "is_clean report_clean"
  by (simp add: is_clean_def report_clean_def)

lemma not_clean_push [simp]: "\<not> is_clean (report_push r i)"
  by (simp add: is_clean_def report_push_def)

text \<open>The private helper \<open>issue\<close> of the module.\<close>

definition core_issue ::
  "string \<Rightarrow> path \<Rightarrow> usize option \<Rightarrow> string \<Rightarrow> string \<Rightarrow> validation_issue" where
  "core_issue code file line message fix =
     \<lparr>vi_code = code, vi_file = file, vi_line = line, vi_message = message,
      vi_suggested_fix = Some fix\<rparr>"

section \<open>Frontmatter identity\<close>

definition validate_frontmatter_identity ::
  "'n parsed_canonical_document \<Rightarrow> path \<Rightarrow> validation_report" where
  "validate_frontmatter_identity parsed file =
     (case fm_loc (pd_frontmatter parsed) of
        None \<Rightarrow>
          report_push report_clean
            (core_issue ''frontmatter_missing_loc'' file (Some 1)
               ''frontmatter is missing the `loc` identity block''
               ''restore the generated `loc` frontmatter block before pushing'')
      | Some loc \<Rightarrow>
          \<lparr>issues =
             (if lm_id loc = None then
                [core_issue ''frontmatter_missing_loc_id'' file (Some 1)
                   ''frontmatter is missing `loc.id`''
                   ''restore the generated remote id before pushing''] else [])
             @ (case lm_entity_type loc of
                  None \<Rightarrow>
                    [core_issue ''frontmatter_missing_loc_type'' file (Some 1)
                       ''frontmatter is missing `loc.type`''
                       ''restore the generated entity type before pushing'']
                | Some (UnknownKind entity_type) \<Rightarrow>
                    [core_issue ''frontmatter_unknown_loc_type'' file (Some 1)
                       (''frontmatter has unknown `loc.type` value `'' @ entity_type @ ''`'')
                       ''use a supported Locality entity type'']
                | Some _ \<Rightarrow> [])
             @ (if lm_synced_at loc = None then
                  [core_issue ''frontmatter_missing_synced_at'' file (Some 1)
                     ''frontmatter is missing `loc.synced_at`''
                     ''restore the generated sync timestamp before pushing''] else [])
             @ (if lm_remote_edited_at loc = None then
                  [core_issue ''frontmatter_missing_remote_edited_at'' file (Some 1)
                     ''frontmatter is missing `loc.remote_edited_at`''
                     ''restore the generated remote edit timestamp before pushing''] else [])
             @ (if (case fm_title (pd_frontmatter parsed) of
                      None \<Rightarrow> True | Some title \<Rightarrow> is_blank title) then
                  [core_issue ''frontmatter_missing_title'' file (Some 1)
                     ''frontmatter is missing `title`''
                     ''restore the page title in frontmatter before pushing''] else [])\<rparr>)"

section \<open>Directive syntax\<close>

definition directive_fix :: string where
  "directive_fix = ''restore the directive line exactly or delete it to delete the block''"

definition directive_syntax_issues :: "path \<Rightarrow> directive \<Rightarrow> validation_issue list" where
  "directive_syntax_issues file d =
     (if dir_malformed d then
        [core_issue ''directive_malformed'' file (Some (dir_line d))
           ''Locality directive syntax is malformed'' directive_fix]
      else
        (if dir_remote_id d = None then
           [core_issue ''directive_missing_id'' file (Some (dir_line d))
              ''Locality directive is missing an `id` attribute'' directive_fix] else [])
        @ (if dir_directive_type d = None then
             [core_issue ''directive_missing_type'' file (Some (dir_line d))
                ''Locality directive is missing a `type` attribute'' directive_fix] else []))"

definition validate_directive_syntax ::
  "'n parsed_canonical_document \<Rightarrow> path \<Rightarrow> validation_report" where
  "validate_directive_syntax parsed file =
     \<lparr>issues = concat (map (directive_syntax_issues file) (pd_directives parsed))\<rparr>"

section \<open>Directive integrity\<close>

datatype directive_integrity = Intact | Moved | Deleted | Mangled

text \<open>\<open>directives_by_id\<close>: for a repeated id the last block wins, as collecting into a map does.\<close>

definition directives_by_id :: "canonical_document \<Rightarrow> (remote_id, canonical_block) btree_map" where
  "directives_by_id d =
     bm_collect (List.map_filter
       (\<lambda>b. map_option (\<lambda>(i, _, _). (i, b)) (directive_parts b)) (cd_blocks d))"

definition is_directive_block :: "canonical_block \<Rightarrow> bool" where
  "is_directive_block b \<longleftrightarrow> (case cb_kind b of DirectiveBlock _ _ \<Rightarrow> True | _ \<Rightarrow> False)"

definition block_start_line :: "canonical_block \<Rightarrow> usize option" where
  "block_start_line b = map_option start_line (cb_source_span b)"

text \<open>The issue one edited directive block raises.\<close>

definition integrity_issue ::
  "(remote_id, canonical_block) btree_map \<Rightarrow> path \<Rightarrow> canonical_block \<Rightarrow> validation_issue option"
where
  "integrity_issue shadow_directives file block =
     (case directive_parts block of
        None \<Rightarrow>
          Some (core_issue ''directive_missing_id'' file (block_start_line block)
            ''directive block is missing an Locality remote id''
            ''restore the directive from the shadow copy or remove it as an explicit delete'')
      | Some (remote_id, directive_type, raw) \<Rightarrow>
          (case bm_get shadow_directives remote_id of
             None \<Rightarrow>
               Some (core_issue ''directive_unknown'' file (block_start_line block)
                 (''directive anchor `'' @ remote_id_str remote_id @
                  ''` was not present in the synced shadow'')
                 ''remove invented directive anchors; create normal Markdown instead'')
           | Some shadow_block \<Rightarrow>
               (case directive_parts shadow_block of
                  None \<Rightarrow> None
                | Some (_, shadow_type, shadow_raw) \<Rightarrow>
                    if directive_type \<noteq> shadow_type \<or> raw \<noteq> shadow_raw then
                      Some (core_issue ''directive_mangled'' file (block_start_line block)
                        (''directive anchor `'' @ remote_id_str remote_id @ ''` was edited'')
                        ''restore the directive line exactly, move it as a whole line, or delete it to delete the block'')
                    else None)))"

definition validate_directive_integrity ::
  "canonical_document \<Rightarrow> canonical_document \<Rightarrow> path \<Rightarrow> validation_report" where
  "validate_directive_integrity shadow edited file =
     \<lparr>issues = List.map_filter (integrity_issue (directives_by_id shadow) file)
        (filter is_directive_block (cd_blocks edited))\<rparr>"

definition classify_directive_change ::
  "canonical_block \<Rightarrow> canonical_block option \<Rightarrow> directive_integrity" where
  "classify_directive_change shadow edited =
     (case (directive_parts shadow, Option.bind edited directive_parts) of
        (Some _, None) \<Rightarrow> Deleted
      | (Some (shadow_id, shadow_type, shadow_raw), Some (edited_id, edited_type, edited_raw)) \<Rightarrow>
          if shadow_id = edited_id \<and> shadow_type = edited_type \<and> shadow_raw = edited_raw then
            if cb_source_span shadow \<noteq> Option.bind edited cb_source_span then Moved else Intact
          else Mangled
      | _ \<Rightarrow> Intact)"

section \<open>What a clean report means\<close>

text \<open>The frontmatter check is clean exactly for a document whose \<open>loc\<close> block has an id, a
  known entity type and both timestamps, and whose title is not blank.\<close>

theorem frontmatter_identity_clean_iff:
  "is_clean (validate_frontmatter_identity p file) \<longleftrightarrow>
     (\<exists>loc. fm_loc (pd_frontmatter p) = Some loc
        \<and> lm_id loc \<noteq> None
        \<and> lm_entity_type loc \<in> {Some Page, Some Database, Some Directory, Some Asset}
        \<and> lm_synced_at loc \<noteq> None \<and> lm_remote_edited_at loc \<noteq> None)
     \<and> (\<exists>t. fm_title (pd_frontmatter p) = Some t \<and> \<not> is_blank t)"
proof (cases "fm_loc (pd_frontmatter p)")
  case None
  then show ?thesis by (simp add: validate_frontmatter_identity_def)
next
  case (Some loc)
  have kind: "(case lm_entity_type loc of None \<Rightarrow> False | Some (UnknownKind s) \<Rightarrow> False | Some _ \<Rightarrow> True)
      \<longleftrightarrow> lm_entity_type loc \<in> {Some Page, Some Database, Some Directory, Some Asset}"
    by (auto split: option.splits entity_kind.splits)
  show ?thesis
    unfolding kind[symmetric]
    by (auto simp: validate_frontmatter_identity_def is_clean_def Some
        split: option.splits entity_kind.splits)
qed

lemma directive_syntax_issues_Nil:
  "directive_syntax_issues file d = [] \<longleftrightarrow>
     \<not> dir_malformed d \<and> dir_remote_id d \<noteq> None \<and> dir_directive_type d \<noteq> None"
  by (simp add: directive_syntax_issues_def)

lemma directive_syntax_clean_iff:
  "is_clean (validate_directive_syntax p file) \<longleftrightarrow>
     list_all (\<lambda>d. \<not> dir_malformed d \<and> dir_remote_id d \<noteq> None \<and> dir_directive_type d \<noteq> None)
       (pd_directives p)"
  by (simp add: is_clean_def validate_directive_syntax_def directive_syntax_issues_Nil list_all_iff)

lemma directives_by_id_get:
  "bm_get (directives_by_id d) i = Some b \<Longrightarrow> \<exists>ty raw. directive_parts b = Some (i, ty, raw)"
  unfolding directives_by_id_def
  by (drule bm_get_in_set) (auto simp: List.map_filter_def)

text \<open>The integrity check accepts an edited document exactly when each of its directive
  blocks is the directive of that id in the shadow, left in place or moved as a whole line: the
  report and the change classification are two implementations of one rule.\<close>

theorem directive_integrity_clean_iff:
  "is_clean (validate_directive_integrity shadow edited file) \<longleftrightarrow>
     list_all (\<lambda>b. \<exists>i ty raw s. directive_parts b = Some (i, ty, raw)
         \<and> bm_get (directives_by_id shadow) i = Some s
         \<and> classify_directive_change s (Some b) \<in> {Intact, Moved})
       (filter is_directive_block (cd_blocks edited))"
proof -
  have one: "integrity_issue (directives_by_id shadow) file b = None \<longleftrightarrow>
      (\<exists>i ty raw s. directive_parts b = Some (i, ty, raw)
         \<and> bm_get (directives_by_id shadow) i = Some s
         \<and> classify_directive_change s (Some b) \<in> {Intact, Moved})" for b
  proof (cases "directive_parts b")
    case None
    then show ?thesis by (simp add: integrity_issue_def)
  next
    case parts: (Some p)
    obtain i ty raw where p: "p = (i, ty, raw)" by (cases p)
    show ?thesis
    proof (cases "bm_get (directives_by_id shadow) i")
      case None
      with parts p show ?thesis by (simp add: integrity_issue_def)
    next
      case (Some s)
      from directives_by_id_get[OF this] parts p Some show ?thesis
        by (auto simp: integrity_issue_def classify_directive_change_def split: if_splits)
    qed
  qed
  show ?thesis
    by (auto simp: is_clean_def validate_directive_integrity_def List.map_filter_def
        filter_empty_conv list_all_iff one)
qed

end
