(* ===== verification/Core_Error.thy ===== *)
theory Core_Error
  imports Conflict_Markers Validation
begin

text \<open>\<open>locality-core/src/error.rs\<close>: the error type every fallible operation of the core returns
  and its display form. A \<open>Duration\<close> is its number of nanoseconds.\<close>

datatype locality_error =
    EValidation "validation_issue list"
  | EConflict conflict_summary
  | EGuardrail string
  | ERemoteNotFound string
  | ERateLimited (err_provider: string) (err_retry_after: nat) (err_message: string)
  | EInvalidState string
  | EUpdateRequired (err_component: string) (err_found: int) (err_supported: int)
  | EUnsupported string
  | ENotImplemented string
  | EIo string

type_synonym 'a locality_result = "locality_error + 'a"

definition dec_int :: "int \<Rightarrow> string" where
  "dec_int i = (if i < 0 then ''-'' @ dec (nat (- i)) else dec (nat i))"

definition error_display :: "locality_error \<Rightarrow> string" where
  "error_display e =
     (case e of
        EValidation found_issues \<Rightarrow> dec (length found_issues) @ '' validation issue(s)''
      | EConflict conflict \<Rightarrow> ''conflict on '' @ path_display (cs_path conflict)
      | EGuardrail message \<Rightarrow> ''guardrail blocked push: '' @ message
      | ERemoteNotFound message \<Rightarrow> ''remote object not found: '' @ message
      | ERateLimited provider retry_after message \<Rightarrow>
          provider @ '' rate limited for '' @ dec (retry_after div 1000000) @ ''ms: '' @ message
      | EInvalidState message \<Rightarrow> ''invalid state: '' @ message
      | EUpdateRequired part found supported \<Rightarrow>
          ''update required for '' @ part @ '': found version '' @ dec_int found
          @ '', supported version '' @ dec_int supported
      | EUnsupported feature \<Rightarrow> ''unsupported feature: '' @ feature
      | ENotImplemented feature \<Rightarrow> ''not implemented: '' @ feature
      | EIo message \<Rightarrow> ''io error: '' @ message)"

end
