(* ===== verification/Planner.thy ===== *)
theory Planner
  imports BTree Core_Model
begin

text \<open>
  \<open>locality-core/src/planner.rs\<close>: push operations, their kinds and wire names, the plan with its
  summary, and the values the guardrails read. The lemmas relate every counter of the summary to
  the operations it counts and show when the 64-bit percentage test is the exact one.
\<close>

section \<open>Property values and operations\<close>

datatype property_value =
    PNull
  | PBool bool
  | PNumber string
  | PString string
  | PList "string list"
  | PArray "property_value list"
  | PObject "(string \<times> property_value) list"

datatype push_operation =
    UpdateBlock (op_block_id: remote_id) (op_content: string)
  | ReplaceBlock (op_block_id: remote_id) (op_content: string)
  | AppendBlock (op_parent_id: remote_id) (op_after: "remote_id option") (op_content: string)
  | MoveBlock (op_block_id: remote_id) (op_after: "remote_id option")
  | UpdateMedia (op_block_id: remote_id) (op_local_path: path) (op_caption: string)
  | ArchiveBlock (op_block_id: remote_id)
  | ArchiveEntity (op_entity_id: remote_id)
  | UpdateEntityBody (op_entity_id: remote_id) (op_body: string)
  | UpdateProperties (op_entity_id: remote_id) (op_properties: "(string, property_value) btree_map")
  | MoveEntity (op_entity_id: remote_id) (op_new_parent_id: remote_id)
      (op_new_parent_kind: entity_kind) (op_new_title: string) (op_projected_path: path)
  | CreateEntity (op_parent_id: remote_id) (op_parent_kind: "entity_kind option")
      (op_parent_workspace: bool) (op_title: string)
      (op_properties: "(string, property_value) btree_map") (op_body: string) (op_source_path: path)
  | CreateDatabase (op_parent_id: remote_id) (op_title: string) (op_schema: string)
      (op_source_path: path)

datatype push_operation_kind =
    KUpdateBlock | KReplaceBlock | KAppendBlock | KMoveBlock | KUpdateMedia | KArchiveBlock
  | KArchiveEntity | KUpdateEntityBody | KUpdateProperties | KMoveEntity | KCreateEntity
  | KCreateDatabase

definition kind_as_str :: "push_operation_kind \<Rightarrow> string" where
  "kind_as_str k =
     (case k of
        KUpdateBlock \<Rightarrow> ''update_block''
      | KReplaceBlock \<Rightarrow> ''replace_block''
      | KAppendBlock \<Rightarrow> ''append_block''
      | KMoveBlock \<Rightarrow> ''move_block''
      | KUpdateMedia \<Rightarrow> ''update_media''
      | KArchiveBlock \<Rightarrow> ''archive_block''
      | KArchiveEntity \<Rightarrow> ''archive_entity''
      | KUpdateEntityBody \<Rightarrow> ''update_entity_body''
      | KUpdateProperties \<Rightarrow> ''update_properties''
      | KMoveEntity \<Rightarrow> ''move_entity''
      | KCreateEntity \<Rightarrow> ''create_entity''
      | KCreateDatabase \<Rightarrow> ''create_database'')"

definition all_operation_kinds :: "push_operation_kind list" where
  "all_operation_kinds =
     [KUpdateBlock, KReplaceBlock, KAppendBlock, KMoveBlock, KUpdateMedia, KArchiveBlock,
      KArchiveEntity, KUpdateEntityBody, KUpdateProperties, KMoveEntity, KCreateEntity,
      KCreateDatabase]"

definition operation_kind :: "push_operation \<Rightarrow> push_operation_kind" where
  "operation_kind op =
     (case op of
        UpdateBlock _ _ \<Rightarrow> KUpdateBlock
      | ReplaceBlock _ _ \<Rightarrow> KReplaceBlock
      | AppendBlock _ _ _ \<Rightarrow> KAppendBlock
      | MoveBlock _ _ \<Rightarrow> KMoveBlock
      | UpdateMedia _ _ _ \<Rightarrow> KUpdateMedia
      | ArchiveBlock _ \<Rightarrow> KArchiveBlock
      | ArchiveEntity _ \<Rightarrow> KArchiveEntity
      | UpdateEntityBody _ _ \<Rightarrow> KUpdateEntityBody
      | UpdateProperties _ _ \<Rightarrow> KUpdateProperties
      | MoveEntity _ _ _ _ _ \<Rightarrow> KMoveEntity
      | CreateEntity _ _ _ _ _ _ _ \<Rightarrow> KCreateEntity
      | CreateDatabase _ _ _ _ \<Rightarrow> KCreateDatabase)"

section \<open>Plan summaries\<close>

record plan_summary =
  blocks_created :: usize
  blocks_updated :: usize
  blocks_replaced :: usize
  blocks_moved :: usize
  media_updated :: usize
  blocks_archived :: usize
  entities_created :: usize
  entities_archived :: usize
  entity_bodies_updated :: usize
  entities_moved :: usize
  properties_updated :: usize

definition plan_summary_default :: plan_summary where
  "plan_summary_default =
     \<lparr>blocks_created = 0, blocks_updated = 0, blocks_replaced = 0, blocks_moved = 0,
      media_updated = 0, blocks_archived = 0, entities_created = 0, entities_archived = 0,
      entity_bodies_updated = 0, entities_moved = 0, properties_updated = 0\<rparr>"

definition summary_add :: "push_operation \<Rightarrow> plan_summary \<Rightarrow> plan_summary" where
  "summary_add operation s =
     (case operation of
        UpdateBlock _ _ \<Rightarrow> s\<lparr>blocks_updated := blocks_updated s + 1\<rparr>
      | ReplaceBlock _ _ \<Rightarrow> s\<lparr>blocks_replaced := blocks_replaced s + 1\<rparr>
      | AppendBlock _ _ _ \<Rightarrow> s\<lparr>blocks_created := blocks_created s + 1\<rparr>
      | MoveBlock _ _ \<Rightarrow> s\<lparr>blocks_moved := blocks_moved s + 1\<rparr>
      | UpdateMedia _ _ _ \<Rightarrow> s\<lparr>media_updated := media_updated s + 1\<rparr>
      | ArchiveBlock _ \<Rightarrow> s\<lparr>blocks_archived := blocks_archived s + 1\<rparr>
      | ArchiveEntity _ \<Rightarrow> s\<lparr>entities_archived := entities_archived s + 1\<rparr>
      | UpdateEntityBody _ _ \<Rightarrow> s\<lparr>entity_bodies_updated := entity_bodies_updated s + 1\<rparr>
      | UpdateProperties _ properties \<Rightarrow>
          s\<lparr>properties_updated := properties_updated s + length properties\<rparr>
      | MoveEntity _ _ _ _ _ \<Rightarrow> s\<lparr>entities_moved := entities_moved s + 1\<rparr>
      | CreateEntity _ _ _ _ _ _ _ \<Rightarrow> s\<lparr>entities_created := entities_created s + 1\<rparr>
      | CreateDatabase _ _ _ _ \<Rightarrow> s\<lparr>entities_created := entities_created s + 1\<rparr>)"

definition from_operations :: "push_operation list \<Rightarrow> plan_summary" where
  "from_operations operations = fold summary_add operations plan_summary_default"

definition destructive_archive_count :: "plan_summary \<Rightarrow> usize" where
  "destructive_archive_count s = blocks_archived s + blocks_replaced s + entities_archived s"

section \<open>Plans\<close>

datatype plan_degradation_kind = AmbiguousBlockAlignment

record plan_degradation =
  pd_kind :: plan_degradation_kind
  pd_message :: string

definition degradation_new :: "plan_degradation_kind \<Rightarrow> string \<Rightarrow> plan_degradation" where
  "degradation_new k message = \<lparr>pd_kind = k, pd_message = message\<rparr>"

record push_plan =
  affected_entities :: "remote_id list"
  operations :: "push_operation list"
  summary :: plan_summary
  degradations :: "plan_degradation list"

definition plan_new :: "remote_id list \<Rightarrow> push_operation list \<Rightarrow> push_plan" where
  "plan_new affected ops =
     \<lparr>affected_entities = affected, operations = ops, summary = from_operations ops,
      degradations = []\<rparr>"

definition plan_default :: push_plan where
  "plan_default =
     \<lparr>affected_entities = [], operations = [], summary = plan_summary_default, degradations = []\<rparr>"

definition with_degradations :: "push_plan \<Rightarrow> plan_degradation list \<Rightarrow> push_plan" where
  "with_degradations plan ds = plan\<lparr>degradations := ds\<rparr>"

definition plan_is_empty :: "push_plan \<Rightarrow> bool" where
  "plan_is_empty plan \<longleftrightarrow> operations plan = []"

text \<open>The products are \<open>usize\<close> multiplications, which wrap at \<open>2 ^ 64\<close>.\<close>

definition touches_more_than_percent :: "push_plan \<Rightarrow> usize \<Rightarrow> 8 word \<Rightarrow> bool" where
  "touches_more_than_percent plan total_mount_entities percent =
     (if total_mount_entities = 0 then False
      else (of_nat (length (affected_entities plan)) * 100 :: u64)
           > of_nat total_mount_entities * of_nat (unat percent))"

record guardrail_policy =
  max_archives_without_confirm :: usize
  max_mount_touch_percent_without_confirm :: "8 word"

definition guardrail_policy_default :: guardrail_policy where
  "guardrail_policy_default =
     \<lparr>max_archives_without_confirm = 10, max_mount_touch_percent_without_confirm = 5\<rparr>"

datatype guardrail_decision = Proceed | ConfirmRequired "string list"

section \<open>What the summary counts\<close>

definition count_kind :: "push_operation_kind \<Rightarrow> push_operation list \<Rightarrow> nat" where
  "count_kind k ops = length (filter (\<lambda>op. operation_kind op = k) ops)"

lemma count_kind_simps [simp]:
  "count_kind k [] = 0"
  "count_kind k (op # ops) = (if operation_kind op = k then Suc (count_kind k ops) else count_kind k ops)"
  "count_kind k (ops @ ops') = count_kind k ops + count_kind k ops'"
  by (simp_all add: count_kind_def)

lemma summary_fold:
  "blocks_created (fold summary_add ops s) = blocks_created s + count_kind KAppendBlock ops"
  "blocks_updated (fold summary_add ops s) = blocks_updated s + count_kind KUpdateBlock ops"
  "blocks_replaced (fold summary_add ops s) = blocks_replaced s + count_kind KReplaceBlock ops"
  "blocks_moved (fold summary_add ops s) = blocks_moved s + count_kind KMoveBlock ops"
  "media_updated (fold summary_add ops s) = media_updated s + count_kind KUpdateMedia ops"
  "blocks_archived (fold summary_add ops s) = blocks_archived s + count_kind KArchiveBlock ops"
  "entities_created (fold summary_add ops s) =
     entities_created s + count_kind KCreateEntity ops + count_kind KCreateDatabase ops"
  "entities_archived (fold summary_add ops s) = entities_archived s + count_kind KArchiveEntity ops"
  "entity_bodies_updated (fold summary_add ops s) =
     entity_bodies_updated s + count_kind KUpdateEntityBody ops"
  "entities_moved (fold summary_add ops s) = entities_moved s + count_kind KMoveEntity ops"
  by (induction ops arbitrary: s) (auto simp: summary_add_def operation_kind_def split: push_operation.splits)

definition is_destructive :: "push_operation \<Rightarrow> bool" where
  "is_destructive op \<longleftrightarrow> operation_kind op \<in> {KArchiveBlock, KReplaceBlock, KArchiveEntity}"

text \<open>The destructive count that feeds the archive guardrail is the number of operations of the
  plan that archive or replace something remote.\<close>

theorem destructive_count_exact:
  "destructive_archive_count (summary (plan_new affected ops)) = length (filter is_destructive ops)"
proof -
  have "length (filter is_destructive ops) =
      count_kind KArchiveBlock ops + count_kind KReplaceBlock ops + count_kind KArchiveEntity ops"
    by (induction ops) (auto simp: is_destructive_def)
  then show ?thesis
    by (simp add: destructive_archive_count_def plan_new_def from_operations_def summary_fold
        plan_summary_default_def)
qed

text \<open>Every wire name belongs to one kind.\<close>

lemma kind_as_str_inj: "kind_as_str a = kind_as_str b \<longleftrightarrow> a = b"
  by (cases a; cases b) (simp_all add: kind_as_str_def)

lemma all_operation_kinds_complete: "set all_operation_kinds = UNIV" "distinct all_operation_kinds"
proof -
  have "k \<in> set all_operation_kinds" for k by (cases k) (simp_all add: all_operation_kinds_def)
  then show "set all_operation_kinds = UNIV" by blast
qed (simp add: all_operation_kinds_def)

text \<open>Below \<open>2 ^ 56\<close> entities the wrapping test of the mount-touch guardrail is the exact
  comparison of the percentages.\<close>

theorem touches_percent_exact:
  assumes "length (affected_entities plan) < 2 ^ 56" "entities < 2 ^ 56"
  shows "touches_more_than_percent plan entities percent \<longleftrightarrow>
    entities \<noteq> 0 \<and> entities * unat percent < length (affected_entities plan) * 100"
proof -
  let ?n = "length (affected_entities plan)"
  have p: "unat percent < 256" using unsigned_less[of percent, where 'a = nat] by simp
  have a: "?n * 100 < 2 ^ 64" using assms(1) by simp
  have "entities * unat percent \<le> 2 ^ 56 * 255" using assms(2) p by (intro mult_le_mono) auto
  then have b: "entities * unat percent < 2 ^ 64" by simp
  have "(of_nat ?n * 100 :: u64) = of_nat (?n * 100)" by simp
  moreover have "(of_nat entities * of_nat (unat percent) :: u64) = of_nat (entities * unat percent)"
    by (simp only: of_nat_mult)
  ultimately have "((of_nat entities * of_nat (unat percent) :: u64) < of_nat ?n * 100) \<longleftrightarrow>
      entities * unat percent < ?n * 100"
    using a b by (simp only: word_less_nat_alt unat_of_nat) simp
  then show ?thesis by (auto simp: touches_more_than_percent_def)
qed

theorem touches_percent_exact_witness:
  "touches_more_than_percent (plan_new [RemoteId ''a''] []) 10 5 \<longleftrightarrow>
    (10 :: nat) \<noteq> 0 \<and> 10 * unat (5 :: 8 word) < length (affected_entities (plan_new [RemoteId ''a''] [])) * 100"
  by (rule touches_percent_exact) (simp_all add: plan_new_def)

end
