(* ===== verification/Shadow.thy ===== *)
theory Shadow
  imports Canonical
begin

text \<open>
  \<open>locality-core/src/shadow.rs\<close>: segmentation of a Markdown body into blocks, the FNV-1a block
  hashes, the shadow document built from a synced body and a supply of native block ids, and the
  media-link normalisation behind \<open>rendered_bodies_equivalent\<close>. The lemmas show that segmentation
  terminates and partitions the non-blank lines, and when a shadow can be built.
\<close>

section \<open>Blocks\<close>

datatype markdown_block_kind =
    MHeading
  | MParagraph
  | MList
  | MCodeFence
  | MTable
  | MTableWithRows (row_ids: "remote_id list") (has_column_header: bool) (has_row_header: bool)
  | MDirective (mdir_type: "string option") (mdir_raw: string) (mdir_malformed: bool)

definition kind_is_directive :: "markdown_block_kind \<Rightarrow> bool" where
  "kind_is_directive k \<longleftrightarrow> (case k of MDirective _ _ _ \<Rightarrow> True | _ \<Rightarrow> False)"

record shadow_block =
  sb_remote_id :: remote_id
  sb_kind :: markdown_block_kind
  sb_source_span :: source_span
  sb_content_hash :: string
  sb_text :: string
  sb_native_kind :: "string option"

record segmented_block =
  seg_remote_id :: "remote_id option"
  seg_kind :: markdown_block_kind
  seg_source_span :: source_span
  seg_content_hash :: string
  seg_text :: string

definition is_directive :: "segmented_block \<Rightarrow> bool" where
  "is_directive b \<longleftrightarrow> kind_is_directive (seg_kind b)"

record shadow_document =
  sd_entity_id :: remote_id
  sd_frontmatter :: string
  sd_body_hash :: string
  sd_rendered_body :: string
  sd_blocks :: "shadow_block list"

datatype shadow_build_error =
    MissingNativeBlockId usize
  | MalformedDirective usize
  | UnusedNativeBlockId remote_id

definition shadow_build_error_display :: "shadow_build_error \<Rightarrow> string" where
  "shadow_build_error_display e =
     (case e of
        MissingNativeBlockId line \<Rightarrow>
          ''missing native block id for block starting on line '' @ dec line
      | MalformedDirective line \<Rightarrow> ''malformed directive in shadow on line '' @ dec line
      | UnusedNativeBlockId i \<Rightarrow> ''unused native block id `'' @ remote_id_str i @ ''`'')"

section \<open>Hashes\<close>

definition FNV_OFFSET :: u64 where
  "FNV_OFFSET = 0xcbf29ce484222325"

definition FNV_PRIME :: u64 where
  "FNV_PRIME = 0x100000001b3"

definition fnv1a :: "string \<Rightarrow> u64" where
  "fnv1a input = foldl (\<lambda>hash byte. (hash XOR of_nat (of_char byte)) * FNV_PRIME) FNV_OFFSET input"

definition stable_hash :: "string \<Rightarrow> string" where
  "stable_hash input = hex16 (fnv1a input)"

definition kind_tag :: "markdown_block_kind \<Rightarrow> string" where
  "kind_tag k =
     (case k of
        MHeading \<Rightarrow> ''heading''
      | MParagraph \<Rightarrow> ''paragraph''
      | MList \<Rightarrow> ''list''
      | MCodeFence \<Rightarrow> ''code''
      | MTable \<Rightarrow> ''table''
      | MTableWithRows _ _ _ \<Rightarrow> ''table''
      | MDirective _ _ _ \<Rightarrow> ''directive'')"

definition block_hash :: "markdown_block_kind \<Rightarrow> string \<Rightarrow> string" where
  "block_hash k text = stable_hash (kind_tag k @ '':'' @ text)"

section \<open>Line shapes\<close>

definition is_heading :: "string \<Rightarrow> bool" where
  "is_heading line \<longleftrightarrow>
     (let trimmed = trim_start line;
          level = count_while (\<lambda>c. c = CHR ''#'') trimmed
      in 1 \<le> level \<and> level \<le> 6 \<and> ws_len (drop level trimmed) > 0)"

definition ordered_list_marker :: "string \<Rightarrow> bool" where
  "ordered_list_marker line \<longleftrightarrow>
     (let digit_count = count_while is_ascii_digit line
      in digit_count > 0 \<and> prefix ''. '' (drop digit_count line))"

definition is_list_item :: "string \<Rightarrow> bool" where
  "is_list_item line \<longleftrightarrow>
     (let trimmed = trim_start line
      in trimmed \<in> {''-'', ''*'', ''+''}
         \<or> prefix ''- '' trimmed
         \<or> prefix ''* '' trimmed
         \<or> prefix ''+ '' trimmed
         \<or> prefix ''- [ ] '' trimmed
         \<or> prefix ''- [x] '' trimmed
         \<or> ordered_list_marker trimmed)"

definition indent_width :: "string \<Rightarrow> nat" where
  "indent_width line =
     sum_list (map (\<lambda>c. if c = CHR 0x09 then 4 else 1)
       (takeWhile (\<lambda>c. c = CHR 0x20 \<or> c = CHR 0x09) line))"

definition is_table_separator :: "string \<Rightarrow> bool" where
  "is_table_separator line \<longleftrightarrow>
     (let trimmed = trim line
      in CHR ''|'' \<in> set trimmed
         \<and> (\<forall>c\<in>set trimmed. c \<in> {CHR ''|'', CHR ''-'', CHR '':'', CHR 0x20})
         \<and> CHR ''-'' \<in> set trimmed)"

definition is_table_start :: "string list \<Rightarrow> nat \<Rightarrow> bool" where
  "is_table_start lines start \<longleftrightarrow>
     start + 1 < length lines \<and> CHR ''|'' \<in> set (lines ! start)
     \<and> is_table_separator (lines ! (start + 1))"

record fence_mark =
  marker_char :: char
  marker_len :: nat

definition fence_marker :: "string \<Rightarrow> fence_mark option" where
  "fence_marker line =
     (case trim_start line of
        [] \<Rightarrow> None
      | c # rest \<Rightarrow>
          if \<not> (c = CHR ''`'' \<or> c = CHR ''~'') then None
          else
            let n = 1 + count_while (\<lambda>x. x = c) rest
            in if n < 3 then None else Some \<lparr>marker_char = c, marker_len = n\<rparr>)"

definition is_code_fence_closer :: "string \<Rightarrow> fence_mark \<Rightarrow> bool" where
  "is_code_fence_closer line f \<longleftrightarrow>
     (let trimmed = trim_start line;
          closing_len = count_while (\<lambda>c. c = marker_char f) trimmed
      in closing_len \<ge> marker_len f \<and> is_blank (drop closing_len trimmed))"

section \<open>Segmentation\<close>

definition consume_code_fence :: "string list \<Rightarrow> nat \<Rightarrow> fence_mark \<Rightarrow> nat" where
  "consume_code_fence lines start f =
     (case position (\<lambda>line. is_code_fence_closer line f) (drop (start + 1) lines) of
        Some offset \<Rightarrow> start + offset + 2
      | None \<Rightarrow> length lines)"

definition consume_while :: "string list \<Rightarrow> nat \<Rightarrow> (string \<Rightarrow> bool) \<Rightarrow> nat" where
  "consume_while lines start p = start + count_while p (drop start lines)"

text \<open>The continuation lines of a list item.\<close>

definition list_continuation :: "nat \<Rightarrow> string \<Rightarrow> bool" where
  "list_continuation start_indent line \<longleftrightarrow>
     \<not> is_blank line
     \<and> \<not> (is_list_item line \<and> indent_width line \<le> start_indent)
     \<and> \<not> (\<not> prefix [CHR 0x20] line \<and> \<not> prefix [CHR 0x09] line)"

text \<open>The lines of a paragraph; the table test reads the paragraph's first line, as in the
  source.\<close>

definition paragraph_line :: "string list \<Rightarrow> nat \<Rightarrow> string \<Rightarrow> bool" where
  "paragraph_line lines start line \<longleftrightarrow>
     \<not> is_blank line
     \<and> parse_directive_line line 1 = None
     \<and> \<not> is_heading line
     \<and> fence_marker line = None
     \<and> \<not> is_table_start lines start
     \<and> \<not> is_list_item line"

definition block_end :: "string list \<Rightarrow> nat \<Rightarrow> nat" where
  "block_end lines start =
     (if parse_directive_line (lines ! start) (start + 1) \<noteq> None \<or> is_heading (lines ! start)
      then start + 1
      else case fence_marker (lines ! start) of
        Some f \<Rightarrow> consume_code_fence lines start f
      | None \<Rightarrow>
          if is_table_start lines start
          then consume_while lines start (\<lambda>line. CHR ''|'' \<in> set line \<and> \<not> is_blank line)
          else if is_list_item (lines ! start)
          then consume_while lines (start + 1) (list_continuation (indent_width (lines ! start)))
          else consume_while lines start (paragraph_line lines start))"

definition classify_block :: "string list \<Rightarrow> nat \<Rightarrow> nat \<Rightarrow> markdown_block_kind" where
  "classify_block lines start stop =
     (let first = lines ! start in
      case parse_directive_line first (start + 1) of
        Some d \<Rightarrow> MDirective (dir_directive_type d) (dir_raw d) (dir_malformed d)
      | None \<Rightarrow>
          if is_heading first then MHeading
          else if fence_marker first \<noteq> None then MCodeFence
          else if is_table_start lines start then MTable
          else if stop > start \<and> is_list_item first then MList
          else MParagraph)"

definition segment_block :: "string list \<Rightarrow> nat \<Rightarrow> nat \<Rightarrow> nat \<Rightarrow> segmented_block" where
  "segment_block lines body_start_line index stop =
     (let text = join [CHR 0x0A] (slice lines index stop);
          kind = classify_block lines index stop;
          remote_id =
            (case kind of
               MDirective _ _ _ \<Rightarrow>
                 Option.bind (parse_directive_line (lines ! index) (body_start_line + index))
                   dir_remote_id
             | _ \<Rightarrow> None)
      in \<lparr>seg_remote_id = remote_id,
          seg_kind = kind,
          seg_source_span = \<lparr>start_line = body_start_line + index,
                             end_line = body_start_line + stop - 1\<rparr>,
          seg_content_hash = block_hash kind text,
          seg_text = text\<rparr>)"

text \<open>Every block has at least one line and ends inside the document: the loop terminates.\<close>

lemma consume_while_bounds: "start \<le> length lines \<Longrightarrow> start \<le> consume_while lines start p \<and>
    consume_while lines start p \<le> length lines"
  using count_while_le[of p "drop start lines"] by (simp add: consume_while_def)

lemma consume_while_progress:
  assumes "start < length lines" "p (lines ! start)"
  shows "start < consume_while lines start p"
  using assms Cons_nth_drop_Suc[of start lines, symmetric] by (simp add: consume_while_def)

lemma consume_code_fence_bounds:
  assumes "start < length lines"
  shows "start < consume_code_fence lines start f \<and> consume_code_fence lines start f \<le> length lines"
proof (cases "position (\<lambda>line. is_code_fence_closer line f) (drop (start + 1) lines)")
  case (Some k)
  then have "k < length lines - (start + 1)" using position_Some[OF Some] by simp
  with Some show ?thesis by (simp add: consume_code_fence_def)
qed (simp add: consume_code_fence_def assms)

lemma block_end_bounds:
  assumes "start < length lines" "\<not> is_blank (lines ! start)"
  shows "start < block_end lines start \<and> block_end lines start \<le> length lines"
proof -
  note b = consume_while_bounds consume_while_progress[of start lines] consume_code_fence_bounds
  consider (single) "parse_directive_line (lines ! start) (start + 1) \<noteq> None \<or> is_heading (lines ! start)"
    | (code) f where "parse_directive_line (lines ! start) (start + 1) = None"
        "\<not> is_heading (lines ! start)" "fence_marker (lines ! start) = Some f"
    | (other) "parse_directive_line (lines ! start) (start + 1) = None"
        "\<not> is_heading (lines ! start)" "fence_marker (lines ! start) = None"
    by blast
  then show ?thesis
  proof cases
    case single
    with assms show ?thesis by (simp add: block_end_def)
  next
    case code
    with assms b(3) show ?thesis by (simp add: block_end_def)
  next
    case other
    then have nd: "parse_directive_line (lines ! start) 1 = None"
      using parse_directive_line_None by blast
    have list: "start < consume_while lines (start + 1) p \<and>
        consume_while lines (start + 1) p \<le> length lines" for p
      using b(1)[of "start + 1" lines p] assms(1) by simp
    have table: "start < consume_while lines start (\<lambda>line. CHR ''|'' \<in> set line \<and> \<not> is_blank line)"
      if "is_table_start lines start"
      using that assms by (intro b(2)) (simp_all add: is_table_start_def)
    have para: "start < consume_while lines start (paragraph_line lines start)"
      if "\<not> is_table_start lines start" "\<not> is_list_item (lines ! start)"
      using that assms nd other by (intro b(2)) (simp_all add: paragraph_line_def)
    show ?thesis
      using other assms list table para b(1)[of start lines] by (auto simp: block_end_def)
  qed
qed

function segment_from :: "string list \<Rightarrow> nat \<Rightarrow> nat \<Rightarrow> segmented_block list" where
  "segment_from lines body_start_line index =
     (if index < length lines then
        if is_blank (lines ! index) then segment_from lines body_start_line (index + 1)
        else segment_block lines body_start_line index (block_end lines index)
             # segment_from lines body_start_line (block_end lines index)
      else [])"
  by pat_completeness auto
termination
  by (relation "measure (\<lambda>(lines, b, index). length lines - index)")
    (use block_end_bounds in \<open>auto intro!: diff_less_mono2\<close>)

declare segment_from.simps [simp del]

definition segment_markdown_body :: "string \<Rightarrow> usize \<Rightarrow> segmented_block list" where
  "segment_markdown_body body body_start_line = segment_from (str_lines body) body_start_line 0"

section \<open>Shadow documents\<close>

text \<open>Blocks receive their own directive id or the next native id; the ids left over are
  returned.\<close>

fun assign_block_ids ::
  "segmented_block list \<Rightarrow> remote_id list \<Rightarrow> shadow_build_error + shadow_block list \<times> remote_id list"
where
  "assign_block_ids [] ids = Inr ([], ids)"
| "assign_block_ids (b # bs) ids =
     rbind
       (case seg_remote_id b of
          Some i \<Rightarrow> Inr (i, ids)
        | None \<Rightarrow>
            if kind_is_directive (seg_kind b)
            then Inl (MalformedDirective (start_line (seg_source_span b)))
            else case ids of
              [] \<Rightarrow> Inl (MissingNativeBlockId (start_line (seg_source_span b)))
            | i # rest \<Rightarrow> Inr (i, rest))
       (\<lambda>(remote_id, rest).
          rbind (assign_block_ids bs rest) (\<lambda>(blocks, left).
            Inr (\<lparr>sb_remote_id = remote_id, sb_kind = seg_kind b,
                  sb_source_span = seg_source_span b, sb_content_hash = seg_content_hash b,
                  sb_text = seg_text b, sb_native_kind = None\<rparr> # blocks, left)))"

definition from_synced_body ::
  "remote_id \<Rightarrow> string \<Rightarrow> usize \<Rightarrow> remote_id list \<Rightarrow> shadow_build_error + shadow_document" where
  "from_synced_body entity_id rendered_body body_start_line native_block_ids =
     rbind (assign_block_ids (segment_markdown_body rendered_body body_start_line) native_block_ids)
       (\<lambda>(blocks, left).
          case left of
            extra_id # _ \<Rightarrow> Inl (UnusedNativeBlockId extra_id)
          | [] \<Rightarrow>
              Inr \<lparr>sd_entity_id = entity_id, sd_frontmatter = [],
                   sd_body_hash = stable_hash rendered_body, sd_rendered_body = rendered_body,
                   sd_blocks = blocks\<rparr>)"

definition with_frontmatter :: "shadow_document \<Rightarrow> string \<Rightarrow> shadow_document" where
  "with_frontmatter s fm = s\<lparr>sd_frontmatter := fm\<rparr>"

definition block_ids :: "shadow_document \<Rightarrow> remote_id set" where
  "block_ids s = set (map sb_remote_id (sd_blocks s))"

section \<open>Media links\<close>

definition normalize_loc_media_target :: "string \<Rightarrow> string" where
  "normalize_loc_media_target target =
     (if sublist ''://'' target then target
      else case str_find ''/files/.loc/media/'' target of
        Some media_start \<Rightarrow> drop (media_start + length ''/files/'') target
      | None \<Rightarrow>
          (case str_find ''.loc/media/'' target of
             None \<Rightarrow> target
           | Some media_start \<Rightarrow> drop media_start target))"

function normalize_loc_media_hrefs :: "string \<Rightarrow> string" where
  "normalize_loc_media_hrefs rest =
     (case str_find '']('' rest of
        None \<Rightarrow> rest
      | Some link_start \<Rightarrow>
          let target_and_tail = drop (link_start + 2) rest
          in take (link_start + 2) rest @
             (case str_find '')'' target_and_tail of
                None \<Rightarrow> target_and_tail
              | Some target_end \<Rightarrow>
                  normalize_loc_media_target (take target_end target_and_tail) @ '')'' @
                  normalize_loc_media_hrefs (drop (target_end + 1) target_and_tail)))"
  by pat_completeness auto
termination
proof (relation "measure length", goal_cases)
  case (2 rest link_start t target_end)
  then have "rest \<noteq> []" using str_find_Some[OF 2(1)] by auto
  with 2 show ?case by simp
qed simp

declare normalize_loc_media_hrefs.simps [simp del]

definition rendered_bodies_equivalent :: "string \<Rightarrow> string \<Rightarrow> bool" where
  "rendered_bodies_equivalent left right \<longleftrightarrow>
     left = right \<or> normalize_loc_media_hrefs left = normalize_loc_media_hrefs right"


section \<open>Segmentation partitions the non-blank lines\<close>

lemma segment_block_simps [simp]:
  "seg_source_span (segment_block lines L i e) =
     \<lparr>start_line = L + i, end_line = L + e - 1\<rparr>"
  "seg_text (segment_block lines L i e) = join [CHR 0x0A] (slice lines i e)"
  "seg_kind (segment_block lines L i e) = classify_block lines i e"
  "seg_content_hash (segment_block lines L i e) =
     block_hash (classify_block lines i e) (join [CHR 0x0A] (slice lines i e))"
  by (simp_all add: segment_block_def Let_def)

lemma segment_from_blocks:
  "b \<in> set (segment_from lines L index) \<Longrightarrow>
   \<exists>i. index \<le> i \<and> i < block_end lines i \<and> block_end lines i \<le> length lines
     \<and> \<not> is_blank (lines ! i) \<and> b = segment_block lines L i (block_end lines i)"
proof (induction lines L index rule: segment_from.induct)
  case (1 lines L index)
  show ?case
  proof (cases "index < length lines")
    case True
    show ?thesis
    proof (cases "is_blank (lines ! index)")
      case True
      from "1.prems" True \<open>index < length lines\<close>
      have "b \<in> set (segment_from lines L (index + 1))"
        by (simp add: segment_from.simps[of lines L index])
      from "1.IH"(1)[OF \<open>index < length lines\<close> True this]
      obtain i where "index + 1 \<le> i" "i < block_end lines i \<and> block_end lines i \<le> length lines
          \<and> \<not> is_blank (lines ! i) \<and> b = segment_block lines L i (block_end lines i)"
        by blast
      then show ?thesis by (intro exI[of _ i]) simp
    next
      case False
      note e = block_end_bounds[OF True False]
      from "1.prems" True False consider "b = segment_block lines L index (block_end lines index)"
        | "b \<in> set (segment_from lines L (block_end lines index))"
        by (auto simp: segment_from.simps[of lines L index])
      then show ?thesis
      proof cases
        case 1
        with e False show ?thesis by auto
      next
        case 2
        from "1.IH"(2)[OF True False this]
        obtain i where "block_end lines index \<le> i" "i < block_end lines i
            \<and> block_end lines i \<le> length lines
            \<and> \<not> is_blank (lines ! i) \<and> b = segment_block lines L i (block_end lines i)"
          by blast
        with e show ?thesis by (intro exI[of _ i]) simp
      qed
    qed
  next
    case False
    with "1.prems" show ?thesis by (simp add: segment_from.simps[of lines L index])
  qed
qed

lemma segment_from_sorted:
  "sorted_wrt (\<lambda>a b. end_line (seg_source_span a) < start_line (seg_source_span b))
     (segment_from lines L index)"
proof (induction lines L index rule: segment_from.induct)
  case (1 lines L index)
  show ?case
  proof (cases "index < length lines \<and> \<not> is_blank (lines ! index)")
    case True
    then have e: "index < block_end lines index" using block_end_bounds by blast
    have "\<forall>b\<in>set (segment_from lines L (block_end lines index)).
        L + block_end lines index \<le> start_line (seg_source_span b)"
      by (auto dest!: segment_from_blocks)
    with e True "1.IH"(2) show ?thesis
      by (fastforce simp: segment_from.simps[of lines L index])
  next
    case False
    with "1.IH"(1) show ?thesis by (auto simp: segment_from.simps[of lines L index])
  qed
qed

lemma segment_from_covers:
  "index \<le> i \<Longrightarrow> i < length lines \<Longrightarrow> \<not> is_blank (lines ! i) \<Longrightarrow>
   \<exists>b\<in>set (segment_from lines L index).
     start_line (seg_source_span b) \<le> L + i \<and> L + i \<le> end_line (seg_source_span b)"
proof (induction lines L index rule: segment_from.induct)
  case (1 lines L index)
  have index: "index < length lines" using "1.prems" by simp
  show ?case
  proof (cases "is_blank (lines ! index)")
    case True
    with "1.prems" have "index + 1 \<le> i" by (cases "i = index") auto
    with "1.IH"(1)[OF index True] "1.prems" index True show ?thesis
      by (auto simp: segment_from.simps[of lines L index])
  next
    case False
    show ?thesis
    proof (cases "i < block_end lines index")
      case True
      then have "L + i \<le> L + block_end lines index - 1" by simp
      with index False "1.prems"(1) show ?thesis
        by (simp add: segment_from.simps[of lines L index])
    next
      case e: False
      with "1.IH"(2)[OF index False] "1.prems" index False show ?thesis
        by (auto simp: segment_from.simps[of lines L index])
    qed
  qed
qed

text \<open>C23: Segmentation partitions a body: its blocks are in order with disjoint line spans inside
  the document, each block's text is the lines of its span, and every line that is not blank lies
  in the span of a block. No edit to a non-blank line can escape the diff.\<close>

theorem segment_partitions_body:
  "sorted_wrt (\<lambda>a b. end_line (seg_source_span a) < start_line (seg_source_span b))
      (segment_markdown_body body L)
    \<and> list_all (\<lambda>b. L \<le> start_line (seg_source_span b)
        \<and> start_line (seg_source_span b) \<le> end_line (seg_source_span b)
        \<and> end_line (seg_source_span b) < L + length (str_lines body)
        \<and> seg_text b = join [CHR 0x0A] (slice (str_lines body)
            (start_line (seg_source_span b) - L) (end_line (seg_source_span b) + 1 - L)))
      (segment_markdown_body body L)
    \<and> {i. i < length (str_lines body) \<and> \<not> is_blank (str_lines body ! i)} \<subseteq>
      (\<Union>b\<in>set (segment_markdown_body body L).
        {i. start_line (seg_source_span b) \<le> L + i \<and> L + i \<le> end_line (seg_source_span b)})"
  unfolding segment_markdown_body_def
proof (intro conjI subsetI)
  show "list_all (\<lambda>b. L \<le> start_line (seg_source_span b)
        \<and> start_line (seg_source_span b) \<le> end_line (seg_source_span b)
        \<and> end_line (seg_source_span b) < L + length (str_lines body)
        \<and> seg_text b = join [CHR 0x0A] (slice (str_lines body)
            (start_line (seg_source_span b) - L) (end_line (seg_source_span b) + 1 - L)))
      (segment_from (str_lines body) L 0)"
    by (auto simp: list_all_iff dest!: segment_from_blocks)
qed (use segment_from_covers[of 0 _ "str_lines body" L] in \<open>auto intro: segment_from_sorted\<close>)

text \<open>The start line only shifts the spans.\<close>

definition block_core ::
  "segmented_block \<Rightarrow> remote_id option \<times> markdown_block_kind \<times> string \<times> string" where
  "block_core b = (seg_remote_id b, seg_kind b, seg_content_hash b, seg_text b)"

lemma segment_block_core:
  "block_core (segment_block lines L i e) = block_core (segment_block lines M i e)"
proof -
  have "Option.bind (parse_directive_line l (L + i)) dir_remote_id =
      Option.bind (parse_directive_line l (M + i)) dir_remote_id" for l
    unfolding parse_directive_line_number[of l "L + i" "M + i"]
    by (cases "parse_directive_line l (M + i)") simp_all
  then show ?thesis
    by (simp add: block_core_def) (simp add: segment_block_def Let_def split: markdown_block_kind.split)
qed

lemma segment_from_core:
  "map block_core (segment_from lines L index) = map block_core (segment_from lines M index)"
proof (induction lines L index rule: segment_from.induct)
  case (1 lines L index)
  then show ?case
    by (simp add: segment_from.simps[of lines L index] segment_from.simps[of lines M index]
        segment_block_core[of lines L _ _ M])
qed

lemma segment_markdown_body_core:
  "map block_core (segment_markdown_body body L) = map block_core (segment_markdown_body body M)"
  by (simp add: segment_markdown_body_def segment_from_core[of _ L _ M])

text \<open>A line of text directly above a table makes the table part of the paragraph, since the
  paragraph's loop asks whether its own first line starts a table.\<close>

lemma table_after_text_is_paragraph:
  "map seg_kind (segment_from [''text'', ''|a|'', ''|-|''] 1 0) = [MParagraph]"
proof -
  let ?ls = "[''text'', ''|a|'', ''|-|'']"
  have nb: "\<not> is_blank ''text''" "\<not> is_blank ''|a|''" "\<not> is_blank ''|-|''"
    by (auto intro!: not_blank_plain simp: plain_byte_def ascii_ws_def)
  have tr: "trim ''text'' = ''text''" "trim ''|a|'' = ''|a|''" "trim ''|-|'' = ''|-|''"
    "trim_start ''text'' = ''text''" "trim_start ''|a|'' = ''|a|''" "trim_start ''|-|'' = ''|-|''"
    by (auto intro!: trim_plain trim_start_plain simp: plain_byte_def ascii_ws_def)
  have nd: "parse_directive_line l n = None" if "l \<in> set ?ls" for l n
    using that by (auto simp: parse_directive_line_None tr)
  have nh: "\<not> is_heading l" "fence_marker l = None" "\<not> is_list_item l" if "l \<in> set ?ls" for l
    using that by (auto simp: is_heading_def fence_marker_def is_list_item_def
        ordered_list_marker_def is_ascii_digit_def tr)
  have p: "paragraph_line ?ls 0 l" if "l \<in> set ?ls" for l
    using that nb nd[OF that] nh[OF that]
    by (auto simp: paragraph_line_def is_table_start_def)
  have e: "block_end ?ls 0 = 3"
    using nd[of "''text''"] nh[of "''text''"] p
    by (simp add: block_end_def is_table_start_def consume_while_def)
  show ?thesis
    using nb nd[of "''text''"] nh[of "''text''"]
    by (simp add: segment_from.simps[of ?ls "Suc 0" 0] segment_from.simps[of ?ls "Suc 0" 3] e
        classify_block_def is_table_start_def)
qed

section \<open>Building a shadow\<close>

text \<open>The blocks that take a native id.\<close>

definition native_block :: "segmented_block \<Rightarrow> bool" where
  "native_block b \<longleftrightarrow> seg_remote_id b = None \<and> \<not> is_directive b"

definition shadow_of :: "segmented_block \<Rightarrow> remote_id \<Rightarrow> shadow_block" where
  "shadow_of b i =
     \<lparr>sb_remote_id = i, sb_kind = seg_kind b, sb_source_span = seg_source_span b,
      sb_content_hash = seg_content_hash b, sb_text = seg_text b, sb_native_kind = None\<rparr>"

text \<open>The ids the blocks of a body end up with, given enough native ids.\<close>

fun ids_of :: "segmented_block list \<Rightarrow> remote_id list \<Rightarrow> remote_id list" where
  "ids_of [] ids = []"
| "ids_of (b # bs) ids =
     (case seg_remote_id b of
        Some i \<Rightarrow> i # ids_of bs ids
      | None \<Rightarrow> hd ids # ids_of bs (tl ids))"

lemma assign_block_ids_Inr:
  "assign_block_ids bs ids = Inr (blocks, left) \<longleftrightarrow>
     (\<forall>b\<in>set bs. is_directive b \<longrightarrow> seg_remote_id b \<noteq> None)
     \<and> length (filter native_block bs) \<le> length ids
     \<and> blocks = map2 shadow_of bs (ids_of bs ids)
     \<and> left = drop (length (filter native_block bs)) ids"
proof (induction bs arbitrary: ids blocks left)
  case Nil
  then show ?case by auto
next
  case (Cons b bs)
  show ?case
  proof (cases "seg_remote_id b")
    case (Some i)
    then show ?thesis
      by (auto simp: rbind_Inr_iff Cons native_block_def shadow_of_def)
  next
    case None
    show ?thesis
    proof (cases ids)
      case Nil
      with None show ?thesis by (auto simp: native_block_def is_directive_def)
    next
      case ids: (Cons i rest)
      show ?thesis
        by (auto simp: None ids rbind_Inr_iff Cons native_block_def is_directive_def shadow_of_def)
    qed
  qed
qed

lemma length_ids_of [simp]: "length (ids_of bs ids) = length bs"
  by (induction bs ids rule: ids_of.induct) (auto split: option.splits)

text \<open>A shadow can be built from a synced body exactly when every directive of the body
  carries its id and the connector supplies one native id for each other block, no fewer and no
  more; then the shadow holds the body and its blocks are the body's blocks in order.\<close>

theorem from_synced_body_ok_iff:
  "(\<exists>sh. from_synced_body e body L ids = Inr sh) \<longleftrightarrow>
     list_all (\<lambda>b. is_directive b \<longrightarrow> seg_remote_id b \<noteq> None) (segment_markdown_body body L)
     \<and> length ids = length (filter native_block (segment_markdown_body body L))"
  (is "_ = ?R")
proof -
  let ?bs = "segment_markdown_body body L"
  have "(\<exists>sh. from_synced_body e body L ids = Inr sh) \<longleftrightarrow>
      (\<exists>blocks. assign_block_ids ?bs ids = Inr (blocks, []))"
    by (auto simp: from_synced_body_def rbind_Inr_iff split: list.splits) (metis neq_Nil_conv)
  also have "\<dots> \<longleftrightarrow> ?R"
    by (auto simp: assign_block_ids_Inr list_all_iff)
  finally show ?thesis .
qed

theorem from_synced_body_ok_iff_witness:
  "\<exists>sh. from_synced_body (RemoteId ''e'') [] 1 [] = Inr sh"
  using from_synced_body_ok_iff[of "RemoteId ''e''" "[]" 1 "[]"]
  by (simp add: segment_markdown_body_def str_lines_def segment_from.simps)

lemma from_synced_body_blocks:
  assumes "from_synced_body e body L ids = Inr sh"
  shows "sd_blocks sh = map2 shadow_of (segment_markdown_body body L)
      (ids_of (segment_markdown_body body L) ids)"
    and "sd_entity_id sh = e" "sd_rendered_body sh = body" "sd_frontmatter sh = []"
    and "length (sd_blocks sh) = length (segment_markdown_body body L)"
  using assms
  by (auto simp: from_synced_body_def rbind_Inr_iff assign_block_ids_Inr split: list.splits)

section \<open>Equivalent bodies\<close>

lemma rendered_bodies_equivalent_alt:
  "rendered_bodies_equivalent a b \<longleftrightarrow> normalize_loc_media_hrefs a = normalize_loc_media_hrefs b"
  by (auto simp: rendered_bodies_equivalent_def)

lemma rendered_bodies_equivalent_refl [simp]: "rendered_bodies_equivalent a a"
  by (simp add: rendered_bodies_equivalent_def)

lemma rendered_bodies_equivalent_sym:
  "rendered_bodies_equivalent a b \<longleftrightarrow> rendered_bodies_equivalent b a"
  by (auto simp: rendered_bodies_equivalent_def)

lemma normalize_no_link: "\<not> sublist '']('' s \<Longrightarrow> normalize_loc_media_hrefs s = s"
  by (subst normalize_loc_media_hrefs.simps) (simp add: str_find_None[symmetric])

end
