(* ===== verification/Property_Diff.thy ===== *)
theory Property_Diff
  imports Core_Error Planner Shadow
begin

text \<open>
  The frontmatter half of \<open>locality-core/src/diff.rs\<close>: conversion of YAML values to property
  values, UUID references and their semantic equality, and the property updates of a plan.
  The lemmas show that a value counts as changed independently of the order of the two sides and
  which keys an update carries.
\<close>

section \<open>UUID references\<close>

definition rsplit_once :: "char \<Rightarrow> string \<Rightarrow> (string \<times> string) option" where
  "rsplit_once c s =
     (let after = rev (takeWhile (\<lambda>x. x \<noteq> c) (rev s))
      in if length after = length s then None
         else Some (take (length s - length after - 1) s, after))"

definition is_hyphenated_uuid :: "string \<Rightarrow> bool" where
  "is_hyphenated_uuid value \<longleftrightarrow>
     length value = 36 \<and>
     list_all (\<lambda>(index, byte).
        if index = 8 \<or> index = 13 \<or> index = 18 \<or> index = 23 then byte = CHR ''-''
        else is_ascii_hexdigit byte) (enumerate 0 value)"

definition canonical_uuid_reference :: "string \<Rightarrow> string option" where
  "canonical_uuid_reference value =
     (let value = trim value
      in if is_hyphenated_uuid value then Some (to_ascii_lowercase value)
         else case strip_suffix ''>'' value of
           None \<Rightarrow> None
         | Some v \<Rightarrow>
             (case rsplit_once (CHR ''<'') v of
                None \<Rightarrow> None
              | Some (_, u) \<Rightarrow>
                  (let uuid = trim u
                   in if is_hyphenated_uuid uuid then Some (to_ascii_lowercase uuid) else None)))"

datatype semantic_uuid_reference_value = UScalar string | USequence "string list"

fun uuid_reference_scalar :: "'n yaml_value \<Rightarrow> string option" where
  "uuid_reference_scalar (YString value) = canonical_uuid_reference value"
| "uuid_reference_scalar (YTagged _ value) = uuid_reference_scalar value"
| "uuid_reference_scalar _ = None"

fun uuid_reference_value :: "'n yaml_value \<Rightarrow> semantic_uuid_reference_value option" where
  "uuid_reference_value (YString value) = map_option UScalar (canonical_uuid_reference value)"
| "uuid_reference_value (YSequence values) =
     map_option USequence (collect_options (map uuid_reference_scalar values))"
| "uuid_reference_value (YTagged _ value) = uuid_reference_value value"
| "uuid_reference_value _ = None"

fun uuid_reference_ids_from_value :: "'n yaml_value \<Rightarrow> string set" where
  "uuid_reference_ids_from_value (YString value) =
     (case canonical_uuid_reference value of None \<Rightarrow> {} | Some u \<Rightarrow> {u})"
| "uuid_reference_ids_from_value (YSequence values) =
     \<Union> (set (map uuid_reference_ids_from_value values))"
| "uuid_reference_ids_from_value (YTagged _ value) = uuid_reference_ids_from_value value"
| "uuid_reference_ids_from_value _ = {}"

definition uuid_reference_ids_from_frontmatter :: "'n frontmatter_properties \<Rightarrow> string set" where
  "uuid_reference_ids_from_frontmatter properties =
     \<Union> (set (map (\<lambda>(_, v). uuid_reference_ids_from_value v) properties))"

definition frontmatter_values_semantically_equal ::
    "'n yaml_lib \<Rightarrow> 'n yaml_value option \<Rightarrow> 'n yaml_value option \<Rightarrow> bool" where
  "frontmatter_values_semantically_equal Y left right =
     (case (left, right) of
        (Some left, Some right) \<Rightarrow>
          if value_eq Y left right then True
          else (case (uuid_reference_value left, uuid_reference_value right) of
                  (Some left, Some right) \<Rightarrow> left = right
                | _ \<Rightarrow> False)
      | (None, None) \<Rightarrow> True
      | _ \<Rightarrow> False)"

section \<open>Property values\<close>

fun simple_frontmatter_string :: "'n yaml_lib \<Rightarrow> 'n yaml_value \<Rightarrow> string option" where
  "simple_frontmatter_string Y (YString value) = Some value"
| "simple_frontmatter_string Y (YNumber value) = Some (number_to_string Y value)"
| "simple_frontmatter_string Y (YBool value) = Some (if value then ''true'' else ''false'')"
| "simple_frontmatter_string Y _ = None"

fun property_value_from_frontmatter :: "'n yaml_lib \<Rightarrow> 'n yaml_value \<Rightarrow> property_value" where
  "property_value_from_frontmatter Y YNull = PNull"
| "property_value_from_frontmatter Y (YBool value) = PBool value"
| "property_value_from_frontmatter Y (YNumber value) = PNumber (number_to_string Y value)"
| "property_value_from_frontmatter Y (YString value) = PString value"
| "property_value_from_frontmatter Y (YSequence values) =
     (case collect_options (map (simple_frontmatter_string Y) values) of
        Some strings \<Rightarrow> PList strings
      | None \<Rightarrow> PArray (map (property_value_from_frontmatter Y) values))"
| "property_value_from_frontmatter Y (YMapping mapping) =
     PObject (bm_collect (concat (map (\<lambda>(key, value).
       case simple_frontmatter_string Y key of
         None \<Rightarrow> []
       | Some key \<Rightarrow> [(key, property_value_from_frontmatter Y value)]) mapping)))"
| "property_value_from_frontmatter Y (YTagged _ value) = property_value_from_frontmatter Y value"

section \<open>Property updates\<close>

definition property_diff_operations ::
    "'n yaml_lib \<Rightarrow> shadow_document \<Rightarrow> canonical_document \<Rightarrow> push_operation list locality_result" where
  "property_diff_operations Y shadow edited =
     (if is_blank (sd_frontmatter shadow) then Inr []
      else
        rbind (map_err
          (\<lambda>error. EInvalidState (''synced shadow frontmatter is no longer parseable: '' @ cpe_display error))
          (parse_canonical_markdown Y (render_canonical_markdown
             (cd_new (sd_frontmatter shadow) (sd_rendered_body shadow))))) (\<lambda>synced.
        rbind (map_err
          (\<lambda>error. EInvalidState (''edited frontmatter is no longer parseable: '' @ cpe_display error))
          (parse_canonical_markdown Y (render_canonical_markdown edited))) (\<lambda>edited.
        let synced_fm = pd_frontmatter synced;
            edited_fm = pd_frontmatter edited;
            title_updates =
              (if fm_title synced_fm \<noteq> fm_title edited_fm then
                 bm_insert ''title''
                   (case fm_title edited_fm of None \<Rightarrow> PNull | Some t \<Rightarrow> PString t) []
               else []);
            keys = bm_keys (bm_collect (map (\<lambda>k. (k, ()))
              (bm_keys (fm_properties synced_fm) @ bm_keys (fm_properties edited_fm))));
            updates = fold (\<lambda>key updates.
              let synced_value = bm_get (fm_properties synced_fm) key;
                  edited_value = bm_get (fm_properties edited_fm) key
              in if \<not> frontmatter_values_semantically_equal Y synced_value edited_value then
                   bm_insert key
                     (case edited_value of None \<Rightarrow> PNull | Some v \<Rightarrow> property_value_from_frontmatter Y v)
                     updates
                 else updates) keys title_updates
        in Inr (if updates = [] then []
                else [UpdateProperties (sd_entity_id shadow) updates]))))"

definition plan_whole_entity_diff ::
    "'n yaml_lib \<Rightarrow> shadow_document \<Rightarrow> canonical_document \<Rightarrow> push_plan locality_result" where
  "plan_whole_entity_diff Y shadow edited =
     rbind (property_diff_operations Y shadow edited) (\<lambda>ops.
       Inr (plan_new [sd_entity_id shadow]
         (ops @ (if \<not> rendered_bodies_equivalent (sd_rendered_body shadow) (cd_body edited)
                 then [UpdateEntityBody (sd_entity_id shadow) (cd_body edited)] else []))))"


section \<open>Which properties an update carries\<close>

lemma semantically_equal_None [simp]: "frontmatter_values_semantically_equal Y None None"
  by (simp add: frontmatter_values_semantically_equal_def)

lemma semantically_equal_refl:
  "(\<And>v. value_eq Y v v) \<Longrightarrow> frontmatter_values_semantically_equal Y x x"
  by (cases x) (simp_all add: frontmatter_values_semantically_equal_def)

text \<open>Whether a property counts as changed does not depend on which side is which, as long as
  equality of YAML values is symmetric.\<close>

theorem semantically_equal_sym:
  assumes "\<And>v w. value_eq Y v w = value_eq Y w v"
  shows "frontmatter_values_semantically_equal Y x y = frontmatter_values_semantically_equal Y y x"
  using assms by (auto simp: frontmatter_values_semantically_equal_def split: option.splits)

text \<open>A concrete library for the witnesses: a frontmatter \<open>title: x\<close> has the title \<open>x\<close>, numbers
  are naturals.\<close>

definition title_yaml :: "nat yaml_lib" where
  "title_yaml =
     \<lparr>from_str = (\<lambda>s. Inr (raw_frontmatter_default
        \<lparr>rf_title := map_option (takeWhile (\<lambda>c. c \<noteq> CHR 0x0A)) (strip_prefix ''title: '' s)\<rparr>)),
      number_to_string = dec, value_eq = (=)\<rparr>"

theorem semantically_equal_sym_witness:
  "frontmatter_values_semantically_equal title_yaml (Some (YString ''a'')) None =
   frontmatter_values_semantically_equal title_yaml None (Some (YString ''a''))"
  by (rule semantically_equal_sym) (auto simp: title_yaml_def)

lemma not_isl_Inr: "\<not> isl r \<Longrightarrow> \<exists>a. r = Inr a"
  by (cases r) auto

lemma updates_fold:
  "bm_get (fold (\<lambda>k u. if p k then bm_insert k (f k) u else u) ks u0) k =
     (if k \<in> set ks \<and> p k then Some (f k) else bm_get u0 k)"
  by (induction ks arbitrary: u0) (auto simp: bm_get_insert)

lemma set_collected_keys:
  "set (bm_keys (bm_collect (map (\<lambda>k. (k, ())) ks))) = set ks"
proof -
  have "fst ` set (bm_extend m (map (\<lambda>k. (k, ())) ks)) = fst ` set m \<union> set ks" for m :: "('a :: linorder, unit) btree_map"
    by (induction ks arbitrary: m) (auto simp: bm_extend_def set_bm_insert)
  from this[of "[]"] show ?thesis by simp
qed

definition title_value :: "'n parsed_canonical_document \<Rightarrow> property_value" where
  "title_value p = (case fm_title (pd_frontmatter p) of None \<Rightarrow> PNull | Some t \<Rightarrow> PString t)"

text \<open>The property update of a plan carries exactly the changed properties: with both
  frontmatters parsed, a key is in the update when its values on the two sides differ semantically
  (with the new value, null when the key was removed) or when it is the title and the titles
  differ, and there is no update operation when nothing differs.\<close>

theorem property_updates_exact:
  assumes "\<not> is_blank (sd_frontmatter shadow)"
    and "parse_canonical_markdown Y (render_canonical_markdown
           (cd_new (sd_frontmatter shadow) (sd_rendered_body shadow))) = Inr s"
    and "parse_canonical_markdown Y (render_canonical_markdown edited) = Inr e"
  shows "\<exists>u. property_diff_operations Y shadow edited =
        Inr (if u = [] then [] else [UpdateProperties (sd_entity_id shadow) u]) \<and>
      (\<forall>k. bm_get u k =
        (if \<not> frontmatter_values_semantically_equal Y (bm_get (fm_properties (pd_frontmatter s)) k)
               (bm_get (fm_properties (pd_frontmatter e)) k)
         then Some (case bm_get (fm_properties (pd_frontmatter e)) k of
                      None \<Rightarrow> PNull | Some v \<Rightarrow> property_value_from_frontmatter Y v)
         else if k = ''title'' \<and> fm_title (pd_frontmatter s) \<noteq> fm_title (pd_frontmatter e)
         then Some (title_value e) else None))"
proof -
  let ?P = "\<lambda>k. bm_get (fm_properties (pd_frontmatter s)) k"
    and ?Q = "\<lambda>k. bm_get (fm_properties (pd_frontmatter e)) k"
  let ?keys = "bm_keys (bm_collect (map (\<lambda>k. (k, ()))
      (bm_keys (fm_properties (pd_frontmatter s)) @ bm_keys (fm_properties (pd_frontmatter e)))))"
  let ?t = "if fm_title (pd_frontmatter s) \<noteq> fm_title (pd_frontmatter e)
      then bm_insert ''title'' (title_value e) [] else []"
  let ?u = "fold (\<lambda>k u. if \<not> frontmatter_values_semantically_equal Y (?P k) (?Q k)
      then bm_insert k (case ?Q k of None \<Rightarrow> PNull | Some v \<Rightarrow> property_value_from_frontmatter Y v) u
      else u) ?keys ?t"
  have ops: "property_diff_operations Y shadow edited =
      Inr (if ?u = [] then [] else [UpdateProperties (sd_entity_id shadow) ?u])"
    using assms by (simp add: property_diff_operations_def Let_def title_value_def)
  have "k \<in> set ?keys" if "\<not> frontmatter_values_semantically_equal Y (?P k) (?Q k)" for k
  proof (rule ccontr)
    assume "k \<notin> set ?keys"
    then have "?P k = None \<and> ?Q k = None"
      unfolding set_collected_keys by (auto simp: map_of_eq_None_iff)
    with that show False by simp
  qed
  then have "bm_get ?u k =
        (if \<not> frontmatter_values_semantically_equal Y (?P k) (?Q k)
         then Some (case ?Q k of None \<Rightarrow> PNull | Some v \<Rightarrow> property_value_from_frontmatter Y v)
         else bm_get ?t k)" for k
    unfolding updates_fold by auto
  then show ?thesis
    by (intro exI[of _ ?u]) (auto simp: ops)
qed

lemma parse_rendered:
  assumes "fence_free (norm_frontmatter (cd_frontmatter d))"
    and "parse_frontmatter Y (norm_frontmatter (cd_frontmatter d)) = Inr f"
  shows "\<exists>p. parse_canonical_markdown Y (render_canonical_markdown d) = Inr p \<and> pd_frontmatter p = f"
  using assms by (simp add: parse_canonical_markdown_def split_rendered Let_def)

lemma property_diff_same:
  assumes "cd_frontmatter edited = sd_frontmatter shadow"
    and "fence_free (norm_frontmatter (sd_frontmatter shadow))"
    and "parse_frontmatter Y (norm_frontmatter (sd_frontmatter shadow)) = Inr f"
    and "\<And>v. value_eq Y v v"
  shows "property_diff_operations Y shadow edited = Inr []"
proof (cases "is_blank (sd_frontmatter shadow)")
  case True
  then show ?thesis by (simp add: property_diff_operations_def)
next
  case False
  obtain s where s: "parse_canonical_markdown Y (render_canonical_markdown
      (cd_new (sd_frontmatter shadow) (sd_rendered_body shadow))) = Inr s" "pd_frontmatter s = f"
    using parse_rendered[of "cd_new (sd_frontmatter shadow) (sd_rendered_body shadow)" Y f] assms(2,3)
    by (auto simp: cd_new_def)
  obtain e where e: "parse_canonical_markdown Y (render_canonical_markdown edited) = Inr e"
    "pd_frontmatter e = f"
    using parse_rendered[of edited Y f] assms(1-3) by auto
  have same: "fold (\<lambda>k u. if \<not> frontmatter_values_semantically_equal Y (g k) (g k) then h k u else u) ks u = u"
    for g h ks and u :: "(string, property_value) btree_map"
    by (induction ks arbitrary: u) (simp_all add: semantically_equal_refl[OF assms(4)])
  show ?thesis
    using False s e same[of "bm_get (fm_properties f)"]
    by (simp add: property_diff_operations_def Let_def)
qed

text \<open>A file whose frontmatter is the synced one yields no property update, whatever its body:
  re-rendering and re-parsing the two documents changes nothing.\<close>

theorem unchanged_frontmatter_no_update:
  assumes "cd_frontmatter edited = sd_frontmatter shadow"
    and "fence_free (norm_frontmatter (sd_frontmatter shadow))"
    and "parse_frontmatter Y (norm_frontmatter (sd_frontmatter shadow)) = Inr f"
    and "\<And>v. value_eq Y v v"
  shows "property_diff_operations Y shadow edited = Inr []"
  using assms by (rule property_diff_same)

theorem unchanged_frontmatter_no_update_witness:
  "property_diff_operations title_yaml
     \<lparr>sd_entity_id = RemoteId ''e'', sd_frontmatter = ''title: A'' @ [CHR 0x0A], sd_body_hash = [],
      sd_rendered_body = ''B'', sd_blocks = []\<rparr>
     (cd_new (''title: A'' @ [CHR 0x0A]) ''C'') = Inr []"
proof (rule unchanged_frontmatter_no_update)
  let ?fm = "sd_frontmatter \<lparr>sd_entity_id = RemoteId ''e'', sd_frontmatter = ''title: A'' @ [CHR 0x0A],
      sd_body_hash = [], sd_rendered_body = ''B'', sd_blocks = []\<rparr>"
  have n: "norm_frontmatter ?fm = ''title: A'' @ [CHR 0x0A]"
    by (simp add: norm_frontmatter_def terminated_def suffix_def)
  show "fence_free (norm_frontmatter ?fm)"
    unfolding n by (simp add: fence_free_def fence_def trim_line_ending_def trim_end_matches_def)
  show "parse_frontmatter title_yaml (norm_frontmatter ?fm) =
      Inr \<lparr>fm_loc = None, fm_title = Some ''A'', fm_properties = []\<rparr>"
    unfolding n by code_simp
qed (simp_all add: cd_new_def title_yaml_def)

theorem property_updates_exact_witness:
  "\<exists>u. property_diff_operations title_yaml
        \<lparr>sd_entity_id = RemoteId ''e'', sd_frontmatter = ''title: A'', sd_body_hash = [],
         sd_rendered_body = [], sd_blocks = []\<rparr> (cd_new ''title: B'' []) =
        Inr (if u = [] then [] else [UpdateProperties (RemoteId ''e'') u])"
proof -
  let ?s = "\<lparr>sd_entity_id = RemoteId ''e'', sd_frontmatter = ''title: A'', sd_body_hash = [],
         sd_rendered_body = [], sd_blocks = []\<rparr>"
  have b: "\<not> is_blank (sd_frontmatter ?s)" by code_simp
  have "\<not> isl (parse_canonical_markdown title_yaml (render_canonical_markdown
      (cd_new (sd_frontmatter ?s) (sd_rendered_body ?s))))"
    and "\<not> isl (parse_canonical_markdown title_yaml (render_canonical_markdown (cd_new ''title: B'' [])))"
    by code_simp+
  then obtain s1 e1 where s1: "parse_canonical_markdown title_yaml (render_canonical_markdown
      (cd_new (sd_frontmatter ?s) (sd_rendered_body ?s))) = Inr s1" and
    e1: "parse_canonical_markdown title_yaml (render_canonical_markdown (cd_new ''title: B'' [])) = Inr e1"
    by (metis not_isl_Inr)
  from property_updates_exact[OF b s1 e1] show ?thesis by (simp only: shadow_document.simps) blast
qed

end
