(* ===== verification/LCS.thy ===== *)
theory LCS
  imports Prelude
begin

text \<open>
  Longest common subsequences, which the program computes twice: \<open>lcs_pairs\<close> of conflict.rs on a
  flat vector of lengths and \<open>align_equal_runs\<close> of diff.rs on a vector of rows. Both fill a table
  of suffix lengths from the bottom right corner and then walk it from the top left one. This
  theory holds the reference function \<open>lcs_len\<close>, the two loops over an abstract table, the locale
  \<open>cell_table\<close> stating what the loops rely on, and its interpretations on the two layouts.
\<close>

section \<open>The reference\<close>

fun lcs_len :: "('a \<Rightarrow> 'b \<Rightarrow> bool) \<Rightarrow> 'a list \<Rightarrow> 'b list \<Rightarrow> nat" where
  "lcs_len eq [] ys = 0"
| "lcs_len eq (x # xs) [] = 0"
| "lcs_len eq (x # xs) (y # ys) =
     (if eq x y then Suc (lcs_len eq xs ys)
      else max (lcs_len eq xs (y # ys)) (lcs_len eq (x # xs) ys))"

lemma lcs_len_Nil2 [simp]: "lcs_len eq xs [] = 0"
  by (cases xs) simp_all

text \<open>Every pair of related subsequences is at most that long.\<close>

lemma lcs_len_upper:
  "subseq us xs \<Longrightarrow> subseq vs ys \<Longrightarrow> list_all2 eq us vs \<Longrightarrow> length us \<le> lcs_len eq xs ys"
proof (induction eq xs ys arbitrary: us vs rule: lcs_len.induct)
  case (1 eq ys)
  then show ?case by simp
next
  case (2 eq x xs)
  then have "vs = []" by (cases vs) simp_all
  with 2 show ?case by simp
next
  case (3 eq x xs y ys)
  show ?case
  proof (cases us)
    case Nil
    then show ?thesis by simp
  next
    case (Cons u us')
    with "3.prems" obtain v vs' where vs: "vs = v # vs'" and uv: "eq u v"
      and tl: "list_all2 eq us' vs'"
      by (auto simp: list_all2_Cons1)
    have su: "subseq us' xs" and sv: "subseq vs' ys"
      using "3.prems"(1,2) Cons vs by (auto split: if_splits dest: subseq_Cons')
    show ?thesis
    proof (cases "eq x y")
      case True
      then show ?thesis using "3.IH"(1)[OF True su sv tl] Cons by simp
    next
      case False
      then have "u \<noteq> x \<or> v \<noteq> y" using uv by auto
      then show ?thesis
      proof
        assume "u \<noteq> x"
        then have "subseq us xs" using "3.prems"(1) Cons by simp
        from "3.IH"(2)[OF False this "3.prems"(2,3)] False show ?thesis by simp
      next
        assume "v \<noteq> y"
        then have "subseq vs ys" using "3.prems"(2) vs by simp
        from "3.IH"(3)[OF False "3.prems"(1) this "3.prems"(3)] False show ?thesis by simp
      qed
    qed
  qed
qed

lemma lcs_len_drop:
  "i < length xs \<Longrightarrow> j < length ys \<Longrightarrow>
    lcs_len eq (drop i xs) (drop j ys) =
      (if eq (xs ! i) (ys ! j) then Suc (lcs_len eq (drop (Suc i) xs) (drop (Suc j) ys))
       else max (lcs_len eq (drop (Suc i) xs) (drop j ys))
                (lcs_len eq (drop i xs) (drop (Suc j) ys)))"
  by (simp add: Cons_nth_drop_Suc[symmetric] del: drop_Suc_Cons)

section \<open>Walking a table of lengths\<close>

function lcs_walk :: "('a \<Rightarrow> 'b \<Rightarrow> bool) \<Rightarrow> 'a list \<Rightarrow> 'b list \<Rightarrow> (nat \<Rightarrow> nat \<Rightarrow> nat) \<Rightarrow> nat \<Rightarrow> nat
    \<Rightarrow> (nat \<times> nat) list" where
  "lcs_walk eq xs ys len i j =
     (if i < length xs \<and> j < length ys then
        if eq (xs ! i) (ys ! j) then (i, j) # lcs_walk eq xs ys len (i + 1) (j + 1)
        else if len (i + 1) j \<ge> len i (j + 1) then lcs_walk eq xs ys len (i + 1) j
        else lcs_walk eq xs ys len i (j + 1)
      else [])"
  by pat_completeness auto
termination
  by (relation "measure (\<lambda>(eq, xs, ys, len, i, j). (length xs - i) + (length ys - j))") auto

declare lcs_walk.simps [simp del]

text \<open>A chain of index pairs: strictly increasing in both components, from given cursors on.\<close>

fun lcs_chain :: "nat \<Rightarrow> nat \<Rightarrow> (nat \<times> nat) list \<Rightarrow> bool" where
  "lcs_chain i j [] \<longleftrightarrow> True"
| "lcs_chain i j ((a, b) # ps) \<longleftrightarrow> i \<le> a \<and> j \<le> b \<and> lcs_chain (Suc a) (Suc b) ps"

lemma lcs_chain_mono: "lcs_chain i j ps \<Longrightarrow> i' \<le> i \<Longrightarrow> j' \<le> j \<Longrightarrow> lcs_chain i' j' ps"
  by (cases ps) auto

lemma lcs_chain_bounds: "lcs_chain i j ps \<Longrightarrow> (a, b) \<in> set ps \<Longrightarrow> i \<le> a \<and> j \<le> b"
proof (induction ps arbitrary: i j)
  case Nil
  then show ?case by simp
next
  case (Cons p ps)
  then show ?case by (cases p) fastforce
qed

lemma lcs_chain_distinct: "lcs_chain i j ps \<Longrightarrow> distinct (map fst ps) \<and> distinct (map snd ps)"
proof (induction ps arbitrary: i j)
  case Nil
  then show ?case by simp
next
  case (Cons p ps)
  obtain a b where p: "p = (a, b)" by (cases p)
  have c: "lcs_chain (Suc a) (Suc b) ps" using Cons.prems p by simp
  have "a \<notin> fst ` set ps" "b \<notin> snd ` set ps"
    using lcs_chain_bounds[OF c] by fastforce+
  then show ?case using Cons.IH[OF c] p by simp
qed

lemma lcs_walk_chain: "lcs_chain i j (lcs_walk eq xs ys len i j)"
proof (induction eq xs ys len i j rule: lcs_walk.induct)
  case (1 eq xs ys len i j)
  then show ?case
    by (subst lcs_walk.simps) (auto intro: lcs_chain_mono)
qed

lemma lcs_walk_related:
  "(a, b) \<in> set (lcs_walk eq xs ys len i j) \<Longrightarrow>
     a < length xs \<and> b < length ys \<and> eq (xs ! a) (ys ! b)"
proof (induction eq xs ys len i j rule: lcs_walk.induct)
  case (1 eq xs ys len i j)
  then show ?case
    by (subst (asm) (2) lcs_walk.simps) (auto split: if_splits)
qed

text \<open>With the table of suffix lengths, the walk is as long as the reference says.\<close>

lemma lcs_walk_length:
  assumes "\<And>a b. a \<le> length xs \<Longrightarrow> b \<le> length ys \<Longrightarrow>
    len a b = lcs_len eq (drop a xs) (drop b ys)"
  shows "length (lcs_walk eq xs ys len i j) = lcs_len eq (drop i xs) (drop j ys)"
  using assms
proof (induction eq xs ys len i j rule: lcs_walk.induct)
  case (1 eq xs ys len i j)
  note len = "1.prems"
  show ?case
  proof (cases "i < length xs \<and> j < length ys")
    case False
    then show ?thesis by (subst lcs_walk.simps) auto
  next
    case True
    note b = this
    consider (eq) "eq (xs ! i) (ys ! j)"
      | (down) "\<not> eq (xs ! i) (ys ! j)" "len (i + 1) j \<ge> len i (j + 1)"
      | (right) "\<not> eq (xs ! i) (ys ! j)" "\<not> len (i + 1) j \<ge> len i (j + 1)"
      by blast
    then show ?thesis
    proof cases
      case eq
      with "1.IH"(1)[OF b eq len] b show ?thesis
        by (subst lcs_walk.simps) (simp add: lcs_len_drop)
    next
      case down
      with "1.IH"(2)[OF b down len] b len[of "i + 1" j] len[of i "j + 1"] show ?thesis
        by (subst lcs_walk.simps) (simp add: lcs_len_drop max_def)
    next
      case right
      with "1.IH"(3)[OF b right len] b len[of "i + 1" j] len[of i "j + 1"] show ?thesis
        by (subst lcs_walk.simps) (simp add: lcs_len_drop max_def)
    qed
  qed
qed

text \<open>On equal inputs the walk is the diagonal, whatever the table holds.\<close>

lemma lcs_walk_diagonal:
  assumes "\<And>k. k < length xs \<Longrightarrow> eq (xs ! k) (ys ! k)" and "length ys = length xs"
  shows "lcs_walk eq xs ys len i i = map (\<lambda>k. (k, k)) [i..<length xs]"
proof (induction "length xs - i" arbitrary: i)
  case 0
  then show ?case by (subst lcs_walk.simps) simp
next
  case (Suc n)
  then have i: "i < length xs" and n: "n = length xs - Suc i" by simp_all
  show ?case
    using i assms Suc.hyps(1)[OF n] by (subst lcs_walk.simps) (simp add: upt_conv_Cons)
qed

section \<open>Filling the table\<close>

definition fill_cell :: "('t \<Rightarrow> nat \<Rightarrow> nat \<Rightarrow> nat) \<Rightarrow> (nat \<Rightarrow> nat \<Rightarrow> nat \<Rightarrow> 't \<Rightarrow> 't) \<Rightarrow> ('a \<Rightarrow> 'b \<Rightarrow> bool)
    \<Rightarrow> 'a list \<Rightarrow> 'b list \<Rightarrow> nat \<Rightarrow> nat \<Rightarrow> 't \<Rightarrow> 't" where
  "fill_cell get put eq xs ys i j t =
     put i j (if eq (xs ! i) (ys ! j) then get t (i + 1) (j + 1) + 1
              else max (get t (i + 1) j) (get t i (j + 1))) t"

definition fill_table :: "('t \<Rightarrow> nat \<Rightarrow> nat \<Rightarrow> nat) \<Rightarrow> (nat \<Rightarrow> nat \<Rightarrow> nat \<Rightarrow> 't \<Rightarrow> 't) \<Rightarrow> ('a \<Rightarrow> 'b \<Rightarrow> bool)
    \<Rightarrow> 'a list \<Rightarrow> 'b list \<Rightarrow> 't \<Rightarrow> 't" where
  "fill_table get put eq xs ys t =
     fold (\<lambda>i. fold (\<lambda>j. fill_cell get put eq xs ys i j) (rev [0..<length ys]))
       (rev [0..<length xs]) t"

lemma fold_down:
  "P n t \<Longrightarrow> (\<And>i t. i < n \<Longrightarrow> P (Suc i) t \<Longrightarrow> P i (f i t)) \<Longrightarrow> P 0 (fold f (rev [0..<n]) t)"
  by (induction n arbitrary: t) auto

text \<open>What the loops rely on in the representation of a table of \<open>rows + 1\<close> by \<open>cols + 1\<close> cells.\<close>

locale cell_table =
  fixes get :: "'t \<Rightarrow> nat \<Rightarrow> nat \<Rightarrow> nat"
    and put :: "nat \<Rightarrow> nat \<Rightarrow> nat \<Rightarrow> 't \<Rightarrow> 't"
    and shaped :: "'t \<Rightarrow> bool"
    and rows :: nat
    and cols :: nat
  assumes put_shaped: "shaped t \<Longrightarrow> i \<le> rows \<Longrightarrow> j \<le> cols \<Longrightarrow> shaped (put i j v t)"
    and get_put: "shaped t \<Longrightarrow> i \<le> rows \<Longrightarrow> j \<le> cols \<Longrightarrow> a \<le> rows \<Longrightarrow> b \<le> cols \<Longrightarrow>
      get (put i j v t) a b = (if a = i \<and> b = j then v else get t a b)"
begin

definition filled :: "('a \<Rightarrow> 'b \<Rightarrow> bool) \<Rightarrow> 'a list \<Rightarrow> 'b list \<Rightarrow> nat \<Rightarrow> nat \<Rightarrow> 't \<Rightarrow> bool" where
  "filled eq xs ys i j t \<longleftrightarrow> shaped t \<and>
     (\<forall>a\<le>rows. \<forall>b\<le>cols. i < a \<or> a = i \<and> j \<le> b \<or> b = cols \<or> a = rows \<longrightarrow>
        get t a b = lcs_len eq (drop a xs) (drop b ys))"

lemma filled_at:
  "filled eq xs ys i j t \<Longrightarrow> a \<le> rows \<Longrightarrow> b \<le> cols \<Longrightarrow>
    i < a \<or> a = i \<and> j \<le> b \<or> b = cols \<or> a = rows \<Longrightarrow>
    get t a b = lcs_len eq (drop a xs) (drop b ys)"
  unfolding filled_def by blast

lemma filled_cell:
  assumes "filled eq xs ys i (Suc j) t" "i < rows" "j < cols"
    and "length xs = rows" "length ys = cols"
  shows "filled eq xs ys i j (fill_cell get put eq xs ys i j t)"
proof -
  have sh: "shaped t" using assms(1) by (simp add: filled_def)
  have v: "(if eq (xs ! i) (ys ! j) then get t (i + 1) (j + 1) + 1
      else max (get t (i + 1) j) (get t i (j + 1))) = lcs_len eq (drop i xs) (drop j ys)"
    using assms by (simp add: lcs_len_drop filled_at[OF assms(1)])
  have "get (put i j v t) a b = (if a = i \<and> b = j then v else get t a b)"
    if "a \<le> rows" "b \<le> cols" for a b v
    using get_put[OF sh] assms(2,3) that by simp
  then show ?thesis
    using assms put_shaped[OF sh] filled_at[OF assms(1)]
    unfolding fill_cell_def v by (subst filled_def) auto
qed

lemma filled_row:
  assumes "filled eq xs ys (Suc i) 0 t" "i < rows" "length xs = rows" "length ys = cols"
  shows "filled eq xs ys i 0 (fold (\<lambda>j. fill_cell get put eq xs ys i j) (rev [0..<length ys]) t)"
proof (rule fold_down[where P = "\<lambda>j. filled eq xs ys i j"])
  show "filled eq xs ys i (length ys) t"
    using assms(1,2,4) unfolding filled_def by (metis Suc_leI le_antisym linorder_neqE_nat not_less_eq zero_le)
next
  fix j t'
  assume "j < length ys" "filled eq xs ys i (Suc j) t'"
  then show "filled eq xs ys i j (fill_cell get put eq xs ys i j t')"
    using assms(2-4) by (intro filled_cell) simp_all
qed

lemma fill_table_correct:
  assumes "shaped t" "length xs = rows" "length ys = cols"
    and "\<And>a b. a \<le> rows \<Longrightarrow> b \<le> cols \<Longrightarrow> a = rows \<or> b = cols \<Longrightarrow> get t a b = 0"
    and "a \<le> rows" "b \<le> cols"
  shows "get (fill_table get put eq xs ys t) a b = lcs_len eq (drop a xs) (drop b ys)"
proof -
  have "filled eq xs ys 0 0 (fill_table get put eq xs ys t)"
    unfolding fill_table_def
  proof (rule fold_down[where P = "\<lambda>i. filled eq xs ys i 0"])
    show "filled eq xs ys (length xs) 0 t"
      using assms(1-4) unfolding filled_def by (auto simp: le_antisym)
  next
    fix i t'
    assume "i < length xs" "filled eq xs ys (Suc i) 0 t'"
    then show "filled eq xs ys i 0
        (fold (\<lambda>j. fill_cell get put eq xs ys i j) (rev [0..<length ys]) t')"
      using assms(2,3) by (intro filled_row) simp_all
  qed
  from filled_at[OF this assms(5,6)] show ?thesis by (cases "a = 0") simp_all
qed

text \<open>The pairs read off a filled table: a chain of related positions of maximal length.\<close>

lemma walk_of_filled_length:
  assumes "shaped t" "length xs = rows" "length ys = cols"
    and "\<And>a b. a \<le> rows \<Longrightarrow> b \<le> cols \<Longrightarrow> a = rows \<or> b = cols \<Longrightarrow> get t a b = 0"
  shows "length (lcs_walk eq xs ys (get (fill_table get put eq xs ys t)) 0 0) = lcs_len eq xs ys"
  using lcs_walk_length[of xs ys "get (fill_table get put eq xs ys t)" eq 0 0]
    fill_table_correct[OF assms(1-3)] assms(4) assms(2,3) by simp

end

section \<open>The two layouts\<close>

text \<open>A flat vector in row order (conflict.rs) and a vector of rows (diff.rs).\<close>

definition flat_get :: "usize \<Rightarrow> nat list \<Rightarrow> nat \<Rightarrow> nat \<Rightarrow> nat" where
  "flat_get width lengths i j = lengths ! (i * width + j)"

definition flat_put :: "usize \<Rightarrow> nat \<Rightarrow> nat \<Rightarrow> nat \<Rightarrow> nat list \<Rightarrow> nat list" where
  "flat_put width i j v lengths = lengths[i * width + j := v]"

definition rows_get :: "nat list list \<Rightarrow> nat \<Rightarrow> nat \<Rightarrow> nat" where
  "rows_get lengths i j = lengths ! i ! j"

definition rows_put :: "nat \<Rightarrow> nat \<Rightarrow> nat \<Rightarrow> nat list list \<Rightarrow> nat list list" where
  "rows_put i j v lengths = lengths[i := (lengths ! i)[j := v]]"

lemma flat_index_less: "i \<le> r \<Longrightarrow> j < w \<Longrightarrow> i * w + j < Suc r * (w :: nat)"
proof -
  assume "i \<le> r" "j < w"
  then have "i * w + j < i * w + w" by simp
  also have "\<dots> = Suc i * w" by simp
  also have "\<dots> \<le> Suc r * w" using \<open>i \<le> r\<close> by (intro mult_le_mono1) simp
  finally show ?thesis .
qed

lemma flat_index_inj: "j < w \<Longrightarrow> b < w \<Longrightarrow> a * w + b = i * w + j \<longleftrightarrow> a = i \<and> b = (j :: nat)"
  by (metis add.commute div_mult_self1 div_less gr_implies_not0 mod_less mod_mult_self1 plus_nat.add_0)

interpretation flat: cell_table "flat_get (Suc c)" "flat_put (Suc c)"
  "\<lambda>t. length t = Suc r * Suc c" r c for r c
proof unfold_locales
  fix t :: "nat list" and i j a b v
  assume *: "length t = Suc r * Suc c" "i \<le> r" "j \<le> c" "a \<le> r" "b \<le> c"
  have "i * Suc c + j < length t" using flat_index_less[of i r j "Suc c"] * by simp
  moreover have "a * Suc c + b = i * Suc c + j \<longleftrightarrow> a = i \<and> b = j"
    using flat_index_inj[of j "Suc c" b a i] * by simp
  ultimately show "flat_get (Suc c) (flat_put (Suc c) i j v t) a b =
      (if a = i \<and> b = j then v else flat_get (Suc c) t a b)"
    by (auto simp: flat_get_def flat_put_def nth_list_update)
qed (simp add: flat_put_def)

definition rows_shaped :: "nat \<Rightarrow> nat \<Rightarrow> nat list list \<Rightarrow> bool" where
  "rows_shaped r c t \<longleftrightarrow> length t = Suc r \<and> (\<forall>row\<in>set t. length row = Suc c)"

interpretation nested: cell_table rows_get rows_put "rows_shaped r c" r c for r c
proof unfold_locales
  fix t i j v
  assume *: "rows_shaped r c t" "i \<le> r" "j \<le> c"
  then show "rows_shaped r c (rows_put i j v t)"
    by (auto simp: rows_shaped_def rows_put_def dest!: subsetD[OF set_update_subset_insert])
next
  fix t i j a b v
  assume *: "rows_shaped r c t" "i \<le> r" "j \<le> c" "a \<le> r" "b \<le> c"
  then have "length (t ! i) = Suc c" by (auto simp: rows_shaped_def)
  with * show "rows_get (rows_put i j v t) a b = (if a = i \<and> b = j then v else rows_get t a b)"
    by (auto simp: rows_shaped_def rows_get_def rows_put_def nth_list_update)
qed

end
