(* ===== verification/Block_Diff.thy ===== *)
theory Block_Diff
  imports Property_Diff LCS
begin

text \<open>
  The block half of \<open>locality-core/src/diff.rs\<close>: validation of edited directives against the shadow,
  the alignment of edited blocks with shadow blocks in five passes, and the plan of block
  operations. The state of an alignment is the vector \<open>matches\<close> (a shadow index or nothing for every
  edited block) and the set of used shadow indices. The lemmas show that every pass keeps the
  alignment a partial injection whose range is the used set, what the plan does with matched and
  unmatched blocks, and that an unedited body yields no operation.
\<close>

section \<open>Directive validation\<close>

definition diff_issue :: "string \<Rightarrow> usize \<Rightarrow> string \<Rightarrow> validation_issue" where
  "diff_issue code line message =
     vi_new code [] (Some line) message
       (Some ''restore the directive line exactly or delete it to delete the block'')"

definition shadow_directives_by_id :: "shadow_document \<Rightarrow> (remote_id, shadow_block) btree_map" where
  "shadow_directives_by_id shadow =
     bm_collect (map (\<lambda>b. (sb_remote_id b, b))
       (filter (\<lambda>b. kind_is_directive (sb_kind b)) (sd_blocks shadow)))"

definition edited_directive_issues ::
    "(remote_id, shadow_block) btree_map \<Rightarrow> segmented_block \<Rightarrow> validation_issue list" where
  "edited_directive_issues shadow_directives block =
     (case seg_kind block of
        MDirective directive_type raw malformed \<Rightarrow>
          (let line = start_line (seg_source_span block)
           in if malformed then
                [diff_issue ''directive_malformed'' line ''Locality directive syntax is malformed'']
              else case seg_remote_id block of
                None \<Rightarrow>
                  [diff_issue ''directive_missing_id'' line
                     ''Locality directive is missing an `id` attribute'']
              | Some remote_id \<Rightarrow>
                  if directive_type = None then
                    [diff_issue ''directive_missing_type'' line
                       ''Locality directive is missing a `type` attribute'']
                  else case bm_get shadow_directives remote_id of
                    None \<Rightarrow>
                      [diff_issue ''directive_unknown'' line
                         (''directive anchor `'' @ remote_id_str remote_id
                          @ ''` was not present in the synced shadow'')]
                  | Some shadow_block \<Rightarrow>
                      (case sb_kind shadow_block of
                         MDirective shadow_type shadow_raw _ \<Rightarrow>
                           if directive_type \<noteq> shadow_type \<or> raw \<noteq> shadow_raw then
                             [diff_issue ''directive_mangled'' line
                                (''directive anchor `'' @ remote_id_str remote_id @ ''` was edited'')]
                           else []
                       | _ \<Rightarrow> []))
      | _ \<Rightarrow> [])"

definition validate_edited_directives :: "shadow_document \<Rightarrow> segmented_block list \<Rightarrow> validation_report" where
  "validate_edited_directives shadow edited_blocks =
     (let shadow_directives = shadow_directives_by_id shadow
      in \<lparr>issues = concat (map (edited_directive_issues shadow_directives) (filter is_directive edited_blocks))\<rparr>)"

section \<open>Alignment\<close>

record alignment =
  matches :: "usize option list"
  used_shadow :: "usize set"

definition match_block :: "usize \<Rightarrow> usize \<Rightarrow> alignment \<Rightarrow> alignment" where
  "match_block edited_index shadow_index st =
     st\<lparr>matches := (matches st)[edited_index := Some shadow_index],
        used_shadow := insert shadow_index (used_shadow st)\<rparr>"

text \<open>\<open>used_shadow.insert(i)\<close> followed by the assignment when the insertion is new.\<close>

definition match_if_unused :: "usize \<Rightarrow> usize option \<Rightarrow> alignment \<Rightarrow> alignment" where
  "match_if_unused edited_index candidate st =
     (case candidate of
        None \<Rightarrow> st
      | Some shadow_index \<Rightarrow>
          if shadow_index \<in> used_shadow st then st else match_block edited_index shadow_index st)"

definition shadow_directive_indexes_by_id :: "shadow_document \<Rightarrow> (remote_id, usize) btree_map" where
  "shadow_directive_indexes_by_id shadow =
     bm_collect (map (\<lambda>(index, b). (sb_remote_id b, index))
       (filter (\<lambda>(_, b). kind_is_directive (sb_kind b)) (enumerate 0 (sd_blocks shadow))))"

definition align_directives :: "shadow_document \<Rightarrow> segmented_block list \<Rightarrow> alignment \<Rightarrow> alignment" where
  "align_directives shadow edited_blocks st =
     (let shadow_directives = shadow_directive_indexes_by_id shadow
      in fold (\<lambda>(edited_index, block) st.
           if \<not> is_directive block then st
           else case seg_remote_id block of
             None \<Rightarrow> st
           | Some remote_id \<Rightarrow> match_if_unused edited_index (bm_get shadow_directives remote_id) st)
         (enumerate 0 edited_blocks) st)"

text \<open>\<open>*counts.entry(k).or_default() += 1\<close> over an iterator.\<close>

definition count_entries :: "'k::linorder list \<Rightarrow> ('k, usize) btree_map" where
  "count_entries ks =
     fold (\<lambda>k counts. bm_insert k ((case bm_get counts k of None \<Rightarrow> 0 | Some n \<Rightarrow> n) + 1) counts) ks []"

definition residual_edited :: "segmented_block list \<Rightarrow> alignment \<Rightarrow> usize \<Rightarrow> usize \<Rightarrow> usize list" where
  "residual_edited edited_blocks st lo hi =
     filter (\<lambda>i. matches st ! i = None \<and> \<not> is_directive (edited_blocks ! i)) [lo..<hi]"

definition residual_shadow :: "shadow_document \<Rightarrow> alignment \<Rightarrow> usize \<Rightarrow> usize \<Rightarrow> usize list" where
  "residual_shadow shadow st lo hi =
     filter (\<lambda>i. i \<notin> used_shadow st \<and> \<not> kind_is_directive (sb_kind (sd_blocks shadow ! i))) [lo..<hi]"

definition unique_native_shadow_hashes :: "shadow_document \<Rightarrow> alignment \<Rightarrow> (string, usize) btree_map" where
  "unique_native_shadow_hashes shadow st =
     (let native = residual_shadow shadow st 0 (length (sd_blocks shadow));
          hash = (\<lambda>i. sb_content_hash (sd_blocks shadow ! i));
          counts = count_entries (map hash native)
      in bm_collect (map (\<lambda>i. (hash i, i)) (filter (\<lambda>i. bm_get counts (hash i) = Some 1) native)))"

definition align_exact_hashes :: "shadow_document \<Rightarrow> segmented_block list \<Rightarrow> alignment \<Rightarrow> alignment" where
  "align_exact_hashes shadow edited_blocks st =
     (let hash_index = unique_native_shadow_hashes shadow st;
          edited_hash_counts = count_entries (map (\<lambda>i. seg_content_hash (edited_blocks ! i))
            (residual_edited edited_blocks st 0 (length edited_blocks)))
      in fold (\<lambda>(edited_index, block) st.
           if matches st ! edited_index \<noteq> None \<or> is_directive block then st
           else if bm_get edited_hash_counts (seg_content_hash block) \<noteq> Some 1 then st
           else match_if_unused edited_index (bm_get hash_index (seg_content_hash block)) st)
         (enumerate 0 edited_blocks) st)"

definition align_equivalent_bodies :: "shadow_document \<Rightarrow> segmented_block list \<Rightarrow> alignment \<Rightarrow> alignment" where
  "align_equivalent_bodies shadow edited_blocks st =
     (let shadow_residue = residual_shadow shadow st 0 (length (sd_blocks shadow));
          candidates = (\<lambda>edited_index. filter (\<lambda>shadow_index.
            rendered_bodies_equivalent (sb_text (sd_blocks shadow ! shadow_index))
              (seg_text (edited_blocks ! edited_index))) shadow_residue);
          edited_residue = residual_edited edited_blocks st 0 (length edited_blocks);
          edited_candidates = bm_collect (map (\<lambda>i. (i, candidates i))
            (filter (\<lambda>i. candidates i \<noteq> []) edited_residue));
          shadow_candidate_counts = count_entries (concat (map candidates edited_residue))
      in fold (\<lambda>(edited_index, candidates) st.
           if matches st ! edited_index \<noteq> None then st
           else case filter (\<lambda>shadow_index. shadow_index \<notin> used_shadow st
                    \<and> bm_get shadow_candidate_counts shadow_index = Some 1) candidates of
             [shadow_index] \<Rightarrow> match_block edited_index shadow_index st
           | _ \<Rightarrow> st)
         edited_candidates st)"

subsection \<open>Anchors and gaps\<close>

text \<open>The loop of \<open>ordered_alignment_anchors\<close>: the last shadow index taken.\<close>

fun anchors_loop :: "usize option list \<Rightarrow> usize \<Rightarrow> usize option \<Rightarrow> (usize \<times> usize) list" where
  "anchors_loop [] edited_index previous = []"
| "anchors_loop (None # ms) edited_index previous = anchors_loop ms (edited_index + 1) previous"
| "anchors_loop (Some shadow_index # ms) edited_index previous =
     (if (case previous of None \<Rightarrow> True | Some p \<Rightarrow> shadow_index > p)
      then (edited_index, shadow_index) # anchors_loop ms (edited_index + 1) (Some shadow_index)
      else anchors_loop ms (edited_index + 1) previous)"

definition ordered_alignment_anchors :: "usize option list \<Rightarrow> (usize \<times> usize) list" where
  "ordered_alignment_anchors ms = anchors_loop ms 0 None"

text \<open>The loop both gap passes share: one call of the gap function for each gap between
  consecutive anchors, before the first and after the last.\<close>

fun gaps_loop :: "((usize \<times> usize) option \<Rightarrow> (usize \<times> usize) option \<Rightarrow> alignment \<Rightarrow> alignment)
    \<Rightarrow> (usize \<times> usize) option \<Rightarrow> (usize \<times> usize) list \<Rightarrow> alignment \<Rightarrow> alignment" where
  "gaps_loop gap previous [] st = gap previous None st"
| "gaps_loop gap previous (anchor # anchors) st =
     gaps_loop gap (Some anchor) anchors (gap previous (Some anchor) st)"

definition align_gaps :: "((usize \<times> usize) option \<Rightarrow> (usize \<times> usize) option \<Rightarrow> alignment \<Rightarrow> alignment)
    \<Rightarrow> alignment \<Rightarrow> alignment" where
  "align_gaps gap st =
     (let anchors = ordered_alignment_anchors (matches st)
      in if anchors = [] then st else gaps_loop gap None anchors st)"

definition gap_starts :: "(usize \<times> usize) option \<Rightarrow> usize \<times> usize" where
  "gap_starts previous = (case previous of None \<Rightarrow> (0, 0) | Some (e, s) \<Rightarrow> (e + 1, s + 1))"

definition gap_ends :: "usize \<Rightarrow> usize \<Rightarrow> (usize \<times> usize) option \<Rightarrow> usize \<times> usize" where
  "gap_ends edited_len shadow_len next_anchor =
     (case next_anchor of None \<Rightarrow> (edited_len, shadow_len) | Some (e, s) \<Rightarrow> (e, s))"

definition gap_residuals :: "shadow_document \<Rightarrow> segmented_block list \<Rightarrow> alignment
    \<Rightarrow> (usize \<times> usize) option \<Rightarrow> (usize \<times> usize) option \<Rightarrow> usize list \<times> usize list" where
  "gap_residuals shadow edited_blocks st previous next_anchor =
     (let (edited_start, shadow_start) = gap_starts previous;
          (edited_end, shadow_end) =
            gap_ends (length edited_blocks) (length (sd_blocks shadow)) next_anchor
      in (residual_edited edited_blocks st edited_start edited_end,
          residual_shadow shadow st shadow_start shadow_end))"

definition has_heading_anchor ::
    "shadow_document \<Rightarrow> (usize \<times> usize) option \<Rightarrow> (usize \<times> usize) option \<Rightarrow> bool" where
  "has_heading_anchor shadow previous next_anchor \<longleftrightarrow>
     list_ex (\<lambda>a. case a of None \<Rightarrow> False | Some (_, i) \<Rightarrow> sb_kind (sd_blocks shadow ! i) = MHeading)
       [previous, next_anchor]"

definition same_alignment_kind :: "markdown_block_kind \<Rightarrow> markdown_block_kind \<Rightarrow> bool" where
  "same_alignment_kind left right \<longleftrightarrow>
     (case (left, right) of
        (MTableWithRows _ lc lr, MTableWithRows _ rc rr) \<Rightarrow> lc = rc \<and> lr = rr
      | (MTableWithRows _ _ _, MTable) \<Rightarrow> True
      | (MTable, MTableWithRows _ _ _) \<Rightarrow> True
      | (left, right) \<Rightarrow> left = right)"

definition residual_kinds_match_common_prefix ::
    "shadow_document \<Rightarrow> segmented_block list \<Rightarrow> usize list \<Rightarrow> usize list \<Rightarrow> bool" where
  "residual_kinds_match_common_prefix shadow edited_blocks rs re \<longleftrightarrow>
     list_all (\<lambda>(s, e). same_alignment_kind (sb_kind (sd_blocks shadow ! s)) (seg_kind (edited_blocks ! e)))
       (zip rs re)"

definition match_pairs :: "(usize \<times> usize) list \<Rightarrow> alignment \<Rightarrow> alignment" where
  "match_pairs pairs st = fold (\<lambda>(edited_index, shadow_index). match_block edited_index shadow_index) pairs st"

definition align_heading_bounded_gap :: "shadow_document \<Rightarrow> segmented_block list
    \<Rightarrow> (usize \<times> usize) option \<Rightarrow> (usize \<times> usize) option \<Rightarrow> alignment \<Rightarrow> alignment" where
  "align_heading_bounded_gap shadow edited_blocks previous next_anchor st =
     (if \<not> has_heading_anchor shadow previous next_anchor then st
      else
        let (re, rs) = gap_residuals shadow edited_blocks st previous next_anchor
        in if length re \<le> 1 \<or> length re \<noteq> length rs
              \<or> residual_kinds_match_common_prefix shadow edited_blocks rs re
           then st else match_pairs (zip re rs) st)"

definition align_heading_bounded_rewrites ::
    "shadow_document \<Rightarrow> segmented_block list \<Rightarrow> alignment \<Rightarrow> alignment" where
  "align_heading_bounded_rewrites shadow edited_blocks st =
     align_gaps (align_heading_bounded_gap shadow edited_blocks) st"

subsection \<open>Residual passes\<close>

definition equivalent_alignment_blocks :: "shadow_block \<Rightarrow> segmented_block \<Rightarrow> bool" where
  "equivalent_alignment_blocks shadow_block edited_block \<longleftrightarrow>
     same_alignment_kind (sb_kind shadow_block) (seg_kind edited_block)
     \<and> rendered_bodies_equivalent (sb_text shadow_block) (seg_text edited_block)"

text \<open>The table and the walk of \<open>align_equivalent_subsequence_indexes\<close>, on offsets into the two
  residues. The walk's assignments do not touch what the walk reads, so the pairs are collected
  first and assigned in the same order.\<close>

definition align_equivalent_subsequence_indexes :: "shadow_document \<Rightarrow> segmented_block list
    \<Rightarrow> usize list \<Rightarrow> usize list \<Rightarrow> alignment \<Rightarrow> alignment" where
  "align_equivalent_subsequence_indexes shadow edited_blocks re rs st =
     (if re = [] \<or> rs = [] then st
      else
        let eq = (\<lambda>e s. equivalent_alignment_blocks (sd_blocks shadow ! s) (edited_blocks ! e));
            lengths = fill_table rows_get rows_put eq re rs
              (replicate (length re + 1) (replicate (length rs + 1) 0))
        in match_pairs (map (\<lambda>(a, b). (re ! a, rs ! b)) (lcs_walk eq re rs (rows_get lengths) 0 0)) st)"

definition align_residual_equivalent_gap :: "shadow_document \<Rightarrow> segmented_block list
    \<Rightarrow> (usize \<times> usize) option \<Rightarrow> (usize \<times> usize) option \<Rightarrow> alignment \<Rightarrow> alignment" where
  "align_residual_equivalent_gap shadow edited_blocks previous next_anchor st =
     (let (re, rs) = gap_residuals shadow edited_blocks st previous next_anchor
      in align_equivalent_subsequence_indexes shadow edited_blocks re rs st)"

definition align_residual_equivalent_gaps ::
    "shadow_document \<Rightarrow> segmented_block list \<Rightarrow> alignment \<Rightarrow> alignment" where
  "align_residual_equivalent_gaps shadow edited_blocks st =
     align_gaps (align_residual_equivalent_gap shadow edited_blocks) st"

definition align_residual_equivalent_subsequence ::
    "shadow_document \<Rightarrow> segmented_block list \<Rightarrow> alignment \<Rightarrow> alignment" where
  "align_residual_equivalent_subsequence shadow edited_blocks st =
     align_equivalent_subsequence_indexes shadow edited_blocks
       (residual_edited edited_blocks st 0 (length edited_blocks))
       (residual_shadow shadow st 0 (length (sd_blocks shadow))) st"

definition align_residual_by_order ::
    "shadow_document \<Rightarrow> segmented_block list \<Rightarrow> alignment \<Rightarrow> alignment \<times> plan_degradation option" where
  "align_residual_by_order shadow edited_blocks st =
     (let st = align_residual_equivalent_gaps shadow edited_blocks st;
          st = align_residual_equivalent_subsequence shadow edited_blocks st;
          re = residual_edited edited_blocks st 0 (length edited_blocks);
          rs = residual_shadow shadow st 0 (length (sd_blocks shadow))
      in if length re > 1 \<and> length rs > 1
            \<and> \<not> residual_kinds_match_common_prefix shadow edited_blocks rs re
         then (st, Some (degradation_new AmbiguousBlockAlignment
                 ''multiple edited and synced blocks could not be aligned safely; unmatched edited blocks will be appended and unmatched synced blocks archived''))
         else (match_pairs (zip re rs) st, None))"

definition alignment_start :: "segmented_block list \<Rightarrow> alignment" where
  "alignment_start edited_blocks =
     \<lparr>matches = replicate (length edited_blocks) None, used_shadow = {}\<rparr>"

definition align_blocks :: "shadow_document \<Rightarrow> segmented_block list
    \<Rightarrow> alignment \<times> plan_degradation list" where
  "align_blocks shadow edited_blocks =
     (let st = alignment_start edited_blocks;
          st = align_directives shadow edited_blocks st;
          st = align_exact_hashes shadow edited_blocks st;
          st = align_equivalent_bodies shadow edited_blocks st;
          st = align_heading_bounded_rewrites shadow edited_blocks st;
          (st, degradation) = align_residual_by_order shadow edited_blocks st
      in (st, case degradation of None \<Rightarrow> [] | Some d \<Rightarrow> [d]))"

section \<open>Write kinds\<close>

datatype markdown_write_kind =
    WHeading usize | WParagraph | WQuote | WCallout | WBulletedList | WNumberedList | WToDo
  | WCode | WTable | WDivider | WEquation | WDirective

definition parse_heading_level :: "string \<Rightarrow> usize option" where
  "parse_heading_level markdown =
     (let trimmed = trim_start markdown;
          level = count_while (\<lambda>c. c = CHR ''#'') trimmed
      in if 1 \<le> level \<and> level \<le> 6 \<and> prefix '' '' (drop level trimmed) then Some level else None)"

definition is_to_do_item :: "string \<Rightarrow> bool" where
  "is_to_do_item trimmed \<longleftrightarrow>
     prefix ''- [ ] '' trimmed \<or> prefix ''- [] '' trimmed \<or> prefix ''- [x] '' trimmed
     \<or> prefix ''- [X] '' trimmed"

definition is_numbered_item :: "string \<Rightarrow> bool" where
  "is_numbered_item trimmed \<longleftrightarrow>
     (let digit_count = count_while is_ascii_digit trimmed
      in digit_count > 0 \<and> prefix ''. '' (drop digit_count trimmed))"

definition is_display_equation :: "string \<Rightarrow> bool" where
  "is_display_equation trimmed \<longleftrightarrow>
     prefix ''$$'' trimmed \<and> suffix ''$$'' trimmed \<and> length trimmed \<ge> 4"

definition is_callout :: "string \<Rightarrow> bool" where
  "is_callout markdown \<longleftrightarrow>
     (case str_lines markdown of
        [] \<Rightarrow> False
      | first # _ \<Rightarrow>
          (case strip_prefix ''> '' (trim_start first) of
             None \<Rightarrow> False
           | Some marker \<Rightarrow> prefix ''[!'' marker \<and> suffix '']'' marker))"

definition is_quote :: "string \<Rightarrow> bool" where
  "is_quote markdown \<longleftrightarrow>
     str_lines markdown \<noteq> [] \<and>
     list_all (\<lambda>line. case strip_prefix ''> '' (trim_start line) of
        None \<Rightarrow> False | Some t \<Rightarrow> \<not> prefix ''[!'' t) (str_lines markdown)"

definition paragraph_write_kind :: "string \<Rightarrow> markdown_write_kind" where
  "paragraph_write_kind markdown =
     (let trimmed = trim markdown
      in if trimmed = ''---'' then WDivider
         else if is_display_equation trimmed then WEquation
         else if is_callout markdown then WCallout
         else if is_quote markdown then WQuote
         else WParagraph)"

definition list_write_kind :: "string \<Rightarrow> markdown_write_kind" where
  "list_write_kind markdown =
     (let trimmed = trim_start markdown
      in if is_to_do_item trimmed then WToDo
         else if is_numbered_item trimmed then WNumberedList
         else WBulletedList)"

definition markdown_write_kind_of :: "markdown_block_kind \<Rightarrow> string \<Rightarrow> markdown_write_kind" where
  "markdown_write_kind_of k t =
     (let trimmed = trim_end_matches [CHR 0x0A] t
      in case k of
           MHeading \<Rightarrow> (case parse_heading_level trimmed of Some l \<Rightarrow> WHeading l | None \<Rightarrow> WHeading 0)
         | MParagraph \<Rightarrow> paragraph_write_kind trimmed
         | MList \<Rightarrow> list_write_kind trimmed
         | MCodeFence \<Rightarrow> WCode
         | MTable \<Rightarrow> WTable
         | MTableWithRows _ _ _ \<Rightarrow> WTable
         | MDirective _ _ _ \<Rightarrow> WDirective)"

definition should_replace_block :: "shadow_block \<Rightarrow> segmented_block \<Rightarrow> bool" where
  "should_replace_block shadow_block edited_block \<longleftrightarrow>
     markdown_write_kind_of (sb_kind shadow_block) (sb_text shadow_block)
       \<noteq> markdown_write_kind_of (seg_kind edited_block) (seg_text edited_block)"

section \<open>The plan\<close>

definition previous_retained_shadow_id ::
    "shadow_document \<Rightarrow> usize \<Rightarrow> usize set \<Rightarrow> usize set \<Rightarrow> remote_id option" where
  "previous_retained_shadow_id shadow shadow_index retained recreated =
     map_option (\<lambda>index. sb_remote_id (sd_blocks shadow ! index))
       (List.find (\<lambda>index. index \<in> retained \<and> index \<notin> recreated) (rev [0..<shadow_index]))"

definition should_move_block ::
    "shadow_block \<Rightarrow> segmented_block \<Rightarrow> remote_id option \<Rightarrow> remote_id option \<Rightarrow> bool" where
  "should_move_block shadow_block edited_block previous_retained_id previous_existing_id \<longleftrightarrow>
     previous_retained_id \<noteq> previous_existing_id
     \<and> kind_is_directive (sb_kind shadow_block)
     \<and> is_directive edited_block
     \<and> sb_content_hash shadow_block = seg_content_hash edited_block"

definition should_recreate_moved_native_block ::
    "shadow_block \<Rightarrow> segmented_block \<Rightarrow> remote_id option \<Rightarrow> remote_id option \<Rightarrow> remote_id set \<Rightarrow> bool" where
  "should_recreate_moved_native_block shadow_block edited_block previous_retained_id
       previous_existing_id moved_existing_ids \<longleftrightarrow>
     previous_retained_id \<noteq> previous_existing_id
     \<and> \<not> (case previous_existing_id of None \<Rightarrow> False | Some remote_id \<Rightarrow> remote_id \<in> moved_existing_ids)
     \<and> \<not> kind_is_directive (sb_kind shadow_block)
     \<and> \<not> is_directive edited_block
     \<and> sb_content_hash shadow_block = seg_content_hash edited_block"

record plan_state =
  ps_operations :: "push_operation list"
  ps_recreated_shadow :: "usize set"
  ps_moved_existing_ids :: "remote_id set"
  ps_previous_existing_id :: "remote_id option"

text \<open>One iteration of the loop over the edited blocks.\<close>

definition plan_step ::
    "shadow_document \<Rightarrow> usize set \<Rightarrow> segmented_block \<times> usize option \<Rightarrow> plan_state \<Rightarrow> plan_state" where
  "plan_step shadow retained_shadow em st =
     (case em of
        (edited_block, None) \<Rightarrow>
          st\<lparr>ps_operations := ps_operations st @
               [AppendBlock (sd_entity_id shadow) (ps_previous_existing_id st) (seg_text edited_block)]\<rparr>
      | (edited_block, Some shadow_index) \<Rightarrow>
          (let shadow_block = sd_blocks shadow ! shadow_index;
               previous_retained_id = previous_retained_shadow_id shadow shadow_index
                 retained_shadow (ps_recreated_shadow st);
               st = (if should_move_block shadow_block edited_block previous_retained_id
                          (ps_previous_existing_id st)
                     then st\<lparr>ps_operations := ps_operations st @
                               [MoveBlock (sb_remote_id shadow_block) (ps_previous_existing_id st)],
                             ps_moved_existing_ids :=
                               insert (sb_remote_id shadow_block) (ps_moved_existing_ids st)\<rparr>
                     else st)
           in if should_recreate_moved_native_block shadow_block edited_block previous_retained_id
                   (ps_previous_existing_id st) (ps_moved_existing_ids st)
              then st\<lparr>ps_operations := ps_operations st @
                        [AppendBlock (sd_entity_id shadow) (ps_previous_existing_id st)
                           (seg_text edited_block)],
                      ps_recreated_shadow := insert shadow_index (ps_recreated_shadow st)\<rparr>
              else
                let write_kind_changed = should_replace_block shadow_block edited_block;
                    ops = (if write_kind_changed
                              \<or> \<not> rendered_bodies_equivalent (sb_text shadow_block) (seg_text edited_block)
                           then (if write_kind_changed
                                 then [ReplaceBlock (sb_remote_id shadow_block) (seg_text edited_block)]
                                 else [UpdateBlock (sb_remote_id shadow_block) (seg_text edited_block)])
                           else [])
                in st\<lparr>ps_operations := ps_operations st @ ops,
                      ps_previous_existing_id := Some (sb_remote_id shadow_block)\<rparr>))"

definition plan_start :: "push_operation list \<Rightarrow> plan_state" where
  "plan_start ops =
     \<lparr>ps_operations = ops, ps_recreated_shadow = {}, ps_moved_existing_ids = {},
      ps_previous_existing_id = None\<rparr>"

definition archive_operations :: "shadow_document \<Rightarrow> usize set \<Rightarrow> usize set \<Rightarrow> push_operation list" where
  "archive_operations shadow retained_shadow recreated_shadow =
     map (\<lambda>(_, b). ArchiveBlock (sb_remote_id b))
       (filter (\<lambda>(index, _). index \<notin> retained_shadow \<or> index \<in> recreated_shadow)
         (enumerate 0 (sd_blocks shadow)))"

definition plan_block_diff :: "'n yaml_lib \<Rightarrow> shadow_document \<Rightarrow> canonical_document \<Rightarrow> usize
    \<Rightarrow> push_plan locality_result" where
  "plan_block_diff Y shadow edited edited_body_start_line =
     (let edited_blocks = segment_markdown_body (cd_body edited) edited_body_start_line;
          validation = validate_edited_directives shadow edited_blocks
      in if \<not> is_clean validation then Inl (EValidation (issues validation))
         else
           let (st, degs) = align_blocks shadow edited_blocks
           in rbind (property_diff_operations Y shadow edited) (\<lambda>property_ops.
              let retained_shadow = set (List.map_filter (\<lambda>shadow_index. shadow_index) (matches st));
                  ps = fold (plan_step shadow retained_shadow) (zip edited_blocks (matches st))
                         (plan_start property_ops)
              in Inr (with_degradations
                   (plan_new [sd_entity_id shadow]
                     (ps_operations ps
                      @ archive_operations shadow retained_shadow (ps_recreated_shadow ps)))
                   degs)))"

text \<open>\<open>BlockDiffEngine::plan_push\<close> and the stub engine.\<close>

record block_diff_engine =
  edited_body_start_line :: usize

definition engine_new :: block_diff_engine where
  "engine_new = \<lparr>edited_body_start_line = 1\<rparr>"

definition with_edited_body_start_line :: "block_diff_engine \<Rightarrow> usize \<Rightarrow> block_diff_engine" where
  "with_edited_body_start_line engine line = engine\<lparr>edited_body_start_line := line\<rparr>"

definition engine_plan_push :: "'n yaml_lib \<Rightarrow> block_diff_engine \<Rightarrow> shadow_document \<Rightarrow> canonical_document
    \<Rightarrow> push_plan locality_result" where
  "engine_plan_push Y engine shadow edited =
     plan_block_diff Y shadow edited (edited_body_start_line engine)"

definition stub_plan_push :: "shadow_document \<Rightarrow> canonical_document \<Rightarrow> push_plan locality_result" where
  "stub_plan_push shadow edited = Inl (ENotImplemented ''block-aware diff engine'')"


section \<open>The alignment is a partial injection\<close>

definition align_inv :: "shadow_document \<Rightarrow> segmented_block list \<Rightarrow> alignment \<Rightarrow> bool" where
  "align_inv shadow edited_blocks st \<longleftrightarrow>
     length (matches st) = length edited_blocks
     \<and> used_shadow st = {s. Some s \<in> set (matches st)}
     \<and> (\<forall>i s. i < length edited_blocks \<longrightarrow> matches st ! i = Some s \<longrightarrow>
          s < length (sd_blocks shadow)
          \<and> is_directive (edited_blocks ! i) = kind_is_directive (sb_kind (sd_blocks shadow ! s)))
     \<and> (\<forall>i j s. i < length edited_blocks \<longrightarrow> j < length edited_blocks \<longrightarrow>
          matches st ! i = Some s \<longrightarrow> matches st ! j = Some s \<longrightarrow> i = j)"

text \<open>What may be assigned in a state: a free edited block and a free shadow block, both
  directives or both not.\<close>

definition can_match :: "shadow_document \<Rightarrow> segmented_block list \<Rightarrow> alignment \<Rightarrow> usize \<Rightarrow> usize \<Rightarrow> bool" where
  "can_match shadow edited_blocks st i s \<longleftrightarrow>
     i < length edited_blocks \<and> matches st ! i = None \<and> s < length (sd_blocks shadow)
     \<and> s \<notin> used_shadow st
     \<and> is_directive (edited_blocks ! i) = kind_is_directive (sb_kind (sd_blocks shadow ! s))"

lemma align_inv_start: "align_inv shadow es (alignment_start es)"
  by (auto simp: align_inv_def alignment_start_def)

lemma set_update_None:
  "i < length xs \<Longrightarrow> xs ! i = None \<Longrightarrow>
   {s. Some s \<in> set (xs[i := Some a])} = insert a {s. Some s \<in> set xs}"
  by (auto simp: set_conv_nth nth_list_update split: if_splits) (metis option.distinct(1))

lemma align_inv_match:
  assumes "align_inv shadow es st" "can_match shadow es st i s"
  shows "align_inv shadow es (match_block i s st)"
proof -
  have len: "length (matches st) = length es" and used: "used_shadow st = {s. Some s \<in> set (matches st)}"
    using assms(1) by (simp_all add: align_inv_def)
  have i: "i < length (matches st)" "matches st ! i = None" and s: "s \<notin> used_shadow st"
    using assms(2) len by (auto simp: can_match_def)
  have free: "matches st ! j \<noteq> Some s" if "j < length es" for j
    using s used that len by (metis (mono_tags) mem_Collect_eq nth_mem)
  show ?thesis
    unfolding align_inv_def
  proof (intro conjI allI impI)
    show "length (matches (match_block i s st)) = length es" using len by (simp add: match_block_def)
    show "used_shadow (match_block i s st) = {k. Some k \<in> set (matches (match_block i s st))}"
      using set_update_None[OF i] used by (simp add: match_block_def)
  next
    fix j k assume j: "j < length es" "matches (match_block i s st) ! j = Some k"
    then have "j = i \<and> k = s \<or> matches st ! j = Some k"
      using len by (cases "j = i") (auto simp: match_block_def)
    then show "k < length (sd_blocks shadow)"
      "is_directive (es ! j) = kind_is_directive (sb_kind (sd_blocks shadow ! k))"
      using assms j by (auto simp: align_inv_def can_match_def)
  next
    fix j l k assume *: "j < length es" "l < length es" "matches (match_block i s st) ! j = Some k"
      "matches (match_block i s st) ! l = Some k"
    then show "j = l"
      using len free[of j] free[of l] assms(1)
      by (cases "j = i"; cases "l = i") (auto simp: match_block_def align_inv_def)
  qed
qed

lemma fold_enumerate_inv:
  assumes "P 0 st" "\<And>i st. i < length xs \<Longrightarrow> P i st \<Longrightarrow> P (Suc i) (f (i, xs ! i) st)"
  shows "P (length xs) (fold f (enumerate 0 xs) st)"
proof -
  have "P n (fold f (enumerate 0 (take n xs)) st)" if "n \<le> length xs" for n
    using that
  proof (induction n)
    case (Suc n)
    then have "enumerate 0 (take (Suc n) xs) = enumerate 0 (take n xs) @ [(n, xs ! n)]"
      by (simp add: take_Suc_conv_app_nth enumerate_append_eq)
    with Suc assms(2)[of n] show ?case by simp
  qed (simp add: assms(1))
  from this[of "length xs"] show ?thesis by simp
qed

lemma match_if_unused_inv:
  assumes "align_inv shadow es st"
    and "\<And>s. c = Some s \<Longrightarrow> s \<notin> used_shadow st \<Longrightarrow> can_match shadow es st i s"
  shows "align_inv shadow es (match_if_unused i c st)"
  using assms by (auto simp: match_if_unused_def split: option.split intro: align_inv_match)

lemma match_if_unused_other:
  "k \<noteq> i \<Longrightarrow> matches (match_if_unused i c st) ! k = matches st ! k"
  by (auto simp: match_if_unused_def match_block_def split: option.split)

lemma shadow_directive_index:
  assumes "bm_get (shadow_directive_indexes_by_id shadow) r = Some i"
  shows "i < length (sd_blocks shadow) \<and> kind_is_directive (sb_kind (sd_blocks shadow ! i))
    \<and> sb_remote_id (sd_blocks shadow ! i) = r"
  using bm_get_in_set[OF assms[unfolded shadow_directive_indexes_by_id_def]]
  by (auto simp: in_set_enumerate)

lemma align_directives_inv:
  "align_inv shadow es (align_directives shadow es (alignment_start es))"
proof -
  let ?f = "\<lambda>(edited_index, block) st.
           if \<not> is_directive block then st
           else case seg_remote_id block of
             None \<Rightarrow> st
           | Some remote_id \<Rightarrow>
               match_if_unused edited_index (bm_get (shadow_directive_indexes_by_id shadow) remote_id) st"
  have "align_inv shadow es (fold ?f (enumerate 0 es) (alignment_start es)) \<and>
      (\<forall>k. length es \<le> k \<longrightarrow> k < length es \<longrightarrow>
        matches (fold ?f (enumerate 0 es) (alignment_start es)) ! k = None)"
  proof (rule fold_enumerate_inv[where P = "\<lambda>i st. align_inv shadow es st \<and>
        (\<forall>k. i \<le> k \<longrightarrow> k < length es \<longrightarrow> matches st ! k = None)"])
    show "align_inv shadow es (alignment_start es) \<and>
      (\<forall>k. 0 \<le> k \<longrightarrow> k < length es \<longrightarrow> matches (alignment_start es) ! k = None)"
      by (simp add: align_inv_start) (simp add: alignment_start_def)
  next
    fix i st assume i: "i < length es"
      and st: "align_inv shadow es st \<and> (\<forall>k. i \<le> k \<longrightarrow> k < length es \<longrightarrow> matches st ! k = None)"
    have "align_inv shadow es (match_if_unused i (bm_get (shadow_directive_indexes_by_id shadow) r) st)"
      if "is_directive (es ! i)" for r
      using st i that by (intro match_if_unused_inv) (auto simp: can_match_def dest: shadow_directive_index)
    then show "align_inv shadow es (?f (i, es ! i) st) \<and>
        (\<forall>k. Suc i \<le> k \<longrightarrow> k < length es \<longrightarrow> matches (?f (i, es ! i) st) ! k = None)"
      using st by (auto simp: match_if_unused_other split: option.split)
  qed
  then show ?thesis by (simp add: align_directives_def Let_def)
qed

lemma in_residual_edited:
  "i \<in> set (residual_edited es st lo hi) \<longleftrightarrow>
     lo \<le> i \<and> i < hi \<and> matches st ! i = None \<and> \<not> is_directive (es ! i)"
  by (auto simp: residual_edited_def)

lemma in_residual_shadow:
  "s \<in> set (residual_shadow shadow st lo hi) \<longleftrightarrow>
     lo \<le> s \<and> s < hi \<and> s \<notin> used_shadow st \<and> \<not> kind_is_directive (sb_kind (sd_blocks shadow ! s))"
  by (auto simp: residual_shadow_def)

lemma residual_distinct [simp]:
  "distinct (residual_edited es st lo hi)" "distinct (residual_shadow shadow st lo hi)"
  by (simp_all add: residual_edited_def residual_shadow_def)

lemma unique_native_index:
  assumes "bm_get (unique_native_shadow_hashes shadow st) h = Some i"
  shows "i \<in> set (residual_shadow shadow st 0 (length (sd_blocks shadow)))
    \<and> sb_content_hash (sd_blocks shadow ! i) = h"
  using bm_get_in_set[OF assms[unfolded unique_native_shadow_hashes_def Let_def]] by auto

lemma align_exact_hashes_inv:
  assumes "align_inv shadow es st"
  shows "align_inv shadow es (align_exact_hashes shadow es st)"
proof -
  have "align_inv shadow es (fold (\<lambda>(edited_index, block) st'.
           if matches st' ! edited_index \<noteq> None \<or> is_directive block then st'
           else if bm_get counts (seg_content_hash block) \<noteq> Some 1 then st'
           else match_if_unused edited_index
             (bm_get (unique_native_shadow_hashes shadow st) (seg_content_hash block)) st')
         (enumerate 0 es) st)" for counts
    by (rule fold_enumerate_inv[where P = "\<lambda>i. align_inv shadow es"])
      (auto simp: assms can_match_def in_residual_shadow intro!: match_if_unused_inv
        dest: unique_native_index)
  then show ?thesis by (simp add: align_exact_hashes_def Let_def)
qed

lemma fold_inv:
  "P st \<Longrightarrow> (\<And>x st. x \<in> set xs \<Longrightarrow> P st \<Longrightarrow> P (f x st)) \<Longrightarrow> P (fold f xs st)"
  by (induction xs arbitrary: st) auto

lemma bm_collect_in_set:
  assumes "(k, v) \<in> set (bm_collect xs)"
  shows "(k, v) \<in> set xs"
proof -
  have ins: "set (bm_insert a b m) \<subseteq> insert (a, b) (set m)" for a :: 'a and b :: 'b and m
    by (induction a b m rule: bm_insert.induct) auto
  have "set (bm_extend m xs) \<subseteq> set m \<union> set xs" for m
  proof (induction xs arbitrary: m)
    case (Cons x xs)
    obtain a b where x: "x = (a, b)" by (cases x)
    from Cons[of "bm_insert a b m"] ins[of a b m] show ?case by (auto simp: bm_extend_def x)
  qed (simp add: bm_extend_def)
  with assms show ?thesis by fastforce
qed

lemma align_equivalent_bodies_inv:
  assumes "align_inv shadow es st"
  shows "align_inv shadow es (align_equivalent_bodies shadow es st)"
  unfolding align_equivalent_bodies_def Let_def
proof (rule fold_inv[where P = "align_inv shadow es", OF assms], goal_cases)
  case (1 x st')
  obtain i c where x: "x = (i, c)" by (cases x)
  have i: "i \<in> set (residual_edited es st 0 (length es))"
    and c: "set c \<subseteq> set (residual_shadow shadow st 0 (length (sd_blocks shadow)))"
    using bm_collect_in_set[OF 1(1)[unfolded x]] by auto
  show ?case
    using 1(2) i c unfolding x
    by (auto split: list.splits intro!: align_inv_match
        simp: can_match_def in_residual_edited in_residual_shadow filter_eq_Cons_iff)
qed

lemma match_pairs_inv:
  assumes "align_inv shadow es st" "distinct (map fst ps)" "distinct (map snd ps)"
    and "\<And>i s. (i, s) \<in> set ps \<Longrightarrow> can_match shadow es st i s"
  shows "align_inv shadow es (match_pairs ps st)"
  using assms
proof (induction ps arbitrary: st)
  case Nil
  then show ?case by (simp add: match_pairs_def)
next
  case (Cons p ps)
  obtain i s where p: "p = (i, s)" by (cases p)
  have inv: "align_inv shadow es (match_block i s st)"
    using Cons.prems p by (intro align_inv_match) auto
  have "can_match shadow es (match_block i s st) j k" if "(j, k) \<in> set ps" for j k
  proof -
    have "j \<noteq> i" "k \<noteq> s" using that Cons.prems(2,3) p by force+
    moreover have "can_match shadow es st j k" using that Cons.prems(4) by simp
    ultimately show ?thesis by (simp add: can_match_def match_block_def)
  qed
  from Cons.IH[OF inv _ _ this] Cons.prems(2,3) show ?case by (simp add: p match_pairs_def)
qed

lemma residual_pairs_can_match:
  assumes "hi \<le> length es" "shi \<le> length (sd_blocks shadow)"
    and "i \<in> set (residual_edited es st lo hi)" "s \<in> set (residual_shadow shadow st slo shi)"
  shows "can_match shadow es st i s"
  using assms by (auto simp: can_match_def in_residual_edited in_residual_shadow)

lemma zip_pairs_inv:
  assumes "align_inv shadow es st" "hi \<le> length es" "shi \<le> length (sd_blocks shadow)"
  shows "align_inv shadow es
    (match_pairs (zip (residual_edited es st lo hi) (residual_shadow shadow st slo shi)) st)"
  using assms
  by (intro match_pairs_inv)
    (auto simp: map_fst_zip_take map_snd_zip_take intro: residual_pairs_can_match
      dest: set_zip_leftD set_zip_rightD)

lemma subsequence_indexes_inv:
  assumes "align_inv shadow es st" "hi \<le> length es" "shi \<le> length (sd_blocks shadow)"
  shows "align_inv shadow es (align_equivalent_subsequence_indexes shadow es
    (residual_edited es st lo hi) (residual_shadow shadow st slo shi) st)"
proof -
  let ?re = "residual_edited es st lo hi" and ?rs = "residual_shadow shadow st slo shi"
  have "align_inv shadow es (match_pairs (map (\<lambda>(a, b). (?re ! a, ?rs ! b))
      (lcs_walk eq ?re ?rs len 0 0)) st)" for eq len
  proof (rule match_pairs_inv[OF assms(1)])
    let ?w = "lcs_walk eq ?re ?rs len 0 0"
    have w: "a < length ?re \<and> b < length ?rs" if "(a, b) \<in> set ?w" for a b
      using lcs_walk_related[OF that] by simp
    have d: "distinct (map fst ?w)" "distinct (map snd ?w)"
      using lcs_chain_distinct[OF lcs_walk_chain] by blast+
    have "distinct (map ((!) ?re) (map fst ?w))" "distinct (map ((!) ?rs) (map snd ?w))"
      using w by (subst distinct_map; auto simp: d inj_on_def nth_eq_iff_index_eq)+
    then show "distinct (map fst (map (\<lambda>(a, b). (?re ! a, ?rs ! b)) ?w))"
      "distinct (map snd (map (\<lambda>(a, b). (?re ! a, ?rs ! b)) ?w))"
      by (simp_all add: comp_def case_prod_beta)
    fix i s assume "(i, s) \<in> set (map (\<lambda>(a, b). (?re ! a, ?rs ! b)) ?w)"
    then obtain a b where "(a, b) \<in> set ?w" "i = ?re ! a" "s = ?rs ! b" by auto
    with w[of a b] have "i \<in> set ?re" "s \<in> set ?rs" by simp_all
    then show "can_match shadow es st i s" by (rule residual_pairs_can_match[OF assms(2,3)])
  qed
  with assms(1) show ?thesis by (simp add: align_equivalent_subsequence_indexes_def Let_def)
qed


lemma anchors_loop_sound:
  "(i, s) \<in> set (anchors_loop ms e p) \<Longrightarrow> \<exists>k < length ms. i = e + k \<and> ms ! k = Some s"
proof (induction ms e p rule: anchors_loop.induct)
  case (2 ms e p)
  then obtain k where "k < length ms" "i = e + 1 + k" "ms ! k = Some s" by auto
  then show ?case by (intro exI[of _ "Suc k"]) simp
next
  case (3 s' ms e p)
  have "(\<exists>k < length ms. i = e + 1 + k \<and> ms ! k = Some s) \<or> i = e \<and> s' = s"
    using 3 by (auto split: if_splits)
  then show ?case
  proof
    assume "\<exists>k < length ms. i = e + 1 + k \<and> ms ! k = Some s"
    then obtain k where "k < length ms" "i = e + 1 + k" "ms ! k = Some s" by blast
    then show ?thesis by (intro exI[of _ "Suc k"]) simp
  qed (intro exI[of _ 0], simp)
qed simp

lemma anchors_sound:
  assumes "align_inv shadow es st" "(i, s) \<in> set (ordered_alignment_anchors (matches st))"
  shows "i < length es" "s < length (sd_blocks shadow)" "matches st ! i = Some s"
proof -
  from anchors_loop_sound[OF assms(2)[unfolded ordered_alignment_anchors_def]]
  have "i < length (matches st)" and m: "matches st ! i = Some s" by auto
  with assms(1) show i: "i < length es" by (simp add: align_inv_def)
  from assms(1) i m show "s < length (sd_blocks shadow)" by (simp add: align_inv_def)
  show "matches st ! i = Some s" by (rule m)
qed

definition anchor_ok :: "shadow_document \<Rightarrow> segmented_block list \<Rightarrow> (usize \<times> usize) option \<Rightarrow> bool" where
  "anchor_ok shadow es a \<longleftrightarrow>
     (case a of None \<Rightarrow> True | Some (i, s) \<Rightarrow> i < length es \<and> s < length (sd_blocks shadow))"

lemma anchor_ok_None [simp]: "anchor_ok shadow es None"
  by (simp add: anchor_ok_def)

lemma gaps_loop_inv:
  assumes "\<And>prev next st. Q prev \<Longrightarrow> Q next \<Longrightarrow> P st \<Longrightarrow> P (gap prev next st)"
  shows "Q prev \<Longrightarrow> Q None \<Longrightarrow> list_all (\<lambda>a. Q (Some a)) as \<Longrightarrow> P st \<Longrightarrow> P (gaps_loop gap prev as st)"
  by (induction as arbitrary: prev st) (auto intro: assms)

lemma align_gaps_inv:
  assumes "align_inv shadow es st"
    and "\<And>prev next st. anchor_ok shadow es prev \<Longrightarrow> anchor_ok shadow es next \<Longrightarrow>
      align_inv shadow es st \<Longrightarrow> align_inv shadow es (gap prev next st)"
  shows "align_inv shadow es (align_gaps gap st)"
proof -
  have "list_all (\<lambda>a. anchor_ok shadow es (Some a)) (ordered_alignment_anchors (matches st))"
    using anchors_sound[OF assms(1)] by (auto simp: list_all_iff anchor_ok_def)
  with gaps_loop_inv[where P = "align_inv shadow es" and Q = "anchor_ok shadow es", OF assms(2)]
    assms(1)
  show ?thesis by (simp add: align_gaps_def Let_def)
qed

lemma gap_residuals_eq:
  assumes "anchor_ok shadow es next_anchor"
  obtains lo hi slo shi where
    "gap_residuals shadow es st previous next_anchor =
       (residual_edited es st lo hi, residual_shadow shadow st slo shi)"
    "hi \<le> length es" "shi \<le> length (sd_blocks shadow)"
proof -
  obtain lo slo where 1: "gap_starts previous = (lo, slo)" by (cases "gap_starts previous")
  obtain hi shi where 2: "gap_ends (length es) (length (sd_blocks shadow)) next_anchor = (hi, shi)"
    by (cases "gap_ends (length es) (length (sd_blocks shadow)) next_anchor")
  from 2 assms have "hi \<le> length es" "shi \<le> length (sd_blocks shadow)"
    by (auto simp: gap_ends_def anchor_ok_def split: option.splits)
  then show thesis by (intro that) (simp_all add: gap_residuals_def 1 2)
qed

lemma heading_gap_inv:
  assumes "anchor_ok shadow es next_anchor" "align_inv shadow es st"
  shows "align_inv shadow es (align_heading_bounded_gap shadow es previous next_anchor st)"
proof -
  obtain lo hi slo shi where "gap_residuals shadow es st previous next_anchor =
       (residual_edited es st lo hi, residual_shadow shadow st slo shi)"
    "hi \<le> length es" "shi \<le> length (sd_blocks shadow)"
    using gap_residuals_eq[OF assms(1)] .
  with zip_pairs_inv[OF assms(2)] assms(2) show ?thesis
    by (simp add: align_heading_bounded_gap_def)
qed

lemma residual_gap_inv:
  assumes "anchor_ok shadow es next_anchor" "align_inv shadow es st"
  shows "align_inv shadow es (align_residual_equivalent_gap shadow es previous next_anchor st)"
proof -
  obtain lo hi slo shi where "gap_residuals shadow es st previous next_anchor =
       (residual_edited es st lo hi, residual_shadow shadow st slo shi)"
    "hi \<le> length es" "shi \<le> length (sd_blocks shadow)"
    using gap_residuals_eq[OF assms(1)] .
  with subsequence_indexes_inv[OF assms(2)] show ?thesis
    by (simp add: align_residual_equivalent_gap_def)
qed

lemma align_residual_by_order_inv:
  assumes "align_inv shadow es st"
  shows "align_inv shadow es (fst (align_residual_by_order shadow es st))"
proof -
  have 1: "align_inv shadow es (align_residual_equivalent_gaps shadow es st)"
    unfolding align_residual_equivalent_gaps_def
    by (rule align_gaps_inv[OF assms]) (rule residual_gap_inv)
  have 2: "align_inv shadow es (align_residual_equivalent_subsequence shadow es
      (align_residual_equivalent_gaps shadow es st))"
    unfolding align_residual_equivalent_subsequence_def by (rule subsequence_indexes_inv[OF 1]) simp_all
  show ?thesis
    using zip_pairs_inv[OF 2 order_refl order_refl] 2
    by (auto simp: align_residual_by_order_def Let_def)
qed

lemma align_heading_bounded_rewrites_inv:
  assumes "align_inv shadow es st"
  shows "align_inv shadow es (align_heading_bounded_rewrites shadow es st)"
  unfolding align_heading_bounded_rewrites_def
  by (rule align_gaps_inv[OF assms]) (rule heading_gap_inv)

lemma align_blocks_inv: "align_inv shadow es (fst (align_blocks shadow es))"
  using align_residual_by_order_inv[OF align_heading_bounded_rewrites_inv[OF
      align_equivalent_bodies_inv[OF align_exact_hashes_inv[OF align_directives_inv]]], of shadow es]
  by (auto simp: align_blocks_def Let_def split: prod.splits)

lemma distinct_matches:
  "(\<And>i j s. i < length ms \<Longrightarrow> j < length ms \<Longrightarrow> ms ! i = Some s \<Longrightarrow> ms ! j = Some s \<Longrightarrow> i = j) \<Longrightarrow>
   distinct (List.map_filter (\<lambda>m. m) ms)"
proof (induction ms)
  case (Cons m ms)
  have "distinct (List.map_filter (\<lambda>m. m) ms)"
    using Cons.prems[of "Suc _" "Suc _"] by (intro Cons.IH) fastforce
  moreover have "s \<notin> set (List.map_filter (\<lambda>m. m) ms)" if "m = Some s" for s
  proof
    assume "s \<in> set (List.map_filter (\<lambda>m. m) ms)"
    then obtain k where "k < length ms" "ms ! k = Some s"
      by (auto simp: map_filter_def in_set_conv_nth)
    with Cons.prems[of 0 "Suc k" s] that show False by simp
  qed
  ultimately show ?case by (cases m) (simp_all add: map_filter_def)
qed (simp add: map_filter_def)

text \<open>C10: the five alignment passes together match edited blocks to shadow blocks injectively: there
  is one entry per edited block, a matched index is in range and joins directives with directives
  and native blocks with native blocks only, and no shadow block is matched twice.\<close>

theorem alignment_injective:
  "length (matches (fst (align_blocks shadow es))) = length es
   \<and> list_all (\<lambda>i. case matches (fst (align_blocks shadow es)) ! i of
        None \<Rightarrow> True
      | Some s \<Rightarrow> s < length (sd_blocks shadow)
          \<and> is_directive (es ! i) = kind_is_directive (sb_kind (sd_blocks shadow ! s))) [0..<length es]
   \<and> distinct (List.map_filter (\<lambda>m. m) (matches (fst (align_blocks shadow es))))"
  using align_blocks_inv[of shadow es]
  by (auto simp: align_inv_def list_all_iff split: option.split intro: distinct_matches)

section \<open>What the plan does\<close>

lemma property_ops_shape:
  assumes "property_diff_operations Y shadow edited = Inr ops"
  shows "ops = [] \<or> (\<exists>u. ops = [UpdateProperties (sd_entity_id shadow) u])"
  using assms by (auto simp: property_diff_operations_def rbind_Inr_iff Let_def split: if_splits)

lemma plan_block_diff_Inr:
  assumes "plan_block_diff Y shadow edited L = Inr plan"
  obtains st degs ops ps where
    "align_blocks shadow (segment_markdown_body (cd_body edited) L) = (st, degs)"
    "property_diff_operations Y shadow edited = Inr ops"
    "ps = fold (plan_step shadow (set (List.map_filter (\<lambda>m. m) (matches st))))
            (zip (segment_markdown_body (cd_body edited) L) (matches st)) (plan_start ops)"
    "plan = with_degradations (plan_new [sd_entity_id shadow] (ps_operations ps
       @ archive_operations shadow (set (List.map_filter (\<lambda>m. m) (matches st))) (ps_recreated_shadow ps))) degs"
  using assms
  by (auto simp: plan_block_diff_def Let_def rbind_Inr_iff split: if_splits prod.splits)

text \<open>One step appends an operation for a new block, and re-creates a matched block at most
  once.\<close>

lemma plan_step_effects:
  "count_kind KArchiveBlock (ps_operations (plan_step shadow R (e, m) st)) =
     count_kind KArchiveBlock (ps_operations st)"
  "ps_recreated_shadow (plan_step shadow R (e, m) st) = ps_recreated_shadow st
     \<and> count_kind KAppendBlock (ps_operations (plan_step shadow R (e, m) st)) =
         count_kind KAppendBlock (ps_operations st) + (if m = None then 1 else 0)
   \<or> (\<exists>i. m = Some i \<and> ps_recreated_shadow (plan_step shadow R (e, m) st) = insert i (ps_recreated_shadow st)
     \<and> count_kind KAppendBlock (ps_operations (plan_step shadow R (e, m) st)) =
         count_kind KAppendBlock (ps_operations st) + 1)"
  by (cases m; auto simp: plan_step_def Let_def operation_kind_def)+

lemma plan_fold_effects:
  assumes "distinct (List.map_filter snd ems)"
    and "ps_recreated_shadow st \<inter> set (List.map_filter snd ems) = {}" "finite (ps_recreated_shadow st)"
  shows "count_kind KArchiveBlock (ps_operations (fold (plan_step shadow R) ems st)) =
      count_kind KArchiveBlock (ps_operations st) \<and>
    count_kind KAppendBlock (ps_operations (fold (plan_step shadow R) ems st)) + card (ps_recreated_shadow st) =
      count_kind KAppendBlock (ps_operations st) + length (filter (\<lambda>em. snd em = None) ems)
      + card (ps_recreated_shadow (fold (plan_step shadow R) ems st)) \<and>
    ps_recreated_shadow (fold (plan_step shadow R) ems st) \<subseteq>
      ps_recreated_shadow st \<union> set (List.map_filter snd ems)"
  using assms
proof (induction ems arbitrary: st)
  case Nil
  then show ?case by simp
next
  case (Cons em ems)
  obtain e m where em: "em = (e, m)" by (cases em)
  let ?st = "plan_step shadow R (e, m) st"
  have mf: "List.map_filter snd (em # ems) = (case m of None \<Rightarrow> [] | Some i \<Rightarrow> [i]) @ List.map_filter snd ems"
    by (simp add: em map_filter_def split: option.split)
  have d: "distinct (List.map_filter snd ems)" using Cons.prems(1) mf by simp
  from plan_step_effects(2)[of shadow R e m st] show ?case
  proof (elim disjE exE conjE)
    assume r: "ps_recreated_shadow ?st = ps_recreated_shadow st"
      and c: "count_kind KAppendBlock (ps_operations ?st) =
         count_kind KAppendBlock (ps_operations st) + (if m = None then 1 else 0)"
    from Cons.IH[OF d, of ?st] Cons.prems r c plan_step_effects(1)[of shadow R e m st] mf
    show ?thesis by (auto simp: em split: option.splits)
  next
    fix i assume i: "m = Some i" and r: "ps_recreated_shadow ?st = insert i (ps_recreated_shadow st)"
      and c: "count_kind KAppendBlock (ps_operations ?st) = count_kind KAppendBlock (ps_operations st) + 1"
    have "i \<notin> ps_recreated_shadow st" using Cons.prems(2) mf i by auto
    moreover have "ps_recreated_shadow ?st \<inter> set (List.map_filter snd ems) = {}"
      using Cons.prems(1,2) mf i r by auto
    ultimately show ?thesis
      using Cons.IH[OF d, of ?st] Cons.prems(3) r c plan_step_effects(1)[of shadow R e m st] mf i
      by (auto simp: em)
  qed
qed

lemma length_archive_operations:
  assumes "R \<subseteq> {..<length (sd_blocks shadow)}" "C \<subseteq> R"
  shows "length (archive_operations shadow R C) + card R = length (sd_blocks shadow) + card C"
proof -
  let ?N = "length (sd_blocks shadow)"
  let ?p = "\<lambda>i. i \<notin> R \<or> i \<in> C"
  have "length (archive_operations shadow R C) = length (filter (?p \<circ> fst) (enumerate 0 (sd_blocks shadow)))"
    unfolding archive_operations_def length_map by (rule arg_cong[where f = length], rule filter_cong) auto
  also have "\<dots> = length (filter ?p (map fst (enumerate 0 (sd_blocks shadow))))"
    by (simp only: filter_map length_map)
  also have "\<dots> = length (filter ?p [0..<?N])"
    by (simp only: enumerate_map_fst_snd) simp
  also have "\<dots> = card {i. i < ?N \<and> ?p i}"
    by (simp only: length_filter_conv_card) (rule arg_cong[where f = card], auto)
  also have "{i. i < ?N \<and> (i \<notin> R \<or> i \<in> C)} = ({..<?N} - R) \<union> C" using assms by auto
  also have "card \<dots> = card ({..<?N} - R) + card C"
    using assms by (intro card_Un_disjoint) (auto intro: finite_subset)
  also have "card ({..<?N} - R) = ?N - card R"
    using assms(1) by (simp add: card_Diff_subset finite_subset)
  finally show ?thesis using card_mono[OF _ assms(1)] by simp
qed

lemma count_archive_operations:
  "count_kind KArchiveBlock (archive_operations shadow R C) = length (archive_operations shadow R C)"
  "count_kind KAppendBlock (archive_operations shadow R C) = 0"
  by (auto simp: count_kind_def archive_operations_def operation_kind_def filter_empty_conv
      intro!: arg_cong[where f = length] filter_True)

lemma map_filter_zip: "length xs = length ys \<Longrightarrow> List.map_filter snd (zip xs ys) = List.map_filter (\<lambda>m. m) ys"
  by (induction xs ys rule: list_induct2) (auto simp: map_filter_def)

lemma length_none_some:
  "length (filter (\<lambda>m. m = None) ms) + length (List.map_filter (\<lambda>m. m) ms) = length ms"
  by (induction ms) (auto simp: map_filter_def)

text \<open>C9: blocks are conserved: in every plan the blocks archived plus the blocks of the edited body
  are the blocks created plus the blocks of the synced shadow. No synced block disappears and no
  edited block is lost without an operation for it.\<close>

theorem plan_conserves_blocks:
  assumes "plan_block_diff Y shadow edited L = Inr plan"
  shows "blocks_archived (summary plan) + length (segment_markdown_body (cd_body edited) L) =
    blocks_created (summary plan) + length (sd_blocks shadow)"
proof -
  let ?es = "segment_markdown_body (cd_body edited) L"
  obtain st degs ops ps where al: "align_blocks shadow ?es = (st, degs)"
    and ops: "property_diff_operations Y shadow edited = Inr ops"
    and ps: "ps = fold (plan_step shadow (set (List.map_filter (\<lambda>m. m) (matches st))))
            (zip ?es (matches st)) (plan_start ops)"
    and plan: "plan = with_degradations (plan_new [sd_entity_id shadow] (ps_operations ps
       @ archive_operations shadow (set (List.map_filter (\<lambda>m. m) (matches st))) (ps_recreated_shadow ps))) degs"
    by (rule plan_block_diff_Inr[OF assms])
  define R where "R = List.map_filter (\<lambda>m. m) (matches st)"
  have inv: "align_inv shadow ?es st" using align_blocks_inv[of shadow ?es] al by simp
  then have len: "length ?es = length (matches st)" by (simp add: align_inv_def)
  have dist: "distinct R" unfolding R_def
    using inv len by (intro distinct_matches) (auto simp: align_inv_def)
  have range: "set R \<subseteq> {..<length (sd_blocks shadow)}"
    using inv by (auto simp: R_def map_filter_def align_inv_def in_set_conv_nth)
  have eff: "count_kind KArchiveBlock (ps_operations ps) = count_kind KArchiveBlock ops"
    "count_kind KAppendBlock (ps_operations ps) =
      count_kind KAppendBlock ops + length (filter (\<lambda>m. m = None) (matches st)) + card (ps_recreated_shadow ps)"
    "ps_recreated_shadow ps \<subseteq> set R"
  proof -
    have f: "length (filter (\<lambda>em. snd em = None) (zip ?es (matches st))) =
        length (filter (\<lambda>m. m = None) (map snd (zip ?es (matches st))))"
      by (simp add: filter_map comp_def)
    from plan_fold_effects[of "zip ?es (matches st)" "plan_start ops" shadow "set R"] dist
    show "count_kind KArchiveBlock (ps_operations ps) = count_kind KArchiveBlock ops"
      "count_kind KAppendBlock (ps_operations ps) =
        count_kind KAppendBlock ops + length (filter (\<lambda>m. m = None) (matches st)) + card (ps_recreated_shadow ps)"
      "ps_recreated_shadow ps \<subseteq> set R"
      unfolding f using len by (simp_all add: map_filter_zip R_def[symmetric] ps plan_start_def)
  qed
  have "count_kind KArchiveBlock ops = 0 \<and> count_kind KAppendBlock ops = 0"
    using property_ops_shape[OF ops] by (auto simp: operation_kind_def)
  with eff length_archive_operations[OF range eff(3)] length_none_some[of "matches st"] len
  show ?thesis
    by (simp add: plan with_degradations_def plan_new_def from_operations_def summary_fold
        plan_summary_default_def count_archive_operations R_def[symmetric] distinct_card[OF dist])
qed


theorem plan_conserves_blocks_witness:
  "\<exists>plan. plan_block_diff title_yaml
       \<lparr>sd_entity_id = RemoteId ''e'', sd_frontmatter = [], sd_body_hash = [], sd_rendered_body = [],
        sd_blocks = []\<rparr> (cd_new [] ''A'') 1 = Inr plan \<and>
     blocks_archived (summary plan) + length (segment_markdown_body (cd_body (cd_new [] ''A'')) 1) =
     blocks_created (summary plan) + length ([] :: shadow_block list)"
proof -
  have "\<not> isl (plan_block_diff title_yaml
       \<lparr>sd_entity_id = RemoteId ''e'', sd_frontmatter = [], sd_body_hash = [], sd_rendered_body = [],
        sd_blocks = []\<rparr> (cd_new [] ''A'') 1)"
    by code_simp
  then obtain plan where p: "plan_block_diff title_yaml
       \<lparr>sd_entity_id = RemoteId ''e'', sd_frontmatter = [], sd_body_hash = [], sd_rendered_body = [],
        sd_blocks = []\<rparr> (cd_new [] ''A'') 1 = Inr plan"
    using not_isl_Inr by blast
  with plan_conserves_blocks[OF p] show ?thesis by auto
qed

text \<open>The block and entity ids an operation of a block plan may name.\<close>

definition targets_shadow :: "shadow_document \<Rightarrow> push_operation \<Rightarrow> bool" where
  "targets_shadow shadow operation \<longleftrightarrow>
     (let known = (\<lambda>after. case after of None \<Rightarrow> True | Some b \<Rightarrow> b \<in> block_ids shadow)
      in case operation of
        UpdateBlock b _ \<Rightarrow> b \<in> block_ids shadow
      | ReplaceBlock b _ \<Rightarrow> b \<in> block_ids shadow
      | MoveBlock b after \<Rightarrow> b \<in> block_ids shadow \<and> known after
      | AppendBlock p after _ \<Rightarrow> p = sd_entity_id shadow \<and> known after
      | ArchiveBlock b \<Rightarrow> b \<in> block_ids shadow
      | UpdateProperties e _ \<Rightarrow> e = sd_entity_id shadow
      | _ \<Rightarrow> False)"

lemma plan_step_targets:
  assumes "case m of None \<Rightarrow> True | Some s \<Rightarrow> s < length (sd_blocks shadow)"
    and "list_all (targets_shadow shadow) (ps_operations st)"
    and "case ps_previous_existing_id st of None \<Rightarrow> True | Some b \<Rightarrow> b \<in> block_ids shadow"
  shows "list_all (targets_shadow shadow) (ps_operations (plan_step shadow R (e, m) st)) \<and>
    (case ps_previous_existing_id (plan_step shadow R (e, m) st) of
       None \<Rightarrow> True | Some b \<Rightarrow> b \<in> block_ids shadow)"
proof (cases m)
  case None
  with assms show ?thesis by (simp add: plan_step_def targets_shadow_def)
next
  case (Some s)
  then have "sb_remote_id (sd_blocks shadow ! s) \<in> block_ids shadow"
    using assms(1) by (simp add: block_ids_def)
  with Some assms show ?thesis by (simp add: plan_step_def Let_def targets_shadow_def)
qed

lemma plan_targets:
  assumes "plan_block_diff Y shadow edited L = Inr plan"
  shows "affected_entities plan = [sd_entity_id shadow] \<and>
    list_all (targets_shadow shadow) (operations plan)"
proof -
  let ?es = "segment_markdown_body (cd_body edited) L"
  obtain st degs ops ps where al: "align_blocks shadow ?es = (st, degs)"
    and ops: "property_diff_operations Y shadow edited = Inr ops"
    and ps: "ps = fold (plan_step shadow (set (List.map_filter (\<lambda>m. m) (matches st))))
            (zip ?es (matches st)) (plan_start ops)"
    and plan: "plan = with_degradations (plan_new [sd_entity_id shadow] (ps_operations ps
       @ archive_operations shadow (set (List.map_filter (\<lambda>m. m) (matches st))) (ps_recreated_shadow ps))) degs"
    by (rule plan_block_diff_Inr[OF assms])
  have inv: "align_inv shadow ?es st" using align_blocks_inv[of shadow ?es] al by simp
  let ?P = "\<lambda>st. list_all (targets_shadow shadow) (ps_operations st) \<and>
    (case ps_previous_existing_id st of None \<Rightarrow> True | Some b \<Rightarrow> b \<in> block_ids shadow)"
  have "?P ps"
    unfolding ps
  proof (rule fold_inv[where P = ?P])
    show "?P (plan_start ops)"
      using property_ops_shape[OF ops] by (auto simp: plan_start_def targets_shadow_def)
  next
    fix em and st' :: plan_state assume em: "em \<in> set (zip ?es (matches st))" and P: "?P st'"
    obtain e m where m: "em = (e, m)" by (cases em)
    have "case m of None \<Rightarrow> True | Some s \<Rightarrow> s < length (sd_blocks shadow)"
      using em inv by (auto simp: m in_set_zip align_inv_def split: option.split)
    with plan_step_targets[OF this] P show "?P (plan_step shadow (set (List.map_filter (\<lambda>m. m) (matches st))) em st')"
      by (simp add: m)
  qed
  moreover have "list_all (targets_shadow shadow) (archive_operations shadow R C)" for R C
    by (auto simp: archive_operations_def list_all_iff targets_shadow_def block_ids_def in_set_enumerate)
  ultimately show ?thesis by (simp add: plan with_degradations_def plan_new_def)
qed

text \<open>A block plan touches only the synced entity: every operation updates, replaces, moves or
  archives a block of the shadow, appends below the entity after one of its blocks, or updates the
  properties of the entity itself.\<close>

theorem plan_targets_shadow:
  assumes "plan_block_diff Y shadow edited L = Inr plan"
  shows "affected_entities plan = [sd_entity_id shadow] \<and>
    list_all (targets_shadow shadow) (operations plan)"
  by (rule plan_targets[OF assms])

theorem plan_targets_shadow_witness:
  "\<exists>plan. plan_block_diff title_yaml
       \<lparr>sd_entity_id = RemoteId ''e'', sd_frontmatter = [], sd_body_hash = [], sd_rendered_body = [],
        sd_blocks = []\<rparr> (cd_new [] ''A'') 1 = Inr plan \<and>
     affected_entities plan = [RemoteId ''e''] \<and>
     list_all (targets_shadow \<lparr>sd_entity_id = RemoteId ''e'', sd_frontmatter = [], sd_body_hash = [],
       sd_rendered_body = [], sd_blocks = []\<rparr>) (operations plan)"
proof -
  let ?sh = "\<lparr>sd_entity_id = RemoteId ''e'', sd_frontmatter = [], sd_body_hash = [],
      sd_rendered_body = [], sd_blocks = []\<rparr>"
  have "\<not> isl (plan_block_diff title_yaml ?sh (cd_new [] ''A'') 1)" by code_simp
  then obtain plan where p: "plan_block_diff title_yaml ?sh (cd_new [] ''A'') 1 = Inr plan"
    using not_isl_Inr by blast
  with plan_targets_shadow[OF p] show ?thesis by auto
qed

end
