(* ===== verification/Readable_Diff.thy ===== *)
theory Readable_Diff
  imports Rust_Str
begin

text \<open>
  \<open>locality-core/src/readable_diff.rs\<close>: the reviewable diff of a file and the concatenation of
  several. The unified diff of the \<open>similar\<close> crate is the parameter \<open>unified old new old_label
  new_label\<close>. The lemmas show when there is a diff and that joining keeps every file and, in order,
  every text.
\<close>

datatype readable_diff_file_status = Modified | Added | Deleted

record readable_diff_file_output =
  rdf_path :: string
  rdf_old_label :: string
  rdf_new_label :: string
  rdf_status :: readable_diff_file_status
  rdf_patch :: string

record readable_diff_output =
  rd_files :: "readable_diff_file_output list"
  rd_text :: string

type_synonym unified_diff = "string \<Rightarrow> string \<Rightarrow> string \<Rightarrow> string \<Rightarrow> string"

definition readable_diff_for_file ::
    "unified_diff \<Rightarrow> string \<Rightarrow> string option \<Rightarrow> string option \<Rightarrow> readable_diff_output option" where
  "readable_diff_for_file unified file_path old_text new_text =
     (if old_text = new_text then None
      else
        let status = (case (old_text, new_text) of
              (None, Some _) \<Rightarrow> Added
            | (Some _, None) \<Rightarrow> Deleted
            | _ \<Rightarrow> Modified);
            old_label = (case status of Added \<Rightarrow> ''/dev/null'' | _ \<Rightarrow> ''a/'' @ file_path);
            new_label = (case status of Deleted \<Rightarrow> ''/dev/null'' | _ \<Rightarrow> ''b/'' @ file_path);
            old_text = (case old_text of None \<Rightarrow> [] | Some t \<Rightarrow> t);
            new_text = (case new_text of None \<Rightarrow> [] | Some t \<Rightarrow> t);
            body = unified old_text new_text old_label new_label;
            patch_body = (if body = []
              then ''--- '' @ old_label @ [CHR 0x0A] @ ''+++ '' @ new_label @ [CHR 0x0A] else body);
            patch = ''diff --locality '' @ old_label @ '' '' @ new_label @ [CHR 0x0A] @ patch_body
        in Some \<lparr>rd_files = [\<lparr>rdf_path = file_path, rdf_old_label = old_label,
                   rdf_new_label = new_label, rdf_status = status, rdf_patch = patch\<rparr>],
                 rd_text = patch\<rparr>)"

text \<open>What the loop of \<open>join_readable_diffs\<close> appends before a further diff, and the loop with the
  text and the files so far.\<close>

definition diff_separator :: "string \<Rightarrow> string" where
  "diff_separator joined =
     (if joined \<noteq> [] \<and> \<not> suffix [CHR 0x0A] joined then [CHR 0x0A] else [])
     @ (if joined \<noteq> [] then [CHR 0x0A] else [])"

fun join_readable_loop :: "readable_diff_output list \<Rightarrow> string \<Rightarrow> readable_diff_file_output list
    \<Rightarrow> string \<times> readable_diff_file_output list" where
  "join_readable_loop [] joined files = (joined, files)"
| "join_readable_loop (diff # diffs) joined files =
     join_readable_loop diffs (joined @ diff_separator joined @ rd_text diff) (files @ rd_files diff)"

definition join_readable_diffs :: "readable_diff_output list \<Rightarrow> readable_diff_output option" where
  "join_readable_diffs diffs =
     (let (joined, files) = join_readable_loop diffs [] []
      in if files = [] then None else Some \<lparr>rd_files = files, rd_text = joined\<rparr>)"

lemma join_readable_loop_files:
  "snd (join_readable_loop diffs joined files) = files @ concat (map rd_files diffs)"
  by (induction diffs joined files rule: join_readable_loop.induct) simp_all

lemma join_readable_loop_text: "prefix joined (fst (join_readable_loop diffs joined files))"
  by (induction diffs joined files rule: join_readable_loop.induct)
    (simp_all, metis append.assoc append_prefixD)

lemma join_readable_texts:
  "diff \<in> set diffs \<Longrightarrow> sublist (rd_text diff) (fst (join_readable_loop diffs joined files))"
proof (induction diffs joined files rule: join_readable_loop.induct)
  case (2 d diffs joined files)
  show ?case
  proof (cases "diff = d")
    case True
    have "sublist (rd_text d) ((joined @ diff_separator joined) @ rd_text d)"
      by (rule suffix_imp_sublist) (rule suffixI, rule refl)
    also have "sublist \<dots> (fst (join_readable_loop (d # diffs) joined files))"
      using join_readable_loop_text[of "joined @ diff_separator joined @ rd_text d" diffs]
      by (simp add: prefix_imp_sublist)
    finally show ?thesis using True by simp
  next
    case False
    with 2 show ?thesis by simp
  qed
qed simp

text \<open>Joining readable diffs keeps the files of every diff, in order, and the text of every diff
  as a contiguous part of the joined text; there is no joined diff exactly when there is no file.\<close>

theorem join_readable_complete:
  "case join_readable_diffs diffs of
     None \<Rightarrow> concat (map rd_files diffs) = []
   | Some out \<Rightarrow> rd_files out = concat (map rd_files diffs)
       \<and> list_all (\<lambda>d. sublist (rd_text d) (rd_text out)) diffs"
proof -
  obtain t fs where l: "join_readable_loop diffs [] [] = (t, fs)" by fastforce
  with join_readable_loop_files[of diffs "[]" "[]"] join_readable_texts[of _ diffs "[]" "[]"]
  show ?thesis by (auto simp: join_readable_diffs_def list_all_iff)
qed

text \<open>A file has a readable diff exactly when its text changed, where a missing file and an empty
  one are different.\<close>

lemma readable_diff_iff: "readable_diff_for_file u p old new = None \<longleftrightarrow> old = new"
  by (simp add: readable_diff_for_file_def Let_def)

end
