(* ===== verification/Journal.thy ===== *)
theory Journal
  imports Planner Shadow Core_Error Readable_Diff
begin

text \<open>
  \<open>locality-core/src/journal.rs\<close>: journal entries, their effects and statuses and the operation ids
  that serve as idempotency keys; and the journal of the in-memory store of
  \<open>locality-store/src/memory.rs\<close>. The locale \<open>journal_store\<close> states what a push relies on in the
  trait \<open>JournalStore\<close>; it is interpreted on the in-memory journal.
\<close>

section \<open>Entries\<close>

datatype push_id = PushId (push_id_str: string)

datatype journal_author_kind = Anonymous

record journal_author =
  ja_kind :: journal_author_kind
  ja_display_name :: string

record journal_local_projection_item =
  jl_operation_index :: usize
  jl_local_id :: string

record journal_metadata =
  jm_author :: journal_author
  jm_previous_push_id :: "push_id option"
  jm_created_at_unix_ms :: "128 word option"
  jm_local_projection_items :: "journal_local_projection_item list"

definition journal_metadata_default :: journal_metadata where
  "journal_metadata_default =
     \<lparr>jm_author = \<lparr>ja_kind = Anonymous, ja_display_name = ''anonymous''\<rparr>, jm_previous_push_id = None,
      jm_created_at_unix_ms = None, jm_local_projection_items = []\<rparr>"

definition journal_metadata_anonymous :: "push_id option \<Rightarrow> 128 word option \<Rightarrow> journal_metadata" where
  "journal_metadata_anonymous previous_push_id created_at =
     journal_metadata_default\<lparr>jm_previous_push_id := previous_push_id, jm_created_at_unix_ms := created_at\<rparr>"

definition with_local_projection_items ::
    "journal_metadata \<Rightarrow> journal_local_projection_item list \<Rightarrow> journal_metadata" where
  "with_local_projection_items m items = m\<lparr>jm_local_projection_items := items\<rparr>"

datatype push_operation_id = PushOperationId (push_operation_id_str: string)

datatype journal_apply_effect =
    UpdatedBlock (ef_operation_id: push_operation_id) (ef_index: usize) (ef_block_id: remote_id)
  | CreatedBlock (ef_operation_id: push_operation_id) (ef_index: usize) (ef_parent_id: remote_id)
      (ef_block_id: remote_id)
  | MovedBlock (ef_operation_id: push_operation_id) (ef_index: usize) (ef_block_id: remote_id)
  | ArchivedBlock (ef_operation_id: push_operation_id) (ef_index: usize) (ef_block_id: remote_id)
  | ArchivedEntity (ef_operation_id: push_operation_id) (ef_index: usize) (ef_entity_id: remote_id)
  | UpdatedEntityBody (ef_operation_id: push_operation_id) (ef_index: usize) (ef_entity_id: remote_id)
  | UpdatedProperties (ef_operation_id: push_operation_id) (ef_index: usize) (ef_entity_id: remote_id)
      (ef_keys: "string list")
  | MovedEntity (ef_operation_id: push_operation_id) (ef_index: usize) (ef_entity_id: remote_id)
      (ef_parent_id: remote_id)
  | CreatedEntity (ef_operation_id: push_operation_id) (ef_index: usize) (ef_parent_id: remote_id)
      (ef_entity_id: remote_id)

record journal_preimage =
  jp_entity_id :: remote_id
  jp_shadow :: shadow_document

definition preimage_from_shadow :: "shadow_document \<Rightarrow> journal_preimage" where
  "preimage_from_shadow shadow = \<lparr>jp_entity_id = sd_entity_id shadow, jp_shadow = shadow\<rparr>"

datatype journal_status = Prepared | Applying | Applied | Reconciled | Reverted | Failed string

definition is_unsettled :: "journal_status \<Rightarrow> bool" where
  "is_unsettled s \<longleftrightarrow> (case s of Reconciled \<Rightarrow> False | Reverted \<Rightarrow> False | _ \<Rightarrow> True)"

record journal_entry =
  je_push_id :: push_id
  je_mount_id :: mount_id
  je_remote_ids :: "remote_id list"
  je_plan :: push_plan
  je_preimages :: "journal_preimage list"
  je_apply_effects :: "journal_apply_effect list"
  je_status :: journal_status
  je_metadata :: journal_metadata
  je_readable_diff :: "readable_diff_output option"

definition journal_entry_new ::
    "push_id \<Rightarrow> mount_id \<Rightarrow> remote_id list \<Rightarrow> push_plan \<Rightarrow> journal_status \<Rightarrow> journal_entry" where
  "journal_entry_new push mount remote_ids plan status =
     \<lparr>je_push_id = push, je_mount_id = mount, je_remote_ids = remote_ids, je_plan = plan,
      je_preimages = [], je_apply_effects = [], je_status = status,
      je_metadata = journal_metadata_default, je_readable_diff = None\<rparr>"

section \<open>Operation ids\<close>

definition operation_target :: "push_operation \<Rightarrow> string" where
  "operation_target operation =
     remote_id_str (case operation of
        UpdateBlock b _ \<Rightarrow> b | ReplaceBlock b _ \<Rightarrow> b | MoveBlock b _ \<Rightarrow> b | UpdateMedia b _ _ \<Rightarrow> b
      | ArchiveBlock b \<Rightarrow> b
      | AppendBlock p _ _ \<Rightarrow> p | CreateEntity p _ _ _ _ _ _ \<Rightarrow> p | CreateDatabase p _ _ _ \<Rightarrow> p
      | ArchiveEntity e \<Rightarrow> e | UpdateEntityBody e _ \<Rightarrow> e | UpdateProperties e _ \<Rightarrow> e
      | MoveEntity e _ _ _ _ \<Rightarrow> e)"

text \<open>The private \<open>operation_kind\<close> of journal.rs repeats the wire names of the planner.\<close>

definition journal_operation_kind :: "push_operation \<Rightarrow> string" where
  "journal_operation_kind operation =
     (case operation of
        UpdateBlock _ _ \<Rightarrow> ''update_block''
      | ReplaceBlock _ _ \<Rightarrow> ''replace_block''
      | AppendBlock _ _ _ \<Rightarrow> ''append_block''
      | MoveBlock _ _ \<Rightarrow> ''move_block''
      | UpdateMedia _ _ _ \<Rightarrow> ''update_media''
      | ArchiveBlock _ \<Rightarrow> ''archive_block''
      | ArchiveEntity _ \<Rightarrow> ''archive_entity''
      | UpdateEntityBody _ _ \<Rightarrow> ''update_entity_body''
      | UpdateProperties _ _ \<Rightarrow> ''update_properties''
      | MoveEntity _ _ _ _ _ \<Rightarrow> ''move_entity''
      | CreateEntity _ _ _ _ _ _ _ \<Rightarrow> ''create_entity''
      | CreateDatabase _ _ _ _ \<Rightarrow> ''create_database'')"

lemma journal_operation_kind_wire: "journal_operation_kind op = kind_as_str (operation_kind op)"
  by (cases op) (simp_all add: journal_operation_kind_def operation_kind_def kind_as_str_def)

definition for_operation :: "push_id \<Rightarrow> usize \<Rightarrow> push_operation \<Rightarrow> push_operation_id" where
  "for_operation push operation_index operation =
     PushOperationId (push_id_str push @ '':'' @ dec operation_index @ '':''
       @ journal_operation_kind operation @ '':'' @ operation_target operation)"

definition operation_ids :: "push_id \<Rightarrow> push_operation list \<Rightarrow> push_operation_id list" where
  "operation_ids push ops = map (\<lambda>(index, operation). for_operation push index operation) (enumerate 0 ops)"

lemma dec_colon_inject: "dec i @ CHR '':'' # s = dec j @ CHR '':'' # t \<Longrightarrow> i = j"
proof -
  assume e: "dec i @ CHR '':'' # s = dec j @ CHR '':'' # t"
  have "takeWhile is_ascii_digit (dec n @ CHR '':'' # u) = dec n" for n u
    by (subst takeWhile_append2) (auto dest: dec_digits simp: is_ascii_digit_def)
  from this[of i s] this[of j t] e have "dec i = dec j" by simp
  then show "i = j" by simp
qed

lemma for_operation_index:
  "for_operation push i op = for_operation push j op' \<Longrightarrow> i = j"
  by (auto simp: for_operation_def dest: dec_colon_inject)

text \<open>The idempotency keys of a push are pairwise different, whatever its operations, ids and
  targets: a connector that deduplicates by key never drops an operation of the plan.\<close>

theorem operation_ids_distinct: "distinct (operation_ids push ops)"
proof -
  have "distinct (map fst (enumerate 0 ops))" by (simp add: enumerate_map_fst_snd)
  then show ?thesis
    unfolding operation_ids_def distinct_map
    by (auto simp: inj_on_def in_set_enumerate dest: for_operation_index)
qed

section \<open>Touched entities\<close>

definition operation_touches_any_entity :: "push_operation \<Rightarrow> remote_id list \<Rightarrow> bool" where
  "operation_touches_any_entity operation remote_ids \<longleftrightarrow>
     (case operation of
        ArchiveEntity e \<Rightarrow> e \<in> set remote_ids
      | UpdateEntityBody e _ \<Rightarrow> e \<in> set remote_ids
      | UpdateProperties e _ \<Rightarrow> e \<in> set remote_ids
      | MoveEntity e p _ _ _ \<Rightarrow> e \<in> set remote_ids \<or> p \<in> set remote_ids
      | CreateEntity p _ _ _ _ _ _ \<Rightarrow> p \<in> set remote_ids
      | CreateDatabase p _ _ _ \<Rightarrow> p \<in> set remote_ids
      | AppendBlock p _ _ \<Rightarrow> p \<in> set remote_ids
      | UpdateBlock _ _ \<Rightarrow> False | ReplaceBlock _ _ \<Rightarrow> False | MoveBlock _ _ \<Rightarrow> False
      | UpdateMedia _ _ _ \<Rightarrow> False | ArchiveBlock _ \<Rightarrow> False)"

definition effect_touches_any_entity :: "journal_apply_effect \<Rightarrow> remote_id list \<Rightarrow> bool" where
  "effect_touches_any_entity effect remote_ids \<longleftrightarrow>
     (case effect of
        ArchivedEntity _ _ e \<Rightarrow> e \<in> set remote_ids
      | UpdatedEntityBody _ _ e \<Rightarrow> e \<in> set remote_ids
      | UpdatedProperties _ _ e _ \<Rightarrow> e \<in> set remote_ids
      | MovedEntity _ _ e p \<Rightarrow> e \<in> set remote_ids \<or> p \<in> set remote_ids
      | CreatedEntity _ _ p e \<Rightarrow> e \<in> set remote_ids \<or> p \<in> set remote_ids
      | CreatedBlock _ _ p _ \<Rightarrow> p \<in> set remote_ids
      | UpdatedBlock _ _ _ \<Rightarrow> False | MovedBlock _ _ _ \<Rightarrow> False | ArchivedBlock _ _ _ \<Rightarrow> False)"

definition touches_any_entity :: "journal_entry \<Rightarrow> remote_id list \<Rightarrow> bool" where
  "touches_any_entity entry remote_ids \<longleftrightarrow>
     list_ex (\<lambda>i. i \<in> set remote_ids) (je_remote_ids entry)
     \<or> list_ex (\<lambda>i. i \<in> set remote_ids) (affected_entities (je_plan entry))
     \<or> list_ex (\<lambda>p. jp_entity_id p \<in> set remote_ids) (je_preimages entry)
     \<or> list_ex (\<lambda>op. operation_touches_any_entity op remote_ids) (operations (je_plan entry))
     \<or> list_ex (\<lambda>e. effect_touches_any_entity e remote_ids) (je_apply_effects entry)"

section \<open>The journal of the in-memory store\<close>

datatype workspace_rebind_blocker =
    DirtyOrConflictedState
  | UnsettledApplyJournal
  | PendingVirtualMutation
  | ActiveProjection
  | RequiresOwningCoordinator

definition blocker_display :: "workspace_rebind_blocker \<Rightarrow> string" where
  "blocker_display b =
     (case b of
        DirtyOrConflictedState \<Rightarrow> ''mount has dirty or conflicted local state''
      | UnsettledApplyJournal \<Rightarrow> ''mount has an unsettled apply journal''
      | PendingVirtualMutation \<Rightarrow> ''mount has a pending virtual mutation''
      | ActiveProjection \<Rightarrow> ''mount has an active platform projection''
      | RequiresOwningCoordinator \<Rightarrow> ''workspace moves require an owning Desktop/daemon coordinator'')"

datatype store_error =
    MountMissing mount_id
  | WorkspaceBindingMissing mount_id
  | WorkspaceMountTargetCollision string mount_id
  | WorkspaceBindingTargetImmutable mount_id string string
  | WorkspaceRebindBlocked mount_id workspace_rebind_blocker
  | EntityMissing mount_id remote_id
  | EntityPathMissing mount_id path
  | DuplicateEntityPath mount_id path
  | ShadowMissing mount_id remote_id
  | JournalMissing push_id
  | JournalAlreadyExists push_id
  | StoreInvalidState string
  | StoreNotImplemented string
  | SchemaVersion int int
  | StateCompatibility string
  | DatabaseError string
  | JsonError string
  | IoError string

definition schema_version_message :: "int \<Rightarrow> int \<Rightarrow> string" where
  "schema_version_message found supported =
     ''unsupported schema version '' @ dec_int found @ ''; this binary supports up to '' @ dec_int supported"

definition store_error_display :: "store_error \<Rightarrow> string" where
  "store_error_display e =
     (case e of
        MountMissing m \<Rightarrow> ''mount `'' @ mount_id_str m @ ''` was not found''
      | WorkspaceBindingMissing m \<Rightarrow>
          ''workspace binding for mount `'' @ mount_id_str m @ ''` was not found''
      | WorkspaceMountTargetCollision target existing \<Rightarrow>
          ''workspace mount target `'' @ target @ ''` collides with mount `'' @ mount_id_str existing @ ''`''
      | WorkspaceBindingTargetImmutable m existing_target requested_target \<Rightarrow>
          ''workspace binding target for mount `'' @ mount_id_str m
          @ ''` is immutable outside the owning coordinator: `'' @ existing_target
          @ ''` cannot be changed to `'' @ requested_target @ ''`''
      | WorkspaceRebindBlocked m blocker \<Rightarrow>
          ''workspace move for mount `'' @ mount_id_str m @ ''` is blocked: '' @ blocker_display blocker
      | EntityMissing m r \<Rightarrow>
          ''entity `'' @ remote_id_str r @ ''` was not found in mount `'' @ mount_id_str m @ ''`''
      | EntityPathMissing m p \<Rightarrow>
          ''path `'' @ path_display p @ ''` was not found in mount `'' @ mount_id_str m @ ''`''
      | DuplicateEntityPath m p \<Rightarrow>
          ''path `'' @ path_display p @ ''` is already mapped in mount `'' @ mount_id_str m @ ''`''
      | ShadowMissing m r \<Rightarrow>
          ''shadow for entity `'' @ remote_id_str r @ ''` was not found in mount `'' @ mount_id_str m @ ''`''
      | JournalMissing p \<Rightarrow> ''journal entry `'' @ push_id_str p @ ''` was not found''
      | JournalAlreadyExists p \<Rightarrow> ''journal entry `'' @ push_id_str p @ ''` already exists''
      | StoreInvalidState m \<Rightarrow> ''invalid state: '' @ m
      | StoreNotImplemented feature \<Rightarrow> ''not implemented: '' @ feature
      | SchemaVersion found supported \<Rightarrow> schema_version_message found supported
      | StateCompatibility m \<Rightarrow> ''state compatibility error: '' @ m
      | DatabaseError m \<Rightarrow> ''database error: '' @ m
      | JsonError m \<Rightarrow> ''json error: '' @ m
      | IoError m \<Rightarrow> ''io error: '' @ m)"

definition store_error_into :: "store_error \<Rightarrow> locality_error" where
  "store_error_into e =
     (case e of
        StoreInvalidState m \<Rightarrow> EInvalidState m
      | StoreNotImplemented feature \<Rightarrow> ENotImplemented feature
      | SchemaVersion found supported \<Rightarrow> EIo (schema_version_message found supported)
      | StateCompatibility m \<Rightarrow> EIo m
      | DatabaseError m \<Rightarrow> EIo m
      | JsonError m \<Rightarrow> EIo m
      | IoError m \<Rightarrow> EIo m
      | _ \<Rightarrow> EIo (store_error_display e))"

type_synonym journals = "(string, journal_entry) btree_map"

definition append_journal :: "journal_entry \<Rightarrow> journals \<Rightarrow> (store_error + unit) \<times> journals" where
  "append_journal entry js =
     (if bm_get js (push_id_str (je_push_id entry)) \<noteq> None
      then (Inl (JournalAlreadyExists (je_push_id entry)), js)
      else (Inr (), bm_insert (push_id_str (je_push_id entry)) entry js))"

text \<open>\<open>get_mut\<close> and an assignment to a field: the entry under the key is replaced.\<close>

definition record_journal_apply_effects ::
    "push_id \<Rightarrow> journal_apply_effect list \<Rightarrow> journals \<Rightarrow> (store_error + unit) \<times> journals" where
  "record_journal_apply_effects push effects js =
     (case bm_get js (push_id_str push) of
        None \<Rightarrow> (Inl (JournalMissing push), js)
      | Some entry \<Rightarrow> (Inr (), bm_insert (push_id_str push) (entry\<lparr>je_apply_effects := effects\<rparr>) js))"

definition update_journal_status ::
    "push_id \<Rightarrow> journal_status \<Rightarrow> journals \<Rightarrow> (store_error + unit) \<times> journals" where
  "update_journal_status push status js =
     (case bm_get js (push_id_str push) of
        None \<Rightarrow> (Inl (JournalMissing push), js)
      | Some entry \<Rightarrow> (Inr (), bm_insert (push_id_str push) (entry\<lparr>je_status := status\<rparr>) js))"

definition get_journal :: "push_id \<Rightarrow> journals \<Rightarrow> journal_entry option" where
  "get_journal push js = bm_get js (push_id_str push)"

definition list_journal :: "journals \<Rightarrow> journal_entry list" where
  "list_journal js = map snd js"

text \<open>The implementation of the trait \<open>JournalStore\<close>: the same operations with the errors
  converted.\<close>

definition store_append :: "journal_entry \<Rightarrow> journals \<Rightarrow> unit locality_result \<times> journals" where
  "store_append entry js = apfst (map_err store_error_into) (append_journal entry js)"

definition store_record_apply_effects ::
    "push_id \<Rightarrow> journal_apply_effect list \<Rightarrow> journals \<Rightarrow> unit locality_result \<times> journals" where
  "store_record_apply_effects push effects js =
     apfst (map_err store_error_into) (record_journal_apply_effects push effects js)"

definition store_update_status ::
    "push_id \<Rightarrow> journal_status \<Rightarrow> journals \<Rightarrow> unit locality_result \<times> journals" where
  "store_update_status push status js =
     apfst (map_err store_error_into) (update_journal_status push status js)"

section \<open>The contract of a journal store\<close>

locale journal_store =
  fixes get :: "push_id \<Rightarrow> 's \<Rightarrow> journal_entry option"
    and append :: "journal_entry \<Rightarrow> 's \<Rightarrow> unit locality_result \<times> 's"
    and record_effects :: "push_id \<Rightarrow> journal_apply_effect list \<Rightarrow> 's \<Rightarrow> unit locality_result \<times> 's"
    and update_status :: "push_id \<Rightarrow> journal_status \<Rightarrow> 's \<Rightarrow> unit locality_result \<times> 's"
  assumes append_fresh: "get (je_push_id e) s = None \<Longrightarrow>
      \<exists>s'. append e s = (Inr (), s') \<and> (\<forall>p. get p s' = (if p = je_push_id e then Some e else get p s))"
    and append_taken: "get (je_push_id e) s \<noteq> None \<Longrightarrow> \<exists>err. append e s = (Inl err, s)"
    and record_known: "get p s = Some e \<Longrightarrow>
      \<exists>s'. record_effects p fx s = (Inr (), s') \<and>
        (\<forall>q. get q s' = (if q = p then Some (e\<lparr>je_apply_effects := fx\<rparr>) else get q s))"
    and update_known: "get p s = Some e \<Longrightarrow>
      \<exists>s'. update_status p st s = (Inr (), s') \<and>
        (\<forall>q. get q s' = (if q = p then Some (e\<lparr>je_status := st\<rparr>) else get q s))"
begin

text \<open>The write-ahead prologue of a push: the entry is stored as prepared and then set to
  applying.\<close>

lemma prologue:
  assumes "get (je_push_id e) s = None"
  shows "\<exists>s1 s2. append e s = (Inr (), s1) \<and> update_status (je_push_id e) st s1 = (Inr (), s2) \<and>
    (\<forall>p. get p s2 = (if p = je_push_id e then Some (e\<lparr>je_status := st\<rparr>) else get p s))"
proof -
  obtain s1 where 1: "append e s = (Inr (), s1)"
    "\<forall>p. get p s1 = (if p = je_push_id e then Some e else get p s)"
    using append_fresh[OF assms] by blast
  then have "get (je_push_id e) s1 = Some e" by simp
  from update_known[OF this, of st] obtain s2 where 2: "update_status (je_push_id e) st s1 = (Inr (), s2)"
    "\<forall>q. get q s2 = (if q = je_push_id e then Some (e\<lparr>je_status := st\<rparr>) else get q s1)"
    by blast
  with 1 show ?thesis by auto
qed

end

lemma push_id_str_inject: "push_id_str p = push_id_str q \<longleftrightarrow> p = q"
  by (cases p; cases q) simp

interpretation mem: journal_store get_journal store_append store_record_apply_effects store_update_status
  by unfold_locales
    (auto simp: get_journal_def store_append_def append_journal_def store_record_apply_effects_def
      record_journal_apply_effects_def store_update_status_def update_journal_status_def bm_get_insert
      push_id_str_inject)

end
