(* ===== verification/Push_Pipeline.thy ===== *)
theory Push_Pipeline
  imports Block_Diff Journal
begin

text \<open>
  \<open>locality-core/src/push.rs\<close>: the validation, diff and confirmation stages of a push, the guardrails,
  and the execution of an approved plan through a host that owns the journal and the connector
  hooks. The host's hooks are parameters. The lemmas show what an approval implies, when the
  guardrails let a plan pass, and, for a host whose journal is the in-memory one, how every outcome
  of the hooks ends in the journal.
\<close>

section \<open>Pipeline types\<close>

datatype push_stage =
    ParseAndValidate | Diff | PlanAndConfirm | ConcurrencyCheckAndApply | JournalAndReconcile

datatype body_diff_mode = Block | WholeEntity

record push_approval =
  assume_yes :: bool
  confirm_dangerous :: bool

definition push_approval_default :: push_approval where
  "push_approval_default = \<lparr>assume_yes = False, confirm_dangerous = False\<rparr>"

datatype push_pipeline_action =
    Noop | FixValidation | ConfirmPlan | ConfirmDangerousPlan | ProceedToApply | ReadOnlyBlocked
  | UnsupportedOperations (uo_operations: "string list") (uo_message: string) (uo_suggested_fix: string)

definition unsupported_operations :: "string list \<Rightarrow> push_pipeline_action" where
  "unsupported_operations ops =
     UnsupportedOperations ops (''connector cannot apply: '' @ join '', '' ops)
       ''reorder edits to avoid unsupported operations, or wait for connector support''"

record push_pipeline_result =
  pr_validation :: validation_report
  pr_plan :: "push_plan option"
  pr_guardrail :: guardrail_decision
  pr_action :: push_pipeline_action
  pr_completed_stages :: "push_stage list"

record 'n push_pipeline_request =
  rq_target_path :: path
  rq_edited :: "'n parsed_canonical_document"
  rq_shadow :: shadow_document
  rq_guardrail_policy :: guardrail_policy
  rq_total_mount_entities :: "usize option"
  rq_approval :: push_approval
  rq_read_only :: bool
  rq_body_diff_mode :: body_diff_mode

definition push_pipeline_request_new ::
    "path \<Rightarrow> 'n parsed_canonical_document \<Rightarrow> shadow_document \<Rightarrow> 'n push_pipeline_request" where
  "push_pipeline_request_new target edited shadow =
     \<lparr>rq_target_path = target, rq_edited = edited, rq_shadow = shadow,
      rq_guardrail_policy = guardrail_policy_default, rq_total_mount_entities = None,
      rq_approval = push_approval_default, rq_read_only = False, rq_body_diff_mode = Block\<rparr>"

section \<open>Guardrails\<close>

definition erases_entity_body :: "push_operation \<Rightarrow> bool" where
  "erases_entity_body operation \<longleftrightarrow>
     (case operation of UpdateEntityBody _ body \<Rightarrow> is_blank body | _ \<Rightarrow> False)"

definition evaluate_guardrails ::
    "push_plan \<Rightarrow> guardrail_policy \<Rightarrow> usize option \<Rightarrow> guardrail_decision" where
  "evaluate_guardrails plan policy total_mount_entities =
     (let archive_count = destructive_archive_count (summary plan);
          entity_body_erase_count = length (filter erases_entity_body (operations plan));
          reasons =
            (if archive_count > max_archives_without_confirm policy then
               [dec archive_count @ '' blocks or pages would be archived or replaced''] else [])
            @ (if entity_body_erase_count > 0 then
                 [dec entity_body_erase_count @ '' ''
                  @ (if entity_body_erase_count = 1 then ''entity body'' else ''entity bodies'')
                  @ '' would be cleared''] else [])
            @ (case total_mount_entities of
                 None \<Rightarrow> []
               | Some total_entities \<Rightarrow>
                   if touches_more_than_percent plan total_entities
                        (max_mount_touch_percent_without_confirm policy)
                   then [''plan touches more than ''
                         @ dec (unat (max_mount_touch_percent_without_confirm policy))
                         @ ''% of the mount''] else [])
      in if reasons = [] then Proceed else ConfirmRequired reasons)"

section \<open>The pipeline\<close>

definition fix_validation :: "validation_report \<Rightarrow> push_stage list \<Rightarrow> push_pipeline_result" where
  "fix_validation validation stages =
     \<lparr>pr_validation = validation, pr_plan = None, pr_guardrail = Proceed, pr_action = FixValidation,
      pr_completed_stages = stages\<rparr>"

definition request_validation :: "'n push_pipeline_request \<Rightarrow> validation_report" where
  "request_validation request =
     (let v = report_extend report_clean
            (validate_frontmatter_identity (rq_edited request) (rq_target_path request))
      in if rq_body_diff_mode request = Block
         then report_extend v (validate_directive_syntax (rq_edited request) (rq_target_path request))
         else v)"

definition request_plan :: "'n yaml_lib \<Rightarrow> 'n push_pipeline_request \<Rightarrow> push_plan locality_result" where
  "request_plan Y request =
     (case rq_body_diff_mode request of
        Block \<Rightarrow>
          engine_plan_push Y
            (with_edited_body_start_line engine_new (pd_body_start_line (rq_edited request)))
            (rq_shadow request) (pd_document (rq_edited request))
      | WholeEntity \<Rightarrow>
          plan_whole_entity_diff Y (rq_shadow request) (pd_document (rq_edited request)))"

definition plan_push_pipeline :: "'n yaml_lib \<Rightarrow> 'n push_pipeline_request \<Rightarrow> push_pipeline_result" where
  "plan_push_pipeline Y request =
     (if rq_read_only request then
        \<lparr>pr_validation = report_clean, pr_plan = None, pr_guardrail = Proceed,
         pr_action = ReadOnlyBlocked, pr_completed_stages = []\<rparr>
      else
        let validation = request_validation request
        in if \<not> is_clean validation then fix_validation validation [ParseAndValidate]
           else case request_plan Y request of
             Inl (EValidation found) \<Rightarrow>
               fix_validation
                 (validation\<lparr>issues := issues validation @ map (\<lambda>issue.
                    if vi_file issue = [] then issue\<lparr>vi_file := rq_target_path request\<rparr> else issue) found\<rparr>)
                 [ParseAndValidate]
           | Inl _ \<Rightarrow>
               fix_validation
                 (report_push validation (vi_new ''push_pipeline_diff_error'' (rq_target_path request) None
                    ''diff planning failed unexpectedly''
                    (Some ''retry after refreshing the shadow snapshot'')))
                 [ParseAndValidate]
           | Inr plan \<Rightarrow>
               if plan_is_empty plan then
                 \<lparr>pr_validation = validation, pr_plan = Some plan, pr_guardrail = Proceed,
                  pr_action = Noop, pr_completed_stages = [ParseAndValidate, Diff]\<rparr>
               else
                 let guardrail = evaluate_guardrails plan (rq_guardrail_policy request)
                       (rq_total_mount_entities request);
                     action = (case guardrail of
                         Proceed \<Rightarrow>
                           if assume_yes (rq_approval request) then ProceedToApply else ConfirmPlan
                       | ConfirmRequired _ \<Rightarrow>
                           if confirm_dangerous (rq_approval request) then ProceedToApply
                           else ConfirmDangerousPlan)
                 in \<lparr>pr_validation = validation, pr_plan = Some plan, pr_guardrail = guardrail,
                     pr_action = action,
                     pr_completed_stages = [ParseAndValidate, Diff, PlanAndConfirm]\<rparr>)"

section \<open>Execution\<close>

record remote_precondition =
  pc_remote_id :: remote_id
  pc_remote_edited_at :: "string option"

record push_execution_request =
  px_push_id :: push_id
  px_mount_id :: mount_id
  px_pipeline :: push_pipeline_result
  px_preimages :: "journal_preimage list"
  px_metadata :: journal_metadata
  px_readable_diff :: "readable_diff_output option"
  px_remote_preconditions :: "remote_precondition list"

definition push_execution_request_new ::
    "push_id \<Rightarrow> mount_id \<Rightarrow> push_pipeline_result \<Rightarrow> push_execution_request" where
  "push_execution_request_new push mount pipeline =
     \<lparr>px_push_id = push, px_mount_id = mount, px_pipeline = pipeline, px_preimages = [],
      px_metadata = journal_metadata_default, px_readable_diff = None,
      px_remote_preconditions = []\<rparr>"

datatype push_execution_action = NotReady push_pipeline_action | ExecReconciled

record push_execution_result =
  xr_push_id :: push_id
  xr_action :: push_execution_action
  xr_changed_remote_ids :: "remote_id list"
  xr_apply_effects :: "journal_apply_effect list"
  xr_reconciled_remote_ids :: "remote_id list"
  xr_journal_status :: "journal_status option"
  xr_completed_stages :: "push_stage list"

record push_concurrency_request =
  cr_push_id :: push_id
  cr_mount_id :: mount_id
  cr_plan :: push_plan
  cr_operation_ids :: "push_operation_id list"
  cr_remote_ids :: "remote_id list"
  cr_remote_preconditions :: "remote_precondition list"

record push_apply_result =
  ar_changed_remote_ids :: "remote_id list"
  ar_effects :: "journal_apply_effect list"

record push_reconcile_request =
  rr_push_id :: push_id
  rr_mount_id :: mount_id
  rr_plan :: push_plan
  rr_changed_remote_ids :: "remote_id list"
  rr_apply_effects :: "journal_apply_effect list"

text \<open>A host is one mutable object implementing the four traits; a method takes the state and
  returns its result and the new state. The request of \<open>apply\<close> has the fields of that of
  \<open>check\<close>.\<close>

record 's push_execution_host =
  h_append :: "journal_entry \<Rightarrow> 's \<Rightarrow> unit locality_result \<times> 's"
  h_record_apply_effects :: "push_id \<Rightarrow> journal_apply_effect list \<Rightarrow> 's \<Rightarrow> unit locality_result \<times> 's"
  h_update_status :: "push_id \<Rightarrow> journal_status \<Rightarrow> 's \<Rightarrow> unit locality_result \<times> 's"
  h_check :: "push_concurrency_request \<Rightarrow> 's \<Rightarrow> unit locality_result \<times> 's"
  h_apply :: "push_concurrency_request \<Rightarrow> 's \<Rightarrow> push_apply_result locality_result \<times> 's"
  h_reconcile :: "push_reconcile_request \<Rightarrow> 's \<Rightarrow> remote_id list locality_result \<times> 's"

definition mark_failed :: "'s push_execution_host \<Rightarrow> push_id \<Rightarrow> locality_error \<Rightarrow> 's \<Rightarrow> unit locality_result \<times> 's" where
  "mark_failed H push err s = h_update_status H push (Failed (error_display err)) s"

definition mark_reverted :: "'s push_execution_host \<Rightarrow> push_id \<Rightarrow> 's \<Rightarrow> unit locality_result \<times> 's" where
  "mark_reverted H push s = h_update_status H push Reverted s"

text \<open>The question mark on a host call: an error ends the execution with the state so far.\<close>

definition host_bind :: "'a locality_result \<times> 's \<Rightarrow> ('a \<Rightarrow> 's \<Rightarrow> 'b locality_result \<times> 's) \<Rightarrow> 'b locality_result \<times> 's" where
  "host_bind r f = (case r of (Inl e, s) \<Rightarrow> (Inl e, s) | (Inr a, s) \<Rightarrow> f a s)"

definition prepared_entry :: "push_execution_request \<Rightarrow> push_plan \<Rightarrow> journal_entry" where
  "prepared_entry request plan =
     (journal_entry_new (px_push_id request) (px_mount_id request) (affected_entities plan) plan Prepared)
       \<lparr>je_preimages := px_preimages request, je_metadata := px_metadata request,
        je_readable_diff := px_readable_diff request\<rparr>"

definition concurrency_request :: "push_execution_request \<Rightarrow> push_plan \<Rightarrow> push_concurrency_request" where
  "concurrency_request request plan =
     \<lparr>cr_push_id = px_push_id request, cr_mount_id = px_mount_id request, cr_plan = plan,
      cr_operation_ids = operation_ids (px_push_id request) (operations plan),
      cr_remote_ids = affected_entities plan,
      cr_remote_preconditions = px_remote_preconditions request\<rparr>"

definition reconcile_request :: "push_execution_request \<Rightarrow> push_plan \<Rightarrow> push_apply_result \<Rightarrow> push_reconcile_request" where
  "reconcile_request request plan applied =
     \<lparr>rr_push_id = px_push_id request, rr_mount_id = px_mount_id request, rr_plan = plan,
      rr_changed_remote_ids = ar_changed_remote_ids applied, rr_apply_effects = ar_effects applied\<rparr>"

definition not_ready_result :: "push_execution_request \<Rightarrow> push_execution_result" where
  "not_ready_result request =
     \<lparr>xr_push_id = px_push_id request, xr_action = NotReady (pr_action (px_pipeline request)),
      xr_changed_remote_ids = [], xr_apply_effects = [], xr_reconciled_remote_ids = [],
      xr_journal_status = None, xr_completed_stages = pr_completed_stages (px_pipeline request)\<rparr>"

definition reconciled_result ::
    "push_execution_request \<Rightarrow> push_apply_result \<Rightarrow> remote_id list \<Rightarrow> push_execution_result" where
  "reconciled_result request applied reconciled =
     \<lparr>xr_push_id = px_push_id request, xr_action = ExecReconciled,
      xr_changed_remote_ids = ar_changed_remote_ids applied, xr_apply_effects = ar_effects applied,
      xr_reconciled_remote_ids = reconciled, xr_journal_status = Some Reconciled,
      xr_completed_stages = pr_completed_stages (px_pipeline request)
        @ [ConcurrencyCheckAndApply, JournalAndReconcile]\<rparr>"

definition execute_journaled_push_with_host ::
    "'s push_execution_host \<Rightarrow> push_execution_request \<Rightarrow> 's \<Rightarrow> push_execution_result locality_result \<times> 's" where
  "execute_journaled_push_with_host H request s =
     (if pr_action (px_pipeline request) \<noteq> ProceedToApply then (Inr (not_ready_result request), s)
      else case pr_plan (px_pipeline request) of
        None \<Rightarrow> (Inl (EInvalidState ''push pipeline approved apply without a plan''), s)
      | Some plan \<Rightarrow>
          host_bind (h_append H (prepared_entry request plan) s) (\<lambda>_ s.
          host_bind (h_update_status H (px_push_id request) Applying s) (\<lambda>_ s.
          case h_check H (concurrency_request request plan) s of
            (Inl err, s) \<Rightarrow>
              host_bind (mark_reverted H (px_push_id request) s) (\<lambda>_ s. (Inl err, s))
          | (Inr _, s) \<Rightarrow>
          case h_apply H (concurrency_request request plan) s of
            (Inl err, s) \<Rightarrow>
              host_bind (mark_failed H (px_push_id request) err s) (\<lambda>_ s. (Inl err, s))
          | (Inr applied, s) \<Rightarrow>
          case h_record_apply_effects H (px_push_id request) (ar_effects applied) s of
            (Inl err, s) \<Rightarrow>
              host_bind (mark_failed H (px_push_id request) err s) (\<lambda>_ s. (Inl err, s))
          | (Inr _, s) \<Rightarrow>
          host_bind (h_update_status H (px_push_id request) Applied s) (\<lambda>_ s.
          case h_reconcile H (reconcile_request request plan applied) s of
            (Inl err, s) \<Rightarrow>
              host_bind (mark_failed H (px_push_id request) err s) (\<lambda>_ s. (Inl err, s))
          | (Inr reconciled, s) \<Rightarrow>
          host_bind (h_update_status H (px_push_id request) Reconciled s) (\<lambda>_ s.
          (Inr (reconciled_result request applied reconciled), s))))))"


section \<open>What an approval means\<close>

lemma pipeline_proceeds:
  "pr_action (plan_push_pipeline Y request) = ProceedToApply \<longleftrightarrow>
     \<not> rq_read_only request \<and> is_clean (request_validation request) \<and>
     (\<exists>plan. request_plan Y request = Inr plan \<and> operations plan \<noteq> [] \<and>
        pr_plan (plan_push_pipeline Y request) = Some plan \<and>
        (if evaluate_guardrails plan (rq_guardrail_policy request) (rq_total_mount_entities request) = Proceed
         then assume_yes (rq_approval request) else confirm_dangerous (rq_approval request)))"
proof (cases "request_plan Y request")
  case (Inl err)
  then show ?thesis
    by (auto simp: plan_push_pipeline_def Let_def fix_validation_def split: locality_error.splits)
next
  case (Inr plan)
  then show ?thesis
    by (cases "evaluate_guardrails plan (rq_guardrail_policy request) (rq_total_mount_entities request)")
      (auto simp: plan_push_pipeline_def Let_def fix_validation_def plan_is_empty_def)
qed

text \<open>C24: the pipeline lets a push proceed exactly when the mount is writable, the local validation
  is clean, the diff produced a plan with at least one operation, and the caller approved it:
  normally when the guardrails pass it, explicitly as dangerous when they do not.\<close>

theorem proceed_iff:
  "pr_action (plan_push_pipeline Y request) = ProceedToApply \<longleftrightarrow>
     \<not> rq_read_only request \<and> is_clean (request_validation request) \<and>
     (\<exists>plan. request_plan Y request = Inr plan \<and> operations plan \<noteq> [] \<and>
        pr_plan (plan_push_pipeline Y request) = Some plan \<and>
        (if evaluate_guardrails plan (rq_guardrail_policy request) (rq_total_mount_entities request) = Proceed
         then assume_yes (rq_approval request) else confirm_dangerous (rq_approval request)))"
  by (rule pipeline_proceeds)

text \<open>The guardrails pass a plan without confirmation exactly when it archives or replaces at most
  the permitted number of blocks and pages, clears no entity body, and does not touch more than the
  permitted share of a mount of known size.\<close>

theorem guardrails_proceed_iff:
  "evaluate_guardrails plan policy total_mount = Proceed \<longleftrightarrow>
     destructive_archive_count (summary plan) \<le> max_archives_without_confirm policy \<and>
     \<not> list_ex erases_entity_body (operations plan) \<and>
     (case total_mount of None \<Rightarrow> True
      | Some n \<Rightarrow> \<not> touches_more_than_percent plan n (max_mount_touch_percent_without_confirm policy))"
  by (auto simp: evaluate_guardrails_def Let_def list_ex_iff filter_empty_conv split: option.splits)

section \<open>The contract of a host\<close>



section \<open>Execution over the in-memory journal\<close>

text \<open>A host made of the in-memory journal and connector hooks that act on a world of their own.\<close>

definition lift_store :: "('j \<Rightarrow> 'r \<times> 'j) \<Rightarrow> 'j \<times> 'w \<Rightarrow> 'r \<times> ('j \<times> 'w)" where
  "lift_store f s = (case f (fst s) of (r, j) \<Rightarrow> (r, (j, snd s)))"

definition lift_world :: "('w \<Rightarrow> 'r \<times> 'w) \<Rightarrow> 'j \<times> 'w \<Rightarrow> 'r \<times> ('j \<times> 'w)" where
  "lift_world f s = (case f (snd s) of (r, w) \<Rightarrow> (r, (fst s, w)))"

definition memory_host ::
    "(push_concurrency_request \<Rightarrow> 'w \<Rightarrow> unit locality_result \<times> 'w)
     \<Rightarrow> (push_concurrency_request \<Rightarrow> 'w \<Rightarrow> push_apply_result locality_result \<times> 'w)
     \<Rightarrow> (push_reconcile_request \<Rightarrow> 'w \<Rightarrow> remote_id list locality_result \<times> 'w)
     \<Rightarrow> (journals \<times> 'w) push_execution_host" where
  "memory_host check apply_plan reconcile =
     \<lparr>h_append = (\<lambda>e. lift_store (store_append e)),
      h_record_apply_effects = (\<lambda>p fx. lift_store (store_record_apply_effects p fx)),
      h_update_status = (\<lambda>p st. lift_store (store_update_status p st)),
      h_check = (\<lambda>cr. lift_world (check cr)),
      h_apply = (\<lambda>cr. lift_world (apply_plan cr)),
      h_reconcile = (\<lambda>rr. lift_world (reconcile rr))\<rparr>"





text \<open>The outcome of an execution, without the journal: the result, the final status and effects,
  and the world.\<close>

definition push_outcome ::
    "(push_concurrency_request \<Rightarrow> 'w \<Rightarrow> unit locality_result \<times> 'w)
     \<Rightarrow> (push_concurrency_request \<Rightarrow> 'w \<Rightarrow> push_apply_result locality_result \<times> 'w)
     \<Rightarrow> (push_reconcile_request \<Rightarrow> 'w \<Rightarrow> remote_id list locality_result \<times> 'w)
     \<Rightarrow> push_execution_request \<Rightarrow> push_plan \<Rightarrow> 'w
     \<Rightarrow> push_execution_result locality_result \<times> journal_status \<times> journal_apply_effect list \<times> 'w" where
  "push_outcome check apply_plan reconcile request plan w =
     (case check (concurrency_request request plan) w of
        (Inl e, w) \<Rightarrow> (Inl e, Reverted, [], w)
      | (Inr _, w) \<Rightarrow>
      case apply_plan (concurrency_request request plan) w of
        (Inl e, w) \<Rightarrow> (Inl e, Failed (error_display e), [], w)
      | (Inr applied, w) \<Rightarrow>
      case reconcile (reconcile_request request plan applied) w of
        (Inl e, w) \<Rightarrow> (Inl e, Failed (error_display e), ar_effects applied, w)
      | (Inr reconciled, w) \<Rightarrow>
          (Inr (reconciled_result request applied reconciled), Reconciled, ar_effects applied, w))"

lemma bm_insert_twice: "bm_insert k v (bm_insert k u m) = bm_insert k v m"
  by (induction k u m rule: bm_insert.induct) auto

lemma store_on_entry:
  "store_append e js = (if get_journal (je_push_id e) js = None
     then (Inr (), bm_insert (push_id_str (je_push_id e)) e js)
     else (Inl (store_error_into (JournalAlreadyExists (je_push_id e))), js))"
  "store_update_status p st (bm_insert (push_id_str p) e js) =
     (Inr (), bm_insert (push_id_str p) (e\<lparr>je_status := st\<rparr>) js)"
  "store_record_apply_effects p fx (bm_insert (push_id_str p) e js) =
     (Inr (), bm_insert (push_id_str p) (e\<lparr>je_apply_effects := fx\<rparr>) js)"
  by (auto simp: store_append_def append_journal_def get_journal_def store_update_status_def
      update_journal_status_def store_record_apply_effects_def record_journal_apply_effects_def
      bm_get_insert bm_insert_twice split: option.split)

text \<open>C8: the execution of an approved push under a fresh id refines its abstract outcome: the
  connector hooks run in the order check, apply, reconcile, each only after the one before
  succeeded, on the world the one before left; and the journal gains exactly one entry, with the
  status and effects of the outcome.\<close>

theorem execution_refines_outcome:
  assumes "pr_action (px_pipeline request) = ProceedToApply" "pr_plan (px_pipeline request) = Some plan"
    and "get_journal (px_push_id request) js = None"
  shows "execute_journaled_push_with_host (memory_host check apply_plan reconcile) request (js, w) =
    (case push_outcome check apply_plan reconcile request plan w of (res, st, fx, w') \<Rightarrow>
       (res, (bm_insert (push_id_str (px_push_id request))
          ((prepared_entry request plan)\<lparr>je_apply_effects := fx, je_status := st\<rparr>) js, w')))"
proof -
  have e: "je_push_id (prepared_entry request plan) = px_push_id request"
    "(prepared_entry request plan)\<lparr>je_apply_effects := []\<rparr> = prepared_entry request plan"
    by (simp_all add: prepared_entry_def journal_entry_new_def)
  have sel: "h_append (memory_host check apply_plan reconcile) e = lift_store (store_append e)"
    "h_record_apply_effects (memory_host check apply_plan reconcile) p fx = lift_store (store_record_apply_effects p fx)"
    "h_update_status (memory_host check apply_plan reconcile) p st = lift_store (store_update_status p st)"
    "h_check (memory_host check apply_plan reconcile) cr = lift_world (check cr)"
    "h_apply (memory_host check apply_plan reconcile) cr = lift_world (apply_plan cr)"
    "h_reconcile (memory_host check apply_plan reconcile) rr = lift_world (reconcile rr)" for e p fx st cr rr
    by (simp_all add: memory_host_def)
  show ?thesis
    unfolding execute_journaled_push_with_host_def mark_failed_def mark_reverted_def sel push_outcome_def
    using assms
    by (auto simp: host_bind_def lift_store_def lift_world_def store_on_entry e
        split: prod.split sum.split)
qed


text \<open>A concrete approved request and connector hooks that succeed, for the witnesses.\<close>

definition sample_execution :: push_execution_request where
  "sample_execution = push_execution_request_new (PushId ''p1'') (MountId ''m'')
     \<lparr>pr_validation = report_clean,
      pr_plan = Some (plan_new [RemoteId ''e''] [ArchiveBlock (RemoteId ''b'')]),
      pr_guardrail = Proceed, pr_action = ProceedToApply,
      pr_completed_stages = [ParseAndValidate, Diff, PlanAndConfirm]\<rparr>"

definition sample_apply :: "push_concurrency_request \<Rightarrow> nat \<Rightarrow> push_apply_result locality_result \<times> nat" where
  "sample_apply cr w = (Inr \<lparr>ar_changed_remote_ids = cr_remote_ids cr, ar_effects = []\<rparr>, w + 1)"

theorem execution_refines_outcome_witness:
  "execute_journaled_push_with_host
     (memory_host (\<lambda>_ w. (Inr (), w)) sample_apply (\<lambda>_ w. (Inr [], w))) sample_execution ([], 0) =
    (case push_outcome (\<lambda>_ w. (Inr (), w)) sample_apply (\<lambda>_ w. (Inr [], w)) sample_execution
       (plan_new [RemoteId ''e''] [ArchiveBlock (RemoteId ''b'')]) 0 of (res, st, fx, w') \<Rightarrow>
       (res, (bm_insert (push_id_str (px_push_id sample_execution))
          ((prepared_entry sample_execution (plan_new [RemoteId ''e''] [ArchiveBlock (RemoteId ''b'')]))
             \<lparr>je_apply_effects := fx, je_status := st\<rparr>) [], w')))"
  by (rule execution_refines_outcome)
    (simp_all add: sample_execution_def push_execution_request_new_def get_journal_def)


end
