(* ===== verification/Conflict.thy ===== *)
theory Conflict
  imports Conflict_Markers LCS
begin

text \<open>
  The merging half of conflict.rs: the line changes between a base and an edited text, the
  three-way merge of two lists of changes, and the change set of blocks. Lines are those of
  \<open>split_lines\<close>; a change replaces a range of base lines. The lemmas show that the changes of
  \<open>line_changes\<close> rebuild the edited text, and that the merge of compatible change lists applies
  every change of both sides exactly once.
\<close>

section \<open>Line changes\<close>

record line_change =
  lc_base_start :: usize
  lc_base_end :: usize
  lc_replacement :: "string list"

definition MAX_DIFF_CELLS :: usize where
  "MAX_DIFF_CELLS = 16000000"

text \<open>\<open>lcs_pairs\<close>. The multiplication is checked; the cells stay below \<open>2 ^ 32\<close>, so the \<open>u32\<close>
  lengths do not wrap.\<close>

definition checked_mul :: "usize \<Rightarrow> usize \<Rightarrow> usize option" where
  "checked_mul a b = (if a * b < 2 ^ 64 then Some (a * b) else None)"

definition lcs_pairs :: "string list \<Rightarrow> string list \<Rightarrow> (usize \<times> usize) list option" where
  "lcs_pairs base_lines edited_lines =
     (let width = length edited_lines + 1
      in case checked_mul (length base_lines + 1) width of
           None \<Rightarrow> None
         | Some cells \<Rightarrow>
             if cells > MAX_DIFF_CELLS then None
             else
               let lengths = fill_table (flat_get width) (flat_put width) (=) base_lines edited_lines
                     (replicate cells 0)
               in Some (lcs_walk (=) base_lines edited_lines (flat_get width lengths) 0 0))"

definition push_line_change ::
    "string list \<Rightarrow> string list \<Rightarrow> usize \<Rightarrow> usize \<Rightarrow> usize \<Rightarrow> usize \<Rightarrow> line_change list" where
  "push_line_change base_lines edited_lines base_start base_end edited_start edited_end =
     (if base_start = base_end \<and> edited_start = edited_end then []
      else if slice base_lines base_start base_end = slice edited_lines edited_start edited_end then []
      else [\<lparr>lc_base_start = base_start, lc_base_end = base_end,
             lc_replacement = slice edited_lines edited_start edited_end\<rparr>])"

fun line_changes_loop ::
    "string list \<Rightarrow> string list \<Rightarrow> (usize \<times> usize) list \<Rightarrow> usize \<Rightarrow> usize \<Rightarrow> line_change list" where
  "line_changes_loop base_lines edited_lines [] base_cursor edited_cursor =
     push_line_change base_lines edited_lines base_cursor (length base_lines)
       edited_cursor (length edited_lines)"
| "line_changes_loop base_lines edited_lines ((base_index, edited_index) # pairs) base_cursor edited_cursor =
     push_line_change base_lines edited_lines base_cursor base_index edited_cursor edited_index
     @ line_changes_loop base_lines edited_lines pairs (base_index + 1) (edited_index + 1)"

definition line_changes :: "string \<Rightarrow> string \<Rightarrow> line_change list option" where
  "line_changes base_body edited_body =
     (let base_lines = split_lines base_body; edited_lines = split_lines edited_body
      in map_option (\<lambda>pairs. line_changes_loop base_lines edited_lines pairs 0 0)
           (lcs_pairs base_lines edited_lines))"

section \<open>Merging\<close>

fun changed_region_loop :: "string list \<Rightarrow> usize \<Rightarrow> line_change list \<Rightarrow> usize \<Rightarrow> string" where
  "changed_region_loop base_lines end' [] cursor = push_lines (slice base_lines cursor end')"
| "changed_region_loop base_lines end' (change # changes) cursor =
     push_lines (slice base_lines cursor (lc_base_start change))
     @ push_lines (lc_replacement change)
     @ changed_region_loop base_lines end' changes (lc_base_end change)"

definition render_changed_region ::
    "string list \<Rightarrow> usize \<Rightarrow> usize \<Rightarrow> line_change list \<Rightarrow> string" where
  "render_changed_region base_lines start end' changes =
     changed_region_loop base_lines end' changes start"

text \<open>The inner loops of \<open>merge_line_changes\<close>. An index into a list of changes is modelled by the
  changes from that index on; \<open>absorb_changes\<close> also returns the changes it passed, the slice from
  the old to the new index.\<close>

fun absorb_changes :: "line_change list \<Rightarrow> usize \<Rightarrow> line_change list \<times> line_change list \<times> usize" where
  "absorb_changes [] group_end = ([], [], group_end)"
| "absorb_changes (change # changes) group_end =
     (if lc_base_start change > group_end then ([], change # changes, group_end)
      else
        let (taken, rest, e) = absorb_changes changes (max group_end (lc_base_end change))
        in (change # taken, rest, e))"

lemma absorb_changes_split:
  "absorb_changes cs e = (taken, rest, e') \<Longrightarrow> cs = taken @ rest"
  by (induction cs e arbitrary: taken e' rule: absorb_changes.induct)
    (auto split: if_splits prod.splits)

function grow_group :: "line_change list \<Rightarrow> line_change list \<Rightarrow> usize
    \<Rightarrow> line_change list \<times> line_change list \<times> line_change list \<times> line_change list \<times> usize" where
  "grow_group ls rs group_end =
     (case absorb_changes ls group_end of (ltaken, ls', e1) \<Rightarrow>
      case absorb_changes rs e1 of (rtaken, rs', e2) \<Rightarrow>
        if ltaken = [] \<and> rtaken = [] then ([], ls', [], rs', e2)
        else
          case grow_group ls' rs' e2 of (lmore, ls'', rmore, rs'', e3) \<Rightarrow>
            (ltaken @ lmore, ls'', rtaken @ rmore, rs'', e3))"
  by pat_completeness auto
termination
  by (relation "measure (\<lambda>(ls, rs, _). length ls + length rs)")
    (auto dest!: absorb_changes_split[OF sym])

declare grow_group.simps [simp del]

lemma grow_group_split:
  "grow_group ls rs e = (lt, ls', rt, rs', e') \<Longrightarrow> ls = lt @ ls' \<and> rs = rt @ rs'"
proof (induction ls rs e arbitrary: lt ls' rt rs' e' rule: grow_group.induct)
  case (1 ls rs e)
  obtain lt0 ls0 e1 where a: "absorb_changes ls e = (lt0, ls0, e1)" by (cases "absorb_changes ls e")
  obtain rt0 rs0 e2 where b: "absorb_changes rs e1 = (rt0, rs0, e2)" by (cases "absorb_changes rs e1")
  note sp = absorb_changes_split[OF a] absorb_changes_split[OF b]
  show ?case
  proof (cases "lt0 = [] \<and> rt0 = []")
    case True
    with 1(2) a b have "lt = []" "ls' = ls0" "rt = []" "rs' = rs0"
      by (simp_all add: grow_group.simps[of ls rs e])
    with True sp show ?thesis by simp
  next
    case False
    obtain lm ls1 rm rs1 e3 where g: "grow_group ls0 rs0 e2 = (lm, ls1, rm, rs1, e3)"
      by (cases "grow_group ls0 rs0 e2")
    have "lt = lt0 @ lm" "ls' = ls1" "rt = rt0 @ rm" "rs' = rs1"
      using 1(2) False a b g by (auto simp: grow_group.simps[of ls rs e])
    moreover have "ls0 = lm @ ls1 \<and> rs0 = rm @ rs1"
      by (rule 1(1)[OF a[symmetric] _ b[symmetric] _ False g]) simp_all
    ultimately show ?thesis using sp by simp
  qed
qed

text \<open>The start of the next group.\<close>

fun next_start :: "line_change list \<Rightarrow> line_change list \<Rightarrow> usize" where
  "next_start (l # _) (r # _) = min (lc_base_start l) (lc_base_start r)"
| "next_start (l # _) [] = lc_base_start l"
| "next_start [] (r # _) = lc_base_start r"
| "next_start [] [] = 0"

lemma grow_group_progress:
  assumes "grow_group ls rs (next_start ls rs) = (lt, ls', rt, rs', e')" "ls \<noteq> [] \<or> rs \<noteq> []"
  shows "length ls' + length rs' < length ls + length rs"
proof -
  have "lt \<noteq> [] \<or> rt \<noteq> []"
    using assms
    by (cases ls; cases rs; subst (asm) grow_group.simps)
      (auto split: if_splits prod.splits simp: min_def)
  with grow_group_split[OF assms(1)] show ?thesis by (cases lt; cases rt) auto
qed

definition merge_group :: "string list \<Rightarrow> usize \<Rightarrow> usize \<Rightarrow> line_change list \<Rightarrow> line_change list \<Rightarrow> string" where
  "merge_group base_lines group_start group_end local_group remote_group =
     (let local_region = render_changed_region base_lines group_start group_end local_group;
          remote_region = render_changed_region base_lines group_start group_end remote_group
      in if local_group \<noteq> [] \<and> remote_group = [] then local_region
         else if local_group = [] \<and> remote_group \<noteq> [] then remote_region
         else if local_group \<noteq> [] \<and> remote_group \<noteq> [] then
           (if local_region = remote_region then local_region
            else render_conflict_hunk local_region remote_region)
         else [])"

function merge_loop :: "string list \<Rightarrow> line_change list \<Rightarrow> line_change list \<Rightarrow> usize \<Rightarrow> string" where
  "merge_loop base_lines ls rs base_cursor =
     (if ls = [] \<and> rs = [] then push_lines (drop base_cursor base_lines)
      else
        let group_start = next_start ls rs
        in case grow_group ls rs group_start of (local_group, ls', remote_group, rs', group_end) \<Rightarrow>
             push_lines (slice base_lines base_cursor group_start)
             @ merge_group base_lines group_start group_end local_group remote_group
             @ merge_loop base_lines ls' rs' group_end)"
  by pat_completeness auto
termination
  by (relation "measure (\<lambda>(_, ls, rs, _). length ls + length rs)")
    (auto dest!: grow_group_progress[OF sym])

declare merge_loop.simps [simp del]

definition merge_line_changes :: "string \<Rightarrow> line_change list \<Rightarrow> line_change list \<Rightarrow> string" where
  "merge_line_changes base_body local_changes remote_changes =
     merge_loop (split_lines base_body) local_changes remote_changes 0"

definition render_conflict_marker_body_with_base :: "string \<Rightarrow> string \<Rightarrow> string \<Rightarrow> string" where
  "render_conflict_marker_body_with_base base_body local_body remote_body =
     (case line_changes base_body local_body of
        None \<Rightarrow> render_conflict_marker_body local_body remote_body
      | Some local_changes \<Rightarrow>
          (case line_changes base_body remote_body of
             None \<Rightarrow> render_conflict_marker_body local_body remote_body
           | Some remote_changes \<Rightarrow> merge_line_changes base_body local_changes remote_changes))"

definition merge_text_with_base :: "string \<Rightarrow> string \<Rightarrow> string \<Rightarrow> three_way_text_merge" where
  "merge_text_with_base base local remote =
     (let merged = render_conflict_marker_body_with_base base local remote
      in if sublist CONFLICT_LOCAL_MARKER merged \<and> sublist CONFLICT_SEPARATOR_MARKER merged
            \<and> sublist CONFLICT_REMOTE_MARKER merged
         then Conflict merged else Clean merged)"

definition render_inline_conflict_markdown_with_base ::
    "'n yaml_lib \<Rightarrow> string \<Rightarrow> string option \<Rightarrow> canonical_document \<Rightarrow> string" where
  "render_inline_conflict_markdown_with_base Y local_contents base_body remote_document =
     (let (fm, local_body) =
            (case parse_canonical_markdown Y local_contents of
               Inr parsed \<Rightarrow> (cd_frontmatter (pd_document parsed), cd_body (pd_document parsed))
             | Inl _ \<Rightarrow> (cd_frontmatter remote_document, local_contents));
          body =
            (case base_body of
               Some base \<Rightarrow>
                 render_conflict_marker_body_with_base base local_body (cd_body remote_document)
             | None \<Rightarrow> render_conflict_marker_body local_body (cd_body remote_document))
      in render_canonical_markdown (cd_new fm body))"

definition render_inline_conflict_markdown ::
    "'n yaml_lib \<Rightarrow> string \<Rightarrow> canonical_document \<Rightarrow> string" where
  "render_inline_conflict_markdown Y local_contents remote_document =
     render_inline_conflict_markdown_with_base Y local_contents None remote_document"

section \<open>Change sets of blocks\<close>

record block_change_set =
  changed_blocks :: "remote_id set"
  has_structural_change :: bool

definition bcs_from_blocks :: "remote_id list \<Rightarrow> block_change_set" where
  "bcs_from_blocks blocks = \<lparr>changed_blocks = set blocks, has_structural_change = False\<rparr>"

definition bcs_structural :: block_change_set where
  "bcs_structural = \<lparr>changed_blocks = {}, has_structural_change = True\<rparr>"

definition with_structural_change :: "block_change_set \<Rightarrow> block_change_set" where
  "with_structural_change s = s\<lparr>has_structural_change := True\<rparr>"

definition bcs_is_disjoint :: "block_change_set \<Rightarrow> block_change_set \<Rightarrow> bool" where
  "bcs_is_disjoint s other \<longleftrightarrow>
     \<not> has_structural_change s \<and> \<not> has_structural_change other
     \<and> changed_blocks s \<inter> changed_blocks other = {}"

definition bcs_len :: "block_change_set \<Rightarrow> usize" where
  "bcs_len s = card (changed_blocks s)"

definition bcs_is_empty :: "block_change_set \<Rightarrow> bool" where
  "bcs_is_empty s \<longleftrightarrow> changed_blocks s = {} \<and> \<not> has_structural_change s"


section \<open>The changes rebuild the edited text\<close>

text \<open>The shape of a change list: ranges inside the base, in order, each separated from the next
  by at least one kept line.\<close>

fun changes_ok :: "usize \<Rightarrow> usize \<Rightarrow> line_change list \<Rightarrow> bool" where
  "changes_ok lo n [] \<longleftrightarrow> True"
| "changes_ok lo n (c # cs) \<longleftrightarrow>
     lo \<le> lc_base_start c \<and> lc_base_start c \<le> lc_base_end c \<and> lc_base_end c \<le> n
     \<and> changes_ok (Suc (lc_base_end c)) n cs"

lemma changes_ok_mono: "changes_ok lo n cs \<Longrightarrow> lo' \<le> lo \<Longrightarrow> changes_ok lo' n cs"
  by (cases cs) auto

lemma changes_ok_hd: "changes_ok lo n cs \<Longrightarrow> cs = [] \<or> lo \<le> lc_base_start (hd cs)"
  by (cases cs) auto

lemma changes_ok_raise:
  "changes_ok lo n cs \<Longrightarrow> cs = [] \<or> lo' \<le> lc_base_start (hd cs) \<Longrightarrow> changes_ok lo' n cs"
  by (cases cs) auto

lemma region_advance:
  "changes_ok d n cs \<Longrightarrow> c \<le> d \<Longrightarrow> d \<le> n \<Longrightarrow>
   changed_region_loop base_lines n cs c =
     concat (slice base_lines c d) @ changed_region_loop base_lines n cs d"
proof (cases cs)
  case Nil
  assume "c \<le> d" "d \<le> n"
  then show ?thesis
    using slice_append[of c d n base_lines, symmetric] Nil by (simp add: push_lines_def)
next
  case (Cons x xs)
  assume "changes_ok d n cs" "c \<le> d" "d \<le> n"
  then show ?thesis
    using slice_append[of c d "lc_base_start x" base_lines, symmetric] Cons
    by (simp add: push_lines_def)
qed

lemma push_line_change_region:
  assumes "changes_ok a n cs" "bc \<le> a" "a \<le> n"
  shows "changed_region_loop base_lines n (push_line_change base_lines ed bc a ec b @ cs) bc =
    concat (slice ed ec b) @ changed_region_loop base_lines n cs a"
  using region_advance[OF assms(1,2,3), of base_lines] assms
  by (auto simp: push_line_change_def push_lines_def)

lemma push_line_change_ok:
  "changes_ok (Suc a) n cs \<Longrightarrow> bc \<le> a \<Longrightarrow> a \<le> n \<Longrightarrow>
   changes_ok bc n (push_line_change base_lines ed bc a ec b @ cs)"
  by (auto simp: push_line_change_def intro: changes_ok_mono)

definition pairs_match :: "string list \<Rightarrow> string list \<Rightarrow> (usize \<times> usize) list \<Rightarrow> bool" where
  "pairs_match xs ys ps \<longleftrightarrow>
     list_all (\<lambda>(a, b). a < length xs \<and> b < length ys \<and> xs ! a = ys ! b) ps"

lemma line_changes_loop_correct:
  assumes "lcs_chain bc ec ps" "pairs_match base_lines ed ps" "bc \<le> length base_lines" "ec \<le> length ed"
  shows "changes_ok bc (length base_lines) (line_changes_loop base_lines ed ps bc ec) \<and>
    changed_region_loop base_lines (length base_lines) (line_changes_loop base_lines ed ps bc ec) bc =
      concat (drop ec ed)"
  using assms
proof (induction base_lines ed ps bc ec rule: line_changes_loop.induct)
  case (1 base_lines ed bc ec)
  have "changes_ok bc (length base_lines)
      (push_line_change base_lines ed bc (length base_lines) ec (length ed) @ [])"
    using 1 by (intro push_line_change_ok) auto
  with push_line_change_region[of "length base_lines" "length base_lines" "[]" bc base_lines ed ec "length ed"] 1
  show ?case by (simp add: slice_to_end push_lines_def)
next
  case (2 base_lines ed a b ps bc ec)
  let ?n = "length base_lines" and ?cs = "line_changes_loop base_lines ed ps (a + 1) (b + 1)"
  have m: "a < ?n" "b < length ed" "base_lines ! a = ed ! b" "bc \<le> a" "ec \<le> b"
    and ps: "lcs_chain (a + 1) (b + 1) ps" "pairs_match base_lines ed ps"
    using "2.prems" by (simp_all add: pairs_match_def)
  have IH: "changes_ok (a + 1) ?n ?cs" "changed_region_loop base_lines ?n ?cs (a + 1) = concat (drop (b + 1) ed)"
    using "2.IH"[OF ps] m by simp_all
  have adv: "changed_region_loop base_lines ?n ?cs a = base_lines ! a @ concat (drop (b + 1) ed)"
    using region_advance[OF IH(1), of a base_lines] IH(2) m by (simp add: slice_Suc)
  have "drop ec ed = slice ed ec b @ ed ! b # drop (b + 1) ed"
    using m slice_append[of ec b "length ed" ed] by (simp add: slice_to_end Cons_nth_drop_Suc)
  with adv m push_line_change_region[of a ?n ?cs bc base_lines ed ec b] push_line_change_ok[of a ?n ?cs bc base_lines ed ec b]
    IH(1) changes_ok_mono[OF IH(1), of a]
  show ?case by simp
qed

lemma lcs_pairs_facts:
  assumes "lcs_pairs xs ys = Some ps"
  shows "lcs_chain 0 0 ps" "pairs_match xs ys ps"
  using assms lcs_walk_chain[of 0 0] lcs_walk_related[where eq = "(=)" and xs = xs and ys = ys]
  by (auto simp: lcs_pairs_def Let_def pairs_match_def list_all_iff split: option.splits if_splits)

lemma line_changes_correct:
  assumes "line_changes b e = Some cs"
  shows "changes_ok 0 (length (split_lines b)) cs"
    and "render_changed_region (split_lines b) 0 (length (split_lines b)) cs = e"
proof -
  from assms obtain ps where ps: "lcs_pairs (split_lines b) (split_lines e) = Some ps"
    and cs: "cs = line_changes_loop (split_lines b) (split_lines e) ps 0 0"
    by (auto simp: line_changes_def Let_def)
  have "concat (split_lines e) = e" by (simp add: split_lines_def)
  with line_changes_loop_correct[OF lcs_pairs_facts[OF ps]] cs
  show "changes_ok 0 (length (split_lines b)) cs"
    and "render_changed_region (split_lines b) 0 (length (split_lines b)) cs = e"
    by (simp_all add: render_changed_region_def)
qed

text \<open>C20: the line pairs of a diff are a longest common subsequence: they are in range, strictly
  increasing on both sides and pair equal lines, and no common subsequence of the two texts is
  longer.\<close>

theorem lcs_pairs_optimal:
  assumes "lcs_pairs xs ys = Some ps" "subseq zs xs" "subseq zs ys"
  shows "lcs_chain 0 0 ps \<and> pairs_match xs ys ps \<and> length zs \<le> length ps"
proof -
  from assms(1) obtain c where c: "c = (length xs + 1) * (length ys + 1)" and
    ps: "ps = lcs_walk (=) xs ys (flat_get (Suc (length ys)) (fill_table (flat_get (Suc (length ys)))
        (flat_put (Suc (length ys))) (=) xs ys (replicate c 0))) 0 0"
    by (auto simp: lcs_pairs_def Let_def checked_mul_def split: if_splits)
  have "flat_get (Suc (length ys)) (replicate c 0) a b = 0" if "a \<le> length xs" "b \<le> length ys" for a b
    using flat_index_less[of a "length xs" b "Suc (length ys)"] that unfolding c flat_get_def
    by (subst nth_replicate) simp_all
  then have "length ps = lcs_len (=) xs ys"
    unfolding ps using c by (intro flat.walk_of_filled_length) simp_all
  moreover have "length zs \<le> lcs_len (=) xs ys"
    using assms(2,3) by (rule lcs_len_upper) (simp add: list.rel_eq)
  ultimately show ?thesis using lcs_pairs_facts[OF assms(1)] by simp
qed

lemma lcs_pairs_small:
  assumes "(length xs + 1) * (length ys + 1) \<le> 16000000"
  shows "lcs_pairs xs ys =
    Some (lcs_walk (=) xs ys (flat_get (length ys + 1)
      (fill_table (flat_get (length ys + 1)) (flat_put (length ys + 1)) (=) xs ys
        (replicate ((length xs + 1) * (length ys + 1)) 0))) 0 0)"
  using assms by (simp add: lcs_pairs_def Let_def checked_mul_def MAX_DIFF_CELLS_def)

theorem lcs_pairs_optimal_witness:
  "lcs_chain 0 0 [(0, 1), (1 :: nat, 2 :: nat)]
   \<and> pairs_match [''a'', ''b'', ''d''] [''c'', ''a'', ''b''] [(0, 1), (1, 2)]
   \<and> length [''a'', ''b''] \<le> length [(0 :: nat, 1 :: nat), (1, 2)]"
proof (rule lcs_pairs_optimal)
  show "lcs_pairs [''a'', ''b'', ''d''] [''c'', ''a'', ''b''] = Some [(0, 1), (1, 2)]"
    by (subst lcs_pairs_small, simp, code_simp)
qed code_simp+

text \<open>C19: the recorded line changes are an exact patch: applied to the base they give the edited
  text, and their ranges lie in the base, in order, with at least one kept line between them (so no
  slice of the merge is out of bounds).\<close>

theorem line_changes_patch:
  assumes "line_changes base edited = Some changes"
  shows "render_changed_region (split_lines base) 0 (length (split_lines base)) changes = edited \<and>
    changes_ok 0 (length (split_lines base)) changes"
  using line_changes_correct[OF assms] by simp

theorem line_changes_patch_witness:
  "render_changed_region (split_lines (''a'' @ [LF] @ ''b'' @ [LF])) 0
     (length (split_lines (''a'' @ [LF] @ ''b'' @ [LF])))
     [\<lparr>lc_base_start = 1, lc_base_end = 2, lc_replacement = [''c'']\<rparr>] = ''a'' @ [LF] @ ''c'' \<and>
   changes_ok 0 (length (split_lines (''a'' @ [LF] @ ''b'' @ [LF])))
     [\<lparr>lc_base_start = 1, lc_base_end = 2, lc_replacement = [''c'']\<rparr>]"
proof (rule line_changes_patch)
  have "split_lines (''a'' @ [LF] @ ''b'' @ [LF]) = [''a'' @ [LF], ''b'' @ [LF]]"
    "split_lines (''a'' @ [LF] @ ''c'') = [''a'' @ [LF], ''c'']"
    by code_simp+
  moreover have "lcs_pairs [''a'' @ [LF], ''b'' @ [LF]] [''a'' @ [LF], ''c''] = Some [(0, 0)]"
    by (subst lcs_pairs_small, simp, code_simp)
  ultimately show "line_changes (''a'' @ [LF] @ ''b'' @ [LF]) (''a'' @ [LF] @ ''c'') =
      Some [\<lparr>lc_base_start = 1, lc_base_end = 2, lc_replacement = [''c'']\<rparr>]"
    by (simp add: line_changes_def push_line_change_def slice_def)
qed


section \<open>Merging compatible changes\<close>

text \<open>Two change lists are compatible when a change of one side and a change of the other are the
  same change or leave a kept base line between them. The union of compatible lists in base order,
  with a change that both sides made counted once:\<close>

definition changes_compatible :: "line_change list \<Rightarrow> line_change list \<Rightarrow> bool" where
  "changes_compatible ls rs \<longleftrightarrow>
     list_all (\<lambda>l. list_all (\<lambda>r. l = r \<or> lc_base_end l < lc_base_start r
       \<or> lc_base_end r < lc_base_start l) rs) ls"

fun interleave :: "line_change list \<Rightarrow> line_change list \<Rightarrow> line_change list" where
  "interleave [] rs = rs"
| "interleave (l # ls) [] = l # ls"
| "interleave (l # ls) (r # rs) =
     (if l = r then l # interleave ls rs
      else if lc_base_start l < lc_base_start r then l # interleave ls (r # rs)
      else r # interleave (l # ls) rs)"

lemma interleave_Nil2 [simp]: "interleave ls [] = ls"
  by (cases ls) simp_all

lemma interleave_same: "interleave cs cs = cs"
  by (induction cs) simp_all

lemma absorb_none: "cs = [] \<or> e < lc_base_start (hd cs) \<Longrightarrow> absorb_changes cs e = ([], cs, e)"
  by (cases cs) auto

lemma absorb_one:
  "lc_base_start c \<le> e \<Longrightarrow> e \<le> lc_base_end c \<Longrightarrow> changes_ok (Suc (lc_base_end c)) n cs \<Longrightarrow>
   absorb_changes (c # cs) e = ([c], cs, lc_base_end c)"
  using absorb_none[of cs "lc_base_end c"] changes_ok_hd[of "Suc (lc_base_end c)" n cs]
  by (auto simp: max_def)

lemma grow_none:
  "ls = [] \<or> e < lc_base_start (hd ls) \<Longrightarrow> rs = [] \<or> e < lc_base_start (hd rs) \<Longrightarrow>
   grow_group ls rs e = ([], ls, [], rs, e)"
  by (subst grow_group.simps) (simp add: absorb_none)

text \<open>The three ways a group of compatible changes forms.\<close>

lemma grow_local:
  assumes "changes_ok lo n (l # ls)" "rs = [] \<or> lc_base_end l < lc_base_start (hd rs)"
  shows "grow_group (l # ls) rs (lc_base_start l) = ([l], ls, [], rs, lc_base_end l)"
proof -
  have "changes_ok (Suc (lc_base_end l)) n ls" using assms(1) by simp
  with changes_ok_hd[OF this] have "grow_group ls rs (lc_base_end l) = ([], ls, [], rs, lc_base_end l)"
    using assms(2) by (intro grow_none) auto
  with assms absorb_one[of l "lc_base_start l" n ls] absorb_none[OF assms(2)] show ?thesis
    by (subst grow_group.simps) simp
qed

lemma grow_remote:
  assumes "changes_ok lo n (r # rs)" "ls = [] \<or> lc_base_end r < lc_base_start (hd ls)"
  shows "grow_group ls (r # rs) (lc_base_start r) = ([], ls, [r], rs, lc_base_end r)"
proof -
  have "changes_ok (Suc (lc_base_end r)) n rs" using assms(1) by simp
  with changes_ok_hd[OF this] have "grow_group ls rs (lc_base_end r) = ([], ls, [], rs, lc_base_end r)"
    using assms(2) by (intro grow_none) auto
  moreover have "absorb_changes ls (lc_base_start r) = ([], ls, lc_base_start r)"
    using assms by (intro absorb_none) auto
  ultimately show ?thesis
    using assms absorb_one[of r "lc_base_start r" n rs] by (subst grow_group.simps) simp
qed

lemma grow_same:
  assumes "changes_ok lo n (c # ls)" "changes_ok lo n (c # rs)"
  shows "grow_group (c # ls) (c # rs) (lc_base_start c) = ([c], ls, [c], rs, lc_base_end c)"
proof -
  have ok: "changes_ok (Suc (lc_base_end c)) n ls" "changes_ok (Suc (lc_base_end c)) n rs"
    using assms by simp_all
  have "grow_group ls rs (lc_base_end c) = ([], ls, [], rs, lc_base_end c)"
    using changes_ok_hd[OF ok(1)] changes_ok_hd[OF ok(2)] by (intro grow_none) auto
  with assms ok absorb_one[of c "lc_base_start c" n ls] absorb_one[of c "lc_base_end c" n rs]
  show ?thesis by (subst grow_group.simps) simp
qed

lemma region_single:
  "render_changed_region base_lines (lc_base_start c) (lc_base_end c) [c] = concat (lc_replacement c)"
  by (simp add: render_changed_region_def push_lines_def)

lemma merge_loop_step:
  assumes "ls \<noteq> [] \<or> rs \<noteq> []" "grow_group ls rs (next_start ls rs) = (lg, ls', rg, rs', e)"
  shows "merge_loop base_lines ls rs cursor =
    concat (slice base_lines cursor (next_start ls rs))
    @ merge_group base_lines (next_start ls rs) e lg rg @ merge_loop base_lines ls' rs' e"
  using assms by (subst merge_loop.simps) (auto simp: push_lines_def Let_def)

lemma merge_loop_compatible:
  assumes "changes_ok lo (length base_lines) ls" "changes_ok lo (length base_lines) rs"
    and "changes_compatible ls rs"
  shows "merge_loop base_lines ls rs cursor =
    changed_region_loop base_lines (length base_lines) (interleave ls rs) cursor"
  using assms
proof (induction ls rs arbitrary: lo cursor rule: interleave.induct)
  case (1 rs)
  then show ?case
  proof (induction rs arbitrary: lo cursor)
    case Nil
    then show ?case by (subst merge_loop.simps) (simp add: push_lines_def slice_to_end)
  next
    case (Cons r rs)
    have "changes_ok (Suc (lc_base_end r)) (length base_lines) rs" using Cons.prems by simp
    from Cons.IH[OF _ this] Cons.prems
      merge_loop_step[of "[]" "r # rs"] grow_remote[OF Cons.prems(2), of "[]"]
    show ?case
      by (simp add: merge_group_def Let_def region_single push_lines_def changes_compatible_def)
  qed
next
  case (2 l ls)
  have "merge_loop base_lines ls [] cursor =
      changed_region_loop base_lines (length base_lines) ls cursor"
    if "changes_ok lo (length base_lines) ls" for ls lo cursor
    using that
  proof (induction ls arbitrary: lo cursor)
    case Nil
    then show ?case by (subst merge_loop.simps) (simp add: push_lines_def slice_to_end)
  next
    case (Cons l ls)
    have "changes_ok (Suc (lc_base_end l)) (length base_lines) ls" using Cons.prems by simp
    from Cons.IH[OF this] Cons.prems
      merge_loop_step[of "l # ls" "[]"] grow_local[OF Cons.prems, of "[]"]
    show ?case by (simp add: merge_group_def Let_def region_single push_lines_def)
  qed
  from this[OF "2.prems"(1)] show ?case by simp
next
  case (3 l ls r rs)
  let ?n = "length base_lines"
  have ok: "lc_base_start l \<le> lc_base_end l" "lc_base_start r \<le> lc_base_end r"
    "changes_ok (Suc (lc_base_end l)) ?n ls" "changes_ok (Suc (lc_base_end r)) ?n rs"
    using "3.prems" by simp_all
  consider (same) "l = r" | (local) "l \<noteq> r" "lc_base_end l < lc_base_start r"
    | (remote) "l \<noteq> r" "lc_base_end r < lc_base_start l"
    using "3.prems"(3) by (auto simp: changes_compatible_def)
  then show ?case
  proof cases
    case same
    have g: "grow_group (l # ls) (r # rs) (next_start (l # ls) (r # rs)) =
        ([l], ls, [l], rs, lc_base_end l)"
      using grow_same[of lo ?n l ls rs] "3.prems" same by simp
    have c: "changes_compatible ls rs" using "3.prems"(3) by (auto simp: changes_compatible_def list_all_iff)
    from merge_loop_step[OF _ g] "3.IH"(1)[OF same ok(3) _ c] ok(4) same show ?thesis
      by (simp add: merge_group_def Let_def region_single push_lines_def)
  next
    case local
    have g: "grow_group (l # ls) (r # rs) (next_start (l # ls) (r # rs)) =
        ([l], ls, [], r # rs, lc_base_end l)"
      using grow_local[of lo ?n l ls "r # rs"] "3.prems" local ok by (simp add: min_def)
    have c: "changes_compatible ls (r # rs)" using "3.prems"(3) by (auto simp: changes_compatible_def)
    have "changes_ok (Suc (lc_base_end l)) ?n (r # rs)" using "3.prems"(2) local by simp
    with merge_loop_step[OF _ g] "3.IH"(2)[OF local(1) _ ok(3) _ c] local ok show ?thesis
      by (simp add: merge_group_def Let_def region_single push_lines_def min_def)
  next
    case remote
    have g: "grow_group (l # ls) (r # rs) (next_start (l # ls) (r # rs)) =
        ([], l # ls, [r], rs, lc_base_end r)"
      using grow_remote[of lo ?n r rs "l # ls"] "3.prems" remote ok by (simp add: min_def)
    have c: "changes_compatible (l # ls) rs" using "3.prems"(3)
      by (auto simp: changes_compatible_def list_all_iff)
    have "changes_ok (Suc (lc_base_end r)) ?n (l # ls)" using "3.prems"(1) remote by simp
    with merge_loop_step[OF _ g] "3.IH"(3)[OF remote(1) _ _ ok(4) c] remote ok show ?thesis
      by (simp add: merge_group_def Let_def region_single push_lines_def min_def)
  qed
qed

text \<open>C13: the three-way merge of compatible edits applies exactly the changes of both sides: the
  merged text is the base with the union of the two change lists applied, a change made on both
  sides counted once.\<close>

theorem merge_applies_both:
  assumes "line_changes base local = Some ls" "line_changes base remote = Some rs"
    and "changes_compatible ls rs"
  shows "render_conflict_marker_body_with_base base local remote =
    render_changed_region (split_lines base) 0 (length (split_lines base)) (interleave ls rs)"
  using merge_loop_compatible[OF line_changes_correct(1)[OF assms(1)]
      line_changes_correct(1)[OF assms(2)] assms(3)] assms
  by (simp add: render_conflict_marker_body_with_base_def merge_line_changes_def
      render_changed_region_def)

lemma line_changes_small:
  assumes "(length (split_lines b) + 1) * (length (split_lines e) + 1) \<le> 16000000"
  shows "line_changes b e =
    Some (line_changes_loop (split_lines b) (split_lines e) (lcs_walk (=) (split_lines b) (split_lines e)
      (flat_get (length (split_lines e) + 1)
      (fill_table (flat_get (length (split_lines e) + 1)) (flat_put (length (split_lines e) + 1)) (=)
        (split_lines b) (split_lines e)
        (replicate ((length (split_lines b) + 1) * (length (split_lines e) + 1)) 0))) 0 0) 0 0)"
  by (simp only: line_changes_def Let_def lcs_pairs_small[OF assms] option.map)

theorem merge_applies_both_witness:
  "render_conflict_marker_body_with_base (''a'' @ [LF] @ ''b'' @ [LF] @ ''c'' @ [LF])
       (''x'' @ [LF] @ ''b'' @ [LF] @ ''c'' @ [LF]) (''a'' @ [LF] @ ''b'' @ [LF] @ ''y'' @ [LF]) =
    render_changed_region (split_lines (''a'' @ [LF] @ ''b'' @ [LF] @ ''c'' @ [LF])) 0
      (length (split_lines (''a'' @ [LF] @ ''b'' @ [LF] @ ''c'' @ [LF])))
      (interleave [\<lparr>lc_base_start = 0, lc_base_end = 1, lc_replacement = [''x'' @ [LF]]\<rparr>]
         [\<lparr>lc_base_start = 2, lc_base_end = 3, lc_replacement = [''y'' @ [LF]]\<rparr>])"
proof (rule merge_applies_both)
  show "line_changes (''a'' @ [LF] @ ''b'' @ [LF] @ ''c'' @ [LF]) (''x'' @ [LF] @ ''b'' @ [LF] @ ''c'' @ [LF]) =
      Some [\<lparr>lc_base_start = 0, lc_base_end = 1, lc_replacement = [''x'' @ [LF]]\<rparr>]"
    by (subst line_changes_small, simp add: split_lines_def LF_def, code_simp)
  show "line_changes (''a'' @ [LF] @ ''b'' @ [LF] @ ''c'' @ [LF]) (''a'' @ [LF] @ ''b'' @ [LF] @ ''y'' @ [LF]) =
      Some [\<lparr>lc_base_start = 2, lc_base_end = 3, lc_replacement = [''y'' @ [LF]]\<rparr>]"
    by (subst line_changes_small, simp add: split_lines_def LF_def, code_simp)
qed code_simp

lemma line_changes_same: "line_changes b b = Some cs \<Longrightarrow> cs = []"
proof -
  assume "line_changes b b = Some cs"
  then obtain len where cs: "cs = line_changes_loop (split_lines b) (split_lines b)
      (lcs_walk (=) (split_lines b) (split_lines b) len 0 0) 0 0"
    by (auto simp: line_changes_def lcs_pairs_def Let_def split: option.splits if_splits)
  have "line_changes_loop xs xs (map (\<lambda>k. (k, k)) [i..<length xs]) i i = []"
    if "i \<le> length xs" for i and xs :: "string list"
    using that
  proof (induction "length xs - i" arbitrary: i)
    case 0
    then show ?case by (simp add: push_line_change_def)
  next
    case (Suc m)
    then have "i < length xs" "m = length xs - Suc i" by simp_all
    with Suc.hyps(1)[of "Suc i"] show ?case by (simp add: upt_conv_Cons push_line_change_def)
  qed
  from this[of 0 "split_lines b"] cs show "cs = []"
    using lcs_walk_diagonal[of "split_lines b" "(=)" "split_lines b" len 0] by simp
qed

text \<open>A side that did not change loses to the side that did: when the local text is the base,
  the merge is the remote text, and conversely, with no conflict markers added.\<close>

theorem merge_one_sided:
  assumes "line_changes base base = Some cs" "line_changes base edited = Some es"
  shows "render_conflict_marker_body_with_base base base edited = edited \<and>
    render_conflict_marker_body_with_base base edited base = edited"
proof -
  have "cs = []" by (rule line_changes_same[OF assms(1)])
  with merge_loop_compatible[OF _ line_changes_correct(1)[OF assms(2)], of "[]" 0]
    merge_loop_compatible[OF line_changes_correct(1)[OF assms(2)], of "[]" 0]
    line_changes_correct(2)[OF assms(2)] assms
  show ?thesis
    by (simp add: render_conflict_marker_body_with_base_def merge_line_changes_def
        render_changed_region_def changes_compatible_def list_all_iff)
qed

theorem merge_one_sided_witness:
  "render_conflict_marker_body_with_base (''a'' @ [LF]) (''a'' @ [LF]) (''b'' @ [LF]) = ''b'' @ [LF] \<and>
   render_conflict_marker_body_with_base (''a'' @ [LF]) (''b'' @ [LF]) (''a'' @ [LF]) = ''b'' @ [LF]"
proof (rule merge_one_sided)
  show "line_changes (''a'' @ [LF]) (''a'' @ [LF]) = Some []"
    by (subst line_changes_small, simp add: split_lines_def LF_def, code_simp)
  show "line_changes (''a'' @ [LF]) (''b'' @ [LF]) =
      Some [\<lparr>lc_base_start = 0, lc_base_end = 1, lc_replacement = [''b'' @ [LF]]\<rparr>]"
    by (subst line_changes_small, simp add: split_lines_def LF_def, code_simp)
qed

text \<open>Two sides with the same text merge to that text, whatever the base and its size.\<close>

theorem merge_identical_edits: "render_conflict_marker_body_with_base base edited edited = edited"
proof (cases "line_changes base edited")
  case None
  then show ?thesis
    by (simp add: render_conflict_marker_body_with_base_def render_conflict_marker_body_def
        render_conflict_hunk_def)
next
  case (Some cs)
  have ok: "changes_ok lo n cs \<Longrightarrow> changes_compatible cs cs" for lo n
  proof (induction cs arbitrary: lo)
    case (Cons c cs)
    then have "changes_compatible cs cs" "changes_ok (Suc (lc_base_end c)) n cs" by auto
    moreover have "changes_ok k n ds \<Longrightarrow> d \<in> set ds \<Longrightarrow> k \<le> lc_base_start d" for k ds d
      by (induction ds arbitrary: k) fastforce+
    ultimately have "\<forall>d\<in>set cs. lc_base_end c < lc_base_start d" by fastforce
    with \<open>changes_compatible cs cs\<close> show ?case by (auto simp: changes_compatible_def list_all_iff)
  qed (simp add: changes_compatible_def)
  from merge_loop_compatible[OF line_changes_correct(1)[OF Some] line_changes_correct(1)[OF Some]
      ok[OF line_changes_correct(1)[OF Some]]] line_changes_correct(2)[OF Some] Some
  show ?thesis
    by (simp add: render_conflict_marker_body_with_base_def merge_line_changes_def
        render_changed_region_def interleave_same)
qed

end
