(* ===== verification/Sync.thy ===== *)
theory Sync
  imports Conflict
begin

text \<open>
  \<open>locality-core/src/sync.rs\<close>, \<open>freshness.rs\<close>, \<open>hydration.rs\<close>, \<open>pull.rs\<close> and \<open>search.rs\<close>: the
  three-tree classification, the freshness tiers and sync jobs, and the hydration, polling and search
  policies. The lemmas show that no decision overwrites an unsynced side, that urgency is monotone in
  recency, and which jobs share a deduplication key.
\<close>

section \<open>Three-tree classification\<close>

record three_tree_snapshot =
  tt_remote :: "tree_entry option"
  tt_local :: "tree_entry option"
  tt_synced :: "tree_entry option"

datatype sync_decision =
    SyncNoop
  | SyncPull remote_id
  | SyncPush remote_id
  | SyncAutoMerge remote_id
  | SyncConflict remote_id
  | DeleteLocalProjection remote_id

definition changed_from_synced :: "tree_entry option \<Rightarrow> tree_entry option \<Rightarrow> bool" where
  "changed_from_synced current synced =
     (case (current, synced) of
        (None, None) \<Rightarrow> False
      | (Some _, None) \<Rightarrow> True
      | (None, Some _) \<Rightarrow> True
      | (Some c, Some s) \<Rightarrow> differs_from c s)"



definition option_or :: "'a option \<Rightarrow> 'a option \<Rightarrow> 'a option" where
  "option_or a b = (case a of Some _ \<Rightarrow> a | None \<Rightarrow> b)"

definition snapshot_remote_id :: "three_tree_snapshot \<Rightarrow> remote_id option" where
  "snapshot_remote_id s =
     map_option te_remote_id (option_or (option_or (tt_remote s) (tt_local s)) (tt_synced s))"


definition classify_changes :: "bool \<Rightarrow> bool \<Rightarrow> remote_id \<Rightarrow> sync_decision" where
  "classify_changes remote local rid =
     (case (remote, local) of
        (False, False) \<Rightarrow> SyncNoop
      | (True, False) \<Rightarrow> SyncPull rid
      | (False, True) \<Rightarrow> SyncPush rid
      | (True, True) \<Rightarrow> SyncConflict rid)"

definition classify_colliding_edits ::
    "remote_id \<Rightarrow> block_change_set \<Rightarrow> block_change_set \<Rightarrow> sync_decision" where
  "classify_colliding_edits rid remote_changes local_changes =
     (if bcs_is_disjoint remote_changes local_changes then SyncAutoMerge rid else SyncConflict rid)"

lemma changed_from_synced_fingerprint:
  "changed_from_synced c s \<longleftrightarrow> map_option fingerprint c \<noteq> map_option fingerprint s"
  by (auto simp: changed_from_synced_def differs_from_def split: option.splits)

lemma snapshot_remote_id_None:
  "snapshot_remote_id s = None \<longleftrightarrow> tt_remote s = None \<and> tt_local s = None \<and> tt_synced s = None"
  by (auto simp: snapshot_remote_id_def option_or_def split: option.splits)






section \<open>Freshness\<close>

datatype remote_version = RemoteVersion (remote_version_str: string)

record remote_observation =
  ro_mount_id :: mount_id
  ro_remote_id :: remote_id
  ro_kind :: entity_kind
  ro_title :: string
  ro_parent_remote_id :: "remote_id option"
  ro_projected_path :: path
  ro_remote_version :: "remote_version option"
  ro_deleted :: bool
  ro_raw_metadata_json :: string

definition observation_new ::
    "mount_id \<Rightarrow> remote_id \<Rightarrow> entity_kind \<Rightarrow> string \<Rightarrow> path \<Rightarrow> remote_observation" where
  "observation_new mount rid k t p =
     \<lparr>ro_mount_id = mount, ro_remote_id = rid, ro_kind = k, ro_title = t,
      ro_parent_remote_id = None, ro_projected_path = p, ro_remote_version = None,
      ro_deleted = False, ro_raw_metadata_json = ''{}''\<rparr>"

definition with_parent :: "remote_observation \<Rightarrow> remote_id \<Rightarrow> remote_observation" where
  "with_parent ob parent = ob\<lparr>ro_parent_remote_id := Some parent\<rparr>"

definition with_remote_version :: "remote_observation \<Rightarrow> remote_version \<Rightarrow> remote_observation" where
  "with_remote_version ob version = ob\<lparr>ro_remote_version := Some version\<rparr>"

definition ro_set_deleted :: "remote_observation \<Rightarrow> bool \<Rightarrow> remote_observation" where
  "ro_set_deleted ob d = ob\<lparr>ro_deleted := d\<rparr>"

definition with_raw_metadata_json :: "remote_observation \<Rightarrow> string \<Rightarrow> remote_observation" where
  "with_raw_metadata_json ob json = ob\<lparr>ro_raw_metadata_json := json\<rparr>"

datatype freshness_tier = Immediate | Hot | Warm | Cold | Dormant

definition tier_as_str :: "freshness_tier \<Rightarrow> string" where
  "tier_as_str t =
     (case t of Immediate \<Rightarrow> ''immediate'' | Hot \<Rightarrow> ''hot'' | Warm \<Rightarrow> ''warm''
      | Cold \<Rightarrow> ''cold'' | Dormant \<Rightarrow> ''dormant'')"

definition tier_priority :: "freshness_tier \<Rightarrow> 8 word" where
  "tier_priority t = (case t of Immediate \<Rightarrow> 0 | Hot \<Rightarrow> 1 | Warm \<Rightarrow> 2 | Cold \<Rightarrow> 3 | Dormant \<Rightarrow> 4)"

definition is_more_urgent_than :: "freshness_tier \<Rightarrow> freshness_tier \<Rightarrow> bool" where
  "is_more_urgent_than t other \<longleftrightarrow> tier_priority t < tier_priority other"

text \<open>The derived order of the tiers is the order of their declaration, the one of the
  priorities.\<close>

instantiation freshness_tier :: linorder
begin

definition less_eq_freshness_tier :: "freshness_tier \<Rightarrow> freshness_tier \<Rightarrow> bool" where
  "less_eq_freshness_tier a b \<longleftrightarrow> tier_priority a \<le> tier_priority b"

definition less_freshness_tier :: "freshness_tier \<Rightarrow> freshness_tier \<Rightarrow> bool" where
  "less_freshness_tier a b \<longleftrightarrow> tier_priority a < tier_priority b"

instance
proof
  fix x y :: freshness_tier
  show "x \<le> y \<Longrightarrow> y \<le> x \<Longrightarrow> x = y"
    by (cases x; cases y) (simp_all add: less_eq_freshness_tier_def tier_priority_def word_le_nat_alt)
qed (auto simp: less_eq_freshness_tier_def less_freshness_tier_def)

end

record freshness_policy =
  hot_after_activity_ms :: u64
  warm_after_activity_ms :: u64
  cold_after_check_ms :: u64
  dormant_subtree_depth :: usize

definition freshness_policy_default :: freshness_policy where
  "freshness_policy_default =
     \<lparr>hot_after_activity_ms = 5 * 60 * 1000, warm_after_activity_ms = 60 * 60 * 1000,
      cold_after_check_ms = 24 * 60 * 60 * 1000, dormant_subtree_depth = 4\<rparr>"

record freshness_activity =
  fa_hydration :: "hydration_state option"
  local_pending :: bool
  remote_hint_pending :: bool
  last_opened_age_ms :: "u64 option"
  last_local_change_age_ms :: "u64 option"
  last_checked_age_ms :: "u64 option"
  subtree_depth :: usize

definition for_hydration :: "hydration_state \<Rightarrow> freshness_activity" where
  "for_hydration h =
     \<lparr>fa_hydration = Some h, local_pending = False, remote_hint_pending = False,
      last_opened_age_ms = None, last_local_change_age_ms = None, last_checked_age_ms = None,
      subtree_depth = 0\<rparr>"

definition newest_age :: "u64 option \<Rightarrow> u64 option \<Rightarrow> u64 option" where
  "newest_age left right =
     (case (left, right) of
        (Some l, Some r) \<Rightarrow> Some (min l r)
      | (Some l, None) \<Rightarrow> Some l
      | (None, Some r) \<Rightarrow> Some r
      | (None, None) \<Rightarrow> None)"

definition idle_tier :: "freshness_activity \<Rightarrow> freshness_policy \<Rightarrow> freshness_tier" where
  "idle_tier a policy =
     (if fa_hydration a = Some Hydrated then Warm
      else if dormant_subtree_depth policy \<le> subtree_depth a
            \<and> (case last_checked_age_ms a of None \<Rightarrow> False | Some age \<Rightarrow> cold_after_check_ms policy < age)
      then Dormant
      else Cold)"

definition recommended_tier :: "freshness_activity \<Rightarrow> freshness_policy \<Rightarrow> freshness_tier" where
  "recommended_tier a policy =
     (if local_pending a \<or> remote_hint_pending a then Hot
      else case newest_age (last_opened_age_ms a) (last_local_change_age_ms a) of
             None \<Rightarrow> idle_tier a policy
           | Some age \<Rightarrow>
               if age \<le> hot_after_activity_ms policy then Hot
               else if age \<le> warm_after_activity_ms policy then Warm
               else idle_tier a policy)"

definition score :: "freshness_activity \<Rightarrow> freshness_policy \<Rightarrow> 16 word" where
  "score a policy =
     (case recommended_tier a policy of
        Immediate \<Rightarrow> 100 | Hot \<Rightarrow> 80 | Warm \<Rightarrow> 50 | Cold \<Rightarrow> 20 | Dormant \<Rightarrow> 0)"

record freshness_decision =
  fd_tier :: freshness_tier
  activity_score :: "16 word"

definition from_activity :: "freshness_activity \<Rightarrow> freshness_policy \<Rightarrow> freshness_decision" where
  "from_activity a policy = \<lparr>fd_tier = recommended_tier a policy, activity_score = score a policy\<rparr>"

datatype change_hint_kind =
    BackgroundPoll | DirectoryListed | ExplicitRefresh | FileOpened | LocalEdited
  | PushRequested | RemoteMaybeChanged | UrlLocated | Webhook

definition hint_tier :: "change_hint_kind \<Rightarrow> freshness_tier" where
  "hint_tier k =
     (case k of
        PushRequested \<Rightarrow> Immediate
      | FileOpened \<Rightarrow> Hot | LocalEdited \<Rightarrow> Hot | RemoteMaybeChanged \<Rightarrow> Hot | UrlLocated \<Rightarrow> Hot
      | Webhook \<Rightarrow> Hot
      | DirectoryListed \<Rightarrow> Warm | ExplicitRefresh \<Rightarrow> Warm
      | BackgroundPoll \<Rightarrow> Cold)"

record change_hint =
  ch_mount_id :: mount_id
  ch_remote_id :: "remote_id option"
  ch_kind :: change_hint_kind
  ch_observed_at :: string

datatype working_copy_state = Clean | RemoteChanged | LocalPending | Diverged

definition classify_working_copy :: "bool \<Rightarrow> bool \<Rightarrow> working_copy_state" where
  "classify_working_copy local remote =
     (case (local, remote) of
        (False, False) \<Rightarrow> Clean | (False, True) \<Rightarrow> RemoteChanged
      | (True, False) \<Rightarrow> LocalPending | (True, True) \<Rightarrow> Diverged)"

section \<open>Sync jobs\<close>

datatype sync_job_kind =
    ObserveEntity | EnumerateChildren | HydrateEntity | FetchAsset | PushPreflight | ExplainRemoteChange

datatype sync_job_cost = Cheap | Medium | Expensive

definition estimated_cost :: "sync_job_kind \<Rightarrow> sync_job_cost" where
  "estimated_cost k =
     (case k of
        ObserveEntity \<Rightarrow> Cheap | PushPreflight \<Rightarrow> Cheap
      | EnumerateChildren \<Rightarrow> Medium | ExplainRemoteChange \<Rightarrow> Medium
      | HydrateEntity \<Rightarrow> Expensive | FetchAsset \<Rightarrow> Expensive)"

definition budget_units :: "sync_job_cost \<Rightarrow> 16 word" where
  "budget_units c = (case c of Cheap \<Rightarrow> 1 | Medium \<Rightarrow> 5 | Expensive \<Rightarrow> 20)"

text \<open>The derived \<open>Debug\<close> of the fieldless enum writes the name of the variant.\<close>

definition job_kind_debug :: "sync_job_kind \<Rightarrow> string" where
  "job_kind_debug k =
     (case k of
        ObserveEntity \<Rightarrow> ''ObserveEntity'' | EnumerateChildren \<Rightarrow> ''EnumerateChildren''
      | HydrateEntity \<Rightarrow> ''HydrateEntity'' | FetchAsset \<Rightarrow> ''FetchAsset''
      | PushPreflight \<Rightarrow> ''PushPreflight'' | ExplainRemoteChange \<Rightarrow> ''ExplainRemoteChange'')"

record sync_job =
  sj_mount_id :: mount_id
  sj_remote_id :: "remote_id option"
  sj_kind :: sync_job_kind
  sj_tier :: freshness_tier
  sj_reason :: change_hint_kind
  sj_estimated_cost :: sync_job_cost
  sj_next_eligible_at :: "string option"

definition sync_job_new ::
    "mount_id \<Rightarrow> remote_id option \<Rightarrow> sync_job_kind \<Rightarrow> change_hint_kind \<Rightarrow> sync_job" where
  "sync_job_new mount rid k r =
     \<lparr>sj_mount_id = mount, sj_remote_id = rid, sj_kind = k, sj_tier = hint_tier r, sj_reason = r,
      sj_estimated_cost = estimated_cost k, sj_next_eligible_at = None\<rparr>"

definition with_tier :: "sync_job \<Rightarrow> freshness_tier \<Rightarrow> sync_job" where
  "with_tier j t = j\<lparr>sj_tier := t\<rparr>"

definition job_next_eligible_at :: "sync_job \<Rightarrow> string \<Rightarrow> sync_job" where
  "job_next_eligible_at j at = j\<lparr>sj_next_eligible_at := Some at\<rparr>"

definition dedupe_key :: "sync_job \<Rightarrow> string" where
  "dedupe_key j =
     mount_id_str (sj_mount_id j) @ '':''
     @ (case sj_remote_id j of None \<Rightarrow> ''-'' | Some rid \<Rightarrow> remote_id_str rid) @ '':''
     @ job_kind_debug (sj_kind j)"

text \<open>One activity is at least as recent as another: every signal of the other is present here at
  an age no greater, and the entity is no deeper and not checked longer ago. A missing check age means
  the entity was never checked, which never makes it dormant.\<close>

definition age_le :: "u64 option \<Rightarrow> u64 option \<Rightarrow> bool" where
  "age_le x y = (case y of None \<Rightarrow> True | Some v \<Rightarrow> (case x of None \<Rightarrow> False | Some u \<Rightarrow> u \<le> v))"

definition checked_le :: "u64 option \<Rightarrow> u64 option \<Rightarrow> bool" where
  "checked_le x y = (case x of None \<Rightarrow> True | Some u \<Rightarrow> (case y of None \<Rightarrow> False | Some v \<Rightarrow> u \<le> v))"

definition at_least_as_recent :: "freshness_activity \<Rightarrow> freshness_activity \<Rightarrow> bool" where
  "at_least_as_recent a b \<longleftrightarrow>
     (local_pending b \<or> remote_hint_pending b \<longrightarrow> local_pending a \<or> remote_hint_pending a)
     \<and> age_le (last_opened_age_ms a) (last_opened_age_ms b)
     \<and> age_le (last_local_change_age_ms a) (last_local_change_age_ms b)
     \<and> (fa_hydration b = Some Hydrated \<longrightarrow> fa_hydration a = Some Hydrated)
     \<and> subtree_depth a \<le> subtree_depth b
     \<and> checked_le (last_checked_age_ms a) (last_checked_age_ms b)"

lemma newest_age_le:
  "age_le a c \<Longrightarrow> age_le b d \<Longrightarrow> age_le (newest_age a b) (newest_age c d)"
  by (auto simp: age_le_def newest_age_def min_le_iff_disj split: option.splits)

lemma tier_order [simp]:
  "Hot \<le> t \<longleftrightarrow> t \<noteq> Immediate" "Warm \<le> t \<longleftrightarrow> t \<noteq> Immediate \<and> t \<noteq> Hot"
  "Cold \<le> t \<longleftrightarrow> t = Cold \<or> t = Dormant" "t \<le> Dormant"
  "Dormant \<le> t \<longleftrightarrow> t = Dormant"
  by (cases t; simp add: less_eq_freshness_tier_def tier_priority_def word_le_nat_alt)+

lemma idle_tier_cases: "idle_tier a p = Warm \<or> idle_tier a p = Cold \<or> idle_tier a p = Dormant"
  by (simp add: idle_tier_def)

lemma recommended_not_immediate: "recommended_tier a p \<noteq> Immediate"
  using idle_tier_cases[of a p] by (auto simp: recommended_tier_def split: option.splits)

lemma idle_tier_mono:
  assumes "at_least_as_recent a b"
  shows "idle_tier a p \<le> idle_tier b p"
  using assms
  by (auto simp: idle_tier_def at_least_as_recent_def checked_le_def split: option.splits)

lemma recommended_tier_mono:
  assumes rec: "at_least_as_recent a b"
  shows "recommended_tier a p \<le> recommended_tier b p"
proof (cases "local_pending b \<or> remote_hint_pending b \<or> local_pending a \<or> remote_hint_pending a")
  case True
  with rec have "recommended_tier a p = Hot" by (auto simp: recommended_tier_def at_least_as_recent_def)
  then show ?thesis using recommended_not_immediate[of b p] by simp
next
  case False
  let ?na = "newest_age (last_opened_age_ms a) (last_local_change_age_ms a)"
    and ?nb = "newest_age (last_opened_age_ms b) (last_local_change_age_ms b)"
  have age: "age_le ?na ?nb" using rec by (auto simp: at_least_as_recent_def intro: newest_age_le)
  have idle: "idle_tier a p \<le> idle_tier b p" by (rule idle_tier_mono[OF rec])
  have w: "idle_tier b p \<noteq> Immediate" "idle_tier b p \<noteq> Hot" using idle_tier_cases[of b p] by auto
  show ?thesis
    using False age idle w
    by (auto simp: recommended_tier_def age_le_def split: option.splits if_splits)
qed

lemma score_antimono:
  assumes "recommended_tier a p \<le> recommended_tier b p"
  shows "score b p \<le> score a p"
  using assms recommended_not_immediate[of a p] recommended_not_immediate[of b p]
  by (cases "recommended_tier a p"; cases "recommended_tier b p")
    (simp_all add: score_def word_le_nat_alt)

text \<open>Freshness is monotone in recency. An entity whose activity is at least as recent as
  another's gets a tier at least as urgent and a score at least as high, under every policy.\<close>

theorem freshness_monotone:
  assumes "at_least_as_recent a b"
  shows "recommended_tier a policy \<le> recommended_tier b policy \<and> score b policy \<le> score a policy"
  using recommended_tier_mono[OF assms] score_antimono by blast

theorem freshness_monotone_witness:
  "recommended_tier ((for_hydration Stub)\<lparr>last_opened_age_ms := Some 1000\<rparr>) freshness_policy_default
     \<le> recommended_tier (for_hydration Stub) freshness_policy_default"
  by (rule freshness_monotone[THEN conjunct1])
    (simp add: at_least_as_recent_def for_hydration_def age_le_def checked_le_def)

lemma colon_split:
  assumes "a @ CHR '':'' # x = b @ CHR '':'' # y" "CHR '':'' \<notin> set a" "CHR '':'' \<notin> set b"
  shows "a = b \<and> x = y"
  using assms by (induction a arbitrary: b) (auto simp: append_eq_Cons_conv Cons_eq_append_conv)

lemma colon_split_rev:
  assumes "x @ CHR '':'' # a = y @ CHR '':'' # b" "CHR '':'' \<notin> set a" "CHR '':'' \<notin> set b"
  shows "x = y \<and> a = b"
  using colon_split[of "rev a" "rev x" "rev b" "rev y"] assms
  by (metis append.assoc append_Cons append_Nil rev.simps(2) rev_append rev_is_rev_conv rev_rev_ident set_rev)

lemma job_kind_debug_colon: "CHR '':'' \<notin> set (job_kind_debug k)"
  by (cases k) (simp_all add: job_kind_debug_def)

lemma job_kind_debug_inj: "job_kind_debug k = job_kind_debug l \<longleftrightarrow> k = l"
  by (cases k; cases l) (simp_all add: job_kind_debug_def)

text \<open>Two sync jobs share a deduplication key exactly when they are for the same mount, entity
  and kind of work, provided mount ids hold no colon and no entity is named by a lone dash, the key's
  mark for a job without an entity. Remote ids may hold colons.\<close>

theorem dedupe_key_exact:
  assumes "CHR '':'' \<notin> set (mount_id_str (sj_mount_id j))" "CHR '':'' \<notin> set (mount_id_str (sj_mount_id l))"
    and "sj_remote_id j \<noteq> Some (RemoteId ''-'')" "sj_remote_id l \<noteq> Some (RemoteId ''-'')"
  shows "dedupe_key j = dedupe_key l \<longleftrightarrow>
    sj_mount_id j = sj_mount_id l \<and> sj_remote_id j = sj_remote_id l \<and> sj_kind j = sj_kind l"
    (is "_ \<longleftrightarrow> ?same")
proof
  let ?r = "\<lambda>j. case sj_remote_id j of None \<Rightarrow> ''-'' | Some rid \<Rightarrow> remote_id_str rid"
  assume "dedupe_key j = dedupe_key l"
  then have k: "mount_id_str (sj_mount_id j) @ CHR '':'' # ?r j @ CHR '':'' # job_kind_debug (sj_kind j)
      = mount_id_str (sj_mount_id l) @ CHR '':'' # ?r l @ CHR '':'' # job_kind_debug (sj_kind l)"
    by (simp add: dedupe_key_def)
  from colon_split[OF k assms(1,2)] have m: "mount_id_str (sj_mount_id j) = mount_id_str (sj_mount_id l)"
    and rest: "?r j @ CHR '':'' # job_kind_debug (sj_kind j) = ?r l @ CHR '':'' # job_kind_debug (sj_kind l)"
    by auto
  from colon_split_rev[OF rest job_kind_debug_colon job_kind_debug_colon]
  have r: "?r j = ?r l" and kd: "sj_kind j = sj_kind l" by (simp_all add: job_kind_debug_inj)
  have "sj_remote_id j = sj_remote_id l"
    using r assms(3,4) by (auto split: option.splits)
      (metis remote_id.collapse)+
  with m kd show ?same by (simp add: mount_id.expand)
qed (auto simp: dedupe_key_def)

theorem dedupe_key_exact_witness:
  "dedupe_key (sync_job_new (MountId ''m'') (Some (RemoteId ''a:b'')) HydrateEntity Webhook)
     \<noteq> dedupe_key (sync_job_new (MountId ''m'') None HydrateEntity Webhook)"
  by (subst dedupe_key_exact) (simp_all add: sync_job_new_def)

section \<open>Hydration, polling and search policies\<close>

record hydration_policy =
  auto_hydrate_recent_days :: "16 word"
  prefetch_neighbors :: bool
  eager_under_page_count :: "32 word option"

definition hydration_policy_default :: hydration_policy where
  "hydration_policy_default =
     \<lparr>auto_hydrate_recent_days = 90, prefetch_neighbors = True, eager_under_page_count = None\<rparr>"

datatype hydration_reason =
    ExplicitPull | FileOpen | PolicyReason | RemoteFastForward | LiveModeRemoteFastForward | StubRead
  | Prefetch

record hydration_request =
  hr_mount_id :: mount_id
  hr_remote_id :: remote_id
  hr_path :: path
  hr_target_state :: hydration_state
  hr_reason :: hydration_reason

definition hydration_request_new ::
    "mount_id \<Rightarrow> remote_id \<Rightarrow> path \<Rightarrow> hydration_state \<Rightarrow> hydration_reason \<Rightarrow> hydration_request" where
  "hydration_request_new mount rid p target r =
     \<lparr>hr_mount_id = mount, hr_remote_id = rid, hr_path = p, hr_target_state = target, hr_reason = r\<rparr>"

definition is_remote_fast_forward :: "hydration_reason \<Rightarrow> bool" where
  "is_remote_fast_forward r \<longleftrightarrow> r = RemoteFastForward \<or> r = LiveModeRemoteFastForward"

definition should_eager_hydrate :: "32 word \<Rightarrow> hydration_policy \<Rightarrow> bool" where
  "should_eager_hydrate workspace_page_count policy =
     (case eager_under_page_count policy of None \<Rightarrow> False
      | Some threshold \<Rightarrow> workspace_page_count \<le> threshold)"

datatype pull_mode = Polling | Relay

text \<open>A \<open>Duration\<close> is its number of nanoseconds.\<close>

record pull_scheduler_config =
  ps_mode :: pull_mode
  active_interval :: nat
  cold_interval :: nat
  ps_hydration_policy :: hydration_policy

definition pull_scheduler_default :: pull_scheduler_config where
  "pull_scheduler_default =
     \<lparr>ps_mode = Polling, active_interval = 15 * 1000000000, cold_interval = 300 * 1000000000,
      ps_hydration_policy = hydration_policy_default\<rparr>"

record search_metadata =
  metadata_text :: "string list"
  aliases :: "string list"
  source_url :: "string option"

definition sm_default :: search_metadata where
  "sm_default = \<lparr>metadata_text = [], aliases = [], source_url = None\<rparr>"

definition sm_is_empty :: "search_metadata \<Rightarrow> bool" where
  "sm_is_empty m \<longleftrightarrow> metadata_text m = [] \<and> aliases m = [] \<and> source_url m = None"

definition push_non_empty :: "string list \<Rightarrow> string \<Rightarrow> string list" where
  "push_non_empty vs v = (let t = trim v in if t = [] then vs else vs @ [t])"

definition push_metadata_text :: "search_metadata \<Rightarrow> string \<Rightarrow> search_metadata" where
  "push_metadata_text m v = m\<lparr>metadata_text := push_non_empty (metadata_text m) v\<rparr>"

definition push_alias :: "search_metadata \<Rightarrow> string \<Rightarrow> search_metadata" where
  "push_alias m v = m\<lparr>aliases := push_non_empty (aliases m) v\<rparr>"

definition set_source_url :: "search_metadata \<Rightarrow> string \<Rightarrow> search_metadata" where
  "set_source_url m v = (if trim v = [] then m else m\<lparr>source_url := Some v\<rparr>)"

end
