(* ===== verification/Store_Records.thy ===== *)
theory Store_Records
  imports Journal Sync "HOL-Library.Product_Lexorder"
begin

text \<open>
  \<open>locality-store/src/records.rs\<close>: the durable records of the store and their conversions from and
  to the values of the core. An \<open>i64\<close> is an \<open>int\<close> here, it is only stored and compared. The
  identities that are keys of ordered maps get the order that the source derives for them.
\<close>

section \<open>Orders of the keys\<close>

instantiation mount_id :: linorder
begin

definition less_eq_mount_id :: "mount_id \<Rightarrow> mount_id \<Rightarrow> bool" where
  "less_eq_mount_id a b \<longleftrightarrow> mount_id_str a \<le> mount_id_str b"

definition less_mount_id :: "mount_id \<Rightarrow> mount_id \<Rightarrow> bool" where
  "less_mount_id a b \<longleftrightarrow> mount_id_str a < mount_id_str b"

instance
  by standard (auto simp: less_eq_mount_id_def less_mount_id_def mount_id.expand)

end

datatype connection_id = ConnectionId (connection_id_str: string)

instantiation connection_id :: linorder
begin

definition less_eq_connection_id :: "connection_id \<Rightarrow> connection_id \<Rightarrow> bool" where
  "less_eq_connection_id a b \<longleftrightarrow> connection_id_str a \<le> connection_id_str b"

definition less_connection_id :: "connection_id \<Rightarrow> connection_id \<Rightarrow> bool" where
  "less_connection_id a b \<longleftrightarrow> connection_id_str a < connection_id_str b"

instance
  by standard (auto simp: less_eq_connection_id_def less_connection_id_def connection_id.expand)

end

datatype connector_profile_id = ConnectorProfileId (connector_profile_id_str: string)

instantiation connector_profile_id :: linorder
begin

definition less_eq_connector_profile_id :: "connector_profile_id \<Rightarrow> connector_profile_id \<Rightarrow> bool" where
  "less_eq_connector_profile_id a b \<longleftrightarrow> connector_profile_id_str a \<le> connector_profile_id_str b"

definition less_connector_profile_id :: "connector_profile_id \<Rightarrow> connector_profile_id \<Rightarrow> bool" where
  "less_connector_profile_id a b \<longleftrightarrow> connector_profile_id_str a < connector_profile_id_str b"

instance
  by standard
    (auto simp: less_eq_connector_profile_id_def less_connector_profile_id_def connector_profile_id.expand)

end

text \<open>Paths are ordered by their components, and components in the order of their declaration.\<close>

definition component_key :: "component \<Rightarrow> nat \<times> string" where
  "component_key c =
     (case c of Prefix s \<Rightarrow> (0, s) | RootDir \<Rightarrow> (1, []) | CurDir \<Rightarrow> (2, []) | ParentDir \<Rightarrow> (3, [])
      | Normal s \<Rightarrow> (4, s))"

lemma component_key_inj: "component_key a = component_key b \<Longrightarrow> a = b"
  by (simp add: component_key_def split: component.splits)

instantiation component :: linorder
begin

definition less_eq_component :: "component \<Rightarrow> component \<Rightarrow> bool" where
  "less_eq_component a b \<longleftrightarrow> component_key a \<le> component_key b"

definition less_component :: "component \<Rightarrow> component \<Rightarrow> bool" where
  "less_component a b \<longleftrightarrow> component_key a < component_key b"

instance
  by standard (auto simp: less_eq_component_def less_component_def intro: component_key_inj)

end

section \<open>Mounts\<close>

datatype projection_mode = PlainFiles | MacosFileProvider | LinuxFuse | WindowsCloudFiles

definition projection_as_str :: "projection_mode \<Rightarrow> string" where
  "projection_as_str p =
     (case p of PlainFiles \<Rightarrow> ''plain_files'' | MacosFileProvider \<Rightarrow> ''macos_file_provider''
      | LinuxFuse \<Rightarrow> ''linux_fuse'' | WindowsCloudFiles \<Rightarrow> ''windows_cloud_files'')"

definition uses_virtual_filesystem :: "projection_mode \<Rightarrow> bool" where
  "uses_virtual_filesystem p \<longleftrightarrow> p = MacosFileProvider \<or> p = LinuxFuse \<or> p = WindowsCloudFiles"

record mount_config =
  mc_mount_id :: mount_id
  mc_connector :: string
  mc_root :: path
  mc_remote_root_id :: "remote_id option"
  mc_connection_id :: "connection_id option"
  mc_read_only :: bool
  mc_projection :: projection_mode
  mc_settings_json :: string

definition mount_config_new :: "mount_id \<Rightarrow> string \<Rightarrow> path \<Rightarrow> mount_config" where
  "mount_config_new mount connector root =
     \<lparr>mc_mount_id = mount, mc_connector = connector, mc_root = root, mc_remote_root_id = None,
      mc_connection_id = None, mc_read_only = False, mc_projection = PlainFiles,
      mc_settings_json = ''{}''\<rparr>"

definition with_remote_root_id :: "mount_config \<Rightarrow> remote_id \<Rightarrow> mount_config" where
  "with_remote_root_id m i = m\<lparr>mc_remote_root_id := Some i\<rparr>"

definition with_connection_id :: "mount_config \<Rightarrow> connection_id \<Rightarrow> mount_config" where
  "with_connection_id m i = m\<lparr>mc_connection_id := Some i\<rparr>"

definition mount_read_only :: "mount_config \<Rightarrow> bool \<Rightarrow> mount_config" where
  "mount_read_only m b = m\<lparr>mc_read_only := b\<rparr>"

definition mount_projection :: "mount_config \<Rightarrow> projection_mode \<Rightarrow> mount_config" where
  "mount_projection m p = m\<lparr>mc_projection := p\<rparr>"

definition with_settings_json :: "mount_config \<Rightarrow> string \<Rightarrow> mount_config" where
  "with_settings_json m s = m\<lparr>mc_settings_json := s\<rparr>"

datatype mount_live_mode_state = LiveOff | LiveActive | LiveSyncing | LiveError

record mount_live_mode_record =
  lm_mount_id :: mount_id
  lm_enabled :: bool
  lm_state :: mount_live_mode_state
  lm_last_reason :: "string option"
  lm_last_run_at :: "string option"
  lm_created_at :: string
  lm_updated_at :: string

definition live_mode_new :: "mount_id \<Rightarrow> bool \<Rightarrow> string \<Rightarrow> mount_live_mode_record" where
  "live_mode_new mount enabled created_at =
     \<lparr>lm_mount_id = mount, lm_enabled = enabled, lm_state = (if enabled then LiveActive else LiveOff),
      lm_last_reason = None, lm_last_run_at = None, lm_created_at = created_at,
      lm_updated_at = created_at\<rparr>"

definition live_mode_off :: "mount_live_mode_record \<Rightarrow> string \<Rightarrow> mount_live_mode_record" where
  "live_mode_off r updated_at =
     r\<lparr>lm_enabled := False, lm_state := LiveOff, lm_last_reason := None, lm_updated_at := updated_at\<rparr>"

definition live_mode_active ::
    "mount_live_mode_record \<Rightarrow> string option \<Rightarrow> string \<Rightarrow> string \<Rightarrow> mount_live_mode_record" where
  "live_mode_active r reason last_run_at updated_at =
     r\<lparr>lm_enabled := True, lm_state := LiveActive, lm_last_reason := reason,
       lm_last_run_at := Some last_run_at, lm_updated_at := updated_at\<rparr>"

definition live_mode_syncing :: "mount_live_mode_record \<Rightarrow> string \<Rightarrow> mount_live_mode_record" where
  "live_mode_syncing r updated_at =
     r\<lparr>lm_enabled := True, lm_state := LiveSyncing, lm_last_reason := None, lm_updated_at := updated_at\<rparr>"

definition live_mode_error ::
    "mount_live_mode_record \<Rightarrow> string \<Rightarrow> string \<Rightarrow> string \<Rightarrow> mount_live_mode_record" where
  "live_mode_error r reason last_run_at updated_at =
     r\<lparr>lm_enabled := False, lm_state := LiveError, lm_last_reason := Some reason,
       lm_last_run_at := Some last_run_at, lm_updated_at := updated_at\<rparr>"

section \<open>Connections, profiles and connector states\<close>

record connection_record =
  cn_connection_id :: connection_id
  cn_profile_id :: "connector_profile_id option"
  cn_connector :: string
  cn_display_name :: string
  cn_account_label :: "string option"
  cn_workspace_id :: "string option"
  cn_workspace_name :: "string option"
  cn_auth_kind :: string
  cn_secret_ref :: string
  cn_scopes :: "string list"
  cn_capabilities_json :: string
  cn_status :: string
  cn_created_at :: string
  cn_updated_at :: string
  cn_expires_at :: "string option"

record connector_profile_record =
  cp_profile_id :: connector_profile_id
  cp_connector :: string
  cp_display_name :: string
  cp_auth_kind :: string
  cp_scopes :: "string list"
  cp_capabilities_json :: string
  cp_enabled_actions_json :: string
  cp_connector_version :: string
  cp_status :: string
  cp_created_at :: string
  cp_updated_at :: string

record connector_state_record =
  cs_connector :: string
  cs_scope_kind :: string
  cs_scope_id :: string
  cs_state_version :: int
  cs_min_reader_version :: int
  cs_state_json :: string
  cs_updated_at :: string

section \<open>Entities\<close>

text \<open>\<open>er_remote_edited_at\<close> is the version that the synced tree represents.\<close>

record entity_record =
  er_mount_id :: mount_id
  er_remote_id :: remote_id
  er_kind :: entity_kind
  er_title :: string
  er_path :: path
  er_hydration :: hydration_state
  er_content_hash :: "string option"
  er_remote_edited_at :: "string option"

definition entity_record_new ::
    "mount_id \<Rightarrow> remote_id \<Rightarrow> entity_kind \<Rightarrow> string \<Rightarrow> path \<Rightarrow> entity_record" where
  "entity_record_new mount remote k title p =
     \<lparr>er_mount_id = mount, er_remote_id = remote, er_kind = k, er_title = title, er_path = p,
      er_hydration = Stub, er_content_hash = None, er_remote_edited_at = None\<rparr>"

definition with_hydration :: "entity_record \<Rightarrow> hydration_state \<Rightarrow> entity_record" where
  "with_hydration e h = e\<lparr>er_hydration := h\<rparr>"

definition with_content_hash :: "entity_record \<Rightarrow> string \<Rightarrow> entity_record" where
  "with_content_hash e h = e\<lparr>er_content_hash := Some h\<rparr>"

definition synced_tree_remote_version :: "entity_record \<Rightarrow> string option" where
  "synced_tree_remote_version e = er_remote_edited_at e"

definition set_synced_tree_remote_version :: "entity_record \<Rightarrow> string option \<Rightarrow> entity_record" where
  "set_synced_tree_remote_version e v = e\<lparr>er_remote_edited_at := v\<rparr>"

definition with_synced_tree_remote_version :: "entity_record \<Rightarrow> string \<Rightarrow> entity_record" where
  "with_synced_tree_remote_version e v = set_synced_tree_remote_version e (Some v)"

definition with_remote_edited_at :: "entity_record \<Rightarrow> string \<Rightarrow> entity_record" where
  "with_remote_edited_at e v = with_synced_tree_remote_version e v"

definition entity_record_from :: "tree_entry \<Rightarrow> entity_record" where
  "entity_record_from t =
     \<lparr>er_mount_id = te_mount_id t, er_remote_id = te_remote_id t, er_kind = te_kind t,
      er_title = te_title t, er_path = te_path t, er_hydration = te_hydration t,
      er_content_hash = te_content_hash t, er_remote_edited_at = te_remote_edited_at t\<rparr>"

definition tree_entry_from :: "entity_record \<Rightarrow> tree_entry" where
  "tree_entry_from e =
     \<lparr>te_mount_id = er_mount_id e, te_remote_id = er_remote_id e, te_kind = er_kind e,
      te_title = er_title e, te_path = er_path e, te_hydration = er_hydration e,
      te_content_hash = er_content_hash e, te_remote_edited_at = er_remote_edited_at e,
      te_stub_frontmatter = None\<rparr>"

section \<open>Virtual mutations and auto-save enrollments\<close>

datatype virtual_mutation_kind = VmCreate | VmMove | VmRename | VmDelete

record virtual_mutation_record =
  vm_mount_id :: mount_id
  vm_local_id :: string
  vm_mutation_kind :: virtual_mutation_kind
  vm_target_remote_id :: "remote_id option"
  vm_parent_remote_id :: "remote_id option"
  vm_original_path :: "path option"
  vm_projected_path :: path
  vm_title :: string
  vm_content_path :: "path option"
  vm_created_at :: string
  vm_updated_at :: string

datatype auto_save_origin = LocalityCreated | UserEnabled

datatype auto_save_state = AsActive | AsBlocked | AsPausedRemoteChanged | AsPausedFailure

record auto_save_enrollment_record =
  as_mount_id :: mount_id
  as_path :: path
  as_remote_id :: "remote_id option"
  as_enabled :: bool
  as_origin :: auto_save_origin
  as_state :: auto_save_state
  as_last_reason :: "string option"
  as_last_push_id :: "string option"
  as_created_at :: string
  as_updated_at :: string

definition enrollment_new ::
    "mount_id \<Rightarrow> path \<Rightarrow> auto_save_origin \<Rightarrow> string \<Rightarrow> auto_save_enrollment_record" where
  "enrollment_new mount p origin created_at =
     \<lparr>as_mount_id = mount, as_path = p, as_remote_id = None, as_enabled = True, as_origin = origin,
      as_state = AsActive, as_last_reason = None, as_last_push_id = None, as_created_at = created_at,
      as_updated_at = created_at\<rparr>"

definition enrollment_disabled ::
    "auto_save_enrollment_record \<Rightarrow> string \<Rightarrow> auto_save_enrollment_record" where
  "enrollment_disabled e updated_at =
     e\<lparr>as_enabled := False, as_state := AsActive, as_last_reason := None, as_updated_at := updated_at\<rparr>"

definition enrollment_active ::
    "auto_save_enrollment_record \<Rightarrow> string \<Rightarrow> auto_save_enrollment_record" where
  "enrollment_active e updated_at =
     e\<lparr>as_enabled := True, as_state := AsActive, as_last_reason := None, as_updated_at := updated_at\<rparr>"

definition enrollment_blocked ::
    "auto_save_enrollment_record \<Rightarrow> string \<Rightarrow> string \<Rightarrow> auto_save_enrollment_record" where
  "enrollment_blocked e reason updated_at =
     e\<lparr>as_enabled := True, as_state := AsBlocked, as_last_reason := Some reason,
       as_updated_at := updated_at\<rparr>"

definition enrollment_paused_remote_changed ::
    "auto_save_enrollment_record \<Rightarrow> string \<Rightarrow> string \<Rightarrow> auto_save_enrollment_record" where
  "enrollment_paused_remote_changed e reason updated_at =
     e\<lparr>as_enabled := True, as_state := AsPausedRemoteChanged, as_last_reason := Some reason,
       as_updated_at := updated_at\<rparr>"

definition enrollment_paused_failure ::
    "auto_save_enrollment_record \<Rightarrow> string \<Rightarrow> string \<Rightarrow> auto_save_enrollment_record" where
  "enrollment_paused_failure e reason updated_at =
     e\<lparr>as_enabled := True, as_state := AsPausedFailure, as_last_reason := Some reason,
       as_updated_at := updated_at\<rparr>"

section \<open>Observations and freshness\<close>

record remote_observation_record =
  rr_mount_id :: mount_id
  rr_remote_id :: remote_id
  rr_kind :: entity_kind
  rr_title :: string
  rr_parent_remote_id :: "remote_id option"
  rr_projected_path :: path
  rr_remote_version :: "remote_version option"
  rr_observed_at :: string
  rr_deleted :: bool
  rr_raw_metadata_json :: string

definition observation_record_new ::
    "mount_id \<Rightarrow> remote_id \<Rightarrow> entity_kind \<Rightarrow> string \<Rightarrow> path \<Rightarrow> string \<Rightarrow> remote_observation_record" where
  "observation_record_new mount remote k title p observed_at =
     \<lparr>rr_mount_id = mount, rr_remote_id = remote, rr_kind = k, rr_title = title,
      rr_parent_remote_id = None, rr_projected_path = p, rr_remote_version = None,
      rr_observed_at = observed_at, rr_deleted = False, rr_raw_metadata_json = ''{}''\<rparr>"

definition observation_with_parent ::
    "remote_observation_record \<Rightarrow> remote_id \<Rightarrow> remote_observation_record" where
  "observation_with_parent r i = r\<lparr>rr_parent_remote_id := Some i\<rparr>"

definition observation_with_remote_version ::
    "remote_observation_record \<Rightarrow> remote_version \<Rightarrow> remote_observation_record" where
  "observation_with_remote_version r v = r\<lparr>rr_remote_version := Some v\<rparr>"

definition observation_deleted :: "remote_observation_record \<Rightarrow> bool \<Rightarrow> remote_observation_record" where
  "observation_deleted r d = r\<lparr>rr_deleted := d\<rparr>"

definition observation_with_raw_metadata ::
    "remote_observation_record \<Rightarrow> string \<Rightarrow> remote_observation_record" where
  "observation_with_raw_metadata r json = r\<lparr>rr_raw_metadata_json := json\<rparr>"

definition remote_observation_from :: "remote_observation_record \<Rightarrow> remote_observation" where
  "remote_observation_from r =
     \<lparr>ro_mount_id = rr_mount_id r, ro_remote_id = rr_remote_id r, ro_kind = rr_kind r,
      ro_title = rr_title r, ro_parent_remote_id = rr_parent_remote_id r,
      ro_projected_path = rr_projected_path r, ro_remote_version = rr_remote_version r,
      ro_deleted = rr_deleted r, ro_raw_metadata_json = rr_raw_metadata_json r\<rparr>"

record freshness_state_record =
  fs_mount_id :: mount_id
  fs_remote_id :: remote_id
  fs_tier :: freshness_tier
  fs_last_checked_at :: "string option"
  fs_next_check_at :: "string option"
  fs_last_opened_at :: "string option"
  fs_last_local_change_at :: "string option"
  fs_remote_hint_pending :: bool

definition freshness_state_new ::
    "mount_id \<Rightarrow> remote_id \<Rightarrow> freshness_tier \<Rightarrow> freshness_state_record" where
  "freshness_state_new mount remote tier =
     \<lparr>fs_mount_id = mount, fs_remote_id = remote, fs_tier = tier, fs_last_checked_at = None,
      fs_next_check_at = None, fs_last_opened_at = None, fs_last_local_change_at = None,
      fs_remote_hint_pending = False\<rparr>"

definition fs_checked_at :: "freshness_state_record \<Rightarrow> string \<Rightarrow> freshness_state_record" where
  "fs_checked_at r t = r\<lparr>fs_last_checked_at := Some t\<rparr>"

definition fs_set_next_check_at :: "freshness_state_record \<Rightarrow> string \<Rightarrow> freshness_state_record" where
  "fs_set_next_check_at r t = r\<lparr>fs_next_check_at := Some t\<rparr>"

definition fs_opened_at :: "freshness_state_record \<Rightarrow> string \<Rightarrow> freshness_state_record" where
  "fs_opened_at r t = r\<lparr>fs_last_opened_at := Some t\<rparr>"

definition fs_local_change_at :: "freshness_state_record \<Rightarrow> string \<Rightarrow> freshness_state_record" where
  "fs_local_change_at r t = r\<lparr>fs_last_local_change_at := Some t\<rparr>"

definition fs_set_remote_hint_pending :: "freshness_state_record \<Rightarrow> bool \<Rightarrow> freshness_state_record" where
  "fs_set_remote_hint_pending r b = r\<lparr>fs_remote_hint_pending := b\<rparr>"

section \<open>Jobs\<close>

record hydration_job_record =
  hj_mount_id :: mount_id
  hj_remote_id :: remote_id
  hj_path :: path
  hj_target_state :: hydration_state
  hj_reason :: hydration_reason
  hj_attempts :: "32 word"
  hj_last_error :: "string option"

definition hydration_job_new :: "hydration_request \<Rightarrow> hydration_job_record" where
  "hydration_job_new r =
     \<lparr>hj_mount_id = hr_mount_id r, hj_remote_id = hr_remote_id r, hj_path = hr_path r,
      hj_target_state = hr_target_state r, hj_reason = hr_reason r, hj_attempts = 0,
      hj_last_error = None\<rparr>"

definition into_request :: "hydration_job_record \<Rightarrow> hydration_request" where
  "into_request j =
     \<lparr>hr_mount_id = hj_mount_id j, hr_remote_id = hj_remote_id j, hr_path = hj_path j,
      hr_target_state = hj_target_state j, hr_reason = hj_reason j\<rparr>"

datatype metadata_discovery_priority = BackgroundPriority | InteractivePriority

instantiation metadata_discovery_priority :: linorder
begin

definition less_eq_metadata_discovery_priority ::
    "metadata_discovery_priority \<Rightarrow> metadata_discovery_priority \<Rightarrow> bool" where
  "less_eq_metadata_discovery_priority a b \<longleftrightarrow> a = BackgroundPriority \<or> b = InteractivePriority"

definition less_metadata_discovery_priority ::
    "metadata_discovery_priority \<Rightarrow> metadata_discovery_priority \<Rightarrow> bool" where
  "less_metadata_discovery_priority a b \<longleftrightarrow> a = BackgroundPriority \<and> b = InteractivePriority"

instance
proof
  fix a b c :: metadata_discovery_priority
  show "a < b \<longleftrightarrow> a \<le> b \<and> \<not> b \<le> a" "a \<le> a" "a \<le> b \<Longrightarrow> b \<le> a \<Longrightarrow> a = b" "a \<le> b \<or> b \<le> a"
    "a \<le> b \<Longrightarrow> b \<le> c \<Longrightarrow> a \<le> c"
    by (cases a; cases b; simp add: less_eq_metadata_discovery_priority_def
        less_metadata_discovery_priority_def)+
qed

end

record metadata_discovery_job_record =
  md_mount_id :: mount_id
  md_container_identifier :: string
  md_priority :: metadata_discovery_priority
  md_depth :: "32 word"
  md_attempts :: "32 word"
  md_last_error :: "string option"
  md_created_at :: string
  md_updated_at :: string

section \<open>Shadow snapshots\<close>

record shadow_block_record =
  br_remote_id :: remote_id
  br_kind :: markdown_block_kind
  br_source_span :: source_span
  br_content_hash :: string
  br_text :: string
  br_native_kind :: "string option"

record shadow_snapshot_record =
  ss_mount_id :: mount_id
  ss_entity_id :: remote_id
  ss_frontmatter :: string
  ss_body_hash :: string
  ss_rendered_body :: string
  ss_blocks :: "shadow_block_record list"

definition block_record_from :: "shadow_block \<Rightarrow> shadow_block_record" where
  "block_record_from b =
     \<lparr>br_remote_id = sb_remote_id b, br_kind = sb_kind b, br_source_span = sb_source_span b,
      br_content_hash = sb_content_hash b, br_text = sb_text b, br_native_kind = sb_native_kind b\<rparr>"

definition shadow_block_from :: "shadow_block_record \<Rightarrow> shadow_block" where
  "shadow_block_from b =
     \<lparr>sb_remote_id = br_remote_id b, sb_kind = br_kind b, sb_source_span = br_source_span b,
      sb_content_hash = br_content_hash b, sb_text = br_text b, sb_native_kind = br_native_kind b\<rparr>"

definition snapshot_from_document :: "mount_id \<Rightarrow> shadow_document \<Rightarrow> shadow_snapshot_record" where
  "snapshot_from_document mount d =
     \<lparr>ss_mount_id = mount, ss_entity_id = sd_entity_id d, ss_frontmatter = sd_frontmatter d,
      ss_body_hash = sd_body_hash d, ss_rendered_body = sd_rendered_body d,
      ss_blocks = map block_record_from (sd_blocks d)\<rparr>"

definition into_document :: "shadow_snapshot_record \<Rightarrow> shadow_document" where
  "into_document r =
     \<lparr>sd_entity_id = ss_entity_id r, sd_frontmatter = ss_frontmatter r, sd_body_hash = ss_body_hash r,
      sd_rendered_body = ss_rendered_body r, sd_blocks = map shadow_block_from (ss_blocks r)\<rparr>"

section \<open>Round trips of the conversions\<close>

text \<open>A stored entity loses only the stub frontmatter of its tree entry, which no fingerprint
  compares: the three-tree classification cannot tell a stored entry from the original.\<close>

lemma tree_entry_roundtrip:
  "tree_entry_from (entity_record_from t) = t\<lparr>te_stub_frontmatter := None\<rparr>"
  by (simp add: tree_entry_from_def entity_record_from_def)

lemma entity_record_roundtrip: "entity_record_from (tree_entry_from e) = e"
  by (simp add: tree_entry_from_def entity_record_from_def)

lemma stored_entry_same_fingerprint: "fingerprint (tree_entry_from (entity_record_from t)) = fingerprint t"
  by (simp add: tree_entry_roundtrip)

lemma hydration_job_roundtrip: "into_request (hydration_job_new r) = r"
  by (simp add: into_request_def hydration_job_new_def)

lemma block_roundtrip: "shadow_block_from (block_record_from b) = b"
  by (simp add: block_record_from_def shadow_block_from_def)

lemma snapshot_roundtrip: "into_document (snapshot_from_document mount d) = d"
  by (simp add: into_document_def snapshot_from_document_def comp_def block_roundtrip)

end
