(* ===== verification/BTree_Ops.thy ===== *)
theory BTree_Ops
  imports BTree "HOL-Library.Multiset"
begin

text \<open>
  More operations of \<open>BTreeMap\<close>: \<open>remove\<close>, \<open>retain\<close>, and the assignment through \<open>get_mut\<close>; the
  maps whose entries are stored under a key of their own; and the contract of a map with removal,
  which extends the one of BTree.
\<close>

definition bm_remove :: "'k::linorder \<Rightarrow> ('k, 'v) btree_map \<Rightarrow> ('k, 'v) btree_map" where
  "bm_remove k m = filter (\<lambda>(j, _). j \<noteq> k) m"

definition bm_retain :: "('k::linorder \<Rightarrow> 'v \<Rightarrow> bool) \<Rightarrow> ('k, 'v) btree_map \<Rightarrow> ('k, 'v) btree_map" where
  "bm_retain p m = filter (\<lambda>(k, v). p k v) m"

definition bm_modify :: "'k::linorder \<Rightarrow> ('v \<Rightarrow> 'v) \<Rightarrow> ('k, 'v) btree_map \<Rightarrow> ('k, 'v) btree_map" where
  "bm_modify k f m = (case bm_get m k of None \<Rightarrow> m | Some v \<Rightarrow> bm_insert k (f v) m)"

abbreviation bm_values :: "('k, 'v) btree_map \<Rightarrow> 'v list" where
  "bm_values m \<equiv> map snd m"

section \<open>Lookups\<close>

lemma bm_get_remove [simp]: "bm_get (bm_remove k m) j = (if j = k then None else bm_get m j)"
  by (induction m) (auto simp: bm_remove_def)

lemma bm_get_retain:
  "bm_sorted m \<Longrightarrow>
   bm_get (bm_retain p m) k = (case bm_get m k of None \<Rightarrow> None | Some v \<Rightarrow> if p k v then Some v else None)"
proof (induction m)
  case (Cons x m)
  then have "bm_sorted m" "\<forall>j\<in>set (map fst m). fst x < j" by (simp_all add: bm_sorted_def)
  with Cons.IH show ?case
    by (cases x) (auto simp: bm_retain_def map_of_eq_None_iff split: option.splits)
qed (simp add: bm_retain_def)

lemma bm_get_modify:
  "bm_get (bm_modify k f m) j = (if j = k then map_option f (bm_get m k) else bm_get m j)"
  by (auto simp: bm_modify_def bm_get_insert split: option.splits)

lemma bm_sorted_filter: "bm_sorted m \<Longrightarrow> bm_sorted (filter p m)"
proof (induction m)
  case (Cons x m)
  then show ?case by (auto simp: bm_sorted_def)
qed simp

lemma bm_sorted_remove [simp]: "bm_sorted m \<Longrightarrow> bm_sorted (bm_remove k m)"
  by (simp add: bm_remove_def bm_sorted_filter)

lemma bm_sorted_retain [simp]: "bm_sorted m \<Longrightarrow> bm_sorted (bm_retain p m)"
  by (simp add: bm_retain_def bm_sorted_filter)

lemma bm_sorted_modify [simp]: "bm_sorted m \<Longrightarrow> bm_sorted (bm_modify k f m)"
  by (simp add: bm_modify_def bm_sorted_insert split: option.split)

lemma bm_sorted_collect [simp]: "bm_sorted (bm_collect xs)"
  by (rule bm.inv_extend) simp

lemma bm_get_iff: "bm_sorted m \<Longrightarrow> bm_get m k = Some v \<longleftrightarrow> (k, v) \<in> set m"
  by (simp add: bm_sorted_distinct)

lemma bm_values_iff: "bm_sorted m \<Longrightarrow> v \<in> set (bm_values m) \<longleftrightarrow> (\<exists>k. bm_get m k = Some v)"
  by (force simp: bm_get_iff)

lemma map_of_rev_distinct: "distinct (map fst xs) \<Longrightarrow> map_of (rev xs) = map_of xs"
  by (rule ext, rule option.expand) (auto simp: map_of_eq_None_iff rev_map[symmetric] dest!: map_of_SomeD
      intro: map_of_is_SomeI)

lemma bm_collect_sorted: "bm_sorted m \<Longrightarrow> bm_collect m = m"
  by (rule bm_ext) (simp_all add: bm.get_collect map_of_rev_distinct bm_sorted_distinct)

section \<open>Maps of records stored under their own key\<close>

definition keyed :: "('v \<Rightarrow> 'k::linorder) \<Rightarrow> ('k, 'v) btree_map \<Rightarrow> bool" where
  "keyed key m \<longleftrightarrow> bm_sorted m \<and> (\<forall>(k, v)\<in>set m. key v = k)"

lemma set_bm_insert_subset: "set (bm_insert k v m) \<subseteq> insert (k, v) (set m)"
  by (induction k v m rule: bm_insert.induct) auto

lemma keyed_Nil [simp]: "keyed key []"
  by (simp add: keyed_def)

lemma keyed_insert: "keyed key m \<Longrightarrow> keyed key (bm_insert (key v) v m)"
  using set_bm_insert_subset[of "key v" v m] by (auto simp: keyed_def bm_sorted_insert)

lemma keyed_keys: "keyed key m \<Longrightarrow> map key (map snd m) = map fst m"
  by (auto simp: keyed_def)

lemma keyed_sorted: "keyed key m \<Longrightarrow> sorted_wrt (<) (map key (map snd m))"
  by (simp only: keyed_keys) (simp add: keyed_def bm_sorted_def)

lemma keyed_distinct: "keyed key m \<Longrightarrow> distinct (map key (map snd m))"
  by (simp only: keyed_keys) (simp add: keyed_def bm_sorted_distinct)

lemma keyed_get: "keyed key m \<Longrightarrow> bm_get m k = Some v \<Longrightarrow> key v = k"
  by (auto simp: keyed_def dest: map_of_SomeD)

lemma keyed_bm_sorted: "keyed key m \<Longrightarrow> bm_sorted m"
  by (simp add: keyed_def)

lemma keyed_filter: "keyed key m \<Longrightarrow> keyed key (filter p m)"
  by (auto simp: keyed_def bm_sorted_filter)

lemma keyed_remove: "keyed key m \<Longrightarrow> keyed key (bm_remove k m)"
  by (simp add: bm_remove_def keyed_filter)

lemma keyed_retain: "keyed key m \<Longrightarrow> keyed key (bm_retain p m)"
  by (simp add: bm_retain_def keyed_filter)

lemma keyed_modify: "keyed key m \<Longrightarrow> (\<And>v. key (f v) = key v) \<Longrightarrow> keyed key (bm_modify k f m)"
  using keyed_insert[of key m "f v" for v]
  by (auto simp: bm_modify_def split: option.split dest: keyed_get)

lemma keyed_values: "keyed key m \<Longrightarrow> v \<in> set (bm_values m) \<longleftrightarrow> bm_get m (key v) = Some v"
  using bm_values_iff[OF keyed_bm_sorted] keyed_get[of key m] by metis

lemma keyed_intro:
  "bm_sorted m \<Longrightarrow> (\<And>k v. bm_get m k = Some v \<Longrightarrow> key v = k) \<Longrightarrow> keyed key m"
  by (auto simp: keyed_def bm_get_iff)

lemmas keyed_intros = keyed_Nil keyed_insert keyed_remove keyed_retain

lemma mset_bm_insert_fresh: "bm_get m k = None \<Longrightarrow> mset (bm_insert k v m) = add_mset (k, v) (mset m)"
  by (induction k v m rule: bm_insert.induct) (auto split: if_splits)

section \<open>The contract of a map with removal\<close>

locale removable_map = keyed_map +
  fixes remove :: "'b \<Rightarrow> 'a \<Rightarrow> 'a"
  assumes get_remove: "inv m \<Longrightarrow> get (remove k m) j = (if j = k then None else get m j)"
    and inv_remove: "inv m \<Longrightarrow> inv (remove k m)"
begin

definition remove_all :: "'b list \<Rightarrow> 'a \<Rightarrow> 'a" where
  "remove_all ks m = fold remove ks m"

lemma inv_remove_all: "inv m \<Longrightarrow> inv (remove_all ks m)"
  unfolding remove_all_def by (induction ks arbitrary: m) (auto intro: inv_remove)

lemma get_remove_all: "inv m \<Longrightarrow> get (remove_all ks m) j = (if j \<in> set ks then None else get m j)"
  unfolding remove_all_def by (induction ks arbitrary: m) (auto simp: get_remove inv_remove)

lemma get_remove_insert: "inv m \<Longrightarrow> get (remove k (insert k v m)) j = get (remove k m) j"
  by (simp add: get_remove get_insert inv_insert)

end

interpretation bmr: removable_map "[]" bm_insert bm_get bm_sorted bm_remove
  rewrites "keyed_map.extend bm_insert = bm_extend"
    and "removable_map.remove_all bm_remove = (\<lambda>ks m. fold bm_remove ks m)"
proof -
  show r: "removable_map [] bm_insert bm_get bm_sorted bm_remove" by unfold_locales simp_all
  show "keyed_map.extend bm_insert = bm_extend"
    by (simp add: keyed_map.extend_def[OF bm.keyed_map_axioms] bm_extend_def fun_eq_iff)
  show "removable_map.remove_all bm_remove = (\<lambda>ks m. fold bm_remove ks m)"
    by (simp add: removable_map.remove_all_def[OF r] fun_eq_iff)
qed

lemma keyed_remove_all: "keyed key m \<Longrightarrow> keyed key (fold bm_remove ks m)"
  by (induction ks arbitrary: m) (auto intro: keyed_remove)

lemma keyed_extend: "keyed key m \<Longrightarrow> keyed key (bm_extend m (map (\<lambda>v. (key v, v)) vs))"
  unfolding bm_extend_def by (induction vs arbitrary: m) (auto intro: keyed_insert)

end
