(* ===== verification/Discovery_Commit.thy ===== *)
theory Discovery_Commit
  imports Store_Records BTree_Ops
begin

text \<open>
  \<open>locality-store/src/discovery.rs\<close>: what a discovery batch commits, its validation against a snapshot
  of the mount (\<open>preflight\<close>), and the records of discovery transactions. A \<open>BTreeSet\<close> that is only
  asked for membership is a set; where the source iterates over one, it is listed in order. The JSON
  parser of \<open>serde_json\<close> is a parameter, its values are modelled.
\<close>

section \<open>JSON values\<close>

text \<open>\<open>serde_json::Value\<close>; a number is the text that is printed for it, an object an ordered map.\<close>

datatype json =
    JNull
  | JBool bool
  | JNumber string
  | JString string
  | JArray "json list"
  | JObject "(string \<times> json) list"

function canonicalize_json_value :: "json \<Rightarrow> json" where
  "canonicalize_json_value (JArray vs) = JArray (map canonicalize_json_value vs)"
| "canonicalize_json_value (JObject kvs) =
     JObject (bm_collect (map (\<lambda>kv. (fst kv, canonicalize_json_value (snd kv))) (sort_key fst kvs)))"
| "canonicalize_json_value JNull = JNull"
| "canonicalize_json_value (JBool b) = JBool b"
| "canonicalize_json_value (JNumber n) = JNumber n"
| "canonicalize_json_value (JString s) = JString s"
  by pat_completeness auto

lemma size_json_entry: "kv \<in> set kvs \<Longrightarrow> size (snd kv) < Suc (size_list (size_prod (\<lambda>_. 0) size) kvs)"
proof -
  assume "kv \<in> set kvs"
  then have "size_prod (\<lambda>_. 0) size kv \<le> size_list (size_prod (\<lambda>_. 0) size) kvs"
    by (rule size_list_estimation') simp
  then show ?thesis by (cases kv) simp
qed

termination canonicalize_json_value
  by (relation "measure size") (auto simp: size_json_entry less_Suc_eq_le intro: size_list_estimation')

text \<open>An object whose keys are in order, at every level, as a \<open>BTreeMap\<close> always has them.\<close>

inductive json_wf :: "json \<Rightarrow> bool" where
  "json_wf JNull"
| "json_wf (JBool b)"
| "json_wf (JNumber n)"
| "json_wf (JString s)"
| "(\<And>v. v \<in> set vs \<Longrightarrow> json_wf v) \<Longrightarrow> json_wf (JArray vs)"
| "bm_sorted kvs \<Longrightarrow> (\<And>k v. (k, v) \<in> set kvs \<Longrightarrow> json_wf v) \<Longrightarrow> json_wf (JObject kvs)"

inductive_simps json_wf_simps [simp]:
  "json_wf JNull" "json_wf (JBool b)" "json_wf (JNumber n)" "json_wf (JString s)"
  "json_wf (JArray vs)" "json_wf (JObject kvs)"

lemma canonicalize_wf: "json_wf (canonicalize_json_value v)"
proof (induction v rule: canonicalize_json_value.induct)
  case (2 kvs)
  let ?kvs = "map (\<lambda>kv. (fst kv, canonicalize_json_value (snd kv))) (sort_key fst kvs)"
  have "json_wf v" if "(k, v) \<in> set (bm_collect ?kvs)" for k v
    using that 2 bm_get_in_set[of "[]" ?kvs k v] by (auto simp: bm_get_iff[symmetric])
  then show ?case by auto
qed auto

lemma canonicalize_wf_id: "json_wf v \<Longrightarrow> canonicalize_json_value v = v"
proof (induction v rule: json_wf.induct)
  case (5 vs)
  then show ?case by (simp add: map_idI)
next
  case (6 kvs)
  have "sort_key fst kvs = kvs"
    using \<open>bm_sorted kvs\<close> by (simp add: bm_sorted_def sort_key_id_if_sorted strict_sorted_imp_sorted)
  moreover have "map (\<lambda>kv. (fst kv, canonicalize_json_value (snd kv))) kvs = kvs"
    using 6 by (intro map_idI) auto
  ultimately show ?case using \<open>bm_sorted kvs\<close> by (simp add: bm_collect_sorted)
qed auto

lemma canonicalize_idem [simp]:
  "canonicalize_json_value (canonicalize_json_value v) = canonicalize_json_value v"
  by (rule canonicalize_wf_id[OF canonicalize_wf])

section \<open>Identifiers, envelopes, commits\<close>

datatype discovery_transaction_id = DiscoveryTransactionId (discovery_transaction_id_str: string)

instantiation discovery_transaction_id :: linorder
begin

definition less_eq_discovery_transaction_id ::
    "discovery_transaction_id \<Rightarrow> discovery_transaction_id \<Rightarrow> bool" where
  "less_eq_discovery_transaction_id a b \<longleftrightarrow>
     discovery_transaction_id_str a \<le> discovery_transaction_id_str b"

definition less_discovery_transaction_id ::
    "discovery_transaction_id \<Rightarrow> discovery_transaction_id \<Rightarrow> bool" where
  "less_discovery_transaction_id a b \<longleftrightarrow> discovery_transaction_id_str a < discovery_transaction_id_str b"

instance
  by standard (auto simp: less_eq_discovery_transaction_id_def less_discovery_transaction_id_def
      discovery_transaction_id.expand)

end

definition DISCOVERY_TRANSACTION_STATE_VERSION :: int where
  "DISCOVERY_TRANSACTION_STATE_VERSION = 1"

definition DISCOVERY_TRANSACTION_MIN_READER_VERSION :: int where
  "DISCOVERY_TRANSACTION_MIN_READER_VERSION = 1"

record 'a discovery_envelope =
  de_state_version :: int
  de_min_reader_version :: int
  de_payload :: 'a

definition envelope_current :: "'a \<Rightarrow> 'a discovery_envelope" where
  "envelope_current payload =
     \<lparr>de_state_version = DISCOVERY_TRANSACTION_STATE_VERSION,
      de_min_reader_version = DISCOVERY_TRANSACTION_MIN_READER_VERSION, de_payload = payload\<rparr>"

definition validate_envelope_version :: "int \<Rightarrow> int \<Rightarrow> string \<Rightarrow> store_error + unit" where
  "validate_envelope_version state_version min_reader_version label =
     (if state_version \<le> 0 \<or> min_reader_version \<le> 0 \<or> min_reader_version > state_version
      then Inl (StoreInvalidState (''discovery transaction '' @ label
        @ '' envelope has invalid version metadata''))
      else if state_version > DISCOVERY_TRANSACTION_STATE_VERSION
        \<or> min_reader_version > DISCOVERY_TRANSACTION_STATE_VERSION
      then Inl (StateCompatibility (''discovery transaction '' @ label @ '' envelope requires version ''
        @ dec_int state_version @ '', supported '' @ dec_int DISCOVERY_TRANSACTION_STATE_VERSION))
      else if state_version \<noteq> DISCOVERY_TRANSACTION_STATE_VERSION
      then Inl (StateCompatibility (''discovery transaction '' @ label @ '' envelope version ''
        @ dec_int state_version @ '' requires migration''))
      else Inr ())"

text \<open>\<open>decode_envelope\<close> after the JSON was read into an envelope.\<close>

definition open_envelope :: "'a discovery_envelope \<Rightarrow> string \<Rightarrow> store_error + 'a" where
  "open_envelope e label =
     rbind (validate_envelope_version (de_state_version e) (de_min_reader_version e) label)
       (\<lambda>_. Inr (de_payload e))"

lemma envelope_version_ok_iff:
  "validate_envelope_version v r label = Inr () \<longleftrightarrow> v = 1 \<and> r = 1"
  by (auto simp: validate_envelope_version_def DISCOVERY_TRANSACTION_STATE_VERSION_def)

lemma open_current_envelope: "open_envelope (envelope_current payload) label = Inr payload"
  by (simp add: open_envelope_def envelope_current_def validate_envelope_version_def
      DISCOVERY_TRANSACTION_STATE_VERSION_def DISCOVERY_TRANSACTION_MIN_READER_VERSION_def)

record discovery_commit =
  dc_mount_id :: mount_id
  dc_entity_upserts :: "entity_record list"
  dc_entity_deletes :: "remote_id list"
  dc_observation_upserts :: "remote_observation_record list"
  dc_freshness_upserts :: "freshness_state_record list"
  dc_auto_save_upserts :: "auto_save_enrollment_record list"
  dc_metadata_discovery_deletes :: "string list"
  dc_virtual_mutation_deletes :: "string list"
  dc_checkpoint :: connector_state_record

record transactional_discovery_commit =
  tc_transaction_id :: discovery_transaction_id
  tc_commit :: discovery_commit

section \<open>Validation of a commit\<close>

definition invalid :: "string \<Rightarrow> store_error + 'a" where
  "invalid message = Inl (StoreInvalidState message)"

lemma invalid_neq [simp]: "invalid m \<noteq> Inr a" "Inr a \<noteq> invalid m"
  by (simp_all add: invalid_def)

definition validate_mount :: "string \<Rightarrow> remote_id \<Rightarrow> mount_id \<Rightarrow> mount_id \<Rightarrow> store_error + unit" where
  "validate_mount record_kind i actual expected =
     (if actual \<noteq> expected
      then invalid (''discovery '' @ record_kind @ '' `'' @ remote_id_str i @ ''` belongs to mount `''
        @ mount_id_str actual @ ''`, expected `'' @ mount_id_str expected @ ''`'')
      else Inr ())"

lemma validate_mount_Inr [simp]: "validate_mount k i a e = Inr u \<longleftrightarrow> a = e"
  by (simp add: validate_mount_def)

text \<open>The loops of \<open>validate\<close> that collect keys: a check of each record, then its key must be new.\<close>

fun collect_unique ::
    "('a \<Rightarrow> store_error + unit) \<Rightarrow> ('a \<Rightarrow> 'k) \<Rightarrow> ('k \<Rightarrow> string) \<Rightarrow> 'a list \<Rightarrow> 'k set \<Rightarrow> store_error + 'k set" where
  "collect_unique check key duplicate [] seen = Inr seen"
| "collect_unique check key duplicate (x # xs) seen =
     rbind (check x) (\<lambda>_.
       if key x \<in> seen then invalid (duplicate (key x))
       else collect_unique check key duplicate xs (insert (key x) seen))"

lemma collect_unique_Inr:
  "collect_unique check key duplicate xs seen = Inr s \<longleftrightarrow>
     (\<forall>x\<in>set xs. check x = Inr ()) \<and> distinct (map key xs) \<and> key ` set xs \<inter> seen = {}
   \<and> s = key ` set xs \<union> seen"
  by (induction xs arbitrary: seen) (auto simp: rbind_Inr_iff)

fun collect_entities ::
    "mount_id \<Rightarrow> entity_record list \<Rightarrow> remote_id set \<Rightarrow> path set \<Rightarrow> store_error + remote_id set" where
  "collect_entities mount [] ids paths = Inr ids"
| "collect_entities mount (e # es) ids paths =
     rbind (validate_mount ''entity'' (er_remote_id e) (er_mount_id e) mount) (\<lambda>_.
       if er_remote_id e \<in> ids
       then invalid (''discovery commit contains duplicate entity upsert `''
              @ remote_id_str (er_remote_id e) @ ''`'')
       else if er_path e \<in> paths
       then invalid (''discovery commit contains duplicate entity path `''
              @ path_display (er_path e) @ ''`'')
       else collect_entities mount es (insert (er_remote_id e) ids) (insert (er_path e) paths))"

lemma collect_entities_Inr:
  "collect_entities mount es ids paths = Inr s \<longleftrightarrow>
     (\<forall>e\<in>set es. er_mount_id e = mount) \<and> distinct (map er_remote_id es) \<and> distinct (map er_path es)
   \<and> er_remote_id ` set es \<inter> ids = {} \<and> er_path ` set es \<inter> paths = {} \<and> s = er_remote_id ` set es \<union> ids"
  by (induction es arbitrary: ids paths) (auto simp: rbind_Inr_iff)

fun validate_auto_saves ::
    "mount_id \<Rightarrow> auto_save_enrollment_record list \<Rightarrow> path set \<Rightarrow> remote_id set \<Rightarrow> store_error + unit" where
  "validate_auto_saves mount [] paths owners = Inr ()"
| "validate_auto_saves mount (e # es) paths owners =
     (if as_mount_id e \<noteq> mount
      then invalid (''discovery auto-save enrollment `'' @ path_display (as_path e)
             @ ''` belongs to mount `'' @ mount_id_str (as_mount_id e) @ ''`, expected `''
             @ mount_id_str mount @ ''`'')
      else if as_path e \<in> paths
      then invalid (''discovery commit contains duplicate auto-save path `''
             @ path_display (as_path e) @ ''`'')
      else case as_remote_id e of
        None \<Rightarrow> validate_auto_saves mount es (insert (as_path e) paths) owners
      | Some i \<Rightarrow>
          if i \<in> owners
          then invalid (''discovery commit contains duplicate auto-save owner `'' @ remote_id_str i @ ''`'')
          else validate_auto_saves mount es (insert (as_path e) paths) (insert i owners))"

definition validate_checkpoint ::
    "(string \<Rightarrow> string + json) \<Rightarrow> mount_id \<Rightarrow> connector_state_record \<Rightarrow> store_error + unit" where
  "validate_checkpoint parse_json mount c =
     (if cs_connector c = [] then invalid ''discovery checkpoint connector cannot be empty''
      else if cs_scope_kind c \<noteq> ''mount'' \<or> cs_scope_id c \<noteq> mount_id_str mount
      then invalid (''discovery checkpoint must use mount scope `'' @ mount_id_str mount @ ''`'')
      else if cs_state_version c \<le> 0 \<or> cs_min_reader_version c \<le> 0
      then invalid ''discovery checkpoint versions must be positive''
      else if cs_min_reader_version c > cs_state_version c
      then invalid (''discovery checkpoint minimum reader version '' @ dec_int (cs_min_reader_version c)
             @ '' exceeds state version '' @ dec_int (cs_state_version c))
      else rbind (map_err (\<lambda>e. StoreInvalidState (''discovery checkpoint JSON is invalid: '' @ e))
                   (parse_json (cs_state_json c)))
             (\<lambda>_. Inr ()))"

text \<open>The loop over the set of deletes reports the first one in order that is also upserted.\<close>

definition both_deleted_and_upserted :: "remote_id set \<Rightarrow> remote_id set \<Rightarrow> store_error + unit" where
  "both_deleted_and_upserted deletes upserts =
     (case List.find (\<lambda>i. i \<in> upserts) (sorted_list_of_set deletes) of
        None \<Rightarrow> Inr ()
      | Some i \<Rightarrow> invalid (''discovery commit both deletes and upserts `'' @ remote_id_str i @ ''`''))"

lemma both_deleted_and_upserted_Inr:
  "finite d \<Longrightarrow> both_deleted_and_upserted d u = Inr x \<longleftrightarrow> d \<inter> u = {}"
proof -
  assume fin: "finite d"
  have "both_deleted_and_upserted d u = Inr x \<longleftrightarrow> List.find (\<lambda>i. i \<in> u) (sorted_list_of_set d) = None"
    by (simp add: both_deleted_and_upserted_def split: option.split)
  with fin show ?thesis by (auto simp: find_None_iff)
qed

definition nonempty :: "string \<Rightarrow> string \<Rightarrow> store_error + unit" where
  "nonempty message s = (if s = [] then invalid message else Inr ())"

definition commit_validate :: "(string \<Rightarrow> string + json) \<Rightarrow> discovery_commit \<Rightarrow> store_error + unit" where
  "commit_validate parse_json c =
     (let mount = dc_mount_id c in
      rbind (collect_entities mount (dc_entity_upserts c) {} {}) (\<lambda>entity_upserts.
      rbind (collect_unique (\<lambda>_. Inr ()) id
               (\<lambda>i. ''discovery commit contains duplicate entity delete `'' @ remote_id_str i @ ''`'')
               (dc_entity_deletes c) {}) (\<lambda>entity_deletes.
      rbind (collect_unique (\<lambda>r. validate_mount ''observation'' (rr_remote_id r) (rr_mount_id r) mount)
               rr_remote_id
               (\<lambda>i. ''discovery commit contains duplicate observation upsert `'' @ remote_id_str i @ ''`'')
               (dc_observation_upserts c) {}) (\<lambda>observation_upserts.
      rbind (collect_unique (\<lambda>r. validate_mount ''freshness state'' (fs_remote_id r) (fs_mount_id r) mount)
               fs_remote_id
               (\<lambda>i. ''discovery commit contains duplicate freshness upsert `'' @ remote_id_str i @ ''`'')
               (dc_freshness_upserts c) {}) (\<lambda>freshness_upserts.
      rbind (validate_auto_saves mount (dc_auto_save_upserts c) {} {}) (\<lambda>_.
      rbind (both_deleted_and_upserted entity_deletes
               (entity_upserts \<union> observation_upserts \<union> freshness_upserts)) (\<lambda>_.
      rbind (collect_unique (nonempty ''discovery metadata job identifier cannot be empty'') id
               (\<lambda>i. ''discovery commit contains duplicate metadata job delete `'' @ i @ ''`'')
               (dc_metadata_discovery_deletes c) {}) (\<lambda>_.
      rbind (collect_unique (nonempty ''discovery virtual mutation identifier cannot be empty'') id
               (\<lambda>i. ''discovery commit contains duplicate virtual mutation delete `'' @ i @ ''`'')
               (dc_virtual_mutation_deletes c) {}) (\<lambda>_.
      validate_checkpoint parse_json mount (dc_checkpoint c))))))))))"

definition validate_connector :: "discovery_commit \<Rightarrow> string \<Rightarrow> store_error + unit" where
  "validate_connector c connector =
     (if cs_connector (dc_checkpoint c) \<noteq> connector
      then invalid (''discovery checkpoint connector `'' @ cs_connector (dc_checkpoint c)
             @ ''` does not match mount connector `'' @ connector @ ''`'')
      else Inr ())"

section \<open>The final entities\<close>

text \<open>Two entities may not claim one path; \<open>insert\<close> returns the previous owner.\<close>

fun unique_paths ::
    "mount_id \<Rightarrow> entity_record list \<Rightarrow> (path, remote_id) btree_map \<Rightarrow> store_error + unit" where
  "unique_paths mount [] by_path = Inr ()"
| "unique_paths mount (e # es) by_path =
     (case bm_get by_path (er_path e) of
        Some existing \<Rightarrow>
          if existing \<noteq> er_remote_id e then Inl (DuplicateEntityPath mount (er_path e))
          else unique_paths mount es (bm_insert (er_path e) (er_remote_id e) by_path)
      | None \<Rightarrow> unique_paths mount es (bm_insert (er_path e) (er_remote_id e) by_path))"

definition entities_by_id :: "entity_record list \<Rightarrow> (remote_id, entity_record) btree_map" where
  "entities_by_id es = bm_collect (map (\<lambda>e. (er_remote_id e, e)) es)"

definition final_entities_by_id ::
    "discovery_commit \<Rightarrow> entity_record list \<Rightarrow> (remote_id, entity_record) btree_map" where
  "final_entities_by_id c existing =
     bm_extend (fold bm_remove (dc_entity_deletes c) (entities_by_id existing))
       (map (\<lambda>e. (er_remote_id e, e)) (dc_entity_upserts c))"

definition final_entity_map ::
    "discovery_commit \<Rightarrow> entity_record list \<Rightarrow> store_error + (remote_id, entity_record) btree_map" where
  "final_entity_map c existing =
     (let by_id = final_entities_by_id c existing in
      rbind (unique_paths (dc_mount_id c) (bm_values by_id) []) (\<lambda>_. Inr by_id))"

section \<open>Pending virtual mutations\<close>

definition path_is_affected :: "path \<Rightarrow> path set \<Rightarrow> bool" where
  "path_is_affected p affected_paths \<longleftrightarrow>
     (\<exists>affected\<in>affected_paths. p = affected \<or> prefix affected p \<or> prefix p affected)"

definition mutation_affected :: "virtual_mutation_record \<Rightarrow> remote_id set \<Rightarrow> path set \<Rightarrow> bool" where
  "mutation_affected m ids paths \<longleftrightarrow>
     (case vm_target_remote_id m of None \<Rightarrow> False | Some i \<Rightarrow> i \<in> ids)
   \<or> (case vm_parent_remote_id m of None \<Rightarrow> False | Some i \<Rightarrow> i \<in> ids)
   \<or> (case vm_original_path m of None \<Rightarrow> False | Some p \<Rightarrow> path_is_affected p paths)
   \<or> path_is_affected (vm_projected_path m) paths"

fun check_mutations ::
    "string set \<Rightarrow> remote_id set \<Rightarrow> path set \<Rightarrow> virtual_mutation_record list \<Rightarrow> store_error + unit" where
  "check_mutations deletes ids paths [] = Inr ()"
| "check_mutations deletes ids paths (m # ms) =
     (let affected = mutation_affected m ids paths; deleted = vm_local_id m \<in> deletes in
      if affected \<and> \<not> deleted
      then invalid (''discovery cannot change discovered entity state with pending virtual mutation `''
             @ vm_local_id m @ ''`'')
      else if deleted \<and> \<not> affected
      then invalid (''discovery virtual mutation `'' @ vm_local_id m
             @ ''` is not related to an affected entity'')
      else check_mutations deletes ids paths ms)"

definition validate_virtual_mutation_changes ::
    "discovery_commit \<Rightarrow> virtual_mutation_record list \<Rightarrow> remote_id set \<Rightarrow> path set \<Rightarrow> store_error + unit" where
  "validate_virtual_mutation_changes c mutations ids paths =
     check_mutations (set (dc_virtual_mutation_deletes c)) ids paths mutations"

lemma validate_virtual_mutation_changes_Inr:
  "validate_virtual_mutation_changes c ms ids paths = Inr u \<longleftrightarrow>
     (\<forall>m\<in>set ms. mutation_affected m ids paths \<longleftrightarrow> vm_local_id m \<in> set (dc_virtual_mutation_deletes c))"
proof -
  have "check_mutations ds ids paths ms = Inr u \<longleftrightarrow>
      (\<forall>m\<in>set ms. mutation_affected m ids paths \<longleftrightarrow> vm_local_id m \<in> ds)" for ds
    by (induction ms) (auto simp: Let_def)
  then show ?thesis by (simp add: validate_virtual_mutation_changes_def)
qed

section \<open>Auto-save enrollments\<close>

definition auto_save_owner :: "auto_save_enrollment_record \<Rightarrow> string" where
  "auto_save_owner e = (case as_remote_id e of None \<Rightarrow> ''path'' | Some i \<Rightarrow> remote_id_str i)"

text \<open>The only enrollment that can belong to a change of an entity.\<close>

definition discovery_auto_save_candidate ::
    "auto_save_enrollment_record list \<Rightarrow> remote_id \<Rightarrow> path option
      \<Rightarrow> store_error + auto_save_enrollment_record option" where
  "discovery_auto_save_candidate enrollments i owned_path =
     (let at_path = Option.bind owned_path (\<lambda>p. List.find (\<lambda>e. as_path e = p) enrollments);
          candidates = filter (\<lambda>e. as_remote_id e = Some i \<or> owned_path = Some (as_path e)) enrollments;
          unique = (case candidates of
              [] \<Rightarrow> Inr None
            | [e] \<Rightarrow> Inr (Some e)
            | _ \<Rightarrow> invalid (''multiple auto-save enrollments belong to entity `'' @ remote_id_str i @ ''`''))
      in case at_path of
           None \<Rightarrow> unique
         | Some e \<Rightarrow>
             (case as_remote_id e of
                None \<Rightarrow> unique
              | Some owner \<Rightarrow>
                  if owner \<noteq> i
                  then invalid (''auto-save enrollment at `'' @ path_display (as_path e)
                         @ ''` belongs to `'' @ remote_id_str owner @ ''` instead of `''
                         @ remote_id_str i @ ''`'')
                  else unique))"

fun validate_auto_save_ownership ::
    "auto_save_enrollment_record list \<Rightarrow> (remote_id \<times> path option) list \<Rightarrow> store_error + unit" where
  "validate_auto_save_ownership enrollments [] = Inr ()"
| "validate_auto_save_ownership enrollments ((i, old_path) # affected) =
     rbind (discovery_auto_save_candidate enrollments i old_path) (\<lambda>_.
       validate_auto_save_ownership enrollments affected)"

record auto_save_rehome =
  ah_old_path :: path
  ah_enrollment :: auto_save_enrollment_record

type_synonym path_move = "remote_id \<times> path \<times> path"

definition kept_enrollment :: "remote_id set \<Rightarrow> path set \<Rightarrow> auto_save_enrollment_record \<Rightarrow> bool" where
  "kept_enrollment deleted_ids deleted_paths e \<longleftrightarrow>
     \<not> (case as_remote_id e of None \<Rightarrow> False | Some i \<Rightarrow> i \<in> deleted_ids) \<and> as_path e \<notin> deleted_paths"

text \<open>An enrollment follows its entity to the new path of a move.\<close>

fun plan_rehomes ::
    "auto_save_enrollment_record list \<Rightarrow> path_move list \<Rightarrow> path set \<Rightarrow> store_error + auto_save_rehome list" where
  "plan_rehomes kept [] selected = Inr []"
| "plan_rehomes kept ((i, old_path, new_path) # moves) selected =
     (case filter (\<lambda>e. as_remote_id e = Some i \<or> as_path e = old_path) kept of
        [] \<Rightarrow> plan_rehomes kept moves selected
      | [e] \<Rightarrow>
          if as_path e \<in> selected
          then invalid (''auto-save enrollment `'' @ path_display (as_path e)
                 @ ''` belongs to multiple entity moves'')
          else rbind (plan_rehomes kept moves (insert (as_path e) selected)) (\<lambda>rehomes.
                 Inr (\<lparr>ah_old_path = as_path e, ah_enrollment = e\<lparr>as_path := new_path\<rparr>\<rparr> # rehomes))
      | _ \<Rightarrow> invalid (''multiple auto-save enrollments belong to entity `'' @ remote_id_str i @ ''`''))"

type_synonym enrollments = "(path, auto_save_enrollment_record) btree_map"

fun insert_rehomes :: "auto_save_rehome list \<Rightarrow> enrollments \<Rightarrow> store_error + enrollments" where
  "insert_rehomes [] m = Inr m"
| "insert_rehomes (r # rs) m =
     (case bm_get m (as_path (ah_enrollment r)) of
        Some occupied \<Rightarrow>
          invalid (''cannot rehome auto-save enrollment to `'' @ path_display (as_path (ah_enrollment r))
            @ ''` owned by `'' @ auto_save_owner occupied @ ''`'')
      | None \<Rightarrow> insert_rehomes rs (bm_insert (as_path (ah_enrollment r)) (ah_enrollment r) m))"

definition reject_if :: "bool \<Rightarrow> string \<Rightarrow> store_error + unit" where
  "reject_if b message = (if b then invalid message else Inr ())"

lemma reject_if_Inr [simp]: "reject_if b m = Inr u \<longleftrightarrow> \<not> b"
  by (simp add: reject_if_def)

text \<open>An owned enrollment must sit at the final path of its entity.\<close>

definition owner_at_final_path ::
    "(remote_id, entity_record) btree_map \<Rightarrow> auto_save_enrollment_record \<Rightarrow> store_error + unit" where
  "owner_at_final_path final_entities e =
     (case as_remote_id e of
        None \<Rightarrow> Inr ()
      | Some i \<Rightarrow>
          (case bm_get final_entities i of
             None \<Rightarrow> invalid (''auto-save enrollment `'' @ path_display (as_path e)
               @ ''` references entity `'' @ remote_id_str i @ ''` outside the final mount tree'')
           | Some entity \<Rightarrow>
               if as_path e \<noteq> er_path entity
               then invalid (case List.find (\<lambda>x. er_path x = as_path e) (bm_values final_entities) of
                   Some occupant \<Rightarrow> ''auto-save enrollment at `'' @ path_display (as_path e)
                     @ ''` belongs to `'' @ remote_id_str i @ ''` but that path is occupied by `''
                     @ remote_id_str (er_remote_id occupant) @ ''`''
                 | None \<Rightarrow> ''auto-save enrollment for `'' @ remote_id_str i @ ''` must use final path `''
                     @ path_display (er_path entity) @ ''`'')
               else Inr ()))"

definition reassigned_to ::
    "discovery_commit \<Rightarrow> auto_save_enrollment_record \<Rightarrow> entity_record option" where
  "reassigned_to c e =
     List.find (\<lambda>x. er_path x = as_path e \<and> er_remote_id x \<notin> set (dc_entity_deletes c)) (dc_entity_upserts c)"

definition check_auto_save_upsert ::
    "discovery_commit \<Rightarrow> path set \<Rightarrow> path set \<Rightarrow> path_move list \<Rightarrow> (remote_id, entity_record) btree_map
      \<Rightarrow> auto_save_enrollment_record \<Rightarrow> enrollments \<Rightarrow> store_error + unit" where
  "check_auto_save_upsert c deleted_paths reassigned_paths path_moves final_entities e m =
     (let owner = as_remote_id e; shown = path_display (as_path e);
          owner_str = (case owner of None \<Rightarrow> [] | Some i \<Rightarrow> remote_id_str i) in
      rbind (owner_at_final_path final_entities e) (\<lambda>_.
      rbind (reject_if (\<exists>i\<in>set_option owner. i \<in> set (dc_entity_deletes c))
              (''auto-save enrollment `'' @ shown @ ''` references deleted entity `'' @ owner_str @ ''`'')) (\<lambda>_.
      rbind (reject_if (as_path e \<in> deleted_paths \<and> as_path e \<notin> reassigned_paths)
              (''auto-save enrollment path `'' @ shown @ ''` belongs to a deleted entity'')) (\<lambda>_.
      rbind (case reassigned_to c e of
               None \<Rightarrow> Inr ()
             | Some x \<Rightarrow> reject_if (owner \<noteq> None \<and> owner \<noteq> Some (er_remote_id x))
                 (''auto-save enrollment at `'' @ shown @ ''` belongs to `'' @ owner_str
                  @ ''` instead of reassigned entity `'' @ remote_id_str (er_remote_id x) @ ''`'')) (\<lambda>_.
      rbind (case List.find (\<lambda>(i, _, _). owner = Some i) path_moves of
               None \<Rightarrow> Inr ()
             | Some (_, _, new_path) \<Rightarrow> reject_if (as_path e \<noteq> new_path)
                 (''auto-save enrollment for moved entity `'' @ owner_str @ ''` must use `''
                  @ path_display new_path @ ''`'')) (\<lambda>_.
      rbind (case bm_get m (as_path e) of
               None \<Rightarrow> Inr ()
             | Some occupied \<Rightarrow> reject_if (as_remote_id occupied \<noteq> owner)
                 (''auto-save enrollment path `'' @ shown @ ''` is owned by `''
                  @ auto_save_owner occupied @ ''`'')) (\<lambda>_.
      case List.find (\<lambda>(p, existing). owner \<noteq> None \<and> p \<noteq> as_path e \<and> as_remote_id existing = owner) m of
        None \<Rightarrow> Inr ()
      | Some (p, _) \<Rightarrow> invalid (''auto-save enrollment for `'' @ owner_str @ ''` already exists at `''
          @ path_display p @ ''`''))))))))"

fun check_auto_save_upserts ::
    "(auto_save_enrollment_record \<Rightarrow> enrollments \<Rightarrow> store_error + unit) \<Rightarrow> auto_save_enrollment_record list
      \<Rightarrow> enrollments \<Rightarrow> store_error + enrollments" where
  "check_auto_save_upserts check [] m = Inr m"
| "check_auto_save_upserts check (e # es) m =
     rbind (check e m) (\<lambda>_. check_auto_save_upserts check es (bm_insert (as_path e) e m))"

text \<open>The enrollments that the checks assume: those kept, the rehomed ones at their new paths. The
  result of the source is the list of rehomes; the final enrollments are returned with it here, for the
  lemmas.\<close>

definition plan_auto_save ::
    "discovery_commit \<Rightarrow> auto_save_enrollment_record list \<Rightarrow> (remote_id \<times> path option) list \<Rightarrow> path_move list
      \<Rightarrow> (remote_id, entity_record) btree_map \<Rightarrow> store_error + auto_save_rehome list \<times> enrollments" where
  "plan_auto_save c existing affected path_moves final_entities =
     rbind (validate_auto_save_ownership existing affected) (\<lambda>_.
     let deleted_ids = set (dc_entity_deletes c);
         deleted_paths = set (List.map_filter (\<lambda>(i, p). if i \<in> deleted_ids then p else None) affected);
         reassigned_paths = er_path ` {x \<in> set (dc_entity_upserts c). er_remote_id x \<notin> deleted_ids};
         kept = filter (kept_enrollment deleted_ids deleted_paths) existing;
         final_enrollments = bm_collect (map (\<lambda>e. (as_path e, e)) kept) in
     rbind (plan_rehomes kept path_moves {}) (\<lambda>rehomes.
     rbind (insert_rehomes rehomes (fold bm_remove (map ah_old_path rehomes) final_enrollments)) (\<lambda>m.
     rbind (check_auto_save_upserts
              (check_auto_save_upsert c deleted_paths reassigned_paths path_moves final_entities)
              (dc_auto_save_upserts c) m) (\<lambda>m'.
     Inr (rehomes, m')))))"

definition plan_auto_save_changes ::
    "discovery_commit \<Rightarrow> auto_save_enrollment_record list \<Rightarrow> (remote_id \<times> path option) list \<Rightarrow> path_move list
      \<Rightarrow> (remote_id, entity_record) btree_map \<Rightarrow> store_error + auto_save_rehome list" where
  "plan_auto_save_changes c existing affected path_moves final_entities =
     rbind (plan_auto_save c existing affected path_moves final_entities) (\<lambda>(rehomes, _). Inr rehomes)"

section \<open>Preflight\<close>

record discovery_preflight =
  pf_final_entities :: "(remote_id, entity_record) btree_map"
  pf_entity_deletes :: "remote_id set"
  pf_deleted_paths :: "(remote_id, path) btree_map"
  pf_path_moves :: "path_move list"
  pf_auto_save_rehomes :: "auto_save_rehome list"

fun check_all :: "('a \<Rightarrow> store_error + unit) \<Rightarrow> 'a list \<Rightarrow> store_error + unit" where
  "check_all check [] = Inr ()"
| "check_all check (x # xs) = rbind (check x) (\<lambda>_. check_all check xs)"

lemma check_all_Inr [simp]: "check_all check xs = Inr u \<longleftrightarrow> (\<forall>x\<in>set xs. check x = Inr ())"
  by (induction xs) (auto simp: rbind_Inr_iff)

definition snapshot_in_mount ::
    "mount_id \<Rightarrow> entity_record list \<Rightarrow> auto_save_enrollment_record list \<Rightarrow> virtual_mutation_record list
      \<Rightarrow> store_error + unit" where
  "snapshot_in_mount mount entities enrollments mutations =
     rbind (check_all (\<lambda>e. validate_mount ''preflight entity'' (er_remote_id e) (er_mount_id e) mount) entities) (\<lambda>_.
     rbind (check_all (\<lambda>e. reject_if (as_mount_id e \<noteq> mount)
       (''discovery preflight auto-save enrollment `'' @ path_display (as_path e) @ ''` belongs to mount `''
        @ mount_id_str (as_mount_id e) @ ''`, expected `'' @ mount_id_str mount @ ''`'')) enrollments) (\<lambda>_.
     check_all (\<lambda>m. reject_if (vm_mount_id m \<noteq> mount)
       (''discovery preflight virtual mutation `'' @ vm_local_id m @ ''` belongs to mount `''
        @ mount_id_str (vm_mount_id m) @ ''`, expected `'' @ mount_id_str mount @ ''`'')) mutations))"

definition deleted_paths_of :: "discovery_commit \<Rightarrow> (remote_id, entity_record) btree_map \<Rightarrow> (remote_id, path) btree_map" where
  "deleted_paths_of c by_id =
     bm_collect (List.map_filter (\<lambda>i. map_option (\<lambda>e. (i, er_path e)) (bm_get by_id i)) (dc_entity_deletes c))"

definition path_moves_of :: "discovery_commit \<Rightarrow> (remote_id, entity_record) btree_map \<Rightarrow> path_move list" where
  "path_moves_of c by_id =
     List.map_filter (\<lambda>e. case bm_get by_id (er_remote_id e) of
         None \<Rightarrow> None
       | Some x \<Rightarrow> if er_path x \<noteq> er_path e then Some (er_remote_id e, er_path x, er_path e) else None)
       (dc_entity_upserts c)"

definition affected_entities_of ::
    "discovery_commit \<Rightarrow> (remote_id, entity_record) btree_map \<Rightarrow> (remote_id \<times> path option) list" where
  "affected_entities_of c by_id =
     map (\<lambda>i. (i, map_option er_path (bm_get by_id i))) (dc_entity_deletes c)
     @ map (\<lambda>(i, old_path, _). (i, Some old_path)) (path_moves_of c by_id)"

definition affected_paths_of :: "discovery_commit \<Rightarrow> (remote_id, entity_record) btree_map \<Rightarrow> path set" where
  "affected_paths_of c by_id =
     set (bm_values (deleted_paths_of c by_id))
     \<union> set (concat (map (\<lambda>(_, old_path, new_path). [old_path, new_path]) (path_moves_of c by_id)))"

definition preflight_details ::
    "(string \<Rightarrow> string + json) \<Rightarrow> discovery_commit \<Rightarrow> string \<Rightarrow> entity_record list
      \<Rightarrow> auto_save_enrollment_record list \<Rightarrow> virtual_mutation_record list
      \<Rightarrow> store_error + discovery_preflight" where
  "preflight_details parse_json c connector existing enrollments mutations =
     rbind (commit_validate parse_json c) (\<lambda>_.
     rbind (validate_connector c connector) (\<lambda>_.
     rbind (snapshot_in_mount (dc_mount_id c) existing enrollments mutations) (\<lambda>_.
     rbind (final_entity_map c existing) (\<lambda>final_entities.
     let by_id = entities_by_id existing;
         path_moves = path_moves_of c by_id;
         affected_ids = set (dc_entity_deletes c) \<union> fst ` set path_moves in
     rbind (validate_virtual_mutation_changes c mutations affected_ids (affected_paths_of c by_id)) (\<lambda>_.
     rbind (plan_auto_save_changes c enrollments (affected_entities_of c by_id) path_moves final_entities)
       (\<lambda>rehomes.
     Inr \<lparr>pf_final_entities = final_entities, pf_entity_deletes = set (dc_entity_deletes c),
          pf_deleted_paths = deleted_paths_of c by_id, pf_path_moves = path_moves,
          pf_auto_save_rehomes = rehomes\<rparr>))))))"

definition preflight ::
    "(string \<Rightarrow> string + json) \<Rightarrow> discovery_commit \<Rightarrow> string \<Rightarrow> entity_record list
      \<Rightarrow> auto_save_enrollment_record list \<Rightarrow> virtual_mutation_record list \<Rightarrow> store_error + unit" where
  "preflight parse_json c connector existing enrollments mutations =
     rbind (preflight_details parse_json c connector existing enrollments mutations) (\<lambda>_. Inr ())"

section \<open>Reservations and transaction records\<close>

record discovery_reservation =
  rv_mount :: mount_config
  rv_mount_live_mode :: "mount_live_mode_record option"
  rv_checkpoint :: "connector_state_record option"
  rv_entities :: "entity_record list"
  rv_shadows :: "shadow_snapshot_record list"
  rv_hydration_jobs :: "hydration_job_record list"
  rv_virtual_mutations :: "virtual_mutation_record list"
  rv_auto_save_enrollments :: "auto_save_enrollment_record list"
  rv_remote_observations :: "remote_observation_record list"
  rv_freshness_states :: "freshness_state_record list"
  rv_metadata_discovery_jobs :: "metadata_discovery_job_record list"
  rv_unsettled_journals :: "journal_entry list"

definition changed_category :: "discovery_reservation \<Rightarrow> discovery_reservation \<Rightarrow> string option" where
  "changed_category r current =
     (if rv_mount r \<noteq> rv_mount current then Some ''mount''
      else if rv_mount_live_mode r \<noteq> rv_mount_live_mode current then Some ''mount_live_mode''
      else if rv_checkpoint r \<noteq> rv_checkpoint current then Some ''checkpoint''
      else if rv_entities r \<noteq> rv_entities current then Some ''entities''
      else if rv_shadows r \<noteq> rv_shadows current then Some ''shadows''
      else if rv_hydration_jobs r \<noteq> rv_hydration_jobs current then Some ''hydration_jobs''
      else if rv_virtual_mutations r \<noteq> rv_virtual_mutations current then Some ''virtual_mutations''
      else if rv_auto_save_enrollments r \<noteq> rv_auto_save_enrollments current
      then Some ''auto_save_enrollments''
      else if rv_remote_observations r \<noteq> rv_remote_observations current then Some ''remote_observations''
      else if rv_freshness_states r \<noteq> rv_freshness_states current then Some ''freshness_states''
      else if rv_metadata_discovery_jobs r \<noteq> rv_metadata_discovery_jobs current
      then Some ''metadata_discovery_jobs''
      else if rv_unsettled_journals r \<noteq> rv_unsettled_journals current then Some ''unsettled_journals''
      else None)"

lemma changed_category_None: "changed_category r current = None \<longleftrightarrow> r = current"
proof
  assume "changed_category r current = None"
  then show "r = current"
    by (intro discovery_reservation.equality) (simp_all add: changed_category_def split: if_splits)
qed (simp add: changed_category_def)

datatype discovery_transaction_status =
    TxReserved | TxApplying | TxProjected | TxCommitted | TxRepairPending | TxAborted | TxFinalized

definition status_as_str :: "discovery_transaction_status \<Rightarrow> string" where
  "status_as_str s =
     (case s of TxReserved \<Rightarrow> ''reserved'' | TxApplying \<Rightarrow> ''applying'' | TxProjected \<Rightarrow> ''projected''
      | TxCommitted \<Rightarrow> ''committed'' | TxRepairPending \<Rightarrow> ''repair_pending'' | TxAborted \<Rightarrow> ''aborted''
      | TxFinalized \<Rightarrow> ''finalized'')"

definition status_parse :: "string \<Rightarrow> store_error + discovery_transaction_status" where
  "status_parse v =
     (if v = ''reserved'' then Inr TxReserved
      else if v = ''applying'' then Inr TxApplying
      else if v = ''projected'' then Inr TxProjected
      else if v = ''committed'' then Inr TxCommitted
      else if v = ''repair_pending'' then Inr TxRepairPending
      else if v = ''aborted'' then Inr TxAborted
      else if v = ''finalized'' then Inr TxFinalized
      else Inl (StoreInvalidState (''unknown discovery transaction status `'' @ v @ ''`'')))"

definition status_is_active :: "discovery_transaction_status \<Rightarrow> bool" where
  "status_is_active s \<longleftrightarrow> s \<noteq> TxAborted \<and> s \<noteq> TxFinalized"

lemma status_parse_as_str: "status_parse (status_as_str s) = Inr s"
  by (cases s) (simp_all add: status_parse_def status_as_str_def)

record prepared_discovery_transaction =
  pd_commit :: transactional_discovery_commit
  pd_projection :: projection_mode
  pd_plan :: json
  pd_reservation :: discovery_reservation
  pd_effects :: json
  pd_created_at :: string

definition prepared_new ::
    "transactional_discovery_commit \<Rightarrow> projection_mode \<Rightarrow> json \<Rightarrow> discovery_reservation \<Rightarrow> string
      \<Rightarrow> prepared_discovery_transaction" where
  "prepared_new c projection plan reservation created_at =
     \<lparr>pd_commit = c, pd_projection = projection, pd_plan = canonicalize_json_value plan,
      pd_reservation = reservation, pd_effects = JArray [], pd_created_at = created_at\<rparr>"

definition with_effects :: "prepared_discovery_transaction \<Rightarrow> json \<Rightarrow> prepared_discovery_transaction" where
  "with_effects p effects = p\<lparr>pd_effects := canonicalize_json_value effects\<rparr>"

record discovery_transaction_record =
  tr_transaction_id :: discovery_transaction_id
  tr_mount_id :: mount_id
  tr_projection :: projection_mode
  tr_status :: discovery_transaction_status
  tr_active :: bool
  tr_plan :: json
  tr_commit :: transactional_discovery_commit
  tr_reservation :: discovery_reservation
  tr_effects :: json
  tr_error :: "json option"
  tr_created_at :: string
  tr_updated_at :: string
  tr_committed_at :: "string option"
  tr_finalized_at :: "string option"

definition transaction_error :: "discovery_transaction_id \<Rightarrow> string \<Rightarrow> store_error" where
  "transaction_error i rest =
     StoreInvalidState (''discovery transaction `'' @ discovery_transaction_id_str i @ ''`'' @ rest)"

definition reservation_changed :: "discovery_transaction_id \<Rightarrow> string \<Rightarrow> store_error" where
  "reservation_changed i category = transaction_error i ('' reservation changed: '' @ category)"

definition transaction_missing :: "discovery_transaction_id \<Rightarrow> store_error" where
  "transaction_missing i = transaction_error i '' was not found''"

definition require_transaction_status ::
    "discovery_transaction_record \<Rightarrow> discovery_transaction_status \<Rightarrow> store_error + unit" where
  "require_transaction_status r expected =
     (if tr_status r \<noteq> expected \<or> \<not> tr_active r
      then Inl (transaction_error (tr_transaction_id r) ('' expected active status `''
        @ status_as_str expected @ ''`, found `'' @ status_as_str (tr_status r) @ ''`''))
      else Inr ())"

definition record_of_prepared :: "prepared_discovery_transaction \<Rightarrow> discovery_transaction_record" where
  "record_of_prepared p =
     \<lparr>tr_transaction_id = tc_transaction_id (pd_commit p), tr_mount_id = dc_mount_id (tc_commit (pd_commit p)),
      tr_projection = pd_projection p, tr_status = TxReserved, tr_active = True,
      tr_plan = canonicalize_json_value (pd_plan p), tr_commit = pd_commit p,
      tr_reservation = pd_reservation p, tr_effects = canonicalize_json_value (pd_effects p),
      tr_error = None, tr_created_at = pd_created_at p, tr_updated_at = pd_created_at p,
      tr_committed_at = None, tr_finalized_at = None\<rparr>"

definition record_from_prepared ::
    "(string \<Rightarrow> string + json) \<Rightarrow> prepared_discovery_transaction \<Rightarrow> discovery_reservation
      \<Rightarrow> store_error + discovery_transaction_record" where
  "record_from_prepared parse_json p current =
     (let i = tc_transaction_id (pd_commit p); c = tc_commit (pd_commit p); r = pd_reservation p in
      if discovery_transaction_id_str i = []
      then Inl (StoreInvalidState ''discovery transaction identifier cannot be empty'')
      else if pd_created_at p = []
      then Inl (transaction_error i '' created_at cannot be empty'')
      else if dc_mount_id c \<noteq> mc_mount_id (rv_mount r)
      then Inl (transaction_error i '' commit mount does not match its reservation'')
      else if pd_projection p \<noteq> mc_projection (rv_mount r)
      then Inl (transaction_error i '' projection does not match its reservation'')
      else if pd_projection p \<noteq> mc_projection (rv_mount current)
      then Inl (transaction_error i '' projection does not match current mount projection'')
      else case changed_category r current of
          Some category \<Rightarrow> Inl (reservation_changed i category)
        | None \<Rightarrow>
            rbind (preflight_details parse_json c (mc_connector (rv_mount current)) (rv_entities current)
                     (rv_auto_save_enrollments current) (rv_virtual_mutations current)) (\<lambda>_.
            Inr (record_of_prepared p)))"

definition prepared_matches_record ::
    "prepared_discovery_transaction \<Rightarrow> discovery_transaction_record \<Rightarrow> bool" where
  "prepared_matches_record p r \<longleftrightarrow>
     pd_commit p = tr_commit r \<and> pd_projection p = tr_projection r
   \<and> canonicalize_json_value (pd_plan p) = tr_plan r \<and> pd_reservation p = tr_reservation r
   \<and> pd_created_at p = tr_created_at r"

lemma prepared_matches_own_record: "prepared_matches_record p (record_of_prepared p)"
  by (simp add: prepared_matches_record_def record_of_prepared_def)

lemma record_from_prepared_Inr:
  assumes "record_from_prepared parse_json p current = Inr r"
  shows "r = record_of_prepared p" "pd_reservation p = current"
    "dc_mount_id (tc_commit (pd_commit p)) = mc_mount_id (rv_mount current)"
    "\<exists>d. preflight_details parse_json (tc_commit (pd_commit p)) (mc_connector (rv_mount current))
       (rv_entities current) (rv_auto_save_enrollments current) (rv_virtual_mutations current) = Inr d"
  using assms
  by (auto simp: record_from_prepared_def Let_def rbind_Inr_iff changed_category_None
      split: if_splits option.splits)

end
