(* ===== verification/Rust_Int.thy ===== *)
theory Rust_Int
  imports Prelude
begin

text \<open>
  Checked and saturating arithmetic of \<open>u64\<close> and the conversion of a \<open>usize\<close>, as the standard library of
  Rust has them, with their meaning on natural numbers.
\<close>

definition u64_checked_add :: "u64 \<Rightarrow> u64 \<Rightarrow> u64 option" where
  "u64_checked_add a b = (if uint a + uint b < 2 ^ 64 then Some (a + b) else None)"

definition u64_checked_sub :: "u64 \<Rightarrow> u64 \<Rightarrow> u64 option" where
  "u64_checked_sub a b = (if b \<le> a then Some (a - b) else None)"

definition u64_saturating_sub :: "u64 \<Rightarrow> u64 \<Rightarrow> u64" where
  "u64_saturating_sub a b = (if b \<le> a then a - b else 0)"

definition usize_checked_add :: "usize \<Rightarrow> usize \<Rightarrow> usize option" where
  "usize_checked_add a b = (if int a + int b < 2 ^ 64 then Some (a + b) else None)"

definition u32_saturating_add :: "32 word \<Rightarrow> 32 word \<Rightarrow> 32 word" where
  "u32_saturating_add a b = (if a + b < a then - 1 else a + b)"

definition ok_or :: "'e \<Rightarrow> 'a option \<Rightarrow> 'e + 'a" where
  "ok_or e x = (case x of None \<Rightarrow> Inl e | Some a \<Rightarrow> Inr a)"

lemma ok_or_Inr [simp]: "ok_or e x = Inr a \<longleftrightarrow> x = Some a"
  by (simp add: ok_or_def split: option.splits)

lemma uint_sum_less: "uint a + uint b < 2 ^ 64 \<longleftrightarrow> unat a + unat b < 2 ^ 64" for a b :: u64
proof -
  have "uint a + uint b = int (unat a + unat b)" by (simp only: uint_nat of_nat_add)
  then show ?thesis by (simp only: of_nat_less_numeral_power_cancel_iff)
qed

lemma u64_checked_add_iff:
  "u64_checked_add a b = Some c \<longleftrightarrow> unat a + unat b < 2 ^ 64 \<and> unat c = unat a + unat b"
proof (cases "unat a + unat b < 2 ^ 64")
  case True
  then have "unat (a + b) = unat a + unat b" by (simp add: unat_word_ariths(1))
  with True have "unat c = unat a + unat b \<longleftrightarrow> a + b = c" by (metis word_unat_eq_iff)
  with True show ?thesis by (simp only: u64_checked_add_def uint_sum_less if_True option.inject simp_thms)
next
  case False
  then show ?thesis by (simp only: u64_checked_add_def uint_sum_less if_False simp_thms option.distinct)
qed

lemma u64_checked_add_Some: "u64_checked_add a b = Some c \<Longrightarrow> unat c = unat a + unat b"
  by (simp add: u64_checked_add_iff)

lemma u64_checked_add_fits: "unat a + unat b < 2 ^ 64 \<Longrightarrow> u64_checked_add a b = Some (a + b)"
  by (simp only: u64_checked_add_def uint_sum_less if_True)

lemma u64_checked_sub_iff: "u64_checked_sub a b = Some c \<longleftrightarrow> unat b \<le> unat a \<and> unat c = unat a - unat b"
  by (auto simp: u64_checked_sub_def word_le_nat_alt unat_sub word_unat_eq_iff)

lemma unat_saturating_sub [simp]: "unat (u64_saturating_sub a b) = unat a - unat b"
  by (simp add: u64_saturating_sub_def word_le_nat_alt unat_sub)

lemma u64_bound: "unat (a :: u64) < 2 ^ 64"
  using unsigned_less[where 'a=nat, of a] by simp

lemma unat_u32_saturating_add: "unat (u32_saturating_add a b) = min (2 ^ 32 - 1) (unat a + unat b)"
proof -
  have ua: "unat a < 2 ^ 32" "unat b < 2 ^ 32"
    using unsigned_less[where 'a=nat, of a] unsigned_less[where 'a=nat, of b] by simp_all
  have sum: "unat (a + b) = (unat a + unat b) mod 2 ^ 32" by (simp add: unat_word_ariths(1))
  have max: "unat (- 1 :: 32 word) = 2 ^ 32 - 1" by (simp add: unsigned_minus_1_eq_mask mask_eq_exp_minus_1)
  show ?thesis
  proof (cases "unat a + unat b < 2 ^ 32")
    case True
    then show ?thesis using sum by (simp add: u32_saturating_add_def word_less_nat_alt)
  next
    case False
    then have "(unat a + unat b) mod 2 ^ 32 = unat a + unat b - 2 ^ 32"
      using ua by (simp add: mod_if)
    with False sum max ua show ?thesis by (simp add: u32_saturating_add_def word_less_nat_alt)
  qed
qed

end
