(* ===== verification/Store_Memory.thy ===== *)
theory Store_Memory
  imports Discovery_Commit Rust_Int
begin

text \<open>
  The repositories of \<open>InMemoryStateStore\<close> (\<open>locality-store/src/memory.rs\<close>) with the derived queries
  and the move validation of \<open>repository.rs\<close>; the discovery transactions of the store are in
  Discovery_Store and the workspace bindings, which no operation here touches, are left out of the
  record. An operation that always returns \<open>Ok(())\<close> is the function on the state. The lemmas show that
  the index by path always mirrors the entities, and what the latest journal of an entity is.
\<close>

section \<open>The store\<close>

record state_store =
  st_mounts :: "(mount_id, mount_config) btree_map"
  st_mount_live_modes :: "(mount_id, mount_live_mode_record) btree_map"
  st_connections :: "(connection_id, connection_record) btree_map"
  st_connector_profiles :: "(connector_profile_id, connector_profile_record) btree_map"
  st_connector_states :: "(string \<times> string \<times> string, connector_state_record) btree_map"
  st_entities :: "(mount_id \<times> remote_id, entity_record) btree_map"
  st_entities_by_path :: "(mount_id \<times> path, remote_id) btree_map"
  st_shadows :: "(mount_id \<times> remote_id, shadow_snapshot_record) btree_map"
  st_hydration_jobs :: "(mount_id \<times> remote_id, hydration_job_record) btree_map"
  st_virtual_mutations :: "(mount_id \<times> string, virtual_mutation_record) btree_map"
  st_auto_save_enrollments :: "(mount_id \<times> path, auto_save_enrollment_record) btree_map"
  st_remote_observations :: "(mount_id \<times> remote_id, remote_observation_record) btree_map"
  st_freshness_states :: "(mount_id \<times> remote_id, freshness_state_record) btree_map"
  st_metadata_discovery_jobs :: "(mount_id \<times> string, metadata_discovery_job_record) btree_map"
  st_journals :: journals
  st_discovery_transactions :: "(discovery_transaction_id, discovery_transaction_record) btree_map"

definition state_store_new :: state_store where
  "state_store_new =
     \<lparr>st_mounts = [], st_mount_live_modes = [], st_connections = [], st_connector_profiles = [],
      st_connector_states = [], st_entities = [], st_entities_by_path = [], st_shadows = [],
      st_hydration_jobs = [], st_virtual_mutations = [], st_auto_save_enrollments = [],
      st_remote_observations = [], st_freshness_states = [], st_metadata_discovery_jobs = [],
      st_journals = [], st_discovery_transactions = []\<rparr>"

type_synonym 'a store_op = "state_store \<Rightarrow> (store_error + 'a) \<times> state_store"

abbreviation in_mount :: "mount_id \<Rightarrow> ((mount_id \<times> 'k::linorder), 'v) btree_map \<Rightarrow> ((mount_id \<times> 'k), 'v) btree_map" where
  "in_mount mount \<equiv> bm_retain (\<lambda>(m, _) _. m = mount)"

abbreviation not_in_mount :: "mount_id \<Rightarrow> ((mount_id \<times> 'k::linorder), 'v) btree_map \<Rightarrow> ((mount_id \<times> 'k), 'v) btree_map" where
  "not_in_mount mount \<equiv> bm_retain (\<lambda>(m, _) _. m \<noteq> mount)"

section \<open>Mounts\<close>

definition clear_mount_source_state :: "mount_id \<Rightarrow> state_store \<Rightarrow> state_store" where
  "clear_mount_source_state mount s =
     s\<lparr>st_entities := not_in_mount mount (st_entities s),
       st_entities_by_path := not_in_mount mount (st_entities_by_path s),
       st_shadows := not_in_mount mount (st_shadows s),
       st_hydration_jobs := not_in_mount mount (st_hydration_jobs s),
       st_virtual_mutations := not_in_mount mount (st_virtual_mutations s),
       st_mount_live_modes := bm_retain (\<lambda>m _. m \<noteq> mount) (st_mount_live_modes s),
       st_auto_save_enrollments := not_in_mount mount (st_auto_save_enrollments s),
       st_remote_observations := not_in_mount mount (st_remote_observations s),
       st_freshness_states := not_in_mount mount (st_freshness_states s),
       st_metadata_discovery_jobs := not_in_mount mount (st_metadata_discovery_jobs s),
       st_connector_states :=
         bm_retain (\<lambda>(_, scope_kind, scope_id) _. scope_kind \<noteq> ''mount'' \<or> scope_id \<noteq> mount_id_str mount)
           (st_connector_states s),
       st_journals := bm_retain (\<lambda>_ entry. je_mount_id entry \<noteq> mount) (st_journals s)\<rparr>"

definition mount_source_identity_changed :: "mount_config \<Rightarrow> mount_config \<Rightarrow> bool" where
  "mount_source_identity_changed existing other \<longleftrightarrow>
     mc_connector existing \<noteq> mc_connector other \<or> mc_remote_root_id existing \<noteq> mc_remote_root_id other
   \<or> mc_connection_id existing \<noteq> mc_connection_id other \<or> mc_settings_json existing \<noteq> mc_settings_json other"

definition save_mount :: "mount_config \<Rightarrow> state_store \<Rightarrow> state_store" where
  "save_mount m s =
     (let s' = (case bm_get (st_mounts s) (mc_mount_id m) of
                  None \<Rightarrow> s
                | Some existing \<Rightarrow>
                    if mount_source_identity_changed existing m then clear_mount_source_state (mc_mount_id m) s
                    else s)
      in s'\<lparr>st_mounts := bm_insert (mc_mount_id m) m (st_mounts s')\<rparr>)"

definition get_mount :: "mount_id \<Rightarrow> state_store \<Rightarrow> mount_config option" where
  "get_mount mount s = bm_get (st_mounts s) mount"

definition load_mounts :: "state_store \<Rightarrow> mount_config list" where
  "load_mounts s = bm_values (st_mounts s)"

definition save_mount_live_mode :: "mount_live_mode_record \<Rightarrow> state_store \<Rightarrow> state_store" where
  "save_mount_live_mode r s = s\<lparr>st_mount_live_modes := bm_insert (lm_mount_id r) r (st_mount_live_modes s)\<rparr>"

definition get_mount_live_mode :: "mount_id \<Rightarrow> state_store \<Rightarrow> mount_live_mode_record option" where
  "get_mount_live_mode mount s = bm_get (st_mount_live_modes s) mount"

definition list_mount_live_modes :: "state_store \<Rightarrow> mount_live_mode_record list" where
  "list_mount_live_modes s = bm_values (st_mount_live_modes s)"

definition delete_mount_live_mode :: "mount_id \<Rightarrow> state_store \<Rightarrow> state_store" where
  "delete_mount_live_mode mount s = s\<lparr>st_mount_live_modes := bm_remove mount (st_mount_live_modes s)\<rparr>"

section \<open>Connections, profiles, connector states\<close>

definition save_connection :: "connection_record \<Rightarrow> state_store \<Rightarrow> state_store" where
  "save_connection r s = s\<lparr>st_connections := bm_insert (cn_connection_id r) r (st_connections s)\<rparr>"

definition get_connection :: "connection_id \<Rightarrow> state_store \<Rightarrow> connection_record option" where
  "get_connection i s = bm_get (st_connections s) i"

definition list_connections :: "state_store \<Rightarrow> connection_record list" where
  "list_connections s = bm_values (st_connections s)"

definition delete_connection :: "connection_id \<Rightarrow> state_store \<Rightarrow> state_store" where
  "delete_connection i s = s\<lparr>st_connections := bm_remove i (st_connections s)\<rparr>"

definition save_connector_profile :: "connector_profile_record \<Rightarrow> state_store \<Rightarrow> state_store" where
  "save_connector_profile r s =
     s\<lparr>st_connector_profiles := bm_insert (cp_profile_id r) r (st_connector_profiles s)\<rparr>"

definition get_connector_profile :: "connector_profile_id \<Rightarrow> state_store \<Rightarrow> connector_profile_record option" where
  "get_connector_profile i s = bm_get (st_connector_profiles s) i"

definition list_connector_profiles :: "state_store \<Rightarrow> connector_profile_record list" where
  "list_connector_profiles s = bm_values (st_connector_profiles s)"

definition connector_state_key :: "connector_state_record \<Rightarrow> string \<times> string \<times> string" where
  "connector_state_key r = (cs_connector r, cs_scope_kind r, cs_scope_id r)"

definition save_connector_state :: "connector_state_record \<Rightarrow> state_store \<Rightarrow> state_store" where
  "save_connector_state r s =
     s\<lparr>st_connector_states := bm_insert (connector_state_key r) r (st_connector_states s)\<rparr>"

definition get_connector_state :: "string \<Rightarrow> string \<Rightarrow> string \<Rightarrow> state_store \<Rightarrow> connector_state_record option" where
  "get_connector_state connector scope_kind scope_id s =
     bm_get (st_connector_states s) (connector, scope_kind, scope_id)"

section \<open>Entities and their index by path\<close>

definition entity_key :: "entity_record \<Rightarrow> mount_id \<times> remote_id" where
  "entity_key e = (er_mount_id e, er_remote_id e)"

definition path_key :: "entity_record \<Rightarrow> mount_id \<times> path" where
  "path_key e = (er_mount_id e, er_path e)"

definition index_entity :: "entity_record \<Rightarrow> state_store \<Rightarrow> state_store" where
  "index_entity e s =
     (let paths = (case bm_get (st_entities s) (entity_key e) of
                     None \<Rightarrow> st_entities_by_path s
                   | Some previous \<Rightarrow>
                       if er_path previous \<noteq> er_path e
                       then bm_remove (path_key previous) (st_entities_by_path s)
                       else st_entities_by_path s)
      in s\<lparr>st_entities_by_path := bm_insert (path_key e) (er_remote_id e) paths,
           st_entities := bm_insert (entity_key e) e (st_entities s)\<rparr>)"

definition save_entity :: "entity_record \<Rightarrow> unit store_op" where
  "save_entity e s =
     (case bm_get (st_entities_by_path s) (path_key e) of
        Some existing \<Rightarrow>
          if existing \<noteq> er_remote_id e then (Inl (DuplicateEntityPath (er_mount_id e) (er_path e)), s)
          else (Inr (), index_entity e s)
      | None \<Rightarrow> (Inr (), index_entity e s))"

definition get_entity :: "mount_id \<Rightarrow> remote_id \<Rightarrow> state_store \<Rightarrow> entity_record option" where
  "get_entity mount i s = bm_get (st_entities s) (mount, i)"

definition find_entity_by_path :: "mount_id \<Rightarrow> path \<Rightarrow> state_store \<Rightarrow> entity_record option" where
  "find_entity_by_path mount p s =
     (case bm_get (st_entities_by_path s) (mount, p) of None \<Rightarrow> None | Some i \<Rightarrow> get_entity mount i s)"

definition list_entities :: "mount_id \<Rightarrow> state_store \<Rightarrow> entity_record list" where
  "list_entities mount s =
     sort_key (\<lambda>e. (er_path e, remote_id_str (er_remote_id e))) (bm_values (in_mount mount (st_entities s)))"

definition delete_entity :: "mount_id \<Rightarrow> remote_id \<Rightarrow> state_store \<Rightarrow> state_store" where
  "delete_entity mount i s =
     (case bm_get (st_entities s) (mount, i) of
        None \<Rightarrow> s
      | Some e \<Rightarrow>
          s\<lparr>st_entities := bm_remove (mount, i) (st_entities s),
            st_entities_by_path := bm_remove (path_key e) (st_entities_by_path s)\<rparr>)"

section \<open>Shadows\<close>

definition save_shadow :: "mount_id \<Rightarrow> shadow_document \<Rightarrow> state_store \<Rightarrow> state_store" where
  "save_shadow mount d s =
     s\<lparr>st_shadows := bm_insert (mount, sd_entity_id d) (snapshot_from_document mount d) (st_shadows s)\<rparr>"

definition get_shadow_record :: "mount_id \<Rightarrow> remote_id \<Rightarrow> state_store \<Rightarrow> shadow_snapshot_record option" where
  "get_shadow_record mount i s = bm_get (st_shadows s) (mount, i)"

definition load_shadow :: "mount_id \<Rightarrow> remote_id \<Rightarrow> state_store \<Rightarrow> store_error + shadow_document" where
  "load_shadow mount i s =
     ok_or (ShadowMissing mount i) (map_option into_document (get_shadow_record mount i s))"

definition delete_shadow :: "mount_id \<Rightarrow> remote_id \<Rightarrow> state_store \<Rightarrow> state_store" where
  "delete_shadow mount i s = s\<lparr>st_shadows := bm_remove (mount, i) (st_shadows s)\<rparr>"

section \<open>Virtual mutations\<close>

definition virtual_mutation_key :: "virtual_mutation_record \<Rightarrow> mount_id \<times> string" where
  "virtual_mutation_key m = (vm_mount_id m, vm_local_id m)"

definition save_virtual_mutation :: "virtual_mutation_record \<Rightarrow> state_store \<Rightarrow> state_store" where
  "save_virtual_mutation m s =
     s\<lparr>st_virtual_mutations := bm_insert (virtual_mutation_key m) m (st_virtual_mutations s)\<rparr>"

definition get_virtual_mutation :: "mount_id \<Rightarrow> string \<Rightarrow> state_store \<Rightarrow> virtual_mutation_record option" where
  "get_virtual_mutation mount local s = bm_get (st_virtual_mutations s) (mount, local)"

definition find_virtual_mutation_by_path :: "mount_id \<Rightarrow> path \<Rightarrow> state_store \<Rightarrow> virtual_mutation_record option" where
  "find_virtual_mutation_by_path mount p s =
     List.find (\<lambda>m. vm_mount_id m = mount \<and> vm_projected_path m = p) (bm_values (st_virtual_mutations s))"

definition list_virtual_mutations :: "mount_id \<Rightarrow> state_store \<Rightarrow> virtual_mutation_record list" where
  "list_virtual_mutations mount s =
     sort_key (\<lambda>m. (vm_projected_path m, vm_local_id m))
       (filter (\<lambda>m. vm_mount_id m = mount) (bm_values (st_virtual_mutations s)))"

definition delete_virtual_mutation :: "mount_id \<Rightarrow> string \<Rightarrow> state_store \<Rightarrow> state_store" where
  "delete_virtual_mutation mount local s =
     s\<lparr>st_virtual_mutations := bm_remove (mount, local) (st_virtual_mutations s)\<rparr>"

section \<open>Auto-save enrollments, observations, freshness states\<close>

definition auto_save_key :: "auto_save_enrollment_record \<Rightarrow> mount_id \<times> path" where
  "auto_save_key e = (as_mount_id e, as_path e)"

definition save_auto_save_enrollment :: "auto_save_enrollment_record \<Rightarrow> state_store \<Rightarrow> state_store" where
  "save_auto_save_enrollment e s =
     s\<lparr>st_auto_save_enrollments := bm_insert (auto_save_key e) e (st_auto_save_enrollments s)\<rparr>"

definition get_auto_save_enrollment :: "mount_id \<Rightarrow> path \<Rightarrow> state_store \<Rightarrow> auto_save_enrollment_record option" where
  "get_auto_save_enrollment mount p s = bm_get (st_auto_save_enrollments s) (mount, p)"

definition find_auto_save_enrollment_by_remote_id ::
    "mount_id \<Rightarrow> remote_id \<Rightarrow> state_store \<Rightarrow> auto_save_enrollment_record option" where
  "find_auto_save_enrollment_by_remote_id mount i s =
     List.find (\<lambda>e. as_mount_id e = mount \<and> as_remote_id e = Some i) (bm_values (st_auto_save_enrollments s))"

definition list_auto_save_enrollments :: "mount_id \<Rightarrow> state_store \<Rightarrow> auto_save_enrollment_record list" where
  "list_auto_save_enrollments mount s =
     sort_key as_path (filter (\<lambda>e. as_mount_id e = mount) (bm_values (st_auto_save_enrollments s)))"

definition delete_auto_save_enrollment :: "mount_id \<Rightarrow> path \<Rightarrow> state_store \<Rightarrow> state_store" where
  "delete_auto_save_enrollment mount p s =
     s\<lparr>st_auto_save_enrollments := bm_remove (mount, p) (st_auto_save_enrollments s)\<rparr>"

definition remote_observation_key :: "remote_observation_record \<Rightarrow> mount_id \<times> remote_id" where
  "remote_observation_key r = (rr_mount_id r, rr_remote_id r)"

definition save_remote_observation :: "remote_observation_record \<Rightarrow> state_store \<Rightarrow> state_store" where
  "save_remote_observation r s =
     s\<lparr>st_remote_observations := bm_insert (remote_observation_key r) r (st_remote_observations s)\<rparr>"

definition get_remote_observation :: "mount_id \<Rightarrow> remote_id \<Rightarrow> state_store \<Rightarrow> remote_observation_record option" where
  "get_remote_observation mount i s = bm_get (st_remote_observations s) (mount, i)"

definition list_remote_observations :: "mount_id \<Rightarrow> state_store \<Rightarrow> remote_observation_record list" where
  "list_remote_observations mount s =
     sort_key (\<lambda>r. (rr_projected_path r, remote_id_str (rr_remote_id r)))
       (filter (\<lambda>r. rr_mount_id r = mount) (bm_values (st_remote_observations s)))"

definition delete_remote_observation :: "mount_id \<Rightarrow> remote_id \<Rightarrow> state_store \<Rightarrow> state_store" where
  "delete_remote_observation mount i s =
     s\<lparr>st_remote_observations := bm_remove (mount, i) (st_remote_observations s)\<rparr>"

definition freshness_state_key :: "freshness_state_record \<Rightarrow> mount_id \<times> remote_id" where
  "freshness_state_key r = (fs_mount_id r, fs_remote_id r)"

definition save_freshness_state :: "freshness_state_record \<Rightarrow> state_store \<Rightarrow> state_store" where
  "save_freshness_state r s =
     s\<lparr>st_freshness_states := bm_insert (freshness_state_key r) r (st_freshness_states s)\<rparr>"

definition get_freshness_state :: "mount_id \<Rightarrow> remote_id \<Rightarrow> state_store \<Rightarrow> freshness_state_record option" where
  "get_freshness_state mount i s = bm_get (st_freshness_states s) (mount, i)"

definition list_freshness_states :: "mount_id \<Rightarrow> state_store \<Rightarrow> freshness_state_record list" where
  "list_freshness_states mount s = filter (\<lambda>r. fs_mount_id r = mount) (bm_values (st_freshness_states s))"

definition delete_freshness_state :: "mount_id \<Rightarrow> remote_id \<Rightarrow> state_store \<Rightarrow> state_store" where
  "delete_freshness_state mount i s =
     s\<lparr>st_freshness_states := bm_remove (mount, i) (st_freshness_states s)\<rparr>"

section \<open>Jobs\<close>

definition hydration_job_key :: "hydration_job_record \<Rightarrow> mount_id \<times> remote_id" where
  "hydration_job_key j = (hj_mount_id j, hj_remote_id j)"

text \<open>A job that is queued again keeps its attempts and its last error.\<close>

definition upsert_hydration_job :: "hydration_job_record \<Rightarrow> state_store \<Rightarrow> state_store" where
  "upsert_hydration_job j s =
     (case bm_get (st_hydration_jobs s) (hydration_job_key j) of
        Some _ \<Rightarrow>
          s\<lparr>st_hydration_jobs := bm_modify (hydration_job_key j)
              (\<lambda>e. e\<lparr>hj_path := hj_path j, hj_target_state := hj_target_state j, hj_reason := hj_reason j\<rparr>)
              (st_hydration_jobs s)\<rparr>
      | None \<Rightarrow> s\<lparr>st_hydration_jobs := bm_insert (hydration_job_key j) j (st_hydration_jobs s)\<rparr>)"

definition list_hydration_jobs :: "state_store \<Rightarrow> hydration_job_record list" where
  "list_hydration_jobs s = bm_values (st_hydration_jobs s)"

definition delete_hydration_job :: "mount_id \<Rightarrow> remote_id \<Rightarrow> state_store \<Rightarrow> state_store" where
  "delete_hydration_job mount i s = s\<lparr>st_hydration_jobs := bm_remove (mount, i) (st_hydration_jobs s)\<rparr>"

definition record_hydration_job_failure :: "mount_id \<Rightarrow> remote_id \<Rightarrow> string \<Rightarrow> state_store \<Rightarrow> state_store" where
  "record_hydration_job_failure mount i message s =
     s\<lparr>st_hydration_jobs := bm_modify (mount, i)
         (\<lambda>j. j\<lparr>hj_attempts := u32_saturating_add (hj_attempts j) 1, hj_last_error := Some message\<rparr>)
         (st_hydration_jobs s)\<rparr>"

definition metadata_discovery_job_key :: "metadata_discovery_job_record \<Rightarrow> mount_id \<times> string" where
  "metadata_discovery_job_key j = (md_mount_id j, md_container_identifier j)"

definition upsert_metadata_discovery_job :: "metadata_discovery_job_record \<Rightarrow> state_store \<Rightarrow> state_store" where
  "upsert_metadata_discovery_job j s =
     (case bm_get (st_metadata_discovery_jobs s) (metadata_discovery_job_key j) of
        Some _ \<Rightarrow>
          s\<lparr>st_metadata_discovery_jobs := bm_modify (metadata_discovery_job_key j)
              (\<lambda>e. e\<lparr>md_priority := max (md_priority e) (md_priority j), md_depth := md_depth j,
                     md_updated_at := md_updated_at j\<rparr>)
              (st_metadata_discovery_jobs s)\<rparr>
      | None \<Rightarrow>
          s\<lparr>st_metadata_discovery_jobs :=
              bm_insert (metadata_discovery_job_key j) j (st_metadata_discovery_jobs s)\<rparr>)"

text \<open>The comparison of the priorities is reversed: interactive jobs come first.\<close>

definition reversed_priority :: "metadata_discovery_priority \<Rightarrow> nat" where
  "reversed_priority p = (case p of InteractivePriority \<Rightarrow> 0 | BackgroundPriority \<Rightarrow> 1)"

definition list_metadata_discovery_jobs :: "state_store \<Rightarrow> metadata_discovery_job_record list" where
  "list_metadata_discovery_jobs s =
     sort_key (\<lambda>j. (reversed_priority (md_priority j), md_depth j, md_attempts j,
         mount_id_str (md_mount_id j), md_container_identifier j))
       (bm_values (st_metadata_discovery_jobs s))"

definition delete_metadata_discovery_job :: "mount_id \<Rightarrow> string \<Rightarrow> state_store \<Rightarrow> state_store" where
  "delete_metadata_discovery_job mount container s =
     s\<lparr>st_metadata_discovery_jobs := bm_remove (mount, container) (st_metadata_discovery_jobs s)\<rparr>"

definition record_metadata_discovery_job_failure ::
    "mount_id \<Rightarrow> string \<Rightarrow> string \<Rightarrow> state_store \<Rightarrow> state_store" where
  "record_metadata_discovery_job_failure mount container message s =
     s\<lparr>st_metadata_discovery_jobs := bm_modify (mount, container)
         (\<lambda>j. j\<lparr>md_attempts := u32_saturating_add (md_attempts j) 1, md_last_error := Some message\<rparr>)
         (st_metadata_discovery_jobs s)\<rparr>"

section \<open>Journals\<close>

definition on_journals :: "(journals \<Rightarrow> (store_error + 'a) \<times> journals) \<Rightarrow> 'a store_op" where
  "on_journals f s = (case f (st_journals s) of (r, js) \<Rightarrow> (r, s\<lparr>st_journals := js\<rparr>))"

definition store_append_journal :: "journal_entry \<Rightarrow> unit store_op" where
  "store_append_journal entry = on_journals (append_journal entry)"

definition store_record_journal_apply_effects :: "push_id \<Rightarrow> journal_apply_effect list \<Rightarrow> unit store_op" where
  "store_record_journal_apply_effects push effects = on_journals (record_journal_apply_effects push effects)"

definition store_update_journal_status :: "push_id \<Rightarrow> journal_status \<Rightarrow> unit store_op" where
  "store_update_journal_status push status = on_journals (update_journal_status push status)"

definition journal_is_newer :: "journal_entry \<Rightarrow> journal_entry \<Rightarrow> bool" where
  "journal_is_newer candidate current =
     (case (jm_created_at_unix_ms (je_metadata candidate), jm_created_at_unix_ms (je_metadata current)) of
        (Some a, Some b) \<Rightarrow>
          a > b \<or> (a = b \<and> push_id_str (je_push_id candidate) > push_id_str (je_push_id current))
      | (Some _, None) \<Rightarrow> True
      | (None, Some _) \<Rightarrow> False
      | (None, None) \<Rightarrow> push_id_str (je_push_id candidate) > push_id_str (je_push_id current))"

definition relevant_journal :: "mount_id \<Rightarrow> remote_id list \<Rightarrow> journal_entry \<Rightarrow> bool" where
  "relevant_journal mount ids j \<longleftrightarrow>
     je_mount_id j = mount \<and> je_status j \<noteq> Reverted \<and> touches_any_entity j ids"

definition newer_journal :: "journal_entry option \<Rightarrow> journal_entry \<Rightarrow> journal_entry option" where
  "newer_journal latest j =
     (case latest of None \<Rightarrow> Some j | Some current \<Rightarrow> if journal_is_newer j current then Some j else latest)"

definition latest_journal_for_entities :: "mount_id \<Rightarrow> remote_id list \<Rightarrow> journals \<Rightarrow> push_id option" where
  "latest_journal_for_entities mount ids js =
     map_option je_push_id
       (fold (\<lambda>j latest. if relevant_journal mount ids j then newer_journal latest j else latest)
         (list_journal js) None)"

definition latest_failed_journal_for_entity :: "mount_id \<Rightarrow> remote_id \<Rightarrow> journals \<Rightarrow> string option" where
  "latest_failed_journal_for_entity mount i js =
     map_option snd
       (fold (\<lambda>j latest.
           if je_mount_id j \<noteq> mount then latest
           else if \<not> touches_any_entity j [i] then latest
           else case je_status j of Failed message \<Rightarrow> Some (push_id_str (je_push_id j), message) | _ \<Rightarrow> latest)
         (list_journal js) None)"

section \<open>Virtual moves\<close>

record virtual_move_transition =
  vt_mutation :: virtual_mutation_record
  vt_entity :: "entity_record option"
  vt_freshness :: "freshness_state_record option"
  vt_superseded_local_ids :: "string list"

definition validate_virtual_move_transition :: "virtual_move_transition \<Rightarrow> store_error + unit" where
  "validate_virtual_move_transition t =
     (let mount = vm_mount_id (vt_mutation t); target = vm_target_remote_id (vt_mutation t) in
      if (\<exists>e\<in>set_option (vt_entity t). er_mount_id e \<noteq> mount \<or> target \<noteq> Some (er_remote_id e))
      then Inl (StoreInvalidState ''virtual move entity does not match its mutation target'')
      else if (\<exists>f\<in>set_option (vt_freshness t). fs_mount_id f \<noteq> mount \<or> target \<noteq> Some (fs_remote_id f)
                 \<or> vt_entity t = None)
      then Inl (StoreInvalidState ''virtual move freshness does not match its entity'')
      else Inr ())"

definition virtual_move_missing :: "mount_id \<Rightarrow> string \<Rightarrow> store_error" where
  "virtual_move_missing mount local =
     StoreInvalidState (''virtual move `'' @ local @ ''` is missing from mount `'' @ mount_id_str mount @ ''`'')"

definition content_path_str :: "path option \<Rightarrow> string" where
  "content_path_str p = (case p of None \<Rightarrow> ''<none>'' | Some q \<Rightarrow> path_display q)"

definition virtual_move_content_changed ::
    "mount_id \<Rightarrow> string \<Rightarrow> path option \<Rightarrow> path option \<Rightarrow> store_error" where
  "virtual_move_content_changed mount local expected actual =
     StoreInvalidState (''virtual move `'' @ local @ ''` in mount `'' @ mount_id_str mount
       @ ''` changed content path from `'' @ content_path_str expected @ ''` to `''
       @ content_path_str actual @ ''`'')"

text \<open>The move works on a clone of the store, which replaces the store only on success.\<close>

definition begin_virtual_move :: "virtual_move_transition \<Rightarrow> unit store_op" where
  "begin_virtual_move t s =
     (case validate_virtual_move_transition t of
        Inl e \<Rightarrow> (Inl e, s)
      | Inr _ \<Rightarrow>
          let mount = vm_mount_id (vt_mutation t);
              staged = fold (delete_virtual_mutation mount) (vt_superseded_local_ids t) s;
              saved = (case vt_entity t of None \<Rightarrow> (Inr (), staged) | Some e \<Rightarrow> save_entity e staged)
          in case saved of
               (Inl e, _) \<Rightarrow> (Inl e, s)
             | (Inr _, staged) \<Rightarrow>
                 let staged = (case vt_freshness t of None \<Rightarrow> staged | Some f \<Rightarrow> save_freshness_state f staged)
                 in (Inr (), save_virtual_mutation (vt_mutation t) staged))"

definition finalize_virtual_move_content ::
    "mount_id \<Rightarrow> string \<Rightarrow> path option \<Rightarrow> path \<Rightarrow> string \<Rightarrow> virtual_mutation_record store_op" where
  "finalize_virtual_move_content mount local expected content_path updated_at s =
     (case get_virtual_mutation mount local s of
        None \<Rightarrow> (Inl (virtual_move_missing mount local), s)
      | Some m \<Rightarrow>
          if vm_content_path m \<noteq> expected
          then (Inl (virtual_move_content_changed mount local expected (vm_content_path m)), s)
          else let m' = m\<lparr>vm_content_path := Some content_path, vm_updated_at := updated_at\<rparr>
               in (Inr m', save_virtual_mutation m' s))"

section \<open>The index by path mirrors the entities\<close>

definition mirrors ::
    "(mount_id \<times> remote_id, entity_record) btree_map \<Rightarrow> (mount_id \<times> path, remote_id) btree_map \<Rightarrow> bool" where
  "mirrors es ps \<longleftrightarrow>
     keyed entity_key es \<and> bm_sorted ps
   \<and> (\<forall>mount p i. bm_get ps (mount, p) = Some i \<longleftrightarrow>
        (\<exists>e. bm_get es (mount, i) = Some e \<and> er_path e = p))"

definition index_ok :: "state_store \<Rightarrow> bool" where
  "index_ok s \<longleftrightarrow> mirrors (st_entities s) (st_entities_by_path s)"

lemma mirrors_get: "mirrors es ps \<Longrightarrow> bm_get es k = Some e \<Longrightarrow> entity_key e = k"
  by (auto simp: mirrors_def dest: keyed_get)

lemma mirrors_path: "mirrors es ps \<Longrightarrow> bm_get es (mount, i) = Some e \<Longrightarrow> bm_get ps (mount, er_path e) = Some i"
  by (auto simp: mirrors_def)

lemma mirrors_sorted: "mirrors es ps \<Longrightarrow> bm_sorted es" "mirrors es ps \<Longrightarrow> bm_sorted ps"
  by (auto simp: mirrors_def keyed_bm_sorted)

lemma mirrors_iff:
  "mirrors es ps \<Longrightarrow>
   bm_get ps (mount, p) = Some i \<longleftrightarrow> (\<exists>e. bm_get es (mount, i) = Some e \<and> er_path e = p)"
  by (simp add: mirrors_def)

lemma mirrors_intro:
  "keyed entity_key es \<Longrightarrow> bm_sorted ps \<Longrightarrow>
   (\<And>mount p i. bm_get ps (mount, p) = Some i \<longleftrightarrow> (\<exists>e. bm_get es (mount, i) = Some e \<and> er_path e = p)) \<Longrightarrow>
   mirrors es ps"
  by (simp add: mirrors_def)

lemma mirrors_unique:
  "mirrors es ps \<Longrightarrow> bm_get es (mount, i) = Some e \<Longrightarrow> bm_get es (mount, j) = Some f \<Longrightarrow>
   er_path e = er_path f \<Longrightarrow> i = j"
  using mirrors_path[of es ps mount i e] mirrors_path[of es ps mount j f] by simp

lemma mirrors_remove:
  assumes m: "mirrors es ps" and e: "bm_get es (mount, i) = Some e"
  shows "mirrors (bm_remove (mount, i) es) (bm_remove (mount, er_path e) ps)"
proof (rule mirrors_intro)
  show "keyed entity_key (bm_remove (mount, i) es)" "bm_sorted (bm_remove (mount, er_path e) ps)"
    using m by (simp_all add: mirrors_def keyed_remove)
  show "bm_get (bm_remove (mount, er_path e) ps) (n, p) = Some j \<longleftrightarrow>
      (\<exists>f. bm_get (bm_remove (mount, i) es) (n, j) = Some f \<and> er_path f = p)" for n p j
  proof (cases "n = mount \<and> p = er_path e")
    case True
    with mirrors_unique[OF m e, of j] show ?thesis by simp metis
  next
    case False
    with e have "(\<exists>f. bm_get es (n, j) = Some f \<and> er_path f = p) \<Longrightarrow> (n, j) \<noteq> (mount, i)" by auto
    with False mirrors_iff[OF m, of n p j] show ?thesis by (simp, metis option.distinct(1))
  qed
qed

lemma mirrors_insert_fresh:
  assumes m: "mirrors es ps" and free: "bm_get es (entity_key e) = None" "bm_get ps (path_key e) = None"
  shows "mirrors (bm_insert (entity_key e) e es) (bm_insert (path_key e) (er_remote_id e) ps)"
proof (rule mirrors_intro)
  show "keyed entity_key (bm_insert (entity_key e) e es)"
    using m by (simp add: mirrors_def keyed_insert)
  show "bm_sorted (bm_insert (path_key e) (er_remote_id e) ps)"
    using mirrors_sorted(2)[OF m] by (rule bm_sorted_insert)
  have none: "er_path f \<noteq> er_path e" if "bm_get es (er_mount_id e, j) = Some f" for j f
    using mirrors_path[OF m that] free(2) by (auto simp: path_key_def)
  show "bm_get (bm_insert (path_key e) (er_remote_id e) ps) (n, p) = Some j \<longleftrightarrow>
      (\<exists>f. bm_get (bm_insert (entity_key e) e es) (n, j) = Some f \<and> er_path f = p)" for n p j
    using mirrors_iff[OF m, of n p j] none free
    by (auto simp: bm_get_insert entity_key_def path_key_def)
qed

lemma bm_insert_remove: "bm_sorted m \<Longrightarrow> bm_insert k v (bm_remove k m) = bm_insert k v m"
  by (rule bm_ext) (simp_all add: bm_sorted_insert bm_get_insert)

lemma index_entity_ok:
  assumes ok: "index_ok s" and own: "bm_get (st_entities_by_path s) (path_key e) \<in> {None, Some (er_remote_id e)}"
  shows "index_ok (index_entity e s)"
proof -
  let ?es = "st_entities s" and ?ps = "st_entities_by_path s" and ?k = "entity_key e"
  have m: "mirrors ?es ?ps" and sorted: "bm_sorted ?es" "bm_sorted ?ps"
    using ok mirrors_sorted unfolding index_ok_def by blast+
  show ?thesis
  proof (cases "bm_get ?es ?k")
    case None
    then have "bm_get ?ps (path_key e) \<noteq> Some (er_remote_id e)"
      using m by (auto simp: mirrors_def entity_key_def path_key_def)
    with own have "bm_get ?ps (path_key e) = None" by simp
    from mirrors_insert_fresh[OF m None this] None show ?thesis
      by (simp add: index_ok_def index_entity_def)
  next
    case (Some previous)
    then have key: "entity_key previous = ?k" using mirrors_get[OF m] by blast
    then have prev: "bm_get ?es (er_mount_id e, er_remote_id e) = Some previous" "path_key previous = (er_mount_id e, er_path previous)"
      using Some by (simp_all add: entity_key_def path_key_def)
    let ?es' = "bm_remove ?k ?es" and ?ps' = "bm_remove (path_key previous) ?ps"
    have m': "mirrors ?es' ?ps'" using mirrors_remove[OF m prev(1)] prev(2) by (simp add: entity_key_def)
    have "bm_get ?ps' (path_key e) = None"
      using own prev m by (auto simp: path_key_def mirrors_def)
    from mirrors_insert_fresh[OF m' _ this]
    have "mirrors (bm_insert ?k e ?es) (bm_insert (path_key e) (er_remote_id e) ?ps')"
      by (simp add: bm_insert_remove sorted)
    moreover have "bm_insert (path_key e) (er_remote_id e) ?ps' = bm_insert (path_key e) (er_remote_id e) ?ps"
      if "er_path previous = er_path e"
      using that prev(2) by (simp add: path_key_def bm_insert_remove sorted)
    ultimately show ?thesis using Some by (cases "er_path previous = er_path e") (simp_all add: index_ok_def index_entity_def)
  qed
qed

lemma save_entity_ok: "index_ok s \<Longrightarrow> index_ok (snd (save_entity e s))"
  by (auto simp: save_entity_def split: option.split intro: index_entity_ok)

lemma delete_entity_ok: "index_ok s \<Longrightarrow> index_ok (delete_entity mount i s)"
proof -
  assume ok: "index_ok s"
  show ?thesis
  proof (cases "bm_get (st_entities s) (mount, i)")
    case (Some e)
    with ok have "entity_key e = (mount, i)" by (auto simp: index_ok_def dest: mirrors_get)
    then have "path_key e = (mount, er_path e)" by (simp add: entity_key_def path_key_def)
    with Some ok mirrors_remove[of "st_entities s" "st_entities_by_path s" mount i e] show ?thesis
      by (simp add: delete_entity_def index_ok_def)
  qed (use ok in \<open>simp add: delete_entity_def\<close>)
qed

lemma bm_get_not_in_mount:
  "bm_sorted m \<Longrightarrow> bm_get (not_in_mount mount m) (n, x) = (if n = mount then None else bm_get m (n, x))"
  by (simp add: bm_get_retain split: option.split)

lemma mirrors_retain:
  assumes "mirrors es ps"
  shows "mirrors (not_in_mount mount es) (not_in_mount mount ps)"
proof -
  note s = mirrors_sorted[OF assms]
  have "keyed entity_key (not_in_mount mount es)" using assms by (simp add: mirrors_def keyed_retain)
  then show ?thesis
    using mirrors_iff[OF assms] by (intro mirrors_intro) (simp_all add: s bm_get_not_in_mount)
qed

lemma clear_mount_ok: "index_ok s \<Longrightarrow> index_ok (clear_mount_source_state mount s)"
  by (simp add: index_ok_def clear_mount_source_state_def mirrors_retain)

lemma save_mount_ok: "index_ok s \<Longrightarrow> index_ok (save_mount m s)"
  using clear_mount_ok[of s "mc_mount_id m"]
  by (simp add: save_mount_def Let_def index_ok_def split: option.split)

text \<open>With a mirroring index a lookup by path returns the one entity at the path.\<close>

lemma find_entity_by_path_iff:
  assumes "index_ok s"
  shows "find_entity_by_path mount p s = Some e \<longleftrightarrow>
    e \<in> set (bm_values (st_entities s)) \<and> er_mount_id e = mount \<and> er_path e = p"
proof -
  have m: "mirrors (st_entities s) (st_entities_by_path s)" using assms by (simp add: index_ok_def)
  then have k: "keyed entity_key (st_entities s)" by (simp add: mirrors_def)
  note key = keyed_get[OF k]
  have "find_entity_by_path mount p s = Some e \<longleftrightarrow>
      (\<exists>i. bm_get (st_entities_by_path s) (mount, p) = Some i \<and> bm_get (st_entities s) (mount, i) = Some e)"
    by (simp add: find_entity_by_path_def get_entity_def split: option.split)
  also have "\<dots> \<longleftrightarrow> (\<exists>i. bm_get (st_entities s) (mount, i) = Some e \<and> er_path e = p)"
    using mirrors_iff[OF m] by (metis option.inject)
  also have "\<dots> \<longleftrightarrow> bm_get (st_entities s) (entity_key e) = Some e \<and> er_mount_id e = mount \<and> er_path e = p"
    using key[of "(mount, i)" e for i] by (auto simp: entity_key_def)
  finally show ?thesis unfolding keyed_values[OF k] .
qed

end
