(* ===== verification/Auto_Save.thy ===== *)
theory Auto_Save
  imports Push_Pipeline Store_Memory
begin

text \<open>
  \<open>localityd/src/autosave.rs\<close> over the in-memory store: which enrollments are active, which plans may
  be pushed without review, and the transitions of an enrollment. The in-memory repositories do not
  fail, so a transition is a function on the store; the time of the call in milliseconds is a
  parameter. The lemmas show what an automatic push can contain, that pausing holds until the
  enrollment is marked again, and that no transition turns on what the user turned off.
\<close>

section \<open>Enrollments\<close>

definition auto_save_enrollment_is_active :: "auto_save_enrollment_record \<Rightarrow> bool" where
  "auto_save_enrollment_is_active e \<longleftrightarrow>
     as_enabled e \<and> (case as_state e of AsPausedRemoteChanged \<Rightarrow> False | AsPausedFailure \<Rightarrow> False | _ \<Rightarrow> True)"

definition auto_save_enabled_for_path ::
    "state_store \<Rightarrow> mount_id \<Rightarrow> path \<Rightarrow> auto_save_enrollment_record option" where
  "auto_save_enabled_for_path s mount relative_path =
     (case get_auto_save_enrollment mount relative_path s of
        None \<Rightarrow> None
      | Some e \<Rightarrow> if \<not> auto_save_enrollment_is_active e then None else Some e)"

definition active_auto_save_enrollment_for_remote_id ::
    "state_store \<Rightarrow> mount_id \<Rightarrow> remote_id \<Rightarrow> auto_save_enrollment_record option" where
  "active_auto_save_enrollment_for_remote_id s mount i =
     (case find_auto_save_enrollment_by_remote_id mount i s of
        None \<Rightarrow> None
      | Some e \<Rightarrow> if \<not> auto_save_enrollment_is_active e then None else Some e)"

definition mount_live_mode_enabled_for_write :: "state_store \<Rightarrow> mount_id \<Rightarrow> bool" where
  "mount_live_mode_enabled_for_write s mount \<longleftrightarrow>
     (case get_mount_live_mode mount s of None \<Rightarrow> False | Some r \<Rightarrow> lm_enabled r)"

definition auto_save_target_for_write ::
    "state_store \<Rightarrow> mount_config \<Rightarrow> entity_record \<Rightarrow> path \<Rightarrow> path option" where
  "auto_save_target_for_write s mount entity event_path =
     (if auto_save_enabled_for_path s (mc_mount_id mount) (er_path entity) = None
         \<and> \<not> mount_live_mode_enabled_for_write s (mc_mount_id mount)
      then None else Some event_path)"

section \<open>Plans that need a review\<close>

definition operation_block_reason :: "push_operation \<Rightarrow> string option" where
  "operation_block_reason operation =
     (case operation of
        UpdateEntityBody _ body \<Rightarrow>
          if is_blank body then Some ''clearing entity bodies requires review'' else None
      | CreateEntity _ _ _ _ _ _ _ \<Rightarrow> None
      | UpdateBlock _ _ \<Rightarrow> None
      | AppendBlock _ _ _ \<Rightarrow> None
      | UpdateProperties _ _ \<Rightarrow> None
      | MoveEntity _ _ _ _ _ \<Rightarrow> Some ''entity moves require review''
      | CreateDatabase _ _ _ _ \<Rightarrow> Some ''database creation requires review''
      | ReplaceBlock _ _ \<Rightarrow> Some ''block replacements require review''
      | MoveBlock _ _ \<Rightarrow> Some ''block moves require review''
      | UpdateMedia _ _ _ \<Rightarrow> Some ''media updates require review''
      | ArchiveBlock _ \<Rightarrow> Some ''deletions require review''
      | ArchiveEntity _ \<Rightarrow> Some ''deletions require review'')"

fun first_block_reason :: "push_operation list \<Rightarrow> string option" where
  "first_block_reason [] = None"
| "first_block_reason (operation # rest) =
     (case operation_block_reason operation of
        None \<Rightarrow> first_block_reason rest | Some reason \<Rightarrow> Some reason)"

definition auto_save_plan_block_reason :: "push_plan \<Rightarrow> string option" where
  "auto_save_plan_block_reason plan =
     (if degradations plan \<noteq> [] then Some ''diff needs review before auto-save''
      else first_block_reason (operations plan))"

definition action_block_reason :: "push_pipeline_action \<Rightarrow> string option" where
  "action_block_reason action =
     (case action of
        ProceedToApply \<Rightarrow> None
      | Noop \<Rightarrow> None
      | ConfirmPlan \<Rightarrow> Some ''push plan needs explicit review''
      | ConfirmDangerousPlan \<Rightarrow> Some ''destructive push plan needs explicit review''
      | FixValidation \<Rightarrow> Some ''local Markdown needs review before auto-save''
      | ReadOnlyBlocked \<Rightarrow> Some ''mount is read-only''
      | UnsupportedOperations _ message _ \<Rightarrow> Some message)"

definition auto_save_block_reason :: "push_pipeline_result \<Rightarrow> string option" where
  "auto_save_block_reason pipeline =
     (if \<not> is_clean (pr_validation pipeline) then Some ''local Markdown needs review before auto-save''
      else case action_block_reason (pr_action pipeline) of
        Some reason \<Rightarrow> Some reason
      | None \<Rightarrow>
          (case pr_guardrail pipeline of
             ConfirmRequired reasons \<Rightarrow> Some (''guardrail requires review: '' @ join '', '' reasons)
           | Proceed \<Rightarrow>
               (case pr_plan pipeline of
                  None \<Rightarrow> Some ''push plan is missing''
                | Some plan \<Rightarrow> auto_save_plan_block_reason plan)))"

section \<open>Transitions of an enrollment\<close>

definition auto_save_timestamp :: "nat \<Rightarrow> string" where
  "auto_save_timestamp millis = ''unix_ms:'' @ dec millis"

definition mark_auto_save_active ::
    "nat \<Rightarrow> mount_id \<Rightarrow> path \<Rightarrow> remote_id option \<Rightarrow> push_id option \<Rightarrow> state_store \<Rightarrow> state_store" where
  "mark_auto_save_active millis mount p remote push s =
     (case get_auto_save_enrollment mount p s of
        None \<Rightarrow> s
      | Some e \<Rightarrow>
          let e = (case remote of None \<Rightarrow> e | Some i \<Rightarrow> e\<lparr>as_remote_id := Some i\<rparr>)
          in save_auto_save_enrollment
               (e\<lparr>as_state := AsActive, as_last_reason := None, as_last_push_id := map_option push_id_str push,
                  as_updated_at := auto_save_timestamp millis\<rparr>) s)"

definition update_auto_save_state ::
    "mount_id \<Rightarrow> path \<Rightarrow> (auto_save_enrollment_record \<Rightarrow> auto_save_enrollment_record) \<Rightarrow> state_store \<Rightarrow> state_store" where
  "update_auto_save_state mount p change s =
     (case get_auto_save_enrollment mount p s of
        None \<Rightarrow> s
      | Some e \<Rightarrow> save_auto_save_enrollment (change e) s)"

definition mark_auto_save_blocked :: "nat \<Rightarrow> mount_id \<Rightarrow> path \<Rightarrow> string \<Rightarrow> state_store \<Rightarrow> state_store" where
  "mark_auto_save_blocked millis mount p reason =
     update_auto_save_state mount p (\<lambda>e.
       e\<lparr>as_state := AsBlocked, as_last_reason := Some reason, as_updated_at := auto_save_timestamp millis\<rparr>)"

definition mark_auto_save_paused_failure ::
    "nat \<Rightarrow> mount_id \<Rightarrow> path \<Rightarrow> string \<Rightarrow> state_store \<Rightarrow> state_store" where
  "mark_auto_save_paused_failure millis mount p reason =
     update_auto_save_state mount p (\<lambda>e.
       e\<lparr>as_state := AsPausedFailure, as_last_reason := Some reason, as_updated_at := auto_save_timestamp millis\<rparr>)"

definition mark_auto_save_paused_remote_changed ::
    "nat \<Rightarrow> mount_id \<Rightarrow> path \<Rightarrow> string \<Rightarrow> state_store \<Rightarrow> state_store" where
  "mark_auto_save_paused_remote_changed millis mount p reason =
     update_auto_save_state mount p (\<lambda>e.
       e\<lparr>as_state := AsPausedRemoteChanged, as_last_reason := Some reason,
         as_updated_at := auto_save_timestamp millis\<rparr>)"

definition pause_auto_save_for_remote_change ::
    "nat \<Rightarrow> mount_id \<Rightarrow> remote_id \<Rightarrow> state_store \<Rightarrow> state_store" where
  "pause_auto_save_for_remote_change millis mount i s =
     (case find_auto_save_enrollment_by_remote_id mount i s of
        None \<Rightarrow> s
      | Some e \<Rightarrow>
          if \<not> as_enabled e then s
          else save_auto_save_enrollment
                 (e\<lparr>as_state := AsPausedRemoteChanged, as_last_reason := Some ''Notion changed externally'',
                    as_updated_at := auto_save_timestamp millis\<rparr>) s)"

section \<open>What is pushed without review\<close>

text \<open>The operations that pass are those that only add or change text and properties.\<close>

definition additive :: "push_operation \<Rightarrow> bool" where
  "additive op \<longleftrightarrow>
     operation_kind op \<in> {KCreateEntity, KUpdateBlock, KAppendBlock, KUpdateEntityBody, KUpdateProperties}
   \<and> \<not> erases_entity_body op"

lemma operation_passes: "operation_block_reason op = None \<longleftrightarrow> additive op"
  by (simp add: operation_block_reason_def additive_def operation_kind_def erases_entity_body_def
      split: push_operation.split)

lemma first_block_reason_None: "first_block_reason ops = None \<longleftrightarrow> (\<forall>op\<in>set ops. additive op)"
  by (induction ops) (auto simp: operation_passes[symmetric] split: option.split)

lemma block_reason_None:
  "auto_save_block_reason r = None \<longleftrightarrow>
     is_clean (pr_validation r) \<and> pr_action r \<in> {ProceedToApply, Noop} \<and> pr_guardrail r = Proceed
   \<and> (\<exists>plan. pr_plan r = Some plan \<and> degradations plan = [] \<and> (\<forall>op\<in>set (operations plan). additive op))"
  by (simp add: auto_save_block_reason_def action_block_reason_def auto_save_plan_block_reason_def
      first_block_reason_None split: option.splits push_pipeline_action.splits guardrail_decision.splits)

lemma additive_not_destructive: "additive op \<Longrightarrow> \<not> is_destructive op"
  by (auto simp: additive_def is_destructive_def)

text \<open>Auto-save applies a pipeline result exactly when the validation is clean, the pipeline
  wants no confirmation, the guardrails pass, the diff is unambiguous, and every operation creates a
  page, appends or updates a block, writes a body that is not blank, or updates properties: nothing
  that moves, replaces or deletes is pushed without review.\<close>

theorem auto_save_pushes_only_additions:
  "auto_save_block_reason r = None \<longleftrightarrow>
     is_clean (pr_validation r) \<and> pr_action r \<in> {ProceedToApply, Noop} \<and> pr_guardrail r = Proceed
   \<and> (\<exists>plan. pr_plan r = Some plan \<and> degradations plan = []
        \<and> (\<forall>op\<in>set (operations plan).
             operation_kind op \<in> {KCreateEntity, KUpdateBlock, KAppendBlock, KUpdateEntityBody, KUpdateProperties}
           \<and> \<not> erases_entity_body op \<and> \<not> is_destructive op))"
  using additive_not_destructive by (auto simp: block_reason_None additive_def)

section \<open>Runs of the transitions\<close>

datatype auto_save_step =
    MarkActive path "remote_id option" "push_id option"
  | MarkBlocked path string
  | MarkPausedFailure path string
  | MarkPausedRemoteChanged path string
  | PauseForRemoteChange remote_id

definition auto_save_step :: "mount_id \<Rightarrow> nat \<times> auto_save_step \<Rightarrow> state_store \<Rightarrow> state_store" where
  "auto_save_step mount = (\<lambda>(millis, step) s.
     case step of
       MarkActive p remote push \<Rightarrow> mark_auto_save_active millis mount p remote push s
     | MarkBlocked p reason \<Rightarrow> mark_auto_save_blocked millis mount p reason s
     | MarkPausedFailure p reason \<Rightarrow> mark_auto_save_paused_failure millis mount p reason s
     | MarkPausedRemoteChanged p reason \<Rightarrow> mark_auto_save_paused_remote_changed millis mount p reason s
     | PauseForRemoteChange i \<Rightarrow> pause_auto_save_for_remote_change millis mount i s)"

definition auto_save_run :: "mount_id \<Rightarrow> (nat \<times> auto_save_step) list \<Rightarrow> state_store \<Rightarrow> state_store" where
  "auto_save_run mount steps s = fold (auto_save_step mount) steps s"

text \<open>A step that can take an enrollment at a path out of its pause.\<close>

definition resumes :: "path \<Rightarrow> nat \<times> auto_save_step \<Rightarrow> bool" where
  "resumes p step \<longleftrightarrow> (case snd step of MarkActive q _ _ \<Rightarrow> q = p | MarkBlocked q _ \<Rightarrow> q = p | _ \<Rightarrow> False)"

abbreviation enrollments_keyed :: "state_store \<Rightarrow> bool" where
  "enrollments_keyed s \<equiv> keyed auto_save_key (st_auto_save_enrollments s)"

definition paused :: "auto_save_enrollment_record \<Rightarrow> bool" where
  "paused e \<longleftrightarrow> as_state e \<in> {AsPausedRemoteChanged, AsPausedFailure}"

text \<open>The part of an enrollment that is the user's: no transition writes it.\<close>

definition same_choice :: "auto_save_enrollment_record \<Rightarrow> auto_save_enrollment_record \<Rightarrow> bool" where
  "same_choice e e' \<longleftrightarrow>
     as_mount_id e' = as_mount_id e \<and> as_path e' = as_path e \<and> as_enabled e' = as_enabled e
   \<and> as_origin e' = as_origin e \<and> as_created_at e' = as_created_at e"

definition follows :: "path \<Rightarrow> bool \<Rightarrow> auto_save_enrollment_record option \<Rightarrow> auto_save_enrollment_record option \<Rightarrow> bool" where
  "follows p may_resume old new \<longleftrightarrow>
     (case (old, new) of
        (None, None) \<Rightarrow> True
      | (Some e, Some e') \<Rightarrow> same_choice e e' \<and> (paused e \<and> \<not> may_resume \<longrightarrow> paused e')
      | _ \<Rightarrow> False)"

lemma follows_refl: "follows p b x x"
  by (cases x) (simp_all add: follows_def same_choice_def)

lemma enrollment_follows_trans: "follows p b x y \<Longrightarrow> follows p c y z \<Longrightarrow> follows p (b \<or> c) x z"
  by (cases x; cases y; cases z) (auto simp: follows_def same_choice_def)

lemma get_save:
  "get_auto_save_enrollment m p (save_auto_save_enrollment e s) =
     (if (m, p) = auto_save_key e then Some e else get_auto_save_enrollment m p s)"
  by (simp add: get_auto_save_enrollment_def save_auto_save_enrollment_def bm_get_insert)

lemma enrollments_keyed_save: "enrollments_keyed s \<Longrightarrow> enrollments_keyed (save_auto_save_enrollment e s)"
  by (simp add: save_auto_save_enrollment_def keyed_insert)

text \<open>A step writes at most one enrollment, one it has just read.\<close>

lemma step_cases [consumes 1, case_names same saved]:
  assumes k: "enrollments_keyed s"
  obtains (same) "auto_save_step m st s = s"
  | (saved) e e' where "get_auto_save_enrollment (as_mount_id e) (as_path e) s = Some e" "as_mount_id e = m"
      "auto_save_step m st s = save_auto_save_enrollment e' s" "same_choice e e'"
      "resumes (as_path e) st \<or> paused e'"
proof -
  have key: "as_mount_id e = m' \<and> as_path e = p" if "get_auto_save_enrollment m' p s = Some e" for m' p e
    using keyed_get[OF k] that by (auto simp: get_auto_save_enrollment_def auto_save_key_def)
  have found: "get_auto_save_enrollment (as_mount_id e) (as_path e) s = Some e \<and> as_mount_id e = m"
    if "find_auto_save_enrollment_by_remote_id m i s = Some e" for i e
  proof -
    from that have "as_mount_id e = m \<and> e \<in> set (bm_values (st_auto_save_enrollments s))"
      unfolding find_auto_save_enrollment_by_remote_id_def find_Some_iff by auto
    with keyed_values[OF k, of e] show ?thesis
      by (simp add: get_auto_save_enrollment_def auto_save_key_def)
  qed
  obtain millis step where st: "st = (millis, step)" by (cases st)
  have updated: thesis
    if "auto_save_step m st s = update_auto_save_state m p change s" "\<forall>e. same_choice e (change e)"
      "\<forall>e. resumes p st \<or> paused (change e)" for p change
  proof (cases "get_auto_save_enrollment m p s")
    case None
    with that(1) same show ?thesis by (simp add: update_auto_save_state_def)
  next
    case (Some e)
    from that(3) have "resumes p st \<or> paused (change e)" by blast
    with Some key[OF Some] that(1,2) show ?thesis
      by (intro saved[of e "change e"]) (simp_all add: update_auto_save_state_def)
  qed
  show thesis
  proof (cases step)
    case (MarkActive p remote push)
    show thesis
      by (rule updated[of p "\<lambda>e. (case remote of None \<Rightarrow> e | Some i \<Rightarrow> e\<lparr>as_remote_id := Some i\<rparr>)
          \<lparr>as_state := AsActive, as_last_reason := None, as_last_push_id := map_option push_id_str push,
                  as_updated_at := auto_save_timestamp millis\<rparr>"])
        (simp_all add: st MarkActive auto_save_step_def mark_auto_save_active_def update_auto_save_state_def
          same_choice_def resumes_def Let_def split: option.splits)
  next
    case (PauseForRemoteChange i)
    then have run: "auto_save_step m st s = pause_auto_save_for_remote_change millis m i s"
      by (simp add: st auto_save_step_def)
    show thesis
    proof (cases "find_auto_save_enrollment_by_remote_id m i s")
      case (Some e)
      let ?e = "e\<lparr>as_state := AsPausedRemoteChanged, as_last_reason := Some ''Notion changed externally'',
                    as_updated_at := auto_save_timestamp millis\<rparr>"
      show thesis
      proof (cases "as_enabled e")
        case True
        with Some run have "auto_save_step m st s = save_auto_save_enrollment ?e s"
          by (simp add: pause_auto_save_for_remote_change_def)
        with found[OF Some] show thesis by (intro saved[of e ?e]) (auto simp: same_choice_def paused_def)
      qed (use Some run same in \<open>simp add: pause_auto_save_for_remote_change_def\<close>)
    qed (use run same in \<open>simp add: pause_auto_save_for_remote_change_def\<close>)
  qed (rule updated, simp add: st auto_save_step_def mark_auto_save_blocked_def mark_auto_save_paused_failure_def
       mark_auto_save_paused_remote_changed_def, simp_all add: same_choice_def resumes_def st paused_def)+
qed

lemma step_follows:
  assumes k: "enrollments_keyed s"
  shows "enrollments_keyed (auto_save_step m st s)"
    and "follows p (resumes p st) (get_auto_save_enrollment m p s)
      (get_auto_save_enrollment m p (auto_save_step m st s))"
    and "n \<noteq> m \<Longrightarrow> get_auto_save_enrollment n p (auto_save_step m st s) = get_auto_save_enrollment n p s"
proof -
  show "enrollments_keyed (auto_save_step m st s)"
    by (cases rule: step_cases[OF k, of m st]) (simp_all add: k enrollments_keyed_save)
  show "follows p (resumes p st) (get_auto_save_enrollment m p s)
      (get_auto_save_enrollment m p (auto_save_step m st s))"
    using k
  proof (cases rule: step_cases[where m = m and st = st])
    case (saved e e')
    then show ?thesis
      by (cases "p = as_path e") (auto simp: get_save auto_save_key_def same_choice_def follows_refl follows_def)
  qed (simp add: follows_refl)
  show "get_auto_save_enrollment n p (auto_save_step m st s) = get_auto_save_enrollment n p s" if "n \<noteq> m"
    using k
  proof (cases rule: step_cases[where m = m and st = st])
    case (saved e e')
    with that show ?thesis by (auto simp: get_save auto_save_key_def same_choice_def)
  qed simp
qed

lemma run_follows:
  "enrollments_keyed s \<Longrightarrow>
   follows p (list_ex (resumes p) steps) (get_auto_save_enrollment m p s)
     (get_auto_save_enrollment m p (auto_save_run m steps s))"
proof (induction steps arbitrary: s)
  case (Cons st steps)
  from enrollment_follows_trans[OF step_follows(2)[OF Cons.prems] Cons.IH[OF step_follows(1)[OF Cons.prems]]]
  show ?case by (simp add: auto_save_run_def)
qed (simp add: auto_save_run_def follows_refl)

text \<open>C40: over any run of the transitions an enrollment stays where it is, with the user's choice
  untouched, so what the user switched off stays off; and once it is paused, because of a failure or
  a remote change, a write to its path has no automatic push until the path itself is marked again.\<close>

theorem paused_until_marked:
  assumes "keyed auto_save_key (st_auto_save_enrollments s)"
    and "get_auto_save_enrollment m p s = Some e"
  shows "\<exists>e'. get_auto_save_enrollment m p (auto_save_run m steps s) = Some e'
      \<and> as_enabled e' = as_enabled e \<and> as_origin e' = as_origin e \<and> as_created_at e' = as_created_at e
      \<and> (\<not> as_enabled e
          \<or> as_state e \<in> {AsPausedRemoteChanged, AsPausedFailure} \<and> \<not> list_ex (resumes p) steps
         \<longrightarrow> auto_save_enabled_for_path (auto_save_run m steps s) m p = None)"
  using run_follows[OF assms(1), of p steps m] assms(2)
  by (auto simp: follows_def same_choice_def paused_def auto_save_enabled_for_path_def
      auto_save_enrollment_is_active_def split: option.splits auto_save_state.splits)

definition sample_enrollment :: auto_save_enrollment_record where
  "sample_enrollment = enrollment_paused_failure
     (enrollment_new (MountId ''m'') [Normal ''a.md''] UserEnabled ''unix_ms:1'') ''offline'' ''unix_ms:2''"

definition sample_steps :: "(nat \<times> auto_save_step) list" where
  "sample_steps = [(3, PauseForRemoteChange (RemoteId ''r'')), (4, MarkPausedFailure [Normal ''a.md''] ''offline''),
     (5, MarkActive [Normal ''b.md''] None None)]"

theorem paused_until_marked_witness:
  "auto_save_enabled_for_path
     (auto_save_run (MountId ''m'') sample_steps (save_auto_save_enrollment sample_enrollment state_store_new))
     (MountId ''m'') [Normal ''a.md''] = None"
proof -
  have "keyed auto_save_key (st_auto_save_enrollments (save_auto_save_enrollment sample_enrollment state_store_new))"
    by (intro enrollments_keyed_save) (simp add: state_store_new_def)
  moreover have "get_auto_save_enrollment (MountId ''m'') [Normal ''a.md'']
      (save_auto_save_enrollment sample_enrollment state_store_new) = Some sample_enrollment"
    by (simp add: get_save auto_save_key_def sample_enrollment_def enrollment_paused_failure_def enrollment_new_def)
  moreover have "\<not> list_ex (resumes [Normal ''a.md'']) sample_steps" "as_state sample_enrollment = AsPausedFailure"
    by (simp_all add: sample_steps_def resumes_def sample_enrollment_def enrollment_paused_failure_def)
  ultimately show ?thesis using paused_until_marked[of _ "MountId ''m''" "[Normal ''a.md'']" sample_enrollment sample_steps] by auto
qed

text \<open>Marking an enabled enrollment as active, or as blocked, makes it active.\<close>

lemma marked_is_active:
  assumes "keyed auto_save_key (st_auto_save_enrollments s)"
    and "get_auto_save_enrollment m p s = Some e" "as_enabled e"
  shows "auto_save_enabled_for_path (mark_auto_save_active millis m p remote push s) m p \<noteq> None"
    and "auto_save_enabled_for_path (mark_auto_save_blocked millis m p reason s) m p \<noteq> None"
proof -
  have "as_mount_id e = m" "as_path e = p"
    using keyed_get[OF assms(1)] assms(2) by (auto simp: get_auto_save_enrollment_def auto_save_key_def)
  then have key: "auto_save_key e' = (m, p)" if "same_choice e e'" for e'
    using that by (simp add: auto_save_key_def same_choice_def)
  have *: "auto_save_enabled_for_path (save_auto_save_enrollment e' s) m p \<noteq> None"
    if "same_choice e e'" "as_state e' = AsActive \<or> as_state e' = AsBlocked" for e'
    using key[OF that(1)] that assms(3)
    by (auto simp: auto_save_enabled_for_path_def get_save auto_save_enrollment_is_active_def same_choice_def)
  show "auto_save_enabled_for_path (mark_auto_save_active millis m p remote push s) m p \<noteq> None"
    unfolding mark_auto_save_active_def assms(2) option.case Let_def
    by (rule *) (simp_all add: same_choice_def split: option.split)
  show "auto_save_enabled_for_path (mark_auto_save_blocked millis m p reason s) m p \<noteq> None"
    unfolding mark_auto_save_blocked_def update_auto_save_state_def assms(2) option.case
    by (rule *) (simp_all add: same_choice_def)
qed

end
