(* ===== verification/Block_Diff_Identity.thy ===== *)
theory Block_Diff_Identity
  imports Block_Diff
begin

text \<open>
  An unedited body yields an empty plan. Over the blocks of a body and a shadow that was built from
  the same body, every alignment pass of diff.rs keeps the diagonal: a block is unmatched or matched
  with the shadow block of its own index, and the last pass leaves none unmatched.
\<close>

section \<open>The diagonal\<close>

definition same_blocks :: "shadow_document \<Rightarrow> segmented_block list \<Rightarrow> bool" where
  "same_blocks shadow es \<longleftrightarrow>
     length es = length (sd_blocks shadow)
     \<and> (\<forall>i < length es. seg_kind (es ! i) = sb_kind (sd_blocks shadow ! i)
          \<and> seg_content_hash (es ! i) = sb_content_hash (sd_blocks shadow ! i)
          \<and> seg_text (es ! i) = sb_text (sd_blocks shadow ! i)
          \<and> (\<forall>r. seg_remote_id (es ! i) = Some r \<longrightarrow> sb_remote_id (sd_blocks shadow ! i) = r))"

text \<open>Directives carry ids, and no two of them the same.\<close>

definition directive_ids_ok :: "shadow_document \<Rightarrow> segmented_block list \<Rightarrow> bool" where
  "directive_ids_ok shadow es \<longleftrightarrow>
     (\<forall>i < length es. is_directive (es ! i) \<longrightarrow> seg_remote_id (es ! i) \<noteq> None)
     \<and> distinct (map sb_remote_id (filter (\<lambda>b. kind_is_directive (sb_kind b)) (sd_blocks shadow)))"

definition diag_inv :: "shadow_document \<Rightarrow> segmented_block list \<Rightarrow> alignment \<Rightarrow> bool" where
  "diag_inv shadow es st \<longleftrightarrow>
     align_inv shadow es st
     \<and> (\<forall>i < length es. matches st ! i = None \<or> matches st ! i = Some i)
     \<and> (\<forall>i < length es. is_directive (es ! i) \<longrightarrow> matches st ! i = Some i)"

lemma same_blocks_directive:
  "same_blocks shadow es \<Longrightarrow> i < length es \<Longrightarrow>
   is_directive (es ! i) = kind_is_directive (sb_kind (sd_blocks shadow ! i))"
  by (simp add: same_blocks_def is_directive_def)

lemma diagonal_free:
  assumes "align_inv shadow es st" "\<forall>i < length es. matches st ! i = None \<or> matches st ! i = Some i"
    and "i < length es"
  shows "i \<notin> used_shadow st \<longleftrightarrow> matches st ! i = None"
proof -
  have "used_shadow st = {s. Some s \<in> set (matches st)}" "length (matches st) = length es"
    using assms(1) by (simp_all add: align_inv_def)
  then show ?thesis
    using assms(2,3) by (auto simp: in_set_conv_nth)
qed

lemma nth_match_block:
  "i < length (matches st) \<Longrightarrow>
   matches (match_block i s st) ! j = (if j = i then Some s else matches st ! j)"
  by (simp add: match_block_def)

lemma diag_length: "diag_inv shadow es st \<Longrightarrow> length (matches st) = length es"
  by (simp add: diag_inv_def align_inv_def)

lemma diag_can_match:
  assumes "same_blocks shadow es" "diag_inv shadow es st" "i < length es" "matches st ! i = None"
  shows "can_match shadow es st i i"
  using assms diagonal_free[of shadow es st i]
  by (auto simp: can_match_def diag_inv_def same_blocks_directive same_blocks_def[of shadow es])

lemma diag_match:
  assumes "same_blocks shadow es" "diag_inv shadow es st" "i < length es" "matches st ! i = None"
  shows "diag_inv shadow es (match_block i i st)"
proof -
  have "align_inv shadow es (match_block i i st)"
    using align_inv_match[OF _ diag_can_match[OF assms]] assms(2) by (simp add: diag_inv_def)
  moreover have "\<forall>j < length es. matches (match_block i i st) ! j = None \<or> matches (match_block i i st) ! j = Some j"
    "\<forall>j < length es. is_directive (es ! j) \<longrightarrow> matches (match_block i i st) ! j = Some j"
    using assms(2,3) diag_length[OF assms(2)] by (simp_all add: nth_match_block diag_inv_def)
  ultimately show ?thesis by (simp add: diag_inv_def)
qed

lemma diag_residuals:
  assumes "same_blocks shadow es" "diag_inv shadow es st" "hi \<le> length es"
  shows "residual_shadow shadow st lo hi = residual_edited es st lo hi"
  unfolding residual_shadow_def residual_edited_def
proof (rule filter_cong[OF refl])
  fix i assume "i \<in> set [lo..<hi]"
  then have i: "i < length es" using assms(3) by simp
  have "i \<notin> used_shadow st \<longleftrightarrow> matches st ! i = None"
    using assms(2) i diagonal_free[of shadow es st i] by (simp add: diag_inv_def)
  with i assms(1) show "(i \<notin> used_shadow st \<and> \<not> kind_is_directive (sb_kind (sd_blocks shadow ! i))) =
      (matches st ! i = None \<and> \<not> is_directive (es ! i))"
    by (simp add: same_blocks_directive)
qed

text \<open>Assigning a diagonal list of free pairs.\<close>

lemma diag_match_pairs:
  assumes "same_blocks shadow es" "diag_inv shadow es st" "distinct is"
    and "\<forall>i\<in>set is. i < length es \<and> matches st ! i = None"
  shows "diag_inv shadow es (match_pairs (map (\<lambda>i. (i, i)) is) st) \<and>
    (\<forall>i\<in>set is. matches (match_pairs (map (\<lambda>i. (i, i)) is) st) ! i = Some i) \<and>
    (\<forall>i < length es. matches st ! i = Some i \<longrightarrow>
       matches (match_pairs (map (\<lambda>i. (i, i)) is) st) ! i = Some i)"
  using assms(2-)
proof (induction "is" arbitrary: st)
  case Nil
  then show ?case by (simp add: match_pairs_def)
next
  case (Cons i "is")
  have i: "i < length es" "matches st ! i = None" using Cons.prems(3) by simp_all
  have d: "diag_inv shadow es (match_block i i st)" by (rule diag_match[OF assms(1) Cons.prems(1) i])
  have len: "length (matches st) = length es" by (rule diag_length[OF Cons.prems(1)])
  have "\<forall>j\<in>set is. j < length es \<and> matches (match_block i i st) ! j = None"
    using Cons.prems(2,3) i len by (auto simp: nth_match_block)
  note IH = Cons.IH[OF d _ this]
  have "match_pairs (map (\<lambda>i. (i, i)) (i # is)) st = match_pairs (map (\<lambda>i. (i, i)) is) (match_block i i st)"
    by (simp add: match_pairs_def)
  with IH Cons.prems(2) i len show ?case by (simp add: nth_match_block)
qed

section \<open>The passes\<close>

lemma directive_index_diag:
  assumes "directive_ids_ok shadow es" "same_blocks shadow es" "i < length es" "is_directive (es ! i)"
  shows "bm_get (shadow_directive_indexes_by_id shadow) (sb_remote_id (sd_blocks shadow ! i)) = Some i"
proof (cases "bm_get (shadow_directive_indexes_by_id shadow) (sb_remote_id (sd_blocks shadow ! i))")
  case None
  have "(i, sd_blocks shadow ! i) \<in> set (enumerate 0 (sd_blocks shadow))"
    using assms(2,3) by (simp add: in_set_enumerate same_blocks_def)
  with None assms show ?thesis
    by (auto simp: shadow_directive_indexes_by_id_def bm.get_collect map_of_eq_None_iff image_iff
        same_blocks_directive)
next
  case (Some j)
  note j = shadow_directive_index[OF Some]
  have i: "i < length (sd_blocks shadow)" "kind_is_directive (sb_kind (sd_blocks shadow ! i))"
    using assms same_blocks_directive[OF assms(2,3)] by (auto simp: same_blocks_def)
  have "i = j"
  proof (rule ccontr)
    let ?bs = "sd_blocks shadow" and ?p = "\<lambda>b. kind_is_directive (sb_kind b)"
    assume "i \<noteq> j"
    have *: "\<not> distinct (map sb_remote_id (filter ?p ?bs))"
      if "a < b" "b < length ?bs" "?p (?bs ! a)" "?p (?bs ! b)"
        "sb_remote_id (?bs ! a) = sb_remote_id (?bs ! b)" for a b
    proof -
      have "?bs = take a ?bs @ ?bs ! a # drop (Suc a) ?bs" using that by (simp add: id_take_nth_drop)
      moreover have "?bs ! b \<in> set (drop (Suc a) ?bs)"
        using that by (auto simp: in_set_conv_nth intro!: exI[of _ "b - Suc a"])
      ultimately have "\<exists>xs ys. ?bs = xs @ ?bs ! a # ys \<and> ?bs ! b \<in> set ys" by blast
      then obtain xs ys where bs: "?bs = xs @ ?bs ! a # ys" and y: "?bs ! b \<in> set ys" by blast
      have "map sb_remote_id (filter ?p (xs @ ?bs ! a # ys)) = map sb_remote_id (filter ?p xs) @
          sb_remote_id (?bs ! a) # map sb_remote_id (filter ?p ys)"
        using that(3) by simp
      moreover have "sb_remote_id (?bs ! a) \<in> set (map sb_remote_id (filter ?p ys))"
        using that(4,5) y by auto
      ultimately have "\<not> distinct (map sb_remote_id (filter ?p (xs @ ?bs ! a # ys)))" by simp
      then show ?thesis using bs by simp
    qed
    from \<open>i \<noteq> j\<close> *[of i j] *[of j i] i j assms(1) show False
      by (auto simp: directive_ids_ok_def neq_iff)
  qed
  with Some show ?thesis by simp
qed

lemma align_directives_diag:
  assumes "directive_ids_ok shadow es" "same_blocks shadow es"
  shows "diag_inv shadow es (align_directives shadow es (alignment_start es))"
proof -
  let ?f = "\<lambda>(edited_index, block) st.
           if \<not> is_directive block then st
           else case seg_remote_id block of
             None \<Rightarrow> st
           | Some remote_id \<Rightarrow>
               match_if_unused edited_index (bm_get (shadow_directive_indexes_by_id shadow) remote_id) st"
  let ?P = "\<lambda>k st. length (matches st) = length es \<and> used_shadow st = {i. i < k \<and> is_directive (es ! i)} \<and>
        (\<forall>i < length es. matches st ! i = (if i < k \<and> is_directive (es ! i) then Some i else None))"
  have "?P (length es) (fold ?f (enumerate 0 es) (alignment_start es))"
  proof (rule fold_enumerate_inv[where P = ?P])
    show "?P 0 (alignment_start es)" by (simp add: alignment_start_def)
  next
    fix k and st :: alignment
    assume k: "k < length es" and P: "?P k st"
    show "?P (Suc k) (?f (k, es ! k) st)"
    proof (cases "is_directive (es ! k)")
      case True
      then obtain r where r: "seg_remote_id (es ! k) = Some r"
        using assms(1) k by (auto simp: directive_ids_ok_def)
      then have "sb_remote_id (sd_blocks shadow ! k) = r" using assms(2) k by (simp add: same_blocks_def)
      with directive_index_diag[OF assms k True] True r P k show ?thesis
        by (auto simp: match_if_unused_def match_block_def nth_list_update less_Suc_eq)
    next
      case False
      with P show ?thesis by (auto simp: less_Suc_eq)
    qed
  qed
  then have "\<forall>i < length es. matches (align_directives shadow es (alignment_start es)) ! i =
      (if is_directive (es ! i) then Some i else None)"
    by (simp add: align_directives_def Let_def)
  with align_directives_inv[of shadow es] show ?thesis by (simp add: diag_inv_def)
qed

lemma bm_get_count_entries:
  "bm_get (count_entries ks) k = (if count_list ks k = 0 then None else Some (count_list ks k))"
proof -
  have "bm_get (fold (\<lambda>k counts. bm_insert k ((case bm_get counts k of None \<Rightarrow> 0 | Some n \<Rightarrow> n) + 1) counts) ks m) k =
      (if count_list ks k = 0 then bm_get m k
       else Some ((case bm_get m k of None \<Rightarrow> 0 | Some n \<Rightarrow> n) + count_list ks k))" for m
    by (induction ks arbitrary: m) (auto simp: bm_get_insert split: option.splits)
  from this[of "[]"] show ?thesis by (simp add: count_entries_def)
qed

lemma count_list_pos: "x \<in> set xs \<Longrightarrow> 0 < count_list xs x"
  by (induction xs) auto

lemma count_list_one_inj:
  "count_list (concat (map f xs)) v = 1 \<Longrightarrow> a \<in> set xs \<Longrightarrow> b \<in> set xs \<Longrightarrow> v \<in> set (f a) \<Longrightarrow> v \<in> set (f b) \<Longrightarrow> a = b"
proof (induction xs)
  case (Cons x xs)
  have pos: "0 < count_list (concat (map f xs)) v" if "c \<in> set xs" "v \<in> set (f c)" for c
    using that by (intro count_list_pos) auto
  show ?case
    using Cons pos[of a] pos[of b] count_list_pos[of v "f x"]
    by (auto simp: count_list_append)
qed simp

lemma align_exact_hashes_diag:
  assumes "same_blocks shadow es" "diag_inv shadow es st"
  shows "diag_inv shadow es (align_exact_hashes shadow es st)"
proof -
  let ?H = "unique_native_shadow_hashes shadow st"
  let ?keep = "\<lambda>st'. diag_inv shadow es st' \<and> (\<forall>i < length es. matches st ! i \<noteq> None \<longrightarrow> matches st' ! i \<noteq> None)"
  have "?keep (fold (\<lambda>(edited_index, block) st'.
           if matches st' ! edited_index \<noteq> None \<or> is_directive block then st'
           else if bm_get counts (seg_content_hash block) \<noteq> Some 1 then st'
           else match_if_unused edited_index (bm_get ?H (seg_content_hash block)) st')
         (enumerate 0 es) st)" for counts
  proof (rule fold_enumerate_inv[where P = "\<lambda>i. ?keep"])
    show "?keep st" using assms(2) by simp
  next
    fix i st' assume i: "i < length es" and k: "?keep st'"
    have "?keep (match_if_unused i (bm_get ?H (seg_content_hash (es ! i))) st')"
      if n: "matches st' ! i = None" "\<not> is_directive (es ! i)"
    proof (cases "bm_get ?H (seg_content_hash (es ! i))")
      case None
      with k show ?thesis by (simp add: match_if_unused_def)
    next
      case (Some s)
      let ?native = "residual_shadow shadow st 0 (length (sd_blocks shadow))"
      let ?h = "\<lambda>i. sb_content_hash (sd_blocks shadow ! i)"
      have s: "s \<in> set ?native" "bm_get (count_entries (map ?h ?native)) (?h s) = Some 1"
        "?h s = seg_content_hash (es ! i)"
        using bm_get_in_set[OF Some[unfolded unique_native_shadow_hashes_def Let_def]] by auto
      have "matches st ! i = None" using n(1) k i by auto
      then have "i \<in> set ?native"
        using diag_residuals[OF assms, of "length es" 0] i n(2) assms(1)
        by (simp add: in_residual_edited same_blocks_def)
      moreover have "?h i = ?h s" using s(3) i assms(1) by (simp add: same_blocks_def)
      moreover have "count_list (concat (map (\<lambda>i. [?h i]) ?native)) (?h s) = 1"
        using s(2) by (simp add: bm_get_count_entries split: if_splits)
      ultimately have "i = s"
        using s(1) by (intro count_list_one_inj[of "\<lambda>i. [?h i]" ?native "?h s" i s]) simp_all
      moreover have "length (matches st') = length es" using k diag_length by blast
      ultimately show ?thesis
        using Some k n(1) i diag_match[OF assms(1) _ i n(1)] diagonal_free[of shadow es st' i]
        by (auto simp: match_if_unused_def nth_match_block diag_inv_def[of shadow es st'])
    qed
    with k show "?keep ((\<lambda>(edited_index, block) st'.
           if matches st' ! edited_index \<noteq> None \<or> is_directive block then st'
           else if bm_get counts (seg_content_hash block) \<noteq> Some 1 then st'
           else match_if_unused edited_index (bm_get ?H (seg_content_hash block)) st') (i, es ! i) st')"
      by simp
  qed
  then show ?thesis unfolding align_exact_hashes_def Let_def by blast
qed

lemma align_equivalent_bodies_diag:
  assumes "same_blocks shadow es" "diag_inv shadow es st"
  shows "diag_inv shadow es (align_equivalent_bodies shadow es st)"
  unfolding align_equivalent_bodies_def Let_def
proof (rule fold_inv[where P = "diag_inv shadow es", OF assms(2)], goal_cases)
  case (1 x st')
  let ?rs = "residual_shadow shadow st 0 (length (sd_blocks shadow))"
  let ?re = "residual_edited es st 0 (length es)"
  let ?cand = "\<lambda>edited_index. filter (\<lambda>shadow_index.
            rendered_bodies_equivalent (sb_text (sd_blocks shadow ! shadow_index))
              (seg_text (es ! edited_index))) ?rs"
  have same: "?rs = ?re"
    using diag_residuals[OF assms order_refl, of 0] assms(1) by (simp add: same_blocks_def)
  obtain i c where x: "x = (i, c)" by (cases x)
  have i: "i \<in> set ?re" and c: "c = ?cand i"
    using bm_collect_in_set[OF 1(1)[unfolded x]] by auto
  have unique: "s = i" if "s \<in> set c" "bm_get (count_entries (concat (map ?cand ?re))) s = Some 1" for s
  proof (rule count_list_one_inj[of ?cand ?re s])
    show "count_list (concat (map ?cand ?re)) s = 1"
      using that(2) by (simp add: bm_get_count_entries split: if_splits)
    have s: "s \<in> set ?rs" using that(1) c by auto
    then show "s \<in> set ?re" using same by simp
    then have "sb_text (sd_blocks shadow ! s) = seg_text (es ! s)"
      using assms(1) by (auto simp: in_residual_edited same_blocks_def)
    with s show "s \<in> set (?cand s)" by simp
    show "s \<in> set (?cand i)" using that(1) c by simp
  qed (rule i)
  have il: "i < length es" using i by (simp add: in_residual_edited)
  have hit: "filter (\<lambda>shadow_index. shadow_index \<notin> used_shadow st' \<and>
      bm_get (count_entries (concat (map ?cand ?re))) shadow_index = Some 1) c = [s] \<Longrightarrow> s = i" for s
    using unique[of s] by (auto simp: filter_eq_Cons_iff)
  show ?case
    unfolding x prod.case
    using 1(2) hit diag_match[OF assms(1) 1(2) il] by (auto split: list.split)
qed

lemma anchors_diag:
  assumes "diag_inv shadow es st" "(i, s) \<in> set (ordered_alignment_anchors (matches st))"
  shows "i = s \<and> i < length es"
  using anchors_sound[OF _ assms(2)] assms(1) by (fastforce simp: diag_inv_def)

lemma align_gaps_diag:
  assumes "diag_inv shadow es st"
    and "\<And>prev next st. (case prev of None \<Rightarrow> True | Some (i, s) \<Rightarrow> i = s \<and> i < length es) \<Longrightarrow>
      (case next of None \<Rightarrow> True | Some (i, s) \<Rightarrow> i = s \<and> i < length es) \<Longrightarrow>
      diag_inv shadow es st \<Longrightarrow> diag_inv shadow es (gap prev next st)"
  shows "diag_inv shadow es (align_gaps gap st)"
proof -
  let ?Q = "\<lambda>a. case a of None \<Rightarrow> True | Some (i, s) \<Rightarrow> i = s \<and> i < length es"
  have "list_all (\<lambda>a. ?Q (Some a)) (ordered_alignment_anchors (matches st))"
    using anchors_diag[OF assms(1)] by (auto simp: list_all_iff)
  with gaps_loop_inv[where P = "diag_inv shadow es" and Q = ?Q and gap = gap and prev = None and st = st,
      OF assms(2)] assms(1)
  show ?thesis by (simp add: align_gaps_def Let_def)
qed

lemma gap_residuals_diag:
  assumes "same_blocks shadow es" "diag_inv shadow es st"
    and "case prev of None \<Rightarrow> True | Some (i, s) \<Rightarrow> i = s \<and> i < length es"
    and "case next of None \<Rightarrow> True | Some (i, s) \<Rightarrow> i = s \<and> i < length es"
  obtains lo hi where "hi \<le> length es"
    "gap_residuals shadow es st prev next = (residual_edited es st lo hi, residual_edited es st lo hi)"
proof -
  obtain lo where lo: "gap_starts prev = (lo, lo)"
    using assms(3) by (cases prev) (auto simp: gap_starts_def)
  obtain hi where hi: "gap_ends (length es) (length (sd_blocks shadow)) next = (hi, hi)" "hi \<le> length es"
    using assms(1,4) by (cases "next") (auto simp: gap_ends_def same_blocks_def)
  show thesis
    using that[of hi lo] hi lo diag_residuals[OF assms(1,2) hi(2)] by (simp add: gap_residuals_def)
qed

lemma kinds_match_diag:
  assumes "same_blocks shadow es" "hi \<le> length es"
  shows "residual_kinds_match_common_prefix shadow es (residual_edited es st lo hi)
    (residual_edited es st lo hi)"
proof -
  have "same_alignment_kind k k" for k by (cases k) (simp_all add: same_alignment_kind_def)
  with assms show ?thesis
    by (auto simp: residual_kinds_match_common_prefix_def list_all_iff in_set_zip in_residual_edited
        same_blocks_def[of shadow es] dest!: nth_mem)
qed

lemma align_heading_diag:
  assumes "same_blocks shadow es" "diag_inv shadow es st"
  shows "diag_inv shadow es (align_heading_bounded_rewrites shadow es st)"
  unfolding align_heading_bounded_rewrites_def
proof (rule align_gaps_diag[OF assms(2)], goal_cases)
  case (1 prev "next" st)
  obtain lo hi where "hi \<le> length es"
    "gap_residuals shadow es st prev next = (residual_edited es st lo hi, residual_edited es st lo hi)"
    using gap_residuals_diag[OF assms(1) 1(3,1,2)] .
  with 1 kinds_match_diag[OF assms(1)] show ?case by (simp add: align_heading_bounded_gap_def)
qed

text \<open>On equal residues the subsequence pass assigns the diagonal.\<close>

lemma zip_diag: "zip xs xs = map (\<lambda>i. (i, i)) xs"
  by (induction xs) simp_all

lemma equivalent_diag:
  assumes "same_blocks shadow es" "i < length es"
  shows "equivalent_alignment_blocks (sd_blocks shadow ! i) (es ! i)"
proof -
  have "same_alignment_kind k k" for k by (cases k) (simp_all add: same_alignment_kind_def)
  with assms show ?thesis by (simp add: equivalent_alignment_blocks_def same_blocks_def)
qed

lemma subsequence_diag:
  assumes "same_blocks shadow es" "hi \<le> length es"
  shows "align_equivalent_subsequence_indexes shadow es (residual_edited es st lo hi)
     (residual_edited es st lo hi) st = match_pairs (map (\<lambda>i. (i, i)) (residual_edited es st lo hi)) st"
proof -
  let ?r = "residual_edited es st lo hi"
  have "equivalent_alignment_blocks (sd_blocks shadow ! (?r ! k)) (es ! (?r ! k))" if "k < length ?r" for k
    using nth_mem[OF that] assms by (intro equivalent_diag) (auto simp: in_residual_edited)
  then have w: "lcs_walk (\<lambda>e s. equivalent_alignment_blocks (sd_blocks shadow ! s) (es ! e)) ?r ?r len 0 0 =
      map (\<lambda>k. (k, k)) [0..<length ?r]" for len
    by (intro lcs_walk_diagonal) simp_all
  have "map (\<lambda>(a, b). (?r ! a, ?r ! b)) (map (\<lambda>k. (k, k)) [0..<length ?r]) = map (\<lambda>i. (i, i)) ?r"
    by (rule nth_equalityI) simp_all
  then show ?thesis
    by (simp add: align_equivalent_subsequence_indexes_def Let_def w match_pairs_def)
qed

lemma match_residual_diag:
  assumes "same_blocks shadow es" "diag_inv shadow es st" "hi \<le> length es"
  shows "diag_inv shadow es (match_pairs (map (\<lambda>i. (i, i)) (residual_edited es st lo hi)) st)"
    and "lo \<le> i \<Longrightarrow> i < hi \<Longrightarrow>
      matches (match_pairs (map (\<lambda>i. (i, i)) (residual_edited es st lo hi)) st) ! i = Some i"
proof -
  have r: "\<forall>i\<in>set (residual_edited es st lo hi). i < length es \<and> matches st ! i = None"
    using assms(3) by (auto simp: in_residual_edited)
  note d = diag_match_pairs[OF assms(1,2) residual_distinct(1) r]
  then show "diag_inv shadow es (match_pairs (map (\<lambda>i. (i, i)) (residual_edited es st lo hi)) st)" by blast
  assume i: "lo \<le> i" "i < hi"
  then have "i < length es" using assms(3) by simp
  then have "i \<in> set (residual_edited es st lo hi) \<or> matches st ! i = Some i"
    using i assms(2) by (auto simp: in_residual_edited diag_inv_def)
  with d \<open>i < length es\<close>
  show "matches (match_pairs (map (\<lambda>i. (i, i)) (residual_edited es st lo hi)) st) ! i = Some i" by blast
qed

lemma align_residual_diag:
  assumes "same_blocks shadow es" "diag_inv shadow es st"
  shows "\<exists>st'. align_residual_by_order shadow es st = (st', None) \<and> diag_inv shadow es st' \<and>
    (\<forall>i < length es. matches st' ! i = Some i)"
proof -
  let ?st1 = "align_residual_equivalent_gaps shadow es st"
  have 1: "diag_inv shadow es ?st1"
    unfolding align_residual_equivalent_gaps_def
  proof (rule align_gaps_diag[OF assms(2)], goal_cases)
    case (1 prev "next" st)
    obtain lo hi where "hi \<le> length es"
      "gap_residuals shadow es st prev next = (residual_edited es st lo hi, residual_edited es st lo hi)"
      using gap_residuals_diag[OF assms(1) 1(3,1,2)] .
    then show ?case
      using match_residual_diag(1)[OF assms(1) 1(3)]
      by (simp add: align_residual_equivalent_gap_def subsequence_diag[OF assms(1)])
  qed
  have len: "length (sd_blocks shadow) = length es" using assms(1) by (simp add: same_blocks_def)
  let ?st2 = "align_residual_equivalent_subsequence shadow es ?st1"
  have 2: "diag_inv shadow es ?st2"
    using match_residual_diag(1)[OF assms(1) 1 order_refl]
    by (simp add: align_residual_equivalent_subsequence_def len diag_residuals[OF assms(1) 1]
        subsequence_diag[OF assms(1)])
  have "residual_shadow shadow ?st2 0 (length es) = residual_edited es ?st2 0 (length es)"
    by (rule diag_residuals[OF assms(1) 2 order_refl])
  then have r: "align_residual_by_order shadow es st =
      (match_pairs (map (\<lambda>i. (i, i)) (residual_edited es ?st2 0 (length es))) ?st2, None)"
    using kinds_match_diag[OF assms(1), of "length es" ?st2 0]
    by (simp add: align_residual_by_order_def Let_def len zip_diag)
  show ?thesis
    unfolding r using match_residual_diag[OF assms(1) 2 order_refl, of 0] by simp
qed

lemma align_blocks_diag:
  assumes "directive_ids_ok shadow es" "same_blocks shadow es"
  shows "\<exists>st. align_blocks shadow es = (st, []) \<and> matches st = map Some [0..<length es]"
proof -
  note d = align_heading_diag[OF assms(2) align_equivalent_bodies_diag[OF assms(2)
      align_exact_hashes_diag[OF assms(2) align_directives_diag[OF assms]]]]
  obtain st where st: "align_residual_by_order shadow es (align_heading_bounded_rewrites shadow es
      (align_equivalent_bodies shadow es (align_exact_hashes shadow es
        (align_directives shadow es (alignment_start es))))) = (st, None)"
    and i: "diag_inv shadow es st" "\<forall>i < length es. matches st ! i = Some i"
    using align_residual_diag[OF assms(2) d] by blast
  have "matches st = map Some [0..<length es]"
    using i diag_length[OF i(1)] by (intro nth_equalityI) simp_all
  with st show ?thesis by (simp add: align_blocks_def Let_def)
qed


section \<open>The plan of an unedited body\<close>

lemma find_previous: "List.find (\<lambda>i. i < n) (rev [0..<k]) = (if k = 0 then None else Some (k - 1))"
  if "k \<le> n"
  using that by (cases k) simp_all

lemma plan_fold_diag:
  assumes "same_blocks shadow es" "k \<le> length es"
  shows "fold (plan_step shadow (set [0..<length es])) (take k (zip es (map Some [0..<length es])))
      (plan_start ops) =
    \<lparr>ps_operations = ops, ps_recreated_shadow = {}, ps_moved_existing_ids = {},
     ps_previous_existing_id = (if k = 0 then None else Some (sb_remote_id (sd_blocks shadow ! (k - 1))))\<rparr>"
  using assms(2)
proof (induction k)
  case 0
  then show ?case by (simp add: plan_start_def)
next
  case (Suc k)
  have k: "k < length es" using Suc.prems by simp
  have t: "take (Suc k) (zip es (map Some [0..<length es])) =
      take k (zip es (map Some [0..<length es])) @ [(es ! k, Some k)]"
    using k by (simp add: take_Suc_conv_app_nth)
  have prev: "previous_retained_shadow_id shadow k (set [0..<length es]) {} =
      (if k = 0 then None else Some (sb_remote_id (sd_blocks shadow ! (k - 1))))"
    using find_previous[of k "length es"] k by (simp add: previous_retained_shadow_id_def)
  have "seg_kind (es ! k) = sb_kind (sd_blocks shadow ! k)" "seg_text (es ! k) = sb_text (sd_blocks shadow ! k)"
    using assms(1) k by (simp_all add: same_blocks_def)
  then show ?case
    using Suc.IH k prev
    by (simp add: t plan_step_def Let_def should_move_block_def should_recreate_moved_native_block_def
        should_replace_block_def)
qed

lemma archive_none: "archive_operations shadow (set [0..<length (sd_blocks shadow)]) {} = []"
  by (auto simp: archive_operations_def filter_empty_conv in_set_enumerate)

lemma map_filter_Some: "List.map_filter (\<lambda>m. m) (map Some xs) = xs"
  by (induction xs) (simp_all add: map_filter_def)

text \<open>Complete directives validate against the shadow they came from.\<close>

definition directives_complete :: "segmented_block list \<Rightarrow> bool" where
  "directives_complete es \<longleftrightarrow>
     list_all (\<lambda>b. case seg_kind b of
        MDirective t _ malformed \<Rightarrow> t \<noteq> None \<and> \<not> malformed \<and> seg_remote_id b \<noteq> None
      | _ \<Rightarrow> True) es"

lemma directive_block_get:
  assumes "directive_ids_ok shadow es" "same_blocks shadow es" "i < length es" "is_directive (es ! i)"
  shows "bm_get (shadow_directives_by_id shadow) (sb_remote_id (sd_blocks shadow ! i)) =
    Some (sd_blocks shadow ! i)"
proof -
  let ?bs = "sd_blocks shadow" and ?p = "\<lambda>b. kind_is_directive (sb_kind b)"
  let ?E = "enumerate 0 ?bs"
  let ?I = "map (\<lambda>(index, b). (sb_remote_id b, index)) (filter (\<lambda>(_, b). ?p b) ?E)"
  have "map (\<lambda>b. (sb_remote_id b, b)) (filter ?p ?bs) =
      map (\<lambda>b. (sb_remote_id b, b)) (filter ?p (map snd ?E))"
    by (simp only: enumerate_map_fst_snd(2))
  also have "\<dots> = map (\<lambda>(_, b). (sb_remote_id b, b)) (filter (\<lambda>(_, b). ?p b) ?E)"
    unfolding filter_map map_map comp_def case_prod_unfold by (rule refl)
  also have "\<dots> = map (\<lambda>(r, j). (r, ?bs ! j)) ?I"
    unfolding map_map by (rule map_cong[OF refl]) (auto simp: in_set_enumerate)
  finally have "shadow_directives_by_id shadow = bm_collect (map (\<lambda>(r, j). (r, ?bs ! j)) ?I)"
    by (simp only: shadow_directives_by_id_def)
  then have "bm_get (shadow_directives_by_id shadow) = map_option ((!) ?bs) \<circ> map_of (rev ?I)"
    by (simp only: bm.get_collect[THEN ext] rev_map) (rule map_of_map)
  moreover have "map_of (rev ?I) (sb_remote_id (?bs ! i)) = Some i"
    using directive_index_diag[OF assms] unfolding shadow_directive_indexes_by_id_def bm.get_collect .
  ultimately show ?thesis by simp
qed

lemma validate_complete:
  assumes "directive_ids_ok shadow es" "same_blocks shadow es" "directives_complete es"
  shows "is_clean (validate_edited_directives shadow es)"
proof -
  have "edited_directive_issues (shadow_directives_by_id shadow) (es ! i) = []"
    if i: "i < length es" and d: "is_directive (es ! i)" for i
  proof -
    obtain t raw r where k: "seg_kind (es ! i) = MDirective t raw False" "t \<noteq> None"
      "seg_remote_id (es ! i) = Some r"
      using assms(3)[unfolded directives_complete_def list_all_length, rule_format, OF i] d
      by (cases "seg_kind (es ! i)") (auto simp: is_directive_def kind_is_directive_def)
    with assms(2) i have b: "sb_remote_id (sd_blocks shadow ! i) = r"
      "sb_kind (sd_blocks shadow ! i) = MDirective t raw False"
      by (simp_all add: same_blocks_def)
    with directive_block_get[OF assms(1,2) i d] k show ?thesis
      by (auto simp: edited_directive_issues_def Let_def)
  qed
  then show ?thesis
    by (auto simp: validate_edited_directives_def is_clean_def in_set_conv_nth)
qed

lemma synced_same_blocks:
  assumes "from_synced_body e body L ids = Inr sh"
  shows "same_blocks (with_frontmatter sh fm) (segment_markdown_body body M)"
proof -
  let ?bs = "segment_markdown_body body L" and ?es = "segment_markdown_body body M"
  note b = from_synced_body_blocks[OF assms]
  have c: "map block_core ?es = map block_core ?bs" by (rule segment_markdown_body_core)
  have len: "length ?es = length ?bs" using arg_cong[OF c, of length] by simp
  have "block_core (?es ! i) = block_core (?bs ! i)" if "i < length ?es" for i
    using arg_cong[OF c, of "\<lambda>l. l ! i"] that len by simp
  moreover have "ids_of bs ids ! i = r" if "i < length bs" "seg_remote_id (bs ! i) = Some r" for bs i r ids
    using that
  proof (induction bs ids arbitrary: i rule: ids_of.induct)
    case (2 b bs ids)
    then show ?case by (cases i) (auto split: option.split)
  qed simp
  ultimately show ?thesis
    using len by (auto simp: same_blocks_def b with_frontmatter_def shadow_of_def block_core_def)
qed

lemma unedited_plan:
  assumes "from_synced_body e body L ids = Inr sh"
    and "directives_complete (segment_markdown_body body M)"
    and "distinct (map sb_remote_id (filter (\<lambda>b. kind_is_directive (sb_kind b)) (sd_blocks sh)))"
    and "cd_body edited = body" "cd_frontmatter edited = fm"
    and "fence_free (norm_frontmatter fm)" "parse_frontmatter Y (norm_frontmatter fm) = Inr f"
    and "\<And>v. value_eq Y v v"
  shows "plan_block_diff Y (with_frontmatter sh fm) edited M = Inr (plan_new [e] [])"
proof -
  let ?sh = "with_frontmatter sh fm" and ?es = "segment_markdown_body body M"
  have sd [simp]: "sd_blocks ?sh = sd_blocks sh" "sd_entity_id ?sh = e" "sd_frontmatter ?sh = fm"
    using from_synced_body_blocks[OF assms(1)] by (simp_all add: with_frontmatter_def)
  have same: "same_blocks ?sh ?es" by (rule synced_same_blocks[OF assms(1)])
  have ids: "directive_ids_ok ?sh ?es"
    using assms(2,3)
    by (auto simp: directive_ids_ok_def directives_complete_def list_all_length is_directive_def
        kind_is_directive_def split: markdown_block_kind.splits)
  obtain st where st: "align_blocks ?sh ?es = (st, [])" "matches st = map Some [0..<length ?es]"
    using align_blocks_diag[OF ids same] by blast
  have len: "length ?es = length (sd_blocks sh)" using same by (simp add: same_blocks_def)
  have props: "property_diff_operations Y ?sh edited = Inr []"
    using assms(5-8) by (intro property_diff_same[of _ _ _ f]) simp_all
  show ?thesis
    using validate_complete[OF ids same assms(2)] st props plan_fold_diag[OF same order_refl, of "[]"]
      archive_none[of ?sh] len assms(4)
    by (simp add: plan_block_diff_def map_filter_Some with_degradations_def plan_new_def)
qed

text \<open>C1: a push of an unedited file plans nothing. For a shadow built from a synced body and a
  document with the same frontmatter and body, the block plan exists and has no operation and no
  degradation, wherever the body starts in the file, as long as the directives of the body are
  complete and have distinct ids and the frontmatter parses.\<close>

theorem unedited_plan_empty:
  assumes "from_synced_body e body L ids = Inr sh"
    and "directives_complete (segment_markdown_body body M)"
    and "distinct (map sb_remote_id (filter (\<lambda>b. kind_is_directive (sb_kind b)) (sd_blocks sh)))"
    and "cd_body edited = body" "cd_frontmatter edited = fm"
    and "fence_free (norm_frontmatter fm)" "parse_frontmatter Y (norm_frontmatter fm) = Inr f"
    and "\<And>v. value_eq Y v v"
  shows "plan_block_diff Y (with_frontmatter sh fm) edited M = Inr (plan_new [e] [])"
  using assms by (rule unedited_plan)

theorem unedited_plan_empty_witness:
  "\<exists>sh. from_synced_body (RemoteId ''e'') ''A'' 4 [RemoteId ''b''] = Inr sh \<and>
     plan_block_diff title_yaml (with_frontmatter sh (''title: A'' @ [CHR 0x0A]))
       (cd_new (''title: A'' @ [CHR 0x0A]) ''A'') 5 = Inr (plan_new [RemoteId ''e''] [])"
proof -
  let ?fm = "''title: A'' @ [CHR 0x0A]"
  have body: "length (segment_markdown_body ''A'' 4) = 1
      \<and> list_all (\<lambda>b. \<not> is_directive b) (segment_markdown_body ''A'' 4)
      \<and> directives_complete (segment_markdown_body ''A'' 5)
      \<and> \<not> isl (from_synced_body (RemoteId ''e'') ''A'' 4 [RemoteId ''b''])
      \<and> parse_frontmatter title_yaml ?fm = Inr \<lparr>fm_loc = None, fm_title = Some ''A'', fm_properties = []\<rparr>"
    by code_simp
  have seg: "length (segment_markdown_body ''A'' 4) = 1"
    "list_all (\<lambda>b. \<not> is_directive b) (segment_markdown_body ''A'' 4)"
    "directives_complete (segment_markdown_body ''A'' 5)"
    using body by blast+
  have "\<not> isl (from_synced_body (RemoteId ''e'') ''A'' 4 [RemoteId ''b''])" using body by blast
  then obtain sh where sh: "from_synced_body (RemoteId ''e'') ''A'' 4 [RemoteId ''b''] = Inr sh"
    using not_isl_Inr by blast
  have "length (sd_blocks sh) = 1" using from_synced_body_blocks(5)[OF sh] seg(1) by simp
  then have d: "distinct (map sb_remote_id (filter (\<lambda>b. kind_is_directive (sb_kind b)) (sd_blocks sh)))"
    by (cases "sd_blocks sh") auto
  have n: "norm_frontmatter ?fm = ?fm" by (simp add: norm_frontmatter_def terminated_def suffix_def)
  have ff: "fence_free (norm_frontmatter ?fm)"
    unfolding n by (simp add: fence_free_def fence_def trim_line_ending_def trim_end_matches_def)
  have pf: "parse_frontmatter title_yaml (norm_frontmatter ?fm) =
      Inr \<lparr>fm_loc = None, fm_title = Some ''A'', fm_properties = []\<rparr>"
    unfolding n using body by blast
  have "plan_block_diff title_yaml (with_frontmatter sh ?fm) (cd_new ?fm ''A'') 5 =
      Inr (plan_new [RemoteId ''e''] [])"
    by (rule unedited_plan_empty[OF sh seg(3) d _ _ ff pf]) (simp_all add: cd_new_def title_yaml_def)
  with sh show ?thesis by blast
qed

end
