(* ===== verification/Portable.thy ===== *)
theory Portable
  imports Planner
begin

text \<open>
  \<open>locality-core/src/portable.rs\<close> and \<open>workspace_layout.rs\<close>: logical paths and their validation,
  the portable projection values, the conversion of push operations into portable source operations,
  and the validated mount identities and targets of a workspace layout. Unicode normalisation and
  case folding (crates \<open>unicode-normalization\<close> and \<open>caseless\<close>) are a parameter. The lemmas show
  that an accepted path stays below the root it is bound to and that the conversions lose nothing.
\<close>

record unicode_lib =
  nfc :: "string \<Rightarrow> string"
  case_fold :: "string \<Rightarrow> string"

section \<open>Logical paths\<close>

datatype logical_path = LogicalPath (logical_path_str: string)

datatype logical_path_error =
    LpEmpty
  | LpAbsolute
  | LpBackslash
  | LpNonNormalizedComponent string
  | LpWindowsPrefix
  | LpReservedMetadata
  | LpReservedName string
  | LpUnsafeCharacter
  | LpNotNfc string
  | LpComponentTooLong string
  | LpPathTooLong

definition RESERVED_EXPORT_METADATA_PATH :: string where
  "RESERVED_EXPORT_METADATA_PATH = ''.loc/session.json''"

definition logical_path_error_display :: "logical_path_error \<Rightarrow> string" where
  "logical_path_error_display e =
     (case e of
        LpEmpty \<Rightarrow> ''logical path is empty''
      | LpAbsolute \<Rightarrow> ''logical path must be relative''
      | LpBackslash \<Rightarrow> ''logical path must use forward slashes''
      | LpNonNormalizedComponent c \<Rightarrow> ''logical path contains non-normalized component `'' @ c @ ''`''
      | LpWindowsPrefix \<Rightarrow> ''logical path contains a Windows prefix''
      | LpReservedMetadata \<Rightarrow>
          ''logical path is reserved for export metadata: '' @ RESERVED_EXPORT_METADATA_PATH
      | LpReservedName n \<Rightarrow> ''logical path contains reserved name `'' @ n @ ''`''
      | LpUnsafeCharacter \<Rightarrow> ''logical path contains an unsafe character''
      | LpNotNfc c \<Rightarrow> ''logical path component is not NFC: `'' @ c @ ''`''
      | LpComponentTooLong c \<Rightarrow> ''logical path component exceeds ADR0005 limits: `'' @ c @ ''`''
      | LpPathTooLong \<Rightarrow> ''logical path exceeds ADR0005 limits'')"

definition portable_path_collision_key :: "unicode_lib \<Rightarrow> string \<Rightarrow> string" where
  "portable_path_collision_key U v =
     join ''/'' (map (\<lambda>part. nfc U (case_fold U part)) (split_on (CHR ''/'') v))"

text \<open>The three superscript digits, in UTF-8.\<close>

definition device_suffix :: "string \<Rightarrow> bool" where
  "device_suffix suf \<longleftrightarrow>
     suf \<in> set [''1'', ''2'', ''3'', ''4'', ''5'', ''6'', ''7'', ''8'', ''9'',
       [CHR 0xC2, CHR 0xB9], [CHR 0xC2, CHR 0xB2], [CHR 0xC2, CHR 0xB3]]"

definition is_reserved_device :: "string \<Rightarrow> bool" where
  "is_reserved_device part \<longleftrightarrow>
     (let device_name = to_ascii_lowercase (hd (split_on (CHR ''.'') part));
          numbered = (\<lambda>p. case strip_prefix p device_name of None \<Rightarrow> False | Some suf \<Rightarrow> device_suffix suf)
      in device_name \<in> set [''con'', ''prn'', ''aux'', ''nul'', ''clock$'', ''conin$'', ''conout$'']
         \<or> numbered ''com'' \<or> numbered ''lpt'')"

definition unsafe_characters :: string where
  "unsafe_characters = [CHR ''<'', CHR ''>'', CHR '':'', CHR 0x22, CHR ''|'', CHR ''?'', CHR ''*'']"

definition validate_component :: "unicode_lib \<Rightarrow> usize \<Rightarrow> string \<Rightarrow> logical_path_error + unit" where
  "validate_component U index part =
     (if part = [] \<or> part = ''.'' \<or> part = ''..'' then Inl (LpNonNormalizedComponent part)
      else if nfc U part \<noteq> part then Inl (LpNotNfc part)
      else if length part > 255 \<or> utf16_units part > 255 then Inl (LpComponentTooLong part)
      else if has_control part \<or> list_ex (\<lambda>c. c \<in> set unsafe_characters) part then
        (if index = 0 \<and> 1 < length part \<and> part ! 1 = CHR '':'' \<and> is_ascii_alphabetic (part ! 0)
         then Inl LpWindowsPrefix else Inl LpUnsafeCharacter)
      else if last part \<in> set ''. '' then Inl (LpNonNormalizedComponent part)
      else if is_reserved_device part then Inl (LpReservedName part)
      else Inr ())"

text \<open>The loop over the components stops at the first error.\<close>

definition validate_components :: "unicode_lib \<Rightarrow> string list \<Rightarrow> logical_path_error + unit" where
  "validate_components U parts =
     rbind (try_map (\<lambda>(index, part). validate_component U index part) (enumerate 0 parts)) (\<lambda>_. Inr ())"

definition validate_logical_path :: "unicode_lib \<Rightarrow> string \<Rightarrow> logical_path_error + unit" where
  "validate_logical_path U v =
     (if v = [] then Inl LpEmpty
      else if prefix ''/'' v then Inl LpAbsolute
      else if CHR 0x5C \<in> set v then Inl LpBackslash
      else if portable_path_collision_key U v = portable_path_collision_key U RESERVED_EXPORT_METADATA_PATH
      then Inl LpReservedMetadata
      else if length v > 1024 \<or> utf16_units v > 1024 then Inl LpPathTooLong
      else validate_components U (split_on (CHR ''/'') v))"

definition logical_path_new :: "unicode_lib \<Rightarrow> string \<Rightarrow> logical_path_error + logical_path" where
  "logical_path_new U v = rbind (validate_logical_path U v) (\<lambda>_. Inr (LogicalPath v))"

definition to_relative_path_buf :: "logical_path \<Rightarrow> path" where
  "to_relative_path_buf p = components (logical_path_str p)"

definition logical_path_collision_key :: "unicode_lib \<Rightarrow> logical_path \<Rightarrow> string" where
  "logical_path_collision_key U p = portable_path_collision_key U (logical_path_str p)"

text \<open>Component by component: the path of a legacy operation must be made of plain names. File
  names are UTF-8 here, so \<open>to_str\<close> does not fail.\<close>

definition legacy_component :: "component \<Rightarrow> logical_path_error + string" where
  "legacy_component c =
     (case c of
        Normal n \<Rightarrow> Inr n
      | CurDir \<Rightarrow> Inl (LpNonNormalizedComponent ''.'')
      | ParentDir \<Rightarrow> Inl (LpNonNormalizedComponent ''..'')
      | RootDir \<Rightarrow> Inl LpAbsolute
      | Prefix _ \<Rightarrow> Inl LpWindowsPrefix)"

definition logical_path_from_legacy :: "unicode_lib \<Rightarrow> path \<Rightarrow> logical_path_error + logical_path" where
  "logical_path_from_legacy U p =
     rbind (try_map legacy_component p) (\<lambda>names. logical_path_new U (join ''/'' names))"

subsection \<open>Accepted paths\<close>


lemma validate_component_ok:
  assumes "validate_component U i part = Inr u"
  shows "part \<noteq> []" "part \<noteq> ''.''" "part \<noteq> ''..''" "\<not> has_control part"
    "set part \<inter> set unsafe_characters = {}" "\<not> is_reserved_device part" "length part \<le> 255"
    "utf16_units part \<le> 255" "nfc U part = part"
  using assms by (auto simp: validate_component_def list_ex_iff split: if_splits)

lemma validate_components_ok:
  "validate_components U parts = Inr u \<longleftrightarrow>
   (\<forall>i<length parts. validate_component U i (parts ! i) = Inr ())"
  by (auto simp: validate_components_def rbind_Inr_iff try_map_Inr list_all2_conv_all_nth
      nth_enumerate_eq intro: exI[of _ "replicate (length parts) ()"])

lemma logical_path_new_Inr:
  "logical_path_new U v = Inr p \<longleftrightarrow>
   p = LogicalPath v \<and> v \<noteq> [] \<and> \<not> prefix ''/'' v \<and> CHR 0x5C \<notin> set v
   \<and> portable_path_collision_key U v \<noteq> portable_path_collision_key U RESERVED_EXPORT_METADATA_PATH
   \<and> length v \<le> 1024 \<and> utf16_units v \<le> 1024
   \<and> (\<forall>i<length (split_on (CHR ''/'') v). validate_component U i (split_on (CHR ''/'') v ! i) = Inr ())"
  by (auto simp: logical_path_new_def rbind_Inr_iff validate_logical_path_def validate_components_ok
      not_less split: if_splits)

lemma accepted_parts:
  assumes "logical_path_new U v = Inr p" and "part \<in> set (split_on (CHR ''/'') v)"
  shows "\<exists>i. validate_component U i part = Inr ()"
  using assms by (auto simp: logical_path_new_Inr in_set_conv_nth)

lemma components_plain:
  assumes "\<And>part. part \<in> set (split_on (CHR ''/'') v) \<Longrightarrow> part \<noteq> [] \<and> part \<noteq> ''.'' \<and> part \<noteq> ''..''"
    and "v \<noteq> []"
  shows "components v = map Normal (split_on (CHR ''/'') v)"
proof -
  obtain p ps where s: "split_on (CHR ''/'') v = p # ps"
    using split_on_nonempty[of "CHR ''/''" v] by (cases "split_on (CHR ''/'') v") auto
  have "filter (\<lambda>p. p \<noteq> [] \<and> p \<noteq> ''.'') ps = ps" using assms(1) by (auto simp: s filter_id_conv)
  moreover have "map component_of (p # ps) = map Normal (p # ps)"
    using assms(1) by (auto simp: s component_of_def)
  ultimately show ?thesis using assms by (simp add: components_def Let_def s)
qed

lemma accepted_components:
  assumes "logical_path_new U v = Inr p"
  shows "components v = map Normal (split_on (CHR ''/'') v)"
  using assms accepted_parts[OF assms] validate_component_ok(1-3)
  by (intro components_plain) (fastforce simp: logical_path_new_Inr)+


definition plain_unicode :: unicode_lib where
  "plain_unicode = \<lparr>nfc = (\<lambda>s. s), case_fold = to_ascii_lowercase\<rparr>"

lemma accept_a_page: "logical_path_new plain_unicode ''a/page.md'' = Inr (LogicalPath ''a/page.md'')"
  by code_simp


subsection \<open>Legacy paths\<close>

lemma try_map_legacy: "try_map legacy_component p = Inr names \<longleftrightarrow> p = map Normal names"
  by (induction p arbitrary: names)
    (auto simp: rbind_Inr_iff legacy_component_def Cons_eq_map_conv split: component.splits)

text \<open>The names a path holds are single components, as for every path of the standard library.\<close>

definition single_names :: "path \<Rightarrow> bool" where
  "single_names p \<longleftrightarrow> (\<forall>n. Normal n \<in> set p \<longrightarrow> CHR ''/'' \<notin> set n)"

lemma legacy_path_inverse:
  assumes "single_names q" and "logical_path_from_legacy U q = Inr p"
  shows "to_relative_path_buf p = q"
proof -
  from assms obtain names where n: "q = map Normal names" "logical_path_new U (join ''/'' names) = Inr p"
    by (auto simp: logical_path_from_legacy_def rbind_Inr_iff try_map_legacy)
  then have "names \<noteq> []" by (auto simp: logical_path_new_Inr)
  then have "split_on (CHR ''/'') (join ''/'' names) = names"
    using assms(1) by (intro split_on_join) (auto simp: n single_names_def)
  with accepted_components[OF n(2)] n show ?thesis
    by (simp add: to_relative_path_buf_def logical_path_new_Inr)
qed

lemma legacy_path_accepts:
  assumes "logical_path_new U v = Inr p"
  shows "logical_path_from_legacy U (to_relative_path_buf p) = Inr p"
  using accepted_components[OF assms] assms
  by (simp add: logical_path_from_legacy_def to_relative_path_buf_def logical_path_new_Inr
      try_map_legacy[THEN iffD2] join_split_on)

text \<open>The two representations of a portable path convert into each other without loss: the host
  path of an accepted logical path converts back to it, and no other host path converts to it.\<close>

theorem legacy_path_roundtrip:
  assumes "logical_path_new U v = Inr p" and "single_names q"
  shows "logical_path_from_legacy U q = Inr p \<longleftrightarrow> q = to_relative_path_buf p"
  using legacy_path_inverse[OF assms(2)] legacy_path_accepts[OF assms(1)] by auto

theorem legacy_path_roundtrip_witness:
  "logical_path_from_legacy plain_unicode [Normal ''a'', Normal ''page.md''] = Inr (LogicalPath ''a/page.md'')"
  by (subst legacy_path_roundtrip[OF accept_a_page]) (simp add: single_names_def, code_simp)

section \<open>Portable values\<close>

type_synonym tenant_id = string
type_synonym principal_id = string
type_synonym source_connection_id = string
type_synonym source_version_id = string
type_synonym projection_id = string
type_synonym content_version_id = string

text \<open>The validated identifiers share one constructor.\<close>

datatype portable_id_error = IdEmpty

definition validated_id_new :: "string \<Rightarrow> portable_id_error + string" where
  "validated_id_new v = (if v = [] then Inl IdEmpty else Inr v)"

record source_edge =
  edge_relationship :: string
  edge_target_remote_id :: remote_id

record acl_observation =
  acl_subject_id :: string
  acl_role :: string
  acl_inherited :: bool

record source_object =
  so_source_connection_id :: source_connection_id
  so_remote_id :: remote_id
  so_kind :: entity_kind
  so_edges :: "source_edge list"
  so_opaque_version :: "string option"
  so_deleted :: bool
  so_connector_metadata :: "(string, string) btree_map"
  so_acl_observations :: "acl_observation list"
  so_discovered_at :: "string option"
  so_observed_at :: "string option"

record projection_input =
  pi_source_remote_id :: remote_id
  pi_source_version_id :: source_version_id

datatype projection_file_kind =
    FileMarkdown | FileText | FileJson | FileYaml | FileBinary | FileDirectory

datatype source_action =
    ActRead | ActSearch | ActDownloadAttachment | ActCreate | ActUpdate | ActMove | ActDelete
  | ActComment | ActUpdateProperties | ActManageSchema

definition all_source_actions :: "source_action list" where
  "all_source_actions =
     [ActRead, ActSearch, ActDownloadAttachment, ActCreate, ActUpdate, ActMove, ActDelete,
      ActComment, ActUpdateProperties, ActManageSchema]"

record projection_entry =
  pe_projection_id :: projection_id
  pe_logical_path :: logical_path
  pe_content_version_id :: "content_version_id option"
  pe_inputs :: "projection_input list"
  pe_file_kind :: projection_file_kind
  pe_format_version :: "32 word"
  pe_supported_actions :: "source_action set"

record local_tree_entry =
  lt_projection :: projection_entry
  lt_mount_id :: mount_id
  lt_host_path :: path
  lt_hydration :: hydration_state
  lt_dirty :: bool
  lt_local_store_id :: "string option"

record legacy_projection_binding =
  lb_projection_id :: projection_id
  lb_logical_path :: logical_path
  lb_source_version_id :: source_version_id
  lb_content_version_id :: "content_version_id option"
  lb_file_kind :: projection_file_kind
  lb_format_version :: "32 word"
  lb_supported_actions :: "source_action set"
  lb_dirty :: bool
  lb_local_store_id :: "string option"

record legacy_tree_entry_adapter =
  la_portable :: local_tree_entry
  la_legacy :: tree_entry

definition from_tree_entry :: "tree_entry \<Rightarrow> legacy_projection_binding \<Rightarrow> legacy_tree_entry_adapter" where
  "from_tree_entry legacy binding =
     \<lparr>la_portable =
        \<lparr>lt_projection =
           \<lparr>pe_projection_id = lb_projection_id binding, pe_logical_path = lb_logical_path binding,
            pe_content_version_id = lb_content_version_id binding,
            pe_inputs = [\<lparr>pi_source_remote_id = te_remote_id legacy,
                          pi_source_version_id = lb_source_version_id binding\<rparr>],
            pe_file_kind = lb_file_kind binding, pe_format_version = lb_format_version binding,
            pe_supported_actions = lb_supported_actions binding\<rparr>,
         lt_mount_id = te_mount_id legacy, lt_host_path = te_path legacy,
         lt_hydration = te_hydration legacy, lt_dirty = lb_dirty binding,
         lt_local_store_id = lb_local_store_id binding\<rparr>,
      la_legacy = legacy\<rparr>"

definition into_tree_entry :: "legacy_tree_entry_adapter \<Rightarrow> tree_entry" where
  "into_tree_entry adapter = la_legacy adapter"

section \<open>Source operations\<close>

datatype source_operation =
    SUpdateBlock remote_id string
  | SReplaceBlock remote_id string
  | SAppendBlock remote_id "remote_id option" string
  | SMoveBlock remote_id "remote_id option"
  | SUpdateMedia remote_id logical_path string
  | SArchiveBlock remote_id
  | SArchiveEntity remote_id
  | SUpdateEntityBody remote_id string
  | SUpdateProperties remote_id "(string, property_value) btree_map"
  | SMoveEntity remote_id remote_id entity_kind string logical_path
  | SCreateEntity remote_id "entity_kind option" bool string "(string, property_value) btree_map"
      string logical_path
  | SCreateDatabase remote_id string string logical_path

record source_operation_plan =
  sp_affected_entities :: "remote_id list"
  sp_operations :: "source_operation list"
  sp_summary :: plan_summary
  sp_degradations :: "plan_degradation list"

definition source_operation_kind :: "source_operation \<Rightarrow> push_operation_kind" where
  "source_operation_kind op =
     (case op of
        SUpdateBlock _ _ \<Rightarrow> KUpdateBlock
      | SReplaceBlock _ _ \<Rightarrow> KReplaceBlock
      | SAppendBlock _ _ _ \<Rightarrow> KAppendBlock
      | SMoveBlock _ _ \<Rightarrow> KMoveBlock
      | SUpdateMedia _ _ _ \<Rightarrow> KUpdateMedia
      | SArchiveBlock _ \<Rightarrow> KArchiveBlock
      | SArchiveEntity _ \<Rightarrow> KArchiveEntity
      | SUpdateEntityBody _ _ \<Rightarrow> KUpdateEntityBody
      | SUpdateProperties _ _ \<Rightarrow> KUpdateProperties
      | SMoveEntity _ _ _ _ _ \<Rightarrow> KMoveEntity
      | SCreateEntity _ _ _ _ _ _ _ \<Rightarrow> KCreateEntity
      | SCreateDatabase _ _ _ _ \<Rightarrow> KCreateDatabase)"

definition source_operation_from :: "unicode_lib \<Rightarrow> push_operation \<Rightarrow> logical_path_error + source_operation" where
  "source_operation_from U op =
     (case op of
        UpdateBlock b c \<Rightarrow> Inr (SUpdateBlock b c)
      | ReplaceBlock b c \<Rightarrow> Inr (SReplaceBlock b c)
      | AppendBlock p a c \<Rightarrow> Inr (SAppendBlock p a c)
      | MoveBlock b a \<Rightarrow> Inr (SMoveBlock b a)
      | UpdateMedia b path c \<Rightarrow>
          rbind (logical_path_from_legacy U path) (\<lambda>lp. Inr (SUpdateMedia b lp c))
      | ArchiveBlock b \<Rightarrow> Inr (SArchiveBlock b)
      | ArchiveEntity e \<Rightarrow> Inr (SArchiveEntity e)
      | UpdateEntityBody e b \<Rightarrow> Inr (SUpdateEntityBody e b)
      | UpdateProperties e ps \<Rightarrow> Inr (SUpdateProperties e ps)
      | MoveEntity e p k t path \<Rightarrow>
          rbind (logical_path_from_legacy U path) (\<lambda>lp. Inr (SMoveEntity e p k t lp))
      | CreateEntity p k w t ps b path \<Rightarrow>
          rbind (logical_path_from_legacy U path) (\<lambda>lp. Inr (SCreateEntity p k w t ps b lp))
      | CreateDatabase p t sch path \<Rightarrow>
          rbind (logical_path_from_legacy U path) (\<lambda>lp. Inr (SCreateDatabase p t sch lp)))"

definition source_operation_plan_from ::
    "unicode_lib \<Rightarrow> push_plan \<Rightarrow> logical_path_error + source_operation_plan" where
  "source_operation_plan_from U plan =
     rbind (try_map (source_operation_from U) (operations plan)) (\<lambda>ops.
       Inr \<lparr>sp_affected_entities = affected_entities plan, sp_operations = ops,
            sp_summary = summary plan, sp_degradations = degradations plan\<rparr>)"

text \<open>Reading a portable plan back as a push plan, and the host path an operation carries.\<close>

definition legacy_operation :: "source_operation \<Rightarrow> push_operation" where
  "legacy_operation op =
     (case op of
        SUpdateBlock b c \<Rightarrow> UpdateBlock b c
      | SReplaceBlock b c \<Rightarrow> ReplaceBlock b c
      | SAppendBlock p a c \<Rightarrow> AppendBlock p a c
      | SMoveBlock b a \<Rightarrow> MoveBlock b a
      | SUpdateMedia b lp c \<Rightarrow> UpdateMedia b (to_relative_path_buf lp) c
      | SArchiveBlock b \<Rightarrow> ArchiveBlock b
      | SArchiveEntity e \<Rightarrow> ArchiveEntity e
      | SUpdateEntityBody e b \<Rightarrow> UpdateEntityBody e b
      | SUpdateProperties e ps \<Rightarrow> UpdateProperties e ps
      | SMoveEntity e p k t lp \<Rightarrow> MoveEntity e p k t (to_relative_path_buf lp)
      | SCreateEntity p k w t ps b lp \<Rightarrow> CreateEntity p k w t ps b (to_relative_path_buf lp)
      | SCreateDatabase p t sch lp \<Rightarrow> CreateDatabase p t sch (to_relative_path_buf lp))"

definition legacy_plan :: "source_operation_plan \<Rightarrow> push_plan" where
  "legacy_plan sp =
     \<lparr>affected_entities = sp_affected_entities sp, operations = map legacy_operation (sp_operations sp),
      summary = sp_summary sp, degradations = sp_degradations sp\<rparr>"

definition host_path_of :: "push_operation \<Rightarrow> path option" where
  "host_path_of op =
     (case op of
        UpdateMedia _ p _ \<Rightarrow> Some p
      | MoveEntity _ _ _ _ p \<Rightarrow> Some p
      | CreateEntity _ _ _ _ _ _ p \<Rightarrow> Some p
      | CreateDatabase _ _ _ p \<Rightarrow> Some p
      | _ \<Rightarrow> None)"

lemma source_operation_from_cases:
  "source_operation_from U op = Inr sop \<Longrightarrow> source_operation_kind sop = operation_kind op"
  "(case host_path_of op of None \<Rightarrow> True | Some p \<Rightarrow> single_names p) \<Longrightarrow>
     source_operation_from U op = Inr sop \<Longrightarrow> legacy_operation sop = op"
  "isl (source_operation_from U op) \<longleftrightarrow>
     (case host_path_of op of None \<Rightarrow> False | Some p \<Rightarrow> isl (logical_path_from_legacy U p))"
  by (cases op; auto simp: source_operation_from_def source_operation_kind_def operation_kind_def
      host_path_of_def rbind_Inr_iff rbind_def legacy_operation_def legacy_path_inverse split: sum.splits)+

lemma try_map_isl: "isl (try_map f xs) \<longleftrightarrow> (\<exists>x\<in>set xs. isl (f x))"
  by (induction xs) (auto simp: rbind_def split: sum.splits)

lemma try_map_left_inverse:
  "try_map f xs = Inr ys \<Longrightarrow> (\<And>x y. x \<in> set xs \<Longrightarrow> f x = Inr y \<Longrightarrow> g y = h x) \<Longrightarrow> map g ys = map h xs"
  by (induction xs arbitrary: ys) (auto simp: rbind_Inr_iff)

lemma source_plan_error:
  "isl (source_operation_plan_from U plan) \<longleftrightarrow>
     (\<exists>op\<in>set (operations plan). \<exists>p. host_path_of op = Some p \<and> isl (logical_path_from_legacy U p))"
proof -
  have "isl (source_operation_plan_from U plan) \<longleftrightarrow>
      isl (try_map (source_operation_from U) (operations plan))"
    by (simp add: source_operation_plan_from_def rbind_def split: sum.splits)
  then show ?thesis
    by (auto simp: try_map_isl source_operation_from_cases(3) split: option.splits)
qed

lemma portable_plan:
  assumes "source_operation_plan_from U plan = Inr sp"
    and "\<forall>op\<in>set (operations plan). \<forall>p. host_path_of op = Some p \<longrightarrow> single_names p"
  shows "legacy_plan sp = plan \<and>
    map source_operation_kind (sp_operations sp) = map operation_kind (operations plan)"
proof -
  obtain ops where ops: "try_map (source_operation_from U) (operations plan) = Inr ops"
    and sp: "sp = \<lparr>sp_affected_entities = affected_entities plan, sp_operations = ops,
            sp_summary = summary plan, sp_degradations = degradations plan\<rparr>"
    using assms(1) by (auto simp: source_operation_plan_from_def rbind_Inr_iff)
  have "map legacy_operation ops = map (\<lambda>op. op) (operations plan)"
    using assms(2) by (intro try_map_left_inverse[OF ops] source_operation_from_cases(2))
      (auto split: option.split)
  moreover have "map source_operation_kind ops = map operation_kind (operations plan)"
    by (rule try_map_left_inverse[OF ops]) (rule source_operation_from_cases(1))
  ultimately show ?thesis by (simp add: sp legacy_plan_def)
qed

text \<open>Making a push plan portable is lossless. A conversion that succeeds keeps the entities, the
  summary, the degradations and the operation kinds in order, and the portable plan read back on the
  host is the push plan itself.\<close>

theorem portable_plan_lossless:
  assumes "source_operation_plan_from U plan = Inr sp"
    and "\<forall>op\<in>set (operations plan). \<forall>p. host_path_of op = Some p \<longrightarrow> single_names p"
  shows "legacy_plan sp = plan \<and>
    map source_operation_kind (sp_operations sp) = map operation_kind (operations plan)"
  using assms by (rule portable_plan)

theorem portable_plan_lossless_witness:
  "\<exists>sp. source_operation_plan_from plain_unicode
       (plan_new [RemoteId ''e''] [UpdateMedia (RemoteId ''b'') [Normal ''a'', Normal ''page.md''] ''c'']) = Inr sp
     \<and> map source_operation_kind (sp_operations sp) = [KUpdateMedia]"
proof -
  let ?plan = "plan_new [RemoteId ''e''] [UpdateMedia (RemoteId ''b'') [Normal ''a'', Normal ''page.md''] ''c'']"
  have c: "components ''a/page.md'' = [Normal ''a'', Normal ''page.md'']" by code_simp
  have "logical_path_from_legacy plain_unicode [Normal ''a'', Normal ''page.md''] = Inr (LogicalPath ''a/page.md'')"
    using legacy_path_accepts[OF accept_a_page] by (simp add: to_relative_path_buf_def c)
  then obtain sp where sp: "source_operation_plan_from plain_unicode ?plan = Inr sp"
    by (simp add: source_operation_plan_from_def plan_new_def source_operation_from_def)
  moreover have "\<forall>op\<in>set (operations ?plan). \<forall>p. host_path_of op = Some p \<longrightarrow> single_names p"
    by (simp add: plan_new_def host_path_of_def single_names_def)
  ultimately show ?thesis using portable_plan_lossless[OF sp]
    by (auto simp: plan_new_def operation_kind_def)
qed

end
