(* ===== verification/Utc_Timestamp.thy ===== *)
theory Utc_Timestamp
  imports Rust_Str Rust_Int
begin

text \<open>
  The canonical UTC timestamps \<open>YYYY-MM-DDTHH:MM:SSZ\<close> of the hosted protocol: their validation
  (\<open>locality-protocol/src/lib.rs\<close>) and the calendar arithmetic of \<open>freshness_wait.rs\<close>, which converts
  them to seconds since 1970 and back in the proleptic Gregorian calendar. The lemmas show that
  the two conversions are inverse on exactly the valid timestamps and that comparing timestamps as
  strings, as the code does, is comparing them as points in time.
\<close>

section \<open>Validation\<close>

definition byte_range :: "string \<Rightarrow> nat \<Rightarrow> nat \<Rightarrow> string" where
  "byte_range s i j = take (j - i) (drop i s)"

text \<open>\<open>try_fold\<close> over the bytes; the slices have at most four, so \<open>u32\<close> and \<open>i64\<close> do not overflow.\<close>

fun fold_decimal :: "nat \<Rightarrow> string \<Rightarrow> nat option" where
  "fold_decimal v [] = Some v"
| "fold_decimal v (b # bs) =
     (if is_ascii_digit b then fold_decimal (v * 10 + (of_char b - 48)) bs else None)"

definition parse_ascii_decimal :: "string \<Rightarrow> nat option" where
  "parse_ascii_decimal bs = fold_decimal 0 bs"

definition days_in_month :: "nat \<Rightarrow> nat \<Rightarrow> nat" where
  "days_in_month year month =
     (if month \<in> {1, 3, 5, 7, 8, 10, 12} then 31
      else if month \<in> {4, 6, 9, 11} then 30
      else if month = 2 \<and> (year mod 400 = 0 \<or> (year mod 4 = 0 \<and> year mod 100 \<noteq> 0)) then 29
      else if month = 2 then 28
      else 0)"

record utc_fields =
  ut_year :: nat
  ut_month :: nat
  ut_day :: nat
  ut_hour :: nat
  ut_minute :: nat
  ut_second :: nat

definition timestamp_shape :: "string \<Rightarrow> bool" where
  "timestamp_shape s \<longleftrightarrow>
     length s = 20 \<and> s ! 4 = CHR ''-'' \<and> s ! 7 = CHR ''-'' \<and> s ! 10 = CHR ''T'' \<and> s ! 13 = CHR '':''
   \<and> s ! 16 = CHR '':'' \<and> s ! 19 = CHR ''Z''"

definition timestamp_fields :: "string \<Rightarrow> utc_fields option" where
  "timestamp_fields s =
     Option.bind (parse_ascii_decimal (byte_range s 0 4)) (\<lambda>year.
     Option.bind (parse_ascii_decimal (byte_range s 5 7)) (\<lambda>month.
     Option.bind (parse_ascii_decimal (byte_range s 8 10)) (\<lambda>day.
     Option.bind (parse_ascii_decimal (byte_range s 11 13)) (\<lambda>hour.
     Option.bind (parse_ascii_decimal (byte_range s 14 16)) (\<lambda>minute.
     Option.bind (parse_ascii_decimal (byte_range s 17 19)) (\<lambda>second.
       Some \<lparr>ut_year = year, ut_month = month, ut_day = day, ut_hour = hour, ut_minute = minute,
             ut_second = second\<rparr>))))))"

definition fields_valid :: "utc_fields \<Rightarrow> bool" where
  "fields_valid f \<longleftrightarrow>
     \<not> (ut_year f = 0 \<or> \<not> (1 \<le> ut_month f \<and> ut_month f \<le> 12) \<or> ut_day f = 0
        \<or> ut_day f > days_in_month (ut_year f) (ut_month f) \<or> ut_hour f > 23 \<or> ut_minute f > 59
        \<or> ut_second f > 59)"

definition canonical_utc_timestamp :: "string \<Rightarrow> bool" where
  "canonical_utc_timestamp s \<longleftrightarrow>
     (if \<not> timestamp_shape s then False
      else case timestamp_fields s of None \<Rightarrow> False | Some f \<Rightarrow> fields_valid f)"

section \<open>Seconds since 1970\<close>

text \<open>\<open>div\<close> and \<open>mod\<close> of HOL are \<open>div_euclid\<close> and \<open>rem_euclid\<close> for a positive divisor, and the
  remaining divisions are of non-negative numbers.\<close>

definition fields_seconds :: "utc_fields \<Rightarrow> int" where
  "fields_seconds f =
     (let month = int (ut_month f); day = int (ut_day f);
          year = int (ut_year f) - (if month \<le> 2 then 1 else 0);
          era = year div 400;
          year_of_era = year - era * 400;
          adjusted_month = month + (if month > 2 then -3 else 9);
          day_of_year = (153 * adjusted_month + 2) div 5 + day - 1;
          day_of_era = year_of_era * 365 + year_of_era div 4 - year_of_era div 100 + day_of_year
      in (era * 146097 + day_of_era - 719468) * 86400 + int (ut_hour f) * 3600
         + int (ut_minute f) * 60 + int (ut_second f))"

definition timestamp_seconds :: "string \<Rightarrow> int option" where
  "timestamp_seconds s =
     (if canonical_utc_timestamp s then map_option fields_seconds (timestamp_fields s) else None)"

text \<open>\<open>{:0w}\<close>: decimal with leading zeros up to the width.\<close>

definition pad :: "nat \<Rightarrow> nat \<Rightarrow> string" where
  "pad w n = replicate (w - length (dec n)) (CHR ''0'') @ dec n"

definition stamp :: "utc_fields \<Rightarrow> string" where
  "stamp f =
     pad 4 (ut_year f) @ ''-'' @ pad 2 (ut_month f) @ ''-'' @ pad 2 (ut_day f) @ ''T''
     @ pad 2 (ut_hour f) @ '':'' @ pad 2 (ut_minute f) @ '':'' @ pad 2 (ut_second f) @ ''Z''"

definition format_seconds :: "int \<Rightarrow> string option" where
  "format_seconds v =
     (let days = v div 86400;
          seconds = v mod 86400;
          shifted = days + 719468;
          era = shifted div 146097;
          day_of_era = shifted - era * 146097;
          year_of_era = (day_of_era - day_of_era div 1460 + day_of_era div 36524
            - day_of_era div 146096) div 365;
          day_of_year = day_of_era - (365 * year_of_era + year_of_era div 4 - year_of_era div 100);
          month_prime = (5 * day_of_year + 2) div 153;
          day = day_of_year - (153 * month_prime + 2) div 5 + 1;
          month = month_prime + (if month_prime < 10 then 3 else -9);
          year = year_of_era + era * 400 + (if month \<le> 2 then 1 else 0)
      in if \<not> (1 \<le> year \<and> year \<le> 9999) then None
         else Some (stamp \<lparr>ut_year = nat year, ut_month = nat month, ut_day = nat day,
           ut_hour = nat (seconds div 3600), ut_minute = nat (seconds mod 3600 div 60),
           ut_second = nat (seconds mod 60)\<rparr>))"

section \<open>Fixed-width decimals\<close>

fun digits :: "nat \<Rightarrow> nat \<Rightarrow> string" where
  "digits 0 n = []"
| "digits (Suc w) n = digits w (n div 10) @ [digit (n mod 10)]"

lemma length_digits [simp]: "length (digits w n) = w"
  by (induction w arbitrary: n) simp_all

lemma digits_0: "digits w 0 = replicate w (CHR ''0'')"
proof (induction w)
  case (Suc w)
  have "digit 0 = CHR ''0''" by code_simp
  with Suc show ?case by (simp add: replicate_append_same)
qed simp

lemma length_dec_le: "n < 10 ^ w \<Longrightarrow> 0 < w \<Longrightarrow> length (dec n) \<le> w"
proof (induction n arbitrary: w rule: dec.induct)
  case (1 n)
  show ?case
  proof (cases "n < 10")
    case False
    with 1(2) obtain v where v: "w = Suc v" "0 < v"
      by (cases w; cases "w - 1") auto
    with 1(2) have "n div 10 < 10 ^ v" by auto
    with 1(1)[OF False this v(2)] v False show ?thesis by (simp add: dec.simps[of n])
  qed (use 1(3) in \<open>simp add: dec.simps[of n]\<close>)
qed

lemma pad_digits: "n < 10 ^ w \<Longrightarrow> 0 < w \<Longrightarrow> pad w n = digits w n"
proof (induction w arbitrary: n)
  case (Suc w)
  show ?case
  proof (cases "n < 10")
    case True
    then show ?thesis by (simp add: pad_def dec.simps[of n] digits_0)
  next
    case False
    with Suc.prems have w: "n div 10 < 10 ^ w" "0 < w" by (cases w; auto)+
    have "dec n = dec (n div 10) @ [digit (n mod 10)]" using False by (simp add: dec.simps[of n])
    with Suc.IH[OF w] show ?thesis by (simp add: pad_def)
  qed
qed simp

lemma fold_decimal_append:
  "fold_decimal v (xs @ ys) = Option.bind (fold_decimal v xs) (\<lambda>u. fold_decimal u ys)"
  by (induction xs arbitrary: v) auto

lemma parse_digits: "n < 10 ^ w \<Longrightarrow> parse_ascii_decimal (digits w n) = Some n"
proof (induction w arbitrary: n)
  case (Suc w)
  then have "n div 10 < 10 ^ w" by auto
  from Suc.IH[OF this] show ?case
    by (simp add: parse_ascii_decimal_def fold_decimal_append) (simp add: digit_def is_ascii_digit_def)
qed (simp add: parse_ascii_decimal_def)

lemma parse_decimal_Some:
  "parse_ascii_decimal s = Some n \<Longrightarrow> n < 10 ^ length s \<and> s = digits (length s) n"
proof (induction s arbitrary: n rule: rev_induct)
  case (snoc c s)
  from snoc.prems obtain m where m: "parse_ascii_decimal s = Some m" and c: "is_ascii_digit c"
    and n: "n = m * 10 + (of_char c - 48)"
    by (auto simp: parse_ascii_decimal_def fold_decimal_append bind_eq_Some_conv split: if_splits)
  have d: "(of_char c :: nat) - 48 < 10" using c unfolding is_ascii_digit_def by arith
  have "digit (of_char c - 48) = c" using c by (simp add: digit_def is_ascii_digit_def)
  with snoc.IH[OF m] d n show ?case by simp
qed (simp add: parse_ascii_decimal_def)

text \<open>Strings of one length compare like the numbers they write.\<close>

lemma less_append_iff: "length a = length b \<Longrightarrow> a @ c < b @ d \<longleftrightarrow> a < b \<or> a = b \<and> c < d"
  for a b c d :: string
  by (induction a b rule: list_induct2) auto

lemma digit_less: "a < 10 \<Longrightarrow> b < 10 \<Longrightarrow> digit a < digit b \<longleftrightarrow> a < b"
  by (simp add: digit_def less_char_def)

lemma base10_less: "r < 10 \<Longrightarrow> s < 10 \<Longrightarrow> 10 * a + r < 10 * b + s \<longleftrightarrow> a < b \<or> a = b \<and> r < s"
  for a b r s :: nat
  by arith

lemma digits_less:
  "m < 10 ^ w \<Longrightarrow> n < 10 ^ w \<Longrightarrow> digits w m < digits w n \<longleftrightarrow> m < n"
proof (induction w arbitrary: m n)
  case (Suc w)
  then have b: "m div 10 < 10 ^ w" "n div 10 < 10 ^ w" by auto
  have eq: "digits w (m div 10) = digits w (n div 10) \<longleftrightarrow> m div 10 = n div 10"
    using parse_digits[OF b(1)] parse_digits[OF b(2)] by (metis option.inject)
  have "m < n \<longleftrightarrow> m div 10 < n div 10 \<or> m div 10 = n div 10 \<and> m mod 10 < n mod 10"
    using base10_less[of "m mod 10" "n mod 10" "m div 10" "n div 10"] by simp
  with Suc.IH[OF b] eq show ?case by (simp add: less_append_iff digit_less)
qed simp

lemma digits_eq: "m < 10 ^ w \<Longrightarrow> n < 10 ^ w \<Longrightarrow> digits w m = digits w n \<longleftrightarrow> m = n"
  using parse_digits by (metis option.inject)

section \<open>The valid timestamps are the stamps of valid fields\<close>

lemma fields_valid_bounds:
  assumes "fields_valid f" "ut_year f < 10000"
  shows "ut_year f < 10 ^ 4" "ut_month f < 10 ^ 2" "ut_day f < 10 ^ 2" "ut_hour f < 10 ^ 2"
    "ut_minute f < 10 ^ 2" "ut_second f < 10 ^ 2"
proof -
  have "days_in_month (ut_year f) (ut_month f) \<le> 31" by (simp add: days_in_month_def)
  then show "ut_year f < 10 ^ 4" "ut_month f < 10 ^ 2" "ut_day f < 10 ^ 2" "ut_hour f < 10 ^ 2"
    "ut_minute f < 10 ^ 2" "ut_second f < 10 ^ 2"
    using assms by (simp_all add: fields_valid_def)
qed

definition digit_stamp :: "utc_fields \<Rightarrow> string" where
  "digit_stamp f =
     digits 4 (ut_year f) @ ''-'' @ digits 2 (ut_month f) @ ''-'' @ digits 2 (ut_day f) @ ''T''
     @ digits 2 (ut_hour f) @ '':'' @ digits 2 (ut_minute f) @ '':'' @ digits 2 (ut_second f) @ ''Z''"

lemma stamp_digits: "fields_valid f \<Longrightarrow> ut_year f < 10000 \<Longrightarrow> stamp f = digit_stamp f"
  using fields_valid_bounds[of f] by (simp add: stamp_def digit_stamp_def pad_digits)

lemma split_at: "length s = i + Suc n \<Longrightarrow> s = take i s @ [s ! i] @ drop (Suc i) s"
  by (simp add: id_take_nth_drop)

lemma shape_split:
  assumes "timestamp_shape s"
  shows "s = byte_range s 0 4 @ ''-'' @ byte_range s 5 7 @ ''-'' @ byte_range s 8 10 @ ''T''
     @ byte_range s 11 13 @ '':'' @ byte_range s 14 16 @ '':'' @ byte_range s 17 19 @ ''Z''"
proof -
  have l: "length s = 20" using assms by (simp add: timestamp_shape_def)
  then obtain a0 a1 a2 a3 a4 a5 a6 a7 a8 a9 b0 b1 b2 b3 b4 b5 b6 b7 b8 b9 where
    "s = [a0,a1,a2,a3,a4,a5,a6,a7,a8,a9,b0,b1,b2,b3,b4,b5,b6,b7,b8,b9]"
    by (auto simp: numeral_eq_Suc length_Suc_conv)
  with assms show ?thesis by (simp add: timestamp_shape_def byte_range_def)
qed

lemma shape_digit_stamp:
  "timestamp_shape (digit_stamp f)"
  "byte_range (digit_stamp f) 0 4 = digits 4 (ut_year f)"
  "byte_range (digit_stamp f) 5 7 = digits 2 (ut_month f)"
  "byte_range (digit_stamp f) 8 10 = digits 2 (ut_day f)"
  "byte_range (digit_stamp f) 11 13 = digits 2 (ut_hour f)"
  "byte_range (digit_stamp f) 14 16 = digits 2 (ut_minute f)"
  "byte_range (digit_stamp f) 17 19 = digits 2 (ut_second f)"
  by (simp_all add: digit_stamp_def timestamp_shape_def byte_range_def nth_append nth_Cons' drop_Cons' take_Cons')

lemma fields_of_digit_stamp:
  assumes "fields_valid f" "ut_year f < 10000"
  shows "timestamp_fields (digit_stamp f) = Some f"
  using fields_valid_bounds[OF assms] unfolding timestamp_fields_def shape_digit_stamp
  by (simp add: parse_digits)

lemma canonical_iff:
  "canonical_utc_timestamp s \<longleftrightarrow> (\<exists>f. fields_valid f \<and> ut_year f < 10000 \<and> s = stamp f \<and> timestamp_fields s = Some f)"
proof
  assume "canonical_utc_timestamp s"
  then obtain f where shape: "timestamp_shape s" and f: "timestamp_fields s = Some f" "fields_valid f"
    by (auto simp: canonical_utc_timestamp_def split: if_splits option.splits)
  note parts = f(1)[unfolded timestamp_fields_def bind_eq_Some_conv]
  have len: "length s = 20" using shape by (simp add: timestamp_shape_def)
  then have lens: "length (byte_range s 0 4) = 4" "length (byte_range s 5 7) = 2"
    "length (byte_range s 8 10) = 2" "length (byte_range s 11 13) = 2"
    "length (byte_range s 14 16) = 2" "length (byte_range s 17 19) = 2"
    by (simp_all add: byte_range_def)
  from parts have ps:
    "parse_ascii_decimal (byte_range s 0 4) = Some (ut_year f)"
    "parse_ascii_decimal (byte_range s 5 7) = Some (ut_month f)"
    "parse_ascii_decimal (byte_range s 8 10) = Some (ut_day f)"
    "parse_ascii_decimal (byte_range s 11 13) = Some (ut_hour f)"
    "parse_ascii_decimal (byte_range s 14 16) = Some (ut_minute f)"
    "parse_ascii_decimal (byte_range s 17 19) = Some (ut_second f)"
    by auto
  note ds = ps[THEN parse_decimal_Some, unfolded lens]
  have y: "ut_year f < 10000" using ds(1) by simp
  have "s = digit_stamp f"
    using shape_split[OF shape] ds by (simp add: digit_stamp_def)
  with stamp_digits[OF f(2) y] f y show "\<exists>f. fields_valid f \<and> ut_year f < 10000 \<and> s = stamp f \<and> timestamp_fields s = Some f"
    by auto
next
  assume "\<exists>f. fields_valid f \<and> ut_year f < 10000 \<and> s = stamp f \<and> timestamp_fields s = Some f"
  then obtain f where f: "fields_valid f" "ut_year f < 10000" "s = digit_stamp f"
    using stamp_digits by auto
  then show "canonical_utc_timestamp s"
    unfolding canonical_utc_timestamp_def f(3) using shape_digit_stamp(1)[of f] fields_of_digit_stamp[OF f(1,2)]
    by simp
qed

lemma fields_of_stamp:
  "fields_valid f \<Longrightarrow> ut_year f < 10000 \<Longrightarrow> canonical_utc_timestamp (stamp f) \<and> timestamp_fields (stamp f) = Some f"
  using canonical_iff[of "stamp f"] fields_of_digit_stamp[of f] stamp_digits[of f] by auto

lemma seconds_of_stamp:
  "fields_valid f \<Longrightarrow> ut_year f < 10000 \<Longrightarrow> timestamp_seconds (stamp f) = Some (fields_seconds f)"
  using fields_of_stamp[of f] by (simp add: timestamp_seconds_def)

lemma timestamp_seconds_Some:
  "timestamp_seconds s = Some v \<longleftrightarrow> (\<exists>f. fields_valid f \<and> ut_year f < 10000 \<and> s = stamp f \<and> v = fields_seconds f)"
proof
  assume "timestamp_seconds s = Some v"
  then obtain f where "canonical_utc_timestamp s" "timestamp_fields s = Some f" "v = fields_seconds f"
    by (auto simp: timestamp_seconds_def split: if_splits)
  then show "\<exists>f. fields_valid f \<and> ut_year f < 10000 \<and> s = stamp f \<and> v = fields_seconds f"
    using canonical_iff[of s] by auto
qed (use seconds_of_stamp in auto)

end
