(* ===== verification/Protocol_Base.thy ===== *)
theory Protocol_Base
  imports Portable Utc_Timestamp
begin

text \<open>
  The shared part of \<open>locality-protocol/src/lib.rs\<close>: the negotiated component versions, the errors of
  the scope-authorised contracts, and the small validators that the contracts call. The lemmas say
  what each validator accepts.
\<close>

type_synonym u16 = "16 word"
type_synonym u32 = "32 word"

datatype tar_content_encoding = TarIdentity | TarZstd

section \<open>Component versions\<close>

datatype protocol_component =
    PcSession | PcReplica | PcExportMetadata | PcWritableSessionStore | PcCanonical | PcPath | PcChangeset

definition protocol_component_debug :: "protocol_component \<Rightarrow> string" where
  "protocol_component_debug c =
     (case c of
        PcSession \<Rightarrow> ''Session'' | PcReplica \<Rightarrow> ''Replica'' | PcExportMetadata \<Rightarrow> ''ExportMetadata''
      | PcWritableSessionStore \<Rightarrow> ''WritableSessionStore'' | PcCanonical \<Rightarrow> ''Canonical''
      | PcPath \<Rightarrow> ''Path'' | PcChangeset \<Rightarrow> ''Changeset'')"

record component_versions =
  cv_session :: u16
  cv_replica :: u16
  cv_export_metadata :: u16
  cv_writable_session_store :: u16
  cv_canonical :: u16
  cv_path :: u16
  cv_changeset :: u16

definition COMPONENT_VERSIONS :: component_versions where
  "COMPONENT_VERSIONS =
     \<lparr>cv_session = 1, cv_replica = 1, cv_export_metadata = 1, cv_writable_session_store = 1,
      cv_canonical = 1, cv_path = 1, cv_changeset = 1\<rparr>"

definition LATEST_COMPONENT_VERSIONS :: component_versions where
  "LATEST_COMPONENT_VERSIONS =
     COMPONENT_VERSIONS\<lparr>cv_session := 2, cv_replica := 2, cv_export_metadata := 2\<rparr>"

definition MINIMUM_COMPONENT_VERSIONS :: component_versions where
  "MINIMUM_COMPONENT_VERSIONS = COMPONENT_VERSIONS"

datatype version_compatibility_error =
    NeedsUpdate protocol_component (vc_required: u16) (vc_supported: u16)
  | UnsupportedLegacy protocol_component (vc_required: u16) (vc_minimum: u16)

definition version_compatibility_error_display :: "version_compatibility_error \<Rightarrow> string" where
  "version_compatibility_error_display e =
     (case e of
        NeedsUpdate c required supported \<Rightarrow>
          protocol_component_debug c @ '' version '' @ dec (unat required)
          @ '' requires an update (supported: '' @ dec (unat supported) @ '')''
      | UnsupportedLegacy c required minimum \<Rightarrow>
          protocol_component_debug c @ '' version '' @ dec (unat required) @ '' is older than minimum ''
          @ dec (unat minimum))"

fun check_versions ::
    "(protocol_component \<times> u16 \<times> u16 \<times> u16) list \<Rightarrow> version_compatibility_error + unit" where
  "check_versions [] = Inr ()"
| "check_versions ((c, required, minimum, supported) # rest) =
     (if required > supported then Inl (NeedsUpdate c required supported)
      else if required < minimum then Inl (UnsupportedLegacy c required minimum)
      else check_versions rest)"

definition version_rows :: "component_versions \<Rightarrow> (protocol_component \<times> u16 \<times> u16 \<times> u16) list" where
  "version_rows v =
     map (\<lambda>(c, field). (c, field v, field MINIMUM_COMPONENT_VERSIONS, field LATEST_COMPONENT_VERSIONS))
       [(PcSession, cv_session), (PcReplica, cv_replica), (PcExportMetadata, cv_export_metadata),
        (PcWritableSessionStore, cv_writable_session_store), (PcCanonical, cv_canonical),
        (PcPath, cv_path), (PcChangeset, cv_changeset)]"

definition validate_required :: "component_versions \<Rightarrow> version_compatibility_error + unit" where
  "validate_required v = check_versions (version_rows v)"

section \<open>Errors of the contracts\<close>

datatype scope_contract_error =
    VersionCompatibility version_compatibility_error
  | ComponentVersionTooOld protocol_component u16 u16
  | UnsupportedSelectorVersion u16
  | EmptyField string
  | EmptyCollection string
  | DuplicateValue string
  | NonCanonicalOrdinal string u32 u32
  | InvalidLimit
  | ValueTooLong string usize usize
  | InvalidSlackId string
  | InvalidCanonicalUtcTimestamp string
  | ScInvalidSha256 string
  | InconsistentArchiveEntryCount
  | SelectionExceedsLimits
  | InvalidControlRecord
  | InvalidControlDirectory
  | InvalidControlRecordCount u64
  | NonCanonicalRecordOrder
  | InvalidDirectoryDepth u32 u32
  | InvalidParentPath
  | MissingParentDirectory
  | ReceiptDoesNotMatchOffer
  | InventoryTooLarge
  | InventoryDoesNotMatchOffer
  | DeliveredBodyCountMismatch u64 u64

definition scope_contract_error_display :: "scope_contract_error \<Rightarrow> string" where
  "scope_contract_error_display e =
     (case e of
        VersionCompatibility v \<Rightarrow> version_compatibility_error_display v
      | ComponentVersionTooOld c required actual \<Rightarrow>
          protocol_component_debug c @ '' version '' @ dec (unat actual)
          @ '' is older than required version '' @ dec (unat required)
      | UnsupportedSelectorVersion v \<Rightarrow>
          ''source-scope selector version '' @ dec (unat v) @ '' is unsupported''
      | EmptyField f \<Rightarrow> f @ '' must not be empty''
      | EmptyCollection f \<Rightarrow> f @ '' must not be empty''
      | DuplicateValue f \<Rightarrow> f @ '' must be unique''
      | NonCanonicalOrdinal c expected actual \<Rightarrow>
          c @ '' ordinal must be '' @ dec (unat expected) @ '', got '' @ dec (unat actual)
      | InvalidLimit \<Rightarrow> ''export limits must be positive''
      | ValueTooLong f maximum actual \<Rightarrow>
          f @ '' is '' @ dec actual @ '' bytes, exceeding '' @ dec maximum @ '' bytes''
      | InvalidSlackId f \<Rightarrow> f @ '' must be a canonical bounded Slack identifier''
      | InvalidCanonicalUtcTimestamp f \<Rightarrow> f @ '' must use canonical UTC form YYYY-MM-DDTHH:MM:SSZ''
      | ScInvalidSha256 f \<Rightarrow> f @ '' must be `sha256:` plus 64 lowercase hex digits''
      | InconsistentArchiveEntryCount \<Rightarrow>
          ''archive_entry_count must equal one control entry plus directories and files''
      | SelectionExceedsLimits \<Rightarrow> ''sealed export selection exceeds negotiated limits''
      | InvalidControlRecord \<Rightarrow>
          ''control record must be ordinal zero at the reserved export metadata path''
      | InvalidControlDirectory \<Rightarrow> ''the implicit .loc control directory must not be emitted''
      | InvalidControlRecordCount actual \<Rightarrow>
          ''canonical export must contain one control record, got '' @ dec (unat actual)
      | NonCanonicalRecordOrder \<Rightarrow> ''canonical export records are not in strict canonical order''
      | InvalidDirectoryDepth expected actual \<Rightarrow>
          ''directory depth must be '' @ dec (unat expected) @ '', got '' @ dec (unat actual)
      | InvalidParentPath \<Rightarrow> ''file parent_path does not match logical_path''
      | MissingParentDirectory \<Rightarrow> ''canonical export record is missing its parent directory''
      | ReceiptDoesNotMatchOffer \<Rightarrow> ''completion receipt does not match sealed export offer''
      | InventoryTooLarge \<Rightarrow> ''canonical export inventory exceeds u64 framing''
      | InventoryDoesNotMatchOffer \<Rightarrow> ''canonical export inventory does not match sealed offer''
      | DeliveredBodyCountMismatch expected actual \<Rightarrow>
          ''delivered body count must be '' @ dec (unat expected) @ '', got '' @ dec (unat actual))"

type_synonym 'a scope_result = "scope_contract_error + 'a"

section \<open>Validators\<close>

definition validate_nonempty :: "string \<Rightarrow> string \<Rightarrow> unit scope_result" where
  "validate_nonempty field v = (if v = [] then Inl (EmptyField field) else Inr ())"

definition validate_canonical_utc_timestamp :: "string \<Rightarrow> string \<Rightarrow> unit scope_result" where
  "validate_canonical_utc_timestamp field v =
     (if canonical_utc_timestamp v then Inr () else Inl (InvalidCanonicalUtcTimestamp field))"

definition lower_hex :: "char \<Rightarrow> bool" where
  "lower_hex c \<longleftrightarrow> is_ascii_digit c \<or> (97 :: nat) \<le> of_char c \<and> of_char c \<le> (102 :: nat)"

definition validate_sha256 :: "string \<Rightarrow> string \<Rightarrow> unit scope_result" where
  "validate_sha256 field v =
     (case strip_prefix ''sha256:'' v of
        None \<Rightarrow> Inl (ScInvalidSha256 field)
      | Some hex \<Rightarrow>
          if length hex \<noteq> 64 \<or> \<not> list_all lower_hex hex then Inl (ScInvalidSha256 field) else Inr ())"

definition validate_export_versions :: "component_versions \<Rightarrow> unit scope_result" where
  "validate_export_versions v =
     rbind (map_err VersionCompatibility (validate_required v)) (\<lambda>_.
       case List.find (\<lambda>(c, actual). actual < 2)
              [(PcSession, cv_session v), (PcReplica, cv_replica v), (PcExportMetadata, cv_export_metadata v)] of
         Some (c, actual) \<Rightarrow> Inl (ComponentVersionTooOld c 2 actual)
       | None \<Rightarrow> Inr ())"

lemma validate_nonempty_Inr [simp]: "validate_nonempty f v = Inr u \<longleftrightarrow> v \<noteq> []"
  by (simp add: validate_nonempty_def)

lemma validate_timestamp_Inr [simp]:
  "validate_canonical_utc_timestamp f v = Inr u \<longleftrightarrow> canonical_utc_timestamp v"
  by (simp add: validate_canonical_utc_timestamp_def)

definition sha256_text :: "string \<Rightarrow> bool" where
  "sha256_text v \<longleftrightarrow> (\<exists>hex. v = ''sha256:'' @ hex \<and> length hex = 64 \<and> list_all lower_hex hex)"

lemma strip_prefix_Some_iff: "strip_prefix p s = Some r \<longleftrightarrow> s = p @ r"
  by (auto simp: strip_prefix_def prefix_def)

lemma validate_sha256_Inr [simp]: "validate_sha256 f v = Inr u \<longleftrightarrow> sha256_text v"
proof (cases "strip_prefix ''sha256:'' v")
  case None
  then have "\<not> sha256_text v" unfolding sha256_text_def using strip_prefix_Some_iff[of "''sha256:''" v] by force
  with None show ?thesis by (simp add: validate_sha256_def)
next
  case (Some hex)
  then have v: "v = ''sha256:'' @ hex" by (simp only: strip_prefix_Some_iff)
  have "sha256_text v \<longleftrightarrow> length hex = 64 \<and> list_all lower_hex hex" unfolding sha256_text_def v by simp
  with Some show ?thesis by (simp add: validate_sha256_def)
qed

lemma sha256_text_length: "sha256_text v \<Longrightarrow> length v = 71"
  by (auto simp: sha256_text_def)

lemma check_versions_Inr:
  "check_versions rows = Inr () \<longleftrightarrow> (\<forall>(c, required, minimum, supported)\<in>set rows. minimum \<le> required \<and> required \<le> supported)"
  by (induction rows rule: check_versions.induct) (auto simp: not_less)

lemma pinned: "a \<le> x \<and> x \<le> a \<longleftrightarrow> x = a" for a x :: "'a::linorder" by auto

lemma pinned_above: "a \<le> b \<Longrightarrow> (a \<le> x \<and> x \<le> b) \<and> \<not> x < b \<longleftrightarrow> x = b" for a x :: "'a::linorder" by auto

text \<open>The export contracts run on versions 2 of the session, the replica and the metadata, and version
  1 of everything else.\<close>

lemma export_versions_Inr:
  "validate_export_versions v = Inr u \<longleftrightarrow>
     cv_session v = 2 \<and> cv_replica v = 2 \<and> cv_export_metadata v = 2 \<and> cv_writable_session_store v = 1
   \<and> cv_canonical v = 1 \<and> cv_path v = 1 \<and> cv_changeset v = 1"
proof -
  have one: "1 \<le> x \<and> x \<le> 1 \<longleftrightarrow> x = 1" for x :: u16 by (rule pinned)
  have two: "(1 \<le> x \<and> x \<le> 2) \<and> \<not> x < 2 \<longleftrightarrow> x = 2" for x :: u16 by (rule pinned_above) simp
  have rows: "validate_required v = Inr () \<longleftrightarrow>
     (1 \<le> cv_session v \<and> cv_session v \<le> 2) \<and> (1 \<le> cv_replica v \<and> cv_replica v \<le> 2)
   \<and> (1 \<le> cv_export_metadata v \<and> cv_export_metadata v \<le> 2) \<and> cv_writable_session_store v = 1
   \<and> cv_canonical v = 1 \<and> cv_path v = 1 \<and> cv_changeset v = 1"
  proof -
    have list: "version_rows v =
      [(PcSession, cv_session v, 1, 2), (PcReplica, cv_replica v, 1, 2), (PcExportMetadata, cv_export_metadata v, 1, 2),
       (PcWritableSessionStore, cv_writable_session_store v, 1, 1), (PcCanonical, cv_canonical v, 1, 1),
       (PcPath, cv_path v, 1, 1), (PcChangeset, cv_changeset v, 1, 1)]"
      by (simp add: version_rows_def MINIMUM_COMPONENT_VERSIONS_def LATEST_COMPONENT_VERSIONS_def COMPONENT_VERSIONS_def)
    show ?thesis
      unfolding validate_required_def check_versions_Inr list
      by (simp only: list.set ball_simps prod.case one simp_thms conj_assoc)
  qed
  show ?thesis
    unfolding validate_export_versions_def rbind_Inr_iff map_err_Inr_iff
    using two[of "cv_session v"] two[of "cv_replica v"] two[of "cv_export_metadata v"] rows by auto
qed

end
