(* ===== verification/Protocol_Freshness.thy ===== *)
theory Protocol_Freshness
  imports Protocol_Base
begin

text \<open>
  Freshness requirements, epochs and coverage envelopes of \<open>locality-protocol/src/lib.rs\<close>. The lemmas
  show that the join of two coverage requirements, where it is defined, is the weakest requirement
  that demands both.
\<close>

section \<open>Requirements and epochs\<close>

datatype stale_session_behavior = StaleFail | WaitThenFail

record freshness_requirement =
  rq_max_age_seconds :: u64
  rq_on_stale :: stale_session_behavior
  rq_wait_timeout_seconds :: u64

text \<open>A non-negative \<open>i64\<close>.\<close>

datatype freshness_epoch = FreshnessEpoch (epoch_get: int)

definition epoch_new :: "int \<Rightarrow> freshness_epoch option" where
  "epoch_new v = (if v < 0 then None else Some (FreshnessEpoch v))"

definition epoch_checked_next :: "freshness_epoch \<Rightarrow> freshness_epoch option" where
  "epoch_checked_next e =
     (if epoch_get e + 1 < 2 ^ 63 then Some (FreshnessEpoch (epoch_get e + 1)) else None)"

instantiation freshness_epoch :: linorder
begin

definition less_eq_freshness_epoch :: "freshness_epoch \<Rightarrow> freshness_epoch \<Rightarrow> bool" where
  "less_eq_freshness_epoch a b \<longleftrightarrow> epoch_get a \<le> epoch_get b"

definition less_freshness_epoch :: "freshness_epoch \<Rightarrow> freshness_epoch \<Rightarrow> bool" where
  "less_freshness_epoch a b \<longleftrightarrow> epoch_get a < epoch_get b"

instance
  by standard (auto simp: less_eq_freshness_epoch_def less_freshness_epoch_def intro: freshness_epoch.expand)

end

record scope_freshness_epochs =
  se_demand_epoch :: freshness_epoch
  se_received_epoch :: freshness_epoch
  se_processed_epoch :: freshness_epoch
  se_applied_epoch :: freshness_epoch

datatype freshness_model_error =
    InvalidEpochOrder
  | NonPositiveEnvelopeVersion
  | IncompatibleCheckpointVersions u16 u16 u16
  | EmptyOpaqueProviderValue
  | OpaqueProviderValueTooLong usize usize
  | UnsupportedCoverageFormatVersion u16
  | UnknownCoverageClass
  | EmptyConnectorVersion
  | ConnectorVersionTooLong usize usize
  | ConnectorVersionTooManyCharacters usize usize
  | ConnectorVersionHasSurroundingWhitespace
  | ConnectorVersionContainsControl
  | InvalidConfigurationSha256

definition freshness_model_error_display :: "freshness_model_error \<Rightarrow> string" where
  "freshness_model_error_display e =
     (case e of
        InvalidEpochOrder \<Rightarrow>
          ''freshness epochs must satisfy applied_epoch <= processed_epoch <= received_epoch <= demand_epoch''
      | NonPositiveEnvelopeVersion \<Rightarrow> ''freshness envelope versions must be positive''
      | IncompatibleCheckpointVersions format minimum supported \<Rightarrow>
          ''checkpoint format version '' @ dec (unat format) @ '' requires reader version ''
          @ dec (unat minimum) @ '', supported reader version is '' @ dec (unat supported)
      | EmptyOpaqueProviderValue \<Rightarrow> ''opaque provider checkpoint must not be empty''
      | OpaqueProviderValueTooLong maximum actual \<Rightarrow>
          ''opaque provider checkpoint is '' @ dec actual @ '' bytes, exceeding '' @ dec maximum @ '' bytes''
      | UnsupportedCoverageFormatVersion v \<Rightarrow>
          ''freshness coverage format version '' @ dec (unat v) @ '' is unsupported''
      | UnknownCoverageClass \<Rightarrow> ''unknown freshness coverage class cannot prove coverage''
      | EmptyConnectorVersion \<Rightarrow> ''connector_version must not be empty''
      | ConnectorVersionTooLong maximum actual \<Rightarrow>
          ''connector_version is '' @ dec actual @ '' bytes, exceeding '' @ dec maximum @ '' bytes''
      | ConnectorVersionTooManyCharacters maximum actual \<Rightarrow>
          ''connector_version is '' @ dec actual @ '' characters, exceeding '' @ dec maximum @ '' characters''
      | ConnectorVersionHasSurroundingWhitespace \<Rightarrow>
          ''connector_version must not have surrounding whitespace''
      | ConnectorVersionContainsControl \<Rightarrow> ''connector_version must not contain control characters''
      | InvalidConfigurationSha256 \<Rightarrow>
          ''configuration_sha256 must be `sha256:` plus 64 lowercase hex digits'')"

definition epochs_validate :: "scope_freshness_epochs \<Rightarrow> freshness_model_error + unit" where
  "epochs_validate e =
     (if se_applied_epoch e \<le> se_processed_epoch e \<and> se_processed_epoch e \<le> se_received_epoch e
         \<and> se_received_epoch e \<le> se_demand_epoch e
      then Inr () else Inl InvalidEpochOrder)"

section \<open>Coverage classes\<close>

datatype freshness_coverage_class = Incremental | Overlap | FullRepair | UnknownCoverage

definition coverage_rank :: "freshness_coverage_class \<Rightarrow> nat option" where
  "coverage_rank c =
     (case c of Incremental \<Rightarrow> Some 0 | Overlap \<Rightarrow> Some 1 | FullRepair \<Rightarrow> Some 2 | UnknownCoverage \<Rightarrow> None)"

definition coverage_join :: "freshness_coverage_class \<Rightarrow> freshness_coverage_class \<Rightarrow> freshness_coverage_class" where
  "coverage_join a b =
     (case (coverage_rank a, coverage_rank b) of
        (Some left, Some right) \<Rightarrow> if left \<ge> right then a else b
      | _ \<Rightarrow> UnknownCoverage)"

definition coverage_minimum :: "freshness_coverage_class \<Rightarrow> freshness_coverage_class \<Rightarrow> freshness_coverage_class" where
  "coverage_minimum a b =
     (case (coverage_rank a, coverage_rank b) of
        (Some left, Some right) \<Rightarrow> if left \<le> right then a else b
      | _ \<Rightarrow> UnknownCoverage)"

definition coverage_satisfies :: "freshness_coverage_class \<Rightarrow> freshness_coverage_class \<Rightarrow> bool" where
  "coverage_satisfies a minimum \<longleftrightarrow>
     (case (coverage_rank a, coverage_rank minimum) of
        (Some actual, Some required) \<Rightarrow> actual \<ge> required
      | _ \<Rightarrow> False)"

section \<open>Envelopes\<close>

definition FRESHNESS_CHECKPOINT_READER_VERSION :: u16 where
  "FRESHNESS_CHECKPOINT_READER_VERSION = 1"

definition FRESHNESS_COVERAGE_FORMAT_VERSION :: u16 where
  "FRESHNESS_COVERAGE_FORMAT_VERSION = 1"

definition MAX_FRESHNESS_CHECKPOINT_OPAQUE_BYTES :: usize where
  "MAX_FRESHNESS_CHECKPOINT_OPAQUE_BYTES = 16 * 1024"

definition MAX_FRESHNESS_CONNECTOR_VERSION_CHARS :: usize where
  "MAX_FRESHNESS_CONNECTOR_VERSION_CHARS = 128"

definition MAX_FRESHNESS_CONNECTOR_VERSION_BYTES :: usize where
  "MAX_FRESHNESS_CONNECTOR_VERSION_BYTES = 512"

record freshness_checkpoint_envelope =
  ck_format_version :: u16
  ck_minimum_reader_version :: u16
  ck_opaque_provider_value :: string

definition checkpoint_validate :: "freshness_checkpoint_envelope \<Rightarrow> freshness_model_error + unit" where
  "checkpoint_validate c =
     (if ck_format_version c = 0 \<or> ck_minimum_reader_version c = 0 then Inl NonPositiveEnvelopeVersion
      else if ck_minimum_reader_version c > ck_format_version c
        \<or> ck_minimum_reader_version c > FRESHNESS_CHECKPOINT_READER_VERSION
      then Inl (IncompatibleCheckpointVersions (ck_format_version c) (ck_minimum_reader_version c)
                 FRESHNESS_CHECKPOINT_READER_VERSION)
      else if ck_opaque_provider_value c = [] then Inl EmptyOpaqueProviderValue
      else if length (ck_opaque_provider_value c) > MAX_FRESHNESS_CHECKPOINT_OPAQUE_BYTES
      then Inl (OpaqueProviderValueTooLong MAX_FRESHNESS_CHECKPOINT_OPAQUE_BYTES
                 (length (ck_opaque_provider_value c)))
      else Inr ())"

record freshness_coverage_envelope =
  cov_format_version :: u16
  cov_minimum_class :: freshness_coverage_class
  cov_provider_cut :: "freshness_checkpoint_envelope option"
  cov_authority_epoch :: freshness_epoch
  cov_connector_version :: string
  cov_configuration_sha256 :: string

text \<open>\<open>chars().count()\<close>: the bytes that start a code point.\<close>

definition char_count :: "string \<Rightarrow> nat" where
  "char_count s = length (filter (\<lambda>c. \<not> ((128 :: nat) \<le> of_char c \<and> of_char c < (192 :: nat))) s)"

definition coverage_validate :: "freshness_coverage_envelope \<Rightarrow> freshness_model_error + unit" where
  "coverage_validate c =
     (let v = cov_connector_version c in
      if cov_format_version c \<noteq> FRESHNESS_COVERAGE_FORMAT_VERSION
      then Inl (UnsupportedCoverageFormatVersion (cov_format_version c))
      else if cov_minimum_class c = UnknownCoverage then Inl UnknownCoverageClass
      else if v = [] then Inl EmptyConnectorVersion
      else if length v > MAX_FRESHNESS_CONNECTOR_VERSION_BYTES
      then Inl (ConnectorVersionTooLong MAX_FRESHNESS_CONNECTOR_VERSION_BYTES (length v))
      else if char_count v > MAX_FRESHNESS_CONNECTOR_VERSION_CHARS
      then Inl (ConnectorVersionTooManyCharacters MAX_FRESHNESS_CONNECTOR_VERSION_CHARS (char_count v))
      else if trim v \<noteq> v then Inl ConnectorVersionHasSurroundingWhitespace
      else if has_control v then Inl ConnectorVersionContainsControl
      else case validate_sha256 ''configuration_sha256'' (cov_configuration_sha256 c) of
        Inl _ \<Rightarrow> Inl InvalidConfigurationSha256
      | Inr _ \<Rightarrow>
          (case cov_provider_cut c of None \<Rightarrow> Inr () | Some pcut \<Rightarrow> checkpoint_validate pcut))"

definition same_configuration :: "freshness_coverage_envelope \<Rightarrow> freshness_coverage_envelope \<Rightarrow> bool" where
  "same_configuration a b \<longleftrightarrow>
     \<not> (cov_format_version a \<noteq> cov_format_version b \<or> cov_connector_version a \<noteq> cov_connector_version b
        \<or> cov_configuration_sha256 a \<noteq> cov_configuration_sha256 b)"

definition join_cuts ::
    "freshness_checkpoint_envelope option \<Rightarrow> freshness_checkpoint_envelope option
     \<Rightarrow> freshness_checkpoint_envelope option option" where
  "join_cuts a b =
     (case (a, b) of
        (None, None) \<Rightarrow> Some None
      | (Some pcut, None) \<Rightarrow> Some (Some pcut)
      | (None, Some pcut) \<Rightarrow> Some (Some pcut)
      | (Some left, Some right) \<Rightarrow> if left = right then Some (Some left) else None)"

definition cut_satisfied ::
    "freshness_checkpoint_envelope option \<Rightarrow> freshness_checkpoint_envelope option \<Rightarrow> bool option" where
  "cut_satisfied actual minimum =
     (case (actual, minimum) of
        (_, None) \<Rightarrow> Some True
      | (None, Some _) \<Rightarrow> Some False
      | (Some a, Some r) \<Rightarrow> if a = r then Some True else None)"

definition envelope_join ::
    "freshness_coverage_envelope \<Rightarrow> freshness_coverage_envelope \<Rightarrow> freshness_coverage_envelope option" where
  "envelope_join a b =
     (case coverage_validate a of Inl _ \<Rightarrow> None | Inr _ \<Rightarrow>
      case coverage_validate b of Inl _ \<Rightarrow> None | Inr _ \<Rightarrow>
      if \<not> same_configuration a b then None
      else case join_cuts (cov_provider_cut a) (cov_provider_cut b) of
        None \<Rightarrow> None
      | Some pcut \<Rightarrow>
          Some \<lparr>cov_format_version = cov_format_version a,
            cov_minimum_class = coverage_join (cov_minimum_class a) (cov_minimum_class b),
            cov_provider_cut = pcut,
            cov_authority_epoch = max (cov_authority_epoch a) (cov_authority_epoch b),
            cov_connector_version = cov_connector_version a,
            cov_configuration_sha256 = cov_configuration_sha256 a\<rparr>)"

definition envelope_satisfies ::
    "freshness_coverage_envelope \<Rightarrow> freshness_coverage_envelope \<Rightarrow> bool option" where
  "envelope_satisfies a minimum =
     (case coverage_validate a of Inl _ \<Rightarrow> None | Inr _ \<Rightarrow>
      case coverage_validate minimum of Inl _ \<Rightarrow> None | Inr _ \<Rightarrow>
      if \<not> same_configuration a minimum then None
      else case cut_satisfied (cov_provider_cut a) (cov_provider_cut minimum) of
        None \<Rightarrow> None
      | Some cut_ok \<Rightarrow>
          Some (cut_ok \<and> coverage_satisfies (cov_minimum_class a) (cov_minimum_class minimum)
                \<and> cov_authority_epoch a \<ge> cov_authority_epoch minimum))"

section \<open>The join demands both\<close>

lemma coverage_validate_Inr:
  "coverage_validate c = Inr () \<longleftrightarrow>
     cov_format_version c = FRESHNESS_COVERAGE_FORMAT_VERSION \<and> cov_minimum_class c \<noteq> UnknownCoverage
   \<and> cov_connector_version c \<noteq> [] \<and> length (cov_connector_version c) \<le> MAX_FRESHNESS_CONNECTOR_VERSION_BYTES
   \<and> char_count (cov_connector_version c) \<le> MAX_FRESHNESS_CONNECTOR_VERSION_CHARS
   \<and> trim (cov_connector_version c) = cov_connector_version c \<and> \<not> has_control (cov_connector_version c)
   \<and> sha256_text (cov_configuration_sha256 c)
   \<and> (\<forall>pcut. cov_provider_cut c = Some pcut \<longrightarrow> checkpoint_validate pcut = Inr ())"
proof (cases "validate_sha256 ''configuration_sha256'' (cov_configuration_sha256 c)")
  case (Inl e)
  then have "\<not> sha256_text (cov_configuration_sha256 c)"
    using validate_sha256_Inr[of "''configuration_sha256''" "cov_configuration_sha256 c" "()"] by simp
  with Inl show ?thesis by (simp add: coverage_validate_def Let_def)
next
  case (Inr u)
  then have "sha256_text (cov_configuration_sha256 c)"
    using validate_sha256_Inr[of "''configuration_sha256''" "cov_configuration_sha256 c" u] by simp
  with Inr show ?thesis by (auto simp: coverage_validate_def Let_def not_less simp del: validate_sha256_Inr split: option.splits)
qed

lemma coverage_known: "coverage_validate c = Inr u \<Longrightarrow> cov_minimum_class c \<noteq> UnknownCoverage"
  by (simp add: coverage_validate_Inr)

lemma coverage_join_known:
  "a \<noteq> UnknownCoverage \<Longrightarrow> b \<noteq> UnknownCoverage \<Longrightarrow> coverage_join a b \<noteq> UnknownCoverage"
  by (cases a; cases b; simp add: coverage_join_def coverage_rank_def)

lemma coverage_join_satisfies:
  "a \<noteq> UnknownCoverage \<Longrightarrow> b \<noteq> UnknownCoverage \<Longrightarrow>
   coverage_satisfies x (coverage_join a b) \<longleftrightarrow> coverage_satisfies x a \<and> coverage_satisfies x b"
  by (cases a; cases b; cases x; simp add: coverage_join_def coverage_satisfies_def coverage_rank_def)

lemma join_cuts_satisfied:
  "join_cuts a b = Some pcut \<Longrightarrow>
   cut_satisfied x pcut = Some True \<longleftrightarrow> cut_satisfied x a = Some True \<and> cut_satisfied x b = Some True"
  by (auto simp: join_cuts_def cut_satisfied_def split: option.splits if_splits)

text \<open>Validity depends on the class, the cut and the shared configuration only.\<close>

lemma coverage_validate_transfer:
  assumes "coverage_validate a = Inr ()" "same_configuration a c" "cov_minimum_class c \<noteq> UnknownCoverage"
    and "\<And>pcut. cov_provider_cut c = Some pcut \<Longrightarrow> checkpoint_validate pcut = Inr ()"
  shows "coverage_validate c = Inr ()"
  using assms by (simp add: coverage_validate_Inr same_configuration_def)

lemma coverage_cut_valid:
  "coverage_validate c = Inr () \<Longrightarrow> cov_provider_cut c = Some pcut \<Longrightarrow> checkpoint_validate pcut = Inr ()"
  by (simp add: coverage_validate_Inr)

lemma envelope_join_Some:
  assumes "envelope_join a b = Some j"
  shows "coverage_validate a = Inr ()" "coverage_validate b = Inr ()" "same_configuration a b"
    "join_cuts (cov_provider_cut a) (cov_provider_cut b) = Some (cov_provider_cut j)"
    "cov_minimum_class j = coverage_join (cov_minimum_class a) (cov_minimum_class b)"
    "cov_authority_epoch j = max (cov_authority_epoch a) (cov_authority_epoch b)"
    "same_configuration a j" "coverage_validate j = Inr ()"
proof -
  show va: "coverage_validate a = Inr ()" and vb: "coverage_validate b = Inr ()" and "same_configuration a b"
    and pcut: "join_cuts (cov_provider_cut a) (cov_provider_cut b) = Some (cov_provider_cut j)"
    and cls: "cov_minimum_class j = coverage_join (cov_minimum_class a) (cov_minimum_class b)"
    and "cov_authority_epoch j = max (cov_authority_epoch a) (cov_authority_epoch b)"
    and same: "same_configuration a j"
    using assms by (auto simp: envelope_join_def same_configuration_def split: sum.splits if_splits option.splits)
  have "checkpoint_validate c = Inr ()" if "cov_provider_cut j = Some c" for c
    using that pcut coverage_cut_valid[OF va, of c] coverage_cut_valid[OF vb, of c]
    by (auto simp: join_cuts_def split: option.splits if_splits)
  with coverage_validate_transfer[OF va same] cls
    coverage_join_known[OF coverage_known[OF va] coverage_known[OF vb]]
  show "coverage_validate j = Inr ()" by metis
qed

lemma envelope_satisfies_True:
  "envelope_satisfies x m = Some True \<longleftrightarrow>
     coverage_validate x = Inr () \<and> coverage_validate m = Inr () \<and> same_configuration x m
   \<and> cut_satisfied (cov_provider_cut x) (cov_provider_cut m) = Some True
   \<and> coverage_satisfies (cov_minimum_class x) (cov_minimum_class m)
   \<and> cov_authority_epoch m \<le> cov_authority_epoch x"
  by (auto simp: envelope_satisfies_def split: sum.splits option.splits)

text \<open>Where the join of two coverage requirements is defined, a coverage proof satisfies it exactly
  when it satisfies both: joining loses no requirement and adds none.\<close>

theorem join_demands_both:
  assumes "envelope_join a b = Some j"
  shows "envelope_satisfies x j = Some True \<longleftrightarrow>
    envelope_satisfies x a = Some True \<and> envelope_satisfies x b = Some True"
proof -
  note j = envelope_join_Some[OF assms]
  have "same_configuration x j \<longleftrightarrow> same_configuration x a" "same_configuration x b \<longleftrightarrow> same_configuration x a"
    using j(3,7) by (auto simp: same_configuration_def)
  then show ?thesis
    unfolding envelope_satisfies_True
    using j join_cuts_satisfied[OF j(4)] coverage_join_satisfies[OF coverage_known[OF j(1)] coverage_known[OF j(2)]]
    by (auto simp: max_def)
qed

definition sample_coverage :: "freshness_coverage_class \<Rightarrow> int \<Rightarrow> freshness_coverage_envelope" where
  "sample_coverage c e =
     \<lparr>cov_format_version = 1, cov_minimum_class = c, cov_provider_cut = None,
      cov_authority_epoch = FreshnessEpoch e, cov_connector_version = ''1'',
      cov_configuration_sha256 = ''sha256:'' @ replicate 64 (CHR ''a'')\<rparr>"

lemma sample_coverage_valid:
  "c \<noteq> UnknownCoverage \<Longrightarrow> coverage_validate (sample_coverage c e) = Inr ()"
proof -
  assume c: "c \<noteq> UnknownCoverage"
  have sha: "sha256_text (''sha256:'' @ replicate 64 (CHR ''a''))"
    unfolding sha256_text_def by (intro exI[of _ "replicate 64 (CHR ''a'')"]) (simp add: list_all_iff lower_hex_def)
  have one: "trim ''1'' = ''1''" "\<not> has_control ''1''" "char_count ''1'' = 1" by code_simp+
  with c sha show ?thesis
    by (simp add: coverage_validate_Inr sample_coverage_def FRESHNESS_COVERAGE_FORMAT_VERSION_def
        MAX_FRESHNESS_CONNECTOR_VERSION_BYTES_def MAX_FRESHNESS_CONNECTOR_VERSION_CHARS_def)
qed

theorem join_demands_both_witness:
  "envelope_satisfies (sample_coverage FullRepair 5) (sample_coverage Overlap 4) = Some True \<longleftrightarrow>
     envelope_satisfies (sample_coverage FullRepair 5) (sample_coverage Incremental 4) = Some True
   \<and> envelope_satisfies (sample_coverage FullRepair 5) (sample_coverage Overlap 3) = Some True"
proof -
  have "envelope_join (sample_coverage Incremental 4) (sample_coverage Overlap 3) = Some (sample_coverage Overlap 4)"
    by (simp add: envelope_join_def sample_coverage_valid)
      (simp add: sample_coverage_def same_configuration_def join_cuts_def coverage_join_def coverage_rank_def
        max_def less_eq_freshness_epoch_def)
  from join_demands_both[OF this] show ?thesis .
qed

end
