(* ===== verification/Delivery_Health.thy ===== *)
theory Delivery_Health
  imports Protocol_Freshness
begin

text \<open>
  The first half of \<open>locality-protocol/src/freshness_delivery.rs\<close>: the errors of the delivery
  contracts, reason and retry codes, and the three layers of health. The string identifiers of
  \<open>portable.rs\<close> that the crate does not look into are strings here.
\<close>

section \<open>Errors\<close>

datatype freshness_delivery_error =
    DvUpdateRequired u16 u16
  | DvUnsupportedFormatVersion u16
  | DvInvalidVersionEnvelope
  | IdentifierEmpty string
  | IdentifierTooLong string
  | DvInvalidTimestamp
  | DvInvalidSha256
  | UnknownReasonCode
  | UnknownRetryClass
  | InvalidRetryDelay
  | UnexpectedRetryDelay
  | UnknownHealthState
  | UnknownWorkerProgress
  | DvInvalidEpochOrder
  | UnselectableGenerationFacts
  | HealthSourceMismatch
  | EmptyDeltaEntry
  | ProjectionIdentityChanged
  | UnchangedDeltaEntry
  | SameGeneration
  | IncompleteTargetGeneration
  | InvalidLayoutVersion
  | TooManyDeltaEntries usize
  | FileContentTooLarge u64
  | DeltaContentTooLarge u64
  | DeltaMetadataTooLarge usize
  | NonCanonicalDeltaOrder
  | NonCanonicalTargetInventoryOrder
  | CrossEntryPathReuse
  | TargetInventoryPathReuse
  | ContentLengthOverflow
  | CanonicalValueTooLarge
  | ReceiptMismatch
  | TargetInventoryMismatch

type_synonym 'a delivery_result = "freshness_delivery_error + 'a"

definition FRESHNESS_DELIVERY_READER_VERSION :: u16 where "FRESHNESS_DELIVERY_READER_VERSION = 1"
definition GENERATION_DELTA_FORMAT_VERSION :: u16 where "GENERATION_DELTA_FORMAT_VERSION = 1"
definition MAX_GENERATION_DELTA_ENTRIES :: usize where "MAX_GENERATION_DELTA_ENTRIES = 100000"
definition MAX_GENERATION_DELTA_METADATA_BYTES :: usize where
  "MAX_GENERATION_DELTA_METADATA_BYTES = 63 * 1024 * 1024"
definition MAX_GENERATION_FILE_BYTES :: u64 where "MAX_GENERATION_FILE_BYTES = 64 * 1024 * 1024"
definition MAX_GENERATION_DELTA_CONTENT_BYTES :: u64 where
  "MAX_GENERATION_DELTA_CONTENT_BYTES = 512 * 1024 * 1024"
definition MAX_DELIVERY_ID_BYTES :: usize where "MAX_DELIVERY_ID_BYTES = 128"
definition MAX_DELIVERY_TIMESTAMP_BYTES :: usize where "MAX_DELIVERY_TIMESTAMP_BYTES = 64"
definition MAX_RETRY_AFTER_SECONDS :: u64 where "MAX_RETRY_AFTER_SECONDS = 24 * 60 * 60"

definition freshness_delivery_error_display :: "freshness_delivery_error \<Rightarrow> string" where
  "freshness_delivery_error_display e =
     (case e of
        DvUpdateRequired minimum supported \<Rightarrow>
          ''freshness delivery requires reader version '' @ dec (unat minimum) @ '', supported version is ''
          @ dec (unat supported)
      | DvUnsupportedFormatVersion actual \<Rightarrow>
          ''freshness delivery format version '' @ dec (unat actual) @ '' is unsupported''
      | DvInvalidVersionEnvelope \<Rightarrow> ''invalid version envelope''
      | IdentifierEmpty field \<Rightarrow> field @ '' must not be empty''
      | IdentifierTooLong field \<Rightarrow> field @ '' is too long''
      | DvInvalidTimestamp \<Rightarrow> ''invalid bounded timestamp''
      | DvInvalidSha256 \<Rightarrow> ''digest must be `sha256:` plus 64 lowercase hexadecimal digits''
      | UnknownReasonCode \<Rightarrow> ''unknown freshness reason code''
      | UnknownRetryClass \<Rightarrow> ''unknown freshness retry class''
      | InvalidRetryDelay \<Rightarrow> ''invalid bounded retry delay''
      | UnexpectedRetryDelay \<Rightarrow> ''retry delay is only valid for after_delay''
      | UnknownHealthState \<Rightarrow> ''unknown health state''
      | UnknownWorkerProgress \<Rightarrow> ''unknown worker progress''
      | DvInvalidEpochOrder \<Rightarrow> ''invalid freshness epoch order''
      | UnselectableGenerationFacts \<Rightarrow> ''selectable generation lacks complete verified retained facts''
      | HealthSourceMismatch \<Rightarrow> ''provider and publication health name different sources''
      | EmptyDeltaEntry \<Rightarrow> ''delta entry has no old or new identity''
      | ProjectionIdentityChanged \<Rightarrow> ''delta entry changed stable projection identity''
      | UnchangedDeltaEntry \<Rightarrow> ''delta entry is unchanged''
      | SameGeneration \<Rightarrow> ''delta base and target generations match''
      | IncompleteTargetGeneration \<Rightarrow> ''delta target generation is incomplete''
      | InvalidLayoutVersion \<Rightarrow> ''workspace layout version is zero''
      | TooManyDeltaEntries actual \<Rightarrow>
          ''delta contains '' @ dec actual @ '' entries, exceeding '' @ dec MAX_GENERATION_DELTA_ENTRIES
      | FileContentTooLarge actual \<Rightarrow>
          ''generation file contains '' @ dec (unat actual) @ '' bytes, exceeding ''
          @ dec (unat MAX_GENERATION_FILE_BYTES)
      | DeltaContentTooLarge actual \<Rightarrow>
          ''delta contains '' @ dec (unat actual) @ '' content bytes, exceeding ''
          @ dec (unat MAX_GENERATION_DELTA_CONTENT_BYTES)
      | DeltaMetadataTooLarge actual \<Rightarrow>
          ''delta metadata encoding is '' @ dec actual @ '' bytes, exceeding ''
          @ dec MAX_GENERATION_DELTA_METADATA_BYTES
      | NonCanonicalDeltaOrder \<Rightarrow> ''delta entries are not in canonical order''
      | NonCanonicalTargetInventoryOrder \<Rightarrow> ''target inventory is not in canonical projection order''
      | CrossEntryPathReuse \<Rightarrow> ''delta reuses a logical path across entries''
      | TargetInventoryPathReuse \<Rightarrow> ''target inventory reuses a logical path''
      | ContentLengthOverflow \<Rightarrow> ''delta content length overflow''
      | CanonicalValueTooLarge \<Rightarrow> ''value is too large for canonical encoding''
      | ReceiptMismatch \<Rightarrow> ''terminal receipt does not match delta''
      | TargetInventoryMismatch \<Rightarrow> ''target inventory digest does not match delta'')"

section \<open>Reasons and retries\<close>

datatype freshness_reason_code =
    ProviderAuthenticationRequired | ProviderUnavailable | ProviderCooldown | RefreshQueued
  | RefreshProcessing | RefreshApplying | RepairRequired | GenerationIncomplete
  | GenerationUnavailable | LocalTreeBehind | LocalChangesPending | MergeConflict | RcUpdateRequired
  | UnknownReason

datatype freshness_retry_class =
    RetryNever | RetryImmediate | AfterDelay | AfterRefresh | AfterUserAction | AfterUpdate | UnknownRetry

record freshness_retry =
  rt_class :: freshness_retry_class
  rt_retry_after_seconds :: "u64 option"

definition retry_validate :: "freshness_retry \<Rightarrow> unit delivery_result" where
  "retry_validate r =
     (case (rt_class r, rt_retry_after_seconds r) of
        (UnknownRetry, _) \<Rightarrow> Inl UnknownRetryClass
      | (AfterDelay, Some seconds) \<Rightarrow>
          if 1 \<le> seconds \<and> seconds \<le> MAX_RETRY_AFTER_SECONDS then Inr () else Inl InvalidRetryDelay
      | (AfterDelay, None) \<Rightarrow> Inl InvalidRetryDelay
      | (_, None) \<Rightarrow> Inr ()
      | (_, Some _) \<Rightarrow> Inl UnexpectedRetryDelay)"

section \<open>Validators\<close>

definition dv_validate_versions :: "u16 \<Rightarrow> u16 \<Rightarrow> unit delivery_result" where
  "dv_validate_versions format minimum =
     (if format = 0 \<or> minimum = 0 \<or> minimum > format then Inl DvInvalidVersionEnvelope
      else if minimum > FRESHNESS_DELIVERY_READER_VERSION
      then Inl (DvUpdateRequired minimum FRESHNESS_DELIVERY_READER_VERSION)
      else if format \<noteq> GENERATION_DELTA_FORMAT_VERSION then Inl (DvUnsupportedFormatVersion format)
      else Inr ())"

definition validate_identifier :: "string \<Rightarrow> string \<Rightarrow> unit delivery_result" where
  "validate_identifier field v =
     (if v = [] then Inl (IdentifierEmpty field)
      else if length v > MAX_DELIVERY_ID_BYTES then Inl (IdentifierTooLong field)
      else Inr ())"

definition validate_reason :: "freshness_reason_code option \<Rightarrow> unit delivery_result" where
  "validate_reason r = (if r = Some UnknownReason then Inl UnknownReasonCode else Inr ())"

definition dv_validate_timestamp :: "string \<Rightarrow> unit delivery_result" where
  "dv_validate_timestamp v =
     (if v = [] \<or> length v > MAX_DELIVERY_TIMESTAMP_BYTES \<or> trim v \<noteq> v \<or> has_control v
      then Inl DvInvalidTimestamp else Inr ())"

definition validate_optional_timestamp :: "string option \<Rightarrow> unit delivery_result" where
  "validate_optional_timestamp v = (case v of None \<Rightarrow> Inr () | Some v \<Rightarrow> dv_validate_timestamp v)"

definition dv_validate_sha256 :: "string \<Rightarrow> unit delivery_result" where
  "dv_validate_sha256 v =
     (if length v = 71 \<and> prefix ''sha256:'' v \<and> list_all lower_hex (drop 7 v) then Inr ()
      else Inl DvInvalidSha256)"

definition validate_optional :: "('a \<Rightarrow> unit delivery_result) \<Rightarrow> 'a option \<Rightarrow> unit delivery_result" where
  "validate_optional f v = (case v of None \<Rightarrow> Inr () | Some v \<Rightarrow> f v)"

section \<open>Health\<close>

datatype provider_health_state =
    PhHealthy | PhDegraded | PhUnavailable | PhAuthenticationRequired | PhUnknown

datatype provider_worker_progress = WpIdle | WpQueued | WpFetching | WpPublishing | WpUnknown

record provider_health =
  ph_source_connection_id :: string
  ph_state :: provider_health_state
  ph_reason :: "freshness_reason_code option"
  ph_retry :: "freshness_retry option"
  ph_epochs :: scope_freshness_epochs
  ph_worker_progress :: provider_worker_progress
  ph_latest_observation_at :: "string option"
  ph_provider_cooldown_until :: "string option"

definition provider_health_validate :: "provider_health \<Rightarrow> unit delivery_result" where
  "provider_health_validate h =
     rbind (validate_identifier ''source_connection_id'' (ph_source_connection_id h)) (\<lambda>_.
     rbind (map_err (\<lambda>_. DvInvalidEpochOrder) (epochs_validate (ph_epochs h))) (\<lambda>_.
     if ph_state h = PhUnknown then Inl UnknownHealthState
     else if ph_worker_progress h = WpUnknown then Inl UnknownWorkerProgress
     else
     rbind (validate_reason (ph_reason h)) (\<lambda>_.
     rbind (validate_optional retry_validate (ph_retry h)) (\<lambda>_.
     rbind (validate_optional_timestamp (ph_latest_observation_at h)) (\<lambda>_.
     validate_optional_timestamp (ph_provider_cooldown_until h))))))"

datatype publication_generation_state = PubComplete | PubIncomplete | PubUnavailable | PubUnknown

record publication_generation_health =
  pg_source_connection_id :: string
  pg_generation_id :: string
  pg_state :: publication_generation_state
  pg_verified :: bool
  pg_retained :: bool
  pg_selectable :: bool
  pg_applied_receipt_sha256 :: "string option"
  pg_reason :: "freshness_reason_code option"
  pg_retry :: "freshness_retry option"

definition publication_health_validate :: "publication_generation_health \<Rightarrow> unit delivery_result" where
  "publication_health_validate h =
     rbind (validate_identifier ''source_connection_id'' (pg_source_connection_id h)) (\<lambda>_.
     rbind (validate_identifier ''generation_id'' (pg_generation_id h)) (\<lambda>_.
     if pg_state h = PubUnknown then Inl UnknownHealthState
     else
     rbind (validate_reason (pg_reason h)) (\<lambda>_.
     rbind (validate_optional retry_validate (pg_retry h)) (\<lambda>_.
     rbind (validate_optional dv_validate_sha256 (pg_applied_receipt_sha256 h)) (\<lambda>_.
     if pg_selectable h \<and> (pg_state h \<noteq> PubComplete \<or> \<not> pg_verified h \<or> \<not> pg_retained h
          \<or> pg_applied_receipt_sha256 h = None)
     then Inl UnselectableGenerationFacts else Inr ())))))"

datatype delivered_tree_state = DtCurrent | DtBehind | DtDirty | DtConflicted | DtUpdateRequired | DtUnknown

record delivered_tree_health =
  dt_mount_id :: string
  dt_state :: delivered_tree_state
  dt_observed_generation_id :: "string option"
  dt_available_generation_id :: "string option"
  dt_clean_path_count :: u64
  dt_dirty_path_count :: u64
  dt_pending_path_count :: u64
  dt_conflicted_path_count :: u64
  dt_last_delta_receipt_sha256 :: "string option"
  dt_reason :: "freshness_reason_code option"
  dt_retry :: "freshness_retry option"

definition delivered_tree_validate :: "delivered_tree_health \<Rightarrow> unit delivery_result" where
  "delivered_tree_validate h =
     (if dt_state h = DtUnknown then Inl UnknownHealthState
      else
      rbind (validate_reason (dt_reason h)) (\<lambda>_.
      rbind (validate_optional retry_validate (dt_retry h)) (\<lambda>_.
      rbind (validate_optional (validate_identifier ''observed_generation_id'') (dt_observed_generation_id h)) (\<lambda>_.
      rbind (validate_optional (validate_identifier ''available_generation_id'') (dt_available_generation_id h)) (\<lambda>_.
      validate_optional dv_validate_sha256 (dt_last_delta_receipt_sha256 h))))))"

record freshness_health =
  fh_provider :: provider_health
  fh_publication :: publication_generation_health
  fh_local_delivery :: delivered_tree_health

definition freshness_health_validate :: "freshness_health \<Rightarrow> unit delivery_result" where
  "freshness_health_validate h =
     rbind (provider_health_validate (fh_provider h)) (\<lambda>_.
     rbind (publication_health_validate (fh_publication h)) (\<lambda>_.
     rbind (delivered_tree_validate (fh_local_delivery h)) (\<lambda>_.
     if ph_source_connection_id (fh_provider h) \<noteq> pg_source_connection_id (fh_publication h)
     then Inl HealthSourceMismatch else Inr ())))"

section \<open>What the validators accept\<close>

lemma guard_Inr: "(if c then Inl e else r) = Inr u \<longleftrightarrow> \<not> c \<and> r = Inr u"
  by simp

lemma validate_identifier_Inr [simp]:
  "validate_identifier f v = Inr u \<longleftrightarrow> v \<noteq> [] \<and> length v \<le> MAX_DELIVERY_ID_BYTES"
  by (simp add: validate_identifier_def not_less)

lemma dv_validate_versions_Inr [simp]:
  "dv_validate_versions f m = Inr u \<longleftrightarrow> f = 1 \<and> m = 1"
proof -
  have "m = 1" if "m \<noteq> 0" "\<not> m > 1" for m :: u16
    using that by (metis order_antisym not_less word_less_1 word_le_less_eq)
  then show ?thesis
    by (auto simp: dv_validate_versions_def FRESHNESS_DELIVERY_READER_VERSION_def
        GENERATION_DELTA_FORMAT_VERSION_def simp del: word_less_1)
qed

lemma dv_validate_sha256_Inr [simp]: "dv_validate_sha256 v = Inr u \<longleftrightarrow> sha256_text v"
  by (auto simp: dv_validate_sha256_def sha256_text_def prefix_def)

lemma validate_optional_Inr [simp]:
  "validate_optional f v = Inr u \<longleftrightarrow> (\<forall>x. v = Some x \<longrightarrow> f x = Inr ())"
  by (auto simp: validate_optional_def split: option.split)

lemma retry_validate_Inr:
  "retry_validate r = Inr u \<longleftrightarrow>
     (case rt_retry_after_seconds r of
        None \<Rightarrow> rt_class r \<noteq> UnknownRetry \<and> rt_class r \<noteq> AfterDelay
      | Some seconds \<Rightarrow> rt_class r = AfterDelay \<and> 1 \<le> seconds \<and> seconds \<le> MAX_RETRY_AFTER_SECONDS)"
  by (simp add: retry_validate_def split: option.split freshness_retry_class.split)

text \<open>A generation is offered for selection only with every fact that makes it usable.\<close>

lemma selectable_is_usable:
  assumes "publication_health_validate h = Inr u" "pg_selectable h"
  shows "pg_state h = PubComplete" "pg_verified h" "pg_retained h"
    "\<exists>d. pg_applied_receipt_sha256 h = Some d \<and> sha256_text d"
proof -
  from assms have *: "validate_optional dv_validate_sha256 (pg_applied_receipt_sha256 h) = Inr ()"
    "\<not> (pg_state h \<noteq> PubComplete \<or> \<not> pg_verified h \<or> \<not> pg_retained h \<or> pg_applied_receipt_sha256 h = None)"
    unfolding publication_health_validate_def by (simp_all only: rbind_Inr_iff guard_Inr) auto
  then show "pg_state h = PubComplete" "pg_verified h" "pg_retained h"
    "\<exists>d. pg_applied_receipt_sha256 h = Some d \<and> sha256_text d" by auto
qed

end
