(* ===== verification/Wire_Framing.thy ===== *)
theory Wire_Framing
  imports Delivery_Health
begin

text \<open>
  The length-framed bytes that the protocol hashes (\<open>freshness_delivery.rs\<close>, the \<open>append\<close> functions at
  its end): a \<open>u64\<close> is eight bytes, most significant first, and a text is its length and its bytes. The
  locale \<open>framing\<close> is the promise that makes such an encoding safe to hash: what follows an encoded value
  cannot be mistaken for a part of it. It is closed under pairing, listing with a count and the
  conversion of a record to its fields, and each encoder of the protocol interprets it.
\<close>

section \<open>Encoders\<close>

fun be_digits :: "nat \<Rightarrow> nat \<Rightarrow> string" where
  "be_digits 0 n = []"
| "be_digits (Suc k) n = be_digits k (n div 256) @ [char_of (n mod 256)]"

definition to_be_bytes :: "u64 \<Rightarrow> string" where
  "to_be_bytes v = be_digits 8 (unat v)"

definition append_u64 :: "string \<Rightarrow> u64 \<Rightarrow> string" where
  "append_u64 out v = out @ to_be_bytes v"

text \<open>\<open>u64::try_from\<close> of a length.\<close>

definition u64_of_length :: "usize \<Rightarrow> u64 delivery_result" where
  "u64_of_length n = (if n < 2 ^ 64 then Inr (of_nat n) else Inl CanonicalValueTooLarge)"

definition append_text :: "string \<Rightarrow> string \<Rightarrow> string delivery_result" where
  "append_text out v = rbind (u64_of_length (length v)) (\<lambda>n. Inr (append_u64 out n @ v))"

definition sha256_label :: "(string \<Rightarrow> string) \<Rightarrow> string \<Rightarrow> string" where
  "sha256_label digest v = ''sha256:'' @ digest v"

section \<open>The promise\<close>

locale framing =
  fixes enc :: "'a \<Rightarrow> string"
    and fits :: "'a \<Rightarrow> bool"
  assumes framed: "fits v \<Longrightarrow> fits w \<Longrightarrow> enc v @ r = enc w @ s \<Longrightarrow> v = w \<and> r = s"
begin

lemma framed_iff: "fits v \<Longrightarrow> fits w \<Longrightarrow> enc v @ r = enc w @ s \<longleftrightarrow> v = w \<and> r = s"
  using framed by blast

lemma framed_inj: "fits v \<Longrightarrow> fits w \<Longrightarrow> enc v = enc w \<longleftrightarrow> v = w"
  using framed_iff[of v w "[]" "[]"] by simp

lemma framed_list:
  assumes "list_all fits vs" "list_all fits ws" "length vs = length ws"
  shows "concat (map enc vs) @ r = concat (map enc ws) @ s \<longleftrightarrow> vs = ws \<and> r = s"
  using assms(3,1,2) by (induction vs ws rule: list_induct2) (auto simp: framed_iff)

end

lemma be_digits_length [simp]: "length (be_digits k n) = k"
  by (induction k n rule: be_digits.induct) auto

lemma base_256_eq: "x < 256 \<Longrightarrow> y < 256 \<Longrightarrow> 256 * a + x = 256 * b + y \<longleftrightarrow> a = b \<and> x = y" for a b x y :: nat
proof -
  assume "x < 256" "y < 256"
  then have "(256 * a + x) div 256 = a" "(256 * a + x) mod 256 = x"
    "(256 * b + y) div 256 = b" "(256 * b + y) mod 256 = y" by simp_all
  then show ?thesis by metis
qed

lemma be_digits_eq: "be_digits k m = be_digits k n \<longleftrightarrow> m mod 256 ^ k = n mod 256 ^ k"
proof (induction k arbitrary: m n)
  case (Suc k)
  have split: "x mod 256 ^ Suc k = 256 * (x div 256 mod 256 ^ k) + x mod 256" for x :: nat
    by (simp add: mod_mult2_eq)
  have "char_of (m mod 256) = (char_of (n mod 256) :: char) \<longleftrightarrow> m mod 256 = n mod 256"
    by (metis mod_mod_trivial char_of_eq_iff of_char_of)
  then show ?case unfolding split by (simp add: Suc.IH base_256_eq)
qed simp

lemma to_be_bytes_length [simp]: "length (to_be_bytes v) = 8"
  by (simp add: to_be_bytes_def)

interpretation u64_framing: framing to_be_bytes "\<lambda>_. True"
proof
  fix v w :: u64 and r s
  assume "to_be_bytes v @ r = to_be_bytes w @ s"
  then have "to_be_bytes v = to_be_bytes w" "r = s" by (simp_all add: append_eq_append_conv)
  moreover from this(1) have "unat v mod 256 ^ 8 = unat w mod 256 ^ 8"
    unfolding to_be_bytes_def be_digits_eq .
  moreover have "unat v < 256 ^ 8" "unat w < 256 ^ 8" using unsigned_less[of v] unsigned_less[of w] by simp_all
  ultimately show "v = w \<and> r = s" by (simp add: word_unat_eq_iff)
qed

section \<open>Text\<close>

lemma of_nat_u64_inj: "m < 2 ^ 64 \<Longrightarrow> n < 2 ^ 64 \<Longrightarrow> of_nat m = (of_nat n :: u64) \<longleftrightarrow> m = n"
  by (simp add: word_of_nat_eq_iff take_bit_nat_eq_self)


definition text_frame :: "string \<Rightarrow> string" where
  "text_frame v = to_be_bytes (of_nat (length v)) @ v"

definition text_fits :: "string \<Rightarrow> bool" where
  "text_fits v \<longleftrightarrow> length v < 2 ^ 64"

interpretation text_framing: framing text_frame text_fits
proof
  fix v w r s
  assume fits: "text_fits v" "text_fits w" and eq: "text_frame v @ r = text_frame w @ s"
  from eq have "of_nat (length v) = (of_nat (length w) :: u64)" and rest: "v @ r = w @ s"
    using u64_framing.framed[of "of_nat (length v)" "v @ r" "of_nat (length w)" "w @ s"]
    by (simp_all add: text_frame_def)
  then have "length v = length w"
    using fits by (simp add: text_fits_def of_nat_u64_inj)
  with rest show "v = w \<and> r = s" by simp
qed

lemma append_text_Inr:
  "append_text out v = Inr out' \<longleftrightarrow> text_fits v \<and> out' = out @ text_frame v"
  by (auto simp: append_text_def u64_of_length_def text_fits_def text_frame_def append_u64_def)

lemma u64_of_length_Inr: "u64_of_length n = Inr v \<longleftrightarrow> n < 2 ^ 64 \<and> v = of_nat n"
  by (auto simp: u64_of_length_def)

lemma to_be_bytes_inj [simp]: "to_be_bytes v = to_be_bytes w \<longleftrightarrow> v = w"
  using u64_framing.framed_inj[of v w] by blast

end
