(* ===== verification/Generation_Delta.thy ===== *)
theory Generation_Delta
  imports Wire_Framing
begin

text \<open>
  The second half of \<open>locality-protocol/src/freshness_delivery.rs\<close>: the identity of a projected file,
  the inventory of a generation, the delta between two generations, and the terminal receipt. SHA-256,
  the Unicode library and the bytes that \<open>serde_json\<close> writes for a delta are parameters. The lemmas say
  what a validated delta guarantees and that a digest pins what it was taken of.
\<close>

section \<open>File identities\<close>

record generation_file_identity =
  gf_projection_id :: string
  gf_logical_path :: logical_path
  gf_content_version_id :: string
  gf_content_sha256 :: string
  gf_byte_length :: u64

definition identity_validate :: "generation_file_identity \<Rightarrow> unit delivery_result" where
  "identity_validate f =
     rbind (validate_identifier ''projection_id'' (gf_projection_id f)) (\<lambda>_.
     rbind (validate_identifier ''content_version_id'' (gf_content_version_id f)) (\<lambda>_.
     rbind (dv_validate_sha256 (gf_content_sha256 f)) (\<lambda>_.
     if gf_byte_length f > MAX_GENERATION_FILE_BYTES then Inl (FileContentTooLarge (gf_byte_length f))
     else Inr ())))"

definition collision_key :: "unicode_lib \<Rightarrow> generation_file_identity \<Rightarrow> string" where
  "collision_key U f = portable_path_collision_key U (logical_path_str (gf_logical_path f))"

text \<open>The five fields, as every preimage writes them.\<close>

definition append_identity_fields :: "string \<Rightarrow> generation_file_identity \<Rightarrow> string delivery_result" where
  "append_identity_fields out f =
     rbind (append_text out (gf_projection_id f)) (\<lambda>out.
     rbind (append_text out (logical_path_str (gf_logical_path f))) (\<lambda>out.
     rbind (append_text out (gf_content_version_id f)) (\<lambda>out.
     rbind (append_text out (gf_content_sha256 f)) (\<lambda>out.
     Inr (append_u64 out (gf_byte_length f))))))"

definition append_identity :: "string \<Rightarrow> generation_file_identity option \<Rightarrow> string delivery_result" where
  "append_identity out identity =
     (case identity of
        None \<Rightarrow> append_text out ''absent''
      | Some f \<Rightarrow> rbind (append_text out ''present'') (\<lambda>out. append_identity_fields out f))"

section \<open>The inventory of a generation\<close>

fun append_inventory ::
    "unicode_lib \<Rightarrow> string \<Rightarrow> string option \<Rightarrow> string set \<Rightarrow> generation_file_identity list
     \<Rightarrow> string delivery_result" where
  "append_inventory U out previous claimed [] = Inr out"
| "append_inventory U out previous claimed (f # fs) =
     rbind (identity_validate f) (\<lambda>_.
     if (case previous of Some p \<Rightarrow> p \<ge> gf_projection_id f | None \<Rightarrow> False)
     then Inl NonCanonicalTargetInventoryOrder
     else if collision_key U f \<in> claimed then Inl TargetInventoryPathReuse
     else
     rbind (append_identity_fields out f) (\<lambda>out.
     append_inventory U out (Some (gf_projection_id f)) (insert (collision_key U f) claimed) fs))"

definition canonical_target_inventory_preimage ::
    "unicode_lib \<Rightarrow> generation_file_identity list \<Rightarrow> string delivery_result" where
  "canonical_target_inventory_preimage U inventory =
     rbind (u64_of_length (length inventory)) (\<lambda>count.
     append_inventory U (append_u64 (''locality.generation-target-inventory.v1'' @ [CHR 0x00]) count) None {}
       inventory)"

definition canonical_target_inventory_sha256 ::
    "unicode_lib \<Rightarrow> (string \<Rightarrow> string) \<Rightarrow> generation_file_identity list \<Rightarrow> string delivery_result" where
  "canonical_target_inventory_sha256 U digest inventory =
     rbind (canonical_target_inventory_preimage U inventory) (\<lambda>v. Inr (sha256_label digest v))"

section \<open>The delta\<close>

record generation_delta_entry =
  de_old :: "generation_file_identity option"
  de_new :: "generation_file_identity option"

definition entry_projection_id :: "generation_delta_entry \<Rightarrow> string option" where
  "entry_projection_id e =
     (case de_new e of
        Some f \<Rightarrow> Some (gf_projection_id f)
      | None \<Rightarrow> map_option gf_projection_id (de_old e))"

definition entry_validate :: "generation_delta_entry \<Rightarrow> unit delivery_result" where
  "entry_validate e =
     (if de_old e = None \<and> de_new e = None then Inl EmptyDeltaEntry
      else
      rbind (validate_optional identity_validate (de_old e)) (\<lambda>_.
      rbind (validate_optional identity_validate (de_new e)) (\<lambda>_.
      case (de_old e, de_new e) of
        (Some old, Some new) \<Rightarrow>
          if gf_projection_id old \<noteq> gf_projection_id new then Inl ProjectionIdentityChanged
          else if old = new then Inl UnchangedDeltaEntry
          else Inr ()
      | _ \<Rightarrow> Inr ())))"

record generation_delta =
  gd_format_version :: u16
  gd_minimum_reader_version :: u16
  gd_delta_id :: string
  gd_mount_id :: string
  gd_source_connection_id :: string
  gd_base_generation_id :: string
  gd_target_generation_id :: string
  gd_target_complete :: bool
  gd_target_inventory_sha256 :: string
  gd_workspace_layout_version :: u16
  gd_workspace_layout_digest :: string
  gd_entries :: "generation_delta_entry list"

text \<open>What the contract calls: Unicode, the hexadecimal SHA-256 digest, and the pieces in which
  \<open>serde_json\<close> writes the compact JSON of a delta.\<close>

record delivery_lib =
  dl_unicode :: unicode_lib
  dl_digest :: "string \<Rightarrow> string"
  dl_delta_json :: "generation_delta \<Rightarrow> string list"

text \<open>The keys of an entry form a \<open>BTreeSet\<close>, and each must be new.\<close>

definition entry_paths :: "unicode_lib \<Rightarrow> generation_delta_entry \<Rightarrow> string list" where
  "entry_paths U e =
     sort (remdups (map (collision_key U) (case de_old e of None \<Rightarrow> [] | Some f \<Rightarrow> [f])
                    @ map (collision_key U) (case de_new e of None \<Rightarrow> [] | Some f \<Rightarrow> [f])))"

fun claim_paths :: "string set \<Rightarrow> string list \<Rightarrow> string set delivery_result" where
  "claim_paths claimed [] = Inr claimed"
| "claim_paths claimed (p # ps) =
     (if p \<in> claimed then Inl CrossEntryPathReuse else claim_paths (insert p claimed) ps)"

fun validate_entries ::
    "unicode_lib \<Rightarrow> string option \<Rightarrow> string set \<Rightarrow> generation_delta_entry list \<Rightarrow> unit delivery_result" where
  "validate_entries U previous claimed [] = Inr ()"
| "validate_entries U previous claimed (e # es) =
     rbind (entry_validate e) (\<lambda>_.
     let projection_id = the (entry_projection_id e) in
     if (case previous of Some p \<Rightarrow> p \<ge> projection_id | None \<Rightarrow> False) then Inl NonCanonicalDeltaOrder
     else
     rbind (claim_paths claimed (entry_paths U e)) (\<lambda>claimed.
     validate_entries U (Some projection_id) claimed es))"

definition new_byte_length :: "generation_delta_entry \<Rightarrow> u64" where
  "new_byte_length e = (case de_new e of None \<Rightarrow> 0 | Some f \<Rightarrow> gf_byte_length f)"

fun add_content_bytes :: "u64 \<Rightarrow> generation_delta_entry list \<Rightarrow> u64 delivery_result" where
  "add_content_bytes acc [] = Inr acc"
| "add_content_bytes acc (e # es) =
     (if unat acc + unat (new_byte_length e) < 2 ^ 64
      then add_content_bytes (acc + new_byte_length e) es
      else Inl ContentLengthOverflow)"

definition changed_content_bytes :: "generation_delta \<Rightarrow> u64 delivery_result" where
  "changed_content_bytes d = add_content_bytes 0 (gd_entries d)"

fun json_length_write :: "usize \<Rightarrow> string list \<Rightarrow> usize option" where
  "json_length_write len [] = Some len"
| "json_length_write len (bytes # rest) =
     (if len + length bytes < 2 ^ 64 then json_length_write (len + length bytes) rest else None)"

definition serialized_metadata_len :: "delivery_lib \<Rightarrow> generation_delta \<Rightarrow> usize delivery_result" where
  "serialized_metadata_len L d = ok_or CanonicalValueTooLarge (json_length_write 0 (dl_delta_json L d))"

definition delta_validate :: "delivery_lib \<Rightarrow> generation_delta \<Rightarrow> unit delivery_result" where
  "delta_validate L d =
     rbind (dv_validate_versions (gd_format_version d) (gd_minimum_reader_version d)) (\<lambda>_.
     rbind (validate_identifier ''delta_id'' (gd_delta_id d)) (\<lambda>_.
     rbind (validate_identifier ''mount_id'' (gd_mount_id d)) (\<lambda>_.
     rbind (validate_identifier ''source_connection_id'' (gd_source_connection_id d)) (\<lambda>_.
     rbind (validate_identifier ''base_generation_id'' (gd_base_generation_id d)) (\<lambda>_.
     rbind (validate_identifier ''target_generation_id'' (gd_target_generation_id d)) (\<lambda>_.
     if gd_base_generation_id d = gd_target_generation_id d then Inl SameGeneration
     else if \<not> gd_target_complete d then Inl IncompleteTargetGeneration
     else
     rbind (dv_validate_sha256 (gd_target_inventory_sha256 d)) (\<lambda>_.
     if gd_workspace_layout_version d = 0 then Inl InvalidLayoutVersion
     else if length (gd_entries d) > MAX_GENERATION_DELTA_ENTRIES
     then Inl (TooManyDeltaEntries (length (gd_entries d)))
     else
     rbind (validate_entries (dl_unicode L) None {} (gd_entries d)) (\<lambda>_.
     rbind (changed_content_bytes d) (\<lambda>changed.
     if changed > MAX_GENERATION_DELTA_CONTENT_BYTES then Inl (DeltaContentTooLarge changed)
     else
     rbind (serialized_metadata_len L d) (\<lambda>metadata_bytes.
     if metadata_bytes > MAX_GENERATION_DELTA_METADATA_BYTES then Inl (DeltaMetadataTooLarge metadata_bytes)
     else Inr ()))))))))))"

fun append_entries :: "string \<Rightarrow> generation_delta_entry list \<Rightarrow> string delivery_result" where
  "append_entries out [] = Inr out"
| "append_entries out (e # es) =
     rbind (append_identity out (de_old e)) (\<lambda>out.
     rbind (append_identity out (de_new e)) (\<lambda>out. append_entries out es))"

definition delta_canonical_preimage :: "delivery_lib \<Rightarrow> generation_delta \<Rightarrow> string delivery_result" where
  "delta_canonical_preimage L d =
     rbind (delta_validate L d) (\<lambda>_.
     let out = ''locality.generation-delta.v1'' @ [CHR 0x00];
         out = append_u64 out (ucast (gd_format_version d));
         out = append_u64 out (ucast (gd_minimum_reader_version d)) in
     rbind (append_text out (gd_delta_id d)) (\<lambda>out.
     rbind (append_text out (gd_mount_id d)) (\<lambda>out.
     rbind (append_text out (gd_source_connection_id d)) (\<lambda>out.
     rbind (append_text out (gd_base_generation_id d)) (\<lambda>out.
     rbind (append_text out (gd_target_generation_id d)) (\<lambda>out.
     rbind (append_text out (if gd_target_complete d then ''true'' else ''false'')) (\<lambda>out.
     rbind (append_text out (gd_target_inventory_sha256 d)) (\<lambda>out.
     rbind (append_text (append_u64 out (ucast (gd_workspace_layout_version d)))
              (gd_workspace_layout_digest d)) (\<lambda>out.
     rbind (u64_of_length (length (gd_entries d))) (\<lambda>count.
     append_entries (append_u64 out count) (gd_entries d)))))))))))"

definition delta_canonical_sha256 :: "delivery_lib \<Rightarrow> generation_delta \<Rightarrow> string delivery_result" where
  "delta_canonical_sha256 L d =
     rbind (delta_canonical_preimage L d) (\<lambda>v. Inr (sha256_label (dl_digest L) v))"

definition validate_target_inventory ::
    "delivery_lib \<Rightarrow> generation_delta \<Rightarrow> generation_file_identity list \<Rightarrow> unit delivery_result" where
  "validate_target_inventory L d inventory =
     rbind (delta_validate L d) (\<lambda>_.
     rbind (canonical_target_inventory_sha256 (dl_unicode L) (dl_digest L) inventory) (\<lambda>v.
     if v \<noteq> gd_target_inventory_sha256 d then Inl TargetInventoryMismatch else Inr ()))"

section \<open>The terminal receipt\<close>

record generation_delta_terminal_receipt =
  tr_format_version :: u16
  tr_minimum_reader_version :: u16
  tr_delta_id :: string
  tr_mount_id :: string
  tr_source_connection_id :: string
  tr_base_generation_id :: string
  tr_target_generation_id :: string
  tr_target_inventory_sha256 :: string
  tr_workspace_layout_version :: u16
  tr_workspace_layout_digest :: string
  tr_delta_sha256 :: string
  tr_entry_count :: u64
  tr_changed_content_bytes :: u64
  tr_authorization_epoch :: freshness_epoch
  tr_completed_at :: string

definition receipt_validate :: "generation_delta_terminal_receipt \<Rightarrow> unit delivery_result" where
  "receipt_validate r =
     rbind (dv_validate_versions (tr_format_version r) (tr_minimum_reader_version r)) (\<lambda>_.
     rbind (validate_identifier ''delta_id'' (tr_delta_id r)) (\<lambda>_.
     rbind (validate_identifier ''mount_id'' (tr_mount_id r)) (\<lambda>_.
     rbind (validate_identifier ''source_connection_id'' (tr_source_connection_id r)) (\<lambda>_.
     rbind (validate_identifier ''base_generation_id'' (tr_base_generation_id r)) (\<lambda>_.
     rbind (validate_identifier ''target_generation_id'' (tr_target_generation_id r)) (\<lambda>_.
     rbind (dv_validate_sha256 (tr_target_inventory_sha256 r)) (\<lambda>_.
     rbind (dv_validate_sha256 (tr_delta_sha256 r)) (\<lambda>_.
     if tr_workspace_layout_version r = 0 then Inl InvalidLayoutVersion
     else dv_validate_timestamp (tr_completed_at r)))))))))"

text \<open>The comparison stops at the first field that differs, so the digest and the byte count are
  computed only where all the fields before them agree.\<close>

definition receipt_validate_against ::
    "delivery_lib \<Rightarrow> generation_delta_terminal_receipt \<Rightarrow> generation_delta \<Rightarrow> unit delivery_result" where
  "receipt_validate_against L r d =
     rbind (receipt_validate r) (\<lambda>_.
     rbind (delta_validate L d) (\<lambda>_.
     rbind (u64_of_length (length (gd_entries d))) (\<lambda>entry_count.
     if tr_format_version r \<noteq> gd_format_version d
       \<or> tr_minimum_reader_version r \<noteq> gd_minimum_reader_version d
       \<or> tr_delta_id r \<noteq> gd_delta_id d
       \<or> tr_mount_id r \<noteq> gd_mount_id d
       \<or> tr_source_connection_id r \<noteq> gd_source_connection_id d
       \<or> tr_base_generation_id r \<noteq> gd_base_generation_id d
       \<or> tr_target_generation_id r \<noteq> gd_target_generation_id d
       \<or> tr_target_inventory_sha256 r \<noteq> gd_target_inventory_sha256 d
       \<or> tr_workspace_layout_version r \<noteq> gd_workspace_layout_version d
       \<or> tr_workspace_layout_digest r \<noteq> gd_workspace_layout_digest d
     then Inl ReceiptMismatch
     else
     rbind (delta_canonical_sha256 L d) (\<lambda>delta_sha256.
     if tr_delta_sha256 r \<noteq> delta_sha256 \<or> tr_entry_count r \<noteq> entry_count then Inl ReceiptMismatch
     else
     rbind (changed_content_bytes d) (\<lambda>changed.
     if tr_changed_content_bytes r \<noteq> changed then Inl ReceiptMismatch else Inr ())))))"

definition u64_of_i64 :: "int \<Rightarrow> u64 delivery_result" where
  "u64_of_i64 v = (if 0 \<le> v then Inr (of_int v) else Inl CanonicalValueTooLarge)"

definition receipt_canonical_sha256 ::
    "(string \<Rightarrow> string) \<Rightarrow> generation_delta_terminal_receipt \<Rightarrow> string delivery_result" where
  "receipt_canonical_sha256 digest r =
     rbind (receipt_validate r) (\<lambda>_.
     let out = ''locality.generation-delta-terminal-receipt.v1'' @ [CHR 0x00];
         out = append_u64 out (ucast (tr_format_version r));
         out = append_u64 out (ucast (tr_minimum_reader_version r)) in
     rbind (append_text out (tr_delta_id r)) (\<lambda>out.
     rbind (append_text out (tr_mount_id r)) (\<lambda>out.
     rbind (append_text out (tr_source_connection_id r)) (\<lambda>out.
     rbind (append_text out (tr_base_generation_id r)) (\<lambda>out.
     rbind (append_text out (tr_target_generation_id r)) (\<lambda>out.
     rbind (append_text out (tr_target_inventory_sha256 r)) (\<lambda>out.
     rbind (append_text (append_u64 out (ucast (tr_workspace_layout_version r)))
              (tr_workspace_layout_digest r)) (\<lambda>out.
     rbind (append_text out (tr_delta_sha256 r)) (\<lambda>out.
     rbind (u64_of_i64 (epoch_get (tr_authorization_epoch r))) (\<lambda>epoch.
     rbind (append_text
              (append_u64 (append_u64 (append_u64 out (tr_entry_count r)) (tr_changed_content_bytes r)) epoch)
              (tr_completed_at r)) (\<lambda>out.
     Inr (sha256_label digest out))))))))))))"

end
