(* ===== verification/Delta_Digest.thy ===== *)
theory Delta_Digest
  imports Generation_Delta
begin

text \<open>
  What the digests and the validation of the delivery contract guarantee: the bytes that are hashed
  determine the inventory and the delta they were written from, so a digest that agrees pins the value
  or exhibits a collision of SHA-256; and a validated delta names each file once, lets no two entries
  share a path, and keeps its content within the bound.
\<close>

section \<open>The hashed bytes\<close>

definition fields_frame :: "generation_file_identity \<Rightarrow> string" where
  "fields_frame f =
     text_frame (gf_projection_id f) @ text_frame (logical_path_str (gf_logical_path f))
     @ text_frame (gf_content_version_id f) @ text_frame (gf_content_sha256 f) @ to_be_bytes (gf_byte_length f)"

definition fields_fit :: "generation_file_identity \<Rightarrow> bool" where
  "fields_fit f \<longleftrightarrow> text_fits (gf_projection_id f) \<and> text_fits (logical_path_str (gf_logical_path f))
     \<and> text_fits (gf_content_version_id f) \<and> text_fits (gf_content_sha256 f)"

interpretation fields_framing: framing fields_frame fields_fit
proof
  fix f g r s
  assume "fields_fit f" "fields_fit g" "fields_frame f @ r = fields_frame g @ s"
  then show "f = g \<and> r = s"
    by (simp add: fields_fit_def fields_frame_def text_framing.framed_iff u64_framing.framed_iff
        logical_path.expand)
qed

definition identity_frame :: "generation_file_identity option \<Rightarrow> string" where
  "identity_frame i = (case i of None \<Rightarrow> text_frame ''absent'' | Some f \<Rightarrow> text_frame ''present'' @ fields_frame f)"

definition identity_fits :: "generation_file_identity option \<Rightarrow> bool" where
  "identity_fits i \<longleftrightarrow> (\<forall>f. i = Some f \<longrightarrow> fields_fit f)"

lemma tags_fit [simp]: "text_fits ''absent''" "text_fits ''present''"
  by (simp_all add: text_fits_def)

interpretation identity_framing: framing identity_frame identity_fits
proof
  fix i j r s
  assume "identity_fits i" "identity_fits j" "identity_frame i @ r = identity_frame j @ s"
  then show "i = j \<and> r = s"
    by (auto simp: identity_fits_def identity_frame_def text_framing.framed_iff fields_framing.framed_iff
        split: option.splits)
qed

definition entry_frame :: "generation_delta_entry \<Rightarrow> string" where
  "entry_frame e = identity_frame (de_old e) @ identity_frame (de_new e)"

definition entry_fits :: "generation_delta_entry \<Rightarrow> bool" where
  "entry_fits e \<longleftrightarrow> identity_fits (de_old e) \<and> identity_fits (de_new e)"

interpretation entry_framing: framing entry_frame entry_fits
proof
  fix e g :: generation_delta_entry and r s
  assume "entry_fits e" "entry_fits g" "entry_frame e @ r = entry_frame g @ s"
  then show "e = g \<and> r = s"
    by (simp add: entry_fits_def entry_frame_def identity_framing.framed_iff)
qed

lemma append_identity_fields_Inr:
  "append_identity_fields out f = Inr out' \<longleftrightarrow> fields_fit f \<and> out' = out @ fields_frame f"
  by (auto simp: append_identity_fields_def rbind_Inr_iff append_text_Inr append_u64_def fields_fit_def fields_frame_def)

lemma append_identity_Inr:
  "append_identity out i = Inr out' \<longleftrightarrow> identity_fits i \<and> out' = out @ identity_frame i"
  by (auto simp: append_identity_def rbind_Inr_iff append_text_Inr append_identity_fields_Inr
      identity_fits_def identity_frame_def split: option.split)

lemma append_entries_Inr:
  "append_entries out es = Inr out' \<longleftrightarrow> list_all entry_fits es \<and> out' = out @ concat (map entry_frame es)"
  by (induction es arbitrary: out)
    (auto simp: rbind_Inr_iff append_identity_Inr entry_fits_def entry_frame_def)

lemma append_inventory_Inr:
  assumes "append_inventory U out previous claimed fs = Inr out'"
  shows "list_all fields_fit fs \<and> out' = out @ concat (map fields_frame fs)"
  using assms
  by (induction fs arbitrary: out previous claimed)
    (fastforce simp: rbind_Inr_iff append_identity_fields_Inr split: if_splits)+

definition inventory_frame :: "generation_file_identity list \<Rightarrow> string" where
  "inventory_frame fs = to_be_bytes (of_nat (length fs)) @ concat (map fields_frame fs)"

definition inventory_fits :: "generation_file_identity list \<Rightarrow> bool" where
  "inventory_fits fs \<longleftrightarrow> length fs < 2 ^ 64 \<and> list_all fields_fit fs"

interpretation inventory_framing: framing inventory_frame inventory_fits
proof
  fix fs gs r s
  assume fits: "inventory_fits fs" "inventory_fits gs" and eq: "inventory_frame fs @ r = inventory_frame gs @ s"
  from eq have "of_nat (length fs) = (of_nat (length gs) :: u64)"
    and rest: "concat (map fields_frame fs) @ r = concat (map fields_frame gs) @ s"
    by (simp_all add: inventory_frame_def u64_framing.framed_iff)
  with fits have "length fs = length gs" by (simp add: inventory_fits_def of_nat_u64_inj)
  with fits rest show "fs = gs \<and> r = s" by (simp add: inventory_fits_def fields_framing.framed_list)
qed

lemma inventory_preimage:
  "canonical_target_inventory_preimage U fs = Inr v \<Longrightarrow>
     inventory_fits fs \<and> v = ''locality.generation-target-inventory.v1'' @ [CHR 0x00] @ inventory_frame fs"
  by (auto simp: canonical_target_inventory_preimage_def rbind_Inr_iff u64_of_length_Inr append_u64_def
      inventory_fits_def inventory_frame_def dest!: append_inventory_Inr)

lemma inventory_preimage_inj:
  "canonical_target_inventory_preimage U fs = Inr v \<Longrightarrow> canonical_target_inventory_preimage U gs = Inr v \<Longrightarrow> fs = gs"
  by (auto dest!: inventory_preimage simp: inventory_framing.framed_inj)

section \<open>The preimage of a delta\<close>

definition entries_frame :: "generation_delta_entry list \<Rightarrow> string" where
  "entries_frame es = to_be_bytes (of_nat (length es)) @ concat (map entry_frame es)"

definition delta_frame :: "generation_delta \<Rightarrow> string" where
  "delta_frame d =
     to_be_bytes (ucast (gd_format_version d)) @ to_be_bytes (ucast (gd_minimum_reader_version d))
     @ text_frame (gd_delta_id d) @ text_frame (gd_mount_id d) @ text_frame (gd_source_connection_id d)
     @ text_frame (gd_base_generation_id d) @ text_frame (gd_target_generation_id d)
     @ text_frame (if gd_target_complete d then ''true'' else ''false'')
     @ text_frame (gd_target_inventory_sha256 d) @ to_be_bytes (ucast (gd_workspace_layout_version d))
     @ text_frame (gd_workspace_layout_digest d) @ entries_frame (gd_entries d)"

definition delta_fits :: "generation_delta \<Rightarrow> bool" where
  "delta_fits d \<longleftrightarrow>
     text_fits (gd_delta_id d) \<and> text_fits (gd_mount_id d) \<and> text_fits (gd_source_connection_id d)
   \<and> text_fits (gd_base_generation_id d) \<and> text_fits (gd_target_generation_id d)
   \<and> text_fits (gd_target_inventory_sha256 d) \<and> text_fits (gd_workspace_layout_digest d)
   \<and> length (gd_entries d) < 2 ^ 64 \<and> list_all entry_fits (gd_entries d)"

lemma entries_framed:
  assumes "length es < 2 ^ 64" "length gs < 2 ^ 64" "list_all entry_fits es" "list_all entry_fits gs"
  shows "entries_frame es @ r = entries_frame gs @ s \<longleftrightarrow> es = gs \<and> r = s"
proof
  assume "entries_frame es @ r = entries_frame gs @ s"
  then have "of_nat (length es) = (of_nat (length gs) :: u64)"
    and rest: "concat (map entry_frame es) @ r = concat (map entry_frame gs) @ s"
    by (simp_all add: entries_frame_def u64_framing.framed_inj)
  with assms have "length es = length gs" by (simp add: of_nat_u64_inj)
  with assms rest show "es = gs \<and> r = s" by (simp add: entry_framing.framed_list)
qed simp

lemma flag_fits: "text_fits (if b then ''true'' else ''false'')"
  by (simp add: text_fits_def)

lemma flag_eq: "(if b then ''true'' else ''false'') = (if c then ''true'' else ''false'') \<longleftrightarrow> b = c"
  by simp

lemma u16_ucast_inj: "ucast a = (ucast b :: u64) \<longleftrightarrow> a = b" for a b :: u16
  by transfer simp

interpretation delta_framing: framing delta_frame delta_fits
proof
  fix d e :: generation_delta and r s
  assume "delta_fits d" "delta_fits e" "delta_frame d @ r = delta_frame e @ s"
  then show "d = e \<and> r = s"
    by (simp add: delta_fits_def delta_frame_def text_framing.framed_iff u64_framing.framed_inj
        flag_fits flag_eq u16_ucast_inj entries_framed del: if_split)
qed

lemma delta_preimage:
  "delta_canonical_preimage L d = Inr v \<Longrightarrow>
     delta_fits d \<and> v = ''locality.generation-delta.v1'' @ [CHR 0x00] @ delta_frame d"
  unfolding delta_canonical_preimage_def Let_def
  by (auto simp: rbind_Inr_iff append_text_Inr append_u64_def u64_of_length_Inr append_entries_Inr
      delta_fits_def delta_frame_def entries_frame_def simp del: if_split)

lemma delta_preimage_inj:
  "delta_canonical_preimage L d = Inr v \<Longrightarrow> delta_canonical_preimage L e = Inr v \<Longrightarrow> d = e"
  by (auto dest!: delta_preimage simp: delta_framing.framed_inj)

section \<open>Validated deltas\<close>

definition entry_id :: "generation_delta_entry \<Rightarrow> string" where
  "entry_id e = the (entry_projection_id e)"

text \<open>Two entries of a delta, one before the other: of different files, and without a path in common.\<close>

definition apart :: "unicode_lib \<Rightarrow> generation_delta_entry \<Rightarrow> generation_delta_entry \<Rightarrow> bool" where
  "apart U e g \<longleftrightarrow> entry_id e < entry_id g \<and> set (entry_paths U e) \<inter> set (entry_paths U g) = {}"

lemma claim_paths_Inr:
  "claim_paths claimed ps = Inr c \<longleftrightarrow> distinct ps \<and> claimed \<inter> set ps = {} \<and> c = claimed \<union> set ps"
  by (induction ps arbitrary: claimed) auto

lemma validate_entries_Inr:
  assumes "validate_entries U previous claimed es = Inr ()"
  shows "sorted_wrt (apart U) es
    \<and> (\<forall>e\<in>set es. entry_validate e = Inr () \<and> (\<forall>p. previous = Some p \<longrightarrow> p < entry_id e)
         \<and> claimed \<inter> set (entry_paths U e) = {})"
  using assms
proof (induction es arbitrary: previous claimed)
  case (Cons e es)
  then have e: "entry_validate e = Inr ()" "\<forall>p. previous = Some p \<longrightarrow> p < entry_id e"
    "claimed \<inter> set (entry_paths U e) = {}"
    and rest: "validate_entries U (Some (entry_id e)) (claimed \<union> set (entry_paths U e)) es = Inr ()"
    by (auto simp: rbind_Inr_iff Let_def claim_paths_Inr entry_id_def not_le split: option.splits if_splits)
  have "apart U e g \<and> (\<forall>p. previous = Some p \<longrightarrow> p < entry_id g) \<and> claimed \<inter> set (entry_paths U g) = {}"
    if "g \<in> set es" for g
    using Cons.IH[OF rest] that e(2) by (fastforce simp: apart_def intro: order.strict_trans)
  with e Cons.IH[OF rest] show ?case by simp
qed simp

lemma add_content_bytes_Inr:
  "add_content_bytes acc es = Inr n \<Longrightarrow> unat n = unat acc + (\<Sum>e\<leftarrow>es. unat (new_byte_length e))"
proof (induction es arbitrary: acc)
  case (Cons e es)
  then have fits: "unat acc + unat (new_byte_length e) < 2 ^ 64"
    and rest: "add_content_bytes (acc + new_byte_length e) es = Inr n"
    by (simp_all split: if_splits)
  from fits have "unat (acc + new_byte_length e) = unat acc + unat (new_byte_length e)"
    by (simp add: unat_word_ariths)
  with Cons.IH[OF rest] show ?case by simp
qed simp

lemma entry_changes:
  "entry_validate e = Inr () \<Longrightarrow> de_old e \<noteq> de_new e"
  by (auto simp: entry_validate_def rbind_Inr_iff split: option.splits if_splits)

lemma delta_valid_facts:
  assumes "delta_validate L d = Inr ()"
  shows "validate_entries (dl_unicode L) None {} (gd_entries d) = Inr ()"
    "\<exists>n. changed_content_bytes d = Inr n \<and> n \<le> MAX_GENERATION_DELTA_CONTENT_BYTES"
    "gd_base_generation_id d \<noteq> gd_target_generation_id d" "gd_target_complete d"
  using assms unfolding delta_validate_def
  by (simp_all only: rbind_Inr_iff guard_Inr) (auto simp: not_less)

lemma content_bounded:
  assumes "delta_validate L d = Inr ()"
  shows "(\<Sum>e\<leftarrow>gd_entries d. unat (new_byte_length e)) \<le> 512 * 1024 * 1024"
proof -
  obtain n where n: "changed_content_bytes d = Inr n" "n \<le> MAX_GENERATION_DELTA_CONTENT_BYTES"
    using delta_valid_facts(2)[OF assms] by blast
  from n(2) have "unat n \<le> 512 * 1024 * 1024"
    by (simp add: word_le_nat_alt MAX_GENERATION_DELTA_CONTENT_BYTES_def)
  with add_content_bytes_Inr[of 0 "gd_entries d" n] n(1) show ?thesis by (simp add: changed_content_bytes_def)
qed

text \<open>A validated delta is a well-formed difference of two generations: they are different and the
  target is complete, every entry changes its file, the entries come in strictly ascending order of
  file, so that no file occurs twice, no two entries share a path even under case folding and Unicode
  normalisation, and the new contents sum to at most 512 MiB, with no overflow of the counter.\<close>

theorem delta_well_formed:
  assumes "delta_validate L d = Inr ()"
  shows "gd_base_generation_id d \<noteq> gd_target_generation_id d \<and> gd_target_complete d
    \<and> (\<forall>e\<in>set (gd_entries d). de_old e \<noteq> de_new e)
    \<and> sorted_wrt (apart (dl_unicode L)) (gd_entries d)
    \<and> (\<Sum>e\<leftarrow>gd_entries d. unat (new_byte_length e)) \<le> 512 * 1024 * 1024"
  using delta_valid_facts[OF assms] content_bounded[OF assms] validate_entries_Inr entry_changes
  by blast

section \<open>Digests pin values\<close>

lemma receipt_digest:
  assumes "receipt_validate_against L r d = Inr ()"
  shows "\<exists>v. delta_canonical_preimage L d = Inr v \<and> tr_delta_sha256 r = sha256_label (dl_digest L) v"
  using assms unfolding receipt_validate_against_def delta_canonical_sha256_def
  by (simp only: rbind_Inr_iff guard_Inr) auto

lemma inventory_digest:
  assumes "validate_target_inventory L d fs = Inr ()"
  shows "\<exists>v. canonical_target_inventory_preimage (dl_unicode L) fs = Inr v
    \<and> gd_target_inventory_sha256 d = sha256_label (dl_digest L) v"
  using assms unfolding validate_target_inventory_def canonical_target_inventory_sha256_def
  by (simp only: rbind_Inr_iff guard_Inr) auto

text \<open>C33: one terminal receipt cannot be accepted for two deltas, unless the two canonical preimages are
  a collision of the digest.\<close>

theorem receipt_pins_delta:
  assumes "receipt_validate_against L r d = Inr ()" "receipt_validate_against L r e = Inr ()"
  shows "d = e \<or> (\<exists>v w. delta_canonical_preimage L d = Inr v \<and> delta_canonical_preimage L e = Inr w
    \<and> v \<noteq> w \<and> dl_digest L v = dl_digest L w)"
  using assms[THEN receipt_digest] delta_preimage_inj[of L d _ e] by (auto simp: sha256_label_def)

text \<open>One delta cannot be accepted with two inventories of its target generation, unless their
  preimages are a collision of the digest.\<close>

theorem delta_pins_inventory:
  assumes "validate_target_inventory L d fs = Inr ()" "validate_target_inventory L d gs = Inr ()"
  shows "fs = gs \<or> (\<exists>v w. canonical_target_inventory_preimage (dl_unicode L) fs = Inr v
    \<and> canonical_target_inventory_preimage (dl_unicode L) gs = Inr w \<and> v \<noteq> w \<and> dl_digest L v = dl_digest L w)"
  using assms[THEN inventory_digest] inventory_preimage_inj[of "dl_unicode L" fs _ gs]
  by (auto simp: sha256_label_def)

section \<open>A sample delta\<close>

definition sample_hex :: string where
  "sample_hex = replicate 64 (CHR ''a'')"

definition sample_lib :: delivery_lib where
  "sample_lib = \<lparr>dl_unicode = plain_unicode, dl_digest = (\<lambda>_. sample_hex), dl_delta_json = (\<lambda>_. [''{}''])\<rparr>"

definition short :: "string \<Rightarrow> bool" where
  "short c \<longleftrightarrow> c \<noteq> [] \<and> length c \<le> 100"

definition sample_file :: "string \<Rightarrow> generation_file_identity" where
  "sample_file c = \<lparr>gf_projection_id = ''p'', gf_logical_path = LogicalPath ''a.md'', gf_content_version_id = c,
     gf_content_sha256 = ''sha256:'' @ sample_hex, gf_byte_length = 7\<rparr>"

definition sample_delta :: "string \<Rightarrow> generation_delta" where
  "sample_delta c = \<lparr>gd_format_version = 1, gd_minimum_reader_version = 1, gd_delta_id = ''d'', gd_mount_id = ''m'',
     gd_source_connection_id = ''c'', gd_base_generation_id = ''g1'', gd_target_generation_id = ''g2'',
     gd_target_complete = True, gd_target_inventory_sha256 = ''sha256:'' @ sample_hex,
     gd_workspace_layout_version = 1, gd_workspace_layout_digest = ''sha256:'' @ sample_hex,
     gd_entries = [\<lparr>de_old = None, de_new = Some (sample_file c)\<rparr>]\<rparr>"

definition sample_receipt :: generation_delta_terminal_receipt where
  "sample_receipt = \<lparr>tr_format_version = 1, tr_minimum_reader_version = 1, tr_delta_id = ''d'', tr_mount_id = ''m'',
     tr_source_connection_id = ''c'', tr_base_generation_id = ''g1'', tr_target_generation_id = ''g2'',
     tr_target_inventory_sha256 = ''sha256:'' @ sample_hex, tr_workspace_layout_version = 1,
     tr_workspace_layout_digest = ''sha256:'' @ sample_hex, tr_delta_sha256 = ''sha256:'' @ sample_hex,
     tr_entry_count = 1, tr_changed_content_bytes = 7, tr_authorization_epoch = FreshnessEpoch 0,
     tr_completed_at = ''t''\<rparr>"

lemma sample_hex_text: "sha256_text (''sha256:'' @ sample_hex)"
  unfolding sha256_text_def
  by (intro exI[of _ sample_hex]) (simp add: sample_hex_def list_all_iff lower_hex_def)

lemma sample_file_valid [simp]: "short c \<Longrightarrow> identity_validate (sample_file c) = Inr ()" "short c \<Longrightarrow> fields_fit (sample_file c)"
  using sample_hex_text
  by (simp_all add: short_def identity_validate_def sample_file_def fields_fit_def text_fits_def MAX_DELIVERY_ID_BYTES_def
      MAX_GENERATION_FILE_BYTES_def rbind_Inr_iff guard_Inr sample_hex_def)

lemma sample_entries_valid:
  "short c \<Longrightarrow> validate_entries U None {} [\<lparr>de_old = None, de_new = Some (sample_file c)\<rparr>] = Inr ()"
  by (simp add: entry_validate_def rbind_Inr_iff claim_paths_Inr entry_paths_def)

lemma sample_content: "changed_content_bytes (sample_delta c) = Inr 7"
  by (simp add: changed_content_bytes_def sample_delta_def new_byte_length_def sample_file_def)

lemma sample_delta_valid:
  assumes [simp]: "short c"
  shows "delta_validate sample_lib (sample_delta c) = Inr ()"
proof -
  have "serialized_metadata_len sample_lib (sample_delta c) = Inr 2"
    by (simp add: serialized_metadata_len_def sample_lib_def ok_or_def)
  then show ?thesis
    using sample_hex_text sample_entries_valid[OF assms] sample_content unfolding delta_validate_def
    by (simp only: rbind_Inr_iff guard_Inr)
      (simp add: sample_delta_def MAX_DELIVERY_ID_BYTES_def MAX_GENERATION_DELTA_ENTRIES_def
        MAX_GENERATION_DELTA_METADATA_BYTES_def MAX_GENERATION_DELTA_CONTENT_BYTES_def)
qed

lemma sample_preimage:
  assumes [simp]: "short c"
  shows "\<exists>v. delta_canonical_preimage sample_lib (sample_delta c) = Inr v"
proof -
  have "text_fits v" if "length v \<le> 100" for v using that by (simp add: text_fits_def)
  note fits = this
  show ?thesis
    using sample_delta_valid[OF assms] unfolding delta_canonical_preimage_def Let_def
    by (simp only: rbind_Inr_iff append_text_Inr u64_of_length_Inr append_entries_Inr)
      (simp add: sample_delta_def fits entry_fits_def identity_fits_def sample_hex_def)
qed

lemma sample_timestamp: "dv_validate_timestamp ''t'' = Inr ()"
  by code_simp

lemma sample_receipt_accepted:
  assumes [simp]: "short c"
  shows "receipt_validate_against sample_lib sample_receipt (sample_delta c) = Inr ()"
proof -
  have "receipt_validate sample_receipt = Inr ()"
    using sample_hex_text unfolding receipt_validate_def
    by (simp only: rbind_Inr_iff guard_Inr)
      (simp add: sample_receipt_def MAX_DELIVERY_ID_BYTES_def sample_timestamp)
  moreover have "delta_canonical_sha256 sample_lib (sample_delta c) = Inr (''sha256:'' @ sample_hex)"
    using sample_preimage[OF assms] by (auto simp: delta_canonical_sha256_def rbind_Inr_iff sha256_label_def sample_lib_def)
  ultimately show ?thesis
    unfolding receipt_validate_against_def using sample_delta_valid[OF assms] sample_content
    by (simp only: rbind_Inr_iff guard_Inr)
      (simp add: sample_receipt_def sample_delta_def u64_of_length_def)
qed

lemma sample_inventory_accepted:
  assumes [simp]: "short c" "short b"
  shows "validate_target_inventory sample_lib (sample_delta b) [sample_file c] = Inr ()"
proof -
  have "\<exists>v. canonical_target_inventory_preimage plain_unicode [sample_file c] = Inr v"
    by (simp add: canonical_target_inventory_preimage_def rbind_Inr_iff u64_of_length_def append_identity_fields_Inr)
  then have "canonical_target_inventory_sha256 plain_unicode (\<lambda>_. sample_hex) [sample_file c]
      = Inr (''sha256:'' @ sample_hex)"
    by (auto simp: canonical_target_inventory_sha256_def rbind_Inr_iff sha256_label_def)
  then show ?thesis
    unfolding validate_target_inventory_def using sample_delta_valid[OF assms(2)]
    by (simp only: rbind_Inr_iff guard_Inr) (simp add: sample_lib_def sample_delta_def)
qed

lemma sample_short [simp]: "short ''v''" "short ''w''"
  by (simp_all add: short_def)

lemma sample_differ: "sample_delta ''v'' \<noteq> sample_delta ''w''" "sample_file ''v'' \<noteq> sample_file ''w''"
  by (simp_all add: sample_delta_def sample_file_def)

theorem delta_well_formed_witness:
  "gd_base_generation_id (sample_delta ''v'') \<noteq> gd_target_generation_id (sample_delta ''v'')
   \<and> (\<Sum>e\<leftarrow>gd_entries (sample_delta ''v''). unat (new_byte_length e)) \<le> 512 * 1024 * 1024"
  using delta_well_formed[OF sample_delta_valid[OF sample_short(1)]] by blast

text \<open>With a constant digest, one receipt is accepted for two deltas, and their preimages collide.\<close>

theorem receipt_pins_delta_witness:
  "\<exists>v w. delta_canonical_preimage sample_lib (sample_delta ''v'') = Inr v
     \<and> delta_canonical_preimage sample_lib (sample_delta ''w'') = Inr w
     \<and> v \<noteq> w \<and> dl_digest sample_lib v = dl_digest sample_lib w"
  using receipt_pins_delta[OF sample_receipt_accepted[OF sample_short(1)] sample_receipt_accepted[OF sample_short(2)]]
    sample_differ(1) by blast

theorem delta_pins_inventory_witness:
  "\<exists>v w. canonical_target_inventory_preimage (dl_unicode sample_lib) [sample_file ''v''] = Inr v
     \<and> canonical_target_inventory_preimage (dl_unicode sample_lib) [sample_file ''w''] = Inr w
     \<and> v \<noteq> w \<and> dl_digest sample_lib v = dl_digest sample_lib w"
  using delta_pins_inventory[OF sample_inventory_accepted[OF sample_short(1,1)]
      sample_inventory_accepted[OF sample_short(2,1)]] sample_differ(2) by blast

end
