(* ===== verification/Delivery_Transport.thy ===== *)
theory Delivery_Transport
  imports Delta_Digest
begin

text \<open>
  The transport contracts of generation delivery, first part
  (\<open>locality-protocol/src/freshness_delivery_transport.rs\<close>): errors, the bounded validators, the
  capabilities that a client offers and a server selects, and the poll for the next delta. The JSON
  parser and the lengths of the JSON encodings are parameters.
\<close>

section \<open>Constants and errors\<close>

definition GENERATION_TRANSPORT_FORMAT_VERSION :: u16 where "GENERATION_TRANSPORT_FORMAT_VERSION = 1"
definition GENERATION_TRANSPORT_READER_VERSION :: u16 where "GENERATION_TRANSPORT_READER_VERSION = 1"
definition MAX_GENERATION_TRANSPORT_CAPABILITIES_BYTES :: usize where
  "MAX_GENERATION_TRANSPORT_CAPABILITIES_BYTES = 4 * 1024"
definition MAX_GENERATION_TRANSPORT_REQUEST_BYTES :: usize where
  "MAX_GENERATION_TRANSPORT_REQUEST_BYTES = 16 * 1024"
definition MAX_GENERATION_DELIVERY_POLL_RESPONSE_BYTES :: usize where
  "MAX_GENERATION_DELIVERY_POLL_RESPONSE_BYTES = 64 * 1024 * 1024"
definition MAX_GENERATION_BODY_WINDOW_METADATA_BYTES :: usize where
  "MAX_GENERATION_BODY_WINDOW_METADATA_BYTES = 16 * 1024"
definition MAX_GENERATION_BODY_WINDOW_BYTES :: u64 where "MAX_GENERATION_BODY_WINDOW_BYTES = 4 * 1024 * 1024"
definition GENERATION_BODY_WINDOW_CONTENT_TYPE :: string where
  "GENERATION_BODY_WINDOW_CONTENT_TYPE = ''application/vnd.locality.generation-body-window.v1''"
definition GENERATION_BODY_WINDOW_METADATA_LENGTH_BYTES :: usize where
  "GENERATION_BODY_WINDOW_METADATA_LENGTH_BYTES = 4"
definition MIN_GENERATION_PIN_LEASE_SECONDS :: u64 where "MIN_GENERATION_PIN_LEASE_SECONDS = 60"
definition MAX_GENERATION_PIN_LEASE_SECONDS :: u64 where "MAX_GENERATION_PIN_LEASE_SECONDS = 24 * 60 * 60"
definition MAX_GENERATION_PIN_LEASES_PER_DEVICE :: u16 where "MAX_GENERATION_PIN_LEASES_PER_DEVICE = 32"
definition MAX_GENERATION_PIN_RETRY_AFTER_SECONDS :: u64 where
  "MAX_GENERATION_PIN_RETRY_AFTER_SECONDS = 60 * 60"
definition MAX_OPAQUE_DEVICE_SCOPE_ID_BYTES :: usize where "MAX_OPAQUE_DEVICE_SCOPE_ID_BYTES = 128"
definition MAX_OPAQUE_PIN_LEASE_ID_BYTES :: usize where "MAX_OPAQUE_PIN_LEASE_ID_BYTES = 256"
definition MAX_GENERATION_PIN_OPERATION_ID_BYTES :: usize where "MAX_GENERATION_PIN_OPERATION_ID_BYTES = 128"

datatype transport_error =
    GtUpdateRequired u16 u16
  | GtInvalidVersionEnvelope
  | GtInvalidJson string
  | GtEncodingTooLarge usize usize
  | GtIdentifierEmpty string
  | GtIdentifierTooLong string
  | GtInvalidOpaqueValue string
  | GtInvalidTimestamp
  | GtInvalidSha256
  | GtInvalidBodyWindowLimit u64
  | GtInvalidBodyWindowContentType
  | GtBodyContentLengthMismatch
  | GtInvalidBodyFrame
  | GtInvalidBodyRange
  | GtBodyWindowMismatch
  | GtBodyIntegrityMismatch
  | GtContentIdentity string
  | GtCapabilityNotOffered
  | GtUnknownPollStatus
  | GtAmbiguousPollResponse
  | GtPollResponseMismatch
  | GtUnknownPollErrorReason
  | GtInvalidPollRetry
  | GtGenerationDelta string
  | GtInvalidPinCapability
  | GtInvalidPinLeaseDuration u64
  | GtInvalidPinLeaseExpiry
  | GtExpiredPinLease
  | GtInvalidPinQuota
  | GtUnknownPinFallback
  | GtPinLeaseMismatch
  | GtTerminalReceipt string
  | GtAcknowledgmentMismatch

type_synonym 'a transport_result = "transport_error + 'a"

definition transport_error_display :: "transport_error \<Rightarrow> string" where
  "transport_error_display e =
     (case e of
        GtUpdateRequired minimum supported \<Rightarrow>
          ''generation transport requires reader version '' @ dec (unat minimum)
          @ '', supported version is '' @ dec (unat supported)
      | GtInvalidVersionEnvelope \<Rightarrow> ''invalid transport version envelope''
      | GtInvalidJson err \<Rightarrow> ''invalid generation transport JSON: '' @ err
      | GtEncodingTooLarge actual maximum \<Rightarrow>
          ''generation transport encoding is '' @ dec actual @ '' bytes, exceeding '' @ dec maximum
      | GtIdentifierEmpty field \<Rightarrow> field @ '' must not be empty''
      | GtIdentifierTooLong field \<Rightarrow> field @ '' is too long''
      | GtInvalidOpaqueValue field \<Rightarrow> field @ '' is not a bounded opaque value''
      | GtInvalidTimestamp \<Rightarrow> ''invalid bounded timestamp''
      | GtInvalidSha256 \<Rightarrow> ''digest must be `sha256:` plus 64 lowercase hexadecimal digits''
      | GtInvalidBodyWindowLimit actual \<Rightarrow>
          ''body window limit '' @ dec (unat actual) @ '' is outside 1..=''
          @ dec (unat MAX_GENERATION_BODY_WINDOW_BYTES)
      | GtInvalidBodyWindowContentType \<Rightarrow>
          ''generation body window response has the wrong HTTP content type''
      | GtBodyContentLengthMismatch \<Rightarrow>
          ''generation body window HTTP content length does not match the framed body''
      | GtInvalidBodyFrame \<Rightarrow> ''invalid bounded generation body window frame''
      | GtInvalidBodyRange \<Rightarrow> ''invalid generation body range''
      | GtBodyWindowMismatch \<Rightarrow> ''body window metadata does not match request''
      | GtBodyIntegrityMismatch \<Rightarrow> ''body window length or digest mismatch''
      | GtContentIdentity err \<Rightarrow> ''invalid content identity: '' @ err
      | GtCapabilityNotOffered \<Rightarrow> ''selected transport capability was not offered''
      | GtUnknownPollStatus \<Rightarrow> ''unknown generation delivery poll status''
      | GtAmbiguousPollResponse \<Rightarrow> ''generation delivery poll status and payload disagree''
      | GtPollResponseMismatch \<Rightarrow> ''generation delivery poll response does not match request''
      | GtUnknownPollErrorReason \<Rightarrow> ''unknown generation delivery poll error reason''
      | GtInvalidPollRetry \<Rightarrow> ''invalid generation delivery poll retry advice''
      | GtGenerationDelta err \<Rightarrow> ''invalid generation delta: '' @ err
      | GtInvalidPinCapability \<Rightarrow> ''invalid generation pin capability limits''
      | GtInvalidPinLeaseDuration actual \<Rightarrow>
          ''pin lease duration '' @ dec (unat actual) @ '' is outside ''
          @ dec (unat MIN_GENERATION_PIN_LEASE_SECONDS) @ ''..='' @ dec (unat MAX_GENERATION_PIN_LEASE_SECONDS)
      | GtInvalidPinLeaseExpiry \<Rightarrow> ''pin lease expiry does not match its issued time and duration''
      | GtExpiredPinLease \<Rightarrow> ''pin lease is not live at authenticated server time''
      | GtInvalidPinQuota \<Rightarrow> ''invalid bounded device pin quota''
      | GtUnknownPinFallback \<Rightarrow> ''unknown generation pin fallback policy''
      | GtPinLeaseMismatch \<Rightarrow> ''generation pin lease response does not match request''
      | GtTerminalReceipt err \<Rightarrow> ''invalid terminal receipt: '' @ err
      | GtAcknowledgmentMismatch \<Rightarrow> ''delivery acknowledgment does not match terminal receipt'')"

section \<open>Validators\<close>

definition gt_validate_versions :: "u16 \<Rightarrow> u16 \<Rightarrow> unit transport_result" where
  "gt_validate_versions format minimum =
     (if format = 0 \<or> minimum = 0 \<or> minimum > format then Inl GtInvalidVersionEnvelope
      else if minimum > GENERATION_TRANSPORT_READER_VERSION
      then Inl (GtUpdateRequired minimum GENERATION_TRANSPORT_READER_VERSION)
      else Inr ())"

definition encoding_length_against :: "usize \<Rightarrow> usize \<Rightarrow> unit transport_result" where
  "encoding_length_against actual maximum =
     (if actual > maximum then Inl (GtEncodingTooLarge actual maximum) else Inr ())"

definition validate_body_frame_length :: "usize \<Rightarrow> unit transport_result" where
  "validate_body_frame_length actual =
     encoding_length_against actual
       (GENERATION_BODY_WINDOW_METADATA_LENGTH_BYTES + MAX_GENERATION_BODY_WINDOW_METADATA_BYTES
        + unat MAX_GENERATION_BODY_WINDOW_BYTES)"

definition gt_validate_identifier :: "string \<Rightarrow> string \<Rightarrow> unit transport_result" where
  "gt_validate_identifier field v =
     (if v = [] then Inl (GtIdentifierEmpty field)
      else if length v > MAX_DELIVERY_ID_BYTES then Inl (GtIdentifierTooLong field)
      else Inr ())"

definition gt_validate_opaque :: "string \<Rightarrow> string \<Rightarrow> usize \<Rightarrow> unit transport_result" where
  "gt_validate_opaque field v maximum =
     (if v = [] \<or> length v > maximum \<or> trim v \<noteq> v \<or> has_control v then Inl (GtInvalidOpaqueValue field)
      else Inr ())"

definition gt_validate_timestamp :: "string \<Rightarrow> unit transport_result" where
  "gt_validate_timestamp v =
     (if length v > MAX_DELIVERY_TIMESTAMP_BYTES then Inl GtInvalidTimestamp
      else map_err (\<lambda>_. GtInvalidTimestamp) (validate_canonical_utc_timestamp ''generation_transport_timestamp'' v))"

definition gt_validate_sha256 :: "string \<Rightarrow> unit transport_result" where
  "gt_validate_sha256 v =
     (if length v = 71 \<and> prefix ''sha256:'' v \<and> list_all lower_hex (drop 7 v) then Inr ()
      else Inl GtInvalidSha256)"

text \<open>\<open>decode_request\<close>, for any request: bounded, parsed, validated.\<close>

definition decode_request ::
    "(string \<Rightarrow> string + 'a) \<Rightarrow> ('a \<Rightarrow> unit transport_result) \<Rightarrow> string \<Rightarrow> 'a transport_result" where
  "decode_request from_slice validate input =
     rbind (encoding_length_against (length input) MAX_GENERATION_TRANSPORT_REQUEST_BYTES) (\<lambda>_.
     rbind (map_err GtInvalidJson (from_slice input)) (\<lambda>request.
     rbind (validate request) (\<lambda>_. Inr request)))"

section \<open>Capabilities\<close>

datatype pin_fallback_policy = RequireExact | UseLatestRetained | UnknownFallback

definition fallback_rank :: "pin_fallback_policy \<Rightarrow> nat" where
  "fallback_rank p = (case p of RequireExact \<Rightarrow> 0 | UseLatestRetained \<Rightarrow> 1 | UnknownFallback \<Rightarrow> 2)"

instantiation pin_fallback_policy :: linorder
begin

definition less_eq_pin_fallback_policy :: "pin_fallback_policy \<Rightarrow> pin_fallback_policy \<Rightarrow> bool" where
  "less_eq_pin_fallback_policy p q \<longleftrightarrow> fallback_rank p \<le> fallback_rank q"

definition less_pin_fallback_policy :: "pin_fallback_policy \<Rightarrow> pin_fallback_policy \<Rightarrow> bool" where
  "less_pin_fallback_policy p q \<longleftrightarrow> fallback_rank p < fallback_rank q"

instance
  by standard (auto simp: less_eq_pin_fallback_policy_def less_pin_fallback_policy_def fallback_rank_def
      split: pin_fallback_policy.splits)

end

record pin_lease_capability =
  pc_min_lease_seconds :: u64
  pc_max_lease_seconds :: u64
  pc_max_active_leases_per_device :: u16
  pc_fallback_policies :: "pin_fallback_policy list"

definition validate_lease_seconds :: "u64 \<Rightarrow> unit transport_result" where
  "validate_lease_seconds seconds =
     (if MIN_GENERATION_PIN_LEASE_SECONDS \<le> seconds \<and> seconds \<le> MAX_GENERATION_PIN_LEASE_SECONDS then Inr ()
      else Inl (GtInvalidPinLeaseDuration seconds))"

definition validate_fallback :: "pin_fallback_policy \<Rightarrow> unit transport_result" where
  "validate_fallback p = (if p = UnknownFallback then Inl GtUnknownPinFallback else Inr ())"

fun check_policies :: "pin_fallback_policy option \<Rightarrow> pin_fallback_policy list \<Rightarrow> unit transport_result" where
  "check_policies previous [] = Inr ()"
| "check_policies previous (p # ps) =
     rbind (validate_fallback p) (\<lambda>_.
     if (case previous of Some q \<Rightarrow> q \<ge> p | None \<Rightarrow> False) then Inl GtInvalidPinCapability
     else check_policies (Some p) ps)"

definition validate_pin_capability :: "pin_lease_capability \<Rightarrow> unit transport_result" where
  "validate_pin_capability c =
     rbind (validate_lease_seconds (pc_min_lease_seconds c)) (\<lambda>_.
     rbind (validate_lease_seconds (pc_max_lease_seconds c)) (\<lambda>_.
     if pc_min_lease_seconds c > pc_max_lease_seconds c
       \<or> pc_max_active_leases_per_device c = 0
       \<or> pc_max_active_leases_per_device c > MAX_GENERATION_PIN_LEASES_PER_DEVICE
       \<or> pc_fallback_policies c = []
       \<or> length (pc_fallback_policies c) > 2
     then Inl GtInvalidPinCapability
     else check_policies None (pc_fallback_policies c)))"

record transport_capabilities =
  gc_format_version :: u16
  gc_minimum_reader_version :: u16
  gc_body_windows :: "u64 option"
  gc_terminal_receipt_acknowledgments :: bool
  gc_generation_pin_leases :: "pin_lease_capability option"

definition capabilities_legacy :: transport_capabilities where
  "capabilities_legacy =
     \<lparr>gc_format_version = GENERATION_TRANSPORT_FORMAT_VERSION,
      gc_minimum_reader_version = GENERATION_TRANSPORT_READER_VERSION, gc_body_windows = None,
      gc_terminal_receipt_acknowledgments = False, gc_generation_pin_leases = None\<rparr>"

text \<open>The length of the JSON of a set of capabilities is an argument.\<close>

definition capabilities_validate ::
    "(transport_capabilities \<Rightarrow> usize) \<Rightarrow> transport_capabilities \<Rightarrow> unit transport_result" where
  "capabilities_validate json_length c =
     rbind (gt_validate_versions (gc_format_version c) (gc_minimum_reader_version c)) (\<lambda>_.
     rbind (case gc_body_windows c of
              Some max_window_bytes \<Rightarrow>
                if \<not> (1 \<le> max_window_bytes \<and> max_window_bytes \<le> MAX_GENERATION_BODY_WINDOW_BYTES)
                then Inl (GtInvalidBodyWindowLimit max_window_bytes) else Inr ()
            | None \<Rightarrow> Inr ()) (\<lambda>_.
     rbind (case gc_generation_pin_leases c of Some pin \<Rightarrow> validate_pin_capability pin | None \<Rightarrow> Inr ()) (\<lambda>_.
     encoding_length_against (json_length c) MAX_GENERATION_TRANSPORT_CAPABILITIES_BYTES)))"

definition capabilities_decode_json ::
    "(transport_capabilities \<Rightarrow> usize) \<Rightarrow> (string \<Rightarrow> string + transport_capabilities) \<Rightarrow> string
     \<Rightarrow> transport_capabilities transport_result" where
  "capabilities_decode_json json_length from_slice input =
     rbind (encoding_length_against (length input) MAX_GENERATION_TRANSPORT_CAPABILITIES_BYTES) (\<lambda>_.
     rbind (map_err GtInvalidJson (from_slice input)) (\<lambda>c.
     rbind (capabilities_validate json_length c) (\<lambda>_. Inr c)))"

definition pin_within :: "pin_lease_capability \<Rightarrow> pin_lease_capability \<Rightarrow> bool" where
  "pin_within selected offered \<longleftrightarrow>
     pc_min_lease_seconds selected \<ge> pc_min_lease_seconds offered
   \<and> pc_max_lease_seconds selected \<le> pc_max_lease_seconds offered
   \<and> pc_max_active_leases_per_device selected \<le> pc_max_active_leases_per_device offered
   \<and> list_all (\<lambda>p. p \<in> set (pc_fallback_policies offered)) (pc_fallback_policies selected)"

definition validate_selection ::
    "(transport_capabilities \<Rightarrow> usize) \<Rightarrow> transport_capabilities \<Rightarrow> transport_capabilities
     \<Rightarrow> unit transport_result" where
  "validate_selection json_length selected offered =
     rbind (capabilities_validate json_length selected) (\<lambda>_.
     rbind (capabilities_validate json_length offered) (\<lambda>_.
     rbind (case (gc_body_windows selected, gc_body_windows offered) of
              (Some s, Some f) \<Rightarrow> if s \<le> f then Inr () else Inl GtCapabilityNotOffered
            | (None, _) \<Rightarrow> Inr ()
            | _ \<Rightarrow> Inl GtCapabilityNotOffered) (\<lambda>_.
     if gc_terminal_receipt_acknowledgments selected \<and> \<not> gc_terminal_receipt_acknowledgments offered
     then Inl GtCapabilityNotOffered
     else
     (case (gc_generation_pin_leases selected, gc_generation_pin_leases offered) of
        (Some s, Some f) \<Rightarrow> if pin_within s f then Inr () else Inl GtCapabilityNotOffered
      | (None, _) \<Rightarrow> Inr ()
      | _ \<Rightarrow> Inl GtCapabilityNotOffered))))"

section \<open>Polls\<close>

record generation_delivery_request =
  gr_format_version :: u16
  gr_minimum_reader_version :: u16
  gr_mount_id :: string
  gr_source_connection_id :: string
  gr_observed_generation_id :: string
  gr_capabilities :: transport_capabilities

datatype poll_status = PollDelivery | PollNoDelivery | PollError | PollUnknown

record poll_error =
  pr_reason :: freshness_reason_code
  pr_retry :: "freshness_retry option"

record poll_response =
  po_format_version :: u16
  po_minimum_reader_version :: u16
  po_status :: poll_status
  po_mount_id :: string
  po_source_connection_id :: string
  po_observed_generation_id :: string
  po_selected_capabilities :: transport_capabilities
  po_delivery :: "(generation_delta \<times> generation_delta_terminal_receipt) option"
  po_error :: "poll_error option"

text \<open>The encoder and the parser of JSON, and the libraries of the delta.\<close>

record transport_codec =
  tx_lib :: delivery_lib
  tx_capabilities_length :: "transport_capabilities \<Rightarrow> usize"
  tx_poll_length :: "poll_response \<Rightarrow> usize"
  tx_poll_from_slice :: "string \<Rightarrow> string + poll_response"

definition delivery_request_validate ::
    "transport_codec \<Rightarrow> generation_delivery_request \<Rightarrow> unit transport_result" where
  "delivery_request_validate X r =
     rbind (gt_validate_versions (gr_format_version r) (gr_minimum_reader_version r)) (\<lambda>_.
     rbind (gt_validate_identifier ''mount_id'' (gr_mount_id r)) (\<lambda>_.
     rbind (gt_validate_identifier ''source_connection_id'' (gr_source_connection_id r)) (\<lambda>_.
     rbind (gt_validate_identifier ''observed_generation_id'' (gr_observed_generation_id r)) (\<lambda>_.
     capabilities_validate (tx_capabilities_length X) (gr_capabilities r)))))"

definition poll_error_validate :: "poll_error \<Rightarrow> unit transport_result" where
  "poll_error_validate e =
     (if pr_reason e = UnknownReason then Inl GtUnknownPollErrorReason
      else
      (case pr_retry e of
         None \<Rightarrow> Inr ()
       | Some retry \<Rightarrow> map_err (\<lambda>_. GtInvalidPollRetry) (retry_validate retry)))"

definition poll_payload_ok :: "transport_codec \<Rightarrow> poll_response \<Rightarrow> unit transport_result" where
  "poll_payload_ok X p =
     (case (po_status p, po_delivery p, po_error p) of
        (PollDelivery, Some (delta, terminal_receipt), None) \<Rightarrow>
          rbind (map_err (\<lambda>e. GtGenerationDelta (freshness_delivery_error_display e))
                   (delta_validate (tx_lib X) delta)) (\<lambda>_.
          rbind (map_err (\<lambda>e. GtTerminalReceipt (freshness_delivery_error_display e))
                   (receipt_validate_against (tx_lib X) terminal_receipt delta)) (\<lambda>_.
          if gd_mount_id delta \<noteq> po_mount_id p
            \<or> gd_source_connection_id delta \<noteq> po_source_connection_id p
            \<or> gd_base_generation_id delta \<noteq> po_observed_generation_id p
          then Inl GtPollResponseMismatch else Inr ()))
      | (PollNoDelivery, None, None) \<Rightarrow> Inr ()
      | (PollError, None, Some err) \<Rightarrow> poll_error_validate err
      | (PollUnknown, _, _) \<Rightarrow> Inl GtUnknownPollStatus
      | _ \<Rightarrow> Inl GtAmbiguousPollResponse)"

definition poll_validate_against ::
    "transport_codec \<Rightarrow> poll_response \<Rightarrow> generation_delivery_request \<Rightarrow> unit transport_result" where
  "poll_validate_against X p r =
     rbind (delivery_request_validate X r) (\<lambda>_.
     rbind (gt_validate_versions (po_format_version p) (po_minimum_reader_version p)) (\<lambda>_.
     if po_mount_id p \<noteq> gr_mount_id r
       \<or> po_source_connection_id p \<noteq> gr_source_connection_id r
       \<or> po_observed_generation_id p \<noteq> gr_observed_generation_id r
     then Inl GtPollResponseMismatch
     else
     rbind (validate_selection (tx_capabilities_length X) (po_selected_capabilities p) (gr_capabilities r)) (\<lambda>_.
     rbind (poll_payload_ok X p) (\<lambda>_.
     encoding_length_against (tx_poll_length X p) MAX_GENERATION_DELIVERY_POLL_RESPONSE_BYTES))))"

definition poll_decode_json ::
    "transport_codec \<Rightarrow> string \<Rightarrow> generation_delivery_request \<Rightarrow> poll_response transport_result" where
  "poll_decode_json X input r =
     rbind (encoding_length_against (length input) MAX_GENERATION_DELIVERY_POLL_RESPONSE_BYTES) (\<lambda>_.
     rbind (map_err GtInvalidJson (tx_poll_from_slice X input)) (\<lambda>p.
     rbind (poll_validate_against X p r) (\<lambda>_. Inr p)))"

section \<open>What is accepted\<close>

lemma gt_sha256_Inr [simp]: "gt_validate_sha256 v = Inr u \<longleftrightarrow> sha256_text v"
  using dv_validate_sha256_Inr[of v "()"] by (auto simp: gt_validate_sha256_def dv_validate_sha256_def split: if_splits)

lemma gt_identifier_Inr [simp]:
  "gt_validate_identifier f v = Inr u \<longleftrightarrow> v \<noteq> [] \<and> length v \<le> MAX_DELIVERY_ID_BYTES"
  by (simp add: gt_validate_identifier_def not_less)

lemma gt_timestamp_Inr: "gt_validate_timestamp v = Inr u \<Longrightarrow> canonical_utc_timestamp v"
  by (auto simp: gt_validate_timestamp_def split: if_splits)

text \<open>A poll that delivers delivers the next step of the mount and source that asked, from the generation
  it observed, with a receipt for exactly this delta.\<close>

lemma poll_delivers:
  assumes "poll_validate_against X p r = Inr ()" "po_delivery p = Some (d, t)"
  shows "receipt_validate_against (tx_lib X) t d = Inr ()" "gd_mount_id d = gr_mount_id r"
    "gd_source_connection_id d = gr_source_connection_id r" "gd_base_generation_id d = gr_observed_generation_id r"
proof -
  from assms(1) have pay: "poll_payload_ok X p = Inr ()" and same: "po_mount_id p = gr_mount_id r"
    "po_source_connection_id p = gr_source_connection_id r" "po_observed_generation_id p = gr_observed_generation_id r"
    unfolding poll_validate_against_def by (simp_all only: rbind_Inr_iff guard_Inr) auto
  from pay assms(2) have "po_status p = PollDelivery" "po_error p = None"
    by (cases "po_status p"; cases "po_error p"; simp add: poll_payload_ok_def)+
  with pay assms(2) same show "receipt_validate_against (tx_lib X) t d = Inr ()" "gd_mount_id d = gr_mount_id r"
    "gd_source_connection_id d = gr_source_connection_id r" "gd_base_generation_id d = gr_observed_generation_id r"
    by (auto simp: poll_payload_ok_def rbind_Inr_iff split: if_splits)
qed

end
