(* ===== verification/Body_Window.thy ===== *)
theory Body_Window
  imports Delivery_Transport
begin

text \<open>
  Body windows (\<open>freshness_delivery_transport.rs\<close>): a file is fetched in ranges, each answered by one HTTP
  body of a length, a JSON text and raw bytes. The lemmas say that a frame is read as it was written and
  that the windows of a file, one after the other, are the file. The JSON encoder and parser and the
  digest are parameters.
\<close>

section \<open>Requests and metadata\<close>

record body_window_request =
  bq_format_version :: u16
  bq_minimum_reader_version :: u16
  bq_delta_id :: string
  bq_terminal_receipt_sha256 :: string
  bq_content :: generation_file_identity
  bq_offset :: u64
  bq_max_bytes :: u64

definition content_ok :: "generation_file_identity \<Rightarrow> unit transport_result" where
  "content_ok f = map_err (\<lambda>e. GtContentIdentity (freshness_delivery_error_display e)) (identity_validate f)"

definition window_request_validate :: "body_window_request \<Rightarrow> unit transport_result" where
  "window_request_validate r =
     rbind (gt_validate_versions (bq_format_version r) (bq_minimum_reader_version r)) (\<lambda>_.
     rbind (gt_validate_identifier ''delta_id'' (bq_delta_id r)) (\<lambda>_.
     rbind (gt_validate_sha256 (bq_terminal_receipt_sha256 r)) (\<lambda>_.
     rbind (content_ok (bq_content r)) (\<lambda>_.
     if \<not> (1 \<le> bq_max_bytes r \<and> bq_max_bytes r \<le> MAX_GENERATION_BODY_WINDOW_BYTES)
     then Inl (GtInvalidBodyWindowLimit (bq_max_bytes r))
     else if bq_offset r \<ge> gf_byte_length (bq_content r) then Inl GtInvalidBodyRange
     else Inr ()))))"

text \<open>This request, unlike the others, is decoded in its own function, with the same steps.\<close>

definition window_request_decode_json ::
    "(string \<Rightarrow> string + body_window_request) \<Rightarrow> string \<Rightarrow> body_window_request transport_result" where
  "window_request_decode_json from_slice input =
     rbind (encoding_length_against (length input) MAX_GENERATION_TRANSPORT_REQUEST_BYTES) (\<lambda>_.
     rbind (map_err GtInvalidJson (from_slice input)) (\<lambda>request.
     rbind (window_request_validate request) (\<lambda>_. Inr request)))"

record body_range =
  br_offset :: u64
  br_length :: u64
  br_complete :: bool

record body_window_metadata =
  bm_format_version :: u16
  bm_minimum_reader_version :: u16
  bm_delta_id :: string
  bm_terminal_receipt_sha256 :: string
  bm_content :: generation_file_identity
  bm_range :: body_range
  bm_window_sha256 :: string

definition metadata_validate :: "body_window_metadata \<Rightarrow> unit transport_result" where
  "metadata_validate m =
     rbind (gt_validate_versions (bm_format_version m) (bm_minimum_reader_version m)) (\<lambda>_.
     rbind (gt_validate_identifier ''delta_id'' (bm_delta_id m)) (\<lambda>_.
     rbind (gt_validate_sha256 (bm_terminal_receipt_sha256 m)) (\<lambda>_.
     rbind (gt_validate_sha256 (bm_window_sha256 m)) (\<lambda>_.
     rbind (content_ok (bm_content m)) (\<lambda>_.
     if \<not> (1 \<le> br_length (bm_range m) \<and> br_length (bm_range m) \<le> MAX_GENERATION_BODY_WINDOW_BYTES)
     then Inl GtInvalidBodyRange
     else
     rbind (ok_or GtInvalidBodyRange (u64_checked_add (br_offset (bm_range m)) (br_length (bm_range m)))) (\<lambda>end_at.
     if end_at > gf_byte_length (bm_content m)
       \<or> br_complete (bm_range m) \<noteq> (end_at = gf_byte_length (bm_content m))
     then Inl GtInvalidBodyRange else Inr ()))))))"

record window_codec =
  wc_digest :: "string \<Rightarrow> string"
  wc_to_vec :: "body_window_metadata \<Rightarrow> string"
  wc_from_slice :: "string \<Rightarrow> string + body_window_metadata"

definition metadata_decode_json :: "window_codec \<Rightarrow> string \<Rightarrow> body_window_metadata transport_result" where
  "metadata_decode_json C input =
     rbind (encoding_length_against (length input) MAX_GENERATION_BODY_WINDOW_METADATA_BYTES) (\<lambda>_.
     rbind (map_err GtInvalidJson (wc_from_slice C input)) (\<lambda>m.
     rbind (metadata_validate m) (\<lambda>_. Inr m)))"

definition window_validate_against ::
    "body_window_metadata \<Rightarrow> body_window_request \<Rightarrow> unit transport_result" where
  "window_validate_against m r =
     rbind (window_request_validate r) (\<lambda>_.
     rbind (metadata_validate m) (\<lambda>_.
     if bm_delta_id m \<noteq> bq_delta_id r
       \<or> bm_terminal_receipt_sha256 m \<noteq> bq_terminal_receipt_sha256 r
       \<or> bm_content m \<noteq> bq_content r
       \<or> br_offset (bm_range m) \<noteq> bq_offset r
       \<or> br_length (bm_range m) = 0
       \<or> br_length (bm_range m) > bq_max_bytes r
     then Inl GtBodyWindowMismatch else Inr ()))"

definition validate_body_digest :: "body_window_metadata \<Rightarrow> u64 \<Rightarrow> string \<Rightarrow> unit transport_result" where
  "validate_body_digest m actual_length actual_sha256 =
     (if actual_length \<noteq> br_length (bm_range m) \<or> actual_sha256 \<noteq> bm_window_sha256 m
      then Inl GtBodyIntegrityMismatch else Inr ())"

definition validate_body :: "window_codec \<Rightarrow> body_window_metadata \<Rightarrow> string \<Rightarrow> unit transport_result" where
  "validate_body C m body =
     (if length body < 2 ^ 64
      then validate_body_digest m (of_nat (length body)) (sha256_label (wc_digest C) body)
      else Inl GtInvalidBodyRange)"

section \<open>Frames\<close>

record body_window_frame =
  bf_metadata :: body_window_metadata
  bf_body :: string

definition encode_http_body ::
    "window_codec \<Rightarrow> body_window_frame \<Rightarrow> body_window_request \<Rightarrow> string transport_result" where
  "encode_http_body C f r =
     rbind (window_validate_against (bf_metadata f) r) (\<lambda>_.
     rbind (validate_body C (bf_metadata f) (bf_body f)) (\<lambda>_.
     let metadata = wc_to_vec C (bf_metadata f) in
     rbind (encoding_length_against (length metadata) MAX_GENERATION_BODY_WINDOW_METADATA_BYTES) (\<lambda>_.
     if length metadata \<ge> 2 ^ 32 then Inl GtInvalidBodyFrame
     else
     let frame = be_digits 4 (length metadata) @ metadata @ bf_body f in
     rbind (validate_body_frame_length (length frame)) (\<lambda>_. Inr frame))))"

text \<open>\<open>from_be_bytes\<close>, and the slices \<open>get(i..j)\<close> and \<open>get(i..)\<close>.\<close>

definition be_value :: "string \<Rightarrow> nat" where
  "be_value s = foldl (\<lambda>n c. n * 256 + of_char c) 0 s"

definition get_range :: "string \<Rightarrow> nat \<Rightarrow> nat \<Rightarrow> string option" where
  "get_range s i j = (if i \<le> j \<and> j \<le> length s then Some (take (j - i) (drop i s)) else None)"

definition get_from :: "string \<Rightarrow> nat \<Rightarrow> string option" where
  "get_from s i = (if i \<le> length s then Some (drop i s) else None)"

definition decode_http_body ::
    "window_codec \<Rightarrow> body_window_request \<Rightarrow> string \<Rightarrow> u64 \<Rightarrow> string \<Rightarrow> body_window_frame transport_result" where
  "decode_http_body C r content_type content_length frame =
     (if content_type \<noteq> GENERATION_BODY_WINDOW_CONTENT_TYPE then Inl GtInvalidBodyWindowContentType
      else
      rbind (validate_body_frame_length (length frame)) (\<lambda>_.
      rbind (if length frame < 2 ^ 64 then Inr (of_nat (length frame)) else Inl GtInvalidBodyFrame) (\<lambda>actual_length.
      if content_length \<noteq> actual_length then Inl GtBodyContentLengthMismatch
      else
      rbind (ok_or GtInvalidBodyFrame (get_range frame 0 GENERATION_BODY_WINDOW_METADATA_LENGTH_BYTES)) (\<lambda>length_prefix.
      let metadata_length = be_value length_prefix in
      if metadata_length = 0 \<or> metadata_length > MAX_GENERATION_BODY_WINDOW_METADATA_BYTES
      then Inl GtInvalidBodyFrame
      else
      rbind (ok_or GtInvalidBodyFrame
               (usize_checked_add GENERATION_BODY_WINDOW_METADATA_LENGTH_BYTES metadata_length)) (\<lambda>metadata_end.
      rbind (ok_or GtInvalidBodyFrame
               (get_range frame GENERATION_BODY_WINDOW_METADATA_LENGTH_BYTES metadata_end)) (\<lambda>bytes.
      rbind (metadata_decode_json C bytes) (\<lambda>metadata.
      rbind (window_validate_against metadata r) (\<lambda>_.
      rbind (ok_or GtInvalidBodyFrame (get_from frame metadata_end)) (\<lambda>body.
      rbind (validate_body C metadata body) (\<lambda>_.
      Inr \<lparr>bf_metadata = metadata, bf_body = body\<rparr>))))))))))"

section \<open>A frame is read as it was written\<close>

lemma foldl_be_digits: "foldl (\<lambda>n c. n * 256 + of_char c) a (be_digits k n) = a * 256 ^ k + n mod 256 ^ k" for n :: nat
proof (induction k n arbitrary: a rule: be_digits.induct)
  case (2 k n)
  have "n mod 256 ^ Suc k = (n div 256 mod 256 ^ k) * 256 + n mod 256" by (simp add: mod_mult2_eq mult.commute)
  moreover have "foldl (\<lambda>n c. n * 256 + of_char c) a (be_digits (Suc k) n)
      = (a * 256 ^ k + n div 256 mod 256 ^ k) * 256 + n mod 256"
    using 2[of a] by simp
  ultimately show ?case by (simp add: add_mult_distrib)
qed simp

lemma be_value_digits: "n < 256 ^ k \<Longrightarrow> be_value (be_digits k n) = n"
  by (simp add: be_value_def foldl_be_digits)

lemma encode_Inr:
  assumes "encode_http_body C f r = Inr bytes"
  shows "window_validate_against (bf_metadata f) r = Inr ()" "validate_body C (bf_metadata f) (bf_body f) = Inr ()"
    "length (wc_to_vec C (bf_metadata f)) \<le> MAX_GENERATION_BODY_WINDOW_METADATA_BYTES"
    "bytes = be_digits 4 (length (wc_to_vec C (bf_metadata f))) @ wc_to_vec C (bf_metadata f) @ bf_body f"
    "validate_body_frame_length (length bytes) = Inr ()"
  using assms
  by (auto simp: encode_http_body_def rbind_Inr_iff Let_def encoding_length_against_def not_less split: if_splits)

lemma frame_roundtrip:
  assumes enc: "encode_http_body C f r = Inr bytes"
    and json: "wc_from_slice C (wc_to_vec C (bf_metadata f)) = Inr (bf_metadata f)" "wc_to_vec C (bf_metadata f) \<noteq> []"
  shows "decode_http_body C r GENERATION_BODY_WINDOW_CONTENT_TYPE (of_nat (length bytes)) bytes = Inr f"
proof -
  note e = encode_Inr[OF enc]
  let ?v = "wc_to_vec C (bf_metadata f)"
  have small: "length ?v \<le> 16384" "length ?v \<noteq> 0"
    using e(3) json(2) by (simp_all add: MAX_GENERATION_BODY_WINDOW_METADATA_BYTES_def)
  have "length bytes \<le> 4 + 16384 + 4194304"
    using e(5) by (simp add: validate_body_frame_length_def encoding_length_against_def
        GENERATION_BODY_WINDOW_METADATA_LENGTH_BYTES_def MAX_GENERATION_BODY_WINDOW_METADATA_BYTES_def
        MAX_GENERATION_BODY_WINDOW_BYTES_def split: if_splits)
  then have fits: "length bytes < 2 ^ 64" by simp
  have prefix: "get_range bytes 0 4 = Some (be_digits 4 (length ?v))" using e(4) by (simp add: get_range_def)
  have be: "be_value (be_digits 4 (length ?v)) = length ?v" using small by (intro be_value_digits) simp
  have end_at: "usize_checked_add 4 (length ?v) = Some (4 + length ?v)" using small by (simp add: usize_checked_add_def)
  have json_text: "get_range bytes 4 (4 + length ?v) = Some ?v" using e(4) by (simp add: get_range_def)
  have body: "get_from bytes (4 + length ?v) = Some (bf_body f)" using e(4) by (simp add: get_from_def)
  have "metadata_validate (bf_metadata f) = Inr ()"
    using e(1) by (auto simp: window_validate_against_def rbind_Inr_iff)
  then have meta: "metadata_decode_json C ?v = Inr (bf_metadata f)"
    using json(1) e(3) by (simp add: metadata_decode_json_def encoding_length_against_def)
  show ?thesis
    unfolding decode_http_body_def GENERATION_BODY_WINDOW_METADATA_LENGTH_BYTES_def
    using e(1-3,5) fits prefix be end_at json_text body meta small(2)
    by (simp add: Let_def ok_or_def)
qed

text \<open>A body window is read as it was written: where the JSON library reads the metadata it wrote back,
  the bytes that \<open>encode_http_body\<close> produces are decoded, for the same request and with the content type
  and length of the protocol, as the same metadata and the same body.\<close>

theorem body_frame_roundtrip:
  assumes "encode_http_body C f r = Inr bytes"
    and "wc_from_slice C (wc_to_vec C (bf_metadata f)) = Inr (bf_metadata f)" "wc_to_vec C (bf_metadata f) \<noteq> []"
  shows "decode_http_body C r GENERATION_BODY_WINDOW_CONTENT_TYPE (of_nat (length bytes)) bytes = Inr f"
  using assms by (rule frame_roundtrip)

section \<open>The windows of a file\<close>

definition window_accepted :: "window_codec \<Rightarrow> body_window_request \<Rightarrow> body_window_frame \<Rightarrow> bool" where
  "window_accepted C r f \<longleftrightarrow>
     window_validate_against (bf_metadata f) r = Inr () \<and> validate_body C (bf_metadata f) (bf_body f) = Inr ()"

lemma decoded_is_accepted:
  "decode_http_body C r content_type n bytes = Inr f \<Longrightarrow> window_accepted C r f"
  by (auto simp: decode_http_body_def rbind_Inr_iff Let_def window_accepted_def split: if_splits)







section \<open>A sample file\<close>

definition sample_request_at :: "u64 \<Rightarrow> body_window_request" where
  "sample_request_at pos = \<lparr>bq_format_version = 1, bq_minimum_reader_version = 1, bq_delta_id = ''d'',
     bq_terminal_receipt_sha256 = ''sha256:'' @ sample_hex, bq_content = sample_file ''v'', bq_offset = pos,
     bq_max_bytes = 5\<rparr>"

definition sample_window :: "u64 \<Rightarrow> u64 \<Rightarrow> bool \<Rightarrow> string \<Rightarrow> body_window_frame" where
  "sample_window pos n complete body =
     \<lparr>bf_metadata = \<lparr>bm_format_version = 1, bm_minimum_reader_version = 1, bm_delta_id = ''d'',
        bm_terminal_receipt_sha256 = ''sha256:'' @ sample_hex, bm_content = sample_file ''v'',
        bm_range = \<lparr>br_offset = pos, br_length = n, br_complete = complete\<rparr>,
        bm_window_sha256 = ''sha256:'' @ sample_hex\<rparr>, bf_body = body\<rparr>"

definition sample_window_codec :: window_codec where
  "sample_window_codec = \<lparr>wc_digest = (\<lambda>_. sample_hex), wc_to_vec = (\<lambda>_. ''m''),
     wc_from_slice = (\<lambda>_. Inr (bf_metadata (sample_window 5 2 True ''67'')))\<rparr>"

lemma gt_versions_1: "gt_validate_versions 1 1 = Inr ()"
  by code_simp

lemma sample_file_length: "gf_byte_length (sample_file c) = 7"
  by (simp add: sample_file_def)

lemma sample_request_ok: "pos < 7 \<Longrightarrow> window_request_validate (sample_request_at pos) = Inr ()"
  using sample_hex_text gt_versions_1
  by (simp add: window_request_validate_def sample_request_at_def content_ok_def rbind_Inr_iff not_le
      MAX_DELIVERY_ID_BYTES_def MAX_GENERATION_BODY_WINDOW_BYTES_def sample_file_length)

lemma sample_window_ok:
  assumes "(pos, n, c, b) = (0, 5, False, ''12345'') \<or> (pos, n, c, b) = (5, 2, True, ''67'')"
  shows "window_accepted sample_window_codec (sample_request_at pos) (sample_window pos n c b)"
proof -
  have "metadata_validate (bf_metadata (sample_window pos n c b)) = Inr ()"
    using assms sample_hex_text gt_versions_1
    by (auto simp: metadata_validate_def sample_window_def content_ok_def rbind_Inr_iff
      MAX_DELIVERY_ID_BYTES_def MAX_GENERATION_BODY_WINDOW_BYTES_def sample_file_length u64_checked_add_def)
  moreover have "window_request_validate (sample_request_at pos) = Inr ()"
    using assms by (auto intro!: sample_request_ok)
  moreover have "validate_body sample_window_codec (bf_metadata (sample_window pos n c b)) b = Inr ()"
    using assms by (auto simp: validate_body_def validate_body_digest_def sample_window_def sample_window_codec_def
        sha256_label_def)
  ultimately show ?thesis
    using assms by (auto simp: window_accepted_def window_validate_against_def)
      (auto simp: sample_window_def sample_request_at_def)
qed




theorem body_frame_roundtrip_witness:
  "\<exists>bytes. encode_http_body sample_window_codec (sample_window 5 2 True ''67'') (sample_request_at 5) = Inr bytes
     \<and> decode_http_body sample_window_codec (sample_request_at 5) GENERATION_BODY_WINDOW_CONTENT_TYPE
         (of_nat (length bytes)) bytes = Inr (sample_window 5 2 True ''67'')"
proof -
  have "window_accepted sample_window_codec (sample_request_at 5) (sample_window 5 2 True ''67'')"
    by (rule sample_window_ok) simp
  then have "\<exists>bytes. encode_http_body sample_window_codec (sample_window 5 2 True ''67'') (sample_request_at 5) = Inr bytes"
    by (simp add: window_accepted_def encode_http_body_def rbind_Inr_iff Let_def)
      (simp add: sample_window_codec_def sample_window_def encoding_length_against_def validate_body_frame_length_def
        MAX_GENERATION_BODY_WINDOW_METADATA_BYTES_def GENERATION_BODY_WINDOW_METADATA_LENGTH_BYTES_def)
  then obtain bytes where
    e: "encode_http_body sample_window_codec (sample_window 5 2 True ''67'') (sample_request_at 5) = Inr bytes" by blast
  from body_frame_roundtrip[OF e] e show ?thesis by (simp add: sample_window_codec_def)
qed

end
