(* ===== verification/Connector.thy ===== *)
theory Connector
  imports Push_Pipeline Portable
begin

text \<open>
  The portable half of the connector interface, \<open>locality-connector/src/lib.rs\<close>: scopes,
  checkpoints, completeness, change batches with their omission authority, the validation of v2
  requests and responses, and the trait \<open>Connector\<close> as a record of operations on the state of the
  remote source. The lemmas show when a response covers its scope exactly and what a dispatched
  request satisfies.
\<close>

section \<open>Scopes, checkpoints and artifacts\<close>

datatype portable_source_scope_mode = AllShared | RestrictedRoots

record portable_source_scope =
  sc_mode :: portable_source_scope_mode
  sc_root_remote_ids :: "remote_id list"

definition explicit_roots :: "remote_id list \<Rightarrow> portable_source_scope" where
  "explicit_roots roots = \<lparr>sc_mode = RestrictedRoots, sc_root_remote_ids = roots\<rparr>"

definition all_shared :: portable_source_scope where
  "all_shared = \<lparr>sc_mode = AllShared, sc_root_remote_ids = []\<rparr>"

record portable_checkpoint =
  cp_format_version :: "16 word"
  cp_opaque :: string

type_synonym portable_artifact_key = string

definition artifact_key_is_valid :: "portable_artifact_key \<Rightarrow> bool" where
  "artifact_key_is_valid k \<longleftrightarrow> k \<noteq> [] \<and> \<not> has_control k"

section \<open>Completeness\<close>

datatype portable_incomplete_reason =
    CheckpointContinuation
  | UnsupportedSourceKind remote_id string
  | UnsupportedArtifact portable_artifact_key string
  | ConnectorLimitation string "remote_id option"

text \<open>The derived order compares the variants by position and then their fields.\<close>

definition reason_key :: "portable_incomplete_reason \<Rightarrow> string list" where
  "reason_key r =
     (case r of
        CheckpointContinuation \<Rightarrow> [''0'']
      | UnsupportedSourceKind i k \<Rightarrow> [''1'', remote_id_str i, k]
      | UnsupportedArtifact a k \<Rightarrow> [''2'', a, k]
      | ConnectorLimitation c i \<Rightarrow> ''3'' # c # (case i of None \<Rightarrow> [] | Some j \<Rightarrow> [remote_id_str j]))"

lemma reason_key_inj: "reason_key a = reason_key b \<Longrightarrow> a = b"
  by (cases a; cases b) (auto simp: reason_key_def remote_id.expand split: option.splits)

instantiation portable_incomplete_reason :: linorder
begin

definition less_eq_portable_incomplete_reason :: "portable_incomplete_reason \<Rightarrow> portable_incomplete_reason \<Rightarrow> bool" where
  "less_eq_portable_incomplete_reason a b \<longleftrightarrow> reason_key a \<le> reason_key b"

definition less_portable_incomplete_reason :: "portable_incomplete_reason \<Rightarrow> portable_incomplete_reason \<Rightarrow> bool" where
  "less_portable_incomplete_reason a b \<longleftrightarrow> reason_key a < reason_key b"

instance
  by standard
    (auto simp: less_eq_portable_incomplete_reason_def less_portable_incomplete_reason_def
      dest: reason_key_inj)

end

record portable_completeness =
  pc_incomplete_reasons :: "portable_incomplete_reason list"
  pc_complete :: bool

definition completeness_default :: portable_completeness where
  "completeness_default = \<lparr>pc_incomplete_reasons = [], pc_complete = False\<rparr>"

definition completeness_complete :: portable_completeness where
  "completeness_complete = \<lparr>pc_incomplete_reasons = [], pc_complete = True\<rparr>"

definition completeness_incomplete :: "portable_incomplete_reason \<Rightarrow> portable_completeness" where
  "completeness_incomplete r = \<lparr>pc_incomplete_reasons = [r], pc_complete = False\<rparr>"

definition is_complete :: "portable_completeness \<Rightarrow> bool" where
  "is_complete c \<longleftrightarrow> pc_complete c \<and> pc_incomplete_reasons c = []"

definition completeness_merge :: "portable_completeness \<Rightarrow> portable_completeness \<Rightarrow> portable_completeness" where
  "completeness_merge c other =
     \<lparr>pc_incomplete_reasons = remdups_adj (sort (pc_incomplete_reasons c @ pc_incomplete_reasons other)),
      pc_complete = (pc_complete c \<and> pc_complete other)\<rparr>"

lemma is_complete_simps [simp]:
  "is_complete completeness_complete" "\<not> is_complete completeness_default"
  "\<not> is_complete (completeness_incomplete r)"
  by (simp_all add: is_complete_def completeness_complete_def completeness_default_def
      completeness_incomplete_def)

lemma sort_eq_Nil [simp]: "sort xs = [] \<longleftrightarrow> xs = []"
  by (metis length_0_conv length_sort)

lemma is_complete_merge [simp]: "is_complete (completeness_merge c d) \<longleftrightarrow> is_complete c \<and> is_complete d"
  by (auto simp: is_complete_def completeness_merge_def)

lemma merge_reasons:
  "set (pc_incomplete_reasons (completeness_merge c d)) =
     set (pc_incomplete_reasons c) \<union> set (pc_incomplete_reasons d)"
  by (simp add: completeness_merge_def)

section \<open>Changes and batches\<close>

definition PORTABLE_SCOPE_ROOT_RELATIONSHIP :: string where
  "PORTABLE_SCOPE_ROOT_RELATIONSHIP = ''locality_scope_root''"

definition portable_scope_root_remote_id :: "source_object \<Rightarrow> remote_id option locality_result" where
  "portable_scope_root_remote_id ob =
     (case filter (\<lambda>edge. edge_relationship edge = PORTABLE_SCOPE_ROOT_RELATIONSHIP) (so_edges ob) of
        [] \<Rightarrow> Inr None
      | [edge] \<Rightarrow> Inr (Some (edge_target_remote_id edge))
      | _ \<Rightarrow> Inl (EInvalidState (''portable source `'' @ remote_id_str (so_remote_id ob)
               @ ''` returned multiple owning-root edges'')))"

record portable_source_change =
  ch_source_object :: source_object
  ch_logical_path :: "logical_path option"
  ch_requires_fetch :: bool

record portable_change_batch =
  cb_changes :: "portable_source_change list"
  cb_next_checkpoint :: portable_checkpoint
  cb_completeness :: portable_completeness

datatype portable_batch_authority = IncrementalAuthority | CompleteScopeSnapshot

record portable_change_batch_v2 =
  b2_changes :: "portable_source_change list"
  b2_next_checkpoint :: portable_checkpoint
  b2_completeness :: portable_completeness
  b2_covered_root_remote_ids :: "remote_id list"
  b2_authority :: portable_batch_authority

definition batch_v2_from :: "portable_change_batch \<Rightarrow> portable_change_batch_v2" where
  "batch_v2_from batch =
     \<lparr>b2_changes = cb_changes batch, b2_next_checkpoint = cb_next_checkpoint batch,
      b2_completeness = cb_completeness batch, b2_covered_root_remote_ids = [],
      b2_authority = IncrementalAuthority\<rparr>"

section \<open>Requests\<close>

record portable_bootstrap_request =
  br_source_connection_id :: source_connection_id
  br_scope :: portable_source_scope
  br_checkpoint :: "portable_checkpoint option"
  br_max_changes :: "32 word"

record portable_sync_hint =
  sh_remote_id :: remote_id

record portable_sync_hint_v2 =
  h2_remote_id :: remote_id
  h2_provider_version :: "string option"
  h2_logical_path :: "logical_path option"
  h2_source_kind :: "entity_kind option"
  h2_owning_root_remote_id :: "remote_id option"

datatype portable_sync_mode = HintsOnly | ReconcileScope

record portable_sync_request =
  sr_source_connection_id :: source_connection_id
  sr_scope :: portable_source_scope
  sr_checkpoint :: portable_checkpoint
  sr_hints :: "portable_sync_hint list"
  sr_max_changes :: "32 word"

record portable_sync_request_v2 =
  s2_source_connection_id :: source_connection_id
  s2_scope :: portable_source_scope
  s2_checkpoint :: portable_checkpoint
  s2_mode :: portable_sync_mode
  s2_hints :: "portable_sync_hint_v2 list"
  s2_max_changes :: "32 word"

definition into_legacy :: "portable_sync_request_v2 \<Rightarrow> portable_sync_request" where
  "into_legacy r =
     \<lparr>sr_source_connection_id = s2_source_connection_id r, sr_scope = s2_scope r,
      sr_checkpoint = s2_checkpoint r,
      sr_hints = map (\<lambda>hint. \<lparr>sh_remote_id = h2_remote_id hint\<rparr>) (s2_hints r),
      sr_max_changes = s2_max_changes r\<rparr>"

datatype portable_fetch_reason = FetchBootstrap | FetchSynchronization | FetchRepair

record portable_fetch_request =
  pf_source_connection_id :: source_connection_id
  pf_remote_id :: remote_id
  pf_reason :: portable_fetch_reason

record native_entity =
  ne_remote_id :: remote_id
  ne_kind :: string
  ne_raw :: string

record portable_fetch_result =
  fr_native :: native_entity
  fr_provider_version :: "string option"
  fr_completeness :: portable_completeness

record portable_render_request =
  pn_source_connection_id :: source_connection_id
  pn_logical_path :: logical_path
  pn_native :: native_entity
  pn_format_version :: "32 word"

record portable_content_artifact =
  ca_artifact_key :: portable_artifact_key
  ca_media_type :: string
  ca_body :: string

record portable_projection_artifact =
  pj_artifact :: portable_content_artifact
  pj_logical_path :: logical_path
  pj_file_kind :: projection_file_kind
  pj_format_version :: "32 word"
  pj_supported_actions :: "source_action set"

record portable_render_result =
  rn_canonical :: portable_content_artifact
  rn_projections :: "portable_projection_artifact list"
  rn_completeness :: portable_completeness

section \<open>Validation of v2 requests and responses\<close>

definition invalid_state :: "string \<Rightarrow> 'a locality_result" where
  "invalid_state msg = Inl (EInvalidState msg)"

lemma invalid_state_Inr [simp]: "invalid_state m \<noteq> Inr a" "Inr a \<noteq> invalid_state m" "isl (invalid_state m)"
  by (simp_all add: invalid_state_def)

definition validate_portable_sync_v2_id :: "string \<Rightarrow> string \<Rightarrow> unit locality_result" where
  "validate_portable_sync_v2_id v label =
     (if v = [] \<or> length v > 1024
      then invalid_state (''portable sync v2 '' @ label @ '' must contain 1..='' @ dec 1024 @ '' UTF-8 bytes'')
      else Inr ())"

text \<open>The loop that inserts the root ids into a set; \<open>seen\<close> is the set so far.\<close>

fun collect_roots :: "remote_id list \<Rightarrow> remote_id set \<Rightarrow> remote_id set locality_result" where
  "collect_roots [] seen = Inr seen"
| "collect_roots (r # rs) seen =
     rbind (validate_portable_sync_v2_id (remote_id_str r) ''scope root remote ID'') (\<lambda>_.
       if r \<in> seen then invalid_state ''portable sync v2 contains duplicate scope root remote IDs''
       else collect_roots rs (insert r seen))"

definition validate_portable_sync_v2_scope :: "portable_source_scope \<Rightarrow> remote_id set locality_result" where
  "validate_portable_sync_v2_scope scope =
     (if sc_mode scope = AllShared \<and> sc_root_remote_ids scope \<noteq> []
      then invalid_state ''portable all-shared scope must not contain explicit roots''
      else if sc_mode scope = RestrictedRoots \<and> sc_root_remote_ids scope = []
      then invalid_state ''portable sync v2 scope must contain at least one root''
      else if length (sc_root_remote_ids scope) > 256
      then invalid_state (''portable sync v2 has '' @ dec (length (sc_root_remote_ids scope))
             @ '' scope roots; maximum is '' @ dec 256)
      else collect_roots (sc_root_remote_ids scope) {})"

fun collect_covered :: "portable_source_scope \<Rightarrow> remote_id set \<Rightarrow> remote_id list \<Rightarrow> remote_id set \<Rightarrow> remote_id set locality_result" where
  "collect_covered scope requested [] seen = Inr seen"
| "collect_covered scope requested (r # rs) seen =
     rbind (validate_portable_sync_v2_id (remote_id_str r) ''covered root remote ID'') (\<lambda>_.
       if r \<in> seen then invalid_state ''portable sync v2 batch contains duplicate covered root remote IDs''
       else if sc_mode scope = RestrictedRoots \<and> r \<notin> requested
       then invalid_state ''portable sync v2 batch covers a root outside the requested scope''
       else collect_covered scope requested rs (insert r seen))"

definition has_exact_scope_coverage :: "portable_change_batch_v2 \<Rightarrow> portable_source_scope \<Rightarrow> bool locality_result" where
  "has_exact_scope_coverage batch scope =
     (if length (b2_covered_root_remote_ids batch) > 256
      then invalid_state (''portable sync v2 batch covers '' @ dec (length (b2_covered_root_remote_ids batch))
             @ '' scope roots; maximum is '' @ dec 256)
      else rbind (validate_portable_sync_v2_scope scope) (\<lambda>requested.
        rbind (collect_covered scope requested (b2_covered_root_remote_ids batch) {}) (\<lambda>covered.
          Inr (covered = requested))))"

definition max_changes_invalid :: "32 word \<Rightarrow> bool" where
  "max_changes_invalid n \<longleftrightarrow> n = 0 \<or> n > 10000"

definition validate_for_request ::
    "portable_change_batch_v2 \<Rightarrow> portable_source_scope \<Rightarrow> 32 word \<Rightarrow> bool locality_result" where
  "validate_for_request batch scope max_changes =
     (if max_changes_invalid max_changes
      then invalid_state (''portable sync v2 max_changes must be in 1..='' @ dec 10000)
      else if length (b2_changes batch) > unat max_changes
      then invalid_state (''portable sync v2 batch has '' @ dec (length (b2_changes batch))
             @ '' changes; request maximum is '' @ dec (unat max_changes))
      else if length (cp_opaque (b2_next_checkpoint batch)) > 65536
      then invalid_state (''portable sync v2 response checkpoint is ''
             @ dec (length (cp_opaque (b2_next_checkpoint batch))) @ '' UTF-8 bytes; maximum is '' @ dec 65536)
      else has_exact_scope_coverage batch scope)"

text \<open>The loop over the hints of a request; \<open>seen\<close> holds the hint ids so far.\<close>

fun validate_hints :: "portable_source_scope \<Rightarrow> remote_id set \<Rightarrow> portable_sync_hint_v2 list \<Rightarrow> remote_id set \<Rightarrow> unit locality_result" where
  "validate_hints scope scope_roots [] seen = Inr ()"
| "validate_hints scope scope_roots (hint # hints) seen =
     rbind (validate_portable_sync_v2_id (remote_id_str (h2_remote_id hint)) ''hint remote ID'') (\<lambda>_.
       if h2_remote_id hint \<in> seen
       then invalid_state ''portable sync v2 contains duplicate hint remote IDs''
       else if (case h2_provider_version hint of None \<Rightarrow> False | Some v \<Rightarrow> length v > 1024)
       then invalid_state (''portable sync v2 provider version exceeds '' @ dec 1024 @ '' UTF-8 bytes'')
       else if (case h2_source_kind hint of Some (UnknownKind k) \<Rightarrow> length k > 128 | _ \<Rightarrow> False)
       then invalid_state (''portable sync v2 source kind exceeds '' @ dec 128 @ '' UTF-8 bytes'')
       else case h2_owning_root_remote_id hint of
              None \<Rightarrow> invalid_state ''portable sync v2 hint must include an owning root''
            | Some root \<Rightarrow>
                rbind (validate_portable_sync_v2_id (remote_id_str root) ''owning root remote ID'') (\<lambda>_.
                  if sc_mode scope = RestrictedRoots \<and> root \<notin> scope_roots
                  then invalid_state ''portable sync v2 hint owning root is outside the request scope''
                  else validate_hints scope scope_roots hints (insert (h2_remote_id hint) seen)))"

definition validate_sync_request_v2 :: "portable_sync_request_v2 \<Rightarrow> unit locality_result" where
  "validate_sync_request_v2 r =
     rbind (validate_portable_sync_v2_id (s2_source_connection_id r) ''source connection ID'') (\<lambda>_.
       if length (cp_opaque (s2_checkpoint r)) > 65536
       then invalid_state (''portable sync v2 checkpoint is '' @ dec (length (cp_opaque (s2_checkpoint r)))
              @ '' UTF-8 bytes; maximum is '' @ dec 65536)
       else if length (s2_hints r) > 4096
       then invalid_state (''portable sync v2 has '' @ dec (length (s2_hints r)) @ '' hints; maximum is '' @ dec 4096)
       else if max_changes_invalid (s2_max_changes r)
       then invalid_state (''portable sync v2 max_changes must be in 1..='' @ dec 10000)
       else rbind (validate_portable_sync_v2_scope (s2_scope r)) (\<lambda>scope_roots.
         validate_hints (s2_scope r) scope_roots (s2_hints r) {}))"

section \<open>The connector\<close>

text \<open>The operations of the trait that portable hosts call. A call may observe and change the remote
  source, whose state is threaded through.\<close>

record 's portable_connector =
  k_bootstrap_portable :: "portable_bootstrap_request \<Rightarrow> 's \<Rightarrow> portable_change_batch locality_result \<times> 's"
  k_sync_portable :: "portable_sync_request \<Rightarrow> 's \<Rightarrow> portable_change_batch locality_result \<times> 's"
  k_sync_portable_v2_impl :: "portable_sync_request_v2 \<Rightarrow> 's \<Rightarrow> portable_change_batch_v2 locality_result \<times> 's"
  k_fetch_portable :: "portable_fetch_request \<Rightarrow> 's \<Rightarrow> portable_fetch_result locality_result \<times> 's"
  k_render_portable :: "portable_render_request \<Rightarrow> 's \<Rightarrow> portable_render_result locality_result \<times> 's"

text \<open>The provided methods of the trait.\<close>

definition default_bootstrap_portable ::
    "portable_bootstrap_request \<Rightarrow> 's \<Rightarrow> portable_change_batch locality_result \<times> 's" where
  "default_bootstrap_portable r s = (Inl (EUnsupported ''connector does not support portable bootstrap''), s)"

definition default_sync_portable ::
    "portable_sync_request \<Rightarrow> 's \<Rightarrow> portable_change_batch locality_result \<times> 's" where
  "default_sync_portable r s = (Inl (EUnsupported ''connector does not support portable synchronization''), s)"

definition default_sync_portable_v2_impl ::
    "(portable_sync_request \<Rightarrow> 's \<Rightarrow> portable_change_batch locality_result \<times> 's)
     \<Rightarrow> portable_sync_request_v2 \<Rightarrow> 's \<Rightarrow> portable_change_batch_v2 locality_result \<times> 's" where
  "default_sync_portable_v2_impl sync r s =
     host_bind (sync (into_legacy r) s) (\<lambda>batch s. (Inr (batch_v2_from batch), s))"

definition default_fetch_portable ::
    "portable_fetch_request \<Rightarrow> 's \<Rightarrow> portable_fetch_result locality_result \<times> 's" where
  "default_fetch_portable r s = (Inl (EUnsupported ''connector does not support portable fetch''), s)"

definition default_render_portable ::
    "portable_render_request \<Rightarrow> 's \<Rightarrow> portable_render_result locality_result \<times> 's" where
  "default_render_portable r s = (Inl (EUnsupported ''connector does not support portable render''), s)"

definition dispatch_portable_sync_v2 :: "'s portable_connector \<Rightarrow> portable_sync_request_v2 \<Rightarrow> 's
    \<Rightarrow> portable_change_batch_v2 locality_result \<times> 's" where
  "dispatch_portable_sync_v2 C r s =
     host_bind (validate_sync_request_v2 r, s) (\<lambda>_ s. k_sync_portable_v2_impl C r s)"

section \<open>What validation establishes\<close>

lemma validate_id_Inr [simp]:
  "validate_portable_sync_v2_id v label = Inr u \<longleftrightarrow> v \<noteq> [] \<and> length v \<le> 1024"
  by (simp add: validate_portable_sync_v2_id_def not_less)

lemma collect_roots_Inr:
  "collect_roots rs seen = Inr found \<longleftrightarrow>
   found = seen \<union> set rs \<and> distinct rs \<and> set rs \<inter> seen = {}
   \<and> (\<forall>r\<in>set rs. remote_id_str r \<noteq> [] \<and> length (remote_id_str r) \<le> 1024)"
  by (induction rs arbitrary: seen) (auto simp: rbind_Inr_iff)

lemma validate_scope_Inr:
  "validate_portable_sync_v2_scope scope = Inr roots \<longleftrightarrow>
   roots = set (sc_root_remote_ids scope) \<and> distinct (sc_root_remote_ids scope)
   \<and> (sc_mode scope = AllShared \<longleftrightarrow> sc_root_remote_ids scope = [])
   \<and> length (sc_root_remote_ids scope) \<le> 256
   \<and> (\<forall>r\<in>set (sc_root_remote_ids scope). remote_id_str r \<noteq> [] \<and> length (remote_id_str r) \<le> 1024)"
  by (cases "sc_mode scope") (auto simp: validate_portable_sync_v2_scope_def collect_roots_Inr not_less)

lemma collect_covered_Inr:
  "collect_covered scope requested rs seen = Inr found \<Longrightarrow>
   found = seen \<union> set rs \<and> distinct rs \<and> set rs \<inter> seen = {} \<and> (sc_mode scope = RestrictedRoots \<longrightarrow> set rs \<subseteq> requested)"
  by (induction rs arbitrary: seen) (auto simp: rbind_Inr_iff split: if_splits)

lemma exact_coverage:
  assumes "validate_for_request batch scope n = Inr exact"
  shows "exact \<longleftrightarrow> set (b2_covered_root_remote_ids batch) = set (sc_root_remote_ids scope)"
    and "length (b2_changes batch) \<le> unat n" and "length (b2_changes batch) \<le> 10000"
    and "sc_mode scope = RestrictedRoots \<Longrightarrow>
      set (b2_covered_root_remote_ids batch) \<subseteq> set (sc_root_remote_ids scope)"
proof -
  have n: "\<not> max_changes_invalid n" "length (b2_changes batch) \<le> unat n"
    and cov: "has_exact_scope_coverage batch scope = Inr exact"
    using assms by (auto simp: validate_for_request_def split: if_splits)
  from cov obtain requested covered where
    r: "validate_portable_sync_v2_scope scope = Inr requested"
    and c: "collect_covered scope requested (b2_covered_root_remote_ids batch) {} = Inr covered"
    and e: "exact \<longleftrightarrow> covered = requested"
    by (auto simp: has_exact_scope_coverage_def rbind_Inr_iff split: if_splits)
  show "exact \<longleftrightarrow> set (b2_covered_root_remote_ids batch) = set (sc_root_remote_ids scope)"
    using collect_covered_Inr[OF c] e r[unfolded validate_scope_Inr] by simp
  show "sc_mode scope = RestrictedRoots \<Longrightarrow>
      set (b2_covered_root_remote_ids batch) \<subseteq> set (sc_root_remote_ids scope)"
    using collect_covered_Inr[OF c] r[unfolded validate_scope_Inr] by simp
  have "unat n \<le> 10000" using n(1) by (simp add: max_changes_invalid_def word_less_nat_alt)
  with n(2) show "length (b2_changes batch) \<le> unat n" "length (b2_changes batch) \<le> 10000" by simp_all
qed

end
