(* ===== verification/Discovery_Store.thy ===== *)
theory Discovery_Store
  imports Store_Memory
begin

text \<open>
  The discovery transactions of \<open>InMemoryStateStore\<close> (\<open>locality-store/src/memory.rs\<close>, the trait
  \<open>DiscoveryRepository\<close>) and the application of a discovery commit to the store.
\<close>

section \<open>Reservations\<close>

definition capture_discovery_reservation :: "mount_id \<Rightarrow> state_store \<Rightarrow> store_error + discovery_reservation" where
  "capture_discovery_reservation mount s =
     (case bm_get (st_mounts s) mount of
        None \<Rightarrow> Inl (MountMissing mount)
      | Some m \<Rightarrow> Inr
          \<lparr>rv_mount = m, rv_mount_live_mode = bm_get (st_mount_live_modes s) mount,
           rv_checkpoint = bm_get (st_connector_states s) (mc_connector m, ''mount'', mount_id_str mount),
           rv_entities = filter (\<lambda>r. er_mount_id r = mount) (bm_values (st_entities s)),
           rv_shadows = filter (\<lambda>r. ss_mount_id r = mount) (bm_values (st_shadows s)),
           rv_hydration_jobs = filter (\<lambda>r. hj_mount_id r = mount) (bm_values (st_hydration_jobs s)),
           rv_virtual_mutations = filter (\<lambda>r. vm_mount_id r = mount) (bm_values (st_virtual_mutations s)),
           rv_auto_save_enrollments =
             filter (\<lambda>r. as_mount_id r = mount) (bm_values (st_auto_save_enrollments s)),
           rv_remote_observations = filter (\<lambda>r. rr_mount_id r = mount) (bm_values (st_remote_observations s)),
           rv_freshness_states = filter (\<lambda>r. fs_mount_id r = mount) (bm_values (st_freshness_states s)),
           rv_metadata_discovery_jobs =
             filter (\<lambda>r. md_mount_id r = mount) (bm_values (st_metadata_discovery_jobs s)),
           rv_unsettled_journals =
             filter (\<lambda>j. je_mount_id j = mount \<and> is_unsettled (je_status j)) (bm_values (st_journals s))\<rparr>)"

definition put_transaction :: "discovery_transaction_record \<Rightarrow> state_store \<Rightarrow> state_store" where
  "put_transaction r s =
     s\<lparr>st_discovery_transactions := bm_insert (tr_transaction_id r) r (st_discovery_transactions s)\<rparr>"

definition reserve_discovery_transaction ::
    "(string \<Rightarrow> string + json) \<Rightarrow> prepared_discovery_transaction \<Rightarrow> discovery_transaction_record store_op" where
  "reserve_discovery_transaction parse_json p s =
     (let i = tc_transaction_id (pd_commit p); mount = dc_mount_id (tc_commit (pd_commit p)) in
      case bm_get (st_discovery_transactions s) i of
        Some existing \<Rightarrow>
          if prepared_matches_record p existing then (Inr existing, s)
          else (Inl (transaction_error i '' reservation retry does not match its immutable payload''), s)
      | None \<Rightarrow>
          (case List.find (\<lambda>r. tr_mount_id r = mount \<and> tr_active r)
                  (bm_values (st_discovery_transactions s)) of
             Some active \<Rightarrow>
               (Inl (StoreInvalidState (''mount `'' @ mount_id_str mount
                  @ ''` already has active discovery transaction `''
                  @ discovery_transaction_id_str (tr_transaction_id active) @ ''`'')), s)
           | None \<Rightarrow>
               (case rbind (capture_discovery_reservation mount s) (record_from_prepared parse_json p) of
                  Inl e \<Rightarrow> (Inl e, s)
                | Inr r \<Rightarrow>
                    (Inr r, s\<lparr>st_discovery_transactions := bm_insert i r (st_discovery_transactions s)\<rparr>))))"

definition get_discovery_transaction ::
    "discovery_transaction_id \<Rightarrow> state_store \<Rightarrow> discovery_transaction_record option" where
  "get_discovery_transaction i s = bm_get (st_discovery_transactions s) i"

definition list_active_discovery_transactions :: "state_store \<Rightarrow> discovery_transaction_record list" where
  "list_active_discovery_transactions s =
     sort_key (\<lambda>r. (tr_mount_id r, tr_transaction_id r))
       (filter tr_active (bm_values (st_discovery_transactions s)))"

section \<open>Transitions\<close>

definition illegal_transition ::
    "discovery_transaction_id \<Rightarrow> discovery_transaction_status \<Rightarrow> discovery_transaction_status \<Rightarrow> store_error" where
  "illegal_transition i from_status to_status =
     transaction_error i ('' cannot transition from `'' @ status_as_str from_status @ ''` to `''
       @ status_as_str to_status @ ''`'')"

text \<open>\<open>get_mut\<close>, the check of the expected status, then the assignments to the record.\<close>

definition update_transaction ::
    "discovery_transaction_id \<Rightarrow> discovery_transaction_status
      \<Rightarrow> (discovery_transaction_record \<Rightarrow> discovery_transaction_record) \<Rightarrow> discovery_transaction_record store_op" where
  "update_transaction i expected f s =
     (case bm_get (st_discovery_transactions s) i of
        None \<Rightarrow> (Inl (transaction_missing i), s)
      | Some r \<Rightarrow>
          (case require_transaction_status r expected of
             Inl e \<Rightarrow> (Inl e, s)
           | Inr _ \<Rightarrow>
               (Inr (f r), s\<lparr>st_discovery_transactions := bm_insert i (f r) (st_discovery_transactions s)\<rparr>)))"

definition transition_discovery_transaction ::
    "discovery_transaction_id \<Rightarrow> discovery_transaction_status \<Rightarrow> discovery_transaction_status \<Rightarrow> string
      \<Rightarrow> discovery_transaction_record store_op" where
  "transition_discovery_transaction i expected next_status updated_at =
     update_transaction i expected (\<lambda>r. r\<lparr>tr_status := next_status, tr_active := status_is_active next_status,
       tr_updated_at := updated_at\<rparr>)"

definition mark_discovery_transaction_applying ::
    "discovery_transaction_id \<Rightarrow> string \<Rightarrow> discovery_transaction_record store_op" where
  "mark_discovery_transaction_applying i updated_at =
     transition_discovery_transaction i TxReserved TxApplying updated_at"

definition record_discovery_transaction_effects ::
    "discovery_transaction_id \<Rightarrow> discovery_transaction_status \<Rightarrow> json \<Rightarrow> string
      \<Rightarrow> discovery_transaction_record store_op" where
  "record_discovery_transaction_effects i expected effects updated_at =
     update_transaction i expected (\<lambda>r. r\<lparr>tr_effects := canonicalize_json_value effects,
       tr_updated_at := updated_at\<rparr>)"

definition mark_discovery_transaction_projected ::
    "discovery_transaction_id \<Rightarrow> discovery_transaction_status \<Rightarrow> string \<Rightarrow> discovery_transaction_record store_op" where
  "mark_discovery_transaction_projected i expected updated_at s =
     (if expected \<notin> {TxApplying, TxRepairPending}
      then (Inl (illegal_transition i expected TxProjected), s)
      else transition_discovery_transaction i expected TxProjected updated_at s)"

definition mark_discovery_transaction_repair_pending ::
    "discovery_transaction_id \<Rightarrow> discovery_transaction_status \<Rightarrow> json \<Rightarrow> string
      \<Rightarrow> discovery_transaction_record store_op" where
  "mark_discovery_transaction_repair_pending i expected error updated_at s =
     (if expected \<notin> {TxApplying, TxProjected}
      then (Inl (illegal_transition i expected TxRepairPending), s)
      else update_transaction i expected (\<lambda>r. r\<lparr>tr_status := TxRepairPending,
        tr_error := Some (canonicalize_json_value error), tr_updated_at := updated_at\<rparr>) s)"

definition mark_discovery_transaction_aborted ::
    "discovery_transaction_id \<Rightarrow> discovery_transaction_status \<Rightarrow> string \<Rightarrow> discovery_transaction_record store_op" where
  "mark_discovery_transaction_aborted i expected updated_at s =
     (if expected \<notin> {TxReserved, TxApplying, TxProjected, TxRepairPending}
      then (Inl (illegal_transition i expected TxAborted), s)
      else transition_discovery_transaction i expected TxAborted updated_at s)"

text \<open>The finalized record is inserted again with its time.\<close>

definition mark_discovery_transaction_finalized ::
    "discovery_transaction_id \<Rightarrow> string \<Rightarrow> discovery_transaction_record store_op" where
  "mark_discovery_transaction_finalized i finalized_at s =
     (case transition_discovery_transaction i TxCommitted TxFinalized finalized_at s of
        (Inl e, s') \<Rightarrow> (Inl e, s')
      | (Inr r, s') \<Rightarrow>
          let r' = r\<lparr>tr_finalized_at := Some finalized_at\<rparr>
          in (Inr r', s'\<lparr>st_discovery_transactions := bm_insert i r' (st_discovery_transactions s')\<rparr>))"

section \<open>Applying a commit\<close>

text \<open>The entities of other mounts stay, those of the mount are the final ones; the index by path is
  collected anew.\<close>

definition final_store_entities ::
    "mount_id \<Rightarrow> (remote_id, entity_record) btree_map \<Rightarrow> state_store
      \<Rightarrow> (mount_id \<times> remote_id, entity_record) btree_map" where
  "final_store_entities mount final s =
     bm_extend (not_in_mount mount (st_entities s)) (map (\<lambda>e. (entity_key e, e)) (bm_values final))"

definition collect_paths ::
    "(mount_id \<times> remote_id, entity_record) btree_map \<Rightarrow> (mount_id \<times> path, remote_id) btree_map" where
  "collect_paths entities = bm_collect (map (\<lambda>e. (path_key e, er_remote_id e)) (bm_values entities))"

definition delete_discovered :: "mount_id \<Rightarrow> remote_id \<Rightarrow> state_store \<Rightarrow> state_store" where
  "delete_discovered mount i s =
     s\<lparr>st_shadows := bm_remove (mount, i) (st_shadows s),
       st_hydration_jobs := bm_remove (mount, i) (st_hydration_jobs s),
       st_remote_observations := bm_remove (mount, i) (st_remote_observations s),
       st_freshness_states := bm_remove (mount, i) (st_freshness_states s),
       st_entities := bm_remove (mount, i) (st_entities s)\<rparr>"

definition enrollment_kept :: "mount_id \<Rightarrow> remote_id set \<Rightarrow> path set \<Rightarrow> mount_id \<times> path
    \<Rightarrow> auto_save_enrollment_record \<Rightarrow> bool" where
  "enrollment_kept mount deleted_ids deleted_paths k e \<longleftrightarrow>
     fst k \<noteq> mount
   \<or> (\<not> (case as_remote_id e of None \<Rightarrow> False | Some i \<Rightarrow> i \<in> deleted_ids) \<and> snd k \<notin> deleted_paths)"

definition move_hydration_job :: "mount_id \<Rightarrow> path_move \<Rightarrow> state_store \<Rightarrow> state_store" where
  "move_hydration_job mount mv s =
     (case mv of (i, _, new_path) \<Rightarrow>
        s\<lparr>st_hydration_jobs := bm_modify (mount, i) (\<lambda>j. j\<lparr>hj_path := new_path\<rparr>) (st_hydration_jobs s)\<rparr>)"

fun store_rehomes ::
    "mount_id \<Rightarrow> auto_save_rehome list \<Rightarrow> (mount_id \<times> path, auto_save_enrollment_record) btree_map
      \<Rightarrow> store_error + (mount_id \<times> path, auto_save_enrollment_record) btree_map" where
  "store_rehomes mount [] m = Inr m"
| "store_rehomes mount (r # rs) m =
     (let e = ah_enrollment r; k = (mount, as_path e) in
      if bm_get m k \<noteq> None
      then Inl (StoreInvalidState (''cannot rehome auto-save enrollment to occupied path `''
             @ path_display (as_path e) @ ''`''))
      else store_rehomes mount rs (bm_insert k e m))"

text \<open>What \<open>apply_discovery\<close> does after its preflight. On an error the source leaves the state it worked
  on half changed; its only caller works on a clone.\<close>

definition install_discovery :: "discovery_commit \<Rightarrow> discovery_preflight \<Rightarrow> state_store \<Rightarrow> store_error + state_store" where
  "install_discovery c d s =
     (let mount = dc_mount_id c;
          deleted_paths = set (bm_values (pf_deleted_paths d));
          final_entities = final_store_entities mount (pf_final_entities d) s;
          s1 = fold (delete_discovered mount) (dc_entity_deletes c) s;
          s2 = s1\<lparr>st_auto_save_enrollments :=
                 bm_retain (enrollment_kept mount (pf_entity_deletes d) deleted_paths) (st_auto_save_enrollments s1)\<rparr>;
          s3 = fold (delete_metadata_discovery_job mount) (dc_metadata_discovery_deletes c) s2;
          s4 = fold (delete_virtual_mutation mount) (dc_virtual_mutation_deletes c) s3;
          s5 = fold (move_hydration_job mount) (pf_path_moves d) s4;
          s6 = fold (\<lambda>r. delete_auto_save_enrollment mount (ah_old_path r)) (pf_auto_save_rehomes d) s5 in
      rbind (store_rehomes mount (pf_auto_save_rehomes d) (st_auto_save_enrollments s6)) (\<lambda>enrollments.
      let s7 = fold save_auto_save_enrollment (dc_auto_save_upserts c)
                 (s6\<lparr>st_auto_save_enrollments := enrollments\<rparr>);
          s8 = s7\<lparr>st_entities := final_entities, st_entities_by_path := collect_paths final_entities\<rparr>;
          s9 = fold save_remote_observation (dc_observation_upserts c) s8;
          s10 = fold save_freshness_state (dc_freshness_upserts c) s9 in
      Inr (save_connector_state (dc_checkpoint c) s10)))"

definition apply_discovery ::
    "(string \<Rightarrow> string + json) \<Rightarrow> discovery_commit \<Rightarrow> state_store \<Rightarrow> store_error + state_store" where
  "apply_discovery parse_json c s =
     (case bm_get (st_mounts s) (dc_mount_id c) of
        None \<Rightarrow> Inl (MountMissing (dc_mount_id c))
      | Some m \<Rightarrow>
          rbind (preflight_details parse_json c (mc_connector m)
                   (filter (\<lambda>e. er_mount_id e = dc_mount_id c) (bm_values (st_entities s)))
                   (filter (\<lambda>e. as_mount_id e = dc_mount_id c) (bm_values (st_auto_save_enrollments s)))
                   (filter (\<lambda>v. vm_mount_id v = dc_mount_id c) (bm_values (st_virtual_mutations s))))
            (\<lambda>d. install_discovery c d s))"

definition commit_discovery_transaction ::
    "(string \<Rightarrow> string + json) \<Rightarrow> discovery_transaction_id \<Rightarrow> string \<Rightarrow> discovery_transaction_record store_op" where
  "commit_discovery_transaction parse_json i committed_at s =
     (case rbind (ok_or (transaction_missing i) (bm_get (st_discovery_transactions s) i)) (\<lambda>r.
           rbind (require_transaction_status r TxProjected) (\<lambda>_.
           if tc_transaction_id (tr_commit r) \<noteq> i
           then Inl (transaction_error i '' stored commit identifier does not match its row'')
           else rbind (capture_discovery_reservation (tr_mount_id r) s) (\<lambda>current.
             case changed_category (tr_reservation r) current of
               Some category \<Rightarrow> Inl (reservation_changed i category)
             | None \<Rightarrow>
                 rbind (apply_discovery parse_json (tc_commit (tr_commit r)) s) (\<lambda>s'.
                   let r' = r\<lparr>tr_status := TxCommitted, tr_active := True, tr_updated_at := committed_at,
                                tr_committed_at := Some committed_at, tr_error := None\<rparr>
                   in Inr (r', s'\<lparr>st_discovery_transactions :=
                                     bm_insert i r' (st_discovery_transactions s')\<rparr>))))) of
        Inl e \<Rightarrow> (Inl e, s)
      | Inr (r', s') \<Rightarrow> (Inr r', s'))"

end
