(* ===== verification/Discovery_Facts.thy ===== *)
theory Discovery_Facts
  imports Discovery_Store
begin

text \<open>
  Facts of discovery commits: what a passed preflight guarantees, why the application of a commit that
  passed cannot fail any more, and what the store holds afterwards.
\<close>

section \<open>What validation guarantees\<close>

lemma validate_auto_saves_Inr:
  "validate_auto_saves mount es paths owners = Inr u \<longleftrightarrow>
     (\<forall>e\<in>set es. as_mount_id e = mount) \<and> distinct (map as_path es) \<and> as_path ` set es \<inter> paths = {}
   \<and> distinct (List.map_filter as_remote_id es) \<and> set (List.map_filter as_remote_id es) \<inter> owners = {}"
  by (induction es arbitrary: paths owners) (auto simp: map_filter_simps split: option.split)

lemma commit_validate_Inr:
  assumes "commit_validate parse_json c = Inr u"
  shows "\<forall>e\<in>set (dc_entity_upserts c). er_mount_id e = dc_mount_id c"
    "distinct (map er_remote_id (dc_entity_upserts c))"
    "distinct (dc_entity_deletes c)"
    "\<forall>r\<in>set (dc_observation_upserts c). rr_mount_id r = dc_mount_id c"
    "\<forall>r\<in>set (dc_freshness_upserts c). fs_mount_id r = dc_mount_id c"
    "validate_auto_saves (dc_mount_id c) (dc_auto_save_upserts c) {} {} = Inr ()"
    "set (dc_entity_deletes c) \<inter> er_remote_id ` set (dc_entity_upserts c) = {}"
    "set (dc_entity_deletes c) \<inter> rr_remote_id ` set (dc_observation_upserts c) = {}"
    "set (dc_entity_deletes c) \<inter> fs_remote_id ` set (dc_freshness_upserts c) = {}"
    "cs_scope_kind (dc_checkpoint c) = ''mount''" "cs_scope_id (dc_checkpoint c) = mount_id_str (dc_mount_id c)"
proof -
  obtain ids ds os fs where
    ids: "collect_entities (dc_mount_id c) (dc_entity_upserts c) {} {} = Inr ids" and
    ds: "collect_unique (\<lambda>_. Inr ()) id
        (\<lambda>i. ''discovery commit contains duplicate entity delete `'' @ remote_id_str i @ ''`'')
        (dc_entity_deletes c) {} = Inr ds" and
    os: "collect_unique (\<lambda>r. validate_mount ''observation'' (rr_remote_id r) (rr_mount_id r) (dc_mount_id c))
        rr_remote_id (\<lambda>i. ''discovery commit contains duplicate observation upsert `'' @ remote_id_str i @ ''`'')
        (dc_observation_upserts c) {} = Inr os" and
    fs: "collect_unique (\<lambda>r. validate_mount ''freshness state'' (fs_remote_id r) (fs_mount_id r) (dc_mount_id c))
        fs_remote_id (\<lambda>i. ''discovery commit contains duplicate freshness upsert `'' @ remote_id_str i @ ''`'')
        (dc_freshness_upserts c) {} = Inr fs" and
    saves: "validate_auto_saves (dc_mount_id c) (dc_auto_save_upserts c) {} {} = Inr ()" and
    disj: "both_deleted_and_upserted ds (ids \<union> os \<union> fs) = Inr ()" and
    check: "validate_checkpoint parse_json (dc_mount_id c) (dc_checkpoint c) = Inr u"
    using assms unfolding commit_validate_def Let_def rbind_Inr_iff
    by (elim exE conjE) (rule that; simp)
  have dsd: "ds = set (dc_entity_deletes c)" "distinct (dc_entity_deletes c)"
    using ds by (simp_all add: collect_unique_Inr)
  have ids': "ids = er_remote_id ` set (dc_entity_upserts c)" "os = rr_remote_id ` set (dc_observation_upserts c)"
    "fs = fs_remote_id ` set (dc_freshness_upserts c)"
    using ids os fs by (simp_all add: collect_unique_Inr collect_entities_Inr)
  have "ds \<inter> (ids \<union> os \<union> fs) = {}"
    using disj dsd by (simp add: both_deleted_and_upserted_Inr)
  then show "set (dc_entity_deletes c) \<inter> er_remote_id ` set (dc_entity_upserts c) = {}"
    "set (dc_entity_deletes c) \<inter> rr_remote_id ` set (dc_observation_upserts c) = {}"
    "set (dc_entity_deletes c) \<inter> fs_remote_id ` set (dc_freshness_upserts c) = {}"
    unfolding ids' dsd by blast+
  show "cs_scope_kind (dc_checkpoint c) = ''mount''" "cs_scope_id (dc_checkpoint c) = mount_id_str (dc_mount_id c)"
    using check by (auto simp: validate_checkpoint_def split: if_splits)
qed (use assms in \<open>auto simp: commit_validate_def Let_def rbind_Inr_iff collect_unique_Inr collect_entities_Inr\<close>)

section \<open>The final entities\<close>

lemma unique_paths_Inr:
  "unique_paths mount es m = Inr u \<Longrightarrow>
     (\<forall>e\<in>set es. \<forall>f\<in>set es. er_path e = er_path f \<longrightarrow> er_remote_id e = er_remote_id f)
   \<and> (\<forall>e\<in>set es. bm_get m (er_path e) \<in> {None, Some (er_remote_id e)})"
proof (induction es arbitrary: m)
  case (Cons e es)
  let ?m = "bm_insert (er_path e) (er_remote_id e) m"
  have ok: "bm_get m (er_path e) \<in> {None, Some (er_remote_id e)}" "unique_paths mount es ?m = Inr u"
    using Cons.prems by (auto split: option.splits if_splits)
  from Cons.IH[OF ok(2)] have IH: "(\<forall>e\<in>set es. \<forall>f\<in>set es. er_path e = er_path f \<longrightarrow> er_remote_id e = er_remote_id f)
      \<and> (\<forall>e\<in>set es. bm_get ?m (er_path e) \<in> {None, Some (er_remote_id e)})" .
  have f: "(er_path f = er_path e \<longrightarrow> er_remote_id f = er_remote_id e) \<and> bm_get m (er_path f) \<in> {None, Some (er_remote_id f)}"
    if "f \<in> set es" for f
  proof -
    have g: "bm_get ?m (er_path f) \<in> {None, Some (er_remote_id f)}" using IH that by blast
    then show ?thesis using ok(1) by (cases "er_path f = er_path e") (simp_all add: bm_get_insert)
  qed
  show ?case
  proof (intro conjI ballI impI)
    show "er_remote_id x = er_remote_id y"
      if "x \<in> set (e # es)" "y \<in> set (e # es)" "er_path x = er_path y" for x y
    proof -
      consider "x = e" "y = e" | "x = e" "y \<in> set es" | "x \<in> set es" "y = e" | "x \<in> set es" "y \<in> set es"
        using \<open>x \<in> set (e # es)\<close> \<open>y \<in> set (e # es)\<close> by auto
      then show ?thesis
        by cases (use \<open>er_path x = er_path y\<close> f IH in metis)+
    qed
    show "bm_get m (er_path x) \<in> {None, Some (er_remote_id x)}" if "x \<in> set (e # es)" for x
      using that f ok(1) by (metis set_ConsD)
  qed
qed simp

lemma get_collect_by: "distinct (map k xs) \<Longrightarrow>
  bm_get (bm_collect (map (\<lambda>x. (k x, x)) xs)) j = List.find (\<lambda>x. k x = j) xs"
proof -
  assume d: "distinct (map k xs)"
  have "bm_get (bm_collect (map (\<lambda>x. (k x, x)) xs)) j = map_of (map (\<lambda>x. (k x, x)) xs) j"
    using d by (simp add: bm.get_collect map_of_rev_distinct comp_def)
  also have "\<dots> = List.find (\<lambda>x. k x = j) xs" by (induction xs) auto
  finally show ?thesis .
qed

lemma keyed_entities_by_id: "keyed er_remote_id (entities_by_id es)"
  unfolding entities_by_id_def by (rule keyed_extend) simp

lemma final_entities_keyed: "keyed er_remote_id (final_entities_by_id c existing)"
  unfolding final_entities_by_id_def
  by (intro keyed_extend keyed_remove_all keyed_entities_by_id)

lemma final_entity_map_Inr:
  assumes "final_entity_map c existing = Inr final"
  shows "final = final_entities_by_id c existing"
    "\<And>i e j f. bm_get final i = Some e \<Longrightarrow> bm_get final j = Some f \<Longrightarrow> er_path e = er_path f \<Longrightarrow> i = j"
proof -
  have f: "final = final_entities_by_id c existing" and u: "unique_paths (dc_mount_id c) (bm_values final) [] = Inr ()"
    using assms by (auto simp: final_entity_map_def Let_def rbind_Inr_iff)
  show "final = final_entities_by_id c existing" by (rule f)
  have k: "keyed er_remote_id final" unfolding f by (rule final_entities_keyed)
  fix i e j g
  assume *: "bm_get final i = Some e" "bm_get final j = Some g" "er_path e = er_path g"
  then have "e \<in> set (bm_values final)" "g \<in> set (bm_values final)"
    using bm_values_iff[OF keyed_bm_sorted[OF k]] by blast+
  with unique_paths_Inr[OF u] *(3) have "er_remote_id e = er_remote_id g" by blast
  with * keyed_get[OF k] show "i = j" by metis
qed

text \<open>What the final map holds under an id: the upsert, else nothing when deleted, else what there was.\<close>

lemma final_entities_get:
  assumes "distinct (map er_remote_id (dc_entity_upserts c))"
  shows "bm_get (final_entities_by_id c existing) i =
     (case List.find (\<lambda>e. er_remote_id e = i) (dc_entity_upserts c) of
        Some e \<Rightarrow> Some e
      | None \<Rightarrow> if i \<in> set (dc_entity_deletes c) then None else bm_get (entities_by_id existing) i)"
proof -
  let ?m = "fold bm_remove (dc_entity_deletes c) (entities_by_id existing)"
  have s: "bm_sorted (entities_by_id existing)" by (rule keyed_bm_sorted[OF keyed_entities_by_id])
  then have "bm_sorted ?m" by (rule bmr.inv_remove_all)
  then have "bm_get (final_entities_by_id c existing) i =
      (case bm_get (bm_collect (map (\<lambda>e. (er_remote_id e, e)) (dc_entity_upserts c))) i of
         None \<Rightarrow> bm_get ?m i | Some e \<Rightarrow> Some e)"
    by (simp add: final_entities_by_id_def bm.get_extend bm.get_collect)
  then show ?thesis
    using bmr.get_remove_all[OF s] by (simp add: get_collect_by[OF assms] split: option.split)
qed

section \<open>Auto-save enrollments\<close>

text \<open>The enrollments of one mount in the store and the map by path that the plan works on.\<close>

definition agree ::
    "mount_id \<Rightarrow> (mount_id \<times> path, auto_save_enrollment_record) btree_map \<Rightarrow> enrollments \<Rightarrow> bool" where
  "agree mount M m \<longleftrightarrow> (\<forall>p. bm_get M (mount, p) = bm_get m p)"

lemma option_eqI: "(\<And>v. x = Some v \<longleftrightarrow> y = Some v) \<Longrightarrow> x = y"
  by (cases x; cases y) auto

text \<open>The records of one mount, collected again under the rest of their key.\<close>

lemma get_collected:
  assumes k: "keyed (\<lambda>x. (mnt x, sub x)) M"
  shows "bm_get (bm_collect (map (\<lambda>x. (sub x, x)) (filter P (filter (\<lambda>x. mnt x = mount) (bm_values M))))) p =
     (case bm_get M (mount, p) of None \<Rightarrow> None | Some x \<Rightarrow> if P x then Some x else None)"
    (is "bm_get (bm_collect (map _ ?xs)) p = ?rhs")
proof -
  have "inj_on sub (set ?xs)"
  proof (rule inj_onI)
    fix e f
    assume "e \<in> set ?xs" "f \<in> set ?xs" "sub e = sub f"
    then have "(mnt e, sub e) = (mnt f, sub f)" "e \<in> set (bm_values M)" "f \<in> set (bm_values M)" by auto
    then show "e = f" using keyed_values[OF k] by (metis option.inject)
  qed
  moreover have "distinct ?xs"
    using iffD1[OF distinct_map keyed_distinct[OF k]] by (intro distinct_filter) simp
  ultimately have d: "distinct (map sub ?xs)" by (simp add: distinct_map)
  have "bm_get (bm_collect (map (\<lambda>x. (sub x, x)) ?xs)) p = Some e \<longleftrightarrow> ?rhs = Some e" for e
  proof -
    have "bm_get (bm_collect (map (\<lambda>x. (sub x, x)) ?xs)) p = Some e
        \<longleftrightarrow> (p, e) \<in> set (map (\<lambda>x. (sub x, x)) ?xs)"
      using d by (simp add: bm.get_collect map_of_rev_distinct comp_def)
    also have "\<dots> \<longleftrightarrow> e \<in> set (bm_values M) \<and> mnt e = mount \<and> sub e = p \<and> P e" by auto
    also have "\<dots> \<longleftrightarrow> bm_get M (mount, p) = Some e \<and> P e"
      using keyed_values[OF k, of e] keyed_get[OF k, of "(mount, p)" e] by auto
    also have "\<dots> \<longleftrightarrow> ?rhs = Some e" by (auto split: option.splits)
    finally show ?thesis .
  qed
  then show ?thesis by (rule option_eqI)
qed

lemma keyed_pair: "keyed auto_save_key M \<longleftrightarrow> keyed (\<lambda>e. (as_mount_id e, as_path e)) M"
  "keyed entity_key es \<longleftrightarrow> keyed (\<lambda>e. (er_mount_id e, er_remote_id e)) es"
  by (simp_all add: keyed_def auto_save_key_def entity_key_def)

lemmas get_collected_enrollments = get_collected[OF iffD1[OF keyed_pair(1)]]
lemmas get_collected_entities = get_collected[OF iffD1[OF keyed_pair(2)]]

lemma store_rehomes_agree:
  "insert_rehomes rs m = Inr m' \<Longrightarrow> agree mount M m \<Longrightarrow>
   \<exists>M'. store_rehomes mount rs M = Inr M' \<and> agree mount M' m'
     \<and> (\<forall>n p. n \<noteq> mount \<longrightarrow> bm_get M' (n, p) = bm_get M (n, p))"
proof (induction rs arbitrary: m M)
  case (Cons r rs)
  let ?e = "ah_enrollment r"
  let ?M = "bm_insert (mount, as_path ?e) ?e M"
  from Cons.prems have free: "bm_get m (as_path ?e) = None"
    and rest: "insert_rehomes rs (bm_insert (as_path ?e) ?e m) = Inr m'"
    by (auto split: option.splits)
  have "agree mount ?M (bm_insert (as_path ?e) ?e m)"
    using Cons.prems(2) by (auto simp: agree_def bm_get_insert)
  from Cons.IH[OF rest this] obtain M' where "store_rehomes mount rs ?M = Inr M'" "agree mount M' m'"
    "\<forall>n p. n \<noteq> mount \<longrightarrow> bm_get M' (n, p) = bm_get ?M (n, p)" by blast
  moreover have "bm_get M (mount, as_path ?e) = None" using Cons.prems(2) free by (simp add: agree_def)
  ultimately show ?case by (auto simp: Let_def bm_get_insert)
qed auto

lemma keyed_store_rehomes:
  "store_rehomes mount rs M = Inr M' \<Longrightarrow> \<forall>r\<in>set rs. as_mount_id (ah_enrollment r) = mount \<Longrightarrow>
   keyed auto_save_key M \<Longrightarrow> keyed auto_save_key M'"
proof (induction rs arbitrary: M)
  case (Cons r rs)
  have "keyed auto_save_key (bm_insert (mount, as_path (ah_enrollment r)) (ah_enrollment r) M)"
  proof -
    have "auto_save_key (ah_enrollment r) = (mount, as_path (ah_enrollment r))"
      using Cons.prems(2) by (simp add: auto_save_key_def)
    with keyed_insert[OF Cons.prems(3), of "ah_enrollment r"] show ?thesis by metis
  qed
  with Cons.IH Cons.prems show ?case by (auto simp: Let_def split: if_splits)
qed simp

lemma plan_rehomes_Inr:
  "plan_rehomes kept moves selected = Inr rehomes \<Longrightarrow>
     (\<forall>r\<in>set rehomes. ah_old_path r \<notin> selected
        \<and> (\<exists>e\<in>set kept. ah_old_path r = as_path e \<and> (\<exists>p. ah_enrollment r = e\<lparr>as_path := p\<rparr>)))
   \<and> distinct (map ah_old_path rehomes)"
proof (induction kept moves selected arbitrary: rehomes rule: plan_rehomes.induct)
  case (2 kept i old_path new_path moves selected)
  let ?c = "filter (\<lambda>e. as_remote_id e = Some i \<or> as_path e = old_path) kept"
  consider "?c = []" | e where "?c = [e]" | e f es where "?c = e # f # es"
    by (cases ?c rule: remdups_adj.cases) auto
  then show ?case
  proof cases
    case 1
    with "2.prems" "2.IH"(1) show ?thesis by simp
  next
    case (2 e)
    then have "e \<in> set kept" by (metis filter_is_subset list.set_intros(1) subsetD)
    moreover obtain rs where "plan_rehomes kept moves (insert (as_path e) selected) = Inr rs"
      "rehomes = \<lparr>ah_old_path = as_path e, ah_enrollment = e\<lparr>as_path := new_path\<rparr>\<rparr> # rs" "as_path e \<notin> selected"
      using "2.prems" 2 by (auto simp: rbind_Inr_iff split: if_splits)
    moreover have "(\<forall>r\<in>set rs. ah_old_path r \<notin> insert (as_path e) selected
        \<and> (\<exists>e\<in>set kept. ah_old_path r = as_path e \<and> (\<exists>p. ah_enrollment r = e\<lparr>as_path := p\<rparr>)))
      \<and> distinct (map ah_old_path rs)"
      using "2.IH"(2)[of e "[]" rs] 2 calculation by simp
    ultimately show ?thesis by auto
  next
    case 3
    with "2.prems" show ?thesis by simp
  qed
qed simp

section \<open>The installed state as one update\<close>

text \<open>A loop of updates of one field is one update of it by a loop.\<close>

lemma fold_delete_discovered:
  "fold (delete_discovered mount) ds s =
     s\<lparr>st_shadows := fold (\<lambda>i. bm_remove (mount, i)) ds (st_shadows s),
       st_hydration_jobs := fold (\<lambda>i. bm_remove (mount, i)) ds (st_hydration_jobs s),
       st_remote_observations := fold (\<lambda>i. bm_remove (mount, i)) ds (st_remote_observations s),
       st_freshness_states := fold (\<lambda>i. bm_remove (mount, i)) ds (st_freshness_states s),
       st_entities := fold (\<lambda>i. bm_remove (mount, i)) ds (st_entities s)\<rparr>"
  by (induction ds arbitrary: s) (simp_all add: delete_discovered_def)

lemma fold_delete_metadata:
  "fold (delete_metadata_discovery_job mount) xs s =
     s\<lparr>st_metadata_discovery_jobs := fold (\<lambda>x. bm_remove (mount, x)) xs (st_metadata_discovery_jobs s)\<rparr>"
  by (induction xs arbitrary: s) (simp_all add: delete_metadata_discovery_job_def)

lemma fold_delete_mutations:
  "fold (delete_virtual_mutation mount) xs s =
     s\<lparr>st_virtual_mutations := fold (\<lambda>x. bm_remove (mount, x)) xs (st_virtual_mutations s)\<rparr>"
  by (induction xs arbitrary: s) (simp_all add: delete_virtual_mutation_def)

definition moved_jobs ::
    "mount_id \<Rightarrow> path_move list \<Rightarrow> (mount_id \<times> remote_id, hydration_job_record) btree_map
      \<Rightarrow> (mount_id \<times> remote_id, hydration_job_record) btree_map" where
  "moved_jobs mount = fold (\<lambda>(i, _, new_path). bm_modify (mount, i) (\<lambda>j. j\<lparr>hj_path := new_path\<rparr>))"

lemma fold_move_jobs:
  "fold (move_hydration_job mount) mvs s = s\<lparr>st_hydration_jobs := moved_jobs mount mvs (st_hydration_jobs s)\<rparr>"
  by (induction mvs arbitrary: s) (simp_all add: move_hydration_job_def moved_jobs_def split: prod.split)

lemma fold_delete_enrollments:
  "fold (\<lambda>r. delete_auto_save_enrollment mount (f r)) rs s =
     s\<lparr>st_auto_save_enrollments := fold bm_remove (map (\<lambda>r. (mount, f r)) rs) (st_auto_save_enrollments s)\<rparr>"
  by (induction rs arbitrary: s) (simp_all add: delete_auto_save_enrollment_def)

definition insert_by :: "('v \<Rightarrow> 'k::linorder) \<Rightarrow> 'v list \<Rightarrow> ('k, 'v) btree_map \<Rightarrow> ('k, 'v) btree_map" where
  "insert_by key vs m = bm_extend m (map (\<lambda>v. (key v, v)) vs)"

lemma insert_by_simps: "insert_by key [] m = m" "insert_by key (v # vs) m = insert_by key vs (bm_insert (key v) v m)"
  by (simp_all add: insert_by_def bm_extend_def)

lemma fold_save_enrollments:
  "fold save_auto_save_enrollment es s =
     s\<lparr>st_auto_save_enrollments := insert_by auto_save_key es (st_auto_save_enrollments s)\<rparr>"
  by (induction es arbitrary: s) (simp_all add: insert_by_simps save_auto_save_enrollment_def)

lemma fold_save_observations:
  "fold save_remote_observation rs s =
     s\<lparr>st_remote_observations := insert_by remote_observation_key rs (st_remote_observations s)\<rparr>"
  by (induction rs arbitrary: s) (simp_all add: insert_by_simps save_remote_observation_def)

lemma fold_save_freshness:
  "fold save_freshness_state rs s =
     s\<lparr>st_freshness_states := insert_by freshness_state_key rs (st_freshness_states s)\<rparr>"
  by (induction rs arbitrary: s) (simp_all add: insert_by_simps save_freshness_state_def)

lemmas fold_store_ops = fold_delete_discovered fold_delete_metadata fold_delete_mutations fold_move_jobs
  fold_delete_enrollments fold_save_enrollments fold_save_observations fold_save_freshness

text \<open>The enrollments after the deletions of the commit and of the old places of moved ones.\<close>

definition cleared_enrollments :: "discovery_commit \<Rightarrow> discovery_preflight
    \<Rightarrow> (mount_id \<times> path, auto_save_enrollment_record) btree_map
    \<Rightarrow> (mount_id \<times> path, auto_save_enrollment_record) btree_map" where
  "cleared_enrollments c d M =
     fold bm_remove (map (\<lambda>r. (dc_mount_id c, ah_old_path r)) (pf_auto_save_rehomes d))
       (bm_retain (enrollment_kept (dc_mount_id c) (pf_entity_deletes d) (set (bm_values (pf_deleted_paths d)))) M)"

definition without_deleted :: "discovery_commit \<Rightarrow> (mount_id \<times> remote_id, 'v) btree_map \<Rightarrow> (mount_id \<times> remote_id, 'v) btree_map" where
  "without_deleted c = fold (\<lambda>i. bm_remove (dc_mount_id c, i)) (dc_entity_deletes c)"

definition installed ::
    "discovery_commit \<Rightarrow> discovery_preflight \<Rightarrow> (mount_id \<times> path, auto_save_enrollment_record) btree_map
      \<Rightarrow> state_store \<Rightarrow> state_store" where
  "installed c d enrollments s =
     (let mount = dc_mount_id c; final_entities = final_store_entities mount (pf_final_entities d) s in
      s\<lparr>st_connector_states :=
          bm_insert (connector_state_key (dc_checkpoint c)) (dc_checkpoint c) (st_connector_states s),
        st_entities := final_entities,
        st_entities_by_path := collect_paths final_entities,
        st_shadows := without_deleted c (st_shadows s),
        st_hydration_jobs := moved_jobs mount (pf_path_moves d) (without_deleted c (st_hydration_jobs s)),
        st_virtual_mutations :=
          fold (\<lambda>x. bm_remove (mount, x)) (dc_virtual_mutation_deletes c) (st_virtual_mutations s),
        st_auto_save_enrollments := insert_by auto_save_key (dc_auto_save_upserts c) enrollments,
        st_remote_observations :=
          insert_by remote_observation_key (dc_observation_upserts c)
            (without_deleted c (st_remote_observations s)),
        st_freshness_states :=
          insert_by freshness_state_key (dc_freshness_upserts c) (without_deleted c (st_freshness_states s)),
        st_metadata_discovery_jobs :=
          fold (\<lambda>x. bm_remove (mount, x)) (dc_metadata_discovery_deletes c) (st_metadata_discovery_jobs s)\<rparr>)"

lemma cleared_store:
  "fold (\<lambda>r. delete_auto_save_enrollment mount (f r)) rs (fold (move_hydration_job mount) mvs
     (fold (delete_virtual_mutation mount) vms (fold (delete_metadata_discovery_job mount) mds
       (s\<lparr>st_auto_save_enrollments := es\<rparr>)))) =
   s\<lparr>st_metadata_discovery_jobs := fold (\<lambda>x. bm_remove (mount, x)) mds (st_metadata_discovery_jobs s),
     st_virtual_mutations := fold (\<lambda>x. bm_remove (mount, x)) vms (st_virtual_mutations s),
     st_hydration_jobs := moved_jobs mount mvs (st_hydration_jobs s),
     st_auto_save_enrollments := fold bm_remove (map (\<lambda>r. (mount, f r)) rs) es\<rparr>"
  unfolding fold_store_ops by simp

lemma saved_store:
  "fold save_freshness_state fs (fold save_remote_observation os
     (fold save_auto_save_enrollment as (s\<lparr>st_auto_save_enrollments := es\<rparr>)
       \<lparr>st_entities := final, st_entities_by_path := paths\<rparr>)) =
   s\<lparr>st_auto_save_enrollments := insert_by auto_save_key as es, st_entities := final, st_entities_by_path := paths,
     st_remote_observations := insert_by remote_observation_key os (st_remote_observations s),
     st_freshness_states := insert_by freshness_state_key fs (st_freshness_states s)\<rparr>"
  unfolding fold_store_ops by simp

lemma install_discovery_eq:
  "install_discovery c d s =
     rbind (store_rehomes (dc_mount_id c) (pf_auto_save_rehomes d)
         (cleared_enrollments c d (st_auto_save_enrollments s)))
       (\<lambda>enrollments. Inr (installed c d enrollments s))"
  unfolding install_discovery_def Let_def cleared_store saved_store fold_delete_discovered
  by (rule arg_cong2[where f = rbind, OF _ ext[OF arg_cong[where f = Inr, OF state_store.equality]]])
    (simp_all add: cleared_enrollments_def installed_def without_deleted_def save_connector_state_def Let_def)

end
