(* ===== verification/Discovery_Atomic.thy ===== *)
theory Discovery_Atomic
  imports Discovery_Facts
begin

text \<open>
  A discovery commit that passed its preflight is applied completely: the plan of the auto-save
  enrollments made on the snapshot of one mount is carried out on the store without a collision, every
  entity keeps at most one enrollment, and nothing of a deleted entity remains.
\<close>

section \<open>The plan carried out on the store\<close>

lemma check_auto_save_upsert_Inr:
  assumes "check_auto_save_upsert c deleted_paths reassigned moves final e n = Inr u"
  shows "owner_at_final_path final e = Inr ()"
    "bm_get n (as_path e) = Some occ \<Longrightarrow> as_remote_id occ = as_remote_id e"
    "(p, x) \<in> set n \<Longrightarrow> as_remote_id e = Some i \<Longrightarrow> as_remote_id x = Some i \<Longrightarrow> p = as_path e"
proof -
  obtain m1 m2 where 1: "owner_at_final_path final e = Inr ()"
    and 2: "(case bm_get n (as_path e) of None \<Rightarrow> Inr ()
             | Some occupied \<Rightarrow> reject_if (as_remote_id occupied \<noteq> as_remote_id e) (m1 occupied)) = Inr ()"
    and 3: "(case List.find (\<lambda>(p, existing). as_remote_id e \<noteq> None \<and> p \<noteq> as_path e
               \<and> as_remote_id existing = as_remote_id e) n of
        None \<Rightarrow> Inr () | Some (p, _) \<Rightarrow> invalid (m2 p)) = Inr u"
    using assms unfolding check_auto_save_upsert_def Let_def rbind_Inr_iff
    by (elim exE conjE) (rule that; simp)
  show "owner_at_final_path final e = Inr ()" by (rule 1)
  show "bm_get n (as_path e) = Some occ \<Longrightarrow> as_remote_id occ = as_remote_id e"
    using 2 by simp
  have "List.find (\<lambda>(p, existing). as_remote_id e \<noteq> None \<and> p \<noteq> as_path e
      \<and> as_remote_id existing = as_remote_id e) n = None"
    using 3 by (simp split: option.splits prod.splits)
  then show "(p, x) \<in> set n \<Longrightarrow> as_remote_id e = Some i \<Longrightarrow> as_remote_id x = Some i \<Longrightarrow> p = as_path e"
    unfolding find_None_iff by fastforce
qed

lemma plan_auto_save_Inr:
  assumes "plan_auto_save c existing affected moves final = Inr (rehomes, m')"
  obtains kept m where
    "kept = filter (kept_enrollment (set (dc_entity_deletes c))
       (set (List.map_filter (\<lambda>(i, p). if i \<in> set (dc_entity_deletes c) then p else None) affected))) existing"
    "plan_rehomes kept moves {} = Inr rehomes"
    "insert_rehomes rehomes (fold bm_remove (map ah_old_path rehomes)
       (bm_collect (map (\<lambda>e. (as_path e, e)) kept))) = Inr m"
    "check_auto_save_upserts
       (check_auto_save_upsert c
         (set (List.map_filter (\<lambda>(i, p). if i \<in> set (dc_entity_deletes c) then p else None) affected))
         (er_path ` {x \<in> set (dc_entity_upserts c). er_remote_id x \<notin> set (dc_entity_deletes c)}) moves final)
       (dc_auto_save_upserts c) m = Inr m'"
proof -
  let ?ids = "set (dc_entity_deletes c)"
  let ?paths = "set (List.map_filter (\<lambda>(i, p). if i \<in> ?ids then p else None) affected)"
  let ?kept = "filter (kept_enrollment ?ids ?paths) existing"
  let ?check = "check_auto_save_upsert c ?paths (er_path ` {x \<in> set (dc_entity_upserts c). er_remote_id x \<notin> ?ids})
      moves final"
  obtain m where 1: "plan_rehomes ?kept moves {} = Inr rehomes"
    "insert_rehomes rehomes (fold bm_remove (map ah_old_path rehomes)
       (bm_collect (map (\<lambda>e. (as_path e, e)) ?kept))) = Inr m"
    "check_auto_save_upserts ?check (dc_auto_save_upserts c) m = Inr m'"
    using assms unfolding plan_auto_save_def rbind_Inr_iff Let_def
    by (elim exE conjE) (rule that; simp)
  show thesis by (rule that[OF refl 1])
qed

lemma in_map_filter: "y \<in> set (List.map_filter f xs) \<longleftrightarrow> (\<exists>x\<in>set xs. f x = Some y)"
  by (force simp: map_filter_def)

lemma get_collect_functional:
  assumes "\<And>k v w. (k, v) \<in> set xs \<Longrightarrow> (k, w) \<in> set xs \<Longrightarrow> v = w"
  shows "bm_get (bm_collect xs) k = Some v \<longleftrightarrow> (k, v) \<in> set xs"
proof
  assume v: "(k, v) \<in> set xs"
  then have "map_of (rev xs) k \<noteq> None" by (metis fst_conv imageI map_of_eq_None_iff set_rev)
  then obtain w where w: "map_of (rev xs) k = Some w" by blast
  then have "(k, w) \<in> set xs" by (auto dest: map_of_SomeD)
  with assms v w show "bm_get (bm_collect xs) k = Some v" by (metis bm.get_collect)
qed (auto dest: bm_get_in_set)

lemma path_moves_upserted:
  "(i, x, y) \<in> set (path_moves_of c by_id) \<Longrightarrow> i \<in> er_remote_id ` set (dc_entity_upserts c)"
  by (auto simp: path_moves_of_def in_map_filter split: option.splits if_splits)

lemma deleted_paths_iff:
  "p \<in> set (bm_values (deleted_paths_of c by_id)) \<longleftrightarrow>
   (\<exists>i\<in>set (dc_entity_deletes c). map_option er_path (bm_get by_id i) = Some p)"
proof -
  let ?pairs = "List.map_filter (\<lambda>i. map_option (\<lambda>e. (i, er_path e)) (bm_get by_id i)) (dc_entity_deletes c)"
  have pairs: "(i, q) \<in> set ?pairs \<longleftrightarrow> i \<in> set (dc_entity_deletes c) \<and> map_option er_path (bm_get by_id i) = Some q" for i q
    by (auto simp: in_map_filter)
  have "p \<in> set (bm_values (deleted_paths_of c by_id)) \<longleftrightarrow> (\<exists>i. bm_get (bm_collect ?pairs) i = Some p)"
    unfolding deleted_paths_of_def by (rule bm_values_iff) simp
  also have "\<dots> \<longleftrightarrow> (\<exists>i. (i, p) \<in> set ?pairs)"
    by (subst get_collect_functional) (auto simp: pairs)
  finally show ?thesis unfolding pairs by blast
qed

lemma ex_case_if:
  "(\<exists>x\<in>A. (case x of (i, p) \<Rightarrow> if P i then p else None) = Some q) \<longleftrightarrow> (\<exists>i. (i, Some q) \<in> A \<and> P i)"
  by (auto split: if_splits) force

lemma deleted_paths_agree:
  assumes "set (dc_entity_deletes c) \<inter> er_remote_id ` set (dc_entity_upserts c) = {}"
  shows "set (List.map_filter (\<lambda>(i, p). if i \<in> set (dc_entity_deletes c) then p else None)
      (affected_entities_of c by_id)) = set (bm_values (deleted_paths_of c by_id))"
proof (rule set_eqI)
  fix p
  have "p \<in> set (List.map_filter (\<lambda>(i, p). if i \<in> set (dc_entity_deletes c) then p else None)
      (affected_entities_of c by_id)) \<longleftrightarrow>
      (\<exists>i. (i, Some p) \<in> set (affected_entities_of c by_id) \<and> i \<in> set (dc_entity_deletes c))"
    unfolding in_map_filter by (rule ex_case_if)
  also have "\<dots> \<longleftrightarrow> (\<exists>i\<in>set (dc_entity_deletes c). map_option er_path (bm_get by_id i) = Some p)"
  proof -
    have "(i, Some p) \<in> set (affected_entities_of c by_id) \<longleftrightarrow> map_option er_path (bm_get by_id i) = Some p"
      if i: "i \<in> set (dc_entity_deletes c)" for i
    proof -
      have "(i, x, y) \<notin> set (path_moves_of c by_id)" for x y using path_moves_upserted i assms by blast
      with i show ?thesis by (auto simp: affected_entities_of_def) (metis map_option_eq_Some)
    qed
    then show ?thesis by blast
  qed
  finally show "p \<in> set (List.map_filter (\<lambda>(i, p). if i \<in> set (dc_entity_deletes c) then p else None)
      (affected_entities_of c by_id)) \<longleftrightarrow> p \<in> set (bm_values (deleted_paths_of c by_id))"
    unfolding deleted_paths_iff .
qed

lemma agree_remove_all:
  "agree mount M m \<Longrightarrow> bm_sorted M \<Longrightarrow> bm_sorted m \<Longrightarrow>
   agree mount (fold bm_remove (map (\<lambda>r. (mount, f r)) rs) M) (fold bm_remove (map f rs) m)"
  by (auto simp: agree_def bmr.get_remove_all)

lemma preflight_Inr:
  assumes "preflight_details parse_json c connector existing enrollments mutations = Inr d"
  obtains m where
    "commit_validate parse_json c = Inr ()" "validate_connector c connector = Inr ()"
    "final_entity_map c existing = Inr (pf_final_entities d)" "pf_entity_deletes d = set (dc_entity_deletes c)"
    "pf_deleted_paths d = deleted_paths_of c (entities_by_id existing)"
    "pf_path_moves d = path_moves_of c (entities_by_id existing)"
    "plan_auto_save c enrollments (affected_entities_of c (entities_by_id existing)) (pf_path_moves d)
       (pf_final_entities d) = Inr (pf_auto_save_rehomes d, m)"
proof -
  let ?by_id = "entities_by_id existing"
  obtain fin planned where 1: "commit_validate parse_json c = Inr ()" "validate_connector c connector = Inr ()"
    "final_entity_map c existing = Inr fin"
    "plan_auto_save c enrollments (affected_entities_of c ?by_id) (path_moves_of c ?by_id) fin = Inr planned"
    "d = \<lparr>pf_final_entities = fin, pf_entity_deletes = set (dc_entity_deletes c),
       pf_deleted_paths = deleted_paths_of c ?by_id, pf_path_moves = path_moves_of c ?by_id,
       pf_auto_save_rehomes = fst planned\<rparr>"
    using assms
    unfolding preflight_details_def plan_auto_save_changes_def rbind_Inr_iff Let_def case_prod_unfold
    by (elim exE conjE) (rule that; auto)
  then show thesis by (intro that[of "snd planned"]) simp_all
qed

text \<open>The enrollments of the commit's mount in the store, and the map of the plan, stay in step.\<close>

lemma cleared_agree:
  assumes k: "keyed auto_save_key M" and del: "pf_entity_deletes d = ids" "set (bm_values (pf_deleted_paths d)) = paths"
  shows "agree (dc_mount_id c) (cleared_enrollments c d M)
    (fold bm_remove (map ah_old_path (pf_auto_save_rehomes d))
      (bm_collect (map (\<lambda>e. (as_path e, e))
        (filter (kept_enrollment ids paths) (filter (\<lambda>e. as_mount_id e = dc_mount_id c) (bm_values M))))))"
    and "keyed auto_save_key (cleared_enrollments c d M)"
    and "n \<noteq> dc_mount_id c \<Longrightarrow> bm_get (cleared_enrollments c d M) (n, p) = bm_get M (n, p)"
proof -
  let ?keep = "enrollment_kept (dc_mount_id c) ids paths"
  have s: "bm_sorted M" "bm_sorted (bm_retain ?keep M)" using keyed_bm_sorted[OF k] by simp_all
  have "agree (dc_mount_id c) (bm_retain ?keep M) (bm_collect (map (\<lambda>e. (as_path e, e))
      (filter (kept_enrollment ids paths) (filter (\<lambda>e. as_mount_id e = dc_mount_id c) (bm_values M)))))"
    unfolding agree_def
  proof
    fix p
    show "bm_get (bm_retain ?keep M) (dc_mount_id c, p) = bm_get (bm_collect (map (\<lambda>e. (as_path e, e))
        (filter (kept_enrollment ids paths) (filter (\<lambda>e. as_mount_id e = dc_mount_id c) (bm_values M))))) p"
    proof (cases "bm_get M (dc_mount_id c, p)")
      case (Some e)
      then have "as_path e = p" using keyed_get[OF k] by (auto simp: auto_save_key_def)
      with Some show ?thesis
        by (simp del: filter_filter
            add: get_collected_enrollments[OF k] bm_get_retain s enrollment_kept_def kept_enrollment_def)
    qed (simp del: filter_filter add: get_collected_enrollments[OF k] bm_get_retain s)
  qed
  from agree_remove_all[OF this s(2) bm_sorted_collect, of ah_old_path "pf_auto_save_rehomes d"]
  show "agree (dc_mount_id c) (cleared_enrollments c d M)
    (fold bm_remove (map ah_old_path (pf_auto_save_rehomes d))
      (bm_collect (map (\<lambda>e. (as_path e, e))
        (filter (kept_enrollment ids paths) (filter (\<lambda>e. as_mount_id e = dc_mount_id c) (bm_values M))))))"
    unfolding cleared_enrollments_def del .
  show "keyed auto_save_key (cleared_enrollments c d M)"
    unfolding cleared_enrollments_def by (intro keyed_remove_all keyed_retain k)
  show "bm_get (cleared_enrollments c d M) (n, p) = bm_get M (n, p)" if "n \<noteq> dc_mount_id c"
    using that s
    unfolding cleared_enrollments_def del
    by (auto simp: bmr.get_remove_all bm_get_retain enrollment_kept_def split: option.split)
qed

lemma rehomes_carried_out:
  assumes k: "keyed auto_save_key M"
    and pre: "preflight_details parse_json c connector existing
      (filter (\<lambda>e. as_mount_id e = dc_mount_id c) (bm_values M)) mutations = Inr d"
  obtains enrollments kept m m' moves deleted_paths reassigned where
    "store_rehomes (dc_mount_id c) (pf_auto_save_rehomes d) (cleared_enrollments c d M) = Inr enrollments"
    "agree (dc_mount_id c) enrollments m" "keyed auto_save_key enrollments"
    "\<And>n p. n \<noteq> dc_mount_id c \<Longrightarrow> bm_get enrollments (n, p) = bm_get M (n, p)"
    "kept = filter (kept_enrollment (set (dc_entity_deletes c)) (set (bm_values (pf_deleted_paths d))))
       (filter (\<lambda>e. as_mount_id e = dc_mount_id c) (bm_values M))"
    "plan_rehomes kept moves {} = Inr (pf_auto_save_rehomes d)"
    "insert_rehomes (pf_auto_save_rehomes d) (fold bm_remove (map ah_old_path (pf_auto_save_rehomes d))
       (bm_collect (map (\<lambda>e. (as_path e, e)) kept))) = Inr m"
    "check_auto_save_upserts (check_auto_save_upsert c deleted_paths reassigned moves (pf_final_entities d))
       (dc_auto_save_upserts c) m = Inr m'"
proof -
  from pre obtain m' where valid: "commit_validate parse_json c = Inr ()"
    and del: "pf_entity_deletes d = set (dc_entity_deletes c)"
      "pf_deleted_paths d = deleted_paths_of c (entities_by_id existing)"
    and plan: "plan_auto_save c (filter (\<lambda>e. as_mount_id e = dc_mount_id c) (bm_values M))
      (affected_entities_of c (entities_by_id existing)) (pf_path_moves d) (pf_final_entities d)
      = Inr (pf_auto_save_rehomes d, m')"
    by (rule preflight_Inr)
  note paths = deleted_paths_agree[OF commit_validate_Inr(7)[OF valid], of "entities_by_id existing"]
  let ?kept = "filter (kept_enrollment (set (dc_entity_deletes c)) (set (bm_values (pf_deleted_paths d))))
       (filter (\<lambda>e. as_mount_id e = dc_mount_id c) (bm_values M))"
  from plan obtain m where rehomes: "plan_rehomes ?kept (pf_path_moves d) {} = Inr (pf_auto_save_rehomes d)"
    and ins: "insert_rehomes (pf_auto_save_rehomes d) (fold bm_remove (map ah_old_path (pf_auto_save_rehomes d))
       (bm_collect (map (\<lambda>e. (as_path e, e)) ?kept))) = Inr m"
    and ups: "check_auto_save_upserts (check_auto_save_upsert c (set (bm_values (pf_deleted_paths d)))
         (er_path ` {x \<in> set (dc_entity_upserts c). er_remote_id x \<notin> set (dc_entity_deletes c)}) (pf_path_moves d)
         (pf_final_entities d)) (dc_auto_save_upserts c) m = Inr m'"
    by (rule plan_auto_save_Inr) (simp add: paths del)
  note cl = cleared_agree[OF k del(1) refl]
  obtain E where E: "store_rehomes (dc_mount_id c) (pf_auto_save_rehomes d) (cleared_enrollments c d M) = Inr E"
    "agree (dc_mount_id c) E m"
    "\<forall>n p. n \<noteq> dc_mount_id c \<longrightarrow> bm_get E (n, p) = bm_get (cleared_enrollments c d M) (n, p)"
    using store_rehomes_agree[OF ins cl(1)] by blast
  have "as_mount_id (ah_enrollment r) = dc_mount_id c" if "r \<in> set (pf_auto_save_rehomes d)" for r
    using plan_rehomes_Inr[OF rehomes] that by force
  then have "keyed auto_save_key E" using keyed_store_rehomes[OF E(1) _ cl(2)] by blast
  with E cl(3) show thesis by (intro that[OF E(1,2) _ _ refl rehomes ins ups]) auto
qed

section \<open>Ownership of enrollments\<close>

text \<open>No entity owns two enrollments; no enrollment is owned by an entity of a given set.\<close>

definition one_each :: "('k \<rightharpoonup> auto_save_enrollment_record) \<Rightarrow> bool" where
  "one_each m \<longleftrightarrow> (\<forall>p q e f i. m p = Some e \<longrightarrow> m q = Some f \<longrightarrow>
     as_remote_id e = Some i \<longrightarrow> as_remote_id f = Some i \<longrightarrow> p = q)"

definition none_owned :: "remote_id set \<Rightarrow> ('k \<rightharpoonup> auto_save_enrollment_record) \<Rightarrow> bool" where
  "none_owned ids m \<longleftrightarrow> (\<forall>p e i. m p = Some e \<longrightarrow> as_remote_id e = Some i \<longrightarrow> i \<notin> ids)"

lemma one_eachD: "one_each m \<Longrightarrow> m p = Some e \<Longrightarrow> m q = Some f \<Longrightarrow> as_remote_id e = Some i \<Longrightarrow>
    as_remote_id f = Some i \<Longrightarrow> p = q"
  by (auto simp: one_each_def)

lemma one_each_update:
  assumes "one_each m" "\<And>q f i. m q = Some f \<Longrightarrow> as_remote_id e = Some i \<Longrightarrow> as_remote_id f = Some i \<Longrightarrow> q = p"
  shows "one_each (m(p \<mapsto> e))"
  using assms unfolding one_each_def by (auto split: if_splits)

lemma bm_get_insert_fun: "bm_get (bm_insert k v m) = (bm_get m)(k \<mapsto> v)"
  by (auto simp: bm_get_insert)

lemma check_upserts_owners:
  assumes "check_auto_save_upserts (check_auto_save_upsert c dp rp mv final) es m = Inr m'"
    and "one_each (bm_get m)" "none_owned ids (bm_get m)" "\<forall>i\<in>ids. bm_get final i = None"
  shows "one_each (bm_get m') \<and> none_owned ids (bm_get m') \<and> m' = insert_by as_path es m"
  using assms
proof (induction es arbitrary: m)
  case (Cons e es)
  let ?m = "bm_insert (as_path e) e m"
  have ok: "check_auto_save_upsert c dp rp mv final e m = Inr ()"
    and rest: "check_auto_save_upserts (check_auto_save_upsert c dp rp mv final) es ?m = Inr m'"
    using Cons.prems(1) by (auto simp: rbind_Inr_iff)
  note facts = check_auto_save_upsert_Inr[OF ok]
  have one: "one_each (bm_get ?m)"
    unfolding bm_get_insert_fun
    using Cons.prems(2) facts(3) by (intro one_each_update) (auto dest!: map_of_SomeD)
  have "as_remote_id e = Some i \<Longrightarrow> i \<notin> ids" for i
    using facts(1) Cons.prems(4) by (auto simp: owner_at_final_path_def)
  then have "none_owned ids (bm_get ?m)"
    using Cons.prems(3) by (auto simp: none_owned_def bm_get_insert)
  from Cons.IH[OF rest one this Cons.prems(4)] show ?case unfolding insert_by_simps .
qed (simp add: insert_by_simps)

lemma insert_rehomes_owners:
  assumes "insert_rehomes rs m = Inr m'" "one_each (bm_get m)" "none_owned ids (bm_get m)"
    and "\<forall>r\<in>set rs. \<forall>i. as_remote_id (ah_enrollment r) = Some i \<longrightarrow> i \<notin> ids
      \<and> (\<forall>p f. bm_get m p = Some f \<longrightarrow> as_remote_id f \<noteq> Some i)
      \<and> (\<forall>r'\<in>set rs. as_remote_id (ah_enrollment r') = Some i \<longrightarrow> ah_old_path r = ah_old_path r')"
    and "distinct (map ah_old_path rs)"
  shows "one_each (bm_get m') \<and> none_owned ids (bm_get m')"
  using assms
proof (induction rs arbitrary: m)
  case (Cons r rs)
  let ?e = "ah_enrollment r"
  let ?m = "bm_insert (as_path ?e) ?e m"
  have rest: "insert_rehomes rs ?m = Inr m'" using Cons.prems(1) by (auto split: option.splits)
  have hd: "as_remote_id ?e = Some i \<Longrightarrow> i \<notin> ids"
    "as_remote_id ?e = Some i \<Longrightarrow> bm_get m p = Some f \<Longrightarrow> as_remote_id f \<noteq> Some i" for i p f
    using Cons.prems(4) by (meson list.set_intros(1))+
  have one: "one_each (bm_get ?m)"
    unfolding bm_get_insert_fun using Cons.prems(2) hd(2) by (intro one_each_update) blast+
  have none: "none_owned ids (bm_get ?m)"
    using Cons.prems(3) hd(1) by (auto simp: none_owned_def bm_get_insert)
  have "i \<notin> ids \<and> (\<forall>p f. bm_get ?m p = Some f \<longrightarrow> as_remote_id f \<noteq> Some i)
      \<and> (\<forall>r'\<in>set rs. as_remote_id (ah_enrollment r') = Some i \<longrightarrow> ah_old_path q = ah_old_path r')"
    if q: "q \<in> set rs" "as_remote_id (ah_enrollment q) = Some i" for q i
  proof -
    have "ah_old_path r \<noteq> ah_old_path q" using Cons.prems(5) q(1) by auto
    then have "as_remote_id ?e \<noteq> Some i" using Cons.prems(4) q by (metis list.set_intros(1,2))
    moreover have "i \<notin> ids" "\<forall>p f. bm_get m p = Some f \<longrightarrow> as_remote_id f \<noteq> Some i"
      "\<forall>r'\<in>set rs. as_remote_id (ah_enrollment r') = Some i \<longrightarrow> ah_old_path q = ah_old_path r'"
      using Cons.prems(4) q by (meson list.set_intros(2))+
    ultimately show ?thesis by (auto simp: bm_get_insert)
  qed
  then have all: "\<forall>q\<in>set rs. \<forall>i. as_remote_id (ah_enrollment q) = Some i \<longrightarrow> i \<notin> ids
      \<and> (\<forall>p f. bm_get ?m p = Some f \<longrightarrow> as_remote_id f \<noteq> Some i)
      \<and> (\<forall>r'\<in>set rs. as_remote_id (ah_enrollment r') = Some i \<longrightarrow> ah_old_path q = ah_old_path r')"
    by blast
  have "distinct (map ah_old_path rs)" using Cons.prems(5) by simp
  then show ?case by (rule Cons.IH[OF rest one none all])
qed simp

lemma none_ownedD: "none_owned ids m \<Longrightarrow> m p = Some e \<Longrightarrow> as_remote_id e = Some i \<Longrightarrow> i \<notin> ids"
  by (auto simp: none_owned_def)

text \<open>Moving enrollments to their new places gives no entity a second one.\<close>

lemma rehomed_owners:
  assumes start: "\<And>p e. bm_get start p = Some e \<longleftrightarrow> e \<in> set kept \<and> as_path e = p" "bm_sorted start"
    and own: "one_each (bm_get start)" "none_owned ids (bm_get start)"
    and plan: "plan_rehomes kept moves {} = Inr rs"
    and ins: "insert_rehomes rs (fold bm_remove (map ah_old_path rs) start) = Inr m"
  shows "one_each (bm_get m) \<and> none_owned ids (bm_get m)"
proof (rule insert_rehomes_owners[OF ins])
  have get: "bm_get (fold bm_remove (map ah_old_path rs) start) p =
      (if p \<in> ah_old_path ` set rs then None else bm_get start p)" for p
    using bmr.get_remove_all[OF start(2), of "map ah_old_path rs" p] by simp
  show "one_each (bm_get (fold bm_remove (map ah_old_path rs) start))"
    using own(1) unfolding one_each_def get by (auto split: if_splits)
  show "none_owned ids (bm_get (fold bm_remove (map ah_old_path rs) start))"
    using own(2) unfolding none_owned_def get by (auto split: if_splits)
  have origin: "\<exists>e. bm_get start (ah_old_path r) = Some e \<and> as_remote_id e = as_remote_id (ah_enrollment r)"
    if "r \<in> set rs" for r
    using plan_rehomes_Inr[OF plan] that start(1) by fastforce
  show "\<forall>r\<in>set rs. \<forall>i. as_remote_id (ah_enrollment r) = Some i \<longrightarrow> i \<notin> ids
      \<and> (\<forall>p f. bm_get (fold bm_remove (map ah_old_path rs) start) p = Some f \<longrightarrow> as_remote_id f \<noteq> Some i)
      \<and> (\<forall>r'\<in>set rs. as_remote_id (ah_enrollment r') = Some i \<longrightarrow> ah_old_path r = ah_old_path r')"
  proof (intro ballI allI impI conjI)
    fix r i
    assume r: "r \<in> set rs" "as_remote_id (ah_enrollment r) = Some i"
    then obtain e where e: "bm_get start (ah_old_path r) = Some e" "as_remote_id e = Some i"
      using origin by metis
    show "i \<notin> ids" using e none_ownedD[OF own(2)] by metis
    show "as_remote_id f \<noteq> Some i" if "bm_get (fold bm_remove (map ah_old_path rs) start) p = Some f" for p f
    proof
      assume "as_remote_id f = Some i"
      moreover have "bm_get start p = Some f" "p \<notin> ah_old_path ` set rs"
        using that unfolding get by (auto split: if_splits)
      ultimately show False using e r(1) one_eachD[OF own(1)] by (metis imageI)
    qed
    show "ah_old_path r = ah_old_path r'" if "r' \<in> set rs" "as_remote_id (ah_enrollment r') = Some i" for r'
      using origin[OF that(1)] that(2) e one_eachD[OF own(1)] by metis
  qed
  show "distinct (map ah_old_path rs)" using plan_rehomes_Inr[OF plan] by simp
qed

section \<open>The entities and their index after a commit\<close>

definition one_per_path :: "(mount_id \<times> remote_id, entity_record) btree_map \<Rightarrow> bool" where
  "one_per_path es \<longleftrightarrow> (\<forall>n i e j f. bm_get es (n, i) = Some e \<longrightarrow> bm_get es (n, j) = Some f \<longrightarrow>
     er_path e = er_path f \<longrightarrow> i = j)"

lemma one_per_pathD:
  "one_per_path es \<Longrightarrow> bm_get es (n, i) = Some e \<Longrightarrow> bm_get es (n, j) = Some f \<Longrightarrow> er_path e = er_path f \<Longrightarrow> i = j"
  unfolding one_per_path_def by blast

lemma mirrors_one_per_path: "mirrors es ps \<Longrightarrow> one_per_path es"
  using mirrors_unique unfolding one_per_path_def by blast

lemma collect_paths_get:
  assumes k: "keyed entity_key es" and u: "one_per_path es"
  shows "bm_get (collect_paths es) (n, p) = Some i \<longleftrightarrow> (\<exists>e. bm_get es (n, i) = Some e \<and> er_path e = p)"
proof -
  let ?pairs = "map (\<lambda>e. (path_key e, er_remote_id e)) (bm_values es)"
  have key: "((n, p), i) \<in> set ?pairs \<longleftrightarrow> (\<exists>e. bm_get es (n, i) = Some e \<and> er_path e = p)" for n p i
  proof -
    have "((n, p), i) \<in> set ?pairs \<longleftrightarrow> (\<exists>e\<in>set (bm_values es). entity_key e = (n, i) \<and> er_path e = p)"
      by (auto simp: path_key_def entity_key_def)
    also have "\<dots> \<longleftrightarrow> (\<exists>e. bm_get es (n, i) = Some e \<and> er_path e = p)"
      using keyed_values[OF k] keyed_get[OF k] by metis
    finally show ?thesis .
  qed
  have "v = w" if v: "(k, v) \<in> set ?pairs" and w: "(k, w) \<in> set ?pairs" for k v w
  proof -
    obtain n p where k: "k = (n, p)" by (cases k)
    from v obtain e where "bm_get es (n, v) = Some e" "er_path e = p" unfolding k key by blast
    moreover from w obtain f where "bm_get es (n, w) = Some f" "er_path f = p" unfolding k key by blast
    ultimately show ?thesis using one_per_pathD[OF u] by blast
  qed
  then have "bm_get (bm_collect ?pairs) (n, p) = Some i \<longleftrightarrow> ((n, p), i) \<in> set ?pairs"
    by (rule get_collect_functional)
  then show ?thesis unfolding key collect_paths_def .
qed

lemma mirrors_collect_paths: "keyed entity_key es \<Longrightarrow> one_per_path es \<Longrightarrow> mirrors es (collect_paths es)"
  unfolding mirrors_def
  by (intro conjI allI collect_paths_get) (assumption | simp add: collect_paths_def)+

lemma final_store_entities_get:
  assumes k: "keyed entity_key (st_entities s)" and f: "keyed er_remote_id final"
    and m: "\<And>i e. bm_get final i = Some e \<Longrightarrow> er_mount_id e = mount"
  shows "bm_get (final_store_entities mount final s) (n, i) =
      (if n = mount then bm_get final i else bm_get (st_entities s) (n, i))"
    and "keyed entity_key (final_store_entities mount final s)"
proof -
  let ?pairs = "map (\<lambda>e. (entity_key e, e)) (bm_values final)"
  have s: "bm_sorted (st_entities s)" by (rule keyed_bm_sorted[OF k])
  have pair: "((n, i), e) \<in> set ?pairs \<longleftrightarrow> n = mount \<and> bm_get final i = Some e" for n i e
  proof -
    have "((n, i), e) \<in> set ?pairs \<longleftrightarrow> e \<in> set (bm_values final) \<and> er_mount_id e = n \<and> er_remote_id e = i"
      by (auto simp: entity_key_def)
    also have "\<dots> \<longleftrightarrow> n = mount \<and> bm_get final i = Some e"
      using keyed_values[OF f] keyed_get[OF f] m by metis
    finally show ?thesis .
  qed
  have "bm_get (bm_collect ?pairs) (n, i) = (if n = mount then bm_get final i else None)"
  proof (rule option_eqI)
    have "v = w" if v: "(k, v) \<in> set ?pairs" and w: "(k, w) \<in> set ?pairs" for k v w
    proof -
      obtain n i where k: "k = (n, i)" by (cases k)
      from v w show ?thesis unfolding k pair by simp
    qed
    then have "bm_get (bm_collect ?pairs) (n, i) = Some e \<longleftrightarrow> ((n, i), e) \<in> set ?pairs" for e
      by (rule get_collect_functional)
    then show "bm_get (bm_collect ?pairs) (n, i) = Some e \<longleftrightarrow> (if n = mount then bm_get final i else None) = Some e" for e
      unfolding pair by simp
  qed
  then show "bm_get (final_store_entities mount final s) (n, i) =
      (if n = mount then bm_get final i else bm_get (st_entities s) (n, i))"
    using s by (auto simp: final_store_entities_def bm.get_extend bm.get_collect bm_get_not_in_mount split: option.splits)
  show "keyed entity_key (final_store_entities mount final s)"
    unfolding final_store_entities_def by (intro keyed_extend keyed_retain k)
qed

text \<open>What the source computes by id is the store's own lookup, restricted to the mount.\<close>

lemma entities_by_id_get:
  assumes "keyed entity_key es"
  shows "bm_get (entities_by_id (filter (\<lambda>e. er_mount_id e = mount) (bm_values es))) i = bm_get es (mount, i)"
  using get_collected_entities[OF assms, of "\<lambda>_. True" mount i]
  by (simp add: entities_by_id_def split: option.split)

section \<open>Applying a commit\<close>

definition mount_preflight ::
    "(string \<Rightarrow> string + json) \<Rightarrow> discovery_commit \<Rightarrow> state_store \<Rightarrow> store_error + discovery_preflight" where
  "mount_preflight parse_json c s =
     (case bm_get (st_mounts s) (dc_mount_id c) of
        None \<Rightarrow> Inl (MountMissing (dc_mount_id c))
      | Some m \<Rightarrow>
          preflight_details parse_json c (mc_connector m)
            (filter (\<lambda>e. er_mount_id e = dc_mount_id c) (bm_values (st_entities s)))
            (filter (\<lambda>e. as_mount_id e = dc_mount_id c) (bm_values (st_auto_save_enrollments s)))
            (filter (\<lambda>v. vm_mount_id v = dc_mount_id c) (bm_values (st_virtual_mutations s))))"

lemma apply_discovery_alt:
  "apply_discovery parse_json c s = rbind (mount_preflight parse_json c s) (\<lambda>d. install_discovery c d s)"
  by (simp add: apply_discovery_def mount_preflight_def split: option.split)

lemma mount_preflight_Inr:
  assumes "mount_preflight parse_json c s = Inr d"
  obtains m where "bm_get (st_mounts s) (dc_mount_id c) = Some m"
    "preflight_details parse_json c (mc_connector m)
       (filter (\<lambda>e. er_mount_id e = dc_mount_id c) (bm_values (st_entities s)))
       (filter (\<lambda>e. as_mount_id e = dc_mount_id c) (bm_values (st_auto_save_enrollments s)))
       (filter (\<lambda>v. vm_mount_id v = dc_mount_id c) (bm_values (st_virtual_mutations s))) = Inr d"
  using assms by (auto simp: mount_preflight_def split: option.splits)

text \<open>The collision that the source still checks for cannot occur: a passed preflight is installed.\<close>

lemma apply_discovery_total:
  assumes "keyed auto_save_key (st_auto_save_enrollments s)"
  shows "apply_discovery parse_json c s = Inl e \<longleftrightarrow> mount_preflight parse_json c s = Inl e"
proof (cases "mount_preflight parse_json c s")
  case (Inr d)
  then obtain m where "bm_get (st_mounts s) (dc_mount_id c) = Some m"
    and pre: "preflight_details parse_json c (mc_connector m)
       (filter (\<lambda>e. er_mount_id e = dc_mount_id c) (bm_values (st_entities s)))
       (filter (\<lambda>e. as_mount_id e = dc_mount_id c) (bm_values (st_auto_save_enrollments s)))
       (filter (\<lambda>v. vm_mount_id v = dc_mount_id c) (bm_values (st_virtual_mutations s))) = Inr d"
    by (rule mount_preflight_Inr)
  from rehomes_carried_out[OF assms pre] obtain E where
    "store_rehomes (dc_mount_id c) (pf_auto_save_rehomes d) (cleared_enrollments c d (st_auto_save_enrollments s)) = Inr E"
    by (rule rehomes_carried_out[OF assms pre]) (rule that)
  with Inr show ?thesis by (simp add: apply_discovery_alt install_discovery_eq)
qed (simp add: apply_discovery_alt)

lemma bm_get_modify_None: "bm_get m k = None \<Longrightarrow> bm_get (bm_modify j f m) k = None"
  by (auto simp: bm_get_modify)

lemma moved_jobs_None: "bm_get m k = None \<Longrightarrow> bm_get (moved_jobs mount mvs m) k = None"
  unfolding moved_jobs_def by (induction mvs arbitrary: m) (auto simp: bm_get_modify_None)

lemma insert_by_other: "bm_sorted m \<Longrightarrow> k \<notin> key ` set vs \<Longrightarrow> bm_get (insert_by key vs m) k = bm_get m k"
  by (induction vs arbitrary: m) (auto simp: insert_by_simps bm_get_insert bm_sorted_insert)

lemma bm_sorted_insert_by: "bm_sorted m \<Longrightarrow> bm_sorted (insert_by key vs m)"
  unfolding insert_by_def by (rule bm.inv_extend)

lemma without_deleted_get:
  "bm_sorted m \<Longrightarrow> i \<in> set (dc_entity_deletes c) \<Longrightarrow> bm_get (without_deleted c m) (dc_mount_id c, i) = None"
proof -
  assume m: "bm_sorted m" "i \<in> set (dc_entity_deletes c)"
  have "without_deleted c m = fold bm_remove (map (Pair (dc_mount_id c)) (dc_entity_deletes c)) m"
    by (simp add: without_deleted_def fold_map comp_def)
  with bmr.get_remove_all[OF m(1)] m(2) show ?thesis by simp
qed

lemma bm_sorted_without_deleted: "bm_sorted m \<Longrightarrow> bm_sorted (without_deleted c m)"
  unfolding without_deleted_def by (rule fold_invariant[where Q = "\<lambda>_. True"]) auto

lemma agree_insert_by:
  "agree mount M m \<Longrightarrow> \<forall>e\<in>set es. as_mount_id e = mount \<Longrightarrow>
   agree mount (insert_by auto_save_key es M) (insert_by as_path es m)"
proof (induction es arbitrary: M m)
  case (Cons e es)
  have "agree mount (bm_insert (auto_save_key e) e M) (bm_insert (as_path e) e m)"
    using Cons.prems by (auto simp: agree_def bm_get_insert auto_save_key_def)
  with Cons show ?case by (simp add: insert_by_simps)
qed (simp add: insert_by_simps)

text \<open>What a store must satisfy for its commits: the invariant of every reachable store.\<close>

definition store_keyed :: "state_store \<Rightarrow> bool" where
  "store_keyed s \<longleftrightarrow>
     index_ok s \<and> keyed auto_save_key (st_auto_save_enrollments s)
   \<and> bm_sorted (st_shadows s) \<and> bm_sorted (st_hydration_jobs s) \<and> bm_sorted (st_remote_observations s)
   \<and> bm_sorted (st_freshness_states s)"

lemma applied_facts:
  assumes ok: "store_keyed s" and app: "apply_discovery parse_json c s = Inr s'"
  obtains d m E where "s' = installed c d E s" "commit_validate parse_json c = Inr ()"
    "mount_preflight parse_json c s = Inr d"
    "final_entity_map c (filter (\<lambda>e. er_mount_id e = dc_mount_id c) (bm_values (st_entities s)))
       = Inr (pf_final_entities d)"
    "pf_entity_deletes d = set (dc_entity_deletes c)"
    "store_rehomes (dc_mount_id c) (pf_auto_save_rehomes d) (cleared_enrollments c d (st_auto_save_enrollments s)) = Inr E"
    "bm_get (st_mounts s) (dc_mount_id c) = Some m"
proof -
  have k: "keyed auto_save_key (st_auto_save_enrollments s)" using ok by (simp add: store_keyed_def)
  from app obtain d where d: "mount_preflight parse_json c s = Inr d" and i: "install_discovery c d s = Inr s'"
    by (auto simp: apply_discovery_alt rbind_Inr_iff)
  from i obtain E where E: "store_rehomes (dc_mount_id c) (pf_auto_save_rehomes d)
      (cleared_enrollments c d (st_auto_save_enrollments s)) = Inr E" "s' = installed c d E s"
    by (auto simp: install_discovery_eq rbind_Inr_iff)
  from d obtain m where m: "bm_get (st_mounts s) (dc_mount_id c) = Some m"
    and pre: "preflight_details parse_json c (mc_connector m)
       (filter (\<lambda>e. er_mount_id e = dc_mount_id c) (bm_values (st_entities s)))
       (filter (\<lambda>e. as_mount_id e = dc_mount_id c) (bm_values (st_auto_save_enrollments s)))
       (filter (\<lambda>v. vm_mount_id v = dc_mount_id c) (bm_values (st_virtual_mutations s))) = Inr d"
    by (rule mount_preflight_Inr)
  from pre show thesis
    by (rule preflight_Inr) (rule that[OF E(2) _ d _ _ E(1) m])
qed

lemma applied_enrollments:
  assumes k: "keyed auto_save_key (st_auto_save_enrollments s)" and d: "mount_preflight parse_json c s = Inr d"
    and E: "store_rehomes (dc_mount_id c) (pf_auto_save_rehomes d)
      (cleared_enrollments c d (st_auto_save_enrollments s)) = Inr E"
    and own: "one_each (\<lambda>p. bm_get (st_auto_save_enrollments s) (dc_mount_id c, p))"
  shows "one_each (\<lambda>p. bm_get (insert_by auto_save_key (dc_auto_save_upserts c) E) (dc_mount_id c, p))
    \<and> none_owned (set (dc_entity_deletes c))
        (\<lambda>p. bm_get (insert_by auto_save_key (dc_auto_save_upserts c) E) (dc_mount_id c, p))"
proof -
  let ?M = "st_auto_save_enrollments s" and ?ids = "set (dc_entity_deletes c)" and ?mount = "dc_mount_id c"
  from d obtain m0 where "bm_get (st_mounts s) ?mount = Some m0"
    and pre: "preflight_details parse_json c (mc_connector m0)
       (filter (\<lambda>e. er_mount_id e = ?mount) (bm_values (st_entities s)))
       (filter (\<lambda>e. as_mount_id e = ?mount) (bm_values ?M))
       (filter (\<lambda>v. vm_mount_id v = ?mount) (bm_values (st_virtual_mutations s))) = Inr d"
    by (rule mount_preflight_Inr)
  have valid: "commit_validate parse_json c = Inr ()" by (rule preflight_Inr[OF pre])
  have final: "final_entity_map c (filter (\<lambda>e. er_mount_id e = ?mount) (bm_values (st_entities s)))
       = Inr (pf_final_entities d)" by (rule preflight_Inr[OF pre])
  obtain kept m m' moves dp rp where
    E': "store_rehomes ?mount (pf_auto_save_rehomes d) (cleared_enrollments c d ?M) = Inr E" "agree ?mount E m"
    and kept: "kept = filter (kept_enrollment ?ids (set (bm_values (pf_deleted_paths d))))
       (filter (\<lambda>e. as_mount_id e = ?mount) (bm_values ?M))"
    and plan: "plan_rehomes kept moves {} = Inr (pf_auto_save_rehomes d)"
    and ins: "insert_rehomes (pf_auto_save_rehomes d) (fold bm_remove (map ah_old_path (pf_auto_save_rehomes d))
       (bm_collect (map (\<lambda>e. (as_path e, e)) kept))) = Inr m"
    and ups: "check_auto_save_upserts (check_auto_save_upsert c dp rp moves (pf_final_entities d))
       (dc_auto_save_upserts c) m = Inr m'"
    by (rule rehomes_carried_out[OF k pre]) (rule that, use E in auto)
  let ?start = "bm_collect (map (\<lambda>e. (as_path e, e)) kept)"
  have get: "bm_get ?start p = (case bm_get ?M (?mount, p) of None \<Rightarrow> None
      | Some e \<Rightarrow> if kept_enrollment ?ids (set (bm_values (pf_deleted_paths d))) e then Some e else None)" for p
    unfolding kept by (rule get_collected_enrollments[OF k])
  have start: "bm_get ?start p = Some e \<longleftrightarrow> e \<in> set kept \<and> as_path e = p" for p e
  proof -
    have "e \<in> set (bm_values ?M) \<and> as_mount_id e = ?mount \<and> as_path e = p \<longleftrightarrow> bm_get ?M (?mount, p) = Some e"
      using keyed_values[OF k, of e] keyed_get[OF k, of "(?mount, p)" e] by (auto simp: auto_save_key_def)
    then show ?thesis unfolding get by (auto simp: kept split: option.splits)
  qed
  have one: "one_each (bm_get ?start)"
    using own unfolding one_each_def get by (auto split: option.splits if_splits)
  have none: "none_owned ?ids (bm_get ?start)"
    unfolding none_owned_def get by (auto simp: kept_enrollment_def split: option.splits if_splits)
  have m: "one_each (bm_get m) \<and> none_owned ?ids (bm_get m)"
    by (rule rehomed_owners[OF start bm_sorted_collect one none plan ins])
  have "bm_get (pf_final_entities d) i = None" if "i \<in> ?ids" for i
    using that commit_validate_Inr(2,7)[OF valid] final_entity_map_Inr(1)[OF final]
    by (auto simp: final_entities_get find_Some_iff split: option.split)
  then have gone: "\<forall>i\<in>?ids. bm_get (pf_final_entities d) i = None" by blast
  have m': "one_each (bm_get m') \<and> none_owned ?ids (bm_get m') \<and> m' = insert_by as_path (dc_auto_save_upserts c) m"
    using check_upserts_owners[OF ups _ _ gone] m by blast
  have "\<forall>e\<in>set (dc_auto_save_upserts c). as_mount_id e = ?mount"
    using commit_validate_Inr(6)[OF valid] by (simp add: validate_auto_saves_Inr)
  from agree_insert_by[OF E'(2) this]
  have "(\<lambda>p. bm_get (insert_by auto_save_key (dc_auto_save_upserts c) E) (?mount, p))
      = bm_get (insert_by as_path (dc_auto_save_upserts c) m)"
    by (simp add: agree_def fun_eq_iff)
  with m' show ?thesis by metis
qed

lemma applied_entities:
  assumes ok: "store_keyed s" and app: "apply_discovery parse_json c s = Inr s'"
  shows "index_ok s'"
    and "get_entity n i s' =
      (if n \<noteq> dc_mount_id c then get_entity n i s
       else case List.find (\<lambda>e. er_remote_id e = i) (dc_entity_upserts c) of
           Some e \<Rightarrow> Some e
         | None \<Rightarrow> if i \<in> set (dc_entity_deletes c) then None else get_entity n i s)"
proof -
  from ok have m: "mirrors (st_entities s) (st_entities_by_path s)" and k: "keyed entity_key (st_entities s)"
    by (simp_all add: store_keyed_def index_ok_def mirrors_def)
  obtain d E where s': "s' = installed c d E s" and valid: "commit_validate parse_json c = Inr ()"
    and final: "final_entity_map c (filter (\<lambda>e. er_mount_id e = dc_mount_id c) (bm_values (st_entities s)))
       = Inr (pf_final_entities d)"
    by (rule applied_facts[OF ok app]) (rule that)
  let ?f = "pf_final_entities d"
  note f = final_entity_map_Inr[OF final]
  have fget: "bm_get ?f i = (case List.find (\<lambda>e. er_remote_id e = i) (dc_entity_upserts c) of
      Some e \<Rightarrow> Some e
    | None \<Rightarrow> if i \<in> set (dc_entity_deletes c) then None else bm_get (st_entities s) (dc_mount_id c, i))" for i
    unfolding f(1) final_entities_get[OF commit_validate_Inr(2)[OF valid]] entities_by_id_get[OF k] ..
  have mount: "er_mount_id e = dc_mount_id c" if "bm_get ?f i = Some e" for i e
    using that commit_validate_Inr(1)[OF valid] keyed_get[OF k, of "(dc_mount_id c, i)" e]
    unfolding fget by (auto simp: find_Some_iff entity_key_def split: option.splits if_splits)
  have fk: "keyed er_remote_id ?f" unfolding f(1) by (rule final_entities_keyed)
  have get: "bm_get (final_store_entities (dc_mount_id c) ?f s) (n, i) =
      (if n = dc_mount_id c then bm_get ?f i else bm_get (st_entities s) (n, i))" for n i
    by (rule final_store_entities_get(1)[OF k fk mount])
  have "one_per_path (final_store_entities (dc_mount_id c) ?f s)"
    unfolding one_per_path_def get
    by (auto split: if_splits dest: f(2) one_per_pathD[OF mirrors_one_per_path[OF m]])
  from mirrors_collect_paths[OF final_store_entities_get(2)[OF k fk mount] this]
  show "index_ok s'" by (simp add: s' installed_def index_ok_def Let_def)
  show "get_entity n i s' =
      (if n \<noteq> dc_mount_id c then get_entity n i s
       else case List.find (\<lambda>e. er_remote_id e = i) (dc_entity_upserts c) of
           Some e \<Rightarrow> Some e
         | None \<Rightarrow> if i \<in> set (dc_entity_deletes c) then None else get_entity n i s)"
    by (simp add: s' installed_def get_entity_def Let_def get fget split: option.split)
qed

text \<open>Nothing that the store keeps for an entity outlives its deletion by a commit.\<close>

definition forgotten :: "mount_id \<Rightarrow> remote_id \<Rightarrow> state_store \<Rightarrow> bool" where
  "forgotten mount i s \<longleftrightarrow>
     get_entity mount i s = None \<and> get_shadow_record mount i s = None
   \<and> bm_get (st_hydration_jobs s) (mount, i) = None \<and> get_remote_observation mount i s = None
   \<and> get_freshness_state mount i s = None"

lemma applied_forgotten:
  assumes ok: "store_keyed s" and app: "apply_discovery parse_json c s = Inr s'" and i: "i \<in> set (dc_entity_deletes c)"
  shows "forgotten (dc_mount_id c) i s'"
proof -
  obtain d E where s': "s' = installed c d E s" and valid: "commit_validate parse_json c = Inr ()"
    by (rule applied_facts[OF ok app]) (rule that)
  note v = commit_validate_Inr[OF valid]
  have keys: "(dc_mount_id c, i) \<notin> remote_observation_key ` set (dc_observation_upserts c)"
    "(dc_mount_id c, i) \<notin> freshness_state_key ` set (dc_freshness_upserts c)"
    using v(8,9) i by (auto simp: remote_observation_key_def freshness_state_key_def)
  have "List.find (\<lambda>e. er_remote_id e = i) (dc_entity_upserts c) = None"
    using v(7) i by (auto simp: find_None_iff)
  then have "get_entity (dc_mount_id c) i s' = None" using i by (simp add: applied_entities(2)[OF ok app])
  moreover have "bm_sorted (st_shadows s)" "bm_sorted (st_hydration_jobs s)" "bm_sorted (st_remote_observations s)"
    "bm_sorted (st_freshness_states s)" using ok by (simp_all add: store_keyed_def)
  ultimately show ?thesis
    using keys i
    by (simp add: forgotten_def s' installed_def Let_def get_shadow_record_def get_remote_observation_def
        get_freshness_state_def without_deleted_get moved_jobs_None insert_by_other bm_sorted_without_deleted)
qed

end
