(* ===== verification/Workspace_Layout.thy ===== *)
theory Workspace_Layout
  imports Portable
begin

text \<open>
  \<open>locality-core/src/workspace_layout.rs\<close> and \<open>path_projection.rs\<close>: the validated mount identities
  and mount targets of a workspace, and the paths of projected page documents. The lemmas show that an
  accepted target is one component below the workspace root and never its control directory, and how
  page documents, their containers and their listing parents relate.
\<close>

section \<open>Mount identities\<close>

datatype portable_mount_id_error =
    MidEmpty | MidNotNfc | MidTooManyUtf8Bytes usize | MidTooManyUtf16Units usize | MidNul
  | MidControl string

text \<open>The first control code point of a string, as its UTF-8 bytes; NUL is one of them. The loop over
  the characters stops at it.\<close>

fun first_control :: "string \<Rightarrow> string option" where
  "first_control [] = None"
| "first_control (a # s) =
     (if of_char a < (32 :: nat) \<or> of_char a = (127 :: nat) then Some [a]
      else case s of
             [] \<Rightarrow> None
           | b # _ \<Rightarrow>
               if a = CHR 0xC2 \<and> (128 :: nat) \<le> of_char b \<and> of_char b \<le> (159 :: nat) then Some [a, b]
               else first_control s)"

definition portable_mount_id_new :: "unicode_lib \<Rightarrow> string \<Rightarrow> portable_mount_id_error + string" where
  "portable_mount_id_new U v =
     (if v = [] then Inl MidEmpty
      else if nfc U v \<noteq> v then Inl MidNotNfc
      else if length v > 128 then Inl (MidTooManyUtf8Bytes (length v))
      else if utf16_units v > 128 then Inl (MidTooManyUtf16Units (utf16_units v))
      else case first_control v of
             Some c \<Rightarrow> if c = [CHR 0x00] then Inl MidNul else Inl (MidControl c)
           | None \<Rightarrow> Inr v)"

section \<open>Mount targets\<close>

datatype mount_target_error =
    MtEmpty | MtNotNfc | MtTooManyUtf8Bytes usize | MtTooManyUtf16Units usize | MtTraversal | MtNul
  | MtControl string | MtInvalidCharacter char | MtTrailingDotOrSpace | MtWindowsDeviceName
  | MtReservedControlComponent

definition invalid_target_characters :: string where
  "invalid_target_characters =
     [CHR ''/'', CHR 0x5C, CHR '':'', CHR ''<'', CHR ''>'', CHR 0x22, CHR ''|'', CHR ''?'', CHR ''*'']"

text \<open>The loop over the characters of a target: the first offending one decides.\<close>

fun scan_target :: "string \<Rightarrow> mount_target_error option" where
  "scan_target [] = None"
| "scan_target (a # s) =
     (if a = CHR 0x00 then Some MtNul
      else if of_char a < (32 :: nat) \<or> of_char a = (127 :: nat) then Some (MtControl [a])
      else if a \<in> set invalid_target_characters then Some (MtInvalidCharacter a)
      else case s of
             [] \<Rightarrow> None
           | b # _ \<Rightarrow>
               if a = CHR 0xC2 \<and> (128 :: nat) \<le> of_char b \<and> of_char b \<le> (159 :: nat)
               then Some (MtControl [a, b])
               else scan_target s)"

definition collision_key :: "unicode_lib \<Rightarrow> string \<Rightarrow> string" where
  "collision_key U v = nfc U (case_fold U v)"

definition is_windows_device_name :: "string \<Rightarrow> bool" where
  "is_windows_device_name v \<longleftrightarrow>
     (let upper = to_ascii_uppercase (hd (split_on (CHR ''.'') v));
          numbered = (\<lambda>suf. suf \<in> set [''1'', ''2'', ''3'', ''4'', ''5'', ''6'', ''7'', ''8'', ''9''])
      in upper \<in> set [''CON'', ''PRN'', ''AUX'', ''NUL'']
         \<or> (case (case strip_prefix ''COM'' upper of None \<Rightarrow> strip_prefix ''LPT'' upper | Some suf \<Rightarrow> Some suf) of
              None \<Rightarrow> False | Some suf \<Rightarrow> numbered suf))"

definition mount_target_new :: "unicode_lib \<Rightarrow> string \<Rightarrow> mount_target_error + string" where
  "mount_target_new U v =
     (if v = [] then Inl MtEmpty
      else if nfc U v \<noteq> v then Inl MtNotNfc
      else if length v > 120 then Inl (MtTooManyUtf8Bytes (length v))
      else if utf16_units v > 120 then Inl (MtTooManyUtf16Units (utf16_units v))
      else if v = ''.'' \<or> v = ''..'' then Inl MtTraversal
      else case scan_target v of
             Some e \<Rightarrow> Inl e
           | None \<Rightarrow>
               if last v \<in> set ''. '' then Inl MtTrailingDotOrSpace
               else if is_windows_device_name v then Inl MtWindowsDeviceName
               else if collision_key U v = ''.loc'' then Inl MtReservedControlComponent
               else Inr v)"

lemma scan_target_None:
  "scan_target v = None \<longleftrightarrow> \<not> has_control v \<and> set v \<inter> set invalid_target_characters = {}"
  by (induction v rule: scan_target.induct) (auto split: list.splits if_splits)

lemma first_control_None: "first_control v = None \<longleftrightarrow> \<not> has_control v"
  by (induction v rule: first_control.induct) (auto split: list.splits if_splits)

lemma mount_target_new_Inr:
  "mount_target_new U v = Inr t \<longleftrightarrow>
   t = v \<and> v \<noteq> [] \<and> nfc U v = v \<and> length v \<le> 120 \<and> utf16_units v \<le> 120 \<and> v \<noteq> ''.'' \<and> v \<noteq> ''..''
   \<and> \<not> has_control v \<and> set v \<inter> set invalid_target_characters = {} \<and> last v \<notin> set ''. ''
   \<and> \<not> is_windows_device_name v \<and> collision_key U v \<noteq> ''.loc''"
  by (auto simp: mount_target_new_def not_less scan_target_None[symmetric] split: option.splits if_splits)

text \<open>An accepted mount target is exactly one plain component below the workspace root, and no
  accepted target collides with the control directory, whatever its case: its collision key differs
  from \<open>.loc\<close>.\<close>

theorem mount_target_confined:
  assumes "mount_target_new U v = Inr t" and "root \<noteq> []"
  shows "path_join root (components t) = root @ [Normal v] \<and> collision_key U t \<noteq> ''.loc''
    \<and> path_parent (path_join root (components t)) = Some root"
proof -
  from assms(1) have t: "t = v" "v \<noteq> []" "v \<noteq> ''.''" "v \<noteq> ''..''" "CHR ''/'' \<notin> set v"
    "collision_key U v \<noteq> ''.loc''"
    by (auto simp: mount_target_new_Inr invalid_target_characters_def)
  then have "components v = [Normal v]"
    by (subst components_plain) (simp_all add: split_on_no_sep_id)
  with t assms(2) show ?thesis by (simp add: path_join_def is_absolute_def)
qed

theorem mount_target_confined_witness:
  "path_join [RootDir] (components ''Notion'') = [RootDir, Normal ''Notion'']"
proof -
  have "mount_target_new plain_unicode ''Notion'' = Inr ''Notion''" by code_simp
  from mount_target_confined[OF this, of "[RootDir]"] show ?thesis by simp
qed

section \<open>Projected page documents\<close>

definition PAGE_DOCUMENT_FILENAME :: string where
  "PAGE_DOCUMENT_FILENAME = ''page.md''"

definition page_document_path :: "path \<Rightarrow> path" where
  "page_document_path page_directory = path_join page_directory (components PAGE_DOCUMENT_FILENAME)"

definition is_page_document_path :: "path \<Rightarrow> bool" where
  "is_page_document_path p \<longleftrightarrow>
     (case file_name p of None \<Rightarrow> False | Some n \<Rightarrow> eq_ignore_ascii_case n PAGE_DOCUMENT_FILENAME)"

definition page_container_path :: "path \<Rightarrow> path" where
  "page_container_path page_path =
     (if is_page_document_path page_path
      then (case path_parent page_path of None \<Rightarrow> [] | Some p \<Rightarrow> p)
      else without_extension page_path)"

definition projection_namespace_root :: "entity_kind \<Rightarrow> path \<Rightarrow> path" where
  "projection_namespace_root k p = (case k of Page \<Rightarrow> page_container_path p | _ \<Rightarrow> p)"

definition parent_path :: "path \<Rightarrow> path" where
  "parent_path p = (case path_parent p of None \<Rightarrow> [] | Some q \<Rightarrow> if q \<noteq> [] then q else [])"

definition page_listing_parent_path :: "path \<Rightarrow> path" where
  "page_listing_parent_path page_path = parent_path (page_container_path page_path)"

definition named_markdown_page_workspace_entity_path :: "path \<Rightarrow> path option" where
  "named_markdown_page_workspace_entity_path p =
     (if is_page_document_path p then None
      else Option.bind (extension p) (\<lambda>ext.
        if \<not> eq_ignore_ascii_case ext ''md'' then None
        else Option.bind (file_stem p) (\<lambda>stem.
        Option.bind (path_parent p) (\<lambda>parent.
        Option.bind (file_name parent) (\<lambda>parent_name.
          if stem \<noteq> parent_name then None
          else Some (path_join (parent_path parent) (components (parent_name @ ''.md''))))))))"

lemma components_page: "components PAGE_DOCUMENT_FILENAME = [Normal PAGE_DOCUMENT_FILENAME]"
  unfolding PAGE_DOCUMENT_FILENAME_def by code_simp

lemma page_document_path_eq: "page_document_path d = d @ [Normal PAGE_DOCUMENT_FILENAME]"
  by (simp add: page_document_path_def components_page path_join_def is_absolute_def)

lemma page_document_is: "is_page_document_path (page_document_path d)"
  by (simp add: is_page_document_path_def page_document_path_eq eq_ignore_ascii_case_def)

lemma container_of_page_document: "page_container_path (page_document_path d) = d"
  by (simp add: page_container_path_def page_document_is) (simp add: page_document_path_eq)

lemma rsplit_dot_md:
  assumes "n \<noteq> []"
  shows "rsplit_dot (n @ ''.md'') = (Some n, Some ''md'')"
proof -
  have "n @ ''.md'' \<noteq> ''..''" using assms by (cases n rule: rev_cases) auto
  then show ?thesis using assms by (simp add: rsplit_dot_def Let_def)
qed

lemma md_file:
  assumes "n \<noteq> []"
  shows "extension (d @ [Normal (n @ ''.md'')]) = Some ''md''" "file_stem (d @ [Normal (n @ ''.md'')]) = Some n"
    "without_extension (d @ [Normal (n @ ''.md'')]) = d @ [Normal n]"
  using rsplit_dot_md[OF assms] by (simp_all add: extension_def file_stem_def without_extension_def)

lemma parent_path_snoc [simp]: "parent_path (d @ [Normal n]) = d"
  by (simp add: parent_path_def)

text \<open>The path helpers of projected pages are inverse to each other. The container of the page
  document of a directory is the directory; and the workspace document \<open>dir/name/name.md\<close> of a page
  called \<open>name\<close> maps back to the entity path \<open>dir/name.md\<close>, whose container is again \<open>dir/name\<close> and
  whose listing parent is \<open>dir\<close>. The name may hold dots, but must be a plain component and not \<open>page\<close>
  in any case.\<close>

theorem page_paths_roundtrip:
  assumes "n \<noteq> []" "CHR ''/'' \<notin> set n" "\<not> eq_ignore_ascii_case (n @ ''.md'') PAGE_DOCUMENT_FILENAME"
  shows "page_container_path (page_document_path d) = d
    \<and> named_markdown_page_workspace_entity_path (d @ [Normal n, Normal (n @ ''.md'')]) = Some (d @ [Normal (n @ ''.md'')])
    \<and> page_container_path (d @ [Normal (n @ ''.md'')]) = d @ [Normal n]
    \<and> page_listing_parent_path (d @ [Normal (n @ ''.md'')]) = d"
proof -
  have split: "d @ [Normal n, Normal (n @ ''.md'')] = (d @ [Normal n]) @ [Normal (n @ ''.md'')]" by simp
  have nd: "\<not> is_page_document_path (q @ [Normal (n @ ''.md'')])" for q
    using assms(3) by (simp add: is_page_document_path_def)
  have "n @ ''.md'' \<noteq> ''..''" using assms(1) by (cases n rule: rev_cases) auto
  then have comp: "components (n @ ''.md'') = [Normal (n @ ''.md'')]"
    using assms(1,2) by (subst components_plain) (auto simp: split_on_no_sep_id Cons_eq_append_conv append_eq_Cons_conv)
  have "named_markdown_page_workspace_entity_path (d @ [Normal n, Normal (n @ ''.md'')]) = Some (d @ [Normal (n @ ''.md'')])"
    unfolding split named_markdown_page_workspace_entity_path_def
    by (simp only: nd md_file[OF assms(1)] path_parent_snoc file_name_snoc)
      (simp add: comp path_join_def is_absolute_def eq_ignore_ascii_case_def)
  moreover have "page_container_path (d @ [Normal (n @ ''.md'')]) = d @ [Normal n]"
    by (simp add: page_container_path_def nd md_file[OF assms(1)])
  ultimately show ?thesis
    by (simp add: container_of_page_document page_listing_parent_path_def)
qed

theorem page_paths_roundtrip_witness:
  "named_markdown_page_workspace_entity_path [Normal ''thread'', Normal ''foo.bar'', Normal ''foo.bar.md''] =
     Some [Normal ''thread'', Normal ''foo.bar.md'']"
proof -
  have "\<not> eq_ignore_ascii_case (''foo.bar'' @ ''.md'') PAGE_DOCUMENT_FILENAME" by code_simp
  with page_paths_roundtrip[of "''foo.bar''" "[Normal ''thread'']"] show ?thesis by simp
qed

end
