(* ===== verification/Discovery_Components.thy ===== *)
theory Discovery_Components
  imports Discovery_Groups
begin

text \<open>
  The grouping of projection actions is exact: the union-find returns, and its classes are the connected
  components of the overlap of namespaces.
\<close>

section \<open>The forest of parents\<close>

definition forest :: "nat list \<Rightarrow> bool" where
  "forest ps \<longleftrightarrow> (\<forall>i<length ps. ps ! i \<le> i)"

function root_of :: "nat list \<Rightarrow> nat \<Rightarrow> nat" where
  "root_of ps i = (if ps ! i < i then root_of ps (ps ! i) else i)"
  by pat_completeness auto
termination by (relation "measure snd") auto

declare root_of.simps [simp del]

lemma root_of_le: "root_of ps i \<le> i"
proof (induction ps i rule: root_of.induct)
  case (1 ps i)
  then show ?case by (subst root_of.simps) auto
qed

lemma root_of_top: "\<not> ps ! root_of ps i < root_of ps i"
proof (induction ps i rule: root_of.induct)
  case (1 ps i)
  then show ?case by (subst (1 2) root_of.simps) auto
qed

lemma root_of_root [simp]: "root_of ps (root_of ps i) = root_of ps i"
  using root_of_top by (subst root_of.simps) simp

lemma root_of_parent: "forest ps \<Longrightarrow> i < length ps \<Longrightarrow> root_of ps (ps ! i) = root_of ps i"
  by (cases "ps ! i < i") (auto simp: root_of.simps[of ps i] forest_def dest: leD)

lemma root_fixed: "forest ps \<Longrightarrow> i < length ps \<Longrightarrow> ps ! root_of ps i = root_of ps i"
  using root_of_top[of ps i] root_of_le[of ps i] unfolding forest_def by (metis le_less_trans le_neq_implies_less)

lemma compress:
  assumes "forest ps" "i < length ps"
  shows "forest (ps[i := root_of ps i])" "root_of (ps[i := root_of ps i]) j = root_of ps j"
proof -
  let ?qs = "ps[i := root_of ps i]"
  show "forest ?qs" using assms root_of_le by (auto simp: forest_def nth_list_update)
  show "root_of ?qs j = root_of ps j"
  proof (induction j rule: less_induct)
    case (less j)
    show ?case
    proof (cases "j = i")
      case True
      have "root_of ?qs (root_of ps i) = root_of ps i"
        using root_fixed[OF assms] root_of_le[of ps i] assms(2)
        by (subst root_of.simps) (auto simp: nth_list_update)
      then show ?thesis
        using True assms(2) root_of_le[of ps i] by (subst root_of.simps) auto
    next
      case False
      then show ?thesis
        using less by (subst (1 2) root_of.simps) auto
    qed
  qed
qed

lemma find_component_root:
  assumes "forest ps" "i < length ps"
  shows "\<exists>qs. find_component ps i = Some (root_of ps i, qs) \<and> forest qs \<and> length qs = length ps
    \<and> (\<forall>j. root_of qs j = root_of ps j)"
  using assms(2)
proof (induction i rule: less_induct)
  case (less i)
  show ?case
  proof (cases "ps ! i = i")
    case True
    with less.prems assms(1) show ?thesis
      by (subst find_component.simps) (simp add: root_of.simps[of ps i])
  next
    case False
    with assms(1) less.prems have "ps ! i < i" by (simp add: forest_def order.not_eq_order_implies_strict)
    with less obtain qs where qs: "find_component ps (ps ! i) = Some (root_of ps (ps ! i), qs)" "forest qs"
      "length qs = length ps" "\<And>j. root_of qs j = root_of ps j" by fastforce
    have r: "root_of ps (ps ! i) = root_of qs i" using assms(1) less.prems by (simp add: root_of_parent qs(4))
    show ?thesis
      using less.prems False qs(1) compress[of qs i] qs
      by (subst find_component.simps) (simp add: r)
  qed
qed

lemma link_root:
  assumes f: "forest qs" and a: "a < length qs" "qs ! a = a" and b: "b < length qs" "qs ! b = b" and ab: "a < b"
  shows "forest (qs[b := a])" "root_of (qs[b := a]) j = (if root_of qs j = b then a else root_of qs j)"
proof -
  show "forest (qs[b := a])" using f ab b(1) by (auto simp: forest_def nth_list_update)
  show "root_of (qs[b := a]) j = (if root_of qs j = b then a else root_of qs j)"
  proof (induction j rule: less_induct)
    case (less j)
    show ?case
    proof (cases "j = b")
      case True
      have "root_of (qs[b := a]) a = a" using a ab by (subst root_of.simps) simp
      with True show ?thesis
        using b ab by (subst root_of.simps) (simp add: root_of.simps[of qs b])
    next
      case False
      then show ?thesis using less by (subst (1 2 3) root_of.simps) auto
    qed
  qed
qed

lemma union_components_root:
  assumes "forest ps" "l < length ps" "r < length ps"
  shows "\<exists>qs. union_components ps l r = Some qs \<and> forest qs \<and> length qs = length ps
    \<and> (\<forall>j. root_of qs j = (if root_of ps j = root_of ps l \<or> root_of ps j = root_of ps r
                            then min (root_of ps l) (root_of ps r) else root_of ps j))"
proof -
  obtain ps1 where 1: "find_component ps l = Some (root_of ps l, ps1)" "forest ps1" "length ps1 = length ps"
    "\<And>j. root_of ps1 j = root_of ps j" using find_component_root[OF assms(1,2)] by blast
  obtain ps2 where 2: "find_component ps1 r = Some (root_of ps r, ps2)" "forest ps2" "length ps2 = length ps"
    "\<And>j. root_of ps2 j = root_of ps j" using find_component_root[of ps1 r] 1 assms(3) by auto
  let ?a = "root_of ps l" and ?b = "root_of ps r"
  have top: "?a < length ps2" "ps2 ! ?a = ?a" "?b < length ps2" "ps2 ! ?b = ?b"
    using root_fixed[OF 2(2), of l] root_fixed[OF 2(2), of r] root_of_le[of ps l] root_of_le[of ps r] assms(2,3) 2(3,4)
    by simp_all
  have same: "ps2[?a := ?a] = ps2" "ps2[?b := ?b] = ps2"
    using list_update_id[of ps2 ?a] list_update_id[of ps2 ?b] top(2,4) by simp_all
  have "ps2[?b := min ?a ?b, ?a := min ?a ?b] = (if ?a < ?b then ps2[?b := ?a] else ps2[?a := ?b])" if "?a \<noteq> ?b"
  proof (cases "?a < ?b")
    case True
    then show ?thesis using list_update_swap[OF that, of ps2 ?a ?a] same by (simp add: min_def)
  next
    case False
    with that show ?thesis using same by (simp add: min_def)
  qed
  then show ?thesis
    using 1(1) 2 top link_root[OF 2(2), of ?a ?b] link_root[OF 2(2), of ?b ?a]
    by (cases "?a = ?b"; cases "?a < ?b") (auto simp: union_components_def min_def not_less)
qed

section \<open>Classes are connected components\<close>

lemma paths_overlap_sym: "paths_overlap l r \<longleftrightarrow> paths_overlap r l"
  by (auto simp: paths_overlap_def)

lemma roots_overlap_iff: "roots_overlap ls rs \<longleftrightarrow> (\<exists>l\<in>set ls. \<exists>r\<in>set rs. paths_overlap l r)"
  by (simp add: roots_overlap_def list_ex_iff)

lemma roots_overlap_sym: "roots_overlap ls rs \<longleftrightarrow> roots_overlap rs ls"
  unfolding roots_overlap_iff using paths_overlap_sym by blast

definition overlap_edges :: "path list list \<Rightarrow> (nat \<times> nat) set" where
  "overlap_edges roots =
     {(i, j). i < length roots \<and> j < length roots \<and> roots_overlap (roots ! i) (roots ! j)}"

lemma overlap_edges_sym: "sym ((overlap_edges roots)\<^sup>*)"
  by (rule sym_rtrancl) (auto simp: sym_def overlap_edges_def roots_overlap_sym)

definition linked :: "path list list \<Rightarrow> nat list \<Rightarrow> bool" where
  "linked roots ps \<longleftrightarrow> (\<forall>i<length roots. (i, root_of ps i) \<in> (overlap_edges roots)\<^sup>*)"

lemma union_linked:
  assumes lk: "linked roots ps" and e: "(l, r) \<in> overlap_edges roots"
    and qs: "\<forall>j. root_of qs j = (if root_of ps j = root_of ps l \<or> root_of ps j = root_of ps r
                            then min (root_of ps l) (root_of ps r) else root_of ps j)"
  shows "linked roots qs"
  unfolding linked_def
proof (intro allI impI)
  fix j
  assume j: "j < length roots"
  let ?E = "(overlap_edges roots)\<^sup>*"
  have s: "(a, b) \<in> ?E \<Longrightarrow> (b, a) \<in> ?E" for a b using overlap_edges_sym by (meson symD)
  have ps: "i < length roots \<Longrightarrow> (i, root_of ps i) \<in> ?E" for i using lk by (simp add: linked_def)
  have "(l, r) \<in> ?E" using e by auto
  moreover have "l < length roots" "r < length roots" using e by (simp_all add: overlap_edges_def)
  ultimately have both: "(root_of ps l, root_of ps r) \<in> ?E" using ps s by (meson rtrancl_trans)
  then have m: "(root_of ps l, min (root_of ps l) (root_of ps r)) \<in> ?E"
    "(root_of ps r, min (root_of ps l) (root_of ps r)) \<in> ?E" using s by (auto simp: min_def)
  show "(j, root_of qs j) \<in> ?E"
    using ps[OF j] m qs by (auto intro: rtrancl_trans)
qed

lemma union_overlapping_classes:
  assumes "forest ps" "length ps = length roots" "linked roots ps"
    "\<forall>(l, r)\<in>set pairs. l < length roots \<and> r < length roots"
  shows "\<exists>qs. union_overlapping roots pairs ps = Some qs \<and> forest qs \<and> length qs = length roots \<and> linked roots qs
    \<and> (\<forall>i j. root_of ps i = root_of ps j \<longrightarrow> root_of qs i = root_of qs j)
    \<and> (\<forall>(l, r)\<in>set pairs. roots_overlap (roots ! l) (roots ! r) \<longrightarrow> root_of qs l = root_of qs r)"
  using assms
proof (induction roots pairs ps rule: union_overlapping.induct)
  case (2 roots l r pairs ps)
  have lr: "l < length roots" "r < length roots" and rest: "\<forall>(l, r)\<in>set pairs. l < length roots \<and> r < length roots"
    using "2.prems"(4) by auto
  show ?case
  proof (cases "roots_overlap (roots ! l) (roots ! r)")
    case True
    obtain us where us: "union_components ps l r = Some us" "forest us" "length us = length ps"
      "\<forall>j. root_of us j = (if root_of ps j = root_of ps l \<or> root_of ps j = root_of ps r
                            then min (root_of ps l) (root_of ps r) else root_of ps j)"
      using union_components_root[of ps l r] "2.prems"(1,2) lr by auto
    have lk: "linked roots us"
      using union_linked[OF "2.prems"(3) _ us(4)] True lr by (simp add: overlap_edges_def)
    have len: "length us = length roots" using us(3) "2.prems"(2) by simp
    obtain qs where qs: "union_overlapping roots pairs us = Some qs" "forest qs"
      "length qs = length roots" "linked roots qs" "\<forall>i j. root_of us i = root_of us j \<longrightarrow> root_of qs i = root_of qs j"
      "\<forall>(l, r)\<in>set pairs. roots_overlap (roots ! l) (roots ! r) \<longrightarrow> root_of qs l = root_of qs r"
      using "2.IH"(1)[OF True us(1,2) len lk rest] by (elim exE conjE) (rule that)
    have keep: "\<forall>i j. root_of ps i = root_of ps j \<longrightarrow> root_of qs i = root_of qs j"
      by (intro allI impI qs(5)[rule_format]) (simp add: us(4))
    have "root_of qs l = root_of qs r" by (rule qs(5)[rule_format]) (simp add: us(4))
    then have join: "\<forall>(l, r)\<in>set ((l, r) # pairs). roots_overlap (roots ! l) (roots ! r) \<longrightarrow> root_of qs l = root_of qs r"
      using qs(6) by simp
    have "union_overlapping roots ((l, r) # pairs) ps = Some qs" by (simp add: True us(1) qs(1))
    with qs(2-4) keep join show ?thesis by blast
  next
    case False
    with "2.IH"(2)[OF False "2.prems"(1,2,3) rest] show ?thesis by auto
  qed
qed auto

lemma bm_insert_append:
  "bm_sorted g \<Longrightarrow>
   mset (concat (bm_values (bm_insert k ((case bm_get g k of None \<Rightarrow> [] | Some xs \<Rightarrow> xs) @ [x]) g))) =
     add_mset x (mset (concat (bm_values g)))"
proof (induction g)
  case (Cons a g)
  obtain j w where a: "a = (j, w)" by (cases a)
  have "bm_sorted g" "k < j \<Longrightarrow> bm_get g k = None"
    using Cons.prems by (auto simp: a bm_sorted_def map_of_eq_None_iff)
  with Cons.IH show ?case by (auto simp: a)
qed simp

lemma group_indices_spec:
  assumes "forest ps" "\<forall>i\<in>set is. i < length ps" "bm_sorted g"
  shows "\<exists>g'. group_indices is ps g = Some g' \<and> bm_sorted g'
    \<and> mset (concat (bm_values g')) = mset (concat (bm_values g)) + mset is
    \<and> (\<forall>k xs i. bm_get g' k = Some xs \<longrightarrow> i \<in> set xs \<longrightarrow>
          (\<exists>ys. bm_get g k = Some ys \<and> i \<in> set ys) \<or> i \<in> set is \<and> root_of ps i = k)
    \<and> (\<forall>k xs. bm_get g' k = Some xs \<longrightarrow> xs \<noteq> [] \<or> bm_get g k = Some [])"
  using assms
proof (induction "is" arbitrary: ps g)
  case (Cons i "is")
  obtain qs where qs: "find_component ps i = Some (root_of ps i, qs)" "forest qs" "length qs = length ps"
    "\<And>j. root_of qs j = root_of ps j" using find_component_root[of ps i] Cons.prems by auto
  let ?old = "case bm_get g (root_of ps i) of None \<Rightarrow> [] | Some xs \<Rightarrow> xs"
  let ?g = "bm_insert (root_of ps i) (?old @ [i]) g"
  have len: "\<forall>i\<in>set is. i < length qs" using Cons.prems(2) qs(3) by simp
  have sorted: "bm_sorted ?g" using Cons.prems(3) by (rule bm_sorted_insert)
  obtain g' where g': "group_indices is qs ?g = Some g'" "bm_sorted g'"
    "mset (concat (bm_values g')) = mset (concat (bm_values ?g)) + mset is"
    and mem: "\<And>k xs j. bm_get g' k = Some xs \<Longrightarrow> j \<in> set xs \<Longrightarrow>
          (\<exists>ys. bm_get ?g k = Some ys \<and> j \<in> set ys) \<or> j \<in> set is \<and> root_of ps j = k"
    and ne: "\<And>k xs. bm_get g' k = Some xs \<Longrightarrow> xs \<noteq> [] \<or> bm_get ?g k = Some []"
    using Cons.IH[OF qs(2) len sorted] unfolding qs(4) by blast
  have "(\<exists>ys. bm_get g k = Some ys \<and> j \<in> set ys) \<or> j \<in> set (i # is) \<and> root_of ps j = k"
    if "bm_get g' k = Some xs" "j \<in> set xs" for k xs j
    using mem[OF that] by (auto simp: bm_get_insert split: if_splits option.splits)
  moreover have "xs \<noteq> [] \<or> bm_get g k = Some []" if "bm_get g' k = Some xs" for k xs
    using ne[OF that] by (auto simp: bm_get_insert split: if_splits)
  moreover have "mset (concat (bm_values g')) = mset (concat (bm_values g)) + mset (i # is)"
    using g'(3) bm_insert_append[OF Cons.prems(3), of "root_of ps i" i] by simp
  ultimately show ?case using g'(1,2) by (auto simp: qs(1))
qed auto

section \<open>The grouping\<close>

lemma set_index_pairs: "set (index_pairs n) = {(l, r). l < r \<and> r < n}"
  by (auto simp: index_pairs_def image_iff)

lemma initial_parents: "forest [0..<n]" "i < n \<Longrightarrow> root_of [0..<n] i = i"
  by (auto simp: forest_def root_of.simps)

lemma sorted_wrt_insort_sym:
  assumes "symp R"
  shows "sorted_wrt R (insort_key f x xs) \<longleftrightarrow> (\<forall>y\<in>set xs. R x y) \<and> sorted_wrt R xs"
proof (induction xs)
  case (Cons y xs)
  with assms show ?case by (auto simp: set_insort_key dest: sympD)
qed simp

lemma sorted_wrt_sort_sym: "symp R \<Longrightarrow> sorted_wrt R xs \<Longrightarrow> sorted_wrt R (sort_key f xs)"
  by (induction xs) (auto simp: sorted_wrt_insort_sym)

definition apart :: "path list list \<Rightarrow> nat list \<Rightarrow> nat list \<Rightarrow> bool" where
  "apart roots xs ys \<longleftrightarrow> (\<forall>i\<in>set xs. \<forall>j\<in>set ys. \<not> roots_overlap (roots ! i) (roots ! j))"

text \<open>The classes the union-find ends with.\<close>

lemma classes_exist:
  fixes roots :: "path list list"
  obtains ps g where "union_overlapping roots (index_pairs (length roots)) [0..<length roots] = Some ps"
    "group_indices [0..<length roots] ps [] = Some g"
    "mset (concat (bm_values g)) = mset [0..<length roots]"
    "sorted_wrt (apart roots) (bm_values g)"
    "\<forall>xs\<in>set (bm_values g). xs \<noteq> [] \<and> (\<forall>i\<in>set xs. \<forall>j\<in>set xs. (i, j) \<in> (overlap_edges roots)\<^sup>*)"
proof -
  let ?n = "length roots"
  have lk: "linked roots [0..<?n]" by (simp add: linked_def initial_parents)
  obtain ps where ps: "union_overlapping roots (index_pairs ?n) [0..<?n] = Some ps" "forest ps" "length ps = ?n"
    "linked roots ps"
    "\<forall>(l, r)\<in>set (index_pairs ?n). roots_overlap (roots ! l) (roots ! r) \<longrightarrow> root_of ps l = root_of ps r"
    using union_overlapping_classes[OF initial_parents(1) _ lk, of "index_pairs ?n"]
    by (auto simp: set_index_pairs)
  obtain g where g: "group_indices [0..<?n] ps [] = Some g" "bm_sorted g"
    "mset (concat (bm_values g)) = mset [0..<?n]"
    and mem: "\<forall>k xs i. bm_get g k = Some xs \<longrightarrow> i \<in> set xs \<longrightarrow> i < ?n \<and> root_of ps i = k"
    and ne: "\<forall>k xs. bm_get g k = Some xs \<longrightarrow> xs \<noteq> []"
    using group_indices_spec[OF ps(2), of "[0..<?n]" "[]"] ps(3) by fastforce
  have entry: "bm_get g k = Some xs" if "(k, xs) \<in> set g" for k xs using that g(2) by (simp add: bm_get_iff)
  have apart: "\<not> roots_overlap (roots ! i) (roots ! j)"
    if "i < ?n" "j < ?n" "root_of ps i \<noteq> root_of ps j" for i j
    using that ps(5) roots_overlap_sym[of "roots ! i" "roots ! j"]
    by (cases i j rule: linorder_cases) (auto simp: set_index_pairs)
  have "sorted_wrt (apart roots) (bm_values g)"
    unfolding sorted_wrt_iff_nth_less
  proof (intro allI impI)
    fix p q
    assume pq: "p < q" "q < length (bm_values g)"
    then have "fst (g ! p) < fst (g ! q)"
      using g(2) by (auto simp: bm_sorted_def sorted_wrt_iff_nth_less)
    moreover have "bm_get g (fst (g ! p)) = Some (snd (g ! p))" "bm_get g (fst (g ! q)) = Some (snd (g ! q))"
      using pq by (auto intro!: entry simp: nth_mem)
    ultimately show "apart roots (bm_values g ! p) (bm_values g ! q)"
      using pq mem apart unfolding apart_def by (metis length_map less_trans nth_map order_less_irrefl)
  qed
  moreover have "\<forall>xs\<in>set (bm_values g). xs \<noteq> [] \<and> (\<forall>i\<in>set xs. \<forall>j\<in>set xs. (i, j) \<in> (overlap_edges roots)\<^sup>*)"
  proof (intro ballI conjI)
    fix xs
    assume "xs \<in> set (bm_values g)"
    then obtain k where "(k, xs) \<in> set g" by auto
    then have k: "bm_get g k = Some xs" by (rule entry)
    then show "xs \<noteq> []" using ne by blast
    fix i j
    assume "i \<in> set xs" "j \<in> set xs"
    then have "(i, k) \<in> (overlap_edges roots)\<^sup>*" "(j, k) \<in> (overlap_edges roots)\<^sup>*"
      using mem k ps(4) unfolding linked_def by metis+
    then show "(i, j) \<in> (overlap_edges roots)\<^sup>*" using overlap_edges_sym by (meson rtrancl_trans symD)
  qed
  ultimately show thesis using ps(1) g(1,3) that by blast
qed

lemma minimal_roots_subset: "set (minimal_namespace_roots paths) \<subseteq> set paths"
  by (auto simp: minimal_namespace_roots_def Let_def)

lemma minimal_roots_cover: "p \<in> set paths \<Longrightarrow> \<exists>r\<in>set (minimal_namespace_roots paths). prefix r p"
proof (induction "length p" arbitrary: p rule: less_induct)
  case less
  show ?case
  proof (cases "\<exists>c\<in>set paths. c \<noteq> p \<and> prefix c p")
    case True
    then obtain c where c: "c \<in> set paths" "strict_prefix c p" by (auto simp: strict_prefix_def)
    then have "length c < length p" by (simp add: prefix_length_less)
    with less.hyps c show ?thesis by (meson prefix_order.trans strict_prefix_def)
  next
    case False
    with less.prems show ?thesis
      by (auto simp: minimal_namespace_roots_def Let_def list_ex_iff intro!: bexI[of _ p])
  qed
qed

abbreviation actions_overlap :: "discovery_projection_action \<Rightarrow> discovery_projection_action \<Rightarrow> bool" where
  "actions_overlap a b \<equiv> roots_overlap (projection_action_namespace_roots a) (projection_action_namespace_roots b)"

definition overlap_relation :: "discovery_projection_action list \<Rightarrow> (discovery_projection_action \<times> discovery_projection_action) set" where
  "overlap_relation actions = {(a, b). a \<in> set actions \<and> b \<in> set actions \<and> actions_overlap a b}"

definition components_apart :: "discovery_projection_component \<Rightarrow> discovery_projection_component \<Rightarrow> bool" where
  "components_apart c d \<longleftrightarrow> (\<forall>a\<in>set (pc_actions c). \<forall>b\<in>set (pc_actions d). \<not> actions_overlap a b)"

definition component_ok :: "discovery_projection_action list \<Rightarrow> discovery_projection_component \<Rightarrow> bool" where
  "component_ok actions c \<longleftrightarrow>
     pc_actions c \<noteq> []
   \<and> (\<forall>a\<in>set (pc_actions c). \<forall>b\<in>set (pc_actions c). (a, b) \<in> (overlap_relation actions)\<^sup>*)
   \<and> (\<forall>a\<in>set (pc_actions c). \<forall>p\<in>set (projection_action_namespace_roots a).
        \<exists>r\<in>set (pc_namespace_roots c). prefix r p)
   \<and> (\<forall>r\<in>set (pc_namespace_roots c). \<exists>a\<in>set (pc_actions c). r \<in> set (projection_action_namespace_roots a))"

lemma edges_to_actions:
  assumes "(i, j) \<in> (overlap_edges (map projection_action_namespace_roots actions))\<^sup>*"
  shows "(actions ! i, actions ! j) \<in> (overlap_relation actions)\<^sup>*"
  using assms
proof (induction rule: rtrancl_induct)
  case (step j k)
  then have "(actions ! j, actions ! k) \<in> overlap_relation actions"
    by (auto simp: overlap_edges_def overlap_relation_def)
  with step.IH show ?case by (rule rtrancl_into_rtrancl)
qed simp

lemma component_of_class:
  assumes "xs \<noteq> []" "\<forall>i\<in>set xs. i < length actions"
    and "\<forall>i\<in>set xs. \<forall>j\<in>set xs. (i, j) \<in> (overlap_edges (map projection_action_namespace_roots actions))\<^sup>*"
  shows "component_ok actions (component_of_indices actions (map projection_action_namespace_roots actions) xs)"
proof -
  let ?roots = "concat (map (\<lambda>i. map projection_action_namespace_roots actions ! i) xs)"
  have r: "set ?roots = (\<Union>i\<in>set xs. set (projection_action_namespace_roots (actions ! i)))"
    using assms(2) by auto
  have "\<exists>r\<in>set (minimal_namespace_roots ?roots). prefix r p"
    if "i \<in> set xs" "p \<in> set (projection_action_namespace_roots (actions ! i))" for i p
    using that r by (intro minimal_roots_cover) blast
  moreover have "\<exists>i\<in>set xs. p \<in> set (projection_action_namespace_roots (actions ! i))"
    if "p \<in> set (minimal_namespace_roots ?roots)" for p
    using that minimal_roots_subset[of ?roots] r by blast
  ultimately show ?thesis
    using assms(1,3) edges_to_actions by (simp add: component_ok_def component_of_indices_def)
qed

lemma mset_concat_map: "mset (concat (map f xs)) = \<Sum>\<^sub># (image_mset (\<lambda>x. mset (f x)) (mset xs))"
  by (induction xs) auto

lemma groups_exact:
  obtains comps where "group_discovery_projection_actions actions = Some comps"
    "mset (concat (map pc_actions comps)) = mset actions"
    "sorted_wrt components_apart comps" "\<forall>c\<in>set comps. component_ok actions c"
proof -
  let ?as = "sort_key action_key actions"
  let ?roots = "map projection_action_namespace_roots ?as"
  obtain ps g where g: "union_overlapping ?roots (index_pairs (length ?as)) [0..<length ?as] = Some ps"
    "group_indices [0..<length ?as] ps [] = Some g" "mset (concat (bm_values g)) = mset [0..<length ?as]"
    "sorted_wrt (apart ?roots) (bm_values g)"
    "\<forall>xs\<in>set (bm_values g). xs \<noteq> [] \<and> (\<forall>i\<in>set xs. \<forall>j\<in>set xs. (i, j) \<in> (overlap_edges ?roots)\<^sup>*)"
    using classes_exist[of ?roots] unfolding length_map by blast
  let ?cs = "map (component_of_indices ?as ?roots) (bm_values g)"
  let ?key = "\<lambda>c. (pc_namespace_roots c, map action_key (pc_actions c))"
  have "set (concat (bm_values g)) = set [0..<length ?as]" by (rule mset_eq_setD) (rule g(3))
  then have range: "i < length ?as" if "xs \<in> set (bm_values g)" "i \<in> set xs" for xs i
    using that by (auto simp del: length_sort)
  have "mset (concat (map pc_actions ?cs)) = image_mset (\<lambda>i. ?as ! i) (mset (concat (bm_values g)))"
    by (induction g) (auto simp: component_of_indices_def)
  also have "\<dots> = mset (map (\<lambda>i. ?as ! i) [0..<length ?as])" unfolding g(3) by (simp only: mset_map)
  also have "\<dots> = mset actions" by (simp only: map_nth mset_sort)
  finally have all: "mset (concat (map pc_actions (sort_key ?key ?cs))) = mset actions"
    unfolding mset_concat_map mset_sort .
  have "components_apart (component_of_indices ?as ?roots xs) (component_of_indices ?as ?roots ys)"
    if "xs \<in> set (bm_values g)" "ys \<in> set (bm_values g)" "apart ?roots xs ys" for xs ys
    using that range by (simp add: apart_def components_apart_def component_of_indices_def)
  then have "sorted_wrt (\<lambda>xs ys. components_apart (component_of_indices ?as ?roots xs)
      (component_of_indices ?as ?roots ys)) (bm_values g)"
    using g(4) by (rule sorted_wrt_mono_rel)
  then have "sorted_wrt components_apart ?cs" by (simp only: sorted_wrt_map)
  moreover have "symp components_apart" unfolding symp_def components_apart_def using roots_overlap_sym by blast
  ultimately have apart: "sorted_wrt components_apart (sort_key ?key ?cs)" by (intro sorted_wrt_sort_sym)
  have "component_ok ?as (component_of_indices ?as ?roots xs)" if "xs \<in> set (bm_values g)" for xs
    using that g(5) range by (intro component_of_class) auto
  moreover have "component_ok ?as = component_ok actions"
    by (simp add: fun_eq_iff component_ok_def overlap_relation_def)
  ultimately have ok: "\<forall>c\<in>set (sort_key ?key ?cs). component_ok actions c" by auto
  show thesis
    by (rule that[of "sort_key ?key ?cs"])
      (use g(1,2) all apart ok in \<open>simp_all add: group_discovery_projection_actions_def Let_def\<close>)
qed

end
