(* ===== verification/Freshness_Queue.thy ===== *)
theory Freshness_Queue
  imports Store_Memory "HOL-Library.Sublist"
begin

text \<open>
  The freshness queue of the daemon (\<open>localityd/src/freshness.rs\<close>): sync jobs under their deduplication
  key, drained by urgency and cost within a budget, and the freshness states that file events update.
  The clock is an argument; \<open>None\<close> is a clock before the epoch.
\<close>

section \<open>Timestamps\<close>

text \<open>\<open>str::parse::<u64>\<close>: an optional plus sign, then decimal digits without overflow.\<close>

definition parse_u64 :: "string \<Rightarrow> u64 option" where
  "parse_u64 s =
     (let ds = (case s of c # cs \<Rightarrow> if c = CHR ''+'' then cs else s | [] \<Rightarrow> s) in
      if ds \<noteq> [] \<and> list_all is_ascii_digit ds \<and> undec ds < 2 ^ 64 then Some (of_nat (undec ds)) else None)"

definition freshness_timestamp :: "nat option \<Rightarrow> string" where
  "freshness_timestamp clock =
     (case clock of Some millis \<Rightarrow> ''unix_ms:'' @ dec millis | None \<Rightarrow> ''unix_ms:0'')"

definition parse_freshness_timestamp :: "string \<Rightarrow> u64 option" where
  "parse_freshness_timestamp value =
     parse_u64 (case strip_prefix ''unix_ms:'' value of Some s \<Rightarrow> s | None \<Rightarrow> value)"

definition freshness_unix_ms :: "nat option \<Rightarrow> u64" where
  "freshness_unix_ms clock =
     (case clock of None \<Rightarrow> 0 | Some millis \<Rightarrow> if millis < 2 ^ 64 then of_nat millis else - 1)"

definition age_ms :: "string option \<Rightarrow> u64 \<Rightarrow> u64 option" where
  "age_ms timestamp now_ms =
     map_option (u64_saturating_sub now_ms) (Option.bind timestamp parse_freshness_timestamp)"

section \<open>The queue\<close>

record freshness_queue =
  fq_jobs :: "(string, sync_job) btree_map"

record freshness_queue_metrics =
  total_jobs :: nat
  ready_jobs :: nat
  deferred_jobs :: nat
  total_budget_units :: "16 word"
  ready_budget_units :: "16 word"

record freshness_batch =
  fb_jobs :: "sync_job list"
  metrics_before :: freshness_queue_metrics

record freshness_queue_debug_job =
  dj_job :: sync_job
  dj_ready :: bool

definition freshness_queue_new :: freshness_queue where
  "freshness_queue_new = \<lparr>fq_jobs = []\<rparr>"

definition queue_len :: "freshness_queue \<Rightarrow> nat" where
  "queue_len q = length (fq_jobs q)"

definition queue_is_empty :: "freshness_queue \<Rightarrow> bool" where
  "queue_is_empty q \<longleftrightarrow> fq_jobs q = []"

definition queue_contains :: "freshness_queue \<Rightarrow> sync_job \<Rightarrow> bool" where
  "queue_contains q job \<longleftrightarrow> bm_get (fq_jobs q) (dedupe_key job) \<noteq> None"

definition matching_count :: "freshness_queue \<Rightarrow> (sync_job \<Rightarrow> bool) \<Rightarrow> nat" where
  "matching_count q p = length (filter p (bm_values (fq_jobs q)))"

definition is_ready :: "sync_job \<Rightarrow> string option \<Rightarrow> bool" where
  "is_ready job now =
     (case sj_next_eligible_at job of
        None \<Rightarrow> True
      | Some at \<Rightarrow> (case now of None \<Rightarrow> False | Some t \<Rightarrow> at \<le> t))"

definition earlier_next_eligible :: "string option \<Rightarrow> string option \<Rightarrow> bool" where
  "earlier_next_eligible candidate current =
     (case (candidate, current) of
        (None, Some _) \<Rightarrow> True
      | (Some c, Some d) \<Rightarrow> c < d
      | _ \<Rightarrow> False)"

definition upsert_into :: "sync_job \<Rightarrow> sync_job \<Rightarrow> sync_job" where
  "upsert_into job existing =
     (let promoted = if is_more_urgent_than (sj_tier job) (sj_tier existing)
                     then existing\<lparr>sj_tier := sj_tier job, sj_reason := sj_reason job\<rparr> else existing
      in if earlier_next_eligible (sj_next_eligible_at job) (sj_next_eligible_at promoted)
         then promoted\<lparr>sj_next_eligible_at := sj_next_eligible_at job\<rparr> else promoted)"

definition queue_upsert :: "sync_job \<Rightarrow> freshness_queue \<Rightarrow> freshness_queue" where
  "queue_upsert job q =
     (let key = dedupe_key job in
      q\<lparr>fq_jobs := bm_insert key
          (case bm_get (fq_jobs q) key of None \<Rightarrow> job | Some existing \<Rightarrow> upsert_into job existing) (fq_jobs q)\<rparr>)"

text \<open>\<open>compare_jobs\<close>, as the key the jobs are sorted by.\<close>

definition job_rank :: "sync_job \<Rightarrow> freshness_tier \<times> 16 word \<times> string" where
  "job_rank j = (sj_tier j, budget_units (sj_estimated_cost j), dedupe_key j)"

definition ready_keys :: "string option \<Rightarrow> freshness_queue \<Rightarrow> (string \<times> sync_job) list" where
  "ready_keys now q = sort_key (\<lambda>(_, j). job_rank j) (filter (\<lambda>(_, j). is_ready j now) (fq_jobs q))"

abbreviation job_units :: "sync_job \<Rightarrow> 16 word" where
  "job_units j \<equiv> budget_units (sj_estimated_cost j)"

definition pop_ready_at :: "string option \<Rightarrow> 16 word \<Rightarrow> freshness_queue \<Rightarrow> sync_job option \<times> freshness_queue" where
  "pop_ready_at now budget q =
     (case List.find (\<lambda>(_, j). job_units j \<le> budget) (ready_keys now q) of
        None \<Rightarrow> (None, q)
      | Some (key, j) \<Rightarrow> (Some j, q\<lparr>fq_jobs := bm_remove key (fq_jobs q)\<rparr>))"

definition pop_ready :: "16 word \<Rightarrow> freshness_queue \<Rightarrow> sync_job option \<times> freshness_queue" where
  "pop_ready budget q = pop_ready_at None budget q"

fun drain_loop ::
    "(string \<times> sync_job) list \<Rightarrow> 16 word \<Rightarrow> (string, sync_job) btree_map
      \<Rightarrow> sync_job list \<times> (string, sync_job) btree_map" where
  "drain_loop [] remaining jobs = ([], jobs)"
| "drain_loop ((key, j) # keys) remaining jobs =
     (if job_units j > remaining then drain_loop keys remaining jobs
      else case drain_loop keys (remaining - job_units j) (bm_remove key jobs) of
        (drained, jobs') \<Rightarrow> (j # drained, jobs'))"

definition drain_ready_budget :: "string option \<Rightarrow> 16 word \<Rightarrow> freshness_queue \<Rightarrow> sync_job list \<times> freshness_queue" where
  "drain_ready_budget now budget q =
     (case drain_loop (ready_keys now q) budget (fq_jobs q) of (drained, jobs) \<Rightarrow> (drained, q\<lparr>fq_jobs := jobs\<rparr>))"

definition drain_budget :: "16 word \<Rightarrow> freshness_queue \<Rightarrow> sync_job list \<times> freshness_queue" where
  "drain_budget budget q = drain_ready_budget None budget q"

definition u16_saturating_add :: "16 word \<Rightarrow> 16 word \<Rightarrow> 16 word" where
  "u16_saturating_add a b = (if a + b < a then - 1 else a + b)"

definition count_job :: "string option \<Rightarrow> sync_job \<Rightarrow> freshness_queue_metrics \<Rightarrow> freshness_queue_metrics" where
  "count_job now j m =
     (let m' = m\<lparr>total_budget_units := u16_saturating_add (total_budget_units m) (job_units j)\<rparr> in
      if is_ready j now
      then m'\<lparr>ready_jobs := ready_jobs m' + 1,
             ready_budget_units := u16_saturating_add (ready_budget_units m') (job_units j)\<rparr>
      else m'\<lparr>deferred_jobs := deferred_jobs m' + 1\<rparr>)"

definition queue_metrics :: "string option \<Rightarrow> freshness_queue \<Rightarrow> freshness_queue_metrics" where
  "queue_metrics now q =
     fold (count_job now) (bm_values (fq_jobs q))
       \<lparr>total_jobs = length (fq_jobs q), ready_jobs = 0, deferred_jobs = 0, total_budget_units = 0,
        ready_budget_units = 0\<rparr>"

text \<open>The loop of a batch also counts the jobs it may still take.\<close>

fun batch_loop ::
    "(string \<times> sync_job) list \<Rightarrow> nat \<Rightarrow> 16 word \<Rightarrow> (string, sync_job) btree_map
      \<Rightarrow> sync_job list \<times> (string, sync_job) btree_map" where
  "batch_loop [] free remaining jobs = ([], jobs)"
| "batch_loop ((key, j) # keys) free remaining jobs =
     (if free = 0 then ([], jobs)
      else if job_units j > remaining then batch_loop keys free remaining jobs
      else case batch_loop keys (free - 1) (remaining - job_units j) (bm_remove key jobs) of
        (drained, jobs') \<Rightarrow> (j # drained, jobs'))"

definition drain_ready_batch ::
    "string option \<Rightarrow> 16 word \<Rightarrow> nat \<Rightarrow> freshness_queue \<Rightarrow> freshness_batch \<times> freshness_queue" where
  "drain_ready_batch now budget max_jobs q =
     (case batch_loop (ready_keys now q) max_jobs budget (fq_jobs q) of (drained, jobs) \<Rightarrow>
        (\<lparr>fb_jobs = drained, metrics_before = queue_metrics now q\<rparr>, q\<lparr>fq_jobs := jobs\<rparr>))"

definition debug_jobs :: "string option \<Rightarrow> nat \<Rightarrow> freshness_queue \<Rightarrow> freshness_queue_debug_job list" where
  "debug_jobs now limit q =
     map (\<lambda>j. \<lparr>dj_job = j, dj_ready = is_ready j now\<rparr>) (take limit (sort_key job_rank (bm_values (fq_jobs q))))"

section \<open>Freshness states\<close>

definition promote_tier :: "freshness_state_record \<Rightarrow> freshness_tier \<Rightarrow> freshness_state_record" where
  "promote_tier state tier = (if is_more_urgent_than tier (fs_tier state) then state\<lparr>fs_tier := tier\<rparr> else state)"

definition default_freshness_tier :: "entity_record \<Rightarrow> freshness_tier" where
  "default_freshness_tier e =
     (case er_hydration e of
        Dirty \<Rightarrow> Hot | Conflicted \<Rightarrow> Hot | Hydrated \<Rightarrow> Warm | Virtual \<Rightarrow> Cold | Stub \<Rightarrow> Cold)"

definition update_freshness_state ::
    "entity_record \<Rightarrow> (freshness_state_record \<Rightarrow> freshness_state_record) \<Rightarrow> state_store \<Rightarrow> state_store" where
  "update_freshness_state e update s =
     (let state = (case get_freshness_state (er_mount_id e) (er_remote_id e) s of
                     Some state \<Rightarrow> state
                   | None \<Rightarrow> freshness_state_new (er_mount_id e) (er_remote_id e) (default_freshness_tier e))
      in save_freshness_state (update state) s)"

definition record_file_opened :: "nat option \<Rightarrow> entity_record \<Rightarrow> state_store \<Rightarrow> state_store" where
  "record_file_opened clock e =
     update_freshness_state e
       (\<lambda>state. (promote_tier state Hot)\<lparr>fs_last_opened_at := Some (freshness_timestamp clock)\<rparr>)"

definition record_local_change :: "nat option \<Rightarrow> entity_record \<Rightarrow> state_store \<Rightarrow> state_store" where
  "record_local_change clock e =
     update_freshness_state e
       (\<lambda>state. (promote_tier state Hot)\<lparr>fs_last_local_change_at := Some (freshness_timestamp clock)\<rparr>)"

definition activity_from_state ::
    "freshness_state_record \<Rightarrow> entity_record option \<Rightarrow> u64 \<Rightarrow> freshness_activity" where
  "activity_from_state state entity now_ms =
     \<lparr>fa_hydration = map_option er_hydration entity,
      local_pending = (case entity of None \<Rightarrow> False | Some e \<Rightarrow> er_hydration e = Dirty \<or> er_hydration e = Conflicted),
      remote_hint_pending = fs_remote_hint_pending state,
      last_opened_age_ms = age_ms (fs_last_opened_at state) now_ms,
      last_local_change_age_ms = age_ms (fs_last_local_change_at state) now_ms,
      last_checked_age_ms = age_ms (fs_last_checked_at state) now_ms,
      subtree_depth = (case entity of None \<Rightarrow> 0 | Some e \<Rightarrow> length (er_path e))\<rparr>"

definition optimized_freshness_decision ::
    "freshness_state_record \<Rightarrow> entity_record option \<Rightarrow> u64 \<Rightarrow> freshness_policy \<Rightarrow> freshness_decision" where
  "optimized_freshness_decision state entity now_ms policy =
     from_activity (activity_from_state state entity now_ms) policy"

definition refresh_optimized_tier ::
    "freshness_state_record \<Rightarrow> entity_record option \<Rightarrow> u64 \<Rightarrow> freshness_policy
      \<Rightarrow> freshness_decision \<times> freshness_state_record" where
  "refresh_optimized_tier state entity now_ms policy =
     (let decision = optimized_freshness_decision state entity now_ms policy
      in (decision, state\<lparr>fs_tier := fd_tier decision\<rparr>))"


section \<open>Draining\<close>

abbreviation queue_ok :: "freshness_queue \<Rightarrow> bool" where
  "queue_ok q \<equiv> keyed dedupe_key (fq_jobs q)"

lemma upsert_into_key [simp]: "dedupe_key (upsert_into job existing) = dedupe_key existing"
  by (simp add: upsert_into_def dedupe_key_def Let_def)

lemma queue_upsert_ok: "queue_ok q \<Longrightarrow> queue_ok (queue_upsert job q)"
proof -
  assume ok: "queue_ok q"
  let ?j = "case bm_get (fq_jobs q) (dedupe_key job) of None \<Rightarrow> job | Some e \<Rightarrow> upsert_into job e"
  have "dedupe_key ?j = dedupe_key job" using keyed_get[OF ok] by (auto split: option.split)
  then show ?thesis using keyed_insert[OF ok, of ?j] by (simp add: queue_upsert_def Let_def)
qed

lemma drain_loop_skip:
  "\<forall>(k, j)\<in>set pre. job_units j > remaining \<Longrightarrow> drain_loop (pre @ post) remaining jobs = drain_loop post remaining jobs"
  by (induction pre) auto

lemma ready_keys_remove:
  "ready_keys now (q\<lparr>fq_jobs := bm_remove k (fq_jobs q)\<rparr>) = filter (\<lambda>(j, _). j \<noteq> k) (ready_keys now q)"
  by (simp add: ready_keys_def bm_remove_def filter_sort conj_commute)

lemma ready_keys_distinct:
  assumes "queue_ok q" shows "distinct (map fst (ready_keys now q))"
proof -
  have "distinct (map fst (fq_jobs q))" using assms by (simp add: keyed_bm_sorted bm_sorted_distinct)
  then have d: "distinct (map fst (filter (\<lambda>(_, j). is_ready j now) (fq_jobs q)))" by (rule distinct_map_filter)
  have "mset (map fst (ready_keys now q)) = mset (map fst (filter (\<lambda>(_, j). is_ready j now) (fq_jobs q)))"
    by (simp add: ready_keys_def)
  with d show ?thesis by (metis mset_eq_imp_distinct_iff)
qed

lemma filter_out_key:
  "distinct (map fst (xs @ (k, v) # ys)) \<Longrightarrow> filter (\<lambda>(i, _). i \<noteq> k) (xs @ (k, v) # ys) = xs @ ys"
  by (induction xs) (auto intro!: filter_True simp: image_iff)

text \<open>The reference: ask for one ready job after the other until none fits.\<close>

lemma find_decomp: "List.find p xs = Some x \<Longrightarrow> \<exists>pre post. xs = pre @ x # post \<and> p x \<and> (\<forall>y\<in>set pre. \<not> p y)"
proof (induction xs)
  case (Cons y ys)
  show ?case
  proof (cases "p y")
    case True
    with Cons.prems show ?thesis by (intro exI[of _ "[]"] exI[of _ ys]) simp
  next
    case False
    with Cons obtain pre post where "ys = pre @ x # post" "p x" "\<forall>y\<in>set pre. \<not> p y" by auto
    with False show ?thesis by (intro exI[of _ "y # pre"] exI[of _ post]) simp
  qed
qed simp

lemma pop_shrinks:
  assumes "pop_ready_at now budget q = (Some j, q')"
  shows "length (fq_jobs q') < length (fq_jobs q)"
proof -
  obtain k where "(k, j) \<in> set (ready_keys now q)" and q': "q' = q\<lparr>fq_jobs := bm_remove k (fq_jobs q)\<rparr>"
    using assms by (auto simp: pop_ready_at_def find_Some_iff split: option.splits prod.splits)
      (metis nth_mem prod.collapse)
  then have "(k, j) \<in> set (fq_jobs q)" by (simp add: ready_keys_def)
  then have "length (filter (\<lambda>(i, _). i \<noteq> k) (fq_jobs q)) < length (fq_jobs q)"
    by (intro length_filter_less[of "(k, j)"]) auto
  then show ?thesis by (simp add: q' bm_remove_def)
qed

function pop_all :: "string option \<Rightarrow> 16 word \<Rightarrow> freshness_queue \<Rightarrow> sync_job list \<times> freshness_queue" where
  "pop_all now budget q =
     (case pop_ready_at now budget q of
        (None, q') \<Rightarrow> ([], q')
      | (Some j, q') \<Rightarrow> (case pop_all now (budget - job_units j) q' of (js, q'') \<Rightarrow> (j # js, q'')))"
  by pat_completeness auto
termination
  by (relation "measure (\<lambda>(_, _, q). length (fq_jobs q))") (auto dest!: sym pop_shrinks)

declare pop_all.simps [simp del]

text \<open>Draining the queue within a budget gives the same jobs, in the same order, and leaves the same queue
  as asking for the most urgent ready job that fits again and again, each time with what is left of the
  budget, until none fits.\<close>

theorem drain_is_repeated_pop:
  assumes "queue_ok q"
  shows "drain_ready_budget now budget q = pop_all now budget q"
proof -
  have "(case drain_loop keys b (fq_jobs q) of (js, m) \<Rightarrow> (js, q\<lparr>fq_jobs := m\<rparr>)) = pop_all now b q"
    if "queue_ok q" "ready_keys now q = pre @ keys" "\<forall>(k, j)\<in>set pre. job_units j > b" for q b pre keys
    using that
  proof (induction now b q arbitrary: pre keys rule: pop_all.induct)
    case (1 now b q)
    show ?case
    proof (cases "List.find (\<lambda>(_, j). job_units j \<le> b) (ready_keys now q)")
      case None
      then have "\<forall>(k, j)\<in>set keys. job_units j > b" using "1.prems"(2) by (force simp: find_None_iff not_le)
      then have "drain_loop keys b (fq_jobs q) = ([], fq_jobs q)"
        using drain_loop_skip[of keys b "[]"] by simp
      with None show ?thesis by (subst pop_all.simps) (simp add: pop_ready_at_def)
    next
      case (Some x)
      obtain k j where x: "x = (k, j)" by (cases x)
      obtain p post where keys: "keys = p @ (k, j) # post" and fit: "job_units j \<le> b"
        and skip: "\<forall>(k, j)\<in>set p. job_units j > b"
      proof -
        have "List.find (\<lambda>(_, j). job_units j \<le> b) (pre @ keys) = List.find (\<lambda>(_, j). job_units j \<le> b) keys"
          using "1.prems"(3) by (induction pre) auto
        with Some have "List.find (\<lambda>(_, j). job_units j \<le> b) keys = Some (k, j)"
          by (simp add: "1.prems"(2) x)
        from find_decomp[OF this] obtain p post where "keys = p @ (k, j) # post" "job_units j \<le> b"
          "\<forall>y\<in>set p. \<not> (case y of (_, j) \<Rightarrow> job_units j \<le> b)" by auto
        then show thesis by (intro that[of p post]) (auto simp: not_le)
      qed
      let ?q = "q\<lparr>fq_jobs := bm_remove k (fq_jobs q)\<rparr>"
      have pop: "pop_ready_at now b q = (Some j, ?q)" by (simp add: pop_ready_at_def Some x)
      have le: "b - job_units j \<le> b" using fit by (simp add: word_sub_le)
      have d: "distinct (map fst (ready_keys now q))" using "1.prems"(1) by (rule ready_keys_distinct)
      have "ready_keys now ?q = (pre @ p) @ post"
        unfolding ready_keys_remove
        using filter_out_key[of "pre @ p" k j post] d by (simp add: "1.prems"(2) keys)
      moreover have "\<forall>(k, i)\<in>set (pre @ p). job_units i > b - job_units j"
        using "1.prems"(3) skip le by (auto intro: le_less_trans)
      moreover have "queue_ok ?q" using "1.prems"(1) by (simp add: keyed_remove)
      ultimately have "(case drain_loop post (b - job_units j) (fq_jobs ?q) of (js, m) \<Rightarrow> (js, ?q\<lparr>fq_jobs := m\<rparr>))
          = pop_all now (b - job_units j) ?q"
        using "1.IH"[OF pop[symmetric] refl] by blast
      then show ?thesis
        using fit pop by (subst pop_all.simps) (auto simp: keys drain_loop_skip[OF skip] split: prod.split)
    qed
  qed
  from this[of q "[]" "ready_keys now q" budget] assms show ?thesis by (simp add: drain_ready_budget_def)
qed

lemma values_remove:
  assumes "bm_sorted m" "(k, v) \<in> set m"
  shows "mset (bm_values m) = add_mset v (mset (bm_values (bm_remove k m)))"
proof -
  obtain xs ys where m: "m = xs @ (k, v) # ys" using assms(2) by (meson split_list)
  have "bm_remove k m = xs @ ys"
    using filter_out_key[of xs k v ys] bm_sorted_distinct[OF assms(1)] by (simp add: bm_remove_def m)
  then show ?thesis by (simp add: m)
qed

lemma drain_loop_accounts:
  assumes "drain_loop ys b m = (js, m')" "keyed dedupe_key m" "set ys \<subseteq> set m" "distinct (map fst ys)"
  shows "keyed dedupe_key m' \<and> set m' \<subseteq> set m
    \<and> mset (bm_values m) = mset js + mset (bm_values m')
    \<and> (\<Sum>j\<leftarrow>js. unat (job_units j)) \<le> unat b
    \<and> subseq js (map snd ys)
    \<and> (\<forall>(k, j)\<in>set ys. (k, j) \<in> set m' \<longrightarrow> unat b < unat (job_units j) + (\<Sum>j\<leftarrow>js. unat (job_units j)))"
  using assms
proof (induction ys b m arbitrary: js m' rule: drain_loop.induct)
  case (2 k j ys b m)
  show ?case
  proof (cases "job_units j > b")
    case True
    with 2 show ?thesis by (fastforce simp: word_less_nat_alt)
  next
    case False
    then obtain ds where ds: "drain_loop ys (b - job_units j) (bm_remove k m) = (ds, m')" "js = j # ds"
      using "2.prems"(1) by (auto split: prod.splits)
    have k: "keyed dedupe_key (bm_remove k m)" using "2.prems"(2) by (rule keyed_remove)
    have sub: "set ys \<subseteq> set (bm_remove k m)" using "2.prems"(3,4) by (auto simp: bm_remove_def image_iff)
    have "(k, j) \<notin> set (bm_remove k m)" by (auto simp: bm_remove_def)
    moreover have "mset (bm_values m) = add_mset j (mset (bm_values (bm_remove k m)))"
      using "2.prems"(2,3) by (intro values_remove) (auto simp: keyed_bm_sorted)
    moreover have "set (bm_remove k m) \<subseteq> set m" by (auto simp: bm_remove_def)
    moreover have "unat (b - job_units j) = unat b - unat (job_units j)" "unat (job_units j) \<le> unat b"
      using False by (simp_all add: unat_sub word_le_nat_alt not_less)
    ultimately show ?thesis
      using "2.IH"(2)[OF False ds(1) k sub] "2.prems"(4) ds(2) by auto
  qed
qed (simp add: keyed_def)

lemma subseq_members: "subseq xs ys \<Longrightarrow> x \<in> set xs \<Longrightarrow> x \<in> set ys"
  by (induction rule: list_emb.induct) auto

lemma sorted_of_subseq: "subseq xs ys \<Longrightarrow> sorted ys \<Longrightarrow> sorted (xs :: 'a :: linorder list)"
  by (induction rule: list_emb.induct) (auto dest: subseq_members)

text \<open>Draining loses no job and duplicates none. What is drained was ready, comes in the order of urgency and
  stays within the budget without wrap-around; a ready job stays behind only when it does not fit into
  what is left of the budget.\<close>

theorem drain_accounts:
  assumes "queue_ok q" and "drain_ready_budget now budget q = (js, q')"
  shows "mset (bm_values (fq_jobs q)) = mset js + mset (bm_values (fq_jobs q'))
    \<and> queue_ok q'
    \<and> (\<Sum>j\<leftarrow>js. unat (job_units j)) \<le> unat budget
    \<and> sorted (map job_rank js) \<and> (\<forall>j\<in>set js. is_ready j now)
    \<and> (\<forall>j\<in>set (bm_values (fq_jobs q')). is_ready j now \<longrightarrow>
          unat budget < unat (job_units j) + (\<Sum>j\<leftarrow>js. unat (job_units j)))"
proof -
  have d: "drain_loop (ready_keys now q) budget (fq_jobs q) = (js, fq_jobs q')"
    using assms(2) by (auto simp: drain_ready_budget_def split: prod.splits)
  have ready: "set (ready_keys now q) = {(k, j) \<in> set (fq_jobs q). is_ready j now}"
    by (auto simp: ready_keys_def)
  then have "set (ready_keys now q) \<subseteq> set (fq_jobs q)" by auto
  note acc = drain_loop_accounts[OF d assms(1) this ready_keys_distinct[OF assms(1)]]
  have "sorted (map job_rank (map snd (ready_keys now q)))"
    using sorted_sort_key[of "\<lambda>(_, j). job_rank j" "filter (\<lambda>(_, j). is_ready j now) (fq_jobs q)"]
    by (simp add: ready_keys_def comp_def case_prod_beta')
  moreover have "subseq js (map snd (ready_keys now q))" using acc by simp
  ultimately have "sorted (map job_rank js)" by (metis sorted_of_subseq subseq_map)
  moreover have "\<forall>j\<in>set js. is_ready j now"
    using acc ready by (auto dest!: subseq_members)
  ultimately show ?thesis using acc ready by fastforce
qed

definition sample_job :: "string \<Rightarrow> sync_job_kind \<Rightarrow> change_hint_kind \<Rightarrow> sync_job" where
  "sample_job i k r = sync_job_new (MountId ''m'') (Some (RemoteId i)) k r"

definition sample_queue :: freshness_queue where
  "sample_queue = queue_upsert (sample_job ''cold'' HydrateEntity BackgroundPoll)
     (queue_upsert (sample_job ''hot'' ObserveEntity LocalEdited)
       (queue_upsert (sample_job ''warm'' EnumerateChildren DirectoryListed) freshness_queue_new))"

lemma sample_queue_ok: "queue_ok sample_queue"
  unfolding sample_queue_def by (intro queue_upsert_ok) (simp add: freshness_queue_new_def)

theorem drain_is_repeated_pop_witness:
  "fst (pop_all None 6 sample_queue) =
     [sample_job ''hot'' ObserveEntity LocalEdited, sample_job ''warm'' EnumerateChildren DirectoryListed]"
  unfolding drain_is_repeated_pop[OF sample_queue_ok, symmetric] by code_simp

theorem drain_accounts_witness:
  "\<exists>js q'. drain_ready_budget None 6 sample_queue = (js, q') \<and> queue_ok q'
     \<and> (\<Sum>j\<leftarrow>js. unat (job_units j)) \<le> 6"
proof -
  obtain js q' where d: "drain_ready_budget None 6 sample_queue = (js, q')" by (cases "drain_ready_budget None 6 sample_queue")
  from drain_accounts[OF sample_queue_ok d] d show ?thesis by auto
qed

section \<open>Upserts and timestamps\<close>

text \<open>Queueing a job again never delays it. After an upsert the queue holds one job under the key, at least as
  urgent as both the queued and the new one, eligible as soon as either, and for the same entity and kind
  of work; all other jobs are as before.\<close>

theorem upsert_merges:
  assumes "queue_ok q"
  shows "\<exists>j. bm_get (fq_jobs (queue_upsert job q)) (dedupe_key job) = Some j \<and> dedupe_key j = dedupe_key job
    \<and> sj_tier j \<le> sj_tier job \<and> (\<forall>t. is_ready job t \<longrightarrow> is_ready j t)
    \<and> (\<forall>old. bm_get (fq_jobs q) (dedupe_key job) = Some old \<longrightarrow>
          sj_tier j \<le> sj_tier old \<and> (\<forall>t. is_ready old t \<longrightarrow> is_ready j t))
    \<and> (\<forall>k. k \<noteq> dedupe_key job \<longrightarrow> bm_get (fq_jobs (queue_upsert job q)) k = bm_get (fq_jobs q) k)"
proof (cases "bm_get (fq_jobs q) (dedupe_key job)")
  case None
  then show ?thesis by (simp add: queue_upsert_def Let_def bm_get_insert)
next
  case (Some old)
  have tier: "sj_tier (upsert_into job old) \<le> sj_tier job" "sj_tier (upsert_into job old) \<le> sj_tier old"
    by (auto simp: upsert_into_def Let_def is_more_urgent_than_def less_eq_freshness_tier_def)
  have at: "sj_next_eligible_at (upsert_into job old) =
      (if earlier_next_eligible (sj_next_eligible_at job) (sj_next_eligible_at old) then sj_next_eligible_at job
       else sj_next_eligible_at old)"
    by (simp add: upsert_into_def Let_def)
  have ready: "is_ready (upsert_into job old) t" if "is_ready job t \<or> is_ready old t" for t
    using that unfolding is_ready_def at
    by (auto simp: earlier_next_eligible_def split: option.splits if_splits)
  show ?thesis
    using tier ready keyed_get[OF assms Some] Some by (simp add: queue_upsert_def Let_def bm_get_insert)
qed

theorem upsert_merges_witness:
  "\<exists>j. bm_get (fq_jobs (queue_upsert (sample_job ''cold'' HydrateEntity LocalEdited) sample_queue))
      (dedupe_key (sample_job ''cold'' HydrateEntity LocalEdited)) = Some j \<and> sj_tier j \<le> Hot"
proof -
  have "sj_tier (sample_job ''cold'' HydrateEntity LocalEdited) \<le> Hot"
    by (simp add: sample_job_def sync_job_new_def hint_tier_def less_eq_freshness_tier_def tier_priority_def)
  with upsert_merges[OF sample_queue_ok, of "sample_job ''cold'' HydrateEntity LocalEdited"] show ?thesis
    by (meson order_trans)
qed

text \<open>A timestamp the daemon writes is read back as the clock it was written at.\<close>

theorem timestamp_roundtrip:
  "parse_freshness_timestamp (freshness_timestamp clock) =
     (case clock of None \<Rightarrow> Some 0 | Some millis \<Rightarrow> if millis < 2 ^ 64 then Some (freshness_unix_ms clock) else None)"
proof -
  have dec: "parse_u64 (dec n) = (if n < 2 ^ 64 then Some (of_nat n) else None)" for n
  proof -
    obtain c cs where n: "dec n = c # cs" using dec_nonempty[of n] by (cases "dec n") auto
    have digits: "list_all is_ascii_digit (dec n)" by (simp add: list_all_iff dec_digits)
    then have "c \<noteq> CHR ''+''" by (auto simp: n is_ascii_digit_def)
    with digits show ?thesis
      using undec_dec[of n] by (simp add: parse_u64_def n)
  qed
  have "parse_freshness_timestamp (''unix_ms:'' @ s) = parse_u64 s" for s
    by (simp add: parse_freshness_timestamp_def strip_prefix_def)
  moreover have "''unix_ms:0'' = ''unix_ms:'' @ dec 0" by (simp add: dec.simps digit_def char_of_def bit_Suc_0_iff)
  ultimately show ?thesis
    using dec[of 0] by (simp add: freshness_timestamp_def freshness_unix_ms_def dec split: option.split)
qed

end
