(* ===== verification/Discovery_Plan.thy ===== *)
theory Discovery_Plan
  imports Discovery_Components Discovery_Store Freshness_Queue
begin

text \<open>
  The planner of connector discovery (\<open>localityd/src/discovery.rs\<close>): a batch of observed changes, the
  changes held back earlier and the state of the mount become a discovery commit with the projection
  actions that go with it. A change that could lose local work is held, and remembered for replay. JSON
  parsing, decoding and rendering (serde) are a parameter; the store is the in-memory store.
\<close>

section \<open>Batches of the connector\<close>

record connector_checkpoint =
  cc_state_version :: int
  cc_min_reader_version :: int
  cc_state_json :: string

record batch_observe_request =
  bq_mount_id :: mount_id
  bq_checkpoint :: "connector_checkpoint option"

datatype batch_observation_change = ObservedUpsert tree_entry | ObservedTombstone remote_id

datatype batch_observation_completeness = BatchComplete | BatchIncremental

record batch_observe_result =
  br_changes :: "batch_observation_change list"
  br_completeness :: batch_observation_completeness
  br_next_checkpoint :: connector_checkpoint

definition batch_complete :: "batch_observation_change list \<Rightarrow> connector_checkpoint \<Rightarrow> batch_observe_result" where
  "batch_complete changes checkpoint =
     \<lparr>br_changes = changes, br_completeness = BatchComplete, br_next_checkpoint = checkpoint\<rparr>"

definition batch_incremental :: "batch_observation_change list \<Rightarrow> connector_checkpoint \<Rightarrow> batch_observe_result" where
  "batch_incremental changes checkpoint =
     \<lparr>br_changes = changes, br_completeness = BatchIncremental, br_next_checkpoint = checkpoint\<rparr>"

definition batch_is_complete :: "batch_observe_result \<Rightarrow> bool" where
  "batch_is_complete b \<longleftrightarrow> br_completeness b = BatchComplete"

section \<open>The replay envelope\<close>

definition DISCOVERY_REPLAY_TAG :: string where "DISCOVERY_REPLAY_TAG = ''localityd.discovery_replay''"
definition DISCOVERY_REPLAY_VERSION :: int where "DISCOVERY_REPLAY_VERSION = 1"
definition RECENT_LOCAL_EDIT_WINDOW_MS :: u64 where "RECENT_LOCAL_EDIT_WINDOW_MS = 30000"

datatype replay_change = ReplayUpsert tree_entry | ReplayTombstone remote_id

record replay_envelope =
  re_tag :: string
  re_state_version :: int
  re_min_reader_version :: int
  re_change :: replay_change

text \<open>\<open>from_str::<Value>\<close>, \<open>from_value\<close> and \<open>to_string\<close> of serde, the errors as their display.\<close>

record replay_codec =
  rc_parse :: "string \<Rightarrow> string + json"
  rc_decode :: "json \<Rightarrow> string + replay_envelope"
  rc_encode :: "replay_envelope \<Rightarrow> string + string"

definition discovery_invalid :: "string \<Rightarrow> 'a locality_result" where
  "discovery_invalid message = Inl (EInvalidState message)"

definition json_field :: "json \<Rightarrow> string \<Rightarrow> json option" where
  "json_field v key = (case v of JObject kvs \<Rightarrow> map_of kvs key | _ \<Rightarrow> None)"

definition json_as_str :: "json \<Rightarrow> string option" where
  "json_as_str v = (case v of JString s \<Rightarrow> Some s | _ \<Rightarrow> None)"

text \<open>\<open>as_i64\<close> of a number given by its printed text: an integer in range.\<close>

definition json_as_i64 :: "json \<Rightarrow> int option" where
  "json_as_i64 v =
     (case v of
        JNumber text \<Rightarrow>
          (let negative = prefix ''-'' text; ds = (if negative then tl text else text);
               n = (if negative then - int (undec ds) else int (undec ds))
           in if ds \<noteq> [] \<and> list_all is_ascii_digit ds \<and> - (2 ^ 63) \<le> n \<and> n < 2 ^ 63 then Some n else None)
      | _ \<Rightarrow> None)"

definition encode_replay :: "replay_codec \<Rightarrow> replay_change \<Rightarrow> string locality_result" where
  "encode_replay C change =
     (case rc_encode C \<lparr>re_tag = DISCOVERY_REPLAY_TAG, re_state_version = DISCOVERY_REPLAY_VERSION,
             re_min_reader_version = DISCOVERY_REPLAY_VERSION, re_change = change\<rparr> of
        Inl error \<Rightarrow> discovery_invalid (''cannot encode discovery replay: '' @ error)
      | Inr text \<Rightarrow> Inr text)"

definition has_replay_tag :: "json \<Rightarrow> bool" where
  "has_replay_tag v \<longleftrightarrow> Option.bind (json_field v ''tag'') json_as_str = Some DISCOVERY_REPLAY_TAG"

definition is_replay_envelope :: "replay_codec \<Rightarrow> string \<Rightarrow> bool" where
  "is_replay_envelope C raw = (case rc_parse C raw of Inl _ \<Rightarrow> False | Inr v \<Rightarrow> has_replay_tag v)"

definition decode_replay :: "replay_codec \<Rightarrow> string \<Rightarrow> replay_change option locality_result" where
  "decode_replay C raw =
     (case rc_parse C raw of
        Inl _ \<Rightarrow> Inr None
      | Inr v \<Rightarrow>
          if \<not> has_replay_tag v then Inr None
          else
            rbind (ok_or (EInvalidState ''discovery replay state_version must be an integer'')
                     (Option.bind (json_field v ''state_version'') json_as_i64)) (\<lambda>state_version.
            rbind (ok_or (EInvalidState ''discovery replay min_reader_version must be an integer'')
                     (Option.bind (json_field v ''min_reader_version'') json_as_i64)) (\<lambda>min_reader_version.
              if state_version \<le> 0 \<or> min_reader_version \<le> 0 \<or> min_reader_version > state_version
              then discovery_invalid ''discovery replay versions are invalid''
              else if state_version > DISCOVERY_REPLAY_VERSION \<or> min_reader_version > DISCOVERY_REPLAY_VERSION
              then Inl (EUpdateRequired ''daemon:discovery_replay'' state_version DISCOVERY_REPLAY_VERSION)
              else
                (case rc_decode C v of
                   Inl error \<Rightarrow> discovery_invalid (''discovery replay JSON is invalid: '' @ error)
                 | Inr envelope \<Rightarrow> Inr (Some (re_change envelope))))))"

section \<open>Validation\<close>

definition validate_projected_path :: "path \<Rightarrow> unit locality_result" where
  "validate_projected_path p =
     (if p = [] \<or> is_absolute p
      then discovery_invalid (''discovery projected path `'' @ path_display p @ ''` must be a nonempty relative path'')
      else if CHR 0x5C \<in> set (path_display p)
           \<or> list_ex (\<lambda>c. c = [] \<or> c = ''.'' \<or> c = ''..'') (split_on (CHR ''/'') (path_display p))
           \<or> list_ex (\<lambda>c. case c of Normal _ \<Rightarrow> False | _ \<Rightarrow> True) p
      then discovery_invalid (''discovery projected path `'' @ path_display p @ ''` must be normalized and relative'')
      else Inr ())"

fun validate_changes ::
    "mount_config \<Rightarrow> batch_observation_change list \<Rightarrow> remote_id set \<Rightarrow> path set \<Rightarrow> unit locality_result" where
  "validate_changes mount [] ids paths = Inr ()"
| "validate_changes mount (ObservedUpsert entry # changes) ids paths =
     (if te_mount_id entry \<noteq> mc_mount_id mount
      then discovery_invalid (''discovery entry `'' @ remote_id_str (te_remote_id entry) @ ''` belongs to mount `''
             @ mount_id_str (te_mount_id entry) @ ''`, expected `'' @ mount_id_str (mc_mount_id mount) @ ''`'')
      else rbind (validate_projected_path (te_path entry)) (\<lambda>_.
        if te_path entry \<in> paths
        then discovery_invalid (''discovery batch contains duplicate projected path `''
               @ path_display (te_path entry) @ ''`'')
        else if remote_id_str (te_remote_id entry) = []
        then discovery_invalid ''discovery remote id cannot be empty''
        else if te_remote_id entry \<in> ids
        then discovery_invalid (''discovery batch contains duplicate remote id `''
               @ remote_id_str (te_remote_id entry) @ ''`'')
        else validate_changes mount changes (insert (te_remote_id entry) ids) (insert (te_path entry) paths)))"
| "validate_changes mount (ObservedTombstone i # changes) ids paths =
     (if remote_id_str i = [] then discovery_invalid ''discovery remote id cannot be empty''
      else if i \<in> ids
      then discovery_invalid (''discovery batch contains duplicate remote id `'' @ remote_id_str i @ ''`'')
      else validate_changes mount changes (insert i ids) paths)"

definition validate_batch :: "replay_codec \<Rightarrow> mount_config \<Rightarrow> batch_observe_result \<Rightarrow> unit locality_result" where
  "validate_batch C mount batch =
     (let checkpoint = br_next_checkpoint batch in
      if cc_state_version checkpoint \<le> 0 \<or> cc_min_reader_version checkpoint \<le> 0
      then discovery_invalid ''discovery checkpoint versions must be positive''
      else if cc_min_reader_version checkpoint > cc_state_version checkpoint
      then discovery_invalid ''discovery checkpoint minimum reader version exceeds state version''
      else
        (case rc_parse C (cc_state_json checkpoint) of
           Inl error \<Rightarrow> discovery_invalid (''discovery checkpoint JSON is invalid: '' @ error)
         | Inr _ \<Rightarrow> validate_changes mount (br_changes batch) {} {}))"

definition validate_replayed_entry :: "mount_config \<Rightarrow> remote_id \<Rightarrow> tree_entry \<Rightarrow> unit locality_result" where
  "validate_replayed_entry mount i entry =
     (if te_mount_id entry \<noteq> mc_mount_id mount \<or> te_remote_id entry \<noteq> i
      then discovery_invalid (''discovery replay entry `'' @ mount_id_str (te_mount_id entry) @ ''/''
             @ remote_id_str (te_remote_id entry) @ ''` does not match `'' @ mount_id_str (mc_mount_id mount) @ ''/''
             @ remote_id_str i @ ''`'')
      else validate_projected_path (te_path entry))"

section \<open>Intents\<close>

datatype discovery_intent = UpsertIntent tree_entry | TombstoneIntent

type_synonym intents = "(remote_id, discovery_intent) btree_map"

definition incoming_intents :: "batch_observation_change list \<Rightarrow> intents" where
  "incoming_intents changes =
     bm_collect (map (\<lambda>c. case c of ObservedUpsert entry \<Rightarrow> (te_remote_id entry, UpsertIntent entry)
                                   | ObservedTombstone i \<Rightarrow> (i, TombstoneIntent)) changes)"

definition incoming_ids :: "batch_observation_change list \<Rightarrow> remote_id set" where
  "incoming_ids changes =
     set (map (\<lambda>c. case c of ObservedUpsert entry \<Rightarrow> te_remote_id entry | ObservedTombstone i \<Rightarrow> i) changes)"

text \<open>A pending hint whose observation is a replay envelope.\<close>

definition recognized_pending ::
    "replay_codec \<Rightarrow> (remote_id, remote_observation_record) btree_map \<Rightarrow> remote_id \<times> freshness_state_record
      \<Rightarrow> remote_observation_record option" where
  "recognized_pending C observations p =
     (case p of (i, freshness) \<Rightarrow>
        if \<not> fs_remote_hint_pending freshness then None
        else Option.bind (bm_get observations i) (\<lambda>observation.
               if is_replay_envelope C (rr_raw_metadata_json observation) then Some observation else None))"

definition replayed_intent :: "mount_config \<Rightarrow> remote_id \<Rightarrow> replay_change \<Rightarrow> discovery_intent locality_result" where
  "replayed_intent mount i change =
     (case change of
        ReplayUpsert entry \<Rightarrow> rbind (validate_replayed_entry mount i entry) (\<lambda>_. Inr (UpsertIntent entry))
      | ReplayTombstone replayed_id \<Rightarrow>
          if replayed_id \<noteq> i
          then discovery_invalid (''discovery replay tombstone `'' @ remote_id_str replayed_id
                 @ ''` does not match observation `'' @ remote_id_str i @ ''`'')
          else Inr TombstoneIntent)"

fun replay_pending ::
    "replay_codec \<Rightarrow> mount_config \<Rightarrow> batch_observe_result \<Rightarrow> (remote_id, remote_observation_record) btree_map
      \<Rightarrow> (remote_id \<times> freshness_state_record) list \<Rightarrow> intents \<Rightarrow> intents locality_result" where
  "replay_pending C mount batch observations [] intents = Inr intents"
| "replay_pending C mount batch observations (p # ps) intents =
     (case recognized_pending C observations p of
        None \<Rightarrow> replay_pending C mount batch observations ps intents
      | Some observation \<Rightarrow>
          if fst p \<in> incoming_ids (br_changes batch) \<or> br_completeness batch = BatchComplete
          then replay_pending C mount batch observations ps intents
          else
            rbind (decode_replay C (rr_raw_metadata_json observation)) (\<lambda>decoded.
              case decoded of
                None \<Rightarrow> replay_pending C mount batch observations ps intents
              | Some change \<Rightarrow>
                  rbind (replayed_intent mount (fst p) change) (\<lambda>intent.
                    replay_pending C mount batch observations ps (bm_insert (fst p) intent intents))))"

definition recognized_pending_ids ::
    "replay_codec \<Rightarrow> (remote_id, remote_observation_record) btree_map
      \<Rightarrow> (remote_id, freshness_state_record) btree_map \<Rightarrow> remote_id set" where
  "recognized_pending_ids C observations freshness =
     fst ` set (filter (\<lambda>p. recognized_pending C observations p \<noteq> None) freshness)"

text \<open>What a complete batch omits is gone.\<close>

definition omitted_intents ::
    "batch_observe_result \<Rightarrow> remote_id list \<Rightarrow> remote_id set \<Rightarrow> intents \<Rightarrow> intents" where
  "omitted_intents batch existing_ids pending intents =
     (if br_completeness batch = BatchComplete
      then fold (\<lambda>i m. if i \<in> incoming_ids (br_changes batch) then m else bm_insert i TombstoneIntent m)
             (existing_ids @ sorted_list_of_set pending) intents
      else intents)"

fun distinct_intent_paths :: "discovery_intent list \<Rightarrow> path set \<Rightarrow> unit locality_result" where
  "distinct_intent_paths [] paths = Inr ()"
| "distinct_intent_paths (TombstoneIntent # intents) paths = distinct_intent_paths intents paths"
| "distinct_intent_paths (UpsertIntent entry # intents) paths =
     (if te_path entry \<in> paths
      then discovery_invalid (''discovery merged intents contain duplicate projected path `''
             @ path_display (te_path entry) @ ''`'')
      else distinct_intent_paths intents (insert (te_path entry) paths))"

definition validate_merged_intent_paths :: "intents \<Rightarrow> unit locality_result" where
  "validate_merged_intent_paths intents = distinct_intent_paths (bm_values intents) {}"

section \<open>Held changes\<close>

datatype discovery_change_kind = ChangeKindCreate | ChangeKindMove | ChangeKindDelete | RemoteDrift

datatype discovery_hold_reason =
    HoldDirty
  | HoldConflicted
  | HoldPendingVirtualMutation string
  | HoldUnsettledJournal push_id
  | HoldRecentLocalEdit remote_id
  | HoldActiveChildRefresh path
  | HoldUnsupportedKindChange entity_kind entity_kind
  | HoldUntrackedSource path
  | HoldUntrackedDestination path
  | HoldUnknownSubtree path
  | HoldIncompleteSubtree path
  | HoldHostCollision path
  | HoldUnknownProjection

datatype projection_assessment = ProjectionSafe | ProjectionBlocked discovery_hold_reason

record held_discovery_item =
  hi_remote_id :: remote_id
  hi_change :: discovery_change_kind
  hi_reason :: discovery_hold_reason

datatype discovery_post_commit_action =
    QueueHydration hydration_request
  | InvalidateProvider mount_id "path list"

record discovery_safety_snapshot =
  active_child_refresh_namespace_roots :: "path set"

definition mutation_path_overlaps_component :: "path \<Rightarrow> path list \<Rightarrow> bool" where
  "mutation_path_overlaps_component p namespace_roots \<longleftrightarrow>
     list_ex (\<lambda>root. paths_overlap root p \<or> paths_overlap root (page_container_path p)) namespace_roots"

definition option_holds :: "('a \<Rightarrow> bool) \<Rightarrow> 'a option \<Rightarrow> bool" where
  "option_holds P x = (case x of None \<Rightarrow> False | Some a \<Rightarrow> P a)"

definition mutation_intersects_projection_component ::
    "virtual_mutation_record \<Rightarrow> remote_id list \<Rightarrow> path list \<Rightarrow> bool" where
  "mutation_intersects_projection_component mutation expanded_ids namespace_roots \<longleftrightarrow>
     option_holds (\<lambda>i. i \<in> set expanded_ids) (vm_target_remote_id mutation)
   \<or> option_holds (\<lambda>i. i \<in> set expanded_ids) (vm_parent_remote_id mutation)
   \<or> option_holds (\<lambda>p. mutation_path_overlaps_component p namespace_roots) (vm_original_path mutation)
   \<or> mutation_path_overlaps_component (vm_projected_path mutation) namespace_roots"

definition mutation_path_overlaps_projection :: "entity_kind \<Rightarrow> path \<Rightarrow> path \<Rightarrow> bool" where
  "mutation_path_overlaps_projection k projection_path mutation_path =
     mutation_path_overlaps_component mutation_path [projection_namespace_root k projection_path]"

definition local_edit_is_recent_or_uncertain :: "string \<Rightarrow> u64 \<Rightarrow> bool" where
  "local_edit_is_recent_or_uncertain timestamp observed_at_ms =
     (case parse_freshness_timestamp timestamp of
        None \<Rightarrow> True
      | Some changed_at \<Rightarrow> changed_at > observed_at_ms \<or> observed_at_ms - changed_at < RECENT_LOCAL_EDIT_WINDOW_MS)"

definition entity_hold_reason :: "entity_record option \<Rightarrow> discovery_hold_reason option" where
  "entity_hold_reason current =
     (case map_option er_hydration current of
        Some Dirty \<Rightarrow> Some HoldDirty | Some Conflicted \<Rightarrow> Some HoldConflicted | _ \<Rightarrow> None)"

definition kind_change_hold_reason :: "entity_record option \<Rightarrow> tree_entry \<Rightarrow> discovery_hold_reason option" where
  "kind_change_hold_reason current entry =
     Option.bind current (\<lambda>c.
       if er_kind c \<noteq> te_kind entry then Some (HoldUnsupportedKindChange (er_kind c) (te_kind entry)) else None)"

definition pending_virtual_mutation_hold_reason ::
    "virtual_mutation_record list \<Rightarrow> remote_id \<Rightarrow> entity_kind \<Rightarrow> path list \<Rightarrow> discovery_hold_reason option" where
  "pending_virtual_mutation_hold_reason mutations i k paths =
     map_option (\<lambda>m. HoldPendingVirtualMutation (vm_local_id m))
       (List.find (\<lambda>m.
            vm_target_remote_id m = Some i \<or> vm_parent_remote_id m = Some i
          \<or> option_holds (\<lambda>q. list_ex (\<lambda>p. mutation_path_overlaps_projection k p q) paths) (vm_original_path m)
          \<or> list_ex (\<lambda>p. mutation_path_overlaps_projection k p (vm_projected_path m)) paths)
        mutations)"

definition prospective_projection_actions ::
    "intents \<Rightarrow> (remote_id, entity_record) btree_map \<Rightarrow> discovery_projection_action list" where
  "prospective_projection_actions intents existing =
     List.map_filter (\<lambda>(i, intent).
       case intent of
         UpsertIntent entry \<Rightarrow>
           (case bm_get existing i of
              None \<Rightarrow> Some (ProjectCreate entry)
            | Some current \<Rightarrow>
                if er_path current \<noteq> te_path entry
                then Some (ProjectMove i (er_kind current) (er_path current) (te_path entry)) else None)
       | TombstoneIntent \<Rightarrow>
           map_option (\<lambda>current. ProjectDelete i (er_kind current) (er_path current)) (bm_get existing i))
     intents"

text \<open>What the planner reads, beside the batch.\<close>

record discovery_inputs =
  in_mount :: mount_config
  in_existing :: "(remote_id, entity_record) btree_map"
  in_freshness :: "(remote_id, freshness_state_record) btree_map"
  in_enrollments :: "auto_save_enrollment_record list"
  in_mutations :: "virtual_mutation_record list"
  in_journals :: "journal_entry list"
  in_assessments :: "(remote_id, projection_assessment) btree_map"
  in_safety :: discovery_safety_snapshot
  in_observed_at :: string
  in_observed_at_ms :: u64

definition first_reason :: "discovery_hold_reason option list \<Rightarrow> discovery_hold_reason option" where
  "first_reason reasons = find_map id reasons"

definition hydrated_as :: "discovery_inputs \<Rightarrow> hydration_state \<Rightarrow> remote_id \<Rightarrow> bool" where
  "hydrated_as I h i = option_holds (\<lambda>e. er_hydration e = h) (bm_get (in_existing I) i)"

definition projection_component_hold_reason ::
    "discovery_inputs \<Rightarrow> intents \<Rightarrow> path list \<Rightarrow> remote_id list \<Rightarrow> remote_id list \<Rightarrow> discovery_hold_reason option" where
  "projection_component_hold_reason I intents namespace_roots action_ids expanded_ids =
     first_reason
       [map_option (\<lambda>m. HoldPendingVirtualMutation (vm_local_id m))
          (List.find (\<lambda>m. mutation_intersects_projection_component m expanded_ids namespace_roots) (in_mutations I)),
        map_option (\<lambda>j. HoldUnsettledJournal (je_push_id j))
          (List.find (\<lambda>j. je_mount_id j = mc_mount_id (in_mount I) \<and> is_unsettled (je_status j)
             \<and> touches_any_entity j expanded_ids) (in_journals I)),
        map_option HoldRecentLocalEdit
          (List.find (\<lambda>i. option_holds (\<lambda>t. local_edit_is_recent_or_uncertain t (in_observed_at_ms I))
             (Option.bind (bm_get (in_freshness I) i) fs_last_local_change_at)) expanded_ids),
        map_option HoldActiveChildRefresh
          (List.find (\<lambda>active. list_ex (\<lambda>root. paths_overlap root active) namespace_roots)
             (sorted_list_of_set (active_child_refresh_namespace_roots (in_safety I)))),
        if list_ex (hydrated_as I Dirty) expanded_ids then Some HoldDirty else None,
        if list_ex (hydrated_as I Conflicted) expanded_ids then Some HoldConflicted else None,
        find_map (\<lambda>i. case bm_get intents i of
            Some (UpsertIntent entry) \<Rightarrow> kind_change_hold_reason (bm_get (in_existing I) i) entry
          | _ \<Rightarrow> None) action_ids,
        find_map (\<lambda>i. case bm_get (in_assessments I) i of
            Some (ProjectionBlocked reason) \<Rightarrow> Some reason | _ \<Rightarrow> None) action_ids,
        if list_ex (\<lambda>i. bm_get (in_assessments I) i = None) action_ids then Some HoldUnknownProjection else None]"

definition component_action_ids :: "discovery_projection_component \<Rightarrow> remote_id set" where
  "component_action_ids c = set (map projection_action_remote_id (pc_actions c))"

definition component_expanded_ids :: "discovery_inputs \<Rightarrow> discovery_projection_component \<Rightarrow> remote_id set" where
  "component_expanded_ids I c =
     component_action_ids c
     \<union> set (map er_remote_id (filter (\<lambda>e.
         list_ex (\<lambda>root. paths_overlap root (projection_namespace_root (er_kind e) (er_path e))) (pc_namespace_roots c))
       (bm_values (in_existing I))))"

definition component_hold ::
    "discovery_inputs \<Rightarrow> intents \<Rightarrow> discovery_projection_component \<Rightarrow> discovery_hold_reason option" where
  "component_hold I intents c =
     projection_component_hold_reason I intents (pc_namespace_roots c)
       (sorted_list_of_set (component_action_ids c)) (sorted_list_of_set (component_expanded_ids I c))"

definition holds_of_component ::
    "discovery_inputs \<Rightarrow> intents \<Rightarrow> discovery_projection_component
      \<Rightarrow> (remote_id, discovery_hold_reason) btree_map \<Rightarrow> (remote_id, discovery_hold_reason) btree_map" where
  "holds_of_component I intents c held =
     (case component_hold I intents c of
        None \<Rightarrow> held
      | Some reason \<Rightarrow>
          bm_extend held (map (\<lambda>i. (i, reason)) (sorted_list_of_set (component_action_ids c))))"

definition projection_component_holds ::
    "discovery_inputs \<Rightarrow> intents \<Rightarrow> discovery_projection_action list
      \<Rightarrow> (remote_id, discovery_hold_reason) btree_map option" where
  "projection_component_holds I intents actions =
     map_option (\<lambda>comps. fold (holds_of_component I intents) comps [])
       (group_discovery_projection_actions actions)"

section \<open>Planning one intent\<close>

record discovery_lists =
  dl_entity_upserts :: "entity_record list"
  dl_entity_deletes :: "remote_id list"
  dl_observation_upserts :: "remote_observation_record list"
  dl_freshness_upserts :: "freshness_state_record list"
  dl_auto_save_upserts :: "auto_save_enrollment_record list"
  dl_projection_actions :: "discovery_projection_action list"
  dl_held :: "held_discovery_item list"
  dl_post_commit :: "discovery_post_commit_action list"

definition discovery_lists_empty :: discovery_lists where
  "discovery_lists_empty =
     \<lparr>dl_entity_upserts = [], dl_entity_deletes = [], dl_observation_upserts = [], dl_freshness_upserts = [],
      dl_auto_save_upserts = [], dl_projection_actions = [], dl_held = [], dl_post_commit = []\<rparr>"

definition entity_remote_changed :: "entity_record \<Rightarrow> tree_entry \<Rightarrow> bool" where
  "entity_remote_changed current entry \<longleftrightarrow>
     er_kind current \<noteq> te_kind entry \<or> er_title current \<noteq> te_title entry \<or> er_path current \<noteq> te_path entry
   \<or> er_content_hash current \<noteq> te_content_hash entry \<or> er_remote_edited_at current \<noteq> te_remote_edited_at entry"

definition is_placeholder :: "hydration_state \<Rightarrow> bool" where
  "is_placeholder h \<longleftrightarrow> h = Virtual \<or> h = Stub"

definition accepted_entity_record :: "entity_record \<Rightarrow> tree_entry \<Rightarrow> entity_record" where
  "accepted_entity_record current entry =
     (if is_placeholder (er_hydration current)
      then (entity_record_from entry)\<lparr>er_hydration := er_hydration current\<rparr>
      else current\<lparr>er_kind := te_kind entry, er_title := te_title entry, er_path := te_path entry\<rparr>)"

definition observation_for_entry ::
    "replay_codec \<Rightarrow> tree_entry \<Rightarrow> string \<Rightarrow> remote_observation_record locality_result" where
  "observation_for_entry C entry observed_at =
     (let observation = observation_record_new (te_mount_id entry) (te_remote_id entry) (te_kind entry)
                          (te_title entry) (te_path entry) observed_at;
          versioned = (case te_remote_edited_at entry of
                         None \<Rightarrow> observation
                       | Some version \<Rightarrow> observation_with_remote_version observation (RemoteVersion version))
      in rbind (encode_replay C (ReplayUpsert entry)) (\<lambda>raw.
           Inr (observation_with_raw_metadata versioned raw)))"

definition observation_for_tombstone ::
    "replay_codec \<Rightarrow> entity_record \<Rightarrow> string \<Rightarrow> remote_observation_record locality_result" where
  "observation_for_tombstone C current observed_at =
     rbind (encode_replay C (ReplayTombstone (er_remote_id current))) (\<lambda>raw.
       Inr (observation_with_raw_metadata
         (observation_deleted (observation_record_new (er_mount_id current) (er_remote_id current) (er_kind current)
            (er_title current) (er_path current) observed_at) True) raw))"

definition next_freshness ::
    "mount_id \<Rightarrow> remote_id \<Rightarrow> entity_record option \<Rightarrow> freshness_state_record option \<Rightarrow> string \<Rightarrow> bool
      \<Rightarrow> freshness_state_record" where
  "next_freshness mount i current previous observed_at pending =
     (let freshness = (case previous of
            Some f \<Rightarrow> f
          | None \<Rightarrow> freshness_state_new mount i
              (case map_option er_hydration current of
                 Some Dirty \<Rightarrow> Hot | Some Conflicted \<Rightarrow> Hot | Some Hydrated \<Rightarrow> Warm
               | Some Virtual \<Rightarrow> Cold | Some Stub \<Rightarrow> Cold | None \<Rightarrow> Cold))
      in freshness\<lparr>fs_last_checked_at := Some observed_at, fs_remote_hint_pending := pending\<rparr>)"

definition pause_auto_save ::
    "auto_save_enrollment_record list \<Rightarrow> entity_record option \<Rightarrow> path option \<Rightarrow> string \<Rightarrow> string
      \<Rightarrow> auto_save_enrollment_record list locality_result" where
  "pause_auto_save enrollments current final_path observed_at reason =
     (case current of
        None \<Rightarrow> Inr []
      | Some c \<Rightarrow>
          rbind (map_err store_error_into
                   (discovery_auto_save_candidate enrollments (er_remote_id c) (Some (er_path c)))) (\<lambda>candidate.
            case candidate of
              None \<Rightarrow> Inr []
            | Some enrollment \<Rightarrow>
                if \<not> as_enabled enrollment then Inr []
                else
                  let paused = (case final_path of None \<Rightarrow> enrollment | Some p \<Rightarrow> enrollment\<lparr>as_path := p\<rparr>)
                  in Inr [enrollment_paused_remote_changed paused reason observed_at]))"

definition queue_hydration :: "mount_config \<Rightarrow> entity_record \<Rightarrow> discovery_post_commit_action" where
  "queue_hydration mount e =
     QueueHydration (hydration_request_new (mc_mount_id mount) (er_remote_id e) (path_join (mc_root mount) (er_path e))
       Hydrated RemoteFastForward)"

definition hydration_debug :: "hydration_state \<Rightarrow> string" where
  "hydration_debug h =
     (case h of Virtual \<Rightarrow> ''Virtual'' | Stub \<Rightarrow> ''Stub'' | Hydrated \<Rightarrow> ''Hydrated'' | Dirty \<Rightarrow> ''Dirty''
      | Conflicted \<Rightarrow> ''Conflicted'')"

definition upsert_change_kind :: "entity_record option \<Rightarrow> tree_entry \<Rightarrow> discovery_change_kind" where
  "upsert_change_kind current entry =
     (case current of
        None \<Rightarrow> ChangeKindCreate
      | Some c \<Rightarrow> if er_path c \<noteq> te_path entry then ChangeKindMove else RemoteDrift)"

definition upsert_remote_changed :: "entity_record option \<Rightarrow> tree_entry \<Rightarrow> bool" where
  "upsert_remote_changed current entry = (case current of None \<Rightarrow> True | Some c \<Rightarrow> entity_remote_changed c entry)"

text \<open>A structural change is held with its component, a change in place for its own reasons.\<close>

definition upsert_hold_reason ::
    "discovery_inputs \<Rightarrow> (remote_id, discovery_hold_reason) btree_map \<Rightarrow> remote_id \<Rightarrow> tree_entry
      \<Rightarrow> discovery_hold_reason option" where
  "upsert_hold_reason I holds i entry =
     (let current = bm_get (in_existing I) i in
      if upsert_change_kind current entry \<noteq> RemoteDrift then bm_get holds i
      else
        let changed = upsert_remote_changed current entry in
        first_reason
          [if changed
           then pending_virtual_mutation_hold_reason (in_mutations I) i
                  (case current of None \<Rightarrow> te_kind entry | Some c \<Rightarrow> er_kind c)
                  (case current of Some c \<Rightarrow> [er_path c, te_path entry] | None \<Rightarrow> [te_path entry])
           else None,
           if changed then entity_hold_reason current else None,
           kind_change_hold_reason current entry])"

definition upsert_hint_pending :: "entity_record option \<Rightarrow> tree_entry \<Rightarrow> discovery_hold_reason option \<Rightarrow> bool" where
  "upsert_hint_pending current entry hold_reason =
     (let accepted_remote_metadata =
            (hold_reason = None \<and> (case current of None \<Rightarrow> True | Some c \<Rightarrow> is_placeholder (er_hydration c)))
      in hold_reason \<noteq> None \<or> (upsert_remote_changed current entry \<and> \<not> accepted_remote_metadata))"

text \<open>The accepted change: the last \<open>match\<close> of the loop.\<close>

definition accept_upsert ::
    "discovery_inputs \<Rightarrow> remote_id \<Rightarrow> tree_entry \<Rightarrow> discovery_lists \<Rightarrow> discovery_lists" where
  "accept_upsert I i entry out =
     (case bm_get (in_existing I) i of
        None \<Rightarrow>
          out\<lparr>dl_entity_upserts := dl_entity_upserts out @ [entity_record_from entry],
              dl_projection_actions := dl_projection_actions out @ [ProjectCreate entry]\<rparr>
      | Some current \<Rightarrow>
          (let queued = (\<lambda>e. if er_hydration current = Hydrated \<and> entity_remote_changed current entry
                               then [queue_hydration (in_mount I) e] else []) in
           if er_path current \<noteq> te_path entry
           then
             let updated = accepted_entity_record current entry in
             out\<lparr>dl_entity_upserts := dl_entity_upserts out @ [updated],
                 dl_projection_actions := dl_projection_actions out
                   @ [ProjectMove i (er_kind current) (er_path current) (te_path entry)],
                 dl_post_commit := dl_post_commit out @ queued updated\<rparr>
           else if is_placeholder (er_hydration current)
           then out\<lparr>dl_entity_upserts := dl_entity_upserts out @ [accepted_entity_record current entry]\<rparr>
           else out\<lparr>dl_post_commit := dl_post_commit out @ queued current\<rparr>))"

definition held_message :: string where
  "held_message = ''remote discovery is held for local review''"

definition plan_upsert ::
    "replay_codec \<Rightarrow> discovery_inputs \<Rightarrow> (remote_id, discovery_hold_reason) btree_map \<Rightarrow> remote_id \<Rightarrow> tree_entry
      \<Rightarrow> discovery_lists \<Rightarrow> discovery_lists locality_result" where
  "plan_upsert C I holds i entry out =
     (let current = bm_get (in_existing I) i;
          hold_reason = upsert_hold_reason I holds i entry;
          pending = upsert_hint_pending current entry hold_reason;
          pause = pause_auto_save (in_enrollments I) current in
      if current = None \<and> \<not> is_placeholder (te_hydration entry)
      then discovery_invalid (''discovery create `'' @ remote_id_str (te_remote_id entry)
             @ ''` has unsupported hydration state `'' @ hydration_debug (te_hydration entry) @ ''`'')
      else
        rbind (if upsert_change_kind current entry \<noteq> RemoteDrift
               then map_err store_error_into (discovery_auto_save_candidate (in_enrollments I) i
                      (Some (case current of None \<Rightarrow> te_path entry | Some c \<Rightarrow> er_path c)))
               else Inr None) (\<lambda>_.
        rbind (observation_for_entry C entry (in_observed_at I)) (\<lambda>observation.
          let observed = out\<lparr>dl_observation_upserts := dl_observation_upserts out @ [observation],
                             dl_freshness_upserts := dl_freshness_upserts out @
                               [next_freshness (mc_mount_id (in_mount I)) i current (bm_get (in_freshness I) i)
                                  (in_observed_at I) pending]\<rparr> in
          case hold_reason of
            Some reason \<Rightarrow>
              rbind (pause (map_option er_path current) (in_observed_at I) held_message) (\<lambda>paused.
                Inr (observed\<lparr>
                  dl_held := dl_held out @ [\<lparr>hi_remote_id = i, hi_change = upsert_change_kind current entry,
                                             hi_reason = reason\<rparr>],
                  dl_auto_save_upserts := dl_auto_save_upserts out @ paused\<rparr>))
          | None \<Rightarrow>
              rbind (if pending \<and> option_holds (\<lambda>c. er_hydration c = Hydrated) current
                     then pause (Some (case current of
                              Some c \<Rightarrow> if er_path c = te_path entry then er_path c else te_path entry
                            | None \<Rightarrow> te_path entry))
                            (in_observed_at I) ''remote discovery is awaiting hydration''
                     else Inr []) (\<lambda>paused.
                Inr (accept_upsert I i entry
                  (observed\<lparr>dl_auto_save_upserts := dl_auto_save_upserts out @ paused\<rparr>))))))"

definition plan_tombstone ::
    "replay_codec \<Rightarrow> discovery_inputs \<Rightarrow> (remote_id, discovery_hold_reason) btree_map \<Rightarrow> remote_id set \<Rightarrow> remote_id
      \<Rightarrow> discovery_lists \<Rightarrow> discovery_lists locality_result" where
  "plan_tombstone C I holds recognized i out =
     (case bm_get (in_existing I) i of
        None \<Rightarrow>
          Inr (if i \<in> recognized then out\<lparr>dl_entity_deletes := dl_entity_deletes out @ [i]\<rparr> else out)
      | Some current \<Rightarrow>
          rbind (map_err store_error_into (discovery_auto_save_candidate (in_enrollments I) i (Some (er_path current))))
            (\<lambda>_.
            case bm_get holds i of
              Some reason \<Rightarrow>
                rbind (observation_for_tombstone C current (in_observed_at I)) (\<lambda>observation.
                rbind (pause_auto_save (in_enrollments I) (Some current) (Some (er_path current)) (in_observed_at I)
                         held_message) (\<lambda>paused.
                  Inr (out\<lparr>dl_observation_upserts := dl_observation_upserts out @ [observation],
                    dl_freshness_upserts := dl_freshness_upserts out @
                      [next_freshness (mc_mount_id (in_mount I)) i (Some current) (bm_get (in_freshness I) i)
                         (in_observed_at I) True],
                    dl_auto_save_upserts := dl_auto_save_upserts out @ paused,
                    dl_held := dl_held out @ [\<lparr>hi_remote_id = i, hi_change = ChangeKindDelete, hi_reason = reason\<rparr>]\<rparr>)))
            | None \<Rightarrow>
                Inr (out\<lparr>dl_entity_deletes := dl_entity_deletes out @ [i],
                  dl_projection_actions := dl_projection_actions out
                    @ [ProjectDelete i (er_kind current) (er_path current)]\<rparr>)))"

fun plan_intents ::
    "replay_codec \<Rightarrow> discovery_inputs \<Rightarrow> (remote_id, discovery_hold_reason) btree_map \<Rightarrow> remote_id set
      \<Rightarrow> (remote_id \<times> discovery_intent) list \<Rightarrow> discovery_lists \<Rightarrow> discovery_lists locality_result" where
  "plan_intents C I holds recognized [] out = Inr out"
| "plan_intents C I holds recognized ((i, intent) # intents) out =
     rbind (case intent of
              UpsertIntent entry \<Rightarrow> plan_upsert C I holds i entry out
            | TombstoneIntent \<Rightarrow> plan_tombstone C I holds recognized i out)
       (plan_intents C I holds recognized intents)"

section \<open>The plan of a batch\<close>

record discovery_plan =
  dp_commit :: discovery_commit
  dp_projection_actions :: "discovery_projection_action list"
  dp_projection_components :: "discovery_projection_component list"
  dp_held :: "held_discovery_item list"
  dp_post_commit :: "discovery_post_commit_action list"

definition read_inputs ::
    "state_store \<Rightarrow> mount_config \<Rightarrow> string \<Rightarrow> u64 \<Rightarrow> (remote_id, projection_assessment) btree_map
      \<Rightarrow> discovery_safety_snapshot \<Rightarrow> discovery_inputs" where
  "read_inputs s mount observed_at observed_at_ms assessments safety =
     (let m = mc_mount_id mount in
      \<lparr>in_mount = mount,
       in_existing = bm_collect (map (\<lambda>e. (er_remote_id e, e)) (list_entities m s)),
       in_freshness = bm_collect (map (\<lambda>f. (fs_remote_id f, f)) (list_freshness_states m s)),
       in_enrollments = list_auto_save_enrollments m s,
       in_mutations = sort_key vm_local_id (list_virtual_mutations m s),
       in_journals = sort_key (\<lambda>j. push_id_str (je_push_id j)) (list_journal (st_journals s)),
       in_assessments = assessments, in_safety = safety,
       in_observed_at = observed_at, in_observed_at_ms = observed_at_ms\<rparr>)"

definition read_observations ::
    "state_store \<Rightarrow> mount_config \<Rightarrow> (remote_id, remote_observation_record) btree_map" where
  "read_observations s mount =
     bm_collect (map (\<lambda>r. (rr_remote_id r, r)) (list_remote_observations (mc_mount_id mount) s))"

definition merged_intents ::
    "replay_codec \<Rightarrow> discovery_inputs \<Rightarrow> (remote_id, remote_observation_record) btree_map \<Rightarrow> batch_observe_result
      \<Rightarrow> intents locality_result" where
  "merged_intents C I observations batch =
     rbind (replay_pending C (in_mount I) batch observations (in_freshness I) (incoming_intents (br_changes batch)))
       (\<lambda>replayed.
       let intents = omitted_intents batch (bm_keys (in_existing I))
                       (recognized_pending_ids C observations (in_freshness I)) replayed
       in rbind (validate_merged_intent_paths intents) (\<lambda>_. Inr intents))"

definition discovery_checkpoint :: "mount_config \<Rightarrow> connector_checkpoint \<Rightarrow> string \<Rightarrow> connector_state_record" where
  "discovery_checkpoint mount checkpoint observed_at =
     \<lparr>cs_connector = mc_connector mount, cs_scope_kind = ''mount'', cs_scope_id = mount_id_str (mc_mount_id mount),
      cs_state_version = cc_state_version checkpoint, cs_min_reader_version = cc_min_reader_version checkpoint,
      cs_state_json = cc_state_json checkpoint, cs_updated_at = observed_at\<rparr>"

definition commit_of_lists ::
    "mount_config \<Rightarrow> string option \<Rightarrow> connector_state_record \<Rightarrow> discovery_lists \<Rightarrow> discovery_commit" where
  "commit_of_lists mount metadata_job_id checkpoint out =
     \<lparr>dc_mount_id = mc_mount_id mount, dc_entity_upserts = dl_entity_upserts out,
      dc_entity_deletes = dl_entity_deletes out, dc_observation_upserts = dl_observation_upserts out,
      dc_freshness_upserts = dl_freshness_upserts out, dc_auto_save_upserts = dl_auto_save_upserts out,
      dc_metadata_discovery_deletes = (case metadata_job_id of None \<Rightarrow> [] | Some j \<Rightarrow> [j]),
      dc_virtual_mutation_deletes = [], dc_checkpoint = checkpoint\<rparr>"

definition finish_plan ::
    "replay_codec \<Rightarrow> discovery_inputs \<Rightarrow> connector_checkpoint \<Rightarrow> string option \<Rightarrow> discovery_lists
      \<Rightarrow> discovery_projection_component list \<Rightarrow> discovery_plan locality_result" where
  "finish_plan C I next_checkpoint metadata_job_id out comps =
     (let mount = in_mount I; checkpoint = discovery_checkpoint mount next_checkpoint (in_observed_at I);
          c = commit_of_lists mount metadata_job_id checkpoint out in
      if cs_state_version checkpoint \<le> 0
      then discovery_invalid ''discovery checkpoint state version must be positive''
      else
        rbind (map_err store_error_into
            (preflight (rc_parse C) c (mc_connector mount) (bm_values (in_existing I)) (in_enrollments I)
               (in_mutations I))) (\<lambda>_.
          Inr \<lparr>dp_commit = c, dp_projection_actions = concat (map pc_actions comps),
               dp_projection_components = comps, dp_held = dl_held out, dp_post_commit = dl_post_commit out\<rparr>))"

text \<open>The steps before the projection is looked at: all of them can fail, none can diverge.\<close>

definition plan_prelude ::
    "replay_codec \<Rightarrow> state_store \<Rightarrow> mount_config \<Rightarrow> batch_observe_result \<Rightarrow> string \<Rightarrow> string option
      \<Rightarrow> (remote_id, projection_assessment) btree_map \<Rightarrow> discovery_safety_snapshot
      \<Rightarrow> (discovery_inputs \<times> intents) locality_result" where
  "plan_prelude C s mount batch observed_at metadata_job_id assessments safety =
     (if metadata_job_id = Some [] then discovery_invalid ''discovery metadata job identifier cannot be empty''
      else
        rbind (validate_batch C mount batch) (\<lambda>_.
        rbind (ok_or (EInvalidState ''discovery observed_at must be a parseable freshness timestamp'')
                 (parse_freshness_timestamp observed_at)) (\<lambda>observed_at_ms.
          let I = read_inputs s mount observed_at observed_at_ms assessments safety in
          rbind (merged_intents C I (read_observations s mount) batch) (\<lambda>intents. Inr (I, intents)))))"

definition plan_batch_discovery ::
    "replay_codec \<Rightarrow> state_store \<Rightarrow> mount_config \<Rightarrow> batch_observe_result \<Rightarrow> string \<Rightarrow> string option
      \<Rightarrow> (remote_id, projection_assessment) btree_map \<Rightarrow> discovery_safety_snapshot
      \<Rightarrow> discovery_plan locality_result option" where
  "plan_batch_discovery C s mount batch observed_at metadata_job_id assessments safety =
     (case plan_prelude C s mount batch observed_at metadata_job_id assessments safety of
        Inl e \<Rightarrow> Some (Inl e)
      | Inr (I, intents) \<Rightarrow>
          Option.bind (projection_component_holds I intents
              (prospective_projection_actions intents (in_existing I))) (\<lambda>holds.
            case plan_intents C I holds
                   (recognized_pending_ids C (read_observations s mount) (in_freshness I)) intents
                   discovery_lists_empty of
              Inl e \<Rightarrow> Some (Inl e)
            | Inr out \<Rightarrow>
                map_option (finish_plan C I (br_next_checkpoint batch) metadata_job_id out)
                  (build_discovery_projection_components (dl_projection_actions out))))"

end
