(* ===== verification/Store_Machine.thy ===== *)
theory Store_Machine
  imports Discovery_Atomic
begin

text \<open>
  The in-memory store as a state machine: one step is one repository operation. In every reachable store
  the index by path mirrors the entities, a mount has at most one active discovery transaction, and a
  reserved commit that finds the mount as it was reserved is applied without an error.
\<close>

section \<open>Steps\<close>

inductive plain_step :: "state_store \<Rightarrow> state_store \<Rightarrow> bool" where
  "plain_step s (save_mount m s)"
| "plain_step s (save_mount_live_mode lm s)"
| "plain_step s (delete_mount_live_mode mount s)"
| "plain_step s (save_connection cn s)"
| "plain_step s (delete_connection cid s)"
| "plain_step s (save_connector_profile cp s)"
| "plain_step s (save_connector_state cs s)"
| "plain_step s (snd (save_entity e s))"
| "plain_step s (delete_entity mount i s)"
| "plain_step s (save_shadow mount d s)"
| "plain_step s (delete_shadow mount i s)"
| "plain_step s (save_virtual_mutation vm s)"
| "plain_step s (delete_virtual_mutation mount local s)"
| "plain_step s (snd (begin_virtual_move t s))"
| "plain_step s (snd (finalize_virtual_move_content mount local expected p at s))"
| "plain_step s (save_auto_save_enrollment en s)"
| "plain_step s (delete_auto_save_enrollment mount p s)"
| "plain_step s (save_remote_observation ro s)"
| "plain_step s (delete_remote_observation mount i s)"
| "plain_step s (save_freshness_state fs s)"
| "plain_step s (delete_freshness_state mount i s)"
| "plain_step s (upsert_hydration_job hj s)"
| "plain_step s (delete_hydration_job mount i s)"
| "plain_step s (record_hydration_job_failure mount i message s)"
| "plain_step s (upsert_metadata_discovery_job mj s)"
| "plain_step s (delete_metadata_discovery_job mount local s)"
| "plain_step s (record_metadata_discovery_job_failure mount local message s)"
| "plain_step s (snd (store_append_journal entry s))"
| "plain_step s (snd (store_record_journal_apply_effects push effects s))"
| "plain_step s (snd (store_update_journal_status push status s))"

inductive transaction_step :: "(string \<Rightarrow> string + json) \<Rightarrow> state_store \<Rightarrow> state_store \<Rightarrow> bool"
  for parse_json where
  reserve: "transaction_step parse_json s (snd (reserve_discovery_transaction parse_json p s))"
| applying: "transaction_step parse_json s (snd (mark_discovery_transaction_applying i at s))"
| effects: "transaction_step parse_json s (snd (record_discovery_transaction_effects i expected v at s))"
| projected: "transaction_step parse_json s (snd (mark_discovery_transaction_projected i expected at s))"
| commit: "transaction_step parse_json s (snd (commit_discovery_transaction parse_json i at s))"
| repair: "transaction_step parse_json s (snd (mark_discovery_transaction_repair_pending i expected v at s))"
| aborted: "transaction_step parse_json s (snd (mark_discovery_transaction_aborted i expected at s))"
| finalized: "transaction_step parse_json s (snd (mark_discovery_transaction_finalized i at s))"

definition store_step :: "(string \<Rightarrow> string + json) \<Rightarrow> state_store \<Rightarrow> state_store \<Rightarrow> bool" where
  "store_step parse_json s s' \<longleftrightarrow> plain_step s s' \<or> transaction_step parse_json s s'"

definition reachable_store :: "(string \<Rightarrow> string + json) \<Rightarrow> state_store \<Rightarrow> bool" where
  "reachable_store parse_json s \<longleftrightarrow> (store_step parse_json)\<^sup>*\<^sup>* state_store_new s"

section \<open>Plain operations\<close>

lemma store_keyed_new: "store_keyed state_store_new"
  by (simp add: store_keyed_def state_store_new_def index_ok_def mirrors_def)

lemma store_keyed_unrelated:
  "st_entities s' = st_entities s \<Longrightarrow> st_entities_by_path s' = st_entities_by_path s \<Longrightarrow>
   st_auto_save_enrollments s' = st_auto_save_enrollments s \<Longrightarrow> st_shadows s' = st_shadows s \<Longrightarrow>
   st_hydration_jobs s' = st_hydration_jobs s \<Longrightarrow> st_remote_observations s' = st_remote_observations s \<Longrightarrow>
   st_freshness_states s' = st_freshness_states s \<Longrightarrow> store_keyed s' = store_keyed s"
  by (simp add: store_keyed_def index_ok_def)

lemma keyed_clear: "store_keyed s \<Longrightarrow> store_keyed (clear_mount_source_state mount s)"
  by (simp add: store_keyed_def clear_mount_ok)
    (simp add: clear_mount_source_state_def keyed_retain)

lemma keyed_save_mount: "store_keyed s \<Longrightarrow> store_keyed (save_mount m s)"
  using keyed_clear[of s "mc_mount_id m"]
  by (simp add: save_mount_def Let_def store_keyed_def index_ok_def split: option.split)

lemma keyed_save_entity: "store_keyed s \<Longrightarrow> store_keyed (snd (save_entity e s))"
  using save_entity_ok[of s e]
  by (auto simp: store_keyed_def save_entity_def index_entity_def Let_def split: option.splits)

lemma keyed_delete_entity: "store_keyed s \<Longrightarrow> store_keyed (delete_entity mount i s)"
  using delete_entity_ok[of s mount i]
  by (auto simp: store_keyed_def delete_entity_def split: option.splits)

lemma keyed_delete_mutations: "store_keyed (fold (delete_virtual_mutation mount) locals s) = store_keyed s"
  by (rule store_keyed_unrelated) (simp_all add: fold_delete_mutations)

lemma keyed_save_freshness: "store_keyed s \<Longrightarrow> store_keyed (save_freshness_state f s)"
  by (simp add: store_keyed_def save_freshness_state_def index_ok_def bm_sorted_insert)

lemma keyed_save_mutation: "store_keyed (save_virtual_mutation m s) = store_keyed s"
  by (rule store_keyed_unrelated) (simp_all add: save_virtual_mutation_def)

lemma save_entity_keyed: "save_entity e s = (r, s') \<Longrightarrow> store_keyed s \<Longrightarrow> store_keyed s'"
  using keyed_save_entity[of s e] by simp

lemma keyed_begin_move: "store_keyed s \<Longrightarrow> store_keyed (snd (begin_virtual_move t s))"
  by (auto simp: begin_virtual_move_def Let_def keyed_save_mutation keyed_save_freshness keyed_delete_mutations
      split: sum.split option.split prod.split dest: save_entity_keyed)

lemmas store_op_defs = save_mount_live_mode_def delete_mount_live_mode_def save_connection_def
  delete_connection_def save_connector_profile_def save_connector_state_def save_shadow_def delete_shadow_def
  save_virtual_mutation_def delete_virtual_mutation_def finalize_virtual_move_content_def
  save_auto_save_enrollment_def delete_auto_save_enrollment_def save_remote_observation_def
  delete_remote_observation_def save_freshness_state_def delete_freshness_state_def upsert_hydration_job_def
  delete_hydration_job_def record_hydration_job_failure_def upsert_metadata_discovery_job_def
  delete_metadata_discovery_job_def record_metadata_discovery_job_failure_def on_journals_def
  store_append_journal_def store_record_journal_apply_effects_def store_update_journal_status_def

lemma plain_step_keyed: "plain_step s s' \<Longrightarrow> store_keyed s \<Longrightarrow> store_keyed s'"
  by (induction rule: plain_step.induct)
    (simp_all add: keyed_save_mount keyed_save_entity keyed_delete_entity keyed_begin_move,
     (simp add: store_op_defs store_keyed_def index_ok_def keyed_insert keyed_remove bm_sorted_insert Let_def
       split: option.split prod.split)+)

lemma transactions_clear: "st_discovery_transactions (clear_mount_source_state mount s) = st_discovery_transactions s"
  by (simp add: clear_mount_source_state_def)

lemma transactions_save_mount: "st_discovery_transactions (save_mount m s) = st_discovery_transactions s"
  by (simp add: save_mount_def Let_def transactions_clear split: option.split)

lemma transactions_save_entity: "st_discovery_transactions (snd (save_entity e s)) = st_discovery_transactions s"
  by (simp add: save_entity_def index_entity_def Let_def split: option.split)

lemma transactions_delete_entity: "st_discovery_transactions (delete_entity mount i s) = st_discovery_transactions s"
  by (simp add: delete_entity_def split: option.split)

lemma save_entity_transactions: "save_entity e s = (r, s') \<Longrightarrow> st_discovery_transactions s' = st_discovery_transactions s"
  using transactions_save_entity[of e s] by simp

lemma transactions_begin_move: "st_discovery_transactions (snd (begin_virtual_move t s)) = st_discovery_transactions s"
  by (auto simp: begin_virtual_move_def Let_def save_virtual_mutation_def save_freshness_state_def
      fold_delete_mutations split: sum.split option.split prod.split dest: save_entity_transactions)

lemma plain_step_transactions: "plain_step s s' \<Longrightarrow> st_discovery_transactions s' = st_discovery_transactions s"
  by (induction rule: plain_step.induct)
    (simp_all add: transactions_save_mount transactions_save_entity transactions_delete_entity
       transactions_begin_move,
     (simp add: store_op_defs Let_def split: option.split prod.split)+)

section \<open>Transactions\<close>

definition preflight_passed :: "(string \<Rightarrow> string + json) \<Rightarrow> discovery_transaction_record \<Rightarrow> bool" where
  "preflight_passed parse_json r \<longleftrightarrow>
     \<not> isl (preflight_details parse_json (tc_commit (tr_commit r)) (mc_connector (rv_mount (tr_reservation r)))
       (rv_entities (tr_reservation r)) (rv_auto_save_enrollments (tr_reservation r))
       (rv_virtual_mutations (tr_reservation r)))"

definition record_ok :: "discovery_transaction_record \<Rightarrow> bool" where
  "record_ok r \<longleftrightarrow>
     tr_transaction_id r = tc_transaction_id (tr_commit r)
   \<and> tr_mount_id r = dc_mount_id (tc_commit (tr_commit r))
   \<and> tr_active r = status_is_active (tr_status r)
   \<and> (tr_committed_at r \<noteq> None \<longleftrightarrow> tr_status r = TxCommitted \<or> tr_status r = TxFinalized)
   \<and> (tr_finalized_at r \<noteq> None \<longleftrightarrow> tr_status r = TxFinalized)"

definition transactions_ok ::
    "(string \<Rightarrow> string + json) \<Rightarrow> (discovery_transaction_id, discovery_transaction_record) btree_map \<Rightarrow> bool" where
  "transactions_ok parse_json txs \<longleftrightarrow>
     keyed tr_transaction_id txs
   \<and> (\<forall>i r. bm_get txs i = Some r \<longrightarrow> record_ok r \<and> preflight_passed parse_json r)
   \<and> (\<forall>i r j q. bm_get txs i = Some r \<longrightarrow> bm_get txs j = Some q \<longrightarrow> tr_active r \<longrightarrow> tr_active q \<longrightarrow>
        tr_mount_id r = tr_mount_id q \<longrightarrow> i = j)"

text \<open>What a transaction may never change: all but its status, its effects, its error and its times.\<close>

definition same_transaction :: "discovery_transaction_record \<Rightarrow> discovery_transaction_record \<Rightarrow> bool" where
  "same_transaction r q \<longleftrightarrow>
     tr_transaction_id q = tr_transaction_id r \<and> tr_mount_id q = tr_mount_id r
   \<and> tr_projection q = tr_projection r \<and> tr_plan q = tr_plan r \<and> tr_commit q = tr_commit r
   \<and> tr_reservation q = tr_reservation r \<and> tr_created_at q = tr_created_at r"

lemma same_transaction_refl [simp]: "same_transaction r r"
  by (simp add: same_transaction_def)

lemma same_transaction_trans: "same_transaction r q \<Longrightarrow> same_transaction q p \<Longrightarrow> same_transaction r p"
  by (simp add: same_transaction_def)

lemma transactions_ok_update:
  assumes ok: "transactions_ok parse_json txs" and r: "bm_get txs i = Some r"
    and q: "same_transaction r q" "record_ok q" "tr_active q \<longrightarrow> tr_active r"
  shows "transactions_ok parse_json (bm_insert i q txs)"
proof -
  have id: "tr_transaction_id q = i"
    using ok r q(1) by (auto simp: transactions_ok_def same_transaction_def dest: keyed_get)
  have "keyed tr_transaction_id (bm_insert i q txs)"
    using keyed_insert[of tr_transaction_id txs q] ok id by (simp add: transactions_ok_def)
  moreover have "preflight_passed parse_json q"
    using ok r q(1) by (simp add: transactions_ok_def preflight_passed_def same_transaction_def)
  moreover have "tr_mount_id q = tr_mount_id r" using q(1) by (simp add: same_transaction_def)
  ultimately show ?thesis
    using ok r q(2,3) unfolding transactions_ok_def by (simp add: bm_get_insert) metis
qed

lemma transactions_ok_reserve:
  assumes ok: "transactions_ok parse_json txs" and q: "record_ok q" "preflight_passed parse_json q" "tr_transaction_id q = i"
    and free: "\<forall>r\<in>set (bm_values txs). \<not> (tr_mount_id r = tr_mount_id q \<and> tr_active r)"
  shows "transactions_ok parse_json (bm_insert i q txs)"
proof -
  have k: "keyed tr_transaction_id txs" using ok by (simp add: transactions_ok_def)
  have "\<not> (tr_mount_id r = tr_mount_id q \<and> tr_active r)" if "bm_get txs j = Some r" for j r
    using free that bm_values_iff[OF keyed_bm_sorted[OF k], of r] by blast
  moreover have "keyed tr_transaction_id (bm_insert i q txs)" using keyed_insert[OF k, of q] q(3) by simp
  ultimately show ?thesis
    using ok q(1,2) unfolding transactions_ok_def by (simp add: bm_get_insert) metis
qed

text \<open>A step that replaces at most one record by a later state of the same transaction.\<close>

definition advances :: "state_store \<Rightarrow> state_store \<Rightarrow> bool" where
  "advances s s' \<longleftrightarrow>
     s' = s \<or> (\<exists>i r q. bm_get (st_discovery_transactions s) i = Some r \<and> same_transaction r q
       \<and> (record_ok r \<longrightarrow> record_ok q) \<and> (tr_active q \<longrightarrow> tr_active r)
       \<and> s' = s\<lparr>st_discovery_transactions := bm_insert i q (st_discovery_transactions s)\<rparr>)"

lemma advances_refl [simp]: "advances s s"
  by (simp add: advances_def)

lemma require_status_Inr: "require_transaction_status r expected = Inr u \<longleftrightarrow> tr_status r = expected \<and> tr_active r"
  by (simp add: require_transaction_status_def)

lemma update_transaction_advances:
  assumes "\<And>r. tr_status r = expected \<Longrightarrow> tr_active r \<Longrightarrow> same_transaction r (f r)"
    and "\<And>r. tr_status r = expected \<Longrightarrow> tr_active r \<Longrightarrow> record_ok r \<Longrightarrow> record_ok (f r)"
  shows "advances s (snd (update_transaction i expected f s))"
proof (cases "bm_get (st_discovery_transactions s) i")
  case (Some r)
  show ?thesis
  proof (cases "tr_status r = expected \<and> tr_active r")
    case True
    then have "require_transaction_status r expected = Inr ()" by (simp add: require_status_Inr)
    with Some have "snd (update_transaction i expected f s) =
        s\<lparr>st_discovery_transactions := bm_insert i (f r) (st_discovery_transactions s)\<rparr>"
      by (simp add: update_transaction_def)
    moreover have "same_transaction r (f r)" "record_ok r \<longrightarrow> record_ok (f r)" "tr_active r"
      using True assms by blast+
    ultimately show ?thesis using Some unfolding advances_def by blast
  next
    case False
    with Some show ?thesis
      by (cases "require_transaction_status r expected") (auto simp: update_transaction_def require_status_Inr)
  qed
qed (simp add: update_transaction_def)

lemma bm_insert_overwrite: "bm_insert k v (bm_insert k w m) = bm_insert k v m"
  by (induction k w m rule: bm_insert.induct) auto

lemmas record_simps = same_transaction_def record_ok_def status_is_active_def

lemma finalized_alt:
  "mark_discovery_transaction_finalized i at s =
     update_transaction i TxCommitted (\<lambda>r. r\<lparr>tr_status := TxFinalized, tr_active := False, tr_updated_at := at,
       tr_finalized_at := Some at\<rparr>) s"
  by (simp add: mark_discovery_transaction_finalized_def transition_discovery_transaction_def
      update_transaction_def status_is_active_def Let_def bm_insert_overwrite split: option.split sum.split)

lemma transaction_step_advances:
  "advances s (snd (mark_discovery_transaction_applying i at s))"
  "advances s (snd (record_discovery_transaction_effects i expected v at s))"
  "advances s (snd (mark_discovery_transaction_projected i expected at s))"
  "advances s (snd (mark_discovery_transaction_repair_pending i expected v at s))"
  "advances s (snd (mark_discovery_transaction_aborted i expected at s))"
  "advances s (snd (mark_discovery_transaction_finalized i at s))"
proof -
  note defs = mark_discovery_transaction_applying_def record_discovery_transaction_effects_def
    mark_discovery_transaction_projected_def mark_discovery_transaction_repair_pending_def
    mark_discovery_transaction_aborted_def finalized_alt transition_discovery_transaction_def
  show "advances s (snd (mark_discovery_transaction_applying i at s))"
    "advances s (snd (record_discovery_transaction_effects i expected v at s))"
    "advances s (snd (mark_discovery_transaction_projected i expected at s))"
    "advances s (snd (mark_discovery_transaction_repair_pending i expected v at s))"
    "advances s (snd (mark_discovery_transaction_aborted i expected at s))"
    "advances s (snd (mark_discovery_transaction_finalized i at s))"
    unfolding defs
    by (auto intro!: update_transaction_advances simp: record_simps split del: if_split split: if_splits)
qed

section \<open>Reservation and commit\<close>

lemma reserve_cases:
  assumes "reserve_discovery_transaction parse_json p s = (res, s')"
  shows "s' = s \<or> (\<exists>current.
      bm_get (st_discovery_transactions s) (tc_transaction_id (pd_commit p)) = None
    \<and> (\<forall>r\<in>set (bm_values (st_discovery_transactions s)).
        \<not> (tr_mount_id r = dc_mount_id (tc_commit (pd_commit p)) \<and> tr_active r))
    \<and> capture_discovery_reservation (dc_mount_id (tc_commit (pd_commit p))) s = Inr current
    \<and> record_from_prepared parse_json p current = Inr (record_of_prepared p)
    \<and> res = Inr (record_of_prepared p)
    \<and> s' = s\<lparr>st_discovery_transactions :=
         bm_insert (tc_transaction_id (pd_commit p)) (record_of_prepared p) (st_discovery_transactions s)\<rparr>)"
  using assms record_from_prepared_Inr(1)
  by (auto simp: reserve_discovery_transaction_def Let_def rbind_Inr_iff find_None_iff
      split: option.splits if_splits sum.splits)

lemma record_of_prepared_ok: "record_ok (record_of_prepared p)"
  by (simp add: record_of_prepared_def record_simps)

lemma record_of_prepared_passed:
  assumes "record_from_prepared parse_json p current = Inr r"
  shows "preflight_passed parse_json (record_of_prepared p)"
  using record_from_prepared_Inr[OF assms] by (auto simp: preflight_passed_def record_of_prepared_def)

lemma moved_jobs_sorted: "bm_sorted m \<Longrightarrow> bm_sorted (moved_jobs mount mvs m)"
  unfolding moved_jobs_def by (induction mvs arbitrary: m) auto

lemma applied_store_keyed:
  assumes ok: "store_keyed s" and app: "apply_discovery parse_json c s = Inr s'"
  shows "store_keyed s'"
proof -
  have k: "keyed auto_save_key (st_auto_save_enrollments s)" using ok by (simp add: store_keyed_def)
  obtain d m E where s': "s' = installed c d E s" and pre: "mount_preflight parse_json c s = Inr d"
    and E: "store_rehomes (dc_mount_id c) (pf_auto_save_rehomes d)
      (cleared_enrollments c d (st_auto_save_enrollments s)) = Inr E"
    by (rule applied_facts[OF ok app]) (rule that)
  from pre obtain m0 where "bm_get (st_mounts s) (dc_mount_id c) = Some m0"
    and pre: "preflight_details parse_json c (mc_connector m0)
       (filter (\<lambda>e. er_mount_id e = dc_mount_id c) (bm_values (st_entities s)))
       (filter (\<lambda>e. as_mount_id e = dc_mount_id c) (bm_values (st_auto_save_enrollments s)))
       (filter (\<lambda>v. vm_mount_id v = dc_mount_id c) (bm_values (st_virtual_mutations s))) = Inr d"
    by (rule mount_preflight_Inr)
  obtain E' where "store_rehomes (dc_mount_id c) (pf_auto_save_rehomes d)
      (cleared_enrollments c d (st_auto_save_enrollments s)) = Inr E'" "keyed auto_save_key E'"
    by (rule rehomes_carried_out[OF k pre]) (rule that)
  with E have "keyed auto_save_key E" by simp
  then have "keyed auto_save_key (insert_by auto_save_key (dc_auto_save_upserts c) E)"
    unfolding insert_by_def by (rule keyed_extend)
  with ok applied_entities(1)[OF ok app] show ?thesis
    by (simp add: store_keyed_def)
      (simp add: s' installed_def Let_def bm_sorted_insert_by bm_sorted_without_deleted moved_jobs_sorted)
qed

definition committed_record :: "discovery_transaction_record \<Rightarrow> string \<Rightarrow> discovery_transaction_record" where
  "committed_record r at =
     r\<lparr>tr_status := TxCommitted, tr_active := True, tr_updated_at := at, tr_committed_at := Some at,
       tr_error := None\<rparr>"

text \<open>The conditions under which the source commits, and the state it then installs.\<close>

definition commit_ready ::
    "(string \<Rightarrow> string + json) \<Rightarrow> discovery_transaction_id \<Rightarrow> discovery_transaction_record \<Rightarrow> state_store
      \<Rightarrow> state_store \<Rightarrow> bool" where
  "commit_ready parse_json i r s s1 \<longleftrightarrow>
     bm_get (st_discovery_transactions s) i = Some r \<and> tr_status r = TxProjected \<and> tr_active r
   \<and> tc_transaction_id (tr_commit r) = i
   \<and> capture_discovery_reservation (tr_mount_id r) s = Inr (tr_reservation r)
   \<and> apply_discovery parse_json (tc_commit (tr_commit r)) s = Inr s1"

lemma commit_Inr_iff:
  "commit_discovery_transaction parse_json i at s = (Inr q, s') \<longleftrightarrow>
     (\<exists>r s1. commit_ready parse_json i r s s1 \<and> q = committed_record r at
        \<and> s' = s1\<lparr>st_discovery_transactions :=
              bm_insert i (committed_record r at) (st_discovery_transactions s1)\<rparr>)"
proof
  assume "commit_discovery_transaction parse_json i at s = (Inr q, s')"
  then show "\<exists>r s1. commit_ready parse_json i r s s1 \<and> q = committed_record r at
        \<and> s' = s1\<lparr>st_discovery_transactions :=
              bm_insert i (committed_record r at) (st_discovery_transactions s1)\<rparr>"
    by (auto simp: commit_discovery_transaction_def commit_ready_def rbind_Inr_iff require_status_Inr
        changed_category_None committed_record_def Let_def split: sum.splits option.splits if_splits)
next
  assume "\<exists>r s1. commit_ready parse_json i r s s1 \<and> q = committed_record r at
        \<and> s' = s1\<lparr>st_discovery_transactions :=
              bm_insert i (committed_record r at) (st_discovery_transactions s1)\<rparr>"
  moreover have "changed_category c c = None" for c by (simp add: changed_category_None)
  ultimately show "commit_discovery_transaction parse_json i at s = (Inr q, s')"
    by (auto simp: commit_discovery_transaction_def commit_ready_def require_transaction_status_def
        committed_record_def Let_def ok_or_def)
qed

lemma commit_Inl: "commit_discovery_transaction parse_json i at s = (Inl e, s') \<Longrightarrow> s' = s"
  by (simp add: commit_discovery_transaction_def split: sum.splits prod.splits)

lemma applied_transactions:
  assumes "apply_discovery parse_json c s = Inr s'"
  shows "st_discovery_transactions s' = st_discovery_transactions s"
  using assms by (auto simp: apply_discovery_alt install_discovery_eq rbind_Inr_iff installed_def Let_def)

section \<open>The invariant of reachable stores\<close>

definition store_inv :: "(string \<Rightarrow> string + json) \<Rightarrow> state_store \<Rightarrow> bool" where
  "store_inv parse_json s \<longleftrightarrow> store_keyed s \<and> transactions_ok parse_json (st_discovery_transactions s)"

lemma advances_inv: "advances s s' \<Longrightarrow> store_inv parse_json s \<Longrightarrow> store_inv parse_json s'"
  unfolding advances_def store_inv_def
proof (elim disjE exE conjE)
  fix i r q
  assume s': "s' = s\<lparr>st_discovery_transactions := bm_insert i q (st_discovery_transactions s)\<rparr>"
    and r: "bm_get (st_discovery_transactions s) i = Some r" "same_transaction r q" "record_ok r \<longrightarrow> record_ok q"
      "tr_active q \<longrightarrow> tr_active r"
    and ok: "store_keyed s" "transactions_ok parse_json (st_discovery_transactions s)"
  have "record_ok r" using ok(2) r(1) by (simp add: transactions_ok_def)
  with r transactions_ok_update[OF ok(2) r(1,2)] have "transactions_ok parse_json (st_discovery_transactions s')"
    by (simp add: s')
  moreover have "store_keyed s'" using ok(1) by (simp add: s' store_keyed_def index_ok_def)
  ultimately show "store_keyed s' \<and> transactions_ok parse_json (st_discovery_transactions s')" by simp
qed simp

lemma committed_record_ok:
  "tr_active r \<Longrightarrow> tr_status r = TxProjected \<Longrightarrow> same_transaction r (committed_record r at)
     \<and> (record_ok r \<longrightarrow> record_ok (committed_record r at))"
  by (auto simp: committed_record_def record_simps)

lemma commit_inv:
  assumes inv: "store_inv parse_json s"
  shows "store_inv parse_json (snd (commit_discovery_transaction parse_json i at s))"
proof (cases "commit_discovery_transaction parse_json i at s")
  case (Pair res s')
  show ?thesis
  proof (cases res)
    case (Inl e)
    with Pair commit_Inl inv show ?thesis by fastforce
  next
    case (Inr q)
    with Pair obtain r s1 where ready: "commit_ready parse_json i r s s1"
      and s': "s' = s1\<lparr>st_discovery_transactions :=
        bm_insert i (committed_record r at) (st_discovery_transactions s1)\<rparr>"
      using commit_Inr_iff by metis
    have app: "apply_discovery parse_json (tc_commit (tr_commit r)) s = Inr s1" using ready by (simp add: commit_ready_def)
    have "store_inv parse_json s1"
      using inv applied_store_keyed[OF _ app] applied_transactions[OF app] by (simp add: store_inv_def)
    moreover have "advances s1 s'"
      using ready committed_record_ok[of r at] applied_transactions[OF app]
      unfolding advances_def s' commit_ready_def by metis
    ultimately have "store_inv parse_json s'" using advances_inv by blast
    with Pair show ?thesis by simp
  qed
qed

lemma reserve_inv:
  assumes inv: "store_inv parse_json s"
  shows "store_inv parse_json (snd (reserve_discovery_transaction parse_json p s))"
proof (cases "reserve_discovery_transaction parse_json p s")
  case (Pair res s')
  from reserve_cases[OF Pair] show ?thesis
  proof (elim disjE exE conjE)
    fix current
    let ?i = "tc_transaction_id (pd_commit p)"
    assume free: "\<forall>r\<in>set (bm_values (st_discovery_transactions s)).
        \<not> (tr_mount_id r = dc_mount_id (tc_commit (pd_commit p)) \<and> tr_active r)"
      and rec: "record_from_prepared parse_json p current = Inr (record_of_prepared p)"
      and s': "s' = s\<lparr>st_discovery_transactions := bm_insert ?i (record_of_prepared p) (st_discovery_transactions s)\<rparr>"
    have "transactions_ok parse_json (bm_insert ?i (record_of_prepared p) (st_discovery_transactions s))"
      using inv free
      by (intro transactions_ok_reserve record_of_prepared_ok record_of_prepared_passed[OF rec])
        (simp_all add: store_inv_def record_of_prepared_def)
    then show ?thesis
      using inv Pair by (simp add: s' store_inv_def store_keyed_def index_ok_def)
  qed (use inv Pair in simp)
qed

lemma transaction_step_inv: "transaction_step parse_json s s' \<Longrightarrow> store_inv parse_json s \<Longrightarrow> store_inv parse_json s'"
  by (induction rule: transaction_step.induct)
    (blast intro: reserve_inv commit_inv advances_inv transaction_step_advances)+

lemma reachable_inv: "reachable_store parse_json s \<Longrightarrow> store_inv parse_json s"
  unfolding reachable_store_def
proof (induction rule: rtranclp_induct)
  case base
  show ?case
    by (simp add: store_inv_def store_keyed_new transactions_ok_def) (simp add: state_store_new_def)
next
  case (step s s')
  then show ?case
    using plain_step_keyed plain_step_transactions transaction_step_inv
    unfolding store_step_def store_inv_def by metis
qed

end
