(* ===== verification/Discovery_Plan_Facts.thy ===== *)
theory Discovery_Plan_Facts
  imports Discovery_Plan Store_Machine
begin

text \<open>
  What the discovery planner decides: it always returns, its actions come from changes that are not held,
  and what it reads of the store is what a reservation captures.
\<close>

section \<open>The planner returns\<close>

lemma holds_exist: "\<exists>holds. projection_component_holds I intents actions = Some holds"
proof -
  obtain comps where "group_discovery_projection_actions actions = Some comps" by (rule groups_exact)
  then show ?thesis by (simp add: projection_component_holds_def)
qed

lemma components_exist: "\<exists>comps. build_discovery_projection_components actions = Some comps"
proof -
  obtain comps where "group_discovery_projection_actions actions = Some comps" by (rule groups_exact)
  then show ?thesis by (simp add: build_discovery_projection_components_def)
qed

lemma plan_returns: "plan_batch_discovery C s mount batch at job assessments safety \<noteq> None"
proof (cases "plan_prelude C s mount batch at job assessments safety")
  case (Inr x)
  obtain I intents where x: "x = (I, intents)" by (cases x)
  obtain holds where h: "projection_component_holds I intents
      (prospective_projection_actions intents (in_existing I)) = Some holds" using holds_exist by blast
  show ?thesis
  proof (cases "plan_intents C I holds (recognized_pending_ids C (read_observations s mount) (in_freshness I)) intents
      discovery_lists_empty")
    case (Inr out)
    obtain comps where "build_discovery_projection_components (dl_projection_actions out) = Some comps"
      using components_exist by blast
    with Inr h \<open>plan_prelude _ _ _ _ _ _ _ _ = _\<close> x show ?thesis by (simp add: plan_batch_discovery_def)
  qed (use Inr h x in \<open>simp add: plan_batch_discovery_def\<close>)
qed (simp add: plan_batch_discovery_def)

lemma plan_Inr:
  assumes "plan_batch_discovery C s mount batch at job assessments safety = Some (Inr p)"
  obtains I intents holds out comps where
    "plan_prelude C s mount batch at job assessments safety = Inr (I, intents)"
    "projection_component_holds I intents (prospective_projection_actions intents (in_existing I)) = Some holds"
    "plan_intents C I holds (recognized_pending_ids C (read_observations s mount) (in_freshness I)) intents
       discovery_lists_empty = Inr out"
    "build_discovery_projection_components (dl_projection_actions out) = Some comps"
    "finish_plan C I (br_next_checkpoint batch) job out comps = Inr p"
proof (cases "plan_prelude C s mount batch at job assessments safety")
  case (Inl e)
  with assms show thesis by (simp add: plan_batch_discovery_def)
next
  case (Inr x)
  obtain I intents where x: "x = (I, intents)" by (cases x)
  obtain holds where h: "projection_component_holds I intents
      (prospective_projection_actions intents (in_existing I)) = Some holds" using holds_exist by blast
  show thesis
  proof (cases "plan_intents C I holds (recognized_pending_ids C (read_observations s mount) (in_freshness I)) intents
      discovery_lists_empty")
    case (Inl e)
    with Inr x h assms show thesis by (simp add: plan_batch_discovery_def)
  next
    case out: (Inr out)
    obtain comps where comps: "build_discovery_projection_components (dl_projection_actions out) = Some comps"
      using components_exist by blast
    have "finish_plan C I (br_next_checkpoint batch) job out comps = Inr p"
      using Inr x h assms out comps by (simp add: plan_batch_discovery_def)
    with Inr x h out comps show thesis by (intro that) simp_all
  qed
qed

section \<open>One intent\<close>

lemma discovery_invalid_Inr [simp]: "discovery_invalid message \<noteq> Inr x"
  by (simp add: discovery_invalid_def)

text \<open>What an accepted upsert adds to the lists.\<close>

definition accepted_entities :: "discovery_inputs \<Rightarrow> remote_id \<Rightarrow> tree_entry \<Rightarrow> entity_record list" where
  "accepted_entities I i entry = dl_entity_upserts (accept_upsert I i entry discovery_lists_empty)"

definition accepted_actions :: "discovery_inputs \<Rightarrow> remote_id \<Rightarrow> tree_entry \<Rightarrow> discovery_projection_action list" where
  "accepted_actions I i entry = dl_projection_actions (accept_upsert I i entry discovery_lists_empty)"

lemma accept_upsert_fields:
  "dl_entity_upserts (accept_upsert I i entry out) = dl_entity_upserts out @ accepted_entities I i entry"
  "dl_projection_actions (accept_upsert I i entry out) = dl_projection_actions out @ accepted_actions I i entry"
  "dl_entity_deletes (accept_upsert I i entry out) = dl_entity_deletes out"
  "dl_observation_upserts (accept_upsert I i entry out) = dl_observation_upserts out"
  "dl_freshness_upserts (accept_upsert I i entry out) = dl_freshness_upserts out"
  "dl_held (accept_upsert I i entry out) = dl_held out"
  by (simp_all add: accept_upsert_def accepted_entities_def accepted_actions_def discovery_lists_empty_def Let_def
      split: option.split)

lemma plan_upsert_Inr:
  assumes "plan_upsert C I holds i entry out = Inr out'"
  obtains observation where "observation_for_entry C entry (in_observed_at I) = Inr observation"
    "dl_observation_upserts out' = dl_observation_upserts out @ [observation]"
    "dl_freshness_upserts out' = dl_freshness_upserts out @
       [next_freshness (mc_mount_id (in_mount I)) i (bm_get (in_existing I) i) (bm_get (in_freshness I) i)
          (in_observed_at I) (upsert_hint_pending (bm_get (in_existing I) i) entry (upsert_hold_reason I holds i entry))]"
    "dl_entity_deletes out' = dl_entity_deletes out"
    "dl_held out' = dl_held out @ (case upsert_hold_reason I holds i entry of None \<Rightarrow> []
       | Some reason \<Rightarrow> [\<lparr>hi_remote_id = i, hi_change = upsert_change_kind (bm_get (in_existing I) i) entry,
                       hi_reason = reason\<rparr>])"
    "dl_entity_upserts out' = dl_entity_upserts out @
       (if upsert_hold_reason I holds i entry = None then accepted_entities I i entry else [])"
    "dl_projection_actions out' = dl_projection_actions out @
       (if upsert_hold_reason I holds i entry = None then accepted_actions I i entry else [])"
  using assms
  by (cases "upsert_hold_reason I holds i entry")
    (auto simp: plan_upsert_def Let_def rbind_Inr_iff accept_upsert_fields split: if_splits intro: that)

lemma plan_tombstone_Inr:
  assumes "plan_tombstone C I holds recognized i out = Inr out'"
  shows "dl_entity_upserts out' = dl_entity_upserts out"
    "dl_entity_deletes out' = dl_entity_deletes out @
       (if (case bm_get (in_existing I) i of None \<Rightarrow> i \<in> recognized | Some _ \<Rightarrow> bm_get holds i = None) then [i] else [])"
    "dl_projection_actions out' = dl_projection_actions out @
       (case bm_get (in_existing I) i of None \<Rightarrow> []
        | Some c \<Rightarrow> if bm_get holds i = None then [ProjectDelete i (er_kind c) (er_path c)] else [])"
    "dl_held out' = dl_held out @
       (case (bm_get (in_existing I) i, bm_get holds i) of
          (Some c, Some reason) \<Rightarrow> [\<lparr>hi_remote_id = i, hi_change = ChangeKindDelete, hi_reason = reason\<rparr>]
        | _ \<Rightarrow> [])"
    "\<exists>observations freshness. dl_observation_upserts out' = dl_observation_upserts out @ observations
       \<and> dl_freshness_upserts out' = dl_freshness_upserts out @ freshness
       \<and> (\<forall>c reason. bm_get (in_existing I) i = Some c \<longrightarrow> bm_get holds i = Some reason \<longrightarrow>
            (\<exists>observation. observation_for_tombstone C c (in_observed_at I) = Inr observation
              \<and> observations = [observation]
              \<and> freshness = [next_freshness (mc_mount_id (in_mount I)) i (Some c) (bm_get (in_freshness I) i)
                               (in_observed_at I) True]))"
  using assms
  by (auto simp: plan_tombstone_def rbind_Inr_iff split: option.splits if_splits)

text \<open>Intents belong to the entity they are stored under.\<close>

definition intents_ok :: "mount_id \<Rightarrow> intents \<Rightarrow> bool" where
  "intents_ok m intents \<longleftrightarrow>
     bm_sorted intents
   \<and> (\<forall>i entry. (i, UpsertIntent entry) \<in> set intents \<longrightarrow> te_remote_id entry = i \<and> te_mount_id entry = m)"

definition inputs_ok :: "discovery_inputs \<Rightarrow> bool" where
  "inputs_ok I \<longleftrightarrow>
     keyed er_remote_id (in_existing I) \<and> keyed fs_remote_id (in_freshness I)
   \<and> (\<forall>i e. bm_get (in_existing I) i = Some e \<longrightarrow> er_mount_id e = mc_mount_id (in_mount I))
   \<and> (\<forall>i f. bm_get (in_freshness I) i = Some f \<longrightarrow> fs_mount_id f = mc_mount_id (in_mount I))"

lemma in_prospective:
  assumes "(i, intent) \<in> set intents"
    and "(case intent of
         UpsertIntent entry \<Rightarrow>
           (case bm_get existing i of
              None \<Rightarrow> Some (ProjectCreate entry)
            | Some current \<Rightarrow>
                if er_path current \<noteq> te_path entry
                then Some (ProjectMove i (er_kind current) (er_path current) (te_path entry)) else None)
       | TombstoneIntent \<Rightarrow>
           map_option (\<lambda>current. ProjectDelete i (er_kind current) (er_path current)) (bm_get existing i)) = Some a"
  shows "a \<in> set (prospective_projection_actions intents existing)"
  unfolding prospective_projection_actions_def List.map_filter_def using assms by (force simp: image_iff)

text \<open>Every entry of the lists is explained by an action, and every action by an intent that is not held.\<close>

definition explained ::
    "discovery_inputs \<Rightarrow> (remote_id, discovery_hold_reason) btree_map \<Rightarrow> intents \<Rightarrow> discovery_lists \<Rightarrow> bool" where
  "explained I holds intents out \<longleftrightarrow>
     (\<forall>a\<in>set (dl_projection_actions out). a \<in> set (prospective_projection_actions intents (in_existing I))
        \<and> bm_get holds (projection_action_remote_id a) = None)
   \<and> (\<forall>i\<in>set (dl_entity_deletes out). \<forall>c. bm_get (in_existing I) i = Some c \<longrightarrow>
        ProjectDelete i (er_kind c) (er_path c) \<in> set (dl_projection_actions out))
   \<and> (\<forall>e\<in>set (dl_entity_upserts out). \<forall>c. bm_get (in_existing I) (er_remote_id e) = Some c \<longrightarrow>
        is_placeholder (er_hydration c)
      \<or> (\<exists>target. ProjectMove (er_remote_id e) (er_kind c) (er_path c) target \<in> set (dl_projection_actions out)))"

lemma explained_append:
  assumes "explained I holds intents out"
    and "dl_projection_actions out' = dl_projection_actions out @ as"
    and "dl_entity_deletes out' = dl_entity_deletes out @ ds" and "dl_entity_upserts out' = dl_entity_upserts out @ es"
    and "\<forall>a\<in>set as. a \<in> set (prospective_projection_actions intents (in_existing I))
        \<and> bm_get holds (projection_action_remote_id a) = None"
    and "\<forall>i\<in>set ds. \<forall>c. bm_get (in_existing I) i = Some c \<longrightarrow> ProjectDelete i (er_kind c) (er_path c) \<in> set as"
    and "\<forall>e\<in>set es. \<forall>c. bm_get (in_existing I) (er_remote_id e) = Some c \<longrightarrow>
        is_placeholder (er_hydration c) \<or> (\<exists>target. ProjectMove (er_remote_id e) (er_kind c) (er_path c) target \<in> set as)"
  shows "explained I holds intents out'"
  using assms unfolding explained_def by (simp only: assms(2-4) set_append) blast

lemma accepted_upsert_explained:
  assumes ok: "inputs_ok I" "te_remote_id entry = i" and mem: "(i, UpsertIntent entry) \<in> set intents"
    and free: "upsert_hold_reason I holds i entry = None"
  shows "\<forall>a\<in>set (accepted_actions I i entry). a \<in> set (prospective_projection_actions intents (in_existing I))
        \<and> bm_get holds (projection_action_remote_id a) = None"
    and "\<forall>e\<in>set (accepted_entities I i entry). \<forall>c. bm_get (in_existing I) (er_remote_id e) = Some c \<longrightarrow>
        is_placeholder (er_hydration c)
      \<or> (\<exists>target. ProjectMove (er_remote_id e) (er_kind c) (er_path c) target \<in> set (accepted_actions I i entry))"
proof -
  have "\<forall>a\<in>set (accepted_actions I i entry). a \<in> set (prospective_projection_actions intents (in_existing I))"
    by (auto simp: accepted_actions_def accept_upsert_def discovery_lists_empty_def Let_def
        intro!: in_prospective[OF mem] split: option.splits if_splits)
  moreover have "\<forall>a\<in>set (accepted_actions I i entry). projection_action_remote_id a = i"
    using ok(2) by (auto simp: accepted_actions_def accept_upsert_def discovery_lists_empty_def Let_def
        projection_action_remote_id_def split: option.splits if_splits)
  moreover have "bm_get holds i = None" if "accepted_actions I i entry \<noteq> []"
    using that free
    by (auto simp: accepted_actions_def accept_upsert_def discovery_lists_empty_def Let_def upsert_hold_reason_def
        upsert_change_kind_def split: option.splits if_splits)
  ultimately show "\<forall>a\<in>set (accepted_actions I i entry). a \<in> set (prospective_projection_actions intents (in_existing I))
        \<and> bm_get holds (projection_action_remote_id a) = None" by fastforce
  have id: "er_remote_id c = i" if "bm_get (in_existing I) i = Some c" for c
    using ok(1) that by (auto simp: inputs_ok_def dest: keyed_get)
  have eid: "er_remote_id (entity_record_from entry) = i" using ok(2) by (simp add: entity_record_from_def)
  show "\<forall>e\<in>set (accepted_entities I i entry). \<forall>c. bm_get (in_existing I) (er_remote_id e) = Some c \<longrightarrow>
        is_placeholder (er_hydration c)
      \<or> (\<exists>target. ProjectMove (er_remote_id e) (er_kind c) (er_path c) target \<in> set (accepted_actions I i entry))"
  proof (cases "bm_get (in_existing I) i")
    case None
    with eid show ?thesis
      by (simp add: accepted_entities_def accept_upsert_def discovery_lists_empty_def)
  next
    case (Some c)
    have "er_remote_id (accepted_entity_record c entry) = i"
      using id[OF Some] eid by (simp add: accepted_entity_record_def)
    with Some id[OF Some] show ?thesis
      by (auto simp: accepted_entities_def accepted_actions_def accept_upsert_def discovery_lists_empty_def Let_def
          split: if_splits)
  qed
qed

lemma intent_of:
  assumes "intents_ok m intents" "(i, UpsertIntent entry) \<in> set intents"
  shows "te_remote_id entry = i" "te_mount_id entry = m"
  using assms unfolding intents_ok_def by blast+

lemma plan_upsert_explained:
  assumes ok: "inputs_ok I" "te_remote_id entry = i" and mem: "(i, UpsertIntent entry) \<in> set intents"
    and plan: "plan_upsert C I holds i entry out = Inr out'" and ex: "explained I holds intents out"
  shows "explained I holds intents out'"
proof (cases "upsert_hold_reason I holds i entry")
  case None
  obtain o1 where out': "dl_projection_actions out' = dl_projection_actions out @ accepted_actions I i entry"
    "dl_entity_deletes out' = dl_entity_deletes out @ []"
    "dl_entity_upserts out' = dl_entity_upserts out @ accepted_entities I i entry"
    by (rule plan_upsert_Inr[OF plan]) (simp add: None)
  show ?thesis
    by (rule explained_append[OF ex out']) (use accepted_upsert_explained[OF ok mem None] in \<open>simp_all\<close>)
next
  case (Some reason)
  have out': "dl_projection_actions out' = dl_projection_actions out @ []"
    "dl_entity_deletes out' = dl_entity_deletes out @ []" "dl_entity_upserts out' = dl_entity_upserts out @ []"
    by (rule plan_upsert_Inr[OF plan], simp add: Some)+
  show ?thesis by (rule explained_append[OF ex out']) simp_all
qed

lemma plan_tombstone_explained:
  assumes mem: "(i, TombstoneIntent) \<in> set intents" and plan: "plan_tombstone C I holds recognized i out = Inr out'"
    and ex: "explained I holds intents out"
  shows "explained I holds intents out'"
proof -
  note out' = plan_tombstone_Inr[OF plan]
  have id: "projection_action_remote_id (ProjectDelete i k p) = i" for k p
    by (simp add: projection_action_remote_id_def)
  have "ProjectDelete i (er_kind c) (er_path c) \<in> set (prospective_projection_actions intents (in_existing I))"
    if "bm_get (in_existing I) i = Some c" for c
    by (rule in_prospective[OF mem]) (simp add: that)
  then show ?thesis
    using id by (intro explained_append[OF ex out'(3,2), of "[]"]) (auto simp: out'(1) split: option.splits)
qed

lemma plan_intents_explained:
  assumes ok: "inputs_ok I" "intents_ok (mc_mount_id (in_mount I)) intents"
  shows "plan_intents C I holds recognized xs out = Inr out' \<Longrightarrow> set xs \<subseteq> set intents \<Longrightarrow>
    explained I holds intents out \<Longrightarrow> explained I holds intents out'"
proof (induction xs arbitrary: out)
  case (Cons x xs)
  obtain i intent where x: "x = (i, intent)" by (cases x)
  have mem: "(i, intent) \<in> set intents" using Cons.prems(2) x by simp
  obtain o1 where o1: "(case intent of UpsertIntent entry \<Rightarrow> plan_upsert C I holds i entry out
      | TombstoneIntent \<Rightarrow> plan_tombstone C I holds recognized i out) = Inr o1"
    and rest: "plan_intents C I holds recognized xs o1 = Inr out'"
    using Cons.prems(1) by (auto simp: x rbind_Inr_iff)
  have "explained I holds intents o1"
  proof (cases intent)
    case (UpsertIntent entry)
    show ?thesis
      by (rule plan_upsert_explained[OF ok(1) intent_of(1)[OF ok(2)] _ _ Cons.prems(3)])
        (use mem o1 UpsertIntent in simp_all)
  next
    case TombstoneIntent
    show ?thesis
      by (rule plan_tombstone_explained[OF _ _ Cons.prems(3)]) (use mem o1 TombstoneIntent in simp_all)
  qed
  then show ?case using Cons.IH[OF rest] Cons.prems(2) by simp
qed simp

lemma explained_empty: "explained I holds intents discovery_lists_empty"
  by (simp add: explained_def discovery_lists_empty_def)

section \<open>What is not held\<close>

lemma bm_get_extend_const:
  "bm_get (bm_extend m (map (\<lambda>i. (i, v)) ks)) k = (if k \<in> set ks then Some v else bm_get m k)"
  unfolding bm_extend_def by (induction ks arbitrary: m) (auto simp: bm_get_insert)

lemma finite_component_ids [simp]:
  "finite (component_action_ids c)" "finite (component_expanded_ids I c)"
  by (simp_all add: component_action_ids_def component_expanded_ids_def)

lemma holds_of_component_None:
  "bm_get (holds_of_component I intents c held) i = None \<longleftrightarrow>
     bm_get held i = None \<and> (i \<in> component_action_ids c \<longrightarrow> component_hold I intents c = None)"
  by (auto simp: holds_of_component_def bm_get_extend_const split: option.split)

lemma fold_holds_None:
  "bm_get (fold (holds_of_component I intents) comps held) i = None \<longleftrightarrow>
     bm_get held i = None \<and> (\<forall>c\<in>set comps. i \<in> component_action_ids c \<longrightarrow> component_hold I intents c = None)"
  by (induction comps arbitrary: held) (auto simp: holds_of_component_None)

lemma holds_None:
  assumes "projection_component_holds I intents actions = Some holds" "bm_get holds i = None"
    and "a \<in> set actions" "projection_action_remote_id a = i"
  obtains c where "a \<in> set (pc_actions c)" "component_hold I intents c = None" "component_ok actions c"
proof -
  obtain comps where g: "group_discovery_projection_actions actions = Some comps"
    "mset (concat (map pc_actions comps)) = mset actions" "\<forall>c\<in>set comps. component_ok actions c"
    by (rule groups_exact)
  have "a \<in> set (concat (map pc_actions comps))" using assms(3) mset_eq_setD[OF g(2)] by simp
  then obtain c where c: "c \<in> set comps" "a \<in> set (pc_actions c)" by auto
  then have "i \<in> component_action_ids c" using assms(4) by (force simp: component_action_ids_def)
  moreover have "holds = fold (holds_of_component I intents) comps []"
    using assms(1) g(1) by (simp add: projection_component_holds_def)
  ultimately have "component_hold I intents c = None" using assms(2) c(1) by (simp add: fold_holds_None)
  with c g(3) show thesis by (blast intro: that)
qed

lemma first_reason_None: "first_reason reasons = None \<longleftrightarrow> (\<forall>r\<in>set reasons. r = None)"
  by (simp add: first_reason_def find_map_None)

lemma component_hold_None:
  assumes "component_hold I intents c = None"
  shows "\<forall>m\<in>set (in_mutations I). \<not> mutation_intersects_projection_component m
      (sorted_list_of_set (component_expanded_ids I c)) (pc_namespace_roots c)"
    and "\<forall>j\<in>set (in_journals I). je_mount_id j = mc_mount_id (in_mount I) \<longrightarrow> is_unsettled (je_status j) \<longrightarrow>
      \<not> touches_any_entity j (sorted_list_of_set (component_expanded_ids I c))"
    and "\<forall>i\<in>component_expanded_ids I c. \<not> option_holds
      (\<lambda>t. local_edit_is_recent_or_uncertain t (in_observed_at_ms I))
      (Option.bind (bm_get (in_freshness I) i) fs_last_local_change_at)"
    and "\<forall>i\<in>component_expanded_ids I c. \<not> hydrated_as I Dirty i \<and> \<not> hydrated_as I Conflicted i"
    and "\<forall>i\<in>component_action_ids c. bm_get (in_assessments I) i = Some ProjectionSafe"
proof -
  note none = assms[unfolded component_hold_def projection_component_hold_reason_def first_reason_None, simplified]
  show "\<forall>m\<in>set (in_mutations I). \<not> mutation_intersects_projection_component m
      (sorted_list_of_set (component_expanded_ids I c)) (pc_namespace_roots c)"
    using none by (simp add: find_None_iff)
  show "\<forall>j\<in>set (in_journals I). je_mount_id j = mc_mount_id (in_mount I) \<longrightarrow> is_unsettled (je_status j) \<longrightarrow>
      \<not> touches_any_entity j (sorted_list_of_set (component_expanded_ids I c))"
    using none by (auto simp: find_None_iff)
  show "\<forall>i\<in>component_expanded_ids I c. \<not> option_holds
      (\<lambda>t. local_edit_is_recent_or_uncertain t (in_observed_at_ms I))
      (Option.bind (bm_get (in_freshness I) i) fs_last_local_change_at)"
    using none by (auto simp: find_None_iff)
  show "\<forall>i\<in>component_expanded_ids I c. \<not> hydrated_as I Dirty i \<and> \<not> hydrated_as I Conflicted i"
    using none by (auto simp: list_ex_iff split: if_splits)
  show "\<forall>i\<in>component_action_ids c. bm_get (in_assessments I) i = Some ProjectionSafe"
  proof
    fix i
    assume "i \<in> component_action_ids c"
    then have "bm_get (in_assessments I) i \<noteq> None"
      "(case bm_get (in_assessments I) i of Some (ProjectionBlocked reason) \<Rightarrow> Some reason | _ \<Rightarrow> None) = None"
      using none by (auto simp: list_ex_iff find_map_None split: if_splits)
    then show "bm_get (in_assessments I) i = Some ProjectionSafe"
      by (auto split: option.splits projection_assessment.splits)
  qed
qed

lemma paths_overlap_prefix: "prefix r p \<Longrightarrow> paths_overlap p q \<Longrightarrow> paths_overlap r q"
  unfolding paths_overlap_def by (meson prefix_order.trans prefix_same_cases prefix_order.refl)

lemma component_covers:
  assumes "component_ok actions c" "a \<in> set (pc_actions c)" "p \<in> set (projection_action_namespace_roots a)" "paths_overlap p q"
  shows "\<exists>r\<in>set (pc_namespace_roots c). paths_overlap r q"
  using assms paths_overlap_prefix unfolding component_ok_def by blast

end
