(* ===== verification/Store_Keys.thy ===== *)
theory Store_Keys
  imports Store_Machine
begin

text \<open>
  In every reachable store the freshness states and the remote observations are stored under their own
  keys, so that what is listed for a mount is what is found by identifier.
\<close>

definition records_keyed :: "state_store \<Rightarrow> bool" where
  "records_keyed s \<longleftrightarrow>
     keyed freshness_state_key (st_freshness_states s) \<and> keyed remote_observation_key (st_remote_observations s)"

lemma records_keyed_new: "records_keyed state_store_new"
  by (simp add: records_keyed_def state_store_new_def)

lemma records_unrelated:
  "st_remote_observations s' = st_remote_observations s \<Longrightarrow> st_freshness_states s' = st_freshness_states s \<Longrightarrow>
   records_keyed s' = records_keyed s"
  by (simp add: records_keyed_def)

lemma records_clear: "records_keyed s \<Longrightarrow> records_keyed (clear_mount_source_state mount s)"
  by (simp add: records_keyed_def clear_mount_source_state_def keyed_retain)

lemma records_save_mount: "records_keyed s \<Longrightarrow> records_keyed (save_mount m s)"
  using records_clear[of s "mc_mount_id m"]
  by (simp add: save_mount_def Let_def records_keyed_def split: option.split)

lemma records_save_entity: "records_keyed (snd (save_entity e s)) = records_keyed s"
  by (rule records_unrelated) (simp_all add: save_entity_def index_entity_def Let_def split: option.split)

lemma records_delete_entity: "records_keyed (delete_entity mount i s) = records_keyed s"
  by (rule records_unrelated) (simp_all add: delete_entity_def split: option.split)

lemma records_delete_mutations: "records_keyed (fold (delete_virtual_mutation mount) locals s) = records_keyed s"
  by (rule records_unrelated) (simp_all add: fold_delete_mutations)

lemma records_save_freshness: "records_keyed s \<Longrightarrow> records_keyed (save_freshness_state f s)"
  by (simp add: records_keyed_def save_freshness_state_def keyed_insert)

lemma records_save_mutation: "records_keyed (save_virtual_mutation m s) = records_keyed s"
  by (rule records_unrelated) (simp_all add: save_virtual_mutation_def)

lemma save_entity_records: "save_entity e s = (r, s') \<Longrightarrow> records_keyed s' = records_keyed s"
  using records_save_entity[of e s] by simp

lemma records_begin_move: "records_keyed s \<Longrightarrow> records_keyed (snd (begin_virtual_move t s))"
  by (auto simp: begin_virtual_move_def Let_def records_save_mutation records_save_freshness
      records_delete_mutations split: sum.split option.split prod.split dest: save_entity_records)

lemma plain_step_records: "plain_step s s' \<Longrightarrow> records_keyed s \<Longrightarrow> records_keyed s'"
  by (induction rule: plain_step.induct)
    (simp_all add: records_save_mount records_save_entity records_delete_entity records_begin_move,
     (simp add: store_op_defs records_keyed_def keyed_insert keyed_remove Let_def
       split: option.split prod.split)+)

lemma keyed_without_deleted: "keyed key m \<Longrightarrow> keyed key (without_deleted c m)"
  unfolding without_deleted_def by (rule fold_invariant[where Q = "\<lambda>_. True"]) (auto intro: keyed_remove)

lemma applied_records:
  assumes ok: "store_keyed s" and app: "apply_discovery parse_json c s = Inr s'" and k: "records_keyed s"
  shows "records_keyed s'"
proof -
  obtain d E where s': "s' = installed c d E s" by (rule applied_facts[OF ok app]) (rule that)
  show ?thesis
    using k unfolding s' records_keyed_def installed_def Let_def insert_by_def
    by (simp add: keyed_extend keyed_without_deleted)
qed

lemma advances_records: "advances s s' \<Longrightarrow> records_keyed s \<Longrightarrow> records_keyed s'"
  unfolding advances_def by (elim disjE exE conjE) (simp_all add: records_keyed_def)

lemma transaction_step_records:
  assumes "transaction_step parse_json s s'" "store_keyed s" "records_keyed s"
  shows "records_keyed s'"
  using assms(1)
proof (cases rule: transaction_step.cases)
  case (reserve p)
  obtain res where "reserve_discovery_transaction parse_json p s = (res, s')"
    using reserve by (cases "reserve_discovery_transaction parse_json p s") simp
  from reserve_cases[OF this] assms(3) show ?thesis by (auto simp: records_keyed_def)
next
  case (commit i at)
  obtain res where res: "commit_discovery_transaction parse_json i at s = (res, s')"
    using commit by (cases "commit_discovery_transaction parse_json i at s") simp
  show ?thesis
  proof (cases res)
    case (Inl e)
    with res commit_Inl[of parse_json i at s e s'] assms(3) show ?thesis by simp
  next
    case (Inr q)
    with res have "commit_discovery_transaction parse_json i at s = (Inr q, s')" by simp
    then obtain r s1 where ready: "commit_ready parse_json i r s s1"
      and s': "s' = s1\<lparr>st_discovery_transactions :=
        bm_insert i (committed_record r at) (st_discovery_transactions s1)\<rparr>"
      unfolding commit_Inr_iff by (elim exE conjE)
    have "apply_discovery parse_json (tc_commit (tr_commit r)) s = Inr s1" using ready by (simp only: commit_ready_def)
    from applied_records[OF assms(2) this assms(3)] show ?thesis by (simp add: s' records_keyed_def)
  qed
qed (simp_all only: transaction_step_advances(1-6)[THEN advances_records[OF _ assms(3)]])

lemma reachable_records: "reachable_store parse_json s \<Longrightarrow> records_keyed s"
proof -
  assume "reachable_store parse_json s"
  then have "store_inv parse_json s \<and> records_keyed s"
    unfolding reachable_store_def
  proof (induction rule: rtranclp_induct)
    case base
    show ?case using reachable_inv[of parse_json state_store_new] by (simp add: reachable_store_def records_keyed_new)
  next
    case (step s s')
    have "reachable_store parse_json s'"
      using step.hyps unfolding reachable_store_def by (rule rtranclp.rtrancl_into_rtrancl)
    then have "store_inv parse_json s'" by (rule reachable_inv)
    moreover have "store_keyed s" using step.IH by (simp add: store_inv_def)
    ultimately show ?case
      using step.hyps(2) step.IH plain_step_records transaction_step_records unfolding store_step_def by metis
  qed
  then show ?thesis by simp
qed

end
