(* ===== verification/Discovery_Plan_Safety.thy ===== *)
theory Discovery_Plan_Safety
  imports Discovery_Plan_Facts Store_Keys
begin

text \<open>
  A discovery plan and the store it was made from: what the planner reads is what the store finds, and
  no action of the plan reaches an entity with local work.
\<close>

section \<open>What the planner reads\<close>

lemma keyed_collect: "keyed key (bm_collect (map (\<lambda>e. (key e, e)) es))"
  by (rule keyed_extend) simp

lemma get_collect_keyed:
  assumes "inj_on key (set es)"
  shows "bm_get (bm_collect (map (\<lambda>e. (key e, e)) es)) k = Some e \<longleftrightarrow> e \<in> set es \<and> key e = k"
proof -
  have "bm_get (bm_collect (map (\<lambda>e. (key e, e)) es)) k = Some e \<longleftrightarrow> (k, e) \<in> set (map (\<lambda>e. (key e, e)) es)"
    by (rule get_collect_functional) (use assms in \<open>auto dest: inj_onD\<close>)
  then show ?thesis by auto
qed

text \<open>Records of a mount, stored by mount and identifier, are found by identifier once they are listed.\<close>

lemma get_listed:
  assumes k: "keyed (\<lambda>v. (mnt v, key v)) m" and es: "set es = {v \<in> set (bm_values m). mnt v = mount}"
  shows "bm_get (bm_collect (map (\<lambda>e. (key e, e)) es)) i = bm_get m (mount, i)"
proof -
  have vals: "v \<in> set (bm_values m) \<longleftrightarrow> bm_get m (mnt v, key v) = Some v" for v by (rule keyed_values[OF k])
  have "inj_on key (set es)"
  proof (rule inj_onI)
    fix v w
    assume "v \<in> set es" "w \<in> set es" "key v = key w"
    then have "bm_get m (mount, key v) = Some v" "bm_get m (mount, key v) = Some w"
      unfolding es mem_Collect_eq vals by auto
    then show "v = w" by simp
  qed
  note get = get_collect_keyed[OF this]
  show ?thesis
  proof (rule option_eqI)
    fix e
    have "bm_get m (mount, i) = Some e \<longleftrightarrow> bm_get m (mnt e, key e) = Some e \<and> mnt e = mount \<and> key e = i"
      using keyed_get[OF k, of "(mount, i)" e] by auto
    then show "bm_get (bm_collect (map (\<lambda>e. (key e, e)) es)) i = Some e \<longleftrightarrow> bm_get m (mount, i) = Some e"
      unfolding get es mem_Collect_eq vals by auto
  qed
qed

lemma reachable_keyed:
  assumes "reachable_store parse_json s"
  shows "keyed (\<lambda>e. (er_mount_id e, er_remote_id e)) (st_entities s)"
    "keyed (\<lambda>f. (fs_mount_id f, fs_remote_id f)) (st_freshness_states s)"
    "keyed (\<lambda>r. (rr_mount_id r, rr_remote_id r)) (st_remote_observations s)"
    "keyed (\<lambda>e. (as_mount_id e, as_path e)) (st_auto_save_enrollments s)"
proof -
  note inv = reachable_inv[OF assms, unfolded store_inv_def store_keyed_def index_ok_def mirrors_def]
    and rec = reachable_records[OF assms, unfolded records_keyed_def]
  show "keyed (\<lambda>e. (er_mount_id e, er_remote_id e)) (st_entities s)"
    using inv unfolding entity_key_def[abs_def] by blast
  show "keyed (\<lambda>f. (fs_mount_id f, fs_remote_id f)) (st_freshness_states s)"
    using rec unfolding freshness_state_key_def[abs_def] by blast
  show "keyed (\<lambda>r. (rr_mount_id r, rr_remote_id r)) (st_remote_observations s)"
    using rec unfolding remote_observation_key_def[abs_def] by blast
  show "keyed (\<lambda>e. (as_mount_id e, as_path e)) (st_auto_save_enrollments s)"
    using inv unfolding auto_save_key_def[abs_def] by blast
qed

lemma set_list_entities:
  assumes "reachable_store parse_json s"
  shows "set (list_entities mount s) = {e \<in> set (bm_values (st_entities s)). er_mount_id e = mount}"
proof -
  have "fst k = er_mount_id e" if "(k, e) \<in> set (st_entities s)" for k e
    using reachable_keyed(1)[OF assms] that unfolding keyed_def by fastforce
  then show ?thesis
    by (fastforce simp: list_entities_def bm_retain_def)
qed

lemma read_inputs_get:
  assumes "reachable_store parse_json s"
  shows "bm_get (in_existing (read_inputs s mount at now assessments safety)) i = get_entity (mc_mount_id mount) i s"
    "bm_get (in_freshness (read_inputs s mount at now assessments safety)) i =
       get_freshness_state (mc_mount_id mount) i s"
    "bm_get (read_observations s mount) i = get_remote_observation (mc_mount_id mount) i s"
proof -
  note k = reachable_keyed[OF assms]
  show "bm_get (in_existing (read_inputs s mount at now assessments safety)) i = get_entity (mc_mount_id mount) i s"
    using get_listed[OF k(1) set_list_entities[OF assms]] by (simp add: read_inputs_def Let_def get_entity_def)
  show "bm_get (in_freshness (read_inputs s mount at now assessments safety)) i =
       get_freshness_state (mc_mount_id mount) i s"
    using get_listed[OF k(2), of "list_freshness_states (mc_mount_id mount) s" "mc_mount_id mount" i]
    by (simp add: read_inputs_def Let_def get_freshness_state_def list_freshness_states_def)
  show "bm_get (read_observations s mount) i = get_remote_observation (mc_mount_id mount) i s"
    using get_listed[OF k(3), of "list_remote_observations (mc_mount_id mount) s" "mc_mount_id mount" i]
    by (simp add: read_observations_def get_remote_observation_def list_remote_observations_def)
qed

lemma read_inputs_ok:
  assumes "reachable_store parse_json s"
  shows "inputs_ok (read_inputs s mount at now assessments safety)"
proof -
  let ?I = "read_inputs s mount at now assessments safety"
  note k = reachable_keyed[OF assms]
  have "in_mount ?I = mount" by (simp add: read_inputs_def Let_def)
  moreover have "keyed er_remote_id (in_existing ?I)" "keyed fs_remote_id (in_freshness ?I)"
    by (simp_all add: read_inputs_def Let_def keyed_collect)
  moreover have "\<forall>i e. bm_get (in_existing ?I) i = Some e \<longrightarrow> er_mount_id e = mc_mount_id mount"
    using keyed_get[OF k(1)] unfolding read_inputs_get[OF assms] get_entity_def by fastforce
  moreover have "\<forall>i f. bm_get (in_freshness ?I) i = Some f \<longrightarrow> fs_mount_id f = mc_mount_id mount"
    using keyed_get[OF k(2)] unfolding read_inputs_get[OF assms] get_freshness_state_def by fastforce
  ultimately show ?thesis unfolding inputs_ok_def by simp
qed

section \<open>Which intents are planned\<close>

definition intent_ok :: "mount_id \<Rightarrow> remote_id \<times> discovery_intent \<Rightarrow> bool" where
  "intent_ok m x =
     (case x of (i, UpsertIntent entry) \<Rightarrow> te_remote_id entry = i \<and> te_mount_id entry = m | _ \<Rightarrow> True)"

lemma intents_ok_alt: "intents_ok m intents \<longleftrightarrow> bm_sorted intents \<and> (\<forall>x\<in>set intents. intent_ok m x)"
  by (force simp: intents_ok_def intent_ok_def split: discovery_intent.splits)

lemma intents_ok_insert: "intents_ok m intents \<Longrightarrow> intent_ok m (i, intent) \<Longrightarrow> intents_ok m (bm_insert i intent intents)"
  using set_bm_insert_subset[of i intent intents] by (auto simp: intents_ok_alt bm_sorted_insert)

lemma validated_entries:
  "validate_changes mount changes ids paths = Inr u \<Longrightarrow> ObservedUpsert entry \<in> set changes \<Longrightarrow>
   te_mount_id entry = mc_mount_id mount"
  by (induction mount changes ids paths rule: validate_changes.induct)
    (auto simp: rbind_Inr_iff split: if_splits)

lemma incoming_ok:
  assumes "\<forall>entry. ObservedUpsert entry \<in> set changes \<longrightarrow> te_mount_id entry = m"
  shows "intents_ok m (incoming_intents changes)"
proof -
  have extend: "intents_ok m acc \<Longrightarrow> \<forall>x\<in>set xs. intent_ok m x \<Longrightarrow> intents_ok m (bm_extend acc xs)" for acc xs
    unfolding bm_extend_def by (induction xs arbitrary: acc) (auto intro: intents_ok_insert)
  show ?thesis
    unfolding incoming_intents_def
    by (rule extend) (use assms in \<open>auto simp: intents_ok_alt intent_ok_def split: batch_observation_change.split\<close>)
qed

lemma replay_pending_ok:
  "replay_pending C mount batch observations ps intents = Inr intents' \<Longrightarrow> intents_ok (mc_mount_id mount) intents \<Longrightarrow>
   intents_ok (mc_mount_id mount) intents'"
proof (induction ps arbitrary: intents)
  case (Cons p ps)
  show ?case
  proof (cases "replay_pending C mount batch observations ps intents = Inr intents'")
    case True
    then show ?thesis using Cons by blast
  next
    case False
    then obtain change intent where "replayed_intent mount (fst p) change = Inr intent"
      "replay_pending C mount batch observations ps (bm_insert (fst p) intent intents) = Inr intents'"
      using Cons.prems(1) by (auto simp: rbind_Inr_iff split: option.splits if_splits)
    moreover from this(1) have "intent_ok (mc_mount_id mount) (fst p, intent)"
      by (auto simp: replayed_intent_def validate_replayed_entry_def intent_ok_def rbind_Inr_iff
          split: replay_change.splits if_splits)
    ultimately show ?thesis using Cons.IH intents_ok_insert Cons.prems(2) by blast
  qed
qed simp

lemma omitted_ok: "intents_ok m intents \<Longrightarrow> intents_ok m (omitted_intents batch ids pending intents)"
proof -
  have ins: "intents_ok m acc \<Longrightarrow> intents_ok m (bm_insert i TombstoneIntent acc)" for acc i
    by (rule intents_ok_insert) (simp_all add: intent_ok_def)
  have "intents_ok m acc \<Longrightarrow> intents_ok m (fold (\<lambda>i m. if i \<in> incoming_ids (br_changes batch) then m
      else bm_insert i TombstoneIntent m) is acc)" for acc "is"
    by (induction "is" arbitrary: acc) (auto simp: ins)
  then show "intents_ok m intents \<Longrightarrow> intents_ok m (omitted_intents batch ids pending intents)"
    by (simp add: omitted_intents_def)
qed

lemma plan_prelude_Inr:
  assumes "plan_prelude C s mount batch at job assessments safety = Inr (I, intents)"
  obtains now where "parse_freshness_timestamp at = Some now" "I = read_inputs s mount at now assessments safety"
    "merged_intents C I (read_observations s mount) batch = Inr intents"
    "validate_batch C mount batch = Inr ()" "intents_ok (mc_mount_id mount) intents"
proof -
  obtain now where now: "parse_freshness_timestamp at = Some now" "I = read_inputs s mount at now assessments safety"
    "merged_intents C I (read_observations s mount) batch = Inr intents" "validate_batch C mount batch = Inr ()"
    using assms by (auto simp: plan_prelude_def rbind_Inr_iff Let_def ok_or_def split: if_splits option.splits)
  have mount: "in_mount I = mount" using now(2) by (simp add: read_inputs_def Let_def)
  obtain replayed where r: "replay_pending C mount batch (read_observations s mount) (in_freshness I)
      (incoming_intents (br_changes batch)) = Inr replayed"
    "intents = omitted_intents batch (bm_keys (in_existing I))
       (recognized_pending_ids C (read_observations s mount) (in_freshness I)) replayed"
    using now(3) by (auto simp: merged_intents_def rbind_Inr_iff Let_def mount)
  have "validate_changes mount (br_changes batch) {} {} = Inr ()"
    using now(4) by (auto simp: validate_batch_def Let_def split: if_splits sum.splits)
  then have "intents_ok (mc_mount_id mount) intents"
    unfolding r(2) using validated_entries
    by (intro omitted_ok replay_pending_ok[OF r(1)] incoming_ok) blast
  with now show thesis by (intro that)
qed

lemma built_actions:
  assumes "build_discovery_projection_components actions = Some comps"
  shows "set (concat (map pc_actions comps)) \<subseteq> set actions"
proof -
  obtain cs where cs: "group_discovery_projection_actions actions = Some cs"
    "mset (concat (map pc_actions cs)) = mset actions" by (rule groups_exact)
  have "set (concat (map pc_actions comps)) \<subseteq> set (concat (map pc_actions cs))"
    using assms by (fastforce simp: build_discovery_projection_components_def cs(1))
  then show ?thesis using mset_eq_setD[OF cs(2)] by simp
qed

text \<open>A plan with all it comes from.\<close>

definition planned ::
    "replay_codec \<Rightarrow> state_store \<Rightarrow> mount_config \<Rightarrow> batch_observe_result \<Rightarrow> string option \<Rightarrow> discovery_inputs
      \<Rightarrow> intents \<Rightarrow> (remote_id, discovery_hold_reason) btree_map \<Rightarrow> discovery_lists \<Rightarrow> discovery_plan \<Rightarrow> bool" where
  "planned C s mount batch job I intents holds out p \<longleftrightarrow>
     in_mount I = mount \<and> inputs_ok I \<and> intents_ok (mc_mount_id mount) intents
   \<and> merged_intents C I (read_observations s mount) batch = Inr intents
   \<and> projection_component_holds I intents (prospective_projection_actions intents (in_existing I)) = Some holds
   \<and> plan_intents C I holds (recognized_pending_ids C (read_observations s mount) (in_freshness I)) intents
       discovery_lists_empty = Inr out
   \<and> explained I holds intents out
   \<and> set (dp_projection_actions p) \<subseteq> set (dl_projection_actions out)
   \<and> dp_commit p = commit_of_lists mount job
       (discovery_checkpoint mount (br_next_checkpoint batch) (in_observed_at I)) out
   \<and> preflight (rc_parse C) (dp_commit p) (mc_connector mount) (bm_values (in_existing I)) (in_enrollments I)
       (in_mutations I) = Inr ()
   \<and> dp_held p = dl_held out"

lemma plan_facts:
  assumes reach: "reachable_store parse_json s"
    and plan: "plan_batch_discovery C s mount batch at job assessments safety = Some (Inr p)"
  obtains now intents holds out where "parse_freshness_timestamp at = Some now"
    "planned C s mount batch job (read_inputs s mount at now assessments safety) intents holds out p"
proof -
  obtain I intents holds out comps where 1: "plan_prelude C s mount batch at job assessments safety = Inr (I, intents)"
    "projection_component_holds I intents (prospective_projection_actions intents (in_existing I)) = Some holds"
    "plan_intents C I holds (recognized_pending_ids C (read_observations s mount) (in_freshness I)) intents
       discovery_lists_empty = Inr out"
    "build_discovery_projection_components (dl_projection_actions out) = Some comps"
    "finish_plan C I (br_next_checkpoint batch) job out comps = Inr p"
    by (rule plan_Inr[OF plan])
  obtain now where 2: "parse_freshness_timestamp at = Some now" "I = read_inputs s mount at now assessments safety"
    "merged_intents C I (read_observations s mount) batch = Inr intents" "intents_ok (mc_mount_id mount) intents"
    by (rule plan_prelude_Inr[OF 1(1)])
  have I: "in_mount I = mount" "inputs_ok I"
    using read_inputs_ok[OF reach] by (simp_all add: 2(2)) (simp add: read_inputs_def Let_def)
  have "explained I holds intents out"
    by (rule plan_intents_explained[OF I(2) _ 1(3)]) (use 2(4) I(1) explained_empty in simp_all)
  moreover have "set (dp_projection_actions p) \<subseteq> set (dl_projection_actions out)"
    "dp_commit p = commit_of_lists mount job (discovery_checkpoint mount (br_next_checkpoint batch) (in_observed_at I)) out"
    "preflight (rc_parse C) (dp_commit p) (mc_connector mount) (bm_values (in_existing I)) (in_enrollments I)
       (in_mutations I) = Inr ()" "dp_held p = dl_held out"
    using 1(5) built_actions[OF 1(4)] I(1)
    by (auto simp: finish_plan_def Let_def rbind_Inr_iff split: if_splits)
  ultimately have "planned C s mount batch job I intents holds out p"
    using I 1(2,3) 2(3,4) unfolding planned_def by (intro conjI)
  with 2(1,2) show thesis by (intro that) simp_all
qed

section \<open>Local work\<close>

text \<open>An entity with local work: changed or in conflict, touched by an unsettled push, edited a moment ago,
  or the target or the parent of a pending virtual mutation.\<close>

definition local_work :: "state_store \<Rightarrow> mount_id \<Rightarrow> u64 \<Rightarrow> remote_id \<Rightarrow> bool" where
  "local_work s m now i \<longleftrightarrow>
     option_holds (\<lambda>e. er_hydration e = Dirty \<or> er_hydration e = Conflicted) (get_entity m i s)
   \<or> list_ex (\<lambda>j. je_mount_id j = m \<and> is_unsettled (je_status j) \<and> touches_any_entity j [i])
       (list_journal (st_journals s))
   \<or> option_holds (\<lambda>t. local_edit_is_recent_or_uncertain t now)
       (Option.bind (get_freshness_state m i s) fs_last_local_change_at)
   \<or> list_ex (\<lambda>v. vm_target_remote_id v = Some i \<or> vm_parent_remote_id v = Some i) (list_virtual_mutations m s)"

lemma operation_touches_more:
  "operation_touches_any_entity op [i] \<Longrightarrow> i \<in> set ids \<Longrightarrow> operation_touches_any_entity op ids"
  by (cases op) (auto simp: operation_touches_any_entity_def)

lemma effect_touches_more: "effect_touches_any_entity x [i] \<Longrightarrow> i \<in> set ids \<Longrightarrow> effect_touches_any_entity x ids"
  by (cases x) (auto simp: effect_touches_any_entity_def)

lemma touches_more: "touches_any_entity j [i] \<Longrightarrow> i \<in> set ids \<Longrightarrow> touches_any_entity j ids"
  unfolding touches_any_entity_def list_ex_iff list.set
  using operation_touches_more effect_touches_more by blast

text \<open>The entities that an action reaches: its own, and those below or above one of its places.\<close>

definition reaches :: "discovery_projection_action \<Rightarrow> entity_record \<Rightarrow> bool" where
  "reaches a e \<longleftrightarrow>
     projection_action_remote_id a = er_remote_id e
   \<or> list_ex (\<lambda>p. paths_overlap p (projection_namespace_root (er_kind e) (er_path e)))
       (projection_action_namespace_roots a)"

lemma reached_expanded:
  assumes "component_ok actions c" "a \<in> set (pc_actions c)" "reaches a e" "e \<in> set (bm_values (in_existing I))"
  shows "er_remote_id e \<in> component_expanded_ids I c"
proof (cases "projection_action_remote_id a = er_remote_id e")
  case True
  then show ?thesis using assms(2) by (force simp: component_expanded_ids_def component_action_ids_def)
next
  case False
  then obtain p where "p \<in> set (projection_action_namespace_roots a)"
    "paths_overlap p (projection_namespace_root (er_kind e) (er_path e))"
    using assms(3) by (auto simp: reaches_def list_ex_iff)
  from component_covers[OF assms(1,2) this] assms(4) show ?thesis
    by (auto simp: component_expanded_ids_def list_ex_iff)
qed

lemma free_of_local_work:
  assumes reach: "reachable_store parse_json s" and I: "I = read_inputs s mount at now assessments safety"
    and none: "component_hold I intents c = None" and i: "i \<in> component_expanded_ids I c"
  shows "\<not> local_work s (mc_mount_id mount) now i"
proof -
  note free = component_hold_None[OF none] and get = read_inputs_get(1,2)[OF reach, of mount at now assessments safety, folded I]
  have set_ids: "i \<in> set (sorted_list_of_set (component_expanded_ids I c))" using i by simp
  have "\<not> option_holds (\<lambda>e. er_hydration e = Dirty \<or> er_hydration e = Conflicted) (get_entity (mc_mount_id mount) i s)"
    using bspec[OF free(4) i] by (auto simp: hydrated_as_def get option_holds_def split: option.splits)
  moreover have "\<not> (je_mount_id j = mc_mount_id mount \<and> is_unsettled (je_status j) \<and> touches_any_entity j [i])"
    if "j \<in> set (list_journal (st_journals s))" for j
    using bspec[OF free(2), of j] that touches_more[OF _ set_ids, of j] by (auto simp: I read_inputs_def Let_def)
  moreover have "\<not> option_holds (\<lambda>t. local_edit_is_recent_or_uncertain t now)
      (Option.bind (get_freshness_state (mc_mount_id mount) i s) fs_last_local_change_at)"
    using bspec[OF free(3) i] by (simp add: get) (simp add: I read_inputs_def Let_def)
  moreover have "\<not> (vm_target_remote_id v = Some i \<or> vm_parent_remote_id v = Some i)"
    if "v \<in> set (list_virtual_mutations (mc_mount_id mount) s)" for v
    using bspec[OF free(1), of v] that set_ids
    by (auto simp: I read_inputs_def Let_def mutation_intersects_projection_component_def option_holds_def)
  ultimately show ?thesis unfolding local_work_def list_ex_iff by blast
qed

lemma action_not_held:
  assumes "explained I holds intents out" "a \<in> set (dl_projection_actions out)"
    and "projection_component_holds I intents (prospective_projection_actions intents (in_existing I)) = Some holds"
  obtains c where "a \<in> set (pc_actions c)" "component_hold I intents c = None"
    "component_ok (prospective_projection_actions intents (in_existing I)) c"
proof -
  have "a \<in> set (prospective_projection_actions intents (in_existing I))"
    "bm_get holds (projection_action_remote_id a) = None"
    using assms(1,2) unfolding explained_def by blast+
  with holds_None[OF assms(3)] that show thesis by blast
qed

end
