(* ===== verification/Store_Theorems.thy ===== *)
theory Store_Theorems
  imports Store_Machine
begin

text \<open>
  What the in-memory store promises its clients, over all reachable stores, with a concrete run as the
  witness.
\<close>

section \<open>A run\<close>

definition sample_json :: "string \<Rightarrow> string + json" where
  "sample_json s = (if s = ''{}'' then Inr (JObject []) else Inl ''expected value'')"

definition sample_mount :: mount_config where
  "sample_mount = mount_config_new (MountId ''m'') ''notion'' [RootDir, Normal ''w'']"

definition sample_entity :: "string \<Rightarrow> string \<Rightarrow> entity_record" where
  "sample_entity i p = entity_record_new (MountId ''m'') (RemoteId i) Page i [Normal p]"

definition sample_enrollment :: auto_save_enrollment_record where
  "sample_enrollment =
     (enrollment_new (MountId ''m'') [Normal ''a.md''] UserEnabled ''t0'')\<lparr>as_remote_id := Some (RemoteId ''a'')\<rparr>"

definition sample_store :: state_store where
  "sample_store =
     save_auto_save_enrollment sample_enrollment
       (snd (save_entity (sample_entity ''b'' ''b.md'')
         (snd (save_entity (sample_entity ''a'' ''a.md'') (save_mount sample_mount state_store_new)))))"

text \<open>Page \<open>a\<close> moves to \<open>c.md\<close>, page \<open>b\<close> is deleted, a page \<open>d\<close> takes the old path of \<open>a\<close>.\<close>

definition sample_commit :: discovery_commit where
  "sample_commit =
     \<lparr>dc_mount_id = MountId ''m'', dc_entity_upserts = [sample_entity ''a'' ''c.md'', sample_entity ''d'' ''a.md''],
      dc_entity_deletes = [RemoteId ''b''], dc_observation_upserts = [], dc_freshness_upserts = [],
      dc_auto_save_upserts = [], dc_metadata_discovery_deletes = [], dc_virtual_mutation_deletes = [],
      dc_checkpoint = \<lparr>cs_connector = ''notion'', cs_scope_kind = ''mount'', cs_scope_id = ''m'',
        cs_state_version = 1, cs_min_reader_version = 1, cs_state_json = ''{}'', cs_updated_at = ''t1''\<rparr>\<rparr>"

definition sample_prepared :: prepared_discovery_transaction where
  "sample_prepared =
     prepared_new \<lparr>tc_transaction_id = DiscoveryTransactionId ''tx'', tc_commit = sample_commit\<rparr> PlainFiles JNull
       (case capture_discovery_reservation (MountId ''m'') sample_store of Inr r \<Rightarrow> r) ''t1''"

definition sample_reserved :: state_store where
  "sample_reserved = snd (reserve_discovery_transaction sample_json sample_prepared sample_store)"

definition sample_projected :: state_store where
  "sample_projected =
     snd (mark_discovery_transaction_projected (DiscoveryTransactionId ''tx'') TxApplying ''t3''
       (snd (mark_discovery_transaction_applying (DiscoveryTransactionId ''tx'') ''t2'' sample_reserved)))"

abbreviation sample_tx :: discovery_transaction_id where
  "sample_tx \<equiv> DiscoveryTransactionId ''tx''"

lemma sample_run:
  "(case bm_get (st_discovery_transactions sample_projected) sample_tx of
      None \<Rightarrow> False
    | Some r \<Rightarrow> tr_status r = TxProjected \<and> tr_commit r = pd_commit sample_prepared
        \<and> capture_discovery_reservation (tr_mount_id r) sample_projected = Inr (tr_reservation r))
   \<and> st_auto_save_enrollments sample_projected = [(auto_save_key sample_enrollment, sample_enrollment)]
   \<and> \<not> isl (fst (reserve_discovery_transaction sample_json sample_prepared sample_store))"
  by code_simp

lemma sample_ready:
  "(case bm_get (st_discovery_transactions sample_projected) sample_tx of
      None \<Rightarrow> False
    | Some r \<Rightarrow> tr_status r = TxProjected \<and> tr_commit r = pd_commit sample_prepared
        \<and> capture_discovery_reservation (tr_mount_id r) sample_projected = Inr (tr_reservation r))"
  using sample_run by blast

lemma reachable_new: "reachable_store parse_json state_store_new"
  by (simp add: reachable_store_def)

lemma reachable_plain: "plain_step s s' \<Longrightarrow> reachable_store parse_json s \<Longrightarrow> reachable_store parse_json s'"
  unfolding reachable_store_def store_step_def by (rule rtranclp.rtrancl_into_rtrancl) blast+

lemma reachable_transaction:
  "transaction_step parse_json s s' \<Longrightarrow> reachable_store parse_json s \<Longrightarrow> reachable_store parse_json s'"
  unfolding reachable_store_def store_step_def by (rule rtranclp.rtrancl_into_rtrancl) blast+

lemma sample_store_reachable: "reachable_store parse_json sample_store"
  unfolding sample_store_def
  by ((rule reachable_plain, rule plain_step.intros)+, rule reachable_new)

lemma sample_projected_reachable: "reachable_store sample_json sample_projected"
  unfolding sample_projected_def sample_reserved_def
  by ((rule reachable_transaction, rule transaction_step.intros)+, rule sample_store_reachable)

lemma not_isl_fst: "\<not> isl (fst x) \<longleftrightarrow> (\<exists>q s'. x = (Inr q, s'))"
  by (cases x; cases "fst x") auto

section \<open>Lookups by path\<close>

text \<open>C29: in every reachable store a lookup by path finds exactly the entity of the mount that is
  stored at the path: the index by path and the entities never disagree.\<close>

theorem path_lookup_exact:
  assumes "reachable_store parse_json s"
  shows "find_entity_by_path mount p s = Some e \<longleftrightarrow>
    get_entity mount (er_remote_id e) s = Some e \<and> er_path e = p \<and> er_mount_id e = mount"
proof -
  have ok: "index_ok s" and k: "keyed entity_key (st_entities s)"
    using reachable_inv[OF assms] by (simp_all add: store_inv_def store_keyed_def index_ok_def mirrors_def)
  show ?thesis
    unfolding find_entity_by_path_iff[OF ok] keyed_values[OF k]
    by (auto simp: get_entity_def entity_key_def)
qed

theorem path_lookup_exact_witness:
  "find_entity_by_path (MountId ''m'') [Normal ''a.md''] sample_store = Some (sample_entity ''a'' ''a.md'')"
  unfolding path_lookup_exact[OF sample_store_reachable[of sample_json]]
  by code_simp

section \<open>Discovery transactions\<close>

text \<open>C17: the transactions of every reachable store are in order: a mount has at most one active
  transaction, a transaction is active exactly until it is aborted or finalized, it carries a commit time
  exactly when it is committed or finalized and a final time exactly when it is finalized.\<close>

theorem transactions_in_order:
  assumes "reachable_store parse_json s"
    and "get_discovery_transaction i s = Some r" "get_discovery_transaction j s = Some q"
  shows "(tr_active r \<longleftrightarrow> tr_status r \<noteq> TxAborted \<and> tr_status r \<noteq> TxFinalized)
    \<and> (tr_committed_at r \<noteq> None \<longleftrightarrow> tr_status r = TxCommitted \<or> tr_status r = TxFinalized)
    \<and> (tr_finalized_at r \<noteq> None \<longleftrightarrow> tr_status r = TxFinalized)
    \<and> tr_transaction_id r = i
    \<and> (tr_active r \<and> tr_active q \<and> tr_mount_id r = tr_mount_id q \<longrightarrow> i = j)"
proof -
  have ok: "transactions_ok parse_json (st_discovery_transactions s)"
    using reachable_inv[OF assms(1)] by (simp add: store_inv_def)
  have "record_ok r" "tr_transaction_id r = i"
    using ok assms(2) by (auto simp: transactions_ok_def get_discovery_transaction_def dest: keyed_get)
  moreover have "tr_active r \<and> tr_active q \<and> tr_mount_id r = tr_mount_id q \<longrightarrow> i = j"
    using ok assms(2,3) unfolding transactions_ok_def get_discovery_transaction_def by blast
  ultimately show ?thesis by (simp add: record_simps)
qed

lemma sample_found: "\<exists>r. get_discovery_transaction sample_tx sample_projected = Some r \<and> tr_status r = TxProjected"
  using sample_ready by (auto simp: get_discovery_transaction_def split: option.splits)

theorem transactions_in_order_witness:
  "\<exists>r. get_discovery_transaction sample_tx sample_projected = Some r \<and> tr_active r \<and> tr_committed_at r = None"
proof -
  obtain r where r: "get_discovery_transaction sample_tx sample_projected = Some r" "tr_status r = TxProjected"
    using sample_found by blast
  with transactions_in_order[OF sample_projected_reachable r(1) r(1)] show ?thesis by auto
qed

lemma captured_preflight:
  assumes "capture_discovery_reservation (dc_mount_id c) s = Inr res"
  shows "mount_preflight parse_json c s =
    preflight_details parse_json c (mc_connector (rv_mount res)) (rv_entities res)
      (rv_auto_save_enrollments res) (rv_virtual_mutations res)"
proof (cases "bm_get (st_mounts s) (dc_mount_id c)")
  case None
  with assms show ?thesis by (simp add: capture_discovery_reservation_def)
next
  case (Some m)
  have res: "res =
      (case capture_discovery_reservation (dc_mount_id c) s of Inr r \<Rightarrow> r)"
    by (simp only: assms sum.case)
  have "mc_connector (rv_mount res) = mc_connector m"
    "rv_entities res = filter (\<lambda>r. er_mount_id r = dc_mount_id c) (bm_values (st_entities s))"
    "rv_auto_save_enrollments res =
       filter (\<lambda>r. as_mount_id r = dc_mount_id c) (bm_values (st_auto_save_enrollments s))"
    "rv_virtual_mutations res = filter (\<lambda>r. vm_mount_id r = dc_mount_id c) (bm_values (st_virtual_mutations s))"
    unfolding res capture_discovery_reservation_def Some option.case sum.case by simp_all
  with Some show ?thesis by (simp only: mount_preflight_def option.case)
qed

lemma recorded_transaction:
  assumes "store_inv parse_json s" "get_discovery_transaction i s = Some r"
  shows "record_ok r" "preflight_passed parse_json r" "tr_transaction_id r = i"
proof -
  have ok: "transactions_ok parse_json (st_discovery_transactions s)" using assms(1) by (simp only: store_inv_def)
  have r: "bm_get (st_discovery_transactions s) i = Some r" using assms(2) by (simp only: get_discovery_transaction_def)
  show "record_ok r" "preflight_passed parse_json r" using ok r unfolding transactions_ok_def by blast+
  show "tr_transaction_id r = i" using ok r keyed_get unfolding transactions_ok_def by metis
qed

lemma ready_when_unchanged:
  assumes inv: "store_inv parse_json s" and r: "get_discovery_transaction i s = Some r" "tr_status r = TxProjected"
    and cap: "capture_discovery_reservation (tr_mount_id r) s = Inr (tr_reservation r)"
  obtains s1 where "commit_ready parse_json i r s s1"
proof -
  note rec = recorded_transaction[OF inv r(1)]
  let ?c = "tc_commit (tr_commit r)"
  have mount: "tr_mount_id r = dc_mount_id ?c" and id: "tc_transaction_id (tr_commit r) = i"
    and active: "tr_active r" using rec(1,3) r(2) by (simp_all add: record_ok_def status_is_active_def)
  have "\<not> isl (mount_preflight parse_json ?c s)"
    unfolding captured_preflight[OF cap[unfolded mount]] using rec(2) by (simp only: preflight_passed_def not_False_eq_True)
  moreover have "keyed auto_save_key (st_auto_save_enrollments s)"
    using inv by (simp only: store_inv_def store_keyed_def)
  ultimately have "apply_discovery parse_json ?c s \<noteq> Inl e" for e
    by (auto simp: apply_discovery_total)
  then obtain s1 where "apply_discovery parse_json ?c s = Inr s1"
    by (cases "apply_discovery parse_json ?c s") auto
  with r cap id active have "commit_ready parse_json i r s s1"
    unfolding commit_ready_def get_discovery_transaction_def by (intro conjI)
  then show thesis by (rule that)
qed

text \<open>C11: a transaction is committed exactly when it is projected and the mount is still what was
  reserved. In particular neither the preflight nor the placing of auto-save enrollments can fail at
  that point, in any reachable store.\<close>

theorem commit_succeeds_iff:
  assumes "reachable_store parse_json s"
  shows "\<not> isl (fst (commit_discovery_transaction parse_json i at s)) \<longleftrightarrow>
    (\<exists>r. get_discovery_transaction i s = Some r \<and> tr_status r = TxProjected
       \<and> capture_discovery_reservation (tr_mount_id r) s = Inr (tr_reservation r))"
proof -
  have inv: "store_inv parse_json s" using assms by (rule reachable_inv)
  show ?thesis
  proof
    assume "\<not> isl (fst (commit_discovery_transaction parse_json i at s))"
    then obtain q s' where "commit_discovery_transaction parse_json i at s = (Inr q, s')"
      unfolding not_isl_fst by (elim exE)
    then obtain r s1 where "commit_ready parse_json i r s s1" unfolding commit_Inr_iff by (elim exE conjE)
    then show "\<exists>r. get_discovery_transaction i s = Some r \<and> tr_status r = TxProjected
       \<and> capture_discovery_reservation (tr_mount_id r) s = Inr (tr_reservation r)"
      unfolding commit_ready_def get_discovery_transaction_def by (intro exI[of _ r]) (elim conjE, intro conjI)
  next
    assume "\<exists>r. get_discovery_transaction i s = Some r \<and> tr_status r = TxProjected
       \<and> capture_discovery_reservation (tr_mount_id r) s = Inr (tr_reservation r)"
    then obtain r where r: "get_discovery_transaction i s = Some r" "tr_status r = TxProjected"
      "capture_discovery_reservation (tr_mount_id r) s = Inr (tr_reservation r)" by (elim exE conjE)
    obtain s1 where "commit_ready parse_json i r s s1" by (rule ready_when_unchanged[OF inv r])
    then show "\<not> isl (fst (commit_discovery_transaction parse_json i at s))"
      unfolding not_isl_fst commit_Inr_iff by (intro exI conjI) (assumption, rule refl, rule refl)
  qed
qed

theorem commit_succeeds_iff_witness:
  "\<not> isl (fst (commit_discovery_transaction sample_json sample_tx ''t4'' sample_projected))"
  unfolding commit_succeeds_iff[OF sample_projected_reachable]
  using sample_ready by (auto simp: get_discovery_transaction_def split: option.splits)

lemma committed_from:
  assumes "reachable_store parse_json s" and "commit_discovery_transaction parse_json i at s = (Inr q, s')"
    and c: "c = tc_commit (tr_commit q)"
  obtains s1 where "store_keyed s" "apply_discovery parse_json c s = Inr s1"
    "s' = s1\<lparr>st_discovery_transactions := bm_insert i q (st_discovery_transactions s1)\<rparr>"
proof -
  have inv: "store_keyed s" using reachable_inv[OF assms(1)] by (simp only: store_inv_def)
  obtain r s1 where ready: "commit_ready parse_json i r s s1" and q: "q = committed_record r at"
    and s': "s' = s1\<lparr>st_discovery_transactions :=
       bm_insert i (committed_record r at) (st_discovery_transactions s1)\<rparr>"
    using assms(2) unfolding commit_Inr_iff by (elim exE conjE)
  have "c = tc_commit (tr_commit r)" by (simp add: c q committed_record_def)
  then have app: "apply_discovery parse_json c s = Inr s1"
    using ready unfolding commit_ready_def by (elim conjE) (simp only:)
  show thesis by (rule that[OF inv app]) (simp only: s' q)
qed

lemma applied_checkpoint:
  assumes "store_keyed s" "apply_discovery parse_json c s = Inr s'"
  shows "get_connector_state (cs_connector (dc_checkpoint c)) ''mount'' (mount_id_str (dc_mount_id c)) s' =
    Some (dc_checkpoint c)"
proof -
  obtain d E where s': "s' = installed c d E s" and valid: "commit_validate parse_json c = Inr ()"
    by (rule applied_facts[OF assms]) (rule that)
  note key = commit_validate_Inr(10,11)[OF valid]
  show ?thesis
    by (simp add: s' installed_def Let_def get_connector_state_def connector_state_key_def key bm_get_insert)
qed

text \<open>C12: committing a transaction makes exactly the announced changes. Afterwards an entity of the mount is
  the one the commit carries for its id, is gone when its id was deleted, and is the earlier one
  otherwise; entities of other mounts are untouched; no shadow, job, observation or freshness state of a
  deleted id is left; and the checkpoint of the commit is the one published for the mount.\<close>

theorem committed_discovery_exact:
  assumes "reachable_store parse_json s" and "commit_discovery_transaction parse_json i at s = (Inr q, s')"
    and c: "c = tc_commit (tr_commit q)"
  shows "get_entity n e s' =
      (if n \<noteq> dc_mount_id c then get_entity n e s
       else case List.find (\<lambda>x. er_remote_id x = e) (dc_entity_upserts c) of
         Some x \<Rightarrow> Some x
       | None \<Rightarrow> if e \<in> set (dc_entity_deletes c) then None else get_entity n e s)
    \<and> (\<forall>d\<in>set (dc_entity_deletes c). forgotten (dc_mount_id c) d s')
    \<and> get_connector_state (cs_connector (dc_checkpoint c)) ''mount'' (mount_id_str (dc_mount_id c)) s' =
        Some (dc_checkpoint c)"
    (is "?L = ?R \<and> ?D \<and> ?K")
proof -
  obtain s1 where inv: "store_keyed s" and app: "apply_discovery parse_json c s = Inr s1"
    and s': "s' = s1\<lparr>st_discovery_transactions := bm_insert i q (st_discovery_transactions s1)\<rparr>"
    by (rule committed_from[OF assms(1,2) c]) (rule that)
  have "?L = get_entity n e s1" by (simp add: s' get_entity_def)
  then have entities: "?L = ?R" unfolding applied_entities(2)[OF inv app] .
  have "forgotten (dc_mount_id c) d s' = forgotten (dc_mount_id c) d s1" for d
    by (simp add: s' forgotten_def get_entity_def get_shadow_record_def get_remote_observation_def
        get_freshness_state_def)
  then have deleted: ?D using applied_forgotten[OF inv app] by simp
  have ?K using applied_checkpoint[OF inv app] by (simp add: s' get_connector_state_def)
  with entities deleted show ?thesis by (intro conjI)
qed

lemma sample_commit_done:
  obtains q s' where "commit_discovery_transaction sample_json sample_tx ''t4'' sample_projected = (Inr q, s')"
    "sample_commit = tc_commit (tr_commit q)"
proof -
  obtain r where r: "get_discovery_transaction sample_tx sample_projected = Some r" "tr_status r = TxProjected"
    "tr_commit r = pd_commit sample_prepared"
    "capture_discovery_reservation (tr_mount_id r) sample_projected = Inr (tr_reservation r)"
    using sample_ready by (auto simp: get_discovery_transaction_def split: option.splits)
  obtain s1 where ready: "commit_ready sample_json sample_tx r sample_projected s1"
    by (rule ready_when_unchanged[OF reachable_inv[OF sample_projected_reachable] r(1,2,4)])
  have "commit_discovery_transaction sample_json sample_tx ''t4'' sample_projected =
      (Inr (committed_record r ''t4''),
       s1\<lparr>st_discovery_transactions :=
         bm_insert sample_tx (committed_record r ''t4'') (st_discovery_transactions s1)\<rparr>)"
    unfolding commit_Inr_iff by (intro exI conjI) (rule ready, rule refl, rule refl)
  moreover have "sample_commit = tc_commit (tr_commit (committed_record r ''t4''))"
    by (simp add: committed_record_def r(3) sample_prepared_def prepared_new_def)
  ultimately show thesis by (rule that)
qed

theorem committed_discovery_exact_witness:
  "\<exists>q s'. commit_discovery_transaction sample_json sample_tx ''t4'' sample_projected = (Inr q, s')
     \<and> get_entity (MountId ''m'') (RemoteId ''a'') s' = Some (sample_entity ''a'' ''c.md'')
     \<and> forgotten (MountId ''m'') (RemoteId ''b'') s'"
proof -
  obtain q s' where q: "commit_discovery_transaction sample_json sample_tx ''t4'' sample_projected = (Inr q, s')"
    "sample_commit = tc_commit (tr_commit q)" by (rule sample_commit_done)
  note exact = committed_discovery_exact[OF sample_projected_reachable q]
  have "get_entity (MountId ''m'') (RemoteId ''a'') s' = Some (sample_entity ''a'' ''c.md'')"
    using exact by (simp add: sample_commit_def sample_entity_def entity_record_new_def)
  moreover have "forgotten (MountId ''m'') (RemoteId ''b'') s'"
    using exact by (simp add: sample_commit_def)
  ultimately show ?thesis using q(1) by blast
qed

text \<open>A commit keeps the auto-save enrollments of its mount in order: when no two paths of the mount
  were enrolled for one entity before, none are afterwards, and no enrollment is left with a deleted
  entity, whatever rehoming and replacement the commit made.\<close>

theorem commit_keeps_ownership:
  assumes "reachable_store parse_json s" and "commit_discovery_transaction parse_json i at s = (Inr q, s')"
    and c: "c = tc_commit (tr_commit q)"
    and "one_each (\<lambda>p. bm_get (st_auto_save_enrollments s) (dc_mount_id c, p))"
  shows "one_each (\<lambda>p. bm_get (st_auto_save_enrollments s') (dc_mount_id c, p))
    \<and> none_owned (set (dc_entity_deletes c)) (\<lambda>p. bm_get (st_auto_save_enrollments s') (dc_mount_id c, p))"
proof -
  obtain s1 where inv: "store_keyed s" and app: "apply_discovery parse_json c s = Inr s1"
    and s': "s' = s1\<lparr>st_discovery_transactions := bm_insert i q (st_discovery_transactions s1)\<rparr>"
    by (rule committed_from[OF assms(1,2) c]) (rule that)
  have k: "keyed auto_save_key (st_auto_save_enrollments s)" using inv by (simp only: store_keyed_def)
  obtain d E where s1: "s1 = installed c d E s" and pre: "mount_preflight parse_json c s = Inr d"
    and E: "store_rehomes (dc_mount_id c) (pf_auto_save_rehomes d)
      (cleared_enrollments c d (st_auto_save_enrollments s)) = Inr E"
    by (rule applied_facts[OF inv app]) (rule that)
  have "st_auto_save_enrollments s' = insert_by auto_save_key (dc_auto_save_upserts c) E"
    by (simp add: s' s1 installed_def Let_def)
  then show ?thesis using applied_enrollments[OF k pre E assms(4)] by simp
qed

lemma sample_enrollments: "st_auto_save_enrollments sample_projected = [(auto_save_key sample_enrollment, sample_enrollment)]"
  using sample_run by blast

theorem commit_keeps_ownership_witness:
  "\<exists>q s'. commit_discovery_transaction sample_json sample_tx ''t4'' sample_projected = (Inr q, s')
     \<and> one_each (\<lambda>p. bm_get (st_auto_save_enrollments s') (MountId ''m'', p))
     \<and> none_owned {RemoteId ''b''} (\<lambda>p. bm_get (st_auto_save_enrollments s') (MountId ''m'', p))"
proof -
  obtain q s' where q: "commit_discovery_transaction sample_json sample_tx ''t4'' sample_projected = (Inr q, s')"
    "sample_commit = tc_commit (tr_commit q)" by (rule sample_commit_done)
  have "one_each (\<lambda>p. bm_get (st_auto_save_enrollments sample_projected) (dc_mount_id sample_commit, p))"
    unfolding sample_enrollments one_each_def by (auto simp: auto_save_key_def split: if_splits)
  from commit_keeps_ownership[OF sample_projected_reachable q this] q(1) show ?thesis
    by (auto simp: sample_commit_def)
qed

section \<open>Retried reservations\<close>

lemma advances_stays:
  assumes "advances s s'" "bm_get (st_discovery_transactions s) i = Some r"
  shows "\<exists>q. bm_get (st_discovery_transactions s') i = Some q \<and> same_transaction r q"
  using assms(1) unfolding advances_def
proof (elim disjE exE conjE)
  fix j p q
  assume "bm_get (st_discovery_transactions s) j = Some p" "same_transaction p q"
    "s' = s\<lparr>st_discovery_transactions := bm_insert j q (st_discovery_transactions s)\<rparr>"
  with assms(2) show ?thesis by (cases "i = j") (simp_all add: bm_get_insert)
qed (use assms(2) in simp)

lemma commit_stays:
  assumes "commit_discovery_transaction parse_json j at s = (Inr p, s')" "bm_get (st_discovery_transactions s) i = Some r"
  shows "\<exists>q. bm_get (st_discovery_transactions s') i = Some q \<and> same_transaction r q"
proof -
  obtain t s1 where ready: "commit_ready parse_json j t s s1"
    and s': "s' = s1\<lparr>st_discovery_transactions :=
       bm_insert j (committed_record t at) (st_discovery_transactions s1)\<rparr>"
    using assms(1) unfolding commit_Inr_iff by (elim exE conjE)
  have t: "bm_get (st_discovery_transactions s) j = Some t"
    and app: "apply_discovery parse_json (tc_commit (tr_commit t)) s = Inr s1"
    using ready by (simp_all only: commit_ready_def)
  have same: "same_transaction t (committed_record t at)" by (simp add: committed_record_def same_transaction_def)
  have "st_discovery_transactions s' = bm_insert j (committed_record t at) (st_discovery_transactions s)"
    by (simp add: s' applied_transactions[OF app])
  with t same assms(2) show ?thesis by (cases "i = j") (simp_all add: bm_get_insert)
qed

lemma transactions_stay:
  assumes "store_step parse_json s s'" "bm_get (st_discovery_transactions s) i = Some r"
  shows "\<exists>q. bm_get (st_discovery_transactions s') i = Some q \<and> same_transaction r q"
  using assms(1) unfolding store_step_def
proof
  assume "plain_step s s'"
  with assms(2) show ?thesis by (simp add: plain_step_transactions)
next
  assume "transaction_step parse_json s s'"
  then show ?thesis
  proof (cases rule: transaction_step.cases)
    case (reserve p)
    obtain res where "reserve_discovery_transaction parse_json p s = (res, s')"
      using reserve by (cases "reserve_discovery_transaction parse_json p s") simp
    from reserve_cases[OF this] assms(2) show ?thesis by (auto simp: bm_get_insert)
  next
    case (commit j at)
    obtain res where res: "commit_discovery_transaction parse_json j at s = (res, s')"
      using commit by (cases "commit_discovery_transaction parse_json j at s") simp
    show ?thesis
    proof (cases res)
      case (Inl e)
      with res commit_Inl[of parse_json j at s e s'] assms(2) show ?thesis by simp
    next
      case (Inr q)
      with res show ?thesis using commit_stays assms(2) by blast
    qed
  qed (simp_all only: advances_stays[OF transaction_step_advances(1) assms(2)]
      advances_stays[OF transaction_step_advances(2) assms(2)] advances_stays[OF transaction_step_advances(3) assms(2)]
      advances_stays[OF transaction_step_advances(4) assms(2)] advances_stays[OF transaction_step_advances(5) assms(2)]
      advances_stays[OF transaction_step_advances(6) assms(2)])
qed

lemma reserved_record:
  assumes "reserve_discovery_transaction parse_json p s = (Inr r, s')"
  shows "bm_get (st_discovery_transactions s') (tc_transaction_id (pd_commit p)) = Some r"
    and "prepared_matches_record p r"
  using assms
  by (auto simp: reserve_discovery_transaction_def Let_def rbind_Inr_iff bm_get_insert prepared_matches_own_record
      dest!: record_from_prepared_Inr(1) split: option.splits if_splits sum.splits)

text \<open>A reservation may be retried at any time. Once a prepared transaction has been reserved, then
  whatever the store did since, reserving it again changes nothing and returns the same transaction with
  its current status, even when it has been committed, aborted or finalized.\<close>

theorem reservation_retry:
  assumes "reserve_discovery_transaction parse_json p s = (Inr r, s1)" and "(store_step parse_json)\<^sup>*\<^sup>* s1 s2"
  shows "\<exists>q. reserve_discovery_transaction parse_json p s2 = (Inr q, s2) \<and> same_transaction r q"
proof -
  let ?i = "tc_transaction_id (pd_commit p)"
  note r = reserved_record[OF assms(1)]
  have "\<exists>q. bm_get (st_discovery_transactions s2) ?i = Some q \<and> same_transaction r q"
    using assms(2)
  proof (induction rule: rtranclp_induct)
    case base
    show ?case using r(1) by simp
  next
    case (step s s')
    then show ?case using transactions_stay same_transaction_trans by blast
  qed
  then obtain q where q: "bm_get (st_discovery_transactions s2) ?i = Some q" "same_transaction r q" by blast
  have "prepared_matches_record p q"
    using r(2) q(2) by (simp add: prepared_matches_record_def same_transaction_def)
  then have "reserve_discovery_transaction parse_json p s2 = (Inr q, s2)"
    using q(1) by (simp add: reserve_discovery_transaction_def Let_def)
  with q(2) show ?thesis by blast
qed

lemma sample_reserves: "\<not> isl (fst (reserve_discovery_transaction sample_json sample_prepared sample_store))"
  using sample_run by blast

theorem reservation_retry_witness:
  "\<exists>q. reserve_discovery_transaction sample_json sample_prepared sample_projected = (Inr q, sample_projected)"
proof -
  obtain r where r: "reserve_discovery_transaction sample_json sample_prepared sample_store = (Inr r, sample_reserved)"
    using sample_reserves unfolding not_isl_fst sample_reserved_def by (elim exE) simp
  have "(store_step sample_json)\<^sup>*\<^sup>* sample_reserved sample_projected"
    unfolding sample_projected_def
    by (rule rtranclp.rtrancl_into_rtrancl, rule r_into_rtranclp)
      (unfold store_step_def, (rule disjI2, rule transaction_step.intros)+)
  from reservation_retry[OF r this] show ?thesis by blast
qed

end
