(* ===== verification/Discovery_Plan_Sample.thy ===== *)
theory Discovery_Plan_Sample
  imports Discovery_Plan_Safety Store_Theorems
begin

text \<open>
  A discovery over a small mount, on which the theorems on the planner are applied.
\<close>

text \<open>Page \<open>b\<close> has local changes; the connector reports page \<open>a\<close> at a new path and no page \<open>b\<close>.\<close>

definition edited_entity :: entity_record where
  "edited_entity = with_hydration (sample_entity ''b'' ''b.md'') Dirty"

definition edited_store :: state_store where
  "edited_store = snd (save_entity edited_entity sample_store)"

definition moved_entry :: tree_entry where
  "moved_entry = \<lparr>te_mount_id = MountId ''m'', te_remote_id = RemoteId ''a'', te_kind = Page, te_title = ''a'',
     te_path = [Normal ''c.md''], te_hydration = Stub, te_content_hash = None, te_remote_edited_at = None,
     te_stub_frontmatter = None\<rparr>"

definition replay_of :: "replay_change \<Rightarrow> replay_envelope" where
  "replay_of change = \<lparr>re_tag = DISCOVERY_REPLAY_TAG, re_state_version = 1, re_min_reader_version = 1,
     re_change = change\<rparr>"

text \<open>A codec for the two changes of the sample.\<close>

definition sample_value :: "string \<Rightarrow> json" where
  "sample_value name = JObject [(''tag'', JString DISCOVERY_REPLAY_TAG), (''state_version'', JNumber ''1''),
     (''min_reader_version'', JNumber ''1''), (''change'', JString name)]"

definition sample_codec :: replay_codec where
  "sample_codec =
     \<lparr>rc_parse = (\<lambda>s. if s = ''{}'' then Inr (JObject []) else if s = ''A'' \<or> s = ''B'' then Inr (sample_value s)
        else Inl ''expected value''),
      rc_decode = (\<lambda>v. if v = sample_value ''A'' then Inr (replay_of (ReplayUpsert moved_entry))
        else if v = sample_value ''B'' then Inr (replay_of (ReplayTombstone (RemoteId ''b'')))
        else Inl ''missing field''),
      rc_encode = (\<lambda>envelope. if envelope = replay_of (ReplayUpsert moved_entry) then Inr ''A''
        else if envelope = replay_of (ReplayTombstone (RemoteId ''b'')) then Inr ''B''
        else Inl ''unsupported'')\<rparr>"

definition sample_batch :: batch_observe_result where
  "sample_batch = batch_complete [ObservedUpsert moved_entry]
     \<lparr>cc_state_version = 1, cc_min_reader_version = 1, cc_state_json = ''{}''\<rparr>"

definition sample_inputs :: discovery_inputs where
  "sample_inputs = read_inputs edited_store sample_mount ''7'' 7
     [(RemoteId ''a'', ProjectionSafe), (RemoteId ''b'', ProjectionSafe)]
     \<lparr>active_child_refresh_namespace_roots = {}\<rparr>"

definition sample_intents :: intents where
  "sample_intents = [(RemoteId ''a'', UpsertIntent moved_entry), (RemoteId ''b'', TombstoneIntent)]"

abbreviation sample_planning :: "discovery_plan locality_result option" where
  "sample_planning \<equiv> plan_batch_discovery sample_codec edited_store sample_mount sample_batch ''7'' None
     [(RemoteId ''a'', ProjectionSafe), (RemoteId ''b'', ProjectionSafe)]
     \<lparr>active_child_refresh_namespace_roots = {}\<rparr>"

lemma sample_now: "parse_freshness_timestamp ''7'' = Some 7"
  by (simp add: parse_freshness_timestamp_def parse_u64_def strip_prefix_def undec_def is_ascii_digit_def)

definition sample_observations :: "remote_observation_record list" where
  "sample_observations =
     [observation_with_raw_metadata
        (observation_record_new (MountId ''m'') (RemoteId ''a'') Page ''a'' [Normal ''c.md''] ''7'') ''A'',
      observation_with_raw_metadata (observation_deleted
        (observation_record_new (MountId ''m'') (RemoteId ''b'') Page ''b'' [Normal ''b.md''] ''7'') True) ''B'']"

definition sample_freshness :: "freshness_state_record list" where
  "sample_freshness =
     [(freshness_state_new (MountId ''m'') (RemoteId ''a'') Cold)\<lparr>fs_last_checked_at := Some ''7'',
        fs_remote_hint_pending := False\<rparr>,
      (freshness_state_new (MountId ''m'') (RemoteId ''b'') Hot)\<lparr>fs_last_checked_at := Some ''7'',
        fs_remote_hint_pending := True\<rparr>]"

lemma sample_evaluations:
  "validate_batch sample_codec sample_mount sample_batch = Inr ()
   \<and> merged_intents sample_codec sample_inputs (read_observations edited_store sample_mount) sample_batch
     = Inr sample_intents
   \<and> projection_component_holds sample_inputs sample_intents
      (prospective_projection_actions sample_intents (in_existing sample_inputs)) = Some [(RemoteId ''b'', HoldDirty)]"
  by code_simp

lemma sample_prelude: "plan_prelude sample_codec edited_store sample_mount sample_batch ''7'' None
     [(RemoteId ''a'', ProjectionSafe), (RemoteId ''b'', ProjectionSafe)]
     \<lparr>active_child_refresh_namespace_roots = {}\<rparr> = Inr (sample_inputs, sample_intents)"
proof -
  show ?thesis
    using sample_evaluations by (simp add: plan_prelude_def sample_now rbind_def ok_or_def sample_inputs_def Let_def)
qed

lemma sample_holds: "projection_component_holds sample_inputs sample_intents
    (prospective_projection_actions sample_intents (in_existing sample_inputs)) = Some [(RemoteId ''b'', HoldDirty)]"
  using sample_evaluations by blast

lemma sample_rest: "(case plan_intents sample_codec sample_inputs [(RemoteId ''b'', HoldDirty)]
      (recognized_pending_ids sample_codec (read_observations edited_store sample_mount) (in_freshness sample_inputs))
      sample_intents discovery_lists_empty of
    Inl e \<Rightarrow> False
  | Inr out \<Rightarrow>
     (case map_option (finish_plan sample_codec sample_inputs (br_next_checkpoint sample_batch) None out)
              (build_discovery_projection_components (dl_projection_actions out)) of
        Some (Inr p) \<Rightarrow>
          dp_projection_actions p = [ProjectMove (RemoteId ''a'') Page [Normal ''a.md''] [Normal ''c.md'']]
        \<and> dp_held p = [\<lparr>hi_remote_id = RemoteId ''b'', hi_change = ChangeKindDelete, hi_reason = HoldDirty\<rparr>]
        \<and> dc_entity_deletes (dp_commit p) = [] \<and> dc_observation_upserts (dp_commit p) = sample_observations
        \<and> dc_freshness_upserts (dp_commit p) = sample_freshness
      | _ \<Rightarrow> False))"
  by code_simp

lemma sample_plan:
  obtains p where "sample_planning = Some (Inr p)"
    "dp_projection_actions p = [ProjectMove (RemoteId ''a'') Page [Normal ''a.md''] [Normal ''c.md'']]"
    "dp_held p = [\<lparr>hi_remote_id = RemoteId ''b'', hi_change = ChangeKindDelete, hi_reason = HoldDirty\<rparr>]"
    "dc_entity_deletes (dp_commit p) = []" "dc_observation_upserts (dp_commit p) = sample_observations"
    "dc_freshness_upserts (dp_commit p) = sample_freshness"
  using sample_rest
  by (auto simp: plan_batch_discovery_def sample_prelude sample_holds split: sum.splits option.splits)

end
