(* ===== verification/Discovery_Composition.thy ===== *)
theory Discovery_Composition
  imports Discovery_Plan_Sample
begin

text \<open>
  The planner and the store together: the preflight of the planner is the one of the reservation, so that
  a planned commit is accepted.
\<close>

section \<open>The lists of the planner and of a reservation\<close>

lemma filtered_sorted:
  assumes "keyed (\<lambda>v. (mnt v, key v)) m"
  shows "sorted_wrt (<) (map key (filter (\<lambda>v. mnt v = mount) (bm_values m)))"
proof -
  have "sorted_wrt (\<lambda>v w. (mnt v, key v) < (mnt w, key w)) (bm_values m)"
    using keyed_sorted[OF assms] by (simp add: sorted_wrt_map)
  then have "sorted_wrt (\<lambda>v w. (mnt v, key v) < (mnt w, key w)) (filter (\<lambda>v. mnt v = mount) (bm_values m))"
    by (rule sorted_wrt_filter)
  then have "sorted_wrt (\<lambda>v w. key v < key w) (filter (\<lambda>v. mnt v = mount) (bm_values m))"
    by (rule sorted_wrt_mono_rel[rotated]) (auto simp: less_prod_def)
  then show ?thesis by (simp add: sorted_wrt_map)
qed

lemma collect_listed:
  assumes k: "keyed (\<lambda>v. (mnt v, key v)) m" and es: "set es = {v \<in> set (bm_values m). mnt v = mount}"
  shows "bm_values (bm_collect (map (\<lambda>e. (key e, e)) es)) = filter (\<lambda>v. mnt v = mount) (bm_values m)"
proof -
  let ?ys = "filter (\<lambda>v. mnt v = mount) (bm_values m)"
  let ?M = "map (\<lambda>e. (key e, e)) ?ys"
  have sorted: "bm_sorted ?M"
    using filtered_sorted[OF k, of mount] by (simp add: bm_sorted_def comp_def sorted_wrt_map)
  have "bm_get (bm_collect (map (\<lambda>e. (key e, e)) es)) i = bm_get ?M i" for i
    using get_listed[OF k es, of i] get_listed[OF k, of ?ys mount i] bm_collect_sorted[OF sorted] by simp
  then have "bm_collect (map (\<lambda>e. (key e, e)) es) = ?M" by (intro bm_ext sorted) simp_all
  then show ?thesis by (simp add: comp_def)
qed

lemma preflight_mutations:
  assumes "set ms = set ms'" "preflight_details parse_json c connector es enrollments ms = Inr d"
  shows "preflight_details parse_json c connector es enrollments ms' = Inr d"
proof -
  have s: "snapshot_in_mount m es enrollments ms = Inr u \<longleftrightarrow> snapshot_in_mount m es enrollments ms' = Inr u" for m u
    by (simp add: snapshot_in_mount_def rbind_Inr_iff assms(1))
  have v: "validate_virtual_mutation_changes c ms ids paths = Inr u \<longleftrightarrow>
      validate_virtual_mutation_changes c ms' ids paths = Inr u" for ids paths u
    by (simp add: validate_virtual_mutation_changes_Inr assms(1))
  show ?thesis using assms(2) unfolding preflight_details_def rbind_Inr_iff Let_def s v .
qed

lemma planner_preflight:
  assumes reach: "reachable_store parse_json s" and mount: "get_mount (mc_mount_id mount) s = Some mount"
    and res: "capture_discovery_reservation (mc_mount_id mount) s = Inr res"
    and pre: "preflight parse_json c (mc_connector mount)
      (bm_values (in_existing (read_inputs s mount at now assessments safety)))
      (in_enrollments (read_inputs s mount at now assessments safety))
      (in_mutations (read_inputs s mount at now assessments safety)) = Inr u"
  shows "\<exists>d. preflight_details parse_json c (mc_connector (rv_mount res)) (rv_entities res)
      (rv_auto_save_enrollments res) (rv_virtual_mutations res) = Inr d"
proof -
  let ?I = "read_inputs s mount at now assessments safety" and ?m = "mc_mount_id mount"
  note k = reachable_keyed[OF reach]
  have rv: "rv_mount res = mount" "rv_entities res = filter (\<lambda>e. er_mount_id e = ?m) (bm_values (st_entities s))"
    "rv_auto_save_enrollments res = filter (\<lambda>e. as_mount_id e = ?m) (bm_values (st_auto_save_enrollments s))"
    "rv_virtual_mutations res = filter (\<lambda>v. vm_mount_id v = ?m) (bm_values (st_virtual_mutations s))"
    using res mount by (auto simp: capture_discovery_reservation_def get_mount_def)
  have 1: "bm_values (in_existing ?I) = rv_entities res"
    unfolding rv(2) using collect_listed[OF k(1) set_list_entities[OF reach, of ?m]] by (simp add: read_inputs_def Let_def)
  have 2: "in_enrollments ?I = rv_auto_save_enrollments res"
    unfolding rv(3) using filtered_sorted[OF k(4), of ?m]
    by (simp add: read_inputs_def Let_def list_auto_save_enrollments_def sort_key_id_if_sorted strict_sorted_imp_sorted)
  have 3: "set (in_mutations ?I) = set (rv_virtual_mutations res)"
    unfolding rv(4) by (simp add: read_inputs_def Let_def list_virtual_mutations_def)
  obtain d where "preflight_details parse_json c (mc_connector mount) (rv_entities res)
      (rv_auto_save_enrollments res) (in_mutations ?I) = Inr d"
    using pre unfolding preflight_def rbind_Inr_iff 1 2 by blast
  from preflight_mutations[OF 3 this] rv(1) show ?thesis by simp
qed

section \<open>From a reservation to a commit\<close>

lemma transition_done:
  assumes "bm_get (st_discovery_transactions s) i = Some r" "tr_status r = expected" "tr_active r"
  shows "transition_discovery_transaction i expected status at s =
    (Inr (r\<lparr>tr_status := status, tr_active := status_is_active status, tr_updated_at := at\<rparr>),
     s\<lparr>st_discovery_transactions := bm_insert i
       (r\<lparr>tr_status := status, tr_active := status_is_active status, tr_updated_at := at\<rparr>)
       (st_discovery_transactions s)\<rparr>)"
  using assms by (simp add: transition_discovery_transaction_def update_transaction_def require_transaction_status_def)

lemma capture_unchanged:
  "capture_discovery_reservation m (s\<lparr>st_discovery_transactions := txs\<rparr>) = capture_discovery_reservation m s"
  by (cases "bm_get (st_mounts s) m") (simp_all add: capture_discovery_reservation_def)

lemma reserve_new:
  assumes "bm_get (st_discovery_transactions s) (tc_transaction_id (pd_commit P)) = None"
    and "\<forall>r\<in>set (bm_values (st_discovery_transactions s)).
        \<not> (tr_mount_id r = dc_mount_id (tc_commit (pd_commit P)) \<and> tr_active r)"
    and "capture_discovery_reservation (dc_mount_id (tc_commit (pd_commit P))) s = Inr res"
    and "record_from_prepared parse_json P res = Inr r"
  shows "reserve_discovery_transaction parse_json P s =
    (Inr r, s\<lparr>st_discovery_transactions := bm_insert (tc_transaction_id (pd_commit P)) r (st_discovery_transactions s)\<rparr>)"
proof -
  have "List.find (\<lambda>r. tr_mount_id r = dc_mount_id (tc_commit (pd_commit P)) \<and> tr_active r)
      (bm_values (st_discovery_transactions s)) = None"
    using assms(2) by (auto simp: find_None_iff)
  with assms(1,3,4) show ?thesis by (simp add: reserve_discovery_transaction_def Let_def rbind_def)
qed

text \<open>The store once a reserved transaction has been carried out: only the transaction is different.\<close>

lemma carried_out:
  assumes "bm_get (st_discovery_transactions s1) i = Some r" "tr_status r = TxReserved" "tr_active r"
    and s3: "s3 = snd (mark_discovery_transaction_projected i TxApplying t2
      (snd (mark_discovery_transaction_applying i t1 s1)))"
  shows "\<exists>q txs. s3 = s1\<lparr>st_discovery_transactions := txs\<rparr> \<and> bm_get txs i = Some q \<and> tr_status q = TxProjected
    \<and> same_transaction r q"
proof -
  have step: "\<exists>q. same_transaction r q \<and> tr_status q = status \<and> tr_active q
      \<and> snd (transition_discovery_transaction i expected status at s) =
        s\<lparr>st_discovery_transactions := bm_insert i q (st_discovery_transactions s)\<rparr>"
    if "bm_get (st_discovery_transactions s) i = Some r" "tr_status r = expected" "tr_active r" "status_is_active status"
    for s r expected status at
    unfolding transition_done[OF that(1-3)] snd_conv
    by (intro exI conjI, rule_tac [4] refl) (simp_all add: that(4) same_transaction_def)
  obtain r2 where r2: "same_transaction r r2" "tr_status r2 = TxApplying" "tr_active r2"
    "snd (mark_discovery_transaction_applying i t1 s1) =
       s1\<lparr>st_discovery_transactions := bm_insert i r2 (st_discovery_transactions s1)\<rparr>"
    using step[OF assms(1-3), of TxApplying t1] unfolding mark_discovery_transaction_applying_def
    by (auto simp: status_is_active_def)
  define s2 where "s2 = s1\<lparr>st_discovery_transactions := bm_insert i r2 (st_discovery_transactions s1)\<rparr>"
  have "bm_get (st_discovery_transactions s2) i = Some r2" by (simp add: s2_def bm_get_insert)
  from step[OF this r2(2,3), of TxProjected t2] obtain q where q: "same_transaction r2 q" "tr_status q = TxProjected"
    "snd (mark_discovery_transaction_projected i TxApplying t2 s2) =
       s2\<lparr>st_discovery_transactions := bm_insert i q (st_discovery_transactions s2)\<rparr>"
    unfolding mark_discovery_transaction_projected_def by (auto simp: status_is_active_def)
  have "s3 = s1\<lparr>st_discovery_transactions := bm_insert i q (st_discovery_transactions s2)\<rparr>"
    unfolding s3 r2(4) s2_def[symmetric] q(3) by (simp add: s2_def)
  then show ?thesis
    using q(2) same_transaction_trans[OF r2(1) q(1)] by (intro exI[of _ q] exI[of _ "bm_insert i q (st_discovery_transactions s2)"] conjI) (simp_all add: bm_get_insert)
qed

lemma reachable_transaction_steps:
  assumes "reachable_store parse_json s"
  shows "reachable_store parse_json (snd (reserve_discovery_transaction parse_json P s))"
    "reachable_store parse_json (snd (mark_discovery_transaction_applying i t s))"
    "reachable_store parse_json (snd (mark_discovery_transaction_projected i expected t s))"
    "reachable_store parse_json (snd (commit_discovery_transaction parse_json i t s))"
  by (rule reachable_transaction[OF _ assms], rule transaction_step.intros)+

section \<open>The planned commit is accepted\<close>

text \<open>A transaction for a plan, as the daemon prepares it.\<close>

definition prepared_for ::
    "discovery_transaction_id \<Rightarrow> discovery_plan \<Rightarrow> mount_config \<Rightarrow> json \<Rightarrow> discovery_reservation \<Rightarrow> string
      \<Rightarrow> prepared_discovery_transaction" where
  "prepared_for i p mount plan_json res at =
     prepared_new \<lparr>tc_transaction_id = i, tc_commit = dp_commit p\<rparr> (mc_projection mount) plan_json res at"

text \<open>A fresh transaction of a mount without an active one.\<close>

definition may_begin :: "discovery_transaction_id \<Rightarrow> mount_id \<Rightarrow> state_store \<Rightarrow> bool" where
  "may_begin i m s \<longleftrightarrow>
     discovery_transaction_id_str i \<noteq> [] \<and> get_discovery_transaction i s = None
   \<and> list_all (\<lambda>r. tr_mount_id r \<noteq> m) (list_active_discovery_transactions s)"

lemma prepared_record:
  assumes reach: "reachable_store parse_json s" and mount: "get_mount (mc_mount_id mount) s = Some mount"
    and res: "capture_discovery_reservation (mc_mount_id mount) s = Inr res"
    and p: "planned C s mount batch job (read_inputs s mount at now assessments safety) intents holds out p"
    and C: "parse_json = rc_parse C" and i: "discovery_transaction_id_str i \<noteq> []" "t0 \<noteq> []"
  shows "record_from_prepared parse_json (prepared_for i p mount plan_json res t0) res =
    Inr (record_of_prepared (prepared_for i p mount plan_json res t0))"
proof -
  have m: "dc_mount_id (dp_commit p) = mc_mount_id mount" and rv: "rv_mount res = mount"
    using p res mount by (auto simp: planned_def commit_of_lists_def capture_discovery_reservation_def get_mount_def)
  have "preflight parse_json (dp_commit p) (mc_connector mount)
      (bm_values (in_existing (read_inputs s mount at now assessments safety)))
      (in_enrollments (read_inputs s mount at now assessments safety))
      (in_mutations (read_inputs s mount at now assessments safety)) = Inr ()"
    using p unfolding planned_def C by blast
  from planner_preflight[OF reach mount res this] obtain d where
    "preflight_details parse_json (dp_commit p) (mc_connector (rv_mount res)) (rv_entities res)
      (rv_auto_save_enrollments res) (rv_virtual_mutations res) = Inr d" by blast
  then show ?thesis
    using i m rv by (simp add: record_from_prepared_def prepared_for_def prepared_new_def Let_def changed_category_None[THEN iffD2, OF refl] rbind_def)
qed

lemma may_begin_free:
  assumes "may_begin i m s"
  shows "discovery_transaction_id_str i \<noteq> []" "bm_get (st_discovery_transactions s) i = None"
    "\<forall>r\<in>set (bm_values (st_discovery_transactions s)). \<not> (tr_mount_id r = m \<and> tr_active r)"
  using assms
  by (auto simp: may_begin_def get_discovery_transaction_def list_active_discovery_transactions_def list_all_iff)

lemma reserved_and_carried_out:
  assumes reach: "reachable_store parse_json s" and mount: "get_mount (mc_mount_id mount) s = Some mount"
    and res: "capture_discovery_reservation (mc_mount_id mount) s = Inr res"
    and p: "planned C s mount batch job (read_inputs s mount at now assessments safety) intents holds out p"
    and C: "parse_json = rc_parse C" and free: "may_begin i (mc_mount_id mount) s" "t0 \<noteq> []"
    and s3: "s3 = snd (mark_discovery_transaction_projected i TxApplying t2
      (snd (mark_discovery_transaction_applying i t1
        (snd (reserve_discovery_transaction parse_json (prepared_for i p mount plan_json res t0) s)))))"
  shows "\<exists>r. get_discovery_transaction i s3 = Some r \<and> tr_status r = TxProjected \<and> tc_commit (tr_commit r) = dp_commit p
    \<and> capture_discovery_reservation (tr_mount_id r) s3 = Inr (tr_reservation r)"
proof -
  let ?P = "prepared_for i p mount plan_json res t0" and ?m = "mc_mount_id mount"
  let ?s1 = "s\<lparr>st_discovery_transactions := bm_insert i (record_of_prepared ?P) (st_discovery_transactions s)\<rparr>"
  have P: "tc_transaction_id (pd_commit ?P) = i" "tc_commit (pd_commit ?P) = dp_commit p" "pd_reservation ?P = res"
    by (simp_all add: prepared_for_def prepared_new_def)
  have m: "dc_mount_id (dp_commit p) = ?m" using p by (simp add: planned_def commit_of_lists_def)
  note may = may_begin_free[OF free(1)]
  have "reserve_discovery_transaction parse_json ?P s = (Inr (record_of_prepared ?P), ?s1)"
    using reserve_new[of s ?P res parse_json, unfolded P m, OF may(2,3) res
      prepared_record[OF reach mount res p C may(1) free(2)]] .
  then have s1: "snd (reserve_discovery_transaction parse_json ?P s) = ?s1" by simp
  have rec: "bm_get (st_discovery_transactions ?s1) i = Some (record_of_prepared ?P)"
    "tr_status (record_of_prepared ?P) = TxReserved" "tr_active (record_of_prepared ?P)"
    "tc_commit (tr_commit (record_of_prepared ?P)) = dp_commit p" "tr_mount_id (record_of_prepared ?P) = ?m"
    "tr_reservation (record_of_prepared ?P) = res"
    by (simp_all add: bm_get_insert record_of_prepared_def P m)
  obtain q txs where q: "s3 = ?s1\<lparr>st_discovery_transactions := txs\<rparr>" "bm_get txs i = Some q"
    "tr_status q = TxProjected" "same_transaction (record_of_prepared ?P) q"
    using carried_out[OF rec(1-3) s3[unfolded s1]] by blast
  have "tr_mount_id q = ?m" "tr_commit q = tr_commit (record_of_prepared ?P)" "tr_reservation q = res"
    using q(4) rec(5,6) by (simp_all add: same_transaction_def)
  with q rec(4) res show ?thesis
    by (intro exI[of _ q]) (simp add: get_discovery_transaction_def capture_unchanged)
qed

lemma plan_committed:
  assumes reach: "reachable_store (rc_parse C) s" and mount: "get_mount (mc_mount_id mount) s = Some mount"
    and plan: "plan_batch_discovery C s mount batch at job assessments safety = Some (Inr p)"
    and res: "capture_discovery_reservation (mc_mount_id mount) s = Inr res"
    and free: "may_begin i (mc_mount_id mount) s" "t0 \<noteq> []"
    and s3: "s3 = snd (mark_discovery_transaction_projected i TxApplying t2
      (snd (mark_discovery_transaction_applying i t1
        (snd (reserve_discovery_transaction (rc_parse C) (prepared_for i p mount plan_json res t0) s)))))"
  shows "\<exists>q s4. commit_discovery_transaction (rc_parse C) i t3 s3 = (Inr q, s4) \<and> tc_commit (tr_commit q) = dp_commit p"
proof -
  obtain now intents holds out where p: "planned C s mount batch job
      (read_inputs s mount at now assessments safety) intents holds out p" by (rule plan_facts[OF reach plan])
  obtain r where r: "get_discovery_transaction i s3 = Some r" "tr_status r = TxProjected"
    "tc_commit (tr_commit r) = dp_commit p" "capture_discovery_reservation (tr_mount_id r) s3 = Inr (tr_reservation r)"
    using reserved_and_carried_out[OF reach mount res p refl free s3] by blast
  have "store_inv (rc_parse C) s3"
    unfolding s3 by (intro reachable_inv reachable_transaction_steps reach)
  then obtain s4 where ready: "commit_ready (rc_parse C) i r s3 s4" by (rule ready_when_unchanged[OF _ r(1,2,4)])
  have "tc_commit (tr_commit (committed_record r t3)) = dp_commit p" by (simp add: committed_record_def r(3))
  with ready show ?thesis unfolding commit_Inr_iff by blast
qed



section \<open>The sample committed\<close>

definition sample_reservation :: discovery_reservation where
  "sample_reservation = (case capture_discovery_reservation (MountId ''m'') edited_store of Inr r \<Rightarrow> r)"

definition sample_carried :: "discovery_plan \<Rightarrow> state_store" where
  "sample_carried p = snd (mark_discovery_transaction_projected sample_tx TxApplying ''t2''
     (snd (mark_discovery_transaction_applying sample_tx ''t1''
       (snd (reserve_discovery_transaction (rc_parse sample_codec)
         (prepared_for sample_tx p sample_mount JNull sample_reservation ''t0'') edited_store)))))"

lemma edited_store_reachable: "reachable_store parse_json edited_store"
  unfolding edited_store_def by (rule reachable_plain, rule plain_step.intros, rule sample_store_reachable)

lemma sample_stored:
  "get_mount (mc_mount_id sample_mount) edited_store = Some sample_mount
   \<and> capture_discovery_reservation (mc_mount_id sample_mount) edited_store = Inr sample_reservation
   \<and> may_begin sample_tx (mc_mount_id sample_mount) edited_store"
  by code_simp

lemmas sample_mount_stored = sample_stored[THEN conjunct1]
lemmas sample_captured = sample_stored[THEN conjunct2, THEN conjunct1]
lemmas sample_may_begin = sample_stored[THEN conjunct2, THEN conjunct2]

lemma sample_carried_reachable: "reachable_store (rc_parse sample_codec) (sample_carried p)"
  unfolding sample_carried_def by (intro reachable_transaction_steps edited_store_reachable)

lemma sample_committed:
  assumes "sample_planning = Some (Inr p)"
  obtains q s4 where "commit_discovery_transaction (rc_parse sample_codec) sample_tx ''t3'' (sample_carried p) = (Inr q, s4)"
    "tc_commit (tr_commit q) = dp_commit p"
  using plan_committed[OF edited_store_reachable sample_mount_stored assms sample_captured sample_may_begin _ sample_carried_def]
  by (metis list.distinct(1))

end
