(* ===== verification/Discovery_Replay.thy ===== *)
theory Discovery_Replay
  imports Discovery_Plan_Sample
begin

text \<open>
  What the planner holds back is remembered: the commit stores an observation that carries the change and
  a pending hint, and the next incremental batch replays it.
\<close>

section \<open>Held changes are recorded\<close>

definition change_of :: "remote_id \<Rightarrow> discovery_intent \<Rightarrow> replay_change" where
  "change_of i intent = (case intent of UpsertIntent entry \<Rightarrow> ReplayUpsert entry | TombstoneIntent \<Rightarrow> ReplayTombstone i)"

definition records_change ::
    "replay_codec \<Rightarrow> mount_id \<Rightarrow> remote_id \<Rightarrow> discovery_intent \<Rightarrow> remote_observation_record \<Rightarrow> freshness_state_record \<Rightarrow> bool" where
  "records_change C m i intent r f \<longleftrightarrow>
     rr_mount_id r = m \<and> rr_remote_id r = i \<and> encode_replay C (change_of i intent) = Inr (rr_raw_metadata_json r)
   \<and> fs_mount_id f = m \<and> fs_remote_id f = i \<and> fs_remote_hint_pending f"

definition remembered :: "replay_codec \<Rightarrow> mount_id \<Rightarrow> intents \<Rightarrow> discovery_lists \<Rightarrow> bool" where
  "remembered C m intents out \<longleftrightarrow>
     (\<forall>h\<in>set (dl_held out). \<exists>intent r f. (hi_remote_id h, intent) \<in> set intents
        \<and> r \<in> set (dl_observation_upserts out) \<and> f \<in> set (dl_freshness_upserts out)
        \<and> records_change C m (hi_remote_id h) intent r f)"

lemma remembered_append:
  assumes "remembered C m intents out"
    and "dl_held out' = dl_held out @ hs" "dl_observation_upserts out' = dl_observation_upserts out @ rs"
    "dl_freshness_upserts out' = dl_freshness_upserts out @ fs"
    and "\<forall>h\<in>set hs. \<exists>intent r f. (hi_remote_id h, intent) \<in> set intents \<and> r \<in> set rs \<and> f \<in> set fs
        \<and> records_change C m (hi_remote_id h) intent r f"
  shows "remembered C m intents out'"
  unfolding remembered_def assms(2-4) set_append
proof
  fix h
  assume "h \<in> set (dl_held out) \<union> set hs"
  then show "\<exists>intent r f. (hi_remote_id h, intent) \<in> set intents
        \<and> r \<in> set (dl_observation_upserts out) \<union> set rs \<and> f \<in> set (dl_freshness_upserts out) \<union> set fs
        \<and> records_change C m (hi_remote_id h) intent r f"
    using assms(1,5) unfolding remembered_def by blast
qed

lemma next_freshness_ids:
  assumes "inputs_ok I"
  shows "fs_mount_id (next_freshness (mc_mount_id (in_mount I)) i current (bm_get (in_freshness I) i) at pending) = mc_mount_id (in_mount I)"
    "fs_remote_id (next_freshness (mc_mount_id (in_mount I)) i current (bm_get (in_freshness I) i) at pending) = i"
    "fs_remote_hint_pending (next_freshness (mc_mount_id (in_mount I)) i current (bm_get (in_freshness I) i) at pending) = pending"
proof -
  let ?g = "bm_get (in_freshness I) i"
  have fields: "fs_mount_id (next_freshness m i current previous at pending) = (case previous of None \<Rightarrow> m | Some f \<Rightarrow> fs_mount_id f)"
    "fs_remote_id (next_freshness m i current previous at pending) = (case previous of None \<Rightarrow> i | Some f \<Rightarrow> fs_remote_id f)"
    "fs_remote_hint_pending (next_freshness m i current previous at pending) = pending" for m previous
    by (cases previous; simp add: next_freshness_def freshness_state_new_def Let_def)+
  have "fs_mount_id f = mc_mount_id (in_mount I) \<and> fs_remote_id f = i" if "?g = Some f" for f
    using assms that keyed_get[of fs_remote_id "in_freshness I" i f] unfolding inputs_ok_def by blast
  then show "fs_mount_id (next_freshness (mc_mount_id (in_mount I)) i current ?g at pending) = mc_mount_id (in_mount I)"
    "fs_remote_id (next_freshness (mc_mount_id (in_mount I)) i current ?g at pending) = i"
    "fs_remote_hint_pending (next_freshness (mc_mount_id (in_mount I)) i current ?g at pending) = pending"
    unfolding fields by (cases ?g; simp)+
qed

lemma observation_for_entry_Inr:
  assumes "observation_for_entry C entry at = Inr r"
  shows "rr_mount_id r = te_mount_id entry" "rr_remote_id r = te_remote_id entry"
    "encode_replay C (ReplayUpsert entry) = Inr (rr_raw_metadata_json r)"
proof -
  obtain raw where raw: "encode_replay C (ReplayUpsert entry) = Inr raw"
    using assms unfolding observation_for_entry_def Let_def rbind_Inr_iff by (elim exE conjE)
  define o1 where "o1 = (case te_remote_edited_at entry of
      None \<Rightarrow> observation_record_new (te_mount_id entry) (te_remote_id entry) (te_kind entry) (te_title entry) (te_path entry) at
    | Some version \<Rightarrow> observation_with_remote_version (observation_record_new (te_mount_id entry) (te_remote_id entry)
        (te_kind entry) (te_title entry) (te_path entry) at) (RemoteVersion version))"
  have "rr_mount_id o1 = te_mount_id entry" "rr_remote_id o1 = te_remote_id entry"
    by (cases "te_remote_edited_at entry"; simp add: o1_def observation_with_remote_version_def observation_record_new_def)+
  moreover have "r = observation_with_raw_metadata o1 raw"
    using assms unfolding observation_for_entry_def Let_def o1_def[symmetric] raw by (simp add: rbind_def)
  ultimately show "rr_mount_id r = te_mount_id entry" "rr_remote_id r = te_remote_id entry"
    "encode_replay C (ReplayUpsert entry) = Inr (rr_raw_metadata_json r)"
    by (simp_all add: observation_with_raw_metadata_def raw)
qed

lemma observation_for_tombstone_Inr:
  assumes "observation_for_tombstone C current at = Inr r"
  shows "rr_mount_id r = er_mount_id current" "rr_remote_id r = er_remote_id current"
    "encode_replay C (ReplayTombstone (er_remote_id current)) = Inr (rr_raw_metadata_json r)"
proof -
  obtain raw where raw: "encode_replay C (ReplayTombstone (er_remote_id current)) = Inr raw"
    using assms unfolding observation_for_tombstone_def rbind_Inr_iff by (elim exE conjE)
  define o1 where "o1 = observation_deleted (observation_record_new (er_mount_id current) (er_remote_id current)
    (er_kind current) (er_title current) (er_path current) at) True"
  have "rr_mount_id o1 = er_mount_id current" "rr_remote_id o1 = er_remote_id current"
    by (simp_all add: o1_def observation_deleted_def observation_record_new_def)
  moreover have "r = observation_with_raw_metadata o1 raw"
    using assms unfolding observation_for_tombstone_def o1_def[symmetric] raw by (simp add: rbind_def)
  ultimately show "rr_mount_id r = er_mount_id current" "rr_remote_id r = er_remote_id current"
    "encode_replay C (ReplayTombstone (er_remote_id current)) = Inr (rr_raw_metadata_json r)"
    by (simp_all add: observation_with_raw_metadata_def raw)
qed

lemma plan_upsert_remembered:
  assumes ok: "inputs_ok I" "te_remote_id entry = i" "te_mount_id entry = mc_mount_id (in_mount I)"
    and mem: "(i, UpsertIntent entry) \<in> set intents" and plan: "plan_upsert C I holds i entry out = Inr out'"
    and r: "remembered C (mc_mount_id (in_mount I)) intents out"
  shows "remembered C (mc_mount_id (in_mount I)) intents out'"
proof -
  let ?f = "\<lambda>pending. next_freshness (mc_mount_id (in_mount I)) i (bm_get (in_existing I) i) (bm_get (in_freshness I) i)
      (in_observed_at I) pending"
  obtain observation where o1: "observation_for_entry C entry (in_observed_at I) = Inr observation"
    "dl_observation_upserts out' = dl_observation_upserts out @ [observation]"
    "dl_freshness_upserts out' = dl_freshness_upserts out @
       [?f (upsert_hint_pending (bm_get (in_existing I) i) entry (upsert_hold_reason I holds i entry))]"
    "dl_held out' = dl_held out @ (case upsert_hold_reason I holds i entry of None \<Rightarrow> []
       | Some reason \<Rightarrow> [\<lparr>hi_remote_id = i, hi_change = upsert_change_kind (bm_get (in_existing I) i) entry,
                       hi_reason = reason\<rparr>])"
    by (rule plan_upsert_Inr[OF plan])
  have "records_change C (mc_mount_id (in_mount I)) i (UpsertIntent entry) observation (?f True)"
    using observation_for_entry_Inr[OF o1(1)] ok(2,3) by (simp add: records_change_def change_of_def next_freshness_ids[OF ok(1)])
  then have "records_change C (mc_mount_id (in_mount I)) i (UpsertIntent entry) observation
      (?f (upsert_hint_pending (bm_get (in_existing I) i) entry (upsert_hold_reason I holds i entry)))"
    if "upsert_hold_reason I holds i entry \<noteq> None"
    using that by (simp add: upsert_hint_pending_def)
  then show ?thesis
    by (intro remembered_append[OF r o1(4,2,3)])
      (use mem in \<open>cases "upsert_hold_reason I holds i entry"; auto\<close>)
qed

lemma plan_tombstone_remembered:
  assumes ok: "inputs_ok I" and mem: "(i, TombstoneIntent) \<in> set intents"
    and plan: "plan_tombstone C I holds recognized i out = Inr out'"
    and r: "remembered C (mc_mount_id (in_mount I)) intents out"
  shows "remembered C (mc_mount_id (in_mount I)) intents out'"
proof -
  note out' = plan_tombstone_Inr[OF plan]
  obtain os fs where o1: "dl_observation_upserts out' = dl_observation_upserts out @ os"
    "dl_freshness_upserts out' = dl_freshness_upserts out @ fs"
    "\<forall>c reason. bm_get (in_existing I) i = Some c \<longrightarrow> bm_get holds i = Some reason \<longrightarrow>
            (\<exists>observation. observation_for_tombstone C c (in_observed_at I) = Inr observation
              \<and> os = [observation]
              \<and> fs = [next_freshness (mc_mount_id (in_mount I)) i (Some c) (bm_get (in_freshness I) i)
                               (in_observed_at I) True])"
    using out'(5) by (elim exE conjE) (rule that)
  have "records_change C (mc_mount_id (in_mount I)) i TombstoneIntent observation
      (next_freshness (mc_mount_id (in_mount I)) i (Some c) (bm_get (in_freshness I) i) (in_observed_at I) True)"
    if c: "bm_get (in_existing I) i = Some c" and o: "observation_for_tombstone C c (in_observed_at I) = Inr observation"
    for c observation
  proof -
    have "er_mount_id c = mc_mount_id (in_mount I)" "er_remote_id c = i"
      using ok c keyed_get[of er_remote_id "in_existing I" i c] unfolding inputs_ok_def by blast+
    then show ?thesis
      using observation_for_tombstone_Inr[OF o] by (simp add: records_change_def change_of_def next_freshness_ids[OF ok])
  qed
  then have "records_change C (mc_mount_id (in_mount I)) i TombstoneIntent (hd os) (hd fs) \<and> hd os \<in> set os \<and> hd fs \<in> set fs"
    if "bm_get (in_existing I) i = Some c" "bm_get holds i = Some reason" for c reason
    using o1(3) that by auto
  then show ?thesis
    by (intro remembered_append[OF r out'(4) o1(1,2)])
      (use mem in \<open>cases "bm_get (in_existing I) i"; cases "bm_get holds i"; auto; blast\<close>)
qed

lemma plan_intents_remembered:
  assumes ok: "inputs_ok I" "intents_ok (mc_mount_id (in_mount I)) intents"
  shows "plan_intents C I holds recognized xs out = Inr out' \<Longrightarrow> set xs \<subseteq> set intents \<Longrightarrow>
    remembered C (mc_mount_id (in_mount I)) intents out \<Longrightarrow> remembered C (mc_mount_id (in_mount I)) intents out'"
proof (induction xs arbitrary: out)
  case (Cons x xs)
  obtain i intent where x: "x = (i, intent)" by (cases x)
  have mem: "(i, intent) \<in> set intents" using Cons.prems(2) x by simp
  obtain o1 where o1: "(case intent of UpsertIntent entry \<Rightarrow> plan_upsert C I holds i entry out
      | TombstoneIntent \<Rightarrow> plan_tombstone C I holds recognized i out) = Inr o1"
    and rest: "plan_intents C I holds recognized xs o1 = Inr out'"
    using Cons.prems(1) by (auto simp: x rbind_Inr_iff)
  have "remembered C (mc_mount_id (in_mount I)) intents o1"
  proof (cases intent)
    case (UpsertIntent entry)
    show ?thesis
      by (rule plan_upsert_remembered[OF ok(1) intent_of[OF ok(2)] _ _ Cons.prems(3)])
        (use mem o1 UpsertIntent in simp_all)
  next
    case TombstoneIntent
    show ?thesis
      by (rule plan_tombstone_remembered[OF ok(1) _ _ Cons.prems(3)]) (use mem o1 TombstoneIntent in simp_all)
  qed
  then show ?case using Cons.IH[OF rest] Cons.prems(2) by simp
qed simp

lemma held_recorded:
  assumes "planned C s mount batch job I intents holds out p" "h \<in> set (dp_held p)"
  obtains intent r f where "bm_get intents (hi_remote_id h) = Some intent"
    "r \<in> set (dc_observation_upserts (dp_commit p))" "f \<in> set (dc_freshness_upserts (dp_commit p))"
    "records_change C (mc_mount_id mount) (hi_remote_id h) intent r f"
proof -
  have I: "in_mount I = mount" "inputs_ok I" "intents_ok (mc_mount_id mount) intents"
    and plan: "plan_intents C I holds (recognized_pending_ids C (read_observations s mount) (in_freshness I)) intents
       discovery_lists_empty = Inr out"
    and p: "dp_commit p = commit_of_lists mount job (discovery_checkpoint mount (br_next_checkpoint batch)
      (in_observed_at I)) out" "dp_held p = dl_held out"
    using assms(1) unfolding planned_def by blast+
  have "remembered C (mc_mount_id mount) intents discovery_lists_empty"
    by (simp add: remembered_def discovery_lists_empty_def)
  with plan_intents_remembered[OF I(2) _ plan subset_refl] I(1,3) have "remembered C (mc_mount_id mount) intents out" by simp
  then obtain intent r f where "(hi_remote_id h, intent) \<in> set intents" "r \<in> set (dl_observation_upserts out)"
    "f \<in> set (dl_freshness_upserts out)" "records_change C (mc_mount_id mount) (hi_remote_id h) intent r f"
    using assms(2) unfolding remembered_def p(2) by blast
  moreover have "bm_sorted intents" using I(3) by (simp add: intents_ok_def)
  ultimately show thesis by (intro that) (simp_all add: p(1) commit_of_lists_def bm_get_iff)
qed

section \<open>The commit stores the records\<close>

lemma commit_validate_distinct:
  assumes "commit_validate parse_json c = Inr u"
  shows "distinct (map rr_remote_id (dc_observation_upserts c))" "distinct (map fs_remote_id (dc_freshness_upserts c))"
proof -
  obtain os fs where
    "collect_unique (\<lambda>r. validate_mount ''observation'' (rr_remote_id r) (rr_mount_id r) (dc_mount_id c))
        rr_remote_id (\<lambda>i. ''discovery commit contains duplicate observation upsert `'' @ remote_id_str i @ ''`'')
        (dc_observation_upserts c) {} = Inr os"
    "collect_unique (\<lambda>r. validate_mount ''freshness state'' (fs_remote_id r) (fs_mount_id r) (dc_mount_id c))
        fs_remote_id (\<lambda>i. ''discovery commit contains duplicate freshness upsert `'' @ remote_id_str i @ ''`'')
        (dc_freshness_upserts c) {} = Inr fs"
    using assms unfolding commit_validate_def Let_def rbind_Inr_iff by (elim exE conjE) (rule that; simp)
  then show "distinct (map rr_remote_id (dc_observation_upserts c))" "distinct (map fs_remote_id (dc_freshness_upserts c))"
    unfolding collect_unique_Inr by blast+
qed

lemma insert_by_member:
  assumes "distinct (map key vs)" "v \<in> set vs"
  shows "bm_get (insert_by key vs m) (key v) = Some v"
  using assms
proof (induction vs arbitrary: m)
  case (Cons w vs)
  have "key v \<notin> key ` set vs \<Longrightarrow> bm_get (insert_by key vs m') (key v) = bm_get m' (key v)" for m'
    by (induction vs arbitrary: m') (auto simp: insert_by_simps bm_get_insert)
  with Cons show ?case by (auto simp: insert_by_simps bm_get_insert)
qed simp

lemma distinct_pair_key: "distinct (map f xs) \<Longrightarrow> distinct (map (\<lambda>x. (g x, f x)) xs)"
  by (induction xs) auto

lemma applied_records_found:
  assumes ok: "store_keyed s" and app: "apply_discovery parse_json c s = Inr s'"
  shows "r \<in> set (dc_observation_upserts c) \<Longrightarrow> get_remote_observation (rr_mount_id r) (rr_remote_id r) s' = Some r"
    "f \<in> set (dc_freshness_upserts c) \<Longrightarrow> get_freshness_state (fs_mount_id f) (fs_remote_id f) s' = Some f"
proof -
  obtain d E where s': "s' = installed c d E s" and valid: "commit_validate parse_json c = Inr ()"
    by (rule applied_facts[OF ok app]) (rule that)
  note distinct = commit_validate_distinct[OF valid, THEN distinct_pair_key]
  have "distinct (map remote_observation_key (dc_observation_upserts c))"
    "distinct (map freshness_state_key (dc_freshness_upserts c))"
    unfolding remote_observation_key_def[abs_def] freshness_state_key_def[abs_def] by (rule distinct)+
  then show "r \<in> set (dc_observation_upserts c) \<Longrightarrow> get_remote_observation (rr_mount_id r) (rr_remote_id r) s' = Some r"
    "f \<in> set (dc_freshness_upserts c) \<Longrightarrow> get_freshness_state (fs_mount_id f) (fs_remote_id f) s' = Some f"
    using insert_by_member[of remote_observation_key "dc_observation_upserts c" r]
      insert_by_member[of freshness_state_key "dc_freshness_upserts c" f]
    by (simp_all add: s' installed_def Let_def get_remote_observation_def get_freshness_state_def
        remote_observation_key_def freshness_state_key_def)
qed

section \<open>Replay\<close>

text \<open>What serde documents of the derived implementations: an encoded envelope parses to an object with its
  fields, and the object decodes to the envelope.\<close>

definition serde_roundtrips :: "replay_codec \<Rightarrow> bool" where
  "serde_roundtrips C \<longleftrightarrow>
     (\<forall>envelope text. rc_encode C envelope = Inr text \<longrightarrow> 0 \<le> re_state_version envelope \<longrightarrow>
        0 \<le> re_min_reader_version envelope \<longrightarrow>
        (\<exists>fields. rc_parse C text = Inr (JObject fields) \<and> rc_decode C (JObject fields) = Inr envelope
          \<and> map_of fields ''tag'' = Some (JString (re_tag envelope))
          \<and> map_of fields ''state_version'' = Some (JNumber (dec (nat (re_state_version envelope))))
          \<and> map_of fields ''min_reader_version'' = Some (JNumber (dec (nat (re_min_reader_version envelope))))))"

lemma dec_one: "dec (Suc 0) = ''1''"
  by (simp add: dec.simps digit_def char_of_def bit_Suc_0_iff)

lemma json_one: "json_as_i64 (JNumber (dec (nat 1))) = Some 1"
  by (simp add: dec_one json_as_i64_def is_ascii_digit_def undec_def)

lemma replay_decodes:
  assumes C: "serde_roundtrips C" and e: "encode_replay C change = Inr raw"
  shows "is_replay_envelope C raw" "decode_replay C raw = Inr (Some change)"
proof -
  let ?e = "\<lparr>re_tag = DISCOVERY_REPLAY_TAG, re_state_version = 1, re_min_reader_version = 1, re_change = change\<rparr>"
  have "rc_encode C ?e = Inr raw"
    using e by (auto simp: encode_replay_def DISCOVERY_REPLAY_VERSION_def split: sum.splits)
  with C obtain fields where f: "rc_parse C raw = Inr (JObject fields)" "rc_decode C (JObject fields) = Inr ?e"
    "map_of fields ''tag'' = Some (JString DISCOVERY_REPLAY_TAG)"
    "map_of fields ''state_version'' = Some (JNumber (dec (nat 1)))"
    "map_of fields ''min_reader_version'' = Some (JNumber (dec (nat 1)))"
    unfolding serde_roundtrips_def by fastforce
  have tag: "has_replay_tag (JObject fields)"
    by (simp add: has_replay_tag_def json_field_def json_as_str_def f(3))
  then show "is_replay_envelope C raw" by (simp add: is_replay_envelope_def f(1))
  have "Option.bind (json_field (JObject fields) ''state_version'') json_as_i64 = Some 1"
    "Option.bind (json_field (JObject fields) ''min_reader_version'') json_as_i64 = Some 1"
    by (simp_all only: json_field_def json.case f(4,5) bind.bind_lunit json_one)
  with tag show "decode_replay C raw = Inr (Some change)"
    by (simp only: decode_replay_def f(1,2) sum.case ok_or_def option.case rbind_def DISCOVERY_REPLAY_VERSION_def) simp
qed

text \<open>A replayed intent is the one whose change was recorded.\<close>

lemma replayed_intent_change:
  "replayed_intent mount i (change_of i intent) = Inr intent' \<Longrightarrow> intent' = intent"
  by (cases intent) (auto simp: replayed_intent_def change_of_def rbind_Inr_iff)

lemma replay_pending_others:
  "replay_pending C mount batch observations ps intents = Inr intents' \<Longrightarrow> i \<notin> fst ` set ps \<Longrightarrow>
   bm_get intents' i = bm_get intents i"
proof (induction ps arbitrary: intents)
  case (Cons p ps)
  show ?case
  proof (cases "replay_pending C mount batch observations ps intents = Inr intents'")
    case True
    with Cons show ?thesis by simp
  next
    case False
    then obtain intent where "replay_pending C mount batch observations ps (bm_insert (fst p) intent intents) = Inr intents'"
      using Cons.prems(1) by (auto simp: rbind_Inr_iff split: option.splits if_splits)
    from Cons.IH[OF this] Cons.prems(2) show ?thesis by (auto simp: bm_get_insert)
  qed
qed simp

lemma replay_pending_replays:
  assumes r: "recognized_pending C observations (i, f) = Some r" "decode_replay C (rr_raw_metadata_json r) = Inr (Some (change_of i intent))"
    and batch: "i \<notin> incoming_ids (br_changes batch)" "br_completeness batch = BatchIncremental"
  shows "replay_pending C mount batch observations ps intents = Inr intents' \<Longrightarrow> (i, f) \<in> set ps \<Longrightarrow>
    distinct (map fst ps) \<Longrightarrow> bm_get intents' i = Some intent"
proof (induction ps arbitrary: intents)
  case (Cons p ps)
  show ?case
  proof (cases "p = (i, f)")
    case True
    obtain intent' where i: "replayed_intent mount i (change_of i intent) = Inr intent'"
      "replay_pending C mount batch observations ps (bm_insert i intent' intents) = Inr intents'"
      using Cons.prems(1) by (auto simp: True r batch rbind_Inr_iff)
    have "i \<notin> fst ` set ps" using Cons.prems(3) by (simp add: True)
    from replay_pending_others[OF i(2) this] replayed_intent_change[OF i(1)] show ?thesis by (simp add: bm_get_insert)
  next
    case False
    obtain acc where "replay_pending C mount batch observations ps acc = Inr intents'"
      using Cons.prems(1) by (auto simp: rbind_Inr_iff split: option.splits if_splits)
    from Cons.IH[OF this] False Cons.prems(2,3) show ?thesis by simp
  qed
qed simp

lemma merged_replays:
  assumes reach: "reachable_store parse_json s" and C: "serde_roundtrips C"
    and r: "get_remote_observation (mc_mount_id mount) i s = Some r" and f: "get_freshness_state (mc_mount_id mount) i s = Some f"
    and rec: "records_change C (mc_mount_id mount) i intent r f"
    and batch: "i \<notin> incoming_ids (br_changes batch)" "br_completeness batch = BatchIncremental"
    and m: "merged_intents C (read_inputs s mount at now assessments safety) (read_observations s mount) batch = Inr intents"
  shows "bm_get intents i = Some intent"
proof -
  let ?I = "read_inputs s mount at now assessments safety"
  note d = replay_decodes[OF C rec[unfolded records_change_def, THEN conjunct2, THEN conjunct2, THEN conjunct1]]
  have get: "bm_get (in_freshness ?I) i = Some f" "bm_get (read_observations s mount) i = Some r"
    using r f by (simp_all only: read_inputs_get[OF reach])
  have "bm_sorted (in_freshness ?I)"
    using read_inputs_ok[OF reach, of mount at now assessments safety] by (auto simp: inputs_ok_def keyed_bm_sorted)
  then have mem: "(i, f) \<in> set (in_freshness ?I)" "distinct (map fst (in_freshness ?I))"
    using get(1) by (auto simp: bm_get_iff dest: bm_sorted_distinct)
  have "recognized_pending C (read_observations s mount) (i, f) = Some r"
    using rec get(2) d(1) by (simp add: recognized_pending_def records_change_def)
  note replays = replay_pending_replays[OF this d(2) batch _ mem]
  show ?thesis
    using m batch(2) replays
    by (auto simp: merged_intents_def rbind_Inr_iff omitted_intents_def Let_def)
qed

end
