(* ===== verification/Discovery_Plan_Theorems.thy ===== *)
theory Discovery_Plan_Theorems
  imports Discovery_Composition Discovery_Replay
begin

text \<open>
  What the discovery planner promises: it always answers, it spares local work, its commit is accepted,
  and what it holds back is not forgotten.
\<close>

section \<open>The planner answers\<close>


text \<open>C6: the grouping of projection actions is exact. It returns components whose actions together are the
  given ones, each once; actions of different components never overlap; the actions of one component are
  connected by overlaps; and the namespace roots of a component cover its actions and no more.\<close>

theorem components_exact:
  "\<exists>comps. group_discovery_projection_actions actions = Some comps
     \<and> mset (concat (map pc_actions comps)) = mset actions
     \<and> sorted_wrt components_apart comps \<and> list_all (component_ok actions) comps"
proof -
  obtain comps where "group_discovery_projection_actions actions = Some comps"
    "mset (concat (map pc_actions comps)) = mset actions" "sorted_wrt components_apart comps"
    "\<forall>c\<in>set comps. component_ok actions c" by (rule groups_exact)
  then show ?thesis by (auto simp: list_all_iff)
qed

section \<open>Local work is spared\<close>

lemma listed_existing:
  assumes "reachable_store parse_json s" "e \<in> set (list_entities (mc_mount_id mount) s)"
  shows "e \<in> set (bm_values (in_existing (read_inputs s mount at now assessments safety)))"
proof -
  let ?I = "read_inputs s mount at now assessments safety"
  have "get_entity (mc_mount_id mount) (er_remote_id e) s = Some e"
    using assms(2) keyed_values[OF reachable_keyed(1)[OF assms(1)], of e]
    unfolding set_list_entities[OF assms(1)] by (auto simp: get_entity_def)
  then have get: "bm_get (in_existing ?I) (er_remote_id e) = Some e" by (simp only: read_inputs_get(1)[OF assms(1)])
  have "bm_sorted (in_existing ?I)"
    using read_inputs_ok[OF assms(1), of mount at now assessments safety] by (auto simp: inputs_ok_def keyed_bm_sorted)
  from bm_values_iff[OF this] get show ?thesis by (simp only:) (rule exI)
qed

lemma edited_not_in_commit:
  assumes reach: "reachable_store parse_json s"
    and p: "planned C s mount batch job (read_inputs s mount at now assessments safety) intents holds out p"
    and e: "get_entity (mc_mount_id mount) i s = Some e" "er_hydration e = Dirty \<or> er_hydration e = Conflicted"
  shows "i \<notin> set (dc_entity_deletes (dp_commit p))"
    and "List.find (\<lambda>x. er_remote_id x = i) (dc_entity_upserts (dp_commit p)) = None"
proof -
  let ?I = "read_inputs s mount at now assessments safety"
  have ex: "explained ?I holds intents out" and h: "projection_component_holds ?I intents
      (prospective_projection_actions intents (in_existing ?I)) = Some holds"
    and c: "dp_commit p = commit_of_lists mount job (discovery_checkpoint mount (br_next_checkpoint batch)
      (in_observed_at ?I)) out" using p unfolding planned_def by blast+
  have existing: "bm_get (in_existing ?I) i = Some e" using e(1) by (simp only: read_inputs_get(1)[OF reach])
  have quiet: "projection_action_remote_id a \<noteq> i" if mem: "a \<in> set (dl_projection_actions out)" for a
  proof
    assume i: "projection_action_remote_id a = i"
    obtain c where "a \<in> set (pc_actions c)" "component_hold ?I intents c = None" by (rule action_not_held[OF ex mem h])
    moreover from this(1) i have "i \<in> component_expanded_ids ?I c"
      by (force simp: component_expanded_ids_def component_action_ids_def)
    ultimately have "\<not> hydrated_as ?I Dirty i \<and> \<not> hydrated_as ?I Conflicted i" using component_hold_None(4) by blast
    with e(2) existing show False by (auto simp: hydrated_as_def option_holds_def)
  qed
  have "ProjectDelete i k q \<notin> set (dl_projection_actions out)" "ProjectMove i k q r \<notin> set (dl_projection_actions out)"
    for k q r using quiet by (fastforce simp: projection_action_remote_id_def)+
  then have "i \<notin> set (dl_entity_deletes out)" "x \<in> set (dl_entity_upserts out) \<Longrightarrow> er_remote_id x \<noteq> i" for x
    using ex existing e(2) unfolding explained_def is_placeholder_def by fastforce+
  then show "i \<notin> set (dc_entity_deletes (dp_commit p))"
    "List.find (\<lambda>x. er_remote_id x = i) (dc_entity_upserts (dp_commit p)) = None"
    by (simp_all add: c commit_of_lists_def find_None_iff)
qed

text \<open>C3: no action of a discovery plan touches local work. An entity that the action is about, or that lies
  below or above one of its places, has no local changes and no conflict, no unsettled push, no recent
  edit, and no pending virtual mutation.\<close>

theorem actions_spare_local_work:
  assumes reach: "reachable_store parse_json s"
    and plan: "plan_batch_discovery C s mount batch at job assessments safety = Some (Inr p)"
    and now: "parse_freshness_timestamp at = Some now"
    and a: "a \<in> set (dp_projection_actions p)" and e: "e \<in> set (list_entities (mc_mount_id mount) s)" "reaches a e"
  shows "\<not> local_work s (mc_mount_id mount) now (er_remote_id e)"
proof -
  let ?I = "read_inputs s mount at now assessments safety"
  obtain intents holds out where p: "planned C s mount batch job ?I intents holds out p"
    using plan_facts[OF reach plan] now by (metis option.inject)
  have "a \<in> set (dl_projection_actions out)" "explained ?I holds intents out"
    "projection_component_holds ?I intents (prospective_projection_actions intents (in_existing ?I)) = Some holds"
    using p a unfolding planned_def by blast+
  then obtain c where c: "a \<in> set (pc_actions c)" "component_hold ?I intents c = None"
    "component_ok (prospective_projection_actions intents (in_existing ?I)) c" by (metis action_not_held)
  have "e \<in> set (bm_values (in_existing ?I))" by (rule listed_existing[OF reach e(1)])
  from reached_expanded[OF c(3,1) e(2) this] show ?thesis by (rule free_of_local_work[OF reach refl c(2)])
qed

lemma sample_states:
  "sample_entity ''a'' ''a.md'' \<in> set (list_entities (mc_mount_id sample_mount) edited_store)
   \<and> reaches (ProjectMove (RemoteId ''a'') Page [Normal ''a.md''] [Normal ''c.md'']) (sample_entity ''a'' ''a.md'')
   \<and> get_entity (mc_mount_id sample_mount) (RemoteId ''b'') edited_store = Some edited_entity
   \<and> er_hydration edited_entity = Dirty
   \<and> st_freshness_states edited_store = [] \<and> st_remote_observations edited_store = []"
  by code_simp

theorem actions_spare_local_work_witness:
  "\<exists>p. sample_planning = Some (Inr p)
     \<and> ProjectMove (RemoteId ''a'') Page [Normal ''a.md''] [Normal ''c.md''] \<in> set (dp_projection_actions p)
     \<and> \<not> local_work edited_store (MountId ''m'') 7 (RemoteId ''a'')"
proof -
  obtain p where p: "sample_planning = Some (Inr p)"
    "dp_projection_actions p = [ProjectMove (RemoteId ''a'') Page [Normal ''a.md''] [Normal ''c.md'']]"
    by (rule sample_plan)
  have a: "ProjectMove (RemoteId ''a'') Page [Normal ''a.md''] [Normal ''c.md''] \<in> set (dp_projection_actions p)"
    by (simp add: p(2))
  have "sample_entity ''a'' ''a.md'' \<in> set (list_entities (mc_mount_id sample_mount) edited_store)"
    and "reaches (ProjectMove (RemoteId ''a'') Page [Normal ''a.md''] [Normal ''c.md'']) (sample_entity ''a'' ''a.md'')"
    using sample_states by blast+
  then have "\<not> local_work edited_store (mc_mount_id sample_mount) 7 (er_remote_id (sample_entity ''a'' ''a.md''))"
    by (rule actions_spare_local_work[OF edited_store_reachable p(1) sample_now a])
  then show ?thesis using p(1) a by (auto simp: sample_mount_def mount_config_new_def sample_entity_def entity_record_new_def)
qed

text \<open>C5: local changes survive a discovery. When an entity has local changes or a conflict at the time of
  planning, then carrying out the plan and committing it, in whatever store it is committed, leaves the
  entity as it was: the commit neither deletes nor replaces it.\<close>

theorem local_changes_survive:
  assumes reach: "reachable_store parse_json s"
    and plan: "plan_batch_discovery C s mount batch at job assessments safety = Some (Inr p)"
    and e: "get_entity (mc_mount_id mount) i s = Some e" "er_hydration e = Dirty \<or> er_hydration e = Conflicted"
    and commit: "reachable_store parse_json s2" "commit_discovery_transaction parse_json tx t s2 = (Inr q, s3)"
      "tc_commit (tr_commit q) = dp_commit p"
  shows "get_entity (mc_mount_id mount) i s3 = get_entity (mc_mount_id mount) i s2"
proof -
  obtain now intents holds out where p: "planned C s mount batch job
      (read_inputs s mount at now assessments safety) intents holds out p"
    by (rule plan_facts[OF reach plan])
  obtain s1 where s1: "store_keyed s2" "apply_discovery parse_json (dp_commit p) s2 = Inr s1"
    "s3 = s1\<lparr>st_discovery_transactions := bm_insert tx q (st_discovery_transactions s1)\<rparr>"
    by (rule committed_from[OF commit(1,2) commit(3)[symmetric]])
  have "get_entity (mc_mount_id mount) i s1 = get_entity (mc_mount_id mount) i s2"
    unfolding applied_entities(2)[OF s1(1,2)] by (simp add: edited_not_in_commit[OF reach p e])
  then show ?thesis by (simp add: s1(3) get_entity_def)
qed

theorem local_changes_survive_witness:
  "\<exists>p q s4. sample_planning = Some (Inr p)
     \<and> commit_discovery_transaction (rc_parse sample_codec) sample_tx ''t3'' (sample_carried p) = (Inr q, s4)
     \<and> get_entity (MountId ''m'') (RemoteId ''b'') s4 = get_entity (MountId ''m'') (RemoteId ''b'') (sample_carried p)"
proof -
  obtain p where p: "sample_planning = Some (Inr p)" by (rule sample_plan)
  obtain q s4 where q: "commit_discovery_transaction (rc_parse sample_codec) sample_tx ''t3'' (sample_carried p) = (Inr q, s4)"
    "tc_commit (tr_commit q) = dp_commit p" by (rule sample_committed[OF p])
  have "get_entity (mc_mount_id sample_mount) (RemoteId ''b'') edited_store = Some edited_entity"
    "er_hydration edited_entity = Dirty \<or> er_hydration edited_entity = Conflicted" using sample_states by blast+
  from local_changes_survive[OF edited_store_reachable p this sample_carried_reachable q] p q(1) show ?thesis
    by (auto simp: sample_mount_def mount_config_new_def)
qed

section \<open>Planned commits are accepted\<close>

text \<open>C2: planning and committing fit together. When the mount has no active transaction and its plan is
  reserved, carried out and marked so with no other change to the mount in between, then the commit
  succeeds: no check of the store rejects what the planner has proposed, whatever batch and state it was
  planned from.\<close>

theorem planned_commit_accepted:
  assumes reach: "reachable_store (rc_parse C) s" and mount: "get_mount (mc_mount_id mount) s = Some mount"
    and plan: "plan_batch_discovery C s mount batch at job assessments safety = Some (Inr p)"
    and res: "capture_discovery_reservation (mc_mount_id mount) s = Inr res"
    and free: "may_begin i (mc_mount_id mount) s" "t0 \<noteq> []"
    and s3: "s3 = snd (mark_discovery_transaction_projected i TxApplying t2
      (snd (mark_discovery_transaction_applying i t1
        (snd (reserve_discovery_transaction (rc_parse C) (prepared_for i p mount plan_json res t0) s)))))"
  shows "\<exists>q s4. commit_discovery_transaction (rc_parse C) i t3 s3 = (Inr q, s4) \<and> tc_commit (tr_commit q) = dp_commit p"
  by (rule plan_committed[OF assms])

theorem planned_commit_accepted_witness:
  "\<exists>p q s4. sample_planning = Some (Inr p)
     \<and> commit_discovery_transaction (rc_parse sample_codec) sample_tx ''t3'' (sample_carried p) = (Inr q, s4)
     \<and> tc_commit (tr_commit q) = dp_commit p"
proof -
  obtain p where p: "sample_planning = Some (Inr p)" by (rule sample_plan)
  from planned_commit_accepted[OF edited_store_reachable sample_mount_stored p sample_captured sample_may_begin _
      sample_carried_def] p show ?thesis by (metis list.distinct(1))
qed

section \<open>Held changes are replayed\<close>

text \<open>C4: a change that is held back is not lost. Once the plan that holds it is committed, the next
  incremental batch that says nothing about the entity has the same change as an intent again, decoded
  from the observation that the commit stored.\<close>

theorem held_change_replayed:
  assumes reach: "reachable_store parse_json s"
    and plan: "plan_batch_discovery C s mount batch at job assessments safety = Some (Inr p)" and h: "h \<in> set (dp_held p)"
    and commit: "reachable_store parse_json s2" "commit_discovery_transaction parse_json tx t s2 = (Inr q, s3)"
      "tc_commit (tr_commit q) = dp_commit p"
    and C: "serde_roundtrips C" and later: "hi_remote_id h \<notin> incoming_ids (br_changes batch')"
      "br_completeness batch' = BatchIncremental"
      "merged_intents C (read_inputs s3 mount at' now' assessments' safety') (read_observations s3 mount) batch' = Inr intents'"
  shows "\<exists>now intents intent.
     merged_intents C (read_inputs s mount at now assessments safety) (read_observations s mount) batch = Inr intents
   \<and> bm_get intents (hi_remote_id h) = Some intent \<and> bm_get intents' (hi_remote_id h) = Some intent"
proof -
  obtain now intents holds out where p: "planned C s mount batch job
      (read_inputs s mount at now assessments safety) intents holds out p" by (rule plan_facts[OF reach plan])
  obtain intent r f where r: "bm_get intents (hi_remote_id h) = Some intent"
    "r \<in> set (dc_observation_upserts (dp_commit p))" "f \<in> set (dc_freshness_upserts (dp_commit p))"
    "records_change C (mc_mount_id mount) (hi_remote_id h) intent r f" by (rule held_recorded[OF p h])
  obtain s1 where s1: "store_keyed s2" "apply_discovery parse_json (dp_commit p) s2 = Inr s1"
    "s3 = s1\<lparr>st_discovery_transactions := bm_insert tx q (st_discovery_transactions s1)\<rparr>"
    by (rule committed_from[OF commit(1,2) commit(3)[symmetric]])
  have "get_remote_observation (mc_mount_id mount) (hi_remote_id h) s3 = Some r"
    "get_freshness_state (mc_mount_id mount) (hi_remote_id h) s3 = Some f"
    using applied_records_found(1)[OF s1(1,2) r(2)] applied_records_found(2)[OF s1(1,2) r(3)] r(4)
    by (auto simp: s1(3) records_change_def get_remote_observation_def get_freshness_state_def)
  moreover have "reachable_store parse_json s3"
    using reachable_transaction_steps(4)[OF commit(1), of tx t] by (simp add: commit(2))
  ultimately have "bm_get intents' (hi_remote_id h) = Some intent" using merged_replays C r(4) later by blast
  moreover have "merged_intents C (read_inputs s mount at now assessments safety) (read_observations s mount) batch = Inr intents"
    using p unfolding planned_def by blast
  ultimately show ?thesis using r(1) by blast
qed

text \<open>The sample, committed, and a later batch without changes.\<close>

definition later_batch :: batch_observe_result where
  "later_batch = batch_incremental [] \<lparr>cc_state_version = 1, cc_min_reader_version = 1, cc_state_json = ''{}''\<rparr>"

definition no_refresh :: discovery_safety_snapshot where
  "no_refresh = \<lparr>active_child_refresh_namespace_roots = {}\<rparr>"

lemma sample_fields:
  assumes "rc_parse sample_codec raw = Inr (sample_value name)" "rc_decode sample_codec (sample_value name) = Inr (replay_of change)"
  shows "\<exists>fields. rc_parse sample_codec raw = Inr (JObject fields) \<and> rc_decode sample_codec (JObject fields) = Inr (replay_of change)
    \<and> map_of fields ''tag'' = Some (JString (re_tag (replay_of change)))
    \<and> map_of fields ''state_version'' = Some (JNumber (dec (nat (re_state_version (replay_of change)))))
    \<and> map_of fields ''min_reader_version'' = Some (JNumber (dec (nat (re_min_reader_version (replay_of change)))))"
proof -
  show ?thesis using assms dec_one by (auto simp: sample_value_def replay_of_def)
qed

lemma sample_roundtrips: "serde_roundtrips sample_codec"
  unfolding serde_roundtrips_def
proof (intro allI impI)
  fix envelope raw
  assume "rc_encode sample_codec envelope = Inr raw"
  then consider "envelope = replay_of (ReplayUpsert moved_entry)" "raw = ''A''"
    | "envelope = replay_of (ReplayTombstone (RemoteId ''b''))" "raw = ''B''"
    by (auto simp: sample_codec_def split: if_splits)
  then show "\<exists>fields. rc_parse sample_codec raw = Inr (JObject fields) \<and> rc_decode sample_codec (JObject fields) = Inr envelope
    \<and> map_of fields ''tag'' = Some (JString (re_tag envelope))
    \<and> map_of fields ''state_version'' = Some (JNumber (dec (nat (re_state_version envelope))))
    \<and> map_of fields ''min_reader_version'' = Some (JNumber (dec (nat (re_min_reader_version envelope))))"
  proof cases
    case 1
    show ?thesis unfolding 1 by (rule sample_fields[where name = "''A''"]) (simp_all add: sample_codec_def)
  next
    case 2
    show ?thesis unfolding 2 by (rule sample_fields[where name = "''B''"]) (simp_all add: sample_codec_def sample_value_def)
  qed
qed

lemma sample_carried_records:
  "st_freshness_states (sample_carried p) = []" "st_remote_observations (sample_carried p) = []"
proof -
  let ?same = "\<lambda>s s'. st_freshness_states s' = st_freshness_states s \<and> st_remote_observations s' = st_remote_observations s"
  have adv: "advances s s' \<Longrightarrow> ?same s s'" for s s'
    unfolding advances_def by (elim disjE exE conjE) simp_all
  have res: "?same s (snd (reserve_discovery_transaction parse_json P s))" for parse_json P s
    using reserve_cases[OF prod.collapse[symmetric], of parse_json P s] by auto
  have "?same edited_store (sample_carried p)"
    unfolding sample_carried_def
    using adv[OF transaction_step_advances(3)] adv[OF transaction_step_advances(1)] res by simp
  moreover have "st_freshness_states edited_store = []" "st_remote_observations edited_store = []" using sample_states by blast+
  ultimately show "st_freshness_states (sample_carried p) = []" "st_remote_observations (sample_carried p) = []" by simp_all
qed

lemma sample_replays:
  "filter (\<lambda>r. fs_mount_id r = MountId ''m'') (bm_values (insert_by freshness_state_key sample_freshness []))
     = sample_freshness
   \<and> sort_key (\<lambda>r. (rr_projected_path r, remote_id_str (rr_remote_id r)))
      (filter (\<lambda>r. rr_mount_id r = MountId ''m'') (bm_values (insert_by remote_observation_key sample_observations [])))
     = rev sample_observations
   \<and> replay_pending sample_codec sample_mount later_batch
      (bm_collect (map (\<lambda>r. (rr_remote_id r, r)) (rev sample_observations)))
      (bm_collect (map (\<lambda>f. (fs_remote_id f, f)) sample_freshness)) (incoming_intents (br_changes later_batch))
     = Inr [(RemoteId ''b'', TombstoneIntent)]"
  by code_simp

lemma sample_replayed:
  assumes p: "sample_planning = Some (Inr p)" "dc_entity_deletes (dp_commit p) = []"
    "dc_observation_upserts (dp_commit p) = sample_observations" "dc_freshness_upserts (dp_commit p) = sample_freshness"
    and q: "commit_discovery_transaction (rc_parse sample_codec) sample_tx ''t3'' (sample_carried p) = (Inr q, s4)"
    "tc_commit (tr_commit q) = dp_commit p"
  shows "merged_intents sample_codec (read_inputs s4 sample_mount ''9'' 9 [] no_refresh) (read_observations s4 sample_mount)
    later_batch = Inr [(RemoteId ''b'', TombstoneIntent)]"
proof -
  obtain s1 where s1: "store_keyed (sample_carried p)" "apply_discovery (rc_parse sample_codec) (dp_commit p) (sample_carried p) = Inr s1"
    "s4 = s1\<lparr>st_discovery_transactions := bm_insert sample_tx q (st_discovery_transactions s1)\<rparr>"
    by (rule committed_from[OF sample_carried_reachable q(1) q(2)[symmetric]])
  obtain d E where "s1 = installed (dp_commit p) d E (sample_carried p)"
    by (rule applied_facts[OF s1(1,2)]) (rule that)
  then have "st_freshness_states s4 = insert_by freshness_state_key sample_freshness []"
    "st_remote_observations s4 = insert_by remote_observation_key sample_observations []"
    by (simp_all add: s1(3) installed_def Let_def without_deleted_def p(2-4) sample_carried_records)
  moreover have "filter (\<lambda>r. fs_mount_id r = MountId ''m'') (bm_values (insert_by freshness_state_key sample_freshness [])) =
      sample_freshness" using sample_replays by blast
  moreover have "sort_key (\<lambda>r. (rr_projected_path r, remote_id_str (rr_remote_id r)))
      (filter (\<lambda>r. rr_mount_id r = MountId ''m'') (bm_values (insert_by remote_observation_key sample_observations []))) =
      rev sample_observations" using sample_replays by blast
  moreover have "mc_mount_id sample_mount = MountId ''m''" by (simp add: sample_mount_def mount_config_new_def)
  ultimately have "in_freshness (read_inputs s4 sample_mount ''9'' 9 [] no_refresh) =
      bm_collect (map (\<lambda>f. (fs_remote_id f, f)) sample_freshness)"
    "read_observations s4 sample_mount = bm_collect (map (\<lambda>r. (rr_remote_id r, r)) (rev sample_observations))"
    by (simp_all add: read_inputs_def read_observations_def Let_def list_freshness_states_def list_remote_observations_def)
  moreover have "replay_pending sample_codec sample_mount later_batch
      (bm_collect (map (\<lambda>r. (rr_remote_id r, r)) (rev sample_observations)))
      (bm_collect (map (\<lambda>f. (fs_remote_id f, f)) sample_freshness)) (incoming_intents (br_changes later_batch)) =
      Inr [(RemoteId ''b'', TombstoneIntent)]" using sample_replays by blast
  moreover have "in_mount (read_inputs s4 sample_mount ''9'' 9 [] no_refresh) = sample_mount"
    by (simp add: read_inputs_def Let_def)
  ultimately show ?thesis
    by (simp add: merged_intents_def rbind_def Let_def omitted_intents_def later_batch_def batch_incremental_def
        validate_merged_intent_paths_def)
qed

theorem held_change_replayed_witness:
  "\<exists>p q s4 intents'. sample_planning = Some (Inr p)
     \<and> commit_discovery_transaction (rc_parse sample_codec) sample_tx ''t3'' (sample_carried p) = (Inr q, s4)
     \<and> merged_intents sample_codec (read_inputs s4 sample_mount ''9'' 9 [] no_refresh)
         (read_observations s4 sample_mount) later_batch = Inr intents'
     \<and> bm_get intents' (RemoteId ''b'') \<noteq> None"
proof -
  obtain p where p: "sample_planning = Some (Inr p)"
    "dp_held p = [\<lparr>hi_remote_id = RemoteId ''b'', hi_change = ChangeKindDelete, hi_reason = HoldDirty\<rparr>]"
    "dc_entity_deletes (dp_commit p) = []" "dc_observation_upserts (dp_commit p) = sample_observations"
    "dc_freshness_upserts (dp_commit p) = sample_freshness" by (rule sample_plan)
  obtain q s4 where q: "commit_discovery_transaction (rc_parse sample_codec) sample_tx ''t3'' (sample_carried p) = (Inr q, s4)"
    "tc_commit (tr_commit q) = dp_commit p" by (rule sample_committed[OF p(1)])
  let ?h = "\<lparr>hi_remote_id = RemoteId ''b'', hi_change = ChangeKindDelete, hi_reason = HoldDirty\<rparr>"
  note merged = sample_replayed[OF p(1,3-5) q]
  have "?h \<in> set (dp_held p)" "hi_remote_id ?h \<notin> incoming_ids (br_changes later_batch)"
    "br_completeness later_batch = BatchIncremental"
    by (simp_all add: p(2) later_batch_def batch_incremental_def incoming_ids_def)
  from held_change_replayed[OF edited_store_reachable p(1) this(1) sample_carried_reachable q sample_roundtrips this(2,3) merged]
  show ?thesis using p(1) q(1) merged by (metis option.distinct(1) held_discovery_item.select_convs(1))
qed

end
