(* ===== verification/Explain.thy ===== *)
theory Explain
  imports Block_Diff_Identity
begin

text \<open>
  \<open>locality-core/src/explain.rs\<close>: what a moved remote tree means for the user, computed from the
  block plans of the local and the remote document against the synced shadow. The lemmas show what
  each recommended action rests on and that an unedited local file is never in the way.
\<close>

record remote_change_issue =
  rci_code :: string
  rci_message :: string

record remote_change_document =
  rcd_document :: canonical_document
  rcd_body_start_line :: usize

datatype remote_change_input =
    InputAvailable remote_change_document
  | InputUnavailable remote_change_issue

definition input_available :: "canonical_document \<Rightarrow> usize \<Rightarrow> remote_change_input" where
  "input_available doc line = InputAvailable \<lparr>rcd_document = doc, rcd_body_start_line = line\<rparr>"

definition input_unavailable :: "string \<Rightarrow> string \<Rightarrow> remote_change_input" where
  "input_unavailable code msg = InputUnavailable \<lparr>rci_code = code, rci_message = msg\<rparr>"

datatype remote_change_state =
    AllSynced | LocalChangedOnly | RemoteChangedOnly | BothChanged | NeedsReview

definition change_state_as_str :: "remote_change_state \<Rightarrow> string" where
  "change_state_as_str s =
     (case s of
        AllSynced \<Rightarrow> ''all_synced'' | LocalChangedOnly \<Rightarrow> ''local_changed_only''
      | RemoteChangedOnly \<Rightarrow> ''remote_changed_only'' | BothChanged \<Rightarrow> ''both_changed''
      | NeedsReview \<Rightarrow> ''needs_review'')"

datatype remote_change_action = NoAction | PushLocalChanges | SafeToFastForward | ReviewBeforePush

definition change_action_as_str :: "remote_change_action \<Rightarrow> string" where
  "change_action_as_str a =
     (case a of
        NoAction \<Rightarrow> ''none'' | PushLocalChanges \<Rightarrow> ''push_local_changes''
      | SafeToFastForward \<Rightarrow> ''safe_to_fast_forward'' | ReviewBeforePush \<Rightarrow> ''review_before_push'')"

record remote_change_side =
  rcs_changed :: bool
  rcs_plan :: "push_plan option"
  rcs_issue :: "remote_change_issue option"

record remote_change_explanation =
  rce_state :: remote_change_state
  rce_action :: remote_change_action
  rce_local :: remote_change_side
  rce_remote :: remote_change_side
  rce_issues :: "remote_change_issue list"

definition action_for_state :: "remote_change_state \<Rightarrow> remote_change_action" where
  "action_for_state s =
     (case s of
        AllSynced \<Rightarrow> NoAction
      | LocalChangedOnly \<Rightarrow> PushLocalChanges
      | RemoteChangedOnly \<Rightarrow> SafeToFastForward
      | BothChanged \<Rightarrow> ReviewBeforePush
      | NeedsReview \<Rightarrow> ReviewBeforePush)"

definition explain_side :: "'n yaml_lib \<Rightarrow> shadow_document \<Rightarrow> remote_change_input \<Rightarrow> remote_change_side" where
  "explain_side Y shadow input =
     (case input of
        InputUnavailable found \<Rightarrow> \<lparr>rcs_changed = False, rcs_plan = None, rcs_issue = Some found\<rparr>
      | InputAvailable doc \<Rightarrow>
          (case engine_plan_push Y (with_edited_body_start_line engine_new (rcd_body_start_line doc))
                  shadow (rcd_document doc) of
             Inr plan \<Rightarrow>
               \<lparr>rcs_changed = (operations plan \<noteq> [] \<or> degradations plan \<noteq> []), rcs_plan = Some plan,
                rcs_issue = None\<rparr>
           | Inl error \<Rightarrow>
               \<lparr>rcs_changed = True, rcs_plan = None,
                rcs_issue = Some \<lparr>rci_code = ''change_plan_failed'', rci_message = error_display error\<rparr>\<rparr>))"

definition explain_remote_change ::
    "'n yaml_lib \<Rightarrow> shadow_document \<Rightarrow> remote_change_input \<Rightarrow> remote_change_input \<Rightarrow> remote_change_explanation" where
  "explain_remote_change Y shadow local_input remote_input =
     (let l = explain_side Y shadow local_input;
          r = explain_side Y shadow remote_input;
          found = List.map_filter rcs_issue [l, r];
          state = (if found = [] then
              (case (rcs_changed l, rcs_changed r) of
                 (False, False) \<Rightarrow> AllSynced
               | (True, False) \<Rightarrow> LocalChangedOnly
               | (False, True) \<Rightarrow> RemoteChangedOnly
               | (True, True) \<Rightarrow> BothChanged)
            else NeedsReview)
      in \<lparr>rce_state = state, rce_action = action_for_state state, rce_local = l, rce_remote = r,
          rce_issues = found\<rparr>)"

text \<open>A side that was planned without a difference.\<close>

definition side_unchanged :: "'n yaml_lib \<Rightarrow> shadow_document \<Rightarrow> remote_change_input \<Rightarrow> bool" where
  "side_unchanged Y shadow input \<longleftrightarrow>
     (\<exists>doc plan. input = InputAvailable doc
        \<and> plan_block_diff Y shadow (rcd_document doc) (rcd_body_start_line doc) = Inr plan
        \<and> operations plan = [] \<and> degradations plan = [])"

definition side_changed :: "'n yaml_lib \<Rightarrow> shadow_document \<Rightarrow> remote_change_input \<Rightarrow> bool" where
  "side_changed Y shadow input \<longleftrightarrow>
     (\<exists>doc plan. input = InputAvailable doc
        \<and> plan_block_diff Y shadow (rcd_document doc) (rcd_body_start_line doc) = Inr plan
        \<and> (operations plan \<noteq> [] \<or> degradations plan \<noteq> []))"

lemma explain_side_iff:
  "side_unchanged Y shadow input \<longleftrightarrow>
     rcs_issue (explain_side Y shadow input) = None \<and> \<not> rcs_changed (explain_side Y shadow input)"
  "side_changed Y shadow input \<longleftrightarrow>
     rcs_issue (explain_side Y shadow input) = None \<and> rcs_changed (explain_side Y shadow input)"
  by (auto simp: side_unchanged_def side_changed_def explain_side_def engine_plan_push_def
      with_edited_body_start_line_def engine_new_def split: remote_change_input.splits sum.splits)

lemma explanation_cases:
  "rce_action (explain_remote_change Y shadow l r) =
     (if side_unchanged Y shadow l \<and> side_unchanged Y shadow r then NoAction
      else if side_changed Y shadow l \<and> side_unchanged Y shadow r then PushLocalChanges
      else if side_unchanged Y shadow l \<and> side_changed Y shadow r then SafeToFastForward
      else ReviewBeforePush)"
  by (auto simp: explain_remote_change_def Let_def explain_side_iff action_for_state_def
      List.map_filter_def split: bool.splits option.splits)

text \<open>The recommended action is exact. Nothing is to be done exactly when both sides were planned
  without a difference; a push or a fast-forward is recommended exactly when the one side was planned
  with a difference and the other without; in every other case, an unavailable side or a failed plan
  included, the user is asked to review.\<close>

theorem explanation_exact:
  "(rce_action (explain_remote_change Y shadow l r) = NoAction \<longleftrightarrow>
      side_unchanged Y shadow l \<and> side_unchanged Y shadow r)
   \<and> (rce_action (explain_remote_change Y shadow l r) = PushLocalChanges \<longleftrightarrow>
      side_changed Y shadow l \<and> side_unchanged Y shadow r)
   \<and> (rce_action (explain_remote_change Y shadow l r) = SafeToFastForward \<longleftrightarrow>
      side_unchanged Y shadow l \<and> side_changed Y shadow r)"
  unfolding explanation_cases by (auto simp: explain_side_iff)

text \<open>An unedited local file never blocks a remote change. When the local document is the synced
  one, whatever the remote document, the explanation is to do nothing or to fast-forward, unless the
  remote side itself is unavailable or cannot be planned.\<close>

theorem unedited_local_fast_forwards:
  assumes "from_synced_body e body L ids = Inr sh"
    and "directives_complete (segment_markdown_body body M)"
    and "distinct (map sb_remote_id (filter (\<lambda>b. kind_is_directive (sb_kind b)) (sd_blocks sh)))"
    and "fence_free (norm_frontmatter fm)" "parse_frontmatter Y (norm_frontmatter fm) = Inr f"
    and "\<And>v. value_eq Y v v"
    and "rcs_issue (explain_side Y (with_frontmatter sh fm) r) = None"
  shows "rce_action (explain_remote_change Y (with_frontmatter sh fm) (input_available (cd_new fm body) M) r) =
    (if side_changed Y (with_frontmatter sh fm) r then SafeToFastForward else NoAction)"
proof -
  have "plan_block_diff Y (with_frontmatter sh fm) (cd_new fm body) M = Inr (plan_new [e] [])"
    by (rule unedited_plan[OF assms(1-3) _ _ assms(4-6)]) (simp_all add: cd_new_def)
  then have "side_unchanged Y (with_frontmatter sh fm) (input_available (cd_new fm body) M)"
    by (simp add: side_unchanged_def input_available_def plan_new_def)
  with assms(7) show ?thesis by (auto simp: explanation_cases explain_side_iff)
qed

theorem unedited_local_fast_forwards_witness:
  "\<exists>sh. from_synced_body (RemoteId ''e'') ''A'' 4 [RemoteId ''b''] = Inr sh \<and>
     rce_action (explain_remote_change title_yaml (with_frontmatter sh (''title: A'' @ [CHR 0x0A]))
       (input_available (cd_new (''title: A'' @ [CHR 0x0A]) ''A'') 4)
       (input_available (cd_new (''title: A'' @ [CHR 0x0A]) ''A'') 4)) = NoAction"
proof -
  let ?fm = "''title: A'' @ [CHR 0x0A]"
  have body: "length (segment_markdown_body ''A'' 4) = 1 \<and> directives_complete (segment_markdown_body ''A'' 4)
      \<and> \<not> isl (from_synced_body (RemoteId ''e'') ''A'' 4 [RemoteId ''b''])
      \<and> parse_frontmatter title_yaml ?fm = Inr \<lparr>fm_loc = None, fm_title = Some ''A'', fm_properties = []\<rparr>"
    by code_simp
  have seg: "length (segment_markdown_body ''A'' 4) = 1" "directives_complete (segment_markdown_body ''A'' 4)"
    using body by blast+
  have "\<not> isl (from_synced_body (RemoteId ''e'') ''A'' 4 [RemoteId ''b''])" using body by blast
  then obtain sh where sh: "from_synced_body (RemoteId ''e'') ''A'' 4 [RemoteId ''b''] = Inr sh"
    using not_isl_Inr by blast
  have "length (sd_blocks sh) = 1" using from_synced_body_blocks(5)[OF sh] seg(1) by simp
  then have d: "distinct (map sb_remote_id (filter (\<lambda>b. kind_is_directive (sb_kind b)) (sd_blocks sh)))"
    by (cases "sd_blocks sh") auto
  have n: "norm_frontmatter ?fm = ?fm" by (simp add: norm_frontmatter_def terminated_def suffix_def)
  have ff: "fence_free (norm_frontmatter ?fm)"
    unfolding n by (simp add: fence_free_def fence_def trim_line_ending_def trim_end_matches_def)
  have pf: "parse_frontmatter title_yaml (norm_frontmatter ?fm) =
      Inr \<lparr>fm_loc = None, fm_title = Some ''A'', fm_properties = []\<rparr>"
    unfolding n using body by blast
  have v: "value_eq title_yaml v v" for v by (simp add: title_yaml_def)
  have plan: "plan_block_diff title_yaml (with_frontmatter sh ?fm) (cd_new ?fm ''A'') 4 =
      Inr (plan_new [RemoteId ''e''] [])"
    by (rule unedited_plan[OF sh seg(2) d _ _ ff pf v]) (simp_all add: cd_new_def)
  then have un: "side_unchanged title_yaml (with_frontmatter sh ?fm) (input_available (cd_new ?fm ''A'') 4)"
    by (simp add: side_unchanged_def input_available_def plan_new_def)
  then show ?thesis
    using unedited_local_fast_forwards[OF sh seg(2) d ff pf v, of "input_available (cd_new ?fm ''A'') 4"] sh
    by (auto simp: explain_side_iff)
qed

end
