(* ===== verification/Export_Labels.thy ===== *)
theory Export_Labels
  imports Protocol_Freshness "HOL-Library.Multiset"
begin

text \<open>
  The labels of \<open>locality-protocol/src/lib.rs\<close> on the wire: file kinds, source actions, the canonical
  JSON array of a set of actions, and the PAX records that describe one exported file. Each encoding is
  canonical: it is read back as written, and nothing else is read.
\<close>

section \<open>Parsing of the standard library\<close>

text \<open>\<open>str::parse::<u32>\<close>: an optional plus sign, then decimal digits without overflow.\<close>

definition parse_u32 :: "string \<Rightarrow> u32 option" where
  "parse_u32 s =
     (let ds = (case s of c # cs \<Rightarrow> if c = CHR ''+'' then cs else s | [] \<Rightarrow> s) in
      if ds \<noteq> [] \<and> list_all is_ascii_digit ds \<and> undec ds < 2 ^ 32 then Some (of_nat (undec ds)) else None)"

text \<open>\<open>str::split\<close> by a string.\<close>

function split_str :: "string \<Rightarrow> string \<Rightarrow> string list" where
  "split_str p s =
     (case str_find p s of
        None \<Rightarrow> [s]
      | Some i \<Rightarrow> if p = [] then [s] else take i s # split_str p (drop (i + length p) s))"
  by pat_completeness auto
termination
proof (relation "measure (length \<circ> snd)", goal_cases)
  case (2 p s i)
  then have "prefix p (drop i s)" "p \<noteq> []" using str_find_Some by auto
  then have "length p \<le> length (drop i s)" "0 < length p" by (auto dest: prefix_length_le)
  then have "length p \<le> length s - i" "0 < length p" by simp_all
  then have "length s - (i + length p) < length s" by arith
  then show ?case by simp
qed simp

declare split_str.simps [simp del]

section \<open>File kinds and actions\<close>

definition projection_file_kind_wire_label :: "projection_file_kind \<Rightarrow> string" where
  "projection_file_kind_wire_label k =
     (case k of
        FileMarkdown \<Rightarrow> ''markdown'' | FileText \<Rightarrow> ''text'' | FileJson \<Rightarrow> ''json''
      | FileYaml \<Rightarrow> ''yaml'' | FileBinary \<Rightarrow> ''binary'' | FileDirectory \<Rightarrow> ''directory'')"

definition projection_file_kind_from_wire_label :: "string \<Rightarrow> projection_file_kind option" where
  "projection_file_kind_from_wire_label v =
     (if v = ''markdown'' then Some FileMarkdown
      else if v = ''text'' then Some FileText
      else if v = ''json'' then Some FileJson
      else if v = ''yaml'' then Some FileYaml
      else if v = ''binary'' then Some FileBinary
      else if v = ''directory'' then Some FileDirectory
      else None)"

definition source_action_wire_label :: "source_action \<Rightarrow> string" where
  "source_action_wire_label a =
     (case a of
        ActRead \<Rightarrow> ''read'' | ActSearch \<Rightarrow> ''search'' | ActDownloadAttachment \<Rightarrow> ''download_attachment''
      | ActCreate \<Rightarrow> ''create'' | ActUpdate \<Rightarrow> ''update'' | ActMove \<Rightarrow> ''move'' | ActDelete \<Rightarrow> ''delete''
      | ActComment \<Rightarrow> ''comment'' | ActUpdateProperties \<Rightarrow> ''update_properties''
      | ActManageSchema \<Rightarrow> ''manage_schema'')"

definition source_action_from_wire_label :: "string \<Rightarrow> source_action option" where
  "source_action_from_wire_label v =
     (if v = ''read'' then Some ActRead
      else if v = ''search'' then Some ActSearch
      else if v = ''download_attachment'' then Some ActDownloadAttachment
      else if v = ''create'' then Some ActCreate
      else if v = ''update'' then Some ActUpdate
      else if v = ''move'' then Some ActMove
      else if v = ''delete'' then Some ActDelete
      else if v = ''comment'' then Some ActComment
      else if v = ''update_properties'' then Some ActUpdateProperties
      else if v = ''manage_schema'' then Some ActManageSchema
      else None)"

definition source_action_allows_mutation :: "source_action \<Rightarrow> bool" where
  "source_action_allows_mutation a \<longleftrightarrow> \<not> (a = ActRead \<or> a = ActSearch \<or> a = ActDownloadAttachment)"

text \<open>The labels of a set, in byte order.\<close>

definition sorted_labels :: "source_action set \<Rightarrow> string list" where
  "sorted_labels A = sort (map source_action_wire_label (filter (\<lambda>a. a \<in> A) all_source_actions))"

definition label_separator :: string where
  "label_separator = [CHR 0x22, CHR '','', CHR 0x22]"

definition canonical_effective_actions_pax_value :: "source_action set \<Rightarrow> string option" where
  "canonical_effective_actions_pax_value A =
     (if A = {} then None
      else Some ([CHR ''['', CHR 0x22] @ join label_separator (sorted_labels A) @ [CHR 0x22, CHR '']'']))"

fun insert_actions :: "source_action set \<Rightarrow> string list \<Rightarrow> source_action set option" where
  "insert_actions A [] = Some A"
| "insert_actions A (l # ls) =
     (case source_action_from_wire_label l of
        None \<Rightarrow> None
      | Some a \<Rightarrow> if a \<in> A then None else insert_actions (insert a A) ls)"

definition source_actions_from_canonical_pax_value :: "string \<Rightarrow> source_action set option" where
  "source_actions_from_canonical_pax_value v =
     Option.bind (Option.bind (strip_prefix [CHR ''['', CHR 0x22] v) (strip_suffix [CHR 0x22, CHR '']''])) (\<lambda>labels.
     Option.bind (insert_actions {} (split_str label_separator labels)) (\<lambda>A.
     if canonical_effective_actions_pax_value A = Some v then Some A else None))"

section \<open>PAX records of a file\<close>

definition PAX_SOURCE_CONNECTION_ID :: string where "PAX_SOURCE_CONNECTION_ID = ''locality.source_connection_id''"
definition PAX_PROJECTION_ID :: string where "PAX_PROJECTION_ID = ''locality.projection_id''"
definition PAX_WINNING_SCOPE_ORDINAL :: string where "PAX_WINNING_SCOPE_ORDINAL = ''locality.winning_scope_ordinal''"
definition PAX_FILE_KIND :: string where "PAX_FILE_KIND = ''locality.file_kind''"
definition PAX_EFFECTIVE_ACTIONS :: string where "PAX_EFFECTIVE_ACTIONS = ''locality.effective_actions''"
definition PAX_CONTENT_SHA256 :: string where "PAX_CONTENT_SHA256 = ''locality.content_sha256''"

definition EXPORT_V2_FILE_PAX_KEYS :: "string list" where
  "EXPORT_V2_FILE_PAX_KEYS =
     [PAX_SOURCE_CONNECTION_ID, PAX_PROJECTION_ID, PAX_WINNING_SCOPE_ORDINAL, PAX_FILE_KIND,
      PAX_EFFECTIVE_ACTIONS, PAX_CONTENT_SHA256]"

definition MAX_EXPORT_V2_PAX_VALUE_BYTES :: usize where "MAX_EXPORT_V2_PAX_VALUE_BYTES = 4 * 1024"
definition MAX_EXPORT_V2_FILE_PAX_BYTES :: usize where "MAX_EXPORT_V2_FILE_PAX_BYTES = 8 * 1024"

record export_v2_file_pax_metadata =
  px_source_connection_id :: string
  px_projection_id :: string
  px_winning_scope_ordinal :: u32
  px_file_kind :: projection_file_kind
  px_effective_actions :: "source_action set"
  px_content_sha256 :: string

fun pax_aggregate :: "usize \<Rightarrow> (string \<times> string) list \<Rightarrow> usize option" where
  "pax_aggregate acc [] = Some acc"
| "pax_aggregate acc ((key, v) # rest) =
     (if length v \<le> MAX_EXPORT_V2_PAX_VALUE_BYTES
      then Option.bind (usize_checked_add acc (length key)) (\<lambda>acc.
           Option.bind (usize_checked_add acc (length v)) (\<lambda>acc. pax_aggregate acc rest))
      else None)"

definition pax_to_records :: "export_v2_file_pax_metadata \<Rightarrow> (string \<times> string) list option" where
  "pax_to_records m =
     (if px_source_connection_id m = [] \<or> px_projection_id m = [] \<or> px_file_kind m = FileDirectory
        \<or> sum.isl (validate_sha256 ''content_sha256'' (px_content_sha256 m))
      then None
      else
      Option.bind (canonical_effective_actions_pax_value (px_effective_actions m)) (\<lambda>actions.
      let records =
        [(PAX_SOURCE_CONNECTION_ID, px_source_connection_id m),
         (PAX_PROJECTION_ID, px_projection_id m),
         (PAX_WINNING_SCOPE_ORDINAL, dec (unat (px_winning_scope_ordinal m))),
         (PAX_FILE_KIND, projection_file_kind_wire_label (px_file_kind m)),
         (PAX_EFFECTIVE_ACTIONS, actions),
         (PAX_CONTENT_SHA256, px_content_sha256 m)] in
      Option.bind (pax_aggregate 0 records) (\<lambda>aggregate.
      if aggregate \<le> MAX_EXPORT_V2_FILE_PAX_BYTES then Some records else None)))"

text \<open>The loop over the records: those of other vendors are skipped, each of ours is taken once.\<close>

fun collect_pax :: "(string \<times> string) list \<Rightarrow> usize \<Rightarrow> (string \<times> string) list \<Rightarrow> (string \<times> string) list option" where
  "collect_pax taken acc [] = Some taken"
| "collect_pax taken acc ((key, v) # rest) =
     (if \<not> prefix ''locality.'' key then collect_pax taken acc rest
      else if key \<notin> set EXPORT_V2_FILE_PAX_KEYS \<or> length v > MAX_EXPORT_V2_PAX_VALUE_BYTES then None
      else
      Option.bind (usize_checked_add acc (length key)) (\<lambda>acc.
      Option.bind (usize_checked_add acc (length v)) (\<lambda>acc.
      if acc > MAX_EXPORT_V2_FILE_PAX_BYTES \<or> map_of taken key \<noteq> None then None
      else collect_pax (taken @ [(key, v)]) acc rest)))"

definition pax_from_records :: "(string \<times> string) list \<Rightarrow> export_v2_file_pax_metadata option" where
  "pax_from_records records =
     Option.bind (collect_pax [] 0 records) (\<lambda>m.
     if length m \<noteq> length EXPORT_V2_FILE_PAX_KEYS then None
     else
     Option.bind (map_of m PAX_WINNING_SCOPE_ORDINAL) (\<lambda>ordinal_text.
     Option.bind (parse_u32 ordinal_text) (\<lambda>ordinal.
     if dec (unat ordinal) \<noteq> ordinal_text then None
     else
     Option.bind (map_of m PAX_FILE_KIND) (\<lambda>kind_text.
     Option.bind (projection_file_kind_from_wire_label kind_text) (\<lambda>file_kind.
     if file_kind = FileDirectory then None
     else
     Option.bind (map_of m PAX_SOURCE_CONNECTION_ID) (\<lambda>source_connection_id.
     Option.bind (map_of m PAX_PROJECTION_ID) (\<lambda>projection_id.
     Option.bind (map_of m PAX_EFFECTIVE_ACTIONS) (\<lambda>actions_text.
     Option.bind (source_actions_from_canonical_pax_value actions_text) (\<lambda>effective_actions.
     Option.bind (map_of m PAX_CONTENT_SHA256) (\<lambda>content_sha256.
     let metadata =
       \<lparr>px_source_connection_id = source_connection_id, px_projection_id = projection_id,
        px_winning_scope_ordinal = ordinal, px_file_kind = file_kind,
        px_effective_actions = effective_actions, px_content_sha256 = content_sha256\<rparr> in
     map_option (\<lambda>_. metadata) (pax_to_records metadata)))))))))))"

section \<open>Labels are read back\<close>

lemma kind_label_roundtrip [simp]:
  "projection_file_kind_from_wire_label (projection_file_kind_wire_label k) = Some k"
  by (cases k) (simp_all add: projection_file_kind_wire_label_def projection_file_kind_from_wire_label_def)

lemma kind_from_label_Some:
  "projection_file_kind_from_wire_label v = Some k \<longleftrightarrow> v = projection_file_kind_wire_label k"
  by (cases k) (simp_all add: projection_file_kind_wire_label_def projection_file_kind_from_wire_label_def)

lemma action_label_roundtrip [simp]:
  "source_action_from_wire_label (source_action_wire_label a) = Some a"
  by (cases a) (simp_all add: source_action_wire_label_def source_action_from_wire_label_def)

lemma action_label_inj: "source_action_wire_label a = source_action_wire_label b \<longleftrightarrow> a = b"
  by (metis action_label_roundtrip option.inject)

lemma all_actions [simp]: "set all_source_actions = UNIV" "distinct all_source_actions"
proof -
  have "a \<in> set all_source_actions" for a by (cases a) (simp_all add: all_source_actions_def)
  then show "set all_source_actions = UNIV" by auto
qed (simp add: all_source_actions_def)

lemma sorted_labels_set: "set (sorted_labels A) = source_action_wire_label ` A"
  by (simp add: sorted_labels_def)

lemma sorted_labels_distinct: "distinct (sorted_labels A)"
  by (simp add: sorted_labels_def distinct_map inj_on_def action_label_inj)

lemma sorted_labels_inj: "sorted_labels A = sorted_labels B \<longleftrightarrow> A = B"
proof
  assume "sorted_labels A = sorted_labels B"
  then have "source_action_wire_label ` A = source_action_wire_label ` B" by (metis sorted_labels_set)
  then show "A = B" by (simp add: inj_image_eq_iff inj_on_def action_label_inj)
qed simp

lemma label_no_quote: "CHR 0x22 \<notin> set (source_action_wire_label a)"
  by (cases a) (simp_all add: source_action_wire_label_def)

lemma str_find_separator:
  assumes "CHR 0x22 \<notin> set l"
  shows "str_find label_separator (l @ label_separator @ s) = Some (length l)"
    "str_find label_separator l = None"
  using assms by (induction l) (auto simp: label_separator_def)

lemma label_separator_nonempty: "label_separator \<noteq> []"
  by (simp add: label_separator_def)

lemma split_join_labels:
  assumes "ls \<noteq> []" "\<forall>l\<in>set ls. CHR 0x22 \<notin> set l"
  shows "split_str label_separator (join label_separator ls) = ls"
  using assms
proof (induction label_separator ls rule: join.induct)
  case (2 l)
  then show ?case by (subst split_str.simps) (simp add: str_find_separator)
next
  case (3 l m ls)
  then show ?case
    using str_find_separator(1)[of l "join label_separator (m # ls)"]
    by (subst split_str.simps) (simp add: label_separator_nonempty)
qed simp

lemma insert_actions_labels:
  assumes "distinct ls" "set ls \<subseteq> range source_action_wire_label" "\<forall>a\<in>A. source_action_wire_label a \<notin> set ls"
  shows "insert_actions A ls = Some (A \<union> {a. source_action_wire_label a \<in> set ls})"
  using assms
proof (induction ls arbitrary: A)
  case (Cons l ls)
  then obtain a where a: "l = source_action_wire_label a" "a \<notin> A" by auto
  with Cons.prems have "insert_actions (insert a A) ls
      = Some (insert a A \<union> {a. source_action_wire_label a \<in> set ls})"
    by (intro Cons.IH) auto
  moreover have "insert a A \<union> {a. source_action_wire_label a \<in> set ls}
      = A \<union> {b. source_action_wire_label b \<in> set (l # ls)}"
    using a by (auto simp: action_label_inj)
  ultimately show ?case using a by simp
qed simp

lemma read_actions_value:
  assumes "canonical_effective_actions_pax_value A = Some v"
  shows "source_actions_from_canonical_pax_value v = Some A"
proof -
  let ?ls = "sorted_labels A"
  from assms have A: "A \<noteq> {}"
    and v: "v = [CHR ''['', CHR 0x22] @ join label_separator ?ls @ [CHR 0x22, CHR '']'']"
    by (auto simp: canonical_effective_actions_pax_value_def split: if_splits)
  have ne: "?ls \<noteq> []" using A sorted_labels_set[of A] by auto
  have "split_str label_separator (join label_separator ?ls) = ?ls"
    using ne label_no_quote by (intro split_join_labels) (auto simp: sorted_labels_set)
  moreover have "insert_actions {} ?ls = Some A"
    using insert_actions_labels[of ?ls "{}"] sorted_labels_distinct
    by (auto simp: sorted_labels_set action_label_inj image_iff)
  moreover have "strip_prefix [CHR ''['', CHR 0x22] v = Some (join label_separator ?ls @ [CHR 0x22, CHR '']''])"
    by (simp add: strip_prefix_def v)
  moreover have "strip_suffix [CHR 0x22, CHR '']''] (w @ [CHR 0x22, CHR '']'']) = Some w" for w
    by (simp add: strip_suffix_def suffix_def)
  ultimately show ?thesis
    using assms by (simp add: source_actions_from_canonical_pax_value_def)
qed

lemma read_actions_iff:
  "source_actions_from_canonical_pax_value v = Some A \<longleftrightarrow> canonical_effective_actions_pax_value A = Some v"
proof
  assume "source_actions_from_canonical_pax_value v = Some A"
  then show "canonical_effective_actions_pax_value A = Some v"
    by (auto simp: source_actions_from_canonical_pax_value_def split: bind_splits if_splits)
qed (rule read_actions_value)

lemma parse_dec_u32: "n < 2 ^ 32 \<Longrightarrow> parse_u32 (dec n) = Some (of_nat n)"
proof -
  assume n: "n < 2 ^ 32"
  obtain c cs where d: "dec n = c # cs" using dec_nonempty[of n] by (cases "dec n") auto
  have digits: "list_all is_ascii_digit (dec n)" by (simp add: list_all_iff dec_digits)
  then have "c \<noteq> CHR ''+''" by (auto simp: d is_ascii_digit_def)
  with digits n show ?thesis using undec_dec[of n] by (simp add: parse_u32_def d)
qed

lemma u32_bound: "unat (v :: u32) < 2 ^ 32"
  using unsigned_less[of v] by simp

section \<open>PAX records are canonical\<close>

definition pax_own :: "(string \<times> string) list \<Rightarrow> (string \<times> string) list" where
  "pax_own records = filter (\<lambda>(key, v). prefix ''locality.'' key) records"

definition pax_bytes :: "(string \<times> string) list \<Rightarrow> nat" where
  "pax_bytes records = (\<Sum>(key, v)\<leftarrow>records. length key + length v)"

definition pax_fit :: "(string \<times> string) list \<Rightarrow> bool" where
  "pax_fit records \<longleftrightarrow> (\<forall>(key, v)\<in>set records. length v \<le> MAX_EXPORT_V2_PAX_VALUE_BYTES)"

lemma checked_add_small: "a + b < 2 ^ 64 \<Longrightarrow> usize_checked_add a b = Some (a + b)"
  by (simp add: usize_checked_add_def)

lemma pax_aggregate_Some:
  "pax_aggregate acc rs = Some n \<Longrightarrow> pax_fit rs \<and> n = acc + pax_bytes rs"
proof (induction rs arbitrary: acc)
  case (Cons r rs)
  obtain key v where r: "r = (key, v)" by force
  with Cons.prems have "length v \<le> MAX_EXPORT_V2_PAX_VALUE_BYTES"
    "pax_aggregate (acc + length key + length v) rs = Some n"
    by (auto simp: usize_checked_add_def split: bind_splits if_splits)
  with Cons.IH[of "acc + length key + length v"] r show ?case by (simp add: pax_fit_def pax_bytes_def)
qed (simp add: pax_fit_def pax_bytes_def)

lemma pax_aggregate_fits:
  "pax_fit rs \<Longrightarrow> acc + pax_bytes rs < 2 ^ 64 \<Longrightarrow> pax_aggregate acc rs = Some (acc + pax_bytes rs)"
proof (induction acc rs rule: pax_aggregate.induct)
  case (2 acc key v rest)
  then show ?case by (simp add: pax_fit_def pax_bytes_def checked_add_small add.assoc)
qed (simp add: pax_fit_def pax_bytes_def)

lemma collect_pax_iff:
  assumes "acc \<le> MAX_EXPORT_V2_FILE_PAX_BYTES"
  shows "collect_pax taken acc rs = Some t \<longleftrightarrow>
     t = taken @ pax_own rs \<and> pax_fit (pax_own rs) \<and> acc + pax_bytes (pax_own rs) \<le> MAX_EXPORT_V2_FILE_PAX_BYTES
   \<and> distinct (map fst (pax_own rs)) \<and> fst ` set (pax_own rs) \<subseteq> set EXPORT_V2_FILE_PAX_KEYS
   \<and> fst ` set taken \<inter> fst ` set (pax_own rs) = {}"
  using assms
proof (induction taken acc rs rule: collect_pax.induct)
  case (2 taken acc key v rest)
  show ?case
  proof (cases "prefix ''locality.'' key")
    case False
    with 2 show ?thesis by (simp add: pax_own_def)
  next
    case own: True
    have none: "map_of taken key = None \<longleftrightarrow> key \<notin> fst ` set taken" by (rule map_of_eq_None_iff)
    show ?thesis
    proof (cases "key \<in> set EXPORT_V2_FILE_PAX_KEYS \<and> length v \<le> MAX_EXPORT_V2_PAX_VALUE_BYTES")
      case ok: True
      have "length key \<le> 100" using ok by (auto simp: EXPORT_V2_FILE_PAX_KEYS_def PAX_SOURCE_CONNECTION_ID_def
          PAX_PROJECTION_ID_def PAX_WINNING_SCOPE_ORDINAL_def PAX_FILE_KIND_def PAX_EFFECTIVE_ACTIONS_def
          PAX_CONTENT_SHA256_def)
      then have add: "usize_checked_add acc (length key) = Some (acc + length key)"
        "usize_checked_add (acc + length key) (length v) = Some (acc + length key + length v)"
        using ok 2(3) by (simp_all add: usize_checked_add_def MAX_EXPORT_V2_FILE_PAX_BYTES_def
            MAX_EXPORT_V2_PAX_VALUE_BYTES_def)
      show ?thesis
      proof (cases "acc + length key + length v \<le> MAX_EXPORT_V2_FILE_PAX_BYTES \<and> map_of taken key = None")
        case True
        then have "collect_pax taken acc ((key, v) # rest)
            = collect_pax (taken @ [(key, v)]) (acc + length key + length v) rest"
          using own ok add by (simp add: not_less)
        then show ?thesis
          using 2(2)[of "acc + length key" "acc + length key + length v"] True own ok none add
          by (auto simp: pax_own_def pax_fit_def pax_bytes_def)
      next
        case False
        then show ?thesis using own ok add none
          by (auto simp: pax_own_def pax_bytes_def split: if_splits)
      qed
    next
      case False
      then show ?thesis using own by (auto simp: pax_own_def pax_fit_def)
    qed
  qed
qed (auto simp: pax_own_def pax_fit_def pax_bytes_def)

lemma pax_key_length: "key \<in> set EXPORT_V2_FILE_PAX_KEYS \<Longrightarrow> length key \<le> 100 \<and> prefix ''locality.'' key"
  by (auto simp: EXPORT_V2_FILE_PAX_KEYS_def PAX_SOURCE_CONNECTION_ID_def
          PAX_PROJECTION_ID_def PAX_WINNING_SCOPE_ORDINAL_def PAX_FILE_KIND_def PAX_EFFECTIVE_ACTIONS_def
          PAX_CONTENT_SHA256_def)

lemma pax_keys_distinct: "distinct EXPORT_V2_FILE_PAX_KEYS" "length EXPORT_V2_FILE_PAX_KEYS = 6"
  by (simp_all add: EXPORT_V2_FILE_PAX_KEYS_def PAX_SOURCE_CONNECTION_ID_def
          PAX_PROJECTION_ID_def PAX_WINNING_SCOPE_ORDINAL_def PAX_FILE_KIND_def PAX_EFFECTIVE_ACTIONS_def
          PAX_CONTENT_SHA256_def)

definition pax_record_list :: "export_v2_file_pax_metadata \<Rightarrow> string \<Rightarrow> (string \<times> string) list" where
  "pax_record_list m actions =
     [(PAX_SOURCE_CONNECTION_ID, px_source_connection_id m),
      (PAX_PROJECTION_ID, px_projection_id m),
      (PAX_WINNING_SCOPE_ORDINAL, dec (unat (px_winning_scope_ordinal m))),
      (PAX_FILE_KIND, projection_file_kind_wire_label (px_file_kind m)),
      (PAX_EFFECTIVE_ACTIONS, actions),
      (PAX_CONTENT_SHA256, px_content_sha256 m)]"

lemma pax_record_list_keys: "map fst (pax_record_list m actions) = EXPORT_V2_FILE_PAX_KEYS"
  by (simp add: pax_record_list_def EXPORT_V2_FILE_PAX_KEYS_def)

lemma isl_sha256: "sum.isl (validate_sha256 f v) \<longleftrightarrow> \<not> sha256_text v"
proof (cases "validate_sha256 f v")
  case (Inl e)
  then show ?thesis using validate_sha256_Inr[of f v "()"] by (simp del: validate_sha256_Inr)
next
  case (Inr u)
  then show ?thesis using validate_sha256_Inr[of f v u] by (simp del: validate_sha256_Inr)
qed

lemma pax_to_records_iff:
  "pax_to_records m = Some own \<longleftrightarrow>
     px_source_connection_id m \<noteq> [] \<and> px_projection_id m \<noteq> [] \<and> px_file_kind m \<noteq> FileDirectory
   \<and> sha256_text (px_content_sha256 m)
   \<and> (\<exists>actions. canonical_effective_actions_pax_value (px_effective_actions m) = Some actions
        \<and> own = pax_record_list m actions)
   \<and> pax_fit own \<and> pax_bytes own \<le> MAX_EXPORT_V2_FILE_PAX_BYTES"
  (is "?l \<longleftrightarrow> ?r")
proof
  assume ?l
  then show ?r
    by (auto simp: pax_to_records_def isl_sha256 Let_def pax_record_list_def[symmetric]
        dest!: pax_aggregate_Some split: bind_splits if_splits)
next
  assume r: ?r
  then have "pax_bytes own < 2 ^ 64" by (simp add: MAX_EXPORT_V2_FILE_PAX_BYTES_def)
  with r pax_aggregate_fits[of own 0] show ?l
    by (auto simp: pax_to_records_def isl_sha256 Let_def pax_record_list_def[symmetric])
qed

text \<open>What the reader makes of the six values.\<close>

definition pax_decode :: "(string \<times> string) list \<Rightarrow> export_v2_file_pax_metadata \<Rightarrow> bool" where
  "pax_decode t m \<longleftrightarrow>
     (\<exists>actions. canonical_effective_actions_pax_value (px_effective_actions m) = Some actions
        \<and> (\<forall>(key, v)\<in>set (pax_record_list m actions). map_of t key = Some v))"

lemma parse_u32_canonical:
  "parse_u32 s = Some n \<and> dec (unat n) = s \<longleftrightarrow> s = dec (unat n)"
  using parse_dec_u32[OF u32_bound[of n]] by auto

lemma pax_from_records_iff:
  "pax_from_records rs = Some m \<longleftrightarrow>
     (\<exists>t. collect_pax [] 0 rs = Some t \<and> length t = 6 \<and> pax_decode t m \<and> pax_to_records m \<noteq> None)"
  (is "?l \<longleftrightarrow> ?r")
proof
  assume ?l
  then show ?r
    by (auto simp: pax_from_records_def pax_keys_distinct read_actions_iff kind_from_label_Some Let_def
        pax_decode_def pax_record_list_def split: bind_splits if_splits)
next
  assume ?r
  then obtain t actions own where t: "collect_pax [] 0 rs = Some t" "length t = 6"
    "canonical_effective_actions_pax_value (px_effective_actions m) = Some actions"
    "\<forall>(key, v)\<in>set (pax_record_list m actions). map_of t key = Some v"
    "pax_to_records m = Some own"
    by (auto simp: pax_decode_def)
  then have "px_file_kind m \<noteq> FileDirectory" by (simp add: pax_to_records_iff)
  with t show ?l
    using parse_dec_u32[OF u32_bound[of "px_winning_scope_ordinal m"]] read_actions_value[OF t(3)]
    by (cases m) (simp add: pax_from_records_def pax_keys_distinct pax_record_list_def Let_def)
qed

text \<open>C36: the PAX records of an exported file are canonical. They are read as some metadata exactly when
  the records with Locality's prefix, in any order and among any others, are the ones that this
  metadata is written as.\<close>

theorem pax_records_canonical:
  "pax_from_records rs = Some m \<longleftrightarrow> (\<exists>own. pax_to_records m = Some own \<and> mset (pax_own rs) = mset own)"
  (is "?l \<longleftrightarrow> ?r")
proof
  assume ?l
  then obtain t own actions where t: "collect_pax [] 0 rs = Some t" "length t = 6"
    and a: "canonical_effective_actions_pax_value (px_effective_actions m) = Some actions"
      "\<forall>(key, v)\<in>set (pax_record_list m actions). map_of t key = Some v"
    and own: "pax_to_records m = Some own"
    by (auto simp: pax_from_records_iff pax_decode_def)
  from t have d: "t = pax_own rs" "distinct (map fst t)"
    using collect_pax_iff[of 0 "[]" rs t] by simp_all
  from own a(1) have o: "own = pax_record_list m actions" by (simp add: pax_to_records_iff)
  have sub: "set own \<subseteq> set t" using a(2) o by (auto dest: map_of_SomeD)
  have dist: "distinct own" "length own = 6"
    using pax_record_list_keys[of m actions] pax_keys_distinct o distinct_map[of fst own]
    by (auto simp: pax_record_list_def)
  have "distinct t" using d(2) by (simp add: distinct_map)
  with sub dist t(2) have "set own = set t" by (simp add: card_subset_eq distinct_card)
  with \<open>distinct t\<close> dist have "mset t = mset own" by (simp add: set_eq_iff_mset_eq_distinct)
  with own d show ?r by auto
next
  assume ?r
  then obtain own where own: "pax_to_records m = Some own" and ms: "mset (pax_own rs) = mset own" by blast
  then obtain actions where a: "canonical_effective_actions_pax_value (px_effective_actions m) = Some actions"
    "own = pax_record_list m actions" "pax_fit own" "pax_bytes own \<le> MAX_EXPORT_V2_FILE_PAX_BYTES"
    by (auto simp: pax_to_records_iff)
  have sets: "set (pax_own rs) = set own" using ms by (rule mset_eq_setD)
  have "mset (map fst (pax_own rs)) = mset (map fst own)" using ms by simp
  then have dist: "distinct (map fst (pax_own rs))"
    using pax_record_list_keys[of m actions] pax_keys_distinct(1) a(2) by (metis mset_eq_imp_distinct_iff)
  have fst_keys: "fst ` set own = set EXPORT_V2_FILE_PAX_KEYS"
    unfolding a(2) pax_record_list_keys[symmetric, of m actions] by (simp only: set_map)
  have "pax_bytes (pax_own rs) = pax_bytes own"
    using sum_mset_sum_list[of "map (\<lambda>(key, v). length key + length v) (pax_own rs)"]
      sum_mset_sum_list[of "map (\<lambda>(key, v). length key + length v) own"]
    by (simp add: pax_bytes_def ms)
  then have "collect_pax [] 0 rs = Some (pax_own rs)"
    using dist a sets fst_keys by (simp add: collect_pax_iff pax_fit_def)
  moreover have "length (pax_own rs) = 6" using mset_eq_length[OF ms] a(2) by (simp add: pax_record_list_def)
  moreover have "pax_decode (pax_own rs) m"
    using a(1,2) sets dist by (auto simp: pax_decode_def intro!: map_of_is_SomeI)
  ultimately show ?l using own by (auto simp: pax_from_records_iff)
qed

end
