(* ===== verification/Export_Inventory.thy ===== *)
theory Export_Inventory
  imports Export_Labels Wire_Framing "HOL-Library.Product_Lexorder" "HOL-Library.Option_ord"
begin

text \<open>
  The canonical inventory of an export (\<open>locality-protocol/src/lib.rs\<close>): the order of the records of the
  archive, the validation of a list of records, the bytes that its digest is taken of, and the
  incremental digest of the delivered file bodies. A SHA-256 hasher is the bytes it was fed.
\<close>

section \<open>Order keys\<close>

instantiation logical_path :: linorder
begin

definition less_eq_logical_path :: "logical_path \<Rightarrow> logical_path \<Rightarrow> bool" where
  "less_eq_logical_path p q \<longleftrightarrow> logical_path_str p \<le> logical_path_str q"

definition less_logical_path :: "logical_path \<Rightarrow> logical_path \<Rightarrow> bool" where
  "less_logical_path p q \<longleftrightarrow> logical_path_str p < logical_path_str q"

instance
  by standard (auto simp: less_eq_logical_path_def less_logical_path_def intro: logical_path.expand)

end

type_synonym u8 = "8 word"

record canonical_control_order_key =
  ck_ordinal :: u8

record canonical_directory_order_key =
  dk_depth :: u32
  dk_logical_path :: logical_path

record canonical_file_order_key =
  fk_winning_scope_ordinal :: u32
  fk_parent_path :: "logical_path option"
  fk_logical_path :: logical_path
  fk_projection_id :: string

datatype canonical_export_order_key =
    KeyDirectory canonical_directory_order_key
  | KeyFile canonical_file_order_key
  | KeyControl canonical_control_order_key

text \<open>The derived order: the variant first, then the fields in turn, with \<open>None\<close> before \<open>Some\<close>.\<close>

definition key_rank :: "canonical_export_order_key \<Rightarrow> nat \<times> u32 \<times> logical_path option \<times> string \<times> string" where
  "key_rank k =
     (case k of
        KeyDirectory d \<Rightarrow> (0, dk_depth d, None, logical_path_str (dk_logical_path d), [])
      | KeyFile f \<Rightarrow> (1, fk_winning_scope_ordinal f, fk_parent_path f, logical_path_str (fk_logical_path f),
                    fk_projection_id f)
      | KeyControl c \<Rightarrow> (2, ucast (ck_ordinal c), None, [], []))"

lemma u8_ucast_inj: "ucast a = (ucast b :: u32) \<longleftrightarrow> a = b" for a b :: u8
  by transfer simp

lemma logical_path_str_inj: "logical_path_str p = logical_path_str q \<longleftrightarrow> p = q"
  by (cases p; cases q) simp

lemma key_rank_inj: "key_rank a = key_rank b \<Longrightarrow> a = b"
  by (cases a; cases b)
    (auto simp: key_rank_def u8_ucast_inj logical_path_str_inj intro: canonical_directory_order_key.equality
      canonical_file_order_key.equality canonical_control_order_key.equality)

instantiation canonical_export_order_key :: linorder
begin

definition less_eq_canonical_export_order_key ::
    "canonical_export_order_key \<Rightarrow> canonical_export_order_key \<Rightarrow> bool" where
  "less_eq_canonical_export_order_key a b \<longleftrightarrow> key_rank a \<le> key_rank b"

definition less_canonical_export_order_key ::
    "canonical_export_order_key \<Rightarrow> canonical_export_order_key \<Rightarrow> bool" where
  "less_canonical_export_order_key a b \<longleftrightarrow> key_rank a < key_rank b"

instance
proof
  fix a b c :: canonical_export_order_key
  show "a \<le> b \<Longrightarrow> b \<le> a \<Longrightarrow> a = b"
    unfolding less_eq_canonical_export_order_key_def by (blast intro: key_rank_inj order_antisym)
qed (auto simp: less_eq_canonical_export_order_key_def less_canonical_export_order_key_def)

end

section \<open>Records\<close>

datatype canonical_export_record =
    RecDirectory canonical_directory_order_key
  | RecFile (rf_order_key: canonical_file_order_key) (rf_source_connection_id: string)
      (rf_file_kind: projection_file_kind) (rf_effective_actions: "source_action set")
      (rf_content_sha256: string) (rf_byte_length: u64)
  | RecControl canonical_control_order_key string

definition record_order_key :: "canonical_export_record \<Rightarrow> canonical_export_order_key" where
  "record_order_key r =
     (case r of
        RecControl k _ \<Rightarrow> KeyControl k
      | RecDirectory k \<Rightarrow> KeyDirectory k
      | RecFile k _ _ _ _ _ \<Rightarrow> KeyFile k)"

definition path_depth :: "logical_path \<Rightarrow> u32" where
  "path_depth p = of_nat (length (split_on (CHR ''/'') (logical_path_str p)))"

text \<open>\<open>rsplit_once('/')\<close>, the part before the last slash.\<close>

definition before_last_slash :: "string \<Rightarrow> string option" where
  "before_last_slash s =
     (if CHR ''/'' \<in> set s then Some (rev (tl (dropWhile (\<lambda>c. c \<noteq> CHR ''/'') (rev s)))) else None)"

definition logical_parent :: "unicode_lib \<Rightarrow> logical_path \<Rightarrow> logical_path option scope_result" where
  "logical_parent U p =
     (case before_last_slash (logical_path_str p) of
        None \<Rightarrow> Inr None
      | Some parent \<Rightarrow> rbind (map_err (\<lambda>_. InvalidParentPath) (logical_path_new U parent)) (\<lambda>q. Inr (Some q)))"

definition record_validate :: "unicode_lib \<Rightarrow> canonical_export_record \<Rightarrow> unit scope_result" where
  "record_validate U r =
     (case r of
        RecControl k member_path \<Rightarrow>
          if ck_ordinal k \<noteq> 0 \<or> member_path \<noteq> RESERVED_EXPORT_METADATA_PATH then Inl InvalidControlRecord
          else Inr ()
      | RecDirectory k \<Rightarrow>
          if eq_ignore_ascii_case (logical_path_str (dk_logical_path k)) ''.loc'' then Inl InvalidControlDirectory
          else if dk_depth k \<noteq> path_depth (dk_logical_path k)
          then Inl (InvalidDirectoryDepth (path_depth (dk_logical_path k)) (dk_depth k))
          else Inr ()
      | RecFile k source_connection_id _ effective_actions content_sha256 _ \<Rightarrow>
          rbind (validate_nonempty ''projection_id'' (fk_projection_id k)) (\<lambda>_.
          rbind (logical_parent U (fk_logical_path k)) (\<lambda>expected_parent.
          if fk_parent_path k \<noteq> expected_parent then Inl InvalidParentPath
          else
          rbind (validate_nonempty ''source_connection_id'' source_connection_id) (\<lambda>_.
          if effective_actions = {} then Inl (EmptyCollection ''effective_actions'')
          else validate_sha256 ''content_sha256'' content_sha256))))"

text \<open>The state of the loop over the records.\<close>

record export_walk =
  ew_control_count :: u64
  ew_logical_paths :: "logical_path set"
  ew_projection_ids :: "string set"
  ew_directory_paths :: "logical_path set"
  ew_previous_key :: "canonical_export_order_key option"

definition record_logical_path :: "canonical_export_record \<Rightarrow> logical_path option" where
  "record_logical_path r =
     (case r of RecControl _ _ \<Rightarrow> None | RecDirectory k \<Rightarrow> Some (dk_logical_path k)
      | RecFile k _ _ _ _ _ \<Rightarrow> Some (fk_logical_path k))"

definition parent_missing :: "logical_path set \<Rightarrow> logical_path option \<Rightarrow> bool" where
  "parent_missing directories parent \<longleftrightarrow>
     (case parent of
        None \<Rightarrow> False
      | Some p \<Rightarrow> \<not> eq_ignore_ascii_case (logical_path_str p) ''.loc'' \<and> p \<notin> directories)"

definition claim_record :: "unicode_lib \<Rightarrow> export_walk \<Rightarrow> canonical_export_record \<Rightarrow> export_walk scope_result" where
  "claim_record U w r =
     (case r of
        RecDirectory k \<Rightarrow>
          rbind (logical_parent U (dk_logical_path k)) (\<lambda>parent.
          if parent_missing (ew_directory_paths w) parent then Inl MissingParentDirectory
          else Inr (w\<lparr>ew_directory_paths := insert (dk_logical_path k) (ew_directory_paths w)\<rparr>))
      | RecFile k _ _ _ _ _ \<Rightarrow>
          if fk_projection_id k \<in> ew_projection_ids w then Inl (DuplicateValue ''projection_id'')
          else if parent_missing (ew_directory_paths w) (fk_parent_path k) then Inl MissingParentDirectory
          else Inr (w\<lparr>ew_projection_ids := insert (fk_projection_id k) (ew_projection_ids w)\<rparr>)
      | RecControl _ _ \<Rightarrow> Inr w)"

definition walk_record :: "unicode_lib \<Rightarrow> export_walk \<Rightarrow> canonical_export_record \<Rightarrow> export_walk scope_result" where
  "walk_record U w r =
     rbind (record_validate U r) (\<lambda>_.
     let w = (case r of RecControl _ _ \<Rightarrow> w\<lparr>ew_control_count := ew_control_count w + 1\<rparr> | _ \<Rightarrow> w) in
     rbind (case record_logical_path r of
              None \<Rightarrow> Inr w
            | Some p \<Rightarrow>
                if p \<in> ew_logical_paths w then Inl (DuplicateValue ''logical_path'')
                else Inr (w\<lparr>ew_logical_paths := insert p (ew_logical_paths w)\<rparr>)) (\<lambda>w.
     rbind (claim_record U w r) (\<lambda>w.
     if (case ew_previous_key w of Some previous \<Rightarrow> previous \<ge> record_order_key r | None \<Rightarrow> False)
     then Inl NonCanonicalRecordOrder
     else Inr (w\<lparr>ew_previous_key := Some (record_order_key r)\<rparr>))))"

fun walk_records ::
    "unicode_lib \<Rightarrow> export_walk \<Rightarrow> canonical_export_record list \<Rightarrow> export_walk scope_result" where
  "walk_records U w [] = Inr w"
| "walk_records U w (r # rs) = rbind (walk_record U w r) (\<lambda>w. walk_records U w rs)"

definition empty_walk :: export_walk where
  "empty_walk = \<lparr>ew_control_count = 0, ew_logical_paths = {}, ew_projection_ids = {},
     ew_directory_paths = {}, ew_previous_key = None\<rparr>"

definition validate_canonical_export_records ::
    "unicode_lib \<Rightarrow> canonical_export_record list \<Rightarrow> unit scope_result" where
  "validate_canonical_export_records U records =
     rbind (walk_records U empty_walk records) (\<lambda>w.
     if ew_control_count w \<noteq> 1 then Inl (InvalidControlRecordCount (ew_control_count w)) else Inr ())"

section \<open>The inventory preimage\<close>

definition append_count :: "string \<Rightarrow> usize \<Rightarrow> string scope_result" where
  "append_count out value =
     (if value < 2 ^ 64 then Inr (out @ to_be_bytes (of_nat value)) else Inl InventoryTooLarge)"

definition append_scalar :: "string \<Rightarrow> string \<Rightarrow> string scope_result" where
  "append_scalar out value = rbind (append_count out (length value)) (\<lambda>out. Inr (out @ value))"

definition sc_append_text :: "string \<Rightarrow> string \<Rightarrow> string scope_result" where
  "sc_append_text out value = append_scalar out value"

definition sc_append_u64 :: "string \<Rightarrow> u64 \<Rightarrow> string scope_result" where
  "sc_append_u64 out value = append_scalar out (to_be_bytes value)"

fun append_labels :: "string \<Rightarrow> string list \<Rightarrow> string scope_result" where
  "append_labels out [] = Inr out"
| "append_labels out (l # ls) = rbind (sc_append_text out l) (\<lambda>out. append_labels out ls)"

definition append_record :: "string \<Rightarrow> canonical_export_record \<Rightarrow> string scope_result" where
  "append_record out r =
     (case r of
        RecControl _ _ \<Rightarrow> Inr out
      | RecDirectory k \<Rightarrow>
          rbind (sc_append_text out ''directory'') (\<lambda>out.
          sc_append_text out (logical_path_str (dk_logical_path k)))
      | RecFile k source_connection_id file_kind effective_actions content_sha256 byte_length \<Rightarrow>
          rbind (sc_append_text out ''file'') (\<lambda>out.
          rbind (sc_append_u64 out (ucast (fk_winning_scope_ordinal k))) (\<lambda>out.
          rbind (sc_append_text out source_connection_id) (\<lambda>out.
          rbind (sc_append_text out (fk_projection_id k)) (\<lambda>out.
          rbind (sc_append_text out (logical_path_str (fk_logical_path k))) (\<lambda>out.
          rbind (sc_append_text out (projection_file_kind_wire_label file_kind)) (\<lambda>out.
          rbind (append_count out (card effective_actions)) (\<lambda>out.
          rbind (append_labels out (sorted_labels effective_actions)) (\<lambda>out.
          rbind (sc_append_text out content_sha256) (\<lambda>out.
          sc_append_u64 out byte_length))))))))))"

fun append_records :: "string \<Rightarrow> canonical_export_record list \<Rightarrow> string scope_result" where
  "append_records out [] = Inr out"
| "append_records out (r # rs) = rbind (append_record out r) (\<lambda>out. append_records out rs)"

definition is_control :: "canonical_export_record \<Rightarrow> bool" where
  "is_control r \<longleftrightarrow> (case r of RecControl _ _ \<Rightarrow> True | _ \<Rightarrow> False)"

definition canonical_export_inventory_preimage ::
    "unicode_lib \<Rightarrow> canonical_export_record list \<Rightarrow> string scope_result" where
  "canonical_export_inventory_preimage U records =
     rbind (validate_canonical_export_records U records) (\<lambda>_.
     rbind (append_count (''locality.export.inventory.v2'' @ [CHR 0x00])
              (length (filter (\<lambda>r. \<not> is_control r) records))) (\<lambda>out.
     append_records out records))"

definition canonical_export_inventory_sha256 ::
    "unicode_lib \<Rightarrow> (string \<Rightarrow> string) \<Rightarrow> canonical_export_record list \<Rightarrow> string scope_result" where
  "canonical_export_inventory_sha256 U digest records =
     rbind (canonical_export_inventory_preimage U records) (\<lambda>v. Inr (''sha256:'' @ digest v))"

section \<open>The digest of the delivered bodies\<close>

record delivered_body_digest_v2 =
  bd_hasher :: string
  bd_expected_file_count :: u64
  bd_delivered_file_count :: u64
  bd_remaining_file_bytes :: "u64 option"

definition body_digest_new :: "u64 \<Rightarrow> delivered_body_digest_v2" where
  "body_digest_new expected =
     \<lparr>bd_hasher = ''locality.export.delivered-bodies.v2'' @ [CHR 0x00] @ to_be_bytes expected,
      bd_expected_file_count = expected, bd_delivered_file_count = 0, bd_remaining_file_bytes = None\<rparr>"

definition update_digest_scalar :: "string \<Rightarrow> string \<Rightarrow> string scope_result" where
  "update_digest_scalar hasher value =
     (if length value < 2 ^ 64 then Inr (hasher @ to_be_bytes (of_nat (length value)) @ value)
      else Inl InventoryTooLarge)"

definition begin_file :: "delivered_body_digest_v2 \<Rightarrow> string \<Rightarrow> u64 \<Rightarrow> delivered_body_digest_v2 scope_result" where
  "begin_file s projection_id byte_length =
     (if bd_remaining_file_bytes s \<noteq> None then Inl InventoryDoesNotMatchOffer
      else
      rbind (validate_nonempty ''projection_id'' projection_id) (\<lambda>_.
      rbind (update_digest_scalar (bd_hasher s) projection_id) (\<lambda>hasher.
      Inr (s\<lparr>bd_hasher := hasher @ to_be_bytes byte_length, bd_remaining_file_bytes := Some byte_length\<rparr>))))"

definition update_file_chunk :: "delivered_body_digest_v2 \<Rightarrow> string \<Rightarrow> delivered_body_digest_v2 scope_result" where
  "update_file_chunk s chunk =
     rbind (ok_or InventoryDoesNotMatchOffer (bd_remaining_file_bytes s)) (\<lambda>remaining.
     rbind (if length chunk < 2 ^ 64 then Inr (of_nat (length chunk)) else Inl InventoryTooLarge) (\<lambda>chunk_length.
     rbind (ok_or InventoryDoesNotMatchOffer (u64_checked_sub remaining chunk_length)) (\<lambda>next_remaining.
     Inr (s\<lparr>bd_hasher := bd_hasher s @ chunk, bd_remaining_file_bytes := Some next_remaining\<rparr>))))"

definition end_file :: "delivered_body_digest_v2 \<Rightarrow> delivered_body_digest_v2 scope_result" where
  "end_file s =
     (if bd_remaining_file_bytes s \<noteq> Some 0 then Inl InventoryDoesNotMatchOffer
      else
      rbind (ok_or InventoryTooLarge (u64_checked_add (bd_delivered_file_count s) 1)) (\<lambda>count.
      Inr (s\<lparr>bd_remaining_file_bytes := None, bd_delivered_file_count := count\<rparr>)))"

definition update_file :: "delivered_body_digest_v2 \<Rightarrow> string \<Rightarrow> string \<Rightarrow> delivered_body_digest_v2 scope_result" where
  "update_file s projection_id body =
     rbind (if length body < 2 ^ 64 then Inr (of_nat (length body)) else Inl InventoryTooLarge) (\<lambda>byte_length.
     rbind (begin_file s projection_id byte_length) (\<lambda>s.
     rbind (update_file_chunk s body) end_file))"

definition body_digest_finish :: "(string \<Rightarrow> string) \<Rightarrow> delivered_body_digest_v2 \<Rightarrow> string scope_result" where
  "body_digest_finish digest s =
     (if bd_remaining_file_bytes s \<noteq> None \<or> bd_delivered_file_count s \<noteq> bd_expected_file_count s
      then Inl (DeliveredBodyCountMismatch (bd_expected_file_count s) (bd_delivered_file_count s))
      else Inr (''sha256:'' @ digest (bd_hasher s)))"

end
