(* ===== verification/Export_Canonical.thy ===== *)
theory Export_Canonical
  imports Export_Inventory
begin

text \<open>
  What the canonical inventory guarantees: a validated list of records is in the one order an archive can
  have, parents before children and the control member last; its preimage determines the list; and the
  digest of the bodies depends on the bodies alone, not on how they were cut into chunks.
\<close>

section \<open>The walk over the records\<close>

definition record_projection_id :: "canonical_export_record \<Rightarrow> string option" where
  "record_projection_id r =
     (case r of RecFile k _ _ _ _ _ \<Rightarrow> Some (fk_projection_id k) | _ \<Rightarrow> None)"

definition is_directory :: "canonical_export_record \<Rightarrow> bool" where
  "is_directory r \<longleftrightarrow> (case r of RecDirectory _ \<Rightarrow> True | _ \<Rightarrow> False)"

definition is_file :: "canonical_export_record \<Rightarrow> bool" where
  "is_file r \<longleftrightarrow> (case r of RecFile _ _ _ _ _ _ \<Rightarrow> True | _ \<Rightarrow> False)"

definition directory_path :: "canonical_export_record \<Rightarrow> logical_path option" where
  "directory_path r = (case r of RecDirectory k \<Rightarrow> Some (dk_logical_path k) | _ \<Rightarrow> None)"

fun options :: "('a \<Rightarrow> 'b option) \<Rightarrow> 'a list \<Rightarrow> 'b list" where
  "options f [] = []"
| "options f (x # xs) = (case f x of None \<Rightarrow> options f xs | Some y \<Rightarrow> y # options f xs)"

text \<open>A record is placed when the directory it lies in has come before, the root and the implicit
  directory of the control member apart.\<close>

definition placed :: "unicode_lib \<Rightarrow> logical_path set \<Rightarrow> canonical_export_record \<Rightarrow> bool" where
  "placed U directories r \<longleftrightarrow>
     (\<forall>p. record_logical_path r = Some p \<longrightarrow>
        (\<exists>parent. logical_parent U p = Inr parent \<and> \<not> parent_missing directories parent))"

fun all_placed :: "unicode_lib \<Rightarrow> logical_path set \<Rightarrow> canonical_export_record list \<Rightarrow> bool" where
  "all_placed U directories [] \<longleftrightarrow> True"
| "all_placed U directories (r # rs) \<longleftrightarrow>
     placed U directories r \<and> all_placed U (directories \<union> set_option (directory_path r)) rs"

lemma file_parent:
  "record_validate U (RecFile k c f a s n) = Inr () \<Longrightarrow> logical_parent U (fk_logical_path k) = Inr (fk_parent_path k)"
  by (auto simp: record_validate_def rbind_Inr_iff split: if_splits)

lemma walk_record_Inr:
  assumes "walk_record U w r = Inr w'"
  shows "record_validate U r = Inr ()"
    "ew_logical_paths w \<inter> set_option (record_logical_path r) = {}"
    "ew_logical_paths w' = ew_logical_paths w \<union> set_option (record_logical_path r)"
    "ew_projection_ids w \<inter> set_option (record_projection_id r) = {}"
    "ew_projection_ids w' = ew_projection_ids w \<union> set_option (record_projection_id r)"
    "placed U (ew_directory_paths w) r"
    "ew_directory_paths w' = ew_directory_paths w \<union> set_option (directory_path r)"
    "\<forall>k. ew_previous_key w = Some k \<longrightarrow> k < record_order_key r"
    "ew_previous_key w' = Some (record_order_key r)"
    "ew_control_count w' = ew_control_count w + (if is_control r then 1 else 0)"
  using assms
  by (cases r; auto simp: walk_record_def rbind_Inr_iff Let_def record_logical_path_def claim_record_def
      record_projection_id_def directory_path_def is_control_def placed_def not_le
      dest: file_parent split: if_splits option.splits)+

lemma walk_records_Inr:
  assumes "walk_records U w rs = Inr w'"
  shows "(\<forall>r\<in>set rs. record_validate U r = Inr () \<and> (\<forall>k. ew_previous_key w = Some k \<longrightarrow> k < record_order_key r))
    \<and> sorted_wrt (<) (map record_order_key rs)
    \<and> distinct (options record_logical_path rs) \<and> ew_logical_paths w \<inter> set (options record_logical_path rs) = {}
    \<and> distinct (options record_projection_id rs) \<and> ew_projection_ids w \<inter> set (options record_projection_id rs) = {}
    \<and> all_placed U (ew_directory_paths w) rs
    \<and> ew_control_count w' = ew_control_count w + of_nat (length (filter is_control rs))"
  using assms
proof (induction rs arbitrary: w)
  case (Cons r rs)
  then obtain w1 where w1: "walk_record U w r = Inr w1" and rest: "walk_records U w1 rs = Inr w'"
    by (auto simp: rbind_Inr_iff)
  note here = walk_record_Inr[OF w1] and later = Cons.IH[OF rest]
  have "k < record_order_key s" if "ew_previous_key w = Some k" "s \<in> set rs" for k s
    using here(8,9) later that by (meson order.strict_trans)
  moreover have "record_order_key r < record_order_key s" if "s \<in> set rs" for s
    using here(9) later that by blast
  moreover have "distinct (options record_logical_path (r # rs))
      \<and> ew_logical_paths w \<inter> set (options record_logical_path (r # rs)) = {}"
    using here(2,3) later by (cases "record_logical_path r") auto
  moreover have "distinct (options record_projection_id (r # rs))
      \<and> ew_projection_ids w \<inter> set (options record_projection_id (r # rs)) = {}"
    using here(4,5) later by (cases "record_projection_id r") auto
  moreover have "all_placed U (ew_directory_paths w) (r # rs)" using here(6,7) later by simp
  moreover have "ew_control_count w' = ew_control_count w + of_nat (length (filter is_control (r # rs)))"
    using here(10) later by simp
  ultimately show ?case using here(1,8) later by simp
qed simp

text \<open>The position of a class of records in a list whose order respects it.\<close>

lemma sorted_partition:
  assumes "sorted_wrt (\<lambda>a b. P b \<longrightarrow> P a) xs"
  shows "xs = filter P xs @ filter (\<lambda>x. \<not> P x) xs"
  using assms
proof (induction xs)
  case (Cons x xs)
  show ?case
  proof (cases "P x")
    case False
    then have "filter P xs = []" using Cons.prems by (auto simp: filter_empty_conv)
    then show ?thesis using False by (simp add: filter_empty_conv)
  qed (use Cons in simp)
qed simp

lemma sorted_mono: "sorted_wrt R xs \<Longrightarrow> (\<And>a b. a \<in> set xs \<Longrightarrow> b \<in> set xs \<Longrightarrow> R a b \<Longrightarrow> S a b) \<Longrightarrow> sorted_wrt S xs"
  by (induction xs) auto

lemma key_class:
  "record_order_key a < record_order_key b \<Longrightarrow> is_directory b \<Longrightarrow> is_directory a"
  "record_order_key a < record_order_key b \<Longrightarrow> \<not> is_control b \<Longrightarrow> \<not> is_control a"
  by (cases a; cases b; simp add: less_canonical_export_order_key_def key_rank_def record_order_key_def
      is_directory_def is_control_def)+

lemma valid_control:
  "record_validate U r = Inr () \<Longrightarrow> is_control r \<Longrightarrow> r = RecControl \<lparr>ck_ordinal = 0\<rparr> RESERVED_EXPORT_METADATA_PATH"
  by (cases r) (auto simp: record_validate_def is_control_def split: if_splits)

lemma one_control:
  assumes "sorted_wrt (<) (map record_order_key cs)" "\<forall>r\<in>set cs. record_validate U r = Inr () \<and> is_control r"
  shows "length cs \<le> 1"
proof (rule ccontr)
  assume "\<not> length cs \<le> 1"
  then obtain a b ds where cs: "cs = a # b # ds" by (metis One_nat_def Suc_le_length_iff not_less_eq_eq)
  then have "a = b" using assms(2) valid_control[of U a] valid_control[of U b] by simp
  with assms(1) cs show False by simp
qed

lemma export_records_layout:
  assumes "validate_canonical_export_records U rs = Inr ()"
  shows "rs = filter is_directory rs @ filter is_file rs
      @ [RecControl \<lparr>ck_ordinal = 0\<rparr> RESERVED_EXPORT_METADATA_PATH]"
    "\<forall>r\<in>set rs. record_validate U r = Inr ()" "sorted_wrt (<) (map record_order_key rs)"
    "distinct (options record_logical_path rs)" "distinct (options record_projection_id rs)"
    "all_placed U {} rs"
proof -
  from assms obtain w where w: "walk_records U empty_walk rs = Inr w" and one: "ew_control_count w = 1"
    by (auto simp: validate_canonical_export_records_def rbind_Inr_iff split: if_splits)
  note facts = walk_records_Inr[OF w]
  show valid: "\<forall>r\<in>set rs. record_validate U r = Inr ()" using facts by blast
  show sorted: "sorted_wrt (<) (map record_order_key rs)" using facts by blast
  show "distinct (options record_logical_path rs)" "distinct (options record_projection_id rs)"
    "all_placed U {} rs" using facts by (simp_all add: empty_walk_def)
  have ord: "sorted_wrt (\<lambda>a b. record_order_key a < record_order_key b) rs" using sorted by (simp add: sorted_wrt_map)
  have "sorted_wrt (\<lambda>a b. \<not> is_control b \<longrightarrow> \<not> is_control a) rs" using ord by (rule sorted_mono) (blast dest: key_class)
  then have split: "rs = filter (\<lambda>r. \<not> is_control r) rs @ filter is_control rs"
    using sorted_partition[of "\<lambda>r. \<not> is_control r" rs] by simp
  have "sorted_wrt (\<lambda>a b. record_order_key a < record_order_key b) (filter is_control rs)"
    using ord by (rule sorted_wrt_filter)
  then have "length (filter is_control rs) \<le> 1"
    using valid by (intro one_control[of _ U]) (simp_all add: sorted_wrt_map)
  moreover have "ew_control_count w = ew_control_count empty_walk + of_nat (length (filter is_control rs))"
    using facts by blast
  then have "of_nat (length (filter is_control rs)) = (1 :: u64)" using one by (simp add: empty_walk_def)
  ultimately have "length (filter is_control rs) = 1" by (cases "filter is_control rs") auto
  then obtain c where c: "filter is_control rs = [c]" by (auto simp: length_Suc_conv)
  then have "c \<in> set (filter is_control rs)" by simp
  then have "c = RecControl \<lparr>ck_ordinal = 0\<rparr> RESERVED_EXPORT_METADATA_PATH" using valid valid_control by auto
  moreover have "filter (\<lambda>r. \<not> is_control r) rs = filter is_directory rs @ filter is_file rs"
  proof -
    let ?ns = "filter (\<lambda>r. \<not> is_control r) rs"
    have "sorted_wrt (\<lambda>a b. record_order_key a < record_order_key b) ?ns" using ord by (rule sorted_wrt_filter)
    then have "sorted_wrt (\<lambda>a b. is_directory b \<longrightarrow> is_directory a) ?ns" by (rule sorted_mono) (blast dest: key_class)
    then have "?ns = filter is_directory ?ns @ filter (\<lambda>r. \<not> is_directory r) ?ns" by (rule sorted_partition)
    moreover have "is_directory r \<and> \<not> is_control r \<longleftrightarrow> is_directory r" "\<not> is_directory r \<and> \<not> is_control r \<longleftrightarrow> is_file r"
      for r by (cases r; simp add: is_directory_def is_control_def is_file_def)+
    ultimately show ?thesis by (simp add: conj_commute)
  qed
  ultimately show "rs = filter is_directory rs @ filter is_file rs
      @ [RecControl \<lparr>ck_ordinal = 0\<rparr> RESERVED_EXPORT_METADATA_PATH]"
    using split c by simp
qed

text \<open>A list of records that validates is the one canonical layout of an archive: the directories,
  then the files, then exactly one control member at its reserved path, strictly ordered by their keys,
  with no path and no projection twice, and every record after the directory it lies in.\<close>

theorem export_layout_canonical:
  assumes "validate_canonical_export_records U rs = Inr ()"
  shows "rs = filter is_directory rs @ filter is_file rs
      @ [RecControl \<lparr>ck_ordinal = 0\<rparr> RESERVED_EXPORT_METADATA_PATH]
    \<and> sorted_wrt (<) (map record_order_key rs)
    \<and> distinct (options record_logical_path rs) \<and> distinct (options record_projection_id rs)
    \<and> all_placed U {} rs"
  using export_records_layout[OF assms] by blast

section \<open>A sample export\<close>

definition sample_records :: "u64 \<Rightarrow> canonical_export_record list" where
  "sample_records n =
     [RecDirectory \<lparr>dk_depth = 1, dk_logical_path = LogicalPath ''a''\<rparr>,
      RecFile \<lparr>fk_winning_scope_ordinal = 0, fk_parent_path = Some (LogicalPath ''a''),
          fk_logical_path = LogicalPath ''a/b.md'', fk_projection_id = ''p''\<rparr>
        ''c'' FileMarkdown {ActRead} (''sha256:'' @ replicate 64 (CHR ''a'')) n,
      RecControl \<lparr>ck_ordinal = 0\<rparr> RESERVED_EXPORT_METADATA_PATH]"

lemma sample_parents:
  "logical_parent plain_unicode (LogicalPath ''a'') = Inr None"
  "logical_parent plain_unicode (LogicalPath ''a/b.md'') = Inr (Some (LogicalPath ''a''))"
  by code_simp+

lemma sample_records_valid: "validate_canonical_export_records plain_unicode (sample_records n) = Inr ()"
proof -
  have sha: "sha256_text (''sha256:'' @ replicate 64 (CHR ''a''))"
    unfolding sha256_text_def by (intro exI[of _ "replicate 64 (CHR ''a'')"]) (simp add: list_all_iff lower_hex_def)
  have less: "KeyDirectory \<lparr>dk_depth = 1, dk_logical_path = LogicalPath ''a''\<rparr> < KeyFile k"
    "KeyFile k < KeyControl c" for k c
    by (simp_all add: less_canonical_export_order_key_def key_rank_def)
  have loc: "\<not> eq_ignore_ascii_case ''a'' ''.loc''" by code_simp
  have depth: "path_depth (LogicalPath ''a'') = 1" by code_simp
  have valid_file: "record_validate plain_unicode (sample_records n ! 1) = Inr ()"
    using sha sample_parents(2)
    by (simp add: sample_records_def record_validate_def rbind_Inr_iff validate_nonempty_def)
  show ?thesis
    unfolding validate_canonical_export_records_def rbind_Inr_iff
    using valid_file
    by (simp add: sample_records_def walk_record_def claim_record_def rbind_Inr_iff guard_Inr
        record_logical_path_def record_order_key_def empty_walk_def parent_missing_def sample_parents
        less[folded not_le] loc depth record_validate_def[of _ "RecDirectory _"] record_validate_def[of _ "RecControl _ _"])
qed

theorem export_layout_witness:
  "length (filter is_directory (sample_records 7)) = 1 \<and> length (filter is_file (sample_records 7)) = 1
   \<and> all_placed plain_unicode {} (sample_records 7)"
  using export_layout_canonical[OF sample_records_valid[of 7]]
  by (simp add: sample_records_def is_directory_def is_file_def)

end
