(* ===== verification/Source_Scope.thy ===== *)
theory Source_Scope
  imports Protocol_Freshness
begin

text \<open>
  Authorised source scopes and source generations (\<open>locality-protocol/src/lib.rs\<close>): what a provider
  selector, an authorised scope, a scope-authorised query and an ordered list of source generations must
  satisfy.
\<close>

section \<open>Slack identities\<close>

datatype slack_installation_id = SlackInstallationId (slack_installation_str: string)

datatype slack_installation_id_error = SlNonCanonical | SlNil

definition slack_installation_id_error_display :: "slack_installation_id_error \<Rightarrow> string" where
  "slack_installation_id_error_display e =
     (case e of
        SlNonCanonical \<Rightarrow> ''Slack installation ID must be a canonical lowercase hyphenated UUID''
      | SlNil \<Rightarrow> ''Slack installation ID must not be the nil UUID'')"

definition is_canonical_lowercase_hyphenated_uuid :: "string \<Rightarrow> bool" where
  "is_canonical_lowercase_hyphenated_uuid v \<longleftrightarrow>
     length v = 36 \<and>
     list_all (\<lambda>(index, c). if index \<in> set [8, 13, 18, 23] then c = CHR ''-'' else lower_hex c) (enumerate 0 v)"

definition slack_installation_id_new :: "string \<Rightarrow> slack_installation_id_error + slack_installation_id" where
  "slack_installation_id_new v =
     (if \<not> is_canonical_lowercase_hyphenated_uuid v then Inl SlNonCanonical
      else if list_all (\<lambda>c. c = CHR ''0'' \<or> c = CHR ''-'') v then Inl SlNil
      else Inr (SlackInstallationId v))"

definition is_ascii_uppercase :: "char \<Rightarrow> bool" where
  "is_ascii_uppercase c \<longleftrightarrow> (65 :: nat) \<le> of_char c \<and> of_char c \<le> (90 :: nat)"

definition MAX_SLACK_TEAM_ID_BYTES :: usize where "MAX_SLACK_TEAM_ID_BYTES = 32"
definition MAX_SLACK_CHANNEL_ID_BYTES :: usize where "MAX_SLACK_CHANNEL_ID_BYTES = 32"

definition validate_canonical_slack_id :: "string \<Rightarrow> string \<Rightarrow> string \<Rightarrow> usize \<Rightarrow> unit scope_result" where
  "validate_canonical_slack_id field v allowed_prefixes maximum_bytes =
     rbind (validate_nonempty field v) (\<lambda>_.
     if length v > maximum_bytes then Inl (ValueTooLong field maximum_bytes (length v))
     else if length v < 2 \<or> hd v \<notin> set allowed_prefixes
       \<or> \<not> list_all (\<lambda>c. is_ascii_uppercase c \<or> is_ascii_digit c) (tl v)
     then Inl (InvalidSlackId field) else Inr ())"

section \<open>Selectors\<close>

datatype slack_channel_sharing =
    SharePublic | SharePrivate | ShareExternallyPublic | ShareExternallyPrivate

record hosted_slack_channel_selector =
  hs_selector_version :: u16
  hs_installation_id :: slack_installation_id
  hs_team_id :: string
  hs_channel_id :: string
  hs_authorized_history_start_at :: string
  hs_sharing :: slack_channel_sharing

definition hosted_slack_validate :: "hosted_slack_channel_selector \<Rightarrow> unit scope_result" where
  "hosted_slack_validate s =
     (if hs_selector_version s \<noteq> 1 then Inl (UnsupportedSelectorVersion (hs_selector_version s))
      else
      rbind (validate_canonical_slack_id ''team_id'' (hs_team_id s) ''T'' MAX_SLACK_TEAM_ID_BYTES) (\<lambda>_.
      rbind (validate_canonical_slack_id ''channel_id'' (hs_channel_id s) ''CGD'' MAX_SLACK_CHANNEL_ID_BYTES) (\<lambda>_.
      if prefix ''D'' (hs_channel_id s) \<and> hs_sharing s \<noteq> SharePrivate then Inl (InvalidSlackId ''channel_id'')
      else validate_canonical_utc_timestamp ''authorized_history_start_at'' (hs_authorized_history_start_at s))))"

datatype notion_scope_kind = NotionPage | NotionDatabase
datatype granola_scope_kind = GranolaCollection | GranolaTeam | GranolaFolder | GranolaMeeting
datatype gmail_scope_kind = GmailLabel | GmailThread
datatype google_drive_scope_kind = DriveSharedDrive | DriveFolder
datatype github_scope_kind = GithubOrganization | GithubRepository

datatype provider_source_scope_selector =
    SelNotion u16 notion_scope_kind string
  | SelSlack u16 string
  | SelHostedSlackChannel hosted_slack_channel_selector
  | SelGranola u16 granola_scope_kind string
  | SelGmail u16 string gmail_scope_kind string
  | SelGoogleDrive u16 google_drive_scope_kind string
  | SelGithub u16 github_scope_kind string

definition selector_version :: "provider_source_scope_selector \<Rightarrow> u16" where
  "selector_version s =
     (case s of
        SelNotion v _ _ \<Rightarrow> v | SelSlack v _ \<Rightarrow> v | SelHostedSlackChannel h \<Rightarrow> hs_selector_version h
      | SelGranola v _ _ \<Rightarrow> v | SelGmail v _ _ _ \<Rightarrow> v | SelGoogleDrive v _ _ \<Rightarrow> v | SelGithub v _ _ \<Rightarrow> v)"

definition selector_validate :: "provider_source_scope_selector \<Rightarrow> unit scope_result" where
  "selector_validate s =
     (if selector_version s \<noteq> 1 then Inl (UnsupportedSelectorVersion (selector_version s))
      else
      (case s of
         SelNotion _ _ provider_scope_id \<Rightarrow> validate_nonempty ''provider_scope_id'' provider_scope_id
       | SelGranola _ _ provider_scope_id \<Rightarrow> validate_nonempty ''provider_scope_id'' provider_scope_id
       | SelGoogleDrive _ _ provider_scope_id \<Rightarrow> validate_nonempty ''provider_scope_id'' provider_scope_id
       | SelGithub _ _ provider_scope_id \<Rightarrow> validate_nonempty ''provider_scope_id'' provider_scope_id
       | SelSlack _ conversation_id \<Rightarrow> validate_nonempty ''conversation_id'' conversation_id
       | SelHostedSlackChannel h \<Rightarrow> hosted_slack_validate h
       | SelGmail _ mailbox_id _ provider_scope_id \<Rightarrow>
           rbind (validate_nonempty ''mailbox_id'' mailbox_id) (\<lambda>_.
           validate_nonempty ''provider_scope_id'' provider_scope_id)))"

section \<open>Scopes and queries\<close>

record authorized_source_scope =
  as_ordinal :: u32
  as_source_scope_id :: string
  as_source_connection_id :: string
  as_selector :: provider_source_scope_selector
  as_effective_actions :: "source_action set"
  as_validated_filter_digest :: "string option"

definition scope_validate :: "authorized_source_scope \<Rightarrow> unit scope_result" where
  "scope_validate s =
     rbind (validate_nonempty ''source_connection_id'' (as_source_connection_id s)) (\<lambda>_.
     rbind (selector_validate (as_selector s)) (\<lambda>_.
     if as_effective_actions s = {} then Inl (EmptyCollection ''effective_actions'')
     else
     (case as_validated_filter_digest s of
        None \<Rightarrow> Inr ()
      | Some digest \<Rightarrow> validate_sha256 ''validated_filter_digest'' digest)))"

record scope_authorized_session_query =
  sq_versions :: component_versions
  sq_tenant_id :: string
  sq_session_id :: string
  sq_acting_principal_id :: string
  sq_workload_id :: string
  sq_authorization_revision :: u64
  sq_policy_revision :: u64
  sq_profile_revision :: u64
  sq_authorized_scopes :: "authorized_source_scope list"
  sq_max_files :: u64
  sq_max_directories :: u64
  sq_max_bytes :: u64

fun check_scopes :: "usize \<Rightarrow> string set \<Rightarrow> authorized_source_scope list \<Rightarrow> unit scope_result" where
  "check_scopes expected ids [] = Inr ()"
| "check_scopes expected ids (s # rest) =
     rbind (scope_validate s) (\<lambda>_.
     if unat (as_ordinal s) \<noteq> expected
     then Inl (NonCanonicalOrdinal ''authorized_scopes'' (of_nat expected) (as_ordinal s))
     else if as_source_scope_id s \<in> ids then Inl (DuplicateValue ''source_scope_id'')
     else check_scopes (expected + 1) (insert (as_source_scope_id s) ids) rest)"

definition query_validate :: "scope_authorized_session_query \<Rightarrow> unit scope_result" where
  "query_validate q =
     rbind (map_err VersionCompatibility (validate_required (sq_versions q))) (\<lambda>_.
     if cv_session (sq_versions q) < 2 then Inl (ComponentVersionTooOld PcSession 2 (cv_session (sq_versions q)))
     else if cv_replica (sq_versions q) < 2 then Inl (ComponentVersionTooOld PcReplica 2 (cv_replica (sq_versions q)))
     else
     rbind (validate_nonempty ''tenant_id'' (sq_tenant_id q)) (\<lambda>_.
     rbind (validate_nonempty ''session_id'' (sq_session_id q)) (\<lambda>_.
     rbind (validate_nonempty ''acting_principal_id'' (sq_acting_principal_id q)) (\<lambda>_.
     rbind (validate_nonempty ''workload_id'' (sq_workload_id q)) (\<lambda>_.
     if sq_authorized_scopes q = [] then Inl (EmptyCollection ''authorized_scopes'')
     else if sq_max_files q = 0 \<or> sq_max_directories q = 0 \<or> sq_max_bytes q = 0 then Inl InvalidLimit
     else check_scopes 0 {} (sq_authorized_scopes q))))))"

section \<open>Source generations\<close>

record ordered_source_generation =
  sg_ordinal :: u32
  sg_source_connection_id :: string
  sg_source_generation_id :: string

fun check_generations :: "usize \<Rightarrow> string set \<Rightarrow> ordered_source_generation list \<Rightarrow> unit scope_result" where
  "check_generations expected ids [] = Inr ()"
| "check_generations expected ids (g # rest) =
     (if unat (sg_ordinal g) \<noteq> expected
      then Inl (NonCanonicalOrdinal ''source_generations'' (of_nat expected) (sg_ordinal g))
      else
      rbind (validate_nonempty ''source_connection_id'' (sg_source_connection_id g)) (\<lambda>_.
      if sg_source_connection_id g \<in> ids then Inl (DuplicateValue ''source_connection_id'')
      else check_generations (expected + 1) (insert (sg_source_connection_id g) ids) rest))"

definition validate_source_generations :: "ordered_source_generation list \<Rightarrow> unit scope_result" where
  "validate_source_generations gs =
     (if gs = [] then Inl (EmptyCollection ''source_generations'') else check_generations 0 {} gs)"

section \<open>What is accepted\<close>

lemma check_scopes_Inr:
  "check_scopes n ids ss = Inr () \<longleftrightarrow>
     (\<forall>s\<in>set ss. scope_validate s = Inr ()) \<and> (\<forall>i<length ss. unat (as_ordinal (ss ! i)) = n + i)
   \<and> distinct (map as_source_scope_id ss) \<and> ids \<inter> as_source_scope_id ` set ss = {}"
proof (induction ss arbitrary: n ids)
  case (Cons s ss)
  have "(\<forall>i<length (s # ss). unat (as_ordinal ((s # ss) ! i)) = n + i)
      \<longleftrightarrow> unat (as_ordinal s) = n \<and> (\<forall>i<length ss. unat (as_ordinal (ss ! i)) = Suc n + i)"
    by (auto simp: less_Suc_eq_0_disj)
  then show ?case by (auto simp: rbind_Inr_iff Cons.IH)
qed simp

lemma check_generations_Inr:
  "check_generations n ids gs = Inr () \<longleftrightarrow>
     (\<forall>g\<in>set gs. sg_source_connection_id g \<noteq> []) \<and> (\<forall>i<length gs. unat (sg_ordinal (gs ! i)) = n + i)
   \<and> distinct (map sg_source_connection_id gs) \<and> ids \<inter> sg_source_connection_id ` set gs = {}"
proof (induction gs arbitrary: n ids)
  case (Cons g gs)
  have "(\<forall>i<length (g # gs). unat (sg_ordinal ((g # gs) ! i)) = n + i)
      \<longleftrightarrow> unat (sg_ordinal g) = n \<and> (\<forall>i<length gs. unat (sg_ordinal (gs ! i)) = Suc n + i)"
    by (auto simp: less_Suc_eq_0_disj)
  then show ?case by (auto simp: rbind_Inr_iff Cons.IH)
qed simp

text \<open>The order of a list of generations determines their ordinals.\<close>

lemma generations_determined:
  assumes "validate_source_generations gs = Inr ()" "validate_source_generations hs = Inr ()"
    "map (\<lambda>g. (sg_source_connection_id g, sg_source_generation_id g)) gs
     = map (\<lambda>g. (sg_source_connection_id g, sg_source_generation_id g)) hs"
  shows "gs = hs"
proof (rule nth_equalityI)
  show len: "length gs = length hs" using assms(3) map_eq_imp_length_eq by blast
  fix i assume i: "i < length gs"
  have "unat (sg_ordinal (gs ! i)) = i" "unat (sg_ordinal (hs ! i)) = i"
    using assms(1,2) i len by (auto simp: validate_source_generations_def check_generations_Inr split: if_splits)
  then have "sg_ordinal (gs ! i) = sg_ordinal (hs ! i)" by (metis word_unat_eq_iff)
  moreover have "sg_source_connection_id (gs ! i) = sg_source_connection_id (hs ! i)"
    "sg_source_generation_id (gs ! i) = sg_source_generation_id (hs ! i)"
    using arg_cong[OF assms(3), of "\<lambda>xs. xs ! i"] i len by simp_all
  ultimately show "gs ! i = hs ! i" by simp
qed

lemma direct_messages_private:
  assumes "hosted_slack_validate h = Inr ()" "prefix ''D'' (hs_channel_id h)"
  shows "hs_sharing h = SharePrivate"
  using assms by (auto simp: hosted_slack_validate_def rbind_Inr_iff split: if_splits)

end
