(* ===== verification/Export_Digest.thy ===== *)
theory Export_Digest
  imports Export_Canonical
begin

text \<open>
  The two digests of an export. The inventory preimage determines the whole list of records, fields that
  are not written included, since validation derives them; and the incremental digest of the delivered
  bodies is the digest of one framed text of the bodies, however they were cut into chunks.
\<close>

section \<open>The inventory preimage determines the inventory\<close>

lemma append_count_Inr: "append_count out n = Inr out' \<longleftrightarrow> n < 2 ^ 64 \<and> out' = out @ to_be_bytes (of_nat n)"
  by (auto simp: append_count_def)

lemma sc_append_text_Inr: "sc_append_text out v = Inr out' \<longleftrightarrow> text_fits v \<and> out' = out @ text_frame v"
  by (auto simp: sc_append_text_def append_scalar_def append_count_Inr rbind_Inr_iff text_fits_def text_frame_def)

lemma word_bytes_fit [simp]: "text_fits (to_be_bytes v)"
  by (simp add: text_fits_def)

lemma sc_append_u64_Inr: "sc_append_u64 out v = Inr out' \<longleftrightarrow> out' = out @ text_frame (to_be_bytes v)"
  using sc_append_text_Inr[of out "to_be_bytes v" out'] by (simp add: sc_append_u64_def sc_append_text_def)

lemma append_labels_Inr:
  "append_labels out ls = Inr out' \<longleftrightarrow> list_all text_fits ls \<and> out' = out @ concat (map text_frame ls)"
  by (induction ls arbitrary: out) (auto simp: rbind_Inr_iff sc_append_text_Inr)

lemma label_fits [simp]: "text_fits (source_action_wire_label a)" "text_fits (projection_file_kind_wire_label k)"
  by (cases a; simp add: source_action_wire_label_def text_fits_def)
    (cases k; simp add: projection_file_kind_wire_label_def text_fits_def)

lemma labels_fit [simp]: "list_all text_fits (sorted_labels A)"
  using sorted_labels_set[of A] by (auto simp: list_all_iff)

lemma card_labels: "length (sorted_labels A) = card A"
  using sorted_labels_set[of A] sorted_labels_distinct[of A]
  by (metis card_image distinct_card action_label_inj inj_onI)

lemma card_actions: "card (A :: source_action set) \<le> 10"
proof -
  have "card A \<le> card (set all_source_actions)" by (rule card_mono[OF finite_set]) simp
  also have "\<dots> \<le> length all_source_actions" by (rule card_length)
  finally show ?thesis by (simp add: all_source_actions_def)
qed

definition actions_frame :: "source_action set \<Rightarrow> string" where
  "actions_frame A = to_be_bytes (of_nat (card A)) @ concat (map text_frame (sorted_labels A))"

interpretation actions_framing: framing actions_frame "\<lambda>_. True"
proof
  fix A B :: "source_action set" and r s
  assume "actions_frame A @ r = actions_frame B @ s"
  then have "of_nat (card A) = (of_nat (card B) :: u64)"
    and rest: "concat (map text_frame (sorted_labels A)) @ r = concat (map text_frame (sorted_labels B)) @ s"
    by (simp_all add: actions_frame_def u64_framing.framed_iff)
  then have "card A = card B" using card_actions[of A] card_actions[of B] by (subst (asm) of_nat_u64_inj) simp_all
  then have "length (sorted_labels A) = length (sorted_labels B)" by (simp add: card_labels)
  then have "sorted_labels A = sorted_labels B \<and> r = s"
    using rest text_framing.framed_list[OF labels_fit labels_fit] by blast
  then show "A = B \<and> r = s" by (simp add: sorted_labels_inj)
qed

definition record_frame :: "canonical_export_record \<Rightarrow> string" where
  "record_frame r =
     (case r of
        RecControl _ _ \<Rightarrow> []
      | RecDirectory k \<Rightarrow> text_frame ''directory'' @ text_frame (logical_path_str (dk_logical_path k))
      | RecFile k c f a h n \<Rightarrow>
          text_frame ''file'' @ text_frame (to_be_bytes (ucast (fk_winning_scope_ordinal k))) @ text_frame c
          @ text_frame (fk_projection_id k) @ text_frame (logical_path_str (fk_logical_path k))
          @ text_frame (projection_file_kind_wire_label f) @ actions_frame a @ text_frame h
          @ text_frame (to_be_bytes n))"

definition record_texts_fit :: "canonical_export_record \<Rightarrow> bool" where
  "record_texts_fit r \<longleftrightarrow>
     (case r of
        RecControl _ _ \<Rightarrow> True
      | RecDirectory k \<Rightarrow> text_fits (logical_path_str (dk_logical_path k))
      | RecFile k c f a h n \<Rightarrow>
          text_fits c \<and> text_fits (fk_projection_id k) \<and> text_fits (logical_path_str (fk_logical_path k)) \<and> text_fits h)"

definition record_fits :: "unicode_lib \<Rightarrow> canonical_export_record \<Rightarrow> bool" where
  "record_fits U r \<longleftrightarrow> record_validate U r = Inr () \<and> \<not> is_control r \<and> record_texts_fit r"

lemma class_tags: "text_fits ''directory''" "text_fits ''file''"
  by (simp_all add: text_fits_def)

lemma u32_ucast_inj: "ucast a = (ucast b :: u64) \<longleftrightarrow> a = b" for a b :: u32
  by transfer simp

lemma kind_label_inj: "projection_file_kind_wire_label k = projection_file_kind_wire_label l \<longleftrightarrow> k = l"
  by (metis kind_label_roundtrip option.inject)

lemma valid_directory: "record_validate U (RecDirectory k) = Inr () \<Longrightarrow> dk_depth k = path_depth (dk_logical_path k)"
  by (simp add: record_validate_def split: if_splits)

interpretation record_framing: framing record_frame "record_fits U" for U
proof
  fix v w r s
  assume v: "record_fits U v" and w: "record_fits U w" and eq: "record_frame v @ r = record_frame w @ s"
  show "v = w \<and> r = s"
  proof (cases v)
    case (RecDirectory k)
    with eq w obtain l where l: "w = RecDirectory l"
      by (cases w) (auto simp: record_frame_def record_fits_def is_control_def text_framing.framed_iff class_tags)
    with eq v w RecDirectory have "dk_logical_path k = dk_logical_path l" "r = s"
      by (auto simp: record_frame_def record_fits_def record_texts_fit_def text_framing.framed_iff class_tags
          logical_path_str_inj)
    moreover have "dk_depth k = path_depth (dk_logical_path k)" "dk_depth l = path_depth (dk_logical_path l)"
      using v w RecDirectory l by (auto simp: record_fits_def dest: valid_directory)
    ultimately show ?thesis using RecDirectory l by simp
  next
    case (RecFile k c f a h n)
    with eq w obtain l d g b i m where l: "w = RecFile l d g b i m"
      by (cases w) (auto simp: record_frame_def record_fits_def is_control_def text_framing.framed_iff class_tags)
    with eq v w RecFile have same: "fk_winning_scope_ordinal k = fk_winning_scope_ordinal l" "c = d"
      "fk_projection_id k = fk_projection_id l" "fk_logical_path k = fk_logical_path l" "f = g" "a = b" "h = i"
      "n = m" "r = s"
      by (simp_all add: record_frame_def record_fits_def record_texts_fit_def text_framing.framed_iff class_tags
          logical_path_str_inj actions_framing.framed_iff u32_ucast_inj kind_label_inj
          text_framing.framed_inj)
    have "logical_parent U (fk_logical_path k) = Inr (fk_parent_path k)"
      "logical_parent U (fk_logical_path l) = Inr (fk_parent_path l)"
      using v w RecFile l by (auto simp: record_fits_def dest!: file_parent)
    with same have "fk_parent_path k = fk_parent_path l" by simp
    with same RecFile l show ?thesis by simp
  next
    case RecControl
    with v show ?thesis by (simp add: record_fits_def is_control_def)
  qed
qed

lemma append_record_Inr:
  "append_record out r = Inr out' \<longleftrightarrow> record_texts_fit r \<and> out' = out @ record_frame r"
proof (cases r)
  case (RecFile k c f a h n)
  have "card a < 2 ^ 64" using card_actions[of a] by simp
  with RecFile show ?thesis
    by (auto simp: append_record_def rbind_Inr_iff sc_append_text_Inr sc_append_u64_Inr append_count_Inr
        append_labels_Inr record_texts_fit_def record_frame_def actions_frame_def class_tags)
qed (auto simp: append_record_def rbind_Inr_iff sc_append_text_Inr record_texts_fit_def record_frame_def class_tags)

lemma append_records_Inr:
  "append_records out rs = Inr out' \<longleftrightarrow> list_all record_texts_fit rs \<and> out' = out @ concat (map record_frame rs)"
  by (induction rs arbitrary: out) (auto simp: rbind_Inr_iff append_record_Inr)

lemma control_frame: "concat (map record_frame rs) = concat (map record_frame (filter (\<lambda>r. \<not> is_control r) rs))"
proof (induction rs)
  case (Cons r rs)
  then show ?case by (cases r) (simp_all add: record_frame_def is_control_def)
qed simp

lemma inventory_preimage_Inr:
  assumes "canonical_export_inventory_preimage U rs = Inr v"
  defines "ns \<equiv> filter (\<lambda>r. \<not> is_control r) rs"
  shows "rs = ns @ [RecControl \<lparr>ck_ordinal = 0\<rparr> RESERVED_EXPORT_METADATA_PATH]"
    "list_all (record_fits U) ns" "length ns < 2 ^ 64"
    "v = ''locality.export.inventory.v2'' @ [CHR 0x00] @ to_be_bytes (of_nat (length ns)) @ concat (map record_frame ns)"
proof -
  from assms have valid: "validate_canonical_export_records U rs = Inr ()"
    and len: "length ns < 2 ^ 64" and texts: "list_all record_texts_fit rs"
    and out: "v = ''locality.export.inventory.v2'' @ [CHR 0x00] @ to_be_bytes (of_nat (length ns))
      @ concat (map record_frame rs)"
    by (auto simp: canonical_export_inventory_preimage_def rbind_Inr_iff append_count_Inr append_records_Inr)
  note layout = export_records_layout[OF valid]
  have absorb: "p \<and> (p \<or> q) \<longleftrightarrow> p" "q \<and> (p \<or> q) \<longleftrightarrow> q" for p q by auto
  have classes: "\<not> is_directory (RecControl c p)" "\<not> is_file (RecControl c p)" for c p
    by (simp_all add: is_directory_def is_file_def)
  have kinds: "\<not> is_control r \<longleftrightarrow> is_directory r \<or> is_file r" for r
    by (cases r) (simp_all add: is_control_def is_directory_def is_file_def)
  have "ns = filter is_directory rs @ filter is_file rs"
  proof -
    have "ns = filter (\<lambda>r. \<not> is_control r) (filter is_directory rs @ filter is_file rs
        @ [RecControl \<lparr>ck_ordinal = 0\<rparr> RESERVED_EXPORT_METADATA_PATH])"
      unfolding ns_def using layout(1) by (rule arg_cong)
    then show ?thesis by (simp add: kinds absorb classes)
  qed
  with layout(1) show "rs = ns @ [RecControl \<lparr>ck_ordinal = 0\<rparr> RESERVED_EXPORT_METADATA_PATH]" by simp
  show "list_all (record_fits U) ns"
    using layout(2) texts by (auto simp: ns_def record_fits_def list_all_iff)
  show "length ns < 2 ^ 64" by (rule len)
  show "v = ''locality.export.inventory.v2'' @ [CHR 0x00] @ to_be_bytes (of_nat (length ns)) @ concat (map record_frame ns)"
    using out control_frame[of rs] by (simp add: ns_def)
qed

lemma export_preimage_inj:
  assumes "canonical_export_inventory_preimage U rs = Inr v" "canonical_export_inventory_preimage U qs = Inr v"
  shows "rs = qs"
proof -
  note r = inventory_preimage_Inr[OF assms(1)] and q = inventory_preimage_Inr[OF assms(2)]
  from r(4) q(4) have count: "of_nat (length (filter (\<lambda>r. \<not> is_control r) rs))
      = (of_nat (length (filter (\<lambda>r. \<not> is_control r) qs)) :: u64)"
    and rest: "concat (map record_frame (filter (\<lambda>r. \<not> is_control r) rs)) @ []
      = concat (map record_frame (filter (\<lambda>r. \<not> is_control r) qs)) @ []"
    by (simp_all add: u64_framing.framed_iff)
  then have "length (filter (\<lambda>r. \<not> is_control r) rs) = length (filter (\<lambda>r. \<not> is_control r) qs)"
    using r(3) q(3) by (simp add: of_nat_u64_inj)
  with rest have "filter (\<lambda>r. \<not> is_control r) rs = filter (\<lambda>r. \<not> is_control r) qs"
    using record_framing.framed_list[OF r(2) q(2)] by blast
  with r(1) q(1) show ?thesis by metis
qed

text \<open>C34: two inventories with the same digest are the same list of records, derived fields and control
  member included, or their preimages are a collision of the digest.\<close>

theorem export_digest_pins_inventory:
  assumes "canonical_export_inventory_sha256 U digest rs = Inr h" "canonical_export_inventory_sha256 U digest qs = Inr h"
  shows "rs = qs \<or> (\<exists>v w. canonical_export_inventory_preimage U rs = Inr v
    \<and> canonical_export_inventory_preimage U qs = Inr w \<and> v \<noteq> w \<and> digest v = digest w)"
proof -
  from assms obtain v w where "canonical_export_inventory_preimage U rs = Inr v"
    "canonical_export_inventory_preimage U qs = Inr w" "digest v = digest w"
    by (auto simp: canonical_export_inventory_sha256_def rbind_Inr_iff)
  with export_preimage_inj[of U rs v qs] show ?thesis by blast
qed

lemma sample_digest:
  "canonical_export_inventory_sha256 plain_unicode (\<lambda>_. ''x'') (sample_records n) = Inr ''sha256:x''"
proof -
  have "list_all record_texts_fit (sample_records n)"
    by (simp add: sample_records_def record_texts_fit_def text_fits_def)
  moreover have "length (filter (\<lambda>r. \<not> is_control r) (sample_records n)) < 2 ^ 64"
    by (simp add: sample_records_def)
  ultimately have "\<exists>v. canonical_export_inventory_preimage plain_unicode (sample_records n) = Inr v"
    using sample_records_valid[of n]
    by (simp add: canonical_export_inventory_preimage_def rbind_Inr_iff append_count_Inr append_records_Inr)
  then show ?thesis by (auto simp: canonical_export_inventory_sha256_def rbind_Inr_iff)
qed

text \<open>With a constant digest, the inventories of two different exports collide.\<close>

theorem export_digest_witness:
  "\<exists>v w. canonical_export_inventory_preimage plain_unicode (sample_records 7) = Inr v
    \<and> canonical_export_inventory_preimage plain_unicode (sample_records 8) = Inr w
    \<and> v \<noteq> w \<and> (\<lambda>_. ''x'') v = (\<lambda>_. ''x'') w"
proof -
  have "sample_records 7 \<noteq> sample_records 8" by (simp add: sample_records_def)
  with export_digest_pins_inventory[OF sample_digest sample_digest, of 7 8] show ?thesis by blast
qed

section \<open>The digest of the bodies\<close>

text \<open>A delivery: for each file its projection, the announced length, and the chunks of its body.\<close>

type_synonym delivery = "(string \<times> u64 \<times> string list) list"

fun feed_chunks :: "delivered_body_digest_v2 \<Rightarrow> string list \<Rightarrow> delivered_body_digest_v2 scope_result" where
  "feed_chunks s [] = Inr s"
| "feed_chunks s (c # cs) = rbind (update_file_chunk s c) (\<lambda>s. feed_chunks s cs)"

fun deliver :: "delivered_body_digest_v2 \<Rightarrow> delivery \<Rightarrow> delivered_body_digest_v2 scope_result" where
  "deliver s [] = Inr s"
| "deliver s ((projection, n, chunks) # rest) =
     rbind (begin_file s projection n) (\<lambda>s.
     rbind (feed_chunks s chunks) (\<lambda>s.
     rbind (end_file s) (\<lambda>s. deliver s rest)))"

definition delivered_bodies :: "delivery \<Rightarrow> (string \<times> string) list" where
  "delivered_bodies fs = map (\<lambda>(projection, n, chunks). (projection, concat chunks)) fs"

definition body_frame :: "string \<times> string \<Rightarrow> string" where
  "body_frame b = text_frame (fst b) @ text_frame (snd b)"

definition announced :: "string \<times> u64 \<times> string list \<Rightarrow> bool" where
  "announced f \<longleftrightarrow> (case f of (projection, n, chunks) \<Rightarrow>
     projection \<noteq> [] \<and> text_fits projection \<and> unat n = length (concat chunks))"

lemma feed_chunks_Inr:
  "bd_remaining_file_bytes s = Some m \<Longrightarrow>
     feed_chunks s cs = Inr s' \<longleftrightarrow> length (concat cs) \<le> unat m
       \<and> s' = s\<lparr>bd_hasher := bd_hasher s @ concat cs,
                bd_remaining_file_bytes := Some (m - of_nat (length (concat cs)))\<rparr>"
proof (induction cs arbitrary: s m)
  case (Cons c cs)
  have m: "unat m < 2 ^ 64" by (rule u64_bound)
  show ?case
  proof (cases "length c \<le> unat m")
    case True
    with m have fits: "length c < 2 ^ 64" by simp
    then have c: "unat (of_nat (length c) :: u64) = length c" by (simp add: unat_of_nat)
    with True have le: "(of_nat (length c) :: u64) \<le> m" by (simp add: word_le_nat_alt)
    let ?t = "s\<lparr>bd_hasher := bd_hasher s @ c, bd_remaining_file_bytes := Some (m - of_nat (length c))\<rparr>"
    have t: "update_file_chunk s c = Inr ?t"
      using fits le Cons.prems by (simp add: update_file_chunk_def ok_or_def u64_checked_sub_def)
    have "unat (m - of_nat (length c)) = unat m - length c" using le c by (simp add: unat_sub)
    then show ?thesis
      using Cons.IH[of ?t "m - of_nat (length c)"] t True
      by (auto simp: le_diff_conv2 add.commute diff_diff_eq)
  next
    case False
    have "update_file_chunk s c \<noteq> Inr s1" for s1
    proof
      assume "update_file_chunk s c = Inr s1"
      then have "length c < 2 ^ 64" "(of_nat (length c) :: u64) \<le> m"
        using Cons.prems by (auto simp: update_file_chunk_def rbind_Inr_iff u64_checked_sub_def split: if_splits)
      then have "length c \<le> unat m" by (simp add: word_le_nat_alt unat_of_nat)
      with False show False by simp
    qed
    with False show ?thesis by (auto simp: rbind_Inr_iff)
  qed
qed auto

lemma end_file_Inr:
  "end_file s = Inr s' \<longleftrightarrow> bd_remaining_file_bytes s = Some 0 \<and> unat (bd_delivered_file_count s) + 1 < 2 ^ 64
     \<and> s' = s\<lparr>bd_remaining_file_bytes := None, bd_delivered_file_count := bd_delivered_file_count s + 1\<rparr>"
proof -
  have "u64_checked_add a 1 = Some c \<longleftrightarrow> unat a + 1 < 2 ^ 64 \<and> c = a + 1" for a c
    using u64_checked_add_fits[of a 1] u64_checked_add_iff[of a 1 c] by auto
  then show ?thesis by (auto simp: end_file_def rbind_Inr_iff)
qed

lemma begin_file_Inr:
  "begin_file s projection n = Inr s' \<longleftrightarrow> bd_remaining_file_bytes s = None \<and> projection \<noteq> [] \<and> text_fits projection
     \<and> s' = s\<lparr>bd_hasher := bd_hasher s @ text_frame projection @ to_be_bytes n, bd_remaining_file_bytes := Some n\<rparr>"
  by (auto simp: begin_file_def rbind_Inr_iff validate_nonempty_def update_digest_scalar_def text_fits_def
      text_frame_def)

lemma deliver_Inr:
  "bd_remaining_file_bytes s = None \<Longrightarrow>
     deliver s fs = Inr s' \<longleftrightarrow>
       list_all announced fs \<and> unat (bd_delivered_file_count s) + length fs < 2 ^ 64
     \<and> s' = s\<lparr>bd_hasher := bd_hasher s @ concat (map body_frame (delivered_bodies fs)),
              bd_delivered_file_count := bd_delivered_file_count s + of_nat (length fs)\<rparr>"
proof (induction fs arbitrary: s)
  case Nil
  then show ?case using u64_bound[of "bd_delivered_file_count s"] by (auto simp: delivered_bodies_def)
next
  case (Cons f fs)
  obtain p n cs where f: "f = (p, n, cs)" by (cases f)
  have "length (concat cs) \<le> unat n \<and> n - of_nat (length (concat cs)) = 0 \<longleftrightarrow> unat n = length (concat cs)"
  proof
    assume *: "length (concat cs) \<le> unat n \<and> n - of_nat (length (concat cs)) = 0"
    then have "length (concat cs) < 2 ^ 64" using u64_bound[of n] by linarith
    then have "unat (of_nat (length (concat cs)) :: u64) = length (concat cs)" by (simp add: unat_of_nat)
    with * show "unat n = length (concat cs)" by (metis eq_iff_diff_eq_0)
  next
    assume *: "unat n = length (concat cs)"
    then have "n - of_nat (length (concat cs)) = 0" by (simp flip: *)
    with * show "length (concat cs) \<le> unat n \<and> n - of_nat (length (concat cs)) = 0" by simp
  qed
  note exact = this
  let ?s = "s\<lparr>bd_hasher := bd_hasher s @ body_frame (p, concat cs),
      bd_delivered_file_count := bd_delivered_file_count s + 1\<rparr>"
  have frame: "body_frame (p, concat cs) = text_frame p @ to_be_bytes n @ concat cs" if "unat n = length (concat cs)"
    by (simp add: body_frame_def text_frame_def flip: that)
  have "deliver s (f # fs) = Inr s' \<longleftrightarrow>
      announced f \<and> unat (bd_delivered_file_count s) + 1 < 2 ^ 64 \<and> deliver ?s fs = Inr s'"
  proof
    assume "deliver s (f # fs) = Inr s'"
    then obtain s1 s2 s3 where s: "begin_file s p n = Inr s1" "feed_chunks s1 cs = Inr s2" "end_file s2 = Inr s3"
      "deliver s3 fs = Inr s'"
      by (auto simp: f rbind_Inr_iff)
    from s(1) have 1: "p \<noteq> []" "text_fits p" "bd_remaining_file_bytes s1 = Some n"
      "s1 = s\<lparr>bd_hasher := bd_hasher s @ text_frame p @ to_be_bytes n, bd_remaining_file_bytes := Some n\<rparr>"
      by (auto simp: begin_file_Inr)
    note 2 = s(2)[unfolded feed_chunks_Inr[OF 1(3)]]
    note 3 = s(3)[unfolded end_file_Inr]
    from 2 3 have len: "unat n = length (concat cs)" using exact by simp
    have "s3 = ?s" using 1(4) 2 3 Cons.prems frame[OF len] by simp
    with s(4) 1 2 3 len show "announced f \<and> unat (bd_delivered_file_count s) + 1 < 2 ^ 64 \<and> deliver ?s fs = Inr s'"
      by (simp add: f announced_def)
  next
    assume r: "announced f \<and> unat (bd_delivered_file_count s) + 1 < 2 ^ 64 \<and> deliver ?s fs = Inr s'"
    then have len: "unat n = length (concat cs)" by (simp add: f announced_def)
    with exact have "length (concat cs) \<le> unat n" "n - of_nat (length (concat cs)) = 0" by blast+
    then show "deliver s (f # fs) = Inr s'"
      using r Cons.prems frame[OF len]
      by (cases s) (simp add: f announced_def rbind_Inr_iff begin_file_Inr feed_chunks_Inr end_file_Inr)
  qed
  moreover have "unat (bd_delivered_file_count s + 1) = unat (bd_delivered_file_count s) + 1"
    if "unat (bd_delivered_file_count s) + 1 < 2 ^ 64"
    using that by (simp add: unat_word_ariths)
  ultimately show ?case
    using Cons.IH[of ?s] Cons.prems by (auto simp: f delivered_bodies_def add.assoc)
qed

text \<open>C37: the digest of a delivery is the digest of its bodies alone. A run over the state machine ends with
  a digest exactly when every file has a projection and as many bytes as announced and the files are as
  many as expected; the digest is then that of one text, with each projection and each body framed by
  its length, however the bodies were cut into chunks.\<close>

theorem body_digest_of_bodies:
  "rbind (deliver (body_digest_new expected) fs) (body_digest_finish digest) = Inr h \<longleftrightarrow>
     list_all announced fs \<and> length fs < 2 ^ 64 \<and> expected = of_nat (length fs)
   \<and> h = ''sha256:'' @ digest (''locality.export.delivered-bodies.v2'' @ [CHR 0x00] @ to_be_bytes expected
            @ concat (map body_frame (delivered_bodies fs)))"
proof -
  have "deliver (body_digest_new expected) fs = Inr s' \<longleftrightarrow>
      list_all announced fs \<and> length fs < 2 ^ 64
    \<and> s' = (body_digest_new expected)\<lparr>bd_hasher := bd_hasher (body_digest_new expected)
          @ concat (map body_frame (delivered_bodies fs)), bd_delivered_file_count := of_nat (length fs)\<rparr>" for s'
    by (subst deliver_Inr) (auto simp: body_digest_new_def)
  then show ?thesis
    by (auto simp: rbind_Inr_iff body_digest_finish_def body_digest_new_def)
qed

end
