(* ===== verification/Export_Offer.thy ===== *)
theory Export_Offer
  imports Source_Scope Export_Digest
begin

text \<open>
  Export attempts (\<open>locality-protocol/src/lib.rs\<close>): the request, the sealed offer, the completion receipt
  and the terminal control member, with the checks that tie them to each other and to the inventory.
  SHA-256 and Unicode are parameters, and so is the JSON text of a receipt.
\<close>

section \<open>Requests and offers\<close>

record export_attempt_limits =
  el_max_files :: u64
  el_max_directories :: u64
  el_max_content_bytes :: u64

definition limits_validate :: "export_attempt_limits \<Rightarrow> unit scope_result" where
  "limits_validate l =
     (if el_max_files l = 0 \<or> el_max_directories l = 0 \<or> el_max_content_bytes l = 0 then Inl InvalidLimit
      else Inr ())"

record export_attempt_request =
  er_versions :: component_versions
  er_opaque_session_capability :: string
  er_idempotency_key :: string
  er_content_encoding :: tar_content_encoding
  er_limits :: export_attempt_limits

definition MAX_IDEMPOTENCY_KEY_BYTES :: usize where "MAX_IDEMPOTENCY_KEY_BYTES = 128"

definition export_request_validate :: "export_attempt_request \<Rightarrow> unit scope_result" where
  "export_request_validate r =
     rbind (validate_export_versions (er_versions r)) (\<lambda>_.
     rbind (validate_nonempty ''opaque_session_capability'' (er_opaque_session_capability r)) (\<lambda>_.
     rbind (validate_nonempty ''idempotency_key'' (er_idempotency_key r)) (\<lambda>_.
     if length (er_idempotency_key r) > MAX_IDEMPOTENCY_KEY_BYTES
     then Inl (ValueTooLong ''idempotency_key'' MAX_IDEMPOTENCY_KEY_BYTES (length (er_idempotency_key r)))
     else limits_validate (er_limits r))))"

definition validate_export_counts :: "u64 \<Rightarrow> u64 \<Rightarrow> u64 \<Rightarrow> u64 \<Rightarrow> unit scope_result" where
  "validate_export_counts control_entries files directories archive_entries =
     (if control_entries \<noteq> 1
        \<or> Option.bind (u64_checked_add control_entries directories) (\<lambda>n. u64_checked_add n files)
            \<noteq> Some archive_entries
      then Inl InconsistentArchiveEntryCount else Inr ())"

definition validate_selection_limits :: "export_attempt_limits \<Rightarrow> u64 \<Rightarrow> u64 \<Rightarrow> u64 \<Rightarrow> unit scope_result" where
  "validate_selection_limits limits files directories content_bytes =
     (if files > el_max_files limits \<or> directories > el_max_directories limits
        \<or> content_bytes > el_max_content_bytes limits
      then Inl SelectionExceedsLimits else Inr ())"

record sealed_export_offer =
  of_versions :: component_versions
  of_session_id :: string
  of_export_attempt_id :: string
  of_source_generations :: "ordered_source_generation list"
  of_media_type :: string
  of_content_encoding :: tar_content_encoding
  of_limits :: export_attempt_limits
  of_control_entry_count :: u64
  of_file_count :: u64
  of_directory_count :: u64
  of_archive_entry_count :: u64
  of_selected_content_bytes :: u64
  of_inventory_sha256 :: string
  of_writable_metadata_sha256 :: string
  of_sealed_at :: string
  of_expires_at :: string

definition offer_validate :: "sealed_export_offer \<Rightarrow> unit scope_result" where
  "offer_validate f =
     rbind (validate_export_versions (of_versions f)) (\<lambda>_.
     rbind (validate_nonempty ''session_id'' (of_session_id f)) (\<lambda>_.
     rbind (validate_source_generations (of_source_generations f)) (\<lambda>_.
     rbind (validate_nonempty ''media_type'' (of_media_type f)) (\<lambda>_.
     rbind (validate_nonempty ''sealed_at'' (of_sealed_at f)) (\<lambda>_.
     rbind (validate_nonempty ''expires_at'' (of_expires_at f)) (\<lambda>_.
     rbind (limits_validate (of_limits f)) (\<lambda>_.
     rbind (validate_export_counts (of_control_entry_count f) (of_file_count f) (of_directory_count f)
              (of_archive_entry_count f)) (\<lambda>_.
     rbind (validate_selection_limits (of_limits f) (of_file_count f) (of_directory_count f)
              (of_selected_content_bytes f)) (\<lambda>_.
     rbind (validate_sha256 ''inventory_sha256'' (of_inventory_sha256 f)) (\<lambda>_.
     validate_sha256 ''writable_metadata_sha256'' (of_writable_metadata_sha256 f)))))))))))"

record export_counts =
  xc_control :: u64
  xc_directories :: u64
  xc_files :: u64
  xc_content_bytes :: u64

fun count_records :: "export_counts \<Rightarrow> canonical_export_record list \<Rightarrow> export_counts scope_result" where
  "count_records c [] = Inr c"
| "count_records c (RecControl _ _ # rs) = count_records (c\<lparr>xc_control := xc_control c + 1\<rparr>) rs"
| "count_records c (RecDirectory _ # rs) = count_records (c\<lparr>xc_directories := xc_directories c + 1\<rparr>) rs"
| "count_records c (RecFile _ _ _ _ _ byte_length # rs) =
     rbind (ok_or InventoryTooLarge (u64_checked_add (xc_content_bytes c) byte_length)) (\<lambda>bytes.
     count_records (c\<lparr>xc_files := xc_files c + 1, xc_content_bytes := bytes\<rparr>) rs)"

text \<open>The libraries: Unicode and the hexadecimal SHA-256 digest.\<close>

record export_lib =
  xl_unicode :: unicode_lib
  xl_digest :: "string \<Rightarrow> string"

definition validate_inventory ::
    "export_lib \<Rightarrow> sealed_export_offer \<Rightarrow> canonical_export_record list \<Rightarrow> unit scope_result" where
  "validate_inventory L f records =
     rbind (offer_validate f) (\<lambda>_.
     rbind (validate_canonical_export_records (xl_unicode L) records) (\<lambda>_.
     rbind (count_records \<lparr>xc_control = 0, xc_directories = 0, xc_files = 0, xc_content_bytes = 0\<rparr> records) (\<lambda>c.
     rbind (canonical_export_inventory_sha256 (xl_unicode L) (xl_digest L) records) (\<lambda>inventory_sha256.
     rbind (if length records < 2 ^ 64 then Inr (of_nat (length records)) else Inl InventoryTooLarge) (\<lambda>archive_entries.
     if xc_control c \<noteq> of_control_entry_count f
       \<or> xc_directories c \<noteq> of_directory_count f
       \<or> xc_files c \<noteq> of_file_count f
       \<or> archive_entries \<noteq> of_archive_entry_count f
       \<or> xc_content_bytes c \<noteq> of_selected_content_bytes f
       \<or> inventory_sha256 \<noteq> of_inventory_sha256 f
     then Inl InventoryDoesNotMatchOffer else Inr ())))))"

section \<open>Receipts\<close>

record export_completion_receipt =
  cr_versions :: component_versions
  cr_session_id :: string
  cr_export_attempt_id :: string
  cr_source_generations :: "ordered_source_generation list"
  cr_inventory_sha256 :: string
  cr_writable_metadata_sha256 :: string
  cr_delivered_control_entry_count :: u64
  cr_delivered_file_count :: u64
  cr_delivered_directory_count :: u64
  cr_delivered_archive_entry_count :: u64
  cr_delivered_content_bytes :: u64
  cr_delivered_body_sha256 :: string
  cr_completed_at :: string

definition completion_validate :: "export_completion_receipt \<Rightarrow> unit scope_result" where
  "completion_validate r =
     rbind (validate_export_versions (cr_versions r)) (\<lambda>_.
     rbind (validate_nonempty ''session_id'' (cr_session_id r)) (\<lambda>_.
     rbind (validate_source_generations (cr_source_generations r)) (\<lambda>_.
     rbind (validate_nonempty ''completed_at'' (cr_completed_at r)) (\<lambda>_.
     rbind (validate_export_counts (cr_delivered_control_entry_count r) (cr_delivered_file_count r)
              (cr_delivered_directory_count r) (cr_delivered_archive_entry_count r)) (\<lambda>_.
     rbind (validate_sha256 ''inventory_sha256'' (cr_inventory_sha256 r)) (\<lambda>_.
     rbind (validate_sha256 ''writable_metadata_sha256'' (cr_writable_metadata_sha256 r)) (\<lambda>_.
     validate_sha256 ''delivered_body_sha256'' (cr_delivered_body_sha256 r))))))))"

definition completion_validate_against ::
    "export_completion_receipt \<Rightarrow> sealed_export_offer \<Rightarrow> unit scope_result" where
  "completion_validate_against r f =
     rbind (completion_validate r) (\<lambda>_.
     rbind (offer_validate f) (\<lambda>_.
     if cr_session_id r \<noteq> of_session_id f
       \<or> cr_export_attempt_id r \<noteq> of_export_attempt_id f
       \<or> cr_source_generations r \<noteq> of_source_generations f
       \<or> cr_inventory_sha256 r \<noteq> of_inventory_sha256 f
       \<or> cr_writable_metadata_sha256 r \<noteq> of_writable_metadata_sha256 f
       \<or> cr_delivered_control_entry_count r \<noteq> of_control_entry_count f
       \<or> cr_delivered_file_count r \<noteq> of_file_count f
       \<or> cr_delivered_directory_count r \<noteq> of_directory_count f
       \<or> cr_delivered_archive_entry_count r \<noteq> of_archive_entry_count f
       \<or> cr_delivered_content_bytes r \<noteq> of_selected_content_bytes f
     then Inl ReceiptDoesNotMatchOffer else Inr ()))"

text \<open>The JSON text of the receipt is an argument; \<open>None\<close> is a failure of the encoder.\<close>

definition canonical_export_completion_receipt_sha256 ::
    "(export_completion_receipt \<Rightarrow> string option) \<Rightarrow> (string \<Rightarrow> string) \<Rightarrow> export_completion_receipt
     \<Rightarrow> string scope_result" where
  "canonical_export_completion_receipt_sha256 json digest r =
     rbind (completion_validate r) (\<lambda>_.
     rbind (ok_or InvalidControlRecord (json r)) (\<lambda>text.
     Inr (''sha256:'' @ digest (''locality.export.completion-receipt.v2'' @ [CHR 0x00] @ text))))"

section \<open>Writable metadata\<close>

record writable_metadata_entry =
  we_projection_id :: string
  we_logical_path :: logical_path
  we_source_remote_ids :: "remote_id list"
  we_delivered_content_sha256 :: string
  we_provider_precondition :: string
  we_effective_actions :: "source_action set"
  we_baseline_required :: bool

record scope_authorized_writable_export_metadata =
  wm_versions :: component_versions
  wm_session_id :: string
  wm_export_attempt_id :: string
  wm_source_generations :: "ordered_source_generation list"
  wm_writable_entries :: "writable_metadata_entry list"

text \<open>\<open>windows(2).any(|pair| pair[0] >= pair[1])\<close>.\<close>

fun some_pair_not_less :: "'a::linorder list \<Rightarrow> bool" where
  "some_pair_not_less (a # b # rest) \<longleftrightarrow> a \<ge> b \<or> some_pair_not_less (b # rest)"
| "some_pair_not_less _ \<longleftrightarrow> False"

definition writable_entry_ok :: "string option \<Rightarrow> writable_metadata_entry \<Rightarrow> unit scope_result" where
  "writable_entry_ok previous e =
     rbind (validate_nonempty ''projection_id'' (we_projection_id e)) (\<lambda>_.
     if (case previous of Some p \<Rightarrow> p \<ge> we_projection_id e | None \<Rightarrow> False) then Inl NonCanonicalRecordOrder
     else if we_source_remote_ids e = [] then Inl (EmptyCollection ''source_remote_ids'')
     else if some_pair_not_less (we_source_remote_ids e) then Inl (DuplicateValue ''source_remote_ids'')
     else if we_effective_actions e = {} then Inl (EmptyCollection ''effective_actions'')
     else if \<not> list_ex (\<lambda>a. a \<in> we_effective_actions e \<and> source_action_allows_mutation a) all_source_actions
     then Inl InvalidControlRecord
     else
     rbind (validate_nonempty ''provider_precondition'' (we_provider_precondition e)) (\<lambda>_.
     validate_sha256 ''delivered_content_sha256'' (we_delivered_content_sha256 e)))"

fun writable_entries_ok :: "string option \<Rightarrow> writable_metadata_entry list \<Rightarrow> unit scope_result" where
  "writable_entries_ok previous [] = Inr ()"
| "writable_entries_ok previous (e # es) =
     rbind (writable_entry_ok previous e) (\<lambda>_. writable_entries_ok (Some (we_projection_id e)) es)"

definition validate_writable_metadata_shape ::
    "scope_authorized_writable_export_metadata \<Rightarrow> unit scope_result" where
  "validate_writable_metadata_shape m =
     rbind (validate_export_versions (wm_versions m)) (\<lambda>_.
     rbind (validate_nonempty ''session_id'' (wm_session_id m)) (\<lambda>_.
     rbind (validate_source_generations (wm_source_generations m)) (\<lambda>_.
     writable_entries_ok None (wm_writable_entries m))))"

fun append_generations :: "string \<Rightarrow> ordered_source_generation list \<Rightarrow> string scope_result" where
  "append_generations out [] = Inr out"
| "append_generations out (g # gs) =
     rbind (sc_append_u64 out (ucast (sg_ordinal g))) (\<lambda>out.
     rbind (sc_append_text out (sg_source_connection_id g)) (\<lambda>out.
     rbind (sc_append_text out (sg_source_generation_id g)) (\<lambda>out. append_generations out gs)))"

definition append_writable_entry :: "string \<Rightarrow> writable_metadata_entry \<Rightarrow> string scope_result" where
  "append_writable_entry out e =
     rbind (sc_append_text out (we_projection_id e)) (\<lambda>out.
     rbind (sc_append_text out (logical_path_str (we_logical_path e))) (\<lambda>out.
     rbind (append_count out (length (we_source_remote_ids e))) (\<lambda>out.
     rbind (append_labels out (map remote_id_str (we_source_remote_ids e))) (\<lambda>out.
     rbind (sc_append_text out (we_delivered_content_sha256 e)) (\<lambda>out.
     rbind (sc_append_text out (we_provider_precondition e)) (\<lambda>out.
     rbind (append_count out (card (we_effective_actions e))) (\<lambda>out.
     rbind (append_labels out (sorted_labels (we_effective_actions e))) (\<lambda>out.
     sc_append_text out (if we_baseline_required e then ''true'' else ''false'')))))))))"

fun append_writable_entries :: "string \<Rightarrow> writable_metadata_entry list \<Rightarrow> string scope_result" where
  "append_writable_entries out [] = Inr out"
| "append_writable_entries out (e # es) =
     rbind (append_writable_entry out e) (\<lambda>out. append_writable_entries out es)"

fun append_numbers :: "string \<Rightarrow> u64 list \<Rightarrow> string scope_result" where
  "append_numbers out [] = Inr out"
| "append_numbers out (n # ns) = rbind (sc_append_u64 out n) (\<lambda>out. append_numbers out ns)"

definition writable_metadata_preimage :: "scope_authorized_writable_export_metadata \<Rightarrow> string scope_result" where
  "writable_metadata_preimage m =
     rbind (validate_writable_metadata_shape m) (\<lambda>_.
     let v = wm_versions m in
     rbind (append_numbers (''locality.export.writable-metadata.v2'' @ [CHR 0x00])
              [ucast (cv_session v), ucast (cv_replica v), ucast (cv_export_metadata v),
               ucast (cv_writable_session_store v), ucast (cv_canonical v), ucast (cv_path v),
               ucast (cv_changeset v)]) (\<lambda>out.
     rbind (sc_append_text out (wm_session_id m)) (\<lambda>out.
     rbind (sc_append_text out (wm_export_attempt_id m)) (\<lambda>out.
     rbind (append_count out (length (wm_source_generations m))) (\<lambda>out.
     rbind (append_generations out (wm_source_generations m)) (\<lambda>out.
     rbind (append_count out (length (wm_writable_entries m))) (\<lambda>out.
     append_writable_entries out (wm_writable_entries m))))))))"

definition canonical_writable_metadata_sha256 ::
    "(string \<Rightarrow> string) \<Rightarrow> scope_authorized_writable_export_metadata \<Rightarrow> string scope_result" where
  "canonical_writable_metadata_sha256 digest m =
     rbind (writable_metadata_preimage m) (\<lambda>v. Inr (''sha256:'' @ digest v))"

definition metadata_validate_against ::
    "export_lib \<Rightarrow> scope_authorized_writable_export_metadata \<Rightarrow> sealed_export_offer \<Rightarrow> unit scope_result" where
  "metadata_validate_against L m f =
     rbind (validate_writable_metadata_shape m) (\<lambda>_.
     if wm_session_id m \<noteq> of_session_id f
       \<or> wm_export_attempt_id m \<noteq> of_export_attempt_id f
       \<or> wm_source_generations m \<noteq> of_source_generations f
     then Inl ReceiptDoesNotMatchOffer
     else
     rbind (canonical_writable_metadata_sha256 (xl_digest L) m) (\<lambda>v.
     if v \<noteq> of_writable_metadata_sha256 f then Inl ReceiptDoesNotMatchOffer else Inr ()))"

section \<open>The terminal control member\<close>

record export_terminal_control_v2 =
  tc_writable_metadata :: scope_authorized_writable_export_metadata
  tc_completion_receipt :: export_completion_receipt

definition control_validate_against ::
    "export_lib \<Rightarrow> export_terminal_control_v2 \<Rightarrow> sealed_export_offer \<Rightarrow> unit scope_result" where
  "control_validate_against L c f =
     rbind (metadata_validate_against L (tc_writable_metadata c) f) (\<lambda>_.
     completion_validate_against (tc_completion_receipt c) f)"

text \<open>The files by projection, as a map collects them: the last record of a projection stays.\<close>

definition files_by_projection ::
    "canonical_export_record list \<Rightarrow> string \<Rightarrow> (logical_path \<times> source_action set \<times> string) option" where
  "files_by_projection records =
     map_of (rev (options (\<lambda>r. case r of
       RecFile k _ _ actions sha _ \<Rightarrow> Some (fk_projection_id k, fk_logical_path k, actions, sha) | _ \<Rightarrow> None) records))"

fun check_writable_entries ::
    "(string \<Rightarrow> (logical_path \<times> source_action set \<times> string) option) \<Rightarrow> writable_metadata_entry list
     \<Rightarrow> unit scope_result" where
  "check_writable_entries files [] = Inr ()"
| "check_writable_entries files (e # es) =
     (if files (we_projection_id e)
         \<noteq> Some (we_logical_path e, we_effective_actions e, we_delivered_content_sha256 e)
      then Inl InvalidControlRecord else check_writable_entries files es)"

fun check_unique_projections :: "string set \<Rightarrow> writable_metadata_entry list \<Rightarrow> unit scope_result" where
  "check_unique_projections ids [] = Inr ()"
| "check_unique_projections ids (e # es) =
     (if we_projection_id e \<in> ids then Inl (DuplicateValue ''projection_id'')
      else check_unique_projections (insert (we_projection_id e) ids) es)"

definition control_validate_against_inventory ::
    "export_lib \<Rightarrow> export_terminal_control_v2 \<Rightarrow> sealed_export_offer \<Rightarrow> canonical_export_record list
     \<Rightarrow> unit scope_result" where
  "control_validate_against_inventory L c f records =
     rbind (control_validate_against L c f) (\<lambda>_.
     rbind (validate_inventory L f records) (\<lambda>_.
     let entries = wm_writable_entries (tc_writable_metadata c) in
     rbind (check_writable_entries (files_by_projection records) entries) (\<lambda>_.
     check_unique_projections {} entries)))"

end
