(* ===== verification/Export_Control.thy ===== *)
theory Export_Control
  imports Export_Offer
begin

text \<open>
  What an accepted export proves: the completion receipt states the exact counts and bytes of the
  inventory within the negotiated limits, every writable entry is a delivered file, and the writable
  metadata is the one that the offer sealed.
\<close>

section \<open>Counts\<close>





section \<open>Writable entries\<close>










section \<open>The digest of the writable metadata\<close>

lemma numbers_frame_Inr:
  "append_numbers out ns = Inr out' \<longleftrightarrow> out' = out @ concat (map (\<lambda>n. text_frame (to_be_bytes n)) ns)"
  by (induction ns arbitrary: out) (auto simp: rbind_Inr_iff sc_append_u64_Inr)

interpretation number_framing: framing "\<lambda>n. text_frame (to_be_bytes n)" "\<lambda>_. True"
  by unfold_locales (auto simp: text_framing.framed_iff)

definition ids_frame :: "remote_id list \<Rightarrow> string" where
  "ids_frame ids = to_be_bytes (of_nat (length ids)) @ concat (map text_frame (map remote_id_str ids))"

definition ids_fit :: "remote_id list \<Rightarrow> bool" where
  "ids_fit ids \<longleftrightarrow> length ids < 2 ^ 64 \<and> list_all text_fits (map remote_id_str ids)"

interpretation ids_framing: framing ids_frame ids_fit
proof
  fix v w r s
  assume fits: "ids_fit v" "ids_fit w" and eq: "ids_frame v @ r = ids_frame w @ s"
  from eq have "of_nat (length v) = (of_nat (length w) :: u64)"
    and rest: "concat (map text_frame (map remote_id_str v)) @ r = concat (map text_frame (map remote_id_str w)) @ s"
    by (simp_all only: ids_frame_def append_assoc u64_framing.framed_iff TrueI)
  with fits have "length v = length w" by (simp add: ids_fit_def of_nat_u64_inj)
  then have len: "length (map remote_id_str v) = length (map remote_id_str w)" by simp
  have "list_all text_fits (map remote_id_str v)" "list_all text_fits (map remote_id_str w)"
    using fits by (simp_all add: ids_fit_def)
  then have "map remote_id_str v = map remote_id_str w" "r = s"
    using text_framing.framed_list[OF _ _ len] rest by blast+
  moreover have "inj remote_id_str" by (rule injI) (rule remote_id.expand)
  ultimately show "v = w \<and> r = s" by (simp add: inj_map_eq_map)
qed

definition writable_frame :: "writable_metadata_entry \<Rightarrow> string" where
  "writable_frame e =
     text_frame (we_projection_id e) @ text_frame (logical_path_str (we_logical_path e))
     @ ids_frame (we_source_remote_ids e) @ text_frame (we_delivered_content_sha256 e)
     @ text_frame (we_provider_precondition e) @ actions_frame (we_effective_actions e)
     @ text_frame (if we_baseline_required e then ''true'' else ''false'')"

definition writable_fits :: "writable_metadata_entry \<Rightarrow> bool" where
  "writable_fits e \<longleftrightarrow>
     text_fits (we_projection_id e) \<and> text_fits (logical_path_str (we_logical_path e))
   \<and> ids_fit (we_source_remote_ids e) \<and> text_fits (we_delivered_content_sha256 e)
   \<and> text_fits (we_provider_precondition e)"

lemma flag_text: "text_fits (if b then ''true'' else ''false'')"
  "(if b then ''true'' else ''false'') = (if c then ''true'' else ''false'') \<longleftrightarrow> b = c"
  by (simp_all add: text_fits_def)

interpretation writable_framing: framing writable_frame writable_fits
proof
  fix d e :: writable_metadata_entry and r s
  assume "writable_fits d" "writable_fits e" "writable_frame d @ r = writable_frame e @ s"
  then show "d = e \<and> r = s"
    by (simp add: writable_fits_def writable_frame_def text_framing.framed_iff ids_framing.framed_iff
        actions_framing.framed_iff flag_text logical_path_str_inj del: if_split)
qed

lemma append_writable_entry_Inr:
  "append_writable_entry out e = Inr out' \<longleftrightarrow> writable_fits e \<and> out' = out @ writable_frame e"
proof -
  have "card (we_effective_actions e) < 2 ^ 64" using card_actions[of "we_effective_actions e"] by simp
  then show ?thesis
    by (auto simp: append_writable_entry_def rbind_Inr_iff sc_append_text_Inr append_count_Inr append_labels_Inr
        writable_fits_def writable_frame_def ids_fit_def ids_frame_def actions_frame_def flag_text(1)
        simp del: if_split)
qed

lemma append_writable_entries_Inr:
  "append_writable_entries out es = Inr out' \<longleftrightarrow>
     list_all writable_fits es \<and> out' = out @ concat (map writable_frame es)"
  by (induction es arbitrary: out) (auto simp: rbind_Inr_iff append_writable_entry_Inr)

definition generations_frame :: "ordered_source_generation list \<Rightarrow> string" where
  "generations_frame gs =
     concat (map (\<lambda>g. text_frame (to_be_bytes (ucast (sg_ordinal g))) @ text_frame (sg_source_connection_id g)
       @ text_frame (sg_source_generation_id g)) gs)"

lemma append_generations_Inr:
  "append_generations out gs = Inr out' \<Longrightarrow> out' = out @ generations_frame gs"
  by (induction gs arbitrary: out)
    (fastforce simp: rbind_Inr_iff sc_append_text_Inr sc_append_u64_Inr generations_frame_def)+

definition version_numbers :: "component_versions \<Rightarrow> u64 list" where
  "version_numbers v =
     [ucast (cv_session v), ucast (cv_replica v), ucast (cv_export_metadata v), ucast (cv_writable_session_store v),
      ucast (cv_canonical v), ucast (cv_path v), ucast (cv_changeset v)]"

lemma u16_number_inj: "ucast a = (ucast b :: u64) \<longleftrightarrow> a = b" for a b :: u16
  by transfer simp

lemma version_numbers_inj: "version_numbers v = version_numbers w \<Longrightarrow> v = w"
  by (cases v; cases w) (simp add: version_numbers_def u16_number_inj)

lemma metadata_preimage_Inr:
  assumes "writable_metadata_preimage m = Inr v"
  shows "list_all writable_fits (wm_writable_entries m)" "length (wm_writable_entries m) < 2 ^ 64"
    "v = ''locality.export.writable-metadata.v2'' @ [CHR 0x00]
      @ concat (map (\<lambda>n. text_frame (to_be_bytes n)) (version_numbers (wm_versions m)))
      @ text_frame (wm_session_id m) @ text_frame (wm_export_attempt_id m)
      @ to_be_bytes (of_nat (length (wm_source_generations m))) @ generations_frame (wm_source_generations m)
      @ to_be_bytes (of_nat (length (wm_writable_entries m)))
      @ concat (map writable_frame (wm_writable_entries m))"
  using assms unfolding writable_metadata_preimage_def Let_def version_numbers_def
  by (simp_all only: rbind_Inr_iff numbers_frame_Inr sc_append_text_Inr append_count_Inr append_writable_entries_Inr)
    (auto dest!: append_generations_Inr)

lemma metadata_preimage_inj:
  assumes m: "writable_metadata_preimage m = Inr v" and n: "writable_metadata_preimage n = Inr v"
    and same: "wm_session_id m = wm_session_id n" "wm_export_attempt_id m = wm_export_attempt_id n"
      "wm_source_generations m = wm_source_generations n"
  shows "m = n"
proof -
  note pm = metadata_preimage_Inr[OF m] and pn = metadata_preimage_Inr[OF n]
  let ?tail = "\<lambda>m. to_be_bytes (of_nat (length (wm_writable_entries m)))
      @ concat (map writable_frame (wm_writable_entries m))"
  let ?middle = "text_frame (wm_session_id n) @ text_frame (wm_export_attempt_id n)
      @ to_be_bytes (of_nat (length (wm_source_generations n))) @ generations_frame (wm_source_generations n)"
  from pm(3) pn(3) same have
    "concat (map (\<lambda>n. text_frame (to_be_bytes n)) (version_numbers (wm_versions m))) @ ?middle @ ?tail m
     = concat (map (\<lambda>n. text_frame (to_be_bytes n)) (version_numbers (wm_versions n))) @ ?middle @ ?tail n"
    by simp
  then have numbers: "version_numbers (wm_versions m) = version_numbers (wm_versions n)"
    and "?middle @ ?tail m = ?middle @ ?tail n"
    using number_framing.framed_list[of "version_numbers (wm_versions m)" "version_numbers (wm_versions n)"
        "?middle @ ?tail m" "?middle @ ?tail n"]
    by (simp_all add: version_numbers_def)
  from this(2) have "?tail m @ [] = ?tail n @ []" by simp
  then have "of_nat (length (wm_writable_entries m)) = (of_nat (length (wm_writable_entries n)) :: u64)"
    and rest: "concat (map writable_frame (wm_writable_entries m)) @ [] = concat (map writable_frame (wm_writable_entries n)) @ []"
    by (simp_all only: append_assoc u64_framing.framed_iff TrueI)
  then have "length (wm_writable_entries m) = length (wm_writable_entries n)"
    using pm(2) pn(2) by (simp add: of_nat_u64_inj)
  with rest have "wm_writable_entries m = wm_writable_entries n"
    using writable_framing.framed_list[OF pm(1) pn(1)] by blast
  with same version_numbers_inj[OF numbers] show ?thesis by simp
qed

lemma metadata_accepted:
  assumes "metadata_validate_against L m f = Inr ()"
  shows "\<exists>v. writable_metadata_preimage m = Inr v \<and> of_writable_metadata_sha256 f = ''sha256:'' @ xl_digest L v"
    "wm_session_id m = of_session_id f" "wm_export_attempt_id m = of_export_attempt_id f"
    "wm_source_generations m = of_source_generations f"
  using assms unfolding metadata_validate_against_def canonical_writable_metadata_sha256_def
  by (simp_all only: rbind_Inr_iff guard_Inr) auto

text \<open>One offer cannot be completed with two writable metadata, unless their preimages are a collision
  of the digest.\<close>

theorem offer_pins_metadata:
  assumes "metadata_validate_against L m f = Inr ()" "metadata_validate_against L n f = Inr ()"
  shows "m = n \<or> (\<exists>v w. writable_metadata_preimage m = Inr v \<and> writable_metadata_preimage n = Inr w
    \<and> v \<noteq> w \<and> xl_digest L v = xl_digest L w)"
proof -
  note am = metadata_accepted[OF assms(1)] and an = metadata_accepted[OF assms(2)]
  obtain v w where v: "writable_metadata_preimage m = Inr v" and w: "writable_metadata_preimage n = Inr w"
    and "xl_digest L v = xl_digest L w"
    using am(1) an(1) by force
  moreover have "m = n" if "v = w"
    using metadata_preimage_inj[OF v] w am(2-4) an(2-4) that by simp
  ultimately show ?thesis by blast
qed

section \<open>A sample export\<close>

definition sample_sha :: string where
  "sample_sha = ''sha256:'' @ replicate 64 (CHR ''a'')"

definition sample_export_lib :: export_lib where
  "sample_export_lib = \<lparr>xl_unicode = plain_unicode, xl_digest = (\<lambda>_. replicate 64 (CHR ''a''))\<rparr>"

definition sample_generations :: "ordered_source_generation list" where
  "sample_generations = [\<lparr>sg_ordinal = 0, sg_source_connection_id = ''c'', sg_source_generation_id = ''g''\<rparr>]"

definition sample_offer :: sealed_export_offer where
  "sample_offer = \<lparr>of_versions = LATEST_COMPONENT_VERSIONS, of_session_id = ''s'', of_export_attempt_id = ''x'',
     of_source_generations = sample_generations, of_media_type = ''t'', of_content_encoding = TarIdentity,
     of_limits = \<lparr>el_max_files = 5, el_max_directories = 5, el_max_content_bytes = 50\<rparr>,
     of_control_entry_count = 1, of_file_count = 1, of_directory_count = 1, of_archive_entry_count = 3,
     of_selected_content_bytes = 7, of_inventory_sha256 = sample_sha, of_writable_metadata_sha256 = sample_sha,
     of_sealed_at = ''1'', of_expires_at = ''2''\<rparr>"

definition sample_metadata :: "writable_metadata_entry list \<Rightarrow> scope_authorized_writable_export_metadata" where
  "sample_metadata es = \<lparr>wm_versions = LATEST_COMPONENT_VERSIONS, wm_session_id = ''s'',
     wm_export_attempt_id = ''x'', wm_source_generations = sample_generations, wm_writable_entries = es\<rparr>"

definition sample_entry :: writable_metadata_entry where
  "sample_entry = \<lparr>we_projection_id = ''p'', we_logical_path = LogicalPath ''a/b.md'',
     we_source_remote_ids = [RemoteId ''r''], we_delivered_content_sha256 = sample_sha,
     we_provider_precondition = ''v'', we_effective_actions = {ActUpdate}, we_baseline_required = True\<rparr>"


lemma sample_sha_text [simp]: "sha256_text sample_sha"
  unfolding sha256_text_def sample_sha_def
  by (intro exI[of _ "replicate 64 (CHR ''a'')"]) (simp add: list_all_iff lower_hex_def)

lemma sample_parts:
  "validate_export_versions LATEST_COMPONENT_VERSIONS = Inr ()"
  "validate_source_generations sample_generations = Inr ()"
  by code_simp+


lemma sample_entry_ok: "writable_entry_ok None sample_entry = Inr ()"
  by (simp add: writable_entry_ok_def sample_entry_def rbind_Inr_iff all_source_actions_def
      source_action_allows_mutation_def)

lemma sample_metadata_accepted:
  assumes "es = [] \<or> es = [sample_entry]"
  shows "metadata_validate_against sample_export_lib (sample_metadata es) sample_offer = Inr ()"
proof -
  have shape: "validate_writable_metadata_shape (sample_metadata es) = Inr ()"
    using assms sample_parts sample_entry_ok
    by (auto simp: validate_writable_metadata_shape_def rbind_Inr_iff sample_metadata_def)
  have fits: "list_all writable_fits es" "length es < 2 ^ 64"
    using assms by (auto simp: writable_fits_def sample_entry_def text_fits_def ids_fit_def sample_sha_def)
  have gens: "\<exists>v. append_generations out sample_generations = Inr v" for out
    by (simp add: sample_generations_def rbind_Inr_iff sc_append_text_Inr sc_append_u64_Inr text_fits_def)
  have "\<exists>v. writable_metadata_preimage (sample_metadata es) = Inr v"
    using shape fits gens unfolding writable_metadata_preimage_def Let_def
    by (simp only: rbind_Inr_iff numbers_frame_Inr sc_append_text_Inr append_count_Inr append_writable_entries_Inr)
      (simp add: sample_metadata_def text_fits_def sample_generations_def)
  then have "canonical_writable_metadata_sha256 (xl_digest sample_export_lib) (sample_metadata es) = Inr sample_sha"
    by (auto simp: canonical_writable_metadata_sha256_def rbind_Inr_iff sample_export_lib_def sample_sha_def)
  with shape show ?thesis
    unfolding metadata_validate_against_def
    by (simp only: rbind_Inr_iff guard_Inr) (simp add: sample_metadata_def sample_offer_def)
qed




text \<open>With a constant digest, one offer accepts two metadata, and their preimages collide.\<close>

theorem offer_pins_metadata_witness:
  "\<exists>v w. writable_metadata_preimage (sample_metadata []) = Inr v
    \<and> writable_metadata_preimage (sample_metadata [sample_entry]) = Inr w
    \<and> v \<noteq> w \<and> xl_digest sample_export_lib v = xl_digest sample_export_lib w"
proof -
  have "sample_metadata [] \<noteq> sample_metadata [sample_entry]" by (simp add: sample_metadata_def)
  with offer_pins_metadata[OF sample_metadata_accepted[of "[]"] sample_metadata_accepted[of "[sample_entry]"]]
  show ?thesis by blast
qed

end
