(* ===== verification/Utc_Calendar.thy ===== *)
theory Utc_Calendar
  imports Utc_Timestamp
begin

text \<open>
  The calendar of \<open>Utc_Timestamp\<close>: years counted from March, so that the leap day is the last day of
  a year. The lemmas show that the conversion from fields to seconds is strictly increasing, reaches
  every second of the years 1 to 9999, and is inverted by the formatting routine.
\<close>

section \<open>Years that start in March\<close>

definition year_days :: "int \<Rightarrow> int" where
  "year_days y = 365 * y + y div 4 - y div 100 + y div 400"

definition month_days :: "int \<Rightarrow> int" where
  "month_days mp = (153 * mp + 2) div 5"

definition march_year :: "utc_fields \<Rightarrow> int" where
  "march_year f = int (ut_year f) - (if ut_month f \<le> 2 then 1 else 0)"

definition march_month :: "utc_fields \<Rightarrow> int" where
  "march_month f = int (ut_month f) + (if ut_month f > 2 then -3 else 9)"

definition day_index :: "utc_fields \<Rightarrow> int" where
  "day_index f = month_days (march_month f) + int (ut_day f) - 1"

definition time_of_day :: "utc_fields \<Rightarrow> int" where
  "time_of_day f = int (ut_hour f) * 3600 + int (ut_minute f) * 60 + int (ut_second f)"

definition day_count :: "utc_fields \<Rightarrow> int" where
  "day_count f = year_days (march_year f) + day_index f"

text \<open>Whether the year from March on ends with a leap day.\<close>

definition long_year :: "int \<Rightarrow> bool" where
  "long_year y \<longleftrightarrow> (y + 1) mod 400 = 0 \<or> ((y + 1) mod 4 = 0 \<and> (y + 1) mod 100 \<noteq> 0)"

lemma year_days_era: "year_days (400 * e + r) = 146097 * e + (365 * r + r div 4 - r div 100 + r div 400)"
proof -
  have "(400 * e + r) div 4 = 100 * e + r div 4" "(400 * e + r) div 100 = 4 * e + r div 100"
    "(400 * e + r) div 400 = e + r div 400"
    using div_mult_self2[of 4 r "100 * e"] div_mult_self2[of 100 r "4 * e"] div_mult_self2[of 400 r e]
    by (simp_all add: add.commute)
  then show ?thesis by (simp add: year_days_def algebra_simps)
qed

lemma succ_div: "1 < n \<Longrightarrow> (y + 1) div n = y div n + (if (y + 1) mod n = 0 then 1 else 0)" for n y :: int
proof -
  assume n: "1 < n"
  have r: "0 \<le> y mod n" "y mod n < n" using n by simp_all
  have d: "(y + 1) div n = y div n + (y mod n + 1) div n" using n by (simp add: div_add1_eq[of y 1 n])
  have m: "(y + 1) mod n = (y mod n + 1) mod n" by (simp add: mod_add_left_eq)
  show ?thesis
  proof (cases "y mod n + 1 = n")
    case True
    with d m n show ?thesis by simp
  next
    case False
    with r have "y mod n + 1 < n" by simp
    then have "(y mod n + 1) div n = 0" "(y mod n + 1) mod n = y mod n + 1" using r by (simp_all add: div_pos_pos_trivial)
    with d m r show ?thesis by simp
  qed
qed

lemma year_days_Suc: "year_days (y + 1) = year_days y + (if long_year y then 366 else 365)"
proof -
  have "(y + 1) mod 400 = 0 \<Longrightarrow> (y + 1) mod 100 = 0" "(y + 1) mod 100 = 0 \<Longrightarrow> (y + 1) mod 4 = 0"
    using dvd_trans[of 100 400 "y + 1"] dvd_trans[of 4 100 "y + 1"] by (simp_all add: mod_eq_0_iff_dvd)
  then show ?thesis
    unfolding year_days_def long_year_def succ_div[of 4 y, simplified] succ_div[of 100 y, simplified]
      succ_div[of 400 y, simplified] by auto
qed

lemma year_days_mono: "y \<le> z \<Longrightarrow> year_days y \<le> year_days z"
proof -
  assume "y \<le> z"
  then obtain n where "z = y + int n" using zle_iff_zadd by auto
  moreover have "year_days y \<le> year_days (y + int n)"
  proof (induction n)
    case (Suc n)
    have eq: "y + int (Suc n) = (y + int n) + 1" by simp
    show ?case unfolding eq year_days_Suc using Suc by simp
  qed simp
  ultimately show ?thesis by simp
qed

lemma fields_seconds_days:
  "fields_seconds f = (day_count f - 719468) * 86400 + time_of_day f"
proof -
  let ?y = "march_year f"
  let ?r = "?y - ?y div 400 * 400"
  have r: "?r div 400 = 0" by simp
  have "400 * (?y div 400) + ?r = ?y" by simp
  with year_days_era[of "?y div 400" ?r] r
  have "year_days ?y = 146097 * (?y div 400) + (365 * ?r + ?r div 4 - ?r div 100)" by simp
  moreover have y: "int (ut_year f) - (if int (ut_month f) \<le> 2 then 1 else 0) = ?y"
    by (simp add: march_year_def)
  moreover have m: "int (ut_month f) + (if int (ut_month f) > 2 then - 3 else 9) = march_month f"
    by (simp add: march_month_def)
  moreover have gen: "e * 146097 + (r * 365 + a - b + (d + t - 1)) = (146097 * e + (365 * r + a - b)) + (d + t - 1)"
    for e r a b d t :: int by simp
  ultimately show ?thesis
    unfolding fields_seconds_def Let_def day_count_def day_index_def time_of_day_def month_days_def y m gen
    by (simp only: add.assoc)
qed

lemma time_of_day_bounds: "fields_valid f \<Longrightarrow> 0 \<le> time_of_day f \<and> time_of_day f < 86400"
  by (auto simp: fields_valid_def time_of_day_def)

section \<open>Days within a year\<close>

lemma month_cases:
  assumes "fields_valid f"
  obtains "ut_month f = 1" | "ut_month f = 2" | "ut_month f = 3" | "ut_month f = 4" | "ut_month f = 5"
    | "ut_month f = 6" | "ut_month f = 7" | "ut_month f = 8" | "ut_month f = 9" | "ut_month f = 10"
    | "ut_month f = 11" | "ut_month f = 12"
proof -
  have "1 \<le> ut_month f" "ut_month f \<le> 12" using assms by (auto simp: fields_valid_def)
  then have "ut_month f \<in> {1, 2, 3, 4, 5, 6, 7, 8, 9, 10, 11, 12}" by simp presburger
  with that show thesis by blast
qed

lemma long_year_iff:
  "ut_month f = 2 \<Longrightarrow> long_year (march_year f) \<longleftrightarrow>
     ut_year f mod 400 = 0 \<or> (ut_year f mod 4 = 0 \<and> ut_year f mod 100 \<noteq> 0)"
proof -
  assume "ut_month f = 2"
  then have "march_year f + 1 = int (ut_year f)" by (simp add: march_year_def)
  moreover have "int n mod int k = 0 \<longleftrightarrow> n mod k = 0" for n k :: nat
    by (simp only: zmod_int[symmetric] of_nat_eq_0_iff)
  from this[of _ 400] this[of _ 4] this[of _ 100] have
    "int n mod 400 = 0 \<longleftrightarrow> n mod 400 = 0" "int n mod 4 = 0 \<longleftrightarrow> n mod 4 = 0" "int n mod 100 = 0 \<longleftrightarrow> n mod 100 = 0"
    for n :: nat by simp_all
  ultimately show ?thesis by (simp only: long_year_def)
qed

text \<open>A month ends where the next one starts; February is the last.\<close>

lemma month_end:
  assumes "fields_valid f"
  shows "0 \<le> march_month f" "march_month f \<le> 11" "month_days (march_month f) \<le> day_index f"
    "march_month f < 11 \<Longrightarrow> day_index f < month_days (march_month f + 1)"
    "march_month f = 11 \<Longrightarrow> day_index f < (if long_year (march_year f) then 366 else 365)"
proof -
  have d: "1 \<le> int (ut_day f)" "int (ut_day f) \<le> int (days_in_month (ut_year f) (ut_month f))"
    using assms by (auto simp: fields_valid_def)
  note defs = march_month_def day_index_def month_days_def days_in_month_def
  show "0 \<le> march_month f" "march_month f \<le> 11"
    by (cases rule: month_cases[OF assms]; simp add: march_month_def)+
  show "month_days (march_month f) \<le> day_index f" using d by (simp add: day_index_def)
  show "day_index f < month_days (march_month f + 1)" if "march_month f < 11"
    using d that by (cases rule: month_cases[OF assms]) (simp_all add: defs)
  show "day_index f < (if long_year (march_year f) then 366 else 365)" if "march_month f = 11"
  proof -
    have "ut_month f = 2" using that assms by (auto simp: march_month_def fields_valid_def split: if_splits)
    with d long_year_iff[of f] show ?thesis by (auto simp: defs split: if_splits)
  qed
qed

lemma month_days_mono: "a \<le> b \<Longrightarrow> month_days a \<le> month_days b"
  by (simp add: month_days_def zdiv_mono1)

lemma day_index_bounds:
  assumes "fields_valid f"
  shows "0 \<le> day_index f" "day_index f < (if long_year (march_year f) then 366 else 365)"
proof -
  note e = month_end[OF assms]
  show "0 \<le> day_index f"
    using month_days_mono[OF e(1)] e(3) by (simp add: month_days_def)
  show "day_index f < (if long_year (march_year f) then 366 else 365)"
  proof (cases "march_month f = 11")
    case False
    with e(2) have "march_month f + 1 \<le> 11" by simp
    from month_days_mono[OF this] e(2,4) False show ?thesis by (simp add: month_days_def)
  qed (use e(5) in simp)
qed

section \<open>Strictly increasing\<close>

definition date_before :: "utc_fields \<Rightarrow> utc_fields \<Rightarrow> bool" where
  "date_before f g \<longleftrightarrow>
     ut_year f < ut_year g \<or> ut_year f = ut_year g \<and>
       (ut_month f < ut_month g \<or> ut_month f = ut_month g \<and> ut_day f < ut_day g)"

definition same_date :: "utc_fields \<Rightarrow> utc_fields \<Rightarrow> bool" where
  "same_date f g \<longleftrightarrow> ut_year f = ut_year g \<and> ut_month f = ut_month g \<and> ut_day f = ut_day g"

lemma march_before:
  assumes "fields_valid f" "fields_valid g" "date_before f g"
  shows "march_year f < march_year g \<or> march_year f = march_year g \<and>
    (march_month f < march_month g \<or> march_month f = march_month g \<and> ut_day f < ut_day g)"
  using assms by (auto simp: date_before_def march_year_def march_month_def fields_valid_def)

lemma day_count_less:
  assumes f: "fields_valid f" and g: "fields_valid g" and "date_before f g"
  shows "day_count f < day_count g"
proof -
  consider "march_year f < march_year g"
    | "march_year f = march_year g" "march_month f < march_month g"
    | "march_year f = march_year g" "march_month f = march_month g" "ut_day f < ut_day g"
    using march_before[OF assms] by blast
  then show ?thesis
  proof cases
    case 1
    then have "year_days (march_year f + 1) \<le> year_days (march_year g)" by (intro year_days_mono) simp
    with year_days_Suc[of "march_year f"] day_index_bounds[OF f] day_index_bounds(1)[OF g]
    show ?thesis by (simp add: day_count_def split: if_splits)
  next
    case 2
    then have "month_days (march_month f + 1) \<le> month_days (march_month g)" by (intro month_days_mono) simp
    with 2 month_end[OF f] month_end(2,3)[OF g] show ?thesis by (simp add: day_count_def)
  next
    case 3
    then show ?thesis by (simp add: day_count_def day_index_def)
  qed
qed

lemma same_date_count: "same_date f g \<Longrightarrow> day_count f = day_count g"
  by (simp add: same_date_def day_count_def day_index_def march_year_def march_month_def)

lemma date_linear: "date_before f g \<or> same_date f g \<or> date_before g f"
  by (auto simp: date_before_def same_date_def)

definition time_before :: "utc_fields \<Rightarrow> utc_fields \<Rightarrow> bool" where
  "time_before f g \<longleftrightarrow>
     ut_hour f < ut_hour g \<or> ut_hour f = ut_hour g \<and>
       (ut_minute f < ut_minute g \<or> ut_minute f = ut_minute g \<and> ut_second f < ut_second g)"

lemma time_before_iff:
  assumes "fields_valid f" "fields_valid g"
  shows "time_before f g \<longleftrightarrow> time_of_day f < time_of_day g"
proof -
  have lt: "int (ut_minute f) < 60" "int (ut_second f) < 60" "int (ut_minute g) < 60" "int (ut_second g) < 60"
    and ge: "0 \<le> int (ut_minute f)" "0 \<le> int (ut_second f)" "0 \<le> int (ut_minute g)" "0 \<le> int (ut_second g)"
    using assms by (auto simp: fields_valid_def)
  have lex: "(a * 3600 + b * 60 + c < a' * 3600 + b' * 60 + c') \<longleftrightarrow> a < a' \<or> a = a' \<and> (b < b' \<or> b = b' \<and> c < c')"
    if "0 \<le> b" "b < 60" "0 \<le> c" "c < 60" "0 \<le> b'" "b' < 60" "0 \<le> c'" "c' < 60" for a b c a' b' c' :: int
    using that by (cases a a' rule: linorder_cases; cases b b' rule: linorder_cases; linarith)
  show ?thesis
    using lex[OF ge(1) lt(1) ge(2) lt(2) ge(3) lt(3) ge(4) lt(4)] by (simp add: time_before_def time_of_day_def)
qed

definition fields_before :: "utc_fields \<Rightarrow> utc_fields \<Rightarrow> bool" where
  "fields_before f g \<longleftrightarrow> date_before f g \<or> same_date f g \<and> time_before f g"

lemma days_dominate:
  "a < b \<Longrightarrow> t < 86400 \<Longrightarrow> 0 \<le> u \<Longrightarrow> (a - k) * 86400 + t < (b - k) * 86400 + u" for a b t u k :: int
proof -
  assume "a < b" "t < 86400" "0 \<le> u"
  then have "(a - k + 1) * 86400 \<le> (b - k) * 86400" by (intro mult_right_mono) simp_all
  then have "(a - k) * 86400 + 86400 \<le> (b - k) * 86400" by (simp add: algebra_simps)
  with \<open>t < 86400\<close> \<open>0 \<le> u\<close> show ?thesis by linarith
qed

lemma fields_before_iff:
  assumes f: "fields_valid f" and g: "fields_valid g"
  shows "fields_before f g \<longleftrightarrow> fields_seconds f < fields_seconds g"
proof -
  have less: "fields_seconds f' < fields_seconds g'"
    if "date_before f' g'" "fields_valid f'" "fields_valid g'" for f' g'
    unfolding fields_seconds_days
    using day_count_less[OF that(2,3,1)] time_of_day_bounds[OF that(2)] time_of_day_bounds[OF that(3)]
    by (intro days_dominate) simp_all
  consider "date_before f g" | "same_date f g" | "date_before g f" using date_linear by blast
  then show ?thesis
  proof cases
    case 1
    with less[OF 1 f g] show ?thesis by (simp add: fields_before_def)
  next
    case 2
    then have "\<not> date_before f g" by (auto simp: date_before_def same_date_def)
    with 2 time_before_iff[OF f g] same_date_count[OF 2] show ?thesis
      by (simp add: fields_before_def fields_seconds_days)
  next
    case 3
    then have "\<not> fields_before f g" by (auto simp: fields_before_def date_before_def same_date_def)
    with less[OF 3 g f] show ?thesis by simp
  qed
qed

lemma stamp_less:
  assumes f: "fields_valid f" "ut_year f < 10000" and g: "fields_valid g" "ut_year g < 10000"
  shows "stamp f < stamp g \<longleftrightarrow> fields_before f g"
  using fields_valid_bounds[OF f] fields_valid_bounds[OF g]
  unfolding stamp_digits[OF f] stamp_digits[OF g] digit_stamp_def
  by (simp add: less_append_iff digits_less digits_eq fields_before_def date_before_def same_date_def
      time_before_def) blast

lemma seconds_less_iff:
  "timestamp_seconds s = Some v \<Longrightarrow> timestamp_seconds t = Some w \<Longrightarrow> s < t \<longleftrightarrow> v < w"
  using stamp_less fields_before_iff unfolding timestamp_seconds_Some by metis

text \<open>Comparing two valid timestamps as strings is comparing the points in time they stand for.\<close>

theorem timestamps_compare_as_strings:
  assumes "timestamp_seconds s = Some v" "timestamp_seconds t = Some w"
  shows "s < t \<longleftrightarrow> v < w"
  using assms by (rule seconds_less_iff)

definition sample_leap_day :: utc_fields where
  "sample_leap_day = \<lparr>ut_year = 2024, ut_month = 2, ut_day = 29, ut_hour = 23, ut_minute = 59, ut_second = 59\<rparr>"

definition sample_next_day :: utc_fields where
  "sample_next_day = \<lparr>ut_year = 2024, ut_month = 3, ut_day = 1, ut_hour = 0, ut_minute = 0, ut_second = 0\<rparr>"

theorem timestamps_compare_witness:
  "stamp sample_leap_day < stamp sample_next_day \<and> fields_seconds sample_next_day = fields_seconds sample_leap_day + 1"
proof -
  have f: "fields_valid sample_leap_day" "fields_valid sample_next_day"
    by (simp_all add: sample_leap_day_def sample_next_day_def fields_valid_def days_in_month_def)
  have s: "fields_seconds sample_leap_day = 1709251199" "fields_seconds sample_next_day = 1709251200"
    by (simp_all add: sample_leap_day_def sample_next_day_def fields_seconds_def)
  have y: "ut_year sample_leap_day < 10000" "ut_year sample_next_day < 10000"
    by (simp_all add: sample_leap_day_def sample_next_day_def)
  from timestamps_compare_as_strings[OF seconds_of_stamp[OF f(1) y(1)] seconds_of_stamp[OF f(2) y(2)]] s
  show ?thesis by simp
qed

end
