(* ===== verification/Utc_Roundtrip.thy ===== *)
theory Utc_Roundtrip
  imports Utc_Calendar
begin

text \<open>
  The formatting routine inverts the conversion to seconds. Every day lies in exactly one year that
  starts in March; the routine finds that year from the day's position in its era of 400 years, then
  the month and the day from the position in the year.
\<close>

section \<open>The year of a day\<close>

lemma div_between: "0 < n \<Longrightarrow> n * q \<le> a \<Longrightarrow> a < n * (q + 1) \<Longrightarrow> a div n = q" for a n q :: int
  by (rule int_div_pos_eq[of _ _ _ "a - n * q"]) (simp_all add: algebra_simps)

definition in_year :: "int \<Rightarrow> int \<Rightarrow> bool" where
  "in_year y z \<longleftrightarrow> year_days y \<le> z \<and> z < year_days (y + 1)"

lemma in_year_exists: "\<exists>y. in_year y z"
proof -
  define e where "e = z div 146097"
  let ?P = "\<lambda>n. z < year_days (400 * e + int n)"
  have "146097 * e \<le> z" "z < 146097 * (e + 1)" unfolding e_def by simp_all
  moreover have "year_days (400 * e + int 0) = 146097 * e" "year_days (400 * e + int 400) = 146097 * (e + 1)"
    using year_days_era[of e 0] year_days_era[of "e + 1" 0] by (simp_all add: algebra_simps)
  ultimately have "\<not> ?P 0" "?P 400" by (simp_all only: not_less)
  then obtain k where k: "\<forall>i<k. \<not> ?P i" "?P k" using ex_least_nat_le[of ?P 400] by blast
  with \<open>\<not> ?P 0\<close> obtain j where j: "k = Suc j" by (cases k) auto
  have "year_days (400 * e + int j) \<le> z" using k(1)[rule_format, of j] j by simp
  moreover have "400 * e + int (Suc j) = (400 * e + int j) + 1" by simp
  ultimately have "in_year (400 * e + int j) z" using k(2) j unfolding in_year_def by metis
  then show ?thesis by blast
qed

lemma era_of_day:
  assumes "in_year y z"
  shows "z div 146097 = y div 400"
    and "z - (z div 146097) * 146097 = 365 * (y mod 400) + y mod 400 div 4 - y mod 400 div 100 + (z - year_days y)"
proof -
  let ?e = "y div 400"
  have y: "y = 400 * ?e + y mod 400" by simp
  have start: "year_days (400 * ?e) = 146097 * ?e" "year_days (400 * (?e + 1)) = 146097 * (?e + 1)"
    using year_days_era[of ?e 0] year_days_era[of "?e + 1" 0] by simp_all
  have "400 * ?e \<le> y" "y + 1 \<le> 400 * (?e + 1)" by simp_all
  then have "146097 * ?e \<le> z" "z < 146097 * (?e + 1)"
    using year_days_mono[of "400 * ?e" y] year_days_mono[of "y + 1" "400 * (?e + 1)"] start assms
    unfolding in_year_def by linarith+
  then show era: "z div 146097 = ?e" by (intro div_between) simp_all 
  have "year_days y = 146097 * ?e + (365 * (y mod 400) + y mod 400 div 4 - y mod 400 div 100)"
    using year_days_era[of ?e "y mod 400"] by (simp add: div_pos_pos_trivial)
  then show "z - (z div 146097) * 146097 =
      365 * (y mod 400) + y mod 400 div 4 - y mod 400 div 100 + (z - year_days y)"
    unfolding era by simp
qed

text \<open>The year within the era: the divisions by 1460, 36524 and 146096 count the leap days before it.\<close>

lemma year_of_era:
  assumes r: "0 \<le> r" "r < 400" and d: "0 \<le> d" "d \<le> 364 \<or> d = 365 \<and> long_year r"
    and z: "z = 365 * r + r div 4 - r div 100 + d"
  shows "(z - z div 1460 + z div 36524 - z div 146096) div 365 = r"
proof -
  define c u q v where "c = r div 100" and "u = r mod 100" and "q = u div 4" and "v = u mod 4"
  have ru: "r = 100 * c + u" "u = 4 * q + v" "0 \<le> v" "v \<le> 3" "0 \<le> u" "u \<le> 99"
    by (simp_all add: c_def u_def q_def v_def)
  then have q: "0 \<le> q" "q \<le> 24" by linarith+
  have c: "0 \<le> c" "c \<le> 3" using ru r by linarith+
  have r4: "r div 4 = 25 * c + q"
    by (rule div_between; use ru in simp)
  have zc: "z = 36524 * c + (1461 * q + 365 * v + d)" using z r4 ru by (simp add: c_def[symmetric])
  have late: "v = 3 \<and> (q \<noteq> 24 \<or> c = 3)" if "d = 365"
  proof -
    have "long_year r" using d(2) that by simp
    then have "(r + 1) mod 4 = 0" "(r + 1) mod 400 = 0 \<or> (r + 1) mod 100 \<noteq> 0"
      using dvd_trans[of 4 400 "r + 1"] by (auto simp: long_year_def mod_eq_0_iff_dvd)
    moreover have "r + 1 = 4 * (25 * c + q) + (v + 1)" "r + 1 = 100 * c + (4 * q + v + 1)" using ru by simp_all
    moreover have "v = 3" if "(4 * (25 * c + q) + (v + 1)) mod 4 = 0"
    proof -
      from that have "(v + 1) mod 4 = 0" by (simp only: mod_mult_self4)
      with ru(3,4) show ?thesis by presburger
    qed
    ultimately have v: "v = 3" by metis
    have "c = 3" if "q = 24"
    proof -
      have "r + 1 = 100 * (c + 1)" using that v ru by simp
      then have "(r + 1) mod 100 = 0" by simp
      with \<open>(r + 1) mod 400 = 0 \<or> _\<close> have "(r + 1) mod 400 = 0" by simp
      with r have "r + 1 = 400" using zdvd_imp_le[of 400 "r + 1"] by (simp add: mod_eq_0_iff_dvd)
      with \<open>r + 1 = 100 * (c + 1)\<close> show ?thesis by simp
    qed
    with v show ?thesis by blast
  qed
  have d365: "d \<le> 365" using d(2) by auto
  have leap: "z div 36524 - z div 146096 = c"
  proof (cases "1461 * q + 365 * v + d < 36524")
    case True
    have "z div 36524 = c" by (rule div_between) (use True zc q d ru in simp_all)
    moreover have "z div 146096 = 0"
      by (rule div_between) (use True zc q d ru c in simp_all)
    ultimately show ?thesis by simp
  next
    case False
    with q d365 ru have "q = 24" "v = 3" "d = 365" by linarith+
    with late zc c have "z = 146096" "c = 3" by simp_all
    then show ?thesis by simp
  qed
  define w where "w = 24 * c + q + 365 * v + d"
  have z1460: "z = 1460 * (25 * c + q) + w" by (simp add: zc w_def)
  have w: "0 \<le> w" "w < 2920" using q c d365 d(1) ru by (simp_all add: w_def)
  have div: "z div 1460 = 25 * c + q + (if w < 1460 then 0 else 1)"
    by (rule div_between) (use z1460 w in auto)
  have "z - z div 1460 + z div 36524 - z div 146096 = 365 * r + (d - (if w < 1460 then 0 else 1))"
    using leap div zc ru by simp
  moreover have "0 \<le> d - (if w < 1460 then 0 else 1)"
    using q c d(1) ru by (auto simp: w_def)
  moreover have "d - (if w < 1460 then 0 else 1) < 365"
    using d365 late q c by (cases "d = 365") (auto simp: w_def)
  ultimately show ?thesis by (intro div_between) auto
qed

section \<open>The month of a day\<close>

lemma month_prime_iff:
  assumes "0 \<le> i" "i \<le> 365"
  shows "(5 * i + 2) div 153 = mp \<longleftrightarrow>
    0 \<le> mp \<and> mp \<le> 11 \<and> month_days mp \<le> i \<and> (mp < 11 \<longrightarrow> i < month_days (mp + 1))"
proof -
  have le: "(153 * k + 2) div 5 \<le> i \<longleftrightarrow> 153 * k \<le> 5 * i + 2" for k by linarith
  have "(5 * i + 2) div 153 = mp \<longleftrightarrow> 153 * mp \<le> 5 * i + 2 \<and> 5 * i + 2 < 153 * (mp + 1)"
  proof
    have "153 * ((5 * i + 2) div 153) \<le> 5 * i + 2" "5 * i + 2 < 153 * ((5 * i + 2) div 153 + 1)" by simp_all
    then show "153 * mp \<le> 5 * i + 2 \<and> 5 * i + 2 < 153 * (mp + 1)" if "(5 * i + 2) div 153 = mp"
      using that by blast
  qed (auto intro: div_between)
  also have "\<dots> \<longleftrightarrow> month_days mp \<le> i \<and> i < month_days (mp + 1)"
    unfolding month_days_def not_le[symmetric] le by simp
  finally have eq: "(5 * i + 2) div 153 = mp \<longleftrightarrow> month_days mp \<le> i \<and> i < month_days (mp + 1)" .
  have "0 \<le> mp \<and> mp \<le> 11" if "(5 * i + 2) div 153 = mp" using that assms by linarith
  moreover have "i < month_days (mp + 1)" if "mp = 11" using that assms by (simp add: month_days_def)
  ultimately show ?thesis using eq by fastforce
qed

text \<open>The routine, from the year and the day within it.\<close>

definition date_of :: "int \<Rightarrow> int \<Rightarrow> int \<Rightarrow> string option" where
  "date_of y i t =
     (let mp = (5 * i + 2) div 153; month = mp + (if mp < 10 then 3 else -9);
          year = y + (if month \<le> 2 then 1 else 0)
      in if \<not> (1 \<le> year \<and> year \<le> 9999) then None
         else Some (stamp \<lparr>ut_year = nat year, ut_month = nat month, ut_day = nat (i - month_days mp + 1),
           ut_hour = nat (t div 3600), ut_minute = nat (t mod 3600 div 60), ut_second = nat (t mod 60)\<rparr>))"

lemma in_year_days: "in_year y z \<Longrightarrow> 0 \<le> z - year_days y \<and> (z - year_days y \<le> 364 \<or> z - year_days y = 365 \<and> long_year y)"
  by (auto simp: in_year_def year_days_Suc split: if_splits)

lemma long_year_mod: "long_year (y mod 400) = long_year y"
proof -
  have "(y mod 400 + 1) mod 400 = (y + 1) mod 400" by (simp add: mod_add_left_eq)
  moreover have "(y mod 400 + 1) mod n = (y + 1) mod n" if "n dvd 400" for n
    using mod_mod_cancel[OF that, of "y mod 400 + 1"] mod_mod_cancel[OF that, of "y + 1"] calculation by metis
  ultimately show ?thesis by (simp add: long_year_def)
qed

lemma format_seconds_date:
  assumes y: "in_year y (v div 86400 + 719468)"
  shows "format_seconds v = date_of y (v div 86400 + 719468 - year_days y) (v mod 86400)"
proof -
  let ?z = "v div 86400 + 719468"
  let ?doe = "?z - ?z div 146097 * 146097" and ?r = "y mod 400" and ?i = "?z - year_days y"
  have doe: "?doe = 365 * ?r + ?r div 4 - ?r div 100 + ?i" using era_of_day(2)[OF y] .
  have yoe: "(?doe - ?doe div 1460 + ?doe div 36524 - ?doe div 146096) div 365 = ?r"
    by (rule year_of_era[OF _ _ _ _ doe]) (use in_year_days[OF y] in \<open>auto simp: long_year_mod\<close>)
  have i: "?doe - (365 * ?r + ?r div 4 - ?r div 100) = ?i" using doe by simp
  have yy: "?r + ?z div 146097 * 400 = y" using era_of_day(1)[OF y] by simp
  show ?thesis
    unfolding format_seconds_def date_of_def Let_def yoe i month_days_def yy by (rule refl)
qed

section \<open>The two directions\<close>

definition date_fields :: "int \<Rightarrow> int \<Rightarrow> int \<Rightarrow> utc_fields" where
  "date_fields y i t =
     (let mp = (5 * i + 2) div 153
      in \<lparr>ut_year = nat (y + (if mp < 10 then 0 else 1)), ut_month = nat (mp + (if mp < 10 then 3 else -9)),
          ut_day = nat (i - month_days mp + 1),
          ut_hour = nat (t div 3600), ut_minute = nat (t mod 3600 div 60), ut_second = nat (t mod 60)\<rparr>)"

lemma date_of_fields:
  assumes "0 \<le> i" "i \<le> 365"
  shows "date_of y i t =
    (let year = y + (if (5 * i + 2) div 153 < 10 then 0 else 1)
     in if 1 \<le> year \<and> year \<le> 9999 then Some (stamp (date_fields y i t)) else None)"
proof -
  have "0 \<le> (5 * i + 2) div 153" "(5 * i + 2) div 153 \<le> 11"
    using month_prime_iff[OF assms, of "(5 * i + 2) div 153"] by simp_all
  then have "(5 * i + 2) div 153 + (if (5 * i + 2) div 153 < 10 then 3 else -9) \<le> 2 \<longleftrightarrow> \<not> (5 * i + 2) div 153 < 10"
    by auto
  then show ?thesis by (simp add: date_of_def date_fields_def Let_def)
qed

text \<open>Valid fields come back.\<close>

lemma time_fields:
  assumes "fields_valid f"
  shows "nat (time_of_day f div 3600) = ut_hour f" "nat (time_of_day f mod 3600 div 60) = ut_minute f"
    "nat (time_of_day f mod 60) = ut_second f"
proof -
  have b: "int (ut_minute f) < 60" "int (ut_second f) < 60" using assms by (auto simp: fields_valid_def)
  have h: "time_of_day f = 3600 * int (ut_hour f) + (60 * int (ut_minute f) + int (ut_second f))"
    by (simp add: time_of_day_def)
  have ms: "60 * int (ut_minute f) + int (ut_second f) < 3600" using b by linarith
  show "nat (time_of_day f div 3600) = ut_hour f"
    unfolding h using ms by (simp add: div_pos_pos_trivial)
  have "time_of_day f mod 3600 = 60 * int (ut_minute f) + int (ut_second f)"
    unfolding h using ms by (simp add: mod_pos_pos_trivial)
  then show "nat (time_of_day f mod 3600 div 60) = ut_minute f" using b by (simp add: div_pos_pos_trivial)
  have t: "time_of_day f = 60 * (60 * int (ut_hour f) + int (ut_minute f)) + int (ut_second f)"
    by (simp add: time_of_day_def)
  have "time_of_day f mod 60 = int (ut_second f) mod 60" unfolding t by (simp only: mod_mult_self4)
  then show "nat (time_of_day f mod 60) = ut_second f" using b by (simp add: mod_pos_pos_trivial)
qed

lemma valid_in_year:
  assumes "fields_valid f"
  shows "in_year (march_year f) (day_count f)"
  using day_index_bounds[OF assms] by (auto simp: in_year_def day_count_def year_days_Suc)

lemma month_prime_valid: "fields_valid f \<Longrightarrow> (5 * day_index f + 2) div 153 = march_month f"
proof -
  assume f: "fields_valid f"
  have "day_index f \<le> 365" using day_index_bounds(2)[OF f] by (simp split: if_splits)
  then show ?thesis
    using month_prime_iff[of "day_index f" "march_month f"] day_index_bounds(1)[OF f] month_end[OF f] by blast
qed

lemma march_month_less: "fields_valid f \<Longrightarrow> march_month f < 10 \<longleftrightarrow> \<not> ut_month f \<le> 2"
  by (auto simp: march_month_def fields_valid_def)

lemma date_fields_valid:
  assumes f: "fields_valid f"
  shows "date_fields (march_year f) (day_index f) (time_of_day f) = f"
proof -
  have d: "1 \<le> ut_day f" using f by (simp add: fields_valid_def)
  have "nat (march_year f + (if march_month f < 10 then 0 else 1)) = ut_year f"
    unfolding march_month_less[OF f] by (simp add: march_year_def)
  moreover have "nat (march_month f + (if march_month f < 10 then 3 else - 9)) = ut_month f"
    unfolding march_month_less[OF f] by (simp add: march_month_def)
  moreover have "nat (day_index f - month_days (march_month f) + 1) = ut_day f" using d by (simp add: day_index_def)
  ultimately show ?thesis
    unfolding date_fields_def Let_def month_prime_valid[OF f] by (simp add: time_fields[OF f])
qed

lemma fields_seconds_parts:
  assumes "fields_valid f"
  shows "fields_seconds f div 86400 + 719468 = day_count f" "fields_seconds f mod 86400 = time_of_day f"
proof -
  note t = time_of_day_bounds[OF assms]
  have "((day_count f - 719468) * 86400 + time_of_day f) div 86400 = day_count f - 719468"
    by (rule div_between) (use t in simp_all)
  then show "fields_seconds f div 86400 + 719468 = day_count f" by (simp add: fields_seconds_days)
  show "fields_seconds f mod 86400 = time_of_day f"
    unfolding fields_seconds_days mod_mult_self3 using t by (simp add: mod_pos_pos_trivial)
qed

lemma format_valid:
  assumes f: "fields_valid f" "ut_year f < 10000"
  shows "format_seconds (fields_seconds f) = Some (stamp f)"
proof -
  note p = fields_seconds_parts[OF f(1)]
  have i: "day_count f - year_days (march_year f) = day_index f" by (simp add: day_count_def)
  have "format_seconds (fields_seconds f) = date_of (march_year f) (day_index f) (time_of_day f)"
    using format_seconds_date[of "march_year f" "fields_seconds f"] valid_in_year[OF f(1)] unfolding p i by blast
  moreover have "march_year f + (if march_month f < 10 then 0 else 1) = int (ut_year f)"
    unfolding march_month_less[OF f(1)] by (simp add: march_year_def)
  moreover have "1 \<le> ut_year f" using f(1) by (simp add: fields_valid_def)
  moreover have "day_index f \<le> 365" using day_index_bounds(2)[OF f(1)] by (simp split: if_splits)
  ultimately show ?thesis
    using date_of_fields[OF day_index_bounds(1)[OF f(1)]] date_fields_valid[OF f(1)] f(2)
    by (simp add: Let_def month_prime_valid[OF f(1)])
qed

text \<open>Whatever the routine prints is a valid timestamp that stands for the number.\<close>

lemma date_fields_back:
  assumes y: "in_year y z" and t: "0 \<le> t" "t < 86400"
    and range: "1 \<le> y + (if (5 * (z - year_days y) + 2) div 153 < 10 then 0 else 1)"
      "y + (if (5 * (z - year_days y) + 2) div 153 < 10 then 0 else 1) \<le> 9999"
  defines "f \<equiv> date_fields y (z - year_days y) t"
  shows "fields_valid f" "ut_year f < 10000" "day_count f = z" "time_of_day f = t"
proof -
  define i where "i = z - year_days y"
  define mp where "mp = (5 * i + 2) div 153"
  have i: "0 \<le> i" "i \<le> 364 \<or> i = 365 \<and> long_year y" using in_year_days[OF y] by (simp_all add: i_def)
  then have mp: "0 \<le> mp" "mp \<le> 11" "month_days mp \<le> i" "mp < 11 \<longrightarrow> i < month_days (mp + 1)"
    using month_prime_iff[of i mp] by (auto simp: mp_def)
  define g where "g = (if mp < 10 then 0 else 1 :: int)"
  have year: "int (ut_year f) = y + g" and bound: "1 \<le> y + g" "y + g \<le> 9999"
    using range by (simp_all add: f_def date_fields_def Let_def i_def[symmetric] mp_def[symmetric] g_def)
  have month: "int (ut_month f) = mp + (if mp < 10 then 3 else -9)"
    using mp by (auto simp: f_def date_fields_def Let_def i_def[symmetric] mp_def[symmetric])
  have day: "int (ut_day f) = i - month_days mp + 1"
    using mp by (simp add: f_def date_fields_def Let_def i_def[symmetric] mp_def[symmetric])
  have time: "int (ut_hour f) = t div 3600" "int (ut_minute f) = t mod 3600 div 60" "int (ut_second f) = t mod 60"
    using t by (simp_all add: f_def date_fields_def Let_def)
  have late: "ut_month f \<le> 2 \<longleftrightarrow> \<not> mp < 10" using month mp(1,2) by (cases "mp < 10") auto
  have my: "march_year f = y" unfolding march_year_def year late by (simp add: g_def)
  have mm: "march_month f = mp" unfolding march_month_def not_le[symmetric] late month by simp
  show "ut_year f < 10000" using year bound by linarith
  show "day_count f = z" by (simp add: day_count_def day_index_def my mm day i_def)
  show "time_of_day f = t"
  proof -
    have "t mod 3600 mod 60 = t mod 60" by (rule mod_mod_cancel) simp
    with div_mult_mod_eq[of t 3600] div_mult_mod_eq[of "t mod 3600" 60] show ?thesis
      unfolding time_of_day_def time by linarith
  qed
  have "int (ut_day f) \<le> int (days_in_month (ut_year f) (ut_month f))"
  proof (cases "mp = 11")
    case True
    then have m: "ut_month f = 2" using month by simp
    have "days_in_month (ut_year f) 2 = (if long_year (march_year f) then 29 else 28)"
      unfolding long_year_iff[OF m] by (auto simp: days_in_month_def)
    moreover have "i \<le> (if long_year (march_year f) then 365 else 364)" using i my by auto
    ultimately show ?thesis unfolding m day True by (simp add: month_days_def split: if_splits)
  next
    case False
    with mp(1,2) have "mp \<in> {0, 1, 2, 3, 4, 5, 6, 7, 8, 9, 10}" by simp presburger
    moreover have "i < month_days (mp + 1)" using False mp by simp
    moreover have "ut_month f = nat (mp + (if mp < 10 then 3 else -9))" using month by simp
    ultimately show ?thesis unfolding day
      by (elim insertE; simp add: month_days_def days_in_month_def)
  qed
  moreover have "1 \<le> int (ut_day f)" using day mp(3) by simp
  moreover have "1 \<le> ut_month f" "ut_month f \<le> 12" using month mp(1,2) by (cases "mp < 10"; simp)+
  moreover have "int (ut_hour f) < 24" "int (ut_minute f) < 60" "int (ut_second f) < 60"
  proof -
    have "t mod 3600 < 3600" "t mod 60 < 60" by simp_all
    with t show "int (ut_hour f) < 24" "int (ut_minute f) < 60" "int (ut_second f) < 60"
      unfolding time by linarith+
  qed
  moreover have "1 \<le> int (ut_year f)" using year bound by simp
  ultimately show "fields_valid f" unfolding fields_valid_def by linarith
qed

lemma seconds_format_iff: "timestamp_seconds s = Some v \<longleftrightarrow> format_seconds v = Some s"
proof
  assume "timestamp_seconds s = Some v"
  then show "format_seconds v = Some s" using format_valid unfolding timestamp_seconds_Some by auto
next
  assume s: "format_seconds v = Some s"
  let ?z = "v div 86400 + 719468" and ?t = "v mod 86400"
  obtain y where y: "in_year y ?z" using in_year_exists by blast
  let ?i = "?z - year_days y"
  let ?year = "y + (if (5 * ?i + 2) div 153 < 10 then 0 else 1)"
  have i: "0 \<le> ?i" "?i \<le> 365" using in_year_days[OF y] by auto
  have "date_of y ?i ?t = Some s" using s format_seconds_date[OF y] by simp
  then have range: "1 \<le> ?year" "?year \<le> 9999" and out: "s = stamp (date_fields y ?i ?t)"
    using date_of_fields[OF i, of y ?t] by (simp_all split: if_splits)
  have t: "0 \<le> ?t" "?t < 86400" by simp_all
  note ret = date_fields_back[OF y t range]
  have "fields_seconds (date_fields y ?i ?t) = v"
    unfolding fields_seconds_days ret(3,4) by simp
  with seconds_of_stamp[OF ret(1,2)] out show "timestamp_seconds s = Some v" by simp
qed

text \<open>C32: the conversions are inverse to each other, in both directions and without any condition: a
  string is read as \<open>v\<close> seconds exactly when \<open>v\<close> seconds are written as that string. So reading
  accepts precisely what writing produces, and no valid timestamp is written differently.\<close>

theorem timestamp_seconds_iff_format: "timestamp_seconds s = Some v \<longleftrightarrow> format_seconds v = Some s"
  by (rule seconds_format_iff)

end
