(* ===== verification/Freshness_Wait.thy ===== *)
theory Freshness_Wait
  imports Delivery_Health Utc_Roundtrip
begin

text \<open>
  The wait contract of \<open>locality-protocol/src/freshness_wait.rs\<close>: a client waits for the sources of a
  session to become fresh, and the server answers with snapshots of one durable attempt. The model has
  the validators of the request, of a snapshot and of a successor snapshot, with the derived deadline.
  The lengths of the JSON encodings and the JSON parser are parameters.
\<close>

section \<open>Constants and errors\<close>

definition FRESHNESS_WAIT_READER_VERSION :: u16 where "FRESHNESS_WAIT_READER_VERSION = 1"
definition MAX_FRESHNESS_WAIT_REQUEST_BYTES :: usize where "MAX_FRESHNESS_WAIT_REQUEST_BYTES = 4 * 1024"
definition MAX_FRESHNESS_WAIT_ATTEMPT_BYTES :: usize where "MAX_FRESHNESS_WAIT_ATTEMPT_BYTES = 64 * 1024"
definition MAX_FRESHNESS_WAIT_SOURCES :: usize where "MAX_FRESHNESS_WAIT_SOURCES = 64"
definition MAX_FRESHNESS_WAIT_ID_BYTES :: usize where "MAX_FRESHNESS_WAIT_ID_BYTES = 128"
definition MAX_FRESHNESS_WAIT_IDEMPOTENCY_KEY_BYTES :: usize where
  "MAX_FRESHNESS_WAIT_IDEMPOTENCY_KEY_BYTES = 128"
definition MAX_FRESHNESS_WAIT_DURATION_SECONDS :: u64 where "MAX_FRESHNESS_WAIT_DURATION_SECONDS = 5 * 60"
definition MAX_FRESHNESS_WAIT_POLL_AFTER_SECONDS :: u64 where
  "MAX_FRESHNESS_WAIT_POLL_AFTER_SECONDS = 60 * 60"
definition MAX_FRESHNESS_WAIT_FUTURE_SKEW_SECONDS :: int where "MAX_FRESHNESS_WAIT_FUTURE_SKEW_SECONDS = 5"
definition WORKSPACE_HTTP_API_GENERATION_V2 :: u16 where "WORKSPACE_HTTP_API_GENERATION_V2 = 2"
definition WORKSPACE_CAPABILITY_VERSION_V1 :: u16 where "WORKSPACE_CAPABILITY_VERSION_V1 = 1"

datatype freshness_wait_contract_error =
    FwUpdateRequired u16 u16
  | FwInvalidVersionEnvelope
  | FwUnsupportedApiGeneration u16
  | FwCapabilityRequired
  | FwSelectionNotOffered
  | FwInvalidJson string
  | FwEncodingTooLarge usize usize
  | FwInvalidOpaqueValue string
  | FwInvalidTimestamp
  | FwInvalidFreshnessRequirement
  | FwInvalidRetry
  | FwInvalidPollMetadata
  | FwInvalidSourceCount usize
  | FwNonCanonicalSourceOrdinal usize u32
  | FwDuplicateSource usize
  | FwUnknownReason
  | FwUnknownSourceState
  | FwAmbiguousSourceState
  | FwUnknownAggregateState
  | FwAmbiguousAggregateState
  | FwUnknownTerminalOutcome
  | FwAmbiguousTerminalOutcome
  | FwInvalidAttemptTimeline
  | FwTimestampBeyondAllowedSkew
  | FwAttemptPastDeadline
  | FwAttemptBindingMismatch
  | FwNonMonotonicAttemptSequence
  | FwNonMonotonicAttemptTime
  | FwAppliedEpochRegressed
  | FwSourceTerminalStateChanged
  | FwTerminalAttemptChanged

definition freshness_wait_contract_error_display :: "freshness_wait_contract_error \<Rightarrow> string" where
  "freshness_wait_contract_error_display e =
     (case e of
        FwUpdateRequired minimum supported \<Rightarrow>
          ''freshness wait requires reader version '' @ dec (unat minimum) @ '', supported version is ''
          @ dec (unat supported)
      | FwInvalidVersionEnvelope \<Rightarrow> ''invalid freshness wait version envelope''
      | FwUnsupportedApiGeneration actual \<Rightarrow>
          ''workspace HTTP API generation '' @ dec (unat actual) @ '' cannot use freshness wait version 1''
      | FwCapabilityRequired \<Rightarrow> ''freshness_wait capability version 1 is required''
      | FwSelectionNotOffered \<Rightarrow> ''server freshness wait selection was not offered by the client''
      | FwInvalidJson error \<Rightarrow> ''invalid freshness wait JSON: '' @ error
      | FwEncodingTooLarge actual maximum \<Rightarrow>
          ''freshness wait encoding is '' @ dec actual @ '' bytes, exceeding '' @ dec maximum
      | FwInvalidOpaqueValue field \<Rightarrow> field @ '' is not a bounded opaque value''
      | FwInvalidTimestamp \<Rightarrow> ''invalid canonical freshness wait timestamp''
      | FwInvalidFreshnessRequirement \<Rightarrow> ''invalid sealed freshness wait requirement''
      | FwInvalidRetry \<Rightarrow> ''invalid freshness wait retry metadata''
      | FwInvalidPollMetadata \<Rightarrow> ''invalid freshness wait poll metadata''
      | FwInvalidSourceCount actual \<Rightarrow>
          ''freshness wait source count is '' @ dec actual @ ''; expected 1 through ''
          @ dec MAX_FRESHNESS_WAIT_SOURCES
      | FwNonCanonicalSourceOrdinal index actual \<Rightarrow>
          ''freshness wait source at index '' @ dec index @ '' has noncanonical ordinal '' @ dec (unat actual)
      | FwDuplicateSource index \<Rightarrow>
          ''freshness wait source at index '' @ dec index
          @ '' duplicates a source connection and scope pair''
      | FwUnknownReason \<Rightarrow> ''unknown freshness wait reason''
      | FwUnknownSourceState \<Rightarrow> ''unknown freshness wait source state''
      | FwAmbiguousSourceState \<Rightarrow> ''freshness wait source state contradicts its progress metadata''
      | FwUnknownAggregateState \<Rightarrow> ''unknown aggregate freshness wait state''
      | FwAmbiguousAggregateState \<Rightarrow>
          ''aggregate freshness wait state contradicts its source or terminal metadata''
      | FwUnknownTerminalOutcome \<Rightarrow> ''unknown freshness wait terminal outcome''
      | FwAmbiguousTerminalOutcome \<Rightarrow> ''freshness wait terminal outcome is ambiguous''
      | FwInvalidAttemptTimeline \<Rightarrow> ''freshness wait attempt timeline is invalid''
      | FwTimestampBeyondAllowedSkew \<Rightarrow> ''freshness wait timestamp is beyond allowed server clock skew''
      | FwAttemptPastDeadline \<Rightarrow> ''waiting freshness attempt is already past its durable deadline''
      | FwAttemptBindingMismatch \<Rightarrow> ''freshness wait attempt changed immutable identity or targets''
      | FwNonMonotonicAttemptSequence \<Rightarrow> ''freshness wait sequence did not advance''
      | FwNonMonotonicAttemptTime \<Rightarrow> ''freshness wait update time regressed''
      | FwAppliedEpochRegressed \<Rightarrow> ''freshness wait applied epoch regressed''
      | FwSourceTerminalStateChanged \<Rightarrow> ''freshness wait source terminal state changed''
      | FwTerminalAttemptChanged \<Rightarrow> ''terminal freshness wait attempt is absorbing'')"

type_synonym 'a wait_result = "freshness_wait_contract_error + 'a"

section \<open>Capabilities\<close>

datatype workspace_client_capability =
    CapWorkspaceLayout u16
  | CapAtomicRootPublication u16
  | CapPathCeilings u16 u16 u16 u16 u16
  | CapTarEncodings u16 "tar_content_encoding list"
  | CapFreshnessWait u16

definition freshness_wait_version :: "workspace_client_capability list \<Rightarrow> u16 option" where
  "freshness_wait_version caps =
     find_map (\<lambda>c. case c of CapFreshnessWait v \<Rightarrow> Some v | _ \<Rightarrow> None) caps"

definition supports_freshness_wait :: "workspace_client_capability list \<Rightarrow> bool" where
  "supports_freshness_wait caps \<longleftrightarrow> freshness_wait_version caps \<noteq> None"

definition selection_validate_against :: "u16 \<Rightarrow> workspace_client_capability list \<Rightarrow> unit wait_result" where
  "selection_validate_against version caps =
     (if version \<noteq> WORKSPACE_CAPABILITY_VERSION_V1 \<or> freshness_wait_version caps \<noteq> Some version
      then Inl FwSelectionNotOffered else Inr ())"

section \<open>Small validators\<close>

definition fw_validate_versions :: "u16 \<Rightarrow> u16 \<Rightarrow> unit wait_result" where
  "fw_validate_versions format minimum =
     (if format = 0 \<or> minimum = 0 \<or> minimum > format then Inl FwInvalidVersionEnvelope
      else if minimum > FRESHNESS_WAIT_READER_VERSION
      then Inl (FwUpdateRequired minimum FRESHNESS_WAIT_READER_VERSION)
      else Inr ())"

definition fw_validate_api_generation :: "u16 \<Rightarrow> unit wait_result" where
  "fw_validate_api_generation actual =
     (if actual \<noteq> WORKSPACE_HTTP_API_GENERATION_V2 then Inl (FwUnsupportedApiGeneration actual) else Inr ())"

definition validate_freshness_requirement :: "freshness_requirement \<Rightarrow> unit wait_result" where
  "validate_freshness_requirement r =
     (if rq_on_stale r \<noteq> WaitThenFail
        \<or> \<not> (1 \<le> rq_wait_timeout_seconds r \<and> rq_wait_timeout_seconds r \<le> MAX_FRESHNESS_WAIT_DURATION_SECONDS)
      then Inl FwInvalidFreshnessRequirement else Inr ())"

definition validate_encoding_length :: "usize \<Rightarrow> usize \<Rightarrow> unit wait_result" where
  "validate_encoding_length actual maximum =
     (if actual > maximum then Inl (FwEncodingTooLarge actual maximum) else Inr ())"

definition validate_opaque :: "string \<Rightarrow> string \<Rightarrow> usize \<Rightarrow> unit wait_result" where
  "validate_opaque field v maximum =
     (if v = [] \<or> length v > maximum \<or> trim v \<noteq> v \<or> has_control v then Inl (FwInvalidOpaqueValue field)
      else Inr ())"

definition fw_validate_timestamp :: "string \<Rightarrow> unit wait_result" where
  "fw_validate_timestamp v =
     map_err (\<lambda>_. FwInvalidTimestamp) (validate_canonical_utc_timestamp ''freshness_wait_timestamp'' v)"

definition fw_validate_reason :: "freshness_reason_code option \<Rightarrow> unit wait_result" where
  "fw_validate_reason r = (if r = Some UnknownReason then Inl FwUnknownReason else Inr ())"

section \<open>Time\<close>

definition canonical_timestamp_seconds :: "string \<Rightarrow> int wait_result" where
  "canonical_timestamp_seconds v =
     (case timestamp_seconds v of None \<Rightarrow> Inl FwInvalidTimestamp | Some n \<Rightarrow> Inr n)"

definition format_timestamp_seconds :: "int \<Rightarrow> string wait_result" where
  "format_timestamp_seconds v = ok_or FwInvalidAttemptTimeline (format_seconds v)"

definition i64_checked :: "int \<Rightarrow> int option" where
  "i64_checked v = (if - (2 ^ 63) \<le> v \<and> v < 2 ^ 63 then Some v else None)"

definition seconds_between :: "string \<Rightarrow> string \<Rightarrow> int wait_result" where
  "seconds_between start end_at =
     rbind (canonical_timestamp_seconds end_at) (\<lambda>e.
     rbind (canonical_timestamp_seconds start) (\<lambda>s.
     ok_or FwInvalidAttemptTimeline (i64_checked (e - s))))"

definition add_timestamp_seconds :: "string \<Rightarrow> u64 \<Rightarrow> string wait_result" where
  "add_timestamp_seconds v seconds =
     rbind (canonical_timestamp_seconds v) (\<lambda>base.
     rbind (ok_or FwInvalidAttemptTimeline (i64_checked (uint seconds))) (\<lambda>seconds.
     rbind (ok_or FwInvalidAttemptTimeline (i64_checked (base + seconds))) format_timestamp_seconds))"

section \<open>Sources, polls, terminals\<close>

datatype wait_source_state = SrcWaiting | SrcSatisfied | SrcFailed | SrcUnknown

record wait_source_target =
  wt_ordinal :: u32
  wt_source_connection_id :: string
  wt_source_scope_id :: string
  wt_target_epoch :: freshness_epoch
  wt_applied_epoch :: freshness_epoch
  wt_state :: wait_source_state
  wt_reason :: "freshness_reason_code option"
  wt_retry :: "freshness_retry option"

definition source_state_ok :: "wait_source_target \<Rightarrow> unit wait_result" where
  "source_state_ok t =
     (case wt_state t of
        SrcWaiting \<Rightarrow>
          if wt_applied_epoch t < wt_target_epoch t \<and> wt_reason t \<noteq> None then Inr ()
          else Inl FwAmbiguousSourceState
      | SrcSatisfied \<Rightarrow>
          if wt_applied_epoch t \<ge> wt_target_epoch t \<and> wt_reason t = None \<and> wt_retry t = None then Inr ()
          else Inl FwAmbiguousSourceState
      | SrcFailed \<Rightarrow>
          if wt_applied_epoch t < wt_target_epoch t \<and> wt_reason t \<noteq> None then Inr ()
          else Inl FwAmbiguousSourceState
      | SrcUnknown \<Rightarrow> Inl FwUnknownSourceState)"

definition fw_validate_retry :: "freshness_retry \<Rightarrow> unit wait_result" where
  "fw_validate_retry r = map_err (\<lambda>_. FwInvalidRetry) (retry_validate r)"

definition target_validate :: "wait_source_target \<Rightarrow> unit wait_result" where
  "target_validate t =
     rbind (validate_opaque ''source_connection_id'' (wt_source_connection_id t) MAX_FRESHNESS_WAIT_ID_BYTES) (\<lambda>_.
     rbind (validate_opaque ''source_scope_id'' (wt_source_scope_id t) MAX_FRESHNESS_WAIT_ID_BYTES) (\<lambda>_.
     rbind (fw_validate_reason (wt_reason t)) (\<lambda>_.
     rbind (case wt_retry t of None \<Rightarrow> Inr () | Some r \<Rightarrow> fw_validate_retry r) (\<lambda>_.
     source_state_ok t))))"

record wait_poll_metadata =
  pm_observed_at :: string
  pm_retry :: freshness_retry

definition poll_validate :: "wait_poll_metadata \<Rightarrow> unit wait_result" where
  "poll_validate p =
     rbind (fw_validate_timestamp (pm_observed_at p)) (\<lambda>_.
     rbind (fw_validate_retry (pm_retry p)) (\<lambda>_.
     if rt_class (pm_retry p) \<noteq> AfterDelay
       \<or> \<not> (case rt_retry_after_seconds (pm_retry p) of
              Some s \<Rightarrow> 1 \<le> s \<and> s \<le> MAX_FRESHNESS_WAIT_POLL_AFTER_SECONDS | None \<Rightarrow> False)
     then Inl FwInvalidPollMetadata else Inr ()))"

datatype wait_terminal_outcome = OutSatisfied | OutDeadlineExceeded | OutFailed | OutUnknown

record wait_terminal =
  tm_outcome :: wait_terminal_outcome
  tm_completed_at :: string

definition terminal_validate :: "wait_terminal \<Rightarrow> unit wait_result" where
  "terminal_validate t =
     rbind (fw_validate_timestamp (tm_completed_at t)) (\<lambda>_.
     if tm_outcome t = OutUnknown then Inl FwUnknownTerminalOutcome else Inr ())"

section \<open>Requests and attempts\<close>

record wait_attempt_request =
  wr_format_version :: u16
  wr_minimum_reader_version :: u16
  wr_api_generation :: u16
  wr_session_id :: string
  wr_idempotency_key :: string
  wr_capabilities :: "workspace_client_capability list"

datatype wait_aggregate_state = AggWaiting | AggTerminal | AggUnknown

record wait_attempt =
  wa_format_version :: u16
  wa_minimum_reader_version :: u16
  wa_api_generation :: u16
  wa_selected_capability :: u16
  wa_wait_attempt_id :: string
  wa_session_id :: string
  wa_idempotency_key :: string
  wa_freshness_requirement :: freshness_requirement
  wa_created_at :: string
  wa_original_deadline_at :: string
  wa_sequence :: u64
  wa_source_targets :: "wait_source_target list"
  wa_state :: wait_aggregate_state
  wa_poll :: "wait_poll_metadata option"
  wa_terminal :: "wait_terminal option"
  wa_updated_at :: string

text \<open>The lengths of the JSON encodings, and the JSON parser, which reports its own errors.\<close>

record wait_codec =
  request_length :: "wait_attempt_request \<Rightarrow> usize"
  attempt_length :: "wait_attempt \<Rightarrow> usize"
  request_from_slice :: "string \<Rightarrow> string + wait_attempt_request"
  attempt_from_slice :: "string \<Rightarrow> string + wait_attempt"

definition request_validate :: "wait_codec \<Rightarrow> wait_attempt_request \<Rightarrow> unit wait_result" where
  "request_validate J r =
     rbind (fw_validate_versions (wr_format_version r) (wr_minimum_reader_version r)) (\<lambda>_.
     rbind (fw_validate_api_generation (wr_api_generation r)) (\<lambda>_.
     rbind (validate_opaque ''session_id'' (wr_session_id r) MAX_FRESHNESS_WAIT_ID_BYTES) (\<lambda>_.
     rbind (validate_opaque ''idempotency_key'' (wr_idempotency_key r) MAX_FRESHNESS_WAIT_IDEMPOTENCY_KEY_BYTES) (\<lambda>_.
     if \<not> supports_freshness_wait (wr_capabilities r) then Inl FwCapabilityRequired
     else validate_encoding_length (request_length J r) MAX_FRESHNESS_WAIT_REQUEST_BYTES))))"

definition request_decode_json :: "wait_codec \<Rightarrow> string \<Rightarrow> wait_attempt_request wait_result" where
  "request_decode_json J input =
     rbind (validate_encoding_length (length input) MAX_FRESHNESS_WAIT_REQUEST_BYTES) (\<lambda>_.
     rbind (map_err FwInvalidJson (request_from_slice J input)) (\<lambda>request.
     rbind (request_validate J request) (\<lambda>_. Inr request)))"

definition derive_original_deadline_at :: "string \<Rightarrow> freshness_requirement \<Rightarrow> string wait_result" where
  "derive_original_deadline_at created_at requirement =
     rbind (validate_freshness_requirement requirement) (\<lambda>_.
     add_timestamp_seconds created_at (rq_wait_timeout_seconds requirement))"

fun check_targets :: "usize \<Rightarrow> (string \<times> string) set \<Rightarrow> wait_source_target list \<Rightarrow> unit wait_result" where
  "check_targets index sources [] = Inr ()"
| "check_targets index sources (t # ts) =
     (if unat (wt_ordinal t) \<noteq> index then Inl (FwNonCanonicalSourceOrdinal index (wt_ordinal t))
      else if (wt_source_connection_id t, wt_source_scope_id t) \<in> sources then Inl (FwDuplicateSource index)
      else rbind (target_validate t) (\<lambda>_.
        check_targets (index + 1) (insert (wt_source_connection_id t, wt_source_scope_id t) sources) ts))"

definition validate_source_targets :: "wait_source_target list \<Rightarrow> unit wait_result" where
  "validate_source_targets ts =
     (if ts = [] \<or> length ts > MAX_FRESHNESS_WAIT_SOURCES then Inl (FwInvalidSourceCount (length ts))
      else check_targets 0 {} ts)"

definition count_state :: "wait_source_state \<Rightarrow> wait_source_target list \<Rightarrow> nat" where
  "count_state st ts = length (filter (\<lambda>t. wt_state t = st) ts)"

definition validate_aggregate_state :: "wait_attempt \<Rightarrow> unit wait_result" where
  "validate_aggregate_state a =
     (let ts = wa_source_targets a;
          waiting = count_state SrcWaiting ts;
          satisfied = count_state SrcSatisfied ts;
          failed = count_state SrcFailed ts
      in case (wa_state a, wa_poll a, wa_terminal a) of
           (AggUnknown, _, _) \<Rightarrow> Inl FwUnknownAggregateState
         | (AggWaiting, Some _, None) \<Rightarrow>
             if waiting > 0 \<and> failed = 0 \<and> wa_updated_at a < wa_original_deadline_at a then Inr ()
             else Inl FwAmbiguousAggregateState
         | (AggTerminal, None, Some t) \<Rightarrow>
             (case tm_outcome t of
                OutSatisfied \<Rightarrow>
                  if satisfied = length ts \<and> tm_completed_at t \<le> wa_original_deadline_at a then Inr ()
                  else Inl FwAmbiguousAggregateState
              | OutDeadlineExceeded \<Rightarrow>
                  if waiting > 0 \<and> failed = 0 \<and> tm_completed_at t \<ge> wa_original_deadline_at a then Inr ()
                  else Inl FwAmbiguousAggregateState
              | OutFailed \<Rightarrow>
                  if failed > 0 \<and> tm_completed_at t \<le> wa_original_deadline_at a then Inr ()
                  else Inl FwAmbiguousAggregateState
              | OutUnknown \<Rightarrow> Inl FwAmbiguousAggregateState)
         | _ \<Rightarrow> Inl FwAmbiguousAggregateState)"

text \<open>The poll of a snapshot: validated, observed at the update, and due before the deadline. The
  delay of a validated poll is present and fits an \<open>i64\<close>.\<close>

definition attempt_poll_ok :: "wait_attempt \<Rightarrow> wait_poll_metadata \<Rightarrow> unit wait_result" where
  "attempt_poll_ok a p =
     rbind (poll_validate p) (\<lambda>_.
     case rt_retry_after_seconds (pm_retry p) of
       None \<Rightarrow> Inl FwInvalidPollMetadata
     | Some after \<Rightarrow>
         if pm_observed_at p \<noteq> wa_updated_at a then Inl FwInvalidPollMetadata
         else
         rbind (seconds_between (pm_observed_at p) (wa_original_deadline_at a)) (\<lambda>left.
         rbind (ok_or FwInvalidPollMetadata (i64_checked (uint after))) (\<lambda>after.
         if left < after then Inl FwInvalidPollMetadata else Inr ())))"

definition attempt_terminal_ok :: "wait_attempt \<Rightarrow> wait_terminal \<Rightarrow> unit wait_result" where
  "attempt_terminal_ok a t =
     rbind (terminal_validate t) (\<lambda>_.
     if tm_completed_at t \<noteq> wa_updated_at a then Inl FwAmbiguousTerminalOutcome else Inr ())"

definition attempt_validate :: "wait_codec \<Rightarrow> wait_attempt \<Rightarrow> unit wait_result" where
  "attempt_validate J a =
     rbind (fw_validate_versions (wa_format_version a) (wa_minimum_reader_version a)) (\<lambda>_.
     rbind (fw_validate_api_generation (wa_api_generation a)) (\<lambda>_.
     rbind (validate_opaque ''wait_attempt_id'' (wa_wait_attempt_id a) MAX_FRESHNESS_WAIT_ID_BYTES) (\<lambda>_.
     rbind (validate_opaque ''session_id'' (wa_session_id a) MAX_FRESHNESS_WAIT_ID_BYTES) (\<lambda>_.
     rbind (validate_opaque ''idempotency_key'' (wa_idempotency_key a) MAX_FRESHNESS_WAIT_IDEMPOTENCY_KEY_BYTES) (\<lambda>_.
     rbind (validate_freshness_requirement (wa_freshness_requirement a)) (\<lambda>_.
     rbind (fw_validate_timestamp (wa_created_at a)) (\<lambda>_.
     rbind (fw_validate_timestamp (wa_original_deadline_at a)) (\<lambda>_.
     rbind (fw_validate_timestamp (wa_updated_at a)) (\<lambda>_.
     rbind (derive_original_deadline_at (wa_created_at a) (wa_freshness_requirement a)) (\<lambda>deadline.
     if wa_original_deadline_at a \<noteq> deadline \<or> wa_updated_at a < wa_created_at a \<or> wa_sequence a = 0
     then Inl FwInvalidAttemptTimeline
     else
     rbind (validate_source_targets (wa_source_targets a)) (\<lambda>_.
     rbind (case wa_poll a of None \<Rightarrow> Inr () | Some p \<Rightarrow> attempt_poll_ok a p) (\<lambda>_.
     rbind (case wa_terminal a of None \<Rightarrow> Inr () | Some t \<Rightarrow> attempt_terminal_ok a t) (\<lambda>_.
     rbind (validate_aggregate_state a) (\<lambda>_.
     validate_encoding_length (attempt_length J a) MAX_FRESHNESS_WAIT_ATTEMPT_BYTES))))))))))))))"

definition attempt_validate_against :: "wait_codec \<Rightarrow> wait_attempt \<Rightarrow> wait_attempt_request \<Rightarrow> unit wait_result" where
  "attempt_validate_against J a r =
     rbind (request_validate J r) (\<lambda>_.
     rbind (attempt_validate J a) (\<lambda>_.
     rbind (selection_validate_against (wa_selected_capability a) (wr_capabilities r)) (\<lambda>_.
     if wa_format_version a \<noteq> wr_format_version r
       \<or> wa_minimum_reader_version a \<noteq> wr_minimum_reader_version r
       \<or> wa_api_generation a \<noteq> wr_api_generation r
       \<or> wa_session_id a \<noteq> wr_session_id r
       \<or> wa_idempotency_key a \<noteq> wr_idempotency_key r
     then Inl FwAttemptBindingMismatch else Inr ())))"

definition attempt_validate_at :: "wait_codec \<Rightarrow> wait_attempt \<Rightarrow> string \<Rightarrow> unit wait_result" where
  "attempt_validate_at J a server_time =
     rbind (attempt_validate J a) (\<lambda>_.
     rbind (fw_validate_timestamp server_time) (\<lambda>_.
     rbind (seconds_between (wa_created_at a) server_time) (\<lambda>since_created.
     if since_created < - MAX_FRESHNESS_WAIT_FUTURE_SKEW_SECONDS then Inl FwTimestampBeyondAllowedSkew
     else
     rbind (seconds_between (wa_updated_at a) server_time) (\<lambda>since_updated.
     if since_updated < - MAX_FRESHNESS_WAIT_FUTURE_SKEW_SECONDS then Inl FwTimestampBeyondAllowedSkew
     else if wa_state a = AggWaiting \<and> server_time \<ge> wa_original_deadline_at a then Inl FwAttemptPastDeadline
     else Inr ()))))"

definition attempt_validate_against_at ::
    "wait_codec \<Rightarrow> wait_attempt \<Rightarrow> wait_attempt_request \<Rightarrow> string \<Rightarrow> unit wait_result" where
  "attempt_validate_against_at J a r server_time =
     rbind (attempt_validate_against J a r) (\<lambda>_. attempt_validate_at J a server_time)"

definition attempt_decode_json ::
    "wait_codec \<Rightarrow> string \<Rightarrow> wait_attempt_request \<Rightarrow> string \<Rightarrow> wait_attempt wait_result" where
  "attempt_decode_json J input r server_time =
     rbind (validate_encoding_length (length input) MAX_FRESHNESS_WAIT_ATTEMPT_BYTES) (\<lambda>_.
     rbind (map_err FwInvalidJson (attempt_from_slice J input)) (\<lambda>a.
     rbind (attempt_validate_against_at J a r server_time) (\<lambda>_. Inr a)))"

section \<open>Successors\<close>

definition same_target :: "wait_source_target \<Rightarrow> wait_source_target \<Rightarrow> bool" where
  "same_target l r \<longleftrightarrow>
     wt_ordinal l = wt_ordinal r \<and> wt_source_connection_id l = wt_source_connection_id r
   \<and> wt_source_scope_id l = wt_source_scope_id r \<and> wt_target_epoch l = wt_target_epoch r"

definition same_immutable_attempt :: "wait_attempt \<Rightarrow> wait_attempt \<Rightarrow> bool" where
  "same_immutable_attempt a b \<longleftrightarrow>
     wa_format_version a = wa_format_version b
   \<and> wa_minimum_reader_version a = wa_minimum_reader_version b
   \<and> wa_api_generation a = wa_api_generation b
   \<and> wa_selected_capability a = wa_selected_capability b
   \<and> wa_wait_attempt_id a = wa_wait_attempt_id b
   \<and> wa_session_id a = wa_session_id b
   \<and> wa_idempotency_key a = wa_idempotency_key b
   \<and> wa_freshness_requirement a = wa_freshness_requirement b
   \<and> wa_created_at a = wa_created_at b
   \<and> wa_original_deadline_at a = wa_original_deadline_at b
   \<and> length (wa_source_targets a) = length (wa_source_targets b)
   \<and> list_all (\<lambda>(l, r). same_target l r) (zip (wa_source_targets a) (wa_source_targets b))"

fun check_progress :: "(wait_source_target \<times> wait_source_target) list \<Rightarrow> unit wait_result" where
  "check_progress [] = Inr ()"
| "check_progress ((prior, nxt) # rest) =
     (if wt_state prior = SrcSatisfied \<and> wt_state nxt \<noteq> SrcSatisfied then Inl FwSourceTerminalStateChanged
      else if wt_state prior = SrcFailed then Inl FwSourceTerminalStateChanged
      else if wt_applied_epoch nxt < wt_applied_epoch prior then Inl FwAppliedEpochRegressed
      else check_progress rest)"

definition validate_successor ::
    "wait_codec \<Rightarrow> wait_attempt \<Rightarrow> wait_attempt \<Rightarrow> wait_attempt_request \<Rightarrow> string \<Rightarrow> unit wait_result" where
  "validate_successor J a previous r server_time =
     rbind (attempt_validate_against_at J a r server_time) (\<lambda>_.
     rbind (attempt_validate J previous) (\<lambda>_.
     rbind (selection_validate_against (wa_selected_capability previous) (wr_capabilities r)) (\<lambda>_.
     if a = previous then Inr ()
     else if wa_state previous = AggTerminal then Inl FwTerminalAttemptChanged
     else if wa_sequence a \<le> wa_sequence previous then Inl FwNonMonotonicAttemptSequence
     else if \<not> same_immutable_attempt a previous then Inl FwAttemptBindingMismatch
     else if wa_updated_at a < wa_updated_at previous then Inl FwNonMonotonicAttemptTime
     else check_progress (zip (wa_source_targets previous) (wa_source_targets a)))))"

end
