(* ===== verification/Hydration_Budget.thy ===== *)
theory Hydration_Budget
  imports Core_Error Rust_Int "HOL-Library.Multiset"
begin

text \<open>
  The limits of one initial hydration, \<open>locality-connector/src/hydration_budget.rs\<close>: counters shared by
  all clones of a budget, the reservations that are checked before a counter changes, and the exclusive
  allowance for one media fetch, which is committed or dropped. A budget is its limits and the usage
  behind the mutex, with the flag of a poisoned lock; time is the elapsed nanoseconds that the caller
  reads. The lemmas show when a reservation succeeds, that usage stays within the limits in every order
  of operations, and that media allowances are never lost.
\<close>

section \<open>Limits, resources and errors\<close>

datatype hydration_resource =
    ResponseBodyBytes | ProviderCalls | ProviderDeadline | InventoryItems | InventoryEncodedBytes
  | TraversalNodes | TraversalDepth | NativeBytes | MediaAssets | MediaDecodedBytes
  | RenderedContentBytes | ProjectionCount | ChangeCount | RetainedBytes

record hydration_limits =
  max_response_body_bytes :: u64
  max_provider_calls :: u64
  provider_deadline_ms :: u64
  max_inventory_items :: u64
  max_inventory_encoded_bytes :: u64
  max_traversal_nodes :: u64
  max_traversal_depth :: u64
  max_native_bytes :: u64
  max_media_assets :: u64
  max_media_decoded_bytes :: u64
  max_rendered_content_bytes :: u64
  max_projections :: u64
  max_changes :: u64
  max_retained_bytes :: u64

datatype hydration_scope_failure = OverlappingRoots

datatype hydration_error =
    InvalidLimit hydration_resource
  | LimitExceeded hydration_resource
  | ProviderRateLimited string nat
  | ProviderNotFound
  | ProviderUnavailable
  | ProviderResponseInvalid
  | InvalidScope hydration_scope_failure

type_synonym 'a hydration_result = "hydration_error + 'a"

definition limit_of :: "hydration_limits \<Rightarrow> hydration_resource \<Rightarrow> u64" where
  "limit_of limits r =
     (case r of
        ResponseBodyBytes \<Rightarrow> max_response_body_bytes limits
      | ProviderCalls \<Rightarrow> max_provider_calls limits
      | ProviderDeadline \<Rightarrow> provider_deadline_ms limits
      | InventoryItems \<Rightarrow> max_inventory_items limits
      | InventoryEncodedBytes \<Rightarrow> max_inventory_encoded_bytes limits
      | TraversalNodes \<Rightarrow> max_traversal_nodes limits
      | TraversalDepth \<Rightarrow> max_traversal_depth limits
      | NativeBytes \<Rightarrow> max_native_bytes limits
      | MediaAssets \<Rightarrow> max_media_assets limits
      | MediaDecodedBytes \<Rightarrow> max_media_decoded_bytes limits
      | RenderedContentBytes \<Rightarrow> max_rendered_content_bytes limits
      | ProjectionCount \<Rightarrow> max_projections limits
      | ChangeCount \<Rightarrow> max_changes limits
      | RetainedBytes \<Rightarrow> max_retained_bytes limits)"

definition validated_resources :: "hydration_resource list" where
  "validated_resources =
     [ResponseBodyBytes, ProviderCalls, ProviderDeadline, InventoryItems, InventoryEncodedBytes, TraversalNodes,
      TraversalDepth, NativeBytes, MediaAssets, MediaDecodedBytes, RenderedContentBytes, ProjectionCount,
      ChangeCount, RetainedBytes]"

definition limits_validate :: "hydration_limits \<Rightarrow> hydration_limits hydration_result" where
  "limits_validate limits =
     (case List.find (\<lambda>r. limit_of limits r = 0) validated_resources of
        Some r \<Rightarrow> Inl (InvalidLimit r)
      | None \<Rightarrow> Inr limits)"

definition scope_failure_code :: "hydration_scope_failure \<Rightarrow> string" where
  "scope_failure_code f = (case f of OverlappingRoots \<Rightarrow> ''overlapping_roots'')"

text \<open>ASCII bytes are characters of their own, so filtering the bytes is filtering the characters.\<close>

definition provider_name_char :: "char \<Rightarrow> bool" where
  "provider_name_char c \<longleftrightarrow> is_ascii_alphabetic c \<or> is_ascii_digit c \<or> c = CHR ''-'' \<or> c = CHR ''_''"

definition sanitize_provider_name :: "string \<Rightarrow> string" where
  "sanitize_provider_name provider =
     (let sanitized = take 64 (filter provider_name_char provider)
      in if sanitized = [] then ''provider'' else sanitized)"

definition from_connector_error :: "locality_error \<Rightarrow> hydration_error" where
  "from_connector_error e =
     (case e of
        ERateLimited provider retry_after _ \<Rightarrow> ProviderRateLimited (sanitize_provider_name provider) retry_after
      | ERemoteNotFound _ \<Rightarrow> ProviderNotFound
      | EIo _ \<Rightarrow> ProviderUnavailable
      | _ \<Rightarrow> ProviderResponseInvalid)"

definition is_permanent :: "hydration_error \<Rightarrow> bool" where
  "is_permanent e =
     (case e of ProviderRateLimited _ _ \<Rightarrow> False | ProviderUnavailable \<Rightarrow> False | _ \<Rightarrow> True)"

definition retry_after :: "hydration_error \<Rightarrow> nat option" where
  "retry_after e = (case e of ProviderRateLimited _ d \<Rightarrow> Some d | _ \<Rightarrow> None)"

definition resource_debug :: "hydration_resource \<Rightarrow> string" where
  "resource_debug r =
     (case r of
        ResponseBodyBytes \<Rightarrow> ''ResponseBodyBytes'' | ProviderCalls \<Rightarrow> ''ProviderCalls''
      | ProviderDeadline \<Rightarrow> ''ProviderDeadline'' | InventoryItems \<Rightarrow> ''InventoryItems''
      | InventoryEncodedBytes \<Rightarrow> ''InventoryEncodedBytes'' | TraversalNodes \<Rightarrow> ''TraversalNodes''
      | TraversalDepth \<Rightarrow> ''TraversalDepth'' | NativeBytes \<Rightarrow> ''NativeBytes'' | MediaAssets \<Rightarrow> ''MediaAssets''
      | MediaDecodedBytes \<Rightarrow> ''MediaDecodedBytes'' | RenderedContentBytes \<Rightarrow> ''RenderedContentBytes''
      | ProjectionCount \<Rightarrow> ''Projections'' | ChangeCount \<Rightarrow> ''Changes'' | RetainedBytes \<Rightarrow> ''RetainedBytes'')"

definition hydration_error_display :: "hydration_error \<Rightarrow> string" where
  "hydration_error_display e =
     (case e of
        InvalidLimit r \<Rightarrow> ''initial hydration limit is invalid: '' @ resource_debug r
      | LimitExceeded r \<Rightarrow> ''initial hydration limit exceeded: '' @ resource_debug r
      | ProviderRateLimited provider d \<Rightarrow>
          provider @ '' rate limited initial hydration for '' @ dec (d div 1000000) @ ''ms''
      | ProviderNotFound \<Rightarrow> ''initial hydration object was not found''
      | ProviderUnavailable \<Rightarrow> ''initial hydration provider is unavailable''
      | ProviderResponseInvalid \<Rightarrow> ''initial hydration provider response is invalid''
      | InvalidScope f \<Rightarrow> ''initial hydration scope is invalid: '' @ scope_failure_code f)"

section \<open>Usage\<close>

record hydration_usage =
  u_response_body_bytes :: u64
  u_provider_calls :: u64
  u_inventory_items :: u64
  u_inventory_encoded_bytes :: u64
  u_traversal_nodes :: u64
  u_native_bytes :: u64
  u_media_assets :: u64
  u_media_decoded_bytes :: u64
  u_rendered_content_bytes :: u64
  u_projections :: u64
  u_changes :: u64
  u_retained_bytes :: u64

definition usage_default :: hydration_usage where
  "usage_default =
     \<lparr>u_response_body_bytes = 0, u_provider_calls = 0, u_inventory_items = 0, u_inventory_encoded_bytes = 0,
      u_traversal_nodes = 0, u_native_bytes = 0, u_media_assets = 0, u_media_decoded_bytes = 0,
      u_rendered_content_bytes = 0, u_projections = 0, u_changes = 0, u_retained_bytes = 0\<rparr>"

definition usage_get :: "hydration_usage \<Rightarrow> hydration_resource \<Rightarrow> u64" where
  "usage_get u r =
     (case r of
        ResponseBodyBytes \<Rightarrow> u_response_body_bytes u
      | ProviderCalls \<Rightarrow> u_provider_calls u
      | InventoryItems \<Rightarrow> u_inventory_items u
      | InventoryEncodedBytes \<Rightarrow> u_inventory_encoded_bytes u
      | TraversalNodes \<Rightarrow> u_traversal_nodes u
      | NativeBytes \<Rightarrow> u_native_bytes u
      | MediaAssets \<Rightarrow> u_media_assets u
      | MediaDecodedBytes \<Rightarrow> u_media_decoded_bytes u
      | RenderedContentBytes \<Rightarrow> u_rendered_content_bytes u
      | ProjectionCount \<Rightarrow> u_projections u
      | ChangeCount \<Rightarrow> u_changes u
      | RetainedBytes \<Rightarrow> u_retained_bytes u
      | ProviderDeadline \<Rightarrow> 0
      | TraversalDepth \<Rightarrow> 0)"

definition usage_set :: "hydration_usage \<Rightarrow> hydration_resource \<Rightarrow> u64 \<Rightarrow> hydration_usage" where
  "usage_set u r v =
     (case r of
        ResponseBodyBytes \<Rightarrow> u\<lparr>u_response_body_bytes := v\<rparr>
      | ProviderCalls \<Rightarrow> u\<lparr>u_provider_calls := v\<rparr>
      | InventoryItems \<Rightarrow> u\<lparr>u_inventory_items := v\<rparr>
      | InventoryEncodedBytes \<Rightarrow> u\<lparr>u_inventory_encoded_bytes := v\<rparr>
      | TraversalNodes \<Rightarrow> u\<lparr>u_traversal_nodes := v\<rparr>
      | NativeBytes \<Rightarrow> u\<lparr>u_native_bytes := v\<rparr>
      | MediaAssets \<Rightarrow> u\<lparr>u_media_assets := v\<rparr>
      | MediaDecodedBytes \<Rightarrow> u\<lparr>u_media_decoded_bytes := v\<rparr>
      | RenderedContentBytes \<Rightarrow> u\<lparr>u_rendered_content_bytes := v\<rparr>
      | ProjectionCount \<Rightarrow> u\<lparr>u_projections := v\<rparr>
      | ChangeCount \<Rightarrow> u\<lparr>u_changes := v\<rparr>
      | RetainedBytes \<Rightarrow> u\<lparr>u_retained_bytes := v\<rparr>
      | ProviderDeadline \<Rightarrow> u
      | TraversalDepth \<Rightarrow> u)"

record hydration_budget =
  hb_limits :: hydration_limits
  hb_usage :: hydration_usage
  hb_poisoned :: bool

definition budget_new :: "hydration_limits \<Rightarrow> hydration_budget hydration_result" where
  "budget_new limits =
     rbind (limits_validate limits) (\<lambda>limits.
       Inr \<lparr>hb_limits = limits, hb_usage = usage_default, hb_poisoned = False\<rparr>)"

definition usize_to_u64 :: "usize \<Rightarrow> hydration_resource \<Rightarrow> u64 hydration_result" where
  "usize_to_u64 v r = (if int v < 2 ^ 64 then Inr (word_of_nat v) else Inl (LimitExceeded r))"

section \<open>Reservations\<close>

text \<open>The loop adds up a local copy of the usage, so that nothing changes when a later dimension fails.\<close>

fun validate_reservations :: "hydration_limits \<Rightarrow> hydration_usage \<Rightarrow> (hydration_resource \<times> u64) list
    \<Rightarrow> hydration_usage hydration_result" where
  "validate_reservations limits u [] = Inr u"
| "validate_reservations limits u ((r, amount) # rs) =
     (if r = ProviderDeadline \<or> r = TraversalDepth then Inl ProviderResponseInvalid
      else rbind (ok_or (LimitExceeded r) (u64_checked_add (usage_get u r) amount)) (\<lambda>nxt.
        if nxt > limit_of limits r then Inl (LimitExceeded r)
        else validate_reservations limits (usage_set u r nxt) rs))"

definition ensure :: "hydration_budget \<Rightarrow> (hydration_resource \<times> u64) list \<Rightarrow> unit hydration_result" where
  "ensure b rs =
     (if hb_poisoned b then Inl ProviderResponseInvalid
      else rbind (validate_reservations (hb_limits b) (hb_usage b) rs) (\<lambda>_. Inr ()))"

definition account :: "(hydration_resource \<times> u64) list \<Rightarrow> hydration_budget \<Rightarrow> unit hydration_result \<times> hydration_budget" where
  "account rs b =
     (if hb_poisoned b then (Inl ProviderResponseInvalid, b)
      else case validate_reservations (hb_limits b) (hb_usage b) rs of
        Inl e \<Rightarrow> (Inl e, b)
      | Inr nxt \<Rightarrow> (Inr (), b\<lparr>hb_usage := nxt\<rparr>))"

text \<open>Reservations whose amounts are lengths: the conversions run first, in the order of the list.\<close>

definition converted :: "(hydration_resource \<times> usize) list \<Rightarrow> (hydration_resource \<times> u64) list hydration_result" where
  "converted rs = try_map (\<lambda>(r, v). rbind (usize_to_u64 v r) (\<lambda>w. Inr (r, w))) rs"

definition account_sizes :: "(hydration_resource \<times> usize) list \<Rightarrow> hydration_budget
    \<Rightarrow> unit hydration_result \<times> hydration_budget" where
  "account_sizes rs b = (case converted rs of Inl e \<Rightarrow> (Inl e, b) | Inr ws \<Rightarrow> account ws b)"

definition ensure_sizes :: "hydration_budget \<Rightarrow> (hydration_resource \<times> usize) list \<Rightarrow> unit hydration_result" where
  "ensure_sizes b rs = rbind (converted rs) (ensure b)"

definition deadline_ns :: "hydration_budget \<Rightarrow> nat" where
  "deadline_ns b = unat (provider_deadline_ms (hb_limits b)) * 1000000"

definition check_deadline :: "nat \<Rightarrow> hydration_budget \<Rightarrow> unit hydration_result" where
  "check_deadline elapsed b = (if elapsed \<ge> deadline_ns b then Inl (LimitExceeded ProviderDeadline) else Inr ())"

text \<open>The clock is read twice.\<close>

definition remaining_provider_time :: "nat \<Rightarrow> nat \<Rightarrow> hydration_budget \<Rightarrow> nat hydration_result" where
  "remaining_provider_time elapsed elapsed' b =
     rbind (check_deadline elapsed b) (\<lambda>_. Inr (deadline_ns b - elapsed'))"

definition reserve_provider_call :: "nat \<Rightarrow> hydration_budget \<Rightarrow> unit hydration_result \<times> hydration_budget" where
  "reserve_provider_call elapsed b =
     (case check_deadline elapsed b of Inl e \<Rightarrow> (Inl e, b) | Inr _ \<Rightarrow> account [(ProviderCalls, 1)] b)"

definition reserve_media_fetch :: "nat \<Rightarrow> hydration_budget \<Rightarrow> unit hydration_result \<times> hydration_budget" where
  "reserve_media_fetch elapsed b =
     (case check_deadline elapsed b of Inl e \<Rightarrow> (Inl e, b)
      | Inr _ \<Rightarrow> account [(ProviderCalls, 1), (MediaAssets, 1)] b)"

definition preflight_response_length :: "hydration_budget \<Rightarrow> u64 \<Rightarrow> unit hydration_result" where
  "preflight_response_length b n = ensure b [(ResponseBodyBytes, n)]"

definition account_response_chunk :: "usize \<Rightarrow> hydration_budget \<Rightarrow> unit hydration_result \<times> hydration_budget" where
  "account_response_chunk bytes = account_sizes [(ResponseBodyBytes, bytes)]"

text \<open>The encoded bytes of an inventory count twice, converted once: the second conversion repeats the
  first, whose failure comes before it.\<close>

definition account_inventory :: "usize \<Rightarrow> usize \<Rightarrow> hydration_budget \<Rightarrow> unit hydration_result \<times> hydration_budget" where
  "account_inventory n encoded =
     account_sizes [(InventoryItems, n), (InventoryEncodedBytes, encoded), (RetainedBytes, encoded)]"

definition preflight_inventory :: "hydration_budget \<Rightarrow> usize \<Rightarrow> usize \<Rightarrow> unit hydration_result" where
  "preflight_inventory b n encoded =
     ensure_sizes b [(InventoryItems, n), (InventoryEncodedBytes, encoded), (RetainedBytes, encoded)]"

definition preflight_traversal_node :: "hydration_budget \<Rightarrow> usize \<Rightarrow> unit hydration_result" where
  "preflight_traversal_node b depth =
     rbind (usize_to_u64 depth TraversalDepth) (\<lambda>d.
       if d > max_traversal_depth (hb_limits b) then Inl (LimitExceeded TraversalDepth)
       else ensure b [(TraversalNodes, 1)])"

definition visit_traversal_node :: "usize \<Rightarrow> hydration_budget \<Rightarrow> unit hydration_result \<times> hydration_budget" where
  "visit_traversal_node depth b =
     (case preflight_traversal_node b depth of Inl e \<Rightarrow> (Inl e, b) | Inr _ \<Rightarrow> account [(TraversalNodes, 1)] b)"

definition account_native_bytes :: "usize \<Rightarrow> hydration_budget \<Rightarrow> unit hydration_result \<times> hydration_budget" where
  "account_native_bytes bytes = account_sizes [(NativeBytes, bytes), (RetainedBytes, bytes)]"

definition preflight_native_bytes :: "hydration_budget \<Rightarrow> u64 \<Rightarrow> unit hydration_result" where
  "preflight_native_bytes b bytes = ensure b [(NativeBytes, bytes), (RetainedBytes, bytes)]"

definition validate_native_input_bytes :: "hydration_budget \<Rightarrow> usize \<Rightarrow> unit hydration_result" where
  "validate_native_input_bytes b n =
     rbind (usize_to_u64 n NativeBytes) (\<lambda>bytes.
       if bytes > max_native_bytes (hb_limits b) \<or> bytes > max_retained_bytes (hb_limits b)
       then Inl (LimitExceeded (if bytes > max_native_bytes (hb_limits b) then NativeBytes else RetainedBytes))
       else Inr ())"

definition reserve_media_asset :: "hydration_budget \<Rightarrow> unit hydration_result \<times> hydration_budget" where
  "reserve_media_asset = account [(MediaAssets, 1)]"

definition preflight_media_bytes :: "hydration_budget \<Rightarrow> u64 \<Rightarrow> unit hydration_result" where
  "preflight_media_bytes b bytes = ensure b [(MediaDecodedBytes, bytes), (RetainedBytes, bytes)]"

definition account_media_bytes :: "usize \<Rightarrow> hydration_budget \<Rightarrow> unit hydration_result \<times> hydration_budget" where
  "account_media_bytes bytes = account_sizes [(MediaDecodedBytes, bytes), (RetainedBytes, bytes)]"

definition account_rendered_content :: "usize \<Rightarrow> hydration_budget \<Rightarrow> unit hydration_result \<times> hydration_budget" where
  "account_rendered_content bytes = account_sizes [(RenderedContentBytes, bytes)]"

definition preflight_rendered_content :: "hydration_budget \<Rightarrow> u64 \<Rightarrow> unit hydration_result" where
  "preflight_rendered_content b bytes = ensure b [(RenderedContentBytes, bytes)]"

definition account_render_output :: "usize \<Rightarrow> usize \<Rightarrow> usize \<Rightarrow> hydration_budget \<Rightarrow> unit hydration_result \<times> hydration_budget" where
  "account_render_output content_bytes projection_count retained_bytes =
     account_sizes [(RenderedContentBytes, content_bytes), (ProjectionCount, projection_count),
       (RetainedBytes, retained_bytes)]"

definition account_retained_bytes :: "usize \<Rightarrow> hydration_budget \<Rightarrow> unit hydration_result \<times> hydration_budget" where
  "account_retained_bytes bytes = account_sizes [(RetainedBytes, bytes)]"

definition account_projections :: "usize \<Rightarrow> usize \<Rightarrow> hydration_budget \<Rightarrow> unit hydration_result \<times> hydration_budget" where
  "account_projections n retained = account_sizes [(ProjectionCount, n), (RetainedBytes, retained)]"

definition preflight_projections :: "hydration_budget \<Rightarrow> usize \<Rightarrow> usize \<Rightarrow> unit hydration_result" where
  "preflight_projections b n retained = ensure_sizes b [(ProjectionCount, n), (RetainedBytes, retained)]"

definition account_changes :: "usize \<Rightarrow> usize \<Rightarrow> hydration_budget \<Rightarrow> unit hydration_result \<times> hydration_budget" where
  "account_changes n retained = account_sizes [(ChangeCount, n), (RetainedBytes, retained)]"

definition preflight_changes :: "hydration_budget \<Rightarrow> usize \<Rightarrow> usize \<Rightarrow> unit hydration_result" where
  "preflight_changes b n retained = ensure_sizes b [(ChangeCount, n), (RetainedBytes, retained)]"

definition remaining :: "nat \<Rightarrow> nat \<Rightarrow> hydration_budget \<Rightarrow> hydration_resource \<Rightarrow> u64 hydration_result" where
  "remaining elapsed elapsed' b r =
     (if r = ProviderDeadline
      then rbind (remaining_provider_time elapsed elapsed' b) (\<lambda>d.
             Inr (if int (d div 1000000) < 2 ^ 64 then word_of_nat (d div 1000000) else - 1))
      else if r = TraversalDepth then Inr (max_traversal_depth (hb_limits b))
      else if hb_poisoned b then Inl ProviderResponseInvalid
      else Inr (u64_saturating_sub (limit_of (hb_limits b) r) (usage_get (hb_usage b) r)))"

section \<open>Retained bytes and media reservations\<close>

definition release_retained_bytes :: "usize \<Rightarrow> hydration_budget \<Rightarrow> unit hydration_result \<times> hydration_budget" where
  "release_retained_bytes n b =
     (case usize_to_u64 n RetainedBytes of Inl e \<Rightarrow> (Inl e, b)
      | Inr bytes \<Rightarrow>
          if hb_poisoned b then (Inl ProviderResponseInvalid, b)
          else case u64_checked_sub (u_retained_bytes (hb_usage b)) bytes of
            None \<Rightarrow> (Inl ProviderResponseInvalid, b)
          | Some nxt \<Rightarrow> (Inr (), b\<lparr>hb_usage := hb_usage b\<lparr>u_retained_bytes := nxt\<rparr>\<rparr>))"

definition replaced_retained :: "usize \<Rightarrow> usize \<Rightarrow> hydration_budget \<Rightarrow> u64 hydration_result" where
  "replaced_retained released_bytes added_bytes b =
     rbind (usize_to_u64 released_bytes RetainedBytes) (\<lambda>released.
     rbind (usize_to_u64 added_bytes RetainedBytes) (\<lambda>added.
       if hb_poisoned b then Inl ProviderResponseInvalid
       else rbind (ok_or ProviderResponseInvalid (u64_checked_sub (u_retained_bytes (hb_usage b)) released)) (\<lambda>owned.
         rbind (ok_or (LimitExceeded RetainedBytes) (u64_checked_add owned added)) (\<lambda>nxt.
           if nxt > max_retained_bytes (hb_limits b) then Inl (LimitExceeded RetainedBytes) else Inr nxt))))"

definition replace_retained_bytes :: "usize \<Rightarrow> usize \<Rightarrow> hydration_budget \<Rightarrow> unit hydration_result \<times> hydration_budget" where
  "replace_retained_bytes released_bytes added_bytes b =
     (case replaced_retained released_bytes added_bytes b of
        Inl e \<Rightarrow> (Inl e, b)
      | Inr nxt \<Rightarrow> (Inr (), b\<lparr>hb_usage := hb_usage b\<lparr>u_retained_bytes := nxt\<rparr>\<rparr>))"

text \<open>A reservation is its remaining allowance; the budget it belongs to is the state.\<close>

definition reserve_media_bytes :: "usize \<Rightarrow> hydration_budget \<Rightarrow> u64 hydration_result \<times> hydration_budget" where
  "reserve_media_bytes requested_bytes b =
     (if requested_bytes = 0 then (Inl (LimitExceeded MediaDecodedBytes), b)
      else case usize_to_u64 requested_bytes MediaDecodedBytes of Inl e \<Rightarrow> (Inl e, b)
      | Inr requested \<Rightarrow>
          if hb_poisoned b then (Inl ProviderResponseInvalid, b)
          else let u = hb_usage b;
                   remaining_media = u64_saturating_sub (max_media_decoded_bytes (hb_limits b)) (u_media_decoded_bytes u);
                   remaining_retained = u64_saturating_sub (max_retained_bytes (hb_limits b)) (u_retained_bytes u);
                   reserved = min (min requested remaining_media) remaining_retained
               in if reserved = 0
                  then (Inl (LimitExceeded (if remaining_media = 0 then MediaDecodedBytes else RetainedBytes)), b)
                  else case u64_checked_add (u_media_decoded_bytes u) reserved of
                    None \<Rightarrow> (Inl (LimitExceeded MediaDecodedBytes), b)
                  | Some next_media \<Rightarrow>
                      (case u64_checked_add (u_retained_bytes u) reserved of
                         None \<Rightarrow> (Inl (LimitExceeded RetainedBytes), b)
                       | Some next_retained \<Rightarrow>
                           (Inr reserved, b\<lparr>hb_usage := u\<lparr>u_media_decoded_bytes := next_media,
                              u_retained_bytes := next_retained\<rparr>\<rparr>)))"

text \<open>The usage after a commit, when it is accepted.\<close>

definition committed_usage :: "u64 \<Rightarrow> usize \<Rightarrow> usize \<Rightarrow> hydration_budget \<Rightarrow> hydration_usage hydration_result" where
  "committed_usage reserved actual_body_bytes extra_retained_bytes b =
     rbind (usize_to_u64 actual_body_bytes MediaDecodedBytes) (\<lambda>actual.
     rbind (usize_to_u64 extra_retained_bytes RetainedBytes) (\<lambda>extra.
       if actual > reserved then Inl ProviderResponseInvalid
       else if hb_poisoned b then Inl ProviderResponseInvalid
       else let u = hb_usage b in
         rbind (ok_or ProviderResponseInvalid (u64_checked_sub (u_media_decoded_bytes u) reserved)) (\<lambda>media0.
         rbind (ok_or ProviderResponseInvalid (u64_checked_sub (u_retained_bytes u) reserved)) (\<lambda>retained0.
         rbind (ok_or (LimitExceeded MediaDecodedBytes) (u64_checked_add media0 actual)) (\<lambda>next_media.
         rbind (ok_or (LimitExceeded RetainedBytes) (Option.bind (u64_checked_add retained0 actual)
             (\<lambda>v. u64_checked_add v extra))) (\<lambda>next_retained.
           if next_media > max_media_decoded_bytes (hb_limits b) then Inl (LimitExceeded MediaDecodedBytes)
           else if next_retained > max_retained_bytes (hb_limits b) then Inl (LimitExceeded RetainedBytes)
           else Inr (u\<lparr>u_media_decoded_bytes := next_media, u_retained_bytes := next_retained\<rparr>)))))))"

definition drop_reservation :: "u64 \<Rightarrow> hydration_budget \<Rightarrow> hydration_budget" where
  "drop_reservation reserved b =
     (if reserved = 0 then b
      else let u = hb_usage b in b\<lparr>hb_usage := u\<lparr>
             u_media_decoded_bytes := u64_saturating_sub (u_media_decoded_bytes u) reserved,
             u_retained_bytes := u64_saturating_sub (u_retained_bytes u) reserved\<rparr>\<rparr>)"

text \<open>A commit consumes the reservation: an error drops it, with all of its allowance.\<close>

definition commit_reservation :: "u64 \<Rightarrow> usize \<Rightarrow> usize \<Rightarrow> hydration_budget \<Rightarrow> unit hydration_result \<times> hydration_budget" where
  "commit_reservation reserved actual_body_bytes extra_retained_bytes b =
     (case committed_usage reserved actual_body_bytes extra_retained_bytes b of
        Inl e \<Rightarrow> (Inl e, drop_reservation reserved b)
      | Inr nxt \<Rightarrow> (Inr (), b\<lparr>hb_usage := nxt\<rparr>))"

section \<open>When a reservation succeeds\<close>

definition counted :: "hydration_resource \<Rightarrow> bool" where
  "counted r \<longleftrightarrow> r \<noteq> ProviderDeadline \<and> r \<noteq> TraversalDepth"

text \<open>What a list of reservations asks of a resource, without wrap-around.\<close>

fun demand :: "(hydration_resource \<times> u64) list \<Rightarrow> hydration_resource \<Rightarrow> nat" where
  "demand [] r = 0"
| "demand ((q, amount) # rs) r = (if q = r then unat amount else 0) + demand rs r"

lemma usage_get_set [simp]: "counted q \<Longrightarrow> usage_get (usage_set u q v) r = (if r = q then v else usage_get u r)"
  by (cases q; cases r) (simp_all add: usage_get_def usage_set_def counted_def)

lemma usage_get_default [simp]: "usage_get usage_default r = 0"
  by (cases r) (simp_all add: usage_get_def usage_default_def)

lemma usage_get_media [simp]:
  "usage_get (u\<lparr>u_media_decoded_bytes := m, u_retained_bytes := n\<rparr>) r =
     (if r = MediaDecodedBytes then m else if r = RetainedBytes then n else usage_get u r)"
  "usage_get (u\<lparr>u_retained_bytes := n\<rparr>) r = (if r = RetainedBytes then n else usage_get u r)"
  "usage_get (u\<lparr>u_media_decoded_bytes := m\<rparr>) r = (if r = MediaDecodedBytes then m else usage_get u r)"
  by (cases r; simp add: usage_get_def)+

lemma usage_fields:
  "u_media_decoded_bytes u = usage_get u MediaDecodedBytes" "u_retained_bytes u = usage_get u RetainedBytes"
  "max_media_decoded_bytes l = limit_of l MediaDecodedBytes" "max_retained_bytes l = limit_of l RetainedBytes"
  by (simp_all add: usage_get_def limit_of_def)

lemma validate_reservations_sound:
  "validate_reservations limits u rs = Inr u' \<Longrightarrow>
   (\<forall>(r, a)\<in>set rs. counted r) \<and> (\<forall>r. unat (usage_get u' r) = unat (usage_get u r) + demand rs r)
   \<and> (\<forall>r\<in>fst ` set rs. usage_get u' r \<le> limit_of limits r)"
proof (induction rs arbitrary: u)
  case (Cons x rs)
  obtain q a where x: "x = (q, a)" by (cases x)
  from Cons.prems obtain nxt where q: "counted q" and add: "u64_checked_add (usage_get u q) a = Some nxt"
    and le: "nxt \<le> limit_of limits q" and rest: "validate_reservations limits (usage_set u q nxt) rs = Inr u'"
    by (auto simp: x rbind_Inr_iff counted_def not_less split: if_splits)
  note IH = Cons.IH[OF rest]
  have q': "usage_get u' q \<le> limit_of limits q"
  proof (cases "q \<in> fst ` set rs")
    case False
    then have "demand rs q = 0" by (induction rs) (auto split: if_splits)
    then have "usage_get u' q = nxt" using IH q by (simp add: word_unat_eq_iff)
    with le show ?thesis by simp
  qed (use IH in blast)
  show ?case using IH q q' u64_checked_add_Some[OF add] by (auto simp: x)
qed simp

lemma validate_reservations_complete:
  "(\<forall>(r, a)\<in>set rs. counted r) \<Longrightarrow>
   (\<forall>r\<in>fst ` set rs. unat (usage_get u r) + demand rs r \<le> unat (limit_of limits r)) \<Longrightarrow>
   \<exists>u'. validate_reservations limits u rs = Inr u'"
proof (induction rs arbitrary: u)
  case (Cons x rs)
  obtain q a where x: "x = (q, a)" by (cases x)
  have q: "counted q" and fit: "unat (usage_get u q) + unat a + demand rs q \<le> unat (limit_of limits q)"
    using Cons.prems by (auto simp: x)
  define nxt where "nxt = usage_get u q + a"
  have add: "u64_checked_add (usage_get u q) a = Some nxt" unfolding nxt_def
    by (rule u64_checked_add_fits) (use fit u64_bound[of "limit_of limits q"] in linarith)
  note unat_nxt = u64_checked_add_Some[OF add]
  have "\<forall>r\<in>fst ` set rs. unat (usage_get (usage_set u q nxt) r) + demand rs r \<le> unat (limit_of limits r)"
    using Cons.prems(2) q fit unat_nxt by (auto simp: x)
  from Cons.IH[OF _ this] Cons.prems(1) have "\<exists>u'. validate_reservations limits (usage_set u q nxt) rs = Inr u'" by simp
  moreover have "\<not> limit_of limits q < nxt" using fit unat_nxt by (simp add: word_less_nat_alt)
  ultimately show ?case using q by (simp add: x add ok_or_def counted_def)
qed simp

text \<open>A reservation over several resources is atomic and exact. On a healthy budget it succeeds precisely
  when it names only counted resources and, for each of them, the usage with all that the reservation asks
  of it, computed without wrap-around, is within the limit; then every counter grows by what was asked, and
  otherwise nothing changes. The limits stay.\<close>

theorem reservation_exact:
  assumes "\<not> hb_poisoned b"
  shows "(fst (account rs b) = Inr () \<longleftrightarrow>
       list_all (\<lambda>(r, _). counted r \<and> unat (usage_get (hb_usage b) r) + demand rs r \<le> unat (limit_of (hb_limits b) r)) rs)
    \<and> (if fst (account rs b) = Inr ()
       then \<forall>r. unat (usage_get (hb_usage (snd (account rs b))) r) = unat (usage_get (hb_usage b) r) + demand rs r
       else snd (account rs b) = b)
    \<and> hb_limits (snd (account rs b)) = hb_limits b \<and> (fst (account rs b) = Inr () \<longleftrightarrow> ensure b rs = Inr ())"
proof (cases "validate_reservations (hb_limits b) (hb_usage b) rs")
  case (Inl e)
  have "\<not> list_all (\<lambda>(r, _). counted r \<and> unat (usage_get (hb_usage b) r) + demand rs r \<le> unat (limit_of (hb_limits b) r)) rs"
  proof
    assume "list_all (\<lambda>(r, _). counted r \<and> unat (usage_get (hb_usage b) r) + demand rs r \<le> unat (limit_of (hb_limits b) r)) rs"
    then have "\<exists>u'. validate_reservations (hb_limits b) (hb_usage b) rs = Inr u'"
      by (intro validate_reservations_complete) (auto simp: list_all_iff)
    with Inl show False by simp
  qed
  with assms Inl show ?thesis by (simp add: account_def ensure_def)
next
  case (Inr u')
  have "list_all (\<lambda>(r, _). counted r \<and> unat (usage_get (hb_usage b) r) + demand rs r \<le> unat (limit_of (hb_limits b) r)) rs"
    using validate_reservations_sound[OF Inr] by (auto simp: list_all_iff word_le_nat_alt)
  with assms Inr validate_reservations_sound[OF Inr] show ?thesis by (simp add: account_def ensure_def)
qed

definition sample_hydration_limits :: hydration_limits where
  "sample_hydration_limits =
     \<lparr>max_response_body_bytes = 10, max_provider_calls = 3, provider_deadline_ms = 5, max_inventory_items = 10,
      max_inventory_encoded_bytes = 10, max_traversal_nodes = 10, max_traversal_depth = 4, max_native_bytes = 10,
      max_media_assets = 10, max_media_decoded_bytes = 6, max_rendered_content_bytes = 10, max_projections = 10,
      max_changes = 10, max_retained_bytes = 8\<rparr>"

definition sample_budget :: hydration_budget where
  "sample_budget = \<lparr>hb_limits = sample_hydration_limits, hb_usage = usage_default, hb_poisoned = False\<rparr>"

lemma sample_budget_sel [simp]:
  "hb_limits sample_budget = sample_hydration_limits" "hb_usage sample_budget = usage_default"
  "\<not> hb_poisoned sample_budget" "limit_of sample_hydration_limits NativeBytes = 10"
  "limit_of sample_hydration_limits RetainedBytes = 8"
  by (simp_all add: sample_budget_def sample_hydration_limits_def limit_of_def)

theorem reservation_exact_witness:
  "fst (account [(NativeBytes, 3), (RetainedBytes, 3)] sample_budget) = Inr ()
   \<and> fst (account [(NativeBytes, 9), (RetainedBytes, 9)] sample_budget) \<noteq> Inr ()
   \<and> snd (account [(NativeBytes, 9), (RetainedBytes, 9)] sample_budget) = sample_budget"
  using reservation_exact[of sample_budget "[(NativeBytes, 3), (RetainedBytes, 3)]"]
    reservation_exact[of sample_budget "[(NativeBytes, 9), (RetainedBytes, 9)]"]
  by (simp add: counted_def)

section \<open>The budget of a job\<close>

text \<open>A job is its budget and, beside the counters, what they should stand for: the allowances of the media
  reservations that are still live, the retained bytes the callers own, and the media bytes that were
  accepted. A step is one successful change of the budget, or a failing commit, which drops its
  reservation; callers release only bytes they own, as the code asks of them. An operation that fails
  leaves the budget as it is.\<close>

record hydration_job =
  jb_budget :: hydration_budget
  jb_live :: "u64 multiset"
  jb_owned :: nat
  jb_media :: nat

inductive job_step :: "hydration_job \<Rightarrow> hydration_job \<Rightarrow> bool" where
  charge: "account rs (jb_budget j) = (Inr (), b) \<Longrightarrow>
    job_step j (j\<lparr>jb_budget := b, jb_owned := jb_owned j + demand rs RetainedBytes,
                   jb_media := jb_media j + demand rs MediaDecodedBytes\<rparr>)"
| release: "n \<le> jb_owned j \<Longrightarrow> release_retained_bytes n (jb_budget j) = (Inr (), b) \<Longrightarrow>
    job_step j (j\<lparr>jb_budget := b, jb_owned := jb_owned j - n\<rparr>)"
| replace: "n \<le> jb_owned j \<Longrightarrow> replace_retained_bytes n m (jb_budget j) = (Inr (), b) \<Longrightarrow>
    job_step j (j\<lparr>jb_budget := b, jb_owned := jb_owned j - n + m\<rparr>)"
| reserve: "reserve_media_bytes n (jb_budget j) = (Inr w, b) \<Longrightarrow>
    job_step j (j\<lparr>jb_budget := b, jb_live := add_mset w (jb_live j)\<rparr>)"
| commit: "w \<in># jb_live j \<Longrightarrow> commit_reservation w actual extra (jb_budget j) = (Inr (), b) \<Longrightarrow>
    job_step j (j\<lparr>jb_budget := b, jb_live := jb_live j - {#w#}, jb_owned := jb_owned j + actual + extra,
                   jb_media := jb_media j + actual\<rparr>)"
| commit_fails: "w \<in># jb_live j \<Longrightarrow> commit_reservation w actual extra (jb_budget j) = (Inl e, b) \<Longrightarrow>
    job_step j (j\<lparr>jb_budget := b, jb_live := jb_live j - {#w#}\<rparr>)"
| dropped: "w \<in># jb_live j \<Longrightarrow>
    job_step j (j\<lparr>jb_budget := drop_reservation w (jb_budget j), jb_live := jb_live j - {#w#}\<rparr>)"

definition job_new :: "hydration_budget \<Rightarrow> hydration_job" where
  "job_new b = \<lparr>jb_budget = b, jb_live = {#}, jb_owned = 0, jb_media = 0\<rparr>"

definition reachable_job :: "hydration_limits \<Rightarrow> hydration_job \<Rightarrow> bool" where
  "reachable_job limits j \<longleftrightarrow> (\<exists>b. budget_new limits = Inr b \<and> job_step\<^sup>*\<^sup>* (job_new b) j)"

abbreviation live_bytes :: "hydration_job \<Rightarrow> nat" where
  "live_bytes j \<equiv> sum_mset (image_mset unat (jb_live j))"

definition job_inv :: "hydration_limits \<Rightarrow> hydration_job \<Rightarrow> bool" where
  "job_inv limits j \<longleftrightarrow>
     hb_limits (jb_budget j) = limits \<and> \<not> hb_poisoned (jb_budget j)
   \<and> (\<forall>r. usage_get (hb_usage (jb_budget j)) r \<le> limit_of limits r)
   \<and> unat (usage_get (hb_usage (jb_budget j)) MediaDecodedBytes) = jb_media j + live_bytes j
   \<and> unat (usage_get (hb_usage (jb_budget j)) RetainedBytes) = jb_owned j + live_bytes j
   \<and> (\<forall>w\<in>#jb_live j. w \<noteq> 0)"

lemma account_Inr:
  "account rs b = (Inr (), b') \<longleftrightarrow> \<not> hb_poisoned b
     \<and> (\<exists>u. validate_reservations (hb_limits b) (hb_usage b) rs = Inr u \<and> b' = b\<lparr>hb_usage := u\<rparr>)"
  by (auto simp: account_def split: sum.splits)

lemma usize_to_u64_eq:
  "usize_to_u64 n r = (if n < 2 ^ 64 then Inr (word_of_nat n) else Inl (LimitExceeded r))"
  by (simp only: usize_to_u64_def of_nat_less_numeral_power_cancel_iff)

lemma unat_of_usize: "n < 2 ^ 64 \<Longrightarrow> unat (word_of_nat n :: u64) = n"
  by (simp add: unat_of_nat)

lemma usize_to_u64_Inr: "usize_to_u64 n r = Inr w \<longleftrightarrow> n < 2 ^ 64 \<and> unat w = n"
  by (auto simp: usize_to_u64_eq unat_of_usize simp del: power_numeral split: if_splits)

lemma release_sound:
  assumes "release_retained_bytes n b = (Inr (), b')"
  shows "\<exists>v. n \<le> unat (usage_get (hb_usage b) RetainedBytes) \<and> unat v = unat (usage_get (hb_usage b) RetainedBytes) - n
    \<and> b' = b\<lparr>hb_usage := hb_usage b\<lparr>u_retained_bytes := v\<rparr>\<rparr>"
  using assms by (auto simp: release_retained_bytes_def usize_to_u64_Inr u64_checked_sub_iff usage_fields(2)
      split: sum.splits option.splits if_splits)

lemma release_complete:
  assumes "n \<le> unat (usage_get (hb_usage b) RetainedBytes)" "\<not> hb_poisoned b"
  shows "fst (release_retained_bytes n b) = Inr ()"
proof -
  have n: "n < 2 ^ 64" using assms(1) u64_bound[of "usage_get (hb_usage b) RetainedBytes"] by linarith
  then have "usize_to_u64 n RetainedBytes = Inr (word_of_nat n)" unfolding usize_to_u64_eq by (rule if_P)
  with assms unat_of_usize[OF n] show ?thesis
    by (simp add: release_retained_bytes_def usage_fields(2) u64_checked_sub_def word_le_nat_alt)
qed

lemma replaced_sound:
  assumes "replace_retained_bytes n m b = (Inr (), b')"
  shows "\<exists>v. n \<le> unat (usage_get (hb_usage b) RetainedBytes) \<and> unat v = unat (usage_get (hb_usage b) RetainedBytes) - n + m
    \<and> v \<le> limit_of (hb_limits b) RetainedBytes \<and> b' = b\<lparr>hb_usage := hb_usage b\<lparr>u_retained_bytes := v\<rparr>\<rparr>"
proof -
  obtain v where r: "replaced_retained n m b = Inr v" and b': "b' = b\<lparr>hb_usage := hb_usage b\<lparr>u_retained_bytes := v\<rparr>\<rparr>"
    using assms by (auto simp: replace_retained_bytes_def split: sum.splits)
  from r obtain x y z where "unat x = n" "unat y = m" "u64_checked_sub (u_retained_bytes (hb_usage b)) x = Some z"
    "u64_checked_add z y = Some v" "v \<le> max_retained_bytes (hb_limits b)"
    by (auto simp: replaced_retained_def rbind_Inr_iff usize_to_u64_Inr not_less split: if_splits)
  with b' show ?thesis by (auto simp: u64_checked_sub_iff usage_fields dest!: u64_checked_add_Some)
qed

lemma reserve_sound:
  assumes "reserve_media_bytes n b = (Inr w, b')"
  shows "\<exists>m r. w \<noteq> 0 \<and> unat w \<le> n \<and> unat m = unat (usage_get (hb_usage b) MediaDecodedBytes) + unat w
    \<and> unat r = unat (usage_get (hb_usage b) RetainedBytes) + unat w
    \<and> (usage_get (hb_usage b) MediaDecodedBytes \<le> limit_of (hb_limits b) MediaDecodedBytes \<longrightarrow> m \<le> limit_of (hb_limits b) MediaDecodedBytes)
    \<and> (usage_get (hb_usage b) RetainedBytes \<le> limit_of (hb_limits b) RetainedBytes \<longrightarrow> r \<le> limit_of (hb_limits b) RetainedBytes)
    \<and> b' = b\<lparr>hb_usage := hb_usage b\<lparr>u_media_decoded_bytes := m, u_retained_bytes := r\<rparr>\<rparr>"
proof -
  let ?rm = "u64_saturating_sub (max_media_decoded_bytes (hb_limits b)) (u_media_decoded_bytes (hb_usage b))"
  let ?rr = "u64_saturating_sub (max_retained_bytes (hb_limits b)) (u_retained_bytes (hb_usage b))"
  obtain q m r where q: "unat q = n" and w: "w = min (min q ?rm) ?rr" "w \<noteq> 0"
    and m: "u64_checked_add (u_media_decoded_bytes (hb_usage b)) w = Some m"
    and r: "u64_checked_add (u_retained_bytes (hb_usage b)) w = Some r"
    and b': "b' = b\<lparr>hb_usage := hb_usage b\<lparr>u_media_decoded_bytes := m, u_retained_bytes := r\<rparr>\<rparr>"
    using assms by (auto simp: reserve_media_bytes_def usize_to_u64_Inr Let_def split: sum.splits option.splits if_splits)
  have "w \<le> q" "w \<le> ?rm" "w \<le> ?rr" using w(1) by (simp_all add: min.coboundedI1 min.coboundedI2)
  then have "unat w \<le> n" "unat w \<le> unat ?rm" "unat w \<le> unat ?rr" using q by (simp_all add: word_le_nat_alt)
  with w(2) b' u64_checked_add_Some[OF m] u64_checked_add_Some[OF r] show ?thesis
    by (intro exI[of _ m] exI[of _ r]) (auto simp: usage_fields word_le_nat_alt)
qed

lemma committed_sound:
  assumes "committed_usage w actual extra b = Inr u"
  shows "\<exists>m r. actual \<le> unat w \<and> unat w \<le> unat (usage_get (hb_usage b) MediaDecodedBytes)
    \<and> unat w \<le> unat (usage_get (hb_usage b) RetainedBytes)
    \<and> unat m = unat (usage_get (hb_usage b) MediaDecodedBytes) - unat w + actual
    \<and> unat r = unat (usage_get (hb_usage b) RetainedBytes) - unat w + actual + extra
    \<and> m \<le> limit_of (hb_limits b) MediaDecodedBytes \<and> r \<le> limit_of (hb_limits b) RetainedBytes
    \<and> u = hb_usage b\<lparr>u_media_decoded_bytes := m, u_retained_bytes := r\<rparr>"
proof -
  obtain x y m0 r0 m r1 r where xy: "unat x = actual" "unat y = extra" "x \<le> w"
    and sub: "u64_checked_sub (u_media_decoded_bytes (hb_usage b)) w = Some m0"
      "u64_checked_sub (u_retained_bytes (hb_usage b)) w = Some r0"
    and add: "u64_checked_add m0 x = Some m" "u64_checked_add r0 x = Some r1" "u64_checked_add r1 y = Some r"
    and le: "m \<le> max_media_decoded_bytes (hb_limits b)" "r \<le> max_retained_bytes (hb_limits b)"
    and u: "u = hb_usage b\<lparr>u_media_decoded_bytes := m, u_retained_bytes := r\<rparr>"
    using assms by (auto simp: committed_usage_def rbind_Inr_iff usize_to_u64_Inr not_less Let_def bind_eq_Some_conv
        split: if_splits)
  from sub xy u le u64_checked_add_Some[OF add(1)] u64_checked_add_Some[OF add(2)] u64_checked_add_Some[OF add(3)] show ?thesis
    by (intro exI[of _ m] exI[of _ r]) (auto simp: u64_checked_sub_iff usage_fields word_le_nat_alt)
qed

lemma committed_complete:
  assumes "\<not> hb_poisoned b" and fits: "actual \<le> unat w" "unat w \<le> unat (usage_get (hb_usage b) MediaDecodedBytes)"
    "unat w \<le> unat (usage_get (hb_usage b) RetainedBytes)"
    and media: "usage_get (hb_usage b) MediaDecodedBytes \<le> limit_of (hb_limits b) MediaDecodedBytes"
    and retained: "unat (usage_get (hb_usage b) RetainedBytes) - unat w + actual + extra \<le> unat (limit_of (hb_limits b) RetainedBytes)"
  shows "isl (committed_usage w actual extra b) = False"
proof -
  have small: "actual < 2 ^ 64" "extra < 2 ^ 64"
    using fits(1) u64_bound[of w] retained u64_bound[of "limit_of (hb_limits b) RetainedBytes"] by linarith+
  define x y where "x = (word_of_nat actual :: u64)" and "y = (word_of_nat extra :: u64)"
  have xy: "unat x = actual" "unat y = extra" using small by (simp_all add: x_def y_def unat_of_usize del: power_numeral)
  have conv: "usize_to_u64 actual MediaDecodedBytes = Inr x" "usize_to_u64 extra RetainedBytes = Inr y"
    using small by (simp_all add: usize_to_u64_eq x_def y_def del: power_numeral)
  define m0 r0 where "m0 = u_media_decoded_bytes (hb_usage b) - w" and "r0 = u_retained_bytes (hb_usage b) - w"
  have sub: "u64_checked_sub (u_media_decoded_bytes (hb_usage b)) w = Some m0" "u64_checked_sub (u_retained_bytes (hb_usage b)) w = Some r0"
    using fits by (simp_all add: u64_checked_sub_def m0_def r0_def word_le_nat_alt usage_fields)
  have un: "unat m0 = unat (usage_get (hb_usage b) MediaDecodedBytes) - unat w"
    "unat r0 = unat (usage_get (hb_usage b) RetainedBytes) - unat w"
    using sub by (simp_all add: u64_checked_sub_iff usage_fields)
  have bm: "unat m0 + unat x \<le> unat (limit_of (hb_limits b) MediaDecodedBytes)"
    using un xy fits media by (simp add: word_le_nat_alt)
  have add1: "u64_checked_add m0 x = Some (m0 + x)"
    by (rule u64_checked_add_fits) (use bm u64_bound[of "limit_of (hb_limits b) MediaDecodedBytes"] in linarith)
  have add2: "u64_checked_add r0 x = Some (r0 + x)"
    by (rule u64_checked_add_fits) (use un xy retained u64_bound[of "limit_of (hb_limits b) RetainedBytes"] in linarith)
  note u2 = u64_checked_add_Some[OF add2]
  have add3: "u64_checked_add (r0 + x) y = Some (r0 + x + y)"
    by (rule u64_checked_add_fits) (use u2 un xy retained u64_bound[of "limit_of (hb_limits b) RetainedBytes"] in linarith)
  have "\<not> m0 + x > max_media_decoded_bytes (hb_limits b)" "\<not> r0 + x + y > max_retained_bytes (hb_limits b)"
    using bm u64_checked_add_Some[OF add1] u2 u64_checked_add_Some[OF add3] un xy retained
    by (simp_all add: word_less_nat_alt usage_fields not_less)
  moreover have "\<not> x > w" using xy fits(1) by (simp add: word_less_nat_alt)
  ultimately show ?thesis using assms(1) by (simp add: committed_usage_def conv sub add1 add2 add3 ok_or_def)
qed

lemma drop_usage:
  assumes "unat w \<le> unat (usage_get (hb_usage b) MediaDecodedBytes)" "unat w \<le> unat (usage_get (hb_usage b) RetainedBytes)"
  shows "unat (usage_get (hb_usage (drop_reservation w b)) r) =
      unat (usage_get (hb_usage b) r) - (if r = MediaDecodedBytes \<or> r = RetainedBytes then unat w else 0)"
    "hb_limits (drop_reservation w b) = hb_limits b" "hb_poisoned (drop_reservation w b) = hb_poisoned b"
  by (auto simp: drop_reservation_def Let_def usage_fields)

lemma commit_cases:
  "commit_reservation w actual extra b = (Inr (), b') \<Longrightarrow>
     \<exists>u. committed_usage w actual extra b = Inr u \<and> b' = b\<lparr>hb_usage := u\<rparr>"
  "commit_reservation w actual extra b = (Inl e, b') \<Longrightarrow> b' = drop_reservation w b"
  by (auto simp: commit_reservation_def split: sum.splits)

lemma live_split: "w \<in># jb_live j \<Longrightarrow> live_bytes j = unat w + sum_mset (image_mset unat (jb_live j - {#w#}))"
  by (metis image_mset_add_mset insert_DiffM sum_mset.add_mset)

lemma live_le: "w \<in># jb_live j \<Longrightarrow> unat w \<le> live_bytes j"
  by (simp add: live_split)

text \<open>The invariant, step by step.\<close>

lemma job_inv_new: "budget_new limits = Inr b \<Longrightarrow> job_inv limits (job_new b)"
  by (auto simp: budget_new_def rbind_Inr_iff limits_validate_def job_inv_def job_new_def split: option.splits)

lemma job_inv_charge:
  assumes "account rs (jb_budget j) = (Inr (), b)" and inv: "job_inv limits j"
  shows "job_inv limits (j\<lparr>jb_budget := b, jb_owned := jb_owned j + demand rs RetainedBytes,
    jb_media := jb_media j + demand rs MediaDecodedBytes\<rparr>)"
proof -
  obtain u where v: "validate_reservations limits (hb_usage (jb_budget j)) rs = Inr u" and b: "b = jb_budget j\<lparr>hb_usage := u\<rparr>"
    using assms by (auto simp: account_Inr job_inv_def)
  note sound = validate_reservations_sound[OF v]
  have "usage_get u r \<le> limit_of limits r" for r
  proof (cases "r \<in> fst ` set rs")
    case False
    then have "demand rs r = 0" by (induction rs) (auto split: if_splits)
    then have "usage_get u r = usage_get (hb_usage (jb_budget j)) r" using sound by (simp add: word_unat_eq_iff)
    with inv show ?thesis by (simp add: job_inv_def)
  qed (use sound in blast)
  with inv sound show ?thesis by (simp add: job_inv_def b)
qed

lemma job_inv_retained:
  assumes inv: "job_inv limits j" and v: "unat v = jb_owned j - n + m + live_bytes j" "v \<le> limit_of limits RetainedBytes"
  shows "job_inv limits (j\<lparr>jb_budget := jb_budget j\<lparr>hb_usage := hb_usage (jb_budget j)\<lparr>u_retained_bytes := v\<rparr>\<rparr>,
    jb_owned := jb_owned j - n + m\<rparr>)"
  using assms by (simp add: job_inv_def)

lemma job_inv_drop:
  assumes inv: "job_inv limits j" and w: "w \<in># jb_live j"
  shows "job_inv limits (j\<lparr>jb_budget := drop_reservation w (jb_budget j), jb_live := jb_live j - {#w#}\<rparr>)"
proof -
  have "unat w \<le> unat (usage_get (hb_usage (jb_budget j)) MediaDecodedBytes)"
    "unat w \<le> unat (usage_get (hb_usage (jb_budget j)) RetainedBytes)"
    using inv live_le[OF w] by (simp_all add: job_inv_def)
  note drop = drop_usage[OF this]
  have "usage_get (hb_usage (drop_reservation w (jb_budget j))) r \<le> limit_of limits r" for r
  proof -
    have "unat (usage_get (hb_usage (drop_reservation w (jb_budget j))) r) \<le> unat (usage_get (hb_usage (jb_budget j)) r)"
      unfolding drop(1) by simp
    also have "\<dots> \<le> unat (limit_of limits r)" using inv by (simp add: job_inv_def word_le_nat_alt)
    finally show ?thesis by (simp add: word_le_nat_alt)
  qed
  then show ?thesis
    using inv drop live_split[OF w] by (auto simp: job_inv_def dest: in_diffD)
qed

lemma job_inv_commit:
  assumes inv: "job_inv limits j" and w: "w \<in># jb_live j"
    and "commit_reservation w actual extra (jb_budget j) = (Inr (), b)"
  shows "job_inv limits (j\<lparr>jb_budget := b, jb_live := jb_live j - {#w#}, jb_owned := jb_owned j + actual + extra,
    jb_media := jb_media j + actual\<rparr>)"
proof -
  obtain u where cu: "committed_usage w actual extra (jb_budget j) = Inr u" and b: "b = jb_budget j\<lparr>hb_usage := u\<rparr>"
    using commit_cases(1)[OF assms(3)] by blast
  from committed_sound[OF cu] obtain m r where
    "unat m = unat (usage_get (hb_usage (jb_budget j)) MediaDecodedBytes) - unat w + actual"
    "unat r = unat (usage_get (hb_usage (jb_budget j)) RetainedBytes) - unat w + actual + extra"
    "m \<le> limit_of limits MediaDecodedBytes" "r \<le> limit_of limits RetainedBytes"
    "u = hb_usage (jb_budget j)\<lparr>u_media_decoded_bytes := m, u_retained_bytes := r\<rparr>"
    using inv by (auto simp: job_inv_def)
  then show ?thesis
    using inv live_split[OF w] by (auto simp: job_inv_def b dest: in_diffD)
qed

lemma job_inv_reserve:
  assumes inv: "job_inv limits j" and "reserve_media_bytes n (jb_budget j) = (Inr w, b)"
  shows "job_inv limits (j\<lparr>jb_budget := b, jb_live := add_mset w (jb_live j)\<rparr>)"
proof -
  from reserve_sound[OF assms(2)] inv obtain m r where
    "w \<noteq> 0" "unat m = unat (usage_get (hb_usage (jb_budget j)) MediaDecodedBytes) + unat w"
    "unat r = unat (usage_get (hb_usage (jb_budget j)) RetainedBytes) + unat w"
    "m \<le> limit_of limits MediaDecodedBytes" "r \<le> limit_of limits RetainedBytes"
    "b = jb_budget j\<lparr>hb_usage := hb_usage (jb_budget j)\<lparr>u_media_decoded_bytes := m, u_retained_bytes := r\<rparr>\<rparr>"
    by (auto simp: job_inv_def)
  then show ?thesis using inv by (simp add: job_inv_def)
qed

lemma job_step_inv: "job_step j j' \<Longrightarrow> job_inv limits j \<Longrightarrow> job_inv limits j'"
proof (induction rule: job_step.induct)
  case (release n j b)
  from release_sound[OF release(2)] obtain v where v: "unat v = unat (usage_get (hb_usage (jb_budget j)) RetainedBytes) - n"
    and b: "b = jb_budget j\<lparr>hb_usage := hb_usage (jb_budget j)\<lparr>u_retained_bytes := v\<rparr>\<rparr>" by blast
  have "unat v = jb_owned j - n + 0 + live_bytes j" "v \<le> limit_of limits RetainedBytes"
    using release v by (auto simp: job_inv_def word_le_nat_alt dest: spec[of _ RetainedBytes])
  from job_inv_retained[OF release(3) this] show ?case by (simp add: b)
next
  case (replace n j m b)
  from replaced_sound[OF replace(2)] obtain v where v: "unat v = unat (usage_get (hb_usage (jb_budget j)) RetainedBytes) - n + m"
    "v \<le> limit_of (hb_limits (jb_budget j)) RetainedBytes"
    and b: "b = jb_budget j\<lparr>hb_usage := hb_usage (jb_budget j)\<lparr>u_retained_bytes := v\<rparr>\<rparr>" by blast
  have "unat v = jb_owned j - n + m + live_bytes j" "v \<le> limit_of limits RetainedBytes"
    using replace v by (auto simp: job_inv_def)
  from job_inv_retained[OF replace(3) this] show ?case by (simp add: b)
next
  case (commit_fails w j actual extra e b)
  then show ?case using commit_cases(2)[OF commit_fails(2)] job_inv_drop by simp
qed (auto intro: job_inv_charge job_inv_reserve job_inv_commit job_inv_drop)

lemma reachable_job_inv: "reachable_job limits j \<Longrightarrow> job_inv limits j"
proof -
  have "job_step\<^sup>*\<^sup>* i j \<Longrightarrow> job_inv limits i \<Longrightarrow> job_inv limits j" for i
    by (induction rule: rtranclp_induct) (auto intro: job_step_inv)
  then show "reachable_job limits j \<Longrightarrow> job_inv limits j" by (auto simp: reachable_job_def job_inv_new)
qed

text \<open>C16: whatever the order of reservations, releases, commits and drops, a job stays within all of its
  limits, and its two shared counters are exact: the media counter is the accepted media bytes and the
  retained counter the bytes the callers own, each with the allowances that are still live. So nothing
  leaks when a fetch is cancelled, and nothing is counted twice.\<close>

theorem job_stays_within_limits:
  assumes "reachable_job limits j"
  shows "hb_limits (jb_budget j) = limits
    \<and> (\<forall>r. usage_get (hb_usage (jb_budget j)) r \<le> limit_of limits r)
    \<and> unat (usage_get (hb_usage (jb_budget j)) MediaDecodedBytes) = jb_media j + live_bytes j
    \<and> unat (usage_get (hb_usage (jb_budget j)) RetainedBytes) = jb_owned j + live_bytes j"
  using reachable_job_inv[OF assms] by (simp add: job_inv_def)

text \<open>A job with one live reservation of six bytes.\<close>

definition sample_job :: hydration_job where
  "sample_job = \<lparr>jb_budget = snd (reserve_media_bytes 7 sample_budget), jb_live = {#6#}, jb_owned = 0, jb_media = 0\<rparr>"

lemma sample_job_reachable: "reachable_job sample_hydration_limits sample_job"
proof -
  have new: "budget_new sample_hydration_limits = Inr sample_budget" by code_simp
  have "reserve_media_bytes 7 sample_budget = (Inr 6, snd (reserve_media_bytes 7 sample_budget))" by code_simp
  from job_step.reserve[of 7 "job_new sample_budget", simplified job_new_def hydration_job.simps, OF this]
  have "job_step (job_new sample_budget) sample_job" by (simp add: job_new_def sample_job_def)
  with new show ?thesis unfolding reachable_job_def by (intro exI[of _ sample_budget]) auto
qed

theorem job_stays_within_limits_witness:
  "unat (usage_get (hb_usage (jb_budget sample_job)) RetainedBytes) = 6"
  using job_stays_within_limits[OF sample_job_reachable] by (simp add: sample_job_def)

text \<open>A media allowance is honoured. In every reachable job, a live reservation can be committed with any
  body that fits it, as long as the metadata fits the retained bytes that are left beside it, and then both
  counters keep what was used and give back the rest; and callers can always release what they own.\<close>

theorem media_allowance_honoured:
  assumes "reachable_job limits j" and "w \<in># jb_live j" and "actual \<le> unat w"
    and "jb_owned j + live_bytes j - unat w + actual + extra \<le> unat (limit_of limits RetainedBytes)"
    and "n \<le> jb_owned j"
  shows "fst (commit_reservation w actual extra (jb_budget j)) = Inr ()
    \<and> unat (usage_get (hb_usage (snd (commit_reservation w actual extra (jb_budget j)))) MediaDecodedBytes) =
        jb_media j + live_bytes j - unat w + actual
    \<and> unat (usage_get (hb_usage (snd (commit_reservation w actual extra (jb_budget j)))) RetainedBytes) =
        jb_owned j + live_bytes j - unat w + actual + extra
    \<and> fst (release_retained_bytes n (jb_budget j)) = Inr ()"
proof -
  let ?b = "jb_budget j"
  have inv: "job_inv limits j" using assms(1) by (rule reachable_job_inv)
  have fits: "unat w \<le> unat (usage_get (hb_usage ?b) MediaDecodedBytes)" "unat w \<le> unat (usage_get (hb_usage ?b) RetainedBytes)"
    using inv live_le[OF assms(2)] by (simp_all add: job_inv_def)
  have b: "\<not> hb_poisoned ?b" "hb_limits ?b = limits"
    "usage_get (hb_usage ?b) MediaDecodedBytes \<le> limit_of (hb_limits ?b) MediaDecodedBytes"
    "unat (usage_get (hb_usage ?b) RetainedBytes) - unat w + actual + extra \<le> unat (limit_of (hb_limits ?b) RetainedBytes)"
    using inv assms(4) by (simp_all add: job_inv_def)
  obtain u where cu: "committed_usage w actual extra ?b = Inr u"
    using committed_complete[OF b(1) assms(3) fits b(3,4)] by (cases "committed_usage w actual extra ?b") auto
  have "fst (release_retained_bytes n ?b) = Inr ()"
    by (rule release_complete) (use inv assms(5) b in \<open>simp_all add: job_inv_def\<close>)
  with cu committed_sound[OF cu] inv show ?thesis by (auto simp: commit_reservation_def job_inv_def)
qed

theorem media_allowance_honoured_witness:
  "fst (commit_reservation 6 4 2 (jb_budget sample_job)) = Inr ()"
  using media_allowance_honoured[OF sample_job_reachable, of 6 4 2 0]
  by (simp add: sample_job_def)

end
