(* ===== verification/Notion_Directive.thy ===== *)
theory Notion_Directive
  imports Canonical
begin

text \<open>
  \<open>locality-notion/src/mapping.rs\<close>: the class of a Notion block and its round-trip strategy, and the
  rendering of an anchored directive. The connector that renders a directive and the core that
  parses it agree: parsing a rendered directive gives back its identifier, type and title.
\<close>

datatype notion_block_class =
    NParagraph | NHeading | NQuote | NCallout | NList | NToggle | NCode | NTable | NEquation
  | NMention | NMedia | NEmbed | NSyncedBlock | NChildDatabase | NColumnLayout | NUnsupported

datatype round_trip_strategy = CleanDiff | AnchoredDirective | StructuralStrategy | OpaqueShadow

fun strategy_for :: "notion_block_class \<Rightarrow> round_trip_strategy" where
  "strategy_for NMedia = AnchoredDirective"
| "strategy_for NEmbed = AnchoredDirective"
| "strategy_for NSyncedBlock = AnchoredDirective"
| "strategy_for NColumnLayout = AnchoredDirective"
| "strategy_for NChildDatabase = StructuralStrategy"
| "strategy_for NUnsupported = OpaqueShadow"
| "strategy_for _ = CleanDiff"

text \<open>\<open>str::replace\<close> of a one-byte character.\<close>

definition replace_char :: "char \<Rightarrow> string \<Rightarrow> string \<Rightarrow> string" where
  "replace_char c t s = concat (map (\<lambda>x. if x = c then t else [x]) s)"

definition escape_directive_value :: "string \<Rightarrow> string" where
  "escape_directive_value v =
     replace_char (CHR 0x22) [CHR 0x5C, CHR 0x22] (replace_char (CHR 0x5C) [CHR 0x5C, CHR 0x5C] v)"

definition notion_directive :: "string \<Rightarrow> string \<Rightarrow> string option \<Rightarrow> string" where
  "notion_directive i dty title =
     (case title of
        Some t \<Rightarrow> ''::loc{id='' @ i @ '' type='' @ dty @ '' title='' @ [CHR 0x22] @
                    escape_directive_value t @ [CHR 0x22] @ ''}''
      | None \<Rightarrow> ''::loc{id='' @ i @ '' type='' @ dty @ ''}'')"

definition escape_char :: "char \<Rightarrow> string" where
  "escape_char c = (if c = CHR 0x22 \<or> c = CHR 0x5C then [CHR 0x5C, c] else [c])"

lemma escape_directive_value_simps [simp]:
  "escape_directive_value [] = []"
  "escape_directive_value (c # v) = escape_char c @ escape_directive_value v"
  by (simp_all add: escape_directive_value_def replace_char_def escape_char_def)

lemma parse_quoted_escaped:
  "parse_quoted_directive_value (escape_directive_value v @ CHR 0x22 # rest) = (v, rest)"
  by (induction v) (simp_all add: escape_char_def)

text \<open>A value that needs no quotes: not empty, no white space, no quote at its front. Block
  identifiers and directive types are such values.\<close>

definition plain_value :: "string \<Rightarrow> bool" where
  "plain_value s \<longleftrightarrow> s \<noteq> [] \<and> hd s \<noteq> CHR 0x22 \<and> (\<forall>c\<in>set s. plain_byte c)"

lemma plain_value_ws: "plain_value s \<Longrightarrow> ws_len (s @ t) = 0"
  by (cases s) (simp_all add: plain_value_def)

lemma attribute_value_plain:
  "plain_value v \<Longrightarrow> ws_len s > 0 \<or> s = [] \<Longrightarrow> attribute_value (v @ s) = (v, s)"
  using value_span_plain[of v s]
  by (cases v) (auto simp: plain_value_def attribute_value_def)

lemma attribute_value_quoted:
  "attribute_value (CHR 0x22 # escape_directive_value v @ [CHR 0x22]) = (v, [])"
  using parse_quoted_escaped[of v "[]"] by (simp add: attribute_value_def)

lemma plain_attribute_name:
  "c \<in> set ''id'' \<Longrightarrow> plain_byte c \<and> c \<noteq> CHR ''=''"
  "c \<in> set ''type'' \<Longrightarrow> plain_byte c \<and> c \<noteq> CHR ''=''"
  "c \<in> set ''title'' \<Longrightarrow> plain_byte c \<and> c \<noteq> CHR ''=''"
  by (auto simp: plain_byte_def ascii_ws_def)

lemma parse_plain_attribute:
  assumes "k \<in> {''id'', ''type'', ''title''}" "plain_value v" "ws_len s > 0 \<or> s = []"
  shows "parse_attributes_from (k @ CHR ''='' # v @ s) m =
    parse_attributes_from s (bm_insert k v m)"
  using assms(1)
  by (intro parse_attribute_step attribute_value_plain plain_value_ws assms)
    (auto dest: plain_attribute_name)

definition directive_attributes :: "string \<Rightarrow> string \<Rightarrow> string option \<Rightarrow> (string \<times> string) list" where
  "directive_attributes i dty title =
     [(''id'', i), (''type'', dty)] @ (case title of None \<Rightarrow> [] | Some t \<Rightarrow> [(''title'', t)])"

lemma parse_rendered_attributes:
  assumes "plain_value i" "plain_value dty"
  shows "parse_directive_attributes
      (''id='' @ i @ '' type='' @ dty @
        (case title of None \<Rightarrow> []
         | Some t \<Rightarrow> '' title='' @ [CHR 0x22] @ escape_directive_value t @ [CHR 0x22])) =
    bm_collect (directive_attributes i dty title)"
proof -
  have sp: "ws_len (CHR 0x20 # s) > 0" for s by (simp add: ws_len.simps ascii_ws_def)
  have q: "ws_len (CHR 0x22 # s) = 0" for s by (simp add: plain_byte_def ascii_ws_def)
  have tail: "parse_attributes_from (case title of None \<Rightarrow> []
         | Some t \<Rightarrow> '' title='' @ [CHR 0x22] @ escape_directive_value t @ [CHR 0x22]) m =
      bm_extend m (case title of None \<Rightarrow> [] | Some t \<Rightarrow> [(''title'', t)])" for m
  proof (cases title)
    case None
    then show ?thesis by (simp add: bm_extend_def)
  next
    case (Some t)
    have "parse_attributes_from (''title'' @ CHR ''='' # CHR 0x22 # escape_directive_value t @
        [CHR 0x22]) m = parse_attributes_from [] (bm_insert ''title'' t m)"
      by (rule parse_attribute_step[OF _ plain_attribute_name(3) attribute_value_quoted q]) simp_all
    with Some show ?thesis by (simp add: parse_attributes_space bm_extend_def)
  qed
  let ?tl = "case title of None \<Rightarrow> []
         | Some t \<Rightarrow> '' title='' @ [CHR 0x22] @ escape_directive_value t @ [CHR 0x22]"
  have "?tl = [] \<or> ws_len ?tl > 0" by (simp add: sp split: option.split)
  then have ty: "parse_attributes_from (''type'' @ CHR ''='' # dty @ ?tl) m =
      parse_attributes_from ?tl (bm_insert ''type'' dty m)" for m
    using assms by (intro parse_plain_attribute) auto
  have "parse_attributes_from (''id'' @ CHR ''='' # i @ '' type='' @ dty @ ?tl) [] =
      parse_attributes_from ('' type='' @ dty @ ?tl) (bm_insert ''id'' i [])"
    using assms sp by (intro parse_plain_attribute) auto
  then show ?thesis
    using ty[of "bm_insert ''id'' i []"] tail
    by (simp add: parse_directive_attributes_def parse_attributes_space directive_attributes_def
        bm_extend_def del: bm_insert.simps)
qed

text \<open>A directive rendered by the Notion connector parses back to what it was rendered from:
  the block identifier, the directive type, the title whatever quotes and backslashes it holds,
  and it is not malformed.\<close>

theorem notion_directive_roundtrip:
  assumes "plain_value i" "plain_value dty"
  shows "parse_directive_line (notion_directive i dty title) n =
    Some \<lparr>dir_remote_id = Some (RemoteId i), dir_directive_type = Some dty,
          dir_title = opt_filter (\<lambda>t. t \<noteq> []) title,
          dir_attributes = bm_collect (directive_attributes i dty title),
          dir_raw = notion_directive i dty title, dir_line = n, dir_malformed = False\<rparr>"
proof -
  let ?a = "''id='' @ i @ '' type='' @ dty @ (case title of None \<Rightarrow> []
         | Some t \<Rightarrow> '' title='' @ [CHR 0x22] @ escape_directive_value t @ [CHR 0x22])"
  have eq: "notion_directive i dty title = ''::loc{'' @ ?a @ ''}''"
    by (simp add: notion_directive_def split: option.split)
  have ne: "i \<noteq> []" "dty \<noteq> []" using assms by (simp_all add: plain_value_def)
  have get: "bm_get (bm_collect (directive_attributes i dty title)) ''id'' = Some i"
    "bm_get (bm_collect (directive_attributes i dty title)) ''type'' = Some dty"
    "bm_get (bm_collect (directive_attributes i dty title)) ''title'' = title"
    by (simp_all add: bm.get_collect directive_attributes_def split: option.split)
  show ?thesis
    unfolding eq parse_directive_line_loc parse_rendered_attributes[OF assms] Let_def get
    using ne by (simp add: opt_filter_def)
qed

theorem notion_directive_roundtrip_witness:
  "dir_title (the (parse_directive_line
     (notion_directive ''media-1'' ''image'' (Some [CHR 0x22, CHR 0x5C])) 7)) =
   Some [CHR 0x22, CHR 0x5C]"
proof -
  have "plain_value ''media-1''" "plain_value ''image''"
    by (simp_all add: plain_value_def plain_byte_def ascii_ws_def)
  from notion_directive_roundtrip[OF this] show ?thesis by (simp add: opt_filter_def)
qed

end
