(* ===== verification/Wait_History.thy ===== *)
theory Wait_History
  imports Freshness_Wait
begin

text \<open>
  What the wait contract guarantees to a client that validates every snapshot: the deadline is the
  creation time plus the sealed timeout, a snapshot's state agrees with its sources and its clock,
  and the accepted snapshots of an attempt form a history that never goes back.
\<close>

section \<open>What a valid snapshot says\<close>

lemma fw_timestamp_Inr [simp]:
  "fw_validate_timestamp v = Inr u \<longleftrightarrow> (\<exists>n. timestamp_seconds v = Some n)"
proof -
  have "canonical_utc_timestamp v \<longleftrightarrow> (\<exists>n. timestamp_seconds v = Some n)"
    using canonical_iff[of v] by (auto simp: timestamp_seconds_def)
  then show ?thesis by (simp add: fw_validate_timestamp_def)
qed

lemma canonical_timestamp_seconds_Inr [simp]:
  "canonical_timestamp_seconds v = Inr n \<longleftrightarrow> timestamp_seconds v = Some n"
  by (auto simp: canonical_timestamp_seconds_def split: option.split)

lemma i64_checked_Some [simp]: "i64_checked v = Some w \<longleftrightarrow> w = v \<and> - (2 ^ 63) \<le> v \<and> v < 2 ^ 63"
  by (auto simp: i64_checked_def)

lemma seconds_between_Inr:
  "seconds_between s e = Inr d \<longleftrightarrow>
     (\<exists>m n. timestamp_seconds s = Some m \<and> timestamp_seconds e = Some n \<and> d = n - m
        \<and> - (2 ^ 63) \<le> n - m \<and> n - m < 2 ^ 63)"
  by (auto simp: seconds_between_def rbind_Inr_iff)

lemma add_timestamp_seconds_Inr:
  "add_timestamp_seconds v s = Inr w \<Longrightarrow>
     \<exists>m. timestamp_seconds v = Some m \<and> timestamp_seconds w = Some (m + uint s)"
  by (auto simp: add_timestamp_seconds_def rbind_Inr_iff format_timestamp_seconds_def
      seconds_format_iff)

lemma requirement_Inr:
  "validate_freshness_requirement r = Inr u \<longleftrightarrow>
     rq_on_stale r = WaitThenFail \<and> 1 \<le> rq_wait_timeout_seconds r
   \<and> rq_wait_timeout_seconds r \<le> MAX_FRESHNESS_WAIT_DURATION_SECONDS"
  by (simp add: validate_freshness_requirement_def)

lemma check_targets_Inr:
  "check_targets index sources ts = Inr () \<Longrightarrow>
     (\<forall>t\<in>set ts. target_validate t = Inr ()) \<and> (\<forall>i<length ts. unat (wt_ordinal (ts ! i)) = index + i)
   \<and> distinct (map (\<lambda>t. (wt_source_connection_id t, wt_source_scope_id t)) ts)
   \<and> sources \<inter> set (map (\<lambda>t. (wt_source_connection_id t, wt_source_scope_id t)) ts) = {}"
proof (induction ts arbitrary: index sources)
  case (Cons t ts)
  from Cons.prems have t: "unat (wt_ordinal t) = index" "target_validate t = Inr ()"
    "(wt_source_connection_id t, wt_source_scope_id t) \<notin> sources"
    and rest: "check_targets (index + 1) (insert (wt_source_connection_id t, wt_source_scope_id t) sources) ts = Inr ()"
    by (auto simp: rbind_Inr_iff split: if_splits)
  note ih = Cons.IH[OF rest]
  have "unat (wt_ordinal ((t # ts) ! i)) = index + i" if "i < length (t # ts)" for i
    using that t(1) ih by (cases i) auto
  with t ih show ?case by auto
qed simp

lemma source_state_ok_Inr:
  "source_state_ok t = Inr () \<longleftrightarrow>
     (case wt_state t of
        SrcWaiting \<Rightarrow> wt_applied_epoch t < wt_target_epoch t \<and> wt_reason t \<noteq> None
      | SrcSatisfied \<Rightarrow> wt_target_epoch t \<le> wt_applied_epoch t \<and> wt_reason t = None \<and> wt_retry t = None
      | SrcFailed \<Rightarrow> wt_applied_epoch t < wt_target_epoch t \<and> wt_reason t \<noteq> None
      | SrcUnknown \<Rightarrow> False)"
  by (simp add: source_state_ok_def split: wait_source_state.split)

lemma target_satisfied_iff:
  "target_validate t = Inr () \<Longrightarrow> wt_state t = SrcSatisfied \<longleftrightarrow> wt_target_epoch t \<le> wt_applied_epoch t"
  by (auto simp: target_validate_def rbind_Inr_iff source_state_ok_Inr split: wait_source_state.splits)

lemma attempt_valid_facts:
  assumes "attempt_validate J a = Inr ()"
  shows "validate_freshness_requirement (wa_freshness_requirement a) = Inr ()"
    "\<exists>n. timestamp_seconds (wa_updated_at a) = Some n"
    "add_timestamp_seconds (wa_created_at a) (rq_wait_timeout_seconds (wa_freshness_requirement a))
      = Inr (wa_original_deadline_at a)"
    "\<not> wa_updated_at a < wa_created_at a" "wa_sequence a \<noteq> 0"
    "validate_source_targets (wa_source_targets a) = Inr ()"
    "\<forall>p. wa_poll a = Some p \<longrightarrow> attempt_poll_ok a p = Inr ()"
    "\<forall>t. wa_terminal a = Some t \<longrightarrow> attempt_terminal_ok a t = Inr ()"
    "validate_aggregate_state a = Inr ()"
  using assms unfolding attempt_validate_def derive_original_deadline_at_def
  by (simp_all only: rbind_Inr_iff guard_Inr) (auto split: option.splits)

lemma targets_valid:
  assumes "validate_source_targets ts = Inr ()"
  shows "ts \<noteq> []" "length ts \<le> MAX_FRESHNESS_WAIT_SOURCES" "\<forall>t\<in>set ts. target_validate t = Inr ()"
  using assms check_targets_Inr[of 0 "{}" ts]
  by (auto simp: validate_source_targets_def not_less split: if_splits)

lemma count_state_0: "count_state st ts = 0 \<longleftrightarrow> (\<forall>t\<in>set ts. wt_state t \<noteq> st)"
  by (auto simp: count_state_def filter_empty_conv)

lemma count_state_all: "count_state st ts = length ts \<longleftrightarrow> (\<forall>t\<in>set ts. wt_state t = st)"
proof (induction ts)
  case (Cons t ts)
  have "length (filter (\<lambda>t. wt_state t = st) ts) \<noteq> Suc (length ts)"
    using length_filter_le[of "\<lambda>t. wt_state t = st" ts] by linarith
  with Cons show ?case by (auto simp: count_state_def)
qed (simp add: count_state_def)

lemma aggregate_Inr:
  assumes "validate_aggregate_state a = Inr ()"
  obtains
    p where "wa_state a = AggWaiting" "wa_poll a = Some p" "wa_terminal a = None"
      "\<exists>t\<in>set (wa_source_targets a). wt_state t = SrcWaiting"
      "\<forall>t\<in>set (wa_source_targets a). wt_state t \<noteq> SrcFailed" "wa_updated_at a < wa_original_deadline_at a"
  | t where "wa_state a = AggTerminal" "wa_poll a = None" "wa_terminal a = Some t"
      "tm_outcome t = OutSatisfied" "\<forall>t\<in>set (wa_source_targets a). wt_state t = SrcSatisfied"
      "tm_completed_at t \<le> wa_original_deadline_at a"
  | t where "wa_state a = AggTerminal" "wa_poll a = None" "wa_terminal a = Some t"
      "tm_outcome t = OutDeadlineExceeded" "\<exists>t\<in>set (wa_source_targets a). wt_state t = SrcWaiting"
      "\<forall>t\<in>set (wa_source_targets a). wt_state t \<noteq> SrcFailed" "wa_original_deadline_at a \<le> tm_completed_at t"
  | t where "wa_state a = AggTerminal" "wa_poll a = None" "wa_terminal a = Some t"
      "tm_outcome t = OutFailed" "\<exists>t\<in>set (wa_source_targets a). wt_state t = SrcFailed"
      "tm_completed_at t \<le> wa_original_deadline_at a"
proof -
  have pos: "count_state st ts > 0 \<longleftrightarrow> (\<exists>t\<in>set ts. wt_state t = st)" for st ts
    using count_state_0[of st ts] by auto
  show thesis
  proof (cases "wa_state a")
    case AggWaiting
    with assms that(1) show thesis
      by (cases "wa_poll a"; cases "wa_terminal a")
        (auto simp: validate_aggregate_state_def Let_def pos count_state_0 split: if_splits)
  next
    case AggTerminal
    with assms obtain t where t: "wa_poll a = None" "wa_terminal a = Some t"
      by (cases "wa_poll a"; cases "wa_terminal a") (auto simp: validate_aggregate_state_def Let_def)
    with AggTerminal assms that(2-4)[of t] show thesis
      by (cases "tm_outcome t")
        (auto simp: validate_aggregate_state_def Let_def pos count_state_0 count_state_all split: if_splits)
  next
    case AggUnknown
    with assms show thesis by (simp add: validate_aggregate_state_def Let_def)
  qed
qed

section \<open>A snapshot agrees with its clock and its sources\<close>

text \<open>In seconds, what the state of a snapshot created at \<open>c\<close>, updated at \<open>u\<close> and due by \<open>d\<close> claims.\<close>

definition state_agrees :: "wait_attempt \<Rightarrow> int \<Rightarrow> int \<Rightarrow> bool" where
  "state_agrees a u d \<longleftrightarrow>
     (let reached = (\<lambda>t. wt_target_epoch t \<le> wt_applied_epoch t); ts = set (wa_source_targets a)
      in case (wa_state a, wa_poll a, wa_terminal a) of
           (AggWaiting, Some p, None) \<Rightarrow>
             \<not> (\<forall>t\<in>ts. reached t) \<and> (\<exists>s. rt_retry_after_seconds (pm_retry p) = Some s \<and> 1 \<le> uint s \<and> u + uint s \<le> d)
         | (AggTerminal, None, Some t) \<Rightarrow>
             (case tm_outcome t of
                OutSatisfied \<Rightarrow> (\<forall>t\<in>ts. reached t) \<and> u \<le> d
              | OutDeadlineExceeded \<Rightarrow> \<not> (\<forall>t\<in>ts. reached t) \<and> d \<le> u
              | OutFailed \<Rightarrow> \<not> (\<forall>t\<in>ts. reached t) \<and> u \<le> d
              | OutUnknown \<Rightarrow> False)
         | _ \<Rightarrow> False)"

lemma poll_delay:
  assumes "attempt_poll_ok a p = Inr ()" "timestamp_seconds (wa_updated_at a) = Some u"
    "timestamp_seconds (wa_original_deadline_at a) = Some d"
  shows "\<exists>s. rt_retry_after_seconds (pm_retry p) = Some s \<and> 1 \<le> uint s \<and> u + uint s \<le> d"
proof (cases "rt_retry_after_seconds (pm_retry p)")
  case (Some s)
  with assms have "1 \<le> s" "u + uint s \<le> d"
    by (auto simp: attempt_poll_ok_def poll_validate_def rbind_Inr_iff seconds_between_Inr not_less split: if_splits)
  then show ?thesis using Some by (simp add: word_le_def)
qed (use assms in \<open>simp add: attempt_poll_ok_def poll_validate_def rbind_Inr_iff\<close>)

lemma state_agrees_valid:
  assumes valid: "attempt_validate J a = Inr ()"
    and u: "timestamp_seconds (wa_updated_at a) = Some u"
    and d: "timestamp_seconds (wa_original_deadline_at a) = Some d"
  shows "state_agrees a u d"
proof -
  note facts = attempt_valid_facts[OF valid]
  have sat: "wt_state t = SrcSatisfied \<longleftrightarrow> wt_target_epoch t \<le> wt_applied_epoch t"
    if "t \<in> set (wa_source_targets a)" for t
    using targets_valid(3)[OF facts(6)] target_satisfied_iff that by blast
  then have all: "(\<forall>t\<in>set (wa_source_targets a). wt_target_epoch t \<le> wt_applied_epoch t)
      \<longleftrightarrow> (\<forall>t\<in>set (wa_source_targets a). wt_state t = SrcSatisfied)" by blast
  have same: "tm_completed_at t = wa_updated_at a" if "wa_terminal a = Some t" for t
    using facts(8) that by (auto simp: attempt_terminal_ok_def rbind_Inr_iff split: if_splits)
  have le: "wa_updated_at a \<le> wa_original_deadline_at a \<longleftrightarrow> u \<le> d"
    "wa_original_deadline_at a \<le> wa_updated_at a \<longleftrightarrow> d \<le> u"
    using seconds_less_iff[OF u d] seconds_less_iff[OF d u] by (auto simp: not_less[symmetric])
  show ?thesis
    using facts(9)
  proof (cases rule: aggregate_Inr)
    case (1 p)
    then show ?thesis using poll_delay[OF _ u d, of p] facts(7) all
      by (auto simp: state_agrees_def)
  qed (use same le all in \<open>auto simp: state_agrees_def\<close>)
qed

lemma deadline_valid:
  assumes "attempt_validate J a = Inr ()"
  shows "\<exists>c u. timestamp_seconds (wa_created_at a) = Some c \<and> timestamp_seconds (wa_updated_at a) = Some u
    \<and> timestamp_seconds (wa_original_deadline_at a)
        = Some (c + uint (rq_wait_timeout_seconds (wa_freshness_requirement a)))
    \<and> 1 \<le> uint (rq_wait_timeout_seconds (wa_freshness_requirement a))
    \<and> uint (rq_wait_timeout_seconds (wa_freshness_requirement a)) \<le> 300 \<and> c \<le> u"
proof -
  note facts = attempt_valid_facts[OF assms]
  obtain u where u: "timestamp_seconds (wa_updated_at a) = Some u" using facts(2) by blast
  obtain c where c: "timestamp_seconds (wa_created_at a) = Some c"
    "timestamp_seconds (wa_original_deadline_at a)
        = Some (c + uint (rq_wait_timeout_seconds (wa_freshness_requirement a)))"
    using add_timestamp_seconds_Inr[OF facts(3)] by blast
  have "c \<le> u" using facts(4) seconds_less_iff[OF u c(1)] by simp
  moreover have "1 \<le> uint (rq_wait_timeout_seconds (wa_freshness_requirement a))"
    "uint (rq_wait_timeout_seconds (wa_freshness_requirement a)) \<le> 300"
    using facts(1) by (simp_all add: requirement_Inr word_le_def MAX_FRESHNESS_WAIT_DURATION_SECONDS_def)
  ultimately show ?thesis using u c by blast
qed

text \<open>A snapshot that validates keeps its promise on time: its deadline is its creation time plus the
  timeout of the sealed requirement, between one second and five minutes, it was not updated before it
  was created, and what it says agrees with the epochs of its sources: satisfied exactly with every
  target epoch reached, in time; exceeded only at or after the deadline with a target missing; and while
  it waits, some target is missing and the next poll is due by the deadline.\<close>

theorem valid_snapshot_agrees:
  assumes "attempt_validate J a = Inr ()"
  shows "\<exists>c u d. timestamp_seconds (wa_created_at a) = Some c \<and> timestamp_seconds (wa_updated_at a) = Some u
    \<and> timestamp_seconds (wa_original_deadline_at a) = Some d
    \<and> d = c + uint (rq_wait_timeout_seconds (wa_freshness_requirement a))
    \<and> c + 1 \<le> d \<and> d \<le> c + 300 \<and> c \<le> u \<and> state_agrees a u d"
  using deadline_valid[OF assms] state_agrees_valid[OF assms] by force

section \<open>A sample attempt\<close>

definition sample_codec :: wait_codec where
  "sample_codec = \<lparr>request_length = (\<lambda>_. 200), attempt_length = (\<lambda>_. 900),
     request_from_slice = (\<lambda>_. Inl []), attempt_from_slice = (\<lambda>_. Inl [])\<rparr>"

definition sample_request :: wait_attempt_request where
  "sample_request = \<lparr>wr_format_version = 1, wr_minimum_reader_version = 1, wr_api_generation = 2,
     wr_session_id = ''s'', wr_idempotency_key = ''k'', wr_capabilities = [CapFreshnessWait 1]\<rparr>"

definition sample_target :: wait_source_target where
  "sample_target = \<lparr>wt_ordinal = 0, wt_source_connection_id = ''c'', wt_source_scope_id = ''p'',
     wt_target_epoch = FreshnessEpoch 4, wt_applied_epoch = FreshnessEpoch 3, wt_state = SrcWaiting,
     wt_reason = Some RefreshApplying, wt_retry = None\<rparr>"

definition sample_waiting :: wait_attempt where
  "sample_waiting = \<lparr>wa_format_version = 1, wa_minimum_reader_version = 1, wa_api_generation = 2,
     wa_selected_capability = 1, wa_wait_attempt_id = ''w'', wa_session_id = ''s'', wa_idempotency_key = ''k'',
     wa_freshness_requirement = \<lparr>rq_max_age_seconds = 0, rq_on_stale = WaitThenFail, rq_wait_timeout_seconds = 30\<rparr>,
     wa_created_at = ''2024-02-29T23:59:40Z'', wa_original_deadline_at = ''2024-03-01T00:00:10Z'',
     wa_sequence = 1, wa_source_targets = [sample_target], wa_state = AggWaiting,
     wa_poll = Some \<lparr>pm_observed_at = ''2024-02-29T23:59:59Z'',
       pm_retry = \<lparr>rt_class = AfterDelay, rt_retry_after_seconds = Some 5\<rparr>\<rparr>,
     wa_terminal = None, wa_updated_at = ''2024-02-29T23:59:59Z''\<rparr>"

definition sample_reached :: wait_attempt where
  "sample_reached = sample_waiting\<lparr>wa_sequence := 2,
     wa_source_targets := [sample_target\<lparr>wt_applied_epoch := FreshnessEpoch 4, wt_state := SrcSatisfied,
       wt_reason := None\<rparr>],
     wa_state := AggTerminal, wa_poll := None,
     wa_terminal := Some \<lparr>tm_outcome = OutSatisfied, tm_completed_at = ''2024-03-01T00:00:10Z''\<rparr>,
     wa_updated_at := ''2024-03-01T00:00:10Z''\<rparr>"

lemma sample_clock:
  "timestamp_seconds ''2024-02-29T23:59:40Z'' = Some 1709251180
   \<and> timestamp_seconds ''2024-02-29T23:59:59Z'' = Some 1709251199
   \<and> timestamp_seconds ''2024-03-01T00:00:10Z'' = Some 1709251210"
  by code_simp

lemma sample_times [simp]:
  "timestamp_seconds ''2024-02-29T23:59:40Z'' = Some 1709251180"
  "timestamp_seconds ''2024-02-29T23:59:59Z'' = Some 1709251199"
  "timestamp_seconds ''2024-03-01T00:00:10Z'' = Some 1709251210"
  using sample_clock by blast+

lemma sample_deadline:
  "derive_original_deadline_at ''2024-02-29T23:59:40Z''
     \<lparr>rq_max_age_seconds = 0, rq_on_stale = WaitThenFail, rq_wait_timeout_seconds = 30\<rparr>
   = Inr ''2024-03-01T00:00:10Z''"
  using sample_times(3)[unfolded seconds_format_iff]
  by (simp add: derive_original_deadline_at_def validate_freshness_requirement_def
      MAX_FRESHNESS_WAIT_DURATION_SECONDS_def add_timestamp_seconds_def canonical_timestamp_seconds_def
      i64_checked_def format_timestamp_seconds_def ok_or_def)

lemma sample_wait_parts:
  "validate_source_targets [sample_target] = Inr ()
   \<and> validate_source_targets [sample_target\<lparr>wt_applied_epoch := FreshnessEpoch 4, wt_state := SrcSatisfied,
       wt_reason := None\<rparr>] = Inr ()
   \<and> fw_validate_versions 1 1 = Inr () \<and> fw_validate_api_generation 2 = Inr ()
   \<and> validate_opaque ''wait_attempt_id'' ''w'' MAX_FRESHNESS_WAIT_ID_BYTES = Inr ()
   \<and> validate_opaque ''session_id'' ''s'' MAX_FRESHNESS_WAIT_ID_BYTES = Inr ()
   \<and> validate_opaque ''idempotency_key'' ''k'' MAX_FRESHNESS_WAIT_IDEMPOTENCY_KEY_BYTES = Inr ()
   \<and> validate_freshness_requirement
         \<lparr>rq_max_age_seconds = 0, rq_on_stale = WaitThenFail, rq_wait_timeout_seconds = 30\<rparr> = Inr ()
   \<and> poll_validate \<lparr>pm_observed_at = ''2024-02-29T23:59:59Z'',
         pm_retry = \<lparr>rt_class = AfterDelay, rt_retry_after_seconds = Some 5\<rparr>\<rparr> = Inr ()"
  by code_simp

lemma sample_targets:
  "validate_source_targets [sample_target] = Inr ()"
  "validate_source_targets [sample_target\<lparr>wt_applied_epoch := FreshnessEpoch 4, wt_state := SrcSatisfied,
       wt_reason := None\<rparr>] = Inr ()"
  using sample_wait_parts by blast+

lemma sample_attempt_fields [simp]:
  "fw_validate_versions 1 1 = Inr ()" "fw_validate_api_generation 2 = Inr ()"
  "validate_opaque ''wait_attempt_id'' ''w'' MAX_FRESHNESS_WAIT_ID_BYTES = Inr ()"
  "validate_opaque ''session_id'' ''s'' MAX_FRESHNESS_WAIT_ID_BYTES = Inr ()"
  "validate_opaque ''idempotency_key'' ''k'' MAX_FRESHNESS_WAIT_IDEMPOTENCY_KEY_BYTES = Inr ()"
  using sample_wait_parts by blast+

lemma sample_timestamps [simp]:
  "fw_validate_timestamp ''2024-02-29T23:59:40Z'' = Inr ()"
  "fw_validate_timestamp ''2024-02-29T23:59:59Z'' = Inr ()"
  "fw_validate_timestamp ''2024-03-01T00:00:10Z'' = Inr ()"
  by simp_all

lemma sample_requirement [simp]:
  "validate_freshness_requirement \<lparr>rq_max_age_seconds = 0, rq_on_stale = WaitThenFail, rq_wait_timeout_seconds = 30\<rparr>
   = Inr ()"
  using sample_wait_parts by blast

lemma sample_poll:
  "poll_validate \<lparr>pm_observed_at = ''2024-02-29T23:59:59Z'',
       pm_retry = \<lparr>rt_class = AfterDelay, rt_retry_after_seconds = Some 5\<rparr>\<rparr> = Inr ()"
  using sample_wait_parts by blast

lemma sample_order [simp]:
  "''2024-02-29T23:59:59Z'' < ''2024-03-01T00:00:10Z''" "\<not> ''2024-02-29T23:59:59Z'' < ''2024-02-29T23:59:40Z''"
  "\<not> ''2024-03-01T00:00:10Z'' < ''2024-02-29T23:59:40Z''"
  by (simp_all add: seconds_less_iff[OF sample_times(2) sample_times(3)]
      seconds_less_iff[OF sample_times(2) sample_times(1)] seconds_less_iff[OF sample_times(3) sample_times(1)])

lemma sample_waiting_valid: "attempt_validate sample_codec sample_waiting = Inr ()"
proof -
  have "attempt_poll_ok sample_waiting (the (wa_poll sample_waiting)) = Inr ()"
    by (simp add: attempt_poll_ok_def sample_waiting_def sample_poll seconds_between_def
        canonical_timestamp_seconds_def i64_checked_def ok_or_def)
  moreover have "validate_aggregate_state sample_waiting = Inr ()"
    by (simp add: validate_aggregate_state_def sample_waiting_def sample_target_def count_state_def)
  moreover have "validate_encoding_length (attempt_length sample_codec sample_waiting) MAX_FRESHNESS_WAIT_ATTEMPT_BYTES
      = Inr ()"
    by (simp add: validate_encoding_length_def sample_codec_def MAX_FRESHNESS_WAIT_ATTEMPT_BYTES_def)
  ultimately show ?thesis
    unfolding attempt_validate_def by (simp add: sample_waiting_def sample_deadline sample_targets)
qed

lemma sample_reached_valid: "attempt_validate sample_codec sample_reached = Inr ()"
proof -
  have "attempt_terminal_ok sample_reached (the (wa_terminal sample_reached)) = Inr ()"
    by (simp add: attempt_terminal_ok_def sample_reached_def terminal_validate_def)
  moreover have "validate_aggregate_state sample_reached = Inr ()"
    by (simp add: validate_aggregate_state_def sample_reached_def sample_waiting_def sample_target_def count_state_def)
  moreover have "validate_encoding_length (attempt_length sample_codec sample_reached) MAX_FRESHNESS_WAIT_ATTEMPT_BYTES
      = Inr ()"
    by (simp add: validate_encoding_length_def sample_codec_def MAX_FRESHNESS_WAIT_ATTEMPT_BYTES_def)
  ultimately show ?thesis
    unfolding attempt_validate_def by (simp add: sample_reached_def sample_waiting_def sample_deadline sample_targets)
qed

theorem valid_snapshot_witness:
  "timestamp_seconds (wa_original_deadline_at sample_reached) = Some 1709251210 \<and>
   state_agrees sample_reached 1709251210 1709251210"
proof -
  from valid_snapshot_agrees[OF sample_reached_valid] show ?thesis
    by (auto simp: sample_reached_def sample_waiting_def)
qed

section \<open>Accepted histories\<close>

fun accepted :: "wait_codec \<Rightarrow> wait_attempt_request \<Rightarrow> wait_attempt \<Rightarrow> (string \<times> wait_attempt) list \<Rightarrow> bool" where
  "accepted J r previous [] \<longleftrightarrow> True"
| "accepted J r previous ((server_time, a) # rest) \<longleftrightarrow>
     validate_successor J a previous r server_time = Inr () \<and> accepted J r a rest"

definition progressed :: "wait_source_target \<Rightarrow> wait_source_target \<Rightarrow> bool" where
  "progressed s t \<longleftrightarrow> same_target t s \<and> wt_applied_epoch s \<le> wt_applied_epoch t
     \<and> (wt_state s = SrcSatisfied \<longrightarrow> wt_state t = SrcSatisfied) \<and> wt_state s \<noteq> SrcFailed"

text \<open>The order the snapshots of an attempt stand in: the same snapshot, or a later one of an attempt
  that still waited.\<close>

definition follows :: "wait_attempt \<Rightarrow> wait_attempt \<Rightarrow> bool" where
  "follows a b \<longleftrightarrow> b = a \<or>
     (wa_state a = AggWaiting \<and> wa_sequence a < wa_sequence b \<and> same_immutable_attempt b a
      \<and> wa_updated_at a \<le> wa_updated_at b \<and> list_all2 progressed (wa_source_targets a) (wa_source_targets b))"

lemma check_progress_Inr:
  "check_progress ps = Inr () \<longleftrightarrow>
     (\<forall>(s, t)\<in>set ps. wt_applied_epoch s \<le> wt_applied_epoch t
       \<and> (wt_state s = SrcSatisfied \<longrightarrow> wt_state t = SrcSatisfied) \<and> wt_state s \<noteq> SrcFailed)"
  by (induction ps rule: check_progress.induct) (auto simp: not_less)

lemma same_targets_iff:
  "length xs = length ys \<and> list_all (\<lambda>(l, r). same_target l r) (zip xs ys) \<longleftrightarrow> list_all2 same_target xs ys"
  by (auto simp: list_all2_iff list_all_iff)

lemma same_immutable_targets:
  "same_immutable_attempt a b \<Longrightarrow> list_all2 same_target (wa_source_targets a) (wa_source_targets b)"
  unfolding same_immutable_attempt_def same_targets_iff[symmetric] by blast

lemma same_immutable_trans:
  assumes "same_immutable_attempt c b" "same_immutable_attempt b a"
  shows "same_immutable_attempt c a"
proof -
  have "list_all2 same_target (wa_source_targets c) (wa_source_targets a)"
    by (rule list_all2_trans[OF _ assms[THEN same_immutable_targets]]) (simp add: same_target_def)
  then have "length (wa_source_targets c) = length (wa_source_targets a)"
    "list_all (\<lambda>(l, r). same_target l r) (zip (wa_source_targets c) (wa_source_targets a))"
    unfolding same_targets_iff[symmetric] by blast+
  with assms show ?thesis unfolding same_immutable_attempt_def by simp
qed

lemma follows_trans: "follows a b \<Longrightarrow> follows b c \<Longrightarrow> follows a c"
proof -
  assume ab: "follows a b" and bc: "follows b c"
  have "list_all2 progressed (wa_source_targets a) (wa_source_targets c)"
    if "list_all2 progressed (wa_source_targets a) (wa_source_targets b)"
      "list_all2 progressed (wa_source_targets b) (wa_source_targets c)"
    by (rule list_all2_trans[OF _ that]) (auto simp: progressed_def same_target_def)
  with ab bc same_immutable_trans[of c b a] show ?thesis
    unfolding follows_def by (metis (no_types, lifting) order.strict_trans order.trans)
qed

lemma targets_progressed:
  assumes "list_all2 same_target ts ss"
    and "\<forall>(s, t)\<in>set (zip ss ts). wt_applied_epoch s \<le> wt_applied_epoch t
       \<and> (wt_state s = SrcSatisfied \<longrightarrow> wt_state t = SrcSatisfied) \<and> wt_state s \<noteq> SrcFailed"
  shows "list_all2 progressed ss ts"
  using assms by (induction rule: list_all2_induct) (auto simp: progressed_def)

lemma successor_follows:
  assumes "validate_successor J a previous r server_time = Inr ()"
  shows "follows previous a"
proof (cases "a = previous")
  case False
  with assms have valid: "attempt_validate J previous = Inr ()"
    and new: "wa_state previous \<noteq> AggTerminal" "wa_sequence previous < wa_sequence a"
      "same_immutable_attempt a previous" "wa_updated_at previous \<le> wa_updated_at a"
      "check_progress (zip (wa_source_targets previous) (wa_source_targets a)) = Inr ()"
    by (auto simp: validate_successor_def rbind_Inr_iff not_less not_le split: if_splits)
  have "wa_state previous \<noteq> AggUnknown"
    using attempt_valid_facts(9)[OF valid] by (auto simp: validate_aggregate_state_def Let_def)
  with new(1) have "wa_state previous = AggWaiting" by (cases "wa_state previous") auto
  moreover have "list_all2 progressed (wa_source_targets previous) (wa_source_targets a)"
    using same_immutable_targets[OF new(3)] new(5)[unfolded check_progress_Inr]
    by (rule targets_progressed)
  ultimately show ?thesis using new by (simp add: follows_def)
qed (simp add: follows_def)

lemma accepted_history: "accepted J r p h \<Longrightarrow> sorted_wrt follows (p # map snd h)"
proof (induction h arbitrary: p)
  case (Cons x h)
  obtain t a where x: "x = (t, a)" by force
  with Cons.prems have pa: "follows p a" and rest: "accepted J r a h" by (auto dest: successor_follows)
  with Cons.IH[OF rest] x show ?case by (auto intro: follows_trans)
qed simp

text \<open>C31: the snapshots that a client accepts, each as a successor of the one before, form a history
  that never goes back: any two are equal, or the later one carries a higher sequence number and the
  same identity, requirement, deadline and sources, was updated no earlier, has no applied epoch lowered
  and no satisfied source withdrawn; and nothing follows a terminal snapshot but itself.\<close>

theorem accepted_history_ordered:
  assumes "accepted J r p h"
  shows "sorted_wrt follows (p # map snd h)"
  using assms by (rule accepted_history)

lemma sample_successor:
  "validate_successor sample_codec sample_reached sample_waiting sample_request ''2024-03-01T00:00:10Z'' = Inr ()"
proof -
  have c: "request_validate sample_codec sample_request = Inr ()
      \<and> selection_validate_against 1 (wr_capabilities sample_request) = Inr ()" by code_simp
  have "request_validate sample_codec sample_request = Inr ()" using c by blast
  moreover have "attempt_validate_at sample_codec sample_reached ''2024-03-01T00:00:10Z'' = Inr ()"
    unfolding attempt_validate_at_def sample_reached_valid
    by (simp add: sample_reached_def sample_waiting_def seconds_between_def canonical_timestamp_seconds_def
        i64_checked_def ok_or_def MAX_FRESHNESS_WAIT_FUTURE_SKEW_SECONDS_def)
  moreover have "selection_validate_against 1 (wr_capabilities sample_request) = Inr ()" using c by blast
  moreover have "\<not> (2::u64) \<le> 1" by (simp add: word_le_nat_alt)
  ultimately show ?thesis
    unfolding validate_successor_def attempt_validate_against_at_def attempt_validate_against_def
    by (simp add: sample_reached_valid sample_waiting_valid)
      (simp add: sample_reached_def sample_waiting_def sample_request_def sample_target_def
        same_immutable_attempt_def same_target_def less_freshness_epoch_def)
qed

theorem accepted_history_witness:
  "sorted_wrt follows [sample_waiting, sample_reached, sample_reached] \<and> sample_waiting \<noteq> sample_reached"
proof -
  have "validate_successor sample_codec sample_reached sample_reached sample_request ''2024-03-01T00:00:10Z'' = Inr ()"
    using sample_successor by (auto simp: validate_successor_def rbind_Inr_iff sample_reached_valid)
       (simp add: sample_reached_def)
  with sample_successor have "accepted sample_codec sample_request sample_waiting
      [(''2024-03-01T00:00:10Z'', sample_reached), (''2024-03-01T00:00:10Z'', sample_reached)]" by simp
  from accepted_history_ordered[OF this] show ?thesis by (simp add: sample_reached_def sample_waiting_def)
qed

end
