(* ===== verification/Pin_Lease.thy ===== *)
theory Pin_Lease
  imports Delivery_Transport Wait_History
begin

text \<open>
  Acknowledgments and pin leases (\<open>freshness_delivery_transport.rs\<close>): a client acknowledges a delta by its
  terminal receipt, and pins a generation for a bounded time under a quota per device. The module has its
  own conversion of timestamps to seconds; it is shown to be the one of the wait contract.
\<close>

section \<open>Seconds of a timestamp\<close>

text \<open>The division of a negative number by 400 truncates; the other divisions are of numbers that are not
  negative.\<close>

definition days_from_civil :: "int \<Rightarrow> int \<Rightarrow> int \<Rightarrow> int" where
  "days_from_civil year month day =
     (let year = year - (if month \<le> 2 then 1 else 0);
          era = (if year \<ge> 0 then year div 400 else - ((399 - year) div 400));
          year_of_era = year - era * 400;
          shifted_month = month + (if month > 2 then -3 else 9);
          day_of_year = (153 * shifted_month + 2) div 5 + day - 1;
          day_of_era = year_of_era * 365 + year_of_era div 4 - year_of_era div 100 + day_of_year
      in era * 146097 + day_of_era - 719468)"

definition decimal :: "string \<Rightarrow> int" where
  "decimal s = foldl (\<lambda>v c. v * 10 + int (of_char c - 48)) 0 s"

definition canonical_utc_seconds :: "string \<Rightarrow> int transport_result" where
  "canonical_utc_seconds v =
     rbind (gt_validate_timestamp v) (\<lambda>_.
     let year = decimal (byte_range v 0 4); month = decimal (byte_range v 5 7); day = decimal (byte_range v 8 10);
         hour = decimal (byte_range v 11 13); minute = decimal (byte_range v 14 16);
         second = decimal (byte_range v 17 19);
         days = days_from_civil year month day
     in Inr (days * 86400 + hour * 3600 + minute * 60 + second))"

section \<open>Acknowledgments\<close>

record delivery_ack_request =
  aq_format_version :: u16
  aq_minimum_reader_version :: u16
  aq_delta_id :: string
  aq_mount_id :: string
  aq_source_connection_id :: string
  aq_target_generation_id :: string
  aq_terminal_receipt_sha256 :: string
  aq_authorization_epoch :: freshness_epoch

definition ack_from_receipt ::
    "(string \<Rightarrow> string) \<Rightarrow> generation_delta_terminal_receipt \<Rightarrow> delivery_ack_request transport_result" where
  "ack_from_receipt digest r =
     rbind (map_err (\<lambda>e. GtTerminalReceipt (freshness_delivery_error_display e)) (receipt_validate r)) (\<lambda>_.
     rbind (map_err (\<lambda>e. GtTerminalReceipt (freshness_delivery_error_display e))
              (receipt_canonical_sha256 digest r)) (\<lambda>sha256.
     Inr \<lparr>aq_format_version = GENERATION_TRANSPORT_FORMAT_VERSION,
          aq_minimum_reader_version = GENERATION_TRANSPORT_READER_VERSION,
          aq_delta_id = tr_delta_id r, aq_mount_id = tr_mount_id r,
          aq_source_connection_id = tr_source_connection_id r,
          aq_target_generation_id = tr_target_generation_id r, aq_terminal_receipt_sha256 = sha256,
          aq_authorization_epoch = tr_authorization_epoch r\<rparr>))"

definition ack_request_validate :: "delivery_ack_request \<Rightarrow> unit transport_result" where
  "ack_request_validate a =
     rbind (gt_validate_versions (aq_format_version a) (aq_minimum_reader_version a)) (\<lambda>_.
     rbind (gt_validate_identifier ''delta_id'' (aq_delta_id a)) (\<lambda>_.
     rbind (gt_validate_identifier ''mount_id'' (aq_mount_id a)) (\<lambda>_.
     rbind (gt_validate_identifier ''source_connection_id'' (aq_source_connection_id a)) (\<lambda>_.
     rbind (gt_validate_identifier ''target_generation_id'' (aq_target_generation_id a)) (\<lambda>_.
     gt_validate_sha256 (aq_terminal_receipt_sha256 a))))))"

definition ack_validate_against_receipt ::
    "(string \<Rightarrow> string) \<Rightarrow> delivery_ack_request \<Rightarrow> generation_delta_terminal_receipt \<Rightarrow> unit transport_result" where
  "ack_validate_against_receipt digest a r =
     rbind (ack_from_receipt digest r) (\<lambda>b. if a \<noteq> b then Inl GtAcknowledgmentMismatch else Inr ())"

datatype ack_status = AckAccepted | AckAlreadyAccepted | AckUnknown

record delivery_ack =
  ak_format_version :: u16
  ak_minimum_reader_version :: u16
  ak_delta_id :: string
  ak_terminal_receipt_sha256 :: string
  ak_status :: ack_status
  ak_acknowledged_at :: string

definition ack_validate_against :: "delivery_ack \<Rightarrow> delivery_ack_request \<Rightarrow> unit transport_result" where
  "ack_validate_against k a =
     rbind (ack_request_validate a) (\<lambda>_.
     rbind (gt_validate_versions (ak_format_version k) (ak_minimum_reader_version k)) (\<lambda>_.
     rbind (gt_validate_sha256 (ak_terminal_receipt_sha256 k)) (\<lambda>_.
     rbind (gt_validate_timestamp (ak_acknowledged_at k)) (\<lambda>_.
     if ak_status k = AckUnknown
       \<or> ak_delta_id k \<noteq> aq_delta_id a
       \<or> ak_terminal_receipt_sha256 k \<noteq> aq_terminal_receipt_sha256 a
     then Inl GtAcknowledgmentMismatch else Inr ()))))"

section \<open>Leases\<close>

record pin_acquire_request =
  qa_format_version :: u16
  qa_minimum_reader_version :: u16
  qa_operation_id :: string
  qa_device_scope_id :: string
  qa_source_connection_id :: string
  qa_generation_id :: string
  qa_requested_lease_seconds :: u64
  qa_fallback_policy :: pin_fallback_policy

definition acquire_request_validate :: "pin_acquire_request \<Rightarrow> unit transport_result" where
  "acquire_request_validate q =
     rbind (gt_validate_versions (qa_format_version q) (qa_minimum_reader_version q)) (\<lambda>_.
     rbind (gt_validate_opaque ''operation_id'' (qa_operation_id q) MAX_GENERATION_PIN_OPERATION_ID_BYTES) (\<lambda>_.
     rbind (gt_validate_opaque ''device_scope_id'' (qa_device_scope_id q) MAX_OPAQUE_DEVICE_SCOPE_ID_BYTES) (\<lambda>_.
     rbind (gt_validate_identifier ''source_connection_id'' (qa_source_connection_id q)) (\<lambda>_.
     rbind (gt_validate_identifier ''generation_id'' (qa_generation_id q)) (\<lambda>_.
     rbind (validate_lease_seconds (qa_requested_lease_seconds q)) (\<lambda>_.
     validate_fallback (qa_fallback_policy q)))))))"

record pin_lease =
  pl_lease_id :: string
  pl_device_scope_id :: string
  pl_source_connection_id :: string
  pl_generation_id :: string
  pl_lease_seconds :: u64
  pl_issued_at :: string
  pl_expires_at :: string
  pl_active_leases_for_device :: u16
  pl_max_active_leases_per_device :: u16

text \<open>\<open>seconds as i64\<close> reads the bits as a signed number.\<close>

definition lease_validate :: "pin_lease \<Rightarrow> unit transport_result" where
  "lease_validate l =
     rbind (gt_validate_opaque ''lease_id'' (pl_lease_id l) MAX_OPAQUE_PIN_LEASE_ID_BYTES) (\<lambda>_.
     rbind (gt_validate_opaque ''device_scope_id'' (pl_device_scope_id l) MAX_OPAQUE_DEVICE_SCOPE_ID_BYTES) (\<lambda>_.
     rbind (gt_validate_identifier ''source_connection_id'' (pl_source_connection_id l)) (\<lambda>_.
     rbind (gt_validate_identifier ''generation_id'' (pl_generation_id l)) (\<lambda>_.
     rbind (validate_lease_seconds (pl_lease_seconds l)) (\<lambda>_.
     rbind (gt_validate_timestamp (pl_issued_at l)) (\<lambda>_.
     rbind (gt_validate_timestamp (pl_expires_at l)) (\<lambda>_.
     rbind (canonical_utc_seconds (pl_issued_at l)) (\<lambda>issued_at.
     rbind (canonical_utc_seconds (pl_expires_at l)) (\<lambda>expires_at.
     if i64_checked (expires_at - issued_at) \<noteq> Some (sint (pl_lease_seconds l)) then Inl GtInvalidPinLeaseExpiry
     else if pl_active_leases_for_device l = 0
       \<or> pl_max_active_leases_per_device l = 0
       \<or> pl_active_leases_for_device l > pl_max_active_leases_per_device l
       \<or> pl_max_active_leases_per_device l > MAX_GENERATION_PIN_LEASES_PER_DEVICE
     then Inl GtInvalidPinQuota else Inr ())))))))))"

definition lease_validate_at :: "pin_lease \<Rightarrow> string \<Rightarrow> unit transport_result" where
  "lease_validate_at l trusted_server_time =
     rbind (lease_validate l) (\<lambda>_.
     rbind (canonical_utc_seconds (pl_issued_at l)) (\<lambda>issued_at.
     rbind (canonical_utc_seconds trusted_server_time) (\<lambda>server_time.
     rbind (canonical_utc_seconds (pl_expires_at l)) (\<lambda>expires_at.
     if server_time < issued_at \<or> server_time \<ge> expires_at then Inl GtExpiredPinLease else Inr ()))))"

datatype pin_unavailable_reason =
    PinningUnsupported | PinGenerationUnavailable | PinQuotaExceeded | PinTemporarilyUnavailable | PinUnknown

text \<open>The fields that both variants of the response carry.\<close>

record pin_response_head =
  rh_format_version :: u16
  rh_minimum_reader_version :: u16
  rh_operation_id :: string
  rh_device_scope_id :: string
  rh_source_connection :: string
  rh_requested_generation_id :: string
  rh_requested_lease_seconds :: u64
  rh_fallback_policy :: pin_fallback_policy
  rh_server_time :: string

datatype pin_acquire_response =
    PinGranted pin_response_head bool pin_lease
  | PinUnavailable pin_response_head pin_unavailable_reason "u64 option"

definition head_mismatch :: "pin_response_head \<Rightarrow> pin_acquire_request \<Rightarrow> bool" where
  "head_mismatch h q \<longleftrightarrow>
     rh_operation_id h \<noteq> qa_operation_id q
   \<or> rh_device_scope_id h \<noteq> qa_device_scope_id q
   \<or> rh_source_connection h \<noteq> qa_source_connection_id q
   \<or> rh_requested_generation_id h \<noteq> qa_generation_id q
   \<or> rh_requested_lease_seconds h \<noteq> qa_requested_lease_seconds q
   \<or> rh_fallback_policy h \<noteq> qa_fallback_policy q"

definition acquire_against_capability :: "pin_acquire_request \<Rightarrow> pin_lease_capability \<Rightarrow> unit transport_result" where
  "acquire_against_capability q c =
     rbind (acquire_request_validate q) (\<lambda>_.
     rbind (validate_pin_capability c) (\<lambda>_.
     if \<not> (pc_min_lease_seconds c \<le> qa_requested_lease_seconds q
            \<and> qa_requested_lease_seconds q \<le> pc_max_lease_seconds c)
       \<or> qa_fallback_policy q \<notin> set (pc_fallback_policies c)
     then Inl GtPinLeaseMismatch else Inr ()))"

definition lease_beyond :: "pin_lease \<Rightarrow> u64 \<Rightarrow> pin_lease_capability \<Rightarrow> bool" where
  "lease_beyond l requested c \<longleftrightarrow>
     pl_lease_seconds l > requested
   \<or> pl_lease_seconds l < pc_min_lease_seconds c
   \<or> pl_lease_seconds l > pc_max_lease_seconds c
   \<or> pl_max_active_leases_per_device l > pc_max_active_leases_per_device c
   \<or> pl_active_leases_for_device l > pc_max_active_leases_per_device c"

definition acquire_validate_against ::
    "pin_acquire_response \<Rightarrow> pin_acquire_request \<Rightarrow> pin_lease_capability \<Rightarrow> unit transport_result" where
  "acquire_validate_against p q c =
     rbind (acquire_against_capability q c) (\<lambda>_.
     case p of
       PinGranted h fallback_applied l \<Rightarrow>
         rbind (gt_validate_versions (rh_format_version h) (rh_minimum_reader_version h)) (\<lambda>_.
         rbind (gt_validate_timestamp (rh_server_time h)) (\<lambda>_.
         rbind (lease_validate_at l (rh_server_time h)) (\<lambda>_.
         if head_mismatch h q
           \<or> pl_device_scope_id l \<noteq> qa_device_scope_id q
           \<or> pl_source_connection_id l \<noteq> qa_source_connection_id q
           \<or> lease_beyond l (qa_requested_lease_seconds q) c
           \<or> (fallback_applied
              \<and> (qa_fallback_policy q \<noteq> UseLatestRetained \<or> pl_generation_id l = qa_generation_id q))
           \<or> (\<not> fallback_applied \<and> pl_generation_id l \<noteq> qa_generation_id q)
         then Inl GtPinLeaseMismatch else Inr ())))
     | PinUnavailable h reason retry_after_seconds \<Rightarrow>
         rbind (gt_validate_versions (rh_format_version h) (rh_minimum_reader_version h)) (\<lambda>_.
         rbind (gt_validate_timestamp (rh_server_time h)) (\<lambda>_.
         if head_mismatch h q
           \<or> reason = PinUnknown
           \<or> (case retry_after_seconds of
                Some seconds \<Rightarrow> seconds = 0 \<or> seconds > MAX_GENERATION_PIN_RETRY_AFTER_SECONDS
              | None \<Rightarrow> False)
         then Inl GtPinLeaseMismatch else Inr ())))"

section \<open>Renewal and release\<close>

record pin_renew_request =
  qr_format_version :: u16
  qr_minimum_reader_version :: u16
  qr_operation_id :: string
  qr_lease_id :: string
  qr_device_scope_id :: string
  qr_source_connection_id :: string
  qr_generation_id :: string
  qr_requested_lease_seconds :: u64

definition renew_request_validate :: "pin_renew_request \<Rightarrow> unit transport_result" where
  "renew_request_validate q =
     rbind (gt_validate_versions (qr_format_version q) (qr_minimum_reader_version q)) (\<lambda>_.
     rbind (gt_validate_opaque ''operation_id'' (qr_operation_id q) MAX_GENERATION_PIN_OPERATION_ID_BYTES) (\<lambda>_.
     rbind (gt_validate_opaque ''lease_id'' (qr_lease_id q) MAX_OPAQUE_PIN_LEASE_ID_BYTES) (\<lambda>_.
     rbind (gt_validate_opaque ''device_scope_id'' (qr_device_scope_id q) MAX_OPAQUE_DEVICE_SCOPE_ID_BYTES) (\<lambda>_.
     rbind (gt_validate_identifier ''source_connection_id'' (qr_source_connection_id q)) (\<lambda>_.
     rbind (gt_validate_identifier ''generation_id'' (qr_generation_id q)) (\<lambda>_.
     validate_lease_seconds (qr_requested_lease_seconds q)))))))"

record pin_renewal =
  pw_format_version :: u16
  pw_minimum_reader_version :: u16
  pw_operation_id :: string
  pw_requested_lease_seconds :: u64
  pw_server_time :: string
  pw_lease :: pin_lease

definition renew_against_capability :: "pin_renew_request \<Rightarrow> pin_lease_capability \<Rightarrow> unit transport_result" where
  "renew_against_capability q c =
     rbind (renew_request_validate q) (\<lambda>_.
     rbind (validate_pin_capability c) (\<lambda>_.
     if \<not> (pc_min_lease_seconds c \<le> qr_requested_lease_seconds q
            \<and> qr_requested_lease_seconds q \<le> pc_max_lease_seconds c)
     then Inl GtPinLeaseMismatch else Inr ()))"

definition renewal_validate_against ::
    "pin_renewal \<Rightarrow> pin_renew_request \<Rightarrow> pin_lease_capability \<Rightarrow> unit transport_result" where
  "renewal_validate_against w q c =
     rbind (renew_against_capability q c) (\<lambda>_.
     rbind (gt_validate_versions (pw_format_version w) (pw_minimum_reader_version w)) (\<lambda>_.
     rbind (gt_validate_opaque ''operation_id'' (pw_operation_id w) MAX_GENERATION_PIN_OPERATION_ID_BYTES) (\<lambda>_.
     rbind (gt_validate_timestamp (pw_server_time w)) (\<lambda>_.
     rbind (lease_validate_at (pw_lease w) (pw_server_time w)) (\<lambda>_.
     if pw_operation_id w \<noteq> qr_operation_id q
       \<or> pw_requested_lease_seconds w \<noteq> qr_requested_lease_seconds q
       \<or> pl_lease_id (pw_lease w) \<noteq> qr_lease_id q
       \<or> pl_device_scope_id (pw_lease w) \<noteq> qr_device_scope_id q
       \<or> pl_source_connection_id (pw_lease w) \<noteq> qr_source_connection_id q
       \<or> pl_generation_id (pw_lease w) \<noteq> qr_generation_id q
       \<or> lease_beyond (pw_lease w) (qr_requested_lease_seconds q) c
     then Inl GtPinLeaseMismatch else Inr ())))))"

record pin_release_request =
  ql_format_version :: u16
  ql_minimum_reader_version :: u16
  ql_operation_id :: string
  ql_lease_id :: string
  ql_device_scope_id :: string

definition release_request_validate :: "pin_release_request \<Rightarrow> unit transport_result" where
  "release_request_validate q =
     rbind (gt_validate_versions (ql_format_version q) (ql_minimum_reader_version q)) (\<lambda>_.
     rbind (gt_validate_opaque ''operation_id'' (ql_operation_id q) MAX_GENERATION_PIN_OPERATION_ID_BYTES) (\<lambda>_.
     rbind (gt_validate_opaque ''lease_id'' (ql_lease_id q) MAX_OPAQUE_PIN_LEASE_ID_BYTES) (\<lambda>_.
     gt_validate_opaque ''device_scope_id'' (ql_device_scope_id q) MAX_OPAQUE_DEVICE_SCOPE_ID_BYTES)))"

datatype pin_release_status = PinReleased | PinAlreadyReleased | PinExpired | PinReleaseUnknown

record pin_release =
  pv_format_version :: u16
  pv_minimum_reader_version :: u16
  pv_operation_id :: string
  pv_lease_id :: string
  pv_device_scope_id :: string
  pv_status :: pin_release_status
  pv_released_at :: string

definition release_validate_against :: "pin_release \<Rightarrow> pin_release_request \<Rightarrow> unit transport_result" where
  "release_validate_against x q =
     rbind (release_request_validate q) (\<lambda>_.
     rbind (gt_validate_versions (pv_format_version x) (pv_minimum_reader_version x)) (\<lambda>_.
     rbind (gt_validate_opaque ''operation_id'' (pv_operation_id x) MAX_GENERATION_PIN_OPERATION_ID_BYTES) (\<lambda>_.
     rbind (gt_validate_timestamp (pv_released_at x)) (\<lambda>_.
     if pv_status x = PinReleaseUnknown
       \<or> pv_operation_id x \<noteq> ql_operation_id q
       \<or> pv_lease_id x \<noteq> ql_lease_id q
       \<or> pv_device_scope_id x \<noteq> ql_device_scope_id q
     then Inl GtPinLeaseMismatch else Inr ()))))"

section \<open>The two conversions of timestamps agree\<close>

lemma decimal_parse: "parse_ascii_decimal s = Some n \<Longrightarrow> decimal s = int n"
proof -
  have "foldl (\<lambda>v c. v * 10 + int (of_char c - 48)) (int a) s = int n" if "fold_decimal a s = Some n" for a
    using that
  proof (induction s arbitrary: a)
    case (Cons c s)
    from Cons.prems have "fold_decimal (a * 10 + (of_char c - 48)) s = Some n" by (simp split: if_splits)
    from Cons.IH[OF this] show ?case by (simp add: of_nat_mult)
  qed simp
  from this[of 0] show "parse_ascii_decimal s = Some n \<Longrightarrow> decimal s = int n"
    by (simp add: parse_ascii_decimal_def decimal_def)
qed

lemma canonical_utc_seconds_eq:
  "canonical_utc_seconds v = (case timestamp_seconds v of Some n \<Rightarrow> Inr n | None \<Rightarrow> Inl GtInvalidTimestamp)"
proof (cases "canonical_utc_timestamp v")
  case True
  then obtain f where f: "fields_valid f" "timestamp_fields v = Some f" and len: "length v = 20"
    by (auto simp: canonical_utc_timestamp_def timestamp_shape_def split: if_splits option.splits)
  have ok: "gt_validate_timestamp v = Inr ()"
    using True len by (simp add: gt_validate_timestamp_def MAX_DELIVERY_TIMESTAMP_BYTES_def
        validate_canonical_utc_timestamp_def)
  have fields: "decimal (byte_range v 0 4) = int (ut_year f)" "decimal (byte_range v 5 7) = int (ut_month f)"
    "decimal (byte_range v 8 10) = int (ut_day f)" "decimal (byte_range v 11 13) = int (ut_hour f)"
    "decimal (byte_range v 14 16) = int (ut_minute f)" "decimal (byte_range v 17 19) = int (ut_second f)"
    using f(2) by (auto simp: timestamp_fields_def bind_eq_Some_conv dest!: decimal_parse)
  have "int (ut_year f) - (if int (ut_month f) \<le> 2 then 1 else 0) \<ge> 0"
    using f(1) by (simp add: fields_valid_def)
  then show ?thesis
    using True ok f(2) fields
    by (simp add: canonical_utc_seconds_def timestamp_seconds_def days_from_civil_def fields_seconds_def Let_def)
next
  case False
  then show ?thesis
    by (auto simp: canonical_utc_seconds_def gt_validate_timestamp_def validate_canonical_utc_timestamp_def
        timestamp_seconds_def)
qed


section \<open>What a granted lease binds\<close>

lemma canonical_utc_seconds_Inr: "canonical_utc_seconds v = Inr n \<longleftrightarrow> timestamp_seconds v = Some n"
  by (auto simp: canonical_utc_seconds_eq split: option.split)

lemma validate_lease_seconds_Inr:
  "validate_lease_seconds s = Inr u \<longleftrightarrow> 60 \<le> uint s \<and> uint s \<le> 86400"
  by (simp add: validate_lease_seconds_def MIN_GENERATION_PIN_LEASE_SECONDS_def
      MAX_GENERATION_PIN_LEASE_SECONDS_def word_le_def)

lemma small_sint: "uint s < 2 ^ 63 \<Longrightarrow> sint s = uint s" for s :: u64
  by (simp add: sint_uint signed_take_bit_int_eq_self_iff) (rule order_trans[OF _ uint_ge_0], simp)

lemma lease_validate_Inr:
  assumes "lease_validate l = Inr ()"
  obtains issued expires where "timestamp_seconds (pl_issued_at l) = Some issued"
    "timestamp_seconds (pl_expires_at l) = Some expires" "expires = issued + uint (pl_lease_seconds l)"
    "60 \<le> uint (pl_lease_seconds l)" "uint (pl_lease_seconds l) \<le> 86400"
    "pl_active_leases_for_device l \<noteq> 0" "pl_active_leases_for_device l \<le> pl_max_active_leases_per_device l"
proof -
  from assms obtain issued expires where v: "validate_lease_seconds (pl_lease_seconds l) = Inr ()"
    and i: "canonical_utc_seconds (pl_issued_at l) = Inr issued"
    and e: "canonical_utc_seconds (pl_expires_at l) = Inr expires"
    and d: "i64_checked (expires - issued) = Some (sint (pl_lease_seconds l))"
    and q: "pl_active_leases_for_device l \<noteq> 0" "\<not> pl_active_leases_for_device l > pl_max_active_leases_per_device l"
    unfolding lease_validate_def by (simp only: rbind_Inr_iff guard_Inr not_not) auto
  from v have s: "60 \<le> uint (pl_lease_seconds l)" "uint (pl_lease_seconds l) \<le> 86400"
    by (simp_all only: validate_lease_seconds_Inr)
  then have "sint (pl_lease_seconds l) = uint (pl_lease_seconds l)" by (intro small_sint) simp
  with d have "expires = issued + uint (pl_lease_seconds l)" by (simp add: i64_checked_def split: if_splits)
  with i e s q show thesis by (intro that) (simp_all add: canonical_utc_seconds_Inr not_less)
qed

lemma lease_validate_at_Inr:
  assumes "lease_validate_at l server_time = Inr ()"
  obtains issued now expires where "lease_validate l = Inr ()" "timestamp_seconds (pl_issued_at l) = Some issued"
    "timestamp_seconds server_time = Some now" "timestamp_seconds (pl_expires_at l) = Some expires"
    "issued \<le> now" "now < expires"
  using assms unfolding lease_validate_at_def
  by (simp only: rbind_Inr_iff guard_Inr canonical_utc_seconds_Inr) auto

lemma capability_bound:
  "validate_pin_capability c = Inr () \<Longrightarrow> pc_max_active_leases_per_device c \<le> MAX_GENERATION_PIN_LEASES_PER_DEVICE"
  unfolding validate_pin_capability_def by (simp only: rbind_Inr_iff guard_Inr not_less) auto

lemma granted_lease:
  assumes "acquire_validate_against (PinGranted h fallback_applied l) q c = Inr ()"
  shows "\<exists>issued now expires. timestamp_seconds (pl_issued_at l) = Some issued
     \<and> timestamp_seconds (rh_server_time h) = Some now \<and> timestamp_seconds (pl_expires_at l) = Some expires
     \<and> issued \<le> now \<and> now < expires \<and> expires = issued + uint (pl_lease_seconds l)"
    and "60 \<le> uint (pl_lease_seconds l)" "uint (pl_lease_seconds l) \<le> 86400"
    and "pl_lease_seconds l \<le> qa_requested_lease_seconds q"
    and "pc_min_lease_seconds c \<le> pl_lease_seconds l" "pl_lease_seconds l \<le> pc_max_lease_seconds c"
    and "0 < pl_active_leases_for_device l" "pl_active_leases_for_device l \<le> pl_max_active_leases_per_device l"
    and "pl_max_active_leases_per_device l \<le> pc_max_active_leases_per_device c"
    and "pc_max_active_leases_per_device c \<le> 32"
    and "pl_device_scope_id l = qa_device_scope_id q" "pl_source_connection_id l = qa_source_connection_id q"
    and "fallback_applied = (pl_generation_id l \<noteq> qa_generation_id q)"
    and "pl_generation_id l = qa_generation_id q \<or> qa_fallback_policy q = UseLatestRetained"
proof -
  from assms have cap: "acquire_against_capability q c = Inr ()"
    and at: "lease_validate_at l (rh_server_time h) = Inr ()"
    and b: "pl_device_scope_id l = qa_device_scope_id q" "pl_source_connection_id l = qa_source_connection_id q"
      "\<not> lease_beyond l (qa_requested_lease_seconds q) c"
      "fallback_applied \<longrightarrow> qa_fallback_policy q = UseLatestRetained \<and> pl_generation_id l \<noteq> qa_generation_id q"
      "\<not> fallback_applied \<longrightarrow> pl_generation_id l = qa_generation_id q"
    unfolding acquire_validate_against_def pin_acquire_response.case rbind_Inr_iff guard_Inr by auto
  from at obtain issued now expires where t: "lease_validate l = Inr ()" "timestamp_seconds (pl_issued_at l) = Some issued"
    "timestamp_seconds (rh_server_time h) = Some now" "timestamp_seconds (pl_expires_at l) = Some expires"
    "issued \<le> now" "now < expires" by (rule lease_validate_at_Inr)
  from cap have "validate_pin_capability c = Inr ()"
    unfolding acquire_against_capability_def by (simp only: rbind_Inr_iff) auto
  from capability_bound[OF this] show "pc_max_active_leases_per_device c \<le> 32"
    by (simp add: MAX_GENERATION_PIN_LEASES_PER_DEVICE_def)
  show "60 \<le> uint (pl_lease_seconds l)" "uint (pl_lease_seconds l) \<le> 86400"
    "0 < pl_active_leases_for_device l" "pl_active_leases_for_device l \<le> pl_max_active_leases_per_device l"
    using t(1) by (auto elim!: lease_validate_Inr simp: word_gt_0)
  show "\<exists>issued now expires. timestamp_seconds (pl_issued_at l) = Some issued
     \<and> timestamp_seconds (rh_server_time h) = Some now \<and> timestamp_seconds (pl_expires_at l) = Some expires
     \<and> issued \<le> now \<and> now < expires \<and> expires = issued + uint (pl_lease_seconds l)"
    using t by (auto elim!: lease_validate_Inr)
  show "pl_lease_seconds l \<le> qa_requested_lease_seconds q"
    "pc_min_lease_seconds c \<le> pl_lease_seconds l" "pl_lease_seconds l \<le> pc_max_lease_seconds c"
    "pl_max_active_leases_per_device l \<le> pc_max_active_leases_per_device c"
    using b(3) by (auto simp: lease_beyond_def not_less)
  show "pl_device_scope_id l = qa_device_scope_id q" "pl_source_connection_id l = qa_source_connection_id q"
    "fallback_applied = (pl_generation_id l \<noteq> qa_generation_id q)"
    "pl_generation_id l = qa_generation_id q \<or> qa_fallback_policy q = UseLatestRetained"
    using b by auto
qed

text \<open>C39: a granted pin lease that the client accepts for its request holds at the time of the server, ends
  exactly its number of seconds after it was issued, which is between a minute and a day, at most what was
  requested and within the selected capability, counts a quota that the capability allows, and pins the
  generation that was asked for unless the client had allowed another and the answer says so.\<close>

theorem granted_lease_bounded:
  assumes "acquire_validate_against (PinGranted h fallback_applied l) q c = Inr ()"
  shows "(\<exists>issued now expires. timestamp_seconds (pl_issued_at l) = Some issued
     \<and> timestamp_seconds (rh_server_time h) = Some now \<and> timestamp_seconds (pl_expires_at l) = Some expires
     \<and> issued \<le> now \<and> now < expires \<and> expires = issued + uint (pl_lease_seconds l))
   \<and> 60 \<le> uint (pl_lease_seconds l) \<and> uint (pl_lease_seconds l) \<le> 86400
   \<and> pl_lease_seconds l \<le> qa_requested_lease_seconds q
   \<and> pc_min_lease_seconds c \<le> pl_lease_seconds l \<and> pl_lease_seconds l \<le> pc_max_lease_seconds c
   \<and> 0 < pl_active_leases_for_device l \<and> pl_active_leases_for_device l \<le> pl_max_active_leases_per_device l
   \<and> pl_max_active_leases_per_device l \<le> pc_max_active_leases_per_device c \<and> pc_max_active_leases_per_device c \<le> 32
   \<and> pl_device_scope_id l = qa_device_scope_id q \<and> pl_source_connection_id l = qa_source_connection_id q
   \<and> fallback_applied = (pl_generation_id l \<noteq> qa_generation_id q)
   \<and> (pl_generation_id l = qa_generation_id q \<or> qa_fallback_policy q = UseLatestRetained)"
  using granted_lease[OF assms] by blast

definition sample_lease :: pin_lease where
  "sample_lease = \<lparr>pl_lease_id = ''l'', pl_device_scope_id = ''d'', pl_source_connection_id = ''c'',
     pl_generation_id = ''g'', pl_lease_seconds = 1820, pl_issued_at = ''2024-02-29T23:59:40Z'',
     pl_expires_at = ''2024-03-01T00:30:00Z'', pl_active_leases_for_device = 1,
     pl_max_active_leases_per_device = 4\<rparr>"

definition sample_acquire :: pin_acquire_request where
  "sample_acquire = \<lparr>qa_format_version = 1, qa_minimum_reader_version = 1, qa_operation_id = ''o'',
     qa_device_scope_id = ''d'', qa_source_connection_id = ''c'', qa_generation_id = ''f'',
     qa_requested_lease_seconds = 7200, qa_fallback_policy = UseLatestRetained\<rparr>"

definition sample_head :: pin_response_head where
  "sample_head = \<lparr>rh_format_version = 1, rh_minimum_reader_version = 1, rh_operation_id = ''o'',
     rh_device_scope_id = ''d'', rh_source_connection = ''c'', rh_requested_generation_id = ''f'',
     rh_requested_lease_seconds = 7200, rh_fallback_policy = UseLatestRetained,
     rh_server_time = ''2024-02-29T23:59:59Z''\<rparr>"

definition sample_capability :: pin_lease_capability where
  "sample_capability = \<lparr>pc_min_lease_seconds = 60, pc_max_lease_seconds = 7200,
     pc_max_active_leases_per_device = 8, pc_fallback_policies = [RequireExact, UseLatestRetained]\<rparr>"

lemma sample_expiry: "timestamp_seconds ''2024-03-01T00:30:00Z'' = Some 1709253000"
  by code_simp

lemmas sample_lease_times = sample_times(1,2) sample_expiry

lemma gt_timestamp: "timestamp_seconds v = Some n \<Longrightarrow> gt_validate_timestamp v = Inr ()"
  using canonical_utc_seconds_Inr[of v n] by (auto simp: canonical_utc_seconds_def rbind_Inr_iff)

lemma sample_opaque:
  "gt_validate_opaque field [c] MAX_OPAQUE_PIN_LEASE_ID_BYTES = gt_validate_opaque field [c] 1"
  "gt_validate_opaque field [c] MAX_OPAQUE_DEVICE_SCOPE_ID_BYTES = gt_validate_opaque field [c] 1"
  "gt_validate_opaque field [c] MAX_GENERATION_PIN_OPERATION_ID_BYTES = gt_validate_opaque field [c] 1"
  "gt_validate_opaque field ''l'' 1 = Inr ()" "gt_validate_opaque field ''d'' 1 = Inr ()"
  "gt_validate_opaque field ''o'' 1 = Inr ()" "gt_validate_identifier field [c] = Inr ()"
proof -
  have "trim ''l'' = ''l''" "trim ''d'' = ''d''" "trim ''o'' = ''o''" "\<not> has_control ''l''" "\<not> has_control ''d''"
    "\<not> has_control ''o''" by code_simp+
  then show "gt_validate_opaque field [c] MAX_OPAQUE_PIN_LEASE_ID_BYTES = gt_validate_opaque field [c] 1"
    "gt_validate_opaque field [c] MAX_OPAQUE_DEVICE_SCOPE_ID_BYTES = gt_validate_opaque field [c] 1"
    "gt_validate_opaque field [c] MAX_GENERATION_PIN_OPERATION_ID_BYTES = gt_validate_opaque field [c] 1"
    "gt_validate_opaque field ''l'' 1 = Inr ()" "gt_validate_opaque field ''d'' 1 = Inr ()"
    "gt_validate_opaque field ''o'' 1 = Inr ()" "gt_validate_identifier field [c] = Inr ()"
    by (simp_all add: gt_validate_opaque_def gt_validate_identifier_def MAX_OPAQUE_PIN_LEASE_ID_BYTES_def
        MAX_OPAQUE_DEVICE_SCOPE_ID_BYTES_def MAX_GENERATION_PIN_OPERATION_ID_BYTES_def MAX_DELIVERY_ID_BYTES_def)
qed

lemma sample_accepted:
  "acquire_validate_against (PinGranted sample_head True sample_lease) sample_acquire sample_capability = Inr ()"
proof -
  have v: "gt_validate_versions 1 1 = Inr ()"
    by (simp add: gt_validate_versions_def GENERATION_TRANSPORT_READER_VERSION_def)
  have s: "validate_lease_seconds 1820 = Inr ()" "validate_lease_seconds 7200 = Inr ()" "validate_lease_seconds 60 = Inr ()"
    by (simp_all add: validate_lease_seconds_Inr)
  have l: "lease_validate sample_lease = Inr ()"
    by (simp add: lease_validate_def sample_lease_def sample_opaque[unfolded One_nat_def] s gt_timestamp[OF sample_lease_times(1)]
        gt_timestamp[OF sample_lease_times(3)] canonical_utc_seconds_Inr[THEN iffD2, OF sample_lease_times(1)]
        canonical_utc_seconds_Inr[THEN iffD2, OF sample_lease_times(3)] i64_checked_def small_sint
        MAX_GENERATION_PIN_LEASES_PER_DEVICE_def)
  have at: "lease_validate_at sample_lease ''2024-02-29T23:59:59Z'' = Inr ()"
    by (simp add: lease_validate_at_def l) (simp add: sample_lease_def
        canonical_utc_seconds_Inr[THEN iffD2, OF sample_lease_times(1)]
        canonical_utc_seconds_Inr[THEN iffD2, OF sample_lease_times(2)]
        canonical_utc_seconds_Inr[THEN iffD2, OF sample_lease_times(3)])
  have cap: "validate_pin_capability sample_capability = Inr ()"
    by (simp add: validate_pin_capability_def sample_capability_def s MAX_GENERATION_PIN_LEASES_PER_DEVICE_def
        validate_fallback_def less_eq_pin_fallback_policy_def fallback_rank_def)
  have req: "acquire_against_capability sample_acquire sample_capability = Inr ()"
    by (simp add: acquire_against_capability_def cap)
      (simp add: acquire_request_validate_def sample_acquire_def sample_capability_def v s sample_opaque[unfolded One_nat_def]
        validate_fallback_def)
  show ?thesis
    by (simp add: acquire_validate_against_def req)
      (simp add: sample_head_def v gt_timestamp[OF sample_lease_times(2)] at,
        simp add: head_mismatch_def sample_acquire_def sample_lease_def lease_beyond_def sample_capability_def)
qed

theorem granted_lease_bounded_witness:
  "pl_lease_seconds sample_lease \<le> qa_requested_lease_seconds sample_acquire
   \<and> qa_fallback_policy sample_acquire = UseLatestRetained \<and> pl_generation_id sample_lease \<noteq> qa_generation_id sample_acquire"
  using granted_lease_bounded[OF sample_accepted] by (simp add: sample_acquire_def)

end
