(* ===== verification/Prepare.thy ===== *)
theory Prepare
  imports Push_Pipeline Portable
begin

text \<open>
  \<open>locality-engine/src/prepare_changeset.rs\<close>: the deterministic preparation of a changeset, which
  parses the edited file, runs the push pipeline, rejects operations the connector does not support
  and derives the portable plan and the readable diff. The lemmas show what a changeset that may
  proceed satisfies and that only an unparsable file makes the preparation fail.
\<close>

record prepare_changeset_request =
  pq_logical_path :: logical_path
  pq_edited_markdown :: string
  pq_delivered_shadow :: shadow_document
  pq_supported_operations :: "push_operation_kind set"
  pq_guardrail_policy :: guardrail_policy
  pq_total_scope_entities :: "usize option"
  pq_approval :: push_approval
  pq_read_only :: bool
  pq_body_diff_mode :: body_diff_mode

definition prepare_request_new ::
    "logical_path \<Rightarrow> string \<Rightarrow> shadow_document \<Rightarrow> push_operation_kind set \<Rightarrow> prepare_changeset_request" where
  "prepare_request_new lp edited shadow supported =
     \<lparr>pq_logical_path = lp, pq_edited_markdown = edited, pq_delivered_shadow = shadow,
      pq_supported_operations = supported, pq_guardrail_policy = guardrail_policy_default,
      pq_total_scope_entities = None, pq_approval = push_approval_default, pq_read_only = False,
      pq_body_diff_mode = Block\<rparr>"

record prepared_changeset =
  pc_pipeline :: push_pipeline_result
  pc_readable_diff :: "readable_diff_output option"
  pc_source_operation_plan :: "source_operation_plan option"

definition unsupported_kinds :: "push_plan \<Rightarrow> push_operation_kind set \<Rightarrow> string list" where
  "unsupported_kinds plan supported =
     bm_keys (bm_collect (map (\<lambda>k. (kind_as_str k, ()))
       (filter (\<lambda>k. k \<notin> supported) (map operation_kind (operations plan)))))"

definition classify_supported_operations ::
    "push_pipeline_result \<Rightarrow> push_operation_kind set \<Rightarrow> push_pipeline_result" where
  "classify_supported_operations pipeline supported =
     (case pr_plan pipeline of
        None \<Rightarrow> pipeline
      | Some plan \<Rightarrow>
          if pr_action pipeline \<notin> set [ProceedToApply, ConfirmPlan, ConfirmDangerousPlan] then pipeline
          else if unsupported_kinds plan supported \<noteq> []
          then pipeline\<lparr>pr_action := unsupported_operations (unsupported_kinds plan supported)\<rparr>
          else pipeline)"

definition changeset_readable_diff ::
    "unified_diff \<Rightarrow> logical_path \<Rightarrow> string \<Rightarrow> shadow_document \<Rightarrow> push_pipeline_result \<Rightarrow> readable_diff_output option" where
  "changeset_readable_diff unified lp edited shadow pipeline =
     (case pr_plan pipeline of
        None \<Rightarrow> None
      | Some plan \<Rightarrow>
          if plan_is_empty plan then None
          else readable_diff_for_file unified (logical_path_str lp)
                 (Some (render_canonical_markdown (cd_new (sd_frontmatter shadow) (sd_rendered_body shadow))))
                 (Some edited))"

definition changeset_pipeline_request ::
    "prepare_changeset_request \<Rightarrow> 'n parsed_canonical_document \<Rightarrow> 'n push_pipeline_request" where
  "changeset_pipeline_request request parsed =
     (push_pipeline_request_new (to_relative_path_buf (pq_logical_path request)) parsed (pq_delivered_shadow request))
       \<lparr>rq_guardrail_policy := pq_guardrail_policy request,
        rq_body_diff_mode := pq_body_diff_mode request,
        rq_approval := pq_approval request,
        rq_read_only := pq_read_only request,
        rq_total_mount_entities := pq_total_scope_entities request\<rparr>"

definition prepare_changeset :: "'n yaml_lib \<Rightarrow> unicode_lib \<Rightarrow> unified_diff \<Rightarrow> prepare_changeset_request
    \<Rightarrow> prepared_changeset locality_result" where
  "prepare_changeset Y U unified request =
     (let lp = pq_logical_path request; file = to_relative_path_buf lp in
      rbind (map_err (\<lambda>error. EValidation [vi_new ''canonical_parse_error'' file (cpe_line error)
               (cpe_message error) (Some ''repair the canonical Markdown envelope before submitting'')])
             (parse_canonical_markdown Y (pq_edited_markdown request))) (\<lambda>parsed.
      let pipeline = classify_supported_operations
            (plan_push_pipeline Y (changeset_pipeline_request request parsed))
            (pq_supported_operations request)
      in rbind (case pr_plan pipeline of
             None \<Rightarrow> Inr None
           | Some plan \<Rightarrow>
               map_err (\<lambda>error. EValidation [vi_new ''portable_operation_path_invalid'' file None
                 (logical_path_error_display error)
                 (Some ''use a normalized relative path for every changeset operation'')])
                 (rbind (source_operation_plan_from U plan) (\<lambda>sp. Inr (Some sp)))) (\<lambda>sp.
         Inr \<lparr>pc_pipeline = pipeline,
              pc_readable_diff = changeset_readable_diff unified lp (pq_edited_markdown request)
                (pq_delivered_shadow request) pipeline,
              pc_source_operation_plan = sp\<rparr>)))"

section \<open>Supported operations\<close>

lemma bm_insert_not_Nil: "bm_insert k v m \<noteq> []"
  by (cases "(k, v, m)" rule: bm_insert.cases) auto

lemma unsupported_kinds_Nil:
  "unsupported_kinds plan supported = [] \<longleftrightarrow> (\<forall>op\<in>set (operations plan). operation_kind op \<in> supported)"
proof -
  have "bm_collect (map (\<lambda>k. (kind_as_str k, ())) ks) = [] \<longleftrightarrow> ks = []" for ks
    by (cases ks rule: rev_cases) (auto simp: bm_extend_def bm_insert_not_Nil)
  then show ?thesis by (auto simp: unsupported_kinds_def filter_empty_conv)
qed

lemma classify_supported_plan [simp]: "pr_plan (classify_supported_operations r s) = pr_plan r"
  by (simp add: classify_supported_operations_def split: option.split)

lemma classify_supported_proceed:
  "pr_action (classify_supported_operations r s) = ProceedToApply \<longleftrightarrow>
   pr_action r = ProceedToApply \<and>
   (case pr_plan r of None \<Rightarrow> True | Some plan \<Rightarrow> \<forall>op\<in>set (operations plan). operation_kind op \<in> s)"
  by (auto simp: classify_supported_operations_def unsupported_operations_def
      unsupported_kinds_Nil[symmetric] split: option.split)

section \<open>Plans of the pipeline are portable\<close>

lemma pipeline_plan: "pr_plan (plan_push_pipeline Y rq) = Some plan \<Longrightarrow> request_plan Y rq = Inr plan"
  by (auto simp: plan_push_pipeline_def fix_validation_def Let_def
      split: if_splits sum.splits locality_error.splits)

lemma request_plan_no_host_path:
  assumes "request_plan Y rq = Inr plan" and "op \<in> set (operations plan)"
  shows "host_path_of op = None"
proof (cases "rq_body_diff_mode rq")
  case Block
  then have "plan_block_diff Y (rq_shadow rq) (pd_document (rq_edited rq)) (pd_body_start_line (rq_edited rq)) = Inr plan"
    using assms(1) by (simp add: request_plan_def engine_plan_push_def with_edited_body_start_line_def engine_new_def)
  from plan_targets[OF this] assms(2) have "targets_shadow (rq_shadow rq) op" by (auto simp: list_all_iff)
  then show ?thesis by (cases op) (simp_all add: targets_shadow_def host_path_of_def)
next
  case WholeEntity
  then obtain ops where "property_diff_operations Y (rq_shadow rq) (pd_document (rq_edited rq)) = Inr ops"
    and "operations plan = ops \<or> (\<exists>e b. operations plan = ops @ [UpdateEntityBody e b])"
    using assms(1) by (auto simp: request_plan_def plan_whole_entity_diff_def rbind_Inr_iff plan_new_def)
  with property_ops_shape assms(2) show ?thesis by (fastforce simp: host_path_of_def)
qed

lemma pipeline_plan_portable:
  assumes "pr_plan (plan_push_pipeline Y rq) = Some plan"
  shows "\<exists>sp. source_operation_plan_from U plan = Inr sp \<and> legacy_plan sp = plan"
proof -
  have np: "\<forall>op\<in>set (operations plan). host_path_of op = None"
    using request_plan_no_host_path[OF pipeline_plan[OF assms]] by blast
  then have "\<not> isl (source_operation_plan_from U plan)" by (auto simp: source_plan_error)
  then obtain sp where sp: "source_operation_plan_from U plan = Inr sp" by (auto dest: not_isl_Inr)
  with portable_plan[OF sp] np show ?thesis by simp
qed

lemma prepare_fails:
  "isl (prepare_changeset Y U unified request) \<longleftrightarrow> isl (parse_canonical_markdown Y (pq_edited_markdown request))"
proof (cases "parse_canonical_markdown Y (pq_edited_markdown request)")
  case (Inr parsed)
  let ?r = "plan_push_pipeline Y (changeset_pipeline_request request parsed)"
  show ?thesis
  proof (cases "pr_plan ?r")
    case (Some plan)
    with pipeline_plan_portable[of Y "changeset_pipeline_request request parsed" plan U] Inr
    show ?thesis by (auto simp: prepare_changeset_def Let_def)
  qed (simp add: prepare_changeset_def Let_def Inr)
qed (simp add: prepare_changeset_def Let_def)


text \<open>What a prepared changeset that may proceed guarantees. The scope is writable, the plan is not
  empty, every operation is supported by the connector, the approval its guardrails ask for was given,
  and the portable plan handed to the connector is the approved plan.\<close>

theorem prepared_changeset_proceeds:
  assumes "prepare_changeset Y U unified request = Inr pc" and "pr_action (pc_pipeline pc) = ProceedToApply"
  shows "\<exists>plan sp. pr_plan (pc_pipeline pc) = Some plan \<and> \<not> plan_is_empty plan \<and> \<not> pq_read_only request
     \<and> (\<forall>op\<in>set (operations plan). operation_kind op \<in> pq_supported_operations request)
     \<and> (if evaluate_guardrails plan (pq_guardrail_policy request) (pq_total_scope_entities request) = Proceed
        then assume_yes (pq_approval request) else confirm_dangerous (pq_approval request))
     \<and> pc_source_operation_plan pc = Some sp \<and> legacy_plan sp = plan"
proof -
  obtain parsed where parsed: "parse_canonical_markdown Y (pq_edited_markdown request) = Inr parsed"
    using assms(1) by (auto simp: prepare_changeset_def Let_def rbind_Inr_iff)
  let ?rq = "changeset_pipeline_request request parsed"
  let ?r = "plan_push_pipeline Y ?rq"
  have pc: "pc_pipeline pc = classify_supported_operations ?r (pq_supported_operations request)"
    using assms(1) by (auto simp: prepare_changeset_def Let_def parsed rbind_Inr_iff)
  have act: "pr_action ?r = ProceedToApply" and sup: "case pr_plan ?r of None \<Rightarrow> True
      | Some plan \<Rightarrow> \<forall>op\<in>set (operations plan). operation_kind op \<in> pq_supported_operations request"
    using assms(2) by (simp_all add: pc classify_supported_proceed)
  from act[unfolded pipeline_proceeds] obtain plan where plan: "pr_plan ?r = Some plan" "operations plan \<noteq> []"
    and rw: "\<not> rq_read_only ?rq"
    and appr: "if evaluate_guardrails plan (rq_guardrail_policy ?rq) (rq_total_mount_entities ?rq) = Proceed
        then assume_yes (rq_approval ?rq) else confirm_dangerous (rq_approval ?rq)"
    by blast
  from pipeline_plan_portable[OF plan(1)] obtain sp where
    sp: "source_operation_plan_from U plan = Inr sp" "legacy_plan sp = plan" by blast
  then have "pc_source_operation_plan pc = Some sp"
    using assms(1) plan(1) by (auto simp: prepare_changeset_def Let_def parsed)
  with plan rw appr sup sp show ?thesis
    by (auto simp: pc changeset_pipeline_request_def push_pipeline_request_new_def plan_is_empty_def)
qed

text \<open>A YAML library that reads every frontmatter as that of one identified page.\<close>

definition page_yaml :: "nat yaml_lib" where
  "page_yaml =
     \<lparr>from_str = (\<lambda>s. Inr
        \<lparr>rf_loc = Some \<lparr>rlm_id = Some ''e'', rlm_entity_type = Some ''page'', rlm_parent = None,
           rlm_private = None, rlm_synced_at = Some ''t'', rlm_remote_edited_at = Some ''t''\<rparr>,
         rf_title = Some ''A'', rf_properties = []\<rparr>),
      number_to_string = dec, value_eq = (=)\<rparr>"

definition sample_prepare :: prepare_changeset_request where
  "sample_prepare =
     (prepare_request_new (LogicalPath ''a/page.md'')
        (''---'' @ [CHR 0x0A] @ ''title: A'' @ [CHR 0x0A] @ ''---'' @ [CHR 0x0A] @ ''B'')
        \<lparr>sd_entity_id = RemoteId ''e'', sd_frontmatter = [], sd_body_hash = [], sd_rendered_body = [],
         sd_blocks = []\<rparr> {KAppendBlock})
       \<lparr>pq_approval := \<lparr>assume_yes = True, confirm_dangerous = False\<rparr>\<rparr>"

theorem prepared_changeset_proceeds_witness:
  "\<exists>pc sp. prepare_changeset page_yaml plain_unicode (\<lambda>_ _ _ _. []) sample_prepare = Inr pc
     \<and> pr_action (pc_pipeline pc) = ProceedToApply
     \<and> pc_source_operation_plan pc = Some sp \<and> pr_plan (pc_pipeline pc) = Some (legacy_plan sp)"
proof -
  have "case parse_canonical_markdown page_yaml (pq_edited_markdown sample_prepare) of
      Inl _ \<Rightarrow> False
    | Inr p \<Rightarrow> (let r = plan_push_pipeline page_yaml (changeset_pipeline_request sample_prepare p)
        in pr_action r = ProceedToApply \<and> (case pr_plan r of None \<Rightarrow> False
           | Some plan \<Rightarrow> list_all (\<lambda>op. operation_kind op = KAppendBlock) (operations plan)))"
    by code_simp
  then obtain p plan where p: "parse_canonical_markdown page_yaml (pq_edited_markdown sample_prepare) = Inr p"
    and r: "pr_action (plan_push_pipeline page_yaml (changeset_pipeline_request sample_prepare p)) = ProceedToApply"
      "pr_plan (plan_push_pipeline page_yaml (changeset_pipeline_request sample_prepare p)) = Some plan"
      "list_all (\<lambda>op. operation_kind op = KAppendBlock) (operations plan)"
    by (auto simp: Let_def split: sum.splits option.splits)
  obtain pc where pc: "prepare_changeset page_yaml plain_unicode (\<lambda>_ _ _ _. []) sample_prepare = Inr pc"
    using prepare_fails[of page_yaml plain_unicode "\<lambda>_ _ _ _. []" sample_prepare] p not_isl_Inr by auto
  then have "pc_pipeline pc = classify_supported_operations
      (plan_push_pipeline page_yaml (changeset_pipeline_request sample_prepare p)) {KAppendBlock}"
    by (auto simp: prepare_changeset_def Let_def p rbind_Inr_iff)
      (simp add: sample_prepare_def prepare_request_new_def)
  with r have "pr_action (pc_pipeline pc) = ProceedToApply"
    by (auto simp: classify_supported_proceed list_all_iff)
  with prepared_changeset_proceeds[OF pc this] pc show ?thesis by auto
qed

end
