(* ===== verification/Pull_Scheduler.thy ===== *)
theory Pull_Scheduler
  imports Sync Core_Error
begin

text \<open>
  The pull scheduler of the daemon (\<open>localityd/src/scheduler.rs\<close>). A \<open>Duration\<close> is its number of
  nanoseconds. The loop that takes whole intervals off the elapsed time does not end for a zero interval,
  so it is a partial function; the scheduler checks its intervals first.
\<close>

definition DURATION_MAX :: nat where
  "DURATION_MAX = (2 ^ 64 - 1) * 1000000000 + 999999999"

definition duration_saturating_add :: "nat \<Rightarrow> nat \<Rightarrow> nat" where
  "duration_saturating_add a b = min DURATION_MAX (a + b)"

record pull_scheduler =
  sc_config :: pull_scheduler_config
  active_elapsed :: nat
  cold_elapsed :: nat

record pull_scheduler_tick =
  poll_active :: bool
  poll_cold :: bool

definition scheduler_new :: "pull_scheduler_config \<Rightarrow> pull_scheduler" where
  "scheduler_new config =
     \<lparr>sc_config = config, active_elapsed = active_interval config, cold_elapsed = cold_interval config\<rparr>"

definition tick_default :: pull_scheduler_tick where
  "tick_default = \<lparr>poll_active = False, poll_cold = False\<rparr>"

definition is_idle :: "pull_scheduler_tick \<Rightarrow> bool" where
  "is_idle t \<longleftrightarrow> \<not> poll_active t \<and> \<not> poll_cold t"

definition validate_interval :: "string \<Rightarrow> nat \<Rightarrow> locality_error + unit" where
  "validate_interval name interval =
     (if interval = 0 then Inl (EInvalidState (name @ '' pull interval must be greater than zero'')) else Inr ())"

partial_function (option) take_intervals :: "nat \<Rightarrow> nat \<Rightarrow> nat option" where
  "take_intervals elapsed interval =
     (if elapsed \<ge> interval then take_intervals (elapsed - interval) interval else Some elapsed)"

declare take_intervals.simps [code]

definition take_due :: "nat \<Rightarrow> nat \<Rightarrow> (bool \<times> nat) option" where
  "take_due elapsed interval =
     (if elapsed < interval then Some (False, elapsed)
      else map_option (Pair True) (take_intervals elapsed interval))"

definition advance_by :: "nat \<Rightarrow> pull_scheduler \<Rightarrow> ((locality_error + pull_scheduler_tick) \<times> pull_scheduler) option" where
  "advance_by elapsed s =
     (let config = sc_config s in
      case rbind (validate_interval ''active'' (active_interval config))
             (\<lambda>_. validate_interval ''cold'' (cold_interval config)) of
        Inl e \<Rightarrow> Some (Inl e, s)
      | Inr _ \<Rightarrow>
          if ps_mode config = Relay then Some (Inr tick_default, s)
          else
            Option.bind (take_due (duration_saturating_add (active_elapsed s) elapsed) (active_interval config))
              (\<lambda>(poll_a, active).
            Option.bind (take_due (duration_saturating_add (cold_elapsed s) elapsed) (cold_interval config))
              (\<lambda>(poll_c, cold).
                Some (Inr \<lparr>poll_active = poll_a, poll_cold = poll_c\<rparr>,
                      s\<lparr>active_elapsed := active, cold_elapsed := cold\<rparr>))))"

definition scheduler_tick :: "pull_scheduler \<Rightarrow> ((locality_error + pull_scheduler_tick) \<times> pull_scheduler) option" where
  "scheduler_tick s = advance_by 0 s"

section \<open>The loop ends\<close>

lemma take_intervals_mod: "0 < interval \<Longrightarrow> take_intervals elapsed interval = Some (elapsed mod interval)"
proof (induction elapsed rule: less_induct)
  case (less elapsed)
  show ?case
  proof (cases "interval \<le> elapsed")
    case True
    with less.prems have "take_intervals (elapsed - interval) interval = Some ((elapsed - interval) mod interval)"
      by (intro less.IH) auto
    with True show ?thesis by (subst take_intervals.simps) (simp add: le_mod_geq)
  qed (simp add: take_intervals.simps)
qed

lemma take_due_mod: "0 < interval \<Longrightarrow> take_due elapsed interval = Some (interval \<le> elapsed, elapsed mod interval)"
  by (simp add: take_due_def take_intervals_mod)

text \<open>Advancing the scheduler always returns. With positive intervals in polling mode a poll is due exactly
  when its interval has passed, and the elapsed time is carried over modulo the interval; otherwise the
  scheduler is unchanged, with an error exactly for a zero interval.\<close>

theorem advance_exact:
  "advance_by elapsed s =
     (if active_interval (sc_config s) = 0
      then Some (Inl (EInvalidState ''active pull interval must be greater than zero''), s)
      else if cold_interval (sc_config s) = 0
      then Some (Inl (EInvalidState ''cold pull interval must be greater than zero''), s)
      else if ps_mode (sc_config s) = Relay then Some (Inr tick_default, s)
      else
        let active = min DURATION_MAX (active_elapsed s + elapsed);
            cold = min DURATION_MAX (cold_elapsed s + elapsed)
        in Some (Inr \<lparr>poll_active = active_interval (sc_config s) \<le> active,
                      poll_cold = cold_interval (sc_config s) \<le> cold\<rparr>,
                 s\<lparr>active_elapsed := active mod active_interval (sc_config s),
                   cold_elapsed := cold mod cold_interval (sc_config s)\<rparr>))"
  by (simp add: advance_by_def validate_interval_def Let_def take_due_mod duration_saturating_add_def)

text \<open>A run of the scheduler, as the daemon drives it.\<close>

fun advance_all :: "nat list \<Rightarrow> pull_scheduler \<Rightarrow> pull_scheduler option" where
  "advance_all [] s = Some s"
| "advance_all (d # ds) s = Option.bind (advance_by d s) (\<lambda>(_, s'). advance_all ds s')"

text \<open>Polling does not drift. However the elapsed time is cut into steps, afterwards the scheduler has
  waited for the remainder of the whole time since its last poll, so polls stay on the grid of the
  interval, as long as no step overflows a duration.\<close>

theorem polling_keeps_grid:
  assumes "0 < active_interval (sc_config s)" "0 < cold_interval (sc_config s)" "ps_mode (sc_config s) = Polling"
    and "\<forall>d\<in>set ds. active_interval (sc_config s) + cold_interval (sc_config s) + d \<le> DURATION_MAX"
    and "active_elapsed s \<le> active_interval (sc_config s)" "cold_elapsed s \<le> cold_interval (sc_config s)"
    and "ds \<noteq> []"
  shows "\<exists>s'. advance_all ds s = Some s' \<and> sc_config s' = sc_config s
    \<and> active_elapsed s' = (active_elapsed s + sum_list ds) mod active_interval (sc_config s)
    \<and> cold_elapsed s' = (cold_elapsed s + sum_list ds) mod cold_interval (sc_config s)"
  using assms
proof (induction ds arbitrary: s)
  case (Cons d ds)
  let ?i = "active_interval (sc_config s)" and ?j = "cold_interval (sc_config s)"
  let ?s = "s\<lparr>active_elapsed := (active_elapsed s + d) mod ?i, cold_elapsed := (cold_elapsed s + d) mod ?j\<rparr>"
  have "active_elapsed s + d \<le> DURATION_MAX" "cold_elapsed s + d \<le> DURATION_MAX"
    using Cons.prems(4,5,6) by auto
  then have step: "advance_by d s = Some (Inr \<lparr>poll_active = ?i \<le> active_elapsed s + d,
      poll_cold = ?j \<le> cold_elapsed s + d\<rparr>, ?s)"
    using Cons.prems(1-3)
    by (simp add: advance_by_def validate_interval_def Let_def take_due_mod duration_saturating_add_def min_absorb2)
  show ?case
  proof (cases "ds = []")
    case True
    with step show ?thesis by simp
  next
    case False
    have "active_elapsed ?s \<le> ?i" "cold_elapsed ?s \<le> ?j"
      using Cons.prems(1,2) by (simp_all add: less_imp_le)
    then have "\<exists>s'. advance_all ds ?s = Some s' \<and> sc_config s' = sc_config s
        \<and> active_elapsed s' = (active_elapsed ?s + sum_list ds) mod ?i
        \<and> cold_elapsed s' = (cold_elapsed ?s + sum_list ds) mod ?j"
      using Cons.IH[of ?s] Cons.prems False by simp
    with step show ?thesis by (simp add: mod_add_left_eq add.assoc)
  qed
qed simp

theorem polling_keeps_grid_witness:
  "\<exists>s'. advance_all [7, 9, 20] (scheduler_new (pull_scheduler_default\<lparr>active_interval := 15, cold_interval := 300\<rparr>))
      = Some s' \<and> active_elapsed s' = 6"
  using polling_keeps_grid
    [of "scheduler_new (pull_scheduler_default\<lparr>active_interval := 15, cold_interval := 300\<rparr>)" "[7, 9, 20]"]
  by (auto simp: scheduler_new_def pull_scheduler_default_def DURATION_MAX_def)

end
