(* ===== verification/Shadow_Match.thy ===== *)
theory Shadow_Match
  imports Block_Diff_Identity
begin

text \<open>
  When the daemon takes a file for unchanged (\<open>localityd/src/shadow_match.rs\<close>): comparison of an edited
  file with its shadow, or of two shadows, up to metadata that synchronization itself writes.
\<close>

definition properties_equal :: "'n yaml_lib \<Rightarrow> 'n frontmatter_properties \<Rightarrow> 'n frontmatter_properties \<Rightarrow> bool" where
  "properties_equal Y l r \<longleftrightarrow> list_all2 (\<lambda>(k, v) (k', v'). k = k' \<and> value_eq Y v v') l r"

definition loc_metadata_matches_ignoring_sync_metadata ::
    "locality_metadata option \<Rightarrow> locality_metadata option \<Rightarrow> bool" where
  "loc_metadata_matches_ignoring_sync_metadata left right =
     (case (left, right) of
        (None, None) \<Rightarrow> True
      | (Some l, Some r) \<Rightarrow>
          lm_id l = lm_id r \<and> lm_entity_type l = lm_entity_type r
        \<and> lm_raw_entity_type l = lm_raw_entity_type r \<and> lm_parent l = lm_parent r
      | _ \<Rightarrow> False)"

definition frontmatter_matches_ignoring_sync_metadata ::
    "'n yaml_lib \<Rightarrow> 'n frontmatter \<Rightarrow> 'n frontmatter \<Rightarrow> bool" where
  "frontmatter_matches_ignoring_sync_metadata Y l r \<longleftrightarrow>
     loc_metadata_matches_ignoring_sync_metadata (fm_loc l) (fm_loc r)
   \<and> fm_title l = fm_title r \<and> properties_equal Y (fm_properties l) (fm_properties r)"

definition parse_shadow :: "'n yaml_lib \<Rightarrow> shadow_document \<Rightarrow> 'n parsed_canonical_document option" where
  "parse_shadow Y shadow =
     (case parse_canonical_markdown Y
             (render_canonical_markdown (cd_new (sd_frontmatter shadow) (sd_rendered_body shadow))) of
        Inl _ \<Rightarrow> None | Inr p \<Rightarrow> Some p)"

definition parsed_body_matches_shadow ::
    "'n yaml_lib \<Rightarrow> 'n parsed_canonical_document \<Rightarrow> shadow_document \<Rightarrow> bool" where
  "parsed_body_matches_shadow Y parsed shadow \<longleftrightarrow>
     rendered_bodies_equivalent (cd_body (pd_document parsed)) (sd_rendered_body shadow)
   \<or> (case engine_plan_push Y (with_edited_body_start_line engine_new (pd_body_start_line parsed)) shadow
            (pd_document parsed) of
        Inl _ \<Rightarrow> False | Inr plan \<Rightarrow> operations plan = [] \<and> degradations plan = [])"

definition parsed_matches_shadow ::
    "'n yaml_lib \<Rightarrow> 'n parsed_canonical_document \<Rightarrow> shadow_document \<Rightarrow> bool" where
  "parsed_matches_shadow Y parsed shadow \<longleftrightarrow>
     parsed_body_matches_shadow Y parsed shadow
   \<and> (case parse_shadow Y shadow of
        None \<Rightarrow> False
      | Some p \<Rightarrow> frontmatter_matches_ignoring_sync_metadata Y (pd_frontmatter parsed) (pd_frontmatter p))"

definition contents_match_shadow :: "'n yaml_lib \<Rightarrow> string \<Rightarrow> shadow_document \<Rightarrow> bool" where
  "contents_match_shadow Y contents shadow =
     (case parse_canonical_markdown Y contents of
        Inl _ \<Rightarrow> False | Inr parsed \<Rightarrow> parsed_matches_shadow Y parsed shadow)"

definition parsed_documents_match_ignoring_sync_metadata ::
    "'n yaml_lib \<Rightarrow> 'n parsed_canonical_document \<Rightarrow> 'n parsed_canonical_document \<Rightarrow> bool" where
  "parsed_documents_match_ignoring_sync_metadata Y l r \<longleftrightarrow>
     rendered_bodies_equivalent (cd_body (pd_document l)) (cd_body (pd_document r))
   \<and> frontmatter_matches_ignoring_sync_metadata Y (pd_frontmatter l) (pd_frontmatter r)"

definition shadows_match :: "'n yaml_lib \<Rightarrow> shadow_document \<Rightarrow> shadow_document \<Rightarrow> bool" where
  "shadows_match Y l r \<longleftrightarrow>
     rendered_bodies_equivalent (sd_rendered_body l) (sd_rendered_body r)
   \<and> (case (parse_shadow Y l, parse_shadow Y r) of
        (Some p, Some q) \<Rightarrow> frontmatter_matches_ignoring_sync_metadata Y (pd_frontmatter p) (pd_frontmatter q)
      | _ \<Rightarrow> False)"

text \<open>A divider between line breaks is what a provider makes of a plain divider.\<close>

definition normalize_divider_segment :: "string \<Rightarrow> string" where
  "normalize_divider_segment segment =
     (let (line, ending) = (if suffix [CHR 0x0A] segment then (butlast segment, [CHR 0x0A]) else (segment, [])) in
      (if line \<in> {''---<br>---'', ''---<br/>---'', ''---<br />---''}
       then ''---'' @ [CHR 0x0A, CHR 0x0A] @ ''---'' else line) @ ending)"

definition normalize_plain_divider_projection :: "string \<Rightarrow> string" where
  "normalize_plain_divider_projection markdown =
     concat (map normalize_divider_segment (split_inclusive (CHR 0x0A) markdown))"

definition current_shadow_blocks_appear_in_edited_body ::
    "'n parsed_canonical_document \<Rightarrow> shadow_document \<Rightarrow> bool" where
  "current_shadow_blocks_appear_in_edited_body parsed shadow =
     (let edited_body = normalize_plain_divider_projection (cd_body (pd_document parsed)) in
      list_all (\<lambda>b. sublist (normalize_plain_divider_projection (sb_text b)) edited_body) (sd_blocks shadow))"

definition archives :: "push_operation \<Rightarrow> bool" where
  "archives operation = (case operation of ArchiveBlock _ \<Rightarrow> True | ArchiveEntity _ \<Rightarrow> True | _ \<Rightarrow> False)"

definition parsed_changes_retain_current_shadow_blocks ::
    "'n yaml_lib \<Rightarrow> 'n parsed_canonical_document \<Rightarrow> shadow_document \<Rightarrow> bool" where
  "parsed_changes_retain_current_shadow_blocks Y parsed shadow =
     (case engine_plan_push Y (with_edited_body_start_line engine_new (pd_body_start_line parsed)) shadow
             (pd_document parsed) of
        Inl _ \<Rightarrow> False
      | Inr plan \<Rightarrow>
          degradations plan = [] \<and> \<not> list_ex archives (operations plan)
        \<and> current_shadow_blocks_appear_in_edited_body parsed shadow)"

definition contents_changes_retain_current_shadow_blocks :: "'n yaml_lib \<Rightarrow> string \<Rightarrow> shadow_document \<Rightarrow> bool" where
  "contents_changes_retain_current_shadow_blocks Y contents shadow =
     (case parse_canonical_markdown Y contents of
        Inl _ \<Rightarrow> False | Inr parsed \<Rightarrow> parsed_changes_retain_current_shadow_blocks Y parsed shadow)"

section \<open>What the comparisons decide\<close>

lemma frontmatter_matches_refl:
  "(\<And>v. value_eq Y v v) \<Longrightarrow> frontmatter_matches_ignoring_sync_metadata Y f f"
  by (auto simp: frontmatter_matches_ignoring_sync_metadata_def loc_metadata_matches_ignoring_sync_metadata_def
      properties_equal_def list_all2_conv_all_nth split: option.split)

text \<open>The file the daemon writes for a shadow counts as unchanged: its contents match the shadow exactly when
  they parse at all.\<close>

theorem own_file_matches:
  assumes "fence_free (norm_frontmatter (sd_frontmatter shadow))" and "\<And>v. value_eq Y v v"
  shows "contents_match_shadow Y
      (render_canonical_markdown (cd_new (sd_frontmatter shadow) (sd_rendered_body shadow))) shadow
    \<longleftrightarrow> \<not> isl (parse_frontmatter Y (norm_frontmatter (sd_frontmatter shadow)))"
proof -
  let ?d = "cd_new (sd_frontmatter shadow) (sd_rendered_body shadow)"
  have ff: "fence_free (norm_frontmatter (cd_frontmatter ?d))" using assms(1) by (simp add: cd_new_def)
  show ?thesis
  proof (cases "parse_frontmatter Y (norm_frontmatter (sd_frontmatter shadow))")
    case (Inl e)
    then show ?thesis
      by (simp add: contents_match_shadow_def parse_canonical_markdown_def split_rendered[OF ff])
        (simp add: cd_new_def)
  next
    case (Inr f)
    then obtain p where p: "parse_canonical_markdown Y (render_canonical_markdown ?d) = Inr p"
      "cd_body (pd_document p) = sd_rendered_body shadow"
      by (simp add: parse_canonical_markdown_def split_rendered[OF ff] Let_def)
        (simp add: cd_new_def with_blocks_def)
    have "rendered_bodies_equivalent (sd_rendered_body shadow) (sd_rendered_body shadow)"
      by (simp add: rendered_bodies_equivalent_def)
    with p Inr show ?thesis
      by (simp add: contents_match_shadow_def parsed_matches_shadow_def parse_shadow_def
          parsed_body_matches_shadow_def frontmatter_matches_refl[OF assms(2)])
  qed
qed

definition sample_shadow :: shadow_document where
  "sample_shadow = \<lparr>sd_entity_id = RemoteId ''e'', sd_frontmatter = ''title: A'' @ [CHR 0x0A], sd_body_hash = [],
     sd_rendered_body = ''B'', sd_blocks = []\<rparr>"

theorem own_file_matches_witness:
  "contents_match_shadow title_yaml
     (render_canonical_markdown (cd_new (sd_frontmatter sample_shadow) (sd_rendered_body sample_shadow))) sample_shadow"
proof -
  have n: "norm_frontmatter (sd_frontmatter sample_shadow) = ''title: A'' @ [CHR 0x0A]"
    by (simp add: sample_shadow_def norm_frontmatter_def terminated_def suffix_def)
  have "fence_free (norm_frontmatter (sd_frontmatter sample_shadow))"
    unfolding n by (simp add: fence_free_def fence_def trim_line_ending_def trim_end_matches_def)
  moreover have "\<not> isl (parse_frontmatter title_yaml (norm_frontmatter (sd_frontmatter sample_shadow)))"
    unfolding n by code_simp
  ultimately show ?thesis by (subst own_file_matches) (simp_all add: title_yaml_def)
qed

lemma normalize_full_line:
  "full_line (CHR 0x0A) l \<Longrightarrow>
   normalize_plain_divider_projection (l @ s) = normalize_divider_segment l @ normalize_plain_divider_projection s"
  by (simp add: normalize_plain_divider_projection_def full_line_append)

lemma normalize_segment_again:
  assumes "full_line (CHR 0x0A) l"
  shows "normalize_plain_divider_projection (normalize_divider_segment l @ s) =
    normalize_divider_segment l @ normalize_plain_divider_projection s"
proof (cases "butlast l \<in> {''---<br>---'', ''---<br/>---'', ''---<br />---''}")
  case True
  have "normalize_divider_segment l = (''---'' @ [CHR 0x0A]) @ [CHR 0x0A] @ (''---'' @ [CHR 0x0A])"
    using assms True by (auto simp: normalize_divider_segment_def full_line_def suffix_def Let_def)
  moreover have "full_line (CHR 0x0A) (''---'' @ [CHR 0x0A])" "full_line (CHR 0x0A) [CHR 0x0A]"
    by (auto simp: full_line_def)
  moreover have "normalize_divider_segment (''---'' @ [CHR 0x0A]) = ''---'' @ [CHR 0x0A]"
    "normalize_divider_segment [CHR 0x0A] = [CHR 0x0A]" by code_simp+
  ultimately show ?thesis
    using normalize_full_line[of "''---'' @ [CHR 0x0A]"] normalize_full_line[of "[CHR 0x0A]"] by simp
next
  case False
  then have "normalize_divider_segment l = l"
    using assms by (auto simp: normalize_divider_segment_def full_line_def suffix_def Let_def)
  with assms show ?thesis by (simp add: normalize_full_line)
qed

lemma normalize_idem:
  "normalize_plain_divider_projection (normalize_plain_divider_projection s) = normalize_plain_divider_projection s"
proof (induction "length s" arbitrary: s rule: less_induct)
  case less
  show ?case
  proof (cases "CHR 0x0A \<in> set s")
    case True
    then obtain l t where s: "s = l @ CHR 0x0A # t" "CHR 0x0A \<notin> set l" using split_list_first by fast
    let ?l = "l @ [CHR 0x0A]"
    have full: "full_line (CHR 0x0A) ?l" using s(2) by (auto simp: full_line_def)
    have "normalize_plain_divider_projection (normalize_plain_divider_projection t) = normalize_plain_divider_projection t"
      by (rule less) (simp add: s(1))
    with normalize_segment_again[OF full] normalize_full_line[OF full, of t] show ?thesis by (simp add: s(1))
  next
    case False
    show ?thesis
    proof (cases "s \<in> {''---<br>---'', ''---<br/>---'', ''---<br />---''}")
      case True
      then show ?thesis by (elim insertE emptyE) (hypsubst, code_simp)+
    next
      case not: False
      have "\<not> suffix [CHR 0x0A] s" using False by (auto simp: suffix_def)
      then have "normalize_divider_segment s = s" using not by (simp add: normalize_divider_segment_def Let_def)
      then have "normalize_plain_divider_projection s = s"
        using False by (simp add: normalize_plain_divider_projection_def split_inclusive_no_sep)
      then show ?thesis by simp
    qed
  qed
qed


end
