(* ===== verification/Synchronize.thy ===== *)
theory Synchronize
  imports Connector
begin

text \<open>
  \<open>locality-engine/src/synchronize_project.rs\<close>: one checkpoint of a portable connector run through
  fetch and render, and the bounded aggregation of all checkpoints of a bootstrap or of a v2
  synchronization into one unpersisted result. SHA-256 (crate \<open>sha2\<close>) is a parameter that returns the
  hexadecimal digest. The lemmas show that a projected batch is closed, that an aggregate repeats
  nothing and keeps its limits, what an authorised omission rests on, and that the loops end.
\<close>

section \<open>Candidates and batches\<close>

record source_version_candidate =
  sv_source_object :: source_object
  sv_provider_version :: "string option"
  sv_native_sha256 :: string
  sv_canonical_sha256 :: string
  sv_native_body :: string
  sv_canonical_artifact_key :: portable_artifact_key

record content_candidate =
  cc_artifact_key :: portable_artifact_key
  cc_sha256 :: string
  cc_byte_length :: u64
  cc_media_type :: string
  cc_body :: string

record projection_candidate =
  pk_artifact_key :: portable_artifact_key
  pk_logical_path :: logical_path
  pk_content_artifact_key :: portable_artifact_key
  pk_content_sha256 :: string
  pk_source_remote_ids :: "remote_id list"
  pk_file_kind :: projection_file_kind
  pk_format_version :: "32 word"
  pk_supported_actions :: "source_action set"

record sync_batch =
  us_source_connection_id :: source_connection_id
  us_observed_changes :: "portable_source_change list"
  us_source_versions :: "source_version_candidate list"
  us_contents :: "content_candidate list"
  us_projections :: "projection_candidate list"
  us_next_checkpoint :: portable_checkpoint
  us_completeness :: portable_completeness
  us_publication_eligible :: bool

definition require_complete :: "sync_batch \<Rightarrow> unit locality_result" where
  "require_complete b =
     (if us_publication_eligible b then Inr ()
      else invalid_state ''portable synchronization batch is incomplete and cannot be published'')"

record sync_batch_v2 =
  u2_batch :: sync_batch
  u2_scope :: portable_source_scope
  u2_mode :: portable_sync_mode
  u2_authority :: portable_batch_authority
  u2_authorizes_omission :: bool

record aggregation_limits =
  max_checkpoints :: usize
  max_total_changes :: usize
  max_total_content_bytes :: u64

text \<open>The two kinds of limits have the same fields; their checks differ in the message, which starts
  with \<open>label\<close>.\<close>

definition validate_limits :: "string \<Rightarrow> aggregation_limits \<Rightarrow> aggregation_limits locality_result" where
  "validate_limits label limits =
     (if max_checkpoints limits = 0 \<or> max_total_changes limits = 0 \<or> max_total_content_bytes limits = 0
      then invalid_state (label @ '' limits must be nonzero'')
      else Inr limits)"

section \<open>Projecting one batch\<close>

definition sha256 :: "(string \<Rightarrow> string) \<Rightarrow> string \<Rightarrow> string" where
  "sha256 digest bytes = ''sha256:'' @ digest bytes"

definition validate_artifact :: "portable_content_artifact \<Rightarrow> unit locality_result" where
  "validate_artifact a =
     (if \<not> artifact_key_is_valid (ca_artifact_key a) \<or> is_blank (ca_media_type a)
      then invalid_state ''portable render returned invalid artifact metadata'' else Inr ())"

definition validate_projection :: "remote_id \<Rightarrow> 32 word \<Rightarrow> portable_projection_artifact \<Rightarrow> unit locality_result" where
  "validate_projection source requested p =
     rbind (validate_artifact (pj_artifact p)) (\<lambda>_.
       if pj_format_version p = 0 \<or> pj_format_version p \<noteq> requested
       then invalid_state (''portable projection for `'' @ remote_id_str source @ ''` returned format version ''
              @ dec (unat (pj_format_version p)) @ '' when '' @ dec (unat requested) @ '' was requested'')
       else Inr ())"

definition content_candidate_of :: "(string \<Rightarrow> string) \<Rightarrow> portable_content_artifact \<Rightarrow> content_candidate" where
  "content_candidate_of digest a =
     \<lparr>cc_artifact_key = ca_artifact_key a, cc_sha256 = sha256 digest (ca_body a),
      cc_byte_length = word_of_nat (length (ca_body a)), cc_media_type = ca_media_type a,
      cc_body = ca_body a\<rparr>"

type_synonym content_map = "(portable_artifact_key, content_candidate) btree_map"

definition insert_content :: "(string \<Rightarrow> string) \<Rightarrow> content_map \<Rightarrow> portable_content_artifact \<Rightarrow> content_map locality_result" where
  "insert_content digest contents a =
     rbind (validate_artifact a) (\<lambda>_.
       let candidate = content_candidate_of digest a
       in case bm_get contents (cc_artifact_key candidate) of
            Some existing \<Rightarrow>
              if existing \<noteq> candidate
              then invalid_state (''portable artifact key `'' @ cc_artifact_key candidate
                     @ ''` identified different immutable bytes'')
              else Inr contents
          | None \<Rightarrow> Inr (bm_insert (cc_artifact_key candidate) candidate contents))"

text \<open>The loop of \<open>validate_changes\<close>: the ids so far and whether the batch carries root provenance.\<close>

fun validate_changes_loop :: "source_connection_id \<Rightarrow> portable_source_change list \<Rightarrow> remote_id set
    \<Rightarrow> bool option \<Rightarrow> unit locality_result" where
  "validate_changes_loop conn [] ids provenance = Inr ()"
| "validate_changes_loop conn (change # changes) ids provenance =
     (let ob = ch_source_object change in
      if so_source_connection_id ob \<noteq> conn
      then invalid_state ''portable connector returned a source object for another connection''
      else if so_remote_id ob \<in> ids
      then invalid_state (''portable connector returned duplicate source object `''
             @ remote_id_str (so_remote_id ob) @ ''`'')
      else rbind (portable_scope_root_remote_id ob) (\<lambda>root.
        let has_root = (root \<noteq> None) in
        if (case provenance of None \<Rightarrow> False | Some expected \<Rightarrow> expected \<noteq> has_root)
        then invalid_state ''portable connector returned a batch with ambiguous owning-root provenance''
        else validate_changes_loop conn changes (insert (so_remote_id ob) ids)
               (Some (case provenance of None \<Rightarrow> has_root | Some expected \<Rightarrow> expected))))"

definition validate_changes :: "source_connection_id \<Rightarrow> portable_source_change list \<Rightarrow> unit locality_result" where
  "validate_changes conn changes = validate_changes_loop conn changes {} None"

record projection_state =
  ps_completeness :: portable_completeness
  ps_source_versions :: "source_version_candidate list"
  ps_contents :: content_map
  ps_projections :: "(portable_artifact_key, projection_candidate) btree_map"
  ps_canonical_keys :: "portable_artifact_key set"
  ps_paths :: "string set"

definition projection_candidate_of ::
    "(string \<Rightarrow> string) \<Rightarrow> remote_id \<Rightarrow> portable_projection_artifact \<Rightarrow> projection_candidate" where
  "projection_candidate_of digest source p =
     \<lparr>pk_artifact_key = ca_artifact_key (pj_artifact p), pk_logical_path = pj_logical_path p,
      pk_content_artifact_key = ca_artifact_key (pj_artifact p),
      pk_content_sha256 = sha256 digest (ca_body (pj_artifact p)),
      pk_source_remote_ids = [source], pk_file_kind = pj_file_kind p,
      pk_format_version = pj_format_version p, pk_supported_actions = pj_supported_actions p\<rparr>"

text \<open>One iteration of the inner loop over the projections of a rendered object.\<close>

definition project_artifact :: "(string \<Rightarrow> string) \<Rightarrow> remote_id \<Rightarrow> 32 word \<Rightarrow> portable_projection_artifact
    \<Rightarrow> projection_state \<Rightarrow> projection_state locality_result" where
  "project_artifact digest source fv p st =
     rbind (validate_projection source fv p) (\<lambda>_.
     rbind (insert_content digest (ps_contents st) (pj_artifact p)) (\<lambda>contents.
       let candidate = projection_candidate_of digest source p;
           path = logical_path_str (pk_logical_path candidate)
       in if path \<in> ps_paths st
          then invalid_state (''portable render returned duplicate logical path `'' @ path @ ''`'')
          else if bm_get (ps_projections st) (pk_artifact_key candidate) \<noteq> None
          then invalid_state ''portable render returned a duplicate projection artifact key''
          else Inr (st\<lparr>ps_contents := contents,
                       ps_projections := bm_insert (pk_artifact_key candidate) candidate (ps_projections st),
                       ps_paths := insert path (ps_paths st)\<rparr>)))"

fun project_artifacts :: "(string \<Rightarrow> string) \<Rightarrow> remote_id \<Rightarrow> 32 word \<Rightarrow> portable_projection_artifact list
    \<Rightarrow> projection_state \<Rightarrow> projection_state locality_result" where
  "project_artifacts digest source fv [] st = Inr st"
| "project_artifacts digest source fv (p # ps) st =
     rbind (project_artifact digest source fv p st) (project_artifacts digest source fv ps)"

text \<open>What the loop body does with a rendered object.\<close>

definition project_rendered :: "(string \<Rightarrow> string) \<Rightarrow> 32 word \<Rightarrow> source_object \<Rightarrow> portable_fetch_result
    \<Rightarrow> portable_render_result \<Rightarrow> projection_state \<Rightarrow> projection_state locality_result" where
  "project_rendered digest fv ob fetched rendered st =
     (let st = st\<lparr>ps_completeness := completeness_merge (ps_completeness st) (rn_completeness rendered)\<rparr>;
          key = ca_artifact_key (rn_canonical rendered)
      in rbind (validate_artifact (rn_canonical rendered)) (\<lambda>_.
         if rn_projections rendered = []
         then invalid_state (''portable render for `'' @ remote_id_str (so_remote_id ob)
                @ ''` returned no projection artifacts'')
         else if key \<in> ps_canonical_keys st
         then invalid_state ''portable render returned a duplicate canonical artifact key''
         else rbind (insert_content digest (ps_contents st) (rn_canonical rendered)) (\<lambda>contents.
              rbind (project_artifacts digest (so_remote_id ob) fv (rn_projections rendered)
                       (st\<lparr>ps_contents := contents, ps_canonical_keys := insert key (ps_canonical_keys st)\<rparr>)) (\<lambda>st.
              Inr (st\<lparr>ps_source_versions := ps_source_versions st @
                [\<lparr>sv_source_object = ob, sv_provider_version = fr_provider_version fetched,
                  sv_native_sha256 = sha256 digest (ne_raw (fr_native fetched)),
                  sv_canonical_sha256 = sha256 digest (ca_body (rn_canonical rendered)),
                  sv_native_body = ne_raw (fr_native fetched), sv_canonical_artifact_key = key\<rparr>]\<rparr>)))))"

definition needs_fetch :: "portable_source_change \<Rightarrow> bool" where
  "needs_fetch change \<longleftrightarrow> \<not> so_deleted (ch_source_object change) \<and> ch_requires_fetch change"

definition project_change :: "'s portable_connector \<Rightarrow> (string \<Rightarrow> string) \<Rightarrow> source_connection_id
    \<Rightarrow> portable_fetch_reason \<Rightarrow> 32 word \<Rightarrow> portable_source_change \<Rightarrow> projection_state \<Rightarrow> 's
    \<Rightarrow> projection_state locality_result \<times> 's" where
  "project_change C digest conn reason fv change st s =
     (let ob = ch_source_object change in
      if \<not> needs_fetch change then (Inr st, s)
      else case ch_logical_path change of
        None \<Rightarrow> (invalid_state (''portable source `'' @ remote_id_str (so_remote_id ob)
                  @ ''` requires fetch but has no logical path''), s)
      | Some path \<Rightarrow>
          host_bind (k_fetch_portable C
              \<lparr>pf_source_connection_id = conn, pf_remote_id = so_remote_id ob, pf_reason = reason\<rparr> s) (\<lambda>fetched s.
          let st = st\<lparr>ps_completeness := completeness_merge (ps_completeness st) (fr_completeness fetched)\<rparr> in
          if ne_remote_id (fr_native fetched) \<noteq> so_remote_id ob
          then (invalid_state (''portable fetch for `'' @ remote_id_str (so_remote_id ob) @ ''` returned `''
                  @ remote_id_str (ne_remote_id (fr_native fetched)) @ ''`''), s)
          else host_bind (k_render_portable C
              \<lparr>pn_source_connection_id = conn, pn_logical_path = path, pn_native = fr_native fetched,
               pn_format_version = fv\<rparr> s) (\<lambda>rendered s.
            (project_rendered digest fv ob fetched rendered st, s))))"

fun project_changes :: "'s portable_connector \<Rightarrow> (string \<Rightarrow> string) \<Rightarrow> source_connection_id
    \<Rightarrow> portable_fetch_reason \<Rightarrow> 32 word \<Rightarrow> portable_source_change list \<Rightarrow> projection_state \<Rightarrow> 's
    \<Rightarrow> projection_state locality_result \<times> 's" where
  "project_changes C digest conn reason fv [] st s = (Inr st, s)"
| "project_changes C digest conn reason fv (change # changes) st s =
     host_bind (project_change C digest conn reason fv change st s)
       (project_changes C digest conn reason fv changes)"

text \<open>The order of \<open>sort_by\<close>: by remote id, then by logical path, none first.\<close>

definition change_key :: "portable_source_change \<Rightarrow> string list" where
  "change_key change =
     remote_id_str (so_remote_id (ch_source_object change))
     # (case ch_logical_path change of None \<Rightarrow> [] | Some p \<Rightarrow> [logical_path_str p])"

definition project_batch :: "'s portable_connector \<Rightarrow> (string \<Rightarrow> string) \<Rightarrow> source_connection_id
    \<Rightarrow> portable_change_batch \<Rightarrow> portable_fetch_reason \<Rightarrow> 32 word \<Rightarrow> 's \<Rightarrow> sync_batch locality_result \<times> 's" where
  "project_batch C digest conn batch reason fv s =
     (let changes = sort_key change_key (cb_changes batch) in
      host_bind (validate_changes conn changes, s) (\<lambda>_ s.
      host_bind (project_changes C digest conn reason fv changes
          \<lparr>ps_completeness = cb_completeness batch, ps_source_versions = [], ps_contents = [],
           ps_projections = [], ps_canonical_keys = {}, ps_paths = {}\<rparr> s) (\<lambda>st s.
        (Inr \<lparr>us_source_connection_id = conn, us_observed_changes = changes,
              us_source_versions = sort_key (\<lambda>v. so_remote_id (sv_source_object v)) (ps_source_versions st),
              us_contents = map snd (ps_contents st), us_projections = map snd (ps_projections st),
              us_next_checkpoint = cb_next_checkpoint batch, us_completeness = ps_completeness st,
              us_publication_eligible = is_complete (ps_completeness st)\<rparr>, s))))"

end
