(* ===== verification/Sync_Closed.thy ===== *)
theory Sync_Closed
  imports Synchronize BTree_Ops
begin

section \<open>A projected batch is closed\<close>

definition contents_wf :: "(string \<Rightarrow> string) \<Rightarrow> content_map \<Rightarrow> bool" where
  "contents_wf digest m \<longleftrightarrow>
     bm_sorted m \<and> (\<forall>(k, c)\<in>set m. cc_artifact_key c = k \<and> cc_sha256 c = sha256 digest (cc_body c))"

definition holds_content :: "content_map \<Rightarrow> portable_artifact_key \<Rightarrow> string \<Rightarrow> bool" where
  "holds_content m key sha \<longleftrightarrow> (\<exists>c. bm_get m key = Some c \<and> cc_sha256 c = sha)"

definition extends_contents :: "content_map \<Rightarrow> content_map \<Rightarrow> bool" where
  "extends_contents m m' \<longleftrightarrow> (\<forall>k c. bm_get m k = Some c \<longrightarrow> bm_get m' k = Some c)"

lemma extends_refl [simp]: "extends_contents m m"
  by (simp add: extends_contents_def)

lemma holds_extends: "holds_content m k sha \<Longrightarrow> extends_contents m m' \<Longrightarrow> holds_content m' k sha"
  by (auto simp: holds_content_def extends_contents_def)

lemma insert_content_ok:
  assumes "insert_content digest m a = Inr m'" and "contents_wf digest m"
  shows "contents_wf digest m'" "extends_contents m m'"
    "holds_content m' (ca_artifact_key a) (sha256 digest (ca_body a))"
  using assms set_bm_insert_subset[of "ca_artifact_key a" "content_candidate_of digest a" m]
  by (auto simp: insert_content_def Let_def rbind_Inr_iff contents_wf_def content_candidate_of_def
      extends_contents_def holds_content_def bm_facts split: option.splits if_splits)

text \<open>The invariant of the loop: \<open>dn\<close> are the source objects of the changes fetched so far.\<close>

definition projection_inv :: "(string \<Rightarrow> string) \<Rightarrow> remote_id list \<Rightarrow> projection_state \<Rightarrow> bool" where
  "projection_inv digest dn st \<longleftrightarrow>
     contents_wf digest (ps_contents st) \<and> bm_sorted (ps_projections st)
     \<and> (\<forall>(k, p)\<in>set (ps_projections st). pk_artifact_key p = k
          \<and> holds_content (ps_contents st) (pk_content_artifact_key p) (pk_content_sha256 p)
          \<and> logical_path_str (pk_logical_path p) \<in> ps_paths st)
     \<and> inj_on (\<lambda>(k, p). logical_path_str (pk_logical_path p)) (set (ps_projections st))
     \<and> (\<forall>v\<in>set (ps_source_versions st).
          holds_content (ps_contents st) (sv_canonical_artifact_key v) (sv_canonical_sha256 v))
     \<and> map (\<lambda>v. so_remote_id (sv_source_object v)) (ps_source_versions st) = dn"

lemma set_bm_insert_fresh: "bm_get m k = None \<Longrightarrow> set (bm_insert k v m) = insert (k, v) (set m)"
  by (induction k v m rule: bm_insert.induct) (auto split: if_splits)

lemma projection_candidate_sel [simp]:
  "pk_artifact_key (projection_candidate_of digest source p) = ca_artifact_key (pj_artifact p)"
  "pk_logical_path (projection_candidate_of digest source p) = pj_logical_path p"
  "pk_content_artifact_key (projection_candidate_of digest source p) = ca_artifact_key (pj_artifact p)"
  "pk_content_sha256 (projection_candidate_of digest source p) = sha256 digest (ca_body (pj_artifact p))"
  by (simp_all add: projection_candidate_of_def)

lemma project_artifact_inv:
  assumes "project_artifact digest source fv p st = Inr st'" and inv: "projection_inv digest dn st"
  shows "projection_inv digest dn st'"
proof -
  let ?c = "projection_candidate_of digest source p" and ?k = "ca_artifact_key (pj_artifact p)"
  obtain contents where ins: "insert_content digest (ps_contents st) (pj_artifact p) = Inr contents"
    and path: "logical_path_str (pj_logical_path p) \<notin> ps_paths st"
    and fresh: "bm_get (ps_projections st) ?k = None"
    and st': "st' = st\<lparr>ps_contents := contents, ps_projections := bm_insert ?k ?c (ps_projections st),
        ps_paths := insert (logical_path_str (pj_logical_path p)) (ps_paths st)\<rparr>"
    using assms(1) by (auto simp: project_artifact_def Let_def rbind_Inr_iff split: if_splits)
  have wf: "contents_wf digest (ps_contents st)" using inv by (simp add: projection_inv_def)
  note c = insert_content_ok[OF ins wf]
  have set: "set (bm_insert ?k ?c (ps_projections st)) = insert (?k, ?c) (set (ps_projections st))"
    by (rule set_bm_insert_fresh[OF fresh])
  show ?thesis
    using inv c path
    by (auto simp: projection_inv_def st' set bm_sorted_insert intro: holds_extends)
qed

lemma project_artifacts_inv:
  "project_artifacts digest source fv ps st = Inr st' \<Longrightarrow> projection_inv digest dn st \<Longrightarrow>
   projection_inv digest dn st' \<and> extends_contents (ps_contents st) (ps_contents st')"
proof (induction ps arbitrary: st)
  case (Cons p ps)
  then obtain st1 where 1: "project_artifact digest source fv p st = Inr st1"
    and 2: "project_artifacts digest source fv ps st1 = Inr st'" by (auto simp: rbind_Inr_iff)
  have "extends_contents (ps_contents st) (ps_contents st1)"
    using 1 Cons.prems(2) by (auto simp: project_artifact_def Let_def rbind_Inr_iff projection_inv_def
        dest: insert_content_ok split: if_splits)
  with Cons.IH[OF 2 project_artifact_inv[OF 1 Cons.prems(2)]] show ?case
    by (auto simp: extends_contents_def)
qed simp

lemma project_rendered_inv:
  assumes "project_rendered digest fv ob fetched rendered st = Inr st'" and inv: "projection_inv digest dn st"
  shows "projection_inv digest (dn @ [so_remote_id ob]) st'"
proof -
  let ?a = "rn_canonical rendered"
  let ?st0 = "st\<lparr>ps_completeness := completeness_merge (ps_completeness st) (rn_completeness rendered)\<rparr>"
  obtain contents st1 where ins: "insert_content digest (ps_contents st) ?a = Inr contents"
    and pr: "project_artifacts digest (so_remote_id ob) fv (rn_projections rendered)
        (?st0\<lparr>ps_contents := contents, ps_canonical_keys := insert (ca_artifact_key ?a) (ps_canonical_keys st)\<rparr>) = Inr st1"
    and st': "st' = st1\<lparr>ps_source_versions := ps_source_versions st1 @
        [\<lparr>sv_source_object = ob, sv_provider_version = fr_provider_version fetched,
          sv_native_sha256 = sha256 digest (ne_raw (fr_native fetched)),
          sv_canonical_sha256 = sha256 digest (ca_body ?a),
          sv_native_body = ne_raw (fr_native fetched), sv_canonical_artifact_key = ca_artifact_key ?a\<rparr>]\<rparr>"
    using assms(1) by (auto simp: project_rendered_def Let_def rbind_Inr_iff split: if_splits)
  have wf: "contents_wf digest (ps_contents st)" using inv by (simp add: projection_inv_def)
  note c = insert_content_ok[OF ins wf]
  let ?st1 = "?st0\<lparr>ps_contents := contents, ps_canonical_keys := insert (ca_artifact_key ?a) (ps_canonical_keys st)\<rparr>"
  have "projection_inv digest dn ?st1"
    using inv c(1) holds_extends[OF _ c(2)] by (fastforce simp: projection_inv_def)
  from project_artifacts_inv[OF pr this] holds_extends[OF c(3)] show ?thesis
    by (auto simp: projection_inv_def st')
qed

lemma host_bind_Inr: "host_bind r f = (Inr b, s') \<longleftrightarrow> (\<exists>a s. r = (Inr a, s) \<and> f a s = (Inr b, s'))"
  by (auto simp: host_bind_def split: prod.splits sum.splits)

lemma project_change_inv:
  assumes "project_change C digest conn reason fv change st s = (Inr st', s')" and "projection_inv digest dn st"
  shows "projection_inv digest
    (dn @ (if needs_fetch change then [so_remote_id (ch_source_object change)] else [])) st'"
proof (cases "needs_fetch change")
  case True
  then obtain path fetched rendered where
    r: "project_rendered digest fv (ch_source_object change) fetched rendered
      (st\<lparr>ps_completeness := completeness_merge (ps_completeness st) (fr_completeness fetched)\<rparr>) = Inr st'"
    using assms(1) by (auto simp: project_change_def Let_def host_bind_Inr split: option.splits if_splits)
  have "projection_inv digest dn (st\<lparr>ps_completeness := completeness_merge (ps_completeness st) (fr_completeness fetched)\<rparr>)"
    using assms(2) by (simp add: projection_inv_def)
  from project_rendered_inv[OF r this] True show ?thesis by simp
next
  case False
  with assms show ?thesis by (simp add: project_change_def)
qed

lemma project_changes_inv:
  "project_changes C digest conn reason fv changes st s = (Inr st', s') \<Longrightarrow> projection_inv digest dn st \<Longrightarrow>
   projection_inv digest (dn @ map (\<lambda>c. so_remote_id (ch_source_object c)) (filter needs_fetch changes)) st'"
proof (induction changes arbitrary: st s dn)
  case (Cons c cs)
  then obtain st1 s1 where 1: "project_change C digest conn reason fv c st s = (Inr st1, s1)"
    and 2: "project_changes C digest conn reason fv cs st1 s1 = (Inr st', s')" by (auto simp: host_bind_Inr)
  from Cons.IH[OF 2 project_change_inv[OF 1 Cons.prems(2)]] show ?case by (cases "needs_fetch c") simp_all
qed simp

lemma validate_changes_loop_ok:
  "validate_changes_loop conn cs ids prov = Inr u \<Longrightarrow>
   distinct (map (\<lambda>c. so_remote_id (ch_source_object c)) cs)
   \<and> (\<forall>c\<in>set cs. so_remote_id (ch_source_object c) \<notin> ids \<and> so_source_connection_id (ch_source_object c) = conn)"
proof (induction cs arbitrary: ids prov)
  case (Cons c cs)
  then obtain p where "validate_changes_loop conn cs (insert (so_remote_id (ch_source_object c)) ids) p = Inr u"
    and "so_remote_id (ch_source_object c) \<notin> ids" "so_source_connection_id (ch_source_object c) = conn"
    by (auto simp: Let_def rbind_Inr_iff split: if_splits)
  with Cons.IH[OF this(1)] show ?case by auto
qed simp

lemma change_key_sorted:
  "sorted (map (\<lambda>c. so_remote_id (ch_source_object c)) (sort_key change_key cs))"
proof -
  have "so_remote_id (ch_source_object c) \<le> so_remote_id (ch_source_object d)"
    if "change_key c \<le> change_key d" for c d
    using that by (auto simp: change_key_def less_eq_remote_id_def Cons_le_Cons split: if_splits)
  then show ?thesis
    using sorted_sort_key[of change_key cs] by (auto simp: sorted_wrt_map elim: sorted_wrt_mono_rel[rotated])
qed

lemma project_batch_Inr:
  assumes "project_batch C digest conn batch reason fv s = (Inr b, s')"
  obtains st where
    "us_observed_changes b = sort_key change_key (cb_changes batch)"
    "validate_changes conn (us_observed_changes b) = Inr ()"
    "projection_inv digest (map (\<lambda>c. so_remote_id (ch_source_object c)) (filter needs_fetch (us_observed_changes b))) st"
    "b = \<lparr>us_source_connection_id = conn, us_observed_changes = us_observed_changes b,
          us_source_versions = ps_source_versions st,
          us_contents = map snd (ps_contents st), us_projections = map snd (ps_projections st),
          us_next_checkpoint = cb_next_checkpoint batch, us_completeness = ps_completeness st,
          us_publication_eligible = is_complete (ps_completeness st)\<rparr>"
proof -
  let ?cs = "sort_key change_key (cb_changes batch)"
  let ?st0 = "\<lparr>ps_completeness = cb_completeness batch, ps_source_versions = [], ps_contents = [],
           ps_projections = [], ps_canonical_keys = {}, ps_paths = {}\<rparr>"
  obtain st where v: "validate_changes conn ?cs = Inr ()"
    and pc: "project_changes C digest conn reason fv ?cs ?st0 s = (Inr st, s')"
    and b: "b = \<lparr>us_source_connection_id = conn, us_observed_changes = ?cs,
              us_source_versions = sort_key (\<lambda>v. so_remote_id (sv_source_object v)) (ps_source_versions st),
              us_contents = map snd (ps_contents st), us_projections = map snd (ps_projections st),
              us_next_checkpoint = cb_next_checkpoint batch, us_completeness = ps_completeness st,
              us_publication_eligible = is_complete (ps_completeness st)\<rparr>"
    using assms by (auto simp: project_batch_def Let_def host_bind_Inr)
  have "projection_inv digest [] ?st0" by (simp add: projection_inv_def contents_wf_def)
  from project_changes_inv[OF pc this]
  have inv: "projection_inv digest (map (\<lambda>c. so_remote_id (ch_source_object c)) (filter needs_fetch ?cs)) st" by simp
  have "sorted (map (\<lambda>c. so_remote_id (ch_source_object c)) (filter needs_fetch ?cs))"
    using change_key_sorted[of "cb_changes batch"] by (rule sorted_filter)
  then have "sorted (map (\<lambda>v. so_remote_id (sv_source_object v)) (ps_source_versions st))"
    using inv by (simp add: projection_inv_def)
  then have "sort_key (\<lambda>v. so_remote_id (sv_source_object v)) (ps_source_versions st) = ps_source_versions st"
    by (rule sort_key_id_if_sorted)
  with inv v b show ?thesis by (intro that[of st]) simp_all
qed

text \<open>What it means for a batch to be closed and exact. Its source versions are, in order, exactly those of
  the observed changes that had to be fetched; every projection and every canonical artifact points to a
  content of the batch that carries the recorded hash, which is the hash of its bytes; observed objects,
  content keys, projection keys and projected paths do not repeat; all objects are of its connection.\<close>

definition closed_batch :: "(string \<Rightarrow> string) \<Rightarrow> sync_batch \<Rightarrow> bool" where
  "closed_batch digest b \<longleftrightarrow>
     map (\<lambda>v. so_remote_id (sv_source_object v)) (us_source_versions b) =
       map (\<lambda>c. so_remote_id (ch_source_object c)) (filter needs_fetch (us_observed_changes b))
    \<and> (\<forall>p\<in>set (us_projections b). \<exists>c\<in>set (us_contents b).
         cc_artifact_key c = pk_content_artifact_key p \<and> cc_sha256 c = pk_content_sha256 p)
    \<and> (\<forall>v\<in>set (us_source_versions b). \<exists>c\<in>set (us_contents b).
         cc_artifact_key c = sv_canonical_artifact_key v \<and> cc_sha256 c = sv_canonical_sha256 v)
    \<and> (\<forall>c\<in>set (us_contents b). cc_sha256 c = sha256 digest (cc_body c))
    \<and> distinct (map cc_artifact_key (us_contents b)) \<and> distinct (map pk_artifact_key (us_projections b))
    \<and> distinct (map (\<lambda>p. logical_path_str (pk_logical_path p)) (us_projections b))
    \<and> distinct (map (\<lambda>c. so_remote_id (ch_source_object c)) (us_observed_changes b))
    \<and> (\<forall>c\<in>set (us_observed_changes b). so_source_connection_id (ch_source_object c) = us_source_connection_id b)"

lemma project_batch_closed:
  assumes "project_batch C digest conn batch reason fv s = (Inr b, s')"
  shows "closed_batch digest b"
proof -
  obtain st where inv: "projection_inv digest (map (\<lambda>c. so_remote_id (ch_source_object c)) (filter needs_fetch (us_observed_changes b))) st"
    and b: "b = \<lparr>us_source_connection_id = conn, us_observed_changes = us_observed_changes b,
          us_source_versions = ps_source_versions st,
          us_contents = map snd (ps_contents st), us_projections = map snd (ps_projections st),
          us_next_checkpoint = cb_next_checkpoint batch, us_completeness = ps_completeness st,
          us_publication_eligible = is_complete (ps_completeness st)\<rparr>"
    and v: "validate_changes conn (us_observed_changes b) = Inr ()"
    by (rule project_batch_Inr[OF assms])
  have conn: "us_source_connection_id b = conn" by (subst b, simp)
  have sel: "us_source_versions b = ps_source_versions st" "us_contents b = map snd (ps_contents st)"
    "us_projections b = map snd (ps_projections st)"
    by (subst b, simp)+
  have wf: "contents_wf digest (ps_contents st)" using inv by (simp add: projection_inv_def)
  have held: "\<exists>c\<in>set (us_contents b). cc_artifact_key c = k \<and> cc_sha256 c = sha"
    if "holds_content (ps_contents st) k sha" for k sha
  proof -
    obtain c where c: "bm_get (ps_contents st) k = Some c" "cc_sha256 c = sha"
      using \<open>holds_content (ps_contents st) k sha\<close> by (auto simp: holds_content_def)
    from map_of_SomeD[OF c(1)] have kc: "(k, c) \<in> set (ps_contents st)" .
    then have "cc_artifact_key c = k" using wf by (auto simp: contents_wf_def)
    with kc c(2) show ?thesis by (intro bexI[of _ c]) (simp_all add: sel rev_image_eqI)
  qed
  have keys: "map cc_artifact_key (us_contents b) = map fst (ps_contents st)"
    "map pk_artifact_key (us_projections b) = map fst (ps_projections st)"
    using wf inv by (auto simp: sel contents_wf_def projection_inv_def)
  have dist: "distinct (map fst (ps_contents st))" "distinct (map fst (ps_projections st))"
    using wf inv by (auto simp: contents_wf_def projection_inv_def intro: bm_sorted_distinct)
  have 1: "distinct (map cc_artifact_key (us_contents b))" using dist(1) by (simp only: keys)
  have 2: "distinct (map pk_artifact_key (us_projections b))" using dist(2) by (simp only: keys)
  have 3: "distinct (map (\<lambda>p. logical_path_str (pk_logical_path p)) (us_projections b))"
    using inv dist(2) by (simp add: sel projection_inv_def distinct_map comp_def case_prod_unfold)
  have 4: "\<forall>c\<in>set (us_contents b). cc_sha256 c = sha256 digest (cc_body c)"
    using wf by (auto simp: sel contents_wf_def)
  have 5: "map (\<lambda>v. so_remote_id (sv_source_object v)) (us_source_versions b) =
      map (\<lambda>c. so_remote_id (ch_source_object c)) (filter needs_fetch (us_observed_changes b))"
    using inv by (simp add: sel projection_inv_def)
  have 6: "\<forall>v\<in>set (us_source_versions b). holds_content (ps_contents st) (sv_canonical_artifact_key v) (sv_canonical_sha256 v)"
    "\<forall>p\<in>set (us_projections b). holds_content (ps_contents st) (pk_content_artifact_key p) (pk_content_sha256 p)"
    using inv by (auto simp: sel projection_inv_def)
  have 7: "distinct (map (\<lambda>c. so_remote_id (ch_source_object c)) (us_observed_changes b))"
    "\<forall>c\<in>set (us_observed_changes b). so_source_connection_id (ch_source_object c) = conn"
    using v by (auto simp: validate_changes_def dest!: validate_changes_loop_ok)
  show ?thesis unfolding closed_batch_def using 1 2 3 4 5 6 7 held conn by blast
qed

section \<open>A sample source\<close>

text \<open>A remote source with the two pages \<open>p1\<close> and \<open>p2\<close> of the root \<open>r\<close>. A bootstrap returns one page for
  each checkpoint; a v2 synchronization returns both at once, as a complete snapshot.\<close>

definition sample_change :: "string \<Rightarrow> portable_source_change" where
  "sample_change i =
     \<lparr>ch_source_object = \<lparr>so_source_connection_id = ''conn'', so_remote_id = RemoteId i, so_kind = Page,
        so_edges = [\<lparr>edge_relationship = PORTABLE_SCOPE_ROOT_RELATIONSHIP, edge_target_remote_id = RemoteId ''r''\<rparr>],
        so_opaque_version = None, so_deleted = False, so_connector_metadata = [], so_acl_observations = [],
        so_discovered_at = None, so_observed_at = None\<rparr>,
      ch_logical_path = Some (LogicalPath (i @ ''.md'')), ch_requires_fetch = True\<rparr>"

definition sample_artifact :: "string \<Rightarrow> string \<Rightarrow> portable_content_artifact" where
  "sample_artifact i kind =
     \<lparr>ca_artifact_key = i @ '':'' @ kind, ca_media_type = ''text/markdown'', ca_body = kind @ i\<rparr>"

definition sample_checkpoint :: "string \<Rightarrow> portable_checkpoint" where
  "sample_checkpoint c = \<lparr>cp_format_version = 1, cp_opaque = c\<rparr>"

definition sample_bootstrap :: "portable_bootstrap_request \<Rightarrow> unit \<Rightarrow> portable_change_batch locality_result \<times> unit" where
  "sample_bootstrap r s =
     (Inr (if br_checkpoint r = None
       then \<lparr>cb_changes = [sample_change ''p1''], cb_next_checkpoint = sample_checkpoint ''c1'',
             cb_completeness = completeness_incomplete CheckpointContinuation\<rparr>
       else \<lparr>cb_changes = [sample_change ''p2''], cb_next_checkpoint = sample_checkpoint ''c2'',
             cb_completeness = completeness_complete\<rparr>), s)"

definition sample_sync_v2 :: "portable_sync_request_v2 \<Rightarrow> unit \<Rightarrow> portable_change_batch_v2 locality_result \<times> unit" where
  "sample_sync_v2 r s =
     (Inr \<lparr>b2_changes = [sample_change ''p2'', sample_change ''p1''], b2_next_checkpoint = sample_checkpoint ''c1'',
           b2_completeness = completeness_complete, b2_covered_root_remote_ids = [RemoteId ''r''],
           b2_authority = CompleteScopeSnapshot\<rparr>, s)"

definition sample_connector :: "unit portable_connector" where
  "sample_connector =
     \<lparr>k_bootstrap_portable = sample_bootstrap, k_sync_portable = default_sync_portable,
      k_sync_portable_v2_impl = sample_sync_v2,
      k_fetch_portable = (\<lambda>r s. (Inr \<lparr>fr_native = \<lparr>ne_remote_id = pf_remote_id r, ne_kind = ''page'', ne_raw = ''{}''\<rparr>,
         fr_provider_version = None, fr_completeness = completeness_complete\<rparr>, s)),
      k_render_portable = (\<lambda>r s. (Inr \<lparr>
         rn_canonical = sample_artifact (remote_id_str (ne_remote_id (pn_native r))) ''canonical'',
         rn_projections = [\<lparr>pj_artifact = sample_artifact (remote_id_str (ne_remote_id (pn_native r))) ''file'',
           pj_logical_path = pn_logical_path r, pj_file_kind = FileMarkdown,
           pj_format_version = pn_format_version r, pj_supported_actions = {}\<rparr>],
         rn_completeness = completeness_complete\<rparr>, s))\<rparr>"

definition sample_digest :: "string \<Rightarrow> string" where
  "sample_digest bytes = dec (length bytes)"

definition sample_batch :: portable_change_batch where
  "sample_batch = \<lparr>cb_changes = [sample_change ''p2'', sample_change ''p1''],
     cb_next_checkpoint = sample_checkpoint ''c1'', cb_completeness = completeness_complete\<rparr>"

text \<open>C15: a projected batch is closed and exact. Its source versions are, in id order, exactly those of
  the changes that had to be fetched; every projection and every canonical artifact points to a content
  of the batch that carries the recorded hash, which is the hash of its bytes; observed objects, content
  keys, projection keys and projected paths do not repeat; the observed changes are the
  provider's changes, sorted by id.\<close>

theorem projected_batch_closed:
  assumes "project_batch C digest conn batch reason fv s = (Inr b, s')"
  shows "closed_batch digest b \<and> us_observed_changes b = sort_key change_key (cb_changes batch)"
  using project_batch_closed[OF assms] project_batch_Inr[OF assms] by metis

theorem projected_batch_closed_witness:
  "closed_batch sample_digest (projr (fst (project_batch sample_connector sample_digest ''conn'' sample_batch FetchSynchronization 1 ())))"
proof -
  have "project_batch sample_connector sample_digest ''conn'' sample_batch FetchSynchronization 1 () =
    (Inr (projr (fst (project_batch sample_connector sample_digest ''conn'' sample_batch FetchSynchronization 1 ()))), ())"
    by code_simp
  from projected_batch_closed[OF this] show ?thesis by simp
qed

end
