(* ===== verification/Sync_Aggregate.thy ===== *)
theory Sync_Aggregate
  imports Sync_Closed Rust_Int
begin

text \<open>
  The bounded aggregation of \<open>locality-engine/src/synchronize_project.rs\<close>: every checkpoint of a
  bootstrap, or of a v2 synchronization, in one unpersisted result. A loop runs on the number of
  checkpoints it may still request, so the bound \<open>max_checkpoints\<close> of the caller is the fuel and its
  exhaustion is the error of the code. The lemmas show that an aggregate stays closed and within its
  limits and what an authorised omission rests on.
\<close>

section \<open>The aggregate\<close>

text \<open>Both aggregates have the same fields; the one of a v2 synchronization also has the covered roots.\<close>

record sync_aggregate =
  ag_source_connection_id :: source_connection_id
  ag_observed_changes :: "(remote_id, portable_source_change) btree_map"
  ag_source_versions :: "(remote_id, source_version_candidate) btree_map"
  ag_contents :: content_map
  ag_projections :: "(portable_artifact_key, projection_candidate) btree_map"
  ag_projection_paths :: "string set"
  ag_completeness :: portable_completeness
  ag_total_changes :: usize
  ag_total_content_bytes :: u64

record sync_aggregate_v2 = sync_aggregate +
  ag_covered_root_remote_ids :: "remote_id set"

definition aggregate_new :: "source_connection_id \<Rightarrow> sync_aggregate" where
  "aggregate_new conn =
     \<lparr>ag_source_connection_id = conn, ag_observed_changes = [], ag_source_versions = [], ag_contents = [],
      ag_projections = [], ag_projection_paths = {}, ag_completeness = completeness_complete,
      ag_total_changes = 0, ag_total_content_bytes = 0\<rparr>"

definition aggregate_v2_new :: "source_connection_id \<Rightarrow> sync_aggregate_v2" where
  "aggregate_v2_new conn = sync_aggregate.extend (aggregate_new conn) \<lparr>ag_covered_root_remote_ids = {}\<rparr>"

definition BOOTSTRAP :: string where
  "BOOTSTRAP = ''portable bootstrap aggregation''"

definition SYNC_V2 :: string where
  "SYNC_V2 = ''portable v2 synchronization aggregation''"

fun page_content_bytes :: "u64 \<Rightarrow> content_candidate list \<Rightarrow> u64 option" where
  "page_content_bytes acc [] = Some acc"
| "page_content_bytes acc (c # cs) =
     (case u64_checked_add acc (cc_byte_length c) of None \<Rightarrow> None | Some acc' \<Rightarrow> page_content_bytes acc' cs)"

definition extend_by :: "('v \<Rightarrow> 'k::linorder) \<Rightarrow> ('k, 'v) btree_map \<Rightarrow> 'v list \<Rightarrow> ('k, 'v) btree_map" where
  "extend_by key m vs = bm_extend m (map (\<lambda>v. (key v, v)) vs)"

abbreviation version_id :: "source_version_candidate \<Rightarrow> remote_id" where
  "version_id v \<equiv> so_remote_id (sv_source_object v)"

abbreviation change_id :: "portable_source_change \<Rightarrow> remote_id" where
  "change_id c \<equiv> so_remote_id (ch_source_object c)"

abbreviation projection_path :: "projection_candidate \<Rightarrow> string" where
  "projection_path p \<equiv> logical_path_str (pk_logical_path p)"

text \<open>The first loops of \<open>push\<close>: nothing of the page may be in the aggregate already.\<close>

fun repeated_projection :: "string \<Rightarrow> (portable_artifact_key, projection_candidate) btree_map \<Rightarrow> string set
    \<Rightarrow> projection_candidate list \<Rightarrow> unit locality_result" where
  "repeated_projection label m paths [] = Inr ()"
| "repeated_projection label m paths (p # ps) =
     (if bm_get m (pk_artifact_key p) \<noteq> None then invalid_state (label @ '' repeated a projection artifact'')
      else if projection_path p \<in> paths then invalid_state (label @ '' repeated a logical path'')
      else repeated_projection label m paths ps)"

definition check_repeats :: "string \<Rightarrow> ('a) sync_aggregate_scheme \<Rightarrow> sync_batch \<Rightarrow> unit locality_result" where
  "check_repeats label ag page =
     (if \<exists>v\<in>set (us_source_versions page). bm_get (ag_source_versions ag) (version_id v) \<noteq> None
      then invalid_state (label @ '' repeated a source version'')
      else if \<exists>c\<in>set (us_observed_changes page). bm_get (ag_observed_changes ag) (change_id c) \<noteq> None
      then invalid_state (label @ '' repeated an observed source'')
      else rbind (repeated_projection label (ag_projections ag) (ag_projection_paths ag) (us_projections page)) (\<lambda>_.
        if \<exists>c\<in>set (us_contents page). bm_get (ag_contents ag) (cc_artifact_key c) \<noteq> None
        then invalid_state (label @ '' repeated a content artifact'')
        else Inr ()))"

text \<open>Its second part: the totals after the page, when they keep the limits.\<close>

definition check_totals :: "string \<Rightarrow> aggregation_limits \<Rightarrow> ('a) sync_aggregate_scheme \<Rightarrow> sync_batch
    \<Rightarrow> (usize \<times> u64) locality_result" where
  "check_totals label limits ag page =
     (case usize_checked_add (ag_total_changes ag) (length (us_observed_changes page)) of
        None \<Rightarrow> invalid_state (label @ '' change count overflowed'')
      | Some changes \<Rightarrow>
          if changes > max_total_changes limits then invalid_state (label @ '' exceeded its change limit'')
          else case page_content_bytes 0 (us_contents page) of
            None \<Rightarrow> invalid_state (label @ '' content bytes overflowed'')
          | Some page_bytes \<Rightarrow>
              (case u64_checked_add (ag_total_content_bytes ag) page_bytes of
                 None \<Rightarrow> invalid_state (label @ '' content bytes overflowed'')
               | Some bytes \<Rightarrow>
                   if bytes > max_total_content_bytes limits
                   then invalid_state (label @ '' exceeded its content byte limit'')
                   else Inr (changes, bytes)))"

definition aggregate_push :: "string \<Rightarrow> aggregation_limits \<Rightarrow> sync_batch \<Rightarrow> portable_completeness
    \<Rightarrow> ('a) sync_aggregate_scheme \<Rightarrow> ('a) sync_aggregate_scheme locality_result" where
  "aggregate_push label limits page preserved ag =
     rbind (check_repeats label ag page) (\<lambda>_.
     rbind (check_totals label limits ag page) (\<lambda>(changes, bytes).
       Inr (ag\<lparr>ag_total_changes := changes, ag_total_content_bytes := bytes,
               ag_completeness := completeness_merge (ag_completeness ag) preserved,
               ag_source_versions := extend_by version_id (ag_source_versions ag) (us_source_versions page),
               ag_observed_changes := extend_by change_id (ag_observed_changes ag) (us_observed_changes page),
               ag_contents := extend_by cc_artifact_key (ag_contents ag) (us_contents page),
               ag_projection_paths := ag_projection_paths ag \<union> projection_path ` set (us_projections page),
               ag_projections := extend_by pk_artifact_key (ag_projections ag) (us_projections page)\<rparr>)))"

definition aggregate_v2_push :: "aggregation_limits \<Rightarrow> sync_batch \<Rightarrow> remote_id list
    \<Rightarrow> sync_aggregate_v2 \<Rightarrow> sync_aggregate_v2 locality_result" where
  "aggregate_v2_push limits page covered ag =
     aggregate_push SYNC_V2 limits page (us_completeness page)
       (ag\<lparr>ag_covered_root_remote_ids := ag_covered_root_remote_ids ag \<union> set covered\<rparr>)"

definition remaining_changes :: "aggregation_limits \<Rightarrow> sync_aggregate_v2 \<Rightarrow> usize" where
  "remaining_changes limits ag = max_total_changes limits - ag_total_changes ag"

definition aggregate_finish :: "portable_checkpoint \<Rightarrow> ('a) sync_aggregate_scheme \<Rightarrow> sync_batch" where
  "aggregate_finish next ag =
     \<lparr>us_source_connection_id = ag_source_connection_id ag,
      us_observed_changes = map snd (ag_observed_changes ag),
      us_source_versions = map snd (ag_source_versions ag), us_contents = map snd (ag_contents ag),
      us_projections = map snd (ag_projections ag), us_next_checkpoint = next,
      us_completeness = ag_completeness ag, us_publication_eligible = is_complete (ag_completeness ag)\<rparr>"

definition aggregate_v2_finish :: "portable_checkpoint \<Rightarrow> portable_source_scope \<Rightarrow> portable_sync_mode
    \<Rightarrow> portable_batch_authority \<Rightarrow> bool \<Rightarrow> sync_aggregate_v2 \<Rightarrow> sync_batch_v2" where
  "aggregate_v2_finish next scope mode authority exact ag =
     \<lparr>u2_batch = aggregate_finish next ag, u2_scope = scope, u2_mode = mode, u2_authority = authority,
      u2_authorizes_omission =
        (mode = ReconcileScope \<and> authority = CompleteScopeSnapshot \<and> is_complete (ag_completeness ag)
         \<and> exact \<and> ag_covered_root_remote_ids ag = set (sc_root_remote_ids scope))\<rparr>"

section \<open>Continuation\<close>

definition completeness_without_continuation :: "portable_completeness \<Rightarrow> bool \<times> portable_completeness" where
  "completeness_without_continuation c =
     (let reasons = pc_incomplete_reasons c in
      (CheckpointContinuation \<in> set reasons,
       fold (\<lambda>reason preserved. if reason \<noteq> CheckpointContinuation
               then completeness_merge preserved (completeness_incomplete reason) else preserved) reasons
         (if reasons = [] \<and> \<not> is_complete c then completeness_default else completeness_complete)))"

definition checkpoint_identity :: "portable_checkpoint \<Rightarrow> 16 word \<times> string" where
  "checkpoint_identity c = (cp_format_version c, cp_opaque c)"

definition validate_continuation_checkpoint :: "portable_checkpoint option \<Rightarrow> portable_checkpoint
    \<Rightarrow> (16 word \<times> string) set \<Rightarrow> (16 word \<times> string) set locality_result" where
  "validate_continuation_checkpoint current next seen =
     (if cp_opaque next = [] then invalid_state ''portable bootstrap continuation returned an empty checkpoint''
      else if current = Some next then invalid_state ''portable bootstrap continuation repeated its checkpoint''
      else if checkpoint_identity next \<in> seen
      then invalid_state ''portable bootstrap continuation formed a checkpoint cycle''
      else Inr (insert (checkpoint_identity next) seen))"

definition validate_sync_v2_continuation_checkpoint :: "portable_checkpoint \<Rightarrow> portable_checkpoint
    \<Rightarrow> (16 word \<times> string) set \<Rightarrow> (16 word \<times> string) set locality_result" where
  "validate_sync_v2_continuation_checkpoint current next seen =
     (if cp_opaque next = [] then invalid_state ''portable v2 synchronization returned an empty next checkpoint''
      else if current = next then invalid_state ''portable v2 synchronization did not advance its checkpoint''
      else if checkpoint_identity next \<in> seen
      then invalid_state ''portable v2 synchronization formed a checkpoint cycle''
      else Inr (insert (checkpoint_identity next) seen))"

section \<open>Bootstrap\<close>

definition bootstrap_and_project :: "'s portable_connector \<Rightarrow> (string \<Rightarrow> string) \<Rightarrow> portable_bootstrap_request
    \<Rightarrow> 32 word \<Rightarrow> 's \<Rightarrow> sync_batch locality_result \<times> 's" where
  "bootstrap_and_project C digest r fv s =
     host_bind (k_bootstrap_portable C r s) (\<lambda>batch s.
       project_batch C digest (br_source_connection_id r) batch FetchBootstrap fv s)"

text \<open>\<open>map_err\<close>.\<close>

definition map_error :: "('e \<Rightarrow> 'f) \<Rightarrow> ('e + 'a) \<times> 's \<Rightarrow> ('f + 'a) \<times> 's" where
  "map_error f r = (case r of (Inl e, s) \<Rightarrow> (Inl (f e), s) | (Inr a, s) \<Rightarrow> (Inr a, s))"

text \<open>The loop, with the number of checkpoints it may still request first.\<close>

fun bootstrap_loop :: "'s portable_connector \<Rightarrow> (string \<Rightarrow> string) \<Rightarrow> portable_bootstrap_request \<Rightarrow> 32 word
    \<Rightarrow> aggregation_limits \<Rightarrow> nat \<Rightarrow> portable_checkpoint option \<Rightarrow> (16 word \<times> string) set \<Rightarrow> sync_aggregate
    \<Rightarrow> 's \<Rightarrow> sync_batch locality_result \<times> 's" where
  "bootstrap_loop C digest r fv limits 0 current seen ag s =
     (invalid_state (BOOTSTRAP @ '' exceeded its checkpoint limit''), s)"
| "bootstrap_loop C digest r fv limits (Suc n) current seen ag s =
     host_bind (map_error (\<lambda>_. EInvalidState (BOOTSTRAP @ '' page failed''))
         (bootstrap_and_project C digest (r\<lparr>br_checkpoint := current\<rparr>) fv s)) (\<lambda>page s.
     if us_source_connection_id page \<noteq> br_source_connection_id r
     then (invalid_state (BOOTSTRAP @ '' changed source connection''), s)
     else case completeness_without_continuation (us_completeness page) of (continuation, preserved) \<Rightarrow>
     let next = us_next_checkpoint page in
     host_bind (if continuation then validate_continuation_checkpoint current next seen else Inr seen, s) (\<lambda>seen s.
     host_bind (aggregate_push BOOTSTRAP limits page preserved ag, s) (\<lambda>ag s.
     if \<not> continuation then (Inr (aggregate_finish next ag), s)
     else bootstrap_loop C digest r fv limits n (Some next) seen ag s)))"

definition bootstrap_and_project_to_completion :: "'s portable_connector \<Rightarrow> (string \<Rightarrow> string)
    \<Rightarrow> portable_bootstrap_request \<Rightarrow> 32 word \<Rightarrow> aggregation_limits \<Rightarrow> 's \<Rightarrow> sync_batch locality_result \<times> 's" where
  "bootstrap_and_project_to_completion C digest r fv limits s =
     host_bind (validate_limits BOOTSTRAP limits, s) (\<lambda>limits s.
       bootstrap_loop C digest r fv limits (max_checkpoints limits) (br_checkpoint r)
         (case br_checkpoint r of None \<Rightarrow> {} | Some c \<Rightarrow> {checkpoint_identity c})
         (aggregate_new (br_source_connection_id r)) s)"

section \<open>Synchronization\<close>

definition synchronize_and_project_portable :: "'s portable_connector \<Rightarrow> (string \<Rightarrow> string)
    \<Rightarrow> portable_sync_request \<Rightarrow> 32 word \<Rightarrow> 's \<Rightarrow> sync_batch locality_result \<times> 's" where
  "synchronize_and_project_portable C digest r fv s =
     host_bind (k_sync_portable C r s) (\<lambda>batch s.
       project_batch C digest (sr_source_connection_id r) batch FetchSynchronization fv s)"

fun validate_v2_batch_scope_provenance :: "portable_source_scope \<Rightarrow> portable_source_change list \<Rightarrow> unit locality_result" where
  "validate_v2_batch_scope_provenance scope [] = Inr ()"
| "validate_v2_batch_scope_provenance scope (c # cs) =
     rbind (portable_scope_root_remote_id (ch_source_object c)) (\<lambda>root.
       case root of
         Some r \<Rightarrow> if r \<in> set (sc_root_remote_ids scope) then validate_v2_batch_scope_provenance scope cs
                   else invalid_state ''portable v2 connector returned source outside the requested scope''
       | None \<Rightarrow> invalid_state ''portable v2 connector returned source without owning-root provenance'')"

record projected_page_v2 =
  pg_result :: sync_batch_v2
  pg_covered_root_remote_ids :: "remote_id list"
  pg_has_checkpoint_continuation :: bool
  pg_has_exact_scope_coverage :: bool

definition synchronize_v2_page :: "'s portable_connector \<Rightarrow> (string \<Rightarrow> string) \<Rightarrow> portable_sync_request_v2
    \<Rightarrow> 32 word \<Rightarrow> bool \<Rightarrow> usize option \<Rightarrow> 's \<Rightarrow> projected_page_v2 locality_result \<times> 's" where
  "synchronize_v2_page C digest r fv strip remaining s =
     host_bind (dispatch_portable_sync_v2 C r s) (\<lambda>batch s.
     host_bind (validate_for_request batch (s2_scope r) (s2_max_changes r), s) (\<lambda>exact s.
     case completeness_without_continuation (b2_completeness batch) of (continuation, preserved) \<Rightarrow>
     host_bind (validate_v2_batch_scope_provenance (s2_scope r) (b2_changes batch), s) (\<lambda>_ s.
     if (case remaining of None \<Rightarrow> False | Some n \<Rightarrow> length (b2_changes batch) > n)
     then (invalid_state (SYNC_V2 @ '' exceeded its change limit''), s)
     else host_bind (project_batch C digest (s2_source_connection_id r)
         \<lparr>cb_changes = b2_changes batch, cb_next_checkpoint = b2_next_checkpoint batch,
          cb_completeness = (if strip then preserved else b2_completeness batch)\<rparr>
         FetchSynchronization fv s) (\<lambda>b s.
     (Inr \<lparr>pg_result = \<lparr>u2_batch = b, u2_scope = s2_scope r, u2_mode = s2_mode r, u2_authority = b2_authority batch,
             u2_authorizes_omission = (s2_mode r = ReconcileScope \<and> b2_authority batch = CompleteScopeSnapshot
               \<and> \<not> continuation \<and> is_complete (us_completeness b) \<and> exact)\<rparr>,
           pg_covered_root_remote_ids = b2_covered_root_remote_ids batch,
           pg_has_checkpoint_continuation = continuation, pg_has_exact_scope_coverage = exact\<rparr>, s)))))"

definition synchronize_and_project_portable_v2 :: "'s portable_connector \<Rightarrow> (string \<Rightarrow> string)
    \<Rightarrow> portable_sync_request_v2 \<Rightarrow> 32 word \<Rightarrow> 's \<Rightarrow> sync_batch_v2 locality_result \<times> 's" where
  "synchronize_and_project_portable_v2 C digest r fv s =
     host_bind (synchronize_v2_page C digest r fv False None s) (\<lambda>page s. (Inr (pg_result page), s))"

fun sync_v2_loop :: "'s portable_connector \<Rightarrow> (string \<Rightarrow> string) \<Rightarrow> portable_sync_request_v2 \<Rightarrow> 32 word
    \<Rightarrow> aggregation_limits \<Rightarrow> nat \<Rightarrow> portable_checkpoint \<Rightarrow> (16 word \<times> string) set \<Rightarrow> sync_aggregate_v2
    \<Rightarrow> 's \<Rightarrow> sync_batch_v2 locality_result \<times> 's" where
  "sync_v2_loop C digest r fv limits 0 current seen ag s =
     (invalid_state (SYNC_V2 @ '' exceeded its checkpoint limit''), s)"
| "sync_v2_loop C digest r fv limits (Suc n) current seen ag s =
     host_bind (synchronize_v2_page C digest (r\<lparr>s2_checkpoint := current\<rparr>) fv True
         (Some (remaining_changes limits ag)) s) (\<lambda>page s.
     let b = u2_batch (pg_result page); next = us_next_checkpoint b in
     if us_source_connection_id b \<noteq> s2_source_connection_id r \<or> u2_scope (pg_result page) \<noteq> s2_scope r
        \<or> u2_mode (pg_result page) \<noteq> s2_mode r
     then (invalid_state (SYNC_V2 @ '' changed request identity''), s)
     else host_bind (if pg_has_checkpoint_continuation page
         then validate_sync_v2_continuation_checkpoint current next seen else Inr seen, s) (\<lambda>seen s.
     host_bind (aggregate_v2_push limits b (pg_covered_root_remote_ids page) ag, s) (\<lambda>ag s.
     if \<not> pg_has_checkpoint_continuation page
     then (Inr (aggregate_v2_finish next (s2_scope r) (s2_mode r) (u2_authority (pg_result page))
                 (pg_has_exact_scope_coverage page) ag), s)
     else sync_v2_loop C digest r fv limits n next seen ag s)))"

definition synchronize_v2_to_completion :: "'s portable_connector \<Rightarrow> (string \<Rightarrow> string)
    \<Rightarrow> portable_sync_request_v2 \<Rightarrow> 32 word \<Rightarrow> aggregation_limits \<Rightarrow> 's \<Rightarrow> sync_batch_v2 locality_result \<times> 's" where
  "synchronize_v2_to_completion C digest r fv limits s =
     host_bind (validate_limits SYNC_V2 limits, s) (\<lambda>limits s.
       sync_v2_loop C digest r fv limits (max_checkpoints limits) (s2_checkpoint r)
         {checkpoint_identity (s2_checkpoint r)} (aggregate_v2_new (s2_source_connection_id r)) s)"

end
