(* ===== verification/Sync_Bounds.thy ===== *)
theory Sync_Bounds
  imports Sync_Aggregate
begin

text \<open>
  Facts of the aggregation of \<open>locality-engine/src/synchronize_project.rs\<close>. Extending a keyed map by
  fresh values permutes nothing away; the invariant of an aggregate (keyed maps, closed parts, exact
  totals within the limits) is kept by \<open>push\<close>; so the result of a completed bootstrap or v2
  synchronization is closed and bounded, and an authorised omission rests on a complete snapshot.
\<close>

section \<open>Extending a keyed map\<close>

lemma extend_by_Cons: "extend_by key m (v # vs) = extend_by key (bm_insert (key v) v m) vs"
  by (simp add: extend_by_def bm_extend_def)

lemma extend_by_Nil [simp]: "extend_by key m [] = m"
  by (simp add: extend_by_def bm_extend_def)

lemma keyed_extend_by: "keyed key m \<Longrightarrow> keyed key (extend_by key m vs)"
  by (induction vs arbitrary: m) (auto simp: extend_by_Cons keyed_insert)

lemma mset_extend_by:
  "\<forall>v\<in>set vs. bm_get m (key v) = None \<Longrightarrow> distinct (map key vs) \<Longrightarrow>
   mset (map snd (extend_by key m vs)) = mset (map snd m @ vs)"
proof (induction vs arbitrary: m)
  case (Cons v vs)
  have "\<forall>w\<in>set vs. bm_get (bm_insert (key v) v m) (key w) = None"
    using Cons.prems by (auto simp: bm_get_insert image_iff)
  from Cons.IH[OF this] Cons.prems show ?case
    by (simp add: extend_by_Cons mset_bm_insert_fresh)
qed simp

lemma mset_eq_facts:
  assumes "mset xs = mset ys"
  shows "set xs = set ys" "length xs = length ys" "sum_list (map (f::_ \<Rightarrow> nat) xs) = sum_list (map f ys)"
    "distinct (map g xs) \<longleftrightarrow> distinct (map g ys)"
proof -
  show "set xs = set ys" using assms by (rule mset_eq_setD)
  show "length xs = length ys" using assms by (rule mset_eq_length)
  have "mset (map f xs) = mset (map f ys)" "mset (map g xs) = mset (map g ys)" using assms by simp_all
  then show "sum_list (map f xs) = sum_list (map f ys)" "distinct (map g xs) \<longleftrightarrow> distinct (map g ys)"
    by (metis sum_mset_sum_list, metis mset_eq_imp_distinct_iff)
qed

section \<open>The invariant of an aggregate\<close>

abbreviation content_bytes :: "content_candidate list \<Rightarrow> nat" where
  "content_bytes cs \<equiv> sum_list (map (\<lambda>c. unat (cc_byte_length c)) cs)"

text \<open>Observed changes \<open>os\<close>, source versions \<open>vs\<close>, contents \<open>cs\<close> and projections \<open>ps\<close> belong together.\<close>

definition closed_parts :: "(string \<Rightarrow> string) \<Rightarrow> source_connection_id \<Rightarrow> portable_source_change list
    \<Rightarrow> source_version_candidate list \<Rightarrow> content_candidate list \<Rightarrow> projection_candidate list \<Rightarrow> bool" where
  "closed_parts digest conn os vs cs ps \<longleftrightarrow>
     version_id ` set vs = change_id ` {c \<in> set os. needs_fetch c}
   \<and> (\<forall>p\<in>set ps. \<exists>c\<in>set cs. cc_artifact_key c = pk_content_artifact_key p \<and> cc_sha256 c = pk_content_sha256 p)
   \<and> (\<forall>v\<in>set vs. \<exists>c\<in>set cs. cc_artifact_key c = sv_canonical_artifact_key v \<and> cc_sha256 c = sv_canonical_sha256 v)
   \<and> (\<forall>c\<in>set cs. cc_sha256 c = sha256 digest (cc_body c))
   \<and> (\<forall>c\<in>set os. so_source_connection_id (ch_source_object c) = conn)"

lemma closed_parts_append:
  assumes "closed_parts digest conn os vs cs ps" "closed_parts digest conn os' vs' cs' ps'"
  shows "closed_parts digest conn (os @ os') (vs @ vs') (cs @ cs') (ps @ ps')"
proof -
  have "{c \<in> set os \<union> set os'. needs_fetch c} = {c \<in> set os. needs_fetch c} \<union> {c \<in> set os'. needs_fetch c}" by auto
  with assms show ?thesis by (auto simp: closed_parts_def image_Un)
qed

lemma closed_parts_cong:
  "set os = set os' \<Longrightarrow> set vs = set vs' \<Longrightarrow> set cs = set cs' \<Longrightarrow> set ps = set ps' \<Longrightarrow>
   closed_parts digest conn os vs cs ps = closed_parts digest conn os' vs' cs' ps'"
  by (simp add: closed_parts_def)

lemma closed_batch_parts:
  assumes "closed_batch digest b"
  shows "closed_parts digest (us_source_connection_id b) (us_observed_changes b) (us_source_versions b)
    (us_contents b) (us_projections b)"
proof -
  have "map version_id (us_source_versions b) = map change_id (filter needs_fetch (us_observed_changes b))"
    using assms by (simp add: closed_batch_def)
  from arg_cong[OF this, of set]
  have "version_id ` set (us_source_versions b) = change_id ` {c \<in> set (us_observed_changes b). needs_fetch c}"
    by simp
  with assms show ?thesis unfolding closed_batch_def closed_parts_def by blast
qed

definition agg_inv :: "(string \<Rightarrow> string) \<Rightarrow> aggregation_limits \<Rightarrow> ('a) sync_aggregate_scheme \<Rightarrow> bool" where
  "agg_inv digest limits ag \<longleftrightarrow>
     keyed version_id (ag_source_versions ag) \<and> keyed change_id (ag_observed_changes ag)
   \<and> keyed cc_artifact_key (ag_contents ag) \<and> keyed pk_artifact_key (ag_projections ag)
   \<and> closed_parts digest (ag_source_connection_id ag) (map snd (ag_observed_changes ag))
       (map snd (ag_source_versions ag)) (map snd (ag_contents ag)) (map snd (ag_projections ag))
   \<and> projection_path ` set (map snd (ag_projections ag)) = ag_projection_paths ag
   \<and> distinct (map projection_path (map snd (ag_projections ag)))
   \<and> length (ag_observed_changes ag) = ag_total_changes ag \<and> ag_total_changes ag \<le> max_total_changes limits
   \<and> content_bytes (map snd (ag_contents ag)) = unat (ag_total_content_bytes ag)
   \<and> ag_total_content_bytes ag \<le> max_total_content_bytes limits"

lemma page_content_bytes_Some: "page_content_bytes acc cs = Some t \<Longrightarrow> unat t = unat acc + content_bytes cs"
  by (induction cs arbitrary: acc) (auto split: option.splits dest!: u64_checked_add_Some)

lemma check_totals_Inr:
  assumes "check_totals label limits ag page = Inr (n, t)"
  shows "n = ag_total_changes ag + length (us_observed_changes page)" "n \<le> max_total_changes limits"
    "unat t = unat (ag_total_content_bytes ag) + content_bytes (us_contents page)" "t \<le> max_total_content_bytes limits"
  using assms
  by (auto simp: check_totals_def usize_checked_add_def not_less split: option.splits if_splits
      dest!: u64_checked_add_Some page_content_bytes_Some)

lemma repeated_projection_Inr:
  "repeated_projection label m paths ps = Inr u \<longleftrightarrow>
   (\<forall>p\<in>set ps. bm_get m (pk_artifact_key p) = None \<and> projection_path p \<notin> paths)"
  by (induction ps) auto

lemma check_repeats_Inr:
  "check_repeats label ag page = Inr u \<longleftrightarrow>
     (\<forall>v\<in>set (us_source_versions page). bm_get (ag_source_versions ag) (version_id v) = None)
   \<and> (\<forall>c\<in>set (us_observed_changes page). bm_get (ag_observed_changes ag) (change_id c) = None)
   \<and> (\<forall>p\<in>set (us_projections page). bm_get (ag_projections ag) (pk_artifact_key p) = None
        \<and> projection_path p \<notin> ag_projection_paths ag)
   \<and> (\<forall>c\<in>set (us_contents page). bm_get (ag_contents ag) (cc_artifact_key c) = None)"
  by (auto simp: check_repeats_def rbind_Inr_iff repeated_projection_Inr)

lemma closed_batch_distinct:
  assumes "closed_batch digest b"
  shows "distinct (map version_id (us_source_versions b))" "distinct (map change_id (us_observed_changes b))"
    "distinct (map cc_artifact_key (us_contents b))" "distinct (map pk_artifact_key (us_projections b))"
    "distinct (map projection_path (us_projections b))"
proof -
  have "distinct (map change_id (us_observed_changes b))"
    "map version_id (us_source_versions b) = map change_id (filter needs_fetch (us_observed_changes b))"
    using assms by (simp_all add: closed_batch_def)
  then show "distinct (map version_id (us_source_versions b))" "distinct (map change_id (us_observed_changes b))"
    by (simp_all only: distinct_map_filter)
qed (use assms in \<open>simp_all add: closed_batch_def\<close>)

lemma aggregate_push_mset:
  assumes push: "aggregate_push label limits page preserved ag = Inr ag'" and page: "closed_batch digest page"
  shows "mset (map snd (ag_source_versions ag')) = mset (map snd (ag_source_versions ag) @ us_source_versions page)"
    "mset (map snd (ag_observed_changes ag')) = mset (map snd (ag_observed_changes ag) @ us_observed_changes page)"
    "mset (map snd (ag_contents ag')) = mset (map snd (ag_contents ag) @ us_contents page)"
    "mset (map snd (ag_projections ag')) = mset (map snd (ag_projections ag) @ us_projections page)"
proof -
  have rep: "check_repeats label ag page = Inr ()"
    and sel: "ag_source_versions ag' = extend_by version_id (ag_source_versions ag) (us_source_versions page)"
      "ag_observed_changes ag' = extend_by change_id (ag_observed_changes ag) (us_observed_changes page)"
      "ag_contents ag' = extend_by cc_artifact_key (ag_contents ag) (us_contents page)"
      "ag_projections ag' = extend_by pk_artifact_key (ag_projections ag) (us_projections page)"
    using push by (auto simp: aggregate_push_def rbind_Inr_iff)
  note fresh = rep[unfolded check_repeats_Inr] and d = closed_batch_distinct[OF page]
  show "mset (map snd (ag_source_versions ag')) = mset (map snd (ag_source_versions ag) @ us_source_versions page)"
    unfolding sel by (rule mset_extend_by) (use fresh d in blast)+
  show "mset (map snd (ag_observed_changes ag')) = mset (map snd (ag_observed_changes ag) @ us_observed_changes page)"
    unfolding sel by (rule mset_extend_by) (use fresh d in blast)+
  show "mset (map snd (ag_contents ag')) = mset (map snd (ag_contents ag) @ us_contents page)"
    unfolding sel by (rule mset_extend_by) (use fresh d in blast)+
  show "mset (map snd (ag_projections ag')) = mset (map snd (ag_projections ag) @ us_projections page)"
    unfolding sel by (rule mset_extend_by) (use fresh d in blast)+
qed

lemma aggregate_push_inv:
  assumes push: "aggregate_push label limits page preserved ag = Inr ag'"
    and page: "closed_batch digest page" "us_source_connection_id page = ag_source_connection_id ag"
    and inv: "agg_inv digest limits ag"
  shows "agg_inv digest limits ag'"
proof -
  obtain n t where rep: "check_repeats label ag page = Inr ()" and tot: "check_totals label limits ag page = Inr (n, t)"
    and ag': "ag' = ag\<lparr>ag_total_changes := n, ag_total_content_bytes := t,
               ag_completeness := completeness_merge (ag_completeness ag) preserved,
               ag_source_versions := extend_by version_id (ag_source_versions ag) (us_source_versions page),
               ag_observed_changes := extend_by change_id (ag_observed_changes ag) (us_observed_changes page),
               ag_contents := extend_by cc_artifact_key (ag_contents ag) (us_contents page),
               ag_projection_paths := ag_projection_paths ag \<union> projection_path ` set (us_projections page),
               ag_projections := extend_by pk_artifact_key (ag_projections ag) (us_projections page)\<rparr>"
    using push by (auto simp: aggregate_push_def rbind_Inr_iff)
  note fresh = rep[unfolded check_repeats_Inr]
  note d = closed_batch_distinct[OF page(1)]
  note ms = aggregate_push_mset[OF push page(1)]
  have keyed: "keyed version_id (ag_source_versions ag')" "keyed change_id (ag_observed_changes ag')"
    "keyed cc_artifact_key (ag_contents ag')" "keyed pk_artifact_key (ag_projections ag')"
    using inv by (simp_all add: ag' agg_inv_def keyed_extend_by)
  have parts: "closed_parts digest (ag_source_connection_id ag') (map snd (ag_observed_changes ag'))
       (map snd (ag_source_versions ag')) (map snd (ag_contents ag')) (map snd (ag_projections ag'))"
    unfolding closed_parts_cong[OF ms(2)[THEN mset_eq_facts(1)] ms(1)[THEN mset_eq_facts(1)]
        ms(3)[THEN mset_eq_facts(1)] ms(4)[THEN mset_eq_facts(1)]]
    using inv closed_batch_parts[OF page(1)] page(2) by (intro closed_parts_append) (simp_all add: ag' agg_inv_def)
  have paths: "projection_path ` set (map snd (ag_projections ag')) = ag_projection_paths ag'"
    using inv by (simp only: mset_eq_facts(1)[OF ms(4)]) (simp add: ag' agg_inv_def image_Un)
  have "projection_path ` set (us_projections page) \<inter> ag_projection_paths ag = {}" using fresh by auto
  moreover have "distinct (map projection_path (map snd (ag_projections ag)))"
    "projection_path ` set (map snd (ag_projections ag)) = ag_projection_paths ag"
    using inv unfolding agg_inv_def by blast+
  ultimately have "distinct (map projection_path (map snd (ag_projections ag) @ us_projections page))"
    using d(5) unfolding map_append distinct_append set_map by blast
  then have dpaths: "distinct (map projection_path (map snd (ag_projections ag')))"
    by (simp only: mset_eq_facts(4)[OF ms(4)])
  have len: "length (ag_observed_changes ag') = ag_total_changes ag'"
    using mset_eq_facts(2)[OF ms(2)] inv check_totals_Inr(1)[OF tot] by (simp add: ag' agg_inv_def)
  have bytes: "content_bytes (map snd (ag_contents ag')) = unat (ag_total_content_bytes ag')"
    using inv check_totals_Inr(3)[OF tot] by (simp only: mset_eq_facts(3)[OF ms(3)]) (simp add: ag' agg_inv_def)
  show ?thesis
    unfolding agg_inv_def using keyed parts paths dpaths len bytes check_totals_Inr(2,4)[OF tot] by (simp add: ag')
qed

lemma agg_inv_new: "agg_inv digest limits (aggregate_new conn)" "agg_inv digest limits (aggregate_v2_new conn)"
  by (simp_all add: agg_inv_def aggregate_new_def aggregate_v2_new_def sync_aggregate.defs closed_parts_def)

lemma sorted_map_filter_key: "sorted_wrt (<) (map f xs) \<Longrightarrow> sorted_wrt (<) (map f (filter P xs))"
  by (simp add: sorted_wrt_map sorted_wrt_filter)

lemma agg_inv_finish:
  assumes inv: "agg_inv digest limits ag"
  shows "closed_batch digest (aggregate_finish next ag)"
    "length (us_observed_changes (aggregate_finish next ag)) \<le> max_total_changes limits"
    "content_bytes (us_contents (aggregate_finish next ag)) \<le> unat (max_total_content_bytes limits)"
proof -
  let ?vs = "map snd (ag_source_versions ag)" and ?os = "map snd (ag_observed_changes ag)"
  have k: "keyed version_id (ag_source_versions ag)" "keyed change_id (ag_observed_changes ag)"
    "keyed cc_artifact_key (ag_contents ag)" "keyed pk_artifact_key (ag_projections ag)"
    using inv by (simp_all add: agg_inv_def)
  have parts: "closed_parts digest (ag_source_connection_id ag) ?os ?vs (map snd (ag_contents ag)) (map snd (ag_projections ag))"
    using inv by (simp add: agg_inv_def)
  have "version_id ` set ?vs = change_id ` {c \<in> set ?os. needs_fetch c}"
    using parts unfolding closed_parts_def by (rule conjunct1)
  then have "set (map version_id ?vs) = set (map change_id (filter needs_fetch ?os))"
    by (simp only: set_map set_filter)
  with keyed_sorted[OF k(1)] sorted_map_filter_key[OF keyed_sorted[OF k(2)]]
  have "map version_id ?vs = map change_id (filter needs_fetch ?os)" by (intro strict_sorted_equal) auto
  then show "closed_batch digest (aggregate_finish next ag)"
    using parts keyed_distinct[OF k(2)] keyed_distinct[OF k(3)] keyed_distinct[OF k(4)] inv
    by (simp add: closed_batch_def aggregate_finish_def closed_parts_def agg_inv_def comp_def)
  show "length (us_observed_changes (aggregate_finish next ag)) \<le> max_total_changes limits"
    "content_bytes (us_contents (aggregate_finish next ag)) \<le> unat (max_total_content_bytes limits)"
    using inv by (simp_all add: aggregate_finish_def agg_inv_def word_le_nat_alt)
qed

section \<open>What a completed loop returns\<close>

lemma map_error_Inr [simp]: "map_error f r = (Inr a, s) \<longleftrightarrow> r = (Inr a, s)"
  by (auto simp: map_error_def split: prod.splits sum.splits)

lemma if_invalid: "(if P then (invalid_state m, s) else x) = (Inr b, s') \<longleftrightarrow> \<not> P \<and> x = (Inr b, s')"
  by simp

lemma project_batch_sel:
  assumes "project_batch C digest conn batch reason fv s = (Inr b, s')"
  shows "us_observed_changes b = sort_key change_key (cb_changes batch)" "us_source_connection_id b = conn"
    "us_next_checkpoint b = cb_next_checkpoint batch" "us_publication_eligible b = is_complete (us_completeness b)"
  using assms by (auto simp: project_batch_def host_bind_Inr Let_def)

lemma push_conn: "aggregate_push label limits page preserved ag = Inr ag' \<Longrightarrow>
   ag_source_connection_id ag' = ag_source_connection_id ag"
  by (auto simp: aggregate_push_def rbind_Inr_iff)

lemma bootstrap_page_closed:
  assumes "bootstrap_and_project C digest r fv s = (Inr b, s')"
  shows "closed_batch digest b"
  using assms by (auto simp: bootstrap_and_project_def host_bind_Inr intro: project_batch_closed)

lemma bootstrap_loop_sound:
  assumes "bootstrap_loop C digest r fv limits n current seen ag s = (Inr b, s')"
    and "agg_inv digest limits ag" "ag_source_connection_id ag = br_source_connection_id r"
  shows "closed_batch digest b \<and> us_source_connection_id b = br_source_connection_id r
    \<and> length (us_observed_changes b) \<le> max_total_changes limits
    \<and> content_bytes (us_contents b) \<le> unat (max_total_content_bytes limits)"
  using assms
proof (induction C digest r fv limits n current seen ag s rule: bootstrap_loop.induct)
  case (2 C digest r fv limits n current seen ag s)
  from "2.prems"(1) obtain page s1 continuation preserved seen1 ag1 where
    page: "bootstrap_and_project C digest (r\<lparr>br_checkpoint := current\<rparr>) fv s = (Inr page, s1)"
    and conn: "us_source_connection_id page = br_source_connection_id r"
    and c: "completeness_without_continuation (us_completeness page) = (continuation, preserved)"
    and seen: "(if continuation then validate_continuation_checkpoint current (us_next_checkpoint page) seen
      else Inr seen) = Inr seen1"
    and push: "aggregate_push BOOTSTRAP limits page preserved ag = Inr ag1"
    and rest: "(if \<not> continuation then (Inr (aggregate_finish (us_next_checkpoint page) ag1), s1)
      else bootstrap_loop C digest r fv limits n (Some (us_next_checkpoint page)) seen1 ag1 s1) = (Inr b, s')"
    by (auto simp: host_bind_Inr Let_def split: if_splits prod.splits)
  have inv1: "agg_inv digest limits ag1" and conn1: "ag_source_connection_id ag1 = br_source_connection_id r"
    using aggregate_push_inv[OF push bootstrap_page_closed[OF page]] push_conn[OF push] conn 2 by simp_all
  show ?case
  proof (cases continuation)
    case True
    then show ?thesis using "2.IH" page conn c seen push rest inv1 conn1
      by (auto simp: Let_def split: if_splits)
  next
    case False
    then have "b = aggregate_finish (us_next_checkpoint page) ag1" using rest by simp
    then show ?thesis using agg_inv_finish[OF inv1] conn1 by (simp add: aggregate_finish_def)
  qed
qed simp

lemma provenance_Inr:
  "validate_v2_batch_scope_provenance scope cs = Inr u \<longleftrightarrow>
   (\<forall>c\<in>set cs. \<exists>r\<in>set (sc_root_remote_ids scope). portable_scope_root_remote_id (ch_source_object c) = Inr (Some r))"
  by (induction cs) (auto simp: rbind_Inr_iff split: option.splits)

text \<open>Every change of a scope: it lies in a root that was asked for.\<close>

definition in_scope :: "portable_source_scope \<Rightarrow> portable_source_change \<Rightarrow> bool" where
  "in_scope scope c \<longleftrightarrow>
     (\<exists>r\<in>set (sc_root_remote_ids scope). portable_scope_root_remote_id (ch_source_object c) = Inr (Some r))"

lemma v2_page_Inr:
  assumes "synchronize_v2_page C digest r fv strip remaining s = (Inr page, s')"
  obtains batch s1 exact b continuation preserved where
    "validate_for_request batch (s2_scope r) (s2_max_changes r) = Inr exact"
    "validate_v2_batch_scope_provenance (s2_scope r) (b2_changes batch) = Inr ()"
    "project_batch C digest (s2_source_connection_id r)
         \<lparr>cb_changes = b2_changes batch, cb_next_checkpoint = b2_next_checkpoint batch,
          cb_completeness = (if strip then preserved else b2_completeness batch)\<rparr>
         FetchSynchronization fv s1 = (Inr b, s')"
    "page = \<lparr>pg_result = \<lparr>u2_batch = b, u2_scope = s2_scope r, u2_mode = s2_mode r, u2_authority = b2_authority batch,
             u2_authorizes_omission = (s2_mode r = ReconcileScope \<and> b2_authority batch = CompleteScopeSnapshot
               \<and> \<not> continuation \<and> is_complete (us_completeness b) \<and> exact)\<rparr>,
           pg_covered_root_remote_ids = b2_covered_root_remote_ids batch,
           pg_has_checkpoint_continuation = continuation, pg_has_exact_scope_coverage = exact\<rparr>"
proof -
  obtain batch s1 exact where v: "validate_for_request batch (s2_scope r) (s2_max_changes r) = Inr exact"
    and rest: "(case completeness_without_continuation (b2_completeness batch) of (continuation, preserved) \<Rightarrow>
     host_bind (validate_v2_batch_scope_provenance (s2_scope r) (b2_changes batch), s1) (\<lambda>_ s.
     if (case remaining of None \<Rightarrow> False | Some n \<Rightarrow> length (b2_changes batch) > n)
     then (invalid_state (SYNC_V2 @ '' exceeded its change limit''), s)
     else host_bind (project_batch C digest (s2_source_connection_id r)
         \<lparr>cb_changes = b2_changes batch, cb_next_checkpoint = b2_next_checkpoint batch,
          cb_completeness = (if strip then preserved else b2_completeness batch)\<rparr>
         FetchSynchronization fv s) (\<lambda>b s.
     (Inr \<lparr>pg_result = \<lparr>u2_batch = b, u2_scope = s2_scope r, u2_mode = s2_mode r, u2_authority = b2_authority batch,
             u2_authorizes_omission = (s2_mode r = ReconcileScope \<and> b2_authority batch = CompleteScopeSnapshot
               \<and> \<not> continuation \<and> is_complete (us_completeness b) \<and> exact)\<rparr>,
           pg_covered_root_remote_ids = b2_covered_root_remote_ids batch,
           pg_has_checkpoint_continuation = continuation, pg_has_exact_scope_coverage = exact\<rparr>, s)))) = (Inr page, s')"
    using assms unfolding synchronize_v2_page_def host_bind_Inr by blast
  obtain continuation preserved where "completeness_without_continuation (b2_completeness batch) = (continuation, preserved)"
    by (rule prod.exhaust)
  with rest have rest': "host_bind (validate_v2_batch_scope_provenance (s2_scope r) (b2_changes batch), s1) (\<lambda>_ s.
     if (case remaining of None \<Rightarrow> False | Some n \<Rightarrow> length (b2_changes batch) > n)
     then (invalid_state (SYNC_V2 @ '' exceeded its change limit''), s)
     else host_bind (project_batch C digest (s2_source_connection_id r)
         \<lparr>cb_changes = b2_changes batch, cb_next_checkpoint = b2_next_checkpoint batch,
          cb_completeness = (if strip then preserved else b2_completeness batch)\<rparr>
         FetchSynchronization fv s) (\<lambda>b s.
     (Inr \<lparr>pg_result = \<lparr>u2_batch = b, u2_scope = s2_scope r, u2_mode = s2_mode r, u2_authority = b2_authority batch,
             u2_authorizes_omission = (s2_mode r = ReconcileScope \<and> b2_authority batch = CompleteScopeSnapshot
               \<and> \<not> continuation \<and> is_complete (us_completeness b) \<and> exact)\<rparr>,
           pg_covered_root_remote_ids = b2_covered_root_remote_ids batch,
           pg_has_checkpoint_continuation = continuation, pg_has_exact_scope_coverage = exact\<rparr>, s))) = (Inr page, s')"
    by (simp only: prod.case)
  show thesis
    using rest' unfolding host_bind_Inr if_invalid prod.inject sum.inject
    by (elim exE conjE) (hypsubst, rule that[where continuation = continuation and preserved = preserved, OF v]; (assumption | rule refl | simp; fail))
qed

lemma v2_page_facts:
  assumes "synchronize_v2_page C digest r fv strip remaining s = (Inr page, s')"
  shows "closed_batch digest (u2_batch (pg_result page))"
    "us_source_connection_id (u2_batch (pg_result page)) = s2_source_connection_id r"
    "\<forall>c\<in>set (us_observed_changes (u2_batch (pg_result page))). in_scope (s2_scope r) c"
    "length (us_observed_changes (u2_batch (pg_result page))) \<le> unat (s2_max_changes r)"
    "u2_authorizes_omission (pg_result page) \<Longrightarrow> s2_mode r = ReconcileScope
       \<and> u2_authority (pg_result page) = CompleteScopeSnapshot
       \<and> is_complete (us_completeness (u2_batch (pg_result page)))
       \<and> set (pg_covered_root_remote_ids page) = set (sc_root_remote_ids (s2_scope r))"
proof -
  obtain batch s1 exact b continuation preserved where
    v: "validate_for_request batch (s2_scope r) (s2_max_changes r) = Inr exact"
    and prov: "validate_v2_batch_scope_provenance (s2_scope r) (b2_changes batch) = Inr ()"
    and pb: "project_batch C digest (s2_source_connection_id r)
         \<lparr>cb_changes = b2_changes batch, cb_next_checkpoint = b2_next_checkpoint batch,
          cb_completeness = (if strip then preserved else b2_completeness batch)\<rparr>
         FetchSynchronization fv s1 = (Inr b, s')"
    and page: "page = \<lparr>pg_result = \<lparr>u2_batch = b, u2_scope = s2_scope r, u2_mode = s2_mode r, u2_authority = b2_authority batch,
             u2_authorizes_omission = (s2_mode r = ReconcileScope \<and> b2_authority batch = CompleteScopeSnapshot
               \<and> \<not> continuation \<and> is_complete (us_completeness b) \<and> exact)\<rparr>,
           pg_covered_root_remote_ids = b2_covered_root_remote_ids batch,
           pg_has_checkpoint_continuation = continuation, pg_has_exact_scope_coverage = exact\<rparr>"
    by (rule v2_page_Inr[OF assms])
  note os = project_batch_sel(1)[OF pb, simplified] and conn = project_batch_sel(2)[OF pb]
  show "closed_batch digest (u2_batch (pg_result page))"
    using project_batch_closed[OF pb] by (simp add: page)
  show "us_source_connection_id (u2_batch (pg_result page)) = s2_source_connection_id r"
    using conn by (simp add: page)
  show "\<forall>c\<in>set (us_observed_changes (u2_batch (pg_result page))). in_scope (s2_scope r) c"
    using prov by (simp add: page os provenance_Inr in_scope_def)
  show "length (us_observed_changes (u2_batch (pg_result page))) \<le> unat (s2_max_changes r)"
    using exact_coverage(2)[OF v] by (simp add: page os)
  show "u2_authorizes_omission (pg_result page) \<Longrightarrow> s2_mode r = ReconcileScope
       \<and> u2_authority (pg_result page) = CompleteScopeSnapshot
       \<and> is_complete (us_completeness (u2_batch (pg_result page)))
       \<and> set (pg_covered_root_remote_ids page) = set (sc_root_remote_ids (s2_scope r))"
    using exact_coverage(1)[OF v] by (simp add: page)
qed

text \<open>The results of a v2 loop.\<close>

definition v2_sound :: "(string \<Rightarrow> string) \<Rightarrow> aggregation_limits \<Rightarrow> portable_sync_request_v2 \<Rightarrow> sync_batch_v2 \<Rightarrow> bool" where
  "v2_sound digest limits r b \<longleftrightarrow>
     closed_batch digest (u2_batch b) \<and> us_source_connection_id (u2_batch b) = s2_source_connection_id r
   \<and> u2_scope b = s2_scope r \<and> u2_mode b = s2_mode r
   \<and> length (us_observed_changes (u2_batch b)) \<le> max_total_changes limits
   \<and> content_bytes (us_contents (u2_batch b)) \<le> unat (max_total_content_bytes limits)
   \<and> (\<forall>c\<in>set (us_observed_changes (u2_batch b)). in_scope (s2_scope r) c)
   \<and> (u2_authorizes_omission b \<longrightarrow> s2_mode r = ReconcileScope \<and> u2_authority b = CompleteScopeSnapshot
        \<and> us_publication_eligible (u2_batch b) \<and> is_complete (us_completeness (u2_batch b)))"

lemma aggregate_v2_push_observed:
  assumes push: "aggregate_v2_push limits page covered ag = Inr ag'" and cl: "closed_batch digest page"
  shows "set (map snd (ag_observed_changes ag')) = set (map snd (ag_observed_changes ag)) \<union> set (us_observed_changes page)"
  using aggregate_push_mset(2)[OF push[unfolded aggregate_v2_push_def] cl, THEN mset_eq_facts(1)] by simp

lemma sync_v2_loop_sound:
  assumes "sync_v2_loop C digest r fv limits n current seen ag s = (Inr b, s')"
    and "agg_inv digest limits ag" "ag_source_connection_id ag = s2_source_connection_id r"
    and "\<forall>c\<in>set (map snd (ag_observed_changes ag)). in_scope (s2_scope r) c"
  shows "v2_sound digest limits r b"
  using assms
proof (induction C digest r fv limits n current seen ag s rule: sync_v2_loop.induct)
  case (2 C digest r fv limits n current seen ag s)
  from "2.prems"(1) obtain page s1 seen1 ag1 where
    page: "synchronize_v2_page C digest (r\<lparr>s2_checkpoint := current\<rparr>) fv True (Some (remaining_changes limits ag)) s = (Inr page, s1)"
    and id: "us_source_connection_id (u2_batch (pg_result page)) = s2_source_connection_id r"
      "u2_scope (pg_result page) = s2_scope r" "u2_mode (pg_result page) = s2_mode r"
    and seen: "(if pg_has_checkpoint_continuation page
      then validate_sync_v2_continuation_checkpoint current (us_next_checkpoint (u2_batch (pg_result page))) seen
      else Inr seen) = Inr seen1"
    and push: "aggregate_v2_push limits (u2_batch (pg_result page)) (pg_covered_root_remote_ids page) ag = Inr ag1"
    and rest: "(if \<not> pg_has_checkpoint_continuation page
      then (Inr (aggregate_v2_finish (us_next_checkpoint (u2_batch (pg_result page))) (s2_scope r) (s2_mode r)
         (u2_authority (pg_result page)) (pg_has_exact_scope_coverage page) ag1), s1)
      else sync_v2_loop C digest r fv limits n (us_next_checkpoint (u2_batch (pg_result page))) seen1 ag1 s1) = (Inr b, s')"
    unfolding sync_v2_loop.simps host_bind_Inr Let_def if_invalid prod.inject sum.inject de_Morgan_disj not_not
    by (elim exE conjE) (rule that; simp)
  note pf = v2_page_facts[OF page, simplified]
  have "agg_inv digest limits (ag\<lparr>ag_covered_root_remote_ids := ag_covered_root_remote_ids ag \<union> set (pg_covered_root_remote_ids page)\<rparr>)"
    using 2 by (simp add: agg_inv_def)
  then have inv1: "agg_inv digest limits ag1" and conn1: "ag_source_connection_id ag1 = s2_source_connection_id r"
    using push[unfolded aggregate_v2_push_def, THEN aggregate_push_inv, OF pf(1)]
      push[unfolded aggregate_v2_push_def, THEN push_conn] id 2 by simp_all
  have scope1: "\<forall>c\<in>set (map snd (ag_observed_changes ag1)). in_scope (s2_scope r) c"
    using aggregate_v2_push_observed[OF push pf(1)] pf(3) 2 by blast
  show ?case
  proof (cases "pg_has_checkpoint_continuation page")
    case True
    then show ?thesis using "2.IH" page id seen push rest inv1 conn1 scope1
      by (auto simp: Let_def split: if_splits)
  next
    case False
    then have "b = aggregate_v2_finish (us_next_checkpoint (u2_batch (pg_result page))) (s2_scope r) (s2_mode r)
         (u2_authority (pg_result page)) (pg_has_exact_scope_coverage page) ag1" using rest by simp
    then show ?thesis using agg_inv_finish[OF inv1] conn1 scope1
      by (simp add: aggregate_v2_finish_def v2_sound_def) (simp add: aggregate_finish_def)
  qed
qed simp

section \<open>Completeness without continuation\<close>

lemma fold_preserved:
  "set (pc_incomplete_reasons (fold (\<lambda>reason p. if reason \<noteq> CheckpointContinuation
       then completeness_merge p (completeness_incomplete reason) else p) rs p)) =
     set (pc_incomplete_reasons p) \<union> (set rs - {CheckpointContinuation})"
  by (induction rs arbitrary: p) (auto simp: merge_reasons completeness_incomplete_def)

lemma fold_preserved_complete:
  "is_complete (fold (\<lambda>reason p. if reason \<noteq> CheckpointContinuation
       then completeness_merge p (completeness_incomplete reason) else p) rs p) \<longleftrightarrow>
     is_complete p \<and> set rs \<subseteq> {CheckpointContinuation}"
  by (induction rs arbitrary: p) auto

lemma without_continuation_facts:
  assumes "completeness_without_continuation c = (k, p)"
  shows "k \<longleftrightarrow> CheckpointContinuation \<in> set (pc_incomplete_reasons c)"
    "set (pc_incomplete_reasons p) = set (pc_incomplete_reasons c) - {CheckpointContinuation}"
    "is_complete p \<longleftrightarrow> is_complete c \<or> set (pc_incomplete_reasons c) = {CheckpointContinuation}"
proof -
  let ?p0 = "if pc_incomplete_reasons c = [] \<and> \<not> is_complete c then completeness_default else completeness_complete"
  have kp: "k \<longleftrightarrow> CheckpointContinuation \<in> set (pc_incomplete_reasons c)"
    and p: "p = fold (\<lambda>reason p. if reason \<noteq> CheckpointContinuation
       then completeness_merge p (completeness_incomplete reason) else p) (pc_incomplete_reasons c) ?p0"
    using assms by (simp_all add: completeness_without_continuation_def Let_def)
  show "k \<longleftrightarrow> CheckpointContinuation \<in> set (pc_incomplete_reasons c)" by (rule kp)
  show "set (pc_incomplete_reasons p) = set (pc_incomplete_reasons c) - {CheckpointContinuation}"
    unfolding p fold_preserved by (simp add: completeness_default_def completeness_complete_def)
  have "is_complete c \<Longrightarrow> pc_incomplete_reasons c = []" by (simp add: is_complete_def)
  moreover have "is_complete ?p0 \<longleftrightarrow> pc_incomplete_reasons c \<noteq> [] \<or> is_complete c" by simp
  ultimately show "is_complete p \<longleftrightarrow> is_complete c \<or> set (pc_incomplete_reasons c) = {CheckpointContinuation}"
    unfolding p fold_preserved_complete by (cases "pc_incomplete_reasons c") auto
qed

section \<open>Sample runs\<close>

definition sample_limits :: aggregation_limits where
  "sample_limits = \<lparr>max_checkpoints = 3, max_total_changes = 5, max_total_content_bytes = 100\<rparr>"

definition sample_bootstrap_request :: portable_bootstrap_request where
  "sample_bootstrap_request = \<lparr>br_source_connection_id = ''conn'', br_scope = all_shared, br_checkpoint = None,
     br_max_changes = 10\<rparr>"

definition sample_sync_request :: portable_sync_request_v2 where
  "sample_sync_request = \<lparr>s2_source_connection_id = ''conn'', s2_scope = explicit_roots [RemoteId ''r''],
     s2_checkpoint = sample_checkpoint ''c0'', s2_mode = ReconcileScope, s2_hints = [], s2_max_changes = 10\<rparr>"

lemma not_isl_iff: "\<not> isl r \<longleftrightarrow> (\<exists>b. r = Inr b)"
  by (cases r) auto

lemma not_isl_result: "\<not> isl (fst r) \<Longrightarrow> \<exists>b. r = (Inr b, snd r)"
  by (cases r; cases "fst r") auto

lemma sample_dispatch:
  "dispatch_portable_sync_v2 sample_connector sample_sync_request s = sample_sync_v2 sample_sync_request s"
  by (simp add: dispatch_portable_sync_v2_def host_bind_def validate_sync_request_v2_def sample_sync_request_def rbind_def
   sample_checkpoint_def validate_portable_sync_v2_scope_def explicit_roots_def max_changes_invalid_def
   validate_portable_sync_v2_id_def sample_connector_def)

definition sample_snapshot :: portable_change_batch_v2 where
  "sample_snapshot = projr (fst (sample_sync_v2 sample_sync_request ()))"

lemma sample_snapshot_valid:
  "validate_for_request sample_snapshot (s2_scope sample_sync_request) (s2_max_changes sample_sync_request) = Inr True"
  by (simp add: validate_for_request_def sample_snapshot_def sample_sync_v2_def sample_sync_request_def max_changes_invalid_def
   has_exact_scope_coverage_def sample_checkpoint_def validate_portable_sync_v2_scope_def explicit_roots_def rbind_def
   validate_portable_sync_v2_id_def)

definition sample_v2_batch :: "sync_batch locality_result" where
  "sample_v2_batch = fst (project_batch sample_connector sample_digest ''conn''
    \<lparr>cb_changes = b2_changes sample_snapshot, cb_next_checkpoint = b2_next_checkpoint sample_snapshot,
     cb_completeness = completeness_complete\<rparr> FetchSynchronization 1 ())"

lemma sample_connector_run:
  "(case sample_v2_batch of Inl e \<Rightarrow> False | Inr b \<Rightarrow> is_complete (us_completeness b)
     \<and> \<not> isl (aggregate_v2_push sample_limits b [RemoteId ''r''] (aggregate_v2_new ''conn'')))
   \<and> completeness_without_continuation (b2_completeness sample_snapshot) = (False, completeness_complete)
   \<and> validate_v2_batch_scope_provenance (s2_scope sample_sync_request) (b2_changes sample_snapshot) = Inr ()
   \<and> length (b2_changes sample_snapshot) = 2
   \<and> \<not> isl (fst (bootstrap_and_project_to_completion sample_connector sample_digest sample_bootstrap_request 1 sample_limits ()))"
  by code_simp

lemma sample_v2_batch_ok:
  "case sample_v2_batch of Inl e \<Rightarrow> False | Inr b \<Rightarrow> is_complete (us_completeness b)
     \<and> \<not> isl (aggregate_v2_push sample_limits b [RemoteId ''r''] (aggregate_v2_new ''conn''))"
  using sample_connector_run by blast

lemma sample_snapshot_facts:
  "completeness_without_continuation (b2_completeness sample_snapshot) = (False, completeness_complete)"
  "validate_v2_batch_scope_provenance (s2_scope sample_sync_request) (b2_changes sample_snapshot) = Inr ()"
  "length (b2_changes sample_snapshot) = 2"
  using sample_connector_run by blast+

lemma sample_sync_answers: "sample_sync_v2 sample_sync_request () = (Inr sample_snapshot, ())"
  by (simp add: sample_snapshot_def sample_sync_v2_def)

lemma sample_v2_completes:
  "\<exists>b. synchronize_v2_to_completion sample_connector sample_digest sample_sync_request 1 sample_limits () = (Inr b, ())
     \<and> u2_authorizes_omission b"
proof -
  obtain b ag where b: "sample_v2_batch = Inr b" and complete: "is_complete (us_completeness b)"
    and push: "aggregate_v2_push sample_limits b [RemoteId ''r''] (aggregate_v2_new ''conn'') = Inr ag"
    using sample_v2_batch_ok by (auto simp: not_isl_iff split: sum.splits)
  have ag: "ag_covered_root_remote_ids ag = {RemoteId ''r''}" "is_complete (ag_completeness ag)"
    using push complete by (auto simp: aggregate_v2_push_def aggregate_push_def rbind_Inr_iff aggregate_v2_new_def
        aggregate_new_def sync_aggregate.defs)
  have fields: "s2_source_connection_id sample_sync_request = ''conn''"
    "s2_scope sample_sync_request = explicit_roots [RemoteId ''r'']" "s2_mode sample_sync_request = ReconcileScope"
    "s2_checkpoint sample_sync_request = sample_checkpoint ''c0''"
    "sample_sync_request\<lparr>s2_checkpoint := sample_checkpoint ''c0''\<rparr> = sample_sync_request"
    by (simp_all add: sample_sync_request_def)
  have snap: "b2_covered_root_remote_ids sample_snapshot = [RemoteId ''r'']" "b2_authority sample_snapshot = CompleteScopeSnapshot"
    by (simp_all add: sample_snapshot_def sample_sync_v2_def)
  have pb: "project_batch sample_connector sample_digest ''conn''
    \<lparr>cb_changes = b2_changes sample_snapshot, cb_next_checkpoint = b2_next_checkpoint sample_snapshot,
     cb_completeness = completeness_complete\<rparr> FetchSynchronization 1 () = (Inr b, ())"
    using b by (simp add: sample_v2_batch_def prod_eq_iff)
  let ?pg = "\<lparr>pg_result = \<lparr>u2_batch = b, u2_scope = explicit_roots [RemoteId ''r''], u2_mode = ReconcileScope,
      u2_authority = CompleteScopeSnapshot, u2_authorizes_omission = True\<rparr>,
      pg_covered_root_remote_ids = [RemoteId ''r''], pg_has_checkpoint_continuation = False, pg_has_exact_scope_coverage = True\<rparr>"
  have page: "synchronize_v2_page sample_connector sample_digest sample_sync_request 1 True (Some 5) () = (Inr ?pg, ())"
    using pb complete sample_snapshot_valid sample_snapshot_facts
    by (simp add: synchronize_v2_page_def sample_dispatch sample_sync_answers host_bind_def fields snap)
  have limits: "max_checkpoints sample_limits = Suc (Suc (Suc 0))" "remaining_changes sample_limits (aggregate_v2_new ''conn'') = 5"
    "validate_limits SYNC_V2 sample_limits = Inr sample_limits"
    by (simp_all add: sample_limits_def remaining_changes_def aggregate_v2_new_def aggregate_new_def
        sync_aggregate.defs validate_limits_def)
  have "us_source_connection_id b = ''conn''" using project_batch_sel(2)[OF pb] .
  then have "synchronize_v2_to_completion sample_connector sample_digest sample_sync_request 1 sample_limits () =
      (Inr (aggregate_v2_finish (us_next_checkpoint b) (explicit_roots [RemoteId ''r'']) ReconcileScope
        CompleteScopeSnapshot True ag), ())"
    by (simp add: synchronize_v2_to_completion_def limits host_bind_def fields page push Let_def)
  then show ?thesis by (simp add: aggregate_v2_finish_def ag explicit_roots_def)
qed

section \<open>Properties\<close>

text \<open>An all-shared scope has no explicit roots, so the provenance check of the engine rejects every change
  of such a synchronization, whose requests and coverage the connector interface accepts.\<close>

lemma all_shared_rejects_changes: "isl (validate_v2_batch_scope_provenance all_shared (c # cs))"
  by (cases "portable_scope_root_remote_id (ch_source_object c)")
    (auto simp: rbind_def all_shared_def split: option.splits)

text \<open>A bootstrap that runs to completion over any number of checkpoints returns one batch of the
  requested connection that is closed (every projection and version points to a content with the recorded
  hash, nothing repeats, exactly the changes to fetch have versions) and stays within the caller's limits on
  changes and on the bytes of all contents.\<close>

theorem completed_bootstrap_bounded:
  assumes "bootstrap_and_project_to_completion C digest r fv limits s = (Inr b, s')"
  shows "closed_batch digest b \<and> us_source_connection_id b = br_source_connection_id r
    \<and> length (us_observed_changes b) \<le> max_total_changes limits
    \<and> sum_list (map (\<lambda>c. unat (cc_byte_length c)) (us_contents b)) \<le> unat (max_total_content_bytes limits)"
proof -
  have "bootstrap_loop C digest r fv limits (max_checkpoints limits) (br_checkpoint r)
      (case br_checkpoint r of None \<Rightarrow> {} | Some c \<Rightarrow> {checkpoint_identity c})
      (aggregate_new (br_source_connection_id r)) s = (Inr b, s')"
    using assms by (simp add: bootstrap_and_project_to_completion_def host_bind_Inr validate_limits_def split: if_splits)
  from bootstrap_loop_sound[OF this agg_inv_new(1)] show ?thesis by (simp add: aggregate_new_def)
qed

theorem completed_bootstrap_bounded_witness:
  "\<exists>b. fst (bootstrap_and_project_to_completion sample_connector sample_digest sample_bootstrap_request 1 sample_limits ()) = Inr b
    \<and> closed_batch sample_digest b \<and> length (us_observed_changes b) \<le> 5"
proof -
  have "\<not> isl (fst (bootstrap_and_project_to_completion sample_connector sample_digest sample_bootstrap_request 1 sample_limits ()))"
    using sample_connector_run by blast
  from not_isl_result[OF this] obtain b where
    "bootstrap_and_project_to_completion sample_connector sample_digest sample_bootstrap_request 1 sample_limits () = (Inr b, ())"
    by auto
  from completed_bootstrap_bounded[OF this] this show ?thesis by (simp add: sample_limits_def)
qed

text \<open>C14: a v2 synchronization that runs to completion keeps the identity and the limits of its request,
  is closed, and every object it observed lies in a root that was asked for. It authorises the host to
  treat omissions as deletions only for a reconciliation whose last page claimed a complete snapshot of the
  scope and whose aggregate is complete; for an all-shared scope, which has no explicit roots, it then
  observed nothing.\<close>

theorem completed_synchronization_sound:
  assumes "synchronize_v2_to_completion C digest r fv limits s = (Inr b, s')"
  shows "closed_batch digest (u2_batch b)
    \<and> us_source_connection_id (u2_batch b) = s2_source_connection_id r \<and> u2_scope b = s2_scope r \<and> u2_mode b = s2_mode r
    \<and> length (us_observed_changes (u2_batch b)) \<le> max_total_changes limits
    \<and> sum_list (map (\<lambda>c. unat (cc_byte_length c)) (us_contents (u2_batch b))) \<le> unat (max_total_content_bytes limits)
    \<and> (\<forall>c\<in>set (us_observed_changes (u2_batch b)). \<exists>root\<in>set (sc_root_remote_ids (s2_scope r)).
         portable_scope_root_remote_id (ch_source_object c) = Inr (Some root))
    \<and> (u2_authorizes_omission b \<longrightarrow> s2_mode r = ReconcileScope \<and> u2_authority b = CompleteScopeSnapshot
         \<and> us_publication_eligible (u2_batch b) \<and> is_complete (us_completeness (u2_batch b)))"
proof -
  have "sync_v2_loop C digest r fv limits (max_checkpoints limits) (s2_checkpoint r)
         {checkpoint_identity (s2_checkpoint r)} (aggregate_v2_new (s2_source_connection_id r)) s = (Inr b, s')"
    using assms by (simp add: synchronize_v2_to_completion_def host_bind_Inr validate_limits_def split: if_splits)
  from sync_v2_loop_sound[OF this agg_inv_new(2)] have "v2_sound digest limits r b"
    by (simp add: aggregate_v2_new_def aggregate_new_def sync_aggregate.defs)
  then show ?thesis unfolding v2_sound_def in_scope_def .
qed

theorem completed_synchronization_sound_witness:
  "\<exists>b. fst (synchronize_v2_to_completion sample_connector sample_digest sample_sync_request 1 sample_limits ()) = Inr b
     \<and> u2_authorizes_omission b \<and> closed_batch sample_digest (u2_batch b)"
  using sample_v2_completes completed_synchronization_sound[of sample_connector sample_digest sample_sync_request 1
      sample_limits "()" _ "()"] by (metis fst_conv)

end
