(* ===== verification/Sync_Trace.thy ===== *)
theory Sync_Trace
  imports Sync_Bounds
begin

text \<open>
  The requests that the loops of \<open>locality-engine/src/synchronize_project.rs\<close> send: a connector that
  logs them shows that a run to completion ends after at most \<open>max_checkpoints\<close> requests, that it never
  asks for a checkpoint twice, and that nothing else of the request changes.
\<close>

section \<open>The requests of a loop\<close>

text \<open>A connector that also records the bootstrap and v2 requests it answers.\<close>

type_synonym request_log = "(portable_bootstrap_request + portable_sync_request_v2) list"

definition recorded :: "'r \<Rightarrow> ('s \<Rightarrow> 'a \<times> 's) \<Rightarrow> 's \<times> 'r list \<Rightarrow> 'a \<times> ('s \<times> 'r list)" where
  "recorded q f sl = (case sl of (s, l) \<Rightarrow> case f s of (a, s') \<Rightarrow> (a, (s', l @ [q])))"

definition unrecorded :: "('s \<Rightarrow> 'a \<times> 's) \<Rightarrow> 's \<times> 'r list \<Rightarrow> 'a \<times> ('s \<times> 'r list)" where
  "unrecorded f sl = (case sl of (s, l) \<Rightarrow> case f s of (a, s') \<Rightarrow> (a, (s', l)))"

definition logging :: "'s portable_connector \<Rightarrow> ('s \<times> request_log) portable_connector" where
  "logging C =
     \<lparr>k_bootstrap_portable = (\<lambda>r. recorded (Inl r) (k_bootstrap_portable C r)),
      k_sync_portable = (\<lambda>r. unrecorded (k_sync_portable C r)),
      k_sync_portable_v2_impl = (\<lambda>r. recorded (Inr r) (k_sync_portable_v2_impl C r)),
      k_fetch_portable = (\<lambda>r. unrecorded (k_fetch_portable C r)),
      k_render_portable = (\<lambda>r. unrecorded (k_render_portable C r))\<rparr>"

lemma snd_recorded [simp]: "snd (snd (recorded q f sl)) = snd sl @ [q]"
  by (simp add: recorded_def split: prod.splits)

lemma snd_unrecorded [simp]: "snd (snd (unrecorded f sl)) = snd sl"
  by (simp add: unrecorded_def split: prod.splits)

lemma host_bind_log:
  "snd (snd r) = l \<Longrightarrow> (\<And>a s. snd s = l \<Longrightarrow> snd (snd (f a s)) = l) \<Longrightarrow> snd (snd (host_bind r f)) = l"
  by (auto simp: host_bind_def split: prod.splits sum.splits)

lemma project_change_log:
  "snd (snd (project_change (logging C) digest conn reason fv change st s)) = snd s"
  by (auto simp: project_change_def Let_def logging_def split: option.splits intro!: host_bind_log)

lemma project_changes_log:
  "snd (snd (project_changes (logging C) digest conn reason fv changes st s)) = snd s"
  by (induction changes arbitrary: st s) (auto intro!: host_bind_log simp: project_change_log)

lemma project_batch_log:
  "snd (snd (project_batch (logging C) digest conn batch reason fv s)) = snd s"
  by (auto simp: project_batch_def Let_def project_changes_log intro!: host_bind_log)

lemma bootstrap_page_log:
  "snd (snd (bootstrap_and_project (logging C) digest r fv s)) = snd s @ [Inl r]"
  unfolding bootstrap_and_project_def
  by (rule host_bind_log) (simp_all add: logging_def project_batch_log[unfolded logging_def])

lemma snd_map_error [simp]: "snd (map_error f r) = snd r"
  by (simp add: map_error_def split: prod.splits sum.splits)

lemma v2_page_log:
  "snd (snd (synchronize_v2_page (logging C) digest r fv strip remaining s)) = snd s @ [Inr r]
   \<or> isl (fst (synchronize_v2_page (logging C) digest r fv strip remaining s))
     \<and> snd (snd (synchronize_v2_page (logging C) digest r fv strip remaining s)) = snd s"
proof (cases "validate_sync_request_v2 r")
  case (Inl e)
  then show ?thesis by (simp add: synchronize_v2_page_def dispatch_portable_sync_v2_def host_bind_def)
next
  case (Inr u)
  then have d: "dispatch_portable_sync_v2 (logging C) r s = recorded (Inr r) (k_sync_portable_v2_impl C r) s"
    by (simp add: dispatch_portable_sync_v2_def host_bind_def logging_def)
  have "snd (snd (synchronize_v2_page (logging C) digest r fv strip remaining s)) = snd s @ [Inr r]"
    unfolding synchronize_v2_page_def d
    by (auto intro!: host_bind_log simp: project_batch_log split: prod.splits)
  then show ?thesis by simp
qed

text \<open>The checkpoint requests \<open>qs\<close> of a run that may make \<open>n\<close> more, starts at \<open>current\<close> and knows
  the identities \<open>seen\<close>: they do not repeat and only the first may be known already.\<close>

definition fresh_run :: "nat \<Rightarrow> portable_checkpoint option \<Rightarrow> (16 word \<times> string) set
    \<Rightarrow> portable_checkpoint option list \<Rightarrow> bool" where
  "fresh_run n current seen qs \<longleftrightarrow>
     length qs \<le> n \<and> distinct qs \<and> (qs \<noteq> [] \<longrightarrow> hd qs = current)
   \<and> (\<forall>q\<in>set (tl qs). \<exists>c. q = Some c \<and> checkpoint_identity c \<notin> seen)"

lemma checkpoint_identity_eq [simp]: "checkpoint_identity c = checkpoint_identity d \<longleftrightarrow> c = d"
  by (cases c; cases d) (simp add: checkpoint_identity_def)

lemma fresh_run_Nil: "fresh_run n current seen []"
  by (simp add: fresh_run_def)

lemma fresh_run_single: "fresh_run (Suc n) current seen [current]"
  by (simp add: fresh_run_def)

lemma fresh_run_Cons:
  assumes "fresh_run n (Some next) (insert (checkpoint_identity next) seen) qs"
    and "checkpoint_identity next \<notin> seen" "\<And>c. current = Some c \<Longrightarrow> checkpoint_identity c \<in> seen"
  shows "fresh_run (Suc n) current seen (current # qs)"
proof -
  have "\<forall>q\<in>set qs. \<exists>c. q = Some c \<and> checkpoint_identity c \<notin> seen"
    using assms(1,2) by (cases qs) (auto simp: fresh_run_def)
  with assms show ?thesis by (auto simp: fresh_run_def)
qed

lemma validate_continuation_Inr:
  "validate_continuation_checkpoint current next seen = Inr seen' \<Longrightarrow>
   seen' = insert (checkpoint_identity next) seen \<and> checkpoint_identity next \<notin> seen"
  "validate_sync_v2_continuation_checkpoint c next seen = Inr seen' \<Longrightarrow>
   seen' = insert (checkpoint_identity next) seen \<and> checkpoint_identity next \<notin> seen"
  by (auto simp: validate_continuation_checkpoint_def validate_sync_v2_continuation_checkpoint_def split: if_splits)

lemma host_bind_cases:
  obtains (err) e s where "r = (Inl e, s)" "host_bind r f = (Inl e, s)"
  | (ok) a s where "r = (Inr a, s)" "host_bind r f = f a s"
  by (cases r; cases "fst r") (auto simp: host_bind_def)

lemma bootstrap_loop_log:
  assumes "\<And>c. current = Some c \<Longrightarrow> checkpoint_identity c \<in> seen"
  shows "\<exists>qs. snd (snd (bootstrap_loop (logging C) digest r fv limits n current seen ag s)) =
      snd s @ map (\<lambda>q. Inl (r\<lparr>br_checkpoint := q\<rparr>)) qs \<and> fresh_run n current seen qs"
  using assms
proof (induction n arbitrary: current seen ag s)
  case 0
  show ?case by (intro exI[of _ "[]"]) (simp add: fresh_run_Nil)
next
  case (Suc n)
  let ?page = "map_error (\<lambda>_. EInvalidState (BOOTSTRAP @ '' page failed''))
      (bootstrap_and_project (logging C) digest (r\<lparr>br_checkpoint := current\<rparr>) fv s)"
  let ?log = "snd s @ [Inl (r\<lparr>br_checkpoint := current\<rparr>)]"
  have log: "snd (snd ?page) = ?log" by (simp add: bootstrap_page_log)
  let ?R = "bootstrap_loop (logging C) digest r fv limits (Suc n) current seen ag s"
  consider "snd (snd ?R) = ?log"
    | nx seen1 ag1 s1 where "?R = bootstrap_loop (logging C) digest r fv limits n (Some nx) seen1 ag1 s1"
      "snd s1 = ?log" "validate_continuation_checkpoint current nx seen = Inr seen1"
  proof -
    obtain res s1 where Pair: "?page = (res, s1)" by (rule prod.exhaust)
    then have s1: "snd s1 = ?log" using log by simp
    show ?thesis
    proof (cases res)
      case (Inl e)
      then show ?thesis using Pair s1 that(1) by (simp add: host_bind_def)
    next
      case (Inr page)
      let ?next = "us_next_checkpoint page"
      obtain k p where kp: "completeness_without_continuation (us_completeness page) = (k, p)" by (rule prod.exhaust)
      have R: "?R = (if us_source_connection_id page \<noteq> br_source_connection_id r
        then (invalid_state (BOOTSTRAP @ '' changed source connection''), s1)
        else host_bind (if k then validate_continuation_checkpoint current ?next seen else Inr seen, s1) (\<lambda>seen s.
          host_bind (aggregate_push BOOTSTRAP limits page p ag, s) (\<lambda>ag s.
          if \<not> k then (Inr (aggregate_finish ?next ag), s)
          else bootstrap_loop (logging C) digest r fv limits n (Some ?next) seen ag s)))"
        by (simp add: Pair Inr host_bind_def kp Let_def)
      show ?thesis
        using R s1 that by (cases k) (auto simp: host_bind_def split: if_splits sum.splits)
    qed
  qed
  then show ?case
  proof cases
    case 1
    then show ?thesis by (intro exI[of _ "[current]"]) (simp add: fresh_run_single)
  next
    case (2 nx seen1 ag1 s1)
    note v = validate_continuation_Inr(1)[OF 2(3)]
    have "\<exists>qs. snd (snd (bootstrap_loop (logging C) digest r fv limits n (Some nx) seen1 ag1 s1)) =
        snd s1 @ map (\<lambda>q. Inl (r\<lparr>br_checkpoint := q\<rparr>)) qs \<and> fresh_run n (Some nx) seen1 qs"
      by (rule Suc.IH) (use v in simp)
    then obtain qs where
      log1: "snd (snd (bootstrap_loop (logging C) digest r fv limits n (Some nx) seen1 ag1 s1)) =
        snd s1 @ map (\<lambda>q. Inl (r\<lparr>br_checkpoint := q\<rparr>)) qs" and run: "fresh_run n (Some nx) seen1 qs"
      by blast
    have "snd (snd ?R) = snd s @ map (\<lambda>q. Inl (r\<lparr>br_checkpoint := q\<rparr>)) (current # qs)"
      unfolding 2(1) log1 2(2) by simp
    moreover have "fresh_run (Suc n) current seen (current # qs)"
      using fresh_run_Cons[of n nx seen qs current] run v Suc.prems by simp
    ultimately show ?thesis by blast
  qed
qed

lemma sync_v2_loop_log:
  assumes "checkpoint_identity current \<in> seen"
  shows "\<exists>qs. snd (snd (sync_v2_loop (logging C) digest r fv limits n current seen ag s)) =
      snd s @ map (\<lambda>q. Inr (r\<lparr>s2_checkpoint := the q\<rparr>)) qs \<and> fresh_run n (Some current) seen qs"
  using assms
proof (induction n arbitrary: current seen ag s)
  case 0
  show ?case by (intro exI[of _ "[]"]) (simp add: fresh_run_Nil)
next
  case (Suc n)
  let ?page = "synchronize_v2_page (logging C) digest (r\<lparr>s2_checkpoint := current\<rparr>) fv True
      (Some (remaining_changes limits ag)) s"
  let ?log = "snd s @ [Inr (r\<lparr>s2_checkpoint := current\<rparr>)]"
  let ?R = "sync_v2_loop (logging C) digest r fv limits (Suc n) current seen ag s"
  have log: "snd (snd ?page) = ?log \<or> isl (fst ?page) \<and> snd (snd ?page) = snd s"
    using v2_page_log[of C digest "r\<lparr>s2_checkpoint := current\<rparr>" fv True "Some (remaining_changes limits ag)" s] by auto
  consider "snd (snd ?R) = ?log" | "snd (snd ?R) = snd s"
    | nx seen1 ag1 s1 where "?R = sync_v2_loop (logging C) digest r fv limits n nx seen1 ag1 s1"
      "snd s1 = ?log" "validate_sync_v2_continuation_checkpoint current nx seen = Inr seen1"
  proof -
    obtain res s1 where Pair: "?page = (res, s1)" by (rule prod.exhaust)
    show ?thesis
    proof (cases res)
      case (Inl e)
      then show ?thesis using Pair log that(1,2) by (auto simp: host_bind_def)
    next
      case (Inr page)
      have s1: "snd s1 = ?log" using log Pair Inr by simp
      let ?b = "u2_batch (pg_result page)"
      have R: "?R = (if us_source_connection_id ?b \<noteq> s2_source_connection_id r \<or> u2_scope (pg_result page) \<noteq> s2_scope r
           \<or> u2_mode (pg_result page) \<noteq> s2_mode r
        then (invalid_state (SYNC_V2 @ '' changed request identity''), s1)
        else host_bind (if pg_has_checkpoint_continuation page
          then validate_sync_v2_continuation_checkpoint current (us_next_checkpoint ?b) seen else Inr seen, s1) (\<lambda>seen s.
          host_bind (aggregate_v2_push limits ?b (pg_covered_root_remote_ids page) ag, s) (\<lambda>ag s.
          if \<not> pg_has_checkpoint_continuation page
          then (Inr (aggregate_v2_finish (us_next_checkpoint ?b) (s2_scope r) (s2_mode r) (u2_authority (pg_result page))
                 (pg_has_exact_scope_coverage page) ag), s)
          else sync_v2_loop (logging C) digest r fv limits n (us_next_checkpoint ?b) seen ag s)))"
        by (simp add: Pair Inr host_bind_def Let_def)
      show ?thesis
        using R s1 that by (cases "pg_has_checkpoint_continuation page") (auto simp: host_bind_def split: if_splits sum.splits)
    qed
  qed
  then show ?case
  proof cases
    case 1
    then show ?thesis by (intro exI[of _ "[Some current]"]) (simp add: fresh_run_single)
  next
    case 2
    then show ?thesis by (intro exI[of _ "[]"]) (simp add: fresh_run_Nil)
  next
    case (3 nx seen1 ag1 s1)
    note v = validate_continuation_Inr(2)[OF 3(3)]
    have "\<exists>qs. snd (snd (sync_v2_loop (logging C) digest r fv limits n nx seen1 ag1 s1)) =
        snd s1 @ map (\<lambda>q. Inr (r\<lparr>s2_checkpoint := the q\<rparr>)) qs \<and> fresh_run n (Some nx) seen1 qs"
      by (rule Suc.IH) (use v in simp)
    then obtain qs where
      log1: "snd (snd (sync_v2_loop (logging C) digest r fv limits n nx seen1 ag1 s1)) =
        snd s1 @ map (\<lambda>q. Inr (r\<lparr>s2_checkpoint := the q\<rparr>)) qs" and run: "fresh_run n (Some nx) seen1 qs"
      by blast
    have "snd (snd ?R) = snd s @ map (\<lambda>q. Inr (r\<lparr>s2_checkpoint := the q\<rparr>)) (Some current # qs)"
      unfolding 3(1) log1 3(2) by simp
    moreover have "fresh_run (Suc n) (Some current) seen (Some current # qs)"
      using fresh_run_Cons[of n nx seen qs "Some current"] run v Suc.prems by simp
    ultimately show ?thesis by blast
  qed
qed

lemma fresh_run_bounds: "fresh_run n current seen qs \<Longrightarrow> length qs \<le> n \<and> distinct qs"
  by (simp add: fresh_run_def)

text \<open>C26: a run to completion ends, and its work is bounded by the caller, whatever the connector answers
  and whether it succeeds: a bootstrap sends at most \<open>max_checkpoints\<close> requests, all equal to the caller's
  but for the checkpoint, and never asks for the same checkpoint twice; the same holds for a v2
  synchronization.\<close>

theorem completion_requests_bounded:
  "(\<exists>qs. snd (snd (bootstrap_and_project_to_completion (logging C) digest r fv limits (s, []))) =
        map (\<lambda>q. Inl (r\<lparr>br_checkpoint := q\<rparr>)) qs
      \<and> length qs \<le> max_checkpoints limits \<and> distinct qs)
   \<and> (\<exists>qs. snd (snd (synchronize_v2_to_completion (logging C) digest r2 fv limits (s, []))) =
        map (\<lambda>q. Inr (r2\<lparr>s2_checkpoint := the q\<rparr>)) qs
      \<and> length qs \<le> max_checkpoints limits \<and> distinct qs)"
proof
  let ?seen = "case br_checkpoint r of None \<Rightarrow> {} | Some c \<Rightarrow> {checkpoint_identity c}"
  show "\<exists>qs. snd (snd (bootstrap_and_project_to_completion (logging C) digest r fv limits (s, []))) =
        map (\<lambda>q. Inl (r\<lparr>br_checkpoint := q\<rparr>)) qs \<and> length qs \<le> max_checkpoints limits \<and> distinct qs"
  proof (cases "validate_limits BOOTSTRAP limits")
    case (Inr l)
    then have "l = limits" by (simp add: validate_limits_def split: if_splits)
    have "\<exists>qs. snd (snd (bootstrap_loop (logging C) digest r fv limits (max_checkpoints limits) (br_checkpoint r) ?seen
          (aggregate_new (br_source_connection_id r)) (s, []))) =
        snd (s, []) @ map (\<lambda>q. Inl (r\<lparr>br_checkpoint := q\<rparr>)) qs \<and> fresh_run (max_checkpoints limits) (br_checkpoint r) ?seen qs"
      by (rule bootstrap_loop_log) simp
    then show ?thesis
      by (auto simp: bootstrap_and_project_to_completion_def host_bind_def Inr \<open>l = limits\<close> dest!: fresh_run_bounds)
  qed (auto simp: bootstrap_and_project_to_completion_def host_bind_def)
  show "\<exists>qs. snd (snd (synchronize_v2_to_completion (logging C) digest r2 fv limits (s, []))) =
        map (\<lambda>q. Inr (r2\<lparr>s2_checkpoint := the q\<rparr>)) qs \<and> length qs \<le> max_checkpoints limits \<and> distinct qs"
  proof (cases "validate_limits SYNC_V2 limits")
    case (Inr l)
    then have "l = limits" by (simp add: validate_limits_def split: if_splits)
    have "\<exists>qs. snd (snd (sync_v2_loop (logging C) digest r2 fv limits (max_checkpoints limits) (s2_checkpoint r2)
          {checkpoint_identity (s2_checkpoint r2)} (aggregate_v2_new (s2_source_connection_id r2)) (s, []))) =
        snd (s, []) @ map (\<lambda>q. Inr (r2\<lparr>s2_checkpoint := the q\<rparr>)) qs
        \<and> fresh_run (max_checkpoints limits) (Some (s2_checkpoint r2)) {checkpoint_identity (s2_checkpoint r2)} qs"
      by (rule sync_v2_loop_log) simp
    then show ?thesis
      by (auto simp: synchronize_v2_to_completion_def host_bind_def Inr \<open>l = limits\<close> dest!: fresh_run_bounds)
  qed (auto simp: synchronize_v2_to_completion_def host_bind_def)
qed

section \<open>A single page\<close>

lemma bm_insert_last: "\<forall>(j, w)\<in>set m. j < k \<Longrightarrow> bm_insert k v m = m @ [(k, v)]"
  by (induction k v m rule: bm_insert.induct) auto

lemma extend_by_sorted:
  "sorted_wrt (<) (map key vs) \<Longrightarrow> \<forall>(j, w)\<in>set m. \<forall>v\<in>set vs. j < key v \<Longrightarrow>
   extend_by key m vs = m @ map (\<lambda>v. (key v, v)) vs"
proof (induction vs arbitrary: m)
  case (Cons v vs)
  have "bm_insert (key v) v m = m @ [(key v, v)]" using Cons.prems(2) by (intro bm_insert_last) auto
  moreover have "\<forall>(j, w)\<in>set (m @ [(key v, v)]). \<forall>w'\<in>set vs. j < key w'" using Cons.prems by auto
  ultimately show ?case using Cons.IH[of "m @ [(key v, v)]"] Cons.prems(1) by (simp add: extend_by_Cons)
qed simp

lemma extend_by_empty: "sorted_wrt (<) (map key vs) \<Longrightarrow> map snd (extend_by key [] vs) = vs"
  by (simp add: extend_by_sorted comp_def)

text \<open>The parts of a projected batch come in the order of their keys.\<close>

lemma project_batch_parts:
  assumes "project_batch C digest conn batch reason fv s = (Inr b, s')"
  shows "\<exists>st. projection_inv digest (map change_id (filter needs_fetch (us_observed_changes b))) st
    \<and> us_contents b = map snd (ps_contents st) \<and> us_projections b = map snd (ps_projections st)"
proof (rule project_batch_Inr[OF assms], goal_cases)
  case (1 st)
  then show ?case by (metis sync_batch.select_convs(4,5))
qed

lemma project_batch_sorted:
  assumes pb: "project_batch C digest conn batch reason fv s = (Inr b, s')"
  shows "sorted_wrt (<) (map change_id (us_observed_changes b))" "sorted_wrt (<) (map version_id (us_source_versions b))"
    "sorted_wrt (<) (map cc_artifact_key (us_contents b))" "sorted_wrt (<) (map pk_artifact_key (us_projections b))"
proof -
  note closed = project_batch_closed[OF pb]
  have ids: "sorted (map change_id (us_observed_changes b))"
    by (simp add: project_batch_sel(1)[OF pb] change_key_sorted)
  with closed_batch_distinct(2)[OF closed]
  show os: "sorted_wrt (<) (map change_id (us_observed_changes b))" by (simp add: strict_sorted_iff)
  have "map version_id (us_source_versions b) = map change_id (filter needs_fetch (us_observed_changes b))"
    using closed unfolding closed_batch_def by blast
  with sorted_map_filter_key[OF os] show "sorted_wrt (<) (map version_id (us_source_versions b))" by metis
  obtain st where inv: "projection_inv digest (map change_id (filter needs_fetch (us_observed_changes b))) st"
    and b: "us_contents b = map snd (ps_contents st)" "us_projections b = map snd (ps_projections st)"
    using project_batch_parts[OF pb] by blast
  have "keyed cc_artifact_key (ps_contents st)" "keyed pk_artifact_key (ps_projections st)"
    using inv by (auto simp: projection_inv_def contents_wf_def keyed_def)
  then show "sorted_wrt (<) (map cc_artifact_key (us_contents b))" "sorted_wrt (<) (map pk_artifact_key (us_projections b))"
    unfolding b by (simp_all only: keyed_sorted)
qed

lemma page_content_bytes_fits:
  "unat acc + content_bytes cs < 2 ^ 64 \<Longrightarrow> \<exists>t. page_content_bytes acc cs = Some t \<and> unat t = unat acc + content_bytes cs"
proof (induction cs arbitrary: acc)
  case (Cons c cs)
  have "unat acc + unat (cc_byte_length c) < 2 ^ 64" using Cons.prems by simp
  note add = u64_checked_add_fits[OF this]
  from u64_checked_add_Some[OF add] Cons.IH[of "acc + cc_byte_length c"] Cons.prems show ?case
    by (simp add: add add.assoc)
qed simp

lemma check_totals_fits:
  assumes "ag_total_changes ag = 0" "ag_total_content_bytes ag = 0"
    and "length (us_observed_changes page) \<le> max_total_changes limits" "max_total_changes limits < 2 ^ 64"
    and "content_bytes (us_contents page) \<le> unat (max_total_content_bytes limits)"
  shows "\<exists>t. check_totals label limits ag page = Inr (length (us_observed_changes page), t)"
proof -
  have "content_bytes (us_contents page) < 2 ^ 64"
    using assms(5) u64_bound[of "max_total_content_bytes limits"] by simp
  with page_content_bytes_fits[of 0 "us_contents page"] obtain t where
    t: "page_content_bytes 0 (us_contents page) = Some t" "unat t = content_bytes (us_contents page)" by auto
  have "u64_checked_add 0 t = Some t" using u64_checked_add_fits[of 0 t] u64_bound[of t] by simp
  moreover have "\<not> max_total_content_bytes limits < t" using assms(5) t(2) by (simp add: word_less_nat_alt)
  moreover have "int (length (us_observed_changes page)) < 2 ^ 64"
    using assms(3,4) by (simp only: of_nat_less_numeral_power_cancel_iff)
  ultimately show ?thesis using assms(1-3) t(1) by (simp add: check_totals_def usize_checked_add_def)
qed

text \<open>A source that fits in one page is bootstrapped by one request, and running to completion is then
  equivalent to that request: when the page has no continuation and keeps the limits, the run succeeds with
  the same state of the source, the same changes, versions, contents, projections and checkpoint, and the
  same eligibility for publication.\<close>

theorem single_page_bootstrap_completes:
  assumes page: "bootstrap_and_project C digest r fv s = (Inr page, s')"
    and last: "CheckpointContinuation \<notin> set (pc_incomplete_reasons (us_completeness page))"
    and nonzero: "0 < max_checkpoints limits" "0 < max_total_changes limits" "max_total_content_bytes limits \<noteq> 0"
    and fits: "length (us_observed_changes page) \<le> max_total_changes limits" "max_total_changes limits < 2 ^ 64"
      "sum_list (map (\<lambda>c. unat (cc_byte_length c)) (us_contents page)) \<le> unat (max_total_content_bytes limits)"
  shows "\<exists>b. bootstrap_and_project_to_completion C digest r fv limits s = (Inr b, s')
    \<and> b = page\<lparr>us_completeness := us_completeness b\<rparr> \<and> is_complete (us_completeness b) = is_complete (us_completeness page)"
proof -
  obtain batch s1 where pb: "project_batch C digest (br_source_connection_id r) batch FetchBootstrap fv s1 = (Inr page, s')"
    using page by (auto simp: bootstrap_and_project_def host_bind_Inr)
  let ?ag = "aggregate_new (br_source_connection_id r)"
  obtain k p where kp: "completeness_without_continuation (us_completeness page) = (k, p)" by (rule prod.exhaust)
  have k: "\<not> k" and p: "is_complete p \<longleftrightarrow> is_complete (us_completeness page)"
    using without_continuation_facts(1,3)[OF kp] last by auto
  obtain t where t: "check_totals BOOTSTRAP limits ?ag page = Inr (length (us_observed_changes page), t)"
    using check_totals_fits[OF _ _ fits, of ?ag BOOTSTRAP] by (auto simp: aggregate_new_def)
  have rep: "check_repeats BOOTSTRAP ?ag page = Inr ()" by (simp add: check_repeats_Inr aggregate_new_def)
  obtain ag where push: "aggregate_push BOOTSTRAP limits page p ?ag = Inr ag"
    and parts: "map snd (ag_observed_changes ag) = us_observed_changes page"
      "map snd (ag_source_versions ag) = us_source_versions page" "map snd (ag_contents ag) = us_contents page"
      "map snd (ag_projections ag) = us_projections page" "ag_source_connection_id ag = us_source_connection_id page"
      "is_complete (ag_completeness ag) = is_complete p"
    using project_batch_sorted[OF pb] project_batch_sel(2)[OF pb]
    by (simp add: aggregate_push_def rep t) (simp add: aggregate_new_def extend_by_empty)
  obtain n where n: "max_checkpoints limits = Suc n" using nonzero(1) by (cases "max_checkpoints limits") auto
  have "bootstrap_and_project_to_completion C digest r fv limits s = (Inr (aggregate_finish (us_next_checkpoint page) ag), s')"
    using project_batch_sel(2)[OF pb] page nonzero push k
    by (simp add: bootstrap_and_project_to_completion_def host_bind_def validate_limits_def n kp map_error_def Let_def)
  moreover have "aggregate_finish (us_next_checkpoint page) ag =
      page\<lparr>us_completeness := us_completeness (aggregate_finish (us_next_checkpoint page) ag)\<rparr>"
    using parts p project_batch_sel(4)[OF pb] by (simp add: aggregate_finish_def)
  moreover have "is_complete (us_completeness (aggregate_finish (us_next_checkpoint page) ag)) = is_complete (us_completeness page)"
    using parts(6) p by (simp add: aggregate_finish_def)
  ultimately show ?thesis by blast
qed

text \<open>A source with one page.\<close>

definition one_page_connector :: "unit portable_connector" where
  "one_page_connector = sample_connector\<lparr>k_bootstrap_portable := (\<lambda>r s.
     (Inr \<lparr>cb_changes = [sample_change ''p1''], cb_next_checkpoint = sample_checkpoint ''c1'',
           cb_completeness = completeness_complete\<rparr>, s))\<rparr>"

lemma one_page_result:
  "case fst (bootstrap_and_project one_page_connector sample_digest sample_bootstrap_request 1 ()) of Inl e \<Rightarrow> False
   | Inr page \<Rightarrow> pc_incomplete_reasons (us_completeness page) = [] \<and> length (us_observed_changes page) \<le> 5
       \<and> sum_list (map (\<lambda>c. unat (cc_byte_length c)) (us_contents page)) \<le> 20"
  by code_simp

theorem single_page_bootstrap_completes_witness:
  "\<exists>b. bootstrap_and_project_to_completion one_page_connector sample_digest sample_bootstrap_request 1 sample_limits () = (Inr b, ())
     \<and> length (us_observed_changes b) \<le> 5"
proof -
  obtain page where run: "bootstrap_and_project one_page_connector sample_digest sample_bootstrap_request 1 () = (Inr page, ())"
    and page: "pc_incomplete_reasons (us_completeness page) = []" "length (us_observed_changes page) \<le> 5"
      "sum_list (map (\<lambda>c. unat (cc_byte_length c)) (us_contents page)) \<le> 20"
    using one_page_result by (cases "bootstrap_and_project one_page_connector sample_digest sample_bootstrap_request 1 ()")
      (simp split: sum.splits)
  have "\<exists>b. bootstrap_and_project_to_completion one_page_connector sample_digest sample_bootstrap_request 1 sample_limits () = (Inr b, ())
      \<and> b = page\<lparr>us_completeness := us_completeness b\<rparr> \<and> is_complete (us_completeness b) = is_complete (us_completeness page)"
    by (rule single_page_bootstrap_completes[OF run]) (use page in \<open>simp_all add: sample_limits_def\<close>)
  then obtain b where b: "bootstrap_and_project_to_completion one_page_connector sample_digest sample_bootstrap_request 1
      sample_limits () = (Inr b, ())" and "b = page\<lparr>us_completeness := us_completeness b\<rparr>" by blast
  from arg_cong[OF this(2), of us_observed_changes] page(2) have "length (us_observed_changes b) \<le> 5" by simp
  with b show ?thesis by blast
qed

end
