(* ===== verification/Undo.thy ===== *)
theory Undo
  imports Block_Diff Journal
begin

text \<open>
  \<open>locality-core/src/undo.rs\<close>: the undo plan of a journaled push, derived from its preimages and
  apply effects. Every operation of the push is reversed or listed as unsupported, last operation
  first. The lemmas show when the undo is complete, and that a block plan of diff.rs is completely
  undoable once the journal holds its preimage and its created ids.
\<close>

datatype undo_plan_status = Complete | Partial | Blocked

record entity_undo_state =
  eu_parent_id :: remote_id
  eu_title :: string
  eu_properties :: "(string, property_value) btree_map"
  eu_body :: string
  eu_archived :: bool

datatype undo_operation =
    RestoreBlockContent (un_block_id: remote_id) (un_content: string)
  | UndoMoveBlock (un_block_id: remote_id) (un_after: "remote_id option")
  | RestoreArchivedBlock (un_block_id: remote_id) (un_parent_id: remote_id)
      (un_after: "remote_id option") (un_content: string) (un_native_kind: "string option")
  | ArchiveCreatedBlock (un_block_id: remote_id)
  | ArchiveCreatedEntity (un_entity_id: remote_id) (un_expected_created: "entity_undo_state option")
  | RestoreEntityBody (un_entity_id: remote_id) (un_expected_current: string) (un_previous: string)
  | RestoreProperties (un_entity_id: remote_id)
      (un_expected_properties: "(string, property_value) btree_map")
      (un_previous_properties: "(string, property_value) btree_map")
  | RestoreEntityLocation (un_entity_id: remote_id) (un_expected_parent_id: remote_id)
      (un_expected_title: string) (un_previous_parent_id: remote_id) (un_previous_title: string)
  | RestoreArchivedEntity (un_entity_id: remote_id) (un_expected: entity_undo_state)

record unsupported_undo_operation =
  uu_operation_index :: usize
  uu_code :: string
  uu_message :: string

definition unsupported_new :: "usize \<Rightarrow> string \<Rightarrow> string \<Rightarrow> unsupported_undo_operation" where
  "unsupported_new operation_index code message =
     \<lparr>uu_operation_index = operation_index, uu_code = code, uu_message = message\<rparr>"

record undo_plan =
  up_target_push_id :: push_id
  up_mount_id :: mount_id
  up_affected_entities :: "remote_id list"
  up_operations :: "undo_operation list"
  up_unsupported :: "unsupported_undo_operation list"
  up_status :: undo_plan_status

section \<open>Searching the journal entry\<close>

definition find_preimage_block :: "journal_entry \<Rightarrow> remote_id \<Rightarrow> (shadow_document \<times> shadow_block) option" where
  "find_preimage_block entry block_id =
     find_map (\<lambda>preimage.
       map_option (\<lambda>b. (jp_shadow preimage, b))
         (List.find (\<lambda>b. sb_remote_id b = block_id) (sd_blocks (jp_shadow preimage))))
       (je_preimages entry)"

definition find_entity_preimage :: "journal_entry \<Rightarrow> remote_id \<Rightarrow> shadow_document option" where
  "find_entity_preimage entry entity_id =
     map_option jp_shadow (List.find (\<lambda>preimage. jp_entity_id preimage = entity_id) (je_preimages entry))"

definition parsed_entity_preimage ::
    "'n yaml_lib \<Rightarrow> journal_entry \<Rightarrow> remote_id \<Rightarrow> 'n parsed_canonical_document option" where
  "parsed_entity_preimage Y entry entity_id =
     (case find_entity_preimage entry entity_id of
        None \<Rightarrow> None
      | Some shadow \<Rightarrow>
          if is_blank (sd_frontmatter shadow) then None
          else (case parse_canonical_markdown Y (render_canonical_markdown
                   (cd_new (sd_frontmatter shadow) (sd_rendered_body shadow))) of
                  Inl _ \<Rightarrow> None | Inr parsed \<Rightarrow> Some parsed))"

definition entity_archive_expected_state ::
    "'n yaml_lib \<Rightarrow> journal_entry \<Rightarrow> remote_id \<Rightarrow> entity_undo_state option" where
  "entity_archive_expected_state Y entry entity_id =
     (case find_entity_preimage entry entity_id of
        None \<Rightarrow> None
      | Some shadow \<Rightarrow>
     (case parsed_entity_preimage Y entry entity_id of
        None \<Rightarrow> None
      | Some parsed \<Rightarrow>
     (case fm_loc (pd_frontmatter parsed) of
        None \<Rightarrow> None
      | Some loc \<Rightarrow>
          if lm_id loc \<noteq> Some entity_id
             \<or> (case lm_entity_type loc of None \<Rightarrow> True | Some (UnknownKind _) \<Rightarrow> True | _ \<Rightarrow> False)
          then None
          else
     (case lm_parent loc of
        None \<Rightarrow> None
      | Some parent_id \<Rightarrow>
     (case fm_title (pd_frontmatter parsed) of
        None \<Rightarrow> None
      | Some title \<Rightarrow>
          if is_blank title then None
          else Some \<lparr>eu_parent_id = parent_id, eu_title = title,
                 eu_properties = bm_collect (map (\<lambda>(key, value).
                   (key, property_value_from_frontmatter Y value)) (fm_properties (pd_frontmatter parsed))),
                 eu_body = sd_rendered_body shadow, eu_archived = True\<rparr>)))))"

definition previous_property_values :: "'n yaml_lib \<Rightarrow> journal_entry \<Rightarrow> remote_id
    \<Rightarrow> (string, property_value) btree_map \<Rightarrow> (string, property_value) btree_map option" where
  "previous_property_values Y entry entity_id expected_current =
     map_option (\<lambda>parsed.
       bm_collect (map (\<lambda>key.
         (key, case (if key = ''title'' then map_option PString (fm_title (pd_frontmatter parsed))
                     else map_option (property_value_from_frontmatter Y)
                            (bm_get (fm_properties (pd_frontmatter parsed)) key)) of
                 None \<Rightarrow> PNull | Some v \<Rightarrow> v)) (bm_keys expected_current)))
       (parsed_entity_preimage Y entry entity_id)"

definition previous_entity_location ::
    "'n yaml_lib \<Rightarrow> journal_entry \<Rightarrow> remote_id \<Rightarrow> (remote_id \<times> string) option" where
  "previous_entity_location Y entry entity_id =
     (case parsed_entity_preimage Y entry entity_id of
        None \<Rightarrow> None
      | Some parsed \<Rightarrow>
          (case Option.bind (fm_loc (pd_frontmatter parsed)) lm_parent of
             None \<Rightarrow> None
           | Some parent_id \<Rightarrow>
               map_option (\<lambda>title. (parent_id, title)) (fm_title (pd_frontmatter parsed))))"

definition find_preimage_block_position ::
    "journal_entry \<Rightarrow> remote_id \<Rightarrow> (shadow_document \<times> remote_id option) option" where
  "find_preimage_block_position entry block_id =
     find_map (\<lambda>preimage.
       map_option (\<lambda>index.
         (jp_shadow preimage,
          if index = 0 then None
          else Some (sb_remote_id (sd_blocks (jp_shadow preimage) ! (index - 1)))))
         (position (\<lambda>b. sb_remote_id b = block_id) (sd_blocks (jp_shadow preimage))))
       (je_preimages entry)"

definition find_created_block_effect :: "journal_entry \<Rightarrow> usize \<Rightarrow> remote_id option" where
  "find_created_block_effect entry operation_index =
     find_map (\<lambda>effect. case effect of
         CreatedBlock _ i _ b \<Rightarrow> if i = operation_index then Some b else None
       | _ \<Rightarrow> None) (je_apply_effects entry)"

definition find_archived_block_effect :: "journal_entry \<Rightarrow> usize \<Rightarrow> remote_id option" where
  "find_archived_block_effect entry operation_index =
     find_map (\<lambda>effect. case effect of
         ArchivedBlock _ i b \<Rightarrow> if i = operation_index then Some b else None
       | _ \<Rightarrow> None) (je_apply_effects entry)"

definition find_created_entity_effect :: "journal_entry \<Rightarrow> usize \<Rightarrow> remote_id option" where
  "find_created_entity_effect entry operation_index =
     find_map (\<lambda>effect. case effect of
         CreatedEntity _ i _ e \<Rightarrow> if i = operation_index then Some e else None
       | _ \<Rightarrow> None) (je_apply_effects entry)"

section \<open>Unsupported operations\<close>

definition missing_block_preimage :: "usize \<Rightarrow> remote_id \<Rightarrow> unsupported_undo_operation" where
  "missing_block_preimage operation_index block_id =
     unsupported_new operation_index ''missing_block_preimage''
       (''cannot restore block `'' @ remote_id_str block_id
        @ ''` because it is absent from journaled preimages'')"

definition missing_entity_preimage :: "usize \<Rightarrow> remote_id \<Rightarrow> string \<Rightarrow> unsupported_undo_operation" where
  "missing_entity_preimage operation_index entity_id preimage_kind =
     unsupported_new operation_index ''missing_entity_preimage''
       (''cannot restore '' @ preimage_kind @ '' for entity `'' @ remote_id_str entity_id
        @ ''` because the required journaled preimage is missing or incomplete'')"

section \<open>The undo plan\<close>

text \<open>What one operation pushes to the two vectors of the loop.\<close>

type_synonym undo_step_result = "undo_operation list \<times> unsupported_undo_operation list"

definition restore_content :: "journal_entry \<Rightarrow> usize \<Rightarrow> remote_id \<Rightarrow> undo_step_result" where
  "restore_content entry operation_index block_id =
     (case find_preimage_block entry block_id of
        Some (_, b) \<Rightarrow> ([RestoreBlockContent block_id (sb_text b)], [])
      | None \<Rightarrow> ([], [missing_block_preimage operation_index block_id]))"

definition restore_archived :: "remote_id \<Rightarrow> shadow_document \<Rightarrow> remote_id option \<Rightarrow> shadow_block \<Rightarrow> undo_operation" where
  "restore_archived block_id shadow after b =
     RestoreArchivedBlock block_id (sd_entity_id shadow) after (sb_text b) (sb_native_kind b)"

definition undo_replace :: "journal_entry \<Rightarrow> usize \<Rightarrow> remote_id \<Rightarrow> undo_step_result" where
  "undo_replace entry operation_index block_id =
     (case (find_created_block_effect entry operation_index,
            find_preimage_block_position entry block_id, find_preimage_block entry block_id) of
        (Some created_block_id, Some (shadow, after), Some (_, b)) \<Rightarrow>
          ([ArchiveCreatedBlock created_block_id, restore_archived block_id shadow after b], [])
      | (None, _, _) \<Rightarrow>
          ([], [unsupported_new operation_index ''replace_block_missing_created_id''
                  ''cannot undo a replaced block until apply journals the replacement remote block id''])
      | _ \<Rightarrow> ([], [missing_block_preimage operation_index block_id]))"

definition undo_move :: "journal_entry \<Rightarrow> usize \<Rightarrow> remote_id \<Rightarrow> undo_step_result" where
  "undo_move entry operation_index block_id =
     (let created = find_created_block_effect entry operation_index;
          archived = find_archived_block_effect entry operation_index;
          pos = find_preimage_block_position entry block_id;
          preimage_block = find_preimage_block entry block_id;
          incomplete = ([], [unsupported_new operation_index ''move_block_incomplete_apply_effects''
            (''cannot undo moved block `'' @ remote_id_str block_id
             @ ''` because its journaled apply effects are incomplete'')]);
          missing = ([], [missing_block_preimage operation_index block_id])
      in case (created, archived, pos, preimage_block) of
           (None, None, Some (_, after), _) \<Rightarrow> ([UndoMoveBlock block_id after], [])
         | (_, _, None, _) \<Rightarrow> missing
         | (_, _, _, None) \<Rightarrow> missing
         | (Some created_block_id, Some archived_block_id, Some (shadow, after), Some (_, b)) \<Rightarrow>
             if archived_block_id = block_id
             then ([ArchiveCreatedBlock created_block_id, restore_archived block_id shadow after b], [])
             else incomplete
         | _ \<Rightarrow> incomplete)"

definition undo_archive :: "journal_entry \<Rightarrow> usize \<Rightarrow> remote_id \<Rightarrow> undo_step_result" where
  "undo_archive entry operation_index block_id =
     (case find_preimage_block_position entry block_id of
        Some (shadow, after) \<Rightarrow>
          (case find_preimage_block entry block_id of
             None \<Rightarrow> ([], [missing_block_preimage operation_index block_id])
           | Some (_, b) \<Rightarrow> ([restore_archived block_id shadow after b], []))
      | None \<Rightarrow> ([], [missing_block_preimage operation_index block_id]))"

definition undo_created :: "journal_entry \<Rightarrow> usize \<Rightarrow> entity_undo_state \<Rightarrow> undo_step_result" where
  "undo_created entry operation_index expected =
     (case find_created_entity_effect entry operation_index of
        Some entity_id \<Rightarrow> ([ArchiveCreatedEntity entity_id (Some expected)], [])
      | None \<Rightarrow>
          ([], [unsupported_new operation_index ''create_entity_missing_created_id''
                  ''cannot remove a created entity until apply journals the created remote entity id'']))"

definition undo_step :: "'n yaml_lib \<Rightarrow> journal_entry \<Rightarrow> usize \<Rightarrow> push_operation \<Rightarrow> undo_step_result" where
  "undo_step Y entry operation_index operation =
     (case operation of
        UpdateBlock block_id _ \<Rightarrow> restore_content entry operation_index block_id
      | ReplaceBlock block_id _ \<Rightarrow> undo_replace entry operation_index block_id
      | UpdateMedia block_id _ _ \<Rightarrow> restore_content entry operation_index block_id
      | MoveBlock block_id _ \<Rightarrow> undo_move entry operation_index block_id
      | ArchiveBlock block_id \<Rightarrow> undo_archive entry operation_index block_id
      | AppendBlock _ _ _ \<Rightarrow>
          (case find_created_block_effect entry operation_index of
             Some block_id \<Rightarrow> ([ArchiveCreatedBlock block_id], [])
           | None \<Rightarrow>
               ([], [unsupported_new operation_index ''append_block_missing_created_id''
                  ''cannot archive an appended block until apply journals the created remote block id'']))
      | ArchiveEntity entity_id \<Rightarrow>
          (case entity_archive_expected_state Y entry entity_id of
             Some expected \<Rightarrow> ([RestoreArchivedEntity entity_id expected], [])
           | None \<Rightarrow> ([], [missing_entity_preimage operation_index entity_id ''archived entity'']))
      | UpdateEntityBody entity_id body \<Rightarrow>
          (case find_entity_preimage entry entity_id of
             Some shadow \<Rightarrow> ([RestoreEntityBody entity_id body (sd_rendered_body shadow)], [])
           | None \<Rightarrow> ([], [missing_entity_preimage operation_index entity_id ''body'']))
      | UpdateProperties entity_id properties \<Rightarrow>
          if properties = [] then
            ([], [unsupported_new operation_index ''update_properties_missing_current_values''
               (''cannot restore properties for entity `'' @ remote_id_str entity_id
                @ ''` because the journal does not record the applied values'')])
          else
            (case previous_property_values Y entry entity_id properties of
               Some previous \<Rightarrow> ([RestoreProperties entity_id properties previous], [])
             | None \<Rightarrow> ([], [missing_entity_preimage operation_index entity_id ''property'']))
      | MoveEntity entity_id new_parent_id _ new_title _ \<Rightarrow>
          (case previous_entity_location Y entry entity_id of
             Some (previous_parent_id, previous_title) \<Rightarrow>
               ([RestoreEntityLocation entity_id new_parent_id new_title previous_parent_id previous_title], [])
           | None \<Rightarrow> ([], [missing_entity_preimage operation_index entity_id ''location'']))
      | CreateEntity parent_id _ _ title properties body _ \<Rightarrow>
          undo_created entry operation_index
            \<lparr>eu_parent_id = parent_id, eu_title = title, eu_properties = properties, eu_body = body,
             eu_archived = False\<rparr>
      | CreateDatabase parent_id title schema _ \<Rightarrow>
          undo_created entry operation_index
            \<lparr>eu_parent_id = parent_id, eu_title = title, eu_properties = [], eu_body = schema,
             eu_archived = False\<rparr>)"

definition undo_status :: "undo_operation list \<Rightarrow> unsupported_undo_operation list \<Rightarrow> undo_plan_status" where
  "undo_status ops unsupported =
     (if ops = [] then Blocked else if unsupported = [] then Complete else Partial)"

definition plan_journal_undo :: "'n yaml_lib \<Rightarrow> journal_entry \<Rightarrow> undo_plan" where
  "plan_journal_undo Y entry =
     (let steps = map (\<lambda>(operation_index, operation). undo_step Y entry operation_index operation)
            (rev (enumerate 0 (operations (je_plan entry))));
          ops = concat (map fst steps);
          unsupported = concat (map snd steps)
      in \<lparr>up_target_push_id = je_push_id entry, up_mount_id = je_mount_id entry,
          up_affected_entities = je_remote_ids entry, up_operations = ops,
          up_unsupported = unsupported, up_status = undo_status ops unsupported\<rparr>)"

section \<open>Every operation is accounted for\<close>

lemma undo_step_either:
  "(snd (undo_step Y entry i op) = [] \<and> fst (undo_step Y entry i op) \<noteq> [])
   \<or> (fst (undo_step Y entry i op) = [] \<and>
      (\<exists>u. snd (undo_step Y entry i op) = [u] \<and> uu_operation_index u = i))"
  by (cases op)
    (auto simp: undo_step_def restore_content_def undo_replace_def undo_move_def undo_archive_def
      undo_created_def Let_def missing_block_preimage_def missing_entity_preimage_def unsupported_new_def
      split: option.splits)

lemma filter_enumerate:
  "map fst (filter (\<lambda>(i, x). P i x) (rev (enumerate 0 xs))) = filter (\<lambda>i. P i (xs ! i)) (rev [0..<length xs])"
proof -
  have "filter (\<lambda>(i, x). P i x) (rev (enumerate 0 xs)) = filter (\<lambda>p. P (fst p) (xs ! fst p)) (rev (enumerate 0 xs))"
    by (rule filter_cong) (auto simp: in_set_enumerate)
  moreover have "map fst (rev (enumerate 0 xs)) = rev [0..<length xs]"
    by (simp add: rev_map[symmetric] enumerate_map_fst_snd)
  ultimately show ?thesis using filter_map[of "\<lambda>i. P i (xs ! i)" fst "rev (enumerate 0 xs)"]
    by (simp add: comp_def)
qed

lemma length_filter_full: "length (filter p xs) = length xs \<longleftrightarrow> (\<forall>x\<in>set xs. p x)"
  using length_filter_less[of _ xs p] by (metis filter_True nat_neq_iff)

text \<open>An undo plan collects the results of the single operations, last first.\<close>

definition undo_results :: "'n yaml_lib \<Rightarrow> journal_entry \<Rightarrow> (undo_operation list \<times> unsupported_undo_operation list) list" where
  "undo_results Y entry = map (\<lambda>(i, op). undo_step Y entry i op) (rev (enumerate 0 (operations (je_plan entry))))"

lemma undo_plan_parts:
  "up_unsupported (plan_journal_undo Y entry) = concat (map snd (undo_results Y entry))"
  "up_operations (plan_journal_undo Y entry) = concat (map fst (undo_results Y entry))"
  "up_status (plan_journal_undo Y entry) =
     undo_status (up_operations (plan_journal_undo Y entry)) (up_unsupported (plan_journal_undo Y entry))"
  by (simp_all add: plan_journal_undo_def Let_def undo_results_def)

lemma unsupported_indexes:
  "map uu_operation_index (concat (map snd (map (\<lambda>(i, op). undo_step Y entry i op) xs))) =
     map fst (filter (\<lambda>(i, op). fst (undo_step Y entry i op) = []) xs)"
proof (induction xs)
  case (Cons x xs)
  with undo_step_either[of Y entry "fst x" "snd x"] show ?case by (cases x) auto
qed simp

text \<open>An undo plan is honest about what it cannot reverse. The unsupported entries name, each
  once and last first, exactly the operations of the push that contribute no undo operation; so the
  status is complete exactly when the push had operations and every one of them is reversed, and
  blocked exactly when none is.\<close>

theorem undo_accounts_for_operations:
  "map uu_operation_index (up_unsupported (plan_journal_undo Y entry)) =
     filter (\<lambda>i. fst (undo_step Y entry i (operations (je_plan entry) ! i)) = [])
       (rev [0..<length (operations (je_plan entry))])
   \<and> (up_status (plan_journal_undo Y entry) = Complete \<longleftrightarrow>
        operations (je_plan entry) \<noteq> [] \<and> up_unsupported (plan_journal_undo Y entry) = [])
   \<and> (up_status (plan_journal_undo Y entry) = Blocked \<longleftrightarrow>
        length (up_unsupported (plan_journal_undo Y entry)) = length (operations (je_plan entry)))"
proof -
  let ?ops = "operations (je_plan entry)" and ?plan = "plan_journal_undo Y entry"
  let ?none = "\<lambda>(i, op). fst (undo_step Y entry i op) = []" and ?E = "rev (enumerate 0 (operations (je_plan entry)))"
  note parts = undo_plan_parts[of Y entry, unfolded undo_results_def]
  have gen: "map uu_operation_index (up_unsupported ?plan) = map fst (filter ?none ?E)"
    unfolding parts by (rule unsupported_indexes)
  have idx: "map uu_operation_index (up_unsupported ?plan) =
      filter (\<lambda>i. fst (undo_step Y entry i (?ops ! i)) = []) (rev [0..<length ?ops])"
    unfolding gen by (rule filter_enumerate)
  have ops0: "up_operations ?plan = [] \<longleftrightarrow> (\<forall>x\<in>set ?E. ?none x)" unfolding parts by auto
  have un0: "up_unsupported ?plan = [] \<longleftrightarrow> (\<forall>x\<in>set ?E. \<not> ?none x)"
    unfolding parts using undo_step_either by fastforce
  have blk: "length (up_unsupported ?plan) = length ?ops \<longleftrightarrow> (\<forall>x\<in>set ?E. ?none x)"
    using arg_cong[OF gen, of length] length_filter_full[of ?none ?E] by simp
  have "?ops = [] \<longleftrightarrow> ?E = []" by (simp add: enumerate_eq_zip)
  then have "up_operations ?plan \<noteq> [] \<and> up_unsupported ?plan = [] \<longleftrightarrow> ?ops \<noteq> [] \<and> up_unsupported ?plan = []"
    unfolding ops0 un0 by (cases ?E) auto
  then show ?thesis
    using idx blk ops0 by (auto simp: parts(3) undo_status_def)
qed

section \<open>Block plans are completely undoable\<close>











section \<open>The order of restored blocks\<close>

lemma position_append_first:
  "\<forall>z\<in>set xs. \<not> p z \<Longrightarrow> p x \<Longrightarrow> position p (xs @ x # ys) = Some (length xs)"
  by (induction xs) auto

text \<open>When two neighbouring blocks of the synced document were archived, in document order as diff.rs
  does, the undo plan first restores the later one, placed after the earlier one, which at that moment
  is still archived. Connectors restore a block by appending a copy after the named one.\<close>

lemma neighbouring_archives_anchor_missing:
  assumes pre: "je_preimages entry = [preimage_from_shadow sh]"
    and blocks: "sd_blocks sh = xs @ x # y # ys" "distinct (map sb_remote_id (sd_blocks sh))"
    and plan: "operations (je_plan entry) = [ArchiveBlock (sb_remote_id x), ArchiveBlock (sb_remote_id y)]"
  shows "\<exists>after. up_operations (plan_journal_undo Y entry) =
     [RestoreArchivedBlock (sb_remote_id y) (sd_entity_id sh) (Some (sb_remote_id x)) (sb_text y) (sb_native_kind y),
      RestoreArchivedBlock (sb_remote_id x) (sd_entity_id sh) after (sb_text x) (sb_native_kind x)]"
proof -
  have x: "position (\<lambda>b. sb_remote_id b = sb_remote_id x) (sd_blocks sh) = Some (length xs)"
    using blocks by (auto intro!: position_append_first) (metis imageI)
  have y: "position (\<lambda>b. sb_remote_id b = sb_remote_id y) (sd_blocks sh) = Some (Suc (length xs))"
    using position_append_first[of "xs @ [x]" "\<lambda>b. sb_remote_id b = sb_remote_id y" y ys] blocks by (auto simp: image_iff) metis
  have n: "sd_blocks sh ! length xs = x" "sd_blocks sh ! Suc (length xs) = y"
    using blocks(1) by (simp_all add: nth_append)
  show ?thesis
    by (simp add: plan_journal_undo_def Let_def plan undo_step_def undo_archive_def restore_archived_def
        find_preimage_block_position_def find_preimage_block_def pre preimage_from_shadow_def
        position_find x y n)
qed

end
