(* ===== verification/Spec2Isabelle.thy ===== *)
theory Spec2Isabelle
  imports Auto_Save BTree BTree_Ops Block_Diff Block_Diff_Identity Body_Window Canonical
    Conflict Conflict_Markers Connector Core_Error Core_Model Delivery_Health Delivery_Transport
    Delta_Digest Discovery_Atomic Discovery_Commit Discovery_Components Discovery_Composition
    Discovery_Facts Discovery_Groups Discovery_Plan Discovery_Plan_Facts Discovery_Plan_Safety
    Discovery_Plan_Sample Discovery_Plan_Theorems Discovery_Replay Discovery_Store Explain
    Export_Canonical Export_Control Export_Digest Export_Inventory Export_Labels Export_Offer
    Freshness_Queue Freshness_Wait Generation_Delta Hydration_Budget Journal LCS
    Notion_Directive Pin_Lease Planner Portable Prelude Prepare Property_Diff Protocol_Base
    Protocol_Freshness Pull_Scheduler Push_Pipeline Readable_Diff Rust_Int Rust_Path Rust_Str
    Shadow Shadow_Match Source_Scope Store_Keys Store_Machine Store_Memory Store_Records
    Store_Theorems Sync Sync_Aggregate Sync_Bounds Sync_Closed Sync_Trace Synchronize Undo
    Utc_Calendar Utc_Roundtrip Utc_Timestamp Validation Wait_History Wire_Framing
    Workspace_Layout
begin

text \<open>
  Locality keeps Markdown files on disk in step with remote sources such as Notion. This development
  models the part that decides: the data model and the canonical file format (\<open>locality-core\<close>), the
  planning of a push from an edited file, its journaled execution and undo, conflict detection and the
  three-way merge, the portable values and the workflows of hosted synchronization
  (\<open>locality-engine\<close>) and the contract of a connector (\<open>locality-connector\<close>).

  How the parts interact. A connector renders a remote page as a canonical document: an envelope of
  YAML frontmatter and a Markdown body with directive lines for blocks that Markdown cannot express.
  What was written is remembered as a shadow, which segments the body into blocks with their native ids
  and hashes. To push, the edited file is parsed, validated against the shadow, diffed into a plan of
  operations, judged by the guardrails and, when approved, executed against a host with a journal entry
  around it; the journal is what undo works from. When both sides changed, the three-way merge joins them
  or renders conflict markers, which block the next push. Hosted synchronization runs one connector
  checkpoint after the other through fetch and render and aggregates a closed, bounded batch.
  A discovery asks the connector what changed in a mount. The planner groups the actions on the
  projected files into components whose places overlap, holds every component that meets local work, and
  turns the rest into one commit; what is held is recorded with the commit and replayed with the next batch.
  What is durable lives in a store: mounts, entities with their index by path, shadows, queued jobs,
  auto-save enrollments, the journal, and discovery transactions, which publish what a connector
  discovered together with its checkpoint, atomically and only when nothing changed since the
  reservation.
  Hosted workspaces are delivered over a wire protocol. A client asks for freshness and waits for it by a
  sequence of attempts; it receives the next generation as a delta with a terminal receipt, reads large
  bodies in windows, pins generations by leases, and exports a workspace as an archive whose sealed offer,
  inventory and final control member must agree. The protocol binds these values to each other by digests
  of canonical preimages in which every text is framed by its length.

  Theories and sources (under \<open>src/crates\<close>).

    \<^item> Foundations: Prelude (results, vectors, loops), Rust_Str (UTF-8 strings as byte lists, with the
      string operations of Rust that the program uses), Rust_Int (checked and saturating
      arithmetic), BTree and BTree_Ops (ordered maps, with the locales of a keyed and a removable
      map), Rust_Path (relative paths and their components).
    \<^item> Data model: Core_Model (\<open>locality-core/src/model.rs\<close>), Canonical (\<open>canonical.rs\<close>), Shadow
      (\<open>shadow.rs\<close>), Validation (\<open>validation.rs\<close>), Planner (\<open>planner.rs\<close>), Core_Error (\<open>error.rs\<close>),
      Notion_Directive (\<open>locality-notion/src/mapping.rs\<close>).
    \<^item> Diffs and plans: Property_Diff and Block_Diff (\<open>diff.rs\<close>), Block_Diff_Identity (an unedited file
      plans nothing), Readable_Diff (\<open>readable_diff.rs\<close>).
    \<^item> Conflicts: LCS and Conflict (line changes and the three-way merge of \<open>conflict.rs\<close>), Conflict_Markers
      (the scanners of the same file).
    \<^item> Push: Journal (\<open>journal.rs\<close>, with the journal of the in-memory store,
      \<open>locality-store/src/memory.rs\<close>, and \<open>error.rs\<close> there), Push_Pipeline (\<open>push.rs\<close>), Undo (\<open>undo.rs\<close>).
      The locales of the journal repository and of an executing host are interpreted on the in-memory
      store and on the executor of the source.
    \<^item> Synchronization policies: Sync (\<open>sync.rs\<close>, \<open>freshness.rs\<close>, \<open>hydration.rs\<close>, \<open>pull.rs\<close>,
      \<open>search.rs\<close>), Explain (\<open>explain.rs\<close>), Workspace_Layout (\<open>workspace_layout.rs\<close>,
      \<open>path_projection.rs\<close>).
    \<^item> The store (\<open>locality-store/src\<close>): Store_Records (\<open>records.rs\<close>), Discovery_Commit
      (\<open>discovery.rs\<close>: what a commit must satisfy, the plan for auto-save enrollments, the records
      of transactions), Store_Memory (the repositories of \<open>memory.rs\<close> and the default methods of
      \<open>repository.rs\<close>), Discovery_Store (the discovery repository of \<open>memory.rs\<close>), Discovery_Facts and
      Discovery_Atomic (what an applied commit changes), Store_Machine (the store as a step relation
      with its invariant), Store_Keys (what is listed is what is found), Store_Theorems (the
      properties, over all reachable stores).
    \<^item> The daemon (\<open>localityd/src\<close>): Freshness_Queue (\<open>freshness.rs\<close>: the queue of observation jobs
      with its budgets), Pull_Scheduler (\<open>scheduler.rs\<close>), Shadow_Match (\<open>shadow_match.rs\<close>: when a file
      counts as unchanged), Discovery_Groups and Discovery_Plan (\<open>discovery.rs\<close>: the planner that turns
      a batch of observed changes into a discovery commit and the projection actions that go with it,
      with the batch types of \<open>locality-connector/src/lib.rs\<close>). Discovery_Components proves the grouping
      of actions, Discovery_Plan_Facts and Discovery_Plan_Safety what a plan contains,
      Discovery_Composition that the store accepts it, Discovery_Replay that held changes come back;
      Discovery_Plan_Sample is a mount on which Discovery_Plan_Theorems applies its properties.
    \<^item> Hosted synchronization: Portable (\<open>portable.rs\<close>), Connector (\<open>locality-connector/src/lib.rs\<close>),
      Prepare (\<open>locality-engine/src/prepare_changeset.rs\<close>), Synchronize (projection of one batch,
      \<open>synchronize_project.rs\<close>), Sync_Aggregate (the aggregation of the same file) with its facts in
      Sync_Closed, Sync_Bounds and Sync_Trace; Hydration_Budget (the ledger of a hydration job,
      \<open>locality-connector/src/hydration_budget.rs\<close>).
    \<^item> The wire protocol (\<open>locality-protocol/src\<close>). Utc_Timestamp, Utc_Calendar and Utc_Roundtrip:
      canonical timestamps, their order and their conversion to seconds (\<open>lib.rs\<close>, \<open>freshness_wait.rs\<close>).
      Protocol_Base and Protocol_Freshness: versions, errors, epochs and coverage (\<open>lib.rs\<close>).
      Freshness_Wait and Wait_History: attempts to wait and what their history can be
      (\<open>freshness_wait.rs\<close>). Wire_Framing, with the locale of a framing that can be read back,
      Delivery_Health, Generation_Delta and Delta_Digest: health, deltas, receipts and what their digests
      pin (\<open>freshness_delivery.rs\<close>). Delivery_Transport, Body_Window and Pin_Lease: capabilities and polls,
      windows of a body, acknowledgments and leases (\<open>freshness_delivery_transport.rs\<close>). Export_Labels,
      Export_Inventory, Export_Canonical, Export_Digest, Source_Scope, Export_Offer and Export_Control:
      labels and PAX records, the canonical layout and digests of an archive, authorized scopes, offers,
      receipts and the terminal control member (\<open>lib.rs\<close>).
    \<^item> Auto-save (\<open>localityd/src/autosave.rs\<close>): Auto_Save, over the store.

  Correspondence. A struct is a record with a prefix to its fields where names would clash, an enum is a
  datatype, \<open>Result\<close> is a sum with the error on the left, \<open>?\<close> is \<open>rbind\<close>, a \<open>BTreeMap\<close> is a strictly
  sorted association list. \<open>usize\<close> is a natural number except where the source checks or wraps; \<open>u64\<close>,
  \<open>u32\<close> and \<open>u16\<close> are words. Strings are their UTF-8 bytes. A call of a host or a connector threads
  the state of the other side through, so an answer may depend on the calls before it.

  Parameters. Not under \<open>src\<close>, and so arguments of the definitions: the YAML library, Unicode
  normalisation and case folding, the unified diff of the crate \<open>similar\<close>, SHA-256, the host that
  executes a push, the connector, the JSON parser that a checkpoint must satisfy, the codec of the replay
  envelope (what serde documents of it is a hypothesis of the replay property), the JSON library of the
  protocol (the text or the length it writes and what it reads back), and the clock.

  Loops and bounds. The loops of the source are structural recursions, functions with a measure
  (segmentation, the merge, the marker scanners) or run on a bound of the program itself: the
  aggregation loops recurse on the number of checkpoints the caller allows, and running out of it is the
  error the code returns. The union-find of the planner and the interval loop of the scheduler are
  partial functions into \<open>option\<close>, and are proved to return. No definition has fuel that the code has
  not.

  What the lemmas show. An unedited file plans nothing, and every plan conserves blocks and touches only
  the synced entity; segmentation partitions a body; line changes patch, the merge applies both sides,
  and conflict hunks are found again; validation is characterised exactly; a push proceeds exactly with
  the approval its guardrails ask for, its journal settles on every path, and its undo accounts for every
  operation; accepted paths stay confined; batches are closed, aggregates bounded, their loops end, and an
  authorised omission rests on a complete snapshot in scope. In every reachable store the index by path
  mirrors the entities and a mount has one active discovery transaction at most; a projected transaction
  whose mount is unchanged always commits, makes exactly the announced changes and keeps the enrollments
  in order; a reservation may be retried. The planner always returns; its components are the connected
  components of overlap; no action of a plan reaches an entity with local work; its commit is accepted by
  the store when nothing interferes; a held change is replayed. Draining the queue is repeated popping and
  spends no more than the budget; polls stay on the grid of their interval. Reading and writing a
  timestamp are inverse and strings compare as times; the snapshots of a wait that a client accepts never
  go back; a receipt pins its delta, a delta its inventory, an offer its metadata and a digest its list of
  records, or the digest collides; accepted exports count exactly what they hold; PAX records are
  canonical; windows of a body add up to the file; a granted lease is in force and within its bounds;
  auto-save pushes only additions and stays paused until its path is marked again.

  Not modelled, and why. Serialisation derived by serde; the SQLite store (SQL text); HTTP clients and
  JSON mapping of the connectors; sockets, file watching, scheduling and processes of the daemon, the
  command line and the desktop application: input and output around the core, or glue of one provider. Of the protocol, the wire structs that
  only copy their fields into the modelled values, the generation baseline, the export of a signed
  workspace layout and the fixtures are left out. Candidates for an extension are those, the workspace
  bindings of the in-memory store, manifests of connectors, and the projection state of the daemon.
\<close>

end
